(* ===== verification/Dacs_Prelude.thy ===== *)
theory Dacs_Prelude
  imports Complex_Main "HOL-Library.Char_ord" "HOL-Library.List_Lexorder" "HOL-Library.AList"
begin

text \<open>
  The shared vocabulary of the development: results that carry the SDK's exception, the
  character classes of the regular expressions the SDK uses, decimal texts of natural
  numbers, the string operations of JavaScript that the sources call, and the generic
  interfaces (a lossless encoding, a transition system with an invariant, a register that is
  written once) that several components instantiate.

  A JavaScript string is a \<^typ>\<open>string\<close>: a list of code units below 256. On such strings
  \<^verbatim>\<open>normalize("NFC")\<close> is the identity (no combining character exists below U+0300, and no
  composition applies) and no surrogate occurs, so the NFC and lone-surrogate checks of the
  sources always succeed; white space is the ASCII white space together with U+00A0.
\<close>

named_theorems res_simps \<open>inversion of successful results\<close>

section \<open>Results\<close>

text \<open>
  What is thrown is the left summand of a result: the SDK's own \<^verbatim>\<open>DacsError\<close>, or any other value that
  passes through it, with the category \<^verbatim>\<open>faultCategory\<close> of \<^verbatim>\<open>src/src/errors.ts\<close> gives it. A value that is
  not a \<^verbatim>\<open>DacsError\<close>, such as a \<^verbatim>\<open>TypeError\<close>, has the category transient.
\<close>

datatype fault_category = Fault_Transient | Fault_Permanent | Fault_Counterparty | Fault_Substrate

datatype error = DacsError string | Thrown fault_category string

fun error_text :: "error \<Rightarrow> string" where
  "error_text (DacsError m) = m"
| "error_text (Thrown c m) = m"

type_synonym 'a res = "error + 'a"

definition throw :: "string \<Rightarrow> 'a res" where
  "throw m = Inl (DacsError m)"

text \<open>Reading a property of \<^verbatim>\<open>null\<close> or \<^verbatim>\<open>undefined\<close>.\<close>

definition type_error :: "'a res" where
  "type_error = Inl (Thrown Fault_Transient ''TypeError'')"

text \<open>\<open>ensure c m k\<close> is \<^verbatim>\<open>if (!c) throw new DacsError(m)\<close> followed by \<open>k\<close>.\<close>

definition ensure :: "bool \<Rightarrow> string \<Rightarrow> 'a res \<Rightarrow> 'a res" where
  "ensure c m k = (if c then k else throw m)"

definition bindR :: "'a res \<Rightarrow> ('a \<Rightarrow> 'b res) \<Rightarrow> 'b res" where
  "bindR r f = (case r of Inl e \<Rightarrow> Inl e | Inr x \<Rightarrow> f x)"

fun mapR :: "('a \<Rightarrow> 'b res) \<Rightarrow> 'a list \<Rightarrow> 'b list res" where
  "mapR f [] = Inr []"
| "mapR f (x # xs) = bindR (f x) (\<lambda>y. bindR (mapR f xs) (\<lambda>ys. Inr (y # ys)))"

text \<open>A loop whose body may throw and carries an accumulator.\<close>

fun foldR :: "('s \<Rightarrow> 'a \<Rightarrow> 's res) \<Rightarrow> 's \<Rightarrow> 'a list \<Rightarrow> 's res" where
  "foldR f s [] = Inr s"
| "foldR f s (x # xs) = bindR (f s x) (\<lambda>s'. foldR f s' xs)"

definition isOk :: "'a res \<Rightarrow> bool" where
  "isOk r = (case r of Inl _ \<Rightarrow> False | Inr _ \<Rightarrow> True)"

lemma throw_not_Inr [simp, res_simps]: "throw m \<noteq> Inr x" "Inr x \<noteq> throw m"
  by (simp_all add: throw_def)

lemma ensure_Inr [res_simps]: "ensure c m k = Inr x \<longleftrightarrow> c \<and> k = Inr x"
  by (simp add: ensure_def)

lemma ensure_simps [simp]: "ensure True m k = k" "ensure False m k = throw m"
  by (simp_all add: ensure_def)

lemma bindR_Inr [res_simps]: "bindR r f = Inr y \<longleftrightarrow> (\<exists>x. r = Inr x \<and> f x = Inr y)"
  by (auto simp: bindR_def split: sum.splits)

lemma bindR_simps [simp]: "bindR (Inr x) f = f x" "bindR (Inl e) f = Inl e" "bindR (throw m) f = throw m"
  by (simp_all add: bindR_def throw_def)

lemma isOk_iff: "isOk r \<longleftrightarrow> (\<exists>x. r = Inr x)"
  by (auto simp: isOk_def split: sum.splits)

lemma isOk_simps [simp]: "isOk (Inr x)" "\<not> isOk (Inl e)" "\<not> isOk (throw m)"
  by (simp_all add: isOk_def throw_def)

lemma mapR_Inr: "mapR f xs = Inr ys \<longleftrightarrow> list_all2 (\<lambda>x y. f x = Inr y) xs ys"
proof (induction xs arbitrary: ys)
  case Nil
  then show ?case by auto
next
  case (Cons x xs)
  then show ?case by (cases ys) (auto simp: res_simps)
qed

lemma mapR_length: "mapR f xs = Inr ys \<Longrightarrow> length ys = length xs"
  by (auto simp: mapR_Inr dest: list_all2_lengthD)

text \<open>An invariant of the accumulator is kept by a successful loop.\<close>

lemma foldR_invariant:
  assumes "foldR f s xs = Inr t" and "I s"
    and "\<And>s x s'. I s \<Longrightarrow> x \<in> set xs \<Longrightarrow> f s x = Inr s' \<Longrightarrow> I s'"
  shows "I t"
  using assms
proof (induction xs arbitrary: s)
  case Nil
  then show ?case by simp
next
  case (Cons x xs)
  from Cons.prems(1) obtain s' where s': "f s x = Inr s'" "foldR f s' xs = Inr t"
    by (auto simp: bindR_Inr)
  have "I s'" using Cons.prems(3) [OF Cons.prems(2) _ s'(1)] by simp
  then show ?case using Cons.IH [OF s'(2)] Cons.prems(3) by (metis list.set_intros(2))
qed

section \<open>Results that throw only the SDK's own error\<close>

definition own :: "'a res \<Rightarrow> bool" where
  "own r \<longleftrightarrow> (\<forall>c m. r \<noteq> Inl (Thrown c m))"

named_theorems own_intros \<open>composition of results that throw only the SDK's own error\<close>

lemma own_basic [own_intros]: "own (Inr x)" "own (throw m)"
  by (simp_all add: own_def throw_def)

lemma own_ensure [own_intros]: "(c \<Longrightarrow> own k) \<Longrightarrow> own (ensure c m k)"
  by (simp add: ensure_def own_basic)

lemma own_bindR [own_intros]: "own r \<Longrightarrow> (\<And>x. r = Inr x \<Longrightarrow> own (f x)) \<Longrightarrow> own (bindR r f)"
  by (cases r) (auto simp: own_def bindR_def)

lemma own_If [own_intros]: "(c \<Longrightarrow> own x) \<Longrightarrow> (\<not> c \<Longrightarrow> own y) \<Longrightarrow> own (if c then x else y)"
  by simp

lemma own_mapR [own_intros]: "(\<And>x. x \<in> set xs \<Longrightarrow> own (f x)) \<Longrightarrow> own (mapR f xs)"
  by (induction xs) (auto intro!: own_intros)

lemma own_case_option [own_intros]: "(v = None \<Longrightarrow> own x) \<Longrightarrow> (\<And>y. v = Some y \<Longrightarrow> own (f y)) \<Longrightarrow> own (case v of None \<Rightarrow> x | Some y \<Rightarrow> f y)"
  by (cases v) simp_all

lemma own_case_prod [own_intros]: "(\<And>a b. p = (a, b) \<Longrightarrow> own (f a b)) \<Longrightarrow> own (case p of (a, b) \<Rightarrow> f a b)"
  by (cases p) simp

section \<open>Characters and JavaScript string operations\<close>

abbreviation code :: "char \<Rightarrow> nat" where
  "code c \<equiv> of_char c"

definition is_digit :: "char \<Rightarrow> bool" where
  "is_digit c \<longleftrightarrow> 48 \<le> code c \<and> code c \<le> 57"

definition is_upper :: "char \<Rightarrow> bool" where
  "is_upper c \<longleftrightarrow> 65 \<le> code c \<and> code c \<le> 90"

definition is_lower :: "char \<Rightarrow> bool" where
  "is_lower c \<longleftrightarrow> 97 \<le> code c \<and> code c \<le> 122"

text \<open>\<^verbatim>\<open>\s\<close> of a regular expression, and the characters \<^verbatim>\<open>String.prototype.trim\<close> removes.\<close>

definition is_space :: "char \<Rightarrow> bool" where
  "is_space c \<longleftrightarrow> code c \<in> {9, 10, 11, 12, 13, 32, 160}"

definition is_control :: "char \<Rightarrow> bool" where
  "is_control c \<longleftrightarrow> code c < 32 \<or> code c = 127"

definition is_hex_lower :: "char \<Rightarrow> bool" where
  "is_hex_lower c \<longleftrightarrow> is_digit c \<or> (97 \<le> code c \<and> code c \<le> 102)"

text \<open>\<^verbatim>\<open>/^[0-9a-f]{64}$/\<close>.\<close>

definition is_hash :: "string \<Rightarrow> bool" where
  "is_hash s \<longleftrightarrow> length s = 64 \<and> list_all is_hex_lower s"

definition trimEnd :: "string \<Rightarrow> string" where
  "trimEnd s = rev (dropWhile is_space (rev s))"

definition trim :: "string \<Rightarrow> string" where
  "trim s = trimEnd (dropWhile is_space s)"

text \<open>\<^verbatim>\<open>value.length > 0 && value.trim() === value && value.normalize("NFC") === value\<close>.\<close>

definition isNonEmptyString :: "string \<Rightarrow> bool" where
  "isNonEmptyString s \<longleftrightarrow> s \<noteq> [] \<and> trim s = s"

text \<open>Code equations that read the character classes off the bits of a character, so that evaluating
  a regular expression needs no arithmetic on code points.\<close>

lemma char_class_code [code]:
  "is_digit (Char b0 b1 b2 b3 b4 b5 b6 b7) \<longleftrightarrow> \<not> b7 \<and> \<not> b6 \<and> b5 \<and> b4 \<and> (b3 \<longrightarrow> \<not> b2 \<and> \<not> b1)"
  "is_upper (Char b0 b1 b2 b3 b4 b5 b6 b7) \<longleftrightarrow>
     \<not> b7 \<and> b6 \<and> \<not> b5 \<and> (b0 \<or> b1 \<or> b2 \<or> b3 \<or> b4) \<and> (b4 \<and> b3 \<longrightarrow> \<not> b2 \<and> \<not> (b1 \<and> b0))"
  "is_lower (Char b0 b1 b2 b3 b4 b5 b6 b7) \<longleftrightarrow>
     \<not> b7 \<and> b6 \<and> b5 \<and> (b0 \<or> b1 \<or> b2 \<or> b3 \<or> b4) \<and> (b4 \<and> b3 \<longrightarrow> \<not> b2 \<and> \<not> (b1 \<and> b0))"
  "is_control (Char b0 b1 b2 b3 b4 b5 b6 b7) \<longleftrightarrow>
     \<not> b7 \<and> (\<not> b6 \<and> \<not> b5 \<or> b6 \<and> b5 \<and> b4 \<and> b3 \<and> b2 \<and> b1 \<and> b0)"
  "is_hex_lower (Char b0 b1 b2 b3 b4 b5 b6 b7) \<longleftrightarrow>
     is_digit (Char b0 b1 b2 b3 b4 b5 b6 b7) \<or>
     \<not> b7 \<and> b6 \<and> b5 \<and> \<not> b4 \<and> \<not> b3 \<and> (b0 \<or> b1 \<or> b2) \<and> \<not> (b0 \<and> b1 \<and> b2)"
  unfolding is_digit_def is_upper_def is_lower_def is_control_def is_hex_lower_def
  by ((cases b0; cases b1; cases b2; cases b3; cases b4; cases b5; cases b6; cases b7; simp))+

lemma is_space_code [code]:
  "is_space c \<longleftrightarrow> c = CHR 0x09 \<or> c = CHR 0x0A \<or> c = CHR 0x0B \<or> c = CHR 0x0C \<or> c = CHR 0x0D \<or> c = CHR '' '' \<or> c = CHR 0xA0"
  by (cases c) (auto simp: is_space_def)

lemma code_small [code_unfold]:
  "code c < 32 \<longleftrightarrow> \<not> digit7 c \<and> \<not> digit6 c \<and> \<not> digit5 c"
  "code c < 128 \<longleftrightarrow> \<not> digit7 c"
  by (cases c; auto simp: of_char_def of_bool_def)+

section \<open>Safe integers\<close>

text \<open>\<^verbatim>\<open>Number.MAX_SAFE_INTEGER\<close> and \<^verbatim>\<open>Number.isSafeInteger\<close> on an integral number.\<close>

definition max_safe :: int where
  "max_safe = 9007199254740991"

definition isSafeInteger :: "int \<Rightarrow> bool" where
  "isSafeInteger n \<longleftrightarrow> \<bar>n\<bar> \<le> max_safe"

definition isSafeTime :: "int \<Rightarrow> bool" where
  "isSafeTime n \<longleftrightarrow> isSafeInteger n \<and> 0 \<le> n"

section \<open>Decimal texts of natural numbers\<close>

definition digit_char :: "nat \<Rightarrow> char" where
  "digit_char d = char_of (48 + d)"

definition digit_val :: "char \<Rightarrow> nat" where
  "digit_val c = code c - 48"

text \<open>\<^verbatim>\<open>BigInt(text)\<close> on a text of digits (leading zeros allowed, the empty text is 0).\<close>

definition digits_val :: "string \<Rightarrow> nat" where
  "digits_val s = foldl (\<lambda>a c. 10 * a + digit_val c) 0 s"

text \<open>\<^verbatim>\<open>n.toString()\<close> of a non-negative integer.\<close>

fun nat_text :: "nat \<Rightarrow> string" where
  "nat_text n = (if n < 10 then [digit_char n] else nat_text (n div 10) @ [digit_char (n mod 10)])"

declare nat_text.simps [simp del]

definition int_text :: "int \<Rightarrow> string" where
  "int_text i = (if i < 0 then CHR ''-'' # nat_text (nat (- i)) else nat_text (nat i))"

text \<open>\<^verbatim>\<open>/^(?:0|[1-9][0-9]*)$/\<close>: the canonical non-negative integer texts.\<close>

definition is_canonical_nat :: "string \<Rightarrow> bool" where
  "is_canonical_nat s \<longleftrightarrow> s \<noteq> [] \<and> list_all is_digit s \<and> (hd s = CHR ''0'' \<longrightarrow> s = ''0'')"

lemma digit_val_digit_char [simp]: "d < 10 \<Longrightarrow> digit_val (digit_char d) = d"
  by (simp add: digit_val_def digit_char_def)

lemma is_digit_digit_char [simp]: "d < 10 \<Longrightarrow> is_digit (digit_char d)"
  by (simp add: is_digit_def digit_char_def)

lemma digit_val_less [simp]: "is_digit c \<Longrightarrow> digit_val c < 10"
  by (auto simp: is_digit_def digit_val_def)

lemma digit_char_digit_val [simp]: "is_digit c \<Longrightarrow> digit_char (digit_val c) = c"
  by (auto simp: is_digit_def digit_val_def digit_char_def)

lemma digit_char_0 [simp]: "digit_char 0 = CHR ''0''"
  by (simp add: digit_char_def) code_simp

lemma digit_val_0_iff: "is_digit c \<Longrightarrow> digit_val c = 0 \<longleftrightarrow> c = CHR ''0''"
proof
  assume "is_digit c" "digit_val c = 0"
  then have "digit_char 0 = c" by (metis digit_char_digit_val)
  then show "c = CHR ''0''" by simp
qed (simp add: digit_val_def)

lemma digits_val_Nil [simp]: "digits_val [] = 0"
  by (simp add: digits_val_def)

lemma digits_val_snoc: "digits_val (s @ [c]) = 10 * digits_val s + digit_val c"
  by (simp add: digits_val_def)

lemma digits_val_append: "digits_val (s @ t) = digits_val s * 10 ^ length t + digits_val t"
  by (induction t rule: rev_induct) (simp_all add: digits_val_snoc append_assoc [symmetric] del: append_assoc)

lemma digits_val_Cons: "digits_val (c # s) = digit_val c * 10 ^ length s + digits_val s"
  using digits_val_append [of "[c]" s] by (simp add: digits_val_def)

lemma digits_val_zeros [simp]: "digits_val (replicate n (CHR ''0'')) = 0"
  by (induction n) (simp_all add: digits_val_Cons digit_val_def)

lemma digits_val_less: "list_all is_digit s \<Longrightarrow> digits_val s < 10 ^ length s"
proof (induction s rule: rev_induct)
  case (snoc c s)
  then have "digits_val s < 10 ^ length s" and "digit_val c < 10" by auto
  then show ?case by (simp add: digits_val_snoc)
qed simp

lemma digits_val_inject:
  assumes "list_all is_digit s" "list_all is_digit t" "length s = length t" "digits_val s = digits_val t"
  shows "s = t"
  using assms(3,1,2,4)
proof (induction s t rule: rev_induct2)
  case (4 c s d t)
  then have d: "digit_val c < 10" "digit_val d < 10" by auto
  with 4 have "10 * digits_val s + digit_val c = 10 * digits_val t + digit_val d"
    by (simp add: digits_val_snoc)
  with d have "digits_val s = digits_val t" "digit_val c = digit_val d" by arith+
  moreover have "c = d" using 4 \<open>digit_val c = digit_val d\<close>
    by (metis digit_char_digit_val list_all_append list.pred_inject(2))
  ultimately show ?case using 4 by auto
qed auto

lemma nat_text_small: "n < 10 \<Longrightarrow> nat_text n = [digit_char n]"
  by (simp add: nat_text.simps)

lemma nat_text_digits: "list_all is_digit (nat_text n)"
  by (induction n rule: nat_text.induct) (subst nat_text.simps, simp)

lemma nat_text_nonempty [simp]: "nat_text n \<noteq> []"
  by (subst nat_text.simps) simp

lemma digits_val_nat_text [simp]: "digits_val (nat_text n) = n"
proof (induction n rule: nat_text.induct)
  case (1 n)
  then show ?case
    by (cases "n < 10") (simp_all add: nat_text.simps [of n] digits_val_def)
qed

lemma nat_text_hd: "0 < n \<Longrightarrow> hd (nat_text n) \<noteq> CHR ''0''"
proof (induction n rule: nat_text.induct)
  case (1 n)
  show ?case
  proof (cases "n < 10")
    case True
    with 1 have "digit_val (digit_char n) \<noteq> 0" by simp
    with True have "digit_char n \<noteq> CHR ''0''" by (metis digit_val_0_iff is_digit_digit_char)
    with True show ?thesis by (simp add: nat_text_small)
  next
    case False
    then show ?thesis using 1 by (simp add: nat_text.simps [of n])
  qed
qed

lemma nat_text_canonical [simp]: "is_canonical_nat (nat_text n)"
proof (cases "n = 0")
  case True
  then show ?thesis
    by (simp add: is_canonical_nat_def nat_text_small is_digit_def)
next
  case False
  then show ?thesis by (simp add: is_canonical_nat_def nat_text_digits nat_text_hd)
qed

lemma canonical_nat_length:
  assumes "is_canonical_nat s" "is_canonical_nat t" "digits_val s = digits_val t"
  shows "length s \<le> length t"
proof (rule ccontr)
  assume "\<not> length s \<le> length t"
  then have len: "length t < length s" by simp
  have "1 \<le> length t" using assms(2) by (cases t) (auto simp: is_canonical_nat_def)
  with len have "s \<noteq> ''0''" by auto
  with assms(1) obtain c s' where s: "s = c # s'" "is_digit c" "c \<noteq> CHR ''0''"
    by (cases s) (auto simp: is_canonical_nat_def)
  then have "1 \<le> digit_val c" using digit_val_0_iff by (metis One_nat_def Suc_leI neq0_conv)
  then have "1 * 10 ^ length s' \<le> digit_val c * 10 ^ length s'" by (rule mult_le_mono1)
  then have "10 ^ length s' \<le> digits_val s" using s(1) unfolding digits_val_Cons
    by (metis digits_val_Cons le_add1 mult_1 order_trans)
  moreover have "digits_val t < 10 ^ length t"
    using assms(2) by (simp add: digits_val_less is_canonical_nat_def)
  moreover have "(10::nat) ^ length t \<le> 10 ^ length s'" using len s by (simp add: power_increasing)
  ultimately show False using assms(3) by simp
qed

lemma canonical_nat_unique:
  assumes "is_canonical_nat s" "is_canonical_nat t" "digits_val s = digits_val t"
  shows "s = t"
proof (rule digits_val_inject)
  show "length s = length t" using assms by (metis canonical_nat_length le_antisym)
qed (use assms in \<open>auto simp: is_canonical_nat_def\<close>)

lemma nat_text_digits_val: "is_canonical_nat s \<Longrightarrow> nat_text (digits_val s) = s"
  by (rule canonical_nat_unique) simp_all

lemma digits_val_dropWhile_zero: "digits_val (dropWhile (\<lambda>c. c = CHR ''0'') s) = digits_val s"
  by (induction s) (auto simp: digits_val_Cons digit_val_def)

text \<open>A separator that occurs in neither prefix splits a text uniquely.\<close>

lemma separator_split:
  assumes "c \<notin> set xs" "c \<notin> set ys"
  shows "xs @ c # r = ys @ c # r' \<longleftrightarrow> xs = ys \<and> r = r'"
  using assms
proof (induction xs arbitrary: ys)
  case Nil
  then show ?case by (cases ys) auto
next
  case (Cons x xs)
  then show ?case by (cases ys) auto
qed

lemma nat_text_no_char: "\<not> is_digit c \<Longrightarrow> c \<notin> set (nat_text n)"
  using nat_text_digits [of n] by (auto simp: list_all_iff)

lemma nat_text_length: "n < 10 ^ k \<Longrightarrow> 0 < k \<Longrightarrow> length (nat_text n) \<le> k"
proof (induction k arbitrary: n)
  case (Suc k)
  show ?case
  proof (cases "n < 10")
    case True
    then show ?thesis by (simp add: nat_text_small)
  next
    case False
    then have "0 < k" using Suc.prems by (cases k) auto
    then have "length (nat_text (n div 10)) \<le> k" using Suc by (simp add: div_less_iff_less_mult mult.commute)
    then show ?thesis using False by (simp add: nat_text.simps [of n])
  qed
qed simp

section \<open>Generic interfaces\<close>

text \<open>A lossless encoding: decoding undoes encoding, so encoded forms never collide.\<close>

locale lossless =
  fixes enc :: "'a \<Rightarrow> 'b" and dec :: "'b \<Rightarrow> 'a"
  assumes dec_enc: "dec (enc x) = x"
begin

lemma enc_eq_iff: "enc x = enc y \<longleftrightarrow> x = y"
  by (metis dec_enc)

lemma inj_enc: "inj enc"
  by (rule injI) (simp add: enc_eq_iff)

end

interpretation nat_text: lossless nat_text digits_val
  by unfold_locales simp

text \<open>A transition system with a state predicate that holds at the start and that every step keeps.\<close>

locale invariant_system =
  fixes init :: "'s \<Rightarrow> bool" and step :: "'s \<Rightarrow> 's \<Rightarrow> bool" and inv :: "'s \<Rightarrow> bool"
  assumes inv_init: "init s \<Longrightarrow> inv s"
    and inv_step: "inv s \<Longrightarrow> step s t \<Longrightarrow> inv t"
begin

lemma inv_run: "step\<^sup>*\<^sup>* s t \<Longrightarrow> inv s \<Longrightarrow> inv t"
  by (induction rule: rtranclp_induct) (auto intro: inv_step)

lemma inv_reachable: "init s \<Longrightarrow> step\<^sup>*\<^sup>* s t \<Longrightarrow> inv t"
  by (blast intro: inv_init inv_run)

end

text \<open>
  The abstract contract of a durable store: under each key it binds an identity once and writes a
  value once.
\<close>

inductive register_step :: "('k \<rightharpoonup> 'b \<times> 'v option) \<Rightarrow> ('k \<rightharpoonup> 'b \<times> 'v option) \<Rightarrow> bool" where
  keeps: "register_step A A"
| binds: "A k = None \<Longrightarrow> register_step A (A(k \<mapsto> (h, None)))"
| writes: "A k = Some (h, None) \<Longrightarrow> register_step A (A(k \<mapsto> (h, Some v)))"

locale write_once =
  fixes step :: "'s \<Rightarrow> 's \<Rightarrow> bool" and register :: "'s \<Rightarrow> 'k \<rightharpoonup> 'b \<times> 'v option"
  assumes refines: "step s t \<Longrightarrow> register_step (register s) (register t)"
begin

lemma bound_step: "step s t \<Longrightarrow> register s k = Some (h, v) \<Longrightarrow> \<exists>v'. register t k = Some (h, v') \<and> (v \<noteq> None \<longrightarrow> v' = v)"
  by (drule refines) (auto elim!: register_step.cases)

lemma bound_for_ever:
  assumes "step\<^sup>*\<^sup>* s t" "register s k = Some (h, v)"
  shows "\<exists>v'. register t k = Some (h, v') \<and> (v \<noteq> None \<longrightarrow> v' = v)"
  using assms
proof (induction rule: rtranclp_induct)
  case (step t u)
  then show ?case by (metis bound_step)
qed simp

lemma written_for_ever: "step\<^sup>*\<^sup>* s t \<Longrightarrow> register s k = Some (h, Some x) \<Longrightarrow> register t k = Some (h, Some x)"
  using bound_for_ever by fastforce

end

end
