(* ===== verification/Dacs_Decimal.thy ===== *)
theory Dacs_Decimal
  imports Dacs_Prelude
begin

text \<open>
  CD-1 decimals (\<^verbatim>\<open>src/src/canonical/decimal.ts\<close>): canonicalisation, the positivity guard
  and the exact conversion to integer base units. The abstract meaning of a decimal text is
  the rational number \<open>dec_value\<close>; canonical texts represent each value exactly once.
\<close>

section \<open>Operations\<close>

abbreviation dot :: char where
  "dot \<equiv> CHR ''.''"

abbreviation zero :: char where
  "zero \<equiv> CHR ''0''"

text \<open>\<^verbatim>\<open>const [whole, fraction = ""] = text.split(".")\<close>.\<close>

definition whole_part :: "string \<Rightarrow> string" where
  "whole_part s = takeWhile (\<lambda>c. c \<noteq> dot) s"

definition fraction_part :: "string \<Rightarrow> string" where
  "fraction_part s = takeWhile (\<lambda>c. c \<noteq> dot) (drop 1 (dropWhile (\<lambda>c. c \<noteq> dot) s))"

text \<open>\<^verbatim>\<open>DECIMAL_RE = /^[0-9]*\.?[0-9]*$/\<close>.\<close>

definition DECIMAL_RE :: "string \<Rightarrow> bool" where
  "DECIMAL_RE s =
     (case dropWhile is_digit s of
        [] \<Rightarrow> True
      | c # r \<Rightarrow> c = dot \<and> list_all is_digit r)"

definition stripLeadingZeros :: "string \<Rightarrow> string" where
  "stripLeadingZeros s = dropWhile (\<lambda>c. c = zero) s"

definition stripTrailingZeros :: "string \<Rightarrow> string" where
  "stripTrailingZeros s = rev (dropWhile (\<lambda>c. c = zero) (rev s))"

definition canonicalizeDecimal :: "string \<Rightarrow> string res" where
  "canonicalizeDecimal input =
     ensure (input \<noteq> []) ''invalid decimal''
     (ensure (DECIMAL_RE input \<and> list_ex is_digit input)
        ''invalid decimal (exponent, sign, or non-numeric not allowed)''
     (let stripped = stripLeadingZeros (whole_part input);
          intPart = (if stripped = [] then ''0'' else stripped);
          fracPart = stripTrailingZeros (fraction_part input)
      in Inr (if fracPart = [] then intPart else intPart @ dot # fracPart)))"

definition assertPositiveAmount :: "string \<Rightarrow> string res" where
  "assertPositiveAmount input =
     bindR (canonicalizeDecimal input)
       (\<lambda>canon. ensure (canon \<noteq> ''0'') ''amount MUST be > 0'' (Inr canon))"

definition padEnd :: "nat \<Rightarrow> string \<Rightarrow> string" where
  "padEnd n s = s @ replicate (n - length s) zero"

definition padStart :: "nat \<Rightarrow> string \<Rightarrow> string" where
  "padStart n s = replicate (n - length s) zero @ s"

definition baseUnits :: "string \<Rightarrow> int \<Rightarrow> string res" where
  "baseUnits amount decimals =
     ensure (0 \<le> decimals) ''invalid token decimals''
     (bindR (canonicalizeDecimal amount) (\<lambda>canon.
      ensure (length (fraction_part canon) \<le> nat decimals) ''amount has more precision than decimals''
      (let units = stripLeadingZeros (whole_part canon @ padEnd (nat decimals) (fraction_part canon))
       in Inr (if units = [] then ''0'' else units))))"

section \<open>The value of a decimal text\<close>

definition dec_value :: "string \<Rightarrow> rat" where
  "dec_value s = of_nat (digits_val (whole_part s @ fraction_part s)) / 10 ^ length (fraction_part s)"

text \<open>Minimal-digit form: no leading integer zero, no trailing fractional zero, no empty fraction.\<close>

definition canonical_dec :: "string \<Rightarrow> bool" where
  "canonical_dec s \<longleftrightarrow>
     is_canonical_nat (whole_part s) \<and> list_all is_digit (fraction_part s) \<and>
     (if fraction_part s = [] then s = whole_part s
      else s = whole_part s @ dot # fraction_part s \<and> last (fraction_part s) \<noteq> zero)"

lemma not_digit_dot [simp]: "\<not> is_digit dot"
  by (simp add: is_digit_def)

lemma digit_zero [simp]: "is_digit zero"
  by (simp add: is_digit_def)

lemma digit_not_dot: "is_digit c \<Longrightarrow> c \<noteq> dot"
  using not_digit_dot by metis

lemma digits_no_dot: "list_all is_digit s \<Longrightarrow> \<forall>c \<in> set s. c \<noteq> dot"
  by (simp only: list_all_iff) (blast dest: digit_not_dot)

lemma list_all_zeros [simp]: "list_all is_digit (replicate n zero)"
  by (induction n) simp_all

lemma takeWhile_digits: "list_all is_digit s \<Longrightarrow> takeWhile (\<lambda>c. c \<noteq> dot) s = s"
  by (simp only: takeWhile_eq_all_conv) (rule digits_no_dot)

lemma dropWhile_digits: "list_all is_digit s \<Longrightarrow> dropWhile (\<lambda>c. c \<noteq> dot) s = []"
  by (simp only: dropWhile_eq_Nil_conv) (rule digits_no_dot)

lemma takeWhile_digits_dot: "list_all is_digit s \<Longrightarrow> takeWhile (\<lambda>c. c \<noteq> dot) (s @ dot # t) = s"
  using digit_not_dot by (subst takeWhile_append2) (auto simp: list_all_iff)

lemma dropWhile_digits_dot: "list_all is_digit s \<Longrightarrow> dropWhile (\<lambda>c. c \<noteq> dot) (s @ dot # t) = dot # t"
  using digit_not_dot by (subst dropWhile_append2) (auto simp: list_all_iff)

lemma parts_integer [simp]:
  "list_all is_digit s \<Longrightarrow> whole_part s = s" "list_all is_digit s \<Longrightarrow> fraction_part s = []"
  by (simp_all add: whole_part_def fraction_part_def takeWhile_digits dropWhile_digits)

lemma parts_fraction [simp]:
  "list_all is_digit s \<Longrightarrow> whole_part (s @ dot # t) = s"
  "list_all is_digit s \<Longrightarrow> list_all is_digit t \<Longrightarrow> fraction_part (s @ dot # t) = t"
  by (simp_all add: whole_part_def fraction_part_def takeWhile_digits_dot dropWhile_digits_dot takeWhile_digits)

lemma digits_val_strip [simp]: "digits_val (stripLeadingZeros s) = digits_val s"
  by (simp add: stripLeadingZeros_def digits_val_dropWhile_zero)

lemma list_all_strip: "list_all P s \<Longrightarrow> list_all P (stripLeadingZeros s)"
  "list_all P s \<Longrightarrow> list_all P (stripTrailingZeros s)"
  by (auto simp: stripLeadingZeros_def stripTrailingZeros_def list_all_iff dest: set_dropWhileD)

lemma stripTrailing_decomp: "\<exists>n. s = stripTrailingZeros s @ replicate n zero"
proof -
  have "rev s = takeWhile (\<lambda>c. c = zero) (rev s) @ dropWhile (\<lambda>c. c = zero) (rev s)" by simp
  then have "s = stripTrailingZeros s @ rev (takeWhile (\<lambda>c. c = zero) (rev s))"
    unfolding stripTrailingZeros_def by (metis rev_append rev_rev_ident)
  moreover have "\<exists>n. rev (takeWhile (\<lambda>c. c = zero) (rev s)) = replicate n zero"
    by (rule exI [of _ "length (takeWhile (\<lambda>c. c = zero) (rev s))"], rule replicate_eqI)
      (auto dest: set_takeWhileD)
  ultimately show ?thesis by metis
qed

lemma stripTrailing_last: "stripTrailingZeros s \<noteq> [] \<Longrightarrow> last (stripTrailingZeros s) \<noteq> zero"
  using hd_dropWhile [of "\<lambda>c. c = zero" "rev s"] by (metis stripTrailingZeros_def last_rev rev_is_Nil_conv)

lemma stripTrailing_id: "s = [] \<or> last s \<noteq> zero \<Longrightarrow> stripTrailingZeros s = s"
  by (cases s rule: rev_cases) (auto simp: stripTrailingZeros_def)

lemma stripLeading_id: "s = [] \<or> hd s \<noteq> zero \<Longrightarrow> stripLeadingZeros s = s"
  by (cases s) (auto simp: stripLeadingZeros_def)

lemma stripLeading_hd: "stripLeadingZeros s \<noteq> [] \<Longrightarrow> hd (stripLeadingZeros s) \<noteq> zero"
  using hd_dropWhile [of "\<lambda>c. c = zero" s] by (metis stripLeadingZeros_def)

text \<open>Stripping leading zeros (and writing \<^verbatim>\<open>"0"\<close> for nothing) is the canonical text of the value.\<close>

lemma strip_or_zero:
  assumes "list_all is_digit s"
  shows "(if stripLeadingZeros s = [] then ''0'' else stripLeadingZeros s) = nat_text (digits_val s)"
proof -
  let ?t = "if stripLeadingZeros s = [] then ''0'' else stripLeadingZeros s"
  have "is_canonical_nat ?t"
    using assms stripLeading_hd [of s] by (auto simp: is_canonical_nat_def list_all_strip)
  moreover have "digits_val ?t = digits_val s"
    using digits_val_strip [of s] by (auto simp: digits_val_def digit_val_def)
  ultimately show ?thesis by (metis nat_text_digits_val)
qed

lemma dec_value_integer: "list_all is_digit s \<Longrightarrow> dec_value s = of_nat (digits_val s)"
  by (simp add: dec_value_def)

lemma dec_value_fraction:
  "list_all is_digit s \<Longrightarrow> list_all is_digit t \<Longrightarrow>
   dec_value (s @ dot # t) = of_nat (digits_val (s @ t)) / 10 ^ length t"
  by (simp add: dec_value_def)

lemma DECIMAL_RE_cases:
  assumes "DECIMAL_RE s"
  obtains "list_all is_digit s" "whole_part s = s" "fraction_part s = []"
  | w f where "s = w @ dot # f" "list_all is_digit w" "list_all is_digit f"
      "whole_part s = w" "fraction_part s = f"
proof (cases "dropWhile is_digit s")
  case Nil
  then have "list_all is_digit s" by (simp add: list_all_iff dropWhile_eq_Nil_conv)
  then show ?thesis using that(1) by simp
next
  case (Cons c r)
  have nd: "\<not> is_digit c" using Cons hd_dropWhile [of is_digit s] by simp
  with Cons assms have cr: "c = dot" "list_all is_digit r" by (auto simp: DECIMAL_RE_def)
  have w: "list_all is_digit (takeWhile is_digit s)" by (auto simp: list_all_iff dest: set_takeWhileD)
  have "s = takeWhile is_digit s @ dropWhile is_digit s" by simp
  then have s: "s = takeWhile is_digit s @ dot # r" using Cons cr by simp
  show ?thesis
    using that(2) [OF s w cr(2)] parts_fraction(1) [OF w, of r] parts_fraction(2) [OF w cr(2)] s by metis
qed

section \<open>Canonical form\<close>

lemma canonical_dec_integer: "canonical_dec (nat_text n)"
  by (simp add: canonical_dec_def nat_text_digits)

lemma canonical_dec_fraction:
  "list_all is_digit f \<Longrightarrow> f \<noteq> [] \<Longrightarrow> last f \<noteq> zero \<Longrightarrow> canonical_dec (nat_text n @ dot # f)"
  by (simp add: canonical_dec_def nat_text_digits)

text \<open>The shape of the result: the integer part is the canonical text of its value.\<close>

lemma canonicalizeDecimal_shape:
  assumes "canonicalizeDecimal s = Inr c"
  shows "c = (if stripTrailingZeros (fraction_part s) = [] then nat_text (digits_val (whole_part s))
              else nat_text (digits_val (whole_part s)) @ dot # stripTrailingZeros (fraction_part s))"
    and "list_all is_digit (whole_part s)" and "list_all is_digit (fraction_part s)"
proof -
  have re: "DECIMAL_RE s" using assms by (simp add: canonicalizeDecimal_def res_simps)
  show w: "list_all is_digit (whole_part s)" and "list_all is_digit (fraction_part s)"
    using re by (cases rule: DECIMAL_RE_cases; simp)+
  show "c = (if stripTrailingZeros (fraction_part s) = [] then nat_text (digits_val (whole_part s))
              else nat_text (digits_val (whole_part s)) @ dot # stripTrailingZeros (fraction_part s))"
    using assms unfolding canonicalizeDecimal_def Let_def strip_or_zero [OF w] by (auto simp: res_simps)
qed

lemma canonicalizeDecimal_canonical:
  assumes "canonicalizeDecimal s = Inr c"
  shows "canonical_dec c"
  using canonicalizeDecimal_shape [OF assms] stripTrailing_last [of "fraction_part s"]
  by (auto simp: canonical_dec_integer canonical_dec_fraction list_all_strip split: if_splits)

lemma canonicalizeDecimal_value:
  assumes "canonicalizeDecimal s = Inr c"
  shows "dec_value c = dec_value s"
proof -
  let ?w = "whole_part s" and ?f = "fraction_part s" and ?g = "stripTrailingZeros (fraction_part s)"
  note sh = canonicalizeDecimal_shape [OF assms]
  obtain n where n: "?f = ?g @ replicate n zero" using stripTrailing_decomp by blast
  have g: "list_all is_digit ?g" by (simp add: sh(3) list_all_strip)
  have c: "dec_value c = of_nat (digits_val (?w @ ?g)) / 10 ^ length ?g"
  proof (cases "?g = []")
    case True
    then show ?thesis using sh(1) by (simp add: dec_value_integer nat_text_digits)
  next
    case False
    then show ?thesis using sh(1) g
      by (simp add: dec_value_fraction nat_text_digits digits_val_append)
  qed
  have "digits_val (?w @ ?f) = digits_val (?w @ ?g) * 10 ^ n"
    unfolding n [symmetric, THEN arg_cong [where f = "\<lambda>x. ?w @ x"]]
    by (subst n, subst append_assoc [symmetric], subst digits_val_append) simp
  moreover have "length ?f = length ?g + n" using n by (metis length_append length_replicate)
  ultimately show ?thesis by (simp add: c dec_value_def [of s] power_add)
qed

lemma canonical_dec_fixpoint:
  assumes "canonical_dec c"
  shows "canonicalizeDecimal c = Inr c"
proof -
  let ?w = "whole_part c" and ?f = "fraction_part c"
  have w: "is_canonical_nat ?w" "list_all is_digit ?f" using assms by (auto simp: canonical_dec_def)
  then have dw: "list_all is_digit ?w" "?w \<noteq> []" by (auto simp: is_canonical_nat_def)
  have strip: "stripTrailingZeros ?f = ?f"
    using assms by (intro stripTrailing_id) (auto simp: canonical_dec_def split: if_splits)
  have int: "nat_text (digits_val ?w) = ?w" using w by (simp add: nat_text_digits_val)
  have ex: "list_ex is_digit ?w" using dw by (cases ?w) auto
  have c: "c = (if ?f = [] then ?w else ?w @ dot # ?f)" using assms by (auto simp: canonical_dec_def)
  have re: "DECIMAL_RE c \<and> list_ex is_digit c \<and> c \<noteq> []"
  proof (cases "?f = []")
    case True
    then have "c = ?w" using c by simp
    moreover have "dropWhile is_digit ?w = []" using dw(1) by (simp add: dropWhile_eq_Nil_conv list_all_iff)
    ultimately show ?thesis using ex dw by (metis DECIMAL_RE_def list.simps(4))
  next
    case False
    then have e: "c = ?w @ dot # ?f" using c by simp
    have "dropWhile is_digit (?w @ dot # ?f) = dot # ?f"
      using dw(1) by (subst dropWhile_append2) (simp_all add: list_all_iff)
    then have "DECIMAL_RE (?w @ dot # ?f)" using w(2) by (simp add: DECIMAL_RE_def)
    moreover have "list_ex is_digit (?w @ dot # ?f)" using ex by simp
    ultimately show ?thesis using e by (metis Nil_is_append_conv list.distinct(1))
  qed
  show ?thesis
    unfolding canonicalizeDecimal_def Let_def strip strip_or_zero [OF dw(1)] int
    using re c by (simp add: ensure_def)
qed

lemma canonicalizeDecimal_fixpoint: "canonicalizeDecimal c = Inr c \<longleftrightarrow> canonical_dec c"
  using canonical_dec_fixpoint canonicalizeDecimal_canonical by blast

text \<open>A canonical text with a fraction is not a multiple of a smaller power of ten.\<close>

lemma canonical_dec_last_digit:
  assumes "canonical_dec c" and "fraction_part c \<noteq> []"
  shows "digits_val (whole_part c @ fraction_part c) mod 10 \<noteq> 0"
proof -
  obtain f d where f: "fraction_part c = f @ [d]" using assms(2) by (metis rev_exhaust)
  have "is_digit d" "d \<noteq> zero" using assms f by (auto simp: canonical_dec_def)
  then have "digit_val d \<noteq> 0" "digit_val d < 10" by (simp_all add: digit_val_0_iff)
  then show ?thesis unfolding f append_assoc [symmetric] digits_val_snoc by simp
qed

lemma dec_value_scaled:
  "dec_value c * 10 ^ d * 10 ^ length (fraction_part c) =
   of_nat (digits_val (whole_part c @ fraction_part c)) * 10 ^ d"
  by (simp add: dec_value_def)

lemma canonical_dec_precision:
  assumes "canonical_dec c" and "dec_value c * 10 ^ d = of_nat n"
  shows "length (fraction_part c) \<le> d"
proof (rule ccontr)
  let ?l = "length (fraction_part c)" and ?N = "digits_val (whole_part c @ fraction_part c)"
  assume "\<not> ?l \<le> d"
  then have l: "?l = d + Suc (?l - Suc d)" by simp
  have "of_nat n * (10 :: rat) ^ ?l = of_nat ?N * 10 ^ d"
    using dec_value_scaled [of c d] assms(2) by simp
  then have "of_nat (n * 10 ^ ?l) = (of_nat (?N * 10 ^ d) :: rat)" by simp
  then have "n * 10 ^ ?l = ?N * 10 ^ d" by (simp only: of_nat_eq_iff)
  then have "(n * 10 ^ Suc (?l - Suc d)) * 10 ^ d = ?N * 10 ^ d"
    by (subst (asm) l) (simp add: power_add mult_ac)
  then have "?N = 10 * (n * 10 ^ (?l - Suc d))" by simp
  then have "?N mod 10 = 0" by simp
  moreover have "fraction_part c \<noteq> []" using \<open>\<not> ?l \<le> d\<close> by auto
  ultimately show False using canonical_dec_last_digit [OF assms(1)] by simp
qed

lemma canonical_dec_unique:
  assumes "canonical_dec c" "canonical_dec d" "dec_value c = dec_value d"
  shows "c = d"
proof -
  have len_le: "length (fraction_part x) \<le> length (fraction_part y)"
    if "canonical_dec x" "dec_value x = dec_value y" for x y
    using that dec_value_scaled [of y 0]
    by (intro canonical_dec_precision [of x _ "digits_val (whole_part y @ fraction_part y)"]) simp_all
  then have len: "length (fraction_part c) = length (fraction_part d)"
    using assms by (metis le_antisym)
  have "(of_nat (digits_val (whole_part c @ fraction_part c)) :: rat) =
        of_nat (digits_val (whole_part d @ fraction_part d))"
    using assms(3) len by (simp add: dec_value_def)
  then have N: "digits_val (whole_part c @ fraction_part c) = digits_val (whole_part d @ fraction_part d)"
    by (simp only: of_nat_eq_iff)
  have dig: "list_all is_digit (fraction_part x)" "is_canonical_nat (whole_part x)"
    "digits_val (fraction_part x) < 10 ^ length (fraction_part x)" if "canonical_dec x" for x
    using that by (auto simp: canonical_dec_def digits_val_less)
  have e: "digits_val (whole_part c) * 10 ^ length (fraction_part d) + digits_val (fraction_part c) =
        digits_val (whole_part d) * 10 ^ length (fraction_part d) + digits_val (fraction_part d)"
    using N len by (simp add: digits_val_append)
  have fr: "digits_val (fraction_part c) = digits_val (fraction_part d)"
    using arg_cong [OF e, of "\<lambda>x. x mod 10 ^ length (fraction_part d)"]
      dig(3) [OF assms(1)] dig(3) [OF assms(2)] len by simp
  then have "digits_val (whole_part c) = digits_val (whole_part d)" using e by simp
  then have "whole_part c = whole_part d"
    using canonical_nat_unique dig(2) assms(1,2) by blast
  moreover have "fraction_part c = fraction_part d"
    using digits_val_inject fr len dig(1) assms(1,2) by blast
  ultimately show ?thesis using assms(1,2) by (simp add: canonical_dec_def split: if_splits)
qed

section \<open>Properties\<close>

lemma canonicalizeDecimal_same_value:
  assumes "canonicalizeDecimal s = Inr c" "canonicalizeDecimal t = Inr d"
  shows "c = d \<longleftrightarrow> dec_value s = dec_value t"
  using assms canonical_dec_unique canonicalizeDecimal_canonical canonicalizeDecimal_value by metis

lemma baseUnits_eq:
  assumes "canonicalizeDecimal a = Inr c"
  shows "baseUnits a (int d) =
    (if length (fraction_part c) \<le> d
     then Inr (nat_text (digits_val (whole_part c @ padEnd d (fraction_part c))))
     else throw ''amount has more precision than decimals'')"
proof -
  have "canonical_dec c" using assms by (rule canonicalizeDecimal_canonical)
  then have "list_all is_digit (whole_part c)" "list_all is_digit (fraction_part c)"
    by (simp_all add: canonical_dec_def is_canonical_nat_def)
  then have "list_all is_digit (whole_part c @ padEnd d (fraction_part c))"
    by (simp add: padEnd_def)
  then show ?thesis using assms by (simp add: baseUnits_def ensure_def strip_or_zero)
qed

lemma baseUnits_value:
  assumes "canonicalizeDecimal a = Inr c" and "length (fraction_part c) \<le> d"
  shows "of_nat (digits_val (whole_part c @ padEnd d (fraction_part c))) = dec_value a * 10 ^ d"
proof -
  let ?l = "length (fraction_part c)"
  have "digits_val (whole_part c @ padEnd d (fraction_part c)) =
        digits_val (whole_part c @ fraction_part c) * 10 ^ (d - ?l)"
    unfolding padEnd_def by (subst append_assoc [symmetric], subst digits_val_append) simp
  moreover have "(10::rat) ^ d = 10 ^ (d - ?l) * 10 ^ ?l" using assms(2) by (simp add: power_add [symmetric])
  ultimately show ?thesis
    unfolding canonicalizeDecimal_value [OF assms(1), symmetric] by (simp add: dec_value_def)
qed

text \<open>
  Canonicalisation is a choice of representatives: it is idempotent, and two
  accepted amounts get the same canonical text exactly when they denote the same number
  (\<^verbatim>\<open>1.50\<close>, \<^verbatim>\<open>01.5\<close> and \<^verbatim>\<open>1.500\<close> all become \<^verbatim>\<open>1.5\<close>).
\<close>

theorem canonicalizeDecimal_representative:
  assumes "canonicalizeDecimal s = Inr c" and "canonicalizeDecimal t = Inr d"
  shows "canonicalizeDecimal c = Inr c \<and> (c = d \<longleftrightarrow> dec_value s = dec_value t)"
  using assms canonicalizeDecimal_same_value canonicalizeDecimal_canonical canonicalizeDecimal_fixpoint
  by blast

theorem canonicalizeDecimal_representative_witness:
  "canonicalizeDecimal ''1.5'' = Inr ''1.5'' \<and> dec_value ''01.500'' = dec_value ''1.50''"
proof -
  have "canonicalizeDecimal ''01.500'' = Inr ''1.5''" "canonicalizeDecimal ''1.50'' = Inr ''1.5''"
    by code_simp+
  from canonicalizeDecimal_representative [OF this] show ?thesis by simp
qed

text \<open>
  Property C39. Base-unit conversion is exact: for an accepted amount it succeeds precisely when
  the amount is a whole number of base units, and then the result is the canonical integer
  text of that number. No rounding happens on any input.
\<close>

theorem baseUnits_exact:
  assumes "canonicalizeDecimal a = Inr c"
  shows "baseUnits a (int d) = Inr u \<longleftrightarrow>
    (\<exists>n. dec_value a * 10 ^ d = of_nat n \<and> u = nat_text n)"
proof
  assume "baseUnits a (int d) = Inr u"
  then have "length (fraction_part c) \<le> d"
    and "u = nat_text (digits_val (whole_part c @ padEnd d (fraction_part c)))"
    by (auto simp: baseUnits_eq [OF assms] split: if_splits)
  then show "\<exists>n. dec_value a * 10 ^ d = of_nat n \<and> u = nat_text n"
    using baseUnits_value [OF assms] by metis
next
  assume "\<exists>n. dec_value a * 10 ^ d = of_nat n \<and> u = nat_text n"
  then obtain n where n: "dec_value a * 10 ^ d = of_nat n" "u = nat_text n" by blast
  have l: "length (fraction_part c) \<le> d"
    using n(1) canonical_dec_precision [OF canonicalizeDecimal_canonical [OF assms]]
    by (simp add: canonicalizeDecimal_value [OF assms])
  then have "(of_nat (digits_val (whole_part c @ padEnd d (fraction_part c))) :: rat) = of_nat n"
    using baseUnits_value [OF assms] n(1) by simp
  then show "baseUnits a (int d) = Inr u" using l n(2) by (simp add: baseUnits_eq [OF assms])
qed

theorem baseUnits_exact_witness: "\<exists>n. dec_value ''1.5'' * 10 ^ 6 = of_nat n \<and> ''1500000'' = nat_text n"
proof -
  have c: "canonicalizeDecimal ''1.5'' = Inr ''1.5''" by code_simp
  have "baseUnits ''1.5'' (int 6) = Inr ''1500000''" by code_simp
  with baseUnits_exact [OF c, of 6 "''1500000''"] show ?thesis by blast
qed

end
