(* ===== verification/Dacs_Addressing.thy ===== *)
theory Dacs_Addressing
  imports Dacs_Prelude "HOL-Library.Word"
begin

text \<open>
  Job identifiers (\<^verbatim>\<open>src/src/negotiate/jobId.ts\<close>) and logical addresses
  (\<^verbatim>\<open>src/src/canonical/addressing.ts\<close>): the CF-4 segment encoding, the listing, attestation,
  payment-evidence, rating and bundle addresses, and the storage-program name. The SHA-256
  digest of \<^verbatim>\<open>node:crypto\<close> is a parameter of the bundle addresses.
\<close>

unbundle bit_operations_syntax

section \<open>Canonical job identifiers\<close>

definition CROCKFORD_BASE32 :: string where
  "CROCKFORD_BASE32 = ''0123456789ABCDEFGHJKMNPQRSTVWXYZ''"

definition MAX_ULID_TIME :: int where
  "MAX_ULID_TIME = 0xffffffffffff"

text \<open>\<^verbatim>\<open>/^[0-7][0-9A-HJKMNP-TV-Z]{25}$/\<close>.\<close>

definition is_crockford :: "char \<Rightarrow> bool" where
  "is_crockford c \<longleftrightarrow>
     is_digit c \<or> (is_upper c \<and> c \<notin> {CHR ''I'', CHR ''L'', CHR ''O'', CHR ''U''})"

definition isCanonicalJobId :: "string \<Rightarrow> bool" where
  "isCanonicalJobId s \<longleftrightarrow>
     length s = 26 \<and> 48 \<le> code (hd s) \<and> code (hd s) \<le> 55 \<and> list_all is_crockford (tl s)"

definition requireCanonicalJobId :: "string \<Rightarrow> string res" where
  "requireCanonicalJobId v = ensure (isCanonicalJobId v) ''jobId must be a canonical uppercase ULID'' (Inr v)"

text \<open>The 26 iterations \<^verbatim>\<open>output = ALPHABET[encoded & 31n] + output; encoded >>= 5n\<close>.\<close>

fun ulid_loop :: "nat \<Rightarrow> nat \<Rightarrow> string \<Rightarrow> string" where
  "ulid_loop 0 encoded output = output"
| "ulid_loop (Suc n) encoded output =
     ulid_loop n (drop_bit 5 encoded) (CROCKFORD_BASE32 ! (encoded AND 31) # output)"

definition ulid_randomness :: "8 word list \<Rightarrow> nat" where
  "ulid_randomness entropy = foldl (\<lambda>r b. push_bit 8 r OR unat b) 0 entropy"

text \<open>The clock and the random bytes are the caller's \<^verbatim>\<open>timestamp\<close> and \<^verbatim>\<open>entropy\<close>.\<close>

definition generateCanonicalJobId :: "int \<Rightarrow> 8 word list \<Rightarrow> string res" where
  "generateCanonicalJobId timestamp entropy =
     ensure (isSafeInteger timestamp \<and> 0 \<le> timestamp \<and> timestamp \<le> MAX_ULID_TIME)
       ''ULID timestamp must be a 48-bit unix-ms integer''
     (ensure (length entropy = 10) ''ULID entropy must contain exactly 10 bytes''
     (Inr (ulid_loop 26 (push_bit 80 (nat timestamp) OR ulid_randomness entropy) [])))"

section \<open>Segments\<close>

definition ENCODE :: "char \<Rightarrow> string" where
  "ENCODE c =
     (if c = CHR '':'' then ''%3A'' else if c = CHR ''?'' then ''%3F''
      else if c = CHR ''&'' then ''%26'' else if c = CHR ''='' then ''%3D''
      else if c = CHR ''%'' then ''%25'' else [c])"

text \<open>\<^verbatim>\<open>segment.replace(/[:?&=%]/g, (c) => ENCODE[c])\<close>: one pass over the characters.\<close>

definition encodeAddressSegment :: "string \<Rightarrow> string" where
  "encodeAddressSegment s = concat (map ENCODE s)"

definition toUpper :: "char \<Rightarrow> char" where
  "toUpper c = (if is_lower c then char_of (code c - 32) else c)"

definition DECODE :: "string \<Rightarrow> char option" where
  "DECODE h =
     (if h = ''3A'' then Some (CHR '':'') else if h = ''3F'' then Some (CHR ''?'')
      else if h = ''26'' then Some (CHR ''&'') else if h = ''3D'' then Some (CHR ''='')
      else if h = ''25'' then Some (CHR ''%'') else None)"

text \<open>\<^verbatim>\<open>segment.replace(/%(3A|3F|26|3D|25)/gi, ...)\<close>: leftmost, non-overlapping, case-insensitive.\<close>

fun decodeAddressSegment :: "string \<Rightarrow> string" where
  "decodeAddressSegment [] = []"
| "decodeAddressSegment (c # r) =
     (case r of
        a # b # r' \<Rightarrow>
          (if c = CHR ''%''
           then (case DECODE [toUpper a, toUpper b] of
                   Some d \<Rightarrow> d # decodeAddressSegment r'
                 | None \<Rightarrow> c # decodeAddressSegment r)
           else c # decodeAddressSegment r)
      | _ \<Rightarrow> c # decodeAddressSegment r)"

definition is_reserved :: "char \<Rightarrow> bool" where
  "is_reserved c \<longleftrightarrow> c \<in> {CHR '':'', CHR ''?'', CHR ''&'', CHR ''='', CHR ''%''}"

definition structural_segment :: "string \<Rightarrow> bool" where
  "structural_segment v \<longleftrightarrow>
     v \<noteq> [] \<and> list_all (\<lambda>c. \<not> (is_reserved c \<or> is_space c \<or> is_control c)) v"

definition variable_segment :: "string \<Rightarrow> bool" where
  "variable_segment v \<longleftrightarrow> v \<noteq> [] \<and> list_all (\<lambda>c. \<not> (is_space c \<or> is_control c)) v"

definition requireSafeInteger :: "int \<Rightarrow> int \<Rightarrow> 'a res \<Rightarrow> 'a res" where
  "requireSafeInteger v minimum k =
     ensure (isSafeInteger v \<and> minimum \<le> v) ''must be a safe integer'' k"

section \<open>Addresses\<close>

text \<open>\<^verbatim>\<open>version: number | string\<close>.\<close>

datatype version_arg = VNumber int | VString string

definition version_digits :: "version_arg \<Rightarrow> string" where
  "version_digits v =
     (case v of
        VNumber n \<Rightarrow> int_text n
      | VString s \<Rightarrow> (case s of c # r \<Rightarrow> if c = CHR ''v'' then r else s | [] \<Rightarrow> []))"

definition listingAddress :: "string \<Rightarrow> string \<Rightarrow> version_arg \<Rightarrow> string res" where
  "listingAddress sellerPrimaryClaim listingId version =
     (let digits = version_digits version
      in ensure (is_canonical_nat digits \<and> isSafeInteger (int (digits_val digits)))
           ''listing address version must be a canonical non-negative safe integer''
         (Inr (''dacs1:'' @ encodeAddressSegment sellerPrimaryClaim @ '':'' @
               encodeAddressSegment listingId @ '':'' @ CHR ''v'' # digits)))"

text \<open>\<^verbatim>\<open>/^[a-z][a-z0-9-]*$/\<close>.\<close>

definition scheme_token :: "string \<Rightarrow> bool" where
  "scheme_token s \<longleftrightarrow>
     (case s of [] \<Rightarrow> False
      | c # r \<Rightarrow> is_lower c \<and> list_all (\<lambda>d. is_lower d \<or> is_digit d \<or> d = CHR ''-'') r)"

definition legacyAttestationAddress :: "string \<Rightarrow> string \<Rightarrow> string \<Rightarrow> int \<Rightarrow> string res" where
  "legacyAttestationAddress jobId scheme identifier recipeVersion =
     ensure (structural_segment jobId) ''attestation address jobId must be a non-empty canonical structural segment''
     (ensure (scheme_token scheme) ''attestation address scheme must be a canonical lowercase token''
     (ensure (variable_segment identifier) ''attestation address identifier must be non-empty canonical text''
     (requireSafeInteger recipeVersion 1
     (Inr (''dacs2:'' @ jobId @ '':'' @ scheme @ '':'' @ encodeAddressSegment identifier @ '':'' @
           CHR ''v'' # int_text recipeVersion)))))"

definition attestationAddress :: "string \<Rightarrow> string \<Rightarrow> string \<Rightarrow> int \<Rightarrow> string res" where
  "attestationAddress jobId scheme identifier recipeVersion =
     bindR (requireCanonicalJobId jobId)
       (\<lambda>_. legacyAttestationAddress jobId scheme identifier recipeVersion)"

definition legacyPaymentEvidenceAddress :: "string \<Rightarrow> string \<Rightarrow> int \<Rightarrow> bool \<Rightarrow> string res" where
  "legacyPaymentEvidenceAddress jobId railId phaseIndex resolved =
     ensure (structural_segment jobId) ''payment evidence address jobId must be a non-empty canonical structural segment''
     (ensure (variable_segment railId) ''payment evidence address railId must be non-empty canonical text''
     (requireSafeInteger phaseIndex 0
     (Inr (''dacs4:payment:'' @ jobId @ '':'' @ encodeAddressSegment railId @ '':'' @ int_text phaseIndex @
           (if resolved then '':resolved'' else [])))))"

definition paymentEvidenceAddress :: "string \<Rightarrow> string \<Rightarrow> int \<Rightarrow> bool \<Rightarrow> string res" where
  "paymentEvidenceAddress jobId railId phaseIndex resolved =
     bindR (requireCanonicalJobId jobId)
       (\<lambda>_. legacyPaymentEvidenceAddress jobId railId phaseIndex resolved)"

definition legacyRatingAddress :: "string \<Rightarrow> string \<Rightarrow> string res" where
  "legacyRatingAddress jobId rater =
     ensure (structural_segment jobId) ''rating address jobId must be a non-empty canonical structural segment''
     (ensure (variable_segment rater) ''rating address rater must be non-empty canonical text''
     (Inr (''dacs5:rating:'' @ jobId @ '':'' @ encodeAddressSegment rater)))"

definition ratingAddress :: "string \<Rightarrow> string \<Rightarrow> string res" where
  "ratingAddress jobId rater = bindR (requireCanonicalJobId jobId) (\<lambda>_. legacyRatingAddress jobId rater)"

definition storAddress :: "(string \<Rightarrow> string) \<Rightarrow> string \<Rightarrow> string" where
  "storAddress sha256Hex seed = ''stor-'' @ sha256Hex seed"

definition legacyBundleAddress :: "(string \<Rightarrow> string) \<Rightarrow> string \<Rightarrow> string \<Rightarrow> string" where
  "legacyBundleAddress sha256Hex jobId role = storAddress sha256Hex (jobId @ ''-bundle-'' @ role)"

definition bundleAddress :: "(string \<Rightarrow> string) \<Rightarrow> string \<Rightarrow> string \<Rightarrow> string res" where
  "bundleAddress sha256Hex jobId role =
     bindR (requireCanonicalJobId jobId) (\<lambda>_.
       ensure (role \<in> {''buyer'', ''seller'', ''orchestrator''})
         ''bundle address role must be buyer, seller, or orchestrator''
       (Inr (legacyBundleAddress sha256Hex jobId role)))"

definition logicalToStorageProgramName :: "string \<Rightarrow> string" where
  "logicalToStorageProgramName a = concat (map (\<lambda>c. if c = CHR '':'' then ''%3A'' else [c]) a)"

section \<open>Segment lemmas\<close>

lemma encode_Nil [simp]: "encodeAddressSegment [] = []"
  by (simp add: encodeAddressSegment_def)

lemma encode_Cons: "encodeAddressSegment (c # s) = ENCODE c @ encodeAddressSegment s"
  by (simp add: encodeAddressSegment_def)

lemma decode_plain: "c \<noteq> CHR ''%'' \<Longrightarrow> decodeAddressSegment (c # r) = c # decodeAddressSegment r"
  by (simp split: list.split)

lemma toUpper_hex [simp]:
  "toUpper (CHR ''2'') = CHR ''2''" "toUpper (CHR ''3'') = CHR ''3''" "toUpper (CHR ''5'') = CHR ''5''"
  "toUpper (CHR ''6'') = CHR ''6''" "toUpper (CHR ''A'') = CHR ''A''" "toUpper (CHR ''D'') = CHR ''D''"
  "toUpper (CHR ''F'') = CHR ''F''"
  by (simp_all add: toUpper_def is_lower_def)

lemma decode_ENCODE: "decodeAddressSegment (ENCODE c @ r) = c # decodeAddressSegment r"
proof (cases "is_reserved c")
  case True
  then show ?thesis by (auto simp: is_reserved_def ENCODE_def DECODE_def)
next
  case False
  then have "ENCODE c = [c]" "c \<noteq> CHR ''%''" by (simp_all add: ENCODE_def is_reserved_def)
  then show ?thesis using decode_plain by simp
qed

lemma decode_encode: "decodeAddressSegment (encodeAddressSegment s) = s"
  by (induction s) (simp_all add: encode_Cons decode_ENCODE del: decodeAddressSegment.simps(2))

interpretation segment: lossless encodeAddressSegment decodeAddressSegment
  by unfold_locales (rule decode_encode)

lemma encode_no_colon: "CHR '':'' \<notin> set (encodeAddressSegment s)"
  by (induction s) (auto simp: encode_Cons ENCODE_def)

lemma structural_no_colon: "structural_segment v \<Longrightarrow> CHR '':'' \<notin> set v"
  by (auto simp: structural_segment_def is_reserved_def list_all_iff)

lemma scheme_no_colon: "scheme_token v \<Longrightarrow> CHR '':'' \<notin> set v"
  by (auto simp: scheme_token_def is_lower_def is_digit_def list_all_iff split: list.splits)

lemma int_text_nonneg: "0 \<le> i \<Longrightarrow> int_text i = nat_text (nat i)"
  by (simp add: int_text_def)

lemma int_text_no_colon: "0 \<le> i \<Longrightarrow> CHR '':'' \<notin> set (int_text i)"
  by (simp add: int_text_nonneg nat_text_no_char is_digit_def)

lemma int_text_inject: "0 \<le> i \<Longrightarrow> 0 \<le> j \<Longrightarrow> int_text i = int_text j \<longleftrightarrow> i = j"
  by (auto simp: int_text_nonneg nat_text.enc_eq_iff)

lemmas address_defs = listingAddress_def attestationAddress_def legacyAttestationAddress_def
  paymentEvidenceAddress_def legacyPaymentEvidenceAddress_def ratingAddress_def legacyRatingAddress_def
  requireSafeInteger_def requireCanonicalJobId_def

lemmas no_colon = encode_no_colon structural_no_colon scheme_no_colon int_text_no_colon

section \<open>Address families\<close>

text \<open>
  A logical name is what an address stands for. \<open>address\<close> is the address the SDK writes it at;
  the version of a listing is its digits, since \<^verbatim>\<open>1\<close>, \<^verbatim>\<open>"1"\<close> and \<^verbatim>\<open>"v1"\<close> name the same one.
\<close>

datatype logical_name =
    Listing_Name string string string
  | Attestation_Name string string string int
  | Payment_Name string string int bool
  | Rating_Name string string

fun address :: "logical_name \<Rightarrow> string res" where
  "address (Listing_Name claim listing digits) = listingAddress claim listing (VString (CHR ''v'' # digits))"
| "address (Attestation_Name job scheme ident v) = legacyAttestationAddress job scheme ident v"
| "address (Payment_Name job rail idx resolved) = legacyPaymentEvidenceAddress job rail idx resolved"
| "address (Rating_Name job rater) = legacyRatingAddress job rater"

lemma payment_tail_neq [simp]:
  "0 \<le> p \<Longrightarrow> 0 \<le> q \<Longrightarrow> int_text p @ '':resolved'' \<noteq> int_text q"
  "0 \<le> p \<Longrightarrow> 0 \<le> q \<Longrightarrow> int_text q \<noteq> int_text p @ '':resolved''"
  using int_text_no_colon [of q] by (metis Un_iff list.set_intros(1) set_append)+

lemma address_inject_same:
  "listingAddress c l (VString (CHR ''v'' # d)) = Inr a \<Longrightarrow>
   listingAddress c' l' (VString (CHR ''v'' # d')) = Inr a \<Longrightarrow> c = c' \<and> l = l' \<and> d = d'"
  "legacyAttestationAddress j s i v = Inr a \<Longrightarrow> legacyAttestationAddress j' s' i' v' = Inr a \<Longrightarrow>
   j = j' \<and> s = s' \<and> i = i' \<and> v = v'"
  "legacyPaymentEvidenceAddress j r p z = Inr a \<Longrightarrow> legacyPaymentEvidenceAddress j' r' p' z' = Inr a \<Longrightarrow>
   j = j' \<and> r = r' \<and> p = p' \<and> z = z'"
  "legacyRatingAddress j r = Inr a \<Longrightarrow> legacyRatingAddress j' r' = Inr a \<Longrightarrow> j = j' \<and> r = r'"
  by (auto simp: address_defs res_simps Let_def version_digits_def separator_split no_colon
      segment.enc_eq_iff int_text_inject split: if_splits)

lemma address_families:
  assumes "address n = Inr a"
  shows "case n of
      Listing_Name _ _ _ \<Rightarrow> take 6 a = ''dacs1:'' | Attestation_Name _ _ _ _ \<Rightarrow> take 6 a = ''dacs2:''
    | Payment_Name _ _ _ _ \<Rightarrow> take 6 a = ''dacs4:'' | Rating_Name _ _ \<Rightarrow> take 6 a = ''dacs5:''"
  using assms by (cases n) (auto simp: address_defs res_simps Let_def)

text \<open>
  Property C38. Logical addresses never collide: two names, of any two address families, that are
  written at the same address are the same name. CF-4 percent-encoding of the variable segments
  is what makes the colon a reliable separator.
\<close>

theorem address_collision_free:
  assumes "address n = Inr a" and "address m = Inr a"
  shows "n = m"
  using assms address_families [OF assms(1)] address_families [OF assms(2)]
  by (cases n; cases m) (auto dest: address_inject_same)

theorem address_collision_free_witness:
  "\<exists>a. address (Listing_Name ''did:demos:a'' ''b:c'' ''1'') = Inr a \<and>
       (\<forall>m. address m = Inr a \<longrightarrow> m = Listing_Name ''did:demos:a'' ''b:c'' ''1'')"
proof -
  have a: "address (Listing_Name ''did:demos:a'' ''b:c'' ''1'') = Inr ''dacs1:did%3Ademos%3Aa:b%3Ac:v1''"
    by code_simp
  from address_collision_free [OF _ a] a show ?thesis by blast
qed

text \<open>
  The storage-program name is not collision-free, contrary to its documentation: two
  different listing addresses, of two different sellers, get the same storage-program name,
  because an encoded colon inside a segment and a structural colon become the same text.
\<close>

theorem storage_program_name_collision:
  "listingAddress ''did:demos:a'' ''b:c'' (VNumber 1) = Inr ''dacs1:did%3Ademos%3Aa:b%3Ac:v1'' \<and>
   listingAddress ''did:demos:a:b'' ''c'' (VNumber 1) = Inr ''dacs1:did%3Ademos%3Aa%3Ab:c:v1'' \<and>
   logicalToStorageProgramName ''dacs1:did%3Ademos%3Aa:b%3Ac:v1'' =
   logicalToStorageProgramName ''dacs1:did%3Ademos%3Aa%3Ab:c:v1''"
  by (intro conjI; code_simp)

lemma program_name_colon_free: "CHR '':'' \<notin> set (logicalToStorageProgramName a)"
  by (induction a) (auto simp: logicalToStorageProgramName_def)

lemma program_name_id: "CHR '':'' \<notin> set a \<Longrightarrow> logicalToStorageProgramName a = a"
  by (induction a) (auto simp: logicalToStorageProgramName_def)

text \<open>The storage-program name is colon-free and the encoding is idempotent.\<close>

theorem program_name_idempotent:
  "CHR '':'' \<notin> set (logicalToStorageProgramName a) \<and>
   logicalToStorageProgramName (logicalToStorageProgramName a) = logicalToStorageProgramName a"
  by (simp add: program_name_colon_free program_name_id)

section \<open>Generated job identifiers\<close>

text \<open>The reference encoding: the last \<open>n\<close> base-32 digits, most significant first.\<close>

fun base32 :: "nat \<Rightarrow> nat \<Rightarrow> string" where
  "base32 0 e = []"
| "base32 (Suc n) e = base32 n (e div 32) @ [CROCKFORD_BASE32 ! (e mod 32)]"

lemma and_31: "(e :: nat) AND 31 = e mod 32"
  using take_bit_eq_mod [of 5 e] take_bit_eq_mask [of 5 e] by (simp add: mask_eq_exp_minus_1)

lemma ulid_loop_base32: "ulid_loop n e out = base32 n e @ out"
  by (induction n arbitrary: e out) (simp_all add: and_31 drop_bit_eq_div)

lemma length_base32 [simp]: "length (base32 n e) = n"
  by (induction n arbitrary: e) simp_all

text \<open>The alphabet is strictly increasing and consists of Crockford characters.\<close>

lemma alphabet_sorted: "sorted_wrt (<) CROCKFORD_BASE32"
  by code_simp

lemma alphabet_length [simp]: "length CROCKFORD_BASE32 = 32"
  by code_simp

lemma alphabet_crockford: "list_all is_crockford CROCKFORD_BASE32"
  by code_simp

lemma alphabet_less: "i < 32 \<Longrightarrow> j < 32 \<Longrightarrow> CROCKFORD_BASE32 ! i < CROCKFORD_BASE32 ! j \<longleftrightarrow> i < j"
  using sorted_wrt_nth_less [OF alphabet_sorted] by (metis alphabet_length linorder_neqE_nat order_less_asym)

lemma base32_crockford: "list_all is_crockford (base32 n e)"
proof (induction n arbitrary: e)
  case (Suc n)
  have "CROCKFORD_BASE32 ! (e mod 32) \<in> set CROCKFORD_BASE32" by (simp add: nth_mem)
  then show ?case using Suc alphabet_crockford by (simp add: list_all_iff)
qed simp

lemma lex_append_same_length:
  "length xs = length ys \<Longrightarrow> (xs :: char list) < ys \<Longrightarrow> xs @ u < ys @ v"
  by (induction xs ys rule: list_induct2) auto

lemma lex_snoc: "(a :: char) < b \<Longrightarrow> xs @ [a] < xs @ [b]"
  by (induction xs) auto

lemma base32_mono: "e < e' \<Longrightarrow> e' < 32 ^ n \<Longrightarrow> base32 n e < base32 n e'"
proof (induction n arbitrary: e e')
  case (Suc n)
  show ?case
  proof (cases "e div 32 = e' div 32")
    case True
    with Suc.prems have "e mod 32 < e' mod 32" by (metis div_mult_mod_eq nat_add_left_cancel_less)
    then show ?thesis using True by (simp add: lex_snoc alphabet_less)
  next
    case False
    with Suc.prems have "e div 32 < e' div 32" by (metis div_le_mono le_neq_implies_less less_imp_le)
    moreover have "e' div 32 < 32 ^ n" using Suc.prems by (simp add: div_less_iff_less_mult)
    ultimately show ?thesis using Suc.IH by (simp add: lex_append_same_length)
  qed
qed simp

lemma or_shift:
  assumes "b < 2 ^ k"
  shows "push_bit k (r :: nat) OR b = r * 2 ^ k + b"
proof -
  have "push_bit k r AND take_bit k b = 0" by (rule bit_eqI) (auto simp: bit_simps)
  then have "push_bit k r AND b = 0" using assms by (simp add: take_bit_nat_eq_self)
  then show ?thesis by (simp add: disjunctive_add_eq_or [symmetric] push_bit_eq_mult)
qed

text \<open>The numeric meaning of ten bytes, and of the whole identifier.\<close>

lemma ulid_randomness_snoc: "ulid_randomness (bs @ [b]) = ulid_randomness bs * 256 + unat b"
  using or_shift [of "unat b" 8 "ulid_randomness bs"] unsigned_less [of b] by (simp add: ulid_randomness_def)

lemma ulid_randomness_less: "ulid_randomness bs < 256 ^ length bs"
proof (induction bs rule: rev_induct)
  case (snoc b bs)
  moreover have "unat b < 256" using unsigned_less [of b] by simp
  ultimately show ?case by (simp add: ulid_randomness_snoc)
qed (simp add: ulid_randomness_def)

lemma ulid_randomness_inject:
  "length bs = length cs \<Longrightarrow> ulid_randomness bs = ulid_randomness cs \<Longrightarrow> bs = cs"
proof (induction bs cs rule: rev_induct2)
  case (4 b bs c cs)
  moreover have "unat b < 256" "unat c < 256" using unsigned_less [of b] unsigned_less [of c] by simp_all
  ultimately have "ulid_randomness bs = ulid_randomness cs" "unat b = unat c"
    by (simp_all add: ulid_randomness_snoc)
  then show ?case using 4 by (simp add: word_unat_eq_iff)
qed auto

definition ulid_number :: "int \<Rightarrow> 8 word list \<Rightarrow> nat" where
  "ulid_number t bs = nat t * 2 ^ 80 + ulid_randomness bs"

lemma generate_eq:
  assumes "generateCanonicalJobId t bs = Inr s"
  shows "s = base32 26 (ulid_number t bs)" "length bs = 10" "0 \<le> t" "ulid_number t bs < 2 ^ 128"
    "ulid_randomness bs < 2 ^ 80"
proof -
  show len: "length bs = 10" and t: "0 \<le> t"
    using assms by (simp_all add: generateCanonicalJobId_def res_simps)
  show r: "ulid_randomness bs < 2 ^ 80" using ulid_randomness_less [of bs] len by simp
  show "s = base32 26 (ulid_number t bs)"
    using assms or_shift [OF r, of "nat t"]
    by (simp add: generateCanonicalJobId_def res_simps ulid_loop_base32 ulid_number_def del: base32.simps)
  have "t \<le> 2 ^ 48 - 1" using assms by (simp add: generateCanonicalJobId_def res_simps MAX_ULID_TIME_def)
  then have "nat t \<le> 2 ^ 48 - 1" by simp
  then show "ulid_number t bs < 2 ^ 128" using r by (simp add: ulid_number_def)
qed

lemma base32_numeral:
  "base32 (numeral k) e = base32 (pred_numeral k) (e div 32) @ [CROCKFORD_BASE32 ! (e mod 32)]"
  unfolding numeral_eq_Suc [of k] by (rule base32.simps(2))

lemma base32_hd: "e < 8 * 32 ^ n \<Longrightarrow> \<exists>i < 8. hd (base32 (Suc n) e) = CROCKFORD_BASE32 ! i"
proof (induction n arbitrary: e)
  case (Suc n)
  then have "e div 32 < 8 * 32 ^ n" by (simp add: div_less_iff_less_mult)
  then obtain i where "i < 8" "hd (base32 (Suc n) (e div 32)) = CROCKFORD_BASE32 ! i"
    using Suc.IH by blast
  moreover have "base32 (Suc n) (e div 32) \<noteq> []" by simp
  ultimately show ?case by (metis base32.simps(2) hd_append2)
qed (auto intro: exI [of _ e])

text \<open>
  A generated job id is a canonical ULID, and generation is order-preserving and
  injective: a later millisecond sorts strictly after an earlier one, whatever the entropy, and
  equal ids come only from equal time and entropy.
\<close>

theorem generateCanonicalJobId_correct:
  assumes "generateCanonicalJobId t bs = Inr s" and "generateCanonicalJobId t' bs' = Inr s'"
  shows "isCanonicalJobId s \<and> (t < t' \<longrightarrow> s < s') \<and> (s = s' \<longleftrightarrow> t = t' \<and> bs = bs')"
proof -
  note g = generate_eq [OF assms(1)] and g' = generate_eq [OF assms(2)]
  have "ulid_number t bs < 8 * 32 ^ 25" using g(4) by simp
  moreover have "s = base32 (Suc 25) (ulid_number t bs)" using g(1) by (simp del: base32.simps)
  ultimately obtain i where i: "i < 8" "hd s = CROCKFORD_BASE32 ! i"
    using base32_hd by blast
  have "\<forall>i < 8. 48 \<le> code (CROCKFORD_BASE32 ! i) \<and> code (CROCKFORD_BASE32 ! i) \<le> 55" by code_simp
  with i have hd: "48 \<le> code (hd s) \<and> code (hd s) \<le> 55" by simp
  have "list_all is_crockford s" using g(1) base32_crockford by simp
  then have "list_all is_crockford (tl s)" by (cases s) simp_all
  moreover have "length s = 26" using g(1) by simp
  ultimately have c: "isCanonicalJobId s" using hd by (simp add: isCanonicalJobId_def)
  have mono: "base32 26 m < base32 26 n" if "m < n" "n < 2 ^ 128" for m n
    using that by (intro base32_mono) simp_all
  have lt: "s < s'" if "t < t'"
  proof -
    have "Suc (nat t) * 2 ^ 80 \<le> nat t' * 2 ^ 80" using that g(3) by (intro mult_le_mono1) simp
    then have "ulid_number t bs < ulid_number t' bs'" using g(5) by (simp add: ulid_number_def)
    then show ?thesis using mono g(1) g'(1,4) by metis
  qed
  have "t = t' \<and> bs = bs'" if "s = s'"
  proof -
    have "ulid_number t bs = ulid_number t' bs'"
      using that mono g(1,4) g'(1,4) by (metis linorder_neqE_nat order_less_irrefl)
    then have e: "nat t * 2 ^ 80 + ulid_randomness bs = nat t' * 2 ^ 80 + ulid_randomness bs'"
      by (simp add: ulid_number_def)
    have "ulid_randomness bs = ulid_randomness bs'"
      using arg_cong [OF e, of "\<lambda>x. x mod 2 ^ 80"] g(5) g'(5) by simp
    with e g(2,3) g'(2,3) show ?thesis using ulid_randomness_inject [of bs bs'] by auto
  qed
  with c lt show ?thesis using g(1) g'(1) by blast
qed

theorem generateCanonicalJobId_correct_witness:
  "''00000000010000000000000000'' < ''00000000020000000000000000''"
proof -
  have r: "ulid_randomness (replicate 10 0) = 0" by (simp add: ulid_randomness_def numeral_eq_Suc)
  have "generateCanonicalJobId 1 (replicate 10 0) = Inr ''00000000010000000000000000''"
    "generateCanonicalJobId 2 (replicate 10 0) = Inr ''00000000020000000000000000''"
    by (simp_all add: generateCanonicalJobId_def r ulid_loop_base32 base32_numeral isSafeInteger_def
        max_safe_def MAX_ULID_TIME_def CROCKFORD_BASE32_def push_bit_eq_mult)
  from generateCanonicalJobId_correct [OF this] show ?thesis by simp
qed

end
