(* ===== verification/Dacs_Session.thy ===== *)
theory Dacs_Session
  imports Dacs_Prelude
begin

text \<open>
  The DACS-5 session state machine (\<^verbatim>\<open>src/src/agent/sessionSemantics.ts\<close>): the transition
  table with its guarded edges (abort before irreversible settlement, pause and resume) and the
  projection of a terminal state to a bundle outcome. The table is then run as a step relation
  over a session that remembers where it was paused and which states it has been in.
\<close>

section \<open>The transition table\<close>

datatype session_state =
    Draft | Vet_Pending | Vet_Completed | Vet_Failed
  | Negotiate_Pending | Negotiate_Completed | Negotiate_Failed
  | Commit_Pending | Commit_Completed | Commit_Failed
  | Settle_Pending | Settle_Asymmetric | Settle_Completed | Settle_Failed
  | Rate_Pending | Rate_Completed | Audit_Pending | Finalised
  | Aborted_By_Self | Aborted_By_Other | Substrate_Failure_Paused | Failed_Substrate

record transition_context =
  pausedFrom :: "session_state option"
  settlementIrreversible :: "bool option"

definition RESUMABLE :: "session_state list" where
  "RESUMABLE = [Vet_Pending, Negotiate_Pending, Commit_Pending, Settle_Pending, Settle_Asymmetric, Audit_Pending]"

fun NEXT :: "session_state \<Rightarrow> session_state list" where
  "NEXT Draft = [Vet_Pending]"
| "NEXT Vet_Pending = [Vet_Completed, Vet_Failed, Aborted_By_Self, Aborted_By_Other]"
| "NEXT Vet_Completed = [Negotiate_Pending]"
| "NEXT Negotiate_Pending = [Negotiate_Completed, Negotiate_Failed, Aborted_By_Self, Aborted_By_Other]"
| "NEXT Negotiate_Completed = [Commit_Pending]"
| "NEXT Commit_Pending = [Commit_Completed, Commit_Failed, Aborted_By_Self, Aborted_By_Other]"
| "NEXT Commit_Completed = [Settle_Pending]"
| "NEXT Settle_Pending =
     [Settle_Completed, Settle_Asymmetric, Settle_Failed, Aborted_By_Self, Aborted_By_Other]"
| "NEXT Settle_Asymmetric = [Settle_Completed, Settle_Failed]"
| "NEXT Settle_Completed = [Rate_Pending, Audit_Pending]"
| "NEXT Rate_Pending = [Rate_Completed, Audit_Pending]"
| "NEXT Rate_Completed = [Audit_Pending]"
| "NEXT Audit_Pending = [Finalised]"
| "NEXT _ = []"

definition isDacs5SessionTransitionAllowed ::
  "session_state \<Rightarrow> session_state \<Rightarrow> transition_context \<Rightarrow> bool" where
  "isDacs5SessionTransitionAllowed from to ctx =
     (if from = Settle_Pending \<and> (to = Aborted_By_Self \<or> to = Aborted_By_Other)
      then settlementIrreversible ctx = Some False
      else if to = Substrate_Failure_Paused
      then from \<in> set RESUMABLE \<and> pausedFrom ctx = Some from
      else if from = Substrate_Failure_Paused
      then (case pausedFrom ctx of
              None \<Rightarrow> False
            | Some p \<Rightarrow> p \<in> set RESUMABLE \<and> (to = p \<or> to = Failed_Substrate))
      else to \<in> set (NEXT from))"

section \<open>Bundle outcomes of terminal states\<close>

datatype error_class = Permanent | Transient | Counterparty | Settlement_Atomicity | Substrate

datatype session_outcome =
    Completed | Failed_Perm | Failed_Counterparty | Outcome_Failed_Substrate
  | Outcome_Aborted_By_Self | Outcome_Aborted_By_Other

definition dacs5BundleOutcomeForTerminalState ::
  "session_state \<Rightarrow> error_class option \<Rightarrow> session_outcome option" where
  "dacs5BundleOutcomeForTerminalState state errorClass =
     (if state = Finalised then (if errorClass = None then Some Completed else None)
      else if state = Aborted_By_Self then (if errorClass = None then Some Outcome_Aborted_By_Self else None)
      else if state = Aborted_By_Other then (if errorClass = None then Some Outcome_Aborted_By_Other else None)
      else if state = Failed_Substrate
      then (if errorClass = Some Substrate then Some Outcome_Failed_Substrate else None)
      else if state \<noteq> Vet_Failed \<and> state \<noteq> Negotiate_Failed \<and> state \<noteq> Commit_Failed \<and> state \<noteq> Settle_Failed
      then None
      else if errorClass = Some Permanent \<or> errorClass = Some Transient then Some Failed_Perm
      else if errorClass = Some Counterparty \<or> errorClass = Some Settlement_Atomicity
      then Some Failed_Counterparty
      else None)"

section \<open>Sessions as a step relation\<close>

text \<open>
  A persisted session: its state, the state recorded when a pause was entered (ST-7), and the
  states it has been in. \<open>irreversible\<close> is the settlement flag the orchestrator supplies.
\<close>

record session =
  sess_state :: session_state
  sess_paused :: "session_state option"
  sess_log :: "session_state list"

definition new_session :: session where
  "new_session = \<lparr>sess_state = Draft, sess_paused = None, sess_log = [Draft]\<rparr>"

definition enter :: "session \<Rightarrow> session_state \<Rightarrow> session" where
  "enter s to =
     \<lparr>sess_state = to,
      sess_paused = (if to = Substrate_Failure_Paused then Some (sess_state s) else None),
      sess_log = to # sess_log s\<rparr>"

definition step_context :: "session \<Rightarrow> session_state \<Rightarrow> bool option \<Rightarrow> transition_context" where
  "step_context s to irreversible =
     \<lparr>pausedFrom = (if to = Substrate_Failure_Paused then Some (sess_state s) else sess_paused s),
      settlementIrreversible = irreversible\<rparr>"

inductive session_step :: "session \<Rightarrow> session \<Rightarrow> bool" where
  move: "isDacs5SessionTransitionAllowed (sess_state s) to (step_context s to irreversible)
     \<Longrightarrow> session_step s (enter s to)"

inductive_simps session_step_iff: "session_step s t"

abbreviation session_run :: "session \<Rightarrow> session \<Rightarrow> bool" where
  "session_run \<equiv> session_step\<^sup>*\<^sup>*"

definition terminal_states :: "session_state set" where
  "terminal_states = {Vet_Failed, Negotiate_Failed, Commit_Failed, Settle_Failed, Finalised,
     Aborted_By_Self, Aborted_By_Other, Failed_Substrate}"

text \<open>What a state presupposes: the completion states a session must have passed through.\<close>

fun completed_before :: "session_state \<Rightarrow> session_state set" where
  "completed_before Negotiate_Pending = {Vet_Completed}"
| "completed_before Negotiate_Completed = {Vet_Completed}"
| "completed_before Commit_Pending = {Vet_Completed, Negotiate_Completed}"
| "completed_before Commit_Completed = {Vet_Completed, Negotiate_Completed}"
| "completed_before Settle_Pending = {Vet_Completed, Negotiate_Completed, Commit_Completed}"
| "completed_before Settle_Asymmetric = {Vet_Completed, Negotiate_Completed, Commit_Completed}"
| "completed_before Settle_Completed = {Vet_Completed, Negotiate_Completed, Commit_Completed}"
| "completed_before Rate_Pending = {Vet_Completed, Negotiate_Completed, Commit_Completed, Settle_Completed}"
| "completed_before Rate_Completed = {Vet_Completed, Negotiate_Completed, Commit_Completed, Settle_Completed}"
| "completed_before Audit_Pending = {Vet_Completed, Negotiate_Completed, Commit_Completed, Settle_Completed}"
| "completed_before Finalised = {Vet_Completed, Negotiate_Completed, Commit_Completed, Settle_Completed}"
| "completed_before _ = {}"

definition session_inv :: "session \<Rightarrow> bool" where
  "session_inv s \<longleftrightarrow>
     sess_state s \<in> set (sess_log s) \<and> completed_before (sess_state s) \<subseteq> set (sess_log s) \<and>
     (sess_state s = Substrate_Failure_Paused \<longleftrightarrow> sess_paused s \<noteq> None) \<and>
     (\<forall>p. sess_paused s = Some p \<longrightarrow> p \<in> set RESUMABLE \<and> completed_before p \<subseteq> set (sess_log s))"

lemma session_inv_new: "session_inv new_session"
  by (simp add: session_inv_def new_session_def)

text \<open>One table edge at a time: what the source state presupposes, with the state itself, covers the target.\<close>

lemma NEXT_completed_before:
  "to \<in> set (NEXT from) \<Longrightarrow> completed_before to \<subseteq> insert from (completed_before from)"
  by (cases "from") auto

lemma NEXT_not_paused: "Substrate_Failure_Paused \<notin> set (NEXT from)"
  by (cases "from") auto

lemma abort_completed_before: "completed_before Aborted_By_Self = {}" "completed_before Aborted_By_Other = {}"
  by simp_all

lemma allowed_cases:
  assumes "isDacs5SessionTransitionAllowed from to ctx"
  obtains (pause) "to = Substrate_Failure_Paused" "from \<in> set RESUMABLE" "pausedFrom ctx = Some from"
  | (resume) p where "from = Substrate_Failure_Paused" "pausedFrom ctx = Some p" "p \<in> set RESUMABLE"
      "to = p \<or> to = Failed_Substrate"
  | (edge) "to \<in> set (NEXT from)"
  using assms by (auto simp: isDacs5SessionTransitionAllowed_def split: if_splits option.splits)

lemma session_inv_step: "session_inv s \<Longrightarrow> session_step s t \<Longrightarrow> session_inv t"
proof (erule session_step.cases)
  fix s' to irr
  assume inv: "session_inv s" and eq: "s = s'" "t = enter s' to"
    and ok: "isDacs5SessionTransitionAllowed (sess_state s') to (step_context s' to irr)"
  from ok show "session_inv t"
  proof (cases rule: allowed_cases)
    case pause
    then show ?thesis using inv eq by (auto simp: session_inv_def enter_def)
  next
    case (resume p)
    then show ?thesis using inv eq
      by (auto simp: session_inv_def enter_def step_context_def RESUMABLE_def split: if_splits)
  next
    case edge
    then show ?thesis using inv eq NEXT_completed_before [OF edge] NEXT_not_paused [of "sess_state s'"]
      by (auto simp: session_inv_def enter_def)
  qed
qed

interpretation session: invariant_system "\<lambda>s. s = new_session" session_step session_inv
  by unfold_locales (auto intro: session_inv_new session_inv_step)

section \<open>Following a path of the table\<close>

fun follow :: "session \<Rightarrow> session_state list \<Rightarrow> session option" where
  "follow s [] = Some s"
| "follow s (x # xs) =
     (if isDacs5SessionTransitionAllowed (sess_state s) x (step_context s x None)
      then follow (enter s x) xs else None)"

lemma follow_run: "follow s xs = Some t \<Longrightarrow> session_run s t"
proof (induction xs arbitrary: s)
  case (Cons x xs)
  then have "session_step s (enter s x)" "session_run (enter s x) t"
    by (auto intro: session_step.intros split: if_splits)
  then show ?case by (rule converse_rtranclp_into_rtranclp)
qed simp

text \<open>The shortest way from a state to \<^verbatim>\<open>finalised\<close>.\<close>

definition main_line :: "session_state list" where
  "main_line = [Draft, Vet_Pending, Vet_Completed, Negotiate_Pending, Negotiate_Completed, Commit_Pending,
     Commit_Completed, Settle_Pending, Settle_Completed, Audit_Pending, Finalised]"

definition way_out :: "session_state \<Rightarrow> session_state list" where
  "way_out s =
     (if s = Settle_Asymmetric then [Settle_Completed, Audit_Pending, Finalised]
      else if s = Rate_Pending \<or> s = Rate_Completed then [Audit_Pending, Finalised]
      else tl (dropWhile (\<lambda>x. x \<noteq> s) main_line))"

lemma follow_way_out:
  "sess_state s \<notin> terminal_states \<Longrightarrow> sess_state s \<noteq> Substrate_Failure_Paused \<Longrightarrow>
   \<exists>t. follow s (way_out (sess_state s)) = Some t \<and> sess_state t = Finalised"
  by (cases "sess_state s")
    (simp_all add: terminal_states_def isDacs5SessionTransitionAllowed_def enter_def way_out_def main_line_def)

section \<open>Properties\<close>

text \<open>
  Property C37. A finalised session has been through every stage: along any run of the transition
  table from a new session, whatever pauses and resumptions happen on the way, reaching
  \<^verbatim>\<open>finalised\<close> implies that vetting, negotiation, commitment and settlement all completed.
\<close>

theorem finalised_passed_every_stage:
  assumes "session_run new_session s" and "sess_state s = Finalised"
  shows "{Vet_Completed, Negotiate_Completed, Commit_Completed, Settle_Completed} \<subseteq> set (sess_log s)"
  using session.inv_reachable [OF refl assms(1)] assms(2) by (simp add: session_inv_def)

theorem finalised_passed_every_stage_witness:
  "\<exists>s. session_run new_session s \<and> sess_state s = Finalised \<and> Settle_Completed \<in> set (sess_log s)"
proof -
  obtain s where "follow new_session (way_out Draft) = Some s" and s: "sess_state s = Finalised"
    using follow_way_out [of new_session] by (auto simp: new_session_def terminal_states_def)
  then have "session_run new_session s" by (simp add: follow_run)
  with finalised_passed_every_stage [OF this s] s show ?thesis by blast
qed

text \<open>
  No session is stuck short of a verdict: from every reachable session whose state is
  not terminal, including one paused by a substrate failure, some run finalises it.
\<close>

theorem reachable_session_can_finalise:
  assumes "session_run new_session s" and "sess_state s \<notin> terminal_states"
  shows "\<exists>t. session_run s t \<and> sess_state t = Finalised"
proof -
  have inv: "session_inv s" using session.inv_reachable [OF refl assms(1)] .
  have go: "\<exists>t. session_run u t \<and> sess_state t = Finalised"
    if "sess_state u \<notin> terminal_states" "sess_state u \<noteq> Substrate_Failure_Paused" for u
    using follow_way_out [OF that] follow_run by blast
  show ?thesis
  proof (cases "sess_state s = Substrate_Failure_Paused")
    case True
    then obtain p where p: "sess_paused s = Some p" "p \<in> set RESUMABLE"
      using inv by (auto simp: session_inv_def)
    then have "session_step s (enter s p)"
      using True by (intro session_step.intros [of _ _ None])
        (auto simp: isDacs5SessionTransitionAllowed_def step_context_def RESUMABLE_def)
    moreover have "\<exists>t. session_run (enter s p) t \<and> sess_state t = Finalised"
      using p(2) by (intro go) (auto simp: enter_def RESUMABLE_def terminal_states_def)
    ultimately show ?thesis by (meson converse_rtranclp_into_rtranclp)
  qed (use go assms(2) in blast)
qed

theorem reachable_session_can_finalise_witness:
  "\<exists>t. session_run (enter (enter new_session Vet_Pending) Substrate_Failure_Paused) t \<and> sess_state t = Finalised"
proof (rule reachable_session_can_finalise)
  have "follow new_session [Vet_Pending, Substrate_Failure_Paused] =
    Some (enter (enter new_session Vet_Pending) Substrate_Failure_Paused)"
    by (simp add: isDacs5SessionTransitionAllowed_def new_session_def enter_def step_context_def RESUMABLE_def)
  then show "session_run new_session (enter (enter new_session Vet_Pending) Substrate_Failure_Paused)"
    by (rule follow_run)
qed (simp add: enter_def terminal_states_def)

text \<open>
  The states without an outgoing transition, under any context, are exactly the states
  that project to a bundle outcome for some error class: the outcome projection is defined on
  terminal states and on nothing else.
\<close>

theorem terminal_iff_bundle_outcome:
  "(\<nexists>to ctx. isDacs5SessionTransitionAllowed s to ctx) \<longleftrightarrow>
   (\<exists>ec out. dacs5BundleOutcomeForTerminalState s ec = Some out)"
proof -
  have "(\<exists>to ctx. isDacs5SessionTransitionAllowed s to ctx) \<longleftrightarrow> s \<notin> terminal_states"
  proof
    assume "s \<notin> terminal_states"
    then have "isDacs5SessionTransitionAllowed s
        (if s = Substrate_Failure_Paused then Failed_Substrate else hd (NEXT s))
        \<lparr>pausedFrom = Some Vet_Pending, settlementIrreversible = None\<rparr>"
      by (cases s) (simp_all add: terminal_states_def isDacs5SessionTransitionAllowed_def RESUMABLE_def)
    then show "\<exists>to ctx. isDacs5SessionTransitionAllowed s to ctx" by blast
  next
    assume "\<exists>to ctx. isDacs5SessionTransitionAllowed s to ctx"
    then show "s \<notin> terminal_states"
      by (auto simp: terminal_states_def RESUMABLE_def elim!: allowed_cases)
  qed
  moreover have "(\<exists>ec out. dacs5BundleOutcomeForTerminalState s ec = Some out) \<longleftrightarrow> s \<in> terminal_states"
    by (auto simp: dacs5BundleOutcomeForTerminalState_def terminal_states_def split: if_splits)
  ultimately show ?thesis by blast
qed

text \<open>
  An abort is possible only from a pending vet, negotiate or commit stage, or from a
  pending settlement that is explicitly declared reversible: not from an undeclared one, and
  from no later state.
\<close>

theorem abort_only_before_irreversible:
  "isDacs5SessionTransitionAllowed from Aborted_By_Self ctx \<longleftrightarrow>
   from \<in> {Vet_Pending, Negotiate_Pending, Commit_Pending} \<or>
   (from = Settle_Pending \<and> settlementIrreversible ctx = Some False)"
  by (cases "from") (auto simp: isDacs5SessionTransitionAllowed_def RESUMABLE_def split: option.split)

end
