(* ===== verification/Dacs_Vet.thy ===== *)
theory Dacs_Vet
  imports Dacs_Session
begin

text \<open>
  DACS-2 decision semantics (\<^verbatim>\<open>src/src/agent/vetSemantics.ts\<close>): the closed decision
  classifier, the retry policy and its decision, and the attribution of a failed vet phase.
\<close>

section \<open>Decisions\<close>

datatype decision = Pass | Fail | Indeterminate | Error

definition DECISIONS :: "(string \<times> decision) list" where
  "DECISIONS = [(''pass'', Pass), (''fail'', Fail), (''indeterminate'', Indeterminate), (''error'', Error)]"

text \<open>A value that is not one of the four strings (or not a string) is unknown.\<close>

definition classifyVerificationDecision :: "string \<Rightarrow> decision res" where
  "classifyVerificationDecision v =
     (case map_of DECISIONS v of
        None \<Rightarrow> throw ''unknown DACS-2 verification decision''
      | Some d \<Rightarrow> Inr d)"

section \<open>Retry\<close>

datatype retry_class = Retry_Transient | Retry_Permanent

text \<open>The caller's policy object: its own keys and the values under the three declared ones.\<close>

record retry_policy_input =
  rpi_keys :: "string list"
  rpi_retryClass :: string
  rpi_retryBudget :: "int option"
  rpi_retryOnIndeterminate :: "bool option"

record retry_policy =
  retryClass :: retry_class
  retryBudget :: int
  retryOnIndeterminate :: bool

definition isSafeAttempt :: "int \<Rightarrow> bool" where
  "isSafeAttempt n \<longleftrightarrow> isSafeInteger n \<and> 0 \<le> n"

definition captureRetryPolicy :: "retry_policy_input \<Rightarrow> retry_policy res" where
  "captureRetryPolicy v =
     ensure (''retryClass'' \<in> set (rpi_keys v) \<and>
             list_all (\<lambda>k. k \<in> {''retryClass'', ''retryBudget'', ''retryOnIndeterminate''}) (rpi_keys v))
       ''verification retry policy must contain only data fields''
     (ensure ((rpi_retryClass v = ''transient'' \<or> rpi_retryClass v = ''permanent'') \<and>
              (case rpi_retryBudget v of None \<Rightarrow> True | Some b \<Rightarrow> isSafeAttempt b))
        ''verification retry policy is malformed''
     (Inr \<lparr>retryClass = (if rpi_retryClass v = ''transient'' then Retry_Transient else Retry_Permanent),
           retryBudget = (case rpi_retryBudget v of None \<Rightarrow> 3 | Some b \<Rightarrow> b),
           retryOnIndeterminate = (rpi_retryOnIndeterminate v = Some True)\<rparr>))"

definition shouldRetryVerification :: "string \<Rightarrow> int \<Rightarrow> retry_policy_input \<Rightarrow> bool res" where
  "shouldRetryVerification dec attempts policy =
     bindR (classifyVerificationDecision dec) (\<lambda>classified.
     ensure (isSafeAttempt attempts) ''verification attempts must be a non-negative safe integer''
     (bindR (captureRetryPolicy policy) (\<lambda>captured.
       Inr (if attempts \<ge> retryBudget captured then False
            else if classified = Error then retryClass captured = Retry_Transient
            else if classified = Indeterminate then retryOnIndeterminate captured
            else False))))"

section \<open>Attribution of a failed vet phase\<close>

definition vetPhaseFailureClass :: "string \<Rightarrow> string \<Rightarrow> error_class option res" where
  "vetPhaseFailureClass dec cause =
     bindR (classifyVerificationDecision dec) (\<lambda>classified.
     ensure (cause = ''authority-or-verifier'' \<or> cause = ''counterparty-malformed-presentation'')
       ''unknown Vet phase failure cause''
     (Inr (if classified = Pass then None
           else if classified = Fail \<or> cause = ''counterparty-malformed-presentation'' then Some Counterparty
           else Some Permanent)))"

section \<open>The retry loop\<close>

text \<open>
  A verifier that asks \<open>shouldRetryVerification\<close> after each attempt: \<open>answer n\<close> is the decision of
  attempt \<open>n\<close>, and the result is the last decision with the number of attempts made. The fuel
  bounds the loop; \<open>verify_enough_fuel\<close> shows that one more than the budget is always enough.
\<close>

fun verify_with_retry :: "nat \<Rightarrow> (nat \<Rightarrow> string) \<Rightarrow> retry_policy_input \<Rightarrow> nat \<Rightarrow> (string \<times> nat) res option" where
  "verify_with_retry 0 answer policy made = None"
| "verify_with_retry (Suc fuel) answer policy made =
     (let dec = answer made; made' = Suc made
      in case shouldRetryVerification dec (int made') policy of
           Inl e \<Rightarrow> Some (Inl e)
         | Inr True \<Rightarrow> verify_with_retry fuel answer policy made'
         | Inr False \<Rightarrow> Some (Inr (dec, made')))"

lemma retry_budget:
  assumes "shouldRetryVerification d a p = Inr True" and "captureRetryPolicy p = Inr c"
  shows "a < retryBudget c"
  using assms by (auto simp: shouldRetryVerification_def res_simps split: if_splits)

lemma retry_needs_policy: "shouldRetryVerification d a p = Inr b \<Longrightarrow> \<exists>c. captureRetryPolicy p = Inr c"
  by (auto simp: shouldRetryVerification_def res_simps)

lemma verify_enough_fuel:
  assumes "captureRetryPolicy p = Inr c" and "nat (retryBudget c) < fuel + made"
    and "0 < fuel"
  shows "\<exists>r. verify_with_retry fuel answer p made = Some r \<and>
    (\<forall>d n. r = Inr (d, n) \<longrightarrow> n \<le> max (Suc made) (nat (retryBudget c)))"
  using assms(2,3)
proof (induction fuel arbitrary: made)
  case (Suc fuel)
  show ?case
  proof (cases "shouldRetryVerification (answer made) (int (Suc made)) p")
    case (Inr b)
    show ?thesis
    proof (cases b)
      case True
      then have lt: "int (Suc made) < retryBudget c" using Inr retry_budget [OF _ assms(1)] by (metis (full_types))
      then have "0 < fuel" "nat (retryBudget c) < fuel + Suc made" using Suc.prems by linarith+
      from Suc.IH [OF this(2,1)] lt show ?thesis using Inr True by (auto simp: max_def split: if_splits)
    qed (use Inr in simp)
  qed simp
qed simp

section \<open>Properties\<close>

text \<open>
  Retrying verification stops: with any valid policy and any verifier the retry loop
  returns within one attempt more than the budget, it never makes more attempts than the
  budget allows (one attempt is always made), and a \<^verbatim>\<open>pass\<close> or \<^verbatim>\<open>fail\<close> answer is never retried.
\<close>

theorem verify_with_retry_terminates:
  assumes "captureRetryPolicy p = Inr c"
  shows "\<exists>r. verify_with_retry (Suc (nat (retryBudget c))) answer p 0 = Some r \<and>
    (\<forall>d n. r = Inr (d, n) \<longrightarrow> n \<le> max 1 (nat (retryBudget c))) \<and>
    (answer 0 \<in> {''pass'', ''fail''} \<longrightarrow> r = Inr (answer 0, 1))"
proof -
  obtain r where r: "verify_with_retry (Suc (nat (retryBudget c))) answer p 0 = Some r"
    "\<forall>d n. r = Inr (d, n) \<longrightarrow> n \<le> max 1 (nat (retryBudget c))"
    using verify_enough_fuel [OF assms, of "Suc (nat (retryBudget c))" 0 answer] by auto
  have "shouldRetryVerification d 1 p = Inr False" if "d \<in> {''pass'', ''fail''}" for d
    using that assms
    by (auto simp: shouldRetryVerification_def classifyVerificationDecision_def DECISIONS_def
        isSafeAttempt_def isSafeInteger_def max_safe_def)
  with r show ?thesis by (auto simp: Let_def)
qed

theorem verify_with_retry_terminates_witness:
  "\<exists>r. verify_with_retry (Suc (nat 3)) (\<lambda>_. ''error'')
     \<lparr>rpi_keys = [''retryClass''], rpi_retryClass = ''transient'', rpi_retryBudget = None,
      rpi_retryOnIndeterminate = None\<rparr> 0 = Some r"
proof -
  have "captureRetryPolicy \<lparr>rpi_keys = [''retryClass''], rpi_retryClass = ''transient'',
      rpi_retryBudget = None, rpi_retryOnIndeterminate = None\<rparr> =
    Inr \<lparr>retryClass = Retry_Transient, retryBudget = 3, retryOnIndeterminate = False\<rparr>"
    by (simp add: captureRetryPolicy_def)
  from verify_with_retry_terminates [OF this, of "\<lambda>_. ''error''"] show ?thesis by auto
qed

text \<open>
  A failed vet phase is blamed on the counterparty exactly when its claim was
  evaluated as \<^verbatim>\<open>fail\<close> or its presentation was malformed; an unavailable or erring authority is
  never attributed to the counterparty, and a passing phase is attributed to nobody.
\<close>

theorem vetPhaseFailureClass_attribution:
  assumes "vetPhaseFailureClass d cause = Inr r"
  shows "(r = None \<longleftrightarrow> d = ''pass'') \<and>
    (r = Some Counterparty \<longleftrightarrow> d = ''fail'' \<or> (d \<noteq> ''pass'' \<and> cause = ''counterparty-malformed-presentation''))"
  using assms by (auto simp: vetPhaseFailureClass_def classifyVerificationDecision_def DECISIONS_def
      res_simps split: if_splits)

theorem vetPhaseFailureClass_attribution_witness:
  "vetPhaseFailureClass ''error'' ''authority-or-verifier'' = Inr (Some Permanent) \<and>
   Some Permanent \<noteq> Some Counterparty"
proof -
  have e: "vetPhaseFailureClass ''error'' ''authority-or-verifier'' = Inr (Some Permanent)"
    by (simp add: vetPhaseFailureClass_def classifyVerificationDecision_def DECISIONS_def)
  show ?thesis using e vetPhaseFailureClass_attribution [OF e] by simp
qed

end
