(* ===== verification/Dacs_Anchor.thy ===== *)
theory Dacs_Anchor
  imports Dacs_Prelude
begin

text \<open>
  Classification of a storage-program name resolution
  (\<^verbatim>\<open>src/src/substrate/anchorResolution.ts\<close>): present, absent, or indeterminate.
\<close>

datatype anchor_resolution = Present string | Absent | Anchor_Indeterminate string

record candidate_outcome =
  cand_address :: string
  cand_owner :: "string option"
  cand_error :: bool

text \<open>\<^verbatim>\<open>toLowerCase\<close> on code units below 256.\<close>

definition toLower :: "char \<Rightarrow> char" where
  "toLower c = (if is_upper c \<or> (192 \<le> code c \<and> code c \<le> 222 \<and> code c \<noteq> 215)
                then char_of (code c + 32) else c)"

definition strip0x :: "string \<Rightarrow> string" where
  "strip0x s = (if take 2 s = ''0x'' then drop 2 s else s)"

definition normalizeOwner :: "string \<Rightarrow> string" where
  "normalizeOwner s = strip0x (map toLower (trim s))"

definition anchor_matches :: "string \<Rightarrow> candidate_outcome \<Rightarrow> bool" where
  "anchor_matches want c \<longleftrightarrow>
     \<not> cand_error c \<and> (case cand_owner c of None \<Rightarrow> False | Some ow \<Rightarrow> normalizeOwner ow = want)"

definition classifyAnchorResolution :: "candidate_outcome list \<Rightarrow> string \<Rightarrow> anchor_resolution" where
  "classifyAnchorResolution outcomes expectedOwner =
     (let want = normalizeOwner expectedOwner;
          matches = filter (anchor_matches want) outcomes
      in if length matches > 1
         then Anchor_Indeterminate ''multiple programs with the same name are owned by the expected writer''
         else if list_ex cand_error outcomes
         then Anchor_Indeterminate ''a candidate program could not be read to confirm ownership''
         else case matches of m # _ \<Rightarrow> Present (cand_address m) | [] \<Rightarrow> Absent)"

text \<open>
  Resolution fails closed: \<open>Absent\<close> is answered only when every candidate was read and
  none belongs to the writer, and \<open>Present\<close> only when every candidate was read and exactly one,
  the one returned, belongs to it. So an unreadable candidate never lets a writer create a
  duplicate program or a reader conclude that nothing was anchored.
\<close>

theorem classifyAnchorResolution_fail_closed:
  "(classifyAnchorResolution os w = Absent \<longleftrightarrow>
      (\<forall>c. c \<in> set os \<longrightarrow> \<not> cand_error c \<and> \<not> anchor_matches (normalizeOwner w) c)) \<and>
   (classifyAnchorResolution os w = Present a \<longleftrightarrow>
      (\<forall>c. c \<in> set os \<longrightarrow> \<not> cand_error c) \<and>
      (\<exists>c. filter (anchor_matches (normalizeOwner w)) os = [c] \<and> cand_address c = a))"
proof (cases "list_ex cand_error os")
  case True
  then show ?thesis
    by (auto simp: classifyAnchorResolution_def Let_def list_ex_iff)
next
  case False
  then have ne: "\<forall>c \<in> set os. \<not> cand_error c" by (auto simp: list_ex_iff)
  let ?m = "filter (anchor_matches (normalizeOwner w)) os"
  have "?m = [] \<longleftrightarrow> (\<forall>c \<in> set os. \<not> anchor_matches (normalizeOwner w) c)"
    by (simp add: filter_empty_conv)
  with ne False show ?thesis
    by (auto simp: classifyAnchorResolution_def Let_def split: list.split)
qed

theorem classifyAnchorResolution_fail_closed_witness:
  "classifyAnchorResolution [\<lparr>cand_address = ''stor-1'', cand_owner = Some ''0xAB'', cand_error = False\<rparr>] ''ab''
     = Present ''stor-1''"
proof -
  have m: "anchor_matches (normalizeOwner ''ab'')
      \<lparr>cand_address = ''stor-1'', cand_owner = Some ''0xAB'', cand_error = False\<rparr>"
    by code_simp
  show ?thesis
    by (subst classifyAnchorResolution_fail_closed [THEN conjunct2]) (simp add: m)
qed

text \<open>
  One confirmed match together with an unreadable candidate is indeterminate, although
  the documentation of the classifier says that a confirmed match is \<^verbatim>\<open>present\<close> and that
  \<^verbatim>\<open>indeterminate\<close> means there is no confirmed match.
\<close>

theorem confirmed_match_with_unreadable_candidate:
  "anchor_matches (normalizeOwner ''ab'')
     \<lparr>cand_address = ''stor-1'', cand_owner = Some ''ab'', cand_error = False\<rparr> \<and>
   classifyAnchorResolution
     [\<lparr>cand_address = ''stor-1'', cand_owner = Some ''ab'', cand_error = False\<rparr>,
      \<lparr>cand_address = ''stor-2'', cand_owner = None, cand_error = True\<rparr>] ''ab'' =
   Anchor_Indeterminate ''a candidate program could not be read to confirm ownership''"
  by (intro conjI; code_simp)

end
