(* ===== verification/Dacs_Jcs.thy ===== *)
theory Dacs_Jcs
  imports Dacs_Prelude
begin

text \<open>
  RFC 8785 canonical JSON with the DACS profile (\<^verbatim>\<open>src/src/canonical/jcs.ts\<close>). The NFC normalisation
  of string values is an argument of the canonicaliser.

  A JavaScript value that the canonicaliser distinguishes is a \<open>json\<close>. An object is the list of
  its own string keys with their values. A number is an integer, a non-integral number given by
  its \<^verbatim>\<open>Number::toString\<close> text (a non-integral binary64 value is always below 2^53), or not
  finite. Cyclic, sparse and exotic objects are not values of the type.
\<close>

section \<open>Values\<close>

datatype jsnumber = JInt int | JFrac string | JNonFinite

datatype json =
    JNull | JUndefined | JBool bool | JNum jsnumber | JBigInt int | JStr string
  | JArr "json list" | JObj "(string \<times> json) list"

definition MAX_NESTING_DEPTH :: nat where
  "MAX_NESTING_DEPTH = 128"

section \<open>Canonical text\<close>

definition hex_digit :: "nat \<Rightarrow> char" where
  "hex_digit d = (if d < 10 then char_of (48 + d) else char_of (87 + d))"

definition canonChar :: "char \<Rightarrow> string" where
  "canonChar c =
     (if c = CHR 0x22 then [CHR 0x5C, CHR 0x22]
      else if c = CHR 0x5C then [CHR 0x5C, CHR 0x5C]
      else if c = CHR 0x08 then [CHR 0x5C, CHR ''b'']
      else if c = CHR 0x0C then [CHR 0x5C, CHR ''f'']
      else if c = CHR 0x0A then [CHR 0x5C, CHR ''n'']
      else if c = CHR 0x0D then [CHR 0x5C, CHR ''r'']
      else if c = CHR 0x09 then [CHR 0x5C, CHR ''t'']
      else if code c < 32
      then [CHR 0x5C, CHR ''u'', CHR ''0'', CHR ''0'', hex_digit (code c div 16), hex_digit (code c mod 16)]
      else [c])"

text \<open>
  \<^verbatim>\<open>String.prototype.normalize("NFC")\<close> is the argument \<open>nfc\<close> of the canonicaliser: string values are
  normalised, member names are not.
\<close>

definition canonStringWith :: "(string \<Rightarrow> string) \<Rightarrow> string \<Rightarrow> bool \<Rightarrow> string" where
  "canonStringWith nfc value normalizeValue =
     (let input = if normalizeValue then nfc value else value
      in CHR 0x22 # concat (map canonChar input) @ [CHR 0x22])"

definition canonNumber :: "jsnumber \<Rightarrow> string res" where
  "canonNumber n =
     (case n of
        JNonFinite \<Rightarrow> throw ''canonical form: non-finite number''
      | JInt i \<Rightarrow> ensure (isSafeInteger i) ''canonical form: number outside IEEE-754 safe-integer range'' (Inr (int_text i))
      | JFrac t \<Rightarrow> Inr t)"

fun joinWith :: "char \<Rightarrow> string list \<Rightarrow> string" where
  "joinWith sep [] = []"
| "joinWith sep [x] = x"
| "joinWith sep (x # y # ys) = x @ sep # joinWith sep (y # ys)"

text \<open>\<^verbatim>\<open>Object.entries\<close> without undefined members, sorted by UTF-16 code units.\<close>

definition sorted_entries :: "(string \<times> json) list \<Rightarrow> (string \<times> json) list" where
  "sorted_entries kvs = sort_key fst (filter (\<lambda>kv. snd kv \<noteq> JUndefined) kvs)"

lemma mapR_cong [fundef_cong]:
  "xs = ys \<Longrightarrow> (\<And>x. x \<in> set ys \<Longrightarrow> f x = g x) \<Longrightarrow> mapR f xs = mapR g ys"
  by (induction xs arbitrary: ys) auto

function canonValueWith :: "(string \<Rightarrow> string) \<Rightarrow> nat \<Rightarrow> json \<Rightarrow> string res" where
  "canonValueWith nfc d JNull = Inr ''null''"
| "canonValueWith nfc d (JBool b) = Inr (if b then ''true'' else ''false'')"
| "canonValueWith nfc d (JStr s) = Inr (canonStringWith nfc s True)"
| "canonValueWith nfc d (JNum n) = canonNumber n"
| "canonValueWith nfc d (JBigInt i) = throw ''canonical form: bigint not allowed''"
| "canonValueWith nfc d JUndefined = throw ''canonical form: unsupported value type (undefined)''"
| "canonValueWith nfc d (JArr xs) =
     ensure (d < MAX_NESTING_DEPTH) ''canonical form: nesting depth exceeds 128''
     (bindR (mapR (canonValueWith nfc (Suc d)) xs)
       (\<lambda>items. Inr (CHR ''['' # joinWith (CHR '','') items @ '']'')))"
| "canonValueWith nfc d (JObj kvs) =
     ensure (d < MAX_NESTING_DEPTH) ''canonical form: nesting depth exceeds 128''
     (bindR (mapR (\<lambda>kv. bindR (canonValueWith nfc (Suc d) (snd kv)) (\<lambda>t. Inr (canonStringWith nfc (fst kv) False @ CHR '':'' # t)))
               (sorted_entries kvs))
       (\<lambda>items. Inr (CHR ''{'' # joinWith (CHR '','') items @ ''}'')))"
  by pat_completeness auto
termination
proof (relation "measure (\<lambda>(nfc, d, v). size v)")
  fix nfc :: "string \<Rightarrow> string" and d :: nat and xs :: "json list" and x
  assume "x \<in> set xs"
  then show "((nfc, Suc d, x), (nfc, d, JArr xs)) \<in> measure (\<lambda>(nfc, d, v). size v)"
    by (induction xs) auto
next
  fix nfc :: "string \<Rightarrow> string" and d :: nat and kvs :: "(string \<times> json) list" and kv
  assume "kv \<in> set (sorted_entries kvs)"
  then have "kv \<in> set kvs" by (simp add: sorted_entries_def)
  then show "((nfc, Suc d, snd kv), (nfc, d, JObj kvs)) \<in> measure (\<lambda>(nfc, d, v). size v)"
    by (induction kvs) (auto simp: size_prod_simp)
qed simp

definition canonicalizeWith :: "(string \<Rightarrow> string) \<Rightarrow> json \<Rightarrow> string res" where
  "canonicalizeWith nfc v = canonValueWith nfc 0 v"

section \<open>The strings of the model\<close>

text \<open>
  A string of the model is a list of code units below 256. NFC leaves such a string alone: no character
  below U+0300 combines and none below U+0100 has a singleton decomposition. The rest of the development
  uses the canonicaliser with this normalisation.
\<close>

definition normalizeNFC :: "string \<Rightarrow> string" where
  "normalizeNFC s = s"

definition canonString :: "string \<Rightarrow> string" where
  canonString_with: "canonString s = canonStringWith normalizeNFC s True"

definition canonValue :: "nat \<Rightarrow> json \<Rightarrow> string res" where
  canonValue_with: "canonValue d v = canonValueWith normalizeNFC d v"

definition canonicalize :: "json \<Rightarrow> string res" where
  canonicalize_with: "canonicalize v = canonicalizeWith normalizeNFC v"

lemma canonString_def [code]: "canonString s = CHR 0x22 # concat (map canonChar s) @ [CHR 0x22]"
  by (simp add: canonString_with canonStringWith_def normalizeNFC_def)

lemma canonName: "canonStringWith normalizeNFC s b = canonString s"
  by (simp add: canonString_with canonStringWith_def normalizeNFC_def)

lemma canonicalize_def [code]: "canonicalize v = canonValue 0 v"
  by (simp add: canonicalize_with canonicalizeWith_def canonValue_with)

lemma canonValue_simps [simp, code]:
  "canonValue d JNull = Inr ''null''"
  "canonValue d (JBool b) = Inr (if b then ''true'' else ''false'')"
  "canonValue d (JStr s) = Inr (canonString s)"
  "canonValue d (JNum n) = canonNumber n"
  "canonValue d (JBigInt i) = throw ''canonical form: bigint not allowed''"
  "canonValue d JUndefined = throw ''canonical form: unsupported value type (undefined)''"
  "canonValue d (JArr xs) =
     ensure (d < MAX_NESTING_DEPTH) ''canonical form: nesting depth exceeds 128''
     (bindR (mapR (canonValue (Suc d)) xs)
       (\<lambda>items. Inr (CHR ''['' # joinWith (CHR '','') items @ '']'')))"
  "canonValue d (JObj kvs) =
     ensure (d < MAX_NESTING_DEPTH) ''canonical form: nesting depth exceeds 128''
     (bindR (mapR (\<lambda>kv. bindR (canonValue (Suc d) (snd kv)) (\<lambda>t. Inr (canonString (fst kv) @ CHR '':'' # t)))
               (sorted_entries kvs))
       (\<lambda>items. Inr (CHR ''{'' # joinWith (CHR '','') items @ ''}'')))"
  by (simp_all add: canonValue_with [abs_def] canonName)

lemma canonValue_induct [case_names "1" "2" "3" "4" "5" "6" "7" "8"]:
  fixes P :: "nat \<Rightarrow> json \<Rightarrow> bool"
  assumes "\<And>d. P d JNull" "\<And>d b. P d (JBool b)" "\<And>d s. P d (JStr s)" "\<And>d n. P d (JNum n)" "\<And>d i. P d (JBigInt i)"
    "\<And>d. P d JUndefined" "\<And>d xs. (\<And>x. x \<in> set xs \<Longrightarrow> P (Suc d) x) \<Longrightarrow> P d (JArr xs)"
    "\<And>d kvs. (\<And>kv. kv \<in> set (sorted_entries kvs) \<Longrightarrow> P (Suc d) (snd kv)) \<Longrightarrow> P d (JObj kvs)"
  shows "P d v"
  by (rule canonValueWith.induct [of "\<lambda>_. P"]) (use assms in blast)+

lemma own_canonValue [own_intros]: "own (canonValue d v)"
proof (induction d v rule: canonValue_induct)
  case (4 d n)
  then show ?case by (cases n) (auto simp: canonNumber_def intro!: own_intros)
qed (auto intro!: own_intros)

lemma own_canonicalize [own_intros]: "own (canonicalize v)"
  by (simp add: canonicalize_def own_canonValue)

end
