(* ===== verification/Dacs_Wallet_Types.thy ===== *)
theory Dacs_Wallet_Types
  imports Dacs_Jcs
begin

text \<open>
  The wallet spend authority (\<^verbatim>\<open>src/src/rails/walletSpendAuthority.ts\<close>), part one: its data
  and the admission of caller input.

  A value the caller supplies is a \<^emph>\<open>wire\<close> record: its own keys, and the members as strings and
  integers. Admission (\<^verbatim>\<open>capturePolicy\<close>, \<^verbatim>\<open>captureReservation\<close>, \<^verbatim>\<open>captureObservation\<close>) checks it
  and returns the captured record, in which an amount is the natural number its canonical
  integer text denotes. The two are interchangeable: canonical integer texts and natural numbers
  correspond one to one (\<open>nat_text\<close>, \<open>digits_val\<close>), and \<open>wire_of\<close> gives the stored JSON back.
\<close>

section \<open>Scalar checks\<close>

definition amount :: "string \<Rightarrow> nat res" where
  "amount v = ensure (is_canonical_nat v) ''must be a canonical non-negative integer'' (Inr (digits_val v))"

definition positiveAmount :: "string \<Rightarrow> nat res" where
  "positiveAmount v = bindR (amount v) (\<lambda>n. ensure (0 < n) ''must be positive'' (Inr n))"

definition nonEmpty :: "string \<Rightarrow> 'a res \<Rightarrow> 'a res" where
  "nonEmpty v k = ensure (isNonEmptyString v) ''must be a non-empty exact NFC string'' k"

definition hash :: "string \<Rightarrow> 'a res \<Rightarrow> 'a res" where
  "hash v k = ensure (is_hash v) ''must be a lower-case SHA-256 hash'' k"

definition safeInteger :: "int \<Rightarrow> bool \<Rightarrow> 'a res \<Rightarrow> 'a res" where
  "safeInteger v positive k =
     ensure (isSafeInteger v \<and> (if positive then 1 else 0) \<le> v) ''must be a safe integer'' k"

definition onlyKeys :: "string list \<Rightarrow> string list \<Rightarrow> bool" where
  "onlyKeys allowed keys \<longleftrightarrow> list_all (\<lambda>k. k \<in> set allowed) keys"

section \<open>Policies\<close>

record wire_asset_policy =
  wap_keys :: "string list"
  wap_asset :: string
  wap_maximumPerOrderDebit :: string
  wap_maximumNetworkFeeDebit :: string
  wap_minimumReserve :: string
  wap_rollingWindowMs :: int
  wap_maximumRollingEffects :: int
  wap_maximumRollingDebit :: string
  wap_maximumCumulativeDebit :: string
  wap_maximumCounterpartyDebit :: string
  wap_operatorApprovalThreshold :: "string option"

record wire_policy =
  wp_keys :: "string list"
  wp_policyVersion :: string
  wp_policyId :: string
  wp_wallet :: string
  wp_chainId :: string
  wp_maximumConcurrentEffects :: int
  wp_maximumRetainedReservations :: int
  wp_assets :: "wire_asset_policy list"

record asset_policy =
  ap_asset :: string
  ap_maximumPerOrderDebit :: nat
  ap_maximumNetworkFeeDebit :: nat
  ap_minimumReserve :: nat
  ap_rollingWindowMs :: int
  ap_maximumRollingEffects :: int
  ap_maximumRollingDebit :: nat
  ap_maximumCumulativeDebit :: nat
  ap_maximumCounterpartyDebit :: nat
  ap_operatorApprovalThreshold :: "nat option"

record policy =
  p_policyId :: string
  p_wallet :: string
  p_chainId :: string
  p_maximumConcurrentEffects :: int
  p_maximumRetainedReservations :: int
  p_assets :: "asset_policy list"

definition captureAssetPolicy :: "wire_asset_policy \<Rightarrow> string list \<Rightarrow> asset_policy res" where
  "captureAssetPolicy e assets =
     ensure (onlyKeys [''asset'', ''maximumPerOrderDebit'', ''maximumNetworkFeeDebit'', ''minimumReserve'',
               ''rollingWindowMs'', ''maximumRollingDebit'', ''maximumRollingEffects'',
               ''maximumCumulativeDebit'', ''maximumCounterpartyDebit'', ''operatorApprovalThreshold''] (wap_keys e))
       ''wallet spend asset policy has an invalid shape''
     (nonEmpty (wap_asset e)
     (ensure (wap_asset e \<notin> set assets) ''wallet spend policy has duplicate assets''
     (bindR (positiveAmount (wap_maximumPerOrderDebit e)) (\<lambda>perOrder.
      bindR (amount (wap_maximumNetworkFeeDebit e)) (\<lambda>networkFee.
      bindR (amount (wap_minimumReserve e)) (\<lambda>minReserve.
      safeInteger (wap_rollingWindowMs e) True
     (safeInteger (wap_maximumRollingEffects e) True
     (bindR (positiveAmount (wap_maximumRollingDebit e)) (\<lambda>rolling.
      bindR (positiveAmount (wap_maximumCumulativeDebit e)) (\<lambda>cumulative.
      bindR (positiveAmount (wap_maximumCounterpartyDebit e)) (\<lambda>counterparty.
      bindR (case wap_operatorApprovalThreshold e of
               None \<Rightarrow> Inr None
             | Some t \<Rightarrow> bindR (positiveAmount t) (\<lambda>n. Inr (Some n))) (\<lambda>threshold.
      Inr \<lparr>ap_asset = wap_asset e, ap_maximumPerOrderDebit = perOrder, ap_maximumNetworkFeeDebit = networkFee,
           ap_minimumReserve = minReserve, ap_rollingWindowMs = wap_rollingWindowMs e,
           ap_maximumRollingEffects = wap_maximumRollingEffects e, ap_maximumRollingDebit = rolling,
           ap_maximumCumulativeDebit = cumulative, ap_maximumCounterpartyDebit = counterparty,
           ap_operatorApprovalThreshold = threshold\<rparr>))))))))))))"

definition capturePolicy :: "wire_policy \<Rightarrow> policy res" where
  "capturePolicy p =
     ensure (onlyKeys [''policyVersion'', ''policyId'', ''wallet'', ''chainId'', ''maximumConcurrentEffects'',
               ''maximumRetainedReservations'', ''assets''] (wp_keys p) \<and>
             wp_policyVersion p = ''1'' \<and> wp_assets p \<noteq> [])
       ''wallet spend policy has an invalid shape''
     (nonEmpty (wp_policyId p) (nonEmpty (wp_wallet p) (nonEmpty (wp_chainId p)
     (safeInteger (wp_maximumConcurrentEffects p) True
     (safeInteger (wp_maximumRetainedReservations p) True
     (bindR (foldR (\<lambda>acc e. bindR (captureAssetPolicy e (map ap_asset acc)) (\<lambda>a. Inr (acc @ [a])))
               [] (wp_assets p)) (\<lambda>assets.
      Inr \<lparr>p_policyId = wp_policyId p, p_wallet = wp_wallet p, p_chainId = wp_chainId p,
           p_maximumConcurrentEffects = wp_maximumConcurrentEffects p,
           p_maximumRetainedReservations = wp_maximumRetainedReservations p, p_assets = assets\<rparr>)))))))"

section \<open>Reservations\<close>

datatype purpose = Service | Network_Fee

definition purpose_of :: "string \<Rightarrow> purpose option" where
  "purpose_of s = (if s = ''service'' then Some Service else if s = ''network-fee'' then Some Network_Fee else None)"

definition purpose_text :: "purpose \<Rightarrow> string" where
  "purpose_text p = (case p of Service \<Rightarrow> ''service'' | Network_Fee \<Rightarrow> ''network-fee'')"

record wire_debit =
  wd_keys :: "string list"
  wd_asset :: string
  wd_purpose :: string
  wd_expectedAmount :: string
  wd_maximumAmount :: string

record wire_reservation =
  wr_keys :: "string list"
  wr_reservationVersion :: string
  wr_reservationId :: string
  wr_jobId :: string
  wr_phaseIndex :: int
  wr_phase :: string
  wr_agreementHash :: string
  wr_settlementBindingHash :: string
  wr_railId :: string
  wr_railDefinitionHash :: string
  wr_wallet :: string
  wr_chainId :: string
  wr_payee :: string
  wr_finality_keys :: "string list"
  wr_finality_model :: string
  wr_finality_finalityBlocks :: "int option"
  wr_debits :: "wire_debit list"

record debit =
  d_asset :: string
  d_purpose :: purpose
  d_expectedAmount :: nat
  d_maximumAmount :: nat

record reservation =
  r_reservationId :: string
  r_jobId :: string
  r_phaseIndex :: int
  r_phase :: string
  r_agreementHash :: string
  r_settlementBindingHash :: string
  r_railId :: string
  r_railDefinitionHash :: string
  r_wallet :: string
  r_chainId :: string
  r_payee :: string
  r_finality_model :: string
  r_finality_finalityBlocks :: "int option"
  r_debits :: "debit list"

text \<open>The key \<^verbatim>\<open>`${asset}\0${purpose}`\<close> of a debit is the pair of its asset and purpose.\<close>

definition debit_key :: "debit \<Rightarrow> string \<times> purpose" where
  "debit_key d = (d_asset d, d_purpose d)"

definition captureDebit :: "policy \<Rightarrow> debit list \<Rightarrow> wire_debit \<Rightarrow> debit list res" where
  "captureDebit p acc d =
     (case purpose_of (wd_purpose d) of
        None \<Rightarrow> throw ''wallet spend debit reservation has an invalid shape''
      | Some pu \<Rightarrow>
        ensure (onlyKeys [''asset'', ''purpose'', ''expectedAmount'', ''maximumAmount''] (wd_keys d))
          ''wallet spend debit reservation has an invalid shape''
        (nonEmpty (wd_asset d)
        (ensure (wd_asset d \<in> set (map ap_asset (p_assets p))) ''wallet spend debit asset is outside policy''
        (bindR (amount (wd_expectedAmount d)) (\<lambda>expected.
         bindR (positiveAmount (wd_maximumAmount d)) (\<lambda>maximum.
         ensure (\<not> (expected > maximum \<or> (pu = Service \<and> (expected \<le> 0 \<or> expected \<noteq> maximum))))
           ''wallet spend expected debit conflicts with its hard maximum''
        (ensure ((wd_asset d, pu) \<notin> set (map debit_key acc))
           ''wallet spend reservation has duplicate debit purposes''
        (Inr (acc @ [\<lparr>d_asset = wd_asset d, d_purpose = pu, d_expectedAmount = expected,
                      d_maximumAmount = maximum\<rparr>])))))))))"

definition captureReservation :: "wire_reservation \<Rightarrow> policy \<Rightarrow> reservation res" where
  "captureReservation r p =
     ensure (onlyKeys [''reservationVersion'', ''reservationId'', ''jobId'', ''phaseIndex'', ''phase'',
               ''agreementHash'', ''settlementBindingHash'', ''railId'', ''railDefinitionHash'', ''wallet'',
               ''chainId'', ''payee'', ''finality'', ''debits''] (wr_keys r) \<and>
             wr_reservationVersion r = ''1'' \<and> wr_wallet r = p_wallet p \<and> wr_chainId r = p_chainId p \<and>
             wr_debits r \<noteq> [])
       ''wallet spend reservation has an invalid shape or scope''
     (nonEmpty (wr_reservationId r) (nonEmpty (wr_jobId r) (nonEmpty (wr_phase r) (nonEmpty (wr_railId r)
     (nonEmpty (wr_wallet r) (nonEmpty (wr_chainId r) (nonEmpty (wr_payee r)
     (safeInteger (wr_phaseIndex r) False
     (hash (wr_agreementHash r) (hash (wr_settlementBindingHash r) (hash (wr_railDefinitionHash r)
     (ensure (onlyKeys [''model'', ''finalityBlocks''] (wr_finality_keys r))
       ''wallet spend finality has an invalid shape''
     (nonEmpty (wr_finality_model r)
     ((case wr_finality_finalityBlocks r of None \<Rightarrow> (\<lambda>k. k) | Some b \<Rightarrow> safeInteger b True)
     (bindR (foldR (captureDebit p) [] (wr_debits r)) (\<lambda>debits.
      ensure (list_ex (\<lambda>d. d_purpose d = Service) debits)
        ''wallet spend reservation must bind the exact service debit''
     (Inr \<lparr>r_reservationId = wr_reservationId r, r_jobId = wr_jobId r, r_phaseIndex = wr_phaseIndex r,
           r_phase = wr_phase r, r_agreementHash = wr_agreementHash r,
           r_settlementBindingHash = wr_settlementBindingHash r, r_railId = wr_railId r,
           r_railDefinitionHash = wr_railDefinitionHash r, r_wallet = wr_wallet r, r_chainId = wr_chainId r,
           r_payee = wr_payee r, r_finality_model = wr_finality_model r,
           r_finality_finalityBlocks = wr_finality_finalityBlocks r, r_debits = debits\<rparr>)))))))))))))))))"

text \<open>The stored JSON of a captured reservation.\<close>

definition wire_debit_of :: "debit \<Rightarrow> wire_debit" where
  "wire_debit_of d =
     \<lparr>wd_keys = [''asset'', ''purpose'', ''expectedAmount'', ''maximumAmount''], wd_asset = d_asset d,
      wd_purpose = purpose_text (d_purpose d), wd_expectedAmount = nat_text (d_expectedAmount d),
      wd_maximumAmount = nat_text (d_maximumAmount d)\<rparr>"

definition wire_of :: "reservation \<Rightarrow> wire_reservation" where
  "wire_of r =
     \<lparr>wr_keys = [''reservationVersion'', ''reservationId'', ''jobId'', ''phaseIndex'', ''phase'',
        ''agreementHash'', ''settlementBindingHash'', ''railId'', ''railDefinitionHash'', ''wallet'',
        ''chainId'', ''payee'', ''finality'', ''debits''],
      wr_reservationVersion = ''1'', wr_reservationId = r_reservationId r, wr_jobId = r_jobId r,
      wr_phaseIndex = r_phaseIndex r, wr_phase = r_phase r, wr_agreementHash = r_agreementHash r,
      wr_settlementBindingHash = r_settlementBindingHash r, wr_railId = r_railId r,
      wr_railDefinitionHash = r_railDefinitionHash r, wr_wallet = r_wallet r, wr_chainId = r_chainId r,
      wr_payee = r_payee r,
      wr_finality_keys = ''model'' # (case r_finality_finalityBlocks r of None \<Rightarrow> [] | Some _ \<Rightarrow> [''finalityBlocks'']),
      wr_finality_model = r_finality_model r,
      wr_finality_finalityBlocks = r_finality_finalityBlocks r,
      wr_debits = map wire_debit_of (r_debits r)\<rparr>"

definition debit_json :: "debit \<Rightarrow> json" where
  "debit_json d = JObj
     [(''asset'', JStr (d_asset d)), (''purpose'', JStr (purpose_text (d_purpose d))),
      (''expectedAmount'', JStr (nat_text (d_expectedAmount d))),
      (''maximumAmount'', JStr (nat_text (d_maximumAmount d)))]"

definition reservation_json :: "reservation \<Rightarrow> json" where
  "reservation_json r = JObj
     [(''reservationVersion'', JStr ''1''), (''reservationId'', JStr (r_reservationId r)),
      (''jobId'', JStr (r_jobId r)), (''phaseIndex'', JNum (JInt (r_phaseIndex r))),
      (''phase'', JStr (r_phase r)), (''agreementHash'', JStr (r_agreementHash r)),
      (''settlementBindingHash'', JStr (r_settlementBindingHash r)), (''railId'', JStr (r_railId r)),
      (''railDefinitionHash'', JStr (r_railDefinitionHash r)), (''wallet'', JStr (r_wallet r)),
      (''chainId'', JStr (r_chainId r)), (''payee'', JStr (r_payee r)),
      (''finality'', JObj ((''model'', JStr (r_finality_model r)) #
         (case r_finality_finalityBlocks r of None \<Rightarrow> []
          | Some b \<Rightarrow> [(''finalityBlocks'', JNum (JInt b))]))),
      (''debits'', JArr (map debit_json (r_debits r)))]"

definition bindingHash :: "(string \<Rightarrow> string) \<Rightarrow> reservation \<Rightarrow> string res" where
  "bindingHash sha256Hex r =
     bindR (canonicalize (reservation_json r)) (\<lambda>t. Inr (sha256Hex (''dacs-wallet-spend-reservation:v1:'' @ t)))"

record wire_options =
  wopt_keys :: "string list"
  wopt_operatorApproval :: "string option"

definition captureReservationOptions :: "wire_options \<Rightarrow> string option res" where
  "captureReservationOptions opts =
     ensure (onlyKeys [''operatorApproval''] (wopt_keys opts)) ''wallet spend reservation option is unsupported''
     (case wopt_operatorApproval opts of
        None \<Rightarrow> Inr None
      | Some a \<Rightarrow> nonEmpty a (Inr (Some a)))"

section \<open>Observations\<close>

record wire_actual =
  wa_keys :: "string list"
  wa_asset :: string
  wa_purpose :: string
  wa_amount :: string

record wire_observation =
  wo_keys :: "string list"
  wo_disposition :: string
  wo_evidenceHash :: string
  wo_debits :: "wire_actual list"

record actual_debit =
  a_asset :: string
  a_purpose :: purpose
  a_amount :: nat

datatype observation =
    Obs_Settled (evidence: string) (obs_debits: "actual_debit list")
  | Obs_Not_Invoked (evidence: string)
  | Obs_Terminal_Absent (evidence: string)

definition actual_key :: "actual_debit \<Rightarrow> string \<times> purpose" where
  "actual_key a = (a_asset a, a_purpose a)"

text \<open>The hard maximum of each reserved debit, by key.\<close>

definition maxima :: "reservation \<Rightarrow> ((string \<times> purpose) \<times> nat) list" where
  "maxima r = map (\<lambda>d. (debit_key d, d_maximumAmount d)) (r_debits r)"

definition captureActual :: "reservation \<Rightarrow> actual_debit list \<Rightarrow> wire_actual \<Rightarrow> actual_debit list res" where
  "captureActual r seen a =
     (case purpose_of (wa_purpose a) of
        None \<Rightarrow> throw ''wallet spend settlement debit purpose is invalid''
      | Some pu \<Rightarrow>
        ensure (onlyKeys [''asset'', ''purpose'', ''amount''] (wa_keys a))
          ''wallet spend settlement debit purpose is invalid''
        (case map_of (maxima r) (wa_asset a, pu) of
           None \<Rightarrow> throw ''wallet spend settlement debit is unbound''
         | Some mx \<Rightarrow>
           ensure ((wa_asset a, pu) \<notin> set (map actual_key seen)) ''wallet spend settlement debit is unbound''
           (bindR (amount (wa_amount a)) (\<lambda>actual.
            ensure (actual \<le> mx) ''wallet spend actual debit exceeds its reservation''
           (ensure (pu = Service \<longrightarrow> actual = mx) ''wallet spend service debit differs from the agreement''
           (Inr (seen @ [\<lparr>a_asset = wa_asset a, a_purpose = pu, a_amount = actual\<rparr>])))))))"

definition captureObservation :: "wire_observation \<Rightarrow> reservation \<Rightarrow> observation res" where
  "captureObservation ob r =
     ensure (onlyKeys (if wo_disposition ob = ''settled'' then [''disposition'', ''evidenceHash'', ''debits'']
                       else [''disposition'', ''evidenceHash'']) (wo_keys ob))
       ''wallet spend recovery observation has an invalid shape''
     (hash (wo_evidenceHash ob)
     (if wo_disposition ob = ''settled''
      then ensure (wo_debits ob \<noteq> []) ''wallet spend settlement has no debit accounting''
           (bindR (foldR (captureActual r) [] (wo_debits ob)) (\<lambda>seen.
            ensure (length seen = length (remdups (map fst (maxima r))))
              ''wallet spend settlement omits reserved debit accounting''
            (Inr (Obs_Settled (wo_evidenceHash ob) seen))))
      else if wo_disposition ob = ''not-invoked'' then Inr (Obs_Not_Invoked (wo_evidenceHash ob))
      else if wo_disposition ob = ''terminal-absent'' then Inr (Obs_Terminal_Absent (wo_evidenceHash ob))
      else throw ''wallet spend recovery disposition is invalid''))"

end
