(* ===== verification/Dacs_Wallet.thy ===== *)
theory Dacs_Wallet
  imports Dacs_Wallet_Types
begin

text \<open>
  The wallet spend authority, part two: the durable state, its validation on every read, the
  transaction wrapper, and the operations (reserve, begin, settle, current, reconcile, replay,
  inspect, and the composed effect execution). Every operation is one or two transactions on
  the store; a transaction that throws leaves the store unchanged.

  Parameters for code outside the SDK: SHA-256, the balance reader, the operator-approval
  verifier and the recovery authenticator. The clock of a transaction is an argument.
\<close>

section \<open>State\<close>

datatype stage = Reserved | Effect_Pending | Stage_Settled | Stage_Released

record stored_reservation =
  row_id :: string
  row_binding :: string
  row_reservation :: reservation
  row_stage :: stage
  row_generation :: int
  row_owner :: "string option"
  row_leaseExpiresAt :: "int option"
  row_approvalHash :: "string option"
  row_evidenceHash :: "string option"
  row_actualDebits :: "actual_debit list option"
  row_createdAt :: int
  row_updatedAt :: int

record asset_totals =
  t_asset :: string
  t_cumulativeDebit :: nat
  t_counterpartyDebits :: "(string \<times> nat) list"

record spend_event =
  ev_reservationId :: string
  ev_asset :: string
  ev_payee :: string
  ev_amount :: nat
  ev_settledAt :: int

record wallet_state =
  ws_stateVersion :: int
  ws_policyHash :: string
  ws_generation :: int
  ws_reservations :: "stored_reservation list"
  ws_totals :: "asset_totals list"
  ws_rollingEvents :: "spend_event list"

definition WALLET_SPEND_STATE_VERSION :: int where
  "WALLET_SPEND_STATE_VERSION = 1"

definition emptyState :: "string \<Rightarrow> wallet_state" where
  "emptyState policyHash =
     \<lparr>ws_stateVersion = WALLET_SPEND_STATE_VERSION, ws_policyHash = policyHash, ws_generation = 0,
      ws_reservations = [], ws_totals = [], ws_rollingEvents = []\<rparr>"

text \<open>A JavaScript \<^verbatim>\<open>Map\<close> of amounts is an association list in insertion order.\<close>

definition get0 :: "('k \<times> nat) list \<Rightarrow> 'k \<Rightarrow> nat" where
  "get0 m k = (case map_of m k of None \<Rightarrow> 0 | Some v \<Rightarrow> v)"

definition aggregate :: "(string \<times> nat) list \<Rightarrow> (string \<times> nat) list" where
  "aggregate ds = foldl (\<lambda>m (a, v). AList.update a (get0 m a + v) m) [] ds"

text \<open>\<^verbatim>\<open>aggregateDebits\<close> on reserved debits (their maxima) and on actual debits.\<close>

definition aggregateMaxima :: "debit list \<Rightarrow> (string \<times> nat) list" where
  "aggregateMaxima ds = aggregate (map (\<lambda>d. (d_asset d, d_maximumAmount d)) ds)"

definition aggregateActual :: "actual_debit list \<Rightarrow> (string \<times> nat) list" where
  "aggregateActual ds = aggregate (map (\<lambda>d. (a_asset d, a_amount d)) ds)"

definition active :: "stored_reservation \<Rightarrow> bool" where
  "active row \<longleftrightarrow> row_stage row = Reserved \<or> row_stage row = Effect_Pending"

definition totalFor :: "wallet_state \<Rightarrow> string \<Rightarrow> asset_totals" where
  "totalFor s asset =
     (case find (\<lambda>t. t_asset t = asset) (ws_totals s) of
        Some t \<Rightarrow> t
      | None \<Rightarrow> \<lparr>t_asset = asset, t_cumulativeDebit = 0, t_counterpartyDebits = []\<rparr>)"

definition find_row :: "wallet_state \<Rightarrow> string \<Rightarrow> stored_reservation option" where
  "find_row s i = find (\<lambda>row. row_id row = i) (ws_reservations s)"

section \<open>Validation of the stored state\<close>

definition approvalRequired :: "policy \<Rightarrow> reservation \<Rightarrow> bool" where
  "approvalRequired p r =
     list_ex (\<lambda>ap. case ap_operatorApprovalThreshold ap of
                     None \<Rightarrow> False
                   | Some t \<Rightarrow> t \<le> get0 (aggregateMaxima (r_debits r)) (ap_asset ap)) (p_assets p)"

definition checkActual :: "reservation \<Rightarrow> (string \<times> purpose) list \<Rightarrow> actual_debit \<Rightarrow> (string \<times> purpose) list res" where
  "checkActual r seen a =
     ensure (case map_of (maxima r) (actual_key a) of
               None \<Rightarrow> False
             | Some mx \<Rightarrow> actual_key a \<notin> set seen \<and> a_amount a \<le> mx \<and>
                          (a_purpose a = Service \<longrightarrow> a_amount a = mx))
       ''stored wallet actual debit exceeds or conflicts with its reservation''
     (Inr (seen @ [actual_key a]))"

definition checkRow ::
  "(string \<Rightarrow> string) \<Rightarrow> policy \<Rightarrow> int \<Rightarrow> string list \<Rightarrow> stored_reservation \<Rightarrow> string list res" where
  "checkRow sha256Hex p generation ids row =
     bindR (captureReservation (wire_of (row_reservation row)) p) (\<lambda>captured.
     nonEmpty (row_id row)
     (ensure (row_id row \<notin> set ids) ''wallet spend state has duplicate reservations''
     (hash (row_binding row)
     (ensure (bindingHash sha256Hex captured = Inr (row_binding row) \<and> row_id row = r_reservationId captured)
       ''wallet spend state has an unbound reservation''
     (safeInteger (row_generation row) True
     (ensure (row_generation row \<le> generation) ''wallet spend reservation generation is from the future''
     (safeInteger (row_createdAt row) False
     (safeInteger (row_updatedAt row) False
     ((if active row
       then (\<lambda>k. case (row_owner row, row_leaseExpiresAt row) of
              (Some ow, Some l) \<Rightarrow>
                nonEmpty ow (safeInteger l True
                (ensure (row_evidenceHash row = None \<and> row_actualDebits row = None)
                  ''active wallet reservation carries terminal accounting'' k))
            | _ \<Rightarrow> throw ''active wallet reservation owner'')
       else (\<lambda>k. ensure (row_owner row = None \<and> row_leaseExpiresAt row = None)
              ''terminal wallet reservation carries an active lease'' k))
     ((case row_approvalHash row of None \<Rightarrow> (\<lambda>k. k) | Some h \<Rightarrow> hash h)
     (ensure (approvalRequired p captured = (row_approvalHash row \<noteq> None))
       ''wallet spend reservation approval evidence is inconsistent''
     (ensure (\<not> active row \<longrightarrow> (case row_evidenceHash row of None \<Rightarrow> False | Some h \<Rightarrow> is_hash h))
       ''terminal wallet reservation lacks evidence''
     (if row_stage row = Stage_Settled
      then (case row_actualDebits row of
              None \<Rightarrow> throw ''settled wallet reservation lacks debit accounting''
            | Some ds \<Rightarrow>
              bindR (foldR (checkActual captured) [] ds) (\<lambda>seen.
              ensure (length seen = length (remdups (map fst (maxima captured))))
                ''stored wallet debit accounting is incomplete''
              (Inr (ids @ [row_id row]))))
      else ensure (row_actualDebits row = None) ''non-settled wallet reservation carries debit accounting''
           (Inr (ids @ [row_id row])))))))))))))))"

definition checkTotal :: "policy \<Rightarrow> string list \<Rightarrow> asset_totals \<Rightarrow> string list res" where
  "checkTotal p seen t =
     nonEmpty (t_asset t)
     (ensure (t_asset t \<in> set (map ap_asset (p_assets p)) \<and> t_asset t \<notin> set seen)
       ''wallet spend state has duplicate or unknown totals''
     (ensure (list_all (\<lambda>kv. isNonEmptyString (fst kv)) (t_counterpartyDebits t)) ''wallet counterparty''
     (Inr (seen @ [t_asset t]))))"

text \<open>The totals recomputed from the settled rows: \<^verbatim>\<open>Map<asset, {cumulative, counterparties}>\<close>.\<close>

definition settled_rows :: "wallet_state \<Rightarrow> stored_reservation list" where
  "settled_rows s = filter (\<lambda>row. row_stage row = Stage_Settled) (ws_reservations s)"

definition row_actual :: "stored_reservation \<Rightarrow> (string \<times> nat) list" where
  "row_actual row = aggregateActual (case row_actualDebits row of None \<Rightarrow> [] | Some ds \<Rightarrow> ds)"

definition recompute :: "wallet_state \<Rightarrow> string \<Rightarrow> nat \<times> (string \<times> nat) list" where
  "recompute s asset =
     foldl (\<lambda>(cum, cps) row.
              (case map_of (row_actual row) asset of
                 None \<Rightarrow> (cum, cps)
               | Some v \<Rightarrow>
                 (cum + v, AList.update (r_payee (row_reservation row))
                             (get0 cps (r_payee (row_reservation row)) + v) cps)))
           (0, []) (settled_rows s)"

definition totalsMatch :: "wallet_state \<Rightarrow> asset_policy \<Rightarrow> bool" where
  "totalsMatch s ap =
     (let retained = totalFor s (ap_asset ap);
          (cum, cps) = recompute s (ap_asset ap)
      in t_cumulativeDebit retained = cum \<and>
         length (t_counterpartyDebits retained) = length cps \<and>
         list_all (\<lambda>(payee, v). map_of (t_counterpartyDebits retained) payee = Some v) cps)"

definition checkEvent :: "wallet_state \<Rightarrow> spend_event \<Rightarrow> bool" where
  "checkEvent s e \<longleftrightarrow>
     isNonEmptyString (ev_reservationId e) \<and> isNonEmptyString (ev_asset e) \<and> isNonEmptyString (ev_payee e) \<and>
     0 < ev_amount e \<and> isSafeTime (ev_settledAt e) \<and>
     (case find (\<lambda>row. row_id row = ev_reservationId e) (settled_rows s) of
        None \<Rightarrow> False
      | Some row \<Rightarrow> r_payee (row_reservation row) = ev_payee e \<and>
                    map_of (row_actual row) (ev_asset e) = Some (ev_amount e))"

definition captureState ::
  "(string \<Rightarrow> string) \<Rightarrow> policy \<Rightarrow> string \<Rightarrow> wallet_state option \<Rightarrow> wallet_state res" where
  "captureState sha256Hex p policyHash stored =
     (case stored of
        None \<Rightarrow> Inr (emptyState policyHash)
      | Some s \<Rightarrow>
        ensure (ws_stateVersion s = WALLET_SPEND_STATE_VERSION \<and> ws_policyHash s = policyHash)
          ''wallet spend state is corrupt or belongs to another policy''
        (safeInteger (ws_generation s) False
        (ensure (int (length (ws_reservations s)) \<le> p_maximumRetainedReservations p)
          ''wallet spend state exceeds its retention policy''
        (bindR (foldR (checkRow sha256Hex p (ws_generation s)) [] (ws_reservations s)) (\<lambda>_.
         bindR (foldR (checkTotal p) [] (ws_totals s)) (\<lambda>_.
         ensure (list_all (totalsMatch s) (p_assets p))
           ''wallet spend totals do not match retained settlements''
        (ensure (list_all (checkEvent s) (ws_rollingEvents s))
           ''wallet spend rolling event is not bound to its settlement''
        (Inr s))))))))"

text \<open>Events inside their asset's rolling window; an event from the future is an error.\<close>

definition rollingWindow :: "policy \<Rightarrow> string \<Rightarrow> int" where
  "rollingWindow p asset =
     (case find (\<lambda>ap. ap_asset ap = asset) (p_assets p) of None \<Rightarrow> 0 | Some ap \<Rightarrow> ap_rollingWindowMs ap)"

definition recentEvents :: "wallet_state \<Rightarrow> policy \<Rightarrow> int \<Rightarrow> spend_event list res" where
  "recentEvents s p now =
     ensure (list_all (\<lambda>e. ev_settledAt e \<le> now) (ws_rollingEvents s))
       ''wallet spend state contains a future settlement''
     (Inr (filter (\<lambda>e. now - ev_settledAt e \<le> rollingWindow p (ev_asset e)) (ws_rollingEvents s)))"

section \<open>Transactions\<close>

text \<open>\<^verbatim>\<open>createInMemoryWalletSpendStateStore\<close>: one state per scope, transactions serialised.\<close>

type_synonym wallet_store = "(string \<times> wallet_state) list"

definition store_read :: "wallet_store \<Rightarrow> string \<Rightarrow> wallet_state option" where
  "store_read st scope = map_of st scope"

definition transact ::
  "wallet_store \<Rightarrow> string \<Rightarrow> (wallet_state option \<Rightarrow> (wallet_state \<times> 'v) res) \<Rightarrow> 'v res \<times> wallet_store" where
  "transact st scope operation =
     (case operation (store_read st scope) of
        Inl e \<Rightarrow> (Inl e, st)
      | Inr (s', v) \<Rightarrow> (Inr v, AList.update scope s' st))"

record clock =
  clk_server :: bool
  clk_serializedNow :: "int option"
  clk_now :: int

record authority =
  au_sha256Hex :: "string \<Rightarrow> string"
  au_policy :: policy
  au_policyHash :: string
  au_owner :: string
  au_leaseDurationMs :: int
  au_readBalance :: "string \<Rightarrow> string option"
  au_verifyOperatorApproval :: "(string \<Rightarrow> string \<Rightarrow> reservation \<Rightarrow> bool) option"
  au_authenticateRecovery :: "reservation \<Rightarrow> observation \<Rightarrow> bool"

definition sampleClock :: "clock \<Rightarrow> int res" where
  "sampleClock c =
     ensure (\<not> (clk_server c \<and> clk_serializedNow c = None))
       ''wallet spend authoritative clock must be sampled after serialization''
     (let t = (case clk_serializedNow c of Some n \<Rightarrow> n | None \<Rightarrow> clk_now c)
      in safeInteger t False (Inr t))"

definition update ::
  "authority \<Rightarrow> clock \<Rightarrow> (wallet_state \<Rightarrow> int \<Rightarrow> (wallet_state \<times> 'v) res) \<Rightarrow>
   wallet_state option \<Rightarrow> (wallet_state \<times> 'v) res" where
  "update au c operation stored =
     bindR (sampleClock c) (\<lambda>timestamp.
     bindR (captureState (au_sha256Hex au) (au_policy au) (au_policyHash au) stored) (\<lambda>state.
     bindR (recentEvents state (au_policy au) timestamp) (\<lambda>recent.
     bindR (operation (state\<lparr>ws_rollingEvents := recent\<rparr>) timestamp) (\<lambda>(state', v).
       if state' = state then Inr (state', v)
       else let expected = ws_generation state + 1
            in ensure (isSafeInteger expected) ''wallet spend generation is exhausted''
               (ensure (ws_generation state' = ws_generation state \<or> ws_generation state' = expected)
                 ''wallet spend mutation revision is invalid''
               (Inr (state'\<lparr>ws_generation := expected\<rparr>, v)))))))"

section \<open>Permits\<close>

record lease_token =
  tok_owner :: string
  tok_generation :: int

definition lease_expired :: "stored_reservation \<Rightarrow> int \<Rightarrow> bool" where
  "lease_expired row timestamp \<longleftrightarrow> (case row_leaseExpiresAt row of None \<Rightarrow> 0 | Some l \<Rightarrow> l) < timestamp"

definition holds_token :: "stored_reservation \<Rightarrow> string \<Rightarrow> lease_token \<Rightarrow> bool" where
  "holds_token row binding tok \<longleftrightarrow>
     row_binding row = binding \<and> row_owner row = Some (tok_owner tok) \<and> row_generation row = tok_generation tok"

definition requireCurrentPermit :: "wallet_state \<Rightarrow> string \<Rightarrow> string \<Rightarrow> lease_token \<Rightarrow> int \<Rightarrow> bool" where
  "requireCurrentPermit s i binding tok timestamp =
     (case find_row s i of
        None \<Rightarrow> False
      | Some row \<Rightarrow> holds_token row binding tok \<and> active row \<and> \<not> lease_expired row timestamp)"

definition assertCurrentPermit ::
  "authority \<Rightarrow> clock \<Rightarrow> reservation \<Rightarrow> string \<Rightarrow> lease_token \<Rightarrow> wallet_state option \<Rightarrow> (wallet_state \<times> unit) res" where
  "assertCurrentPermit au c r binding tok stored =
     bindR (sampleClock c) (\<lambda>timestamp.
     bindR (captureState (au_sha256Hex au) (au_policy au) (au_policyHash au) stored) (\<lambda>state.
     ensure (requireCurrentPermit state (r_reservationId r) binding tok timestamp)
       ''wallet spend effect fence is no longer current''
     (Inr (state, ()))))"

definition set_pending :: "int \<Rightarrow> stored_reservation \<Rightarrow> stored_reservation" where
  "set_pending timestamp row = row\<lparr>row_stage := Effect_Pending, row_updatedAt := timestamp\<rparr>"

definition beginRow :: "string \<Rightarrow> string \<Rightarrow> lease_token \<Rightarrow> int \<Rightarrow> stored_reservation \<Rightarrow> stored_reservation res" where
  "beginRow i binding tok timestamp row =
     (if row_id row \<noteq> i then Inr row
      else ensure (holds_token row binding tok \<and> row_stage row = Reserved \<and> \<not> lease_expired row timestamp)
             ''wallet spend reservation cannot begin an effect''
           (Inr (set_pending timestamp row)))"

definition beginEffect ::
  "reservation \<Rightarrow> string \<Rightarrow> lease_token \<Rightarrow> wallet_state \<Rightarrow> int \<Rightarrow> (wallet_state \<times> unit) res" where
  "beginEffect r binding tok state timestamp =
     bindR (mapR (beginRow (r_reservationId r) binding tok timestamp) (ws_reservations state)) (\<lambda>rows.
     Inr (state\<lparr>ws_reservations := rows\<rparr>, ()))"

section \<open>Settlement\<close>

datatype settle_result = Settled_Now | Existing

definition addTotals :: "policy \<Rightarrow> reservation \<Rightarrow> (string \<times> nat) list \<Rightarrow> wallet_state \<Rightarrow> asset_totals list" where
  "addTotals p r actualByAsset state =
     map (\<lambda>ap. let prior = totalFor state (ap_asset ap);
                   actual = get0 actualByAsset (ap_asset ap);
                   cps = t_counterpartyDebits prior
               in \<lparr>t_asset = ap_asset ap,
                   t_cumulativeDebit = t_cumulativeDebit prior + actual,
                   t_counterpartyDebits = AList.update (r_payee r) (get0 cps (r_payee r) + actual) cps\<rparr>)
         (p_assets p)"

definition settleEvents :: "reservation \<Rightarrow> (string \<times> nat) list \<Rightarrow> int \<Rightarrow> spend_event list" where
  "settleEvents r actualByAsset timestamp =
     map (\<lambda>(asset, v). \<lparr>ev_reservationId = r_reservationId r, ev_asset = asset, ev_payee = r_payee r,
                        ev_amount = v, ev_settledAt = timestamp\<rparr>)
         (filter (\<lambda>(asset, v). 0 < v) actualByAsset)"

definition set_settled :: "string \<Rightarrow> actual_debit list \<Rightarrow> int \<Rightarrow> stored_reservation \<Rightarrow> stored_reservation" where
  "set_settled ev ds timestamp row =
     row\<lparr>row_owner := None, row_leaseExpiresAt := None, row_stage := Stage_Settled,
         row_evidenceHash := Some ev, row_actualDebits := Some ds, row_updatedAt := timestamp\<rparr>"

definition set_released :: "string \<Rightarrow> int \<Rightarrow> stored_reservation \<Rightarrow> stored_reservation" where
  "set_released ev timestamp row =
     row\<lparr>row_owner := None, row_leaseExpiresAt := None, row_stage := Stage_Released,
         row_evidenceHash := Some ev, row_updatedAt := timestamp\<rparr>"

definition update_row :: "string \<Rightarrow> (stored_reservation \<Rightarrow> stored_reservation) \<Rightarrow> stored_reservation list \<Rightarrow> stored_reservation list" where
  "update_row i f rows = map (\<lambda>row. if row_id row = i then f row else row) rows"

definition settleStored ::
  "policy \<Rightarrow> reservation \<Rightarrow> string \<Rightarrow> string \<Rightarrow> actual_debit list \<Rightarrow> lease_token option \<Rightarrow>
   wallet_state \<Rightarrow> int \<Rightarrow> (wallet_state \<times> settle_result) res" where
  "settleStored p r binding ev ds token state timestamp =
     (case find_row state (r_reservationId r) of
        None \<Rightarrow> throw ''wallet spend settlement does not match a reservation''
      | Some existing \<Rightarrow>
        ensure (row_binding existing = binding) ''wallet spend settlement does not match a reservation''
        (if row_stage existing = Stage_Settled
         then ensure (row_evidenceHash existing = Some ev \<and> row_actualDebits existing = Some ds)
                ''wallet spend settlement conflicts with durable accounting''
              (Inr (state, Existing))
         else if row_stage existing = Stage_Released
         then throw ''released wallet spend reservation cannot settle''
         else ensure (case token of None \<Rightarrow> True
                      | Some tok \<Rightarrow> row_owner existing = Some (tok_owner tok) \<and>
                          row_generation existing = tok_generation tok \<and> row_stage existing = Effect_Pending)
                ''wallet spend settlement permit is stale''
              (let actualByAsset = aggregateActual ds
               in Inr (state\<lparr>ws_reservations :=
                               update_row (r_reservationId r) (set_settled ev ds timestamp) (ws_reservations state),
                             ws_totals := addTotals p r actualByAsset state,
                             ws_rollingEvents := ws_rollingEvents state @ settleEvents r actualByAsset timestamp\<rparr>,
                       Settled_Now))))"

section \<open>Reservation\<close>

datatype deny_reason =
    Balance_Unavailable | Insufficient_Reserve | Per_Order_Limit | Network_Fee_Limit | Rolling_Limit
  | Cumulative_Limit | Counterparty_Limit | Concurrency_Limit | Retention_Limit
  | Operator_Approval_Required | Operator_Approval_Invalid

datatype claim =
    Claim_Reserved int
  | Claim_Held string stage
  | Claim_Settled string "string option"
  | Claim_Conflict string
  | Claim_Denied deny_reason

text \<open>The claim an existing row already determines; a released row leaves the id free again.\<close>

definition existingClaim :: "string \<Rightarrow> stored_reservation \<Rightarrow> claim option" where
  "existingClaim binding existing =
     (if row_binding existing \<noteq> binding then Some (Claim_Conflict (row_binding existing))
      else if row_stage existing = Stage_Settled then Some (Claim_Settled binding (row_evidenceHash existing))
      else if row_stage existing = Stage_Released then None
      else Some (Claim_Held binding (row_stage existing)))"

definition probeReservation ::
  "reservation \<Rightarrow> string \<Rightarrow> wallet_state \<Rightarrow> int \<Rightarrow> (wallet_state \<times> claim option) res" where
  "probeReservation r binding state timestamp =
     Inr (state, case find_row state (r_reservationId r) of
                   None \<Rightarrow> None
                 | Some existing \<Rightarrow> existingClaim binding existing)"

text \<open>Balances of every asset the reservation debits; \<open>None\<close> when one cannot be read.\<close>

fun readBalances :: "(string \<Rightarrow> string option) \<Rightarrow> string list \<Rightarrow> (string \<times> nat) list option" where
  "readBalances read [] = Some []"
| "readBalances read (a # as) =
     (case read a of
        None \<Rightarrow> None
      | Some text \<Rightarrow>
        (case amount text of
           Inl _ \<Rightarrow> None
         | Inr n \<Rightarrow> map_option (\<lambda>m. (a, n) # m) (readBalances read as)))"

definition activeRows :: "wallet_state \<Rightarrow> stored_reservation list" where
  "activeRows s = filter active (ws_reservations s)"

definition row_maximum :: "string \<Rightarrow> stored_reservation \<Rightarrow> nat" where
  "row_maximum asset row = get0 (aggregateMaxima (r_debits (row_reservation row))) asset"

definition activeDebit :: "wallet_state \<Rightarrow> string \<Rightarrow> nat" where
  "activeDebit s asset = sum_list (map (row_maximum asset) (activeRows s))"

definition activeCounterparty :: "wallet_state \<Rightarrow> string \<Rightarrow> string \<Rightarrow> nat" where
  "activeCounterparty s asset payee =
     sum_list (map (row_maximum asset)
       (filter (\<lambda>row. r_payee (row_reservation row) = payee) (activeRows s)))"

definition rollingDebit :: "wallet_state \<Rightarrow> string \<Rightarrow> nat" where
  "rollingDebit s asset =
     sum_list (map ev_amount (filter (\<lambda>e. ev_asset e = asset) (ws_rollingEvents s)))"

definition rollingEffects :: "wallet_state \<Rightarrow> string \<Rightarrow> nat" where
  "rollingEffects s asset =
     length (remdups (map ev_reservationId (filter (\<lambda>e. ev_asset e = asset) (ws_rollingEvents s))))"

definition activeEffects :: "wallet_state \<Rightarrow> string \<Rightarrow> nat" where
  "activeEffects s asset =
     length (filter (\<lambda>row. list_ex (\<lambda>d. d_asset d = asset) (r_debits (row_reservation row))) (activeRows s))"

definition networkFee :: "reservation \<Rightarrow> string \<Rightarrow> nat" where
  "networkFee r asset =
     sum_list (map d_maximumAmount
       (filter (\<lambda>d. d_asset d = asset \<and> d_purpose d = Network_Fee) (r_debits r)))"

text \<open>One iteration of the loop over the policy's assets.\<close>

definition assetDenial ::
  "reservation \<Rightarrow> (string \<times> nat) list \<Rightarrow> wallet_state \<Rightarrow> asset_policy \<Rightarrow> deny_reason option" where
  "assetDenial r balances state ap =
     (let asset = ap_asset ap;
          requested = get0 (aggregateMaxima (r_debits r)) asset;
          act = activeDebit state asset;
          totals = totalFor state asset
      in if requested = 0 then None
         else if requested > ap_maximumPerOrderDebit ap then Some Per_Order_Limit
         else if networkFee r asset > ap_maximumNetworkFeeDebit ap then Some Network_Fee_Limit
         else if get0 balances asset < act + requested + ap_minimumReserve ap then Some Insufficient_Reserve
         else if rollingDebit state asset + act + requested > ap_maximumRollingDebit ap then Some Rolling_Limit
         else if int (rollingEffects state asset + activeEffects state asset + 1) > ap_maximumRollingEffects ap
         then Some Rolling_Limit
         else if t_cumulativeDebit totals + act + requested > ap_maximumCumulativeDebit ap
         then Some Cumulative_Limit
         else if get0 (t_counterpartyDebits totals) (r_payee r) + activeCounterparty state asset (r_payee r) +
                 requested > ap_maximumCounterpartyDebit ap
         then Some Counterparty_Limit
         else None)"

fun firstDenial :: "(asset_policy \<Rightarrow> deny_reason option) \<Rightarrow> asset_policy list \<Rightarrow> deny_reason option" where
  "firstDenial f [] = None"
| "firstDenial f (ap # aps) = (case f ap of Some d \<Rightarrow> Some d | None \<Rightarrow> firstDenial f aps)"

definition new_row :: "authority \<Rightarrow> reservation \<Rightarrow> string \<Rightarrow> string option \<Rightarrow> int \<Rightarrow> int \<Rightarrow> stored_reservation" where
  "new_row au r binding approvalHash generation timestamp =
     \<lparr>row_id = r_reservationId r, row_binding = binding, row_reservation = r, row_stage = Reserved,
      row_generation = generation, row_owner = Some (au_owner au),
      row_leaseExpiresAt = Some (timestamp + au_leaseDurationMs au), row_approvalHash = approvalHash,
      row_evidenceHash = None, row_actualDebits = None, row_createdAt = timestamp, row_updatedAt = timestamp\<rparr>"

definition commitReservation ::
  "authority \<Rightarrow> reservation \<Rightarrow> string \<Rightarrow> string option \<Rightarrow> (string \<times> nat) list \<Rightarrow>
   wallet_state \<Rightarrow> int \<Rightarrow> (wallet_state \<times> claim) res" where
  "commitReservation au r binding approvalHash balances state timestamp =
     (let existing = find_row state (r_reservationId r);
          prior = (case existing of None \<Rightarrow> None | Some row \<Rightarrow> existingClaim binding row)
      in case prior of
           Some cl \<Rightarrow> Inr (state, cl)
         | None \<Rightarrow>
           if existing = None \<and>
              int (length (ws_reservations state)) \<ge> p_maximumRetainedReservations (au_policy au)
           then Inr (state, Claim_Denied Retention_Limit)
           else if int (length (activeRows state)) \<ge> p_maximumConcurrentEffects (au_policy au)
           then Inr (state, Claim_Denied Concurrency_Limit)
           else (case firstDenial (assetDenial r balances state) (p_assets (au_policy au)) of
                   Some d \<Rightarrow> Inr (state, Claim_Denied d)
                 | None \<Rightarrow>
                   (let generation = ws_generation state + 1;
                        row = new_row au r binding approvalHash generation timestamp
                    in ensure (isSafeInteger generation) ''wallet spend generation is exhausted''
                       (ensure (isSafeInteger (timestamp + au_leaseDurationMs au))
                         ''wallet spend lease timestamp is invalid''
                       (Inr (state\<lparr>ws_generation := generation,
                                   ws_reservations :=
                                     (if existing = None then ws_reservations state @ [row]
                                      else update_row (r_reservationId r) (\<lambda>_. row) (ws_reservations state))\<rparr>,
                             Claim_Reserved generation))))))"

text \<open>
  \<^verbatim>\<open>reserve\<close>: capture, probe the store, read the balances and the approval outside any
  transaction, then commit in a second transaction that decides again from the stored state.
\<close>

definition reserve ::
  "authority \<Rightarrow> string \<Rightarrow> clock \<Rightarrow> clock \<Rightarrow> wire_reservation \<Rightarrow> wire_options \<Rightarrow>
   wallet_store \<Rightarrow> claim res \<times> wallet_store" where
  "reserve au scope c1 c2 wire options st =
     (case bindR (captureReservation wire (au_policy au)) (\<lambda>r.
           bindR (bindingHash (au_sha256Hex au) r) (\<lambda>binding.
           bindR (captureReservationOptions options) (\<lambda>approval. Inr (r, binding, approval)))) of
        Inl e \<Rightarrow> (Inl e, st)
      | Inr (r, binding, approval) \<Rightarrow>
        (case transact st scope (update au c1 (probeReservation r binding)) of
           (Inl e, st1) \<Rightarrow> (Inl e, st1)
         | (Inr (Some cl), st1) \<Rightarrow> (Inr cl, st1)
         | (Inr None, st1) \<Rightarrow>
           (case readBalances (au_readBalance au) (map fst (aggregateMaxima (r_debits r))) of
              None \<Rightarrow> (Inr (Claim_Denied Balance_Unavailable), st1)
            | Some balances \<Rightarrow>
              (if approvalRequired (au_policy au) r
               then (case (approval, au_verifyOperatorApproval au) of
                       (Some a, Some verify) \<Rightarrow>
                         if verify a binding r
                         then transact st1 scope
                                (update au c2 (commitReservation au r binding (Some (au_sha256Hex au a)) balances))
                         else (Inr (Claim_Denied Operator_Approval_Invalid), st1)
                     | _ \<Rightarrow> (Inr (Claim_Denied Operator_Approval_Required), st1))
               else transact st1 scope (update au c2 (commitReservation au r binding None balances))))))"

section \<open>Recovery\<close>

datatype reconcile_result = Rec_Settled | Rec_Released | Rec_Existing

definition releaseStored ::
  "reservation \<Rightarrow> string \<Rightarrow> observation \<Rightarrow> wallet_state \<Rightarrow> int \<Rightarrow> (wallet_state \<times> reconcile_result) res" where
  "releaseStored r binding ob state timestamp =
     (case find_row state (r_reservationId r) of
        None \<Rightarrow> throw ''wallet spend absence does not match a reservation''
      | Some existing \<Rightarrow>
        ensure (row_binding existing = binding) ''wallet spend absence does not match a reservation''
        (if row_stage existing = Stage_Settled
         then throw ''settled wallet spend reservation cannot be released''
         else if row_stage existing = Stage_Released
         then ensure (row_evidenceHash existing = Some (evidence ob))
                ''wallet spend absence conflicts with durable accounting''
              (Inr (state, Rec_Existing))
         else ensure ((case row_leaseExpiresAt existing of None \<Rightarrow> max_safe | Some l \<Rightarrow> l) < timestamp)
                ''wallet spend recovery cannot supersede a live worker''
              (ensure (\<not> (is_Obs_Not_Invoked ob \<and> row_stage existing \<noteq> Reserved))
                ''wallet spend effect-pending ambiguity requires terminal absence proof''
              (Inr (state\<lparr>ws_reservations :=
                      update_row (r_reservationId r) (set_released (evidence ob) timestamp) (ws_reservations state)\<rparr>,
                    Rec_Released)))))"

definition reconcileOp ::
  "authority \<Rightarrow> reservation \<Rightarrow> string \<Rightarrow> observation \<Rightarrow> wallet_state \<Rightarrow> int \<Rightarrow> (wallet_state \<times> reconcile_result) res" where
  "reconcileOp au r binding ob state timestamp =
     (case ob of
        Obs_Settled ev ds \<Rightarrow>
          bindR (settleStored (au_policy au) r binding ev ds None state timestamp)
            (\<lambda>(s', v). Inr (s', case v of Settled_Now \<Rightarrow> Rec_Settled | Existing \<Rightarrow> Rec_Existing))
      | _ \<Rightarrow> releaseStored r binding ob state timestamp)"

definition reconcile ::
  "authority \<Rightarrow> string \<Rightarrow> clock \<Rightarrow> wire_reservation \<Rightarrow> wire_observation \<Rightarrow>
   wallet_store \<Rightarrow> reconcile_result res \<times> wallet_store" where
  "reconcile au scope c wire wob st =
     (case bindR (captureReservation wire (au_policy au)) (\<lambda>r.
           bindR (bindingHash (au_sha256Hex au) r) (\<lambda>binding.
           bindR (captureObservation wob r) (\<lambda>ob.
           ensure (au_authenticateRecovery au r ob) ''wallet spend recovery authentication failed''
           (Inr (r, binding, ob))))) of
        Inl e \<Rightarrow> (Inl e, st)
      | Inr (r, binding, ob) \<Rightarrow> transact st scope (update au c (reconcileOp au r binding ob)))"

section \<open>Permit operations\<close>

text \<open>The permit of a successful reservation: the reservation, its binding and its lease token.\<close>

record permit =
  pm_reservation :: reservation
  pm_binding :: string
  pm_token :: lease_token

definition permit_assertCurrent ::
  "authority \<Rightarrow> string \<Rightarrow> clock \<Rightarrow> permit \<Rightarrow> wallet_store \<Rightarrow> unit res \<times> wallet_store" where
  "permit_assertCurrent au scope c pm st =
     transact st scope (assertCurrentPermit au c (pm_reservation pm) (pm_binding pm) (pm_token pm))"

definition permit_beginEffect ::
  "authority \<Rightarrow> string \<Rightarrow> clock \<Rightarrow> permit \<Rightarrow> wallet_store \<Rightarrow> unit res \<times> wallet_store" where
  "permit_beginEffect au scope c pm st =
     transact st scope (update au c (beginEffect (pm_reservation pm) (pm_binding pm) (pm_token pm)))"

definition permit_settle ::
  "authority \<Rightarrow> string \<Rightarrow> clock \<Rightarrow> permit \<Rightarrow> wire_observation \<Rightarrow> wallet_store \<Rightarrow> settle_result res \<times> wallet_store" where
  "permit_settle au scope c pm wob st =
     (case captureObservation wob (pm_reservation pm) of
        Inl e \<Rightarrow> (Inl e, st)
      | Inr (Obs_Settled ev ds) \<Rightarrow>
        (if au_authenticateRecovery au (pm_reservation pm) (Obs_Settled ev ds)
         then transact st scope (update au c
                (settleStored (au_policy au) (pm_reservation pm) (pm_binding pm) ev ds (Some (pm_token pm))))
         else (throw ''wallet spend settlement authentication failed'', st))
      | Inr _ \<Rightarrow> (throw ''wallet spend permit requires a settlement observation'', st))"

text \<open>Replay of an already claimed \<^verbatim>\<open>begin\<close>: it is idempotent once the effect is pending.\<close>

definition replayBegin ::
  "reservation \<Rightarrow> string \<Rightarrow> lease_token \<Rightarrow> wallet_state \<Rightarrow> int \<Rightarrow> (wallet_state \<times> unit) res" where
  "replayBegin r binding tok state timestamp =
     (case find_row state (r_reservationId r) of
        None \<Rightarrow> throw ''wallet spend claimed operation replay is stale''
      | Some row \<Rightarrow>
        ensure (holds_token row binding tok) ''wallet spend claimed operation replay is stale''
        (if row_stage row = Effect_Pending then Inr (state, ())
         else ensure (row_stage row = Reserved \<and> \<not> lease_expired row timestamp)
                ''wallet spend claimed begin operation is stale''
              (Inr (state\<lparr>ws_reservations :=
                      update_row (r_reservationId r) (set_pending timestamp) (ws_reservations state)\<rparr>, ()))))"

section \<open>Replay of claimed operations\<close>

record wire_replay_permit =
  wrp_keys :: "string list"
  wrp_reservationId :: string
  wrp_bindingHash :: string
  wrp_settlementBindingHash :: string
  wrp_owner :: string
  wrp_generation :: int
  wrp_reservation :: wire_reservation

record wire_replay =
  wre_keys :: "string list"
  wre_operation :: string
  wre_permit :: wire_replay_permit
  wre_observation :: "wire_observation option"

datatype replay_operation =
    Replay_Current permit
  | Replay_Begin permit
  | Replay_Settle permit string "actual_debit list"

definition captureReplayOperation :: "(string \<Rightarrow> string) \<Rightarrow> policy \<Rightarrow> wire_replay \<Rightarrow> replay_operation res" where
  "captureReplayOperation sha256Hex p input =
     (let op = wre_operation input; pm = wre_permit input
      in ensure (op \<in> set [''current'', ''begin'', ''settle''] \<and>
             onlyKeys (if op = ''settle'' then [''operation'', ''permit'', ''observation'']
                       else [''operation'', ''permit'']) (wre_keys input) \<and>
             onlyKeys [''reservationId'', ''bindingHash'', ''settlementBindingHash'', ''owner'', ''generation'',
               ''reservation''] (wrp_keys pm))
           ''wallet spend claimed operation replay is invalid''
         (bindR (captureReservation (wrp_reservation pm) p) (\<lambda>r.
          bindR (bindingHash sha256Hex r) (\<lambda>binding.
          ensure (wrp_reservationId pm = r_reservationId r \<and> wrp_bindingHash pm = binding \<and>
                  wrp_settlementBindingHash pm = r_settlementBindingHash r)
            ''wallet spend claimed operation replay is unbound''
         (nonEmpty (wrp_owner pm)
         (safeInteger (wrp_generation pm) True
         (let cpm = \<lparr>pm_reservation = r, pm_binding = binding,
                     pm_token = \<lparr>tok_owner = wrp_owner pm, tok_generation = wrp_generation pm\<rparr>\<rparr>
          in if op = ''current'' then Inr (Replay_Current cpm)
             else if op = ''begin'' then Inr (Replay_Begin cpm)
             else (case wre_observation input of
                     None \<Rightarrow> throw ''wallet spend settlement replay lacks an observation''
                   | Some wob \<Rightarrow>
                     bindR (captureObservation wob r) (\<lambda>ob.
                     (case ob of
                        Obs_Settled ev ds \<Rightarrow> Inr (Replay_Settle cpm ev ds)
                      | _ \<Rightarrow> throw ''wallet spend settlement replay requires a settlement observation''))))))))))"

definition replayClaimedOperation ::
  "authority \<Rightarrow> string \<Rightarrow> clock \<Rightarrow> wire_replay \<Rightarrow> wallet_store \<Rightarrow> unit res \<times> wallet_store" where
  "replayClaimedOperation au scope c input st =
     (case captureReplayOperation (au_sha256Hex au) (au_policy au) input of
        Inl e \<Rightarrow> (Inl e, st)
      | Inr (Replay_Settle pm ev ds) \<Rightarrow>
        (if au_authenticateRecovery au (pm_reservation pm) (Obs_Settled ev ds)
         then (case transact st scope (update au c
                 (settleStored (au_policy au) (pm_reservation pm) (pm_binding pm) ev ds (Some (pm_token pm)))) of
                 (Inl e, st1) \<Rightarrow> (Inl e, st1)
               | (Inr _, st1) \<Rightarrow> (Inr (), st1))
         else (throw ''wallet spend settlement replay authentication failed'', st))
      | Inr (Replay_Current pm) \<Rightarrow> permit_assertCurrent au scope c pm st
      | Inr (Replay_Begin pm) \<Rightarrow>
        transact st scope (update au c (replayBegin (pm_reservation pm) (pm_binding pm) (pm_token pm))))"

section \<open>Inspection\<close>

record asset_status =
  as_asset :: string
  as_balance :: "nat option"
  as_reservedWorstCaseDebit :: nat
  as_rollingSettledDebit :: nat
  as_cumulativeSettledDebit :: nat
  as_availableHeadroom :: "nat option"

record wallet_status =
  st_revision :: int
  st_activeEffects :: nat
  st_retainedReservations :: nat
  st_operatorActionReservations :: "string list"
  st_assets :: "asset_status list"

text \<open>A subtraction the code guards by a comparison; both results are non-negative.\<close>

definition headroom :: "nat \<Rightarrow> nat \<Rightarrow> nat \<Rightarrow> nat" where
  "headroom limit used1 used2 = (if limit > used1 + used2 then limit - used1 - used2 else 0)"

definition assetStatus :: "(string \<Rightarrow> nat option) \<Rightarrow> wallet_state \<Rightarrow> asset_policy \<Rightarrow> asset_status" where
  "assetStatus balances state ap =
     (let asset = ap_asset ap;
          reserved = activeDebit state asset;
          rolling = rollingDebit state asset;
          cumulative = t_cumulativeDebit (totalFor state asset);
          balance = balances asset;
          balanceHeadroom = map_option (\<lambda>b. headroom b reserved (ap_minimumReserve ap)) balance;
          rollingHeadroom = headroom (ap_maximumRollingDebit ap) rolling reserved;
          cumulativeHeadroom = headroom (ap_maximumCumulativeDebit ap) cumulative reserved
      in \<lparr>as_asset = asset, as_balance = balance, as_reservedWorstCaseDebit = reserved,
          as_rollingSettledDebit = rolling, as_cumulativeSettledDebit = cumulative,
          as_availableHeadroom = map_option (\<lambda>b. min (min b rollingHeadroom) cumulativeHeadroom) balanceHeadroom\<rparr>)"

definition project :: "policy \<Rightarrow> (string \<Rightarrow> nat option) \<Rightarrow> wallet_state \<Rightarrow> int \<Rightarrow> wallet_status" where
  "project p balances state timestamp =
     \<lparr>st_revision = ws_generation state,
      st_activeEffects = length (activeRows state),
      st_retainedReservations = length (ws_reservations state),
      st_operatorActionReservations =
        map row_id (filter (\<lambda>row. lease_expired row timestamp) (activeRows state)),
      st_assets = map (assetStatus balances state) (p_assets p)\<rparr>"

definition observedBalance :: "(string \<Rightarrow> string option) \<Rightarrow> string \<Rightarrow> nat option" where
  "observedBalance read asset =
     (case read asset of None \<Rightarrow> None | Some text \<Rightarrow> (case amount text of Inl _ \<Rightarrow> None | Inr n \<Rightarrow> Some n))"

text \<open>With a store that has \<^verbatim>\<open>read\<close>, inspection never writes; without one it is a transaction.\<close>

definition inspect :: "authority \<Rightarrow> string \<Rightarrow> int \<Rightarrow> wallet_store \<Rightarrow> wallet_status res" where
  "inspect au scope now st =
     bindR (captureState (au_sha256Hex au) (au_policy au) (au_policyHash au) (store_read st scope)) (\<lambda>state.
     safeInteger now False
     (bindR (recentEvents state (au_policy au) now) (\<lambda>recent.
      Inr (project (au_policy au) (observedBalance (au_readBalance au))
             (state\<lparr>ws_rollingEvents := recent\<rparr>) now))))"

definition inspect_transact ::
  "authority \<Rightarrow> string \<Rightarrow> clock \<Rightarrow> wallet_store \<Rightarrow> wallet_status res \<times> wallet_store" where
  "inspect_transact au scope c st =
     transact st scope (update au c (\<lambda>state timestamp.
       Inr (state, project (au_policy au) (observedBalance (au_readBalance au)) state timestamp)))"

section \<open>Composed execution of one effect\<close>

datatype 'r execution = Exec_Completed 'r | Exec_Claim claim

text \<open>The permit of a reserved claim: it holds the captured reservation and the lease token.\<close>

definition permitFor :: "authority \<Rightarrow> wire_reservation \<Rightarrow> int \<Rightarrow> permit res" where
  "permitFor au wire generation =
     bindR (captureReservation wire (au_policy au)) (\<lambda>r.
     bindR (bindingHash (au_sha256Hex au) r) (\<lambda>binding.
     Inr \<lparr>pm_reservation = r, pm_binding = binding,
          pm_token = \<lparr>tok_owner = au_owner au, tok_generation = generation\<rparr>\<rparr>))"

text \<open>
  \<open>clocks\<close> are the times of the five transactions; the effect and the settlement projection are
  the caller's and may throw.
\<close>

definition executePermit ::
  "authority \<Rightarrow> string \<Rightarrow> (nat \<Rightarrow> clock) \<Rightarrow> permit \<Rightarrow> (permit \<Rightarrow> 'r res) \<Rightarrow> ('r \<Rightarrow> wire_observation res) \<Rightarrow>
   wallet_store \<Rightarrow> 'r execution res \<times> wallet_store" where
  "executePermit au scope clocks pm effect settlement st =
     (case permit_beginEffect au scope (clocks 2) pm st of
        (Inl e, st1) \<Rightarrow> (Inl e, st1)
      | (Inr _, st1) \<Rightarrow>
        (case permit_assertCurrent au scope (clocks 3) pm st1 of
           (Inl e, st2) \<Rightarrow> (Inl e, st2)
         | (Inr _, st2) \<Rightarrow>
           (case bindR (effect pm) (\<lambda>x. bindR (settlement x) (\<lambda>ob. Inr (x, ob))) of
              Inl e \<Rightarrow> (Inl e, st2)
            | Inr (x, ob) \<Rightarrow>
              (case permit_settle au scope (clocks 4) pm ob st2 of
                 (Inl e, st3) \<Rightarrow> (Inl e, st3)
               | (Inr _, st3) \<Rightarrow> (Inr (Exec_Completed x), st3)))))"

definition executeWalletSpendEffectV1 ::
  "authority \<Rightarrow> string \<Rightarrow> (nat \<Rightarrow> clock) \<Rightarrow> wire_reservation \<Rightarrow> string option \<Rightarrow>
   (permit \<Rightarrow> 'r res) \<Rightarrow> ('r \<Rightarrow> wire_observation res) \<Rightarrow> wallet_store \<Rightarrow> 'r execution res \<times> wallet_store" where
  "executeWalletSpendEffectV1 au scope clocks wire approval effect settlement st =
     (if \<not> (case approval of None \<Rightarrow> True | Some a \<Rightarrow> isNonEmptyString a)
      then (throw ''wallet spend execution approval must be a non-empty exact NFC string'', st)
      else
        (case reserve au scope (clocks 0) (clocks 1) wire
                \<lparr>wopt_keys = (if approval = None then [] else [''operatorApproval'']),
                 wopt_operatorApproval = approval\<rparr> st of
           (Inl e, st1) \<Rightarrow> (Inl e, st1)
         | (Inr (Claim_Reserved generation), st1) \<Rightarrow>
           (case permitFor au wire generation of
              Inl e \<Rightarrow> (Inl e, st1)
            | Inr pm \<Rightarrow> executePermit au scope clocks pm effect settlement st1)
         | (Inr cl, st1) \<Rightarrow> (Inr (Exec_Claim cl), st1)))"

end
