(* ===== verification/Dacs_Wallet_Safety.thy ===== *)
theory Dacs_Wallet_Safety
  imports Dacs_Wallet
begin

text \<open>
  The wallet spend authority, part three: what holds of every state its operations can produce.
  The budgets are proved once, inside the locale \<open>row_budget\<close>, for any weight of a stored
  reservation that no lifecycle step of the reservation increases; the cumulative debit of an
  asset, the debit towards one counterparty and the number of concurrent effects are its
  interpretations.
\<close>

section \<open>Association lists of amounts\<close>

lemma get0_update [simp]: "get0 (AList.update k v m) j = (if j = k then v else get0 m j)"
  by (simp add: get0_def update_conv')

lemma get0_Nil [simp]: "get0 [] k = 0"
  by (simp add: get0_def)

definition amount_of :: "string \<Rightarrow> (string \<times> nat) list \<Rightarrow> nat" where
  "amount_of a ds = sum_list (map snd (filter (\<lambda>d. fst d = a) ds))"

lemma aggregate_get0: "get0 (aggregate ds) a = amount_of a ds"
proof -
  have "get0 (foldl (\<lambda>m (b, v). AList.update b (get0 m b + v) m) m0 ds) a = get0 m0 a + amount_of a ds" for m0
    by (induction ds arbitrary: m0) (auto simp: amount_of_def)
  from this [of "[]"] show ?thesis by (simp add: aggregate_def)
qed

lemma aggregate_dom: "a \<in> fst ` set (aggregate ds) \<longleftrightarrow> a \<in> fst ` set ds"
proof -
  have "a \<in> fst ` set (foldl (\<lambda>m (b, v). AList.update b (get0 m b + v) m) m0 ds) \<longleftrightarrow>
        a \<in> fst ` set m0 \<or> a \<in> fst ` set ds" for m0
  proof (induction ds arbitrary: m0)
    case (Cons d ds)
    show ?case by (cases d) (simp add: Cons dom_update, blast)
  qed simp
  from this [of "[]"] show ?thesis by (simp add: aggregate_def)
qed

lemma aggregate_distinct: "distinct (map fst (aggregate ds))"
proof -
  have "distinct (map fst m0) \<Longrightarrow>
        distinct (map fst (foldl (\<lambda>m (b, v). AList.update b (get0 m b + v) m) m0 ds))" for m0
    by (induction ds arbitrary: m0) (auto simp: distinct_update split: prod.splits)
  from this [of "[]"] show ?thesis by (simp add: aggregate_def)
qed

section \<open>Rows\<close>

lemma find_row_Some:
  "find_row s i = Some row \<Longrightarrow> row \<in> set (ws_reservations s) \<and> row_id row = i"
  unfolding find_row_def by (auto simp: find_Some_iff)

lemma find_row_None: "find_row s i = None \<longleftrightarrow> i \<notin> set (map row_id (ws_reservations s))"
  by (auto simp: find_row_def find_None_iff)

text \<open>With distinct ids, updating the row of an id changes the weight of exactly one row.\<close>

lemma sum_update_row:
  assumes "distinct (map row_id rows)" and "row \<in> set rows" and "row_id row = i"
  shows "sum_list (map w (update_row i f rows)) + w row = sum_list (map w rows) + (w (f row) :: nat)"
  using assms
proof (induction rows)
  case (Cons x rows)
  have other: "update_row i f rows = rows" if "i \<notin> row_id ` set rows"
    using that by (induction rows) (auto simp: update_row_def)
  show ?case
  proof (cases "row = x")
    case True
    with Cons have "i \<notin> row_id ` set rows" by auto
    with other True Cons.prems(3) show ?thesis by (simp add: update_row_def)
  next
    case False
    with Cons have "row \<in> set rows" "row_id x \<noteq> i" by auto
    with Cons show ?thesis by (simp add: update_row_def)
  qed
qed simp

lemma map_id_update_row: "(\<And>row. row_id (f row) = row_id row) \<Longrightarrow> map row_id (update_row i f rows) = map row_id rows"
  by (induction rows) (auto simp: update_row_def)

lemma set_row_id [simp]:
  "row_id (set_pending t row) = row_id row" "row_id (set_settled ev ds t row) = row_id row"
  "row_id (set_released ev t row) = row_id row" "row_id (new_row au r b h g t) = r_reservationId r"
  by (simp_all add: set_pending_def set_settled_def set_released_def new_row_def)

lemma begin_rows:
  assumes "mapR (beginRow i b tok t) rows = Inr rows'"
  shows "rows' = update_row i (set_pending t) rows \<and>
    (\<forall>row \<in> set rows. row_id row = i \<longrightarrow>
       holds_token row b tok \<and> row_stage row = Reserved \<and> \<not> lease_expired row t)"
  using assms
proof (induction rows arbitrary: rows')
  case (Cons x rows)
  then show ?case
    by (auto simp: res_simps update_row_def beginRow_def split: if_splits)
qed (simp add: update_row_def)

section \<open>What validation of the stored state guarantees\<close>

lemma foldR_checkRow:
  assumes "foldR (checkRow sha p g) ids rows = Inr ids'"
  shows "ids' = ids @ map row_id rows \<and> (distinct ids \<longrightarrow> distinct ids') \<and>
    (\<forall>row \<in> set rows. \<exists>seen. checkRow sha p g seen row = Inr (seen @ [row_id row]))"
  using assms
proof (induction rows arbitrary: ids)
  case (Cons x rows)
  then obtain ids1 where 1: "checkRow sha p g ids x = Inr ids1" "foldR (checkRow sha p g) ids1 rows = Inr ids'"
    by (auto simp: res_simps)
  have x: "ids1 = ids @ [row_id x]" "row_id x \<notin> set ids"
    using 1(1) by (auto simp: checkRow_def res_simps nonEmpty_def hash_def safeInteger_def
        split: if_splits option.splits)
  note IH = Cons.IH [OF 1(2)]
  have "distinct ids1 = distinct ids" using x by simp
  then have "distinct ids \<longrightarrow> distinct ids'" using IH by blast
  moreover have "\<exists>seen. checkRow sha p g seen x = Inr (seen @ [row_id x])" using 1(1) x(1) by blast
  ultimately show ?case using IH x(1) by (simp del: distinct_append)
qed simp

definition row_ok :: "(string \<Rightarrow> string) \<Rightarrow> policy \<Rightarrow> int \<Rightarrow> stored_reservation \<Rightarrow> bool" where
  "row_ok sha p g row \<longleftrightarrow> (\<exists>seen. checkRow sha p g seen row = Inr (seen @ [row_id row]))"

lemma captureState_Some:
  assumes "captureState sha p h (Some s) = Inr s'"
  shows "s' = s" "distinct (map row_id (ws_reservations s))"
    "\<forall>row \<in> set (ws_reservations s). row_ok sha p (ws_generation s) row"
    "\<forall>ap \<in> set (p_assets p). totalsMatch s ap"
    "int (length (ws_reservations s)) \<le> p_maximumRetainedReservations p" "0 \<le> ws_generation s"
    "\<forall>e \<in> set (ws_rollingEvents s). checkEvent s e"
proof -
  from assms obtain ids where f: "foldR (checkRow sha p (ws_generation s)) [] (ws_reservations s) = Inr ids"
    and rest: "s' = s" "list_all (totalsMatch s) (p_assets p)" "list_all (checkEvent s) (ws_rollingEvents s)"
      "int (length (ws_reservations s)) \<le> p_maximumRetainedReservations p" "(if False then 1 else 0) \<le> ws_generation s"
    unfolding captureState_def safeInteger_def option.case bindR_Inr ensure_Inr sum.inject by blast
  show "s' = s" by (fact rest)
  show "distinct (map row_id (ws_reservations s))" "\<forall>row \<in> set (ws_reservations s). row_ok sha p (ws_generation s) row"
    using foldR_checkRow [OF f] unfolding row_ok_def by auto
  show "\<forall>ap \<in> set (p_assets p). totalsMatch s ap" "\<forall>e \<in> set (ws_rollingEvents s). checkEvent s e"
    using rest by (simp_all add: list_all_iff)
  show "int (length (ws_reservations s)) \<le> p_maximumRetainedReservations p" "0 \<le> ws_generation s"
    using rest by simp_all
qed

text \<open>Settled and active debits of the rows, and what the retained totals say about them.\<close>

definition settled_amount :: "string \<Rightarrow> stored_reservation \<Rightarrow> nat" where
  "settled_amount a row = get0 (row_actual row) a"

definition settledDebit :: "wallet_state \<Rightarrow> string \<Rightarrow> nat" where
  "settledDebit s a = sum_list (map (settled_amount a) (settled_rows s))"

definition settledCounterparty :: "wallet_state \<Rightarrow> string \<Rightarrow> string \<Rightarrow> nat" where
  "settledCounterparty s a payee =
     sum_list (map (settled_amount a) (filter (\<lambda>row. r_payee (row_reservation row) = payee) (settled_rows s)))"

lemma recompute_sums:
  "fst (recompute s a) = settledDebit s a \<and> get0 (snd (recompute s a)) payee = settledCounterparty s a payee"
proof -
  let ?f = "\<lambda>(cum, cps) row.
      (case map_of (row_actual row) a of
         None \<Rightarrow> (cum, cps)
       | Some v \<Rightarrow> (cum + v, AList.update (r_payee (row_reservation row))
                    (get0 cps (r_payee (row_reservation row)) + v) cps))"
  have "fst (foldl ?f z rows) = fst z + sum_list (map (settled_amount a) rows) \<and>
        get0 (snd (foldl ?f z rows)) payee = get0 (snd z) payee +
          sum_list (map (settled_amount a) (filter (\<lambda>row. r_payee (row_reservation row) = payee) rows))" for z rows
  proof (induction rows arbitrary: z)
    case (Cons row rows)
    show ?case
      by (cases z; cases "map_of (row_actual row) a")
        (use Cons in \<open>auto simp: settled_amount_def get0_def [of "row_actual row"]\<close>)
  qed simp
  from this [of "(0, [])" "settled_rows s"] show ?thesis
    by (simp add: recompute_def settledDebit_def settledCounterparty_def)
qed

lemma get0_mem: "distinct (map fst m) \<Longrightarrow> (k, v) \<in> set m \<Longrightarrow> get0 m k = v"
  by (simp add: get0_def)

lemma totalsMatch_bounds:
  assumes "totalsMatch s ap"
  shows "t_cumulativeDebit (totalFor s (ap_asset ap)) = settledDebit s (ap_asset ap)"
    and "settledCounterparty s (ap_asset ap) payee \<le>
         get0 (t_counterpartyDebits (totalFor s (ap_asset ap))) payee"
proof -
  obtain cum cps where rc: "recompute s (ap_asset ap) = (cum, cps)" by (cases "recompute s (ap_asset ap)")
  note m = assms [unfolded totalsMatch_def rc Let_def prod.case]
  show "t_cumulativeDebit (totalFor s (ap_asset ap)) = settledDebit s (ap_asset ap)"
    using m recompute_sums [of s "ap_asset ap"] rc by simp
  have cp: "settledCounterparty s (ap_asset ap) payee = get0 cps payee"
    using recompute_sums [of s "ap_asset ap" payee] rc by simp
  show "settledCounterparty s (ap_asset ap) payee \<le> get0 (t_counterpartyDebits (totalFor s (ap_asset ap))) payee"
  proof (cases "map_of cps payee")
    case (Some v)
    then have "(payee, v) \<in> set cps" by (rule map_of_SomeD)
    then have "map_of (t_counterpartyDebits (totalFor s (ap_asset ap))) payee = Some v"
      using m by (auto simp: list_all_iff)
    then show ?thesis using cp Some by (simp add: get0_def)
  qed (simp add: cp get0_def)
qed

section \<open>Budgets\<close>

text \<open>A set of actual debits that stays within the reservation of a row, asset by asset.\<close>

definition within_reservation :: "actual_debit list \<Rightarrow> reservation \<Rightarrow> bool" where
  "within_reservation ds r \<longleftrightarrow> (\<forall>a. get0 (aggregateActual ds) a \<le> get0 (aggregateMaxima (r_debits r)) a)"

definition total_weight :: "(stored_reservation \<Rightarrow> nat) \<Rightarrow> wallet_state \<Rightarrow> nat" where
  "total_weight w s = sum_list (map w (ws_reservations s))"

lemma total_weight_events [simp]: "total_weight w (s\<lparr>ws_rollingEvents := es\<rparr>) = total_weight w s"
  "total_weight w (s\<lparr>ws_generation := g\<rparr>) = total_weight w s"
  by (simp_all add: total_weight_def)

lemma find_row_events [simp]: "find_row (s\<lparr>ws_rollingEvents := es\<rparr>) i = find_row s i"
  by (simp add: find_row_def)

text \<open>
  The weight of a stored reservation that its lifecycle never increases: beginning the effect
  keeps it, settling within the reservation and releasing do not raise it.
\<close>

locale row_budget =
  fixes weight :: "stored_reservation \<Rightarrow> nat"
  assumes weight_pending: "row_stage row = Reserved \<Longrightarrow> weight (set_pending t row) \<le> weight row"
    and weight_settled: "active row \<Longrightarrow> within_reservation ds (row_reservation row) \<Longrightarrow>
      weight (set_settled ev ds t row) \<le> weight row"
    and weight_released: "active row \<Longrightarrow> weight (set_released ev t row) \<le> weight row"
begin

lemma update_row_le:
  assumes "distinct (map row_id (ws_reservations s))" and "find_row s i = Some row"
    and "weight (f row) \<le> weight row"
  shows "sum_list (map weight (update_row i f (ws_reservations s))) \<le> total_weight weight s"
  using sum_update_row [OF assms(1), of row i weight f] find_row_Some [OF assms(2)] assms(3)
  by (simp add: total_weight_def)

lemma begin_le:
  assumes "distinct (map row_id (ws_reservations s))" and "beginEffect r b tok s t = Inr (s', u)"
  shows "total_weight weight s' \<le> total_weight weight s"
proof -
  obtain rows where rows: "mapR (beginRow (r_reservationId r) b tok t) (ws_reservations s) = Inr rows"
    "s' = s\<lparr>ws_reservations := rows\<rparr>"
    using assms(2) by (auto simp: beginEffect_def res_simps)
  note br = begin_rows [OF rows(1)]
  have "sum_list (map weight (update_row (r_reservationId r) (set_pending t) (ws_reservations s)))
    \<le> sum_list (map weight (ws_reservations s))"
    unfolding update_row_def map_map
    using br by (intro sum_list_mono) (auto intro: weight_pending)
  then show ?thesis using rows br by (simp add: total_weight_def)
qed

lemma replay_le:
  assumes "distinct (map row_id (ws_reservations s))" and "replayBegin r b tok s t = Inr (s', u)"
  shows "total_weight weight s' \<le> total_weight weight s"
  using assms update_row_le [OF assms(1), of "r_reservationId r" _ "set_pending t"] weight_pending
  by (auto simp: replayBegin_def res_simps total_weight_def split: option.splits if_splits)

lemma settle_le:
  assumes "distinct (map row_id (ws_reservations s))"
    and "settleStored p r b ev ds tok s t = Inr (s', v)"
    and "\<And>row. find_row s (r_reservationId r) = Some row \<Longrightarrow> row_binding row = b \<Longrightarrow>
      within_reservation ds (row_reservation row)"
  shows "total_weight weight s' \<le> total_weight weight s"
proof (cases "v = Existing")
  case True
  then show ?thesis using assms(2) by (auto simp: settleStored_def res_simps Let_def split: option.splits if_splits)
next
  case False
  with assms(2) obtain row where row: "find_row s (r_reservationId r) = Some row" "row_binding row = b"
    "active row" and s': "ws_reservations s' =
      update_row (r_reservationId r) (set_settled ev ds t) (ws_reservations s)"
    by (cases "find_row s (r_reservationId r)"; cases "row_stage (the (find_row s (r_reservationId r)))")
      (auto simp: settleStored_def res_simps Let_def active_def)
  have "weight (set_settled ev ds t row) \<le> weight row" using row assms(3) by (intro weight_settled) auto
  from update_row_le [where f = "set_settled ev ds t", OF assms(1) row(1) this] show ?thesis
    by (simp add: total_weight_def s')
qed

lemma release_le:
  assumes "distinct (map row_id (ws_reservations s))" and "releaseStored r b ob s t = Inr (s', v)"
  shows "total_weight weight s' \<le> total_weight weight s"
proof (cases "v = Rec_Existing")
  case True
  then show ?thesis using assms(2) by (auto simp: releaseStored_def res_simps split: option.splits if_splits)
next
  case False
  with assms(2) obtain row where row: "find_row s (r_reservationId r) = Some row" "active row"
    and s': "ws_reservations s' =
      update_row (r_reservationId r) (set_released (evidence ob) t) (ws_reservations s)"
    by (cases "find_row s (r_reservationId r)"; cases "row_stage (the (find_row s (r_reservationId r)))")
      (auto simp: releaseStored_def res_simps active_def)
  from update_row_le [where f = "set_released (evidence ob) t", OF assms(1) row(1) weight_released [OF row(2)]]
  show ?thesis by (simp add: total_weight_def s')
qed

lemma commit_le:
  assumes "distinct (map row_id (ws_reservations s))"
    and "commitReservation au r b h bal s t = Inr (s', cl)"
  shows "total_weight weight s' \<le> total_weight weight s +
    (case cl of Claim_Reserved g \<Rightarrow> weight (new_row au r b h g t) | _ \<Rightarrow> 0)"
proof (cases "find_row s (r_reservationId r)")
  case None
  then show ?thesis using assms(2)
    by (auto simp: commitReservation_def res_simps Let_def total_weight_def split: if_splits option.splits)
next
  case (Some row)
  show ?thesis using assms(2) Some
      sum_update_row [OF assms(1), of row "r_reservationId r" weight "\<lambda>_. new_row au r b h (ws_generation s + 1) t"]
      find_row_Some [OF Some]
    by (auto simp: commitReservation_def existingClaim_def res_simps Let_def total_weight_def
        split: if_splits option.splits)
qed

end

text \<open>The worst case a stored reservation can still cost, or has cost, in one asset.\<close>

definition exposure :: "string \<Rightarrow> stored_reservation \<Rightarrow> nat" where
  "exposure a row =
     (if active row then row_maximum a row
      else if row_stage row = Stage_Settled then settled_amount a row else 0)"

definition counterparty_exposure :: "string \<Rightarrow> string \<Rightarrow> stored_reservation \<Rightarrow> nat" where
  "counterparty_exposure a payee row =
     (if r_payee (row_reservation row) = payee then exposure a row else 0)"

definition effect_weight :: "stored_reservation \<Rightarrow> nat" where
  "effect_weight row = (if active row then 1 else 0)"

lemmas row_update_defs = set_pending_def set_settled_def set_released_def

interpretation exposure: row_budget "exposure a" for a
  by unfold_locales
    (auto simp: exposure_def row_update_defs active_def row_maximum_def settled_amount_def row_actual_def
      within_reservation_def)

interpretation counterparty_exposure: row_budget "counterparty_exposure a payee" for a payee
  by unfold_locales
    (use exposure.weight_pending exposure.weight_settled exposure.weight_released in
      \<open>auto simp: counterparty_exposure_def row_update_defs\<close>)

interpretation effect_weight: row_budget effect_weight
  by unfold_locales (auto simp: effect_weight_def row_update_defs active_def)

lemma exposure_split: "total_weight (exposure a) s = settledDebit s a + activeDebit s a"
proof -
  have "sum_list (map (exposure a) rows) =
      sum_list (map (settled_amount a) (filter (\<lambda>row. row_stage row = Stage_Settled) rows)) +
      sum_list (map (row_maximum a) (filter active rows))" for rows
    by (induction rows) (auto simp: exposure_def active_def)
  then show ?thesis
    by (simp add: total_weight_def settledDebit_def settled_rows_def activeDebit_def activeRows_def)
qed

lemma counterparty_split:
  "total_weight (counterparty_exposure a payee) s = settledCounterparty s a payee + activeCounterparty s a payee"
proof -
  have "sum_list (map (counterparty_exposure a payee) rows) =
      sum_list (map (settled_amount a) (filter (\<lambda>row. r_payee (row_reservation row) = payee)
        (filter (\<lambda>row. row_stage row = Stage_Settled) rows))) +
      sum_list (map (row_maximum a) (filter (\<lambda>row. r_payee (row_reservation row) = payee) (filter active rows)))"
    for rows
    by (induction rows) (auto simp: counterparty_exposure_def exposure_def active_def)
  then show ?thesis
    by (simp add: total_weight_def settledCounterparty_def settled_rows_def activeCounterparty_def activeRows_def)
qed

lemma effects_count: "total_weight effect_weight s = length (activeRows s)"
proof -
  have "sum_list (map effect_weight rows) = length (filter active rows)" for rows
    by (induction rows) (auto simp: effect_weight_def)
  then show ?thesis by (simp add: total_weight_def activeRows_def)
qed

section \<open>Captured observations stay within the reservation\<close>

lemma sum_within:
  assumes "distinct (map key xs)" and "\<And>x. x \<in> set xs \<Longrightarrow> \<exists>m. map_of M (key x) = Some m \<and> val x \<le> m"
  shows "sum_list (map val xs) \<le> (sum_list (map snd M) :: nat)"
  using assms
proof (induction M arbitrary: xs)
  case Nil
  then show ?case by (cases xs) auto
next
  case (Cons kv M)
  obtain k v where kv: "kv = (k, v)" by (cases kv)
  show ?case
  proof (cases "\<exists>x \<in> set xs. key x = k")
    case True
    then obtain ys x zs where xs: "xs = ys @ x # zs" "key x = k" by (meson split_list)
    have "sum_list (map val (ys @ zs)) \<le> sum_list (map snd M)"
    proof (rule Cons.IH)
      show "distinct (map key (ys @ zs))" using Cons.prems(1) xs by auto
      show "\<exists>m. map_of M (key y) = Some m \<and> val y \<le> m" if "y \<in> set (ys @ zs)" for y
      proof -
        have "key x \<notin> key ` set (ys @ zs)" using Cons.prems(1) xs by auto
        then have "key y \<noteq> k" using that xs(2) by (metis imageI)
        then show ?thesis using that Cons.prems(2) [of y] xs kv by auto
      qed
    qed
    moreover have "val x \<le> v" using Cons.prems(2) [of x] xs kv by simp
    ultimately show ?thesis using xs kv by simp
  next
    case False
    have "\<exists>m. map_of M (key y) = Some m \<and> val y \<le> m" if "y \<in> set xs" for y
      using that False Cons.prems(2) [of y] kv by (auto split: if_splits)
    then show ?thesis using Cons.IH [OF Cons.prems(1)] kv by simp
  qed
qed

lemma map_of_filter_key: "P k \<Longrightarrow> map_of (filter (\<lambda>kv. P (fst kv)) M) k = map_of M k"
  by (induction M) auto

lemma keyed_within_reservation:
  assumes "distinct (map actual_key ds)"
    and "\<And>d. d \<in> set ds \<Longrightarrow> \<exists>m. map_of (maxima r) (actual_key d) = Some m \<and> a_amount d \<le> m"
  shows "within_reservation ds r"
  unfolding within_reservation_def
proof
  fix a
  let ?xs = "filter (\<lambda>d. a_asset d = a) ds" and ?M = "filter (\<lambda>kv. fst (fst kv) = a) (maxima r)"
  have "sum_list (map a_amount ?xs) \<le> sum_list (map snd ?M)"
  proof (rule sum_within [where key = actual_key])
    show "distinct (map actual_key ?xs)" using assms(1) by (simp add: distinct_map_filter)
    show "\<exists>m. map_of ?M (actual_key d) = Some m \<and> a_amount d \<le> m" if "d \<in> set ?xs" for d
      using that assms(2) [of d] map_of_filter_key [of "\<lambda>k. fst k = a" "actual_key d" "maxima r"]
      by (simp add: actual_key_def)
  qed
  moreover have "sum_list (map snd ?M) = amount_of a (map (\<lambda>d. (d_asset d, d_maximumAmount d)) (r_debits r))"
    by (simp add: amount_of_def maxima_def filter_map o_def debit_key_def)
  moreover have "sum_list (map a_amount ?xs) = amount_of a (map (\<lambda>d. (a_asset d, a_amount d)) ds)"
    by (simp add: amount_of_def filter_map o_def)
  ultimately show "get0 (aggregateActual ds) a \<le> get0 (aggregateMaxima (r_debits r)) a"
    by (simp add: aggregateActual_def aggregateMaxima_def aggregate_get0)
qed

lemma foldR_captureActual:
  assumes "foldR (captureActual r) seen was = Inr ds"
    and "distinct (map actual_key seen)"
    and "\<And>d. d \<in> set seen \<Longrightarrow> \<exists>m. map_of (maxima r) (actual_key d) = Some m \<and> a_amount d \<le> m"
  shows "distinct (map actual_key ds) \<and>
    (\<forall>d \<in> set ds. \<exists>m. map_of (maxima r) (actual_key d) = Some m \<and> a_amount d \<le> m)"
  by (rule foldR_invariant [OF assms(1), where I = "\<lambda>ds. distinct (map actual_key ds) \<and>
      (\<forall>d \<in> set ds. \<exists>m. map_of (maxima r) (actual_key d) = Some m \<and> a_amount d \<le> m)"])
    (use assms(2,3) in \<open>auto simp: captureActual_def res_simps actual_key_def split: option.splits\<close>)

lemma captureObservation_within:
  assumes "captureObservation wob r = Inr (Obs_Settled ev ds)"
  shows "within_reservation ds r"
proof -
  have "foldR (captureActual r) [] (wo_debits wob) = Inr ds"
    using assms by (auto simp: captureObservation_def res_simps hash_def split: if_splits)
  from foldR_captureActual [OF this] show ?thesis by (intro keyed_within_reservation) auto
qed

section \<open>The budget invariant\<close>

text \<open>
  \<open>R\<close> is the set of reservations in play. Every stored row is for one of them, and the row's
  binding is the hash of that reservation.
\<close>

definition rows_bound :: "(string \<Rightarrow> string) \<Rightarrow> reservation set \<Rightarrow> wallet_state \<Rightarrow> bool" where
  "rows_bound sha R s \<longleftrightarrow> (\<forall>row \<in> set (ws_reservations s).
     row_reservation row \<in> R \<and> bindingHash sha (row_reservation row) = Inr (row_binding row))"

definition budget_inv :: "policy \<Rightarrow> wallet_state \<Rightarrow> bool" where
  "budget_inv p s \<longleftrightarrow>
     int (length (activeRows s)) \<le> p_maximumConcurrentEffects p \<and>
     (\<forall>ap \<in> set (p_assets p).
        settledDebit s (ap_asset ap) + activeDebit s (ap_asset ap) \<le> ap_maximumCumulativeDebit ap \<and>
        (\<forall>payee. settledCounterparty s (ap_asset ap) payee + activeCounterparty s (ap_asset ap) payee
                   \<le> ap_maximumCounterpartyDebit ap) \<and>
        rollingDebit s (ap_asset ap) + activeDebit s (ap_asset ap) \<le> ap_maximumRollingDebit ap)"

definition no_collision :: "(string \<Rightarrow> string) \<Rightarrow> reservation set \<Rightarrow> bool" where
  "no_collision sha R \<longleftrightarrow>
     (\<forall>r \<in> R. \<forall>r' \<in> R. \<forall>b. bindingHash sha r = Inr b \<longrightarrow> bindingHash sha r' = Inr b \<longrightarrow> r = r')"

text \<open>What the transaction wrapper knows of the state an operation runs on.\<close>

definition consistent :: "policy \<Rightarrow> wallet_state \<Rightarrow> bool" where
  "consistent p s \<longleftrightarrow> distinct (map row_id (ws_reservations s)) \<and> (\<forall>ap \<in> set (p_assets p). totalsMatch s ap)"

lemma totalFor_events [simp]: "totalFor (s\<lparr>ws_rollingEvents := es\<rparr>) a = totalFor s a"
  by (simp add: totalFor_def)

lemma settled_rows_events [simp]: "settled_rows (s\<lparr>ws_rollingEvents := es\<rparr>) = settled_rows s"
  by (simp add: settled_rows_def)

lemma consistent_events [simp]: "consistent p (s\<lparr>ws_rollingEvents := es\<rparr>) = consistent p s"
  by (simp add: consistent_def totalsMatch_def recompute_def)

lemma rows_bound_frame [simp]:
  "rows_bound sha R (s\<lparr>ws_rollingEvents := es\<rparr>) = rows_bound sha R s"
  "rows_bound sha R (s\<lparr>ws_generation := g\<rparr>) = rows_bound sha R s"
  by (simp_all add: rows_bound_def)

lemma budget_inv_generation [simp]: "budget_inv p (s\<lparr>ws_generation := g\<rparr>) = budget_inv p s"
  by (simp add: budget_inv_def activeRows_def settledDebit_def settled_rows_def activeDebit_def
      settledCounterparty_def activeCounterparty_def rollingDebit_def)

lemma rollingDebit_filter_le: "rollingDebit (s\<lparr>ws_rollingEvents := filter P (ws_rollingEvents s)\<rparr>) a \<le> rollingDebit s a"
proof -
  have "sum_list (map ev_amount (filter Q (filter P es))) \<le> sum_list (map ev_amount (filter Q es))" for Q es
    by (induction es) auto
  then show ?thesis by (simp add: rollingDebit_def)
qed

lemma budget_inv_recent:
  assumes "budget_inv p s" and "recentEvents s q t = Inr recent"
  shows "budget_inv p (s\<lparr>ws_rollingEvents := recent\<rparr>)"
proof -
  have r: "recent = filter (\<lambda>e. t - ev_settledAt e \<le> rollingWindow q (ev_asset e)) (ws_rollingEvents s)"
    using assms(2) by (simp add: recentEvents_def res_simps)
  have "rollingDebit (s\<lparr>ws_rollingEvents := recent\<rparr>) a \<le> rollingDebit s a" for a
    unfolding r by (rule rollingDebit_filter_le)
  moreover have "activeRows (s\<lparr>ws_rollingEvents := recent\<rparr>) = activeRows s" by (simp add: activeRows_def)
  ultimately show ?thesis using assms(1)
    by (fastforce simp: budget_inv_def settledDebit_def settledCounterparty_def activeDebit_def activeCounterparty_def
        intro: order_trans [OF add_right_mono])
qed

text \<open>
  The invariant in terms of weights: it is kept whenever no weight increases and the rolling
  debit grows by no more than the active debit shrinks.
\<close>

lemma budget_inv_weights:
  "budget_inv p s \<longleftrightarrow>
     int (total_weight effect_weight s) \<le> p_maximumConcurrentEffects p \<and>
     (\<forall>ap \<in> set (p_assets p).
        total_weight (exposure (ap_asset ap)) s \<le> ap_maximumCumulativeDebit ap \<and>
        (\<forall>payee. total_weight (counterparty_exposure (ap_asset ap) payee) s \<le> ap_maximumCounterpartyDebit ap) \<and>
        rollingDebit s (ap_asset ap) + activeDebit s (ap_asset ap) \<le> ap_maximumRollingDebit ap)"
  by (simp add: budget_inv_def exposure_split counterparty_split effects_count)

lemma budget_inv_mono:
  assumes "budget_inv p s"
    and "total_weight effect_weight s' \<le> total_weight effect_weight s"
    and "\<And>a. total_weight (exposure a) s' \<le> total_weight (exposure a) s"
    and "\<And>a payee. total_weight (counterparty_exposure a payee) s' \<le> total_weight (counterparty_exposure a payee) s"
    and "\<And>a. rollingDebit s' a + activeDebit s' a \<le> rollingDebit s a + activeDebit s a"
  shows "budget_inv p s'"
  using assms unfolding budget_inv_weights by (meson order_trans of_nat_mono)

text \<open>The active debit alone is also a budget.\<close>

definition active_maximum :: "string \<Rightarrow> stored_reservation \<Rightarrow> nat" where
  "active_maximum a row = (if active row then row_maximum a row else 0)"

interpretation active_maximum: row_budget "active_maximum a" for a
  by unfold_locales (auto simp: active_maximum_def row_update_defs active_def row_maximum_def)

lemma activeDebit_weight: "activeDebit s a = total_weight (active_maximum a) s"
proof -
  have "sum_list (map (row_maximum a) (filter active rows)) = sum_list (map (active_maximum a) rows)" for rows
    by (induction rows) (auto simp: active_maximum_def)
  then show ?thesis by (simp add: activeDebit_def activeRows_def total_weight_def)
qed

section \<open>Every operation keeps the invariant\<close>

lemma sum_assoc_key: "distinct (map fst m) \<Longrightarrow> sum_list (map snd (filter (\<lambda>kv. fst kv = k) m)) = get0 m k"
proof (induction m)
  case (Cons kv m)
  have none: "filter (\<lambda>x. fst x = k) m = []" if "k \<notin> fst ` set m" using that by (force simp: filter_empty_conv)
  show ?case using Cons none by (cases kv) (auto simp: get0_def)
qed simp

lemma settleEvents_sum:
  "sum_list (map ev_amount (filter (\<lambda>e. ev_asset e = a) (settleEvents r (aggregateActual ds) t))) =
   get0 (aggregateActual ds) a"
proof -
  have "sum_list (map ev_amount (filter (\<lambda>e. ev_asset e = a) (settleEvents r m t))) =
      sum_list (map snd (filter (\<lambda>kv. fst kv = a) m))" for m :: "(string \<times> nat) list"
    unfolding settleEvents_def by (induction m) auto
  then show ?thesis by (simp add: sum_assoc_key aggregate_distinct aggregateActual_def)
qed

lemma beginEffect_rolling: "beginEffect r b tok s t = Inr (s', u) \<Longrightarrow> rollingDebit s' a = rollingDebit s a"
  by (auto simp: beginEffect_def res_simps rollingDebit_def)

lemma replayBegin_rolling: "replayBegin r b tok s t = Inr (s', u) \<Longrightarrow> rollingDebit s' a = rollingDebit s a"
  by (auto simp: replayBegin_def res_simps rollingDebit_def split: option.splits if_splits)

lemma releaseStored_rolling: "releaseStored r b ob s t = Inr (s', u) \<Longrightarrow> rollingDebit s' a = rollingDebit s a"
  by (auto simp: releaseStored_def res_simps rollingDebit_def split: option.splits if_splits)

lemma settleStored_cases:
  assumes "settleStored p r b ev ds tok s t = Inr (s', v)"
  obtains (existing) "s' = s" "v = Existing"
  | (settled) row where "find_row s (r_reservationId r) = Some row" "row_binding row = b" "active row"
      "s' = s\<lparr>ws_reservations := update_row (r_reservationId r) (set_settled ev ds t) (ws_reservations s),
              ws_totals := addTotals p r (aggregateActual ds) s,
              ws_rollingEvents := ws_rollingEvents s @ settleEvents r (aggregateActual ds) t\<rparr>"
      "v = Settled_Now"
  using assms
  by (cases "find_row s (r_reservationId r)"; cases "row_stage (the (find_row s (r_reservationId r)))")
    (auto simp: settleStored_def res_simps Let_def active_def)

lemma settleStored_rolling:
  assumes "consistent p s" and "settleStored p r b ev ds tok s t = Inr (s', v)"
    and within: "\<And>row. find_row s (r_reservationId r) = Some row \<Longrightarrow> row_binding row = b \<Longrightarrow>
      within_reservation ds (row_reservation row)"
  shows "rollingDebit s' a + activeDebit s' a \<le> rollingDebit s a + activeDebit s a"
  using assms(2)
proof (cases rule: settleStored_cases)
  case (settled row)
  have d: "distinct (map row_id (ws_reservations s))" using assms(1) by (simp add: consistent_def)
  have rows: "ws_reservations s' = update_row (r_reservationId r) (set_settled ev ds t) (ws_reservations s)"
    using settled(4) by simp
  have "active_maximum a (set_settled ev ds t row) = 0" "active_maximum a row = row_maximum a row"
    using settled(3) by (simp_all add: active_maximum_def set_settled_def active_def)
  then have "activeDebit s' a + row_maximum a row = activeDebit s a"
    using sum_update_row [OF d, of row "r_reservationId r" "active_maximum a" "set_settled ev ds t"]
      find_row_Some [OF settled(1)] rows by (simp add: activeDebit_weight total_weight_def)
  moreover have "rollingDebit s' a = rollingDebit s a + get0 (aggregateActual ds) a"
    using settled(4) settleEvents_sum [of a r ds t] by (simp add: rollingDebit_def)
  moreover have "get0 (aggregateActual ds) a \<le> row_maximum a row"
    using within [OF settled(1,2)] by (simp add: within_reservation_def row_maximum_def)
  ultimately show ?thesis by simp
qed simp

lemma budget_inv_begin:
  "consistent p s \<Longrightarrow> budget_inv p s \<Longrightarrow> beginEffect r b tok s t = Inr (s', u) \<Longrightarrow> budget_inv p s'"
  unfolding consistent_def
  by (rule budget_inv_mono [of p s])
    (auto simp: beginEffect_rolling activeDebit_weight intro: effect_weight.begin_le exposure.begin_le
      counterparty_exposure.begin_le active_maximum.begin_le)

lemma budget_inv_replay:
  "consistent p s \<Longrightarrow> budget_inv p s \<Longrightarrow> replayBegin r b tok s t = Inr (s', u) \<Longrightarrow> budget_inv p s'"
  unfolding consistent_def
  by (rule budget_inv_mono [of p s])
    (auto simp: replayBegin_rolling activeDebit_weight intro: effect_weight.replay_le exposure.replay_le
      counterparty_exposure.replay_le active_maximum.replay_le)

lemma budget_inv_release:
  "consistent p s \<Longrightarrow> budget_inv p s \<Longrightarrow> releaseStored r b ob s t = Inr (s', u) \<Longrightarrow> budget_inv p s'"
  unfolding consistent_def
  by (rule budget_inv_mono [of p s])
    (auto simp: releaseStored_rolling activeDebit_weight intro: effect_weight.release_le exposure.release_le
      counterparty_exposure.release_le active_maximum.release_le)

lemma budget_inv_settle:
  assumes "consistent p s" and "budget_inv p s" and "settleStored p r b ev ds tok s t = Inr (s', v)"
    and "\<And>row. find_row s (r_reservationId r) = Some row \<Longrightarrow> row_binding row = b \<Longrightarrow>
      within_reservation ds (row_reservation row)"
  shows "budget_inv p s'"
proof (rule budget_inv_mono [OF assms(2)])
  have d: "distinct (map row_id (ws_reservations s))" using assms(1) by (simp add: consistent_def)
  show "total_weight effect_weight s' \<le> total_weight effect_weight s"
    using effect_weight.settle_le [OF d assms(3,4)] .
  show "total_weight (exposure a) s' \<le> total_weight (exposure a) s" for a
    using exposure.settle_le [OF d assms(3,4)] .
  show "total_weight (counterparty_exposure a payee) s' \<le> total_weight (counterparty_exposure a payee) s" for a payee
    using counterparty_exposure.settle_le [OF d assms(3,4)] .
  show "rollingDebit s' a + activeDebit s' a \<le> rollingDebit s a + activeDebit s a" for a
    using settleStored_rolling [OF assms(1,3,4)] .
qed

text \<open>A reservation is committed only within every limit.\<close>

lemma firstDenial_None: "firstDenial f aps = None \<longleftrightarrow> (\<forall>ap \<in> set aps. f ap = None)"
  by (induction aps) (auto split: option.splits)

definition committed_rows ::
  "authority \<Rightarrow> reservation \<Rightarrow> string \<Rightarrow> string option \<Rightarrow> wallet_state \<Rightarrow> int \<Rightarrow> stored_reservation list" where
  "committed_rows au r b h s t =
     (if find_row s (r_reservationId r) = None
      then ws_reservations s @ [new_row au r b h (ws_generation s + 1) t]
      else update_row (r_reservationId r) (\<lambda>_. new_row au r b h (ws_generation s + 1) t) (ws_reservations s))"

lemma commit_reserved:
  assumes "commitReservation au r b h bal s t = Inr (s', Claim_Reserved g)"
  shows "g = ws_generation s + 1 \<and>
    s' = s\<lparr>ws_generation := ws_generation s + 1, ws_reservations := committed_rows au r b h s t\<rparr> \<and>
    int (length (activeRows s)) < p_maximumConcurrentEffects (au_policy au) \<and>
    (\<forall>ap \<in> set (p_assets (au_policy au)). assetDenial r bal s ap = None) \<and>
    (case find_row s (r_reservationId r) of
       None \<Rightarrow> int (length (ws_reservations s)) < p_maximumRetainedReservations (au_policy au)
     | Some row \<Rightarrow> row_stage row = Stage_Released \<and> row_binding row = b) \<and>
    isSafeInteger (ws_generation s + 1) \<and> isSafeInteger (t + au_leaseDurationMs au)"
proof (cases "find_row s (r_reservationId r)")
  case None
  show ?thesis using assms unfolding commitReservation_def Let_def None firstDenial_None [symmetric] committed_rows_def
    by (auto simp: res_simps split: if_splits option.splits)
next
  case (Some row)
  have "existingClaim b row = None"
    using assms unfolding commitReservation_def Let_def Some
    by (simp split: option.splits) (simp add: existingClaim_def split: if_splits)
  moreover from this have "row_stage row = Stage_Released \<and> row_binding row = b"
    by (simp add: existingClaim_def split: if_splits)
  ultimately show ?thesis
    using assms unfolding commitReservation_def Let_def Some firstDenial_None [symmetric] committed_rows_def
    by (auto simp: res_simps split: if_splits option.splits)
qed

lemma commit_not_reserved:
  assumes "commitReservation au r b h bal s t = Inr (s', cl)" and "\<And>g. cl \<noteq> Claim_Reserved g"
  shows "s' = s"
  using assms unfolding commitReservation_def Let_def
  by (auto simp: res_simps split: if_splits option.splits)

lemma commit_weight:
  assumes "assetDenial r bal s ap = None"
  shows "get0 (aggregateMaxima (r_debits r)) (ap_asset ap) = 0 \<or>
    (t_cumulativeDebit (totalFor s (ap_asset ap)) + activeDebit s (ap_asset ap) +
       get0 (aggregateMaxima (r_debits r)) (ap_asset ap) \<le> ap_maximumCumulativeDebit ap \<and>
     get0 (t_counterpartyDebits (totalFor s (ap_asset ap))) (r_payee r) +
       activeCounterparty s (ap_asset ap) (r_payee r) +
       get0 (aggregateMaxima (r_debits r)) (ap_asset ap) \<le> ap_maximumCounterpartyDebit ap \<and>
     rollingDebit s (ap_asset ap) + activeDebit s (ap_asset ap) +
       get0 (aggregateMaxima (r_debits r)) (ap_asset ap) \<le> ap_maximumRollingDebit ap)"
  using assms unfolding assetDenial_def Let_def by (auto split: if_splits)

lemma new_row_weights:
  "exposure a (new_row au r b h g t) = get0 (aggregateMaxima (r_debits r)) a"
  "active_maximum a (new_row au r b h g t) = get0 (aggregateMaxima (r_debits r)) a"
  "counterparty_exposure a payee (new_row au r b h g t) =
     (if r_payee r = payee then get0 (aggregateMaxima (r_debits r)) a else 0)"
  "effect_weight (new_row au r b h g t) = 1"
  by (simp_all add: exposure_def active_maximum_def counterparty_exposure_def effect_weight_def active_def
      row_maximum_def new_row_def)

lemma budget_inv_commit:
  assumes c: "consistent (au_policy au) s" and inv: "budget_inv (au_policy au) s"
    and op: "commitReservation au r b h bal s t = Inr (s', cl)"
  shows "budget_inv (au_policy au) s'"
proof (cases "\<exists>g. cl = Claim_Reserved g")
  case False
  then have "s' = s" using commit_not_reserved [OF op] by blast
  then show ?thesis using inv by simp
next
  case True
  then obtain g where cl: "cl = Claim_Reserved g" by blast
  have d: "distinct (map row_id (ws_reservations s))" using c by (simp add: consistent_def)
  note op' = op [unfolded cl]
  note cr = commit_reserved [OF op']
  have roll: "rollingDebit s' a = rollingDebit s a" for a using cr by (simp add: rollingDebit_def)
  show ?thesis unfolding budget_inv_weights
  proof (intro conjI ballI)
    show "int (total_weight effect_weight s') \<le> p_maximumConcurrentEffects (au_policy au)"
      using effect_weight.commit_le [OF d op'] cr by (simp add: new_row_weights effects_count)
    fix ap assume ap: "ap \<in> set (p_assets (au_policy au))"
    let ?q = "get0 (aggregateMaxima (r_debits r)) (ap_asset ap)"
    from cr ap have "assetDenial r bal s ap = None" by blast
    note g = commit_weight [OF this]
    have m: "totalsMatch s ap" using c ap by (simp add: consistent_def)
    note I = inv [unfolded budget_inv_weights, THEN conjunct2, rule_format, OF ap]
    show "total_weight (exposure (ap_asset ap)) s' \<le> ap_maximumCumulativeDebit ap"
      using exposure.commit_le [OF d op', of "ap_asset ap"] g I totalsMatch_bounds(1) [OF m]
      by (auto simp: new_row_weights exposure_split)
    show "rollingDebit s' (ap_asset ap) + activeDebit s' (ap_asset ap) \<le> ap_maximumRollingDebit ap"
      using active_maximum.commit_le [OF d op', of "ap_asset ap"] g I roll
      by (auto simp: new_row_weights activeDebit_weight)
    show "\<forall>payee. total_weight (counterparty_exposure (ap_asset ap) payee) s' \<le> ap_maximumCounterpartyDebit ap"
    proof
      fix payee
      have "total_weight (counterparty_exposure (ap_asset ap) payee) s' \<le>
          total_weight (counterparty_exposure (ap_asset ap) payee) s + (if r_payee r = payee then ?q else 0)"
        using counterparty_exposure.commit_le [OF d op', of "ap_asset ap" payee] by (simp add: new_row_weights)
      then show "total_weight (counterparty_exposure (ap_asset ap) payee) s' \<le> ap_maximumCounterpartyDebit ap"
        using g I [THEN conjunct2, THEN conjunct1, rule_format, of payee]
          totalsMatch_bounds(2) [OF m, of payee] counterparty_split [of "ap_asset ap" payee s]
        by (cases "r_payee r = payee") auto
    qed
  qed
qed

section \<open>Transactions on a shared store\<close>

lemma update_Inr:
  assumes "update au c op stored = Inr (s', v)"
  obtains t s recent s1 where "sampleClock c = Inr t"
    "captureState (au_sha256Hex au) (au_policy au) (au_policyHash au) stored = Inr s"
    "recentEvents s (au_policy au) t = Inr recent"
    "op (s\<lparr>ws_rollingEvents := recent\<rparr>) t = Inr (s1, v)"
    "s' = s1 \<and> s1 = s \<or> s' = s1\<lparr>ws_generation := ws_generation s + 1\<rparr> \<and> isSafeInteger (ws_generation s + 1)"
proof -
  from assms obtain t s recent s1 where *: "sampleClock c = Inr t"
    "captureState (au_sha256Hex au) (au_policy au) (au_policyHash au) stored = Inr s"
    "recentEvents s (au_policy au) t = Inr recent"
    "op (s\<lparr>ws_rollingEvents := recent\<rparr>) t = Inr (s1, v)"
    "(if s1 = s then Inr (s1, v)
       else ensure (isSafeInteger (ws_generation s + 1)) ''wallet spend generation is exhausted''
               (ensure (ws_generation s1 = ws_generation s \<or> ws_generation s1 = ws_generation s + 1)
                 ''wallet spend mutation revision is invalid''
               (Inr (s1\<lparr>ws_generation := ws_generation s + 1\<rparr>, v)))) = Inr (s', v)"
    unfolding update_def bindR_Inr Let_def
    by (auto simp: res_simps split: prod.splits if_splits)
  show thesis
    by (rule that [OF *(1-4)]) (use *(5) in \<open>auto simp: res_simps split: if_splits\<close>)
qed

lemma captureState_inv:
  assumes "captureState sha p h stored = Inr s"
    and "\<And>s. stored = Some s \<Longrightarrow> rows_bound sha R s \<and> budget_inv p s" and "0 \<le> p_maximumConcurrentEffects p"
  shows "consistent p s \<and> rows_bound sha R s \<and> budget_inv p s"
proof (cases stored)
  case None
  then show ?thesis using assms(1,3)
    by (auto simp: captureState_def emptyState_def consistent_def rows_bound_def budget_inv_def totalsMatch_def
        recompute_def settled_rows_def totalFor_def activeRows_def settledDebit_def activeDebit_def
        settledCounterparty_def activeCounterparty_def rollingDebit_def)
next
  case (Some s0)
  then show ?thesis using assms captureState_Some [of sha p h s0 s] by (auto simp: consistent_def)
qed

text \<open>An operation that keeps the invariant keeps it through the transaction wrapper.\<close>

lemma update_inv:
  assumes up: "update au c op stored = Inr (s', v)"
    and pre: "\<And>s. stored = Some s \<Longrightarrow> rows_bound (au_sha256Hex au) R s \<and> budget_inv (au_policy au) s"
    and pos: "0 \<le> p_maximumConcurrentEffects (au_policy au)"
    and op: "\<And>s t s1. consistent (au_policy au) s \<Longrightarrow> rows_bound (au_sha256Hex au) R s \<Longrightarrow>
      budget_inv (au_policy au) s \<Longrightarrow> op s t = Inr (s1, v) \<Longrightarrow>
      rows_bound (au_sha256Hex au) R s1 \<and> budget_inv (au_policy au) s1"
  shows "rows_bound (au_sha256Hex au) R s' \<and> budget_inv (au_policy au) s'"
  using up
proof (rule update_Inr)
  fix t s recent s1
  assume cs: "captureState (au_sha256Hex au) (au_policy au) (au_policyHash au) stored = Inr s"
    and re: "recentEvents s (au_policy au) t = Inr recent"
    and run: "op (s\<lparr>ws_rollingEvents := recent\<rparr>) t = Inr (s1, v)"
    and s': "s' = s1 \<and> s1 = s \<or>
      s' = s1\<lparr>ws_generation := ws_generation s + 1\<rparr> \<and> isSafeInteger (ws_generation s + 1)"
  note inv = captureState_inv [OF cs pre pos]
  have "rows_bound (au_sha256Hex au) R s1 \<and> budget_inv (au_policy au) s1"
    by (rule op [OF _ _ _ run]) (use inv budget_inv_recent [OF _ re] in auto)
  then show ?thesis using s' by auto
qed

lemma rows_bound_update_row:
  assumes "rows_bound sha R s" and "\<And>row. row_reservation (f row) = row_reservation row \<and> row_binding (f row) = row_binding row"
    and "ws_reservations s' = update_row i f (ws_reservations s)"
  shows "rows_bound sha R s'"
  using assms by (auto simp: rows_bound_def update_row_def)

lemma rows_bound_begin:
  assumes "rows_bound sha R s" and "beginEffect r b tok s t = Inr (s', u)"
  shows "rows_bound sha R s'"
proof -
  obtain rows where rows: "mapR (beginRow (r_reservationId r) b tok t) (ws_reservations s) = Inr rows"
    "s' = s\<lparr>ws_reservations := rows\<rparr>"
    using assms(2) by (auto simp: beginEffect_def res_simps)
  show ?thesis
    by (rule rows_bound_update_row [OF assms(1), where f = "set_pending t" and i = "r_reservationId r"])
      (use begin_rows [OF rows(1)] rows(2) in \<open>auto simp: set_pending_def\<close>)
qed

lemma rows_bound_replay:
  assumes "rows_bound sha R s" and "replayBegin r b tok s t = Inr (s', u)"
  shows "rows_bound sha R s'"
  using assms(1) assms(2) rows_bound_update_row [OF assms(1), of "set_pending t" s' "r_reservationId r"]
  by (auto simp: replayBegin_def res_simps set_pending_def split: option.splits if_splits)

lemma rows_bound_settle:
  assumes "rows_bound sha R s" and "settleStored p r b ev ds tok s t = Inr (s', v)"
  shows "rows_bound sha R s'"
  using assms(2)
proof (cases rule: settleStored_cases)
  case (settled row)
  show ?thesis
    by (rule rows_bound_update_row [OF assms(1), where f = "set_settled ev ds t" and i = "r_reservationId r"])
      (use settled(4) in \<open>auto simp: set_settled_def\<close>)
qed (use assms(1) in simp)

lemma rows_bound_release:
  assumes "rows_bound sha R s" and "releaseStored r b ob s t = Inr (s', u)"
  shows "rows_bound sha R s'"
  using assms(1) assms(2) rows_bound_update_row [OF assms(1), of "set_released (evidence ob) t" s' "r_reservationId r"]
  by (auto simp: releaseStored_def res_simps set_released_def split: option.splits if_splits)

lemma rows_bound_commit:
  assumes "rows_bound (au_sha256Hex au) R s" and "commitReservation au r b h bal s t = Inr (s', cl)"
    and "r \<in> R" and "bindingHash (au_sha256Hex au) r = Inr b"
  shows "rows_bound (au_sha256Hex au) R s'"
proof (cases "\<exists>g. cl = Claim_Reserved g")
  case True
  then obtain g where "cl = Claim_Reserved g" by blast
  from commit_reserved [OF assms(2) [unfolded this]] show ?thesis using assms(1,3,4)
    by (auto simp: rows_bound_def committed_rows_def new_row_def update_row_def)
next
  case False
  then show ?thesis using commit_not_reserved [OF assms(2)] assms(1) by blast
qed

text \<open>
  Workers that share a scope: each runs transactions of its own authority (its own owner name,
  lease duration, clock and balance reader) under the same policy. One rule per transaction, so a
  run of the relation is any interleaving of the transactions of any number of workers.
\<close>

definition shares_policy :: "(string \<Rightarrow> string) \<Rightarrow> policy \<Rightarrow> string \<Rightarrow> authority \<Rightarrow> bool" where
  "shares_policy sha p h au \<longleftrightarrow> au_sha256Hex au = sha \<and> au_policy au = p \<and> au_policyHash au = h"

inductive wallet_step ::
  "(string \<Rightarrow> string) \<Rightarrow> policy \<Rightarrow> string \<Rightarrow> string \<Rightarrow> reservation set \<Rightarrow> wallet_store \<Rightarrow> wallet_store \<Rightarrow> bool"
  for sha p h scope R where
  probe: "shares_policy sha p h au \<Longrightarrow> r \<in> R \<Longrightarrow> bindingHash sha r = Inr b \<Longrightarrow>
    wallet_step sha p h scope R st (snd (transact st scope (update au c (probeReservation r b))))"
| commit: "shares_policy sha p h au \<Longrightarrow> r \<in> R \<Longrightarrow> bindingHash sha r = Inr b \<Longrightarrow>
    wallet_step sha p h scope R st (snd (transact st scope (update au c (commitReservation au r b ha bal))))"
| current: "shares_policy sha p h au \<Longrightarrow> r \<in> R \<Longrightarrow> bindingHash sha r = Inr b \<Longrightarrow>
    wallet_step sha p h scope R st (snd (transact st scope (assertCurrentPermit au c r b tok)))"
| begin_effect: "shares_policy sha p h au \<Longrightarrow> r \<in> R \<Longrightarrow> bindingHash sha r = Inr b \<Longrightarrow>
    wallet_step sha p h scope R st (snd (transact st scope (update au c (beginEffect r b tok))))"
| replay: "shares_policy sha p h au \<Longrightarrow> r \<in> R \<Longrightarrow> bindingHash sha r = Inr b \<Longrightarrow>
    wallet_step sha p h scope R st (snd (transact st scope (update au c (replayBegin r b tok))))"
| settle: "shares_policy sha p h au \<Longrightarrow> r \<in> R \<Longrightarrow> bindingHash sha r = Inr b \<Longrightarrow>
    captureObservation wob r = Inr (Obs_Settled ev ds) \<Longrightarrow>
    wallet_step sha p h scope R st (snd (transact st scope (update au c (settleStored p r b ev ds tok))))"
| reconcile: "shares_policy sha p h au \<Longrightarrow> r \<in> R \<Longrightarrow> bindingHash sha r = Inr b \<Longrightarrow>
    captureObservation wob r = Inr ob \<Longrightarrow>
    wallet_step sha p h scope R st (snd (transact st scope (update au c (reconcileOp au r b ob))))"

definition store_inv ::
  "(string \<Rightarrow> string) \<Rightarrow> policy \<Rightarrow> string \<Rightarrow> reservation set \<Rightarrow> wallet_store \<Rightarrow> bool" where
  "store_inv sha p scope R st \<longleftrightarrow>
     (\<forall>s. store_read st scope = Some s \<longrightarrow> rows_bound sha R s \<and> budget_inv p s)"

lemma transact_inv:
  assumes "store_inv sha p scope R st"
    and "\<And>s' v. operation (store_read st scope) = Inr (s', v) \<Longrightarrow> rows_bound sha R s' \<and> budget_inv p s'"
  shows "store_inv sha p scope R (snd (transact st scope operation))"
  using assms by (auto simp: store_inv_def transact_def store_read_def update_conv' split: sum.splits)

lemma transact_update_inv:
  assumes "store_inv sha p scope R st" and "shares_policy sha p h au" and "0 \<le> p_maximumConcurrentEffects p"
    and "\<And>s t s1 v. consistent p s \<Longrightarrow> rows_bound sha R s \<Longrightarrow> budget_inv p s \<Longrightarrow> op s t = Inr (s1, v) \<Longrightarrow>
      rows_bound sha R s1 \<and> budget_inv p s1"
  shows "store_inv sha p scope R (snd (transact st scope (update au c op)))"
proof (rule transact_inv [OF assms(1)])
  fix s' v assume up: "update au c op (store_read st scope) = Inr (s', v)"
  have au: "au_sha256Hex au = sha" "au_policy au = p" using assms(2) by (auto simp: shares_policy_def)
  show "rows_bound sha R s' \<and> budget_inv p s'"
  proof (rule update_inv [OF up, unfolded au])
    show "rows_bound sha R s \<and> budget_inv p s" if "store_read st scope = Some s" for s
      using assms(1) that by (simp add: store_inv_def)
    show "0 \<le> p_maximumConcurrentEffects p" by (fact assms(3))
  qed (rule assms(4))
qed

text \<open>A row found under the id and binding of a reservation in play is a row for that reservation.\<close>

lemma bound_within:
  assumes "no_collision sha R" and "r \<in> R" and "bindingHash sha r = Inr b" and "rows_bound sha R s"
    and "captureObservation wob r = Inr (Obs_Settled ev ds)"
    and "find_row s (r_reservationId r) = Some row" and "row_binding row = b"
  shows "within_reservation ds (row_reservation row)"
proof -
  have "row_reservation row = r"
    using assms(1) [unfolded no_collision_def, rule_format, of "row_reservation row" r b] assms(2,3,7)
      assms(4) [unfolded rows_bound_def, rule_format, of row] find_row_Some [OF assms(6)] by simp
  then show ?thesis using captureObservation_within [OF assms(5)] by simp
qed

lemma settle_step_inv:
  assumes "no_collision sha R" and "r \<in> R" and "bindingHash sha r = Inr b"
    and "captureObservation wob r = Inr (Obs_Settled ev ds)"
    and "consistent p s" and "rows_bound sha R s" and "budget_inv p s"
    and "settleStored p r b ev ds tok s t = Inr (s1, v)"
  shows "rows_bound sha R s1 \<and> budget_inv p s1"
  using rows_bound_settle [OF assms(6,8)] budget_inv_settle [OF assms(5,7,8)]
    bound_within [OF assms(1-3,6,4)] by blast

lemma reconcile_step_inv:
  assumes "no_collision sha R" and "r \<in> R" and "bindingHash sha r = Inr b"
    and "captureObservation wob r = Inr ob" and "au_policy au = p"
    and "consistent p s" and "rows_bound sha R s" and "budget_inv p s"
    and "reconcileOp au r b ob s t = Inr (s1, v)"
  shows "rows_bound sha R s1 \<and> budget_inv p s1"
proof (cases ob)
  case (Obs_Settled ev ds)
  with assms(9,5) obtain u where "settleStored p r b ev ds None s t = Inr (s1, u)"
    by (auto simp: reconcileOp_def res_simps)
  from settle_step_inv [OF assms(1-3) assms(4) [unfolded Obs_Settled] assms(6-8) this] show ?thesis .
next
  case (Obs_Not_Invoked e)
  with assms(9) have "releaseStored r b ob s t = Inr (s1, v)" by (simp add: reconcileOp_def)
  then show ?thesis using rows_bound_release assms(7) budget_inv_release [OF assms(6,8)] by blast
next
  case (Obs_Terminal_Absent e)
  with assms(9) have "releaseStored r b ob s t = Inr (s1, v)" by (simp add: reconcileOp_def)
  then show ?thesis using rows_bound_release assms(7) budget_inv_release [OF assms(6,8)] by blast
qed

lemma wallet_step_inv:
  assumes nc: "no_collision sha R" and pos: "0 \<le> p_maximumConcurrentEffects p"
    and "store_inv sha p scope R st" and "wallet_step sha p h scope R st st'"
  shows "store_inv sha p scope R st'"
  using assms(4,3)
proof (cases rule: wallet_step.cases)
  case (probe au r b c)
  show ?thesis unfolding probe(1)
    by (rule transact_update_inv [OF assms(3) probe(2) pos]) (simp add: probeReservation_def)
next
  case (commit au r b c ha bal)
  have au: "au_sha256Hex au = sha" "au_policy au = p" using commit(2) by (auto simp: shares_policy_def)
  show ?thesis unfolding commit(1)
    by (rule transact_update_inv [OF assms(3) commit(2) pos])
      (use rows_bound_commit [of au, unfolded au, OF _ _ commit(3,4)] budget_inv_commit [of au, unfolded au] in blast)
next
  case (current au r b c tok)
  have au: "au_sha256Hex au = sha" "au_policy au = p" using current(2) by (auto simp: shares_policy_def)
  show ?thesis unfolding current(1)
  proof (rule transact_inv [OF assms(3)])
    fix s' v assume "assertCurrentPermit au c r b tok (store_read st scope) = Inr (s', v)"
    then have "captureState sha p (au_policyHash au) (store_read st scope) = Inr s'"
      by (auto simp: assertCurrentPermit_def res_simps au)
    from captureState_inv [OF this _ pos, of R] assms(3) show "rows_bound sha R s' \<and> budget_inv p s'"
      by (auto simp: store_inv_def)
  qed
next
  case (begin_effect au r b c tok)
  show ?thesis unfolding begin_effect(1)
    by (rule transact_update_inv [OF assms(3) begin_effect(2) pos]) (use rows_bound_begin budget_inv_begin in blast)
next
  case (replay au r b c tok)
  show ?thesis unfolding replay(1)
    by (rule transact_update_inv [OF assms(3) replay(2) pos]) (use rows_bound_replay budget_inv_replay in blast)
next
  case (settle au r b wob ev ds c tok)
  show ?thesis unfolding settle(1)
    by (rule transact_update_inv [OF assms(3) settle(2) pos]) (rule settle_step_inv [OF nc settle(3-5)])
next
  case (reconcile au r b wob ob c)
  have au: "au_policy au = p" using reconcile(2) by (simp add: shares_policy_def)
  show ?thesis unfolding reconcile(1)
    by (rule transact_update_inv [OF assms(3) reconcile(2) pos]) (rule reconcile_step_inv [OF nc reconcile(3-5) au])
qed

lemma capturePolicy_positive:
  "capturePolicy wp = Inr p \<Longrightarrow> 0 < p_maximumConcurrentEffects p \<and> 0 < p_maximumRetainedReservations p"
  unfolding capturePolicy_def safeInteger_def nonEmpty_def bindR_Inr ensure_Inr by auto

interpretation wallet: invariant_system "\<lambda>st. store_read st scope = None" "wallet_step sha p h scope R"
  "\<lambda>st. no_collision sha R \<and> 0 \<le> p_maximumConcurrentEffects p \<longrightarrow> store_inv sha p scope R st"
  for sha p h scope R
  by unfold_locales (simp add: store_inv_def, use wallet_step_inv in blast)

text \<open>The public operations are runs of the relation.\<close>

lemma reserve_run:
  assumes "shares_policy sha p h au"
    and "\<And>r. captureReservation wire p = Inr r \<Longrightarrow> r \<in> R"
  shows "(wallet_step sha p h scope R)\<^sup>*\<^sup>* st (snd (reserve au scope c1 c2 wire options st))"
proof -
  have au: "au_sha256Hex au = sha" "au_policy au = p" using assms(1) by (auto simp: shares_policy_def)
  show ?thesis
  proof (cases "bindR (captureReservation wire p) (\<lambda>r. bindR (bindingHash sha r) (\<lambda>binding.
      bindR (captureReservationOptions options) (\<lambda>approval. Inr (r, binding, approval))))")
    case (Inl e)
    then show ?thesis by (simp add: reserve_def au)
  next
    case (Inr rba)
    obtain r b approval where rba: "rba = (r, b, approval)" by (cases rba)
    have r: "r \<in> R" "bindingHash sha r = Inr b" using Inr rba assms(2) by (auto simp: res_simps)
    let ?tr = "transact st scope (update au c1 (probeReservation r b))"
    have s1: "wallet_step sha p h scope R st (snd ?tr)" by (rule wallet_step.probe [OF assms(1) r])
    have s2: "wallet_step sha p h scope R (snd ?tr) (snd (transact (snd ?tr) scope
        (update au c2 (commitReservation au r b ha bal))))" for ha bal
      by (rule wallet_step.commit [OF assms(1) r])
    obtain res st1 where tr: "?tr = (res, st1)" by (cases ?tr)
    have runs: "(wallet_step sha p h scope R)\<^sup>*\<^sup>* st st1"
      "(wallet_step sha p h scope R)\<^sup>*\<^sup>* st (snd (transact st1 scope
        (update au c2 (commitReservation au r b ha bal))))" for ha bal
      using s1 s2 [of ha bal] tr by simp_all
    show ?thesis using runs Inr tr
      by (auto simp: reserve_def au rba split: sum.splits option.splits)
  qed
qed

lemma reconcile_run:
  assumes "shares_policy sha p h au" and "\<And>r. captureReservation wire p = Inr r \<Longrightarrow> r \<in> R"
  shows "(wallet_step sha p h scope R)\<^sup>*\<^sup>* st (snd (reconcile au scope c wire wob st))"
proof -
  have au: "au_sha256Hex au = sha" "au_policy au = p" using assms(1) by (auto simp: shares_policy_def)
  show ?thesis
    unfolding reconcile_def au
    by (auto simp: res_simps split: sum.splits intro!: r_into_rtranclp wallet_step.reconcile [OF assms(1)] assms(2))
qed

lemma permit_settle_run:
  assumes "shares_policy sha p h au" and "pm_reservation pm \<in> R"
    and "bindingHash sha (pm_reservation pm) = Inr (pm_binding pm)"
  shows "(wallet_step sha p h scope R)\<^sup>*\<^sup>* st (snd (permit_settle au scope c pm wob st))"
proof -
  have au: "au_policy au = p" using assms(1) by (auto simp: shares_policy_def)
  show ?thesis unfolding permit_settle_def au
    by (auto split: sum.splits observation.splits intro: r_into_rtranclp wallet_step.settle [OF assms])
qed

end
