(* ===== verification/Dacs_Wallet_Fencing.thy ===== *)
theory Dacs_Wallet_Fencing
  imports Dacs_Wallet_Safety
begin

text \<open>
  The wallet spend authority, part four: what a stored reservation can become. A row is never
  removed; it keeps its lease generation while it is active, takes a fresh and larger generation
  only after it was released, and never changes again once it is settled. Whatever such a step
  keeps of a row is kept by every run (locale \<open>durable_row\<close>); durable settlements and fencing of
  superseded leases are its interpretations.
\<close>

definition row_next :: "int \<Rightarrow> stored_reservation \<Rightarrow> stored_reservation \<Rightarrow> bool" where
  "row_next g row row' \<longleftrightarrow>
     row' = row \<or>
     (row_id row' = row_id row \<and> row_binding row' = row_binding row \<and>
      (active row \<and> row_generation row' = row_generation row \<or>
       row_stage row = Stage_Released \<and> row_generation row' = g + 1))"

definition rows_next :: "wallet_state \<Rightarrow> wallet_state \<Rightarrow> bool" where
  "rows_next s s' \<longleftrightarrow>
     (\<forall>row \<in> set (ws_reservations s). \<exists>row' \<in> set (ws_reservations s'). row_next (ws_generation s) row row')"

lemma rows_next_refl: "ws_reservations s' = ws_reservations s \<Longrightarrow> rows_next s s'"
  by (auto simp: rows_next_def row_next_def)

lemma rows_next_update_row:
  assumes "distinct (map row_id (ws_reservations s))" and "find_row s i = Some row"
    and "row_next (ws_generation s) row (f row)" and "ws_reservations s' = update_row i f (ws_reservations s)"
  shows "rows_next s s'"
  unfolding rows_next_def
proof
  fix x assume x: "x \<in> set (ws_reservations s)"
  show "\<exists>row' \<in> set (ws_reservations s'). row_next (ws_generation s) x row'"
  proof (cases "row_id x = i")
    case True
    then have "x = row"
      using find_row_Some [OF assms(2)] x assms(1) by (auto simp: distinct_map inj_on_def)
    then show ?thesis using assms(3,4) x True by (force simp: update_row_def)
  next
    case False
    then show ?thesis using assms(4) x by (force simp: update_row_def row_next_def)
  qed
qed

lemma settle_next:
  assumes "distinct (map row_id (ws_reservations s))" and "settleStored p r b ev ds tok s t = Inr (s', v)"
  shows "rows_next s s'"
  using assms(2)
proof (cases rule: settleStored_cases)
  case (settled row)
  show ?thesis
    by (rule rows_next_update_row [OF assms(1) settled(1), where f = "set_settled ev ds t"])
      (use settled in \<open>auto simp: row_next_def set_settled_def\<close>)
qed (auto intro: rows_next_refl)

lemma release_next:
  assumes "distinct (map row_id (ws_reservations s))" and "releaseStored r b ob s t = Inr (s', v)"
  shows "rows_next s s'"
proof (cases "find_row s (r_reservationId r)")
  case (Some row)
  have "s' = s \<or> active row \<and>
      ws_reservations s' = update_row (r_reservationId r) (set_released (evidence ob) t) (ws_reservations s)"
    using assms(2) Some by (cases "row_stage row") (auto simp: releaseStored_def res_simps active_def)
  then show ?thesis
    using rows_next_update_row [OF assms(1) Some, of "set_released (evidence ob) t" s'] rows_next_refl [of s' s]
    by (auto simp: row_next_def set_released_def)
qed (use assms(2) in \<open>simp add: releaseStored_def res_simps\<close>)

lemma begin_next:
  assumes "beginEffect r b tok s t = Inr (s', u)"
  shows "rows_next s s'"
proof -
  obtain rows where rows: "mapR (beginRow (r_reservationId r) b tok t) (ws_reservations s) = Inr rows"
    "s' = s\<lparr>ws_reservations := rows\<rparr>"
    using assms by (auto simp: beginEffect_def res_simps)
  have "row_next g row (if row_id row = r_reservationId r then set_pending t row else row)"
    if "row \<in> set (ws_reservations s)" for row g
    using begin_rows [OF rows(1)] that by (auto simp: row_next_def set_pending_def active_def)
  moreover have "ws_reservations s' =
      map (\<lambda>row. if row_id row = r_reservationId r then set_pending t row else row) (ws_reservations s)"
    using begin_rows [OF rows(1)] rows(2) by (simp add: update_row_def)
  ultimately show ?thesis unfolding rows_next_def by (metis (no_types, lifting) image_eqI image_set)
qed

lemma replay_next:
  assumes "distinct (map row_id (ws_reservations s))" and "replayBegin r b tok s t = Inr (s', u)"
  shows "rows_next s s'"
proof (cases "find_row s (r_reservationId r)")
  case (Some row)
  have "s' = s \<or> active row \<and>
      ws_reservations s' = update_row (r_reservationId r) (set_pending t) (ws_reservations s)"
    using assms(2) Some by (auto simp: replayBegin_def res_simps active_def split: if_splits)
  then show ?thesis
    using rows_next_update_row [OF assms(1) Some, of "set_pending t" s'] rows_next_refl [of s' s]
    by (auto simp: row_next_def set_pending_def)
qed (use assms(2) in \<open>simp add: replayBegin_def res_simps\<close>)

lemma commit_next:
  assumes "distinct (map row_id (ws_reservations s))" and "commitReservation au r b h bal s t = Inr (s', cl)"
  shows "rows_next s s'"
proof (cases "\<exists>g. cl = Claim_Reserved g")
  case True
  then obtain g where "cl = Claim_Reserved g" by blast
  note cr = commit_reserved [OF assms(2) [unfolded this]]
  show ?thesis
  proof (cases "find_row s (r_reservationId r)")
    case None
    then show ?thesis using cr by (auto simp: rows_next_def row_next_def committed_rows_def)
  next
    case (Some row)
    show ?thesis
      by (rule rows_next_update_row [OF assms(1) Some, where f = "\<lambda>_. new_row au r b h (ws_generation s + 1) t"])
        (use cr Some find_row_Some [OF Some] in \<open>auto simp: committed_rows_def row_next_def new_row_def\<close>)
  qed
next
  case False
  then show ?thesis using commit_not_reserved [OF assms(2)] by (auto intro: rows_next_refl)
qed

lemma reconcile_next:
  assumes "distinct (map row_id (ws_reservations s))" and "reconcileOp au r b ob s t = Inr (s', v)"
  shows "rows_next s s'"
  using assms settle_next [OF assms(1)] release_next [OF assms(1)]
  by (cases ob) (auto simp: reconcileOp_def res_simps)

section \<open>Rows of a store over a run\<close>

definition has_row :: "string \<Rightarrow> (stored_reservation \<Rightarrow> bool) \<Rightarrow> wallet_store \<Rightarrow> bool" where
  "has_row scope P st \<longleftrightarrow> (\<exists>s. store_read st scope = Some s \<and> list_ex P (ws_reservations s))"

lemma row_ok_generation: "row_ok sha p g row \<Longrightarrow> row_generation row \<le> g"
  unfolding row_ok_def checkRow_def safeInteger_def hash_def nonEmpty_def bindR_Inr ensure_Inr by blast

text \<open>What a step of a row keeps, given that its generation is not from the future.\<close>

locale durable_row =
  fixes P :: "stored_reservation \<Rightarrow> bool"
  assumes keeps: "P row \<Longrightarrow> row_next g row row' \<Longrightarrow> row_generation row \<le> g \<Longrightarrow> P row'"
begin

lemma transact_keeps:
  assumes "has_row scope P st"
    and "\<And>s t s1 v. distinct (map row_id (ws_reservations s)) \<Longrightarrow> op s t = Inr (s1, v) \<Longrightarrow> rows_next s s1"
  shows "has_row scope P (snd (transact st scope (update au c op)))"
proof (cases "update au c op (store_read st scope)")
  case (Inl e)
  then show ?thesis using assms(1) by (simp add: transact_def)
next
  case (Inr sv)
  obtain s' v where sv: "sv = (s', v)" by (cases sv)
  obtain s0 where s0: "store_read st scope = Some s0" "list_ex P (ws_reservations s0)"
    using assms(1) by (auto simp: has_row_def)
  from Inr [unfolded sv] have "list_ex P (ws_reservations s')"
  proof (rule update_Inr)
    fix t s recent s1
    assume cs: "captureState (au_sha256Hex au) (au_policy au) (au_policyHash au) (store_read st scope) = Inr s"
      and run: "op (s\<lparr>ws_rollingEvents := recent\<rparr>) t = Inr (s1, v)"
      and s': "s' = s1 \<and> s1 = s \<or>
        s' = s1\<lparr>ws_generation := ws_generation s + 1\<rparr> \<and> isSafeInteger (ws_generation s + 1)"
    note c = captureState_Some [OF cs [unfolded s0(1)]]
    from s0(2) obtain row where row: "row \<in> set (ws_reservations s)" "P row"
      by (auto simp: list_ex_iff c(1))
    have "row_generation row \<le> ws_generation s" using c(3) row(1) row_ok_generation c(1) by blast
    moreover obtain row' where row': "row' \<in> set (ws_reservations s1)" "row_next (ws_generation s) row row'"
      using assms(2) [OF _ run] c(2) row(1) by (auto simp: rows_next_def c(1))
    ultimately have "P row'" using keeps row(2) by blast
    then show ?thesis using row'(1) s' by (auto simp: list_ex_iff)
  qed
  then show ?thesis using Inr sv by (simp add: has_row_def transact_def store_read_def update_conv')
qed

lemma step_keeps:
  assumes "has_row scope P st" and "wallet_step sha p h scope R st st'"
  shows "has_row scope P st'"
  using assms(2)
proof (cases rule: wallet_step.cases)
  case (probe au r b c)
  show ?thesis unfolding probe(1)
    by (rule transact_keeps [OF assms(1)]) (auto simp: probeReservation_def intro: rows_next_refl)
next
  case (commit au r b c ha bal)
  show ?thesis unfolding commit(1) by (rule transact_keeps [OF assms(1)]) (rule commit_next)
next
  case (current au r b c tok)
  obtain s0 where s0: "store_read st scope = Some s0" "list_ex P (ws_reservations s0)"
    using assms(1) by (auto simp: has_row_def)
  have "s' = s0" if "assertCurrentPermit au c r b tok (Some s0) = Inr (s', v)" for s' v
    using that captureState_Some(1) by (auto simp: assertCurrentPermit_def res_simps)
  then show ?thesis unfolding current(1) using s0
    by (auto simp: has_row_def transact_def store_read_def update_conv' split: sum.splits)
next
  case (begin_effect au r b c tok)
  show ?thesis unfolding begin_effect(1) by (rule transact_keeps [OF assms(1)]) (rule begin_next)
next
  case (replay au r b c tok)
  show ?thesis unfolding replay(1) by (rule transact_keeps [OF assms(1)]) (rule replay_next)
next
  case (settle au r b wob ev ds c tok)
  show ?thesis unfolding settle(1) by (rule transact_keeps [OF assms(1)]) (rule settle_next)
next
  case (reconcile au r b wob ob c)
  show ?thesis unfolding reconcile(1) by (rule transact_keeps [OF assms(1)]) (rule reconcile_next)
qed

end

sublocale durable_row \<subseteq> run: invariant_system "has_row scope P" "wallet_step sha p h scope R" "has_row scope P"
  for sha p h scope R
  by unfold_locales (blast intro: step_keeps)+

interpretation settled_row: durable_row "\<lambda>row. row = settled \<and> row_stage row = Stage_Settled" for settled
  by unfold_locales (auto simp: row_next_def active_def)

section \<open>Fencing\<close>

lemma new_row_committed: "new_row au r b h (ws_generation s + 1) t \<in> set (committed_rows au r b h s t)"
proof (cases "find_row s (r_reservationId r)")
  case (Some row)
  then show ?thesis using find_row_Some [OF Some] by (force simp: committed_rows_def update_row_def)
qed (simp add: committed_rows_def)

definition leased :: "string \<Rightarrow> int \<Rightarrow> stored_reservation \<Rightarrow> bool" where
  "leased i g row \<longleftrightarrow> row_id row = i \<and> g \<le> row_generation row"

lemma granted_leased:
  assumes "update au c (commitReservation au r b ha bal) stored = Inr (s', Claim_Reserved g)"
  shows "list_ex (leased (r_reservationId r) g) (ws_reservations s')"
  using assms
proof (rule update_Inr)
  fix t recent s1 and s :: wallet_state
  let ?s = "s\<lparr>ws_rollingEvents := recent\<rparr>"
  assume run: "commitReservation au r b ha bal ?s t = Inr (s1, Claim_Reserved g)"
    and s': "s' = s1 \<and> s1 = s \<or>
      s' = s1\<lparr>ws_generation := ws_generation s + 1\<rparr> \<and> isSafeInteger (ws_generation s + 1)"
  note cr = commit_reserved [OF run]
  have "ws_reservations s' = ws_reservations s1" using s' by auto
  then have "new_row au r b ha g t \<in> set (ws_reservations s')"
    using cr new_row_committed [of au r b ha ?s t] by simp
  moreover have "leased (r_reservationId r) g (new_row au r b ha g t)" by (simp add: leased_def new_row_def)
  ultimately show ?thesis by (auto simp: list_ex_iff)
qed

interpretation leased: durable_row "leased i g" for i g
  by unfold_locales (auto simp: row_next_def leased_def)

lemma leased_found:
  assumes "captureState sha p h (Some s) = Inr s'" and "list_ex (leased i g) (ws_reservations s)"
  obtains row where "find_row s' i = Some row" "g \<le> row_generation row" "s' = s"
proof -
  note c = captureState_Some [OF assms(1)]
  from assms(2) obtain row where row: "row \<in> set (ws_reservations s)" "row_id row = i" "g \<le> row_generation row"
    by (auto simp: list_ex_iff leased_def)
  then obtain x where x: "find_row s i = Some x" using find_row_None [of s i] by (cases "find_row s i") auto
  have "x = row" using find_row_Some [OF x] row c(2) by (auto simp: distinct_map inj_on_def)
  then show thesis using that x row(3) c(1) by simp
qed

lemma leased_update:
  assumes "update au c op (Some s) = Inr (s', v)" and "list_ex (leased i g) (ws_reservations s)"
  obtains s0 t s1 row where "op s0 t = Inr (s1, v)" "find_row s0 i = Some row" "g \<le> row_generation row"
  using assms(1)
proof (rule update_Inr)
  fix t s2 recent s1
  assume cs: "captureState (au_sha256Hex au) (au_policy au) (au_policyHash au) (Some s) = Inr s2"
    and run: "op (s2\<lparr>ws_rollingEvents := recent\<rparr>) t = Inr (s1, v)"
  from cs assms(2) obtain row where "find_row s2 i = Some row" "g \<le> row_generation row" by (rule leased_found)
  then show thesis using that [OF run] by simp
qed

lemma begin_needs_token:
  assumes "beginEffect r b tok s t = Inr (s', u)" and "find_row s (r_reservationId r) = Some row"
  shows "row_generation row = tok_generation tok"
proof -
  obtain rows where rows: "mapR (beginRow (r_reservationId r) b tok t) (ws_reservations s) = Inr rows"
    using assms(1) by (auto simp: beginEffect_def res_simps)
  show ?thesis using begin_rows [OF rows] find_row_Some [OF assms(2)] by (auto simp: holds_token_def)
qed

lemma settle_needs_token:
  assumes "settleStored p r b ev ds (Some tok) s t = Inr (s', Settled_Now)" and "find_row s (r_reservationId r) = Some row"
  shows "row_generation row = tok_generation tok"
  using assms by (auto simp: settleStored_def res_simps Let_def split: if_splits)

lemma old_lease_refused:
  assumes "store_read st scope = Some s" and "list_ex (leased (r_reservationId (pm_reservation pm)) g) (ws_reservations s)"
    and "tok_generation (pm_token pm) < g"
  shows "\<exists>e. permit_assertCurrent au scope c pm st = (Inl e, st)"
    and "\<exists>e. permit_beginEffect au scope c pm st = (Inl e, st)"
    and "fst (permit_settle au scope c pm wob st) \<noteq> Inr Settled_Now"
proof -
  let ?r = "pm_reservation pm" and ?b = "pm_binding pm" and ?tok = "pm_token pm"
  have 1: False if "assertCurrentPermit au c ?r ?b ?tok (Some s) = Inr (s', v)" for s' v
  proof -
    from that obtain s1 t where s1: "captureState (au_sha256Hex au) (au_policy au) (au_policyHash au) (Some s) = Inr s1"
      "requireCurrentPermit s1 (r_reservationId ?r) ?b ?tok t"
      by (auto simp: assertCurrentPermit_def res_simps)
    from s1(1) assms(2) obtain row where "find_row s1 (r_reservationId ?r) = Some row" "g \<le> row_generation row"
      by (rule leased_found)
    then show False using s1(2) assms(3) by (simp add: requireCurrentPermit_def holds_token_def)
  qed
  show "\<exists>e. permit_assertCurrent au scope c pm st = (Inl e, st)"
    using 1 assms(1) by (auto simp: permit_assertCurrent_def transact_def split: sum.splits)
  have 2: False if "update au c (beginEffect ?r ?b ?tok) (Some s) = Inr (s', v)" for s' v
    using that assms(2) by (rule leased_update) (use begin_needs_token assms(3) in fastforce)
  show "\<exists>e. permit_beginEffect au scope c pm st = (Inl e, st)"
    using 2 assms(1) by (auto simp: permit_beginEffect_def transact_def split: sum.splits)
  have 3: False if "update au c (settleStored (au_policy au) ?r ?b ev ds (Some ?tok)) (Some s) = Inr (s', Settled_Now)"
    for s' ev ds
    using that assms(2) by (rule leased_update) (use settle_needs_token assms(3) in fastforce)
  show "fst (permit_settle au scope c pm wob st) \<noteq> Inr Settled_Now"
    using 3 assms(1) by (auto simp: permit_settle_def transact_def res_simps split: sum.splits observation.splits)
qed

end
