(* ===== verification/Dacs_Wallet_Props.thy ===== *)
theory Dacs_Wallet_Props
  imports Dacs_Wallet_Fencing
begin

text \<open>
  The wallet spend authority, part five: its properties, and the concrete policy, reservation
  and run their witnesses use.
\<close>

section \<open>A sample policy and run\<close>

definition sample_hex :: string where
  "sample_hex = replicate 64 (CHR ''a'')"

definition sample_sha :: "string \<Rightarrow> string" where
  "sample_sha = (\<lambda>_. sample_hex)"

definition sample_asset_policy :: "string \<Rightarrow> wire_asset_policy" where
  "sample_asset_policy a =
     \<lparr>wap_keys = [''asset''], wap_asset = a, wap_maximumPerOrderDebit = ''9'', wap_maximumNetworkFeeDebit = ''2'',
      wap_minimumReserve = ''1'', wap_rollingWindowMs = 10, wap_maximumRollingEffects = 3,
      wap_maximumRollingDebit = ''9'', wap_maximumCumulativeDebit = ''9'',
      wap_maximumCounterpartyDebit = ''9'', wap_operatorApprovalThreshold = None\<rparr>"

definition sample_wire_policy :: "string list \<Rightarrow> wire_policy" where
  "sample_wire_policy assets =
     \<lparr>wp_keys = [''assets''], wp_policyVersion = ''1'', wp_policyId = ''p'', wp_wallet = ''w'', wp_chainId = ''c'',
      wp_maximumConcurrentEffects = 1, wp_maximumRetainedReservations = 4,
      wp_assets = map sample_asset_policy assets\<rparr>"

definition sample_policy :: "string list \<Rightarrow> policy" where
  "sample_policy assets = projr (capturePolicy (sample_wire_policy assets))"

definition sample_reservation :: reservation where
  "sample_reservation =
     \<lparr>r_reservationId = ''r'', r_jobId = ''j'', r_phaseIndex = 0, r_phase = ''pay'', r_agreementHash = sample_hex,
      r_settlementBindingHash = sample_hex, r_railId = ''dem'', r_railDefinitionHash = sample_hex, r_wallet = ''w'',
      r_chainId = ''c'', r_payee = ''seller'', r_finality_model = ''final'', r_finality_finalityBlocks = None,
      r_debits = [\<lparr>d_asset = ''DEM'', d_purpose = Service, d_expectedAmount = 5, d_maximumAmount = 5\<rparr>]\<rparr>"

definition sample_authority :: "string list \<Rightarrow> authority" where
  "sample_authority assets =
     \<lparr>au_sha256Hex = sample_sha, au_policy = sample_policy assets, au_policyHash = sample_hex, au_owner = ''buyer'',
      au_leaseDurationMs = 10, au_readBalance = (\<lambda>_. Some ''9''), au_verifyOperatorApproval = None,
      au_authenticateRecovery = (\<lambda>_ _. True)\<rparr>"

definition sample_clock :: "int \<Rightarrow> clock" where
  "sample_clock t = \<lparr>clk_server = False, clk_serializedNow = None, clk_now = t\<rparr>"

definition sample_observation :: wire_observation where
  "sample_observation =
     \<lparr>wo_keys = [''disposition'', ''evidenceHash'', ''debits''], wo_disposition = ''settled'',
      wo_evidenceHash = sample_hex,
      wo_debits = [\<lparr>wa_keys = [''asset'', ''purpose'', ''amount''], wa_asset = ''DEM'', wa_purpose = ''service'', wa_amount = ''5''\<rparr>]\<rparr>"

definition sample_permit :: permit where
  "sample_permit =
     \<lparr>pm_reservation = sample_reservation, pm_binding = sample_hex,
      pm_token = \<lparr>tok_owner = ''buyer'', tok_generation = 1\<rparr>\<rparr>"

text \<open>Reserve, begin the effect, settle it.\<close>

definition sample_reserved :: "string list \<Rightarrow> claim res \<times> wallet_store" where
  "sample_reserved assets =
     reserve (sample_authority assets) ''w'' (sample_clock 1) (sample_clock 2) (wire_of sample_reservation)
       \<lparr>wopt_keys = [], wopt_operatorApproval = None\<rparr> []"

definition sample_begun :: "string list \<Rightarrow> unit res \<times> wallet_store" where
  "sample_begun assets =
     permit_beginEffect (sample_authority assets) ''w'' (sample_clock 3) sample_permit (snd (sample_reserved assets))"

definition sample_settled :: "string list \<Rightarrow> settle_result res \<times> wallet_store" where
  "sample_settled assets =
     permit_settle (sample_authority assets) ''w'' (sample_clock 4) sample_permit sample_observation
       (snd (sample_begun assets))"

text \<open>The three stored states of the run, in full.\<close>

definition sample_row :: stored_reservation where
  "sample_row =
     \<lparr>row_id = ''r'', row_binding = sample_hex, row_reservation = sample_reservation, row_stage = Reserved,
      row_generation = 1, row_owner = Some ''buyer'', row_leaseExpiresAt = Some 12, row_approvalHash = None,
      row_evidenceHash = None, row_actualDebits = None, row_createdAt = 2, row_updatedAt = 2\<rparr>"

definition sample_actual :: "actual_debit list" where
  "sample_actual = [\<lparr>a_asset = ''DEM'', a_purpose = Service, a_amount = 5\<rparr>]"

definition sample_state1 :: wallet_state where
  "sample_state1 =
     \<lparr>ws_stateVersion = 1, ws_policyHash = sample_hex, ws_generation = 1, ws_reservations = [sample_row],
      ws_totals = [], ws_rollingEvents = []\<rparr>"

definition sample_state2 :: wallet_state where
  "sample_state2 = sample_state1\<lparr>ws_generation := 2, ws_reservations := [set_pending 3 sample_row]\<rparr>"

definition sample_state3 :: "string list \<Rightarrow> wallet_state" where
  "sample_state3 assets =
     sample_state1\<lparr>ws_generation := 3,
       ws_reservations := [set_settled sample_hex sample_actual 4 (set_pending 3 sample_row)],
       ws_totals := map (\<lambda>a. \<lparr>t_asset = a, t_cumulativeDebit = (if a = ''DEM'' then 5 else 0),
                              t_counterpartyDebits = [(''seller'', if a = ''DEM'' then 5 else 0)]\<rparr>) assets,
       ws_rollingEvents := [\<lparr>ev_reservationId = ''r'', ev_asset = ''DEM'', ev_payee = ''seller'', ev_amount = 5,
                             ev_settledAt = 4\<rparr>]\<rparr>"

lemma sample_reserved_eq: "sample_reserved [''DEM''] = (Inr (Claim_Reserved 1), [(''w'', sample_state1)])"
  by code_simp

lemma sample_begun_eq: "sample_begun [''DEM''] = (Inr (), [(''w'', sample_state2)])"
proof -
  have "permit_beginEffect (sample_authority [''DEM'']) ''w'' (sample_clock 3) sample_permit [(''w'', sample_state1)] =
      (Inr (), [(''w'', sample_state2)])" by code_simp
  then show ?thesis by (simp add: sample_begun_def sample_reserved_eq)
qed

lemma sample_settled_eq: "sample_settled [''DEM''] = (Inr Settled_Now, [(''w'', sample_state3 [''DEM''])])"
proof -
  have "permit_settle (sample_authority [''DEM'']) ''w'' (sample_clock 4) sample_permit sample_observation
      [(''w'', sample_state2)] = (Inr Settled_Now, [(''w'', sample_state3 [''DEM''])])" by code_simp
  then show ?thesis by (simp add: sample_settled_def sample_begun_eq)
qed

lemma sample_capture: "capturePolicy (sample_wire_policy [''DEM'']) = Inr (sample_policy [''DEM''])"
  by code_simp

lemma sample_binding: "bindingHash sample_sha sample_reservation = Inr sample_hex"
  by code_simp

lemma sample_shares: "shares_policy sample_sha (sample_policy assets) sample_hex (sample_authority assets)"
  by (simp add: shares_policy_def sample_authority_def)

lemma sample_no_collision: "no_collision sample_sha {sample_reservation}"
  by (simp add: no_collision_def)

lemma sample_reserved_run:
  "(wallet_step sample_sha (sample_policy [''DEM'']) sample_hex ''w'' {sample_reservation})\<^sup>*\<^sup>* []
     [(''w'', sample_state1)]"
proof -
  have "captureReservation (wire_of sample_reservation) (sample_policy [''DEM'']) = Inr sample_reservation"
    by code_simp
  then have "(wallet_step sample_sha (sample_policy [''DEM'']) sample_hex ''w'' {sample_reservation})\<^sup>*\<^sup>* []
      (snd (sample_reserved [''DEM'']))"
    unfolding sample_reserved_def by (intro reserve_run sample_shares) simp
  then show ?thesis by (simp add: sample_reserved_eq)
qed

lemma sample_begun_step:
  "wallet_step sample_sha (sample_policy [''DEM'']) sample_hex ''w'' {sample_reservation}
     [(''w'', sample_state1)] [(''w'', sample_state2)]"
  using wallet_step.begin_effect [OF sample_shares [of "[''DEM'']"] _ sample_binding, of "{sample_reservation}" "''w''"
      "[(''w'', sample_state1)]" "sample_clock 3" "pm_token sample_permit"] sample_begun_eq sample_reserved_eq
  by (simp add: sample_begun_def permit_beginEffect_def sample_permit_def)

lemma sample_settled_run:
  "(wallet_step sample_sha (sample_policy [''DEM'']) sample_hex ''w'' {sample_reservation})\<^sup>*\<^sup>* []
     [(''w'', sample_state3 [''DEM''])]"
proof -
  have "(wallet_step sample_sha (sample_policy [''DEM'']) sample_hex ''w'' {sample_reservation})\<^sup>*\<^sup>*
      [(''w'', sample_state2)] [(''w'', sample_state3 [''DEM''])]"
    using permit_settle_run [OF sample_shares [of "[''DEM'']"], of sample_permit "{sample_reservation}" "''w''"
        "[(''w'', sample_state2)]" "sample_clock 4" sample_observation] sample_settled_eq sample_begun_eq
    by (simp add: sample_settled_def sample_permit_def sample_binding)
  then show ?thesis using sample_reserved_run sample_begun_step by (meson rtranclp.rtrancl_into_rtrancl rtranclp_trans)
qed

section \<open>Properties\<close>

text \<open>
  Property C1. Spending limits under concurrency. From an empty scope, any number of workers under
  one captured policy run reserve, begin, settle, replay, recovery and inspection transactions in
  any interleaving. In every state they can reach, for every asset of the policy, what has been
  settled plus the worst case of everything still active stays within the cumulative limit, the
  same holds towards each counterparty, the rolling window debit plus the active worst case stays
  within the rolling limit, and no more effects are active than the policy allows. Assumed of
  SHA-256: no two of the reservations in play have the same binding hash.
\<close>

theorem wallet_limits_hold:
  assumes "capturePolicy wp = Inr p" and "no_collision sha R" and "store_read st0 scope = None"
    and "(wallet_step sha p h scope R)\<^sup>*\<^sup>* st0 st" and "store_read st scope = Some s" and "ap \<in> set (p_assets p)"
  shows "settledDebit s (ap_asset ap) + activeDebit s (ap_asset ap) \<le> ap_maximumCumulativeDebit ap \<and>
    settledCounterparty s (ap_asset ap) payee + activeCounterparty s (ap_asset ap) payee
      \<le> ap_maximumCounterpartyDebit ap \<and>
    rollingDebit s (ap_asset ap) + activeDebit s (ap_asset ap) \<le> ap_maximumRollingDebit ap \<and>
    int (length (activeRows s)) \<le> p_maximumConcurrentEffects p"
proof -
  have "budget_inv p s"
    using wallet.inv_reachable [OF assms(3,4)] capturePolicy_positive [OF assms(1)] assms(2,5)
    by (simp add: store_inv_def)
  then show ?thesis using assms(6) by (simp add: budget_inv_def)
qed

theorem wallet_limits_hold_witness:
  "settledDebit (sample_state3 [''DEM'']) ''DEM'' = 5 \<and>
   settledDebit (sample_state3 [''DEM'']) ''DEM'' + activeDebit (sample_state3 [''DEM'']) ''DEM'' \<le> 9"
proof -
  have st: "store_read [] ''w'' = None" "store_read [(''w'', sample_state3 [''DEM''])] ''w'' = Some (sample_state3 [''DEM''])"
    by (simp_all add: store_read_def)
  have ap: "hd (p_assets (sample_policy [''DEM''])) \<in> set (p_assets (sample_policy [''DEM'']))"
    "ap_asset (hd (p_assets (sample_policy [''DEM'']))) = ''DEM''"
    "ap_maximumCumulativeDebit (hd (p_assets (sample_policy [''DEM'']))) = 9" by code_simp+
  have "settledDebit (sample_state3 [''DEM'']) ''DEM'' = 5" by code_simp
  then show ?thesis
    using wallet_limits_hold [OF sample_capture sample_no_collision st(1) sample_settled_run st(2) ap(1)] ap(2,3) by simp
qed

text \<open>
  Settlements are durable: a settled row of a reachable store is found unchanged, with
  its evidence and its debit accounting, in every later store of any run.
\<close>

theorem settlement_durable:
  assumes "store_read st scope = Some s" and "row \<in> set (ws_reservations s)" and "row_stage row = Stage_Settled"
    and "(wallet_step sha p h scope R)\<^sup>*\<^sup>* st st'"
  shows "\<exists>s'. store_read st' scope = Some s' \<and> row \<in> set (ws_reservations s')"
proof -
  have "has_row scope (\<lambda>x. x = row \<and> row_stage x = Stage_Settled) st"
    using assms(1-3) by (auto simp: has_row_def list_ex_iff)
  from settled_row.run.inv_run [OF assms(4) this] show ?thesis by (auto simp: has_row_def list_ex_iff)
qed

theorem settlement_durable_witness:
  "\<exists>s'. store_read [(''w'', sample_state3 [''DEM''])] ''w'' = Some s' \<and>
        set_settled sample_hex sample_actual 4 (set_pending 3 sample_row) \<in> set (ws_reservations s')"
  by (rule settlement_durable [of "[(''w'', sample_state3 [''DEM''])]" "''w''" "sample_state3 [''DEM'']" _
        sample_sha "sample_policy [''DEM'']" sample_hex "{sample_reservation}"])
    (simp_all add: store_read_def sample_state3_def set_settled_def)

text \<open>
  Property C2. A superseded lease is fenced. Once a reservation has been granted at generation
  \<open>g\<close>, a permit for the same reservation id with an older generation is refused for ever: in every
  store of every later run its currency check and its begin fail and change nothing, and it cannot
  account a settlement.
\<close>

theorem superseded_lease_fenced:
  assumes granted: "transact st scope (update au c (commitReservation au r b ha bal)) = (Inr (Claim_Reserved g), st1)"
    and run: "(wallet_step sha p h scope R)\<^sup>*\<^sup>* st1 st2"
    and old: "r_reservationId (pm_reservation pm) = r_reservationId r" "tok_generation (pm_token pm) < g"
  shows "(\<exists>e. permit_assertCurrent au' scope c' pm st2 = (Inl e, st2)) \<and>
    (\<exists>e. permit_beginEffect au' scope c' pm st2 = (Inl e, st2)) \<and>
    fst (permit_settle au' scope c' pm wob st2) \<noteq> Inr Settled_Now"
proof -
  obtain s' where "update au c (commitReservation au r b ha bal) (store_read st scope) = Inr (s', Claim_Reserved g)"
    "st1 = AList.update scope s' st"
    using granted by (auto simp: transact_def split: sum.splits)
  then have "has_row scope (leased (r_reservationId r) g) st1"
    using granted_leased by (auto simp: has_row_def store_read_def update_conv')
  from leased.run.inv_run [OF run this] obtain s2 where
    "store_read st2 scope = Some s2" "list_ex (leased (r_reservationId (pm_reservation pm)) g) (ws_reservations s2)"
    by (auto simp: has_row_def old(1))
  from old_lease_refused [OF this old(2)] show ?thesis by blast
qed

theorem superseded_lease_fenced_witness:
  "(\<exists>e. permit_beginEffect (sample_authority [''DEM'']) ''w'' (sample_clock 3)
      (sample_permit\<lparr>pm_token := \<lparr>tok_owner = ''buyer'', tok_generation = 0\<rparr>\<rparr>) [(''w'', sample_state1)] =
      (Inl e, [(''w'', sample_state1)]))"
proof -
  have "transact [] ''w'' (update (sample_authority [''DEM'']) (sample_clock 2)
      (commitReservation (sample_authority [''DEM'']) sample_reservation sample_hex None [(''DEM'', 9)])) =
      (Inr (Claim_Reserved 1), [(''w'', sample_state1)])" by code_simp
  from superseded_lease_fenced [OF this rtranclp.rtrancl_refl,
      of "sample_permit\<lparr>pm_token := \<lparr>tok_owner = ''buyer'', tok_generation = 0\<rparr>\<rparr>"
        "sample_authority [''DEM'']" "sample_clock 3" sample_observation]
  show ?thesis by (simp add: sample_permit_def)
qed

text \<open>
  Release is guarded: a recovery transaction releases a reservation only when it was
  still active, its lease had expired before the transaction's clock, and, when the observation
  only says the effect was not invoked, the effect had not begun; the row keeps its id and
  binding, and no other row changes.
\<close>

theorem release_only_expired:
  assumes "releaseStored r b ob s t = Inr (s', Rec_Released)"
  shows "\<exists>row. find_row s (r_reservationId r) = Some row \<and> row_binding row = b \<and> active row \<and>
    (case row_leaseExpiresAt row of None \<Rightarrow> max_safe | Some l \<Rightarrow> l) < t \<and>
    (is_Obs_Not_Invoked ob \<longrightarrow> row_stage row = Reserved) \<and>
    ws_reservations s' = update_row (r_reservationId r) (set_released (evidence ob) t) (ws_reservations s) \<and>
    ws_totals s' = ws_totals s \<and> ws_rollingEvents s' = ws_rollingEvents s"
proof (cases "find_row s (r_reservationId r)")
  case (Some row)
  then show ?thesis using assms
    by (cases "row_stage row"; cases "row_leaseExpiresAt row")
      (auto simp: releaseStored_def res_simps active_def split: if_splits)
qed (use assms in \<open>simp add: releaseStored_def res_simps\<close>)

theorem release_only_expired_witness:
  "\<exists>row. find_row sample_state2 ''r'' = Some row \<and> active row \<and> row_stage row = Effect_Pending"
proof -
  have "releaseStored sample_reservation sample_hex (Obs_Terminal_Absent sample_hex) sample_state2 13 =
      Inr (sample_state2\<lparr>ws_reservations := [set_released sample_hex 13 (set_pending 3 sample_row)]\<rparr>, Rec_Released)"
    by code_simp
  from release_only_expired [OF this] obtain row where
    "find_row sample_state2 (r_reservationId sample_reservation) = Some row" "active row" by blast
  moreover have "r_reservationId sample_reservation = ''r''"
    "find_row sample_state2 ''r'' = Some (set_pending 3 sample_row)" by code_simp+
  ultimately show ?thesis by (auto simp: set_pending_def)
qed

text \<open>
  The reported headroom is exact: with the balance known and the number of effects,
  the per-order limit and the fee limit not exceeded, an order is refused for the reserve, the
  rolling or the cumulative limit exactly when it asks for more than the headroom that inspection
  reports for the asset.
\<close>

theorem headroom_exact:
  assumes "balances (ap_asset ap) = Some bal"
    and "as_availableHeadroom (assetStatus balances s ap) = Some hr"
    and "q = get0 (aggregateMaxima (r_debits r)) (ap_asset ap)" and "0 < q"
    and "q \<le> ap_maximumPerOrderDebit ap" and "networkFee r (ap_asset ap) \<le> ap_maximumNetworkFeeDebit ap"
    and "int (rollingEffects s (ap_asset ap) + activeEffects s (ap_asset ap) + 1) \<le> ap_maximumRollingEffects ap"
  shows "assetDenial r [(ap_asset ap, bal)] s ap \<in> {Some Insufficient_Reserve, Some Rolling_Limit, Some Cumulative_Limit}
    \<longleftrightarrow> hr < q"
proof -
  have b: "get0 [(ap_asset ap, bal)] (ap_asset ap) = bal" by (simp add: get0_def)
  have hr: "hr = min (min (headroom bal (activeDebit s (ap_asset ap)) (ap_minimumReserve ap))
      (headroom (ap_maximumRollingDebit ap) (rollingDebit s (ap_asset ap)) (activeDebit s (ap_asset ap))))
      (headroom (ap_maximumCumulativeDebit ap) (t_cumulativeDebit (totalFor s (ap_asset ap))) (activeDebit s (ap_asset ap)))"
    using assms(1,2) by (simp add: assetStatus_def Let_def)
  have h: "headroom l u v < q \<longleftrightarrow> l < u + v + q" for l u v using assms(4) by (auto simp: headroom_def)
  show ?thesis
    using assms(4-7) unfolding assetDenial_def Let_def b assms(3) [symmetric] hr min_less_iff_disj h
    by (auto simp: add.commute add.left_commute)
qed

theorem headroom_exact_witness:
  "assetDenial sample_reservation [(''DEM'', 9)] (sample_state3 [''DEM'']) (hd (p_assets (sample_policy [''DEM''])))
     \<in> {Some Insufficient_Reserve, Some Rolling_Limit, Some Cumulative_Limit} \<longleftrightarrow> (4::nat) < 5"
proof -
  let ?ap = "hd (p_assets (sample_policy [''DEM'']))"
  have a: "ap_asset ?ap = ''DEM''" "as_availableHeadroom (assetStatus (\<lambda>_. Some 9) (sample_state3 [''DEM'']) ?ap) = Some 4"
    "get0 (aggregateMaxima (r_debits sample_reservation)) (ap_asset ?ap) = 5"
    "(5::nat) \<le> ap_maximumPerOrderDebit ?ap" "networkFee sample_reservation (ap_asset ?ap) \<le> ap_maximumNetworkFeeDebit ?ap"
    "int (rollingEffects (sample_state3 [''DEM'']) (ap_asset ?ap) + activeEffects (sample_state3 [''DEM'']) (ap_asset ?ap) + 1)
       \<le> ap_maximumRollingEffects ?ap" by code_simp+
  show ?thesis
    using headroom_exact [OF refl a(2) a(3) [symmetric] _ a(4,5,6)] by (simp add: a(1))
qed

section \<open>Settlement under a policy with several assets\<close>

definition recompute_step :: "string \<Rightarrow> nat \<times> (string \<times> nat) list \<Rightarrow> stored_reservation \<Rightarrow> nat \<times> (string \<times> nat) list" where
  "recompute_step a acc row =
     (case acc of (cum, cps) \<Rightarrow>
       (case map_of (row_actual row) a of
          None \<Rightarrow> (cum, cps)
        | Some v \<Rightarrow> (cum + v, AList.update (r_payee (row_reservation row))
                     (get0 cps (r_payee (row_reservation row)) + v) cps)))"

lemma recompute_filter:
  "recompute s a = foldl (recompute_step a) (0, [])
     (filter (\<lambda>row. row_stage row = Stage_Settled \<and> map_of (row_actual row) a \<noteq> None) (ws_reservations s))"
proof -
  have "foldl (recompute_step a) z (filter (\<lambda>row. row_stage row = Stage_Settled) rows) =
      foldl (recompute_step a) z (filter (\<lambda>row. row_stage row = Stage_Settled \<and> map_of (row_actual row) a \<noteq> None) rows)"
    for z rows
    by (induction rows arbitrary: z) (auto simp: recompute_step_def split: prod.splits)
  moreover have "recompute s a = foldl (recompute_step a) (0, []) (settled_rows s)"
    unfolding recompute_def by (intro foldl_cong refl) (auto simp: recompute_step_def split: prod.splits)
  ultimately show ?thesis by (simp add: settled_rows_def)
qed

lemma recompute_distinct: "distinct (map fst (snd (recompute s a)))"
proof -
  have "distinct (map fst (snd z)) \<Longrightarrow> distinct (map fst (snd (foldl (recompute_step a) z rows)))" for z rows
    by (induction rows arbitrary: z) (auto simp: recompute_step_def distinct_update split: prod.splits option.splits)
  then show ?thesis unfolding recompute_filter by simp
qed

lemma update_new_key_length: "k \<notin> fst ` set m \<Longrightarrow> length (AList.update k v m) = Suc (length m)"
  by (induction m) auto

text \<open>When retained and recomputed counterparties match, they have the same keys.\<close>

lemma totalsMatch_keys:
  assumes "totalsMatch s ap" and "map_of (snd (recompute s (ap_asset ap))) payee = None"
  shows "payee \<notin> fst ` set (t_counterpartyDebits (totalFor s (ap_asset ap))) \<and>
    length (t_counterpartyDebits (totalFor s (ap_asset ap))) = length (snd (recompute s (ap_asset ap)))"
proof -
  let ?ret = "t_counterpartyDebits (totalFor s (ap_asset ap))"
  obtain cum cps where rc: "recompute s (ap_asset ap) = (cum, cps)" by (cases "recompute s (ap_asset ap)")
  note m = assms(1) [unfolded totalsMatch_def rc Let_def prod.case]
  have sub: "fst ` set cps \<subseteq> fst ` set ?ret" using m by (force simp: list_all_iff dest: map_of_SomeD)
  have "distinct (map fst cps)" using recompute_distinct [of s "ap_asset ap"] rc by simp
  then have "card (fst ` set cps) = length cps" by (metis distinct_card length_map list.set_map)
  moreover have "card (fst ` set ?ret) \<le> length ?ret" by (metis card_length length_map list.set_map)
  ultimately have "fst ` set cps = fst ` set ?ret" using sub m by (simp add: card_seteq)
  then show ?thesis using assms(2) m rc by (simp add: map_of_eq_None_iff)
qed

lemma totalFor_addTotals:
  assumes "ap \<in> set (p_assets p)" and "ws_totals s' = addTotals p r acc s"
  shows "t_counterpartyDebits (totalFor s' (ap_asset ap)) =
    AList.update (r_payee r) (get0 (t_counterpartyDebits (totalFor s (ap_asset ap))) (r_payee r) + get0 acc (ap_asset ap))
      (t_counterpartyDebits (totalFor s (ap_asset ap)))"
proof -
  obtain t where t: "find (\<lambda>t. t_asset t = ap_asset ap) (addTotals p r acc s) = Some t"
    using assms(1) by (cases "find (\<lambda>t. t_asset t = ap_asset ap) (addTotals p r acc s)")
      (auto simp: find_None_iff addTotals_def Let_def)
  then have "totalFor s' (ap_asset ap) = t" by (simp add: totalFor_def [of s'] assms(2))
  then show ?thesis using t by (auto simp: find_Some_iff addTotals_def Let_def)
qed

lemma settle_undebited_mismatch:
  assumes "settleStored p r b ev ds tok s t = Inr (s', Settled_Now)" and "distinct (map row_id (ws_reservations s))"
    and "totalsMatch s ap" and "ap \<in> set (p_assets p)" and "map_of (aggregateActual ds) (ap_asset ap) = None"
    and "map_of (snd (recompute s (ap_asset ap))) (r_payee r) = None"
  shows "\<not> totalsMatch s' ap"
  using assms(1)
proof (cases rule: settleStored_cases)
  case (settled row)
  let ?Q = "\<lambda>row. row_stage row = Stage_Settled \<and> map_of (row_actual row) (ap_asset ap) \<noteq> None"
  have "filter ?Q (update_row (r_reservationId r) (set_settled ev ds t) (ws_reservations s)) = filter ?Q (ws_reservations s)"
  proof -
    have "\<not> ?Q x" if "x \<in> set (ws_reservations s)" "row_id x = r_reservationId r" for x
    proof -
      have "x = row" using that find_row_Some [OF settled(1)] assms(2) by (auto simp: distinct_map inj_on_def)
      then show ?thesis using settled(3) by (auto simp: active_def)
    qed
    moreover have "\<not> ?Q (set_settled ev ds t x)" for x
      using assms(5) by (simp add: set_settled_def row_actual_def)
    ultimately have "filter ?Q (update_row (r_reservationId r) (set_settled ev ds t) rows) = filter ?Q rows"
      if "set rows \<subseteq> set (ws_reservations s)" for rows
      using that by (induction rows) (auto simp: update_row_def)
    then show ?thesis by blast
  qed
  then have rc: "recompute s' (ap_asset ap) = recompute s (ap_asset ap)"
    unfolding recompute_filter by (simp add: settled(4))
  have len: "length (t_counterpartyDebits (totalFor s' (ap_asset ap))) =
      Suc (length (snd (recompute s (ap_asset ap))))"
    using totalFor_addTotals [OF assms(4), of s' r "aggregateActual ds" s] totalsMatch_keys [OF assms(3,6)]
    by (simp add: settled(4) update_new_key_length)
  show ?thesis unfolding totalsMatch_def Let_def rc using len by (auto split: prod.splits)
qed simp

text \<open>
  Property C40. A defect: settlement writes a counterparty entry for every asset of the policy, the
  assets the reservation does not debit included, while validation expects entries only for
  debited assets. So once a reservation is settled whose debits leave out an asset of the policy, towards
  a payee with no earlier settlement in that asset, the wallet is locked: with that state stored, every
  update transaction of any operation, every permit assertion and every inspection under the same
  policy throws, and the store stays as it is.
\<close>

theorem settlement_of_partial_assets_locks_wallet:
  assumes "update au c (settleStored (au_policy au) r b ev ds tok) (Some s) = Inr (s', Settled_Now)"
    and "ap \<in> set (p_assets (au_policy au))" and "map_of (aggregateActual ds) (ap_asset ap) = None"
    and "map_of (snd (recompute s (ap_asset ap))) (r_payee r) = None"
    and "au_policy au' = au_policy au" and stored: "store_read st scope = Some s'"
  shows "(\<exists>e. transact st scope (update au' c' op) = (Inl e, st)) \<and>
    (\<exists>e. permit_assertCurrent au' scope c' pm st = (Inl e, st)) \<and> (\<exists>e. inspect au' scope now st = Inl e)"
proof -
  from assms(1) have "\<not> totalsMatch s' ap"
  proof (rule update_Inr)
    fix t s2 recent s1
    assume cs: "captureState (au_sha256Hex au) (au_policy au) (au_policyHash au) (Some s) = Inr s2"
      and run: "settleStored (au_policy au) r b ev ds tok (s2\<lparr>ws_rollingEvents := recent\<rparr>) t = Inr (s1, Settled_Now)"
      and s': "s' = s1 \<and> s1 = s2 \<or>
        s' = s1\<lparr>ws_generation := ws_generation s2 + 1\<rparr> \<and> isSafeInteger (ws_generation s2 + 1)"
    note c = captureState_Some [OF cs]
    have frame: "totalsMatch (x\<lparr>ws_rollingEvents := es\<rparr>) ap = totalsMatch x ap"
      "recompute (x\<lparr>ws_rollingEvents := es\<rparr>) a = recompute x a"
      "totalsMatch (x\<lparr>ws_generation := g\<rparr>) ap = totalsMatch x ap" for x :: wallet_state and es g a
      by (simp_all add: totalsMatch_def totalFor_def recompute_def settled_rows_def)
    have "\<not> totalsMatch s1 ap"
      by (rule settle_undebited_mismatch [OF run _ _ assms(2,3)]) (use c assms(2,4) in \<open>auto simp: frame\<close>)
    then show ?thesis using s' frame by auto
  qed
  then have locked: "captureState sha (au_policy au') h (Some s') \<noteq> Inr x" for sha h x
    using captureState_Some(4) assms(2,5) by metis
  obtain e where e: "captureState (au_sha256Hex au') (au_policy au') (au_policyHash au') (Some s') = Inl e"
    using locked by (cases "captureState (au_sha256Hex au') (au_policy au') (au_policyHash au') (Some s')") auto
  have "\<exists>e. update au' c' op (Some s') = Inl e"
    by (cases "update au' c' op (Some s')") (auto elim: update_Inr simp: locked)
  then have "\<exists>e. transact st scope (update au' c' op) = (Inl e, st)" by (auto simp: transact_def stored)
  moreover have "\<exists>e. assertCurrentPermit au' c' (pm_reservation pm) (pm_binding pm) (pm_token pm) (Some s') = Inl e"
    by (cases "sampleClock c'") (simp_all add: assertCurrentPermit_def e)
  then have "\<exists>e. permit_assertCurrent au' scope c' pm st = (Inl e, st)" by (auto simp: transact_def permit_assertCurrent_def stored)
  moreover have "\<exists>e. inspect au' scope now st = Inl e" by (simp add: inspect_def stored e)
  ultimately show ?thesis by blast
qed

theorem settlement_of_partial_assets_locks_wallet_witness:
  "(\<exists>e. transact [(''w'', sample_state3 [''DEM'', ''USDC''])] ''w'' (update (sample_authority [''DEM'', ''USDC'']) (sample_clock 5)
      (probeReservation sample_reservation sample_hex)) = (Inl e, [(''w'', sample_state3 [''DEM'', ''USDC''])])) \<and>
   (\<exists>e. permit_assertCurrent (sample_authority [''DEM'', ''USDC'']) ''w'' (sample_clock 5) sample_permit
      [(''w'', sample_state3 [''DEM'', ''USDC''])] = (Inl e, [(''w'', sample_state3 [''DEM'', ''USDC''])])) \<and>
   (\<exists>e. inspect (sample_authority [''DEM'', ''USDC'']) ''w'' 5 [(''w'', sample_state3 [''DEM'', ''USDC''])] = Inl e)"
proof (rule settlement_of_partial_assets_locks_wallet
    [where s = sample_state2 and ap = "p_assets (sample_policy [''DEM'', ''USDC'']) ! 1" and ds = sample_actual
      and au = "sample_authority [''DEM'', ''USDC'']" and r = sample_reservation and b = sample_hex and ev = sample_hex
      and tok = "Some (pm_token sample_permit)" and c = "sample_clock 4" and s' = "sample_state3 [''DEM'', ''USDC'']"])
  show "update (sample_authority [''DEM'', ''USDC'']) (sample_clock 4)
      (settleStored (au_policy (sample_authority [''DEM'', ''USDC''])) sample_reservation sample_hex sample_hex
        sample_actual (Some (pm_token sample_permit))) (Some sample_state2) =
      Inr (sample_state3 [''DEM'', ''USDC''], Settled_Now)" by code_simp
  show "store_read [(''w'', sample_state3 [''DEM'', ''USDC''])] ''w'' = Some (sample_state3 [''DEM'', ''USDC''])"
    by (simp add: store_read_def)
qed code_simp+

section \<open>Effects and stored reservations\<close>

lemma begun_pending:
  assumes "permit_beginEffect au scope c pm st = (Inr u, st1)"
  shows "\<exists>s. store_read st1 scope = Some s \<and> (\<forall>row \<in> set (ws_reservations s).
      row_id row = r_reservationId (pm_reservation pm) \<longrightarrow> row_stage row = Effect_Pending)"
proof -
  let ?i = "r_reservationId (pm_reservation pm)"
  obtain s' where s': "update au c (beginEffect (pm_reservation pm) (pm_binding pm) (pm_token pm)) (store_read st scope) =
      Inr (s', u)" "st1 = AList.update scope s' st"
    using assms by (auto simp: permit_beginEffect_def transact_def split: sum.splits)
  from s'(1) have "\<exists>t rows. ws_reservations s' = update_row ?i (set_pending t) rows"
  proof (rule update_Inr)
    fix t recent s1 and s :: wallet_state
    let ?s = "s\<lparr>ws_rollingEvents := recent\<rparr>"
    assume run: "beginEffect (pm_reservation pm) (pm_binding pm) (pm_token pm) ?s t = Inr (s1, u)"
      and eq: "s' = s1 \<and> s1 = s \<or>
        s' = s1\<lparr>ws_generation := ws_generation s + 1\<rparr> \<and> isSafeInteger (ws_generation s + 1)"
    obtain rows where rows: "mapR (beginRow ?i (pm_binding pm) (pm_token pm) t) (ws_reservations ?s) = Inr rows"
      "s1 = ?s\<lparr>ws_reservations := rows\<rparr>"
      using run by (auto simp: beginEffect_def res_simps)
    have "ws_reservations s' = ws_reservations s1" using eq by auto
    then have "ws_reservations s' = rows" using rows(2) by simp
    then show ?thesis using begin_rows [OF rows(1)] by blast
  qed
  then have "row_stage row = Effect_Pending" if "row \<in> set (ws_reservations s')" "row_id row = ?i" for row
    using that by (auto simp: update_row_def set_pending_def split: if_splits)
  then show ?thesis using s'(2) by (simp add: store_read_def update_conv')
qed

text \<open>
  An effect is invoked only under a pending lease: when the begin and the currency
  check both succeed, the store holds the permit's row in stage effect-pending with the permit's
  owner, generation and binding; and if the effect then throws, execution reports that error and
  leaves this pending row in place, so the debit stays counted until recovery decides.
\<close>

theorem effect_failure_leaves_pending:
  assumes "permit_beginEffect au scope (clocks 2) pm st = (Inr u, st1)"
    and "permit_assertCurrent au scope (clocks 3) pm st1 = (Inr v, st2)" and "effect pm = Inl e"
  shows "executePermit au scope clocks pm effect settlement st = (Inl e, st2) \<and>
    (\<exists>s row. store_read st2 scope = Some s \<and> find_row s (r_reservationId (pm_reservation pm)) = Some row \<and>
       holds_token row (pm_binding pm) (pm_token pm) \<and> row_stage row = Effect_Pending)"
proof -
  let ?i = "r_reservationId (pm_reservation pm)"
  obtain s where s: "store_read st1 scope = Some s"
    "\<And>row. row \<in> set (ws_reservations s) \<Longrightarrow> row_id row = ?i \<Longrightarrow> row_stage row = Effect_Pending"
    using begun_pending [OF assms(1)] by blast
  obtain s2 t where s2: "captureState (au_sha256Hex au) (au_policy au) (au_policyHash au) (Some s) = Inr s2"
    "requireCurrentPermit s2 ?i (pm_binding pm) (pm_token pm) t" "st2 = AList.update scope s2 st1"
    using assms(2) s(1)
    by (auto simp: permit_assertCurrent_def transact_def assertCurrentPermit_def res_simps split: sum.splits)
  from s2(2) obtain row where "find_row s2 ?i = Some row" "holds_token row (pm_binding pm) (pm_token pm)"
    by (auto simp: requireCurrentPermit_def split: option.splits)
  moreover have "s2 = s" using captureState_Some(1) [OF s2(1)] .
  ultimately show ?thesis using assms s(2) s2(3) find_row_Some [of s2 ?i row]
    by (auto simp: executePermit_def res_simps bindR_def store_read_def update_conv')
qed

theorem effect_failure_leaves_pending_witness:
  "\<exists>s row. store_read [(''w'', sample_state2)] ''w'' = Some s \<and>
     find_row s (r_reservationId (pm_reservation sample_permit)) = Some row \<and> row_stage row = Effect_Pending"
proof -
  let ?cl = "\<lambda>n::nat. sample_clock 3" and ?pm = sample_permit and ?eff = "\<lambda>_::permit. throw ''timeout'' :: unit res"
  have 1: "permit_beginEffect (sample_authority [''DEM'']) ''w'' (?cl 2) ?pm [(''w'', sample_state1)] =
      (Inr (), [(''w'', sample_state2)])"
    using sample_begun_eq by (simp add: sample_begun_def sample_reserved_eq)
  have 2: "permit_assertCurrent (sample_authority [''DEM'']) ''w'' (?cl 3) ?pm [(''w'', sample_state2)] =
      (Inr (), [(''w'', sample_state2)])" by code_simp
  have 3: "?eff ?pm = Inl (DacsError ''timeout'')" by (simp add: throw_def)
  show ?thesis
    using effect_failure_leaves_pending [where clocks = ?cl, OF 1 2, where effect = ?eff, OF 3] by blast
qed

lemma amount_nat_text [simp]: "amount (nat_text n) = Inr n"
  by (simp add: amount_def res_simps)

lemma positiveAmount_nat_text [simp]: "0 < n \<Longrightarrow> positiveAmount (nat_text n) = Inr n"
  by (simp add: positiveAmount_def res_simps)

lemma purpose_of_text [simp]: "purpose_of (purpose_text pu) = Some pu"
  by (cases pu) (simp_all add: purpose_of_def purpose_text_def)

lemma captureDebit_stored:
  assumes "captureDebit p acc d = Inr acc1"
  shows "\<exists>x. acc1 = acc @ [x] \<and> captureDebit p acc (wire_debit_of x) = Inr acc1"
proof (cases "purpose_of (wd_purpose d)")
  case (Some pu)
  show ?thesis using assms unfolding captureDebit_def Some option.case
    by (auto simp: res_simps nonEmpty_def positiveAmount_def wire_debit_of_def onlyKeys_def debit_key_def)
qed (use assms in \<open>simp add: captureDebit_def res_simps\<close>)

lemma foldR_captureDebit_stored:
  "foldR (captureDebit p) acc wds = Inr ds \<Longrightarrow>
   \<exists>new. ds = acc @ new \<and> foldR (captureDebit p) acc (map wire_debit_of new) = Inr ds \<and> (wds \<noteq> [] \<longrightarrow> new \<noteq> [])"
proof (induction wds arbitrary: acc)
  case (Cons d wds)
  then obtain acc1 where a: "captureDebit p acc d = Inr acc1" "foldR (captureDebit p) acc1 wds = Inr ds"
    by (auto simp: res_simps)
  from captureDebit_stored [OF a(1)] obtain x where x: "acc1 = acc @ [x]" "captureDebit p acc (wire_debit_of x) = Inr acc1"
    by blast
  from Cons.IH [OF a(2)] obtain new where "ds = acc1 @ new" "foldR (captureDebit p) acc1 (map wire_debit_of new) = Inr ds"
    by blast
  with x show ?case by (intro exI [of _ "x # new"]) (simp add: res_simps)
qed simp

text \<open>
  Stored reservations are re-admitted: the JSON the authority stores for an admitted
  reservation is admitted again, with the same result, so validating the stored state never
  rejects a reservation the authority accepted.
\<close>

theorem captureReservation_roundtrip:
  assumes "captureReservation wire p = Inr r"
  shows "captureReservation (wire_of r) p = Inr r"
proof -
  obtain ds where ds: "foldR (captureDebit p) [] (wr_debits wire) = Inr ds"
    using assms unfolding captureReservation_def nonEmpty_def hash_def safeInteger_def bindR_Inr ensure_Inr
    by (cases "wr_finality_finalityBlocks wire") (auto simp: res_simps)
  from foldR_captureDebit_stored [OF ds] obtain new where
    new: "ds = new" "foldR (captureDebit p) [] (map wire_debit_of new) = Inr ds" "wr_debits wire \<noteq> [] \<longrightarrow> new \<noteq> []" by auto
  have dist: "onlyKeys ks ks" for ks by (simp add: onlyKeys_def list_all_iff)
  show ?thesis using assms new ds unfolding captureReservation_def nonEmpty_def hash_def safeInteger_def
    by (cases "wr_finality_finalityBlocks wire") (auto simp: res_simps wire_of_def dist onlyKeys_def [of "[''model'', ''finalityBlocks'']"])
qed

theorem captureReservation_roundtrip_witness:
  "captureReservation (wire_of sample_reservation) (sample_policy [''DEM'']) = Inr sample_reservation"
  by (rule captureReservation_roundtrip [of "wire_of sample_reservation"]) code_simp

end
