(* ===== verification/Dacs_Channel.thy ===== *)
theory Dacs_Channel
  imports Dacs_Vet Dacs_Jcs
begin

text \<open>
  Admission of channel messages (\<^verbatim>\<open>src/src/negotiate/channel.ts\<close>): the structural checks, the
  anti-replay context and the four-valued signature decision. The signature verifier and SHA-256
  are parameters; the verifier may throw or return any string.
\<close>

section \<open>Messages\<close>

record message_refs =
  rf_keys :: "string list"
  rf_repliesTo :: "int option"

record channel_message =
  cm_keys :: "string list"
  cm_channelId :: string
  cm_sequence :: int
  cm_sender :: string
  cm_sentAt :: int
  cm_type :: string
  cm_body :: json
  cm_refs :: "message_refs option"
  cm_signature :: json

record channel_context =
  cc_sessionChannelId :: string
  cc_lastSequence :: int
  cc_priorChannelIds :: "string list"

datatype admission =
    Admitted channel_message string
  | Refused decision string

definition MESSAGE_TYPES :: "string list" where
  "MESSAGE_TYPES = [''offer'', ''counter'', ''accept'', ''reject'', ''sealed-envelope-commit'',
     ''sealed-envelope-reveal'', ''abort'']"

text \<open>The keys of an object: every required one, and no other than the optional ones.\<close>

definition exactKeys :: "string list \<Rightarrow> string list \<Rightarrow> string list \<Rightarrow> bool" where
  "exactKeys keys required optional \<longleftrightarrow>
     list_all (\<lambda>k. k \<in> set keys) required \<and> list_all (\<lambda>k. k \<in> set (required @ optional)) keys"

definition validateContext :: "channel_context \<Rightarrow> bool" where
  "validateContext c \<longleftrightarrow>
     isNonEmptyString (cc_sessionChannelId c) \<and> isSafeInteger (cc_lastSequence c) \<and> 0 \<le> cc_lastSequence c \<and>
     list_all isNonEmptyString (cc_priorChannelIds c)"

definition validateMessage :: "channel_message \<Rightarrow> bool" where
  "validateMessage m \<longleftrightarrow>
     exactKeys (cm_keys m) [''channelId'', ''sequence'', ''sender'', ''sentAt'', ''type'', ''body'', ''signature''] [''refs''] \<and>
     isNonEmptyString (cm_channelId m) \<and> isSafeInteger (cm_sequence m) \<and> 1 \<le> cm_sequence m \<and>
     isNonEmptyString (cm_sender m) \<and> isSafeTime (cm_sentAt m) \<and> cm_type m \<in> set MESSAGE_TYPES \<and>
     cm_signature m \<noteq> JNull \<and>
     (case cm_refs m of
        None \<Rightarrow> True
      | Some rf \<Rightarrow> exactKeys (rf_keys rf) [] [''repliesTo''] \<and>
          (case rf_repliesTo rf of
             None \<Rightarrow> True
           | Some n \<Rightarrow> isSafeInteger n \<and> 1 \<le> n \<and> n < cm_sequence m))"

section \<open>The signed envelope\<close>

definition refs_json :: "message_refs \<Rightarrow> json" where
  "refs_json rf = JObj (case rf_repliesTo rf of None \<Rightarrow> [] | Some n \<Rightarrow> [(''repliesTo'', JNum (JInt n))])"

definition unsignedEnvelope :: "channel_message \<Rightarrow> json" where
  "unsignedEnvelope m =
     JObj ([(''channelId'', JStr (cm_channelId m)), (''sequence'', JNum (JInt (cm_sequence m))),
            (''sender'', JStr (cm_sender m)), (''sentAt'', JNum (JInt (cm_sentAt m))),
            (''type'', JStr (cm_type m)), (''body'', cm_body m)] @
           (case cm_refs m of None \<Rightarrow> [] | Some rf \<Rightarrow> [(''refs'', refs_json rf)]))"

definition prepareChannelMessageSigningInput ::
  "(string \<Rightarrow> string) \<Rightarrow> channel_message \<Rightarrow> (json \<times> string) res" where
  "prepareChannelMessageSigningInput sha256Hex m =
     bindR (canonicalize (unsignedEnvelope m)) (\<lambda>t.
     ensure (''signature'' \<notin> set (cm_keys m)) ''unsigned channel message must omit signature''
     (ensure (validateMessage (m\<lparr>cm_keys := ''signature'' # cm_keys m, cm_signature := JStr ''validation-probe''\<rparr>))
       ''unsigned channel message envelope is malformed''
     (Inr (unsignedEnvelope m, sha256Hex t))))"

section \<open>Admission\<close>

definition admitChannelMessage ::
  "(string \<Rightarrow> string) \<Rightarrow> (channel_message \<Rightarrow> string \<Rightarrow> string res) \<Rightarrow> channel_message \<Rightarrow> channel_context \<Rightarrow> admission" where
  "admitChannelMessage sha256Hex verifySignature m ctx =
     (case bindR (canonicalize (unsignedEnvelope m)) (\<lambda>t. bindR (canonicalize (cm_signature m)) (\<lambda>_. Inr t)) of
        Inl _ \<Rightarrow> Refused Error ''channel message or admission context is malformed''
      | Inr t \<Rightarrow>
        if \<not> validateContext ctx then Refused Error ''channel admission context is malformed''
        else if \<not> validateMessage m then Refused Error ''channel message envelope is malformed''
        else if cc_sessionChannelId ctx \<in> set (cc_priorChannelIds ctx)
        then Refused Fail ''session channelId was used by a prior session (CH-6)''
        else if cm_channelId m \<noteq> cc_sessionChannelId ctx
        then Refused Fail ''message belongs to a different channel''
        else if cm_sequence m \<le> cc_lastSequence ctx
        then Refused Fail ''message sequence is not strictly increasing''
        else (case verifySignature m (sha256Hex t) of
                Inl _ \<Rightarrow> Refused Error ''channel signature verifier failed''
              | Inr text \<Rightarrow>
                (case classifyVerificationDecision text of
                   Inl _ \<Rightarrow> Refused Error ''channel signature verifier returned a malformed decision''
                 | Inr d \<Rightarrow>
                   if d = Pass then Admitted m (sha256Hex t)
                   else Refused d (''channel signature verification returned '' @ text))))"

lemma admitted_facts:
  assumes "admitChannelMessage sha verify m ctx = Admitted m' hh"
  shows "m' = m" "validateContext ctx" "validateMessage m" "cm_channelId m = cc_sessionChannelId ctx"
    "cc_lastSequence ctx < cm_sequence m" "\<exists>t. canonicalize (unsignedEnvelope m) = Inr t \<and> hh = sha t \<and>
      (\<exists>v. verify m hh = Inr v \<and> classifyVerificationDecision v = Inr Pass)"
  using assms unfolding admitChannelMessage_def
  by (auto split: sum.splits if_splits simp: res_simps bindR_def)

text \<open>
  Only fresh, authenticated messages are admitted: an admitted message is well formed,
  belongs to the session's channel, has a sequence above every sequence admitted so far, and its
  signature was verified as \<^verbatim>\<open>pass\<close> over the hash of its canonical unsigned envelope. Admitting it
  makes every later message with the same or a smaller sequence, the same message again included,
  a failure.
\<close>

theorem admission_is_fresh_and_authentic:
  assumes "admitChannelMessage sha verify m ctx = Admitted m' hh"
  shows "m' = m \<and> validateMessage m \<and> cm_channelId m = cc_sessionChannelId ctx \<and> cc_lastSequence ctx < cm_sequence m \<and>
    (\<exists>t v. canonicalize (unsignedEnvelope m) = Inr t \<and> hh = sha t \<and> verify m hh = Inr v \<and>
       classifyVerificationDecision v = Inr Pass) \<and>
    (\<forall>n. cm_sequence n \<le> cm_sequence m \<longrightarrow>
       (\<exists>d why. admitChannelMessage sha verify n (ctx\<lparr>cc_lastSequence := cm_sequence m\<rparr>) = Refused d why \<and> d \<noteq> Pass))"
proof -
  note f = admitted_facts [OF assms]
  have "\<exists>d why. admitChannelMessage sha verify n (ctx\<lparr>cc_lastSequence := cm_sequence m\<rparr>) = Refused d why \<and> d \<noteq> Pass"
    if "cm_sequence n \<le> cm_sequence m" for n
    using that unfolding admitChannelMessage_def by (auto split: sum.splits)
  then show ?thesis using f by blast
qed

definition sample_message :: channel_message where
  "sample_message =
     \<lparr>cm_keys = [''channelId'', ''sequence'', ''sender'', ''sentAt'', ''type'', ''body'', ''signature''],
      cm_channelId = ''ch'', cm_sequence = 1, cm_sender = ''buyer'', cm_sentAt = 5, cm_type = ''offer'',
      cm_body = JObj [], cm_refs = None, cm_signature = JStr ''sig''\<rparr>"

theorem admission_is_fresh_and_authentic_witness:
  "\<exists>d why. admitChannelMessage (\<lambda>_. ''hash'') (\<lambda>_ _. Inr ''pass'') sample_message
     \<lparr>cc_sessionChannelId = ''ch'', cc_lastSequence = 1, cc_priorChannelIds = []\<rparr> = Refused d why \<and> d \<noteq> Pass"
proof -
  have "admitChannelMessage (\<lambda>_. ''hash'') (\<lambda>_ _. Inr ''pass'') sample_message
     \<lparr>cc_sessionChannelId = ''ch'', cc_lastSequence = 0, cc_priorChannelIds = []\<rparr> = Admitted sample_message ''hash''"
    by code_simp
  from admission_is_fresh_and_authentic [OF this] show ?thesis by (simp add: sample_message_def)
qed

end
