(* ===== verification/Dacs_Pricing.thy ===== *)
theory Dacs_Pricing
  imports Dacs_Decimal Dacs_Jcs
begin

text \<open>
  Exact price arithmetic: the negotiable price band and the metered total of
  \<^verbatim>\<open>src/src/negotiate/fixedPrice.ts\<close>, and the second implementation of the band and of the
  comparison in \<^verbatim>\<open>src/src/negotiate/rfq.ts\<close>. Amounts are decimal texts; a percentage is a
  JavaScript number, given by the text JSON prints for it.
\<close>

section \<open>Price terms and pricing\<close>

record price_term =
  pt_amount :: string
  pt_currency :: string
  pt_unit :: "string option"
  pt_extra :: bool

text \<open>\<open>pt_extra\<close>: the object has members besides amount, currency and unit.\<close>

datatype pricing =
    Negotiable (band_center: price_term) (min_pct: jsnumber) (max_pct: jsnumber)
  | Metered (unit_price: price_term) (metered_unit: string) (min_total: "price_term option")
  | Other_Pricing

record metered_quantity =
  mq_quantity :: string
  mq_unit :: string

section \<open>Number texts\<close>

definition mantissa :: "string \<Rightarrow> string" where
  "mantissa s = takeWhile (\<lambda>c. c \<noteq> CHR ''e'' \<and> c \<noteq> CHR ''E'') s"

definition has_exponent :: "string \<Rightarrow> bool" where
  "has_exponent s \<longleftrightarrow> mantissa s \<noteq> s"

definition exponent_text :: "string \<Rightarrow> string" where
  "exponent_text s = drop (Suc (length (mantissa s))) s"

definition unsigned_exponent :: "string \<Rightarrow> string" where
  "unsigned_exponent t = (case t of [] \<Rightarrow> [] | c # r \<Rightarrow> if c = CHR ''+'' \<or> c = CHR ''-'' then r else t)"

text \<open>\<^verbatim>\<open>Number(text)\<close> of an exponent text.\<close>

definition exponent_value :: "string \<Rightarrow> int" where
  "exponent_value t =
     (if t \<noteq> [] \<and> hd t = CHR ''-'' then - int (digits_val (unsigned_exponent t))
      else int (digits_val (unsigned_exponent t)))"

text \<open>\<^verbatim>\<open>/^(\d+)(?:\.(\d+))?[eE]([+-]?\d+)$/\<close>\<close>

definition scientific_match :: "string \<Rightarrow> bool" where
  "scientific_match s \<longleftrightarrow>
     (let w = whole_part (mantissa s); f = fraction_part (mantissa s); x = unsigned_exponent (exponent_text s)
      in w \<noteq> [] \<and> list_all is_digit w \<and>
         (mantissa s = w \<or> mantissa s = w @ dot # f \<and> f \<noteq> [] \<and> list_all is_digit f) \<and>
         has_exponent s \<and> x \<noteq> [] \<and> list_all is_digit x)"

definition is_negative :: "jsnumber \<Rightarrow> bool" where
  "is_negative n = (case n of JInt i \<Rightarrow> i < 0 | JFrac t \<Rightarrow> t \<noteq> [] \<and> hd t = CHR ''-'' | JNonFinite \<Rightarrow> False)"

section \<open>The fixed-price implementation\<close>

text \<open>\<^verbatim>\<open>decimalParts\<close> is the pair of \<open>whole_part\<close> and \<open>fraction_part\<close>.\<close>

definition compareCanonicalDecimal :: "string \<Rightarrow> string \<Rightarrow> int" where
  "compareCanonicalDecimal left right =
     (let aw = whole_part left; bw = whole_part right
      in if length aw \<noteq> length bw then (if length aw < length bw then -1 else 1)
         else if aw \<noteq> bw then (if aw < bw then -1 else 1)
         else (let width = max (length (fraction_part left)) (length (fraction_part right));
                   af = padEnd width (fraction_part left); bf = padEnd width (fraction_part right)
               in if af = bf then 0 else if af < bf then -1 else 1))"

definition canonicalNumberDecimal :: "jsnumber \<Rightarrow> string res" where
  "canonicalNumberDecimal value =
     ensure (value \<noteq> JNonFinite \<and> \<not> is_negative value) ''must be a finite non-negative number''
     (bindR (canonNumber value) (\<lambda>encoded.
      if \<not> has_exponent encoded then canonicalizeDecimal encoded
      else ensure (scientific_match encoded) ''is not a canonical JSON number''
       (let whole = whole_part (mantissa encoded);
            fraction = fraction_part (mantissa encoded);
            exponent = exponent_value (exponent_text encoded);
            digits = whole @ fraction;
            decimalPlaces = int (length fraction) - exponent
        in canonicalizeDecimal
             (if decimalPlaces \<le> 0 then digits @ replicate (nat (- decimalPlaces)) zero
              else if int (length digits) > decimalPlaces
              then take (length digits - nat decimalPlaces) digits @ dot #
                   drop (length digits - nat decimalPlaces) digits
              else ''0.'' @ replicate (nat (decimalPlaces - int (length digits))) zero @ digits))))"

definition scaled_units :: "string \<Rightarrow> nat" where
  "scaled_units v = digits_val (whole_part v @ fraction_part v)"

definition scaledDecimal :: "string \<Rightarrow> nat \<times> nat" where
  "scaledDecimal v = (scaled_units v, length (fraction_part v))"

definition formatScaledDecimal :: "nat \<Rightarrow> nat \<Rightarrow> string res" where
  "formatScaledDecimal units fractionalDigits =
     (if fractionalDigits = 0 then Inr (nat_text units)
      else let digits = padStart (fractionalDigits + 1) (nat_text units);
               split = length digits - fractionalDigits
           in canonicalizeDecimal (take split digits @ dot # drop split digits))"

definition roundHalfUp :: "nat \<Rightarrow> nat \<Rightarrow> nat" where
  "roundHalfUp numerator denominator =
     (let quotient = numerator div denominator; remainder = numerator mod denominator
      in if remainder * 2 \<ge> denominator then quotient + 1 else quotient)"

text \<open>The snapshot admits only finite numbers of safe magnitude.\<close>

definition snapshot_number :: "jsnumber \<Rightarrow> bool" where
  "snapshot_number n \<longleftrightarrow> isOk (canonNumber n)"

definition negotiablePriceBand :: "pricing \<Rightarrow> (string \<times> string) res" where
  "negotiablePriceBand pricing =
     (case pricing of
        Negotiable center minPct maxPct \<Rightarrow>
          ensure (snapshot_number minPct \<and> snapshot_number maxPct) ''negotiable price-band input''
          (bindR (canonicalizeDecimal (pt_amount center)) (\<lambda>centre.
           ensure (centre = pt_amount center \<and> centre \<noteq> ''0'')
             ''negotiable bandCenter must be a positive CD-1 canonical decimal''
          (ensure (pt_currency center \<noteq> []) ''negotiable bandCenter currency must be non-empty''
          (bindR (canonicalNumberDecimal minPct) (\<lambda>minText.
           bindR (canonicalNumberDecimal maxPct) (\<lambda>maxText.
           let (minUnits, minDigits) = scaledDecimal minText;
               (maxUnits, maxDigits) = scaledDecimal maxText;
               minScale = 10 ^ minDigits; maxScale = 10 ^ maxDigits;
               minFactor = 100 * int minScale - int minUnits
           in ensure (0 < minFactor) ''negotiable minPct must produce a positive lower bound''
              (let maxFactor = 100 * maxScale + maxUnits;
                   (centreUnits, fractionalDigits) = scaledDecimal centre;
                   lowerUnits = roundHalfUp (centreUnits * nat minFactor) (100 * minScale);
                   upperUnits = roundHalfUp (centreUnits * maxFactor) (100 * maxScale)
               in ensure (0 < lowerUnits) ''negotiable price band must have a positive lower bound''
                  (bindR (formatScaledDecimal lowerUnits fractionalDigits) (\<lambda>lower.
                   bindR (formatScaledDecimal upperUnits fractionalDigits) (\<lambda>upper.
                   Inr (lower, upper)))))))))))
      | _ \<Rightarrow> throw ''negotiable price-band calculation requires negotiable pricing'')"

definition isNegotiablePriceWithinBand :: "string \<Rightarrow> pricing \<Rightarrow> bool res" where
  "isNegotiablePriceWithinBand amt pricing =
     bindR (canonicalizeDecimal amt) (\<lambda>canonicalAmount.
     ensure (canonicalAmount = amt \<and> canonicalAmount \<noteq> ''0'')
       ''agreement price must be a positive CD-1 canonical decimal''
     (bindR (negotiablePriceBand pricing) (\<lambda>(lower, upper).
      Inr (compareCanonicalDecimal canonicalAmount lower \<ge> 0 \<and>
           compareCanonicalDecimal canonicalAmount upper \<le> 0))))"

definition multiplyCanonicalDecimal :: "string \<Rightarrow> string \<Rightarrow> string res" where
  "multiplyCanonicalDecimal amt quantity =
     (let fraction = fraction_part amt;
          product = digits_val (whole_part amt @ fraction) * digits_val quantity
      in if fraction = [] then Inr (nat_text product)
         else let padded = padStart (length fraction + 1) (nat_text product);
                  split = length padded - length fraction
              in canonicalizeDecimal (take split padded @ dot # drop split padded))"

definition requirePositiveCanonicalAmount :: "string \<Rightarrow> 'a res \<Rightarrow> 'a res" where
  "requirePositiveCanonicalAmount v k =
     bindR (canonicalizeDecimal v) (\<lambda>c.
     ensure (c = v \<and> v \<noteq> ''0'') ''must be a positive CD-1 canonical decimal'' k)"

definition ceilMeteredQuantity :: "string \<Rightarrow> string res" where
  "ceilMeteredQuantity raw =
     bindR (canonicalizeDecimal raw) (\<lambda>c.
     Inr (if fraction_part c = [] then whole_part c else nat_text (digits_val (whole_part c) + 1)))"

definition deriveMeteredPriceTerm :: "pricing \<Rightarrow> metered_quantity \<Rightarrow> price_term res" where
  "deriveMeteredPriceTerm pricing quantity =
     (case pricing of
        Metered unitPrice unit minTotal \<Rightarrow>
          ensure (unit \<noteq> []) ''metered pricing requires a non-empty unit''
          (requirePositiveCanonicalAmount (pt_amount unitPrice)
          (ensure (pt_currency unitPrice \<noteq> []) ''metered unitPrice currency must be non-empty''
          (ensure (is_canonical_nat (mq_quantity quantity)) ''non-canonical-metered-quantity''
          (ensure (mq_unit quantity = unit) ''metered-unit-mismatch''
          ((case minTotal of
              None \<Rightarrow> (\<lambda>k. k)
            | Some m \<Rightarrow> (\<lambda>k. requirePositiveCanonicalAmount (pt_amount m)
                (ensure (pt_currency m = pt_currency unitPrice) ''min-total-currency-mismatch'' k)))
          (bindR (multiplyCanonicalDecimal (pt_amount unitPrice) (mq_quantity quantity)) (\<lambda>product.
           let amt = (case minTotal of
                        None \<Rightarrow> product
                      | Some m \<Rightarrow> if compareCanonicalDecimal (pt_amount m) product > 0 then pt_amount m else product)
           in ensure (amt \<noteq> ''0'') ''metered total must be positive when no minimum total applies''
              (Inr \<lparr>pt_amount = amt, pt_currency = pt_currency unitPrice, pt_unit = None, pt_extra = False\<rparr>))))))))
      | _ \<Rightarrow> throw ''metered pricing requires a non-empty unit'')"

section \<open>The request-for-quote implementation\<close>

text \<open>\<^verbatim>\<open>decimalParts\<close> of \<^verbatim>\<open>rfq.ts\<close>: digits and scale of the canonical form.\<close>

definition rfq_decimalParts :: "string \<Rightarrow> (nat \<times> nat) res" where
  "rfq_decimalParts v = bindR (canonicalizeDecimal v) (\<lambda>c. Inr (scaled_units c, length (fraction_part c)))"

definition numberAsPlainDecimal :: "jsnumber \<Rightarrow> string res" where
  "numberAsPlainDecimal value =
     bindR (canonNumber value) (\<lambda>encoded.
     ensure (encoded \<noteq> [] \<and> hd encoded \<noteq> CHR ''-'') ''RFQ percentage must be a non-negative finite number''
     (if \<not> has_exponent encoded then canonicalizeDecimal encoded
      else let exponent = exponent_value (exponent_text encoded);
               whole = whole_part (mantissa encoded);
               fraction = fraction_part (mantissa encoded);
               digits = whole @ fraction;
               decimalIndex = int (length whole) + exponent
           in canonicalizeDecimal
                (if decimalIndex \<le> 0 then ''0.'' @ replicate (nat (- decimalIndex)) zero @ digits
                 else if decimalIndex \<ge> int (length digits)
                 then digits @ replicate (nat (decimalIndex - int (length digits))) zero
                 else take (nat decimalIndex) digits @ dot # drop (nat decimalIndex) digits)))"

definition canonicalAmountFromUnits :: "nat \<Rightarrow> nat \<Rightarrow> string res" where
  "canonicalAmountFromUnits units scale =
     (let digits = padStart (scale + 1) (nat_text units)
      in if scale = 0 then Inr digits
         else let split = length digits - scale
              in canonicalizeDecimal (take split digits @ dot # drop split digits))"

definition roundedBandAmount :: "string \<Rightarrow> jsnumber \<Rightarrow> bool \<Rightarrow> string res" where
  "roundedBandAmount centerAmount percentage down =
     bindR (rfq_decimalParts centerAmount) (\<lambda>(centerDigits, centerScale).
     bindR (numberAsPlainDecimal percentage) (\<lambda>pctText.
     bindR (rfq_decimalParts pctText) (\<lambda>(pctDigits, pctScaleDigits).
     let pctScale = 10 ^ pctScaleDigits;
         hundred = 100 * pctScale;
         factor = (if down then int hundred - int pctDigits else int hundred + int pctDigits)
     in ensure (0 < factor) ''RFQ negotiable lower bound must remain positive''
        (let numerator = centerDigits * nat factor;
             rounded = (2 * numerator + hundred) div (2 * hundred)
         in ensure (0 < rounded) ''RFQ negotiable lower bound must remain positive''
            (canonicalAmountFromUnits rounded centerScale)))))"

definition compareDecimal :: "string \<Rightarrow> string \<Rightarrow> int res" where
  "compareDecimal left right =
     bindR (rfq_decimalParts left) (\<lambda>(ad, as).
     bindR (rfq_decimalParts right) (\<lambda>(bd, bs).
     let scale = max as bs; l = ad * 10 ^ (scale - as); r = bd * 10 ^ (scale - bs)
     in Inr (if l = r then 0 else if l < r then -1 else 1)))"

text \<open>The number a decimal or scientific text denotes, for the comparison with 100.\<close>

definition number_value :: "jsnumber \<Rightarrow> rat" where
  "number_value n =
     (case n of
        JInt i \<Rightarrow> of_int i
      | JFrac t \<Rightarrow>
        (let neg = (t \<noteq> [] \<and> hd t = CHR ''-''); u = (if neg then tl t else t);
             e = (if has_exponent u then exponent_value (exponent_text u) else 0);
             v = dec_value (mantissa u) * (if 0 \<le> e then 10 ^ nat e else 1 / 10 ^ nat (- e))
         in if neg then - v else v)
      | JNonFinite \<Rightarrow> 0)"

definition validatePriceTerm :: "price_term \<Rightarrow> bool \<Rightarrow> bool" where
  "validatePriceTerm v requireExactKeys \<longleftrightarrow>
     \<not> (requireExactKeys \<and> pt_extra v) \<and> isNonEmptyString (pt_amount v) \<and> isNonEmptyString (pt_currency v) \<and>
     (case pt_unit v of None \<Rightarrow> True | Some u \<Rightarrow> isNonEmptyString u) \<and>
     canonicalizeDecimal (pt_amount v) = Inr (pt_amount v) \<and> pt_amount v \<noteq> ''0''"

record price_band =
  pb_minimum :: price_term
  pb_maximum :: price_term

definition band_term :: "price_term \<Rightarrow> string \<Rightarrow> price_term" where
  "band_term center amt = \<lparr>pt_amount = amt, pt_currency = pt_currency center, pt_unit = pt_unit center, pt_extra = False\<rparr>"

definition deriveRfqPriceBand :: "pricing \<Rightarrow> price_band res" where
  "deriveRfqPriceBand pricing =
     (case pricing of
        Negotiable center minPct maxPct \<Rightarrow>
          ensure (snapshot_number minPct \<and> snapshot_number maxPct) ''RFQ negotiable pricing''
          (ensure (minPct \<noteq> JNonFinite \<and> \<not> is_negative minPct \<and> number_value minPct < 100 \<and>
                   maxPct \<noteq> JNonFinite \<and> \<not> is_negative maxPct \<and> validatePriceTerm center False)
            ''RFQ negotiable pricing is malformed''
          (bindR (roundedBandAmount (pt_amount center) minPct True) (\<lambda>lower.
           bindR (roundedBandAmount (pt_amount center) maxPct False) (\<lambda>upper.
           Inr \<lparr>pb_minimum = band_term center lower, pb_maximum = band_term center upper\<rparr>))))
      | _ \<Rightarrow> throw ''RFQ negotiable pricing is malformed'')"

section \<open>Comparison\<close>

text \<open>The result of a three-way comparison.\<close>

definition cmp :: "'a::linorder \<Rightarrow> 'a \<Rightarrow> int" where
  "cmp x y = (if x = y then 0 else if x < y then -1 else 1)"

lemma char_less_digit: "is_digit c \<Longrightarrow> is_digit d \<Longrightarrow> c < d \<longleftrightarrow> digit_val c < digit_val d"
  by (auto simp: is_digit_def digit_val_def less_char_def)

lemma digits_less_iff:
  assumes "length s = length t" "list_all is_digit s" "list_all is_digit t"
  shows "s < t \<longleftrightarrow> digits_val s < digits_val t"
  using assms
proof (induction s t rule: list_induct2)
  case (Cons c s d t)
  have b: "digits_val s < 10 ^ length t" "digits_val t < 10 ^ length t"
    using Cons digits_val_less [of s] digits_val_less [of t] by auto
  have "digit_val c * 10 ^ length t + digits_val s < digit_val d * 10 ^ length t + digits_val t \<longleftrightarrow>
      digit_val c < digit_val d \<or> digit_val c = digit_val d \<and> digits_val s < digits_val t"
  proof (cases "digit_val c" "digit_val d" rule: linorder_cases)
    case less
    then have "Suc (digit_val c) * 10 ^ length t \<le> digit_val d * 10 ^ length t" by (intro mult_right_mono) auto
    then show ?thesis using b less by auto
  next
    case greater
    then have "Suc (digit_val d) * 10 ^ length t \<le> digit_val c * 10 ^ length t" by (intro mult_right_mono) auto
    then show ?thesis using b greater by auto
  qed auto
  moreover have "c = d \<longleftrightarrow> digit_val c = digit_val d" using Cons by (metis digit_char_digit_val list.pred_inject(2))
  ultimately show ?case using Cons by (auto simp: digits_val_Cons char_less_digit)
qed simp

lemma canonical_nat_shorter:
  assumes "is_canonical_nat s" "is_canonical_nat t" "length s < length t"
  shows "digits_val s < digits_val t"
proof -
  obtain c r where t: "t = c # r" using assms(2) by (cases t) (auto simp: is_canonical_nat_def)
  have "s \<noteq> []" using assms(1) by (simp add: is_canonical_nat_def)
  then have "r \<noteq> []" using assms(3) t by (cases s) auto
  then have "c \<noteq> CHR ''0''" "is_digit c" using assms(2) t by (auto simp: is_canonical_nat_def)
  then have "1 \<le> digit_val c" using digit_val_0_iff [of c] by simp
  then have "10 ^ length r \<le> digits_val t" unfolding t digits_val_Cons by (simp add: trans_le_add1)
  moreover have "digits_val s < 10 ^ length s" using assms(1) by (simp add: is_canonical_nat_def digits_val_less)
  moreover have "(10::nat) ^ length s \<le> 10 ^ length r" using assms(3) t by (intro power_increasing) auto
  ultimately show ?thesis by linarith
qed

lemma dec_value_padded:
  assumes "length (fraction_part c) \<le> w"
  shows "dec_value c = of_nat (digits_val (whole_part c) * 10 ^ w + digits_val (padEnd w (fraction_part c))) / 10 ^ w"
proof -
  let ?l = "length (fraction_part c)"
  have "digits_val (padEnd w (fraction_part c)) = digits_val (fraction_part c) * 10 ^ (w - ?l)"
    by (simp add: padEnd_def digits_val_append)
  moreover have "(10::rat) ^ w = 10 ^ ?l * 10 ^ (w - ?l)" using assms by (simp add: power_add [symmetric])
  ultimately show ?thesis by (simp add: dec_value_def digits_val_append field_simps)
qed

lemma cmp_scaled: "cmp (of_nat m / 10 ^ w :: rat) (of_nat n / 10 ^ w) = cmp m n"
  by (simp add: cmp_def divide_less_cancel)

lemma cmp_parts:
  assumes "f < (b::nat)" "g < b"
  shows "cmp (m * b + f) (n * b + g) = (if m \<noteq> n then cmp m n else cmp f g)"
proof (cases m n rule: linorder_cases)
  case less
  then have "Suc m * b \<le> n * b" by (intro mult_right_mono) auto
  then show ?thesis using assms less by (simp add: cmp_def)
next
  case greater
  then have "Suc n * b \<le> m * b" by (intro mult_right_mono) auto
  then show ?thesis using assms greater by (simp add: cmp_def)
qed (simp add: cmp_def)

lemma canonical_digits: "canonical_dec c \<Longrightarrow> list_all is_digit (whole_part c) \<and> list_all is_digit (fraction_part c)"
  by (auto simp: canonical_dec_def is_canonical_nat_def)

lemma compareCanonicalDecimal_cmp:
  assumes "canonical_dec a" "canonical_dec b"
  shows "compareCanonicalDecimal a b = cmp (dec_value a) (dec_value b)"
proof -
  let ?w = "max (length (fraction_part a)) (length (fraction_part b))"
  let ?af = "padEnd ?w (fraction_part a)" and ?bf = "padEnd ?w (fraction_part b)"
  have len: "length ?af = ?w" "length ?bf = ?w" by (simp_all add: padEnd_def)
  have dig: "list_all is_digit ?af" "list_all is_digit ?bf"
    using canonical_digits [OF assms(1)] canonical_digits [OF assms(2)] by (simp_all add: padEnd_def)
  have lt: "digits_val ?af < 10 ^ ?w" "digits_val ?bf < 10 ^ ?w"
    using digits_val_less [OF dig(1)] digits_val_less [OF dig(2)] len by simp_all
  have v: "cmp (dec_value a) (dec_value b) =
      (if digits_val (whole_part a) \<noteq> digits_val (whole_part b)
       then cmp (digits_val (whole_part a)) (digits_val (whole_part b)) else cmp (digits_val ?af) (digits_val ?bf))"
    unfolding dec_value_padded [of a ?w, OF max.cobounded1] dec_value_padded [of b ?w, OF max.cobounded2] cmp_scaled
    by (rule cmp_parts [OF lt])
  have wn: "is_canonical_nat (whole_part a)" "is_canonical_nat (whole_part b)"
    using assms by (simp_all add: canonical_dec_def)
  have we: "digits_val (whole_part a) = digits_val (whole_part b) \<longleftrightarrow> whole_part a = whole_part b"
    by (rule iffI, rule canonical_nat_unique [OF wn], assumption, rule arg_cong [where f = digits_val], assumption)
  have fe: "digits_val ?af = digits_val ?bf \<longleftrightarrow> ?af = ?bf"
    by (auto intro: digits_val_inject [OF dig] simp: len)
  have fl: "?af < ?bf \<longleftrightarrow> digits_val ?af < digits_val ?bf" using digits_less_iff [OF _ dig] len by simp
  have wl: "length (whole_part a) = length (whole_part b) \<Longrightarrow>
      whole_part a < whole_part b \<longleftrightarrow> digits_val (whole_part a) < digits_val (whole_part b)"
    by (rule digits_less_iff) (simp_all add: canonical_digits [OF assms(1)] canonical_digits [OF assms(2)])
  consider "length (whole_part a) < length (whole_part b)" | "length (whole_part b) < length (whole_part a)"
    | "length (whole_part a) = length (whole_part b)" by linarith
  then show ?thesis
  proof cases
    case 1
    with canonical_nat_shorter [OF wn 1] have "cmp (dec_value a) (dec_value b) = -1"
      unfolding v by (simp add: cmp_def)
    then show ?thesis using 1 by (simp add: compareCanonicalDecimal_def Let_def)
  next
    case 2
    with canonical_nat_shorter [OF wn(2,1) 2] have "cmp (dec_value a) (dec_value b) = 1"
      unfolding v by (simp add: cmp_def)
    then show ?thesis using 2 by (simp add: compareCanonicalDecimal_def Let_def)
  next
    case 3
    have w: "(if whole_part a \<noteq> whole_part b then (if whole_part a < whole_part b then -1 else 1) else x) =
        (if digits_val (whole_part a) \<noteq> digits_val (whole_part b)
         then cmp (digits_val (whole_part a)) (digits_val (whole_part b)) else x)" for x :: int
      using we wl [OF 3] by (simp add: cmp_def)
    have f: "(if ?af = ?bf then 0 else if ?af < ?bf then -1 else 1) = cmp (digits_val ?af) (digits_val ?bf)"
      using fe fl by (simp add: cmp_def)
    show ?thesis unfolding v compareCanonicalDecimal_def Let_def f w using 3 by simp
  qed
qed

lemma compareDecimal_cmp:
  assumes "canonicalizeDecimal a = Inr ca" "canonicalizeDecimal b = Inr cb"
  shows "compareDecimal a b = Inr (cmp (dec_value a) (dec_value b))"
proof -
  have sc: "dec_value c = of_nat (scaled_units c * 10 ^ (w - length (fraction_part c))) / 10 ^ w"
    if "length (fraction_part c) \<le> w" for c w
  proof -
    have "(10::rat) ^ w = 10 ^ length (fraction_part c) * 10 ^ (w - length (fraction_part c))"
      using that by (simp add: power_add [symmetric])
    then show ?thesis by (simp add: dec_value_def scaled_units_def)
  qed
  let ?w = "max (length (fraction_part ca)) (length (fraction_part cb))"
  have "cmp (dec_value a) (dec_value b) = cmp (scaled_units ca * 10 ^ (?w - length (fraction_part ca)))
      (scaled_units cb * 10 ^ (?w - length (fraction_part cb)))"
    unfolding canonicalizeDecimal_value [OF assms(1), symmetric] canonicalizeDecimal_value [OF assms(2), symmetric]
      sc [of ca ?w, OF max.cobounded1] sc [of cb ?w, OF max.cobounded2] by (rule cmp_scaled)
  then show ?thesis using assms by (simp add: compareDecimal_def rfq_decimalParts_def bindR_def Let_def cmp_def)
qed

section \<open>Formatting and rounding\<close>

lemma padStart_digits: "list_all is_digit s \<Longrightarrow> list_all is_digit (padStart n s)"
  by (simp add: padStart_def)

lemma padStart_value [simp]: "digits_val (padStart n s) = digits_val s"
  by (simp add: padStart_def digits_val_append)

lemma padStart_length: "length (padStart n s) = max n (length s)"
  by (simp add: padStart_def)

lemma canonicalizeDecimal_fraction:
  assumes "list_all is_digit w" "list_all is_digit f" "w \<noteq> [] \<or> f \<noteq> []"
  shows "\<exists>c. canonicalizeDecimal (w @ dot # f) = Inr c"
proof -
  have "dropWhile is_digit (w @ dot # f) = dot # f"
    using assms(1) by (subst dropWhile_append2) (simp_all add: list_all_iff)
  then have "DECIMAL_RE (w @ dot # f)" using assms(2) by (simp add: DECIMAL_RE_def)
  moreover have "list_ex is_digit (w @ dot # f)" using assms by (cases w; cases f) auto
  ultimately show ?thesis by (simp add: canonicalizeDecimal_def ensure_def Let_def)
qed

text \<open>Placing a decimal point \<open>d\<close> digits from the right divides by the power of ten.\<close>

lemma point_value:
  assumes "list_all is_digit s" "d < length s"
  shows "\<exists>c. canonicalizeDecimal (take (length s - d) s @ dot # drop (length s - d) s) = Inr c \<and>
    canonical_dec c \<and> dec_value c = of_nat (digits_val s) / 10 ^ d"
proof -
  let ?t = "take (length s - d) s" and ?f = "drop (length s - d) s"
  have dig: "list_all is_digit ?t" "list_all is_digit ?f"
    using assms(1) by (auto simp: list_all_iff dest: in_set_takeD in_set_dropD)
  have ne: "?t \<noteq> [] \<or> ?f \<noteq> []" using assms(2) by auto
  obtain c where c: "canonicalizeDecimal (?t @ dot # ?f) = Inr c"
    using canonicalizeDecimal_fraction [OF dig] ne by blast
  have "dec_value c = of_nat (digits_val (?t @ ?f)) / 10 ^ length ?f"
    using canonicalizeDecimal_value [OF c] dec_value_fraction [OF dig] by simp
  then have "dec_value c = of_nat (digits_val s) / 10 ^ d" using assms(2) by simp
  with c canonicalizeDecimal_canonical [OF c] show ?thesis by blast
qed

lemma formatScaledDecimal_value:
  "\<exists>c. formatScaledDecimal u d = Inr c \<and> canonical_dec c \<and> dec_value c = of_nat u / 10 ^ d"
proof (cases "d = 0")
  case True
  then show ?thesis by (simp add: formatScaledDecimal_def canonical_dec_integer dec_value_integer nat_text_digits)
next
  case False
  then show ?thesis
    using point_value [OF padStart_digits [OF nat_text_digits], of d "d + 1" u]
    by (simp add: formatScaledDecimal_def Let_def padStart_length)
qed

lemma canonicalAmountFromUnits_eq: "canonicalAmountFromUnits u d = formatScaledDecimal u d"
proof -
  have "nat_text u \<noteq> []" by simp
  then have "padStart (Suc 0) (nat_text u) = nat_text u" by (cases "nat_text u") (simp_all add: padStart_def)
  then show ?thesis by (simp add: canonicalAmountFromUnits_def formatScaledDecimal_def Let_def)
qed

text \<open>The two half-up roundings are the same function, and it is the nearest integer.\<close>

lemma roundHalfUp_alt:
  assumes "0 < d"
  shows "roundHalfUp n d = (2 * n + d) div (2 * d)"
proof -
  have r: "n mod d < d" using assms by simp
  have "2 * (d * q + m) + d = 2 * m + d + (2 * d) * q" for q m by (simp add: algebra_simps)
  from this [of "n div d" "n mod d"]
  have "(2 * n + d) div (2 * d) = (2 * (n mod d) + d + (2 * d) * (n div d)) div (2 * d)"
    by (simp only: mult_div_mod_eq)
  also have "\<dots> = n div d + (2 * (n mod d) + d) div (2 * d)" using assms by simp
  also have "(2 * (n mod d) + d) div (2 * d) = (if d \<le> 2 * (n mod d) then 1 else 0)"
    using r by (auto intro!: div_nat_eqI)
  finally show ?thesis by (simp add: roundHalfUp_def Let_def mult.commute)
qed

lemma roundHalfUp_nearest:
  assumes "0 < d"
  shows "\<bar>of_nat (roundHalfUp n d) - (of_nat n / of_nat d :: rat)\<bar> \<le> 1 / 2"
proof -
  let ?q = "n div d" and ?r = "n mod d"
  have n: "(of_nat n :: rat) = of_nat d * of_nat ?q + of_nat ?r"
    by (metis mult_div_mod_eq of_nat_add of_nat_mult)
  have d: "(0::rat) < of_nat d" using assms by simp
  have e: "(of_nat n / of_nat d :: rat) = of_nat ?q + of_nat ?r / of_nat d" using d by (simp add: n add_divide_distrib)
  have r: "(of_nat ?r :: rat) < of_nat d" using assms by simp
  show ?thesis
  proof (cases "d \<le> ?r * 2")
    case True
    then have "(of_nat d :: rat) \<le> of_nat ?r * 2" by (metis of_nat_le_iff of_nat_mult of_nat_numeral)
    then have "1 / 2 \<le> (of_nat ?r / of_nat d :: rat)" "(of_nat ?r / of_nat d :: rat) \<le> 1"
      using d r by (simp_all add: field_simps)
    then show ?thesis using True by (simp add: roundHalfUp_def Let_def e)
  next
    case False
    then have "(of_nat ?r * 2 :: rat) \<le> of_nat d" by (metis nat_le_linear of_nat_le_iff of_nat_mult of_nat_numeral)
    then have "(of_nat ?r / of_nat d :: rat) \<le> 1 / 2" "0 \<le> (of_nat ?r / of_nat d :: rat)"
      using d by (simp_all add: field_simps)
    then show ?thesis using False by (simp add: roundHalfUp_def Let_def e)
  qed
qed

lemma roundHalfUp_mono: "0 < d \<Longrightarrow> m \<le> n \<Longrightarrow> roundHalfUp m d \<le> roundHalfUp n d"
  by (simp add: roundHalfUp_alt div_le_mono)

lemma roundHalfUp_exact: "0 < d \<Longrightarrow> roundHalfUp (n * d) d = n"
  by (simp add: roundHalfUp_def Let_def)

section \<open>The two implementations of the band\<close>

lemma expansions_agree:
  fixes w f :: string and e :: int
  assumes "w \<noteq> []"
  shows "(if int (length f) - e \<le> 0 then (w @ f) @ replicate (nat (- (int (length f) - e))) zero
     else if int (length (w @ f)) > int (length f) - e
     then take (length (w @ f) - nat (int (length f) - e)) (w @ f) @ dot #
          drop (length (w @ f) - nat (int (length f) - e)) (w @ f)
     else ''0.'' @ replicate (nat (int (length f) - e - int (length (w @ f)))) zero @ (w @ f)) =
    (if int (length w) + e \<le> 0 then ''0.'' @ replicate (nat (- (int (length w) + e))) zero @ (w @ f)
     else if int (length w) + e \<ge> int (length (w @ f))
     then (w @ f) @ replicate (nat (int (length w) + e - int (length (w @ f)))) zero
     else take (nat (int (length w) + e)) (w @ f) @ dot # drop (nat (int (length w) + e)) (w @ f))"
proof -
  have w: "0 < length w" using assms by simp
  consider "int (length f) \<le> e" | "e < int (length f)" "0 < int (length w) + e" | "int (length w) + e \<le> 0"
    using w by linarith
  then show ?thesis
  proof cases
    case 1
    then have "nat (- (int (length f) - e)) = nat (int (length w) + e - int (length (w @ f)))" by simp
    moreover have "0 < int (length w) + e" using 1 w by linarith
    ultimately show ?thesis using 1 by simp
  next
    case 2
    then have "length (w @ f) - nat (int (length f) - e) = nat (int (length w) + e)" by auto
    then show ?thesis using 2 by simp
  next
    case 3
    then have "nat (int (length f) - e - int (length (w @ f))) = nat (- (int (length w) + e))" by simp
    moreover have "e < int (length f)" using 3 w by linarith
    ultimately show ?thesis using 3 by simp
  qed
qed

lemma nat_text_not_minus: "hd (nat_text n) \<noteq> CHR ''-''"
proof -
  have "is_digit (hd (nat_text n))" using nat_text_digits [of n] by (cases "nat_text n") auto
  then show ?thesis by (auto simp: is_digit_def)
qed

lemma number_texts_agree:
  assumes "canonicalNumberDecimal n = Inr t"
  shows "numberAsPlainDecimal n = Inr t"
proof -
  obtain enc where g: "n \<noteq> JNonFinite" "\<not> is_negative n" and enc: "canonNumber n = Inr enc"
    and r: "(if \<not> has_exponent enc then canonicalizeDecimal enc
      else ensure (scientific_match enc) ''is not a canonical JSON number''
       (let whole = whole_part (mantissa enc); fraction = fraction_part (mantissa enc);
            exponent = exponent_value (exponent_text enc); digits = whole @ fraction;
            decimalPlaces = int (length fraction) - exponent
        in canonicalizeDecimal
             (if decimalPlaces \<le> 0 then digits @ replicate (nat (- decimalPlaces)) zero
              else if int (length digits) > decimalPlaces
              then take (length digits - nat decimalPlaces) digits @ dot #
                   drop (length digits - nat decimalPlaces) digits
              else ''0.'' @ replicate (nat (decimalPlaces - int (length digits))) zero @ digits))) = Inr t"
    using assms unfolding canonicalNumberDecimal_def ensure_Inr bindR_Inr by blast
  have ne: "enc \<noteq> []"
  proof
    assume "enc = []"
    then show False using r by (simp add: has_exponent_def mantissa_def canonicalizeDecimal_def ensure_def throw_def)
  qed
  have pos: "hd enc \<noteq> CHR ''-''"
    using enc g ne by (cases n) (auto simp: canonNumber_def is_negative_def int_text_def ensure_Inr nat_text_not_minus)
  show ?thesis
  proof (cases "has_exponent enc")
    case False
    then show ?thesis using r ne pos enc by (simp add: numberAsPlainDecimal_def bindR_def ensure_def)
  next
    case True
    then have "scientific_match enc" using r by (simp add: ensure_Inr)
    then have w: "whole_part (mantissa enc) \<noteq> []" by (simp add: scientific_match_def Let_def)
    show ?thesis
      using r True ne pos enc \<open>scientific_match enc\<close>
      unfolding numberAsPlainDecimal_def Let_def expansions_agree [OF w]
      by (simp add: bindR_def ensure_def)
  qed
qed

text \<open>Both implementations round the scaled product half up and format it at the centre's precision.\<close>

definition band_bound :: "string \<Rightarrow> string \<Rightarrow> bool \<Rightarrow> string res" where
  "band_bound centre pct down =
     (let hundred = 100 * 10 ^ length (fraction_part pct);
          factor = (if down then int hundred - int (scaled_units pct) else int hundred + int (scaled_units pct))
      in formatScaledDecimal (roundHalfUp (scaled_units centre * nat factor) hundred) (length (fraction_part centre)))"

lemma roundedBandAmount_bound:
  assumes "roundedBandAmount c p down = Inr x" and "canonicalizeDecimal c = Inr c" and "numberAsPlainDecimal p = Inr t"
    and "canonical_dec t"
  shows "band_bound c t down = Inr x"
proof -
  have t: "canonicalizeDecimal t = Inr t" using assms(4) by (rule canonical_dec_fixpoint)
  have h: "(0::nat) < 100 * 10 ^ length (fraction_part t)" by simp
  show ?thesis using assms(1-3) t roundHalfUp_alt [OF h]
    by (auto simp: roundedBandAmount_def band_bound_def rfq_decimalParts_def bindR_def Let_def ensure_Inr
        canonicalAmountFromUnits_eq split: if_splits)
qed

lemma negotiablePriceBand_bounds:
  assumes "negotiablePriceBand (Negotiable c lo hi) = Inr (l, u)"
  obtains a b where "canonicalNumberDecimal lo = Inr a" "canonicalNumberDecimal hi = Inr b"
    "canonicalizeDecimal (pt_amount c) = Inr (pt_amount c)" "pt_amount c \<noteq> ''0''"
    "band_bound (pt_amount c) a True = Inr l" "band_bound (pt_amount c) b False = Inr u"
    "scaled_units a < 100 * 10 ^ length (fraction_part a)"
proof -
  have nat_add: "nat (int m + int n) = m + n" for m n by simp
  from assms obtain centre a b where *: "canonicalizeDecimal (pt_amount c) = Inr centre" "centre = pt_amount c"
    "pt_amount c \<noteq> ''0''" "canonicalNumberDecimal lo = Inr a" "canonicalNumberDecimal hi = Inr b"
    "0 < 100 * int (10 ^ length (fraction_part a)) - int (scaled_units a)"
    "formatScaledDecimal (roundHalfUp (scaled_units centre * nat (100 * int (10 ^ length (fraction_part a)) - int (scaled_units a)))
       (100 * 10 ^ length (fraction_part a))) (length (fraction_part centre)) = Inr l"
    "formatScaledDecimal (roundHalfUp (scaled_units centre * (100 * 10 ^ length (fraction_part b) + scaled_units b))
       (100 * 10 ^ length (fraction_part b))) (length (fraction_part centre)) = Inr u"
    unfolding negotiablePriceBand_def pricing.case scaledDecimal_def Let_def prod.case ensure_Inr bindR_Inr sum.inject prod.inject
    by blast
  have l: "band_bound (pt_amount c) a True = Inr l" using *(2,7) by (simp add: band_bound_def Let_def)
  have "nat (int (100 * 10 ^ length (fraction_part b)) + int (scaled_units b)) =
      100 * 10 ^ length (fraction_part b) + scaled_units b" by (rule nat_add)
  then have u: "band_bound (pt_amount c) b False = Inr u" using *(2,8) by (simp add: band_bound_def Let_def)
  have "int (scaled_units a) < int (100 * 10 ^ length (fraction_part a))" using *(6) by simp
  then have "scaled_units a < 100 * 10 ^ length (fraction_part a)" by (simp only: of_nat_less_iff)
  then show thesis using that [OF *(4,5) _ *(3) l u] *(1,2) by simp
qed

lemma canonicalNumberDecimal_canonical: "canonicalNumberDecimal n = Inr t \<Longrightarrow> canonical_dec t"
  unfolding canonicalNumberDecimal_def ensure_Inr bindR_Inr Let_def
  by (auto simp: ensure_Inr dest: canonicalizeDecimal_canonical split: if_splits)

section \<open>Properties\<close>

lemma band_bound_value:
  assumes "band_bound c p down = Inr x" and "down \<Longrightarrow> scaled_units p < 100 * 10 ^ length (fraction_part p)"
  shows "canonical_dec x \<and>
    \<bar>dec_value x - dec_value c * (if down then 1 - dec_value p / 100 else 1 + dec_value p / 100)\<bar>
      \<le> 1 / 2 / 10 ^ length (fraction_part c) \<and>
    (if down then dec_value x \<le> dec_value c else dec_value c \<le> dec_value x)"
proof -
  let ?d = "length (fraction_part c)" and ?h = "100 * 10 ^ length (fraction_part p) :: nat"
  define k where "k = nat (if down then int ?h - int (scaled_units p) else int ?h + int (scaled_units p))"
  define r where "r = roundHalfUp (scaled_units c * k) ?h"
  have h: "0 < ?h" by simp
  have kd: "k = ?h - scaled_units p" if down using that by (simp only: k_def if_True nat_minus_as_int)
  have ku: "k = ?h + scaled_units p" if "\<not> down" using that by (simp only: k_def if_False nat_int_add)
  have x: "formatScaledDecimal r ?d = Inr x"
    using assms(1) by (cases down) (simp_all add: band_bound_def Let_def r_def k_def)
  then have xv: "canonical_dec x" "dec_value x = of_nat r / 10 ^ ?d" using formatScaledDecimal_value [of r ?d] by auto
  have hr: "(of_nat ?h :: rat) = 100 * 10 ^ length (fraction_part p)" by simp
  have pv: "dec_value p / 100 = of_nat (scaled_units p) / of_nat ?h" unfolding hr by (simp add: dec_value_def scaled_units_def)
  have cv: "dec_value c = of_nat (scaled_units c) / 10 ^ ?d" by (simp add: dec_value_def scaled_units_def)
  have kv: "(of_nat k / of_nat ?h :: rat) = (if down then 1 - dec_value p / 100 else 1 + dec_value p / 100)"
  proof (cases down)
    case True
    with kd show ?thesis using True assms(2) h unfolding pv by (simp add: of_nat_diff diff_divide_distrib)
  next
    case False
    with ku show ?thesis using False h unfolding pv by (simp add: add_divide_distrib)
  qed
  have near: "\<bar>(of_nat r :: rat) - of_nat (scaled_units c * k) / of_nat ?h\<bar> \<le> 1 / 2"
    unfolding r_def by (rule roundHalfUp_nearest [OF h])
  have "dec_value x - dec_value c * (of_nat k / of_nat ?h) =
      (of_nat r - of_nat (scaled_units c * k) / of_nat ?h) / 10 ^ ?d"
    unfolding xv(2) cv by (simp add: diff_divide_distrib)
  then have "\<bar>dec_value x - dec_value c * (of_nat k / of_nat ?h)\<bar> \<le> 1 / 2 / 10 ^ ?d"
    using divide_right_mono [OF near, of "10 ^ ?d"] by (simp add: abs_divide)
  moreover have "if down then dec_value x \<le> dec_value c else dec_value c \<le> dec_value x"
  proof (cases down)
    case True
    then have "k \<le> ?h" using kd by linarith
    then have "r \<le> scaled_units c"
      using roundHalfUp_mono [OF h, of "scaled_units c * k" "scaled_units c * ?h"] roundHalfUp_exact [OF h, of "scaled_units c"]
      by (simp add: r_def)
    then show ?thesis using True unfolding xv(2) cv by (simp add: divide_right_mono)
  next
    case False
    then have "?h \<le> k" using ku by linarith
    then have "scaled_units c \<le> r"
      using roundHalfUp_mono [OF h, of "scaled_units c * ?h" "scaled_units c * k"] roundHalfUp_exact [OF h, of "scaled_units c"]
      by (simp add: r_def)
    then show ?thesis using False unfolding xv(2) cv by (simp add: divide_right_mono)
  qed
  ultimately show ?thesis using xv(1) unfolding kv by blast
qed

text \<open>
  The negotiable band is exact: each bound is the centre amount times one minus (plus)
  the percentage, to the nearest unit of the centre's last digit, and the centre lies in the band.
\<close>

theorem negotiable_band_exact:
  assumes "negotiablePriceBand (Negotiable c lo hi) = Inr (l, u)"
    and "canonicalNumberDecimal lo = Inr a" and "canonicalNumberDecimal hi = Inr b"
  shows "\<bar>dec_value l - dec_value (pt_amount c) * (1 - dec_value a / 100)\<bar> \<le> 1 / 2 / 10 ^ length (fraction_part (pt_amount c)) \<and>
    \<bar>dec_value u - dec_value (pt_amount c) * (1 + dec_value b / 100)\<bar> \<le> 1 / 2 / 10 ^ length (fraction_part (pt_amount c)) \<and>
    dec_value l \<le> dec_value (pt_amount c) \<and> dec_value (pt_amount c) \<le> dec_value u"
proof -
  have lo: "band_bound (pt_amount c) a True = Inr l" "scaled_units a < 100 * 10 ^ length (fraction_part a)"
    and hi: "band_bound (pt_amount c) b False = Inr u"
    using negotiablePriceBand_bounds [OF assms(1)] assms(2,3) by auto
  show ?thesis using band_bound_value [OF lo(1)] band_bound_value [OF hi] lo(2) by simp
qed

definition sample_centre :: price_term where
  "sample_centre = \<lparr>pt_amount = ''5'', pt_currency = ''USDC'', pt_unit = None, pt_extra = False\<rparr>"

theorem negotiable_band_exact_witness:
  "dec_value ''4'' \<le> dec_value ''5'' \<and> dec_value ''5'' \<le> dec_value ''6''"
proof -
  have "negotiablePriceBand (Negotiable sample_centre (JInt 20) (JInt 20)) = Inr (''4'', ''6'')"
    "canonicalNumberDecimal (JInt 20) = Inr ''20''" "canonicalNumberDecimal (JInt 20) = Inr ''20''"
    by code_simp+
  from negotiable_band_exact [OF this] show ?thesis by (simp add: sample_centre_def)
qed

text \<open>
  The two implementations of the band agree: whenever the request-for-quote code and the
  fixed-price code both return a band for the same pricing, the bounds are the same texts.
\<close>

theorem band_implementations_agree:
  assumes "negotiablePriceBand (Negotiable c lo hi) = Inr (l, u)" and "deriveRfqPriceBand (Negotiable c lo hi) = Inr band"
  shows "pt_amount (pb_minimum band) = l \<and> pt_amount (pb_maximum band) = u"
proof -
  obtain a b where ab: "canonicalNumberDecimal lo = Inr a" "canonicalNumberDecimal hi = Inr b"
    "canonicalizeDecimal (pt_amount c) = Inr (pt_amount c)"
    "band_bound (pt_amount c) a True = Inr l" "band_bound (pt_amount c) b False = Inr u"
    using negotiablePriceBand_bounds [OF assms(1)] by metis
  obtain l' u' where r: "roundedBandAmount (pt_amount c) lo True = Inr l'" "roundedBandAmount (pt_amount c) hi False = Inr u'"
    and band: "band = \<lparr>pb_minimum = band_term c l', pb_maximum = band_term c u'\<rparr>"
    using assms(2) unfolding deriveRfqPriceBand_def pricing.case ensure_Inr bindR_Inr sum.inject by blast
  have "band_bound (pt_amount c) a True = Inr l'"
    using roundedBandAmount_bound [OF r(1) ab(3) number_texts_agree [OF ab(1)] canonicalNumberDecimal_canonical [OF ab(1)]] .
  moreover have "band_bound (pt_amount c) b False = Inr u'"
    using roundedBandAmount_bound [OF r(2) ab(3) number_texts_agree [OF ab(2)] canonicalNumberDecimal_canonical [OF ab(2)]] .
  ultimately show ?thesis using ab(4,5) band by (simp add: band_term_def)
qed

theorem band_implementations_agree_witness:
  "pt_amount (pb_minimum \<lparr>pb_minimum = band_term sample_centre ''4'', pb_maximum = band_term sample_centre ''6''\<rparr>) = ''4''"
proof -
  have "negotiablePriceBand (Negotiable sample_centre (JInt 20) (JInt 20)) = Inr (''4'', ''6'')"
    "deriveRfqPriceBand (Negotiable sample_centre (JInt 20) (JInt 20)) =
       Inr \<lparr>pb_minimum = band_term sample_centre ''4'', pb_maximum = band_term sample_centre ''6''\<rparr>"
    by code_simp+
  from band_implementations_agree [OF this] show ?thesis by blast
qed

text \<open>
  The two comparisons of amounts agree, on canonical amounts, with each other and with
  the order of the numbers the texts denote.
\<close>

theorem comparisons_agree:
  assumes "canonical_dec a" "canonical_dec b"
  shows "compareCanonicalDecimal a b = (if dec_value a = dec_value b then 0 else if dec_value a < dec_value b then -1 else 1) \<and>
    compareDecimal a b = Inr (compareCanonicalDecimal a b)"
  using compareCanonicalDecimal_cmp [OF assms]
    compareDecimal_cmp [OF canonical_dec_fixpoint [OF assms(1)] canonical_dec_fixpoint [OF assms(2)]]
  by (simp add: cmp_def)

theorem comparisons_agree_witness: "compareDecimal ''9.25'' ''10.1'' = Inr (-1)"
proof -
  have "canonical_dec ''9.25''" "canonical_dec ''10.1''" "compareCanonicalDecimal ''9.25'' ''10.1'' = -1" by code_simp+
  with comparisons_agree [of "''9.25''" "''10.1''"] show ?thesis by simp
qed

lemma multiply_value:
  assumes "canonical_dec a"
  shows "\<exists>c. multiplyCanonicalDecimal a q = Inr c \<and> canonical_dec c \<and> dec_value c = dec_value a * of_nat (digits_val q)"
proof -
  let ?n = "scaled_units a * digits_val q" and ?f = "fraction_part a"
  have av: "dec_value a * of_nat (digits_val q) = of_nat ?n / 10 ^ length ?f"
    by (simp add: dec_value_def scaled_units_def)
  show ?thesis
  proof (cases "?f = []")
    case True
    have "whole_part a = a" using assms True by (simp add: canonical_dec_def)
    then show ?thesis using True
      by (simp add: multiplyCanonicalDecimal_def Let_def canonical_dec_integer dec_value_integer nat_text_digits
          dec_value_def [of a])
  next
    case False
    then show ?thesis unfolding av
      using point_value [OF padStart_digits [OF nat_text_digits], of "length ?f" "length ?f + 1" ?n]
      by (simp add: multiplyCanonicalDecimal_def Let_def scaled_units_def padStart_length)
  qed
qed

text \<open>
  A metered total is exact: it is the unit price times the quantity, or the minimum total
  when that is larger, in the currency of the unit price, with no rounding.
\<close>

theorem metered_total_exact:
  assumes "deriveMeteredPriceTerm (Metered up u mt) q = Inr trm"
  shows "canonical_dec (pt_amount trm) \<and> pt_currency trm = pt_currency up \<and> mq_unit q = u \<and>
    dec_value (pt_amount trm) =
      (case mt of
         None \<Rightarrow> dec_value (pt_amount up) * of_nat (digits_val (mq_quantity q))
       | Some m \<Rightarrow> max (dec_value (pt_amount m)) (dec_value (pt_amount up) * of_nat (digits_val (mq_quantity q))))"
proof -
  let ?pa = "pt_amount up" and ?v = "dec_value (pt_amount up) * of_nat (digits_val (mq_quantity q))"
  have up: "canonicalizeDecimal ?pa = Inr ?pa" and u: "mq_unit q = u"
    using assms by (auto simp: deriveMeteredPriceTerm_def requirePositiveCanonicalAmount_def res_simps)
  then have "canonical_dec ?pa" by (simp add: canonicalizeDecimal_fixpoint)
  then obtain c where c: "multiplyCanonicalDecimal ?pa (mq_quantity q) = Inr c" "canonical_dec c" "dec_value c = ?v"
    using multiply_value by blast
  show ?thesis
  proof (cases mt)
    case None
    then have "pt_amount trm = c" "pt_currency trm = pt_currency up"
      using assms c(1) by (auto simp: deriveMeteredPriceTerm_def requirePositiveCanonicalAmount_def res_simps Let_def)
    then show ?thesis using c None u by simp
  next
    case (Some m)
    have m: "canonicalizeDecimal (pt_amount m) = Inr (pt_amount m)" and cur: "pt_currency trm = pt_currency up"
      and amt: "pt_amount trm = (if compareCanonicalDecimal (pt_amount m) c > 0 then pt_amount m else c)"
      using assms c(1) Some by (auto simp: deriveMeteredPriceTerm_def requirePositiveCanonicalAmount_def res_simps Let_def)
    have mc: "canonical_dec (pt_amount m)" using m by (simp add: canonicalizeDecimal_fixpoint)
    show ?thesis using amt cur u mc c(2,3) Some compareCanonicalDecimal_cmp [OF mc c(2)]
      by (auto simp: cmp_def max_def split: if_splits)
  qed
qed

theorem metered_total_exact_witness:
  "dec_value ''7.5'' = max (dec_value ''4'') (dec_value ''2.5'' * of_nat 3)"
proof -
  have "deriveMeteredPriceTerm
      (Metered (sample_centre\<lparr>pt_amount := ''2.5''\<rparr>) ''call'' (Some (sample_centre\<lparr>pt_amount := ''4''\<rparr>)))
      \<lparr>mq_quantity = ''3'', mq_unit = ''call''\<rparr> = Inr (sample_centre\<lparr>pt_amount := ''7.5''\<rparr>)" by code_simp
  moreover have "digits_val ''3'' = 3" by code_simp
  ultimately show ?thesis using metered_total_exact by fastforce
qed

text \<open>
  A raw measurement is rounded up to whole units: the metered quantity is the smallest
  whole number that is at least the measurement.
\<close>

theorem ceilMeteredQuantity_ceiling:
  assumes "ceilMeteredQuantity raw = Inr t"
  shows "is_canonical_nat t \<and> int (digits_val t) = \<lceil>dec_value raw\<rceil>"
proof -
  obtain c where c: "canonicalizeDecimal raw = Inr c"
    and t: "t = (if fraction_part c = [] then whole_part c else nat_text (digits_val (whole_part c) + 1))"
    using assms by (auto simp: ceilMeteredQuantity_def res_simps)
  have can: "canonical_dec c" using c by (rule canonicalizeDecimal_canonical)
  have v: "dec_value raw = of_nat (digits_val (whole_part c)) + of_nat (digits_val (fraction_part c)) / 10 ^ length (fraction_part c)"
    unfolding canonicalizeDecimal_value [OF c, symmetric] by (simp add: dec_value_def digits_val_append add_divide_distrib)
  show ?thesis
  proof (cases "fraction_part c = []")
    case True
    then have "is_canonical_nat t" "t = whole_part c" using t can by (auto simp: canonical_dec_def)
    then show ?thesis using True v by simp
  next
    case False
    let ?f = "fraction_part c"
    have "0 < digits_val ?f"
    proof (rule ccontr)
      assume "\<not> 0 < digits_val ?f"
      then have "digits_val (whole_part c @ ?f) mod 10 = digits_val (whole_part c) * 10 ^ length ?f mod 10"
        by (simp add: digits_val_append)
      moreover have "(10::nat) dvd 10 ^ length ?f" using False by (cases ?f) auto
      ultimately show False using canonical_dec_last_digit [OF can False] by (simp add: dvd_mult)
    qed
    moreover have "digits_val ?f < 10 ^ length ?f" using canonical_digits [OF can] by (simp add: digits_val_less)
    then have "(of_nat (digits_val ?f) :: rat) < 10 ^ length ?f" by (metis of_nat_less_iff of_nat_numeral of_nat_power)
    ultimately have "0 < (of_nat (digits_val ?f) / 10 ^ length ?f :: rat)" "(of_nat (digits_val ?f) / 10 ^ length ?f :: rat) < 1"
      by (simp_all add: field_simps)
    then have "\<lceil>dec_value raw\<rceil> = int (digits_val (whole_part c)) + 1" unfolding v by (intro ceiling_unique) simp_all
    then show ?thesis using t False by simp
  qed
qed

theorem ceilMeteredQuantity_ceiling_witness: "int (digits_val ''3'') = \<lceil>dec_value ''2.25''\<rceil>"
proof -
  have "ceilMeteredQuantity ''2.25'' = Inr ''3''" by code_simp
  from ceilMeteredQuantity_ceiling [OF this] show ?thesis by blast
qed

end
