(* ===== verification/Dacs_Claims.thy ===== *)
theory Dacs_Claims
  imports Dacs_Prelude
begin

text \<open>
  Claim references (\<^verbatim>\<open>src/src/identity/claimReference.ts\<close>): the recogniser of the one canonical
  byte form of a reference, and the comparison of identities. Whether a text is a canonical
  domain hostname (\<^verbatim>\<open>identity/domainHost.ts\<close>, which rests on the Unicode tables of the platform) is
  the parameter \<open>hostname\<close>.
\<close>

section \<open>Splitting texts\<close>

text \<open>The text before the first occurrence of a character (\<^verbatim>\<open>indexOf\<close>), and the text behind it if the
  character occurs.\<close>

fun break_at :: "char \<Rightarrow> string \<Rightarrow> string \<times> string option" where
  "break_at c [] = ([], None)"
| "break_at c (x # xs) =
     (if x = c then ([], Some xs) else (case break_at c xs of (pre, post) \<Rightarrow> (x # pre, post)))"

text \<open>\<^verbatim>\<open>text.split(c)\<close>.\<close>

fun splitOn :: "char \<Rightarrow> string \<Rightarrow> string list" where
  "splitOn c [] = [[]]"
| "splitOn c (x # xs) =
     (if x = c then [] # splitOn c xs
      else (case splitOn c xs of [] \<Rightarrow> [[x]] | p # ps \<Rightarrow> (x # p) # ps))"

section \<open>Recognising a reference\<close>

record claim_identity =
  ci_scheme :: string
  ci_identifier :: string

datatype scheme_status = Registered | Unknown

record claim_parts =
  cp_reference :: string
  cp_identity :: claim_identity
  cp_schemeStatus :: scheme_status

fun compareCodePoints :: "string \<Rightarrow> string \<Rightarrow> int" where
  "compareCodePoints (x # xs) (y # ys) =
     (if x \<noteq> y then int (code x) - int (code y) else compareCodePoints xs ys)"
| "compareCodePoints xs ys = int (length xs) - int (length ys)"

definition RESERVED_PARAMETER_CHARACTERS :: "char list" where
  "RESERVED_PARAMETER_CHARACTERS = '':?&=%''"

definition UINT256_MAX :: nat where
  "UINT256_MAX = 2 ^ 256 - 1"

definition is_base58 :: "char \<Rightarrow> bool" where
  "is_base58 c \<longleftrightarrow> (is_digit c \<or> is_upper c \<or> is_lower c) \<and> c \<notin> set ''0OIl''"

definition CCI_WEB2_PLATFORMS :: "string list" where
  "CCI_WEB2_PLATFORMS = [''twitter'', ''github'', ''discord'', ''telegram'']"

definition CCI_PQC_ALGORITHMS :: "string list" where
  "CCI_PQC_ALGORITHMS = [''falcon'', ''ml-dsa'']"

definition REGISTERED_CLAIM_REFERENCE_SCHEMES :: "string list" where
  "REGISTERED_CLAIM_REFERENCE_SCHEMES =
     [''cci-xm'', ''cci-web2'', ''cci-pqc'', ''cci-ud'', ''cci-nomis'', ''cci-humanpassport'',
      ''cci-ethos'', ''cci-tlsn'', ''lei'', ''finra-crd'', ''sam-uei'', ''fedramp'', ''naics'', ''cmmc'',
      ''stor-cred'', ''did'', ''erc8004'', ''domain'', ''key'', ''substrate-validator-set'']"

text \<open>\<^verbatim>\<open>/^[a-z][a-z0-9-]*$/\<close>.\<close>

definition is_scheme :: "string \<Rightarrow> bool" where
  "is_scheme s =
     (case s of [] \<Rightarrow> False
      | c # cs \<Rightarrow> is_lower c \<and> list_all (\<lambda>d. is_lower d \<or> is_digit d \<or> d = CHR ''-'') cs)"

definition isRegisteredClaimReferenceScheme :: "string \<Rightarrow> bool" where
  "isRegisteredClaimReferenceScheme s \<longleftrightarrow> is_scheme s \<and> s \<in> set REGISTERED_CLAIM_REFERENCE_SCHEMES"

fun hasNonEmptyComponents :: "string \<Rightarrow> nat \<Rightarrow> bool" where
  "hasNonEmptyComponents s (Suc (Suc n)) =
     (case break_at (CHR '':'') s of
        (pre, None) \<Rightarrow> False
      | (pre, Some post) \<Rightarrow> pre \<noteq> [] \<and> hasNonEmptyComponents post (Suc n))"
| "hasNonEmptyComponents s _ \<longleftrightarrow> s \<noteq> []"

definition agent_prefix :: string where
  "agent_prefix = ''demos:agent:''"

definition did_identifier :: "string \<Rightarrow> bool" where
  "did_identifier s =
     (case break_at (CHR '':'') s of
        (method, None) \<Rightarrow> False
      | (method, Some rest) \<Rightarrow>
          method \<noteq> [] \<and> list_all (\<lambda>c. is_lower c \<or> is_digit c) method \<and>
          (if take (length agent_prefix) s = agent_prefix then is_hash (drop (length agent_prefix) s)
           else rest \<noteq> []))"

definition erc8004_identifier :: "string \<Rightarrow> bool" where
  "erc8004_identifier s =
     (case splitOn (CHR '':'') s of
        [chain, address, token] \<Rightarrow>
          is_canonical_nat chain \<and> chain \<noteq> ''0'' \<and>
          take 2 address = ''0x'' \<and> length address = 42 \<and> list_all is_hex_lower (drop 2 address) \<and>
          is_canonical_nat token \<and> digits_val token \<le> UINT256_MAX
      | _ \<Rightarrow> False)"

definition cci_xm_identifier :: "string \<Rightarrow> bool" where
  "cci_xm_identifier s \<longleftrightarrow>
     hasNonEmptyComponents s 3 \<and>
     (fst (break_at (CHR '':'') s) = ''solana'' \<longrightarrow>
       (case splitOn (CHR '':'') s of
          [family, network, address] \<Rightarrow> network \<noteq> [] \<and> address \<noteq> [] \<and> list_all is_base58 address
        | _ \<Rightarrow> False))"

definition listed_identifier :: "string list \<Rightarrow> string \<Rightarrow> bool" where
  "listed_identifier allowed s =
     (case break_at (CHR '':'') s of
        (pre, None) \<Rightarrow> False
      | (pre, Some post) \<Rightarrow> pre \<noteq> [] \<and> pre \<in> set allowed \<and> post \<noteq> [])"

definition validator_set_identifier :: "string \<Rightarrow> bool" where
  "validator_set_identifier s =
     (case splitOn (CHR '':'') s of
        [network, epoch] \<Rightarrow> network \<in> {''demos-mainnet'', ''demos-testnet''} \<and> is_canonical_nat epoch
      | _ \<Rightarrow> False)"

definition fixed_identifier :: "(char \<Rightarrow> bool) \<Rightarrow> nat \<Rightarrow> string \<Rightarrow> bool" where
  "fixed_identifier P n s \<longleftrightarrow> length s = n \<and> list_all P s"

definition canonicalRegisteredIdentifier :: "(string \<Rightarrow> bool) \<Rightarrow> string \<Rightarrow> string \<Rightarrow> bool \<Rightarrow> bool" where
  "canonicalRegisteredIdentifier hostname scheme identifier hasParameters =
     (if scheme = ''did'' then did_identifier identifier
      else if scheme = ''domain'' then \<not> hasParameters \<and> hostname identifier
      else if scheme = ''key'' then identifier \<noteq> [] \<and> list_all is_hex_lower identifier
      else if scheme = ''erc8004'' then erc8004_identifier identifier
      else if scheme = ''cci-xm'' then cci_xm_identifier identifier
      else if scheme = ''cci-web2'' then listed_identifier CCI_WEB2_PLATFORMS identifier
      else if scheme = ''cci-pqc'' then listed_identifier CCI_PQC_ALGORITHMS identifier
      else if scheme = ''stor-cred'' then hasNonEmptyComponents identifier 2
      else if scheme = ''substrate-validator-set'' then validator_set_identifier identifier
      else if scheme = ''lei'' then fixed_identifier (\<lambda>c. is_digit c \<or> is_upper c) 20 identifier
      else if scheme = ''finra-crd'' then is_canonical_nat identifier
      else if scheme = ''sam-uei'' then fixed_identifier (\<lambda>c. is_digit c \<or> is_upper c) 12 identifier
      else if scheme = ''naics'' then fixed_identifier is_digit 6 identifier
      else True)"

definition is_hex_upper :: "char \<Rightarrow> bool" where
  "is_hex_upper c \<longleftrightarrow> is_digit c \<or> (65 \<le> code c \<and> code c \<le> 70)"

definition hex_upper_val :: "char \<Rightarrow> nat" where
  "hex_upper_val c = (if is_digit c then code c - 48 else code c - 55)"

fun decodeCanonicalParameterSegment :: "string \<Rightarrow> string option" where
  "decodeCanonicalParameterSegment [] = Some []"
| "decodeCanonicalParameterSegment (c # cs) =
     (if c = CHR ''%''
      then (case cs of
              a # b # rest \<Rightarrow>
                (let replacement = char_of (16 * hex_upper_val a + hex_upper_val b) in
                 if is_hex_upper a \<and> is_hex_upper b \<and> replacement \<in> set RESERVED_PARAMETER_CHARACTERS
                 then map_option (Cons replacement) (decodeCanonicalParameterSegment rest)
                 else None)
            | _ \<Rightarrow> None)
      else if c \<in> set RESERVED_PARAMETER_CHARACTERS then None
      else map_option (Cons c) (decodeCanonicalParameterSegment cs))"

text \<open>One turn of the loop over \<^verbatim>\<open>query.split("&")\<close>: the decoded key.\<close>

definition parameterKey :: "string \<Rightarrow> string option" where
  "parameterKey parameter =
     (case break_at (CHR ''='') parameter of
        (key, None) \<Rightarrow> None
      | (key, Some entry) \<Rightarrow>
          if key = [] \<or> CHR ''='' \<in> set entry then None
          else (case decodeCanonicalParameterSegment key of
                  None \<Rightarrow> None
                | Some decodedKey \<Rightarrow>
                    if decodeCanonicalParameterSegment entry = None then None else Some decodedKey))"

fun parameterKeys :: "string list \<Rightarrow> string list \<Rightarrow> string list option" where
  "parameterKeys keys [] = Some keys"
| "parameterKeys keys (p # ps) =
     (case parameterKey p of
        None \<Rightarrow> None
      | Some key \<Rightarrow> if key \<in> set keys then None else parameterKeys (keys @ [key]) ps)"

fun ascendingKeys :: "string list \<Rightarrow> bool" where
  "ascendingKeys (k # l # ks) \<longleftrightarrow> compareCodePoints k l < 0 \<and> ascendingKeys (l # ks)"
| "ascendingKeys _ \<longleftrightarrow> True"

definition canonicalQuery :: "string \<Rightarrow> bool" where
  "canonicalQuery query \<longleftrightarrow>
     query \<noteq> [] \<and>
     (case parameterKeys [] (splitOn (CHR ''&'') query) of
        None \<Rightarrow> False
      | Some keys \<Rightarrow> ascendingKeys keys)"

definition parseCanonicalClaimReference :: "(string \<Rightarrow> bool) \<Rightarrow> string \<Rightarrow> claim_parts option" where
  "parseCanonicalClaimReference hostname value =
     (if value = [] \<or> list_ex (\<lambda>c. is_space c \<or> is_control c) value then None
      else (case break_at (CHR '':'') value of
              (scheme, None) \<Rightarrow> None
            | (scheme, Some remainder) \<Rightarrow>
                if \<not> is_scheme scheme then None
                else (case break_at (CHR ''?'') remainder of
                        (identifier, query) \<Rightarrow>
                          if identifier = [] \<or> \<not> canonicalRegisteredIdentifier hostname scheme identifier (query \<noteq> None)
                          then None
                          else if (case query of None \<Rightarrow> False | Some q \<Rightarrow> \<not> canonicalQuery q) then None
                          else Some \<lparr>cp_reference = value,
                                     cp_identity = \<lparr>ci_scheme = scheme, ci_identifier = identifier\<rparr>,
                                     cp_schemeStatus =
                                       (if scheme \<in> set REGISTERED_CLAIM_REFERENCE_SCHEMES then Registered else Unknown)\<rparr>)))"

definition isCanonicalClaimReference :: "(string \<Rightarrow> bool) \<Rightarrow> string \<Rightarrow> bool" where
  "isCanonicalClaimReference hostname value \<longleftrightarrow> parseCanonicalClaimReference hostname value \<noteq> None"

definition requireCanonicalClaimReference :: "(string \<Rightarrow> bool) \<Rightarrow> string \<Rightarrow> claim_parts res" where
  "requireCanonicalClaimReference hostname value =
     (case parseCanonicalClaimReference hostname value of
        None \<Rightarrow> throw ''must use canonical CORE B.1 CF-2 bytes''
      | Some parsed \<Rightarrow> Inr parsed)"

definition sameCanonicalClaimIdentity :: "(string \<Rightarrow> bool) \<Rightarrow> string \<Rightarrow> string \<Rightarrow> bool" where
  "sameCanonicalClaimIdentity hostname left right =
     (case (parseCanonicalClaimReference hostname left, parseCanonicalClaimReference hostname right) of
        (Some a, Some b) \<Rightarrow>
          ci_scheme (cp_identity a) = ci_scheme (cp_identity b) \<and>
          ci_identifier (cp_identity a) = ci_identifier (cp_identity b)
      | _ \<Rightarrow> False)"

section \<open>Splitting is exact\<close>

lemma break_at_plain [simp]: "c \<notin> set s \<Longrightarrow> break_at c s = (s, None)"
  by (induction s) auto

lemma break_at_append [simp]: "c \<notin> set pre \<Longrightarrow> break_at c (pre @ c # post) = (pre, Some post)"
  by (induction pre) auto

lemma break_at_None: "break_at c s = (pre, None) \<longleftrightarrow> pre = s \<and> c \<notin> set s"
  using split_list_first [of c s] by (cases "c \<in> set s") auto

lemma break_at_Some: "break_at c s = (pre, Some post) \<longleftrightarrow> s = pre @ c # post \<and> c \<notin> set pre"
  using split_list_first [of c s] by (cases "c \<in> set s") auto

lemmas break_at_simps = break_at_None break_at_Some

lemma splitOn_nonempty [simp]: "splitOn c s \<noteq> []"
  by (induction s) (auto split: list.splits)

text \<open>The parts are free of the separator, and joining them gives the text back.\<close>

fun join_on :: "char \<Rightarrow> string list \<Rightarrow> string" where
  "join_on c [] = []"
| "join_on c [p] = p"
| "join_on c (p # q # ps) = p @ c # join_on c (q # ps)"

lemma join_on_Cons: "ps \<noteq> [] \<Longrightarrow> join_on c (p # ps) = p @ c # join_on c ps"
  by (cases ps) auto

lemma join_on_hd: "join_on c ((x # p) # ps) = x # join_on c (p # ps)"
  by (cases ps) auto

lemma join_splitOn [simp]: "join_on c (splitOn c s) = s"
  by (induction s) (auto simp: join_on_Cons join_on_hd split: list.splits)

section \<open>Percent-encoded parameters have one spelling\<close>

definition hex_upper_char :: "nat \<Rightarrow> char" where
  "hex_upper_char d = (if d < 10 then char_of (48 + d) else char_of (55 + d))"

definition encode_parameter :: "char \<Rightarrow> string" where
  "encode_parameter c =
     (if c \<in> set RESERVED_PARAMETER_CHARACTERS
      then [CHR ''%'', hex_upper_char (code c div 16), hex_upper_char (code c mod 16)] else [c])"

lemma hex_upper_char_val: "is_hex_upper c \<Longrightarrow> hex_upper_char (hex_upper_val c) = c"
  by (auto simp: is_hex_upper_def hex_upper_char_def hex_upper_val_def is_digit_def)

lemma hex_upper_val_less: "is_hex_upper c \<Longrightarrow> hex_upper_val c < 16"
  by (auto simp: is_hex_upper_def hex_upper_val_def is_digit_def)

lemma decoded_segment_encodes:
  "decodeCanonicalParameterSegment s = Some d \<Longrightarrow> concat (map encode_parameter d) = s"
proof (induction s arbitrary: d rule: decodeCanonicalParameterSegment.induct)
  case 1
  then show ?case by simp
next
  case (2 c cs)
  show ?case
  proof (cases "c = CHR ''%''")
    case False
    with 2(3) obtain d' where "c \<notin> set RESERVED_PARAMETER_CHARACTERS" "d = c # d'"
      "decodeCanonicalParameterSegment cs = Some d'" by (auto split: if_splits)
    with 2(2) False show ?thesis by (simp add: encode_parameter_def)
  next
    case True
    with 2(3) obtain a b rest where cs: "cs = a # b # rest" by (auto split: list.splits)
    define r :: char where "r = char_of (16 * hex_upper_val a + hex_upper_val b)"
    from 2(3) True obtain d' where
      h: "is_hex_upper a" "is_hex_upper b" "r \<in> set RESERVED_PARAMETER_CHARACTERS" "d = r # d'"
      "decodeCanonicalParameterSegment rest = Some d'"
      by (auto simp: cs Let_def r_def split: if_splits)
    have "16 * hex_upper_val a + hex_upper_val b < 256"
      using hex_upper_val_less [OF h(1)] hex_upper_val_less [OF h(2)] by linarith
    then have "code r = 16 * hex_upper_val a + hex_upper_val b" by (simp add: r_def)
    then have "code r div 16 = hex_upper_val a" "code r mod 16 = hex_upper_val b"
      using hex_upper_val_less [OF h(2)] by simp_all
    moreover have "concat (map encode_parameter d') = rest"
      by (rule 2(1) [OF True cs refl r_def]) (use h in auto)
    moreover have "encode_parameter r = [CHR ''%'', a, b]"
      using h calculation by (simp add: encode_parameter_def hex_upper_char_val)
    ultimately show ?thesis using h True by (simp add: cs)
  qed
qed

lemma decode_parameter_inject:
  assumes "decodeCanonicalParameterSegment s = Some d" "decodeCanonicalParameterSegment t = Some d"
  shows "s = t"
  using assms decoded_segment_encodes by metis

section \<open>A canonical reference is the only spelling of what it says\<close>

text \<open>What the parameters of a reference say: the decoded key and value of each.\<close>

definition parameter_meaning :: "string \<Rightarrow> string option \<times> string option" where
  "parameter_meaning p =
     (case break_at (CHR ''='') p of
        (key, Some entry) \<Rightarrow> (decodeCanonicalParameterSegment key, decodeCanonicalParameterSegment entry)
      | (key, None) \<Rightarrow> (None, None))"

definition claim_parameters :: "string \<Rightarrow> (string option \<times> string option) list" where
  "claim_parameters value =
     (case break_at (CHR '':'') value of
        (scheme, None) \<Rightarrow> []
      | (scheme, Some remainder) \<Rightarrow>
          (case snd (break_at (CHR ''?'') remainder) of
             None \<Rightarrow> []
           | Some query \<Rightarrow> map parameter_meaning (splitOn (CHR ''&'') query)))"

lemma parameterKey_Some:
  "parameterKey p = Some k \<longleftrightarrow>
     (\<exists>key entry v. break_at (CHR ''='') p = (key, Some entry) \<and> key \<noteq> [] \<and> CHR ''='' \<notin> set entry \<and>
       decodeCanonicalParameterSegment key = Some k \<and> decodeCanonicalParameterSegment entry = Some v)"
  unfolding parameterKey_def
  by (cases "break_at (CHR ''='') p"; cases "snd (break_at (CHR ''='') p)") (auto split: option.splits)

lemma parameter_meaning_key: "parameterKey p = Some k \<Longrightarrow> fst (parameter_meaning p) = Some k"
  by (auto simp: parameterKey_Some parameter_meaning_def)

lemma parameter_meaning_inject:
  assumes "parameterKey p = Some k" "parameterKey q = Some l" "parameter_meaning p = parameter_meaning q"
  shows "p = q"
proof -
  from assms(1) obtain key entry v where p: "break_at (CHR ''='') p = (key, Some entry)"
    "decodeCanonicalParameterSegment key = Some k" "decodeCanonicalParameterSegment entry = Some v"
    by (auto simp: parameterKey_Some)
  from assms(2) obtain key' entry' v' where q: "break_at (CHR ''='') q = (key', Some entry')"
    "decodeCanonicalParameterSegment key' = Some l" "decodeCanonicalParameterSegment entry' = Some v'"
    by (auto simp: parameterKey_Some)
  from p q assms(3) have "k = l" "v = v'" by (simp_all add: parameter_meaning_def)
  with p q have "key = key'" "entry = entry'" by (metis decode_parameter_inject)+
  with p(1) q(1) show ?thesis by (simp add: break_at_Some)
qed

lemma parameterKeys_Some:
  assumes "parameterKeys acc ps = Some keys"
  shows "\<exists>ks. keys = acc @ ks \<and> list_all2 (\<lambda>p k. parameterKey p = Some k) ps ks"
  using assms
proof (induction ps arbitrary: acc)
  case (Cons p ps)
  from Cons.prems obtain k where k: "parameterKey p = Some k" "parameterKeys (acc @ [k]) ps = Some keys"
    by (auto split: option.splits if_splits)
  from Cons.IH [OF k(2)] k(1) show ?case by fastforce
qed simp

lemma Nil_less_string: "[] < (ys :: string) \<longleftrightarrow> ys \<noteq> []"
  by (cases ys) simp_all

lemma compareCodePoints_less: "compareCodePoints xs ys < 0 \<longleftrightarrow> xs < ys"
  by (induction xs ys rule: compareCodePoints.induct) (auto simp: less_char_def Nil_less_string)

lemma ascendingKeys_sorted: "ascendingKeys ks \<longleftrightarrow> sorted_wrt (<) ks"
proof -
  have "ascendingKeys ks \<longleftrightarrow> successively (<) ks"
    by (induction ks rule: ascendingKeys.induct) (simp_all add: compareCodePoints_less)
  also have "\<dots> \<longleftrightarrow> sorted_wrt (<) ks"
    by (rule successively_conv_sorted_wrt) (simp add: transp_def)
  finally show ?thesis .
qed

text \<open>A list in strictly ascending order is determined by its elements.\<close>

lemma ascending_list_unique:
  fixes key :: "'a \<Rightarrow> 'k :: linorder"
  assumes "sorted_wrt (\<lambda>x y. key x < key y) xs" "sorted_wrt (\<lambda>x y. key x < key y) ys" "set xs = set ys"
  shows "xs = ys"
  using assms
proof (induction xs arbitrary: ys)
  case Nil
  then show ?case by simp
next
  case (Cons x xs)
  then obtain y ys' where ys: "ys = y # ys'" by (cases ys) auto
  have "x = y"
  proof (rule ccontr)
    assume "x \<noteq> y"
    with Cons.prems(3) ys have "x \<in> set ys'" "y \<in> set xs" by auto
    with Cons.prems(1,2) ys have "key y < key x" "key x < key y" by auto
    then show False by simp
  qed
  moreover have "x \<notin> set xs" "y \<notin> set ys'" using Cons.prems(1,2) ys by auto
  ultimately have "set xs = set ys'" using Cons.prems(3) ys by auto
  with Cons.IH [of ys'] Cons.prems(1,2) ys \<open>x = y\<close> show ?case by simp
qed

lemma canonicalQuery_keys:
  assumes "canonicalQuery q"
  obtains ks where "list_all2 (\<lambda>p k. parameterKey p = Some k) (splitOn (CHR ''&'') q) ks" "sorted_wrt (<) ks"
  using assms parameterKeys_Some [of "[]" "splitOn (CHR ''&'') q"]
  unfolding canonicalQuery_def by (auto simp: ascendingKeys_sorted split: option.splits)

lemma canonicalQuery_valid:
  assumes "canonicalQuery q" "p \<in> set (splitOn (CHR ''&'') q)"
  shows "\<exists>k. parameterKey p = Some k"
proof -
  obtain ks where "list_all2 (\<lambda>p k. parameterKey p = Some k) (splitOn (CHR ''&'') q) ks"
    using canonicalQuery_keys [OF assms(1)] by blast
  then show ?thesis using assms(2) by (induction rule: list_all2_induct) auto
qed

lemma canonicalQuery_ascending:
  assumes "canonicalQuery q"
  shows "sorted_wrt (\<lambda>m n. the (fst m) < the (fst n)) (map parameter_meaning (splitOn (CHR ''&'') q))"
proof -
  obtain ks where ks: "list_all2 (\<lambda>p k. parameterKey p = Some k) (splitOn (CHR ''&'') q) ks" "sorted_wrt (<) ks"
    using canonicalQuery_keys [OF assms] .
  from ks(1) have "map (the \<circ> fst) (map parameter_meaning (splitOn (CHR ''&'') q)) = ks"
    by (induction rule: list_all2_induct) (simp_all add: parameter_meaning_key)
  with ks(2) have "sorted_wrt (<) (map (the \<circ> fst) (map parameter_meaning (splitOn (CHR ''&'') q)))" by metis
  then show ?thesis unfolding sorted_wrt_map comp_def .
qed

lemma canonicalQuery_unique:
  assumes "canonicalQuery q" "canonicalQuery r"
    and "set (map parameter_meaning (splitOn (CHR ''&'') q)) = set (map parameter_meaning (splitOn (CHR ''&'') r))"
  shows "q = r"
proof -
  let ?qs = "splitOn (CHR ''&'') q" and ?rs = "splitOn (CHR ''&'') r"
  have eq: "map parameter_meaning ?qs = map parameter_meaning ?rs"
    by (rule ascending_list_unique [OF canonicalQuery_ascending [OF assms(1)] canonicalQuery_ascending [OF assms(2)] assms(3)])
  have valid: "\<exists>k. parameterKey p = Some k" if "p \<in> set ?qs \<union> set ?rs" for p
    using that canonicalQuery_valid [OF assms(1)] canonicalQuery_valid [OF assms(2)] by blast
  have "inj_on parameter_meaning (set ?qs \<union> set ?rs)"
    using valid parameter_meaning_inject by (meson inj_onI)
  with eq have "?qs = ?rs" by (rule map_inj_on)
  then have "join_on (CHR ''&'') ?qs = join_on (CHR ''&'') ?rs" by simp
  then show ?thesis by simp
qed

lemma parse_Some:
  "parseCanonicalClaimReference hostname value = Some parts \<longleftrightarrow>
     (\<exists>scheme remainder identifier query.
        break_at (CHR '':'') value = (scheme, Some remainder) \<and>
        break_at (CHR ''?'') remainder = (identifier, query) \<and>
        \<not> list_ex (\<lambda>c. is_space c \<or> is_control c) value \<and> is_scheme scheme \<and> identifier \<noteq> [] \<and>
        canonicalRegisteredIdentifier hostname scheme identifier (query \<noteq> None) \<and>
        (\<forall>q. query = Some q \<longrightarrow> canonicalQuery q) \<and>
        parts = \<lparr>cp_reference = value, cp_identity = \<lparr>ci_scheme = scheme, ci_identifier = identifier\<rparr>,
                 cp_schemeStatus = (if scheme \<in> set REGISTERED_CLAIM_REFERENCE_SCHEMES then Registered else Unknown)\<rparr>)"
  unfolding parseCanonicalClaimReference_def
  by (cases "value = []"; cases "break_at (CHR '':'') value"; cases "snd (break_at (CHR '':'') value)")
    (auto split: prod.splits option.splits if_splits)

text \<open>
  A canonical reference is the only spelling of what it says: two texts the parser accepts with the
  same scheme and identifier and the same decoded parameters, in whatever order, are the same
  text. Hashes and signatures over references therefore never disagree about one claim.
\<close>

theorem canonical_reference_unique:
  assumes "parseCanonicalClaimReference hostname v = Some a"
    and "parseCanonicalClaimReference hostname w = Some b"
    and "cp_identity a = cp_identity b"
    and "set (claim_parameters v) = set (claim_parameters w)"
  shows "v = w"
proof -
  from assms(1) obtain s r i q where v: "break_at (CHR '':'') v = (s, Some r)" "break_at (CHR ''?'') r = (i, q)"
    "\<forall>q'. q = Some q' \<longrightarrow> canonicalQuery q'" "cp_identity a = \<lparr>ci_scheme = s, ci_identifier = i\<rparr>"
    by (auto simp: parse_Some)
  from assms(2) obtain s' r' i' q' where w: "break_at (CHR '':'') w = (s', Some r')" "break_at (CHR ''?'') r' = (i', q')"
    "\<forall>q''. q' = Some q'' \<longrightarrow> canonicalQuery q''" "cp_identity b = \<lparr>ci_scheme = s', ci_identifier = i'\<rparr>"
    by (auto simp: parse_Some)
  have same: "s = s'" "i = i'" using v(4) w(4) assms(3) by simp_all
  have "q = q'"
  proof (cases q)
    case None
    then have "claim_parameters v = []" using v(1,2) by (simp add: claim_parameters_def)
    then have "claim_parameters w = []" using assms(4) by simp
    then show ?thesis using w(1,2) None by (cases q') (simp_all add: claim_parameters_def)
  next
    case (Some x)
    then have cv: "claim_parameters v = map parameter_meaning (splitOn (CHR ''&'') x)"
      using v(1,2) by (simp add: claim_parameters_def)
    then obtain y where y: "q' = Some y" using w(1,2) assms(4) by (cases q') (simp_all add: claim_parameters_def)
    then have cw: "claim_parameters w = map parameter_meaning (splitOn (CHR ''&'') y)"
      using w(1,2) by (simp add: claim_parameters_def)
    have "x = y" by (rule canonicalQuery_unique) (use v(3) w(3) Some y assms(4) cv cw in simp_all)
    with Some y show ?thesis by simp
  qed
  have "r = r'"
    using v(2) w(2) unfolding same \<open>q = q'\<close> by (cases q') (simp_all add: break_at_simps)
  then show ?thesis using v(1) w(1) same by (simp add: break_at_Some)
qed

definition sample_reference :: string where
  "sample_reference = ''did:web:a?k=1%26&l=x''"

definition other_reference :: string where
  "other_reference = ''did:web:a?k=1%26&l=y''"

theorem canonical_reference_unique_witness:
  "parseCanonicalClaimReference (\<lambda>_. False) sample_reference =
     Some \<lparr>cp_reference = sample_reference, cp_identity = \<lparr>ci_scheme = ''did'', ci_identifier = ''web:a''\<rparr>,
           cp_schemeStatus = Registered\<rparr> \<and>
   parseCanonicalClaimReference (\<lambda>_. False) other_reference =
     Some \<lparr>cp_reference = other_reference, cp_identity = \<lparr>ci_scheme = ''did'', ci_identifier = ''web:a''\<rparr>,
           cp_schemeStatus = Registered\<rparr> \<and>
   claim_parameters sample_reference = [(Some ''k'', Some ''1&''), (Some ''l'', Some ''x'')] \<and>
   set (claim_parameters sample_reference) \<noteq> set (claim_parameters other_reference) \<and>
   parseCanonicalClaimReference (\<lambda>_. False) ''did:web:a?l=x&k=1%26'' = None"
proof (intro conjI)
  show p: "parseCanonicalClaimReference (\<lambda>_. False) sample_reference =
     Some \<lparr>cp_reference = sample_reference, cp_identity = \<lparr>ci_scheme = ''did'', ci_identifier = ''web:a''\<rparr>,
           cp_schemeStatus = Registered\<rparr>" by code_simp
  show q: "parseCanonicalClaimReference (\<lambda>_. False) other_reference =
     Some \<lparr>cp_reference = other_reference, cp_identity = \<lparr>ci_scheme = ''did'', ci_identifier = ''web:a''\<rparr>,
           cp_schemeStatus = Registered\<rparr>" by code_simp
  show "claim_parameters sample_reference = [(Some ''k'', Some ''1&''), (Some ''l'', Some ''x'')]" by code_simp
  have "sample_reference \<noteq> other_reference" by code_simp
  then show "set (claim_parameters sample_reference) \<noteq> set (claim_parameters other_reference)"
    using canonical_reference_unique [OF p q] by auto
  show "parseCanonicalClaimReference (\<lambda>_. False) ''did:web:a?l=x&k=1%26'' = None" by code_simp
qed

section \<open>Identities\<close>

text \<open>The identity of a canonical reference, written as \<^verbatim>\<open>scheme:identifier\<close>, is canonical itself.\<close>

definition identity_text :: "claim_identity \<Rightarrow> string" where
  "identity_text i = ci_scheme i @ CHR '':'' # ci_identifier i"

lemma scheme_colon: "is_scheme s \<Longrightarrow> CHR '':'' \<notin> set s"
  by (auto simp: is_scheme_def is_lower_def is_digit_def list_all_iff split: list.splits)

lemma registered_without_parameters:
  "canonicalRegisteredIdentifier hostname scheme i p \<Longrightarrow> canonicalRegisteredIdentifier hostname scheme i False"
  unfolding canonicalRegisteredIdentifier_def by (simp split: if_split_asm)

lemma identity_text_canonical:
  assumes "parseCanonicalClaimReference hostname v = Some a"
  shows "\<exists>b. parseCanonicalClaimReference hostname (identity_text (cp_identity a)) = Some b \<and>
           cp_identity b = cp_identity a"
proof -
  from assms obtain s r i q where v: "break_at (CHR '':'') v = (s, Some r)" "break_at (CHR ''?'') r = (i, q)"
    "\<not> list_ex (\<lambda>c. is_space c \<or> is_control c) v" "is_scheme s" "i \<noteq> []"
    "canonicalRegisteredIdentifier hostname s i (q \<noteq> None)" "cp_identity a = \<lparr>ci_scheme = s, ci_identifier = i\<rparr>"
    by (auto simp: parse_Some)
  have vs: "v = s @ CHR '':'' # r" using v(1) by (simp add: break_at_Some)
  have i: "set i \<subseteq> set r" "CHR ''?'' \<notin> set i" using v(2) by (cases q; auto simp: break_at_simps)+
  have "\<not> list_ex (\<lambda>c. is_space c \<or> is_control c) (s @ CHR '':'' # i)"
    using v(3) i(1) vs by (auto simp: list_ex_iff)
  moreover have "break_at (CHR '':'') (s @ CHR '':'' # i) = (s, Some i)" using scheme_colon [OF v(4)] by simp
  ultimately have "parseCanonicalClaimReference hostname (s @ CHR '':'' # i) =
      Some \<lparr>cp_reference = s @ CHR '':'' # i, cp_identity = \<lparr>ci_scheme = s, ci_identifier = i\<rparr>,
            cp_schemeStatus = (if s \<in> set REGISTERED_CLAIM_REFERENCE_SCHEMES then Registered else Unknown)\<rparr>"
    unfolding parse_Some using v(4,5) i(2) registered_without_parameters [OF v(6)] by simp
  then show ?thesis using v(7) by (simp add: identity_text_def)
qed

lemma sameCanonicalClaimIdentity_iff:
  "sameCanonicalClaimIdentity hostname v w \<longleftrightarrow>
     (\<exists>a b. parseCanonicalClaimReference hostname v = Some a \<and> parseCanonicalClaimReference hostname w = Some b \<and>
            cp_identity a = cp_identity b)"
  by (auto simp: sameCanonicalClaimIdentity_def split: option.splits)

text \<open>Comparing with the identity text of a reference is comparing with the reference.\<close>

lemma sameCanonicalClaimIdentity_text:
  assumes "parseCanonicalClaimReference hostname v = Some a"
  shows "sameCanonicalClaimIdentity hostname w (identity_text (cp_identity a)) \<longleftrightarrow>
         sameCanonicalClaimIdentity hostname w v"
  using identity_text_canonical [OF assms] assms by (auto simp: sameCanonicalClaimIdentity_iff)

end
