(* ===== verification/Dacs_Snapshot.thy ===== *)
theory Dacs_Snapshot
  imports Dacs_Jcs
begin

text \<open>
  Owned snapshots of JSON values (\<^verbatim>\<open>src/src/canonical/snapshot.ts\<close>): a value is admitted when it is
  plain JSON data, and what the caller keeps is the value parsed back from its canonical text, that
  is, the same tree with normalised string values and the members of every object in canonical order.
  The content hash of a document (\<^verbatim>\<open>src/src/canonical/hash.ts\<close>) is the SHA-256, a parameter, of the
  canonical text of its snapshot without the signature members. Proxies, accessors,
  foreign prototypes and shared references of JavaScript objects are not values of \<open>json\<close>.
\<close>

section \<open>Plain data\<close>

fun isDataOnlyJson :: "json \<Rightarrow> bool" where
  "isDataOnlyJson JNull = True"
| "isDataOnlyJson (JBool b) = True"
| "isDataOnlyJson (JStr s) = True"
| "isDataOnlyJson (JNum n) = (case n of JInt i \<Rightarrow> isSafeInteger i | JFrac t \<Rightarrow> True | JNonFinite \<Rightarrow> False)"
| "isDataOnlyJson (JArr xs) = list_all isDataOnlyJson xs"
| "isDataOnlyJson (JObj kvs) = list_all (\<lambda>kv. isDataOnlyJson (snd kv)) kvs"
| "isDataOnlyJson JUndefined = False"
| "isDataOnlyJson (JBigInt i) = False"

text \<open>\<^verbatim>\<open>JSON.parse\<close> of the canonical text of a plain value: members in canonical order.\<close>

function reparsed :: "json \<Rightarrow> json" where
  "reparsed (JArr xs) = JArr (map reparsed xs)"
| "reparsed (JObj kvs) = JObj (map (\<lambda>kv. (fst kv, reparsed (snd kv))) (sorted_entries kvs))"
| "reparsed JNull = JNull"
| "reparsed (JBool b) = JBool b"
| "reparsed (JStr s) = JStr s"
| "reparsed (JNum n) = JNum n"
| "reparsed JUndefined = JUndefined"
| "reparsed (JBigInt i) = JBigInt i"
  by pat_completeness auto
termination
proof (relation "measure size")
  fix xs :: "json list" and x
  assume "x \<in> set xs"
  then show "(x, JArr xs) \<in> measure size" by (induction xs) auto
next
  fix kvs :: "(string \<times> json) list" and kv
  assume "kv \<in> set (sorted_entries kvs)"
  then have "kv \<in> set kvs" by (simp add: sorted_entries_def)
  then show "(snd kv, JObj kvs) \<in> measure size"
    by (induction kvs) (auto simp: size_prod_simp)
qed simp

text \<open>The normalisation that the canonical text has applied to the string values.\<close>

fun normalized :: "(string \<Rightarrow> string) \<Rightarrow> json \<Rightarrow> json" where
  "normalized nfc (JStr s) = JStr (nfc s)"
| "normalized nfc (JArr xs) = JArr (map (normalized nfc) xs)"
| "normalized nfc (JObj kvs) = JObj (map (\<lambda>kv. (fst kv, normalized nfc (snd kv))) kvs)"
| "normalized nfc v = v"

definition snapshotWith :: "(string \<Rightarrow> string) \<Rightarrow> json \<Rightarrow> json res" where
  "snapshotWith nfc v =
     ensure (isDataOnlyJson v) ''is not stable canonical JSON''
     (bindR (canonicalizeWith nfc v) (\<lambda>canonical.
       let snapshot = reparsed (normalized nfc v) in
       ensure (isDataOnlyJson snapshot \<and> canonicalizeWith nfc snapshot = Inr canonical) ''is not stable canonical JSON''
       (Inr snapshot)))"

definition snapshotCanonicalJsonInternal :: "json \<Rightarrow> json res" where
  snapshotInternal_with: "snapshotCanonicalJsonInternal v = snapshotWith normalizeNFC v"

definition snapshotCanonicalJson :: "json \<Rightarrow> json res" where
  "snapshotCanonicalJson v = snapshotCanonicalJsonInternal v"

definition snapshotCanonicalJsonRead :: "json \<Rightarrow> json res" where
  "snapshotCanonicalJsonRead v = snapshotCanonicalJsonInternal v"

definition snapshotCanonicalJsonObject :: "json \<Rightarrow> (string \<times> json) list res" where
  "snapshotCanonicalJsonObject v =
     bindR (snapshotCanonicalJson v) (\<lambda>snapshot.
       case snapshot of JObj kvs \<Rightarrow> Inr kvs | _ \<Rightarrow> throw ''must be a JSON object in canonical form'')"

section \<open>Signed scope\<close>

text \<open>\<^verbatim>\<open>src/src/canonical/hash.ts\<close>: the snapshot of a document without its signature members, and its hash.\<close>

definition SIGNATURE_FIELDS :: "string list" where
  "SIGNATURE_FIELDS = [''signature'', ''signatures'']"

definition unsigned_members :: "(string \<times> json) list \<Rightarrow> (string \<times> json) list" where
  "unsigned_members kvs = filter (\<lambda>kv. fst kv \<notin> set SIGNATURE_FIELDS) kvs"

definition stripSignatureWith :: "(string \<Rightarrow> string) \<Rightarrow> (string \<times> json) list \<Rightarrow> (string \<times> json) list res" where
  "stripSignatureWith nfc doc =
     bindR (snapshotWith nfc (JObj doc)) (\<lambda>snapshot.
       case snapshot of JObj kvs \<Rightarrow> Inr (unsigned_members kvs) | _ \<Rightarrow> type_error)"

definition canonicalSignedScopeWith :: "(string \<Rightarrow> string) \<Rightarrow> (string \<times> json) list \<Rightarrow> string res" where
  "canonicalSignedScopeWith nfc doc = bindR (stripSignatureWith nfc doc) (\<lambda>kvs. canonicalizeWith nfc (JObj kvs))"

definition contentHashWith :: "(string \<Rightarrow> string) \<Rightarrow> (string \<Rightarrow> string) \<Rightarrow> (string \<times> json) list \<Rightarrow> string res" where
  "contentHashWith nfc sha256Hex doc = bindR (canonicalSignedScopeWith nfc doc) (\<lambda>t. Inr (sha256Hex t))"

definition stripSignature :: "(string \<times> json) list \<Rightarrow> (string \<times> json) list res" where
  stripSignature_with: "stripSignature doc = stripSignatureWith normalizeNFC doc"

definition contentHash :: "(string \<Rightarrow> string) \<Rightarrow> (string \<times> json) list \<Rightarrow> string res" where
  contentHash_with: "contentHash sha256Hex doc = contentHashWith normalizeNFC sha256Hex doc"

section \<open>Normalisation and the canonical text\<close>

lemma mapR_map: "mapR f (map g xs) = mapR (\<lambda>x. f (g x)) xs"
  by (induction xs) simp_all

lemma normalized_undefined [simp]: "normalized nfc v = JUndefined \<longleftrightarrow> v = JUndefined"
  by (cases v) auto

lemma normalized_id [simp]: "normalized normalizeNFC v = v"
  by (induction "normalizeNFC" v rule: normalized.induct) (auto simp: normalizeNFC_def map_idI)

lemma map_sort_key_fst:
  assumes "\<And>kv. fst (f kv) = fst kv"
  shows "map f (sort_key fst xs) = sort_key fst (map f xs)"
proof -
  have "map f (insort_key fst x xs) = insort_key fst (f x) (map f xs)" for x xs
    by (induction xs) (simp_all add: assms)
  then show ?thesis by (induction xs) simp_all
qed

lemma sorted_entries_normalized:
  "sorted_entries (map (\<lambda>kv. (fst kv, normalized nfc (snd kv))) kvs) = map (\<lambda>kv. (fst kv, normalized nfc (snd kv))) (sorted_entries kvs)"
  by (simp add: sorted_entries_def filter_map comp_def map_sort_key_fst)

text \<open>Canonicalising with a normalisation is canonicalising the normalised value.\<close>

lemma canonValueWith_normalized: "canonValueWith nfc d v = canonValue d (normalized nfc v)"
proof (induction nfc d v rule: canonValueWith.induct)
  case (7 nfc d xs)
  have "mapR (canonValueWith nfc (Suc d)) xs = mapR (canonValue (Suc d)) (map (normalized nfc) xs)"
    unfolding mapR_map by (rule mapR_cong [OF refl]) (rule 7)
  then show ?case by simp
next
  case (8 nfc d kvs)
  have "mapR (\<lambda>kv. bindR (canonValueWith nfc (Suc d) (snd kv)) (\<lambda>t. Inr (canonStringWith nfc (fst kv) False @ CHR '':'' # t))) (sorted_entries kvs) =
      mapR (\<lambda>kv. bindR (canonValue (Suc d) (snd kv)) (\<lambda>t. Inr (canonString (fst kv) @ CHR '':'' # t)))
        (map (\<lambda>kv. (fst kv, normalized nfc (snd kv))) (sorted_entries kvs))"
    unfolding mapR_map by (rule mapR_cong [OF refl]) (use 8 in \<open>simp add: canonStringWith_def canonString_def\<close>)
  then show ?case by (simp add: sorted_entries_normalized)
qed (simp_all add: canonStringWith_def canonString_def)

lemma canonicalizeWith_normalized: "canonicalizeWith nfc v = canonicalize (normalized nfc v)"
  by (simp add: canonicalizeWith_def canonicalize_def canonValueWith_normalized)

lemma canonicalizeWith_NFC [simp]: "canonicalizeWith normalizeNFC v = canonicalize v"
  by (simp add: canonicalizeWith_normalized)

section \<open>Reparsing keeps the canonical text\<close>

lemma reparsed_undefined [simp]: "reparsed v = JUndefined \<longleftrightarrow> v = JUndefined"
  by (cases v) auto

lemma sorted_entries_reparsed:
  "sorted_entries (map (\<lambda>kv. (fst kv, reparsed (snd kv))) (sorted_entries kvs)) =
   map (\<lambda>kv. (fst kv, reparsed (snd kv))) (sorted_entries kvs)"
proof -
  have "filter (\<lambda>kv. snd kv \<noteq> JUndefined) (map (\<lambda>kv. (fst kv, reparsed (snd kv))) (sorted_entries kvs)) =
        map (\<lambda>kv. (fst kv, reparsed (snd kv))) (sorted_entries kvs)"
    by (auto simp: sorted_entries_def filter_id_conv)
  moreover have "sorted (map fst (map (\<lambda>kv. (fst kv, reparsed (snd kv))) (sorted_entries kvs)))"
    by (simp add: sorted_entries_def comp_def)
  ultimately show ?thesis
    unfolding sorted_entries_def [of "map _ _"] by (simp only: sorted_sort_id sort_key_id_if_sorted)
qed

lemma canonValue_reparsed: "canonValue d (reparsed v) = canonValue d v"
proof (induction d v rule: canonValue_induct)
  case (7 d xs)
  have "mapR (canonValue (Suc d)) (map reparsed xs) = mapR (canonValue (Suc d)) xs"
    unfolding mapR_map by (rule mapR_cong [OF refl]) (rule 7)
  then show ?case by simp
next
  case (8 d kvs)
  have "mapR (\<lambda>kv. bindR (canonValue (Suc d) (snd kv)) (\<lambda>t. Inr (canonString (fst kv) @ CHR '':'' # t)))
          (map (\<lambda>kv. (fst kv, reparsed (snd kv))) (sorted_entries kvs)) =
        mapR (\<lambda>kv. bindR (canonValue (Suc d) (snd kv)) (\<lambda>t. Inr (canonString (fst kv) @ CHR '':'' # t)))
          (sorted_entries kvs)"
    unfolding mapR_map by (rule mapR_cong [OF refl]) (use 8 in simp)
  then show ?case by (simp add: sorted_entries_reparsed)
qed simp_all

lemma canonicalize_reparsed [simp]: "canonicalize (reparsed v) = canonicalize v"
  by (simp add: canonicalize_def canonValue_reparsed)

lemma reparsed_idem [simp]: "reparsed (reparsed v) = reparsed v"
proof (induction v rule: reparsed.induct)
  case (2 kvs)
  then show ?case by (simp add: sorted_entries_reparsed)
qed simp_all

lemma isDataOnlyJson_reparsed: "isDataOnlyJson v \<Longrightarrow> isDataOnlyJson (reparsed v)"
proof (induction v rule: reparsed.induct)
  case (2 kvs)
  then show ?case by (auto simp: list_all_iff sorted_entries_def)
qed (auto simp: list_all_iff)

lemma snapshot_Inr:
  "snapshotCanonicalJsonInternal v = Inr w \<longleftrightarrow> isDataOnlyJson v \<and> isOk (canonicalize v) \<and> w = reparsed v"
  by (auto simp: snapshotInternal_with snapshotWith_def Let_def bindR_Inr ensure_Inr isOk_iff isDataOnlyJson_reparsed)

lemma snapshot_def [code]:
  "snapshotCanonicalJsonInternal v =
     ensure (isDataOnlyJson v) ''is not stable canonical JSON'' (bindR (canonicalize v) (\<lambda>_. Inr (reparsed v)))"
  by (auto simp: snapshotInternal_with snapshotWith_def Let_def ensure_def isDataOnlyJson_reparsed bindR_def split: sum.splits)

lemma own_snapshot [own_intros]:
  "own (snapshotCanonicalJson v)" "own (snapshotCanonicalJsonRead v)" "own (snapshotCanonicalJsonObject v)"
  by (auto simp: snapshotCanonicalJson_def snapshotCanonicalJsonRead_def snapshotCanonicalJsonObject_def snapshot_def
      intro!: own_intros split: json.splits)

lemmas snapshot_defs = snapshotCanonicalJson_def snapshotCanonicalJsonRead_def

section \<open>The content hash\<close>

lemma unsigned_reparsed:
  "reparsed (JObj (unsigned_members kvs)) = JObj (unsigned_members (map (\<lambda>kv. (fst kv, reparsed (snd kv))) (sorted_entries kvs)))"
  by (auto simp: unsigned_members_def sorted_entries_def filter_sort [symmetric] filter_map comp_def conj_commute)

text \<open>The hash of a canonical JSON object is the hash of the canonical text of its unsigned members.\<close>

lemma contentHash_def [code]:
  "contentHash sha256Hex doc =
     bindR (snapshotCanonicalJsonRead (JObj doc)) (\<lambda>_.
     bindR (canonicalize (JObj (unsigned_members doc))) (\<lambda>t. Inr (sha256Hex t)))"
proof -
  have "canonicalize (JObj (unsigned_members (map (\<lambda>kv. (fst kv, reparsed (snd kv))) (sorted_entries doc)))) =
      canonicalize (JObj (unsigned_members doc))"
    unfolding unsigned_reparsed [symmetric] by (rule canonicalize_reparsed)
  then show ?thesis
    by (cases "isDataOnlyJson (JObj doc)"; cases "canonicalize (JObj doc)")
      (simp_all add: contentHash_with contentHashWith_def canonicalSignedScopeWith_def stripSignatureWith_def snapshotCanonicalJsonRead_def
        snapshotInternal_with [symmetric] snapshot_def)
qed

lemma contentHash_Inr:
  "contentHash sha256Hex doc = Inr h \<longleftrightarrow>
     isDataOnlyJson (JObj doc) \<and> isOk (canonicalize (JObj doc)) \<and>
     (\<exists>t. canonicalize (JObj (unsigned_members doc)) = Inr t \<and> h = sha256Hex t)"
  by (auto simp: contentHash_def snapshotCanonicalJsonRead_def snapshot_Inr bindR_Inr)

lemma stripSignature_Inr:
  "stripSignature doc = Inr kvs \<longleftrightarrow>
     isDataOnlyJson (JObj doc) \<and> isOk (canonicalize (JObj doc)) \<and>
     kvs = unsigned_members (map (\<lambda>kv. (fst kv, reparsed (snd kv))) (sorted_entries doc))"
  by (auto simp: stripSignature_with stripSignatureWith_def snapshotInternal_with [symmetric] snapshot_Inr bindR_Inr)

lemma own_contentHash [own_intros]: "own (contentHash sha256Hex doc)"
  by (auto simp: contentHash_def intro!: own_intros)

text \<open>A lookup sees the same members before and after.\<close>

lemma map_of_sort_key_fst: "distinct (map fst xs) \<Longrightarrow> map_of (sort_key fst xs) = map_of xs"
  by (rule map_of_inject_set [THEN iffD2]) (auto simp: distinct_map inj_on_def intro: distinct_sort)

lemma map_of_reparsed:
  assumes "isDataOnlyJson (JObj kvs)" "distinct (map fst kvs)"
  shows "map_of (map (\<lambda>kv. (fst kv, reparsed (snd kv))) (sorted_entries kvs)) k = map_option reparsed (map_of kvs k)"
proof -
  have "filter (\<lambda>kv. snd kv \<noteq> JUndefined) kvs = kvs"
    using assms(1) by (auto simp: filter_id_conv list_all_iff)
  then have "map_of (sorted_entries kvs) = map_of kvs"
    using assms(2) by (simp add: sorted_entries_def map_of_sort_key_fst)
  moreover have "map_of (map (\<lambda>kv. (fst kv, reparsed (snd kv))) xs) k = map_option reparsed (map_of xs k)" for xs
    by (induction xs) auto
  ultimately show ?thesis by simp
qed

text \<open>
  Taking a snapshot keeps the canonical bytes, and with them every hash and signature over the value,
  and a snapshot is its own snapshot.
\<close>

theorem snapshot_keeps_canonical_bytes:
  assumes "snapshotCanonicalJson v = Inr w"
  shows "canonicalize w = canonicalize v \<and> snapshotCanonicalJson w = Inr w \<and> isOk (canonicalize w)"
  using assms by (auto simp: snapshot_defs snapshot_Inr isDataOnlyJson_reparsed)

theorem snapshot_keeps_canonical_bytes_witness:
  "snapshotCanonicalJson (JObj [(''b'', JNum (JInt 1)), (''a'', JNull)]) = Inr (JObj [(''a'', JNull), (''b'', JNum (JInt 1))]) \<and>
   canonicalize (JObj [(''a'', JNull), (''b'', JNum (JInt 1))]) = canonicalize (JObj [(''b'', JNum (JInt 1)), (''a'', JNull)])"
proof -
  have s: "snapshotCanonicalJson (JObj [(''b'', JNum (JInt 1)), (''a'', JNull)]) = Inr (JObj [(''a'', JNull), (''b'', JNum (JInt 1))])"
    by code_simp
  from snapshot_keeps_canonical_bytes [OF s] s show ?thesis by blast
qed

end
