(* ===== verification/Dacs_Rfq.thy ===== *)
theory Dacs_Rfq
  imports Dacs_Channel Dacs_Pricing Dacs_Addressing Dacs_Claims Dacs_Snapshot
begin

text \<open>
  The request-for-quote session (\<^verbatim>\<open>src/src/negotiate/rfq.ts\<close>): proposals, opening a session from a
  verified listing, validation of the stored state, and the step that applies one received turn.

  Parameters (\<open>rfq_env\<close>): SHA-256; the canonical domain hostnames (\<open>Dacs_Claims\<close>); \<^verbatim>\<open>isAttestationRef\<close>,
  \<^verbatim>\<open>isIdentityBundle\<close> with \<^verbatim>\<open>identityBundleHash\<close> and \<^verbatim>\<open>isListing\<close>, whose grammars live in the
  identity and artifact modules. Documents of those modules are JSON values.
\<close>

record rfq_env =
  re_sha256Hex :: "string \<Rightarrow> string"
  re_hostname :: "string \<Rightarrow> bool"
  re_isAttestationRef :: "json \<Rightarrow> bool"
  re_isIdentityBundle :: "json \<Rightarrow> bool"
  re_identityBundleHash :: "json \<Rightarrow> string"
  re_isListing :: "(string \<times> json) list \<Rightarrow> bool"

section \<open>Proposals\<close>

record rfq_proposal =
  pr_version :: string
  pr_price :: price_term
  pr_meteredQuantity :: "metered_quantity option"

text \<open>
  Metered: the proposed price must be the derived one. Comparing canonical texts of two objects
  with string members compares the members.
\<close>

definition validateRfqProposal :: "rfq_proposal \<Rightarrow> pricing \<Rightarrow> rfq_proposal res" where
  "validateRfqProposal proposal pricing =
     ensure (pr_version proposal = ''1'' \<and> validatePriceTerm (pr_price proposal) True) ''RFQ proposal is malformed''
     (case pricing of
        Negotiable center minPct maxPct \<Rightarrow>
          ensure (pr_meteredQuantity proposal = None) ''negotiable RFQ proposal must omit meteredQuantity''
          (bindR (deriveRfqPriceBand pricing) (\<lambda>band.
           bindR (compareDecimal (pt_amount (pr_price proposal)) (pt_amount (pb_minimum band))) (\<lambda>lo.
           bindR (compareDecimal (pt_amount (pr_price proposal)) (pt_amount (pb_maximum band))) (\<lambda>hi.
           ensure (pt_currency (pr_price proposal) = pt_currency center \<and> pt_unit (pr_price proposal) = pt_unit center \<and>
                   \<not> lo < 0 \<and> \<not> hi > 0)
             ''RFQ proposal is outside the signed Listing price band (RFQ-3)''
           (Inr proposal)))))
      | Metered unitPrice unit minTotal \<Rightarrow>
          (case pr_meteredQuantity proposal of
             None \<Rightarrow> throw ''metered RFQ proposal requires a canonical quantity''
           | Some q \<Rightarrow>
             bindR (deriveMeteredPriceTerm pricing q) (\<lambda>expected.
             ensure (pr_price proposal = expected) ''metered RFQ proposal price does not match its Listing quantity''
             (Inr proposal)))
      | Other_Pricing \<Rightarrow> throw ''RFQ requires negotiable or metered Listing pricing (PS-3)'')"

section \<open>Turn bodies\<close>

definition str_member :: "(string \<times> json) list \<Rightarrow> string \<Rightarrow> string option" where
  "str_member es k = (case map_of es k of Some (JStr s) \<Rightarrow> Some s | _ \<Rightarrow> None)"

text \<open>A price object: its amount and currency must be strings, its unit a string when present.\<close>

definition price_of_json :: "json \<Rightarrow> price_term option" where
  "price_of_json j =
     (case j of
        JObj es \<Rightarrow>
          (case (str_member es ''amount'', str_member es ''currency'') of
             (Some a, Some c) \<Rightarrow>
               if map_of es ''unit'' \<noteq> None \<and> str_member es ''unit'' = None then None
               else Some \<lparr>pt_amount = a, pt_currency = c, pt_unit = str_member es ''unit'',
                          pt_extra = \<not> exactKeys (map fst es) [''amount'', ''currency''] [''unit'']\<rparr>
           | _ \<Rightarrow> None)
      | _ \<Rightarrow> None)"

definition quantity_of_json :: "json \<Rightarrow> metered_quantity option" where
  "quantity_of_json j =
     (case j of
        JObj es \<Rightarrow>
          (case (str_member es ''quantity'', str_member es ''unit'') of
             (Some q, Some u) \<Rightarrow>
               if exactKeys (map fst es) [''quantity'', ''unit''] [] then Some \<lparr>mq_quantity = q, mq_unit = u\<rparr> else None
           | _ \<Rightarrow> None)
      | _ \<Rightarrow> None)"

definition proposal_of_json :: "json \<Rightarrow> rfq_proposal option" where
  "proposal_of_json j =
     (case j of
        JObj es \<Rightarrow>
          if \<not> exactKeys (map fst es) [''rfqProposalVersion'', ''price''] [''meteredQuantity''] then None
          else (case (str_member es ''rfqProposalVersion'', Option.bind (map_of es ''price'') price_of_json) of
                  (Some v, Some p) \<Rightarrow>
                    (case map_of es ''meteredQuantity'' of
                       None \<Rightarrow> Some \<lparr>pr_version = v, pr_price = p, pr_meteredQuantity = None\<rparr>
                     | Some q \<Rightarrow> map_option (\<lambda>mq. \<lparr>pr_version = v, pr_price = p, pr_meteredQuantity = Some mq\<rparr>)
                                   (quantity_of_json q))
                | _ \<Rightarrow> None)
      | _ \<Rightarrow> None)"

definition body_entries :: "json \<Rightarrow> string list \<Rightarrow> string list \<Rightarrow> (string \<times> json) list option" where
  "body_entries j required optional =
     (case j of
        JObj es \<Rightarrow> if exactKeys (map fst es) required optional \<and> map_of es ''rfqBodyVersion'' = Some (JStr ''1'')
                   then Some es else None
      | _ \<Rightarrow> None)"

definition parseProposalBody :: "json \<Rightarrow> pricing \<Rightarrow> rfq_proposal res" where
  "parseProposalBody body pricing =
     (case body_entries body [''rfqBodyVersion'', ''proposal''] [] of
        None \<Rightarrow> throw ''RFQ offer/counter body is malformed''
      | Some es \<Rightarrow>
        (case Option.bind (map_of es ''proposal'') proposal_of_json of
           None \<Rightarrow> throw ''RFQ proposal is malformed''
         | Some p \<Rightarrow> validateRfqProposal p pricing))"

definition acceptedSequence :: "json \<Rightarrow> int res" where
  "acceptedSequence body =
     (case body_entries body [''rfqBodyVersion'', ''acceptedSequence''] [] of
        None \<Rightarrow> throw ''RFQ accept body is malformed''
      | Some es \<Rightarrow>
        (case map_of es ''acceptedSequence'' of
           Some (JNum (JInt n)) \<Rightarrow> ensure (isSafeInteger n \<and> 1 \<le> n) ''RFQ accept body is malformed'' (Inr n)
         | _ \<Rightarrow> throw ''RFQ accept body is malformed''))"

definition terminalReason :: "json \<Rightarrow> string option res" where
  "terminalReason body =
     (case body_entries body [''rfqBodyVersion''] [''reason''] of
        None \<Rightarrow> throw ''RFQ terminal body is malformed''
      | Some es \<Rightarrow>
        (case map_of es ''reason'' of
           None \<Rightarrow> Inr None
         | Some (JStr s) \<Rightarrow> ensure (isNonEmptyString s) ''RFQ terminal body is malformed'' (Inr (Some s))
         | Some _ \<Rightarrow> throw ''RFQ terminal body is malformed''))"

section \<open>Session state\<close>

record party_binding =
  pb_primaryClaim :: string
  pb_bundleHash :: string
  pb_vetRecordRef :: json

record listing_pin =
  lp_listingId :: string
  lp_version :: int
  lp_contentHash :: string

datatype rfq_role = Role_Buyer | Role_Seller

datatype rfq_status = Open | Accepted | Rejected | Aborted | Timed_Out | Max_Turns

record standing_proposal =
  sp_proposal :: rfq_proposal
  sp_sequence :: int
  sp_proposer :: string

record rfq_state =
  rs_version :: string
  rs_jobId :: string
  rs_listingPin :: listing_pin
  rs_channelId :: string
  rs_buyer :: party_binding
  rs_seller :: party_binding
  rs_pricing :: pricing
  rs_initiator :: rfq_role
  rs_maxTurns :: int
  rs_timeoutMs :: int
  rs_startedAt :: int
  rs_awaitingSince :: int
  rs_expectedSender :: string
  rs_lastSequence :: int
  rs_lastMessageHash :: "string option"
  rs_turnCount :: int
  rs_status :: rfq_status
  rs_standingProposal :: "standing_proposal option"
  rs_terminalReason :: "string option"

definition otherMember :: "rfq_state \<Rightarrow> string \<Rightarrow> string" where
  "otherMember s sender =
     (if sender = pb_primaryClaim (rs_buyer s) then pb_primaryClaim (rs_seller s) else pb_primaryClaim (rs_buyer s))"

definition validListingPin :: "listing_pin \<Rightarrow> bool" where
  "validListingPin p \<longleftrightarrow>
     isNonEmptyString (lp_listingId p) \<and> isSafeInteger (lp_version p) \<and> 1 \<le> lp_version p \<and> is_hash (lp_contentHash p)"

definition validPartyBinding :: "rfq_env \<Rightarrow> party_binding \<Rightarrow> bool" where
  "validPartyBinding env p \<longleftrightarrow>
     isNonEmptyString (pb_primaryClaim p) \<and> is_hash (pb_bundleHash p) \<and> re_isAttestationRef env (pb_vetRecordRef p)"

definition validPricing :: "pricing \<Rightarrow> bool" where
  "validPricing p =
     (case p of
        Negotiable c lo hi \<Rightarrow> isOk (deriveRfqPriceBand p)
      | Metered up u mt \<Rightarrow>
          isNonEmptyString u \<and> validatePriceTerm up False \<and>
          (case mt of None \<Rightarrow> True | Some m \<Rightarrow> validatePriceTerm m False) \<and>
          isOk (deriveMeteredPriceTerm p \<lparr>mq_quantity = ''1'', mq_unit = u\<rparr>)
      | Other_Pricing \<Rightarrow> False)"

definition validStandingProposal :: "standing_proposal \<Rightarrow> rfq_state \<Rightarrow> bool" where
  "validStandingProposal p s \<longleftrightarrow>
     isSafeInteger (sp_sequence p) \<and> 1 \<le> sp_sequence p \<and> sp_sequence p \<le> rs_lastSequence s \<and>
     (sp_proposer p = pb_primaryClaim (rs_buyer s) \<or> sp_proposer p = pb_primaryClaim (rs_seller s)) \<and>
     isOk (validateRfqProposal (sp_proposal p) (rs_pricing s))"

definition initiatorClaim :: "rfq_state \<Rightarrow> string" where
  "initiatorClaim s =
     (case rs_initiator s of Role_Buyer \<Rightarrow> pb_primaryClaim (rs_buyer s) | Role_Seller \<Rightarrow> pb_primaryClaim (rs_seller s))"

text \<open>The stored-state check in three parts: the session's terms, its counters and its phase.\<close>

definition validTerms :: "rfq_env \<Rightarrow> rfq_state \<Rightarrow> bool" where
  "validTerms env s \<longleftrightarrow>
     isCanonicalJobId (rs_jobId s) \<and>
     rs_version s = ''1'' \<and> validListingPin (rs_listingPin s) \<and> isNonEmptyString (rs_channelId s) \<and>
     validPartyBinding env (rs_buyer s) \<and> validPartyBinding env (rs_seller s) \<and> validPricing (rs_pricing s) \<and>
     \<not> sameCanonicalClaimIdentity (re_hostname env) (pb_primaryClaim (rs_buyer s)) (pb_primaryClaim (rs_seller s)) \<and>
     isSafeTime (rs_startedAt s) \<and> isSafeInteger (rs_maxTurns s) \<and> 2 \<le> rs_maxTurns s \<and>
     isSafeInteger (rs_timeoutMs s) \<and> 0 < rs_timeoutMs s"

definition validCounters :: "rfq_state \<Rightarrow> bool" where
  "validCounters s \<longleftrightarrow>
     isSafeTime (rs_awaitingSince s) \<and> rs_startedAt s \<le> rs_awaitingSince s \<and>
     isSafeInteger (rs_lastSequence s) \<and> 0 \<le> rs_lastSequence s \<and>
     isSafeInteger (rs_turnCount s) \<and> 0 \<le> rs_turnCount s \<and>
     rs_turnCount s \<le> rs_maxTurns s \<and> rs_turnCount s \<le> rs_lastSequence s \<and>
     (if rs_lastSequence s = 0 then rs_lastMessageHash s = None
      else (case rs_lastMessageHash s of None \<Rightarrow> False | Some h \<Rightarrow> is_hash h))"

definition validPhase :: "rfq_state \<Rightarrow> bool" where
  "validPhase s \<longleftrightarrow>
     (rs_expectedSender s = pb_primaryClaim (rs_buyer s) \<or> rs_expectedSender s = pb_primaryClaim (rs_seller s)) \<and>
     (case rs_terminalReason s of None \<Rightarrow> True | Some r \<Rightarrow> isNonEmptyString r) \<and>
     (case rs_standingProposal s of None \<Rightarrow> True | Some p \<Rightarrow> validStandingProposal p s) \<and>
     (if rs_turnCount s = 0
      then rs_lastSequence s = 0 \<and> rs_standingProposal s = None \<and> rs_expectedSender s = initiatorClaim s \<and>
           (if rs_status s = Open then rs_terminalReason s = None
            else rs_status s = Timed_Out \<and> rs_terminalReason s \<noteq> None)
      else (case rs_standingProposal s of
              None \<Rightarrow> False
            | Some p \<Rightarrow>
              (case rs_status s of
                 Open \<Rightarrow> rs_turnCount s < rs_maxTurns s \<and> sp_sequence p = rs_lastSequence s \<and>
                         rs_expectedSender s = otherMember s (sp_proposer p) \<and> rs_terminalReason s = None
               | Max_Turns \<Rightarrow> rs_turnCount s = rs_maxTurns s \<and> sp_sequence p = rs_lastSequence s \<and>
                              rs_terminalReason s \<noteq> None
               | Accepted \<Rightarrow> 2 \<le> rs_turnCount s \<and> sp_sequence p < rs_lastSequence s \<and> rs_terminalReason s \<noteq> None
               | Timed_Out \<Rightarrow> rs_terminalReason s \<noteq> None
               | _ \<Rightarrow> sp_sequence p < rs_lastSequence s)))"

definition validateStoredState :: "rfq_env \<Rightarrow> rfq_state \<Rightarrow> bool" where
  "validateStoredState env s \<longleftrightarrow> validTerms env s \<and> validCounters s \<and> validPhase s"

section \<open>One turn\<close>

datatype advance_result = Advanced rfq_state | Not_Advanced decision string

text \<open>The record update every admitted message makes.\<close>

definition admit_turn :: "rfq_state \<Rightarrow> channel_message \<Rightarrow> string \<Rightarrow> rfq_state" where
  "admit_turn s m envelopeHash =
     s\<lparr>rs_lastSequence := cm_sequence m, rs_lastMessageHash := Some envelopeHash, rs_turnCount := rs_turnCount s + 1\<rparr>"

definition proposal_turn :: "rfq_state \<Rightarrow> channel_message \<Rightarrow> string \<Rightarrow> int \<Rightarrow> rfq_proposal \<Rightarrow> rfq_state" where
  "proposal_turn s m envelopeHash receivedAt proposal =
     (let s1 = (admit_turn s m envelopeHash)\<lparr>rs_standingProposal :=
                 Some \<lparr>sp_proposal = proposal, sp_sequence = cm_sequence m, sp_proposer = cm_sender m\<rparr>\<rparr>
      in if rs_turnCount s + 1 \<ge> rs_maxTurns s
         then s1\<lparr>rs_status := Max_Turns,
                 rs_terminalReason := Some ''RFQ maxTurns reached without acceptance (RFQ-1)''\<rparr>
         else s1\<lparr>rs_awaitingSince := receivedAt, rs_expectedSender := otherMember s (cm_sender m)\<rparr>)"

definition apply_turn :: "rfq_state \<Rightarrow> channel_message \<Rightarrow> string \<Rightarrow> int \<Rightarrow> advance_result" where
  "apply_turn s m envelopeHash receivedAt =
     (if rs_turnCount s = 0 \<or> cm_type m = ''counter''
      then if rs_turnCount s = 0 \<and> cm_type m \<noteq> ''offer''
           then Not_Advanced Fail ''the RFQ initiator must send the first offer''
           else (case parseProposalBody (cm_body m) (rs_pricing s) of
                   Inl e \<Rightarrow> Not_Advanced Fail (error_text e)
                 | Inr proposal \<Rightarrow> Advanced (proposal_turn s m envelopeHash receivedAt proposal))
      else if cm_type m = ''accept''
      then (case rs_standingProposal s of
              None \<Rightarrow> Not_Advanced Fail ''RFQ acceptance does not bind the standing proposal''
            | Some p \<Rightarrow>
              (case acceptedSequence (cm_body m) of
                 Inl e \<Rightarrow> Not_Advanced Fail (error_text e)
               | Inr n \<Rightarrow>
                 if n \<noteq> sp_sequence p then Not_Advanced Fail ''RFQ acceptance does not bind the standing proposal''
                 else Advanced ((admit_turn s m envelopeHash)\<lparr>rs_status := Accepted,
                        rs_terminalReason := Some ''standing RFQ proposal accepted''\<rparr>)))
      else if cm_type m = ''reject'' \<or> cm_type m = ''abort''
      then (case terminalReason (cm_body m) of
              Inl e \<Rightarrow> Not_Advanced Fail (error_text e)
            | Inr reason \<Rightarrow>
              Advanced ((admit_turn s m envelopeHash)
                \<lparr>rs_status := (if cm_type m = ''reject'' then Rejected else Aborted),
                 rs_terminalReason := (if reason = None then rs_terminalReason s else reason)\<rparr>))
      else Not_Advanced Fail ''message type is not valid in an RFQ session'')"

definition replies_elsewhere :: "rfq_state \<Rightarrow> channel_message \<Rightarrow> bool" where
  "replies_elsewhere s m =
     (case (rs_standingProposal s, Option.bind (cm_refs m) rf_repliesTo) of
        (Some p, Some n) \<Rightarrow> n \<noteq> sp_sequence p
      | _ \<Rightarrow> False)"

definition advanceRfqSession ::
  "rfq_env \<Rightarrow> (channel_message \<Rightarrow> string \<Rightarrow> string res) \<Rightarrow> rfq_state \<Rightarrow> channel_message \<Rightarrow> int \<Rightarrow> advance_result" where
  "advanceRfqSession env verifySignature s m receivedAt =
     (if \<not> validateStoredState env s \<or> \<not> isSafeTime receivedAt \<or> receivedAt < rs_awaitingSince s
      then Not_Advanced Error ''RFQ session state or trusted receipt time is inconsistent''
      else if rs_status s \<noteq> Open then Not_Advanced Fail ''RFQ session is already terminal''
      else if \<not> isSafeInteger (rs_awaitingSince s + rs_timeoutMs s)
      then Not_Advanced Error ''RFQ timeout boundary overflows unix ms''
      else if receivedAt > rs_awaitingSince s + rs_timeoutMs s
      then Advanced (s\<lparr>rs_status := Timed_Out, rs_terminalReason := Some ''RFQ turn timeout elapsed (RFQ-4)''\<rparr>)
      else (case admitChannelMessage (re_sha256Hex env) verifySignature m
                   \<lparr>cc_sessionChannelId = rs_channelId s, cc_lastSequence = rs_lastSequence s, cc_priorChannelIds = []\<rparr> of
              Refused d why \<Rightarrow> Not_Advanced d why
            | Admitted m' envelopeHash \<Rightarrow>
              if cm_sender m' \<noteq> rs_expectedSender s
              then Not_Advanced Fail ''RFQ turn is signed by the wrong member''
              else if replies_elsewhere s m'
              then Not_Advanced Fail ''RFQ reply does not bind the standing proposal''
              else apply_turn s m' envelopeHash receivedAt))"

section \<open>Opening a session\<close>

record pipeline_phase =
  ph_kind :: string
  ph_parameters :: "(string \<times> json) list option"

text \<open>The members of a listing that the session reads, beside the document they belong to.\<close>

record listing =
  ls_document :: "(string \<times> json) list"
  ls_listingId :: string
  ls_listingVersion :: int
  ls_notBefore :: int
  ls_notAfter :: "int option"
  ls_pipeline :: "pipeline_phase list"
  ls_pricing :: pricing
  ls_sellerPresentedBy :: string

record party_input =
  pi_identityBundle :: json
  pi_presentedBy :: string
  pi_vetRecordRef :: json

record open_input =
  oi_jobId :: string
  oi_disposition :: string
  oi_listing :: listing
  oi_pin :: listing_pin
  oi_buyer :: party_input
  oi_seller :: party_input
  oi_channelId :: string
  oi_startedAt :: int

definition partyBinding :: "rfq_env \<Rightarrow> party_input \<Rightarrow> party_binding res" where
  "partyBinding env inp =
     ensure (re_isIdentityBundle env (pi_identityBundle inp)) ''IdentityBundle is not normative''
     (ensure (re_isAttestationRef env (pi_vetRecordRef inp)) ''Vet reference is not normative''
     (Inr \<lparr>pb_primaryClaim = pi_presentedBy inp, pb_bundleHash = re_identityBundleHash env (pi_identityBundle inp),
           pb_vetRecordRef = pi_vetRecordRef inp\<rparr>))"

definition int_member :: "(string \<times> json) list \<Rightarrow> string \<Rightarrow> int option" where
  "int_member es k = (case map_of es k of Some (JNum (JInt n)) \<Rightarrow> if isSafeInteger n then Some n else None | _ \<Rightarrow> None)"

record rfq_parameters =
  rp_maxTurns :: int
  rp_timeoutSec :: int
  rp_initiator :: rfq_role

definition rfqParameters :: "(string \<times> json) list option \<Rightarrow> string \<Rightarrow> rfq_parameters res" where
  "rfqParameters params channelId =
     (case params of
        None \<Rightarrow> throw ''Listing RFQ parameters do not authorize this session''
      | Some es \<Rightarrow>
        (case (int_member es ''maxTurns'', int_member es ''timeoutSec'') of
           (Some maxTurns, Some timeoutSec) \<Rightarrow>
             ensure (2 \<le> maxTurns \<and> 0 < timeoutSec \<and>
                     (map_of es ''rfqInitiator'' = None \<or> map_of es ''rfqInitiator'' = Some (JStr ''buyer'') \<or>
                      map_of es ''rfqInitiator'' = Some (JStr ''seller'')) \<and>
                     (map_of es ''channelSubnet'' = None \<or> map_of es ''channelSubnet'' = Some (JStr channelId)))
               ''Listing RFQ parameters do not authorize this session''
             (Inr \<lparr>rp_maxTurns = maxTurns, rp_timeoutSec = timeoutSec,
                   rp_initiator = (if map_of es ''rfqInitiator'' = Some (JStr ''seller'') then Role_Seller else Role_Buyer)\<rparr>)
         | _ \<Rightarrow> throw ''Listing RFQ parameters do not authorize this session''))"

definition is_negotiate_phase :: "pipeline_phase \<Rightarrow> bool" where
  "is_negotiate_phase ph \<longleftrightarrow> take 10 (ph_kind ph) = ''negotiate-''"

record rfq_authority =
  ra_listingPin :: listing_pin
  ra_pricing :: pricing
  ra_initiator :: rfq_role
  ra_maxTurns :: int
  ra_timeoutMs :: int
  ra_buyer :: party_binding
  ra_seller :: party_binding

definition rfqAuthority :: "rfq_env \<Rightarrow> open_input \<Rightarrow> rfq_authority res" where
  "rfqAuthority env inp =
     (let listing = oi_listing inp
      in ensure (oi_disposition inp = ''verified'' \<and> re_isListing env (ls_document listing))
           ''RFQ requires an exact verified Listing''
         (bindR (requireCanonicalJobId (oi_jobId inp)) (\<lambda>_.
          bindR (contentHash (re_sha256Hex env) (ls_document listing)) (\<lambda>docHash.
          let exactPin = \<lparr>lp_listingId = ls_listingId listing, lp_version = ls_listingVersion listing, lp_contentHash = docHash\<rparr>
          in ensure (oi_pin inp = exactPin) ''RFQ Listing pin does not match the exact verified bytes''
             (ensure (ls_notBefore listing \<le> oi_startedAt inp \<and>
                      (case ls_notAfter listing of None \<Rightarrow> True | Some t \<Rightarrow> oi_startedAt inp \<le> t))
               ''RFQ Listing is outside its validity window''
             (case filter is_negotiate_phase (ls_pipeline listing) of
                [phase] \<Rightarrow>
                  ensure (ph_kind phase = ''negotiate-rfq'') ''Listing does not select exactly one RFQ negotiation phase''
                  (bindR (rfqParameters (ph_parameters phase) (oi_channelId inp)) (\<lambda>params.
                   ensure (ls_pricing listing \<noteq> Other_Pricing) ''RFQ requires negotiable or metered Listing pricing (PS-3)''
                  (ensure (isSafeInteger (rp_timeoutSec params * 1000)) ''RFQ timeout overflows unix ms''
                  (bindR (partyBinding env (oi_buyer inp)) (\<lambda>buyer.
                   bindR (partyBinding env (oi_seller inp)) (\<lambda>seller.
                   ensure (\<not> sameCanonicalClaimIdentity (re_hostname env) (pb_primaryClaim buyer) (pb_primaryClaim seller) \<and>
                           sameCanonicalClaimIdentity (re_hostname env) (pb_primaryClaim seller) (ls_sellerPresentedBy listing))
                     ''RFQ members do not match the buyer/seller Listing authority''
                  (Inr \<lparr>ra_listingPin = exactPin, ra_pricing = ls_pricing listing, ra_initiator = rp_initiator params,
                        ra_maxTurns = rp_maxTurns params, ra_timeoutMs = rp_timeoutSec params * 1000,
                        ra_buyer = buyer, ra_seller = seller\<rparr>)))))))
              | _ \<Rightarrow> throw ''Listing does not select exactly one RFQ negotiation phase''))))))"

definition opened_state :: "open_input \<Rightarrow> rfq_authority \<Rightarrow> rfq_state" where
  "opened_state inp au =
     \<lparr>rs_version = ''1'', rs_jobId = oi_jobId inp, rs_listingPin = ra_listingPin au, rs_channelId = oi_channelId inp,
      rs_buyer = ra_buyer au, rs_seller = ra_seller au, rs_pricing = ra_pricing au, rs_initiator = ra_initiator au,
      rs_maxTurns = ra_maxTurns au, rs_timeoutMs = ra_timeoutMs au, rs_startedAt = oi_startedAt inp,
      rs_awaitingSince = oi_startedAt inp,
      rs_expectedSender = (case ra_initiator au of Role_Buyer \<Rightarrow> pb_primaryClaim (ra_buyer au)
                           | Role_Seller \<Rightarrow> pb_primaryClaim (ra_seller au)),
      rs_lastSequence = 0, rs_lastMessageHash = None, rs_turnCount = 0, rs_status = Open,
      rs_standingProposal = None, rs_terminalReason = None\<rparr>"

text \<open>The reservation callback is given the job, the pin, the channel and the two members.\<close>

definition openRfqSession ::
  "rfq_env \<Rightarrow> (string \<Rightarrow> listing_pin \<Rightarrow> string \<Rightarrow> string \<times> string \<Rightarrow> string res) \<Rightarrow> open_input \<Rightarrow> advance_result" where
  "openRfqSession env reserveChannelId inp =
     (if \<not> isNonEmptyString (oi_channelId inp) \<or> \<not> isSafeTime (oi_startedAt inp)
      then Not_Advanced Error ''RFQ session channelId or start time is malformed''
      else (case rfqAuthority env inp of
              Inl _ \<Rightarrow> Not_Advanced Error ''RFQ session authority is malformed or inconsistent''
            | Inr au \<Rightarrow>
              (case reserveChannelId (oi_jobId inp) (ra_listingPin au) (oi_channelId inp)
                      (pb_primaryClaim (ra_buyer au), pb_primaryClaim (ra_seller au)) of
                 Inl _ \<Rightarrow> Not_Advanced Error ''durable RFQ channel reservation failed''
               | Inr text \<Rightarrow>
                 (case classifyVerificationDecision text of
                    Inl _ \<Rightarrow> Not_Advanced Error ''durable RFQ channel reservation returned malformed state''
                  | Inr d \<Rightarrow>
                    if d = Pass then Advanced (opened_state inp au)
                    else Not_Advanced d (''durable RFQ channel reservation returned '' @ text)))))"

section \<open>Lemmas on one turn\<close>

lemma validateRfqProposal_same: "validateRfqProposal p pr = Inr q \<Longrightarrow> q = p"
  by (cases pr) (auto simp: validateRfqProposal_def res_simps split: option.splits)

lemma parseProposalBody_ok: "parseProposalBody body pr = Inr p \<Longrightarrow> validateRfqProposal p pr = Inr p"
  using validateRfqProposal_same by (auto simp: parseProposalBody_def res_simps split: option.splits)

text \<open>The successful outcomes of a turn.\<close>

lemma apply_turn_cases:
  assumes "apply_turn s m hh t = Advanced s'"
  obtains (proposal) p where "rs_turnCount s = 0 \<or> cm_type m = ''counter''" "validateRfqProposal p (rs_pricing s) = Inr p"
      "s' = proposal_turn s m hh t p"
  | (accept) p where "rs_turnCount s \<noteq> 0" "cm_type m = ''accept''" "rs_standingProposal s = Some p"
      "acceptedSequence (cm_body m) = Inr (sp_sequence p)"
      "s' = (admit_turn s m hh)\<lparr>rs_status := Accepted, rs_terminalReason := Some ''standing RFQ proposal accepted''\<rparr>"
  | (terminal) reason where "rs_turnCount s \<noteq> 0" "terminalReason (cm_body m) = Inr reason"
      "s' = (admit_turn s m hh)\<lparr>rs_status := (if cm_type m = ''reject'' then Rejected else Aborted),
              rs_terminalReason := (if reason = None then rs_terminalReason s else reason)\<rparr>"
proof (cases "rs_turnCount s = 0 \<or> cm_type m = ''counter''")
  case True
  then obtain p where "parseProposalBody (cm_body m) (rs_pricing s) = Inr p" "s' = proposal_turn s m hh t p"
    using assms unfolding apply_turn_def by (auto split: sum.splits if_splits)
  then show thesis using proposal True parseProposalBody_ok by blast
next
  case False
  note nf = this
  show thesis
  proof (cases "cm_type m = ''accept''")
    case True
    then show thesis using assms nf accept unfolding apply_turn_def
      by (auto split: sum.splits if_splits option.splits)
  next
    case False
    then show thesis using assms nf terminal unfolding apply_turn_def
      by (auto split: sum.splits if_splits)
  qed
qed

lemma terminalReason_nonEmpty: "terminalReason b = Inr (Some r) \<Longrightarrow> isNonEmptyString r"
  by (auto simp: terminalReason_def res_simps split: option.splits json.splits)

lemma reasons_nonEmpty [simp]:
  "isNonEmptyString ''RFQ maxTurns reached without acceptance (RFQ-1)''"
  "isNonEmptyString ''RFQ turn timeout elapsed (RFQ-4)''" "isNonEmptyString ''standing RFQ proposal accepted''"
  by code_simp+

end
