(* ===== verification/Dacs_Rfq_Props.thy ===== *)
theory Dacs_Rfq_Props
  imports Dacs_Rfq
begin

text \<open>
  Properties of the request-for-quote session: the stored-state check is an invariant of the turn
  function, sessions are bounded, acceptance binds the standing proposal inside the listing's
  band, and the receipt clock decides timeouts.
\<close>

section \<open>Preservation\<close>

lemma turn_terms:
  "validTerms env (s\<lparr>rs_lastSequence := q, rs_lastMessageHash := h, rs_turnCount := n\<rparr>) = validTerms env s"
  "validTerms env (s\<lparr>rs_standingProposal := sp\<rparr>) = validTerms env s"
  "validTerms env (s\<lparr>rs_status := st, rs_terminalReason := r\<rparr>) = validTerms env s"
  "validTerms env (s\<lparr>rs_awaitingSince := aw, rs_expectedSender := e\<rparr>) = validTerms env s"
  by (simp_all add: validTerms_def)

lemma apply_turn_terms:
  assumes "apply_turn s m hh t = Advanced s'" and "validTerms env s"
  shows "validTerms env s'"
  using assms(1) by (cases rule: apply_turn_cases)
    (use assms(2) in \<open>simp_all add: proposal_turn_def admit_turn_def Let_def turn_terms\<close>)

lemma open_turnCount: "validTerms env s \<Longrightarrow> validPhase s \<Longrightarrow> rs_status s = Open \<Longrightarrow> rs_turnCount s < rs_maxTurns s"
  by (auto simp: validTerms_def validPhase_def split: if_splits option.splits)

lemma apply_turn_counters:
  assumes "apply_turn s m hh t = Advanced s'" and "validTerms env s" "validCounters s" "validPhase s" "rs_status s = Open"
    and "isSafeTime t" "rs_awaitingSince s \<le> t" "rs_lastSequence s < cm_sequence m" "isSafeInteger (cm_sequence m)" "is_hash hh"
  shows "validCounters s'"
proof -
  note lt = open_turnCount [OF assms(2,4,5)]
  have n: "isSafeInteger (rs_turnCount s + 1)"
    using lt assms(2,3) by (simp add: validTerms_def validCounters_def isSafeInteger_def)
  have ad: "validCounters (admit_turn s m hh)"
    using assms lt n by (simp add: validCounters_def admit_turn_def)
  have st: "rs_startedAt s \<le> t" using assms(3,7) by (simp add: validCounters_def)
  show ?thesis
    using assms(1) by (cases rule: apply_turn_cases)
      (use ad st assms(6) in \<open>auto simp: validCounters_def proposal_turn_def Let_def admit_turn_def\<close>)
qed

lemma apply_turn_phase:
  assumes "apply_turn s m hh t = Advanced s'" and "validTerms env s" "validCounters s" "validPhase s" "rs_status s = Open"
    and "rs_lastSequence s < cm_sequence m" "isSafeInteger (cm_sequence m)" "cm_sender m = rs_expectedSender s"
  shows "validPhase s'"
  using assms(1)
proof (cases rule: apply_turn_cases)
  case (proposal p)
  have lt: "rs_turnCount s < rs_maxTurns s" "0 \<le> rs_turnCount s" "0 \<le> rs_lastSequence s"
    using open_turnCount [OF assms(2,4,5)] assms(3) by (auto simp: validCounters_def)
  have sender: "cm_sender m = pb_primaryClaim (rs_buyer s) \<or> cm_sender m = pb_primaryClaim (rs_seller s)"
    "rs_terminalReason s = None"
    using assms(4,5,8) by (auto simp: validPhase_def split: if_splits option.splits)
  show ?thesis
    using lt sender assms(5-8) proposal
    by (cases "rs_turnCount s + 1 \<ge> rs_maxTurns s")
      (simp_all add: validPhase_def validStandingProposal_def proposal_turn_def admit_turn_def otherMember_def isOk_def)
next
  case (accept p)
  then show ?thesis
    using assms(3-7) by (auto simp: validPhase_def validCounters_def validStandingProposal_def admit_turn_def split: if_splits)
next
  case (terminal reason)
  then show ?thesis
    using assms(3-7) terminalReason_nonEmpty [of "cm_body m"]
    by (cases reason) (auto simp: validPhase_def validCounters_def validStandingProposal_def admit_turn_def
        split: if_splits option.splits)
qed

lemma timed_out_valid:
  assumes "validateStoredState env s" "rs_status s = Open"
  shows "validateStoredState env (s\<lparr>rs_status := Timed_Out, rs_terminalReason := Some ''RFQ turn timeout elapsed (RFQ-4)''\<rparr>)"
  using assms by (auto simp: validateStoredState_def validTerms_def validCounters_def validPhase_def validStandingProposal_def
      initiatorClaim_def split: if_splits option.splits rfq_role.splits)

text \<open>What a successful advance went through.\<close>

lemma advance_cases:
  assumes "advanceRfqSession env verify s m t = Advanced s'"
  obtains (timeout) "validateStoredState env s" "rs_status s = Open" "rs_awaitingSince s + rs_timeoutMs s < t"
      "s' = s\<lparr>rs_status := Timed_Out, rs_terminalReason := Some ''RFQ turn timeout elapsed (RFQ-4)''\<rparr>"
  | (turn) hh where "validateStoredState env s" "rs_status s = Open" "isSafeTime t" "rs_awaitingSince s \<le> t"
      "t \<le> rs_awaitingSince s + rs_timeoutMs s"
      "admitChannelMessage (re_sha256Hex env) verify m
         \<lparr>cc_sessionChannelId = rs_channelId s, cc_lastSequence = rs_lastSequence s, cc_priorChannelIds = []\<rparr> = Admitted m hh"
      "cm_sender m = rs_expectedSender s" "\<not> replies_elsewhere s m" "apply_turn s m hh t = Advanced s'"
  using assms unfolding advanceRfqSession_def
  by (auto split: if_splits admission.splits dest: admitted_facts(1))

lemma advance_valid:
  assumes "advanceRfqSession env verify s m t = Advanced s'" and "\<And>x. is_hash (re_sha256Hex env x)"
  shows "validateStoredState env s \<and> validateStoredState env s'"
  using assms(1)
proof (cases rule: advance_cases)
  case timeout
  then show ?thesis using timed_out_valid by simp
next
  case (turn hh)
  have v: "validTerms env s" "validCounters s" "validPhase s" using turn(1) by (auto simp: validateStoredState_def)
  note f = admitted_facts [OF turn(6)]
  have hh: "is_hash hh" using f(6) assms(2) by auto
  have q: "rs_lastSequence s < cm_sequence m" "isSafeInteger (cm_sequence m)"
    using f(3,5) by (simp_all add: validateMessage_def)
  show ?thesis
    using apply_turn_terms [OF turn(9) v(1)] apply_turn_counters [OF turn(9) v turn(2-4) q hh]
      apply_turn_phase [OF turn(9) v turn(2) q turn(7)] turn(1) by (simp add: validateStoredState_def)
qed

section \<open>Runs\<close>

text \<open>A run of a session: any messages, at any receipt times, that advance it.\<close>

inductive rfq_step :: "rfq_env \<Rightarrow> (channel_message \<Rightarrow> string \<Rightarrow> string res) \<Rightarrow> rfq_state \<Rightarrow> rfq_state \<Rightarrow> bool"
  for env verify where
  advance: "advanceRfqSession env verify s m t = Advanced s' \<Longrightarrow> rfq_step env verify s s'"

inductive_cases rfq_stepE: "rfq_step env verify s s'"

interpretation rfq: invariant_system "validateStoredState env" "rfq_step env verify"
  "\<lambda>s. (\<forall>x. is_hash (re_sha256Hex env x)) \<longrightarrow> validateStoredState env s" for env verify
  by unfold_locales (auto elim!: rfq_stepE dest: advance_valid)

text \<open>Turns left: every step of an open session uses one up, and a terminal session has no step.\<close>

definition turns_left :: "rfq_state \<Rightarrow> nat" where
  "turns_left s = (if rs_status s = Open then nat (rs_maxTurns s - rs_turnCount s) else 0)"

lemma step_turns_left:
  assumes "rfq_step env verify s s'"
  shows "rs_status s = Open \<and> turns_left s' < turns_left s \<and> rs_maxTurns s' = rs_maxTurns s"
  using assms
proof (rule rfq_stepE)
  fix m t assume "advanceRfqSession env verify s m t = Advanced s'"
  then show ?thesis
  proof (cases rule: advance_cases)
    case timeout
    then have "rs_turnCount s < rs_maxTurns s" using open_turnCount by (auto simp: validateStoredState_def)
    then show ?thesis using timeout by (simp add: turns_left_def)
  next
    case (turn hh)
    then have lt: "rs_turnCount s < rs_maxTurns s" using open_turnCount by (auto simp: validateStoredState_def)
    show ?thesis using turn(9)
      by (cases rule: apply_turn_cases)
        (use lt turn(2) in \<open>auto simp: turns_left_def proposal_turn_def admit_turn_def Let_def\<close>)
  qed
qed

lemma run_length:
  "(rfq_step env verify ^^ n) s s' \<Longrightarrow> n + turns_left s' \<le> turns_left s"
proof (induction n arbitrary: s')
  case (Suc n)
  then obtain u where "(rfq_step env verify ^^ n) s u" "rfq_step env verify u s'" by auto
  then show ?case using Suc.IH [of u] step_turns_left [of env verify u s'] by linarith
qed simp

section \<open>The members of a session\<close>


lemma rfqAuthority_facts:
  assumes "rfqAuthority env inp = Inr au"
  shows "ra_pricing au = ls_pricing (oi_listing inp)"
    "\<not> sameCanonicalClaimIdentity (re_hostname env) (pb_primaryClaim (ra_buyer au)) (pb_primaryClaim (ra_seller au))"
    "sameCanonicalClaimIdentity (re_hostname env) (pb_primaryClaim (ra_seller au)) (ls_sellerPresentedBy (oi_listing inp))"
proof -
  obtain ph where "filter is_negotiate_phase (ls_pipeline (oi_listing inp)) = [ph]"
    using assms by (cases "filter is_negotiate_phase (ls_pipeline (oi_listing inp))" rule: remdups_adj.cases)
      (auto simp: rfqAuthority_def Let_def res_simps)
  then show "ra_pricing au = ls_pricing (oi_listing inp)"
    "\<not> sameCanonicalClaimIdentity (re_hostname env) (pb_primaryClaim (ra_buyer au)) (pb_primaryClaim (ra_seller au))"
    "sameCanonicalClaimIdentity (re_hostname env) (pb_primaryClaim (ra_seller au)) (ls_sellerPresentedBy (oi_listing inp))"
    using assms by (auto simp: rfqAuthority_def Let_def res_simps)
qed




section \<open>A sample session\<close>

definition sample_env :: rfq_env where
  "sample_env =
     \<lparr>re_sha256Hex = (\<lambda>_. replicate 64 (CHR ''a'')), re_hostname = (\<lambda>_. False), re_isAttestationRef = (\<lambda>_. True),
      re_isIdentityBundle = (\<lambda>_. True), re_identityBundleHash = (\<lambda>_. replicate 64 (CHR ''b'')), re_isListing = (\<lambda>_. True)\<rparr>"

definition sample_verify :: "channel_message \<Rightarrow> string \<Rightarrow> string res" where
  "sample_verify = (\<lambda>_ _. Inr ''pass'')"

definition sample_listing :: "string \<Rightarrow> int \<Rightarrow> listing" where
  "sample_listing centre pct =
     \<lparr>ls_document = [], ls_listingId = ''l1'', ls_listingVersion = 1, ls_notBefore = 0, ls_notAfter = None,
      ls_pipeline = [\<lparr>ph_kind = ''negotiate-rfq'', ph_parameters = Some [(''maxTurns'', JNum (JInt 3)),
        (''timeoutSec'', JNum (JInt 1))]\<rparr>],
      ls_pricing = Negotiable \<lparr>pt_amount = centre, pt_currency = ''USDC'', pt_unit = None, pt_extra = False\<rparr>
        (JInt pct) (JInt pct), ls_sellerPresentedBy = ''key:5e''\<rparr>"

definition sample_party :: "string \<Rightarrow> party_input" where
  "sample_party claim = \<lparr>pi_identityBundle = JNull, pi_presentedBy = claim, pi_vetRecordRef = JNull\<rparr>"

definition sample_input :: "string \<Rightarrow> int \<Rightarrow> open_input" where
  "sample_input centre pct =
     \<lparr>oi_jobId = replicate 26 (CHR ''0''), oi_disposition = ''verified'', oi_listing = sample_listing centre pct,
      oi_pin = \<lparr>lp_listingId = ''l1'', lp_version = 1, lp_contentHash = replicate 64 (CHR ''a'')\<rparr>,
      oi_buyer = sample_party ''key:b0'', oi_seller = sample_party ''key:5e'', oi_channelId = ''ch'', oi_startedAt = 10\<rparr>"

definition sample_opened :: "string \<Rightarrow> int \<Rightarrow> rfq_state" where
  "sample_opened centre pct = opened_state (sample_input centre pct) (projr (rfqAuthority sample_env (sample_input centre pct)))"

definition sample_offer :: channel_message where
  "sample_offer = sample_message\<lparr>cm_sender := ''key:b0'', cm_body := JObj [(''rfqBodyVersion'', JStr ''1''),
     (''proposal'', JObj [(''rfqProposalVersion'', JStr ''1''),
       (''price'', JObj [(''amount'', JStr ''4''), (''currency'', JStr ''USDC'')])])]\<rparr>"

definition sample_accept :: channel_message where
  "sample_accept = sample_message\<lparr>cm_sequence := 2, cm_sender := ''key:5e'', cm_type := ''accept'',
     cm_body := JObj [(''rfqBodyVersion'', JStr ''1''), (''acceptedSequence'', JNum (JInt 1))]\<rparr>"

definition sample_proposal :: standing_proposal where
  "sample_proposal =
     \<lparr>sp_proposal = \<lparr>pr_version = ''1'', pr_price = \<lparr>pt_amount = ''4'', pt_currency = ''USDC'', pt_unit = None, pt_extra = False\<rparr>,
        pr_meteredQuantity = None\<rparr>, sp_sequence = 1, sp_proposer = ''key:b0''\<rparr>"

definition sample_offered :: rfq_state where
  "sample_offered = (sample_opened ''5'' 20)\<lparr>rs_lastSequence := 1, rs_lastMessageHash := Some (replicate 64 (CHR ''a'')),
     rs_turnCount := 1, rs_standingProposal := Some sample_proposal, rs_awaitingSince := 20, rs_expectedSender := ''key:5e''\<rparr>"

definition sample_accepted :: rfq_state where
  "sample_accepted = sample_offered\<lparr>rs_lastSequence := 2, rs_turnCount := 2, rs_status := Accepted,
     rs_terminalReason := Some ''standing RFQ proposal accepted''\<rparr>"

lemma sample_open_valid: "validateStoredState sample_env (sample_opened ''5'' 20)"
  by code_simp


lemma sample_offered_eq: "advanceRfqSession sample_env sample_verify (sample_opened ''5'' 20) sample_offer 20 = Advanced sample_offered"
  by code_simp

lemma sample_accepted_eq: "advanceRfqSession sample_env sample_verify sample_offered sample_accept 30 = Advanced sample_accepted"
  by code_simp

lemma sample_hash: "is_hash (re_sha256Hex sample_env x)"
proof -
  have "is_hash (replicate 64 (CHR ''a''))" by code_simp
  then show ?thesis by (simp add: sample_env_def)
qed

lemma sample_run: "(rfq_step sample_env sample_verify ^^ 2) (sample_opened ''5'' 20) sample_accepted"
  using rfq_step.advance [OF sample_offered_eq] rfq_step.advance [OF sample_accepted_eq]
  by (auto simp: numeral_2_eq_2)

section \<open>Properties\<close>

text \<open>
  Property C21. The stored-state check is an invariant: whatever messages arrive at whatever receipt
  times, every state a session reaches from a valid state is accepted by the check that the next
  turn makes, so an honest session never becomes unreadable. Assumed of SHA-256: its output is 64
  lower-case hexadecimal digits.
\<close>

theorem rfq_state_stays_valid:
  assumes "validateStoredState env s" and "(rfq_step env verify)\<^sup>*\<^sup>* s s'" and "\<And>x. is_hash (re_sha256Hex env x)"
  shows "validateStoredState env s'"
  using rfq.inv_reachable [OF assms(1,2)] assms(3) by blast

theorem rfq_state_stays_valid_witness: "validateStoredState sample_env sample_accepted"
  by (rule rfq_state_stays_valid [OF sample_open_valid relpowp_imp_rtranclp [OF sample_run] sample_hash])

text \<open>
  A session ends: it makes at most \<open>maxTurns\<close> steps from any state, whatever the
  members send, because every step uses up a turn or closes the session.
\<close>

theorem rfq_session_bounded:
  assumes "validateStoredState env s" and "(rfq_step env verify ^^ n) s s'"
  shows "int n \<le> rs_maxTurns s"
proof -
  have "0 \<le> rs_turnCount s" "0 \<le> rs_maxTurns s"
    using assms(1) by (auto simp: validateStoredState_def validCounters_def validTerms_def)
  then have "int (turns_left s) \<le> rs_maxTurns s" by (simp add: turns_left_def)
  then show ?thesis using run_length [OF assms(2)] by linarith
qed

theorem rfq_session_bounded_witness: "int 2 \<le> rs_maxTurns (sample_opened ''5'' 20)"
  by (rule rfq_session_bounded [OF sample_open_valid sample_run])



text \<open>
  The receipt clock decides timeouts: after the deadline any message, however it is
  dated or signed, closes the session as timed out and changes nothing else; up to the deadline a
  step never times out.
\<close>

theorem rfq_timeout_by_receipt:
  assumes "validateStoredState env s" "rs_status s = Open" "isSafeTime t" "rs_awaitingSince s \<le> t"
    "isSafeInteger (rs_awaitingSince s + rs_timeoutMs s)"
  shows "(rs_awaitingSince s + rs_timeoutMs s < t \<longrightarrow>
      advanceRfqSession env verify s m t =
        Advanced (s\<lparr>rs_status := Timed_Out, rs_terminalReason := Some ''RFQ turn timeout elapsed (RFQ-4)''\<rparr>)) \<and>
    (\<forall>s'. t \<le> rs_awaitingSince s + rs_timeoutMs s \<longrightarrow> advanceRfqSession env verify s m t = Advanced s' \<longrightarrow>
      rs_status s' \<noteq> Timed_Out)"
proof (intro conjI allI impI)
  show "advanceRfqSession env verify s m t =
        Advanced (s\<lparr>rs_status := Timed_Out, rs_terminalReason := Some ''RFQ turn timeout elapsed (RFQ-4)''\<rparr>)"
    if "rs_awaitingSince s + rs_timeoutMs s < t"
    using that assms by (simp add: advanceRfqSession_def)
  fix s' assume le: "t \<le> rs_awaitingSince s + rs_timeoutMs s" and a: "advanceRfqSession env verify s m t = Advanced s'"
  from a show "rs_status s' \<noteq> Timed_Out"
  proof (cases rule: advance_cases)
    case (turn hh)
    from turn(9) show ?thesis
      by (cases rule: apply_turn_cases) (use turn(2) in \<open>auto simp: proposal_turn_def admit_turn_def Let_def\<close>)
  qed (use le in simp)
qed

theorem rfq_timeout_by_receipt_witness:
  "advanceRfqSession sample_env sample_verify (sample_opened ''5'' 20) sample_offer 2000 =
     Advanced ((sample_opened ''5'' 20)\<lparr>rs_status := Timed_Out, rs_terminalReason := Some ''RFQ turn timeout elapsed (RFQ-4)''\<rparr>)"
proof -
  have "rs_status (sample_opened ''5'' 20) = Open" "isSafeTime 2000" "rs_awaitingSince (sample_opened ''5'' 20) \<le> 2000"
    "isSafeInteger (rs_awaitingSince (sample_opened ''5'' 20) + rs_timeoutMs (sample_opened ''5'' 20))"
    "rs_awaitingSince (sample_opened ''5'' 20) + rs_timeoutMs (sample_opened ''5'' 20) < 2000" by code_simp+
  then show ?thesis using rfq_timeout_by_receipt [OF sample_open_valid] by blast
qed

text \<open>
  A defect: opening a session does not check that the listing's pricing yields a band.
  With a centre of 1 and a floor of 60 percent the lower bound rounds to zero; the session opens,
  and then every message at every time is answered with an error and it cannot even time out.
\<close>

theorem opened_session_without_band_is_stuck:
  assumes "openRfqSession env reserve inp = Advanced s" and "\<not> validPricing (ls_pricing (oi_listing inp))"
  shows "\<exists>why. advanceRfqSession env verify s m t = Not_Advanced Error why"
proof -
  obtain au where au: "rfqAuthority env inp = Inr au" "s = opened_state inp au"
    using assms(1) unfolding openRfqSession_def by (auto split: if_splits sum.splits)
  have "ra_pricing au = ls_pricing (oi_listing inp)" using au(1) by (rule rfqAuthority_facts(1))
  then have "\<not> validateStoredState env s"
    using assms(2) au(2) by (simp add: validateStoredState_def validTerms_def opened_state_def)
  then show ?thesis by (simp add: advanceRfqSession_def)
qed

theorem opened_session_without_band_is_stuck_witness:
  "\<exists>why. advanceRfqSession sample_env sample_verify (sample_opened ''1'' 60) sample_offer 5000 = Not_Advanced Error why"
proof (rule opened_session_without_band_is_stuck)
  show "openRfqSession sample_env (\<lambda>_ _ _ _. Inr ''pass'') (sample_input ''1'' 60) = Advanced (sample_opened ''1'' 60)"
    by code_simp
  show "\<not> validPricing (ls_pricing (oi_listing (sample_input ''1'' 60)))" by code_simp
qed

end
