(* ===== verification/Dacs_Bundle.thy ===== *)
theory Dacs_Bundle
  imports Dacs_Session Dacs_Addressing Dacs_Jcs
begin

text \<open>
  Attestation bundles: their kinds and the outcome they give each party
  (\<^verbatim>\<open>src/src/agent/bundleSemantics.ts\<close>), when two copies of one session contradict each other
  (\<^verbatim>\<open>agent/bundleDivergence.ts\<close>), and the verdict on the two copies a consumer finds
  (\<^verbatim>\<open>agent/bundleConsistency.ts\<close>).

  A bundle is a JSON object: the list of its keys with their values. \<open>strictEq\<close> is the operator
  \<^verbatim>\<open>===\<close> between members of two different copies: scalars compare by value, objects and arrays by
  reference, hence never equal. A copy holds no number that is not finite.
\<close>

section \<open>Members\<close>

type_synonym bundle_json = "(string \<times> json) list"

definition member_of :: "bundle_json \<Rightarrow> string \<Rightarrow> json" where
  "member_of b k = (case map_of b k of None \<Rightarrow> JUndefined | Some v \<Rightarrow> v)"

fun strictEq :: "json \<Rightarrow> json \<Rightarrow> bool" where
  "strictEq (JArr _) _ = False"
| "strictEq (JObj _) _ = False"
| "strictEq (JNum JNonFinite) _ = False"
| "strictEq v w = (v = w)"

fun orNull :: "json \<Rightarrow> json" where
  "orNull JUndefined = JNull"
| "orNull v = v"

fun objects_of :: "json \<Rightarrow> bundle_json list" where
  "objects_of (JArr xs) = concat (map (\<lambda>v. case v of JObj kvs \<Rightarrow> [kvs] | _ \<Rightarrow> []) xs)"
| "objects_of _ = []"

fun is_array :: "json \<Rightarrow> bool" where
  "is_array (JArr _) = True"
| "is_array _ = False"

section \<open>Outcomes and artifact types\<close>

datatype outcome_class = Class_Completed | Class_Failed_Substrate | Class_Failure | Class_Abort

fun outcome_name :: "session_outcome \<Rightarrow> string" where
  "outcome_name Completed = ''completed''"
| "outcome_name Failed_Perm = ''failed-perm''"
| "outcome_name Failed_Counterparty = ''failed-counterparty''"
| "outcome_name Outcome_Failed_Substrate = ''failed-substrate''"
| "outcome_name Outcome_Aborted_By_Self = ''aborted-by-self''"
| "outcome_name Outcome_Aborted_By_Other = ''aborted-by-other''"

definition BUNDLE_OUTCOMES :: "session_outcome list" where
  "BUNDLE_OUTCOMES =
     [Completed, Failed_Perm, Failed_Counterparty, Outcome_Failed_Substrate,
      Outcome_Aborted_By_Self, Outcome_Aborted_By_Other]"

text \<open>\<^verbatim>\<open>isBundleOutcome\<close>, with the outcome the text names.\<close>

definition isBundleOutcome :: "json \<Rightarrow> session_outcome option" where
  "isBundleOutcome v = find (\<lambda>out. v = JStr (outcome_name out)) BUNDLE_OUTCOMES"

definition bundleOutcomeClass :: "json \<Rightarrow> outcome_class option" where
  "bundleOutcomeClass v =
     (if v = JStr ''completed'' then Some Class_Completed
      else if v = JStr ''failed-substrate'' then Some Class_Failed_Substrate
      else if v = JStr ''failed-perm'' \<or> v = JStr ''failed-counterparty'' then Some Class_Failure
      else if v = JStr ''aborted-by-self'' \<or> v = JStr ''aborted-by-other'' then Some Class_Abort
      else None)"

definition isFaultBundle :: "bundle_json \<Rightarrow> bool" where
  "isFaultBundle b \<longleftrightarrow>
     member_of b ''faultBundleVersion'' = JStr ''1'' \<and> member_of b ''bundleVersion'' = JUndefined \<and>
     member_of b ''evidenceBoundFaultBundleVersion'' = JUndefined"

definition isEvidenceBoundFaultBundle :: "bundle_json \<Rightarrow> bool" where
  "isEvidenceBoundFaultBundle b \<longleftrightarrow>
     member_of b ''evidenceBoundFaultBundleVersion'' = JStr ''1'' \<and> member_of b ''bundleVersion'' = JUndefined \<and>
     member_of b ''faultBundleVersion'' = JUndefined"

definition isAbsoluteFaultBundle :: "bundle_json \<Rightarrow> bool" where
  "isAbsoluteFaultBundle b \<longleftrightarrow>
     member_of b ''bundleVersion'' = JUndefined \<and>
     (member_of b ''faultBundleVersion'' = JStr ''1'' \<and>
        member_of b ''evidenceBoundFaultBundleVersion'' = JUndefined \<or>
      member_of b ''evidenceBoundFaultBundleVersion'' = JStr ''1'' \<and>
        member_of b ''faultBundleVersion'' = JUndefined)"

datatype artifact_type = Legacy | Fault | Evidence_Bound

definition known_versions :: "string list" where
  "known_versions = [''bundleVersion'', ''faultBundleVersion'', ''evidenceBoundFaultBundleVersion'']"

definition endsWith :: "string \<Rightarrow> string \<Rightarrow> bool" where
  "endsWith s e \<longleftrightarrow> length e \<le> length s \<and> drop (length s - length e) s = e"

definition bundleArtifactType :: "bundle_json \<Rightarrow> artifact_type option" where
  "bundleArtifactType b =
     (let legacy = member_of b ''bundleVersion'' = JStr ''1'';
          fault = member_of b ''faultBundleVersion'' = JStr ''1'';
          evidenceBound = member_of b ''evidenceBoundFaultBundleVersion'' = JStr ''1''
      in if list_ex (\<lambda>k. endsWith k ''BundleVersion'' \<and> k \<notin> set known_versions) (map fst b) then None
         else if length (filter id [legacy, fault, evidenceBound]) \<noteq> 1 then None
         else if member_of b ''bundleVersion'' \<noteq> JUndefined \<and> \<not> legacy \<or>
                 member_of b ''faultBundleVersion'' \<noteq> JUndefined \<and> \<not> fault \<or>
                 member_of b ''evidenceBoundFaultBundleVersion'' \<noteq> JUndefined \<and> \<not> evidenceBound then None
         else if evidenceBound then Some Evidence_Bound
         else if fault then Some Fault
         else Some Legacy)"

definition bundleArtifactTypeRank :: "bundle_json \<Rightarrow> int" where
  "bundleArtifactTypeRank b =
     (case bundleArtifactType b of
        Some Evidence_Bound \<Rightarrow> 2 | Some Fault \<Rightarrow> 1 | Some Legacy \<Rightarrow> 0 | None \<Rightarrow> -1)"

section \<open>Who is at fault\<close>

definition party_role_names :: "string list" where
  "party_role_names = [''buyer'', ''seller'', ''orchestrator'']"

definition partyRoles :: "bundle_json \<Rightarrow> string list" where
  "partyRoles b =
     remdups (concat (map (\<lambda>party.
       case member_of party ''role'' of JStr r \<Rightarrow> if r \<in> set party_role_names then [r] else [] | _ \<Rightarrow> [])
       (objects_of (member_of b ''parties''))))"

definition legacyImpliedFaultSet :: "bundle_json \<Rightarrow> string list" where
  "legacyImpliedFaultSet b =
     (let outcome = member_of b ''outcome'' in
      if outcome = JStr ''completed'' \<or> outcome = JStr ''failed-substrate'' then [''none'']
      else (case member_of b ''anchoredByRole'' of
              JStr anchor \<Rightarrow>
                if anchor \<notin> set party_role_names then []
                else if outcome = JStr ''failed-perm'' \<or> outcome = JStr ''aborted-by-self'' then [anchor]
                else if outcome = JStr ''failed-counterparty'' \<or> outcome = JStr ''aborted-by-other''
                then filter (\<lambda>r. r \<noteq> anchor) (partyRoles b)
                else []
            | _ \<Rightarrow> []))"

definition roleRelativeOutcome :: "outcome_class \<Rightarrow> json \<Rightarrow> string \<Rightarrow> session_outcome" where
  "roleRelativeOutcome c faultedParty anchor =
     (let self = (faultedParty = JStr anchor) in
      case c of
        Class_Completed \<Rightarrow> Completed
      | Class_Failed_Substrate \<Rightarrow> Outcome_Failed_Substrate
      | Class_Failure \<Rightarrow> if self then Failed_Perm else Failed_Counterparty
      | Class_Abort \<Rightarrow> if self then Outcome_Aborted_By_Self else Outcome_Aborted_By_Other)"

definition perspectiveFlip :: "json \<Rightarrow> session_outcome option" where
  "perspectiveFlip v =
     (if v = JStr ''failed-perm'' then Some Failed_Counterparty
      else if v = JStr ''failed-counterparty'' then Some Failed_Perm
      else if v = JStr ''aborted-by-self'' then Some Outcome_Aborted_By_Other
      else if v = JStr ''aborted-by-other'' then Some Outcome_Aborted_By_Self
      else isBundleOutcome v)"

definition scoredBundleOutcome :: "bundle_json \<Rightarrow> string \<Rightarrow> session_outcome option" where
  "scoredBundleOutcome b scoredRole =
     (case bundleOutcomeClass (member_of b ''outcome'') of
        None \<Rightarrow> None
      | Some c \<Rightarrow>
          if isAbsoluteFaultBundle b then Some (roleRelativeOutcome c (member_of b ''faultedParty'') scoredRole)
          else if c = Class_Completed \<or> c = Class_Failed_Substrate
          then Some (roleRelativeOutcome c (JStr ''none'') scoredRole)
          else Some (roleRelativeOutcome c
                 (JStr (if scoredRole \<in> set (legacyImpliedFaultSet b) then scoredRole else ''orchestrator'')) scoredRole))"

text \<open>\<^verbatim>\<open>faultedPartyIsPermitted\<close> of \<^verbatim>\<open>artifacts/validators.ts\<close>, re-exported by the bundle semantics.\<close>

definition faultedPartyIsPermitted :: "bundle_json \<Rightarrow> bool" where
  "faultedPartyIsPermitted b =
     (let faulted = member_of b ''faultedParty''; outcome = member_of b ''outcome''; roles = partyRoles b in
      case member_of b ''anchoredByRole'' of
        JStr anchor \<Rightarrow>
          anchor \<in> set party_role_names \<and> is_array (member_of b ''parties'') \<and> anchor \<in> set roles \<and>
          (if outcome = JStr ''completed'' \<or> outcome = JStr ''failed-substrate'' then faulted = JStr ''none''
           else if outcome = JStr ''failed-perm'' \<or> outcome = JStr ''aborted-by-self'' then faulted = JStr anchor
           else if outcome = JStr ''failed-counterparty'' \<or> outcome = JStr ''aborted-by-other''
           then faulted \<noteq> JStr ''none'' \<and> faulted \<noteq> JStr anchor \<and> list_ex (\<lambda>r. faulted = JStr r) roles
           else False)
      | _ \<Rightarrow> False)"

section \<open>Divergence\<close>

fun phases_from :: "(jsnumber \<times> bundle_json) list \<Rightarrow> bundle_json list \<Rightarrow> (jsnumber \<times> bundle_json) list option" where
  "phases_from out [] = Some out"
| "phases_from out (p # ps) =
     (case member_of p ''index'' of
        JNum i \<Rightarrow> if i \<in> fst ` set out then None else phases_from (out @ [(i, p)]) ps
      | _ \<Rightarrow> phases_from out ps)"

definition phasesByIndex :: "bundle_json \<Rightarrow> (jsnumber \<times> bundle_json) list option" where
  "phasesByIndex b = phases_from [] (objects_of (member_of b ''phaseSummary''))"

definition canonicalRefs :: "bundle_json \<Rightarrow> string list option" where
  "canonicalRefs b =
     (case member_of b ''settlementEvidence'' of
        JArr refs \<Rightarrow> (case mapR canonicalize refs of Inl _ \<Rightarrow> None | Inr ts \<Rightarrow> Some (remdups ts))
      | _ \<Rightarrow> None)"

definition evidenceDiverges :: "bundle_json \<Rightarrow> bundle_json \<Rightarrow> bool" where
  "evidenceDiverges a b =
     (case (canonicalRefs a, canonicalRefs b) of
        (Some aRefs, Some bRefs) \<Rightarrow> length aRefs \<noteq> length bRefs \<or> list_ex (\<lambda>r. r \<notin> set bRefs) aRefs
      | _ \<Rightarrow> True)"

definition outcomeDiverges :: "bundle_json \<Rightarrow> bundle_json \<Rightarrow> bool" where
  "outcomeDiverges a b =
     (let aFault = isAbsoluteFaultBundle a; bFault = isAbsoluteFaultBundle b in
      if aFault \<and> bFault then \<not> strictEq (member_of a ''faultedParty'') (member_of b ''faultedParty'')
      else if aFault \<or> bFault
      then (case (if aFault then member_of a ''faultedParty'' else member_of b ''faultedParty'') of
              JStr fault \<Rightarrow> fault \<notin> set (legacyImpliedFaultSet (if aFault then b else a))
            | _ \<Rightarrow> True)
      else (let aRole = member_of a ''anchoredByRole''; bRole = member_of b ''anchoredByRole'';
                oppositeAnchors = aRole = JStr ''buyer'' \<and> bRole = JStr ''seller'' \<or>
                                  aRole = JStr ''seller'' \<and> bRole = JStr ''buyer'';
                reconciledB = (if oppositeAnchors
                  then (case perspectiveFlip (member_of b ''outcome'') of None \<Rightarrow> JNull | Some x \<Rightarrow> JStr (outcome_name x))
                  else member_of b ''outcome'')
            in \<not> strictEq (member_of a ''outcome'') reconciledB))"

definition phaseDiffers :: "bundle_json \<Rightarrow> bundle_json \<Rightarrow> bool" where
  "phaseDiffers pa pb \<longleftrightarrow>
     \<not> strictEq (member_of pa ''kind'') (member_of pb ''kind'') \<or>
     \<not> strictEq (member_of pa ''outcome'') (member_of pb ''outcome'') \<or>
     \<not> strictEq (orNull (member_of pa ''errorClass'')) (orNull (member_of pb ''errorClass''))"

definition phasesDiverge :: "bundle_json \<Rightarrow> bundle_json \<Rightarrow> bool" where
  "phasesDiverge a b =
     (case (phasesByIndex a, phasesByIndex b) of
        (Some ai, Some bi) \<Rightarrow>
          length ai \<noteq> length bi \<or>
          list_ex (\<lambda>(idx, pa). case map_of bi idx of None \<Rightarrow> True | Some pb \<Rightarrow> phaseDiffers pa pb) ai
      | _ \<Rightarrow> True)"

definition bundlesDiverge :: "bundle_json \<Rightarrow> bundle_json \<Rightarrow> bool" where
  "bundlesDiverge a b =
     (let aClass = bundleOutcomeClass (member_of a ''outcome'');
          bClass = bundleOutcomeClass (member_of b ''outcome'')
      in aClass = None \<or> bClass = None \<or> aClass \<noteq> bClass \<or>
         (member_of a ''evidenceBoundFaultBundleVersion'' = JStr ''1'' \<and>
          member_of b ''evidenceBoundFaultBundleVersion'' = JStr ''1'' \<and> evidenceDiverges a b) \<or>
         outcomeDiverges a b \<or> phasesDiverge a b)"

section \<open>The two copies of a session\<close>

datatype consistency_verdict = Verdict_Absent | Verdict_Indeterminate | OneSided | Unified | Divergent

datatype copy_read = Present bundle_json | Absent | Indeterminate

record bundle_copies =
  copy_buyer :: copy_read
  copy_seller :: copy_read

definition jid1BundleAddress :: "(string \<Rightarrow> string) \<Rightarrow> string \<Rightarrow> string \<Rightarrow> string res" where
  "jid1BundleAddress sha256Hex jobId role =
     bindR (requireCanonicalJobId jobId) (\<lambda>_.
       ensure (role \<in> set party_role_names) ''bundle address role must be buyer, seller, or orchestrator''
       (bundleAddress sha256Hex jobId role))"

text \<open>\<open>snapshot\<close> is the owned copy of a foreign object that the lookup takes first; it rejects what is not
  plain JSON data.\<close>

definition captureBundleCopyRead :: "(json \<Rightarrow> json res) \<Rightarrow> json \<Rightarrow> string \<Rightarrow> copy_read" where
  "captureBundleCopyRead snapshot value jobId =
     (case snapshot value of
        Inr (JObj captured) \<Rightarrow>
          (case member_of captured ''disposition'' of
             JStr disposition \<Rightarrow>
               if disposition = ''absent'' then Absent
               else if disposition = ''indeterminate'' then Indeterminate
               else if disposition \<noteq> ''present'' then Indeterminate
               else (case member_of captured ''bundle'' of
                       JObj b \<Rightarrow>
                         (case member_of b ''jobId'' of
                            JStr j \<Rightarrow> if j = [] then Indeterminate else if j \<noteq> jobId then Absent else Present b
                          | _ \<Rightarrow> Indeterminate)
                     | _ \<Rightarrow> Indeterminate)
           | _ \<Rightarrow> Indeterminate)
      | _ \<Rightarrow> Indeterminate)"

text \<open>\<open>read\<close> is the substrate reader; its exception is the left summand.\<close>

definition lookupBundleCopies ::
  "(string \<Rightarrow> string) \<Rightarrow> (json \<Rightarrow> json res) \<Rightarrow> string \<Rightarrow> (string \<Rightarrow> string \<Rightarrow> json res) \<Rightarrow> bundle_copies res" where
  "lookupBundleCopies sha256Hex snapshot jobId read =
     bindR (jid1BundleAddress sha256Hex jobId ''buyer'') (\<lambda>buyerAddress.
     bindR (jid1BundleAddress sha256Hex jobId ''seller'') (\<lambda>sellerAddress.
       (let lookup = (\<lambda>address role.
              case read address role of
                Inl _ \<Rightarrow> Indeterminate
              | Inr value \<Rightarrow> captureBundleCopyRead snapshot value jobId)
        in Inr \<lparr>copy_buyer = lookup buyerAddress ''buyer'', copy_seller = lookup sellerAddress ''seller''\<rparr>)))"

text \<open>\<open>isValid\<close> is the validator the caller wires (its exception is the left summand), or none.\<close>

type_synonym validity_gate = "bundle_json \<Rightarrow> string \<Rightarrow> bool res"

definition validate_copy :: "validity_gate option \<Rightarrow> copy_read \<Rightarrow> string \<Rightarrow> bundle_json option res" where
  "validate_copy gate copy role =
     (case copy of
        Present b \<Rightarrow>
          (case gate of
             None \<Rightarrow> Inr (Some b)
           | Some isValid \<Rightarrow>
               bindR (isValid b role) (\<lambda>validity.
                 ensure validity ''bundleConsistency rejected invalid content'' (Inr (Some b))))
      | _ \<Rightarrow> Inr None)"

definition bundleConsistency :: "bundle_copies \<Rightarrow> validity_gate option \<Rightarrow> bool \<Rightarrow> consistency_verdict res" where
  "bundleConsistency copies gate trustBundles =
     ensure (gate \<noteq> None \<or> trustBundles) ''bundleConsistency requires deps.isValid''
     (bindR (validate_copy gate (copy_buyer copies) ''buyer'') (\<lambda>buyer.
      bindR (validate_copy gate (copy_seller copies) ''seller'') (\<lambda>seller.
        Inr (case (buyer, seller) of
               (Some a, Some b) \<Rightarrow> if bundlesDiverge a b then Divergent else Unified
             | _ \<Rightarrow>
                 if copy_buyer copies = Indeterminate \<or> copy_seller copies = Indeterminate
                 then Verdict_Indeterminate
                 else if buyer \<noteq> None \<or> seller \<noteq> None then OneSided
                 else Verdict_Absent))))"

record selection =
  sel_role :: string
  sel_type :: artifact_type
  sel_bundle :: bundle_json

definition select_copy :: "validity_gate \<Rightarrow> copy_read \<Rightarrow> string \<Rightarrow> selection list res" where
  "select_copy isValid copy role =
     (case copy of
        Present b \<Rightarrow>
          bindR (isValid b role) (\<lambda>validity.
            Inr (if \<not> validity then []
                 else (case bundleArtifactType b of
                         None \<Rightarrow> []
                       | Some t \<Rightarrow> [\<lparr>sel_role = role, sel_type = t, sel_bundle = b\<rparr>])))
      | _ \<Rightarrow> Inr [])"

text \<open>The sort of at most two candidates: the higher rank first, the buyer first among equals.\<close>

definition selectAuthoritativeBundleCopy :: "bundle_copies \<Rightarrow> validity_gate option \<Rightarrow> selection option res" where
  "selectAuthoritativeBundleCopy copies gate =
     (case gate of
        None \<Rightarrow> throw ''selectAuthoritativeBundleCopy requires a complete validity gate''
      | Some isValid \<Rightarrow>
          bindR (select_copy isValid (copy_buyer copies) ''buyer'') (\<lambda>buyer.
          bindR (select_copy isValid (copy_seller copies) ''seller'') (\<lambda>seller.
            Inr (case buyer @ seller of
                   [] \<Rightarrow> None
                 | [x] \<Rightarrow> Some x
                 | x # y # _ \<Rightarrow>
                     if bundlesDiverge (sel_bundle x) (sel_bundle y) then None
                     else if bundleArtifactTypeRank (sel_bundle x) < bundleArtifactTypeRank (sel_bundle y)
                     then Some y else Some x))))"

section \<open>Divergence is symmetric\<close>

lemma strictEq_sym: "strictEq v w \<longleftrightarrow> strictEq w v"
  by (cases "(v, w)" rule: strictEq.cases; cases w rule: orNull.cases) (auto elim: strictEq.elims)

lemma equal_length_subset:
  assumes "distinct xs" "distinct ys" "length xs = length ys" "set xs \<subseteq> set ys"
  shows "set xs = set ys"
  using assms by (metis card_subset_eq distinct_card finite_set)

lemma canonicalRefs_distinct: "canonicalRefs b = Some rs \<Longrightarrow> distinct rs"
  by (auto simp: canonicalRefs_def split: json.splits sum.splits)

lemma evidenceDiverges_iff:
  "\<not> evidenceDiverges a b \<longleftrightarrow>
     (\<exists>ra rb. canonicalRefs a = Some ra \<and> canonicalRefs b = Some rb \<and> set ra = set rb)"
proof -
  have "length ra \<noteq> length rb \<or> list_ex (\<lambda>r. r \<notin> set rb) ra \<longleftrightarrow> set ra \<noteq> set rb"
    if "canonicalRefs a = Some ra" "canonicalRefs b = Some rb" for ra rb
    using canonicalRefs_distinct [OF that(1)] canonicalRefs_distinct [OF that(2)] equal_length_subset [of ra rb]
    by (metis distinct_card list_ex_iff subsetI)
  then show ?thesis by (auto simp: evidenceDiverges_def split: option.splits)
qed

lemma evidenceDiverges_sym: "evidenceDiverges a b \<longleftrightarrow> evidenceDiverges b a"
  using evidenceDiverges_iff [of a b] evidenceDiverges_iff [of b a] by metis

lemma phases_from_distinct:
  "phases_from out ps = Some r \<Longrightarrow> distinct (map fst out) \<Longrightarrow> distinct (map fst r)"
  by (induction ps arbitrary: out) (auto split: json.splits if_splits)

lemma phasesByIndex_distinct: "phasesByIndex b = Some r \<Longrightarrow> distinct (map fst r)"
  by (auto simp: phasesByIndex_def intro: phases_from_distinct)

lemma phaseDiffers_sym: "phaseDiffers p q \<longleftrightarrow> phaseDiffers q p"
  by (auto simp: phaseDiffers_def strictEq_sym)

text \<open>Copies agree on their phases when the same indices occur and each phase agrees.\<close>

definition same_phases :: "(jsnumber \<times> bundle_json) list \<Rightarrow> (jsnumber \<times> bundle_json) list \<Rightarrow> bool" where
  "same_phases ai bi \<longleftrightarrow>
     fst ` set ai = fst ` set bi \<and>
     (\<forall>i pa pb. map_of ai i = Some pa \<longrightarrow> map_of bi i = Some pb \<longrightarrow> \<not> phaseDiffers pa pb)"

lemma same_phases_sym: "same_phases ai bi \<longleftrightarrow> same_phases bi ai"
  unfolding same_phases_def using phaseDiffers_sym by metis

lemma phasesDiverge_iff:
  "\<not> phasesDiverge a b \<longleftrightarrow>
     (\<exists>ai bi. phasesByIndex a = Some ai \<and> phasesByIndex b = Some bi \<and> same_phases ai bi)"
proof -
  have "length ai = length bi \<and> \<not> list_ex (\<lambda>(i, pa). case map_of bi i of None \<Rightarrow> True | Some pb \<Rightarrow> phaseDiffers pa pb) ai
        \<longleftrightarrow> same_phases ai bi"
    if "phasesByIndex a = Some ai" "phasesByIndex b = Some bi" for ai bi
  proof
    have d: "distinct (map fst ai)" "distinct (map fst bi)"
      using phasesByIndex_distinct that by auto
    assume *: "length ai = length bi \<and>
      \<not> list_ex (\<lambda>(i, pa). case map_of bi i of None \<Rightarrow> True | Some pb \<Rightarrow> phaseDiffers pa pb) ai"
    then have in_b: "\<exists>pb. map_of bi i = Some pb \<and> \<not> phaseDiffers pa pb" if "(i, pa) \<in> set ai" for i pa
      using that by (fastforce simp: list_ex_iff split: option.splits)
    have "set (map fst ai) \<subseteq> set (map fst bi)"
    proof
      fix i assume "i \<in> set (map fst ai)"
      then obtain pa where "(i, pa) \<in> set ai" by auto
      from in_b [OF this] show "i \<in> set (map fst bi)" by (auto dest: map_of_SomeD intro: rev_image_eqI)
    qed
    then have "set (map fst ai) = set (map fst bi)" using equal_length_subset [OF d] * by simp
    then show "same_phases ai bi" using in_b by (fastforce simp: same_phases_def dest: map_of_SomeD)
  next
    have d: "distinct (map fst ai)" "distinct (map fst bi)"
      using phasesByIndex_distinct that by auto
    assume *: "same_phases ai bi"
    then have "set (map fst ai) = set (map fst bi)" by (simp add: same_phases_def)
    then have "length ai = length bi" using d by (metis distinct_card length_map)
    moreover have "(case map_of bi i of None \<Rightarrow> True | Some pb \<Rightarrow> phaseDiffers pa pb) = False"
      if "(i, pa) \<in> set ai" for i pa
    proof -
      have "i \<in> fst ` set bi" using that * by (force simp: same_phases_def)
      then obtain pb where "map_of bi i = Some pb" by (metis map_of_eq_None_iff not_None_eq)
      moreover have "map_of ai i = Some pa" using that d(1) by simp
      ultimately show ?thesis using * by (simp add: same_phases_def)
    qed
    ultimately show "length ai = length bi \<and>
      \<not> list_ex (\<lambda>(i, pa). case map_of bi i of None \<Rightarrow> True | Some pb \<Rightarrow> phaseDiffers pa pb) ai"
      by (auto simp: list_ex_iff)
  qed
  then show ?thesis by (auto simp: phasesDiverge_def split: option.splits)
qed

lemma phasesDiverge_sym: "phasesDiverge a b \<longleftrightarrow> phasesDiverge b a"
  using phasesDiverge_iff [of a b] phasesDiverge_iff [of b a] same_phases_sym by metis

text \<open>The six outcomes, their class and their flip.\<close>

fun class_of :: "session_outcome \<Rightarrow> outcome_class" where
  "class_of Completed = Class_Completed"
| "class_of Outcome_Failed_Substrate = Class_Failed_Substrate"
| "class_of Failed_Perm = Class_Failure"
| "class_of Failed_Counterparty = Class_Failure"
| "class_of Outcome_Aborted_By_Self = Class_Abort"
| "class_of Outcome_Aborted_By_Other = Class_Abort"

fun flipped :: "session_outcome \<Rightarrow> session_outcome" where
  "flipped Failed_Perm = Failed_Counterparty"
| "flipped Failed_Counterparty = Failed_Perm"
| "flipped Outcome_Aborted_By_Self = Outcome_Aborted_By_Other"
| "flipped Outcome_Aborted_By_Other = Outcome_Aborted_By_Self"
| "flipped x = x"

lemma outcome_name_inject [simp]: "outcome_name x = outcome_name y \<longleftrightarrow> x = y"
  by (cases x; cases y) simp_all

lemma bundleOutcomeClass_name [simp]: "bundleOutcomeClass (JStr (outcome_name x)) = Some (class_of x)"
  by (cases x) (simp_all add: bundleOutcomeClass_def)

lemma bundleOutcomeClass_Some:
  assumes "bundleOutcomeClass v = Some c"
  obtains x where "v = JStr (outcome_name x)" "c = class_of x"
proof -
  from assms have "\<exists>x. v = JStr (outcome_name x)"
    unfolding bundleOutcomeClass_def by (metis option.distinct(1) outcome_name.simps)
  then show thesis using that assms by auto
qed

lemma flipped_flipped [simp]: "flipped (flipped x) = x"
  by (cases x) simp_all

lemma perspectiveFlip_name [simp]: "perspectiveFlip (JStr (outcome_name x)) = Some (flipped x)"
  by (cases x) (simp_all add: perspectiveFlip_def isBundleOutcome_def BUNDLE_OUTCOMES_def)

lemma flipped_eq: "x = flipped y \<longleftrightarrow> y = flipped x"
  by (metis flipped_flipped)

lemma outcomeDiverges_sym:
  assumes "bundleOutcomeClass (member_of a ''outcome'') = Some c" "bundleOutcomeClass (member_of b ''outcome'') = Some d"
  shows "outcomeDiverges a b \<longleftrightarrow> outcomeDiverges b a"
proof -
  obtain x where x: "member_of a ''outcome'' = JStr (outcome_name x)"
    using assms(1) by (rule bundleOutcomeClass_Some)
  obtain y where y: "member_of b ''outcome'' = JStr (outcome_name y)"
    using assms(2) by (rule bundleOutcomeClass_Some)
  show ?thesis
    by (cases "isAbsoluteFaultBundle a"; cases "isAbsoluteFaultBundle b")
      (auto simp: outcomeDiverges_def Let_def x y strictEq_sym flipped_eq split: json.splits)
qed

lemma bundlesDiverge_sym: "bundlesDiverge a b = bundlesDiverge b a"
proof (cases "bundleOutcomeClass (member_of a ''outcome'') = None \<or> bundleOutcomeClass (member_of b ''outcome'') = None")
  case True
  then show ?thesis by (auto simp: bundlesDiverge_def Let_def)
next
  case False
  then obtain c d where cd: "bundleOutcomeClass (member_of a ''outcome'') = Some c"
    "bundleOutcomeClass (member_of b ''outcome'') = Some d" by auto
  show ?thesis
    using outcomeDiverges_sym [OF cd] evidenceDiverges_sym [of a b] phasesDiverge_sym [of a b]
    by (auto simp: bundlesDiverge_def Let_def)
qed

text \<open>
  Whether two copies contradict each other does not depend on which of them is looked at first, for
  any two JSON objects, malformed ones included.
\<close>

theorem bundlesDiverge_symmetric: "bundlesDiverge a b = bundlesDiverge b a"
  by (rule bundlesDiverge_sym)

section \<open>Copies that agree give every party the same outcome\<close>

text \<open>A copy of a two-party session: anchored by one of the two parties it lists.\<close>

definition two_party :: "bundle_json \<Rightarrow> bool" where
  "two_party b \<longleftrightarrow>
     set (partyRoles b) = {''buyer'', ''seller''} \<and>
     (member_of b ''anchoredByRole'' = JStr ''buyer'' \<or> member_of b ''anchoredByRole'' = JStr ''seller'')"

lemma implied_two_party:
  assumes "two_party b" "member_of b ''anchoredByRole'' = JStr anchor" "member_of b ''outcome'' = JStr (outcome_name x)"
    and "class_of x = Class_Failure \<or> class_of x = Class_Abort"
  shows "set (legacyImpliedFaultSet b) =
         {if x = Failed_Perm \<or> x = Outcome_Aborted_By_Self then anchor
          else if anchor = ''buyer'' then ''seller'' else ''buyer''}"
proof -
  have "anchor = ''buyer'' \<or> anchor = ''seller''" using assms(1,2) by (auto simp: two_party_def)
  moreover have "set (partyRoles b) = {''buyer'', ''seller''}" using assms(1) by (simp add: two_party_def)
  ultimately show ?thesis
    using assms(4) by (cases x) (auto simp: legacyImpliedFaultSet_def Let_def assms(2,3) party_role_names_def)
qed

lemma scored_blameless:
  assumes "bundleOutcomeClass (member_of b ''outcome'') = Some c" "c = Class_Completed \<or> c = Class_Failed_Substrate"
  shows "scoredBundleOutcome b role = Some (if c = Class_Completed then Completed else Outcome_Failed_Substrate)"
  using assms by (auto simp: scoredBundleOutcome_def roleRelativeOutcome_def Let_def)

lemma scored_absolute:
  assumes "isAbsoluteFaultBundle b" "bundleOutcomeClass (member_of b ''outcome'') = Some c"
  shows "scoredBundleOutcome b role = Some (roleRelativeOutcome c (member_of b ''faultedParty'') role)"
  using assms by (simp add: scoredBundleOutcome_def)

lemma scored_legacy:
  assumes "\<not> isAbsoluteFaultBundle b" "bundleOutcomeClass (member_of b ''outcome'') = Some c"
    and "c = Class_Failure \<or> c = Class_Abort" "set (legacyImpliedFaultSet b) = {f}" "role = ''buyer'' \<or> role = ''seller''"
  shows "scoredBundleOutcome b role = Some (roleRelativeOutcome c (JStr f) role)"
  using assms by (auto simp: scoredBundleOutcome_def roleRelativeOutcome_def Let_def)

lemma legacy_pair_same_fault:
  assumes "\<not> outcomeDiverges a b" "\<not> isAbsoluteFaultBundle a" "\<not> isAbsoluteFaultBundle b" "two_party a" "two_party b"
    and "member_of a ''outcome'' = JStr (outcome_name x)" "member_of b ''outcome'' = JStr (outcome_name y)"
    and "class_of x = Class_Failure \<or> class_of x = Class_Abort"
  shows "set (legacyImpliedFaultSet a) = set (legacyImpliedFaultSet b)"
proof -
  obtain p where p: "member_of a ''anchoredByRole'' = JStr p" "p = ''buyer'' \<or> p = ''seller''"
    using assms(4) by (auto simp: two_party_def)
  obtain q where q: "member_of b ''anchoredByRole'' = JStr q" "q = ''buyer'' \<or> q = ''seller''"
    using assms(5) by (auto simp: two_party_def)
  have x: "x = (if p = q then y else flipped y)"
    using assms(1) p q unfolding outcomeDiverges_def Let_def assms(6,7) p(1) q(1)
    by (auto simp: assms(2,3) split: if_splits)
  then have "class_of y = Class_Failure \<or> class_of y = Class_Abort"
    using assms(8) by (cases y) (auto split: if_splits)
  from implied_two_party [OF assms(4) p(1) assms(6,8)] implied_two_party [OF assms(5) q(1) assms(7) this]
  show ?thesis using x p(2) q(2) assms(8) by (cases y) (auto split: if_splits)
qed

lemma mixed_pair_same_fault:
  assumes "\<not> outcomeDiverges a b" "isAbsoluteFaultBundle a" "\<not> isAbsoluteFaultBundle b"
    and "set (legacyImpliedFaultSet b) = {f}"
  shows "member_of a ''faultedParty'' = JStr f"
  using assms by (auto simp: outcomeDiverges_def split: json.splits)

lemma two_party_implied_singleton:
  assumes "two_party b" "member_of b ''outcome'' = JStr (outcome_name x)"
    and "class_of x = Class_Failure \<or> class_of x = Class_Abort"
  obtains f where "set (legacyImpliedFaultSet b) = {f}"
  using assms implied_two_party [OF assms(1) _ assms(2,3)] by (auto simp: two_party_def)

text \<open>
  If two copies of a two-party session do not contradict each other, they give the buyer the same
  outcome and the seller the same outcome, whichever copy is scored and whichever mixture of
  legacy and absolute-fault artifacts the two are.
\<close>

theorem agreeing_copies_score_alike:
  assumes "\<not> bundlesDiverge a b" "two_party a" "two_party b" "role = ''buyer'' \<or> role = ''seller''"
  shows "scoredBundleOutcome a role = scoredBundleOutcome b role"
proof -
  from assms(1) obtain c where c: "bundleOutcomeClass (member_of a ''outcome'') = Some c"
      "bundleOutcomeClass (member_of b ''outcome'') = Some c"
    and nd: "\<not> outcomeDiverges a b" by (auto simp: bundlesDiverge_def Let_def)
  have nd': "\<not> outcomeDiverges b a" using nd outcomeDiverges_sym [OF c] by simp
  obtain x where x: "member_of a ''outcome'' = JStr (outcome_name x)" "c = class_of x"
    using c(1) by (rule bundleOutcomeClass_Some)
  obtain y where y: "member_of b ''outcome'' = JStr (outcome_name y)" "c = class_of y"
    using c(2) by (rule bundleOutcomeClass_Some)
  show ?thesis
  proof (cases "c = Class_Completed \<or> c = Class_Failed_Substrate")
    case True
    then show ?thesis using scored_blameless [OF c(1) True] scored_blameless [OF c(2) True] by simp
  next
    case False
    then have fail: "c = Class_Failure \<or> c = Class_Abort" by (cases c) simp_all
    obtain f where f: "set (legacyImpliedFaultSet a) = {f}"
      using two_party_implied_singleton [OF assms(2) x(1)] fail x(2) by auto
    obtain g where g: "set (legacyImpliedFaultSet b) = {g}"
      using two_party_implied_singleton [OF assms(3) y(1)] fail y(2) by auto
    note la = scored_legacy [OF _ c(1) fail f assms(4)] and lb = scored_legacy [OF _ c(2) fail g assms(4)]
    show ?thesis
    proof (cases "isAbsoluteFaultBundle a"; cases "isAbsoluteFaultBundle b")
      assume ab: "isAbsoluteFaultBundle a" "isAbsoluteFaultBundle b"
      then have "member_of a ''faultedParty'' = member_of b ''faultedParty''"
        using nd by (cases "(member_of a ''faultedParty'', member_of b ''faultedParty'')" rule: strictEq.cases)
          (simp_all add: outcomeDiverges_def)
      then show ?thesis using scored_absolute [OF ab(1) c(1)] scored_absolute [OF ab(2) c(2)] by simp
    next
      assume ab: "isAbsoluteFaultBundle a" "\<not> isAbsoluteFaultBundle b"
      then show ?thesis
        using scored_absolute [OF ab(1) c(1)] lb mixed_pair_same_fault [OF nd ab g] by simp
    next
      assume ab: "\<not> isAbsoluteFaultBundle a" "isAbsoluteFaultBundle b"
      then show ?thesis
        using scored_absolute [OF ab(2) c(2)] la mixed_pair_same_fault [OF nd' ab(2,1) f] by simp
    next
      assume ab: "\<not> isAbsoluteFaultBundle a" "\<not> isAbsoluteFaultBundle b"
      have "f = g" using legacy_pair_same_fault [OF nd ab assms(2,3) x(1) y(1)] fail x(2) f g by auto
      then show ?thesis using la lb ab by simp
    qed
  qed
qed

definition sample_parties :: json where
  "sample_parties = JArr [JObj [(''role'', JStr ''buyer'')], JObj [(''role'', JStr ''seller'')]]"

definition sample_legacy :: bundle_json where
  "sample_legacy =
     [(''bundleVersion'', JStr ''1''), (''jobId'', JStr ''j''), (''anchoredByRole'', JStr ''buyer''),
      (''outcome'', JStr ''failed-counterparty''), (''parties'', sample_parties), (''phaseSummary'', JArr [])]"

definition sample_fault :: bundle_json where
  "sample_fault =
     [(''faultBundleVersion'', JStr ''1''), (''jobId'', JStr ''j''), (''anchoredByRole'', JStr ''seller''),
      (''faultedParty'', JStr ''seller''), (''outcome'', JStr ''failed-perm''), (''parties'', sample_parties),
      (''phaseSummary'', JArr [])]"

theorem agreeing_copies_score_alike_witness:
  "\<not> bundlesDiverge sample_legacy sample_fault \<and> two_party sample_legacy \<and> two_party sample_fault \<and>
   scoredBundleOutcome sample_legacy ''buyer'' = scoredBundleOutcome sample_fault ''buyer'' \<and>
   scoredBundleOutcome sample_fault ''buyer'' = Some Failed_Counterparty"
proof -
  have d: "\<not> bundlesDiverge sample_legacy sample_fault" by code_simp
  have scored: "scoredBundleOutcome sample_fault ''buyer'' = Some Failed_Counterparty" by code_simp
  have t: "two_party sample_legacy" "two_party sample_fault"
    by (simp_all add: two_party_def partyRoles_def sample_legacy_def sample_fault_def sample_parties_def
        member_of_def party_role_names_def insert_commute)
  show ?thesis
    using agreeing_copies_score_alike [OF d t, of "''buyer''"] d t scored by simp
qed

section \<open>The verdict on two copies fails closed\<close>

lemma validate_copy_Inr:
  "validate_copy gate copy role = Inr r \<longleftrightarrow>
     (case copy of
        Present b \<Rightarrow> r = Some b \<and> (\<forall>isValid. gate = Some isValid \<longrightarrow> isValid b role = Inr True)
      | _ \<Rightarrow> r = None)"
  by (auto simp: validate_copy_def bindR_Inr ensure_Inr split: copy_read.splits option.splits)

definition accepted :: "validity_gate option \<Rightarrow> copy_read \<Rightarrow> string \<Rightarrow> bool" where
  "accepted gate copy role \<longleftrightarrow>
     (\<forall>b isValid. copy = Present b \<longrightarrow> gate = Some isValid \<longrightarrow> isValid b role = Inr True)"

lemma bundleConsistency_Inr:
  "bundleConsistency copies gate trust = Inr v \<longleftrightarrow>
     (gate \<noteq> None \<or> trust) \<and> accepted gate (copy_buyer copies) ''buyer'' \<and> accepted gate (copy_seller copies) ''seller'' \<and>
     v = (case (copy_buyer copies, copy_seller copies) of
            (Present a, Present b) \<Rightarrow> if bundlesDiverge a b then Divergent else Unified
          | (Present a, Absent) \<Rightarrow> OneSided
          | (Absent, Present b) \<Rightarrow> OneSided
          | (Absent, Absent) \<Rightarrow> Verdict_Absent
          | _ \<Rightarrow> Verdict_Indeterminate)"
  by (cases "copy_buyer copies"; cases "copy_seller copies")
    (auto simp: bundleConsistency_def bindR_Inr ensure_Inr validate_copy_Inr accepted_def)

lemma capture_Present:
  "captureBundleCopyRead snapshot value jobId = Present b \<Longrightarrow> member_of b ''jobId'' = JStr jobId"
  by (auto simp: captureBundleCopyRead_def split: sum.splits json.splits if_splits)

text \<open>What the reader reported at the address of a role.\<close>

definition lookup_copy ::
  "(json \<Rightarrow> json res) \<Rightarrow> string \<Rightarrow> (string \<Rightarrow> string \<Rightarrow> json res) \<Rightarrow> string \<Rightarrow> string \<Rightarrow> copy_read" where
  "lookup_copy snapshot jobId read addr role =
     (case read addr role of Inl _ \<Rightarrow> Indeterminate | Inr value \<Rightarrow> captureBundleCopyRead snapshot value jobId)"

lemma lookupBundleCopies_Inr:
  assumes "lookupBundleCopies sha256Hex snapshot jobId read = Inr copies"
  shows "isCanonicalJobId jobId"
    and "copy_buyer copies = lookup_copy snapshot jobId read (legacyBundleAddress sha256Hex jobId ''buyer'') ''buyer''"
    and "copy_seller copies = lookup_copy snapshot jobId read (legacyBundleAddress sha256Hex jobId ''seller'') ''seller''"
  using assms
  by (auto simp: lookupBundleCopies_def jid1BundleAddress_def bundleAddress_def requireCanonicalJobId_def
      bindR_Inr ensure_Inr lookup_copy_def Let_def)

text \<open>
  Looking up the two copies of a job and classifying them fails closed. A verdict that rests on the absence
  of a copy is reached only when the reader answered at both addresses; a unified or divergent
  verdict only on two copies that carry the job id; and whatever copy took part in a verdict was
  accepted by the validity gate, if one is wired.
\<close>

theorem bundle_verdict_fails_closed:
  assumes "lookupBundleCopies sha256Hex snapshot jobId read = Inr copies"
    and "bundleConsistency copies gate trust = Inr v"
  shows "(v = Verdict_Absent \<or> v = OneSided \<longrightarrow>
           isOk (read (legacyBundleAddress sha256Hex jobId ''buyer'') ''buyer'') \<and>
           isOk (read (legacyBundleAddress sha256Hex jobId ''seller'') ''seller'')) \<and>
         (v = Unified \<or> v = Divergent \<longrightarrow>
           (\<exists>a b. copy_buyer copies = Present a \<and> copy_seller copies = Present b \<and>
              member_of a ''jobId'' = JStr jobId \<and> member_of b ''jobId'' = JStr jobId \<and>
              bundlesDiverge a b = (v = Divergent))) \<and>
         accepted gate (copy_buyer copies) ''buyer'' \<and> accepted gate (copy_seller copies) ''seller''"
proof (intro conjI impI)
  note L = lookupBundleCopies_Inr [OF assms(1)] and V = assms(2) [unfolded bundleConsistency_Inr]
  show "accepted gate (copy_buyer copies) ''buyer''" "accepted gate (copy_seller copies) ''seller''"
    using V by simp_all
  {
    assume "v = Verdict_Absent \<or> v = OneSided"
    then have "copy_buyer copies \<noteq> Indeterminate" "copy_seller copies \<noteq> Indeterminate"
      using V by (auto split: copy_read.splits if_splits)
    then show "isOk (read (legacyBundleAddress sha256Hex jobId ''buyer'') ''buyer'')"
      and "isOk (read (legacyBundleAddress sha256Hex jobId ''seller'') ''seller'')"
      unfolding L(2,3) by (auto simp: lookup_copy_def isOk_def split: sum.splits)
  next
    assume "v = Unified \<or> v = Divergent"
    then obtain a b where ab: "copy_buyer copies = Present a" "copy_seller copies = Present b"
      using V by (auto split: copy_read.splits if_splits)
    then have "bundlesDiverge a b = (v = Divergent)" using V by simp
    moreover have "member_of a ''jobId'' = JStr jobId" "member_of b ''jobId'' = JStr jobId"
      using ab unfolding L(2,3) by (auto simp: lookup_copy_def split: sum.splits dest: capture_Present)
    ultimately show "\<exists>a b. copy_buyer copies = Present a \<and> copy_seller copies = Present b \<and>
              member_of a ''jobId'' = JStr jobId \<and> member_of b ''jobId'' = JStr jobId \<and>
              bundlesDiverge a b = (v = Divergent)" using ab by blast
  }
qed

text \<open>A reader that finds the copy of the buyer and reports the copy of the seller absent.\<close>

definition sample_jobId :: string where
  "sample_jobId = ''01234567890123456789012345''"

definition sample_read :: "string \<Rightarrow> string \<Rightarrow> json res" where
  "sample_read addr role =
     (if role = ''buyer''
      then Inr (JObj [(''disposition'', JStr ''present''), (''bundle'', JObj [(''jobId'', JStr sample_jobId)])])
      else Inr (JObj [(''disposition'', JStr ''absent'')]))"

theorem bundle_verdict_fails_closed_witness:
  "lookupBundleCopies id Inr sample_jobId sample_read =
     Inr \<lparr>copy_buyer = Present [(''jobId'', JStr sample_jobId)], copy_seller = Absent\<rparr> \<and>
   bundleConsistency \<lparr>copy_buyer = Present [(''jobId'', JStr sample_jobId)], copy_seller = Absent\<rparr>
     (Some (\<lambda>_ _. Inr True)) False = Inr OneSided \<and>
   isOk (sample_read (legacyBundleAddress id sample_jobId ''seller'') ''seller'')"
proof -
  have l: "lookupBundleCopies id Inr sample_jobId sample_read =
     Inr \<lparr>copy_buyer = Present [(''jobId'', JStr sample_jobId)], copy_seller = Absent\<rparr>" by code_simp
  have c: "bundleConsistency \<lparr>copy_buyer = Present [(''jobId'', JStr sample_jobId)], copy_seller = Absent\<rparr>
     (Some (\<lambda>_ _. Inr True)) False = Inr OneSided" by code_simp
  show ?thesis using bundle_verdict_fails_closed [OF l c] l c by simp
qed

end
