(* ===== verification/Dacs_Reputation.thy ===== *)
theory Dacs_Reputation
  imports Dacs_Bundle Dacs_Claims Dacs_Snapshot "HOL-Library.Multiset"
begin

text \<open>
  Reputation derived from attestation bundles: the plain counts
  (\<^verbatim>\<open>src/src/agent/reputation.ts\<close>) and the windowed derivation with its rates
  (\<^verbatim>\<open>agent/reputationDerivation.ts\<close>, the synchronous scorer).

  The bundles are validated artifacts: the job id is a text, the parties are objects, and
  \<^verbatim>\<open>finalisedAt\<close> is an integer. A rate is the exact quotient of two counts. The order of
  \<^verbatim>\<open>localeCompare\<close>, which depends on the platform, is the parameter \<open>before\<close>.
\<close>

section \<open>Reading a bundle\<close>

definition bundle_jobId :: "bundle_json \<Rightarrow> string" where
  "bundle_jobId b = (case member_of b ''jobId'' of JStr j \<Rightarrow> j | _ \<Rightarrow> [])"

definition bundle_finalisedAt :: "bundle_json \<Rightarrow> int" where
  "bundle_finalisedAt b = (case member_of b ''finalisedAt'' of JNum (JInt i) \<Rightarrow> i | _ \<Rightarrow> 0)"

definition bundle_parties :: "bundle_json \<Rightarrow> bundle_json list" where
  "bundle_parties b = objects_of (member_of b ''parties'')"

definition parse_claim :: "(string \<Rightarrow> bool) \<Rightarrow> json \<Rightarrow> claim_parts option" where
  "parse_claim hostname v = (case v of JStr s \<Rightarrow> parseCanonicalClaimReference hostname s | _ \<Rightarrow> None)"

definition party_has_claim :: "(string \<Rightarrow> bool) \<Rightarrow> string \<Rightarrow> bundle_json \<Rightarrow> bool" where
  "party_has_claim hostname claim party =
     (case member_of party ''primaryClaim'' of JStr s \<Rightarrow> sameCanonicalClaimIdentity hostname s claim | _ \<Rightarrow> False)"

section \<open>Grouping copies by job\<close>

text \<open>The insertion-ordered \<^verbatim>\<open>Map\<close> from job ids to copies.\<close>

fun push_copy :: "(string \<times> bundle_json list) list \<Rightarrow> bundle_json \<Rightarrow> (string \<times> bundle_json list) list" where
  "push_copy [] b = [(bundle_jobId b, [b])]"
| "push_copy ((j, cs) # rest) b =
     (if j = bundle_jobId b then (j, cs @ [b]) # rest else (j, cs) # push_copy rest b)"

definition group_by_job :: "bundle_json list \<Rightarrow> (string \<times> bundle_json list) list" where
  "group_by_job bs = foldl push_copy [] bs"

text \<open>The double loop over the copies of a job.\<close>

fun copiesDiverge :: "bundle_json list \<Rightarrow> bool" where
  "copiesDiverge [] = False"
| "copiesDiverge (c # cs) \<longleftrightarrow> list_ex (bundlesDiverge c) cs \<or> copiesDiverge cs"

section \<open>Counts\<close>

record reputation_exclusion =
  ex_code :: string
  ex_jobId :: string
  ex_reason :: string

record reputation =
  rep_primaryClaim :: string
  rep_totalAgreements :: nat
  rep_completed :: nat
  rep_avgRating :: "rat option"
  rep_exclusions :: "reputation_exclusion list"

fun insort_job :: "(string \<Rightarrow> string \<Rightarrow> bool) \<Rightarrow> string \<times> 'a \<Rightarrow> (string \<times> 'a) list \<Rightarrow> (string \<times> 'a) list" where
  "insort_job before x [] = [x]"
| "insort_job before x (y # ys) =
     (if before (fst x) (fst y) then x # y # ys else y # insort_job before x ys)"

definition sort_jobs :: "(string \<Rightarrow> string \<Rightarrow> bool) \<Rightarrow> (string \<times> 'a) list \<Rightarrow> (string \<times> 'a) list" where
  "sort_jobs before xs = foldr (insort_job before) xs []"

definition is_completed :: "bundle_json \<Rightarrow> bool" where
  "is_completed b \<longleftrightarrow> member_of b ''outcome'' = JStr ''completed''"

fun score_jobs ::
  "(string \<times> bundle_json list) list \<Rightarrow> nat \<times> nat \<times> reputation_exclusion list \<Rightarrow> nat \<times> nat \<times> reputation_exclusion list" where
  "score_jobs [] acc = acc"
| "score_jobs ((j, copies) # jobs) (agreed, completed, exclusions) =
     (if copiesDiverge copies
      then score_jobs jobs (agreed, completed, exclusions @
             [\<lparr>ex_code = ''divergent-copies'', ex_jobId = j,
               ex_reason = ''same-job bundle copies canonically diverge''\<rparr>])
      else score_jobs jobs (agreed + 1, (if list_ex is_completed copies then completed + 1 else completed), exclusions))"

definition involves :: "(string \<Rightarrow> bool) \<Rightarrow> claim_identity \<Rightarrow> bundle_json \<Rightarrow> bool" where
  "involves hostname subject b =
     list_ex (\<lambda>party. case parse_claim hostname (member_of party ''primaryClaim'') of
                None \<Rightarrow> False
              | Some parsed \<Rightarrow> ci_scheme (cp_identity parsed) = ci_scheme subject \<and>
                               ci_identifier (cp_identity parsed) = ci_identifier subject) (bundle_parties b)"

definition computeReputation ::
  "(string \<Rightarrow> bool) \<Rightarrow> (string \<Rightarrow> string \<Rightarrow> bool) \<Rightarrow> string \<Rightarrow> bundle_json list \<Rightarrow> reputation res" where
  "computeReputation hostname before primaryClaim bundles =
     bindR (requireCanonicalClaimReference hostname primaryClaim) (\<lambda>parsed.
       let subject = cp_identity parsed;
           mineByJob = group_by_job (filter (involves hostname subject) bundles)
       in (case score_jobs (sort_jobs before mineByJob) (0, 0, []) of
             (agreed, completed, exclusions) \<Rightarrow>
               Inr \<lparr>rep_primaryClaim = identity_text subject, rep_totalAgreements = agreed, rep_completed = completed,
                    rep_avgRating = None, rep_exclusions = exclusions\<rparr>))"

section \<open>The windowed derivation\<close>

datatype windowing_basis = FinalisedAt | Sr2_Anchor_Timestamp

record reputation_metrics =
  m_completionRate :: "rat option"
  m_counterpartyFaultRate :: "rat option"
  m_counterpartyAdjustedCompletionRate :: "rat option"
  m_averageBuyerRating :: "rat option"
  m_averageSellerRating :: "rat option"

record attestation_ref =
  ar_locator :: string
  ar_contentHash :: string

record reputation_window =
  w_windowStart :: int
  w_windowEnd :: int
  w_computedAt :: int
  w_windowingBasis :: "windowing_basis option"

record reputation_derivation =
  d_partyPrimaryClaim :: string
  d_windowStart :: int
  d_windowEnd :: int
  d_bundleCount :: nat
  d_metrics :: reputation_metrics
  d_computedAt :: int
  d_windowingBasis :: windowing_basis
  d_bundleRefs :: "attestation_ref list"

text \<open>
  The callbacks of the caller: the eligibility predicate, the authenticated role of the party in a
  job (an exception is the left summand, no role is \<open>None\<close>), and the evidence that the copy of
  the missing role is absent (job id, missing role, present role).
\<close>

record reputation_deps =
  dep_isValid :: "(bundle_json \<Rightarrow> bool) option"
  dep_trustBundles :: bool
  dep_resolvePartyRole :: "(string \<Rightarrow> string \<Rightarrow> string option res) option"
  dep_trustBundlePartyRoles :: bool
  dep_copyAbsence :: "(string \<Rightarrow> string \<Rightarrow> string \<Rightarrow> string) option"

definition validatedCandidates :: "bundle_json list \<Rightarrow> reputation_deps \<Rightarrow> bundle_json list" where
  "validatedCandidates bundles deps =
     (case dep_isValid deps of
        None \<Rightarrow> if dep_trustBundles deps then bundles else []
      | Some isValid \<Rightarrow> filter isValid bundles)"

definition bundleContentHash :: "(string \<Rightarrow> string) \<Rightarrow> bundle_json \<Rightarrow> string res" where
  "bundleContentHash sha256Hex b =
     bindR (stripSignature b) (\<lambda>scope. contentHash sha256Hex (filter (\<lambda>kv. fst kv \<noteq> ''anchoredByRole'') scope))"

definition anchor_role :: "bundle_json \<Rightarrow> string option" where
  "anchor_role b = (case member_of b ''anchoredByRole'' of JStr r \<Rightarrow> Some r | _ \<Rightarrow> None)"

definition eligible_copies :: "bundle_json list \<Rightarrow> bundle_json list" where
  "eligible_copies copies =
     filter (\<lambda>b. bundleArtifactType b \<noteq> Some Evidence_Bound \<and>
                 (anchor_role b = Some ''buyer'' \<or> anchor_role b = Some ''seller'')) copies"

definition party_role :: "(string \<Rightarrow> bool) \<Rightarrow> reputation_deps \<Rightarrow> string \<Rightarrow> bundle_json \<Rightarrow> string option" where
  "party_role hostname deps party first =
     (case dep_resolvePartyRole deps of
        Some resolve \<Rightarrow> (case resolve (bundle_jobId first) party of Inl _ \<Rightarrow> None | Inr r \<Rightarrow> r)
      | None \<Rightarrow>
          (case find (party_has_claim hostname party) (bundle_parties first) of
             None \<Rightarrow> None
           | Some p \<Rightarrow> (case member_of p ''role'' of JStr r \<Rightarrow> Some r | _ \<Rightarrow> None)))"

definition absence_shown :: "reputation_deps \<Rightarrow> bundle_json \<Rightarrow> bool" where
  "absence_shown deps present =
     (case dep_copyAbsence deps of
        None \<Rightarrow> False
      | Some absence \<Rightarrow>
          (if anchor_role present = Some ''buyer''
           then absence (bundle_jobId present) ''seller'' ''buyer''
           else absence (bundle_jobId present) ''buyer'' ''seller'') = ''absent'')"

definition authoritative_copy :: "reputation_deps \<Rightarrow> string \<Rightarrow> bundle_json list \<Rightarrow> bundle_json option" where
  "authoritative_copy deps role valid =
     (case (find (\<lambda>b. anchor_role b = Some role) valid, find (\<lambda>b. anchor_role b \<noteq> Some role) valid) of
        (Some selfCopy, Some cp) \<Rightarrow>
          if bundlesDiverge cp selfCopy then None
          else if isFaultBundle cp \<noteq> isFaultBundle selfCopy
          then Some (if isFaultBundle cp then cp else selfCopy)
          else Some selfCopy
      | (Some selfCopy, None) \<Rightarrow> if absence_shown deps selfCopy then Some selfCopy else None
      | (None, Some cp) \<Rightarrow> if absence_shown deps cp then Some cp else None
      | (None, None) \<Rightarrow> None)"

record scored_job =
  sj_bundle :: bundle_json
  sj_role :: string
  sj_outcome :: session_outcome

text \<open>The body of the loop over the jobs; a \<^verbatim>\<open>continue\<close> is \<open>None\<close>.\<close>

definition reconcile_job :: "(string \<Rightarrow> bool) \<Rightarrow> reputation_deps \<Rightarrow> string \<Rightarrow> bundle_json list \<Rightarrow> scored_job option" where
  "reconcile_job hostname deps party copies =
     (case eligible_copies copies of
        [] \<Rightarrow> None
      | first # rest \<Rightarrow>
          if copiesDiverge (first # rest) then None
          else (case party_role hostname deps party first of
                  None \<Rightarrow> None
                | Some role \<Rightarrow>
                    if role \<noteq> ''buyer'' \<and> role \<noteq> ''seller'' then None
                    else (case authoritative_copy deps role (first # rest) of
                            None \<Rightarrow> None
                          | Some authoritative \<Rightarrow>
                              map_option (\<lambda>out. \<lparr>sj_bundle = authoritative, sj_role = role, sj_outcome = out\<rparr>)
                                (scoredBundleOutcome authoritative role))))"

definition orchestrator_fault :: "scored_job \<Rightarrow> bool" where
  "orchestrator_fault s \<longleftrightarrow>
     isFaultBundle (sj_bundle s) \<and> member_of (sj_bundle s) ''faultedParty'' = JStr ''orchestrator''"

definition orchestratorFaultJobs :: "scored_job list \<Rightarrow> string list" where
  "orchestratorFaultJobs ss = remdups (map (bundle_jobId \<circ> sj_bundle) (filter orchestrator_fault ss))"

definition count_outcome :: "session_outcome \<Rightarrow> scored_job list \<Rightarrow> int" where
  "count_outcome x ss = int (length (filter (\<lambda>s. sj_outcome s = x) ss))"

definition counterparty_fault :: "scored_job list \<Rightarrow> scored_job \<Rightarrow> bool" where
  "counterparty_fault ss s \<longleftrightarrow>
     bundle_jobId (sj_bundle s) \<notin> set (orchestratorFaultJobs ss) \<and>
     (sj_outcome s = Outcome_Aborted_By_Other \<or> sj_outcome s = Failed_Counterparty)"

definition ratio :: "int \<Rightarrow> int \<Rightarrow> rat option" where
  "ratio n denom = (if denom > 0 then Some (of_int n / of_int denom) else None)"

definition partyFaultDenom :: "scored_job list \<Rightarrow> int" where
  "partyFaultDenom ss =
     int (length ss) - count_outcome Outcome_Failed_Substrate ss - int (length (orchestratorFaultJobs ss))"

definition job_metrics :: "scored_job list \<Rightarrow> reputation_metrics" where
  "job_metrics ss =
     (let completed = count_outcome Completed ss;
          counterpartyFault = int (length (filter (counterparty_fault ss) ss))
      in \<lparr>m_completionRate = ratio completed (partyFaultDenom ss),
          m_counterpartyFaultRate = ratio counterpartyFault (partyFaultDenom ss),
          m_counterpartyAdjustedCompletionRate = ratio completed (partyFaultDenom ss - counterpartyFault),
          m_averageBuyerRating = None, m_averageSellerRating = None\<rparr>)"

definition empty_metrics :: reputation_metrics where
  "empty_metrics =
     \<lparr>m_completionRate = None, m_counterpartyFaultRate = None, m_counterpartyAdjustedCompletionRate = None,
      m_averageBuyerRating = None, m_averageSellerRating = None\<rparr>"

definition bundle_ref :: "(string \<Rightarrow> string) \<Rightarrow> bundle_json \<Rightarrow> attestation_ref res" where
  "bundle_ref sha256Hex b =
     bindR (bundleContentHash sha256Hex b) (\<lambda>h.
       Inr \<lparr>ar_locator = legacyBundleAddress sha256Hex (bundle_jobId b) (case anchor_role b of Some r \<Rightarrow> r | None \<Rightarrow> []),
            ar_contentHash = h\<rparr>)"

definition scored_jobs ::
  "(string \<Rightarrow> bool) \<Rightarrow> string \<Rightarrow> bundle_json list \<Rightarrow> reputation_window \<Rightarrow> reputation_deps \<Rightarrow> scored_job list" where
  "scored_jobs hostname party bundles w deps =
     List.map_filter (\<lambda>(j, copies). reconcile_job hostname deps party copies)
       (group_by_job (filter (\<lambda>b. list_ex (party_has_claim hostname party) (bundle_parties b) \<and>
            w_windowStart w \<le> bundle_finalisedAt b \<and> bundle_finalisedAt b \<le> w_windowEnd w)
          (validatedCandidates bundles deps)))"

definition deriveReputationCore ::
  "(string \<Rightarrow> bool) \<Rightarrow> (string \<Rightarrow> string) \<Rightarrow> string \<Rightarrow> bundle_json list \<Rightarrow> reputation_window \<Rightarrow> reputation_deps
   \<Rightarrow> (reputation_derivation \<times> scored_job list) res" where
  "deriveReputationCore hostname sha256Hex party bundles w deps =
     bindR (requireCanonicalClaimReference hostname party) (\<lambda>parsed.
     ensure (dep_isValid deps \<noteq> None \<or> dep_trustBundles deps) ''deriveReputation requires deps.isValid''
     (ensure (dep_resolvePartyRole deps \<noteq> None \<or> dep_trustBundlePartyRoles deps) ''deriveReputation requires deps.resolvePartyRole''
     (let canonicalParty = identity_text (cp_identity parsed);
          jobs = scored_jobs hostname canonicalParty bundles w deps
      in bindR (mapR (\<lambda>s. bundle_ref sha256Hex (sj_bundle s)) jobs) (\<lambda>refs.
           Inr (\<lparr>d_partyPrimaryClaim = canonicalParty, d_windowStart = w_windowStart w, d_windowEnd = w_windowEnd w,
                 d_bundleCount = length jobs,
                 d_metrics = (if jobs = [] then empty_metrics else job_metrics jobs),
                 d_computedAt = w_computedAt w,
                 d_windowingBasis = (case w_windowingBasis w of None \<Rightarrow> FinalisedAt | Some basis \<Rightarrow> basis),
                 d_bundleRefs = sort_key ar_contentHash refs\<rparr>, jobs)))))"

definition deriveReputation ::
  "(string \<Rightarrow> bool) \<Rightarrow> (string \<Rightarrow> string) \<Rightarrow> string \<Rightarrow> bundle_json list \<Rightarrow> reputation_window \<Rightarrow> reputation_deps
   \<Rightarrow> reputation_derivation res" where
  "deriveReputation hostname sha256Hex party bundles w deps =
     bindR (deriveReputationCore hostname sha256Hex party bundles w deps) (\<lambda>core. Inr (fst core))"

section \<open>Grouping and sorting\<close>

definition job_copies :: "bundle_json list \<Rightarrow> string \<Rightarrow> bundle_json list" where
  "job_copies bs j = filter (\<lambda>b. bundle_jobId b = j) bs"

definition job_order :: "bundle_json list \<Rightarrow> string list" where
  "job_order bs = rev (remdups (rev (map bundle_jobId bs)))"

lemma job_order_set [simp]: "set (job_order bs) = bundle_jobId ` set bs"
  by (simp add: job_order_def)

lemma job_order_distinct [simp]: "distinct (job_order bs)"
  by (simp add: job_order_def)

lemma job_order_snoc:
  "job_order (bs @ [b]) = (if bundle_jobId b \<in> bundle_jobId ` set bs then job_order bs else job_order bs @ [bundle_jobId b])"
  by (simp add: job_order_def)

lemma push_copy_present:
  "bundle_jobId b \<in> set js \<Longrightarrow> distinct js \<Longrightarrow>
   push_copy (map (\<lambda>j. (j, job_copies bs j)) js) b = map (\<lambda>j. (j, job_copies (bs @ [b]) j)) js"
  by (induction js) (auto simp: job_copies_def)

lemma push_copy_absent:
  "bundle_jobId b \<notin> set js \<Longrightarrow> bundle_jobId b \<notin> bundle_jobId ` set bs \<Longrightarrow>
   push_copy (map (\<lambda>j. (j, job_copies bs j)) js) b =
   map (\<lambda>j. (j, job_copies (bs @ [b]) j)) (js @ [bundle_jobId b])"
  by (induction js) (auto simp: job_copies_def filter_empty_conv image_iff)

lemma group_by_job_eq: "group_by_job bs = map (\<lambda>j. (j, job_copies bs j)) (job_order bs)"
proof (induction bs rule: rev_induct)
  case Nil
  then show ?case by (simp add: group_by_job_def job_order_def)
next
  case (snoc b bs)
  have "group_by_job (bs @ [b]) = push_copy (map (\<lambda>j. (j, job_copies bs j)) (job_order bs)) b"
    using snoc by (simp add: group_by_job_def)
  also have "\<dots> = map (\<lambda>j. (j, job_copies (bs @ [b]) j)) (job_order (bs @ [b]))"
    by (cases "bundle_jobId b \<in> bundle_jobId ` set bs")
      (simp_all add: job_order_snoc push_copy_present push_copy_absent del: map_append)
  finally show ?case .
qed

text \<open>What the sort of the jobs relies on: the platform orders the job ids at hand linearly.\<close>

definition orders_jobs :: "(string \<Rightarrow> string \<Rightarrow> bool) \<Rightarrow> string set \<Rightarrow> bool" where
  "orders_jobs before J \<longleftrightarrow>
     (\<forall>x \<in> J. \<forall>y \<in> J. before x y \<or> before y x) \<and>
     (\<forall>x \<in> J. \<forall>y \<in> J. \<forall>z \<in> J. before x y \<longrightarrow> before y z \<longrightarrow> before x z) \<and>
     (\<forall>x \<in> J. \<forall>y \<in> J. before x y \<longrightarrow> before y x \<longrightarrow> x = y)"

lemma orders_jobs_subset: "orders_jobs before J \<Longrightarrow> K \<subseteq> J \<Longrightarrow> orders_jobs before K"
  unfolding orders_jobs_def by (meson subsetD)

lemma mset_insort_job [simp]: "mset (insort_job before x ys) = add_mset x (mset ys)"
  by (induction ys) auto

lemma mset_sort_jobs [simp]: "mset (sort_jobs before xs) = mset xs"
  by (induction xs) (simp_all add: sort_jobs_def)

lemma set_insort_job [simp]: "set (insort_job before x ys) = insert x (set ys)"
  by (metis mset_insort_job set_mset_add_mset_insert set_mset_mset)

lemma sorted_insort_job:
  assumes "orders_jobs before J" "fst x \<in> J" "fst ` set ys \<subseteq> J" "sorted_wrt (\<lambda>p q. before (fst p) (fst q)) ys"
  shows "sorted_wrt (\<lambda>p q. before (fst p) (fst q)) (insort_job before x ys)"
  using assms(3,4)
proof (induction ys)
  case (Cons y ys)
  have tot: "before (fst x) (fst y) \<or> before (fst y) (fst x)"
    using assms(1,2) Cons.prems(1) by (simp add: orders_jobs_def)
  have trans: "before (fst x) (fst q)" if "q \<in> set ys" "before (fst x) (fst y)" "before (fst y) (fst q)" for q
  proof -
    have "fst y \<in> J" "fst q \<in> J" using Cons.prems(1) that(1) by auto
    then show ?thesis using assms(1,2) that(2,3) unfolding orders_jobs_def by blast
  qed
  show ?case using Cons tot trans by auto
qed simp

lemma sorted_sort_jobs:
  assumes "orders_jobs before J" "fst ` set xs \<subseteq> J"
  shows "sorted_wrt (\<lambda>p q. before (fst p) (fst q)) (sort_jobs before xs)"
  using assms(2)
proof (induction xs)
  case (Cons x xs)
  have "fst ` set (sort_jobs before xs) \<subseteq> J"
    using Cons.prems by (metis list.set_intros(2) mset_sort_jobs order_trans set_mset_mset image_mono set_subset_Cons)
  with Cons show ?case
    using sorted_insort_job [OF assms(1), of x "sort_jobs before xs"] by (simp add: sort_jobs_def)
qed (simp add: sort_jobs_def)

lemma ordered_list_unique:
  assumes "sorted_wrt R xs" "sorted_wrt R ys" "distinct xs" "distinct ys" "set xs = set ys"
    and "\<And>x y. x \<in> set xs \<Longrightarrow> y \<in> set xs \<Longrightarrow> R x y \<Longrightarrow> R y x \<Longrightarrow> x = y"
  shows "xs = ys"
  using assms
proof (induction xs arbitrary: ys)
  case Nil
  then show ?case by simp
next
  case (Cons x xs)
  then obtain y ys' where ys: "ys = y # ys'" by (cases ys) auto
  have "x = y"
  proof (rule ccontr)
    assume neq: "x \<noteq> y"
    with Cons.prems(5) ys have "x \<in> set ys'" "y \<in> set xs" by auto
    with Cons.prems(1,2) ys have "R y x" "R x y" by auto
    with Cons.prems(6) [of x y] \<open>y \<in> set xs\<close> neq show False by simp
  qed
  moreover have "set xs = set ys'" using Cons.prems(3,4,5) ys \<open>x = y\<close> by auto
  ultimately show ?case using Cons.IH [of ys'] Cons.prems ys by auto
qed

lemma sorted_jobs_unique:
  fixes f g :: "string \<Rightarrow> 'a"
  assumes "orders_jobs before J" "set js = set ks" "set js \<subseteq> J" "distinct js" "distinct ks"
  shows "\<exists>ls. set ls = set js \<and> sort_jobs before (map (\<lambda>j. (j, f j)) js) = map (\<lambda>j. (j, f j)) ls \<and>
              sort_jobs before (map (\<lambda>j. (j, g j)) ks) = map (\<lambda>j. (j, g j)) ls"
proof -
  have shape: "sort_jobs before (map (\<lambda>j. (j, h j)) is) = map (\<lambda>j. (j, h j)) (map fst (sort_jobs before (map (\<lambda>j. (j, h j)) is)))"
    for h :: "string \<Rightarrow> 'a" and "is"
  proof -
    have "p = (fst p, h (fst p))" if "p \<in> set (sort_jobs before (map (\<lambda>j. (j, h j)) is))" for p
      using that mset_sort_jobs [of before "map (\<lambda>j. (j, h j)) is"] by (metis (no_types, lifting) fst_conv imageE set_map set_mset_mset)
    then show ?thesis by (simp add: map_idI comp_def)
  qed
  have keys: "mset (map fst (sort_jobs before (map (\<lambda>j. (j, h j)) is))) = mset is"
    for h :: "string \<Rightarrow> 'a" and "is" by (simp add: image_mset.compositionality comp_def)
  let ?js = "map fst (sort_jobs before (map (\<lambda>j. (j, f j)) js))" and ?ks = "map fst (sort_jobs before (map (\<lambda>j. (j, g j)) ks))"
  have sets: "set ?js = set js" "set ?ks = set ks" "distinct ?js" "distinct ?ks"
    using keys [of f js] keys [of g ks] assms(4,5) by (metis mset_eq_setD mset_eq_imp_distinct_iff)+
  have "?js = ?ks"
  proof (rule ordered_list_unique)
    show "sorted_wrt before ?js"
      using sorted_sort_jobs [OF assms(1), of "map (\<lambda>j. (j, f j)) js"] assms(3) by (simp add: sorted_wrt_map image_comp comp_def)
    show "sorted_wrt before ?ks"
      using sorted_sort_jobs [OF assms(1), of "map (\<lambda>j. (j, g j)) ks"] assms(2,3) by (simp add: sorted_wrt_map image_comp comp_def)
    show "x = y" if "x \<in> set ?js" "y \<in> set ?js" "before x y" "before y x" for x y
      using that sets(1) assms(1,3) unfolding orders_jobs_def by blast
  qed (use sets assms(2) in simp_all)
  then show ?thesis using shape [of f js] shape [of g ks] sets(1) by metis
qed

section \<open>Counts do not depend on the order of the bundles\<close>

lemma copiesDiverge_move: "copiesDiverge (xs @ c # ys) \<longleftrightarrow> copiesDiverge (c # xs @ ys)"
  by (induction xs) (auto simp: bundlesDiverge_sym)

lemma copiesDiverge_mset: "mset xs = mset ys \<Longrightarrow> copiesDiverge xs = copiesDiverge ys"
proof (induction xs arbitrary: ys)
  case (Cons c cs)
  then obtain us vs where ys: "ys = us @ c # vs" by (metis list.set_intros(1) mset_eq_setD split_list)
  with Cons.prems have "mset cs = mset (us @ vs)" by simp
  moreover from mset_eq_setD [OF this] have "set cs = set us \<union> set vs" by simp
  ultimately show ?case
    using Cons.IH [of "us @ vs"] by (simp add: ys copiesDiverge_move list_ex_iff Bex_def)
qed simp

lemma score_jobs_cong:
  assumes "\<And>j. j \<in> set ls \<Longrightarrow> copiesDiverge (f j) = copiesDiverge (g j) \<and> list_ex is_completed (f j) = list_ex is_completed (g j)"
  shows "score_jobs (map (\<lambda>j. (j, f j)) ls) acc = score_jobs (map (\<lambda>j. (j, g j)) ls) acc"
  using assms
proof (induction ls arbitrary: acc)
  case (Cons j ls)
  then show ?case by (cases acc) simp
qed simp

lemma job_copies_mset:
  assumes "mset bs = mset cs"
  shows "mset (job_copies bs j) = mset (job_copies cs j)"
  using assms by (simp add: job_copies_def)

lemma score_jobs_counts:
  "score_jobs jobs (agreed, completed, exclusions) = (agreed', completed', exclusions') \<Longrightarrow>
     agreed' + length exclusions' = agreed + length exclusions + length jobs \<and>
     (completed \<le> agreed \<longrightarrow> completed' \<le> agreed')"
  by (induction jobs "(agreed, completed, exclusions)" arbitrary: agreed completed exclusions rule: score_jobs.induct)
    (auto split: if_splits)

lemma length_sort_jobs [simp]: "length (sort_jobs before xs) = length xs"
  by (metis mset_sort_jobs size_mset)

lemma grouped_sort:
  assumes "orders_jobs before (bundle_jobId ` set bs)" "mset bs = mset cs"
  shows "score_jobs (sort_jobs before (group_by_job bs)) acc = score_jobs (sort_jobs before (group_by_job cs)) acc"
proof -
  have "bundle_jobId ` set bs = bundle_jobId ` set cs" using assms(2) by (metis mset_eq_setD)
  then obtain ls where ls: "sort_jobs before (group_by_job bs) = map (\<lambda>j. (j, job_copies bs j)) ls"
    "sort_jobs before (group_by_job cs) = map (\<lambda>j. (j, job_copies cs j)) ls"
    using sorted_jobs_unique [OF assms(1), of "job_order bs" "job_order cs" "job_copies bs" "job_copies cs"]
    by (auto simp: group_by_job_eq)
  have "list_ex is_completed (job_copies bs j) = list_ex is_completed (job_copies cs j)" for j
    using mset_eq_setD [OF job_copies_mset [OF assms(2), of j]] by (simp add: list_ex_iff)
  then show ?thesis
    unfolding ls using copiesDiverge_mset [OF job_copies_mset [OF assms(2)]] by (intro score_jobs_cong) simp
qed

lemma computeReputation_score:
  assumes "parseCanonicalClaimReference hostname claim = Some parsed"
  shows "computeReputation hostname before claim bundles =
    (case score_jobs (sort_jobs before (group_by_job (filter (involves hostname (cp_identity parsed)) bundles))) (0, 0, []) of
       (agreed, completed, exclusions) \<Rightarrow>
         Inr \<lparr>rep_primaryClaim = identity_text (cp_identity parsed), rep_totalAgreements = agreed,
              rep_completed = completed, rep_avgRating = None, rep_exclusions = exclusions\<rparr>)"
  by (simp add: computeReputation_def requireCanonicalClaimReference_def assms Let_def)

lemma computeReputation_error:
  "parseCanonicalClaimReference hostname claim = None \<Longrightarrow>
   computeReputation hostname before claim bundles = throw ''must use canonical CORE B.1 CF-2 bytes''"
  by (simp add: computeReputation_def requireCanonicalClaimReference_def)

lemma job_order_length: "length (job_order bs) = card (bundle_jobId ` set bs)"
  by (metis distinct_card job_order_distinct job_order_set)

lemma computeReputation_accounts:
  assumes "computeReputation hostname before claim bundles = Inr r"
  shows "\<exists>parsed. parseCanonicalClaimReference hostname claim = Some parsed \<and>
           rep_totalAgreements r + length (rep_exclusions r) =
             card (bundle_jobId ` {b \<in> set bundles. involves hostname (cp_identity parsed) b})"
    and "rep_completed r \<le> rep_totalAgreements r"
proof -
  obtain parsed where p: "parseCanonicalClaimReference hostname claim = Some parsed"
    using assms computeReputation_error [of hostname claim before bundles]
    by (cases "parseCanonicalClaimReference hostname claim") simp_all
  let ?mine = "filter (involves hostname (cp_identity parsed)) bundles"
  obtain a c e where s: "score_jobs (sort_jobs before (group_by_job ?mine)) (0, 0, []) = (a, c, e)"
    using prod_cases3 by blast
  have r: "rep_totalAgreements r = a" "rep_completed r = c" "rep_exclusions r = e"
    using assms unfolding computeReputation_score [OF p] s by auto
  have n: "length (sort_jobs before (group_by_job ?mine)) = card (bundle_jobId ` set ?mine)"
    by (simp only: length_sort_jobs group_by_job_eq length_map job_order_length)
  from score_jobs_counts [OF s] have "a + length e = card (bundle_jobId ` set ?mine)" "c \<le> a"
    unfolding n by simp_all
  then show "\<exists>parsed. parseCanonicalClaimReference hostname claim = Some parsed \<and>
           rep_totalAgreements r + length (rep_exclusions r) =
             card (bundle_jobId ` {b \<in> set bundles. involves hostname (cp_identity parsed) b})"
    and "rep_completed r \<le> rep_totalAgreements r"
    using p unfolding r set_filter by blast+
qed

lemma computeReputation_mset:
  assumes "mset bundles = mset bundles'" "orders_jobs before (bundle_jobId ` set bundles)"
  shows "computeReputation hostname before claim bundles = computeReputation hostname before claim bundles'"
proof (cases "parseCanonicalClaimReference hostname claim")
  case None
  then show ?thesis by (simp add: computeReputation_error)
next
  case (Some parsed)
  let ?P = "involves hostname (cp_identity parsed)"
  have "orders_jobs before (bundle_jobId ` set (filter ?P bundles))"
    by (rule orders_jobs_subset [OF assms(2)]) auto
  then show ?thesis
    unfolding computeReputation_score [OF Some]
    using grouped_sort [of before "filter ?P bundles" "filter ?P bundles'"] assms(1) by simp
qed

text \<open>
  Anyone who holds the same bundles computes the same reputation: the result does not depend on the order in
  which the copies arrive. Every job of the subject is either counted or listed as excluded, and no
  more jobs are completed than counted.
\<close>

theorem reputation_is_reproducible:
  assumes "mset bundles = mset bundles'" "orders_jobs before (bundle_jobId ` set bundles)"
  shows "computeReputation hostname before claim bundles = computeReputation hostname before claim bundles' \<and>
         (\<forall>r. computeReputation hostname before claim bundles = Inr r \<longrightarrow>
            (\<exists>parsed. parseCanonicalClaimReference hostname claim = Some parsed \<and>
              rep_totalAgreements r + length (rep_exclusions r) =
                card (bundle_jobId ` {b \<in> set bundles. involves hostname (cp_identity parsed) b})) \<and>
            rep_completed r \<le> rep_totalAgreements r)"
  using computeReputation_mset [OF assms] computeReputation_accounts [of hostname before claim bundles] by blast

text \<open>Two jobs of one buyer: an agreed one with two copies, and a disputed one.\<close>

definition sample_party :: "string \<Rightarrow> string \<Rightarrow> json" where
  "sample_party r claim = JObj [(''role'', JStr r), (''primaryClaim'', JStr claim)]"

definition sample_copy :: "string \<Rightarrow> string \<Rightarrow> string \<Rightarrow> bundle_json" where
  "sample_copy j anchor out =
     [(''bundleVersion'', JStr ''1''), (''jobId'', JStr j), (''anchoredByRole'', JStr anchor), (''outcome'', JStr out),
      (''parties'', JArr [sample_party ''buyer'' ''key:a'', sample_party ''seller'' ''key:b'']),
      (''phaseSummary'', JArr []), (''finalisedAt'', JNum (JInt 5))]"

definition sample_bundles :: "bundle_json list" where
  "sample_bundles =
     [sample_copy ''2'' ''buyer'' ''completed'', sample_copy ''1'' ''buyer'' ''completed'',
      sample_copy ''2'' ''seller'' ''failed-perm'', sample_copy ''1'' ''seller'' ''completed'']"

theorem reputation_is_reproducible_witness:
  "computeReputation (\<lambda>_. False) (\<le>) ''key:a'' (rev sample_bundles) =
     Inr \<lparr>rep_primaryClaim = ''key:a'', rep_totalAgreements = 1, rep_completed = 1, rep_avgRating = None,
          rep_exclusions = [\<lparr>ex_code = ''divergent-copies'', ex_jobId = ''2'',
            ex_reason = ''same-job bundle copies canonically diverge''\<rparr>]\<rparr>"
proof -
  have ord: "orders_jobs (\<le>) (bundle_jobId ` set sample_bundles)"
    by (auto simp: orders_jobs_def)
  have "computeReputation (\<lambda>_. False) (\<le>) ''key:a'' sample_bundles =
     Inr \<lparr>rep_primaryClaim = ''key:a'', rep_totalAgreements = 1, rep_completed = 1, rep_avgRating = None,
          rep_exclusions = [\<lparr>ex_code = ''divergent-copies'', ex_jobId = ''2'',
            ex_reason = ''same-job bundle copies canonically diverge''\<rparr>]\<rparr>" by code_simp
  then show ?thesis
    using reputation_is_reproducible [OF _ ord, of "rev sample_bundles" "\<lambda>_. False" "''key:a''"] by simp
qed

section \<open>Rates are fractions\<close>

lemma find_SomeD: "find P xs = Some x \<Longrightarrow> x \<in> set xs \<and> P x"
  by (induction xs) (auto split: if_splits)

lemma authoritative_copy_in: "authoritative_copy deps role valid = Some b \<Longrightarrow> b \<in> set valid"
  by (auto simp: authoritative_copy_def split: option.splits if_splits dest: find_SomeD)

lemma reconcile_job_Some:
  assumes "reconcile_job hostname deps party copies = Some s"
  shows "sj_bundle s \<in> set copies" and "sj_role s = ''buyer'' \<or> sj_role s = ''seller''"
    and "scoredBundleOutcome (sj_bundle s) (sj_role s) = Some (sj_outcome s)"
proof -
  obtain first rest where e: "eligible_copies copies = first # rest"
    using assms by (cases "eligible_copies copies") (auto simp: reconcile_job_def)
  obtain role where r: "party_role hostname deps party first = Some role" "role = ''buyer'' \<or> role = ''seller''"
    using assms by (auto simp: reconcile_job_def e split: if_splits option.splits)
  obtain b where b: "authoritative_copy deps role (first # rest) = Some b"
    using assms r by (auto simp: reconcile_job_def e split: if_splits option.splits)
  have s: "map_option (\<lambda>out. \<lparr>sj_bundle = b, sj_role = role, sj_outcome = out\<rparr>) (scoredBundleOutcome b role) = Some s"
    using assms r b unfolding reconcile_job_def e by (auto split: if_splits)
  have "b \<in> set (eligible_copies copies)" using authoritative_copy_in [OF b] e by simp
  then have "b \<in> set copies" by (simp add: eligible_copies_def)
  then show "sj_bundle s \<in> set copies" and "sj_role s = ''buyer'' \<or> sj_role s = ''seller''"
    and "scoredBundleOutcome (sj_bundle s) (sj_role s) = Some (sj_outcome s)"
    using s r(2) by auto
qed

lemma scored_jobs_from:
  assumes "s \<in> set (scored_jobs hostname party bundles w deps)"
  shows "sj_bundle s \<in> set (validatedCandidates bundles deps)"
    and "scoredBundleOutcome (sj_bundle s) (sj_role s) = Some (sj_outcome s)"
proof -
  obtain j copies where jc: "(j, copies) \<in> set (group_by_job (filter (\<lambda>b. list_ex (party_has_claim hostname party) (bundle_parties b) \<and>
            w_windowStart w \<le> bundle_finalisedAt b \<and> bundle_finalisedAt b \<le> w_windowEnd w) (validatedCandidates bundles deps)))"
    "reconcile_job hostname deps party copies = Some s"
    using assms by (auto simp: scored_jobs_def map_filter_def)
  have "set copies \<subseteq> set (validatedCandidates bundles deps)"
    using jc(1) by (auto simp: group_by_job_eq job_copies_def)
  then show "sj_bundle s \<in> set (validatedCandidates bundles deps)"
    and "scoredBundleOutcome (sj_bundle s) (sj_role s) = Some (sj_outcome s)"
    using reconcile_job_Some [OF jc(2)] by auto
qed

lemma fault_is_absolute: "isFaultBundle b \<Longrightarrow> isAbsoluteFaultBundle b"
  by (simp add: isFaultBundle_def isAbsoluteFaultBundle_def)

text \<open>A permitted copy that blames the orchestrator is neither completed nor a substrate failure.\<close>

lemma orchestrator_fault_outcome:
  assumes "orchestrator_fault s" "faultedPartyIsPermitted (sj_bundle s)"
    and "scoredBundleOutcome (sj_bundle s) (sj_role s) = Some (sj_outcome s)"
  shows "sj_outcome s \<noteq> Completed \<and> sj_outcome s \<noteq> Outcome_Failed_Substrate"
proof -
  let ?b = "sj_bundle s"
  have f: "member_of ?b ''faultedParty'' = JStr ''orchestrator''" "isAbsoluteFaultBundle ?b"
    using assms(1) fault_is_absolute by (auto simp: orchestrator_fault_def)
  have "member_of ?b ''outcome'' \<noteq> JStr ''completed''" "member_of ?b ''outcome'' \<noteq> JStr ''failed-substrate''"
    using assms(2) f(1) by (auto simp: faultedPartyIsPermitted_def Let_def split: json.splits)
  then show ?thesis
    using assms(3) f by (auto simp: scoredBundleOutcome_def bundleOutcomeClass_def roleRelativeOutcome_def Let_def split: if_splits)
qed

lemma disjoint_counts:
  assumes "\<And>x. x \<in> set xs \<Longrightarrow> (if P x then 1 else 0) + (if Q x then 1 else 0) + (if R x then 1 else 0) + (if S x then 1 else (0::nat)) \<le> 1"
  shows "length (filter P xs) + length (filter Q xs) + length (filter R xs) + length (filter S xs) \<le> length xs"
  using assms by (induction xs) (force split: if_splits)+

lemma partyFaultDenom_covers:
  assumes "\<And>s. s \<in> set ss \<Longrightarrow> orchestrator_fault s \<Longrightarrow> sj_outcome s \<noteq> Completed \<and> sj_outcome s \<noteq> Outcome_Failed_Substrate"
  shows "count_outcome Completed ss + int (length (filter (counterparty_fault ss) ss)) \<le> partyFaultDenom ss"
proof -
  have "length (filter (\<lambda>s. sj_outcome s = Completed) ss) + length (filter (\<lambda>s. sj_outcome s = Outcome_Failed_Substrate) ss) +
        length (filter orchestrator_fault ss) + length (filter (counterparty_fault ss) ss) \<le> length ss"
  proof (rule disjoint_counts)
    fix s assume s: "s \<in> set ss"
    have "\<not> (orchestrator_fault s \<and> counterparty_fault ss s)"
      using s by (auto simp: counterparty_fault_def orchestratorFaultJobs_def)
    then show "(if sj_outcome s = Completed then 1 else 0) + (if sj_outcome s = Outcome_Failed_Substrate then 1 else 0) +
      (if orchestrator_fault s then 1 else 0) + (if counterparty_fault ss s then 1 else (0::nat)) \<le> 1"
      using assms [OF s] by (auto simp: counterparty_fault_def)
  qed
  moreover have "length (orchestratorFaultJobs ss) \<le> length (filter orchestrator_fault ss)"
    unfolding orchestratorFaultJobs_def by (metis length_map length_remdups_leq)
  ultimately show ?thesis by (simp add: partyFaultDenom_def count_outcome_def)
qed

lemma ratio_bounds: "ratio n d = Some r \<Longrightarrow> 0 \<le> n \<Longrightarrow> n \<le> d \<Longrightarrow> 0 \<le> r \<and> r \<le> 1"
  by (auto simp: ratio_def split: if_splits)

lemma ratio_sum: "ratio m d = Some q \<Longrightarrow> ratio n d = Some r \<Longrightarrow> m + n \<le> d \<Longrightarrow> q + r \<le> 1"
  by (auto simp: ratio_def add_divide_distrib [symmetric] simp flip: of_int_add split: if_splits)

lemma ratio_smaller_denom: "ratio n d = Some q \<Longrightarrow> ratio n (d - k) = Some r \<Longrightarrow> 0 \<le> n \<Longrightarrow> 0 \<le> k \<Longrightarrow> q \<le> r"
  by (auto simp: ratio_def split: if_splits intro!: divide_left_mono mult_pos_pos)

definition fractions :: "reputation_metrics \<Rightarrow> bool" where
  "fractions m \<longleftrightarrow>
     (\<forall>c. m_completionRate m = Some c \<longrightarrow> 0 \<le> c \<and> c \<le> 1) \<and>
     (\<forall>f. m_counterpartyFaultRate m = Some f \<longrightarrow> 0 \<le> f \<and> f \<le> 1) \<and>
     (\<forall>a. m_counterpartyAdjustedCompletionRate m = Some a \<longrightarrow> 0 \<le> a \<and> a \<le> 1) \<and>
     (\<forall>c f. m_completionRate m = Some c \<longrightarrow> m_counterpartyFaultRate m = Some f \<longrightarrow> c + f \<le> 1) \<and>
     (\<forall>c a. m_completionRate m = Some c \<longrightarrow> m_counterpartyAdjustedCompletionRate m = Some a \<longrightarrow> c \<le> a)"

lemma job_metrics_fractions:
  assumes "\<And>s. s \<in> set ss \<Longrightarrow> orchestrator_fault s \<Longrightarrow> sj_outcome s \<noteq> Completed \<and> sj_outcome s \<noteq> Outcome_Failed_Substrate"
  shows "fractions (job_metrics ss)"
proof -
  define C F D where "C = count_outcome Completed ss" and "F = int (length (filter (counterparty_fault ss) ss))"
    and "D = partyFaultDenom ss"
  have b: "C + F \<le> D" "0 \<le> C" "0 \<le> F"
    using partyFaultDenom_covers [OF assms] by (simp_all add: C_def F_def D_def count_outcome_def)
  then have b': "C \<le> D" "F \<le> D" "C \<le> D - F" by simp_all
  have m: "m_completionRate (job_metrics ss) = ratio C D" "m_counterpartyFaultRate (job_metrics ss) = ratio F D"
    "m_counterpartyAdjustedCompletionRate (job_metrics ss) = ratio C (D - F)"
    by (simp_all add: job_metrics_def Let_def C_def F_def D_def)
  show ?thesis
    unfolding fractions_def m
    using ratio_bounds [OF _ b(2) b'(1)] ratio_bounds [OF _ b(3) b'(2)] ratio_bounds [OF _ b(2) b'(3)]
      ratio_sum [OF _ _ b(1)] ratio_smaller_denom [OF _ _ b(2,3)] by blast
qed

lemma deriveReputation_metrics:
  assumes "deriveReputation hostname sha256Hex party bundles w deps = Inr d"
  shows "\<exists>canonicalParty. d_metrics d =
           (let jobs = scored_jobs hostname canonicalParty bundles w deps in if jobs = [] then empty_metrics else job_metrics jobs)"
  using assms by (auto simp: deriveReputation_def deriveReputationCore_def bindR_Inr ensure_Inr Let_def)

text \<open>
  The rates of a derived reputation are fractions. If every fault bundle the validity gate admits names a
  permitted faulted party, then each rate lies between 0 and 1, completions and counterparty faults
  together stay within the whole, and setting counterparty faults aside never lowers the
  completion rate.
\<close>

theorem reputation_rates_are_fractions:
  assumes "deriveReputation hostname sha256Hex party bundles w deps = Inr d"
    and "\<forall>b \<in> set (validatedCandidates bundles deps). isFaultBundle b \<longrightarrow> faultedPartyIsPermitted b"
  shows "fractions (d_metrics d)"
proof -
  obtain canonicalParty where m: "d_metrics d =
      (let jobs = scored_jobs hostname canonicalParty bundles w deps in if jobs = [] then empty_metrics else job_metrics jobs)"
    using deriveReputation_metrics [OF assms(1)] ..
  let ?jobs = "scored_jobs hostname canonicalParty bundles w deps"
  have "sj_outcome s \<noteq> Completed \<and> sj_outcome s \<noteq> Outcome_Failed_Substrate" if "s \<in> set ?jobs" "orchestrator_fault s" for s
    using orchestrator_fault_outcome [OF that(2)] scored_jobs_from [OF that(1)] assms(2) that(2)
    by (simp add: orchestrator_fault_def)
  from job_metrics_fractions [OF this] show ?thesis by (simp add: m Let_def empty_metrics_def fractions_def)
qed

definition sample_window :: reputation_window where
  "sample_window = \<lparr>w_windowStart = 0, w_windowEnd = 9, w_computedAt = 10, w_windowingBasis = None\<rparr>"

definition sample_deps :: reputation_deps where
  "sample_deps =
     \<lparr>dep_isValid = None, dep_trustBundles = True, dep_resolvePartyRole = Some (\<lambda>_ _. Inr (Some ''buyer'')),
      dep_trustBundlePartyRoles = False, dep_copyAbsence = None\<rparr>"

definition sample_derivation :: "string \<Rightarrow> reputation_derivation res" where
  "sample_derivation claim = deriveReputation (\<lambda>_. False) id claim sample_bundles sample_window sample_deps"

lemma sample_derivation_rate:
  "\<exists>d. sample_derivation ''key:a'' = Inr d \<and> m_completionRate (d_metrics d) = Some 1"
proof -
  have "(case sample_derivation ''key:a'' of Inl _ \<Rightarrow> False | Inr d \<Rightarrow> m_completionRate (d_metrics d) = Some 1)" by code_simp
  then show ?thesis by (auto split: sum.splits)
qed

theorem reputation_rates_are_fractions_witness:
  "\<exists>d. deriveReputation (\<lambda>_. False) id ''key:a'' sample_bundles sample_window sample_deps = Inr d \<and>
       m_completionRate (d_metrics d) = Some 1 \<and> fractions (d_metrics d)"
proof -
  obtain d where d: "deriveReputation (\<lambda>_. False) id ''key:a'' sample_bundles sample_window sample_deps = Inr d"
    "m_completionRate (d_metrics d) = Some 1"
    using sample_derivation_rate by (auto simp: sample_derivation_def)
  have "list_all (\<lambda>b. isFaultBundle b \<longrightarrow> faultedPartyIsPermitted b) (validatedCandidates sample_bundles sample_deps)" by code_simp
  then have "\<forall>b \<in> set (validatedCandidates sample_bundles sample_deps). isFaultBundle b \<longrightarrow> faultedPartyIsPermitted b"
    by (simp add: list_all_iff)
  from reputation_rates_are_fractions [OF d(1) this] d show ?thesis by blast
qed

section \<open>The clock of the window\<close>

text \<open>
  The clock a caller selects for the window is only a label of the result: choosing the anchor timestamp selects
  and scores the same bundles, by their finalisation time, as choosing the finalisation time.
\<close>

theorem windowing_basis_is_only_a_label:
  "deriveReputation hostname sha256Hex party bundles (w\<lparr>w_windowingBasis := Some Sr2_Anchor_Timestamp\<rparr>) deps =
   bindR (deriveReputation hostname sha256Hex party bundles (w\<lparr>w_windowingBasis := Some FinalisedAt\<rparr>) deps)
     (\<lambda>d. Inr (d\<lparr>d_windowingBasis := Sr2_Anchor_Timestamp\<rparr>))"
proof -
  have "scored_jobs hostname p bundles (w\<lparr>w_windowingBasis := x\<rparr>) deps = scored_jobs hostname p bundles w deps" for p x
    by (simp add: scored_jobs_def)
  then show ?thesis
    by (auto simp: deriveReputation_def deriveReputationCore_def Let_def bindR_def ensure_def throw_def split: sum.splits)
qed

end
