(* ===== verification/Dacs_Settlement.thy ===== *)
theory Dacs_Settlement
  imports Dacs_Bundle Dacs_Claims Dacs_Snapshot Dacs_Anchor
begin

text \<open>
  Settlement idempotency, part one (\<^verbatim>\<open>src/src/rails/idempotency.ts\<close>): the immutable terms of a
  settlement and their hash, the results of a rail and what binds them to the terms
  (with \<^verbatim>\<open>agent/settlementFailure.ts\<close> and \<^verbatim>\<open>rails/demosAddress.ts\<close>), and the log of intents with its
  leases. A rail result is a JSON object; SHA-256 and the hostname check are parameters.
\<close>

section \<open>Terms\<close>

record finality_policy =
  fp_model :: string
  fp_finalityBlocks :: "int option"

record settlement_binding =
  sb_bindingVersion :: string
  sb_railId :: string
  sb_jobId :: string
  sb_phaseIndex :: int
  sb_phase :: string
  sb_amount :: string
  sb_agreementAsset :: string
  sb_settlementAsset :: string
  sb_payer :: string
  sb_payee :: string
  sb_network :: string
  sb_finality :: finality_policy
  sb_effectIdentity :: "string option"
  sb_resource :: "string option"

definition settlementKey :: "string \<Rightarrow> string \<Rightarrow> int \<Rightarrow> string res" where
  "settlementKey railId jobId phaseIndex =
     ensure (railId \<noteq> [] \<and> jobId \<noteq> [] \<and> CHR '':'' \<notin> set jobId \<and> isSafeInteger phaseIndex \<and> 0 \<le> phaseIndex)
       ''settlement key requires exact NFC rail/job identifiers, a colon-free job id, and a non-negative phase index''
     (Inr (railId @ CHR '':'' # jobId @ CHR '':'' # int_text phaseIndex))"

definition optional_member :: "string \<Rightarrow> ('a \<Rightarrow> json) \<Rightarrow> 'a option \<Rightarrow> (string \<times> json) list" where
  "optional_member k f v = (case v of None \<Rightarrow> [] | Some x \<Rightarrow> [(k, f x)])"

definition binding_json :: "settlement_binding \<Rightarrow> json" where
  "binding_json b =
     JObj ([(''bindingVersion'', JStr (sb_bindingVersion b)), (''railId'', JStr (sb_railId b)),
            (''jobId'', JStr (sb_jobId b)), (''phaseIndex'', JNum (JInt (sb_phaseIndex b))),
            (''phase'', JStr (sb_phase b)), (''amount'', JStr (sb_amount b)),
            (''agreementAsset'', JStr (sb_agreementAsset b)), (''settlementAsset'', JStr (sb_settlementAsset b)),
            (''payer'', JStr (sb_payer b)), (''payee'', JStr (sb_payee b)), (''network'', JStr (sb_network b)),
            (''finality'', JObj ((''model'', JStr (fp_model (sb_finality b))) #
               optional_member ''finalityBlocks'' (\<lambda>n. JNum (JInt n)) (fp_finalityBlocks (sb_finality b))))]
           @ optional_member ''effectIdentity'' JStr (sb_effectIdentity b)
           @ optional_member ''resource'' JStr (sb_resource b))"

definition named_terms :: "settlement_binding \<Rightarrow> string list" where
  "named_terms b =
     [sb_railId b, sb_jobId b, sb_phase b, sb_amount b, sb_agreementAsset b, sb_settlementAsset b,
      sb_payer b, sb_payee b, sb_network b]"

definition settlementBindingHash :: "(string \<Rightarrow> string) \<Rightarrow> settlement_binding \<Rightarrow> string res" where
  "settlementBindingHash sha256Hex b =
     ensure (sb_bindingVersion b = ''1'' \<and> isSafeInteger (sb_phaseIndex b) \<and> 0 \<le> sb_phaseIndex b)
       ''settlement binding has an invalid shape or phase index''
     (ensure (list_all isNonEmptyString (named_terms b)) ''settlement binding must be a non-empty exact NFC string''
     (ensure (CHR '':'' \<notin> set (sb_jobId b)) ''settlement binding jobId must be colon-free''
     (ensure (case sb_resource b of None \<Rightarrow> True | Some r \<Rightarrow> isNonEmptyString r) ''settlement binding resource''
     (ensure (case sb_effectIdentity b of None \<Rightarrow> True | Some e \<Rightarrow> isNonEmptyString e) ''settlement binding effectIdentity''
     (ensure (isNonEmptyString (fp_model (sb_finality b))) ''settlement binding finality model''
     (ensure (case fp_finalityBlocks (sb_finality b) of None \<Rightarrow> True | Some n \<Rightarrow> isSafeInteger n \<and> 0 < n)
       ''settlement binding finalityBlocks must be positive''
     (bindR (settlementKey (sb_railId b) (sb_jobId b) (sb_phaseIndex b)) (\<lambda>_.
      bindR (canonicalize (binding_json b)) (\<lambda>t. Inr (sha256Hex t))))))))))"

section \<open>Demos addresses and terminal failures\<close>

definition is_hex :: "char \<Rightarrow> bool" where
  "is_hex c \<longleftrightarrow> is_hex_lower c \<or> is_hex_upper c"

definition hex_key :: "string \<Rightarrow> string option" where
  "hex_key s = (if length s = 64 \<and> list_all is_hex s then Some (map toLower s) else None)"

definition demosAddressFromClaim :: "(string \<Rightarrow> bool) \<Rightarrow> string \<Rightarrow> string option" where
  "demosAddressFromClaim hostname claim =
     (case parseCanonicalClaimReference hostname claim of
        None \<Rightarrow> None
      | Some parsed \<Rightarrow>
          (let identifier = ci_identifier (cp_identity parsed) in
           if ci_scheme (cp_identity parsed) = ''did'' \<and> take (length agent_prefix) identifier = agent_prefix \<and>
              is_hash (drop (length agent_prefix) identifier)
           then Some (drop (length agent_prefix) identifier)
           else if ci_scheme (cp_identity parsed) = ''cci-xm''
           then (case splitOn (CHR '':'') identifier of
                   [family, subchain, native] \<Rightarrow>
                     if family = ''demos'' \<and> subchain \<noteq> [] \<and> take 2 native = ''0x'' then hex_key (drop 2 native) else None
                 | _ \<Rightarrow> None)
           else None))"

definition normalizeDemosNativeAddress :: "string \<Rightarrow> string option" where
  "normalizeDemosNativeAddress a =
     (let t = trim a in hex_key (if take 2 t = ''0x'' then drop 2 t else t))"

definition demos_key :: "(string \<Rightarrow> bool) \<Rightarrow> string \<Rightarrow> string option" where
  "demos_key hostname a =
     (case demosAddressFromClaim hostname a of Some k \<Rightarrow> Some k | None \<Rightarrow> normalizeDemosNativeAddress a)"

definition RESULT_KEYS :: "string list" where
  "RESULT_KEYS =
     [''ok'', ''txHash'', ''chainId'', ''payer'', ''payee'', ''errorClass'', ''failureProof'', ''blockNumber'',
      ''txRefKind'', ''finality'', ''txRef'', ''finalityObservedAt'', ''x402Receipt'']"

definition REQUIRED_RESULT_KEYS :: "string list" where
  "REQUIRED_RESULT_KEYS =
     [''ok'', ''txHash'', ''chainId'', ''payer'', ''payee'', ''errorClass'', ''failureProof'', ''blockNumber'', ''txRefKind'']"

definition proof_keys :: "string list" where
  "proof_keys = [''kind'', ''txHash'', ''nonce'', ''blockNumber'', ''payer'', ''payee'', ''amountOs'']"

definition hasExactKeys :: "(string \<times> json) list \<Rightarrow> string list \<Rightarrow> bool" where
  "hasExactKeys kvs expected \<longleftrightarrow>
     length kvs = length expected \<and> list_all (\<lambda>k. k \<in> fst ` set kvs) expected"

definition safe_count :: "json \<Rightarrow> bool" where
  "safe_count v = (case v of JNum (JInt i) \<Rightarrow> isSafeInteger i \<and> 0 \<le> i | _ \<Rightarrow> False)"

definition str_of :: "json \<Rightarrow> string option" where
  "str_of v = (case v of JStr s \<Rightarrow> Some s | _ \<Rightarrow> None)"

definition proof_binds :: "(string \<times> json) list \<Rightarrow> (string \<times> json) list \<Rightarrow> string \<Rightarrow> string \<Rightarrow> string \<Rightarrow> bool" where
  "proof_binds r value payer payee amountOs \<longleftrightarrow>
     hasExactKeys value proof_keys \<and>
     member_of value ''kind'' = JStr ''demos-failed-record'' \<and> member_of value ''txHash'' = member_of r ''txHash'' \<and>
     safe_count (member_of value ''nonce'') \<and> safe_count (member_of value ''blockNumber'') \<and>
     member_of value ''blockNumber'' = member_of r ''blockNumber'' \<and>
     member_of value ''payer'' = JStr payer \<and> member_of value ''payee'' = JStr payee \<and>
     member_of value ''amountOs'' = JStr amountOs \<and> is_canonical_nat amountOs \<and> amountOs \<noteq> ''0''"

definition isBoundDemosFailure :: "(string \<Rightarrow> bool) \<Rightarrow> (string \<times> json) list \<Rightarrow> string \<Rightarrow> string \<Rightarrow> bool" where
  "isBoundDemosFailure hostname r amountOs expectedNetwork =
     (list_all (\<lambda>kv. fst kv \<in> set RESULT_KEYS) r \<and> list_all (\<lambda>k. k \<in> fst ` set r) REQUIRED_RESULT_KEYS \<and>
      (case (member_of r ''txHash'', member_of r ''payer'', member_of r ''payee'') of
         (JStr txHash, JStr payerText, JStr payeeText) \<Rightarrow>
           trim payerText = payerText \<and> trim payeeText = payeeText \<and>
           member_of r ''ok'' = JBool False \<and> member_of r ''errorClass'' = JStr ''permanent'' \<and>
           expectedNetwork \<noteq> [] \<and> trim expectedNetwork = expectedNetwork \<and>
           member_of r ''chainId'' = JStr expectedNetwork \<and> is_hash txHash \<and>
           member_of r ''txRefKind'' = JStr ''demos'' \<and> member_of r ''finality'' = JUndefined \<and>
           member_of r ''txRef'' = JUndefined \<and> member_of r ''finalityObservedAt'' = JUndefined \<and>
           member_of r ''x402Receipt'' = JUndefined \<and>
           (case (demos_key hostname payerText, demos_key hostname payeeText, member_of r ''failureProof'') of
              (Some payer, Some payee, JObj value) \<Rightarrow> proof_binds r value payer payee amountOs
            | _ \<Rightarrow> False)
       | _ \<Rightarrow> False))"

definition hasDefinitiveDemosFailure :: "(string \<Rightarrow> bool) \<Rightarrow> (string \<times> json) list \<Rightarrow> string \<Rightarrow> string \<Rightarrow> bool" where
  "hasDefinitiveDemosFailure hostname r amountOs expectedNetwork \<longleftrightarrow>
     isDataOnlyJson (JObj r) \<and> isBoundDemosFailure hostname r amountOs expectedNetwork"

section \<open>Results of a rail\<close>

type_synonym rail_result = "(string \<times> json) list"

definition is_str :: "json \<Rightarrow> bool" where
  "is_str v \<longleftrightarrow> str_of v \<noteq> None"

definition captureResult :: "json \<Rightarrow> rail_result res" where
  "captureResult v =
     bindR (snapshotCanonicalJsonRead v) (\<lambda>snapshot.
       case snapshot of
         JObj r \<Rightarrow>
           ensure ((member_of r ''ok'' = JBool True \<or> member_of r ''ok'' = JBool False) \<and> is_str (member_of r ''txHash'') \<and>
                   is_str (member_of r ''chainId'') \<and> is_str (member_of r ''payer'') \<and> is_str (member_of r ''payee''))
             ''is not a settlement result'' (Inr r)
       | _ \<Rightarrow> throw ''is not a settlement result'')"

definition has_tx :: "rail_result \<Rightarrow> bool" where
  "has_tx r = (case member_of r ''txHash'' of JStr t \<Rightarrow> trim t \<noteq> [] | _ \<Rightarrow> False)"

definition finality_matches :: "rail_result \<Rightarrow> finality_policy \<Rightarrow> bool" where
  "finality_matches r policy =
     (case member_of r ''finality'' of
        JObj f \<Rightarrow>
          hasExactKeys f (case fp_finalityBlocks policy of None \<Rightarrow> [''model''] | Some _ \<Rightarrow> [''model'', ''finalityBlocks'']) \<and>
          member_of f ''model'' = JStr (fp_model policy) \<and>
          member_of f ''finalityBlocks'' =
            (case fp_finalityBlocks policy of None \<Rightarrow> JUndefined | Some n \<Rightarrow> JNum (JInt n))
      | _ \<Rightarrow> False)"

definition captureBoundResult :: "(string \<Rightarrow> bool) \<Rightarrow> json \<Rightarrow> settlement_binding \<Rightarrow> rail_result res" where
  "captureBoundResult hostname v b =
     bindR (captureResult v) (\<lambda>r.
       ensure (member_of r ''chainId'' = JStr (sb_network b) \<and> member_of r ''payer'' = JStr (sb_payer b) \<and>
               member_of r ''payee'' = JStr (sb_payee b))
         ''does not match the retained settlement network or parties''
       (ensure (member_of r ''errorClass'' = JUndefined \<and> member_of r ''failureProof'' = JUndefined \<or>
                sb_phase b = ''pay-dem'' \<and> sb_agreementAsset b = ''DEM'' \<and>
                hasDefinitiveDemosFailure hostname r (sb_amount b) (sb_network b))
         ''terminal-failure proof does not bind the payment''
       (if member_of r ''ok'' = JBool False
        then ensure (member_of r ''finality'' = JUndefined) ''failure must not claim settlement finality'' (Inr r)
        else ensure (has_tx r \<and> (case member_of r ''finality'' of JObj _ \<Rightarrow> True | _ \<Rightarrow> False))
               ''success must carry transaction identity and finality''
             (ensure (finality_matches r (sb_finality b))
               ''does not match the retained settlement finality policy'' (Inr r)))))"

definition isDefinitive :: "(string \<Rightarrow> bool) \<Rightarrow> rail_result \<Rightarrow> settlement_binding \<Rightarrow> bool" where
  "isDefinitive hostname r b \<longleftrightarrow>
     member_of r ''ok'' = JBool True \<and> has_tx r \<or>
     hasDefinitiveDemosFailure hostname r (sb_amount b) (sb_network b)"

section \<open>The log of intents\<close>

datatype lease_stage = Stage_Fresh | Stage_Reconcile | Stage_Replay

record intent_lease =
  il_owner :: string
  il_generation :: int
  il_stage :: lease_stage
  il_expiresAt :: int

record outcome_record =
  or_bindingHash :: string
  or_result :: rail_result

record stored_settlement =
  ss_bindingHash :: string
  ss_generation :: int
  ss_lease :: "intent_lease option"
  ss_outcome :: "outcome_record option"

type_synonym settlement_log = "string \<rightharpoonup> stored_settlement"

datatype intent_claim =
    Acquired string intent_lease | Held string intent_lease | Claim_Outcome outcome_record | Claim_Conflict

datatype recovery_grant =
    Granted string intent_lease | Grant_Outcome outcome_record | Grant_Stale | Grant_Conflict

datatype outcome_write = Recorded outcome_record | Existing outcome_record | Write_Stale | Write_Conflict

datatype intent_release = Released | Release_Stale | Release_Conflict

definition leaseExpiry :: "int \<Rightarrow> int \<Rightarrow> int res" where
  "leaseExpiry t duration =
     ensure (isSafeTime t \<and> isSafeInteger duration \<and> 0 < duration \<and> t \<le> max_safe - duration)
       ''settlement lease timestamp or duration is invalid'' (Inr (t + duration))"

definition nextGeneration :: "stored_settlement \<Rightarrow> int res" where
  "nextGeneration r =
     ensure (isSafeInteger (ss_generation r + 1)) ''settlement lease generation exhausted'' (Inr (ss_generation r + 1))"

definition current_lease :: "stored_settlement \<Rightarrow> string \<Rightarrow> intent_lease \<Rightarrow> int \<Rightarrow> bool" where
  "current_lease r bindingHash token t \<longleftrightarrow>
     ss_outcome r = None \<and> ss_bindingHash r = bindingHash \<and>
     (case ss_lease r of
        None \<Rightarrow> False
      | Some l \<Rightarrow> il_owner l = il_owner token \<and> il_generation l = il_generation token \<and> t < il_expiresAt l)"

definition readOutcome :: "settlement_log \<Rightarrow> string \<Rightarrow> (string \<times> outcome_record option) option" where
  "readOutcome lg key = map_option (\<lambda>r. (ss_bindingHash r, ss_outcome r)) (lg key)"

definition claimIntent ::
  "settlement_log \<Rightarrow> string \<Rightarrow> string \<Rightarrow> string \<Rightarrow> int \<Rightarrow> int \<Rightarrow> (intent_claim \<times> settlement_log) res" where
  "claimIntent lg key bindingHash owner t duration =
     bindR (leaseExpiry t duration) (\<lambda>expiresAt.
       case lg key of
         None \<Rightarrow>
           (let lease = \<lparr>il_owner = owner, il_generation = 1, il_stage = Stage_Fresh, il_expiresAt = expiresAt\<rparr> in
            Inr (Acquired bindingHash lease,
                 lg(key \<mapsto> \<lparr>ss_bindingHash = bindingHash, ss_generation = 1, ss_lease = Some lease, ss_outcome = None\<rparr>)))
       | Some existing \<Rightarrow>
           if ss_bindingHash existing \<noteq> bindingHash then Inr (Claim_Conflict, lg)
           else (case ss_outcome existing of
                   Some out \<Rightarrow> Inr (Claim_Outcome out, lg)
                 | None \<Rightarrow>
                     (case ss_lease existing of
                        Some l \<Rightarrow>
                          if t < il_expiresAt l then Inr (Held (ss_bindingHash existing) l, lg)
                          else bindR (nextGeneration existing) (\<lambda>generation.
                            let lease = \<lparr>il_owner = owner, il_generation = generation, il_stage = Stage_Reconcile, il_expiresAt = expiresAt\<rparr> in
                            Inr (Acquired (ss_bindingHash existing) lease,
                                 lg(key \<mapsto> existing\<lparr>ss_generation := generation, ss_lease := Some lease\<rparr>)))
                      | None \<Rightarrow>
                          bindR (nextGeneration existing) (\<lambda>generation.
                            let lease = \<lparr>il_owner = owner, il_generation = generation, il_stage = Stage_Fresh, il_expiresAt = expiresAt\<rparr> in
                            Inr (Acquired (ss_bindingHash existing) lease,
                                 lg(key \<mapsto> existing\<lparr>ss_generation := generation, ss_lease := Some lease\<rparr>))))))"

definition isCurrent :: "settlement_log \<Rightarrow> string \<Rightarrow> string \<Rightarrow> intent_lease \<Rightarrow> int \<Rightarrow> bool" where
  "isCurrent lg key bindingHash token t =
     (case lg key of None \<Rightarrow> False | Some r \<Rightarrow> current_lease r bindingHash token t)"

definition grantRecovery ::
  "settlement_log \<Rightarrow> string \<Rightarrow> string \<Rightarrow> intent_lease \<Rightarrow> string \<Rightarrow> int \<Rightarrow> int \<Rightarrow> (recovery_grant \<times> settlement_log) res" where
  "grantRecovery lg key bindingHash token owner t duration =
     bindR (leaseExpiry t duration) (\<lambda>expiresAt.
       case lg key of
         None \<Rightarrow> Inr (Grant_Stale, lg)
       | Some r \<Rightarrow>
           if ss_bindingHash r \<noteq> bindingHash then Inr (Grant_Conflict, lg)
           else (case ss_outcome r of
                   Some out \<Rightarrow> Inr (Grant_Outcome out, lg)
                 | None \<Rightarrow>
                     if \<not> current_lease r bindingHash token t \<or> map_option il_stage (ss_lease r) \<noteq> Some Stage_Reconcile
                     then Inr (Grant_Stale, lg)
                     else bindR (nextGeneration r) (\<lambda>generation.
                       let lease = \<lparr>il_owner = owner, il_generation = generation, il_stage = Stage_Replay, il_expiresAt = expiresAt\<rparr> in
                       Inr (Granted (ss_bindingHash r) lease,
                            lg(key \<mapsto> r\<lparr>ss_generation := generation, ss_lease := Some lease\<rparr>)))))"

definition outcome_json :: "outcome_record \<Rightarrow> json" where
  "outcome_json out = JObj [(''bindingHash'', JStr (or_bindingHash out)), (''result'', JObj (or_result out))]"

definition sameOutcome :: "outcome_record \<Rightarrow> outcome_record \<Rightarrow> bool res" where
  "sameOutcome left right =
     bindR (canonicalize (outcome_json left)) (\<lambda>l. bindR (canonicalize (outcome_json right)) (\<lambda>r. Inr (l = r)))"

definition captureOutcome :: "string \<Rightarrow> rail_result \<Rightarrow> outcome_record res" where
  "captureOutcome bindingHash r =
     bindR (captureResult (JObj r)) (\<lambda>captured. Inr \<lparr>or_bindingHash = bindingHash, or_result = captured\<rparr>)"

definition putOutcome ::
  "settlement_log \<Rightarrow> string \<Rightarrow> string \<Rightarrow> intent_lease \<Rightarrow> rail_result \<Rightarrow> int \<Rightarrow> (outcome_write \<times> settlement_log) res" where
  "putOutcome lg key bindingHash token r t =
     (case lg key of
        None \<Rightarrow> Inr (Write_Stale, lg)
      | Some record \<Rightarrow>
          if ss_bindingHash record \<noteq> bindingHash then Inr (Write_Conflict, lg)
          else bindR (captureOutcome bindingHash r) (\<lambda>candidate.
            case ss_outcome record of
              Some out \<Rightarrow>
                bindR (sameOutcome out candidate) (\<lambda>same. Inr (if same then Existing out else Write_Conflict, lg))
            | None \<Rightarrow>
                if \<not> current_lease record bindingHash token t then Inr (Write_Stale, lg)
                else Inr (Recorded candidate, lg(key \<mapsto> record\<lparr>ss_lease := None, ss_outcome := Some candidate\<rparr>))))"

definition releaseIntent ::
  "settlement_log \<Rightarrow> string \<Rightarrow> string \<Rightarrow> intent_lease \<Rightarrow> int \<Rightarrow> intent_release \<times> settlement_log" where
  "releaseIntent lg key bindingHash token t =
     (case lg key of
        None \<Rightarrow> (Release_Stale, lg)
      | Some r \<Rightarrow>
          if ss_bindingHash r \<noteq> bindingHash then (Release_Conflict, lg)
          else if \<not> current_lease r bindingHash token t then (Release_Stale, lg)
          else (Released, lg(key \<mapsto> r\<lparr>ss_lease := None\<rparr>)))"

section \<open>What the store accepts from a log and from a rail\<close>

definition printable :: "char \<Rightarrow> bool" where
  "printable c \<longleftrightarrow> 32 \<le> code c \<and> code c \<le> 126"

definition captureLease :: "intent_lease \<Rightarrow> intent_lease res" where
  "captureLease l =
     ensure (il_owner l \<noteq> [] \<and> list_all printable (il_owner l) \<and> isSafeInteger (il_generation l) \<and> 0 < il_generation l \<and>
             isSafeInteger (il_expiresAt l) \<and> 0 < il_expiresAt l) ''has an invalid shape'' (Inr l)"

definition captureStoredOutcome :: "outcome_record \<Rightarrow> outcome_record res" where
  "captureStoredOutcome out =
     ensure (is_hash (or_bindingHash out)) ''has an invalid shape''
     (bindR (captureResult (JObj (or_result out))) (\<lambda>r.
        Inr \<lparr>or_bindingHash = or_bindingHash out, or_result = r\<rparr>))"

fun captureIntentClaim :: "intent_claim \<Rightarrow> intent_claim res" where
  "captureIntentClaim Claim_Conflict = Inr Claim_Conflict"
| "captureIntentClaim (Claim_Outcome out) = bindR (captureStoredOutcome out) (\<lambda>c. Inr (Claim_Outcome c))"
| "captureIntentClaim (Acquired h l) =
     ensure (is_hash h) ''settlement intent claim has an invalid shape'' (bindR (captureLease l) (\<lambda>c. Inr (Acquired h c)))"
| "captureIntentClaim (Held h l) =
     ensure (is_hash h) ''settlement intent claim has an invalid shape'' (bindR (captureLease l) (\<lambda>c. Inr (Held h c)))"

fun captureRecoveryGrant :: "recovery_grant \<Rightarrow> recovery_grant res" where
  "captureRecoveryGrant Grant_Stale = Inr Grant_Stale"
| "captureRecoveryGrant Grant_Conflict = Inr Grant_Conflict"
| "captureRecoveryGrant (Grant_Outcome out) = bindR (captureStoredOutcome out) (\<lambda>c. Inr (Grant_Outcome c))"
| "captureRecoveryGrant (Granted h l) =
     ensure (is_hash h) ''settlement recovery grant has an invalid shape'' (bindR (captureLease l) (\<lambda>c. Inr (Granted h c)))"

fun captureOutcomeWrite :: "outcome_write \<Rightarrow> outcome_write res" where
  "captureOutcomeWrite Write_Stale = Inr Write_Stale"
| "captureOutcomeWrite Write_Conflict = Inr Write_Conflict"
| "captureOutcomeWrite (Recorded out) = bindR (captureStoredOutcome out) (\<lambda>c. Inr (Recorded c))"
| "captureOutcomeWrite (Existing out) = bindR (captureStoredOutcome out) (\<lambda>c. Inr (Existing c))"

datatype submission = Plain json | Not_Invoked json

fun captureSubmission :: "submission \<Rightarrow> rail_result res" where
  "captureSubmission (Plain v) = captureResult v"
| "captureSubmission (Not_Invoked v) =
     bindR (captureResult v) (\<lambda>r.
       ensure (member_of r ''ok'' = JBool False \<and> \<not> has_tx r)
         ''not-invoked settlement result cannot claim success or transaction identity'' (Inr r))"

record replay_authorization =
  ra_bindingHash :: string
  ra_effectIdentity :: string
  ra_protection :: string

definition captureReplayAuthorization ::
  "replay_authorization \<Rightarrow> string \<Rightarrow> string option \<Rightarrow> replay_authorization res" where
  "captureReplayAuthorization a bindingHash expectedEffectIdentity =
     ensure (ra_bindingHash a = bindingHash \<and> expectedEffectIdentity = Some (ra_effectIdentity a) \<and>
             ra_protection a \<in> {''deterministic-external-idempotency'', ''prior-effect-terminal''})
       ''settlement replay authorization does not bind the retained effect identity'' (Inr a)"

section \<open>What an operation does to the log\<close>

text \<open>An operation on one key either leaves the log alone or changes the record of that key.\<close>

lemma claimIntent_cases:
  assumes "claimIntent lg key h owner t d = Inr (c, lg')"
  obtains (installed) l where "lg key = None" "c = Acquired h l" "il_stage l = Stage_Fresh"
      "lg' = lg(key \<mapsto> \<lparr>ss_bindingHash = h, ss_generation = 1, ss_lease = Some l, ss_outcome = None\<rparr>)"
    | (taken) r l where "lg key = Some r" "ss_bindingHash r = h" "ss_outcome r = None" "c = Acquired h l"
      "il_stage l = (if ss_lease r = None then Stage_Fresh else Stage_Reconcile)"
      "lg' = lg(key \<mapsto> r\<lparr>ss_generation := ss_generation r + 1, ss_lease := Some l\<rparr>)"
    | (unchanged) "lg' = lg" "\<And>h' l. c \<noteq> Acquired h' l"
proof (cases "lg key")
  case None
  then show thesis using assms installed by (auto simp: claimIntent_def bindR_Inr Let_def)
next
  case (Some r)
  show thesis
  proof (cases "ss_bindingHash r \<noteq> h \<or> ss_outcome r \<noteq> None")
    case True
    then show thesis using assms Some unchanged by (auto simp: claimIntent_def bindR_Inr split: option.splits if_splits)
  next
    case False
    then show thesis
      using assms Some unchanged taken [OF Some]
      by (cases "ss_lease r") (auto simp: claimIntent_def bindR_Inr Let_def nextGeneration_def ensure_Inr split: if_splits)
  qed
qed

lemma grantRecovery_cases:
  assumes "grantRecovery lg key h token owner t d = Inr (g, lg')"
  obtains (granted) r l where "lg key = Some r" "ss_bindingHash r = h" "ss_outcome r = None" "ss_lease r \<noteq> None" "g = Granted h l"
      "lg' = lg(key \<mapsto> r\<lparr>ss_generation := ss_generation r + 1, ss_lease := Some l\<rparr>)"
    | (unchanged) "lg' = lg" "\<not> (\<exists>h' l. g = Granted h' l)"
proof (cases "lg key")
  case None
  then show thesis using assms unchanged by (auto simp: grantRecovery_def bindR_Inr)
next
  case (Some r)
  show thesis
  proof (cases "ss_bindingHash r \<noteq> h \<or> ss_outcome r \<noteq> None \<or> \<not> current_lease r h token t \<or>
      map_option il_stage (ss_lease r) \<noteq> Some Stage_Reconcile")
    case True
    then show thesis using assms Some unchanged
      by (cases "ss_outcome r") (auto simp: grantRecovery_def bindR_Inr split: if_splits)
  next
    case False
    then show thesis
      using assms Some granted [OF Some]
      by (auto simp: grantRecovery_def bindR_Inr Let_def nextGeneration_def ensure_Inr split: if_splits)
  qed
qed

lemma putOutcome_cases:
  assumes "putOutcome lg key h token r t = Inr (w, lg')"
  obtains (recorded) q where "lg key = Some q" "ss_bindingHash q = h" "current_lease q h token t"
      "ss_outcome q = None"
      "\<exists>captured. captureResult (JObj r) = Inr captured \<and>
         lg' = lg(key \<mapsto> q\<lparr>ss_lease := None, ss_outcome := Some \<lparr>or_bindingHash = h, or_result = captured\<rparr>\<rparr>)"
    | (unchanged) "lg' = lg"
proof (cases "lg key")
  case None
  then show thesis using assms unchanged by (auto simp: putOutcome_def)
next
  case (Some q)
  then show thesis
    using assms unchanged recorded [OF Some]
    by (cases "ss_outcome q")
      (auto simp: putOutcome_def captureOutcome_def bindR_Inr split: if_splits)
qed

lemma releaseIntent_cases:
  assumes "releaseIntent lg key h token t = (res, lg')"
  obtains (released) r where "lg key = Some r" "ss_bindingHash r = h" "current_lease r h token t" "ss_outcome r = None"
      "res = Released" "lg' = lg(key \<mapsto> r\<lparr>ss_lease := None\<rparr>)"
    | (unchanged) "lg' = lg" "res \<noteq> Released"
  using assms by (auto simp: releaseIntent_def current_lease_def split: option.splits if_splits)

end
