(* ===== verification/Dacs_Settlement_Once.thy ===== *)
theory Dacs_Settlement_Once
  imports Dacs_Settlement
begin

text \<open>
  Settlement idempotency, part two: the operation \<^verbatim>\<open>once\<close> of \<^verbatim>\<open>createIdempotencyStore\<close>
  (\<^verbatim>\<open>src/src/rails/idempotency.ts\<close>) as a program that many workers run against one log. Every
  \<^verbatim>\<open>await\<close> is a point where other workers may act, so the operation is a step function on a program
  counter: a step makes one call (of the log, of the rail or of the reconciler) and the work up to
  the next call. The clock reading and the answer of a callback are arguments of the step. A worker
  that crashes is one that is never stepped again.
\<close>

section \<open>One worker\<close>

record once_config =
  oc_key :: string
  oc_binding :: settlement_binding
  oc_bindingHash :: string
  oc_owner :: string
  oc_leaseDurationMs :: int
  oc_reconcile :: bool

datatype reconciled = Found json | Replay_Authorized replay_authorization | Authoritatively_Absent

datatype response = Nothing_Returned | Threw | Reconciled reconciled | Submission submission

datatype once_pc =
    Claiming
  | Before_Reconcile intent_lease
  | Reconciling intent_lease
  | After_Reconcile intent_lease reconciled
  | Check_Replay intent_lease
  | Recheck_Replay intent_lease
  | Granting intent_lease
  | Check_Replay_Again intent_lease
  | Recheck_Again intent_lease
  | Before_Submit intent_lease
  | Calling_Submit intent_lease
  | Submitting intent_lease
  | Persisting intent_lease rail_result
  | Releasing intent_lease rail_result
  | Once_Done rail_result
  | Once_Failed

text \<open>The calls that matter for double payment, as labels of a step.\<close>

datatype once_event = Fresh_Acquired string | Submit_Invoked string | Intent_Released string | Replay_Granted string

text \<open>The check at the entry of \<^verbatim>\<open>once\<close>: the terms are valid and the key is theirs.\<close>

definition once_enter :: "(string \<Rightarrow> string) \<Rightarrow> string \<Rightarrow> settlement_binding \<Rightarrow> string \<Rightarrow> int \<Rightarrow> bool \<Rightarrow> once_config res" where
  "once_enter sha256Hex key b owner duration reconcile =
     bindR (settlementBindingHash sha256Hex b) (\<lambda>h.
     bindR (settlementKey (sb_railId b) (sb_jobId b) (sb_phaseIndex b)) (\<lambda>k.
       ensure (k = key) ''settlement binding does not match its idempotency key''
       (Inr \<lparr>oc_key = key, oc_binding = b, oc_bindingHash = h, oc_owner = owner,
             oc_leaseDurationMs = duration, oc_reconcile = reconcile\<rparr>)))"

definition store_now :: "once_config \<Rightarrow> int \<Rightarrow> int res" where
  "store_now cfg t =
     ensure (isSafeTime t \<and> t \<le> max_safe - oc_leaseDurationMs cfg)
       ''settlement store clock returned an invalid timestamp'' (Inr t)"

text \<open>\<^verbatim>\<open>effectFence.assertCurrent()\<close>.\<close>

definition assert_current :: "once_config \<Rightarrow> int \<Rightarrow> settlement_log \<Rightarrow> intent_lease \<Rightarrow> bool" where
  "assert_current cfg t lg l =
     (case store_now cfg t of Inl _ \<Rightarrow> False | Inr t' \<Rightarrow> isCurrent lg (oc_key cfg) (oc_bindingHash cfg) l t')"

text \<open>Returning a result checks it against the terms once more.\<close>

definition once_return :: "(string \<Rightarrow> bool) \<Rightarrow> once_config \<Rightarrow> rail_result res \<Rightarrow> once_pc" where
  "once_return hostname cfg r =
     (case bindR r (\<lambda>x. captureBoundResult hostname (JObj x) (oc_binding cfg)) of Inl _ \<Rightarrow> Once_Failed | Inr x \<Rightarrow> Once_Done x)"

definition outcome_pc :: "(string \<Rightarrow> bool) \<Rightarrow> once_config \<Rightarrow> outcome_record \<Rightarrow> once_pc" where
  "outcome_pc hostname cfg out =
     (if or_bindingHash out \<noteq> oc_bindingHash cfg then Once_Failed
      else once_return hostname cfg (captureBoundResult hostname (JObj (or_result out)) (oc_binding cfg)))"

definition after_claim :: "(string \<Rightarrow> bool) \<Rightarrow> once_config \<Rightarrow> intent_claim \<Rightarrow> once_pc" where
  "after_claim hostname cfg claim =
     (case captureIntentClaim claim of
        Inr (Claim_Outcome out) \<Rightarrow> outcome_pc hostname cfg out
      | Inr (Acquired h l) \<Rightarrow>
          if h \<noteq> oc_bindingHash cfg \<or> il_owner l \<noteq> oc_owner cfg \<or> il_stage l = Stage_Replay then Once_Failed
          else if il_stage l = Stage_Reconcile then (if oc_reconcile cfg then Before_Reconcile l else Once_Failed)
          else Before_Submit l
      | _ \<Rightarrow> Once_Failed)"

definition after_reconcile :: "(string \<Rightarrow> bool) \<Rightarrow> once_config \<Rightarrow> intent_lease \<Rightarrow> reconciled \<Rightarrow> once_pc" where
  "after_reconcile hostname cfg l found =
     (case found of
        Found v \<Rightarrow>
          (case captureBoundResult hostname v (oc_binding cfg) of
             Inl _ \<Rightarrow> Once_Failed
           | Inr r \<Rightarrow> if isDefinitive hostname r (oc_binding cfg) then Persisting l r else Once_Failed)
      | Authoritatively_Absent \<Rightarrow> Once_Failed
      | Replay_Authorized a \<Rightarrow>
          (case captureReplayAuthorization a (oc_bindingHash cfg) (sb_effectIdentity (oc_binding cfg)) of
             Inl _ \<Rightarrow> Once_Failed | Inr _ \<Rightarrow> Check_Replay l))"

definition after_grant :: "(string \<Rightarrow> bool) \<Rightarrow> once_config \<Rightarrow> recovery_grant \<Rightarrow> once_pc" where
  "after_grant hostname cfg grant =
     (case captureRecoveryGrant grant of
        Inr (Grant_Outcome out) \<Rightarrow> outcome_pc hostname cfg out
      | Inr (Granted h l) \<Rightarrow>
          if h \<noteq> oc_bindingHash cfg \<or> il_owner l \<noteq> oc_owner cfg \<or> il_stage l \<noteq> Stage_Replay then Once_Failed
          else Check_Replay_Again l
      | _ \<Rightarrow> Once_Failed)"

definition after_submit :: "(string \<Rightarrow> bool) \<Rightarrow> once_config \<Rightarrow> intent_lease \<Rightarrow> submission \<Rightarrow> once_pc" where
  "after_submit hostname cfg l sub =
     (case bindR (captureSubmission sub) (\<lambda>r. captureBoundResult hostname (JObj r) (oc_binding cfg)) of
        Inl _ \<Rightarrow> Once_Failed
      | Inr r \<Rightarrow>
          if isDefinitive hostname r (oc_binding cfg) then Persisting l r
          else (case sub of
                  Not_Invoked _ \<Rightarrow> Releasing l r
                | Plain _ \<Rightarrow> once_return hostname cfg (captureBoundResult hostname (JObj r) (oc_binding cfg))))"

definition after_write :: "(string \<Rightarrow> bool) \<Rightarrow> once_config \<Rightarrow> outcome_write \<Rightarrow> once_pc" where
  "after_write hostname cfg written =
     (case captureOutcomeWrite written of
        Inr (Recorded out) \<Rightarrow> outcome_pc hostname cfg out
      | Inr (Existing out) \<Rightarrow> outcome_pc hostname cfg out
      | _ \<Rightarrow> Once_Failed)"

fun acquired_fresh :: "intent_claim \<Rightarrow> bool" where
  "acquired_fresh (Acquired h l) \<longleftrightarrow> il_stage l = Stage_Fresh"
| "acquired_fresh _ \<longleftrightarrow> False"

fun is_granted :: "recovery_grant \<Rightarrow> bool" where
  "is_granted (Granted _ _) = True"
| "is_granted _ = False"

fun once_step ::
  "(string \<Rightarrow> bool) \<Rightarrow> once_config \<Rightarrow> int \<Rightarrow> response \<Rightarrow> settlement_log \<Rightarrow> once_pc
   \<Rightarrow> once_pc \<times> settlement_log \<times> once_event list" where
  "once_step hostname cfg t resp lg Claiming =
     (case bindR (store_now cfg t)
             (\<lambda>t'. claimIntent lg (oc_key cfg) (oc_bindingHash cfg) (oc_owner cfg) t' (oc_leaseDurationMs cfg)) of
        Inl _ \<Rightarrow> (Once_Failed, lg, [])
      | Inr (claim, lg') \<Rightarrow>
          (after_claim hostname cfg claim, lg', if acquired_fresh claim then [Fresh_Acquired (oc_key cfg)] else []))"
| "once_step hostname cfg t resp lg (Before_Reconcile l) =
     (if assert_current cfg t lg l then Reconciling l else Once_Failed, lg, [])"
| "once_step hostname cfg t resp lg (Reconciling l) =
     ((case resp of Reconciled found \<Rightarrow> After_Reconcile l found | _ \<Rightarrow> Once_Failed), lg, [])"
| "once_step hostname cfg t resp lg (After_Reconcile l found) =
     (if assert_current cfg t lg l then after_reconcile hostname cfg l found else Once_Failed, lg, [])"
| "once_step hostname cfg t resp lg (Check_Replay l) =
     (if resp = Nothing_Returned then Recheck_Replay l else Once_Failed, lg, [])"
| "once_step hostname cfg t resp lg (Recheck_Replay l) =
     (if assert_current cfg t lg l then Granting l else Once_Failed, lg, [])"
| "once_step hostname cfg t resp lg (Granting l) =
     (case bindR (store_now cfg t)
             (\<lambda>t'. grantRecovery lg (oc_key cfg) (oc_bindingHash cfg) l (oc_owner cfg) t' (oc_leaseDurationMs cfg)) of
        Inl _ \<Rightarrow> (Once_Failed, lg, [])
      | Inr (grant, lg') \<Rightarrow>
          (after_grant hostname cfg grant, lg', if is_granted grant then [Replay_Granted (oc_key cfg)] else []))"
| "once_step hostname cfg t resp lg (Check_Replay_Again l) =
     (if resp = Nothing_Returned then Recheck_Again l else Once_Failed, lg, [])"
| "once_step hostname cfg t resp lg (Recheck_Again l) =
     (if assert_current cfg t lg l then Before_Submit l else Once_Failed, lg, [])"
| "once_step hostname cfg t resp lg (Before_Submit l) =
     (if assert_current cfg t lg l then Calling_Submit l else Once_Failed, lg, [])"
| "once_step hostname cfg t resp lg (Calling_Submit l) = (Submitting l, lg, [Submit_Invoked (oc_key cfg)])"
| "once_step hostname cfg t resp lg (Submitting l) =
     ((case resp of Submission sub \<Rightarrow> after_submit hostname cfg l sub | _ \<Rightarrow> Once_Failed), lg, [])"
| "once_step hostname cfg t resp lg (Persisting l r) =
     (case bindR (captureBoundResult hostname (JObj r) (oc_binding cfg)) (\<lambda>checked.
           bindR (store_now cfg t) (\<lambda>t'. putOutcome lg (oc_key cfg) (oc_bindingHash cfg) l checked t')) of
        Inl _ \<Rightarrow> (Once_Failed, lg, [])
      | Inr (written, lg') \<Rightarrow> (after_write hostname cfg written, lg', []))"
| "once_step hostname cfg t resp lg (Releasing l r) =
     (case store_now cfg t of
        Inl _ \<Rightarrow> (Once_Failed, lg, [])
      | Inr t' \<Rightarrow>
          (case releaseIntent lg (oc_key cfg) (oc_bindingHash cfg) l t' of
             (Released, lg') \<Rightarrow>
               (once_return hostname cfg (captureBoundResult hostname (JObj r) (oc_binding cfg)), lg', [Intent_Released (oc_key cfg)])
           | (_, lg') \<Rightarrow> (Once_Failed, lg', [])))"
| "once_step hostname cfg t resp lg (Once_Done r) = (Once_Done r, lg, [])"
| "once_step hostname cfg t resp lg Once_Failed = (Once_Failed, lg, [])"

text \<open>
  \<^verbatim>\<open>readOutcome\<close> of the store: the recorded result under exact terms, without claiming. \<open>inflight\<close> is the
  hash of the terms under which this process is running the key, if it is.
\<close>

definition store_readOutcome ::
  "(string \<Rightarrow> string) \<Rightarrow> (string \<Rightarrow> bool) \<Rightarrow> settlement_log \<Rightarrow> string option \<Rightarrow> string \<Rightarrow> settlement_binding
   \<Rightarrow> rail_result option res" where
  "store_readOutcome sha256Hex hostname lg inflight key b =
     bindR (settlementBindingHash sha256Hex b) (\<lambda>h.
     bindR (settlementKey (sb_railId b) (sb_jobId b) (sb_phaseIndex b)) (\<lambda>k.
       ensure (k = key) ''settlement outcome lookup binding does not match its idempotency key''
       (ensure (case inflight of None \<Rightarrow> True | Some running \<Rightarrow> running = h) ''settlement is already running under different terms''
       (case readOutcome lg key of
          None \<Rightarrow> Inr None
        | Some (retained, outcome) \<Rightarrow>
            ensure (is_hash retained) ''settlement read-only record has an invalid binding hash''
            (ensure (retained = h) ''settlement outcome binding conflicts with requested terms''
            (case outcome of
               None \<Rightarrow> Inr None
             | Some out \<Rightarrow>
                 bindR (captureStoredOutcome out) (\<lambda>c.
                 bindR (captureBoundResult hostname (JObj (or_result c)) b) (\<lambda>r. Inr (Some r)))))))))"

section \<open>Many workers\<close>

record settlement_system =
  sys_log :: settlement_log
  sys_workers :: "(once_config \<times> once_pc) list"
  sys_events :: "once_event list"

definition new_system :: settlement_system where
  "new_system = \<lparr>sys_log = Map.empty, sys_workers = [], sys_events = []\<rparr>"

inductive settlement_step ::
  "(string \<Rightarrow> string) \<Rightarrow> (string \<Rightarrow> bool) \<Rightarrow> settlement_system \<Rightarrow> settlement_system \<Rightarrow> bool"
  for sha256Hex :: "string \<Rightarrow> string" and hostname :: "string \<Rightarrow> bool" where
  enters: "once_enter sha256Hex key b owner duration reconcile = Inr cfg \<Longrightarrow>
     settlement_step sha256Hex hostname s (s\<lparr>sys_workers := sys_workers s @ [(cfg, Claiming)]\<rparr>)"
| advances: "i < length (sys_workers s) \<Longrightarrow> sys_workers s ! i = (cfg, pc) \<Longrightarrow>
     once_step hostname cfg t resp (sys_log s) pc = (pc', lg', ev) \<Longrightarrow>
     settlement_step sha256Hex hostname s
       \<lparr>sys_log = lg', sys_workers = (sys_workers s)[i := (cfg, pc')], sys_events = sys_events s @ ev\<rparr>"

inductive_cases settlement_stepE: "settlement_step sha256Hex hostname s s'"

section \<open>Counting submissions\<close>

definition times :: "once_event \<Rightarrow> once_event list \<Rightarrow> nat" where
  "times e es = length (filter ((=) e) es)"

lemma times_simps [simp]: "times e [] = 0" "times e (x # xs) = (if e = x then 1 else 0) + times e xs"
  "times e (xs @ ys) = times e xs + times e ys"
  by (simp_all add: times_def)

text \<open>A worker that may still invoke its rail for key \<open>k\<close>.\<close>

fun may_submit :: "once_pc \<Rightarrow> bool" where
  "may_submit (Check_Replay_Again l) = True"
| "may_submit (Recheck_Again l) = True"
| "may_submit (Before_Submit l) = True"
| "may_submit (Calling_Submit l) = True"
| "may_submit _ = False"

definition unused :: "string \<Rightarrow> once_config \<times> once_pc \<Rightarrow> nat" where
  "unused k w = (if oc_key (fst w) = k \<and> may_submit (snd w) then 1 else 0)"

text \<open>A free slot: the log would hand out a fresh lease for key \<open>k\<close>.\<close>

definition slots :: "settlement_log \<Rightarrow> string \<Rightarrow> nat" where
  "slots lg k = (case lg k of None \<Rightarrow> 1 | Some r \<Rightarrow> if ss_lease r = None \<and> ss_outcome r = None then 1 else 0)"

lemma once_return_idle: "\<not> may_submit (once_return hostname cfg r)"
  by (auto simp: once_return_def split: sum.splits)

lemma outcome_pc_idle: "\<not> may_submit (outcome_pc hostname cfg out)"
  by (simp add: outcome_pc_def once_return_idle)

lemma captureIntentClaim_Acquired: "captureIntentClaim c = Inr (Acquired h l) \<Longrightarrow> c = Acquired h l"
  by (cases c) (auto simp: bindR_Inr ensure_Inr captureLease_def)

lemma captureRecoveryGrant_Granted: "captureRecoveryGrant g = Inr (Granted h l) \<Longrightarrow> g = Granted h l"
  by (cases g) (auto simp: bindR_Inr ensure_Inr captureLease_def)

lemma after_claim_may_submit: "may_submit (after_claim hostname cfg c) \<Longrightarrow> acquired_fresh c"
proof -
  assume m: "may_submit (after_claim hostname cfg c)"
  then obtain h l where hl: "captureIntentClaim c = Inr (Acquired h l)" "il_stage l \<noteq> Stage_Replay" "il_stage l \<noteq> Stage_Reconcile"
    by (auto simp: after_claim_def outcome_pc_idle split: sum.splits intent_claim.splits if_splits)
  then have "il_stage l = Stage_Fresh" by (cases "il_stage l") simp_all
  with captureIntentClaim_Acquired [OF hl(1)] show "acquired_fresh c" by simp
qed

lemma after_grant_may_submit: "may_submit (after_grant hostname cfg g) \<Longrightarrow> is_granted g"
  by (auto simp: after_grant_def outcome_pc_idle split: sum.splits recovery_grant.splits if_splits
      dest: captureRecoveryGrant_Granted)

lemma after_reconcile_idle: "\<not> may_submit (after_reconcile hostname cfg l found)"
  by (auto simp: after_reconcile_def split: reconciled.splits sum.splits)

lemma after_submit_idle: "\<not> may_submit (after_submit hostname cfg l sub)"
  by (auto simp: after_submit_def once_return_idle split: submission.splits sum.splits)

lemma after_write_idle: "\<not> may_submit (after_write hostname cfg w)"
  by (auto simp: after_write_def outcome_pc_idle split: sum.splits outcome_write.splits)

lemmas idle_pcs = once_return_idle outcome_pc_idle after_reconcile_idle after_submit_idle after_write_idle

lemma once_step_unused:
  assumes "once_step hostname cfg t resp lg pc = (pc', lg', ev)"
  shows "times (Submit_Invoked k) ev + unused k (cfg, pc') \<le>
         unused k (cfg, pc) + times (Fresh_Acquired k) ev + times (Replay_Granted k) ev"
  using assms
  by (cases pc)
    (auto simp: unused_def idle_pcs dest: after_claim_may_submit after_grant_may_submit
      split: sum.splits prod.splits response.splits intent_release.splits if_splits)

lemma acquired_fresh_iff: "acquired_fresh c \<longleftrightarrow> (\<exists>h l. c = Acquired h l \<and> il_stage l = Stage_Fresh)"
  by (cases c) auto

lemma claimIntent_slots:
  assumes "claimIntent lg key h ow t d = Inr (c, lg')"
  shows "(if acquired_fresh c \<and> key = k then 1 else 0) + slots lg' k \<le> slots lg k"
  using assms by (rule claimIntent_cases) (auto simp: slots_def acquired_fresh_iff split: if_splits)

lemma grantRecovery_slots:
  assumes "grantRecovery lg key h l ow t d = Inr (g, lg')"
  shows "slots lg' k \<le> slots lg k"
  using assms by (rule grantRecovery_cases) (auto simp: slots_def)

lemma putOutcome_slots:
  assumes "putOutcome lg key h l r t = Inr (w, lg')"
  shows "slots lg' k \<le> slots lg k"
  using assms by (rule putOutcome_cases) (auto simp: slots_def)

lemma releaseIntent_slots:
  assumes "releaseIntent lg key h l t = (res, lg')"
  shows "slots lg' k \<le> slots lg k + (if res = Released \<and> key = k then 1 else 0)"
  using assms by (rule releaseIntent_cases) (auto simp: slots_def)

lemma once_step_slots:
  assumes "once_step hostname cfg t resp lg pc = (pc', lg', ev)"
  shows "times (Fresh_Acquired k) ev + slots lg' k \<le> slots lg k + times (Intent_Released k) ev"
  using assms
  by (cases pc)
    (auto simp: bindR_Inr dest!: claimIntent_slots [where k = k] grantRecovery_slots [where k = k] putOutcome_slots [where k = k]
      releaseIntent_slots [where k = k] split: sum.splits prod.splits intent_release.splits if_splits)

definition settlement_inv :: "settlement_system \<Rightarrow> bool" where
  "settlement_inv s \<longleftrightarrow>
     (\<forall>k. times (Submit_Invoked k) (sys_events s) + sum_list (map (unused k) (sys_workers s)) \<le>
            times (Fresh_Acquired k) (sys_events s) + times (Replay_Granted k) (sys_events s) \<and>
          times (Fresh_Acquired k) (sys_events s) + slots (sys_log s) k \<le> 1 + times (Intent_Released k) (sys_events s))"

lemma sum_unused_update:
  assumes "i < length ws"
  shows "sum_list (map (unused k) (ws[i := w])) + unused k (ws ! i) = sum_list (map (unused k) ws) + unused k w"
  using assms by (induction ws arbitrary: i) (auto simp: nth_Cons split: nat.splits)

interpretation settlement: invariant_system "\<lambda>s. s = new_system" "settlement_step sha256Hex hostname" settlement_inv
  for sha256Hex hostname
proof
  fix s assume "s = new_system"
  then show "settlement_inv s" by (simp add: settlement_inv_def new_system_def slots_def)
next
  fix s s' assume inv: "settlement_inv s" and step: "settlement_step sha256Hex hostname s s'"
  from step show "settlement_inv s'"
  proof (cases rule: settlement_step.cases)
    case (enters key b owner duration reconcile cfg)
    then show ?thesis using inv by (simp add: settlement_inv_def unused_def)
  next
    case (advances i cfg pc t resp pc' lg' ev)
    show ?thesis
      unfolding settlement_inv_def
    proof
      fix k
      have a: "times (Submit_Invoked k) (sys_events s) + sum_list (map (unused k) (sys_workers s)) \<le>
            times (Fresh_Acquired k) (sys_events s) + times (Replay_Granted k) (sys_events s)"
        and b: "times (Fresh_Acquired k) (sys_events s) + slots (sys_log s) k \<le> 1 + times (Intent_Released k) (sys_events s)"
        using inv by (simp_all add: settlement_inv_def)
      have u: "sum_list (map (unused k) ((sys_workers s)[i := (cfg, pc')])) + unused k (cfg, pc) =
            sum_list (map (unused k) (sys_workers s)) + unused k (cfg, pc')"
        using sum_unused_update [OF advances(2), of k "(cfg, pc')"] advances(3) by simp
      show "times (Submit_Invoked k) (sys_events s') + sum_list (map (unused k) (sys_workers s')) \<le>
            times (Fresh_Acquired k) (sys_events s') + times (Replay_Granted k) (sys_events s') \<and>
          times (Fresh_Acquired k) (sys_events s') + slots (sys_log s') k \<le> 1 + times (Intent_Released k) (sys_events s')"
        using a b u once_step_unused [OF advances(4), of k] once_step_slots [OF advances(4), of k]
        by (simp add: advances(1))
    qed
  qed
qed

text \<open>
  Property C3. At most one payment attempt is unaccounted for. Whatever the interleaving of workers, crashes and clock
  readings, the rail is invoked for a settlement key at most once more than the number of attempts
  that were released as proven not invoked and the number of replays that a bound authorization
  granted.
\<close>

theorem at_most_one_unproven_submission:
  assumes "(settlement_step sha256Hex hostname)\<^sup>*\<^sup>* new_system s"
  shows "times (Submit_Invoked k) (sys_events s) \<le>
         1 + times (Intent_Released k) (sys_events s) + times (Replay_Granted k) (sys_events s)"
proof -
  have "settlement_inv s" using settlement.inv_reachable [OF refl assms] .
  then have "times (Submit_Invoked k) (sys_events s) + sum_list (map (unused k) (sys_workers s)) \<le>
            times (Fresh_Acquired k) (sys_events s) + times (Replay_Granted k) (sys_events s)"
    and "times (Fresh_Acquired k) (sys_events s) + slots (sys_log s) k \<le> 1 + times (Intent_Released k) (sys_events s)"
    by (simp_all add: settlement_inv_def)
  then show ?thesis by simp
qed

section \<open>A concrete run\<close>

text \<open>One worker that runs alone, with the clock readings and answers it is given.\<close>

fun solo_run ::
  "(string \<Rightarrow> bool) \<Rightarrow> once_config \<Rightarrow> (int \<times> response) list \<Rightarrow> once_pc \<times> settlement_log \<times> once_event list
   \<Rightarrow> once_pc \<times> settlement_log \<times> once_event list" where
  "solo_run hostname cfg [] st = st"
| "solo_run hostname cfg ((t, resp) # ins) (pc, lg, es) =
     (case once_step hostname cfg t resp lg pc of (pc', lg', ev) \<Rightarrow> solo_run hostname cfg ins (pc', lg', es @ ev))"

definition solo_system :: "once_config \<Rightarrow> once_pc \<times> settlement_log \<times> once_event list \<Rightarrow> settlement_system" where
  "solo_system cfg st = \<lparr>sys_log = fst (snd st), sys_workers = [(cfg, fst st)], sys_events = snd (snd st)\<rparr>"

lemma solo_run_steps:
  "(settlement_step sha256Hex hostname)\<^sup>*\<^sup>* (solo_system cfg st) (solo_system cfg (solo_run hostname cfg ins st))"
proof (induction ins arbitrary: st)
  case (Cons i ins)
  obtain t resp where i: "i = (t, resp)" by (cases i)
  obtain pc lg es where st: "st = (pc, lg, es)" by (cases st)
  obtain pc' lg' ev where n: "once_step hostname cfg t resp lg pc = (pc', lg', ev)" using prod_cases3 by blast
  have "settlement_step sha256Hex hostname (solo_system cfg st) (solo_system cfg (pc', lg', es @ ev))"
    using settlement_step.advances [of 0 "solo_system cfg st" cfg pc hostname t resp pc' lg' ev sha256Hex] n
    by (simp add: solo_system_def st)
  then show ?case using Cons.IH [of "(pc', lg', es @ ev)"] by (simp add: i st n)
qed simp

lemma solo_run_reachable:
  assumes "once_enter sha256Hex key b owner duration reconcile = Inr cfg"
  shows "(settlement_step sha256Hex hostname)\<^sup>*\<^sup>* new_system (solo_system cfg (solo_run hostname cfg ins (Claiming, Map.empty, [])))"
proof -
  have "settlement_step sha256Hex hostname new_system (solo_system cfg (Claiming, Map.empty, []))"
    using settlement_step.enters [OF assms, of hostname new_system] by (simp add: solo_system_def new_system_def)
  then show ?thesis using solo_run_steps by (rule converse_rtranclp_into_rtranclp)
qed

definition sample_hash :: "string \<Rightarrow> string" where
  "sample_hash _ = replicate 64 (CHR ''a'')"

definition sample_binding :: settlement_binding where
  "sample_binding =
     \<lparr>sb_bindingVersion = ''1'', sb_railId = ''r'', sb_jobId = ''j'', sb_phaseIndex = 2, sb_phase = ''pay'', sb_amount = ''5'',
      sb_agreementAsset = ''A'', sb_settlementAsset = ''A'', sb_payer = ''p'', sb_payee = ''q'', sb_network = ''n'',
      sb_finality = \<lparr>fp_model = ''m'', fp_finalityBlocks = None\<rparr>, sb_effectIdentity = None, sb_resource = None\<rparr>"

definition sample_config :: once_config where
  "sample_config =
     \<lparr>oc_key = ''r:j:2'', oc_binding = sample_binding, oc_bindingHash = replicate 64 (CHR ''a''), oc_owner = ''w'',
      oc_leaseDurationMs = 10, oc_reconcile = False\<rparr>"

definition sample_payment :: rail_result where
  "sample_payment =
     [(''chainId'', JStr ''n''), (''finality'', JObj [(''model'', JStr ''m'')]), (''ok'', JBool True), (''payee'', JStr ''q''),
      (''payer'', JStr ''p''), (''txHash'', JStr ''x'')]"

definition sample_inputs :: "(int \<times> response) list" where
  "sample_inputs =
     [(0, Nothing_Returned), (1, Nothing_Returned), (1, Nothing_Returned), (2, Submission (Plain (JObj sample_payment))),
      (3, Nothing_Returned)]"

definition sample_run :: "once_pc \<times> settlement_log \<times> once_event list" where
  "sample_run = solo_run (\<lambda>_. False) sample_config sample_inputs (Claiming, Map.empty, [])"

lemma sample_enter: "once_enter sample_hash ''r:j:2'' sample_binding ''w'' 10 False = Inr sample_config"
  by code_simp

lemma sample_run_result:
  "fst sample_run = Once_Done sample_payment" "snd (snd sample_run) = [Fresh_Acquired ''r:j:2'', Submit_Invoked ''r:j:2'']"
  "map_option ss_outcome (fst (snd sample_run) ''r:j:2'') =
     Some (Some \<lparr>or_bindingHash = replicate 64 (CHR ''a''), or_result = sample_payment\<rparr>)"
  by code_simp+

lemma sample_reachable:
  "(settlement_step sample_hash (\<lambda>_. False))\<^sup>*\<^sup>* new_system (solo_system sample_config sample_run)"
  unfolding sample_run_def by (rule solo_run_reachable [OF sample_enter])

theorem at_most_one_unproven_submission_witness:
  "sys_events (solo_system sample_config sample_run) = [Fresh_Acquired ''r:j:2'', Submit_Invoked ''r:j:2''] \<and>
   times (Submit_Invoked ''r:j:2'') (sys_events (solo_system sample_config sample_run)) \<le>
   1 + times (Intent_Released ''r:j:2'') (sys_events (solo_system sample_config sample_run)) +
   times (Replay_Granted ''r:j:2'') (sys_events (solo_system sample_config sample_run))"
  using at_most_one_unproven_submission [OF sample_reachable, of "''r:j:2''"] sample_run_result(2)
  by (simp add: solo_system_def)

section \<open>The log is a write-once register\<close>

definition settlement_register :: "settlement_system \<Rightarrow> string \<rightharpoonup> string \<times> rail_result option" where
  "settlement_register s k = map_option (\<lambda>r. (ss_bindingHash r, map_option or_result (ss_outcome r))) (sys_log s k)"

definition log_register :: "settlement_log \<Rightarrow> string \<rightharpoonup> string \<times> rail_result option" where
  "log_register lg k = map_option (\<lambda>r. (ss_bindingHash r, map_option or_result (ss_outcome r))) (lg k)"

lemma log_register_update:
  "log_register (lg(key \<mapsto> r)) = (log_register lg)(key \<mapsto> (ss_bindingHash r, map_option or_result (ss_outcome r)))"
  by (auto simp: log_register_def)

lemma log_register_same:
  "log_register lg key = Some (h, v) \<Longrightarrow> (log_register lg)(key \<mapsto> (h, v)) = log_register lg"
  by (simp add: fun_upd_idem)

lemma claimIntent_register: "claimIntent lg key h ow t d = Inr (c, lg') \<Longrightarrow> register_step (log_register lg) (log_register lg')"
proof (erule claimIntent_cases)
  fix l assume "lg key = None" and lg': "lg' = lg(key \<mapsto> \<lparr>ss_bindingHash = h, ss_generation = 1, ss_lease = Some l, ss_outcome = None\<rparr>)"
  then have "log_register lg key = None" by (simp add: log_register_def)
  then show "register_step (log_register lg) (log_register lg')"
    using register_step.binds [of "log_register lg" key h] by (simp add: lg' log_register_update)
next
  fix r l assume "lg key = Some r" "ss_outcome r = None"
    and lg': "lg' = lg(key \<mapsto> r\<lparr>ss_generation := ss_generation r + 1, ss_lease := Some l\<rparr>)"
  then have "log_register lg key = Some (ss_bindingHash r, None)" by (simp add: log_register_def)
  then show "register_step (log_register lg) (log_register lg')"
    using \<open>ss_outcome r = None\<close> by (simp add: lg' log_register_update log_register_same register_step.keeps)
qed (simp add: register_step.keeps)

lemma grantRecovery_register:
  "grantRecovery lg key h l ow t d = Inr (g, lg') \<Longrightarrow> register_step (log_register lg) (log_register lg')"
proof (erule grantRecovery_cases)
  fix r l assume "lg key = Some r" "ss_outcome r = None"
    and lg': "lg' = lg(key \<mapsto> r\<lparr>ss_generation := ss_generation r + 1, ss_lease := Some l\<rparr>)"
  then have "log_register lg key = Some (ss_bindingHash r, None)" by (simp add: log_register_def)
  then show "register_step (log_register lg) (log_register lg')"
    using \<open>ss_outcome r = None\<close> by (simp add: lg' log_register_update log_register_same register_step.keeps)
qed (simp add: register_step.keeps)

lemma putOutcome_register:
  "putOutcome lg key h l x t = Inr (w, lg') \<Longrightarrow> register_step (log_register lg) (log_register lg')"
proof (erule putOutcome_cases)
  fix q assume q: "lg key = Some q" "ss_outcome q = None" and "\<exists>captured. captureResult (JObj x) = Inr captured \<and>
         lg' = lg(key \<mapsto> q\<lparr>ss_lease := None, ss_outcome := Some \<lparr>or_bindingHash = h, or_result = captured\<rparr>\<rparr>)"
  then obtain captured where
    lg': "lg' = lg(key \<mapsto> q\<lparr>ss_lease := None, ss_outcome := Some \<lparr>or_bindingHash = h, or_result = captured\<rparr>\<rparr>)" by blast
  have "log_register lg key = Some (ss_bindingHash q, None)" using q by (simp add: log_register_def)
  then show "register_step (log_register lg) (log_register lg')"
    using register_step.writes [of "log_register lg" key "ss_bindingHash q" captured] by (simp add: lg' log_register_update)
qed (simp add: register_step.keeps)

lemma releaseIntent_register:
  "releaseIntent lg key h l t = (res, lg') \<Longrightarrow> register_step (log_register lg) (log_register lg')"
proof (erule releaseIntent_cases)
  fix r assume "lg key = Some r" "ss_outcome r = None" and lg': "lg' = lg(key \<mapsto> r\<lparr>ss_lease := None\<rparr>)"
  then have "log_register lg key = Some (ss_bindingHash r, None)" by (simp add: log_register_def)
  then show "register_step (log_register lg) (log_register lg')"
    using \<open>ss_outcome r = None\<close> by (simp add: lg' log_register_update log_register_same register_step.keeps)
qed (simp add: register_step.keeps)

lemma once_step_register:
  assumes "once_step hostname cfg t resp lg pc = (pc', lg', ev)"
  shows "register_step (log_register lg) (log_register lg')"
  using assms
  by (cases pc)
    (auto simp: bindR_Inr register_step.keeps dest: claimIntent_register grantRecovery_register putOutcome_register
      releaseIntent_register split: sum.splits prod.splits intent_release.splits)

lemma settlement_register_log: "settlement_register s = log_register (sys_log s)"
  by (simp add: settlement_register_def log_register_def fun_eq_iff)

lemma settlement_refines:
  "settlement_step sha256Hex hostname s s' \<Longrightarrow> register_step (settlement_register s) (settlement_register s')"
  unfolding settlement_register_log
  by (erule settlement_stepE) (auto simp: register_step.keeps dest: once_step_register)

interpretation settlement_log: write_once "settlement_step sha256Hex hostname" settlement_register
  for sha256Hex hostname
  by unfold_locales (rule settlement_refines)

lemma sample_register:
  "settlement_register (solo_system sample_config sample_run) ''r:j:2'' = Some (replicate 64 (CHR ''a''), Some sample_payment)"
proof -
  have "(case fst (snd sample_run) ''r:j:2'' of None \<Rightarrow> False | Some r \<Rightarrow>
      ss_bindingHash r = replicate 64 (CHR ''a'') \<and> map_option or_result (ss_outcome r) = Some sample_payment)" by code_simp
  then show ?thesis by (auto simp: settlement_register_def solo_system_def split: option.splits)
qed

text \<open>
  Property C4. The system of workers over one log refines a write-once register: seen through the terms and the outcome
  bound to each key, every step leaves the register alone, binds the terms of a new key, or writes
  the outcome of a key that has none.
\<close>

theorem settlement_refines_register:
  assumes "settlement_step sha256Hex hostname s s'"
  shows "register_step (settlement_register s) (settlement_register s')"
  by (rule settlement_refines [OF assms])

theorem settlement_refines_register_witness:
  "\<exists>s'. settlement_step sample_hash (\<lambda>_. False) new_system s' \<and>
     register_step (settlement_register new_system) (settlement_register s')"
  using settlement_step.enters [OF sample_enter, of "\<lambda>_. False" new_system]
    settlement_refines_register [OF settlement_step.enters [OF sample_enter, of "\<lambda>_. False" new_system]] by blast

text \<open>
  A recorded outcome is final, and the terms of a key never change: in every later state of any run the key
  carries the same terms and the same result.
\<close>

theorem recorded_outcome_is_final:
  assumes "(settlement_step sha256Hex hostname)\<^sup>*\<^sup>* s t" "settlement_register s k = Some (h, Some r)"
  shows "settlement_register t k = Some (h, Some r)"
  by (rule settlement_log.written_for_ever [OF assms])

theorem recorded_outcome_is_final_witness:
  "settlement_register (solo_system sample_config (solo_run (\<lambda>_. False) sample_config [(9, Threw)] sample_run)) ''r:j:2'' =
     Some (replicate 64 (CHR ''a''), Some sample_payment)"
  by (rule recorded_outcome_is_final [OF solo_run_steps sample_register])

section \<open>Recorded outcomes are definitive and bound to their terms\<close>

lemma captureResult_idem: "captureResult v = Inr r \<Longrightarrow> captureResult (JObj r) = Inr r"
proof -
  assume c: "captureResult v = Inr r"
  then obtain w where w: "snapshotCanonicalJsonRead v = Inr w"
    by (auto simp: captureResult_def bindR_Inr)
  then have s: "snapshotCanonicalJsonRead v = Inr (JObj r)"
    using c by (cases w) (auto simp: captureResult_def ensure_Inr)
  then have "JObj r = reparsed v" "isDataOnlyJson v" "isOk (canonicalize v)" by (simp_all add: snapshot_defs snapshot_Inr)
  then have "snapshotCanonicalJsonRead (JObj r) = Inr (JObj r)"
    by (simp add: snapshot_defs snapshot_Inr isDataOnlyJson_reparsed)
  then show "captureResult (JObj r) = Inr r" using c s by (simp add: captureResult_def)
qed

lemma captureBoundResult_captured: "captureBoundResult hostname v b = Inr r \<Longrightarrow> captureResult v = Inr r"
  by (auto simp: captureBoundResult_def bindR_Inr ensure_Inr split: if_splits)

lemma captureBoundResult_idem:
  assumes "captureBoundResult hostname v b = Inr r"
  shows "captureBoundResult hostname (JObj r) b = Inr r"
proof -
  have c: "captureResult v = Inr r" using captureBoundResult_captured [OF assms] .
  show ?thesis
    using assms unfolding captureBoundResult_def c captureResult_idem [OF c] .
qed

definition definitive_result :: "(string \<Rightarrow> bool) \<Rightarrow> settlement_binding \<Rightarrow> rail_result \<Rightarrow> bool" where
  "definitive_result hostname b r \<longleftrightarrow> captureBoundResult hostname (JObj r) b = Inr r \<and> isDefinitive hostname r b"

definition valid_terms :: "(string \<Rightarrow> string) \<Rightarrow> string \<Rightarrow> settlement_binding \<Rightarrow> string \<Rightarrow> bool" where
  "valid_terms sha256Hex key b h \<longleftrightarrow>
     settlementBindingHash sha256Hex b = Inr h \<and> settlementKey (sb_railId b) (sb_jobId b) (sb_phaseIndex b) = Inr key"

definition worker_ok :: "(string \<Rightarrow> string) \<Rightarrow> (string \<Rightarrow> bool) \<Rightarrow> once_config \<times> once_pc \<Rightarrow> bool" where
  "worker_ok sha256Hex hostname w \<longleftrightarrow>
     valid_terms sha256Hex (oc_key (fst w)) (oc_binding (fst w)) (oc_bindingHash (fst w)) \<and>
     (\<forall>l r. snd w = Persisting l r \<longrightarrow> definitive_result hostname (oc_binding (fst w)) r)"

definition log_ok :: "(string \<Rightarrow> string) \<Rightarrow> (string \<Rightarrow> bool) \<Rightarrow> settlement_log \<Rightarrow> bool" where
  "log_ok sha256Hex hostname lg \<longleftrightarrow>
     (\<forall>k r out. lg k = Some r \<longrightarrow> ss_outcome r = Some out \<longrightarrow>
        or_bindingHash out = ss_bindingHash r \<and>
        (\<exists>b. valid_terms sha256Hex k b (ss_bindingHash r) \<and> definitive_result hostname b (or_result out)))"

lemma log_ok_update:
  assumes "log_ok sha256Hex hostname lg"
    and "\<And>out. ss_outcome r = Some out \<Longrightarrow> or_bindingHash out = ss_bindingHash r"
    and "\<And>out. ss_outcome r = Some out \<Longrightarrow> \<exists>b. valid_terms sha256Hex key b (ss_bindingHash r) \<and> definitive_result hostname b (or_result out)"
  shows "log_ok sha256Hex hostname (lg(key \<mapsto> r))"
  using assms by (simp add: log_ok_def)

lemma not_persisting:
  "once_return hostname cfg x \<noteq> Persisting l r" "outcome_pc hostname cfg out \<noteq> Persisting l r"
  "after_claim hostname cfg c \<noteq> Persisting l r" "after_grant hostname cfg g \<noteq> Persisting l r" "after_write hostname cfg w \<noteq> Persisting l r"
  by (auto simp: after_claim_def after_grant_def after_write_def outcome_pc_def once_return_def
      split: sum.splits intent_claim.splits recovery_grant.splits outcome_write.splits if_splits)

lemma after_reconcile_persisting:
  "after_reconcile hostname cfg l found = Persisting l' r \<Longrightarrow> definitive_result hostname (oc_binding cfg) r"
  by (auto simp: after_reconcile_def definitive_result_def split: reconciled.splits sum.splits if_splits
      dest: captureBoundResult_idem)

lemma after_submit_persisting:
  "after_submit hostname cfg l sub = Persisting l' r \<Longrightarrow> definitive_result hostname (oc_binding cfg) r"
  by (auto simp: after_submit_def definitive_result_def not_persisting bindR_Inr split: submission.splits sum.splits if_splits
      dest: captureBoundResult_idem)

lemma once_step_worker_ok:
  assumes "worker_ok sha256Hex hostname (cfg, pc)" "once_step hostname cfg t resp lg pc = (pc', lg', ev)"
  shows "worker_ok sha256Hex hostname (cfg, pc')"
proof -
  have "definitive_result hostname (oc_binding cfg) r" if "pc' = Persisting l r" for l r
    using assms(2) that
    by (cases pc)
      (auto simp: not_persisting split: sum.splits prod.splits response.splits intent_release.splits if_splits
        dest: after_reconcile_persisting after_submit_persisting)
  then show ?thesis using assms(1) by (simp add: worker_ok_def)
qed

lemma claimIntent_log_ok: "claimIntent lg key h ow t d = Inr (c, lg') \<Longrightarrow> log_ok sha hostname lg \<Longrightarrow> log_ok sha hostname lg'"
  by (erule claimIntent_cases) (auto intro!: log_ok_update)

lemma grantRecovery_log_ok:
  "grantRecovery lg key h l ow t d = Inr (g, lg') \<Longrightarrow> log_ok sha hostname lg \<Longrightarrow> log_ok sha hostname lg'"
  by (erule grantRecovery_cases) (auto intro!: log_ok_update)

lemma releaseIntent_log_ok: "releaseIntent lg key h l t = (res, lg') \<Longrightarrow> log_ok sha hostname lg \<Longrightarrow> log_ok sha hostname lg'"
  by (erule releaseIntent_cases) (auto intro!: log_ok_update)

lemma putOutcome_log_ok:
  assumes "putOutcome lg key h l r t = Inr (w, lg')" "log_ok sha hostname lg"
    and "valid_terms sha key b h" "definitive_result hostname b r"
  shows "log_ok sha hostname lg'"
  using assms(1)
proof (cases rule: putOutcome_cases)
  case (recorded q)
  then obtain captured where c: "captureResult (JObj r) = Inr captured"
    "lg' = lg(key \<mapsto> q\<lparr>ss_lease := None, ss_outcome := Some \<lparr>or_bindingHash = h, or_result = captured\<rparr>\<rparr>)" by blast
  have "captured = r" using assms(4) c(1) captureBoundResult_captured by (fastforce simp: definitive_result_def)
  then show ?thesis
    unfolding c(2) using assms(2,3,4) recorded(2) by (intro log_ok_update) auto
qed (use assms(2) in simp)

lemma once_step_log_ok:
  assumes "worker_ok sha256Hex hostname (cfg, pc)" "once_step hostname cfg t resp lg pc = (pc', lg', ev)"
    and "log_ok sha256Hex hostname lg"
  shows "log_ok sha256Hex hostname lg'"
proof (cases pc)
  case (Persisting l r)
  have d: "definitive_result hostname (oc_binding cfg) r"
    and v: "valid_terms sha256Hex (oc_key cfg) (oc_binding cfg) (oc_bindingHash cfg)"
    using assms(1) Persisting by (auto simp: worker_ok_def)
  then have "captureBoundResult hostname (JObj r) (oc_binding cfg) = Inr r" by (simp add: definitive_result_def)
  then show ?thesis
    using assms(2,3) d v unfolding Persisting
    by (auto simp: bindR_Inr split: sum.splits prod.splits dest: putOutcome_log_ok)
qed (use assms(2,3) in \<open>auto simp: bindR_Inr split: sum.splits prod.splits intent_release.splits
      dest: claimIntent_log_ok grantRecovery_log_ok releaseIntent_log_ok\<close>)

definition outcomes_inv :: "(string \<Rightarrow> string) \<Rightarrow> (string \<Rightarrow> bool) \<Rightarrow> settlement_system \<Rightarrow> bool" where
  "outcomes_inv sha256Hex hostname s \<longleftrightarrow>
     log_ok sha256Hex hostname (sys_log s) \<and> (\<forall>w \<in> set (sys_workers s). worker_ok sha256Hex hostname w)"

lemma once_enter_ok: "once_enter sha256Hex key b owner duration reconcile = Inr cfg \<Longrightarrow> worker_ok sha256Hex hostname (cfg, Claiming)"
  by (auto simp: once_enter_def worker_ok_def valid_terms_def bindR_Inr ensure_Inr)

interpretation outcomes: invariant_system "\<lambda>s. s = new_system" "settlement_step sha256Hex hostname" "outcomes_inv sha256Hex hostname"
  for sha256Hex hostname
proof
  fix s assume "s = new_system"
  then show "outcomes_inv sha256Hex hostname s" by (simp add: outcomes_inv_def new_system_def log_ok_def)
next
  fix s s' assume inv: "outcomes_inv sha256Hex hostname s" and step: "settlement_step sha256Hex hostname s s'"
  from step show "outcomes_inv sha256Hex hostname s'"
  proof (cases rule: settlement_step.cases)
    case (enters key b owner duration reconcile cfg)
    then show ?thesis using inv once_enter_ok by (auto simp: outcomes_inv_def)
  next
    case (advances i cfg pc t resp pc' lg' ev)
    have w: "worker_ok sha256Hex hostname (cfg, pc)"
      using inv advances(2,3) by (metis nth_mem outcomes_inv_def)
    have "log_ok sha256Hex hostname lg'"
      using once_step_log_ok [OF w advances(4)] inv by (simp add: outcomes_inv_def)
    moreover have "\<forall>v \<in> set ((sys_workers s)[i := (cfg, pc')]). worker_ok sha256Hex hostname v"
      using inv once_step_worker_ok [OF w advances(4)] by (auto simp: outcomes_inv_def dest!: set_update_subset_insert [THEN subsetD])
    ultimately show ?thesis by (simp add: outcomes_inv_def advances(1))
  qed
qed

text \<open>
  Whatever outcome a run records under a key is definitive for terms of that key: there are valid terms
  with this key and the retained hash such that the result names their network and parties, carries
  their finality when it is a success, and is a success with a transaction or a proven terminal
  failure.
\<close>

theorem recorded_outcomes_are_definitive:
  assumes "(settlement_step sha256Hex hostname)\<^sup>*\<^sup>* new_system s" "settlement_register s k = Some (h, Some r)"
  shows "\<exists>b. valid_terms sha256Hex k b h \<and> captureBoundResult hostname (JObj r) b = Inr r \<and> isDefinitive hostname r b"
proof -
  have "log_ok sha256Hex hostname (sys_log s)"
    using outcomes.inv_reachable [OF refl assms(1)] by (simp add: outcomes_inv_def)
  then show ?thesis using assms(2) by (auto simp: log_ok_def settlement_register_def definitive_result_def)
qed

theorem recorded_outcomes_are_definitive_witness:
  "\<exists>b. valid_terms sample_hash ''r:j:2'' b (replicate 64 (CHR ''a'')) \<and>
       captureBoundResult (\<lambda>_. False) (JObj sample_payment) b = Inr sample_payment \<and> isDefinitive (\<lambda>_. False) sample_payment b"
  by (rule recorded_outcomes_are_definitive [OF sample_reachable sample_register])

section \<open>A repeated call returns the recorded outcome\<close>

lemma once_return_captured:
  assumes "captureBoundResult hostname (JObj r) (oc_binding cfg) = Inr r"
  shows "once_return hostname cfg (captureBoundResult hostname (JObj r) (oc_binding cfg)) = Once_Done r"
  by (simp add: once_return_def assms)

lemma captureStoredOutcome_captured:
  assumes "captureBoundResult hostname (JObj (or_result out)) b = Inr (or_result out)" "is_hash (or_bindingHash out)"
  shows "captureStoredOutcome out = Inr out"
  using captureBoundResult_captured [OF assms(1)] assms(2) by (simp add: captureStoredOutcome_def)

text \<open>
  Once an outcome is recorded, calling \<^verbatim>\<open>once\<close> again with the same terms returns that outcome from its
  first call of the log: the rail is not invoked and the log does not change.
\<close>

theorem repeated_call_returns_outcome:
  assumes "(settlement_step sha256Hex hostname)\<^sup>*\<^sup>* new_system s"
    and "sys_log s k = Some rec" "ss_outcome rec = Some out"
    and "once_enter sha256Hex k b owner duration reconcile = Inr cfg" "oc_bindingHash cfg = ss_bindingHash rec"
    and "captureBoundResult hostname (JObj (or_result out)) b = Inr (or_result out)"
    and "is_hash (ss_bindingHash rec)" "isSafeTime t" "isSafeInteger duration" "0 < duration" "t \<le> max_safe - duration"
  shows "once_step hostname cfg t resp (sys_log s) Claiming = (Once_Done (or_result out), sys_log s, [])"
proof -
  have "log_ok sha256Hex hostname (sys_log s)"
    using outcomes.inv_reachable [OF refl assms(1)] by (simp add: outcomes_inv_def)
  then have h: "or_bindingHash out = ss_bindingHash rec" using assms(2,3) by (simp add: log_ok_def)
  have cfg: "oc_key cfg = k" "oc_binding cfg = b" "oc_leaseDurationMs cfg = duration"
    using assms(4) by (auto simp: once_enter_def bindR_Inr ensure_Inr)
  have claim: "claimIntent (sys_log s) k (ss_bindingHash rec) (oc_owner cfg) t duration = Inr (Claim_Outcome out, sys_log s)"
    using assms(2,3,8-11) by (simp add: claimIntent_def leaseExpiry_def)
  have "after_claim hostname cfg (Claim_Outcome out) = Once_Done (or_result out)"
    using captureStoredOutcome_captured [OF assms(6)] assms(5,7) h once_return_captured [of hostname "or_result out" cfg] assms(6)
    by (simp add: after_claim_def outcome_pc_def cfg)
  then show ?thesis using claim assms(5,8,11) by (simp add: store_now_def cfg)
qed

theorem repeated_call_returns_outcome_witness:
  "once_step (\<lambda>_. False) sample_config 7 Threw (sys_log (solo_system sample_config sample_run)) Claiming =
     (Once_Done sample_payment, sys_log (solo_system sample_config sample_run), [])"
proof -
  obtain rec where rec: "sys_log (solo_system sample_config sample_run) ''r:j:2'' = Some rec"
    "ss_bindingHash rec = replicate 64 (CHR ''a'')" "map_option or_result (ss_outcome rec) = Some sample_payment"
    using sample_register by (auto simp: settlement_register_def)
  then obtain out where out: "ss_outcome rec = Some out" "or_result out = sample_payment" by auto
  have b: "captureBoundResult (\<lambda>_. False) (JObj sample_payment) sample_binding = Inr sample_payment" by code_simp
  have "is_hash (replicate 64 (CHR ''a''))" by code_simp
  moreover have "oc_bindingHash sample_config = replicate 64 (CHR ''a'')" by (simp add: sample_config_def)
  moreover have "isSafeTime 7" "isSafeInteger 10" "(7::int) \<le> max_safe - 10" by (simp_all add: isSafeTime_def isSafeInteger_def max_safe_def)
  ultimately show ?thesis
    using repeated_call_returns_outcome [OF sample_reachable rec(1) out(1) sample_enter, of 7 Threw] rec(2) out(2) b by simp
qed

section \<open>Keys\<close>

text \<open>
  Settlements of different rails, jobs or phases never share an idempotency key, although rail ids may
  contain the separator.
\<close>

theorem settlementKey_injective:
  assumes "settlementKey rail job i = Inr k" "settlementKey rail' job' i' = Inr k"
  shows "rail = rail' \<and> job = job' \<and> i = i'"
proof -
  have v: "CHR '':'' \<notin> set job" "CHR '':'' \<notin> set job'" "0 \<le> i" "0 \<le> i'"
    "rail @ CHR '':'' # job @ CHR '':'' # int_text i = rail' @ CHR '':'' # job' @ CHR '':'' # int_text i'"
    using assms by (auto simp: settlementKey_def ensure_Inr)
  then have "rev (int_text i) @ CHR '':'' # rev job @ CHR '':'' # rev rail =
      rev (int_text i') @ CHR '':'' # rev job' @ CHR '':'' # rev rail'"
    by (metis (no_types, lifting) append.assoc append_Cons append_Nil rev.simps(2) rev_append)
  then have "rev (int_text i) = rev (int_text i')" "rev job @ CHR '':'' # rev rail = rev job' @ CHR '':'' # rev rail'"
    using separator_split [of "CHR '':''" "rev (int_text i)" "rev (int_text i')"] int_text_no_colon v(3,4) by simp_all
  moreover from this(2) have "rev job = rev job'" "rev rail = rev rail'"
    using separator_split [of "CHR '':''" "rev job" "rev job'"] v(1,2) by simp_all
  ultimately show ?thesis using int_text_inject [OF v(3,4)] by simp
qed

theorem settlementKey_injective_witness:
  "settlementKey ''a:b'' ''c'' 1 = Inr ''a:b:c:1'' \<and> settlementKey ''a:b'' ''c'' 1 \<noteq> settlementKey ''a'' ''c'' 1"
proof -
  have k: "settlementKey ''a:b'' ''c'' 1 = Inr ''a:b:c:1''" by code_simp
  moreover have "settlementKey ''a'' ''c'' 1 \<noteq> Inr ''a:b:c:1''"
    using settlementKey_injective [OF k, of "''a''" "''c''" 1] by auto
  ultimately show ?thesis by simp
qed

end
