(* ===== verification/Dacs_Signatures.thy ===== *)
theory Dacs_Signatures
  imports Dacs_Snapshot
begin

text \<open>
  Signatures over artifacts: the domain separators and signed payloads of
  \<^verbatim>\<open>src/src/crypto/signing.ts\<close>, and the component signature envelope of
  \<^verbatim>\<open>src/src/artifacts/signatures.ts\<close> with its unpadded Base64URL values.

  A byte array is a \<^typ>\<open>string\<close> whose characters are the bytes; the separators and hashes are
  ASCII, so their UTF-8 bytes are their characters. Ed25519, the wallet that signs, the
  authorisation policy and the key directory are parameters; a callback that throws or returns
  something that is not of its declared type is a \<^const>\<open>None\<close> or an \<^const>\<open>Inl\<close>.
\<close>

section \<open>Domain separators and signed payloads\<close>

definition SIGNATURE_DOMAIN_SEPARATORS :: "string list" where
  "SIGNATURE_DOMAIN_SEPARATORS =
     [''dacs-listing:v1:'', ''dacs-revocation:v1:'', ''dacs-bundle-presentation:v1:'', ''dacs-verifyresult:v1:'',
      ''dacs-composite:v1:'', ''dacs-recipe:v1:'', ''dacs-channelmsg:v1:'', ''dacs-agreement:v1:'',
      ''dacs-payee-bound-agreement:v1:'', ''dacs-identity-bound-agreement:v1:'',
      ''dacs-identity-bound-payee-agreement:v1:'', ''dacs-commitment:v1:'', ''dacs-finality-commitment:v1:'',
      ''dacs-transcript:v1:'', ''dacs-evidence:v1:'', ''dacs-amendment:v1:'', ''dacs-rail:v1:'',
      ''dacs-entitlement:v1:'', ''dacs-payload-attestation:v1:'', ''dacs-prior-payment-disposition:v1:'',
      ''dacs-bundle:v1:'', ''dacs-fault-bundle:v1:'', ''dacs-evidence-bound-fault-bundle:v1:'',
      ''dacs-bundle-binding:v1:'', ''dacs-fault-bundle-pointer:v1:'',
      ''dacs-evidence-bound-fault-bundle-pointer:v1:'', ''dacs-rating:v1:'', ''dacs-session-binding:v1:'',
      ''dacs-auto-accept-commitment:v1:'', ''dacs-auto-accept-instance:v1:'']"

definition isRegisteredSeparator :: "string \<Rightarrow> bool" where
  "isRegisteredSeparator sep \<longleftrightarrow> sep \<in> set SIGNATURE_DOMAIN_SEPARATORS"

definition COMPOSITE_DOMAIN_SEPARATORS :: "string list" where
  "COMPOSITE_DOMAIN_SEPARATORS = [''dacs-session-binding:v1:'', ''dacs-auto-accept-instance:v1:'']"

definition isCompositeSeparator :: "string \<Rightarrow> bool" where
  "isCompositeSeparator sep \<longleftrightarrow> sep \<in> set COMPOSITE_DOMAIN_SEPARATORS"

definition dacsXSeparator :: "string \<Rightarrow> string \<Rightarrow> string" where
  "dacsXSeparator kind version = ''dacs-x-'' @ kind @ '':v'' @ version @ '':''"

definition signedBytes :: "string \<Rightarrow> string \<Rightarrow> string" where
  "signedBytes separator artifactHash = separator @ artifactHash"

definition assertFramedHex :: "string \<Rightarrow> 'a res \<Rightarrow> 'a res" where
  "assertFramedHex v k = ensure (is_hash v) ''must be a 64-character lowercase hex string (composite framing)'' k"

definition sessionBindingBytes :: "string \<Rightarrow> string \<Rightarrow> string res" where
  "sessionBindingBytes sessionKeyHex bundleHash =
     assertFramedHex sessionKeyHex (assertFramedHex bundleHash
       (Inr (''dacs-session-binding:v1:'' @ sessionKeyHex @ bundleHash)))"

definition autoAcceptInstanceBytes :: "string \<Rightarrow> string \<Rightarrow> string res" where
  "autoAcceptInstanceBytes agreementHash autoAcceptCommitmentHash =
     assertFramedHex agreementHash (assertFramedHex autoAcceptCommitmentHash
       (Inr (''dacs-auto-accept-instance:v1:'' @ agreementHash @ autoAcceptCommitmentHash)))"

text \<open>\<^verbatim>\<open>Uint8Array | KeyObject\<close>: raw key bytes or a prepared key.\<close>

datatype 'k key_arg = Raw_Key string | Key_Object 'k

definition prepared_key :: "(string \<Rightarrow> 'k res) \<Rightarrow> 'k key_arg \<Rightarrow> 'k res" where
  "prepared_key fromRaw arg = (case arg of Raw_Key b \<Rightarrow> fromRaw b | Key_Object k \<Rightarrow> Inr k)"

definition signArtifact ::
  "(string \<Rightarrow> string) \<Rightarrow> (string \<Rightarrow> 'k res) \<Rightarrow> (string \<Rightarrow> 'k \<Rightarrow> string res) \<Rightarrow>
   string \<Rightarrow> (string \<times> json) list \<Rightarrow> 'k key_arg \<Rightarrow> string res" where
  "signArtifact sha256Hex privateKeyFromSeed ed25519Sign separator doc signer =
     ensure (isRegisteredSeparator separator) ''unregistered domain separator''
     (ensure (\<not> isCompositeSeparator separator) ''composite-payload separator cannot be signed as a single hash''
     (bindR (prepared_key privateKeyFromSeed signer) (\<lambda>key.
      bindR (contentHash sha256Hex doc) (\<lambda>h. ed25519Sign (signedBytes separator h) key))))"

text \<open>\<^verbatim>\<open>try { return f() } catch { return false }\<close>.\<close>

definition falseOnThrow :: "bool res \<Rightarrow> bool" where
  "falseOnThrow r = (case r of Inl _ \<Rightarrow> False | Inr b \<Rightarrow> b)"

definition verifyArtifact ::
  "(string \<Rightarrow> string) \<Rightarrow> (string \<Rightarrow> 'k res) \<Rightarrow> (string \<Rightarrow> string \<Rightarrow> 'k \<Rightarrow> bool res) \<Rightarrow>
   string \<Rightarrow> (string \<times> json) list \<Rightarrow> string \<Rightarrow> 'k key_arg \<Rightarrow> bool res" where
  "verifyArtifact sha256Hex publicKeyFromRaw ed25519Verify separator doc signature publicKey =
     (if \<not> isRegisteredSeparator separator then Inr False
      else if isCompositeSeparator separator then Inr False
      else bindR (prepared_key publicKeyFromRaw publicKey) (\<lambda>key.
        Inr (falseOnThrow (bindR (contentHash sha256Hex doc) (\<lambda>h. ed25519Verify (signedBytes separator h) signature key)))))"

definition signSessionBinding ::
  "(string \<Rightarrow> 'k res) \<Rightarrow> (string \<Rightarrow> 'k \<Rightarrow> string res) \<Rightarrow> string \<Rightarrow> string \<Rightarrow> 'k key_arg \<Rightarrow> string res" where
  "signSessionBinding privateKeyFromSeed ed25519Sign sessionKeyHex bundleHash signer =
     bindR (prepared_key privateKeyFromSeed signer) (\<lambda>key.
     bindR (sessionBindingBytes sessionKeyHex bundleHash) (\<lambda>m. ed25519Sign m key))"

definition verifySessionBinding ::
  "(string \<Rightarrow> 'k res) \<Rightarrow> (string \<Rightarrow> string \<Rightarrow> 'k \<Rightarrow> bool res) \<Rightarrow> string \<Rightarrow> string \<Rightarrow> string \<Rightarrow> 'k key_arg \<Rightarrow> bool res" where
  "verifySessionBinding publicKeyFromRaw ed25519Verify sessionKeyHex bundleHash signature publicKey =
     bindR (prepared_key publicKeyFromRaw publicKey) (\<lambda>key.
       Inr (falseOnThrow (bindR (sessionBindingBytes sessionKeyHex bundleHash) (\<lambda>m. ed25519Verify m signature key))))"

definition signAutoAcceptInstance ::
  "(string \<Rightarrow> 'k res) \<Rightarrow> (string \<Rightarrow> 'k \<Rightarrow> string res) \<Rightarrow> string \<Rightarrow> string \<Rightarrow> 'k key_arg \<Rightarrow> string res" where
  "signAutoAcceptInstance privateKeyFromSeed ed25519Sign agreementHash commitmentHash signer =
     bindR (prepared_key privateKeyFromSeed signer) (\<lambda>key.
     bindR (autoAcceptInstanceBytes agreementHash commitmentHash) (\<lambda>m. ed25519Sign m key))"

definition verifyAutoAcceptInstance ::
  "(string \<Rightarrow> 'k res) \<Rightarrow> (string \<Rightarrow> string \<Rightarrow> 'k \<Rightarrow> bool res) \<Rightarrow> string \<Rightarrow> string \<Rightarrow> string \<Rightarrow> 'k key_arg \<Rightarrow> bool res" where
  "verifyAutoAcceptInstance publicKeyFromRaw ed25519Verify agreementHash commitmentHash signature publicKey =
     bindR (prepared_key publicKeyFromRaw publicKey) (\<lambda>key.
       Inr (falseOnThrow (bindR (autoAcceptInstanceBytes agreementHash commitmentHash)
         (\<lambda>m. ed25519Verify m signature key))))"

section \<open>Unpadded Base64URL\<close>

text \<open>\<^verbatim>\<open>Buffer.from(text, "base64url")\<close> and \<^verbatim>\<open>toString("base64url")\<close>, on texts of the alphabet.\<close>

definition BASE64URL :: string where
  "BASE64URL = ''ABCDEFGHIJKLMNOPQRSTUVWXYZabcdefghijklmnopqrstuvwxyz0123456789-_''"

definition sextet_char :: "nat \<Rightarrow> char" where
  "sextet_char n = BASE64URL ! n"

definition sextet :: "char \<Rightarrow> nat" where
  "sextet c =
     (if is_upper c then code c - 65 else if is_lower c then code c - 71
      else if is_digit c then code c + 4 else if c = CHR ''-'' then 62 else 63)"

definition is_base64url_char :: "char \<Rightarrow> bool" where
  "is_base64url_char c \<longleftrightarrow> is_upper c \<or> is_lower c \<or> is_digit c \<or> c = CHR ''_'' \<or> c = CHR ''-''"

abbreviation byte :: "nat \<Rightarrow> char" where
  "byte n \<equiv> char_of n"

fun base64url_encode :: "string \<Rightarrow> string" where
  "base64url_encode [] = []"
| "base64url_encode [x] = map sextet_char [code x div 4, code x mod 4 * 16]"
| "base64url_encode [x, y] =
     map sextet_char [code x div 4, code x mod 4 * 16 + code y div 16, code y mod 16 * 4]"
| "base64url_encode (x # y # z # r) =
     map sextet_char [code x div 4, code x mod 4 * 16 + code y div 16, code y mod 16 * 4 + code z div 64, code z mod 64]
     @ base64url_encode r"

fun base64url_decode :: "string \<Rightarrow> string" where
  "base64url_decode (a # b # c # d # r) =
     [byte (sextet a * 4 + sextet b div 16), byte (sextet b mod 16 * 16 + sextet c div 4),
      byte (sextet c mod 4 * 64 + sextet d)] @ base64url_decode r"
| "base64url_decode [a, b, c] =
     [byte (sextet a * 4 + sextet b div 16), byte (sextet b mod 16 * 16 + sextet c div 4)]"
| "base64url_decode [a, b] = [byte (sextet a * 4 + sextet b div 16)]"
| "base64url_decode [a] = []"
| "base64url_decode [] = []"

definition isCanonicalBase64Url :: "string \<Rightarrow> bool" where
  "isCanonicalBase64Url v \<longleftrightarrow>
     v \<noteq> [] \<and> list_all is_base64url_char v \<and> base64url_encode (base64url_decode v) = v"

section \<open>Component signatures\<close>

definition COMPONENT_SIGNATURE_ALGORITHMS :: "string list" where
  "COMPONENT_SIGNATURE_ALGORITHMS = [''ed25519'', ''ecdsa-secp256k1'', ''sr1-aggregate'']"

datatype malformed_reason =
    Signature_Not_An_Object | Unsupported_Algorithm | Invalid_Signer | Invalid_Value
  | Unexpected_Signature_Fields | Ambiguous_Signature_Fields | Unregistered_Domain_Separator
  | Composite_Domain_Separator | Signed_Scope_Not_Canonicalizable

datatype unresolved_reason =
    Authorization_Unresolved | Signer_Key_Not_Found | Signer_Key_Resolution_Failed | Verification_Error

datatype invalid_reason = Signer_Not_Authorized | Cryptographic_Verification_Failed

datatype signature_verification =
    Signature_Missing
  | Signature_Malformed malformed_reason
  | Signature_Unresolved unresolved_reason "(string \<times> json) list"
  | Signature_Invalid invalid_reason "(string \<times> json) list"
  | Signature_Valid "(string \<times> json) list"

text \<open>A surrogate does not occur in a text of code units below 256, so \<^verbatim>\<open>isSafeJsonString\<close> holds.\<close>

definition signatureShapeReason :: "json \<Rightarrow> malformed_reason option" where
  "signatureShapeReason v =
     (case v of
        JObj kvs \<Rightarrow>
          if length kvs \<noteq> 3 \<or> \<not> list_all (\<lambda>k. k \<in> fst ` set kvs) [''algorithm'', ''signer'', ''value'']
          then Some Unexpected_Signature_Fields
          else (case map_of kvs ''algorithm'' of
                  Some (JStr a) \<Rightarrow>
                    if a \<notin> set COMPONENT_SIGNATURE_ALGORITHMS then Some Unsupported_Algorithm
                    else (case map_of kvs ''signer'' of
                            Some (JStr s) \<Rightarrow>
                              if \<not> isNonEmptyString s then Some Invalid_Signer
                              else (case map_of kvs ''value'' of
                                      Some (JStr t) \<Rightarrow> if isCanonicalBase64Url t then None else Some Invalid_Value
                                    | _ \<Rightarrow> Some Invalid_Value)
                          | _ \<Rightarrow> Some Invalid_Signer)
                | _ \<Rightarrow> Some Unsupported_Algorithm)
      | _ \<Rightarrow> Some Signature_Not_An_Object)"

definition isComponentSignature :: "json \<Rightarrow> bool" where
  "isComponentSignature v =
     (case v of
        JObj _ \<Rightarrow> (case snapshotCanonicalJsonRead v of Inl _ \<Rightarrow> False | Inr w \<Rightarrow> signatureShapeReason w = None)
      | _ \<Rightarrow> False)"

definition snapshotReadArtifact :: "json \<Rightarrow> (string \<times> json) list res" where
  "snapshotReadArtifact v =
     bindR (snapshotCanonicalJsonRead v) (\<lambda>snapshot.
       case snapshot of JObj kvs \<Rightarrow> Inr kvs | _ \<Rightarrow> throw ''component signature artifact must be a JSON object'')"

definition has_own :: "(string \<times> json) list \<Rightarrow> string \<Rightarrow> bool" where
  "has_own kvs k \<longleftrightarrow> k \<in> fst ` set kvs"

definition assertUnsignedComponentArtifact :: "(string \<times> json) list \<Rightarrow> 'a res \<Rightarrow> 'a res" where
  "assertUnsignedComponentArtifact artifact k =
     ensure (\<not> has_own artifact ''signature'' \<and> \<not> has_own artifact ''signatures'')
       ''component-signature signing requires an unsigned artifact with no signature field'' k"

text \<open>What a wallet returns: a text, bytes, or neither.\<close>

datatype signer_value = Signed_Text string | Signed_Bytes string | Signed_Other

definition encodedSignatureValue :: "signer_value \<Rightarrow> string res" where
  "encodedSignatureValue v =
     (case v of
        Signed_Text t \<Rightarrow> ensure (isCanonicalBase64Url t) ''component signer must return a canonical unpadded base64url value'' (Inr t)
      | Signed_Bytes b \<Rightarrow>
          (let encoded = base64url_encode b in
           ensure (isCanonicalBase64Url encoded) ''component signer must return a canonical unpadded base64url value''
             (Inr encoded))
      | Signed_Other \<Rightarrow> throw ''component signer must return signature bytes or a canonical unpadded base64url string'')"

text \<open>
  The wallet callback receives its own copies of the bytes and of the context, and may mutate
  them: it returns the value together with what it left in both.
\<close>

record signer_options =
  so_algorithm :: string
  so_signer :: string
  so_sign :: "string \<Rightarrow> (string \<times> string) list \<Rightarrow> (signer_value \<times> string \<times> (string \<times> string) list) res"

definition captureComponentSignatureOptions :: "signer_options \<Rightarrow> signer_options res" where
  "captureComponentSignatureOptions opts =
     ensure (so_algorithm opts \<in> set COMPONENT_SIGNATURE_ALGORITHMS) ''unsupported signature algorithm''
     (ensure (isNonEmptyString (so_signer opts)) ''component signature signer must be a non-empty valid JSON string''
     (Inr opts))"

definition signing_context :: "signer_options \<Rightarrow> (string \<times> string) list" where
  "signing_context opts = [(''algorithm'', so_algorithm opts), (''signer'', so_signer opts)]"

definition signature_json :: "signer_options \<Rightarrow> string \<Rightarrow> (string \<times> json) list" where
  "signature_json opts v =
     [(''algorithm'', JStr (so_algorithm opts)), (''signer'', JStr (so_signer opts)), (''value'', JStr v)]"

definition buildComponentSignatureFromSnapshot ::
  "(string \<Rightarrow> string) \<Rightarrow> (string \<times> json) list \<Rightarrow> string \<Rightarrow> signer_options \<Rightarrow> (string \<times> json) list res" where
  "buildComponentSignatureFromSnapshot sha256Hex artifact separator opts =
     assertUnsignedComponentArtifact artifact
     (ensure (isRegisteredSeparator separator) ''unregistered domain separator''
     (ensure (\<not> isCompositeSeparator separator) ''composite-payload separator is not a single-hash recipe''
     (bindR (contentHash sha256Hex artifact) (\<lambda>h.
      let expectedBytes = signedBytes separator h in
      bindR (so_sign opts expectedBytes (signing_context opts)) (\<lambda>(rawValue, callbackBytes, callbackContext).
        ensure (callbackBytes = expectedBytes \<and>
                map_of callbackContext ''algorithm'' = Some (so_algorithm opts) \<and>
                map_of callbackContext ''signer'' = Some (so_signer opts) \<and> length callbackContext = 2)
          ''component signer must not mutate its signing inputs''
        (bindR (encodedSignatureValue rawValue) (\<lambda>v. Inr (signature_json opts v))))))))"

definition buildComponentSignature ::
  "(string \<Rightarrow> string) \<Rightarrow> json \<Rightarrow> string \<Rightarrow> signer_options \<Rightarrow> (string \<times> json) list res" where
  "buildComponentSignature sha256Hex artifact separator opts =
     bindR (captureComponentSignatureOptions opts) (\<lambda>captured.
     bindR (snapshotCanonicalJsonObject artifact) (\<lambda>snapshot.
       buildComponentSignatureFromSnapshot sha256Hex snapshot separator captured))"

definition signComponentArtifact ::
  "(string \<Rightarrow> string) \<Rightarrow> json \<Rightarrow> string \<Rightarrow> signer_options \<Rightarrow> (string \<times> json) list res" where
  "signComponentArtifact sha256Hex artifact separator opts =
     bindR (captureComponentSignatureOptions opts) (\<lambda>captured.
     bindR (snapshotCanonicalJsonObject artifact) (\<lambda>snapshot.
     bindR (buildComponentSignatureFromSnapshot sha256Hex snapshot separator captured) (\<lambda>sig.
       Inr (snapshot @ [(''signature'', JObj sig)]))))"

text \<open>
  The callbacks of a verification. A policy or a verifier that throws, or returns something that
  is not a boolean, is \<^const>\<open>None\<close>; a directory may throw, have no key, or return one.
\<close>

record 'k verify_deps =
  vd_isSignerAuthorized :: "(string \<times> json) list \<Rightarrow> (string \<times> json) list \<Rightarrow> bool option"
  vd_resolvePublicKey :: "(string \<times> json) list \<Rightarrow> 'k option res"
  vd_verify :: "string \<Rightarrow> (string \<times> json) list \<Rightarrow> 'k \<Rightarrow> bool option"

definition verify_captured ::
  "(string \<Rightarrow> string) \<Rightarrow> (string \<times> json) list \<Rightarrow> string \<Rightarrow> (string \<times> json) list \<Rightarrow> 'k verify_deps \<Rightarrow> signature_verification" where
  "verify_captured sha256Hex artifact separator signature deps =
     (case vd_isSignerAuthorized deps artifact signature of
        None \<Rightarrow> Signature_Unresolved Authorization_Unresolved signature
      | Some False \<Rightarrow> Signature_Invalid Signer_Not_Authorized signature
      | Some True \<Rightarrow>
          (case vd_resolvePublicKey deps signature of
             Inl _ \<Rightarrow> Signature_Unresolved Signer_Key_Resolution_Failed signature
           | Inr None \<Rightarrow> Signature_Unresolved Signer_Key_Not_Found signature
           | Inr (Some key) \<Rightarrow>
               (case contentHash sha256Hex artifact of
                  Inl _ \<Rightarrow> Signature_Malformed Signed_Scope_Not_Canonicalizable
                | Inr h \<Rightarrow>
                    (case vd_verify deps (signedBytes separator h) signature key of
                       None \<Rightarrow> Signature_Unresolved Verification_Error signature
                     | Some True \<Rightarrow> Signature_Valid signature
                     | Some False \<Rightarrow> Signature_Invalid Cryptographic_Verification_Failed signature))))"

definition verifyComponentSignature ::
  "(string \<Rightarrow> string) \<Rightarrow> json \<Rightarrow> string \<Rightarrow> 'k verify_deps \<Rightarrow> signature_verification" where
  "verifyComponentSignature sha256Hex artifact separator deps =
     (if \<not> isRegisteredSeparator separator then Signature_Malformed Unregistered_Domain_Separator
      else if isCompositeSeparator separator then Signature_Malformed Composite_Domain_Separator
      else (case snapshotReadArtifact artifact of
              Inl _ \<Rightarrow> Signature_Malformed Signed_Scope_Not_Canonicalizable
            | Inr snapshot \<Rightarrow>
                (case map_of snapshot ''signature'' of
                   None \<Rightarrow> Signature_Missing
                 | Some rawSignature \<Rightarrow>
                     if has_own snapshot ''signatures'' then Signature_Malformed Ambiguous_Signature_Fields
                     else (case signatureShapeReason rawSignature of
                             Some r \<Rightarrow> Signature_Malformed r
                           | None \<Rightarrow>
                               (case rawSignature of
                                  JObj signature \<Rightarrow> verify_captured sha256Hex snapshot separator signature deps
                                | _ \<Rightarrow> Signature_Malformed Signature_Not_An_Object)))))"

section \<open>Base64URL is lossless\<close>

lemma sextet_table:
  "list_all (\<lambda>n. sextet (sextet_char n) = n \<and> is_base64url_char (sextet_char n)) [0..<64]"
  by code_simp

lemma sextet_char_inverse [simp]: "n < 64 \<Longrightarrow> sextet (sextet_char n) = n"
  using sextet_table by (simp add: list_all_iff)

lemma sextet_char_alphabet [simp]: "n < 64 \<Longrightarrow> is_base64url_char (sextet_char n)"
  using sextet_table by (simp add: list_all_iff)

lemma code_less [simp]: "code c < 256"
  by simp

lemma code_div [simp]: "code c div 4 < 64" "code c div 16 < 16" "code c div 64 < 4"
  using code_less [of c] by (simp_all add: div_less_iff_less_mult)

lemma code_parts [simp]:
  "code c div 16 div 16 = 0" "code c div 16 mod 16 = code c div 16" "code c div 64 div 4 = 0"
  "code c div 64 mod 4 = code c div 64"
  by (simp_all add: mod_less)

lemma sextet_bounds [simp]:
  fixes n m :: nat
  shows "n mod 4 * 16 < 64" "n mod 16 * 4 < 64" "n mod 4 * 16 + code c div 16 < 64" "n mod 16 * 4 + code c div 64 < 64"
  using mod_less_divisor [of 4 n] mod_less_divisor [of 16 n] code_div [of c] by linarith+

lemma base64url_decode_encode: "base64url_decode (base64url_encode b) = b"
  by (induction b rule: base64url_encode.induct) simp_all

interpretation base64url: lossless base64url_encode base64url_decode
  by unfold_locales (rule base64url_decode_encode)

lemma base64url_encode_alphabet: "list_all is_base64url_char (base64url_encode b)"
  by (induction b rule: base64url_encode.induct) simp_all

lemma base64url_encode_Nil_iff [simp]: "base64url_encode b = [] \<longleftrightarrow> b = []"
  by (cases b rule: base64url_encode.cases) simp_all

lemma encoding_is_canonical: "b \<noteq> [] \<Longrightarrow> isCanonicalBase64Url (base64url_encode b)"
  by (simp add: isCanonicalBase64Url_def base64url_encode_alphabet base64url_decode_encode)

text \<open>
  The canonical Base64URL values are exactly the encodings of the non-empty byte sequences, and
  every value stands for one byte sequence only: the same signature has no second spelling.
\<close>

theorem canonical_base64url_is_encoding:
  "isCanonicalBase64Url v \<longleftrightarrow> (\<exists>!b. b \<noteq> [] \<and> base64url_encode b = v)"
proof
  assume v: "isCanonicalBase64Url v"
  then have e: "base64url_encode (base64url_decode v) = v" and "v \<noteq> []" by (simp_all add: isCanonicalBase64Url_def)
  then have "base64url_decode v \<noteq> []" by (metis base64url_encode_Nil_iff)
  with e show "\<exists>!b. b \<noteq> [] \<and> base64url_encode b = v" by (metis base64url.enc_eq_iff)
next
  assume "\<exists>!b. b \<noteq> [] \<and> base64url_encode b = v"
  then show "isCanonicalBase64Url v" using encoding_is_canonical by blast
qed

section \<open>Signed payloads\<close>

text \<open>\<open>signed_payload sep vs m\<close>: the recipe of \<open>sep\<close> frames the values \<open>vs\<close> as the bytes \<open>m\<close>.\<close>

inductive signed_payload :: "string \<Rightarrow> string list \<Rightarrow> string \<Rightarrow> bool" where
  single_hash: "isRegisteredSeparator sep \<Longrightarrow> \<not> isCompositeSeparator sep \<Longrightarrow> is_hash h \<Longrightarrow>
    signed_payload sep [h] (signedBytes sep h)"
| session_binding: "sessionBindingBytes k b = Inr m \<Longrightarrow> signed_payload ''dacs-session-binding:v1:'' [k, b] m"
| auto_accept: "autoAcceptInstanceBytes a c = Inr m \<Longrightarrow> signed_payload ''dacs-auto-accept-instance:v1:'' [a, c] m"

lemma registered_separator_last:
  assumes "isRegisteredSeparator sep"
  shows "sep \<noteq> []" "last sep = CHR '':''"
proof -
  have "list_all (\<lambda>s. s \<noteq> [] \<and> last s = CHR '':'') SIGNATURE_DOMAIN_SEPARATORS" by code_simp
  then show "sep \<noteq> []" "last sep = CHR '':''" using assms by (auto simp: isRegisteredSeparator_def list_all_iff)
qed

lemma hash_last: "is_hash h \<Longrightarrow> h \<noteq> [] \<and> last h \<noteq> CHR '':''"
proof -
  assume h: "is_hash h"
  then have "h \<noteq> []" by (auto simp: is_hash_def)
  then have "is_hex_lower (last h)" using h by (auto simp: is_hash_def list_all_iff)
  then show ?thesis using \<open>h \<noteq> []\<close> by (auto simp: is_hex_lower_def is_digit_def)
qed

text \<open>The bytes of a payload end in its hashes; what precedes them is a separator that ends in a colon.\<close>

lemma signed_payload_frames:
  assumes "signed_payload sep vs m"
  shows "m = sep @ concat vs" "list_all is_hash vs" "isRegisteredSeparator sep"
    "length vs = (if isCompositeSeparator sep then 2 else 1)"
  using assms
  by (auto elim!: signed_payload.cases
      simp: signedBytes_def sessionBindingBytes_def autoAcceptInstanceBytes_def assertFramedHex_def ensure_Inr
        isRegisteredSeparator_def isCompositeSeparator_def SIGNATURE_DOMAIN_SEPARATORS_def COMPOSITE_DOMAIN_SEPARATORS_def)

lemma frame_unique:
  assumes "sep @ concat vs = sep' @ concat vs'" "list_all is_hash vs" "list_all is_hash vs'"
    and "isRegisteredSeparator sep" "isRegisteredSeparator sep'"
  shows "sep = sep' \<and> vs = vs'"
  using assms(1-3)
proof (induction vs arbitrary: vs' rule: rev_induct)
  case Nil
  then show ?case
  proof (cases vs' rule: rev_cases)
    case (snoc us h)
    then have "last sep = last h" using Nil hash_last [of h] by simp
    then show ?thesis using registered_separator_last(2) [OF assms(4)] hash_last [of h] Nil snoc by simp
  qed simp
next
  case (snoc h us)
  show ?case
  proof (cases vs' rule: rev_cases)
    case Nil
    then have "last sep' = last h" using snoc.prems hash_last [of h] by (metis append_assoc append_is_Nil_conv
          concat.simps(1) concat_append concat_eq_Nil_conv append_Nil2 concat.simps(2) last_appendR list_all_append list.pred_inject(2))
    then show ?thesis using registered_separator_last(2) [OF assms(5)] hash_last [of h] snoc.prems(2) by simp
  next
    case snoc': (snoc us' h')
    have l: "length h = length h'" using snoc.prems(2,3) snoc' by (simp add: is_hash_def)
    have "(sep @ concat us) @ h = (sep' @ concat us') @ h'" using snoc.prems(1) snoc' by simp
    then have e: "sep @ concat us = sep' @ concat us' \<and> h = h'"
      using append_eq_append_conv [of "sep @ concat us" "sep' @ concat us'" h h'] l by blast
    then show ?thesis using snoc.IH [of us'] snoc.prems(2,3) snoc' e by simp
  qed
qed

text \<open>
  Signed payloads determine their domain separator and the values they frame, across the single-hash
  recipe and both composite recipes: a signature made under one recipe signs no payload of another.
\<close>

theorem signed_payload_injective:
  assumes "signed_payload sep vs m" "signed_payload sep' vs' m"
  shows "sep = sep' \<and> vs = vs'"
  using frame_unique signed_payload_frames [OF assms(1)] signed_payload_frames [OF assms(2)] by metis

theorem signed_payload_injective_witness:
  "signed_payload ''dacs-session-binding:v1:'' [replicate 64 CHR ''a'', replicate 64 CHR ''0'']
     (''dacs-session-binding:v1:'' @ replicate 64 CHR ''a'' @ replicate 64 CHR ''0'') \<and>
   \<not> signed_payload ''dacs-rating:v1:'' [replicate 64 CHR ''0'']
     (''dacs-session-binding:v1:'' @ replicate 64 CHR ''a'' @ replicate 64 CHR ''0'')"
proof -
  have h: "is_hash (replicate 64 CHR ''a'')" "is_hash (replicate 64 CHR ''0'')"
    by (simp_all add: is_hash_def is_hex_lower_def is_digit_def list_all_iff)
  have s: "signed_payload ''dacs-session-binding:v1:'' [replicate 64 CHR ''a'', replicate 64 CHR ''0'']
     (''dacs-session-binding:v1:'' @ replicate 64 CHR ''a'' @ replicate 64 CHR ''0'')"
    by (rule session_binding) (simp add: sessionBindingBytes_def assertFramedHex_def h)
  then show ?thesis using signed_payload_injective [OF s] by blast
qed

section \<open>Signing and verifying\<close>

lemma isOk_mapR: "isOk (mapR f xs) \<longleftrightarrow> (\<forall>x\<in>set xs. isOk (f x))"
  by (induction xs) (auto simp: isOk_iff bindR_Inr)

lemma isOk_bindR_Inr: "isOk (bindR r (\<lambda>x. Inr (f x))) \<longleftrightarrow> isOk r"
  by (auto simp: isOk_iff bindR_Inr)

lemma canonicalize_object_ok:
  "isOk (canonicalize (JObj kvs)) \<longleftrightarrow> (\<forall>kv\<in>set kvs. snd kv \<noteq> JUndefined \<longrightarrow> isOk (canonValue 1 (snd kv)))"
  by (auto simp: canonicalize_def isOk_bindR_Inr isOk_mapR sorted_entries_def MAX_NESTING_DEPTH_def)

lemma signature_json_data:
  "isDataOnlyJson (JObj (signature_json opts v))" "isOk (canonValue d (JObj (signature_json opts v))) \<longleftrightarrow> d < 128"
  "reparsed (JObj (signature_json opts v)) = JObj (signature_json opts v)"
  by (auto simp: signature_json_def isOk_bindR_Inr isOk_mapR sorted_entries_def MAX_NESTING_DEPTH_def isOk_iff bindR_Inr ensure_Inr)

lemma sign_cases:
  assumes "signComponentArtifact sha256Hex artifact sep opts = Inr signed"
  obtains kvs h v m ctx t where "snapshotCanonicalJsonObject artifact = Inr kvs" "contentHash sha256Hex kvs = Inr h"
    "so_sign opts (signedBytes sep h) (signing_context opts) = Inr (v, m, ctx)" "encodedSignatureValue v = Inr t"
    "signed = kvs @ [(''signature'', JObj (signature_json opts t))]" "isRegisteredSeparator sep" "\<not> isCompositeSeparator sep"
    "\<not> has_own kvs ''signature''" "\<not> has_own kvs ''signatures''" "isNonEmptyString (so_signer opts)"
    "so_algorithm opts \<in> set COMPONENT_SIGNATURE_ALGORITHMS"
  using assms
  by (auto simp: signComponentArtifact_def buildComponentSignatureFromSnapshot_def captureComponentSignatureOptions_def
      assertUnsignedComponentArtifact_def Let_def bindR_Inr ensure_Inr)

lemma encoded_value_canonical: "encodedSignatureValue v = Inr t \<Longrightarrow> isCanonicalBase64Url t"
  by (auto simp: encodedSignatureValue_def Let_def ensure_Inr split: signer_value.splits)

lemma signature_json_shape:
  assumes "isNonEmptyString (so_signer opts)" "so_algorithm opts \<in> set COMPONENT_SIGNATURE_ALGORITHMS" "isCanonicalBase64Url t"
  shows "signatureShapeReason (JObj (signature_json opts t)) = None"
  using assms by (simp add: signatureShapeReason_def signature_json_def)

text \<open>The snapshot of a signed artifact is the snapshot of the artifact with the signature merged in.\<close>

lemma snapshot_object_Inr:
  "snapshotCanonicalJsonObject v = Inr kvs \<longleftrightarrow>
   (\<exists>xs. v = JObj xs \<and> isDataOnlyJson v \<and> isOk (canonicalize v) \<and> reparsed v = JObj kvs)"
  by (cases v) (auto simp: snapshotCanonicalJsonObject_def snapshot_defs bindR_Inr snapshot_Inr isOk_iff split: json.splits)

lemma reparsed_object_fixpoint:
  assumes "reparsed (JObj xs) = JObj kvs"
  shows "reparsed (JObj kvs) = JObj kvs" "sorted_entries kvs = kvs" "map (\<lambda>kv. (fst kv, reparsed (snd kv))) kvs = kvs"
proof -
  show r: "reparsed (JObj kvs) = JObj kvs" using reparsed_idem [of "JObj xs"] assms by simp
  have kvs: "kvs = map (\<lambda>kv. (fst kv, reparsed (snd kv))) (sorted_entries xs)" using assms by simp
  show "sorted_entries kvs = kvs" unfolding kvs by (rule sorted_entries_reparsed)
  with r show "map (\<lambda>kv. (fst kv, reparsed (snd kv))) kvs = kvs" by simp
qed

lemma signed_snapshot:
  fixes opts :: signer_options and t :: string
  assumes "snapshotCanonicalJsonObject v = Inr kvs"
  defines "s \<equiv> (''signature'', JObj (signature_json opts t))"
  shows "snapshotReadArtifact (JObj (kvs @ [s])) = Inr (sort_key fst (kvs @ [s]))"
proof -
  from assms(1) obtain xs where xs: "isDataOnlyJson (JObj xs)" "isOk (canonicalize (JObj xs))" "reparsed (JObj xs) = JObj kvs"
    by (auto simp: snapshot_object_Inr)
  have data: "isDataOnlyJson (JObj kvs)" using isDataOnlyJson_reparsed [OF xs(1)] xs(3) by simp
  have ok: "isOk (canonicalize (JObj kvs))" using canonicalize_reparsed [of "JObj xs"] xs(2,3) by simp
  have "isDataOnlyJson (JObj (kvs @ [s]))" using data signature_json_data(1) by (simp add: s_def)
  moreover have "isOk (canonicalize (JObj (kvs @ [s])))"
    using ok signature_json_data(2) [of 1] unfolding canonicalize_object_ok s_def by auto
  moreover have "map (\<lambda>kv. (fst kv, reparsed (snd kv))) (kvs @ [s]) = map (\<lambda>kv. kv) (kvs @ [s])"
    using reparsed_object_fixpoint(3) [OF xs(3)] signature_json_data(3) by (simp add: s_def)
  then have "\<forall>kv\<in>set (kvs @ [s]). (fst kv, reparsed (snd kv)) = kv" by (simp only: map_eq_conv)
  then have "map (\<lambda>kv. (fst kv, reparsed (snd kv))) (sort_key fst (kvs @ [s])) = sort_key fst (kvs @ [s])"
    by (metis (no_types, lifting) map_idI set_sort)
  moreover have "filter (\<lambda>kv. snd kv \<noteq> JUndefined) (kvs @ [s]) = kvs @ [s]"
    using data by (auto simp: s_def filter_id_conv list_all_iff)
  ultimately show ?thesis
    by (simp add: snapshotReadArtifact_def snapshot_defs snapshot_Inr bindR_Inr sorted_entries_def isOk_iff)
qed

lemma signed_scope_of_signed:
  assumes "sorted_entries kvs = kvs" "\<not> has_own kvs ''signature''" "\<not> has_own kvs ''signatures''"
  shows "unsigned_members (sort_key fst (kvs @ [(''signature'', s)])) = kvs" "unsigned_members kvs = kvs"
proof -
  have f: "filter (\<lambda>kv. fst kv \<notin> set SIGNATURE_FIELDS) kvs = kvs"
    using assms(2,3) by (auto simp: filter_id_conv SIGNATURE_FIELDS_def has_own_def image_iff)
  then show "unsigned_members kvs = kvs" by (simp add: unsigned_members_def)
  have "sorted (map fst kvs)" using assms(1) by (metis sorted_entries_def sorted_sort_key)
  then have "sort_key fst kvs = kvs" by (rule sort_key_id_if_sorted)
  then show "unsigned_members (sort_key fst (kvs @ [(''signature'', s)])) = kvs"
    unfolding unsigned_members_def filter_sort using f by (simp add: SIGNATURE_FIELDS_def)
qed

lemma snapshotReadArtifact_Inr: "snapshotReadArtifact v = Inr kvs \<Longrightarrow> snapshotCanonicalJson v = Inr (JObj kvs)"
  by (cases "snapshotCanonicalJsonRead v"; cases "projr (snapshotCanonicalJsonRead v)")
    (simp_all add: snapshotReadArtifact_def snapshot_defs bindR_def)

lemma content_hash_of_snapshot:
  assumes "snapshotCanonicalJson (JObj kvs) = Inr (JObj snap)"
  shows "contentHash sha256Hex snap = contentHash sha256Hex kvs"
proof -
  have snap: "reparsed (JObj kvs) = JObj snap" "isDataOnlyJson (JObj kvs)" "isOk (canonicalize (JObj kvs))"
    using assms by (auto simp: snapshot_defs snapshot_Inr)
  then have "reparsed (JObj (unsigned_members kvs)) = JObj (unsigned_members snap)" unfolding unsigned_reparsed by simp
  then have "canonicalize (JObj (unsigned_members snap)) = canonicalize (JObj (unsigned_members kvs))"
    by (metis canonicalize_reparsed)
  moreover have "snapshotCanonicalJsonRead (JObj snap) = Inr (JObj snap)" "snapshotCanonicalJsonRead (JObj kvs) = Inr (JObj snap)"
    using snapshot_keeps_canonical_bytes [OF assms] assms by (simp_all add: snapshot_defs)
  ultimately show ?thesis by (simp add: contentHash_def)
qed

lemma map_of_only: "(k, v) \<in> set xs \<Longrightarrow> (\<And>w. (k, w) \<in> set xs \<Longrightarrow> w = v) \<Longrightarrow> map_of xs k = Some v"
  by (metis map_of_SomeD map_of_eq_None_iff image_eqI fst_conv not_None_eq)

text \<open>
  Property C20. An artifact signed with \<open>signComponentArtifact\<close> verifies: when the policy authorises the signer, the
  directory has a key and the verifier accepts what the wallet signed, \<open>verifyComponentSignature\<close>
  reports the signature that was attached as valid.
\<close>

theorem signed_artifact_verifies:
  assumes signed: "signComponentArtifact sha256Hex artifact sep opts = Inr signed"
    and policy: "\<And>a t. vd_isSignerAuthorized deps a (signature_json opts t) = Some True"
    and directory: "\<And>t. vd_resolvePublicKey deps (signature_json opts t) = Inr (Some key)"
    and crypto: "\<And>m v m' ctx t. so_sign opts m (signing_context opts) = Inr (v, m', ctx) \<Longrightarrow>
      encodedSignatureValue v = Inr t \<Longrightarrow> vd_verify deps m (signature_json opts t) key = Some True"
  shows "\<exists>sig. map_of signed ''signature'' = Some (JObj sig) \<and>
    verifyComponentSignature sha256Hex (JObj signed) sep deps = Signature_Valid sig"
proof -
  from signed obtain kvs h v m ctx t where s: "snapshotCanonicalJsonObject artifact = Inr kvs" "contentHash sha256Hex kvs = Inr h"
    "so_sign opts (signedBytes sep h) (signing_context opts) = Inr (v, m, ctx)" "encodedSignatureValue v = Inr t"
    "signed = kvs @ [(''signature'', JObj (signature_json opts t))]" "isRegisteredSeparator sep" "\<not> isCompositeSeparator sep"
    "\<not> has_own kvs ''signature''" "\<not> has_own kvs ''signatures''"
    and shape: "isNonEmptyString (so_signer opts)" "so_algorithm opts \<in> set COMPONENT_SIGNATURE_ALGORITHMS"
    by (rule sign_cases)
  let ?sig = "signature_json opts t" let ?snap = "sort_key fst signed"
  have snap: "snapshotReadArtifact (JObj signed) = Inr ?snap" unfolding s(5) by (rule signed_snapshot [OF s(1)])
  have fixp: "sorted_entries kvs = kvs" using s(1) reparsed_object_fixpoint(2) by (auto simp: snapshot_object_Inr)
  have read: "snapshotCanonicalJson (JObj signed) = Inr (JObj ?snap)" using snap by (rule snapshotReadArtifact_Inr)
  have "contentHash sha256Hex ?snap = Inr h"
    using s(2) signed_scope_of_signed [OF fixp s(8,9)] snapshot_keeps_canonical_bytes [OF read]
    unfolding s(5) contentHash_Inr by (auto simp: snapshot_defs snapshot_Inr)
  then have verified: "verify_captured sha256Hex ?snap sep ?sig deps = Signature_Valid ?sig"
    using crypto [OF s(3,4)] by (simp add: verify_captured_def policy directory)
  have member: "map_of xs ''signature'' = Some (JObj ?sig)" if "set xs = set signed" for xs
    by (rule map_of_only) (use that s(8) in \<open>auto simp: s(5) has_own_def image_iff\<close>)
  have "\<not> has_own ?snap ''signatures''" using s(9) by (auto simp: has_own_def s(5))
  then have "verifyComponentSignature sha256Hex (JObj signed) sep deps = Signature_Valid ?sig"
    using s(6,7) snap verified member [of ?snap]
      signature_json_shape [OF shape encoded_value_canonical [OF s(4)]]
    by (simp add: verifyComponentSignature_def)
  then show ?thesis using member [of signed] by blast
qed

text \<open>A wallet whose signature is the message itself, and the callbacks that accept it.\<close>

definition echo_options :: signer_options where
  "echo_options = \<lparr>so_algorithm = ''ed25519'', so_signer = ''alice'', so_sign = \<lambda>m ctx. Inr (Signed_Bytes m, m, ctx)\<rparr>"

definition echo_deps :: "unit verify_deps" where
  "echo_deps = \<lparr>vd_isSignerAuthorized = \<lambda>a sig. Some (map_of sig ''signer'' = Some (JStr ''alice'')),
     vd_resolvePublicKey = \<lambda>sig. Inr (Some ()),
     vd_verify = \<lambda>m sig key. Some (map_of sig ''value'' = Some (JStr (base64url_encode m)))\<rparr>"

theorem signed_artifact_verifies_witness:
  "\<exists>signed sig. signComponentArtifact (\<lambda>t. rev t) (JObj [(''jobId'', JStr ''J'')]) ''dacs-rating:v1:'' echo_options = Inr signed \<and>
     verifyComponentSignature (\<lambda>t. rev t) (JObj signed) ''dacs-rating:v1:'' echo_deps = Signature_Valid sig"
proof -
  let ?sign = "signComponentArtifact (\<lambda>t. rev t) (JObj [(''jobId'', JStr ''J'')]) ''dacs-rating:v1:'' echo_options"
  have "isOk ?sign" by code_simp
  then obtain signed where s: "?sign = Inr signed" by (auto simp: isOk_iff)
  have "\<exists>sig. map_of signed ''signature'' = Some (JObj sig) \<and>
    verifyComponentSignature (\<lambda>t. rev t) (JObj signed) ''dacs-rating:v1:'' echo_deps = Signature_Valid sig"
    by (rule signed_artifact_verifies [OF s, where key = "()"])
      (auto simp: echo_deps_def echo_options_def signature_json_def encodedSignatureValue_def Let_def ensure_Inr)
  then show ?thesis using s by blast
qed

text \<open>
  Property C19. A signature is reported valid only for a canonical envelope of an authorised signer whose key the
  directory returned, and the verifier accepted it over the separator and the hash of the whole
  received artifact, unknown members included.
\<close>

theorem valid_signature_covers_artifact:
  assumes "verifyComponentSignature sha256Hex artifact sep deps = Signature_Valid sig"
  shows "\<exists>kvs snap h key. artifact = JObj kvs \<and> contentHash sha256Hex kvs = Inr h \<and>
    snapshotReadArtifact artifact = Inr snap \<and> vd_isSignerAuthorized deps snap sig = Some True \<and>
    vd_verify deps (signedBytes sep h) sig key = Some True \<and> vd_resolvePublicKey deps sig = Inr (Some key) \<and>
    isRegisteredSeparator sep \<and> \<not> isCompositeSeparator sep \<and> signatureShapeReason (JObj sig) = None"
proof -
  from assms obtain snap raw where snap: "snapshotReadArtifact artifact = Inr snap"
    and reg: "isRegisteredSeparator sep" "\<not> isCompositeSeparator sep" and shape: "signatureShapeReason (JObj raw) = None"
    and v: "verify_captured sha256Hex snap sep raw deps = Signature_Valid sig"
    by (auto simp: verifyComponentSignature_def split: if_splits sum.splits option.splits json.splits)
  from snap obtain kvs where kvs: "artifact = JObj kvs" "snapshotCanonicalJson (JObj kvs) = Inr (JObj snap)"
    using snapshotReadArtifact_Inr [OF snap] by (cases artifact) (auto simp: snapshot_defs snapshot_Inr)
  from v obtain h key where "contentHash sha256Hex snap = Inr h" "sig = raw" "vd_verify deps (signedBytes sep h) sig key = Some True"
    "vd_resolvePublicKey deps sig = Inr (Some key)" "vd_isSignerAuthorized deps snap sig = Some True"
    by (auto simp: verify_captured_def split: option.splits bool.splits sum.splits)
  moreover have "contentHash sha256Hex snap = contentHash sha256Hex kvs"
    by (rule content_hash_of_snapshot [OF kvs(2)])
  ultimately show ?thesis using kvs(1) reg shape snap by auto
qed

theorem valid_signature_covers_artifact_witness:
  "\<exists>signed sig h. signComponentArtifact (\<lambda>t. rev t) (JObj [(''jobId'', JStr ''J'')]) ''dacs-rating:v1:'' echo_options = Inr signed \<and>
     contentHash (\<lambda>t. rev t) signed = Inr h \<and> map_of sig ''value'' = Some (JStr (base64url_encode (''dacs-rating:v1:'' @ h)))"
proof -
  let ?sign = "signComponentArtifact (\<lambda>t. rev t) (JObj [(''jobId'', JStr ''J'')]) ''dacs-rating:v1:'' echo_options"
  have "isOk ?sign" by code_simp
  then obtain signed where s: "?sign = Inr signed" by (auto simp: isOk_iff)
  have "(case ?sign of Inl _ \<Rightarrow> False | Inr signed \<Rightarrow>
      (case verifyComponentSignature (\<lambda>t. rev t) (JObj signed) ''dacs-rating:v1:'' echo_deps of
         Signature_Valid _ \<Rightarrow> True | _ \<Rightarrow> False))" by code_simp
  then obtain sig where v: "verifyComponentSignature (\<lambda>t. rev t) (JObj signed) ''dacs-rating:v1:'' echo_deps = Signature_Valid sig"
    unfolding s by (auto split: signature_verification.splits)
  obtain h key where "contentHash (\<lambda>t. rev t) signed = Inr h"
    "vd_verify echo_deps (signedBytes ''dacs-rating:v1:'' h) sig key = Some True"
    using valid_signature_covers_artifact [OF v] by auto
  then show ?thesis using s by (auto simp: echo_deps_def signedBytes_def)
qed

end
