(* ===== verification/Dacs_Evidence.thy ===== *)
theory Dacs_Evidence
  imports Dacs_Signatures Dacs_Claims Dacs_Decimal Dacs_Bundle
begin

text \<open>
  The wire gates of settlement evidence (\<^verbatim>\<open>src/src/artifacts/validators.ts\<close>): attestation
  references, transaction references of every supported ledger, and the settlement evidence of
  payment and delivery phases. A document is a JSON value; a missing member and an undefined one
  read the same, as in the source.
\<close>

section \<open>Shapes\<close>

fun isStr :: "json \<Rightarrow> bool" where
  "isStr (JStr _) = True"
| "isStr _ = False"

fun isNonEmptyStr :: "json \<Rightarrow> bool" where
  "isNonEmptyStr (JStr s) = (s \<noteq> [])"
| "isNonEmptyStr _ = False"

text \<open>\<^verbatim>\<open>typeof v === "number" && Number.isFinite(v)\<close>.\<close>

fun isNum :: "json \<Rightarrow> bool" where
  "isNum (JNum n) = (n \<noteq> JNonFinite)"
| "isNum _ = False"

fun isNonNegativeInt :: "json \<Rightarrow> bool" where
  "isNonNegativeInt (JNum (JInt n)) = (0 \<le> n)"
| "isNonNegativeInt _ = False"

fun isNonNegativeSafeInt :: "json \<Rightarrow> bool" where
  "isNonNegativeSafeInt (JNum (JInt n)) = (isSafeInteger n \<and> 0 \<le> n)"
| "isNonNegativeSafeInt _ = False"

fun isPositiveSafeInt :: "json \<Rightarrow> bool" where
  "isPositiveSafeInt (JNum (JInt n)) = (isSafeInteger n \<and> 0 < n)"
| "isPositiveSafeInt _ = False"

definition str_where :: "(string \<Rightarrow> bool) \<Rightarrow> json \<Rightarrow> bool" where
  "str_where P v = (case v of JStr s \<Rightarrow> P s | _ \<Rightarrow> False)"

definition isSha256 :: "json \<Rightarrow> bool" where
  "isSha256 = str_where is_hash"

definition isMinimalUnsignedDecimal :: "json \<Rightarrow> bool" where
  "isMinimalUnsignedDecimal = str_where is_canonical_nat"

definition isOneOf :: "string list \<Rightarrow> json \<Rightarrow> bool" where
  "isOneOf names = str_where (\<lambda>s. s \<in> set names)"

definition obj_where :: "((string \<times> json) list \<Rightarrow> bool) \<Rightarrow> json \<Rightarrow> bool" where
  "obj_where P v = (case v of JObj kvs \<Rightarrow> P kvs | _ \<Rightarrow> False)"

definition arr_where :: "(json list \<Rightarrow> bool) \<Rightarrow> json \<Rightarrow> bool" where
  "arr_where P v = (case v of JArr xs \<Rightarrow> P xs | _ \<Rightarrow> False)"

text \<open>\<^verbatim>\<open>v === undefined || P(v)\<close>.\<close>

definition absent_or :: "(json \<Rightarrow> bool) \<Rightarrow> json \<Rightarrow> bool" where
  "absent_or P v \<longleftrightarrow> v = JUndefined \<or> P v"

definition hasOnlyKeys :: "(string \<times> json) list \<Rightarrow> string list \<Rightarrow> bool" where
  "hasOnlyKeys kvs allowed \<longleftrightarrow> list_all (\<lambda>kv. fst kv \<in> set allowed) kvs"

definition hasExactWireKeys :: "(string \<times> json) list \<Rightarrow> string list \<Rightarrow> string list \<Rightarrow> bool" where
  "hasExactWireKeys kvs required optional \<longleftrightarrow>
     list_all (has_own kvs) required \<and> hasOnlyKeys kvs (required @ optional) \<and>
     list_all (\<lambda>kv. snd kv \<noteq> JUndefined) kvs"

definition isCanonicalAmount :: "bool \<Rightarrow> json \<Rightarrow> bool" where
  "isCanonicalAmount allowZero =
     str_where (\<lambda>s. canonicalizeDecimal s = Inr s \<and> (allowZero \<or> s \<noteq> ''0''))"

section \<open>Claim references of signers\<close>

text \<open>\<^verbatim>\<open>!/%(?![0-9A-F]{2})/.test(text)\<close>: every percent sign starts an upper-case escape.\<close>

fun percent_escaped :: "string \<Rightarrow> bool" where
  "percent_escaped [] = True"
| "percent_escaped (c # r) =
     ((c = CHR ''%'' \<longrightarrow> (case r of a # b # _ \<Rightarrow> is_hex_upper a \<and> is_hex_upper b | _ \<Rightarrow> False)) \<and> percent_escaped r)"

definition parameter_key :: "string \<Rightarrow> string option" where
  "parameter_key parameter =
     (case break_at (CHR ''='') parameter of
        (key, Some val) \<Rightarrow>
          if key \<noteq> [] \<and> CHR ''='' \<notin> set val \<and>
             CHR '':'' \<notin> set key \<and> CHR ''?'' \<notin> set key \<and> CHR '':'' \<notin> set val \<and> CHR ''?'' \<notin> set val \<and>
             percent_escaped key \<and> percent_escaped val
          then Some key else None
      | _ \<Rightarrow> None)"

definition isCanonicalClaimRef :: "json \<Rightarrow> bool" where
  "isCanonicalClaimRef = str_where (\<lambda>v.
     v \<noteq> [] \<and> \<not> list_ex (\<lambda>c. is_space c \<or> is_control c) v \<and>
     (case break_at (CHR '':'') v of
        (scheme, Some remainder) \<Rightarrow>
          scheme \<noteq> [] \<and> (case scheme of [] \<Rightarrow> False
            | c # r \<Rightarrow> is_lower c \<and> list_all (\<lambda>d. is_lower d \<or> is_digit d \<or> d = CHR ''-'') r) \<and>
          (case break_at (CHR ''?'') remainder of
             (identifier, None) \<Rightarrow> identifier \<noteq> []
           | (identifier, Some query) \<Rightarrow>
               identifier \<noteq> [] \<and> query \<noteq> [] \<and>
               (let keys = map parameter_key (splitOn (CHR ''&'') query) in
                None \<notin> set keys \<and> distinct keys \<and> sorted_wrt (<) (map the keys)))
      | _ \<Rightarrow> False))"

section \<open>References\<close>

definition isAttestationRef :: "json \<Rightarrow> bool" where
  "isAttestationRef = obj_where (\<lambda>v.
     hasExactWireKeys v [''anchor'', ''contentHash''] [''signer''] \<and>
     obj_where (\<lambda>anchor.
       hasExactWireKeys anchor [''kind'', ''locator''] [] \<and>
       isOneOf [''storage-program'', ''ipfs'', ''https''] (member_of anchor ''kind'') \<and>
       isNonEmptyStr (member_of anchor ''locator'')) (member_of v ''anchor'') \<and>
     isSha256 (member_of v ''contentHash'') \<and>
     absent_or isCanonicalClaimRef (member_of v ''signer''))"

definition CLUSTERS :: "string list" where
  "CLUSTERS = [''mainnet'', ''devnet'', ''testnet'']"

definition htlc_hash_field :: "string \<Rightarrow> string option" where
  "htlc_hash_field kind =
     map_of [(''htlc-lock'', ''lockTxHash''), (''htlc-reveal'', ''revealTxHash''), (''htlc-claim'', ''claimTxHash''),
             (''htlc-refund'', ''refundTxHash'')] kind"

definition isChainTxRef :: "json \<Rightarrow> bool" where
  "isChainTxRef = obj_where (\<lambda>v.
     str_where (\<lambda>kind.
       if kind = ''evm'' then
         hasOnlyKeys v [''kind'', ''chainId'', ''txHash''] \<and> isNonNegativeInt (member_of v ''chainId'') \<and>
         isNonEmptyStr (member_of v ''txHash'')
       else if kind = ''evm-event'' then
         hasOnlyKeys v [''kind'', ''chainId'', ''txHash'', ''logIndex''] \<and> isPositiveSafeInt (member_of v ''chainId'') \<and>
         isSha256 (member_of v ''txHash'') \<and> isNonNegativeSafeInt (member_of v ''logIndex'')
       else if kind = ''solana'' then
         hasOnlyKeys v [''kind'', ''cluster'', ''signature''] \<and> isOneOf CLUSTERS (member_of v ''cluster'') \<and>
         isNonEmptyStr (member_of v ''signature'')
       else if kind = ''solana-instruction'' then
         hasOnlyKeys v [''kind'', ''cluster'', ''signature'', ''instructionIndex''] \<and> isOneOf CLUSTERS (member_of v ''cluster'') \<and>
         isNonEmptyStr (member_of v ''signature'') \<and> isNonNegativeSafeInt (member_of v ''instructionIndex'')
       else if kind = ''demos'' then
         hasOnlyKeys v [''kind'', ''txHash'', ''blockNumber''] \<and> isNonEmptyStr (member_of v ''txHash'') \<and>
         absent_or isNonNegativeInt (member_of v ''blockNumber'')
       else if kind = ''storage-program'' then
         hasOnlyKeys v [''kind'', ''address'', ''writeTxHash''] \<and> isNonEmptyStr (member_of v ''address'') \<and>
         isNonEmptyStr (member_of v ''writeTxHash'')
       else if kind = ''ap2'' then
         hasOnlyKeys v [''kind'', ''mandateId'', ''providerRef'', ''protocolVersion'', ''receiptAttestation''] \<and>
         isNonEmptyStr (member_of v ''mandateId'') \<and> isNonEmptyStr (member_of v ''providerRef'') \<and>
         isNonEmptyStr (member_of v ''protocolVersion'') \<and> absent_or isAttestationRef (member_of v ''receiptAttestation'')
       else if kind = ''ap2-sr3'' then
         hasOnlyKeys v [''kind'', ''mandateId'', ''providerRef'', ''protocolVersion'', ''receiptAttestation'', ''receiptTransactionRef''] \<and>
         isNonEmptyStr (member_of v ''mandateId'') \<and> isNonEmptyStr (member_of v ''providerRef'') \<and>
         isNonEmptyStr (member_of v ''protocolVersion'') \<and> isAttestationRef (member_of v ''receiptAttestation'') \<and>
         obj_where (\<lambda>r. hasOnlyKeys r [''kind'', ''value''] \<and> isNonEmptyStr (member_of r ''kind'') \<and>
           isNonEmptyStr (member_of r ''value'')) (member_of v ''receiptTransactionRef'')
       else if kind = ''x402'' then
         hasOnlyKeys v [''kind'', ''httpResource'', ''paymentReceiptHash'', ''settlementTxHash'', ''chainId'', ''protocolVersion''] \<and>
         isNonEmptyStr (member_of v ''httpResource'') \<and> isSha256 (member_of v ''paymentReceiptHash'') \<and>
         absent_or isNonEmptyStr (member_of v ''settlementTxHash'') \<and> absent_or isNonNegativeInt (member_of v ''chainId'') \<and>
         isNonEmptyStr (member_of v ''protocolVersion'')
       else if kind = ''x402-event'' then
         hasOnlyKeys v [''kind'', ''httpResource'', ''paymentReceiptHash'', ''settlementTxHash'', ''chainId'', ''logIndex'', ''protocolVersion''] \<and>
         isNonEmptyStr (member_of v ''httpResource'') \<and> isSha256 (member_of v ''paymentReceiptHash'') \<and>
         isSha256 (member_of v ''settlementTxHash'') \<and> isPositiveSafeInt (member_of v ''chainId'') \<and>
         isNonNegativeSafeInt (member_of v ''logIndex'') \<and> isMinimalUnsignedDecimal (member_of v ''protocolVersion'')
       else if htlc_hash_field kind \<noteq> None then
         (let hashField = the (htlc_hash_field kind) in
          hasOnlyKeys v [''kind'', ''chainId'', ''contractAddress'', hashField] \<and> isNonNegativeInt (member_of v ''chainId'') \<and>
          isNonEmptyStr (member_of v ''contractAddress'') \<and> isNonEmptyStr (member_of v hashField))
       else if kind = ''liquidity-tank'' then
         hasOnlyKeys v [''kind'', ''bridgeId'', ''sourceChainId'', ''destChainId'', ''lockTxHash'', ''releaseTxHash'', ''recoveryDeadline''] \<and>
         isNonEmptyStr (member_of v ''bridgeId'') \<and> isNonNegativeInt (member_of v ''sourceChainId'') \<and>
         isNonNegativeInt (member_of v ''destChainId'') \<and> isNonEmptyStr (member_of v ''lockTxHash'') \<and>
         absent_or isNonEmptyStr (member_of v ''releaseTxHash'') \<and> absent_or isNonNegativeInt (member_of v ''recoveryDeadline'')
       else False) (member_of v ''kind''))"

section \<open>Settlement evidence\<close>

definition PHASE_TYPES :: "string list" where
  "PHASE_TYPES =
     [''vet-credentials'', ''negotiate-fixed-price'', ''negotiate-rfq'', ''negotiate-sealed-envelope'',
      ''negotiate-sealed-envelope-procurement'', ''commit-agreement'', ''commit-payee-bound-agreement'',
      ''pay-evm-erc20'', ''pay-solana-spl'', ''pay-cross-chain-htlc'', ''pay-cross-chain-liquidity-tank'', ''pay-ap2'',
      ''pay-x402'', ''pay-dem'', ''pay-alternative'', ''deliver-storage-program'', ''deliver-entitlement'',
      ''deliver-attested-payload'', ''rate'']"

definition startsWith :: "string \<Rightarrow> string \<Rightarrow> bool" where
  "startsWith s p \<longleftrightarrow> take (length p) s = p"

definition PAYMENT_PHASES :: "string list" where
  "PAYMENT_PHASES = filter (\<lambda>phase. startsWith phase ''pay-'' \<and> phase \<noteq> ''pay-alternative'') PHASE_TYPES"

definition DELIVERY_PHASES :: "string list" where
  "DELIVERY_PHASES = filter (\<lambda>phase. startsWith phase ''deliver-'') PHASE_TYPES"

definition FINALITY_MODELS :: "string list" where
  "FINALITY_MODELS = [''block-depth'', ''commitment-level'', ''provider-receipt'', ''htlc-reveal'', ''liquidity-tank'', ''bft-final'']"

definition validAmount :: "bool \<Rightarrow> json \<Rightarrow> bool" where
  "validAmount allowZero = obj_where (\<lambda>a.
     hasOnlyKeys a [''amount'', ''currency''] \<and> isCanonicalAmount allowZero (member_of a ''amount'') \<and>
     isNonEmptyStr (member_of a ''currency''))"

definition validFinality :: "json \<Rightarrow> bool" where
  "validFinality = obj_where (\<lambda>f.
     isOneOf FINALITY_MODELS (member_of f ''model'') \<and> isNum (member_of f ''finalityObservedAt'') \<and>
     (if member_of f ''model'' = JStr ''block-depth'' then
        hasOnlyKeys f [''model'', ''finalityBlocks'', ''finalityObservedAt''] \<and>
        absent_or isNonNegativeInt (member_of f ''finalityBlocks'')
      else if member_of f ''model'' = JStr ''commitment-level'' then
        hasOnlyKeys f [''model'', ''finalityCommitmentLevel'', ''finalityObservedAt''] \<and>
        absent_or (isOneOf [''processed'', ''confirmed'', ''finalized'']) (member_of f ''finalityCommitmentLevel'')
      else hasOnlyKeys f [''model'', ''finalityObservedAt'']))"

definition evidence_base :: "(string \<times> json) list \<Rightarrow> bool" where
  "evidence_base v \<longleftrightarrow>
     member_of v ''evidenceVersion'' = JStr ''1'' \<and> isNonEmptyStr (member_of v ''jobId'') \<and>
     isOneOf [''success'', ''failure''] (member_of v ''outcome'') \<and> isNum (member_of v ''observedAt'') \<and>
     isComponentSignature (member_of v ''signature'') \<and>
     absent_or (arr_where (list_all isAttestationRef)) (member_of v ''amendmentRefs'') \<and>
     absent_or isAttestationRef (member_of v ''supersedesEvidenceRef'')"

definition attested_ap2 :: "json \<Rightarrow> bool" where
  "attested_ap2 r = obj_where (\<lambda>kvs. member_of kvs ''kind'' \<noteq> JStr ''ap2'' \<or> member_of kvs ''receiptAttestation'' \<noteq> JUndefined) r"

definition payment_evidence :: "(string \<times> json) list \<Rightarrow> bool" where
  "payment_evidence v \<longleftrightarrow>
     member_of v ''deliverableContentHash'' = JUndefined \<and> member_of v ''deliverableAnchor'' = JUndefined \<and>
     member_of v ''attestationRef'' = JUndefined \<and>
     absent_or (arr_where (list_all isChainTxRef)) (member_of v ''paymentTxRefs'') \<and>
     absent_or (validAmount True) (member_of v ''paymentFee'') \<and>
     (if member_of v ''outcome'' = JStr ''failure'' then
        isNonEmptyStr (member_of v ''reason'') \<and> member_of v ''settlementFinality'' = JUndefined \<and>
        absent_or (validAmount False) (member_of v ''paymentAmount'')
      else
        member_of v ''reason'' = JUndefined \<and>
        arr_where (\<lambda>refs. refs \<noteq> [] \<and> (member_of v ''phase'' = JStr ''pay-ap2'' \<longrightarrow> list_all attested_ap2 refs)) (member_of v ''paymentTxRefs'') \<and>
        validAmount False (member_of v ''paymentAmount'') \<and> validFinality (member_of v ''settlementFinality''))"

definition delivery_evidence :: "(string \<times> json) list \<Rightarrow> bool" where
  "delivery_evidence v \<longleftrightarrow>
     member_of v ''settlementFinality'' = JUndefined \<and>
     absent_or (arr_where (list_all isChainTxRef)) (member_of v ''paymentTxRefs'') \<and>
     absent_or (validAmount False) (member_of v ''paymentAmount'') \<and>
     absent_or (validAmount True) (member_of v ''paymentFee'') \<and>
     absent_or isSha256 (member_of v ''deliverableContentHash'') \<and>
     absent_or (obj_where (\<lambda>a. hasOnlyKeys a [''kind'', ''locator''] \<and> isNonEmptyStr (member_of a ''kind'') \<and>
       isNonEmptyStr (member_of a ''locator''))) (member_of v ''deliverableAnchor'') \<and>
     absent_or isAttestationRef (member_of v ''attestationRef'') \<and>
     (if member_of v ''outcome'' = JStr ''failure'' then isNonEmptyStr (member_of v ''reason'')
      else
        member_of v ''reason'' = JUndefined \<and> isSha256 (member_of v ''deliverableContentHash'') \<and>
        (if member_of v ''phase'' = JStr ''deliver-storage-program''
         then obj_where (\<lambda>a. member_of a ''kind'' = JStr ''storage-program'') (member_of v ''deliverableAnchor'')
         else if member_of v ''phase'' = JStr ''deliver-attested-payload''
         then obj_where (\<lambda>a. True) (member_of v ''deliverableAnchor'') \<and> isAttestationRef (member_of v ''attestationRef'')
         else True))"

definition isSettlementEvidence :: "json \<Rightarrow> bool" where
  "isSettlementEvidence = obj_where (\<lambda>v.
     \<not> has_own v ''signatures'' \<and> \<not> has_own v ''phaseIndex'' \<and> evidence_base v \<and>
     (if isOneOf PAYMENT_PHASES (member_of v ''phase'') then payment_evidence v
      else isOneOf DELIVERY_PHASES (member_of v ''phase'') \<and> delivery_evidence v))"

end
