(* ===== verification/Dacs_Settlement_Identity.thy ===== *)
theory Dacs_Settlement_Identity
  imports Dacs_Evidence Dacs_Settlement Dacs_Addressing
begin

text \<open>
  Settlement event identities (\<^verbatim>\<open>src/src/agent/settlementIdentity.ts\<close>): the canonical identity of one
  event or instruction of a ledger, and its resolution from signed settlement evidence and an
  authenticated ledger history. SHA-256, the key directory and the signature verifier are parameters;
  evidence and context are JSON values, captured and validated as the source does.
\<close>

section \<open>Canonical identities\<close>

definition BASE58_ALPHABET :: string where
  "BASE58_ALPHABET = ''123456789ABCDEFGHJKLMNPQRSTUVWXYZabcdefghijkmnopqrstuvwxyz''"

fun indexOf :: "string \<Rightarrow> char \<Rightarrow> nat option" where
  "indexOf [] c = None"
| "indexOf (x # xs) c = (if x = c then Some 0 else map_option Suc (indexOf xs c))"

fun base58_decode :: "nat \<Rightarrow> string \<Rightarrow> nat option" where
  "base58_decode decoded [] = Some decoded"
| "base58_decode decoded (c # r) =
     (case indexOf BASE58_ALPHABET c of
        None \<Rightarrow> None
      | Some digit \<Rightarrow> base58_decode (decoded * 58 + digit) r)"

text \<open>\<^verbatim>\<open>for (cursor = decoded; cursor > 0n; cursor >>= 8n) nonZeroBytes += 1\<close>.\<close>

fun nonZeroBytes :: "nat \<Rightarrow> nat" where
  "nonZeroBytes n = (if n = 0 then 0 else Suc (nonZeroBytes (n div 256)))"

declare nonZeroBytes.simps [simp del]

definition isCanonicalSolanaSignature :: "string \<Rightarrow> bool" where
  "isCanonicalSolanaSignature v =
     (if v = [] \<or> length v > 88 then False
      else (case base58_decode 0 v of
              None \<Rightarrow> False
            | Some decoded \<Rightarrow> length (takeWhile (\<lambda>c. c = CHR ''1'') v) + nonZeroBytes decoded = 64))"

text \<open>\<^verbatim>\<open>Number.isSafeInteger(Number(text))\<close> on a canonical numeral.\<close>

definition safe_numeral :: "string \<Rightarrow> bool" where
  "safe_numeral t \<longleftrightarrow> is_canonical_nat t \<and> isSafeInteger (int (digits_val t))"

definition isCanonicalSettlementIdentity :: "string \<Rightarrow> bool" where
  "isCanonicalSettlementIdentity v =
     (if length v > 128 then False
      else (case splitOn (CHR '':'') v of
              [ledger, h] \<Rightarrow> ledger = ''demos'' \<and> is_hash h
            | [ledger, a, b, i] \<Rightarrow>
                if ledger = ''evm'' \<and> is_canonical_nat a \<and> a \<noteq> ''0'' \<and> is_hash b \<and> is_canonical_nat i
                then safe_numeral a \<and> safe_numeral i
                else ledger = ''solana'' \<and> a \<in> set CLUSTERS \<and> isCanonicalSolanaSignature b \<and> safe_numeral i
            | _ \<Rightarrow> False))"

section \<open>Captured inputs\<close>

fun snapshotExactJson :: "nat \<Rightarrow> json \<Rightarrow> bool" where
  "snapshotExactJson depth (JArr xs) = (depth < MAX_NESTING_DEPTH \<and> list_all (snapshotExactJson (Suc depth)) xs)"
| "snapshotExactJson depth (JObj kvs) =
     (depth < MAX_NESTING_DEPTH \<and> list_all (\<lambda>kv. snd kv \<noteq> JUndefined \<and> snapshotExactJson (Suc depth) (snd kv)) kvs)"
| "snapshotExactJson depth JUndefined = False"
| "snapshotExactJson depth (JBigInt i) = False"
| "snapshotExactJson depth (JNum n) = (n \<noteq> JNonFinite)"
| "snapshotExactJson depth v = True"

definition exactKeys :: "(string \<times> json) list \<Rightarrow> string list \<Rightarrow> string list \<Rightarrow> bool" where
  "exactKeys kvs required optional \<longleftrightarrow>
     list_all (\<lambda>kv. fst kv \<in> set (required @ optional)) kvs \<and> list_all (has_own kvs) required"

definition canonicalEvmHash :: "json \<Rightarrow> string option" where
  "canonicalEvmHash v =
     (case v of
        JStr s \<Rightarrow> hex_key (if take 2 s = ''0x'' \<or> take 2 s = ''0X'' then drop 2 s else s)
      | _ \<Rightarrow> None)"

definition common_event_keys :: "string list" where
  "common_event_keys = [''standard'', ''asset'', ''payer'', ''payee'', ''amount'']"

definition isAuthenticatedLedgerEvent :: "json \<Rightarrow> bool" where
  "isAuthenticatedLedgerEvent = obj_where (\<lambda>e.
     list_all (\<lambda>k. isNonEmptyStr (member_of e k)) common_event_keys \<and>
     (if member_of e ''ledger'' = JStr ''evm'' then
        exactKeys e ([''ledger'', ''chainId'', ''txHash'', ''logIndex''] @ common_event_keys) [] \<and>
        isPositiveSafeInt (member_of e ''chainId'') \<and> isNonNegativeSafeInt (member_of e ''logIndex'') \<and>
        canonicalEvmHash (member_of e ''txHash'') \<noteq> None
      else if member_of e ''ledger'' = JStr ''solana'' then
        exactKeys e ([''ledger'', ''cluster'', ''signature'', ''instructionIndex''] @ common_event_keys) [] \<and>
        isOneOf CLUSTERS (member_of e ''cluster'') \<and>
        str_where isCanonicalSolanaSignature (member_of e ''signature'') \<and>
        isNonNegativeSafeInt (member_of e ''instructionIndex'')
      else False))"

definition valid_x402_receipt :: "json \<Rightarrow> bool" where
  "valid_x402_receipt = obj_where (\<lambda>r.
     exactKeys r [''verified'', ''paymentReceiptHash'', ''settlementTxHash'', ''chainId''] [] \<and>
     member_of r ''verified'' = JBool True \<and> isSha256 (member_of r ''paymentReceiptHash'') \<and>
     canonicalEvmHash (member_of r ''settlementTxHash'') \<noteq> None \<and> isPositiveSafeInt (member_of r ''chainId''))"

definition valid_prior_claims :: "json \<Rightarrow> bool" where
  "valid_prior_claims = obj_where (list_all (\<lambda>(settlementId, claim).
     isCanonicalSettlementIdentity settlementId \<and>
     obj_where (\<lambda>c. exactKeys c [''jobId'', ''phaseIndex''] [] \<and> isNonEmptyStr (member_of c ''jobId'') \<and>
       isNonNegativeSafeInt (member_of c ''phaseIndex'')) claim))"

definition isSettlementIdentityContext :: "json \<Rightarrow> bool" where
  "isSettlementIdentityContext = obj_where (\<lambda>c.
     exactKeys c [''anchorAddress'', ''phaseIndex'', ''railId'', ''asset'', ''payer'', ''payee'', ''amount'']
       [''ledgerEvents'', ''x402Receipt'', ''priorClaims''] \<and>
     isNonEmptyStr (member_of c ''anchorAddress'') \<and> isNonNegativeSafeInt (member_of c ''phaseIndex'') \<and>
     isNonEmptyStr (member_of c ''railId'') \<and> isNonEmptyStr (member_of c ''asset'') \<and>
     isNonEmptyStr (member_of c ''payer'') \<and> isNonEmptyStr (member_of c ''payee'') \<and>
     obj_where (\<lambda>a. exactKeys a [''amount'', ''currency''] [] \<and> isCanonicalAmount False (member_of a ''amount'') \<and>
       isNonEmptyStr (member_of a ''currency'')) (member_of c ''amount'') \<and>
     absent_or (\<lambda>v. v = JNull \<or> arr_where (list_all isAuthenticatedLedgerEvent) v) (member_of c ''ledgerEvents'') \<and>
     absent_or valid_x402_receipt (member_of c ''x402Receipt'') \<and>
     absent_or valid_prior_claims (member_of c ''priorClaims''))"

section \<open>Transaction references and anchors\<close>

datatype parsed_ref =
    Current_Evm int string int
  | Current_X402 int string int string
  | Current_Solana string string int
  | Legacy_Evm int string
  | Legacy_Solana string string
  | Legacy_X402 string "string option" "int option"

definition int_member :: "(string \<times> json) list \<Rightarrow> string \<Rightarrow> int" where
  "int_member kvs k = (case member_of kvs k of JNum (JInt n) \<Rightarrow> n | _ \<Rightarrow> 0)"

definition str_member :: "(string \<times> json) list \<Rightarrow> string \<Rightarrow> string" where
  "str_member kvs k = (case member_of kvs k of JStr s \<Rightarrow> s | _ \<Rightarrow> [])"

definition canonical_hash_member :: "(string \<times> json) list \<Rightarrow> string \<Rightarrow> bool" where
  "canonical_hash_member kvs k \<longleftrightarrow>
     (case canonicalEvmHash (member_of kvs k) of None \<Rightarrow> False | Some h \<Rightarrow> member_of kvs k = JStr h)"

definition parseSettlementRef :: "json \<Rightarrow> parsed_ref option" where
  "parseSettlementRef v =
     (case v of
        JObj r \<Rightarrow>
          if member_of r ''kind'' = JStr ''evm-event'' then
            (if exactKeys r [''kind'', ''chainId'', ''txHash'', ''logIndex''] [] \<and> isPositiveSafeInt (member_of r ''chainId'') \<and>
                isNonNegativeSafeInt (member_of r ''logIndex'') \<and> canonical_hash_member r ''txHash''
             then Some (Current_Evm (int_member r ''chainId'') (str_member r ''txHash'') (int_member r ''logIndex'')) else None)
          else if member_of r ''kind'' = JStr ''solana-instruction'' then
            (if exactKeys r [''kind'', ''cluster'', ''signature'', ''instructionIndex''] [] \<and>
                isOneOf CLUSTERS (member_of r ''cluster'') \<and> str_where isCanonicalSolanaSignature (member_of r ''signature'') \<and>
                isNonNegativeSafeInt (member_of r ''instructionIndex'')
             then Some (Current_Solana (str_member r ''cluster'') (str_member r ''signature'') (int_member r ''instructionIndex''))
             else None)
          else if member_of r ''kind'' = JStr ''x402-event'' then
            (if exactKeys r [''kind'', ''httpResource'', ''paymentReceiptHash'', ''settlementTxHash'', ''chainId'', ''logIndex'',
                   ''protocolVersion''] [] \<and>
                isNonEmptyStr (member_of r ''httpResource'') \<and> isSha256 (member_of r ''paymentReceiptHash'') \<and>
                canonical_hash_member r ''settlementTxHash'' \<and> isPositiveSafeInt (member_of r ''chainId'') \<and>
                isNonNegativeSafeInt (member_of r ''logIndex'') \<and> isMinimalUnsignedDecimal (member_of r ''protocolVersion'')
             then Some (Current_X402 (int_member r ''chainId'') (str_member r ''settlementTxHash'') (int_member r ''logIndex'')
                    (str_member r ''paymentReceiptHash''))
             else None)
          else if member_of r ''kind'' = JStr ''evm'' then
            (case canonicalEvmHash (member_of r ''txHash'') of
               Some txHash \<Rightarrow>
                 if exactKeys r [''kind'', ''chainId'', ''txHash''] [] \<and> isPositiveSafeInt (member_of r ''chainId'')
                 then Some (Legacy_Evm (int_member r ''chainId'') txHash) else None
             | None \<Rightarrow> None)
          else if member_of r ''kind'' = JStr ''solana'' then
            (if exactKeys r [''kind'', ''cluster'', ''signature''] [] \<and> isOneOf CLUSTERS (member_of r ''cluster'') \<and>
                str_where isCanonicalSolanaSignature (member_of r ''signature'')
             then Some (Legacy_Solana (str_member r ''cluster'') (str_member r ''signature'')) else None)
          else if member_of r ''kind'' = JStr ''x402'' then
            (if \<not> exactKeys r [''kind'', ''httpResource'', ''paymentReceiptHash'', ''protocolVersion''] [''settlementTxHash'', ''chainId''] \<or>
                \<not> isNonEmptyStr (member_of r ''httpResource'') \<or> \<not> isSha256 (member_of r ''paymentReceiptHash'') \<or>
                \<not> isMinimalUnsignedDecimal (member_of r ''protocolVersion'')
             then None
             else if has_own r ''settlementTxHash'' \<and> canonicalEvmHash (member_of r ''settlementTxHash'') = None then None
             else if has_own r ''chainId'' \<and> \<not> isPositiveSafeInt (member_of r ''chainId'') then None
             else Some (Legacy_X402 (str_member r ''paymentReceiptHash'')
                    (if has_own r ''settlementTxHash'' then canonicalEvmHash (member_of r ''settlementTxHash'') else None)
                    (if has_own r ''chainId'' then Some (int_member r ''chainId'') else None)))
          else None
      | _ \<Rightarrow> None)"

definition parsePaymentAnchor :: "string \<Rightarrow> (string \<times> string \<times> int) option" where
  "parsePaymentAnchor v =
     (let parts = splitOn (CHR '':'') v;
          parts' = (if length parts = 6 then butlast parts else parts) in
      if length parts = 6 \<and> last parts \<noteq> ''resolved'' then None
      else (case parts' of
              [p0, p1, jobId, encodedRailId, phaseText] \<Rightarrow>
                if p0 \<noteq> ''dacs4'' \<or> p1 \<noteq> ''payment'' then None
                else if jobId = [] \<or> encodedRailId = [] \<or> \<not> is_canonical_nat phaseText then None
                else if \<not> isSafeInteger (int (digits_val phaseText)) then None
                else if encodeAddressSegment (decodeAddressSegment encodedRailId) \<noteq> encodedRailId then None
                else Some (jobId, decodeAddressSegment encodedRailId, int (digits_val phaseText))
            | _ \<Rightarrow> None))"

section \<open>Resolution\<close>

datatype refusal = Refuse_Fail | Refuse_Error | Refuse_Indeterminate

datatype replay = Replay_Current | Replay_Legacy

datatype identity_resolution = Identity_Pass string replay | Identity_Refused refusal string

record identity_deps =
  id_resolvePublicKey :: "string \<Rightarrow> string option res"
  id_verify :: "string \<Rightarrow> string \<Rightarrow> string \<Rightarrow> bool res"

definition eventIndex :: "(string \<times> json) list \<Rightarrow> int" where
  "eventIndex e = (if member_of e ''ledger'' = JStr ''evm'' then int_member e ''logIndex'' else int_member e ''instructionIndex'')"

text \<open>The ledger transaction a reference selects: an EVM chain and hash, or a Solana cluster and signature.\<close>

datatype envelope = Evm_Envelope int string | Solana_Envelope string string

definition inEnvelope :: "envelope \<Rightarrow> (string \<times> json) list \<Rightarrow> bool" where
  "inEnvelope env e =
     (case env of
        Solana_Envelope cluster signature \<Rightarrow>
          member_of e ''ledger'' = JStr ''solana'' \<and> member_of e ''cluster'' = JStr cluster \<and> member_of e ''signature'' = JStr signature
      | Evm_Envelope chainId txHash \<Rightarrow>
          member_of e ''ledger'' = JStr ''evm'' \<and> member_of e ''chainId'' = JNum (JInt chainId) \<and>
          canonicalEvmHash (member_of e ''txHash'') = Some txHash)"

definition semanticMatch :: "(string \<times> json) list \<Rightarrow> (string \<times> json) list \<Rightarrow> (string \<times> json) list \<Rightarrow> bool" where
  "semanticMatch context evidence e =
     (case member_of evidence ''paymentAmount'' of
        JObj paid \<Rightarrow>
          (let agreed = (case member_of context ''amount'' of JObj a \<Rightarrow> a | _ \<Rightarrow> []) in
           strictEq (member_of e ''asset'') (member_of context ''asset'') \<and>
           strictEq (member_of e ''payer'') (member_of context ''payer'') \<and>
           strictEq (member_of e ''payee'') (member_of context ''payee'') \<and>
           strictEq (member_of e ''amount'') (member_of agreed ''amount'') \<and>
           strictEq (member_of e ''amount'') (member_of paid ''amount'') \<and>
           strictEq (member_of paid ''currency'') (member_of agreed ''currency''))
      | _ \<Rightarrow> False)"

datatype authenticity = Authentic | Not_Authentic refusal

definition authenticateEvidence ::
  "(string \<Rightarrow> string) \<Rightarrow> identity_deps \<Rightarrow> (string \<times> json) list \<Rightarrow> authenticity" where
  "authenticateEvidence sha256Hex deps evidence =
     (case member_of evidence ''signature'' of
        JObj signature \<Rightarrow>
          if \<not> isComponentSignature (JObj signature) \<or> member_of signature ''algorithm'' \<noteq> JStr ''ed25519'' then Not_Authentic Refuse_Fail
          else (case id_resolvePublicKey deps (str_member signature ''signer'') of
                  Inl _ \<Rightarrow> Not_Authentic Refuse_Indeterminate
                | Inr None \<Rightarrow> Not_Authentic Refuse_Indeterminate
                | Inr (Some key) \<Rightarrow>
                    if length key \<noteq> 32 then Not_Authentic Refuse_Error
                    else (case bindR (stripSignature evidence) (contentHash sha256Hex) of
                            Inl _ \<Rightarrow> Not_Authentic Refuse_Error
                          | Inr h \<Rightarrow>
                              (case id_verify deps (signedBytes ''dacs-evidence:v1:'' h) (base64url_decode (str_member signature ''value'')) key of
                                 Inl _ \<Rightarrow> Not_Authentic Refuse_Error
                               | Inr True \<Rightarrow> Authentic
                               | Inr False \<Rightarrow> Not_Authentic Refuse_Fail)))
      | _ \<Rightarrow> Not_Authentic Refuse_Fail)"

text \<open>
  The checks of an x402 receipt. They yield the transaction the reference stands for: a current
  reference keeps its own, a legacy one takes the receipt's.
\<close>

definition x402_envelope :: "(string \<times> json) list \<Rightarrow> parsed_ref \<Rightarrow> (refusal \<times> string) + envelope" where
  "x402_envelope context parsed =
     (let (receiptHash, matches) =
            (case parsed of
               Current_X402 chainId txHash index rh \<Rightarrow> (rh, \<lambda>h c. h = txHash \<and> c = chainId)
             | Legacy_X402 rh signedTx signedChain \<Rightarrow>
                 (rh, \<lambda>h c. (signedTx = None \<or> signedTx = Some h) \<and> (signedChain = None \<or> signedChain = Some c))
             | _ \<Rightarrow> ([], \<lambda>h c. False)) in
      case member_of context ''x402Receipt'' of
        JObj receipt \<Rightarrow>
          if member_of receipt ''verified'' \<noteq> JBool True then Inl (Refuse_Indeterminate, ''x402 receipt is not independently verified'')
          else if member_of receipt ''paymentReceiptHash'' \<noteq> JStr receiptHash then Inl (Refuse_Fail, ''x402 receipt hash mismatch'')
          else (case canonicalEvmHash (member_of receipt ''settlementTxHash'') of
                  None \<Rightarrow> Inl (Refuse_Fail, ''verified x402 receipt identity is malformed'')
                | Some h \<Rightarrow>
                    if \<not> isPositiveSafeInt (member_of receipt ''chainId'') then Inl (Refuse_Fail, ''verified x402 receipt identity is malformed'')
                    else if \<not> matches h (int_member receipt ''chainId'') then Inl (Refuse_Fail, ''x402 receipt tuple mismatch'')
                    else Inr (Evm_Envelope (int_member receipt ''chainId'') h))
      | _ \<Rightarrow> Inl (Refuse_Indeterminate, ''x402 receipt is not independently verified''))"

definition ref_envelope :: "(string \<times> json) list \<Rightarrow> parsed_ref \<Rightarrow> (refusal \<times> string) + envelope" where
  "ref_envelope context parsed =
     (case parsed of
        Current_Evm chainId txHash _ \<Rightarrow> Inr (Evm_Envelope chainId txHash)
      | Legacy_Evm chainId txHash \<Rightarrow> Inr (Evm_Envelope chainId txHash)
      | Current_Solana cluster signature _ \<Rightarrow> Inr (Solana_Envelope cluster signature)
      | Legacy_Solana cluster signature \<Rightarrow> Inr (Solana_Envelope cluster signature)
      | _ \<Rightarrow> x402_envelope context parsed)"

definition signed_index :: "parsed_ref \<Rightarrow> int option" where
  "signed_index parsed =
     (case parsed of Current_Evm _ _ i \<Rightarrow> Some i | Current_X402 _ _ i _ \<Rightarrow> Some i | Current_Solana _ _ i \<Rightarrow> Some i | _ \<Rightarrow> None)"

definition select_index ::
  "(string \<times> json) list \<Rightarrow> (string \<times> json) list \<Rightarrow> parsed_ref \<Rightarrow> (string \<times> json) list list \<Rightarrow> (refusal \<times> string) + int" where
  "select_index context evidence parsed envelope =
     (case signed_index parsed of
        Some index \<Rightarrow>
          (case filter (\<lambda>e. eventIndex e = index) envelope of
             [e] \<Rightarrow> if semanticMatch context evidence e then Inr index
                    else Inl (Refuse_Fail, ''signed event coordinate does not select the settlement'')
           | _ \<Rightarrow> Inl (Refuse_Fail, ''signed event coordinate does not select the settlement''))
      | None \<Rightarrow>
          (case filter (semanticMatch context evidence) envelope of
             [] \<Rightarrow> Inl (Refuse_Fail, ''legacy transaction has no matching settlement event'')
           | [e] \<Rightarrow> if isSafeInteger (eventIndex e) \<and> 0 \<le> eventIndex e then Inr (eventIndex e)
                    else Inl (Refuse_Error, ''authenticated event coordinate is malformed'')
           | _ \<Rightarrow> Inl (Refuse_Indeterminate, ''legacy transaction event is ambiguous'')))"

definition envelope_identity :: "envelope \<Rightarrow> int \<Rightarrow> string" where
  "envelope_identity env index =
     (case env of
        Solana_Envelope cluster signature \<Rightarrow> ''solana:'' @ cluster @ CHR '':'' # signature @ CHR '':'' # int_text index
      | Evm_Envelope chainId txHash \<Rightarrow> ''evm:'' @ int_text chainId @ CHR '':'' # txHash @ CHR '':'' # int_text index)"

definition claim_identity_event ::
  "(string \<times> json) list \<Rightarrow> (string \<times> json) list \<Rightarrow> string \<Rightarrow> replay \<Rightarrow> identity_resolution" where
  "claim_identity_event context evidence settlementId replay =
     (if \<not> isCanonicalSettlementIdentity settlementId then Identity_Refused Refuse_Error ''projected settlement identity is non-canonical''
      else (case member_of context ''priorClaims'' of
              JObj claims \<Rightarrow>
                (case member_of claims settlementId of
                   JObj previous \<Rightarrow>
                     if \<not> strictEq (member_of previous ''jobId'') (member_of evidence ''jobId'') \<or>
                        \<not> strictEq (member_of previous ''phaseIndex'') (member_of context ''phaseIndex'')
                     then Identity_Refused Refuse_Fail ''settlement event is already bound to another phase''
                     else Identity_Pass settlementId replay
                 | _ \<Rightarrow> Identity_Pass settlementId replay)
            | _ \<Rightarrow> Identity_Refused Refuse_Indeterminate ''SB-2 uniqueness index unavailable''))"

definition ledger_events :: "(string \<times> json) list \<Rightarrow> (string \<times> json) list list option" where
  "ledger_events context = (case member_of context ''ledgerEvents'' of JArr es \<Rightarrow> Some (objects_of (JArr es)) | _ \<Rightarrow> None)"

definition resolve_event ::
  "(string \<times> json) list \<Rightarrow> (string \<times> json) list \<Rightarrow> parsed_ref \<Rightarrow> identity_resolution" where
  "resolve_event context evidence parsed =
     (case parsePaymentAnchor (str_member context ''anchorAddress'') of
        None \<Rightarrow> Identity_Refused Refuse_Error ''payment evidence anchor is non-canonical''
      | Some (jobId, railId, phaseIndex) \<Rightarrow>
          if member_of evidence ''jobId'' \<noteq> JStr jobId \<or> member_of context ''railId'' \<noteq> JStr railId \<or>
             member_of context ''phaseIndex'' \<noteq> JNum (JInt phaseIndex)
          then Identity_Refused Refuse_Fail ''payment evidence anchor tuple mismatch''
          else (case ledger_events context of
                  None \<Rightarrow> Identity_Refused Refuse_Indeterminate ''authenticated ledger history unavailable''
                | Some events \<Rightarrow>
                    (case ref_envelope context parsed of
                       Inl (d, r) \<Rightarrow> Identity_Refused d r
                     | Inr env \<Rightarrow>
                         (case select_index context evidence parsed (filter (inEnvelope env) events) of
                            Inl (d, r) \<Rightarrow> Identity_Refused d r
                          | Inr index \<Rightarrow>
                              claim_identity_event context evidence (envelope_identity env index)
                                (if signed_index parsed = None then Replay_Legacy else Replay_Current)))))"

definition resolveCapturedSettlementEventIdentity ::
  "(string \<Rightarrow> string) \<Rightarrow> identity_deps \<Rightarrow> (string \<times> json) list \<Rightarrow> (string \<times> json) list \<Rightarrow> identity_resolution" where
  "resolveCapturedSettlementEventIdentity sha256Hex deps evidence context =
     (case authenticateEvidence sha256Hex deps evidence of
        Not_Authentic d \<Rightarrow> Identity_Refused d ''settlement evidence could not be authenticated''
      | Authentic \<Rightarrow>
          if member_of evidence ''outcome'' \<noteq> JStr ''success'' \<or> \<not> isNonEmptyStr (member_of evidence ''jobId'')
          then Identity_Refused Refuse_Error ''success evidence has no singular transaction ref''
          else (case member_of evidence ''paymentTxRefs'' of
                  JArr [ref] \<Rightarrow>
                    (case parseSettlementRef ref of
                       None \<Rightarrow> Identity_Refused Refuse_Error ''transaction ref cannot project an SB-1 identity''
                     | Some parsed \<Rightarrow>
                         if \<not> isNonNegativeSafeInt (member_of context ''phaseIndex'') \<or> \<not> isNonEmptyStr (member_of context ''railId'')
                         then Identity_Refused Refuse_Error ''authenticated phase context is malformed''
                         else resolve_event context evidence parsed)
                | _ \<Rightarrow> Identity_Refused Refuse_Error ''success evidence has no singular transaction ref''))"

definition resolveSettlementEventIdentity ::
  "(string \<Rightarrow> string) \<Rightarrow> identity_deps \<Rightarrow> json \<Rightarrow> json \<Rightarrow> identity_resolution" where
  "resolveSettlementEventIdentity sha256Hex deps evidenceValue contextValue =
     (if \<not> snapshotExactJson 0 evidenceValue then Identity_Refused Refuse_Error ''settlement identity inputs could not be safely captured''
      else if \<not> isSettlementEvidence evidenceValue then Identity_Refused Refuse_Error ''settlement evidence is malformed''
      else if \<not> snapshotExactJson 0 contextValue then Identity_Refused Refuse_Error ''settlement identity inputs could not be safely captured''
      else if \<not> isSettlementIdentityContext contextValue then Identity_Refused Refuse_Error ''settlement identity context is malformed''
      else (case (evidenceValue, contextValue) of
              (JObj evidence, JObj context) \<Rightarrow> resolveCapturedSettlementEventIdentity sha256Hex deps evidence context
            | _ \<Rightarrow> Identity_Refused Refuse_Error ''settlement evidence is malformed''))"

section \<open>Identities name ledger coordinates\<close>

lemma splitOn_last: "c \<notin> set x \<Longrightarrow> splitOn c x = [x]"
  by (induction x) auto

lemma splitOn_append: "c \<notin> set x \<Longrightarrow> splitOn c (x @ c # r) = x # splitOn c r"
  by (induction x) auto

lemma safe_numeral_text:
  assumes "0 \<le> i" "isSafeInteger i"
  shows "safe_numeral (int_text i)" "is_canonical_nat (int_text i)" "length (int_text i) \<le> 16"
    "CHR '':'' \<notin> set (int_text i)" "0 < i \<Longrightarrow> int_text i \<noteq> ''0''"
proof -
  have "nat i < 10 ^ 16" using assms by (simp add: isSafeInteger_def max_safe_def)
  then show "length (int_text i) \<le> 16" using nat_text_length [of "nat i" 16] assms(1) by (simp add: int_text_nonneg)
  show "is_canonical_nat (int_text i)" "safe_numeral (int_text i)" "CHR '':'' \<notin> set (int_text i)"
    using assms by (simp_all add: safe_numeral_def int_text_nonneg nat_text_no_char is_digit_def)
  show "0 < i \<Longrightarrow> int_text i \<noteq> ''0''" using nat_text_hd [of "nat i"] assms(1) by (auto simp: int_text_nonneg)
qed

lemma indexOf_Some: "indexOf xs c = Some i \<Longrightarrow> c \<in> set xs"
  by (induction xs arbitrary: i) (auto split: if_splits)

lemma base58_chars: "base58_decode n s = Some m \<Longrightarrow> set s \<subseteq> set BASE58_ALPHABET"
  by (induction s arbitrary: n) (auto dest: indexOf_Some split: option.splits)

lemma solana_signature_no_colon: "isCanonicalSolanaSignature s \<Longrightarrow> CHR '':'' \<notin> set s"
proof
  assume "isCanonicalSolanaSignature s" and c: "CHR '':'' \<in> set s"
  then obtain m where "base58_decode 0 s = Some m" by (auto simp: isCanonicalSolanaSignature_def split: if_splits option.splits)
  then have "CHR '':'' \<in> set BASE58_ALPHABET" using base58_chars c by blast
  moreover have "CHR '':'' \<notin> set BASE58_ALPHABET" by code_simp
  ultimately show False by simp
qed

lemma hash_no_colon: "is_hash h \<Longrightarrow> CHR '':'' \<notin> set h"
  by (auto simp: is_hash_def list_all_iff is_hex_lower_def is_digit_def)

lemma hex_lower_toLower: "is_hex c \<Longrightarrow> is_hex_lower (toLower c)"
  by (auto simp: is_hex_def is_hex_lower_def is_hex_upper_def toLower_def is_digit_def is_upper_def)

lemma hex_key_hash: "hex_key s = Some h \<Longrightarrow> is_hash h"
  by (auto simp: hex_key_def is_hash_def list_all_iff hex_lower_toLower split: if_splits)

lemma canonicalEvmHash_hash: "canonicalEvmHash v = Some h \<Longrightarrow> is_hash h"
  by (auto simp: canonicalEvmHash_def hex_key_hash split: json.splits)

definition valid_envelope :: "envelope \<Rightarrow> bool" where
  "valid_envelope env =
     (case env of
        Evm_Envelope chainId txHash \<Rightarrow> 0 < chainId \<and> isSafeInteger chainId \<and> is_hash txHash
      | Solana_Envelope cluster signature \<Rightarrow> cluster \<in> set CLUSTERS \<and> isCanonicalSolanaSignature signature)"

lemma cluster_text: "cluster \<in> set CLUSTERS \<Longrightarrow> CHR '':'' \<notin> set cluster \<and> length cluster \<le> 7"
  by (auto simp: CLUSTERS_def)

lemma envelope_parts:
  assumes "valid_envelope env" "0 \<le> i" "isSafeInteger i"
  shows "splitOn (CHR '':'') (envelope_identity env i) =
    (case env of Evm_Envelope c h \<Rightarrow> [''evm'', int_text c, h, int_text i] | Solana_Envelope c g \<Rightarrow> [''solana'', c, g, int_text i])"
proof (cases env)
  case (Evm_Envelope c h)
  have "splitOn (CHR '':'') (''evm'' @ CHR '':'' # int_text c @ CHR '':'' # h @ CHR '':'' # int_text i) = [''evm'', int_text c, h, int_text i]"
    using assms Evm_Envelope
    by (subst splitOn_append, simp)+ (simp_all add: splitOn_append splitOn_last safe_numeral_text hash_no_colon valid_envelope_def)
  then show ?thesis using Evm_Envelope by (simp add: envelope_identity_def)
next
  case (Solana_Envelope c g)
  have "splitOn (CHR '':'') (''solana'' @ CHR '':'' # c @ CHR '':'' # g @ CHR '':'' # int_text i) = [''solana'', c, g, int_text i]"
    using assms Solana_Envelope cluster_text [of c] solana_signature_no_colon [of g]
    by (subst splitOn_append, simp)+ (simp_all add: splitOn_append splitOn_last safe_numeral_text valid_envelope_def)
  then show ?thesis using Solana_Envelope by (simp add: envelope_identity_def)
qed

lemma envelope_identity_canonical:
  assumes "valid_envelope env" "0 \<le> i" "isSafeInteger i"
  shows "isCanonicalSettlementIdentity (envelope_identity env i)"
proof (cases env)
  case (Evm_Envelope c h)
  then have "length (envelope_identity env i) \<le> 128"
    using assms safe_numeral_text(3) [of c] safe_numeral_text(3) [of i]
    by (simp add: envelope_identity_def valid_envelope_def is_hash_def)
  then show ?thesis using envelope_parts [OF assms] assms Evm_Envelope safe_numeral_text [of c]
    by (simp add: isCanonicalSettlementIdentity_def valid_envelope_def safe_numeral_text)
next
  case (Solana_Envelope c g)
  then have "length (envelope_identity env i) \<le> 128"
    using assms cluster_text [of c] safe_numeral_text(3) [of i]
    by (auto simp: envelope_identity_def valid_envelope_def isCanonicalSolanaSignature_def split: if_splits)
  then show ?thesis using envelope_parts [OF assms] assms Solana_Envelope
    by (simp add: isCanonicalSettlementIdentity_def valid_envelope_def safe_numeral_text)
qed

lemma envelope_identity_injective:
  assumes "valid_envelope env" "0 \<le> i" "isSafeInteger i" "valid_envelope env'" "0 \<le> i'" "isSafeInteger i'"
    and "envelope_identity env i = envelope_identity env' i'"
  shows "env = env' \<and> i = i'"
proof -
  have "(case env of Evm_Envelope c h \<Rightarrow> [''evm'', int_text c, h, int_text i] | Solana_Envelope c g \<Rightarrow> [''solana'', c, g, int_text i]) =
        (case env' of Evm_Envelope c h \<Rightarrow> [''evm'', int_text c, h, int_text i'] | Solana_Envelope c g \<Rightarrow> [''solana'', c, g, int_text i'])"
    using envelope_parts [OF assms(1-3)] envelope_parts [OF assms(4-6)] assms(7) by metis
  then show ?thesis using assms(1-6) by (cases env; cases env') (simp_all add: int_text_inject valid_envelope_def)
qed

text \<open>The coordinates of an authenticated event, and the identity projected from them.\<close>

definition event_coordinates :: "(string \<times> json) list \<Rightarrow> envelope \<times> int" where
  "event_coordinates e =
     (if member_of e ''ledger'' = JStr ''evm''
      then Evm_Envelope (int_member e ''chainId'') (the (canonicalEvmHash (member_of e ''txHash'')))
      else Solana_Envelope (str_member e ''cluster'') (str_member e ''signature''), eventIndex e)"

definition event_identity :: "(string \<times> json) list \<Rightarrow> string" where
  "event_identity e = envelope_identity (fst (event_coordinates e)) (snd (event_coordinates e))"

lemma safe_int_member:
  "isPositiveSafeInt (member_of e k) \<Longrightarrow> 0 < int_member e k \<and> isSafeInteger (int_member e k) \<and> member_of e k = JNum (JInt (int_member e k))"
  "isNonNegativeSafeInt (member_of e k) \<Longrightarrow> 0 \<le> int_member e k \<and> isSafeInteger (int_member e k) \<and> member_of e k = JNum (JInt (int_member e k))"
  by (auto simp: int_member_def elim!: isPositiveSafeInt.elims isNonNegativeSafeInt.elims)

lemma str_where_member: "str_where P (member_of e k) \<Longrightarrow> P (str_member e k) \<and> member_of e k = JStr (str_member e k)"
  by (auto simp: str_where_def str_member_def split: json.splits)

lemma event_coordinates_valid:
  assumes "isAuthenticatedLedgerEvent (JObj e)"
  shows "valid_envelope (fst (event_coordinates e)) \<and> 0 \<le> snd (event_coordinates e) \<and> isSafeInteger (snd (event_coordinates e))"
proof (cases "member_of e ''ledger'' = JStr ''evm''")
  case True
  then show ?thesis
    using assms safe_int_member(1) [of e "''chainId''"] safe_int_member(2) [of e "''logIndex''"]
    by (auto simp: isAuthenticatedLedgerEvent_def obj_where_def event_coordinates_def eventIndex_def valid_envelope_def
        dest: canonicalEvmHash_hash)
next
  case False
  then show ?thesis
    using assms safe_int_member(2) [of e "''instructionIndex''"] str_where_member [of isCanonicalSolanaSignature e "''signature''"]
      str_where_member [of "\<lambda>s. s \<in> set CLUSTERS" e "''cluster''"]
    by (auto simp: isAuthenticatedLedgerEvent_def obj_where_def event_coordinates_def eventIndex_def valid_envelope_def isOneOf_def
        split: if_splits)
qed

text \<open>
  Every authenticated ledger event has a canonical identity, within the length limit of 128, and two
  events with the same identity have the same ledger, transaction and index.
\<close>

theorem event_identity_canonical_injective:
  assumes "isAuthenticatedLedgerEvent (JObj e)" "isAuthenticatedLedgerEvent (JObj e')"
  shows "isCanonicalSettlementIdentity (event_identity e) \<and>
    (event_identity e = event_identity e' \<longrightarrow> event_coordinates e = event_coordinates e')"
  using envelope_identity_canonical envelope_identity_injective event_coordinates_valid [OF assms(1)]
    event_coordinates_valid [OF assms(2)]
  by (metis event_identity_def prod.collapse)

definition sample_event :: "int \<Rightarrow> (string \<times> json) list" where
  "sample_event i =
     [(''ledger'', JStr ''evm''), (''chainId'', JNum (JInt 1)), (''txHash'', JStr (replicate 64 CHR ''a'')),
      (''logIndex'', JNum (JInt i)), (''standard'', JStr ''erc20''), (''asset'', JStr ''usdc''), (''payer'', JStr ''p''),
      (''payee'', JStr ''q''), (''amount'', JStr ''5'')]"

theorem event_identity_canonical_injective_witness:
  "isCanonicalSettlementIdentity (event_identity (sample_event 0)) \<and> event_identity (sample_event 0) \<noteq> event_identity (sample_event 1)"
proof -
  have e: "isAuthenticatedLedgerEvent (JObj (sample_event 0))" "isAuthenticatedLedgerEvent (JObj (sample_event 1))" by code_simp+
  have "event_coordinates (sample_event 0) \<noteq> event_coordinates (sample_event 1)"
    by (simp add: event_coordinates_def eventIndex_def sample_event_def int_member_def member_of_def)
  then show ?thesis using event_identity_canonical_injective [OF e] by blast
qed

section \<open>Payment anchors\<close>

text \<open>
  The payment evidence address written by \<open>paymentEvidenceAddress\<close>, resolved or not, is read back by
  \<open>parsePaymentAnchor\<close> as the job, the rail and the phase it was made for.
\<close>

theorem payment_anchor_roundtrip:
  assumes "paymentEvidenceAddress jobId railId phaseIndex resolved = Inr a"
  shows "parsePaymentAnchor a = Some (jobId, railId, phaseIndex)"
proof -
  let ?t = "int_text phaseIndex" let ?r = "encodeAddressSegment railId"
  from assms have a: "a = ''dacs4'' @ CHR '':'' # ''payment'' @ CHR '':'' # jobId @ CHR '':'' # ?r @ CHR '':'' # ?t @
      (if resolved then CHR '':'' # ''resolved'' else [])"
    and job: "structural_segment jobId" and rail: "variable_segment railId" and ph: "isSafeInteger phaseIndex" "0 \<le> phaseIndex"
    by (auto simp: address_defs res_simps)
  have "splitOn (CHR '':'') a = [''dacs4'', ''payment'', jobId, ?r, ?t] @ (if resolved then [''resolved''] else [])"
    using structural_no_colon [OF job] encode_no_colon [of railId] int_text_no_colon [OF ph(2)]
    unfolding a by (cases resolved) (simp_all add: splitOn_append splitOn_last)
  moreover have "?r \<noteq> []" using rail by (cases railId) (auto simp: variable_segment_def encode_Cons ENCODE_def)
  moreover have "jobId \<noteq> []" using job by (simp add: structural_segment_def)
  moreover have "is_canonical_nat ?t" "int (digits_val ?t) = phaseIndex" using ph by (simp_all add: int_text_nonneg)
  ultimately show ?thesis using ph by (simp add: parsePaymentAnchor_def Let_def decode_encode)
qed

theorem payment_anchor_roundtrip_witness:
  "parsePaymentAnchor ''dacs4:payment:01ARZ3NDEKTSV4RRFFQ69G5FAV:x402%3Av2:0:resolved'' =
     Some (''01ARZ3NDEKTSV4RRFFQ69G5FAV'', ''x402:v2'', 0)"
proof -
  have "paymentEvidenceAddress ''01ARZ3NDEKTSV4RRFFQ69G5FAV'' ''x402:v2'' 0 True =
    Inr ''dacs4:payment:01ARZ3NDEKTSV4RRFFQ69G5FAV:x402%3Av2:0:resolved''" by code_simp
  from payment_anchor_roundtrip [OF this] show ?thesis .
qed

section \<open>A resolved identity is an authenticated settlement\<close>

lemma canonical_hash_member_hash: "canonical_hash_member r k \<Longrightarrow> is_hash (str_member r k)"
  by (auto simp: canonical_hash_member_def str_member_def canonicalEvmHash_hash split: option.splits)

text \<open>The events of a captured context are authenticated, and the matching event carries the envelope's coordinates.\<close>

lemma ledger_events_authenticated:
  assumes "isSettlementIdentityContext (JObj context)" "ledger_events context = Some events" "e \<in> set events"
  shows "isAuthenticatedLedgerEvent (JObj e)"
proof -
  obtain es where es: "member_of context ''ledgerEvents'' = JArr es" "events = objects_of (JArr es)"
    using assms(2) by (auto simp: ledger_events_def split: json.splits)
  then have "list_all isAuthenticatedLedgerEvent es"
    using assms(1) by (simp add: isSettlementIdentityContext_def obj_where_def absent_or_def arr_where_def)
  then show ?thesis using assms(3) es(2) by (auto simp: list_all_iff split: json.splits)
qed

lemma in_envelope_coordinates: "inEnvelope env e \<Longrightarrow> event_coordinates e = (env, eventIndex e)"
  by (auto simp: inEnvelope_def event_coordinates_def int_member_def str_member_def split: envelope.splits)

lemma select_index_Inr:
  assumes "select_index context evidence parsed es = Inr index"
  shows "\<exists>e\<in>set es. eventIndex e = index \<and> semanticMatch context evidence e \<and>
    (case signed_index parsed of
       Some i \<Rightarrow> i = index \<and> filter (\<lambda>e. eventIndex e = index) es = [e]
     | None \<Rightarrow> filter (semanticMatch context evidence) es = [e])"
proof (cases "signed_index parsed")
  case None
  with assms obtain e where f: "filter (semanticMatch context evidence) es = [e]" "eventIndex e = index"
    by (auto simp: select_index_def split: list.splits if_splits)
  then have "e \<in> set (filter (semanticMatch context evidence) es)" by simp
  then have "e \<in> set es \<and> semanticMatch context evidence e" by simp
  then show ?thesis using f None by auto
next
  case (Some i)
  with assms obtain e where f: "filter (\<lambda>e. eventIndex e = i) es = [e]" "semanticMatch context evidence e" "i = index"
    by (auto simp: select_index_def split: list.splits if_splits)
  then have "e \<in> set (filter (\<lambda>e. eventIndex e = i) es)" by simp
  then have "e \<in> set es \<and> eventIndex e = i" by simp
  then show ?thesis using f Some by auto
qed

lemma claim_event_Pass:
  assumes "claim_identity_event context evidence sid rp = Identity_Pass sid' rp'"
  shows "sid' = sid \<and> rp' = rp \<and> isCanonicalSettlementIdentity sid \<and>
    (\<exists>claims. member_of context ''priorClaims'' = JObj claims \<and>
      (\<forall>previous. member_of claims sid = JObj previous \<longrightarrow>
         strictEq (member_of previous ''jobId'') (member_of evidence ''jobId'') \<and>
         strictEq (member_of previous ''phaseIndex'') (member_of context ''phaseIndex'')))"
  using assms by (auto simp: claim_identity_event_def split: if_splits json.splits)

lemma resolve_event_Pass:
  assumes "resolve_event context evidence parsed = Identity_Pass sid rp"
  obtains jobId railId phaseIndex events env index where
    "parsePaymentAnchor (str_member context ''anchorAddress'') = Some (jobId, railId, phaseIndex)"
    "member_of evidence ''jobId'' = JStr jobId" "member_of context ''railId'' = JStr railId"
    "member_of context ''phaseIndex'' = JNum (JInt phaseIndex)" "ledger_events context = Some events"
    "select_index context evidence parsed (filter (inEnvelope env) events) = Inr index"
    "claim_identity_event context evidence (envelope_identity env index)
       (if signed_index parsed = None then Replay_Legacy else Replay_Current) = Identity_Pass sid rp"
  using assms unfolding resolve_event_def
  by (auto split: option.splits prod.splits if_splits sum.splits)

lemma resolve_Pass:
  assumes "resolveSettlementEventIdentity sha256Hex deps ev ctx = Identity_Pass sid rp"
  obtains evidence cx parsed ref where "ev = JObj evidence" "ctx = JObj cx"
    "isSettlementEvidence ev" "isSettlementIdentityContext ctx" "authenticateEvidence sha256Hex deps evidence = Authentic"
    "member_of evidence ''paymentTxRefs'' = JArr [ref]" "parseSettlementRef ref = Some parsed"
    "resolve_event cx evidence parsed = Identity_Pass sid rp"
proof -
  from assms obtain evidence cx where e: "ev = JObj evidence" "ctx = JObj cx" "isSettlementEvidence ev"
    "isSettlementIdentityContext ctx" "resolveCapturedSettlementEventIdentity sha256Hex deps evidence cx = Identity_Pass sid rp"
    by (auto simp: resolveSettlementEventIdentity_def split: if_splits json.splits)
  from e(5) have a: "authenticateEvidence sha256Hex deps evidence = Authentic"
    by (auto simp: resolveCapturedSettlementEventIdentity_def split: authenticity.splits)
  with e(5) obtain ref parsed where "member_of evidence ''paymentTxRefs'' = JArr [ref]" "parseSettlementRef ref = Some parsed"
    "resolve_event cx evidence parsed = Identity_Pass sid rp"
    by (auto simp: resolveCapturedSettlementEventIdentity_def split: if_splits json.splits list.splits option.splits)
  then show thesis using that e a by blast
qed

lemma authenticated_in_envelope:
  assumes "isAuthenticatedLedgerEvent (JObj e)"
  shows "inEnvelope env e \<longleftrightarrow> fst (event_coordinates e) = env"
proof
  show "inEnvelope env e \<Longrightarrow> fst (event_coordinates e) = env" using in_envelope_coordinates by simp
  assume "fst (event_coordinates e) = env"
  then show "inEnvelope env e"
    using assms safe_int_member(1) [of e "''chainId''"] str_where_member [of isCanonicalSolanaSignature e "''signature''"]
      str_where_member [of "\<lambda>s. s \<in> set CLUSTERS" e "''cluster''"]
    by (auto simp: isAuthenticatedLedgerEvent_def obj_where_def event_coordinates_def inEnvelope_def isOneOf_def split: if_splits)
qed

definition same_transaction :: "(string \<times> json) list \<Rightarrow> (string \<times> json) list \<Rightarrow> bool" where
  "same_transaction e e' \<longleftrightarrow> fst (event_coordinates e) = fst (event_coordinates e')"

definition not_claimed_elsewhere :: "(string \<times> json) list \<Rightarrow> (string \<times> json) list \<Rightarrow> string \<Rightarrow> bool" where
  "not_claimed_elsewhere cx evidence sid \<longleftrightarrow>
     (\<exists>claims. member_of cx ''priorClaims'' = JObj claims \<and>
       (\<forall>previous. member_of claims sid = JObj previous \<longrightarrow>
          strictEq (member_of previous ''jobId'') (member_of evidence ''jobId'') \<and>
          strictEq (member_of previous ''phaseIndex'') (member_of cx ''phaseIndex'')))"

text \<open>
  Property C18. A settlement identity that resolves is the identity of an authenticated ledger event with the asset,
  payer, payee and amount of the agreed payment. The evidence was authenticated and its anchor names
  the job, rail and phase of the context; the identity is canonical and not claimed by another job
  or phase. A legacy reference resolves only when exactly one event of its transaction matches.
\<close>

theorem resolved_identity_is_authenticated_settlement:
  assumes "resolveSettlementEventIdentity sha256Hex deps (JObj evidence) (JObj cx) = Identity_Pass sid rp"
  shows "authenticateEvidence sha256Hex deps evidence = Authentic \<and> isCanonicalSettlementIdentity sid \<and>
    (\<exists>events e. ledger_events cx = Some events \<and> e \<in> set events \<and> isAuthenticatedLedgerEvent (JObj e) \<and>
      sid = event_identity e \<and> semanticMatch cx evidence e \<and>
      (rp = Replay_Legacy \<longrightarrow> filter (\<lambda>e'. same_transaction e e' \<and> semanticMatch cx evidence e') events = [e])) \<and>
    (\<exists>jobId railId phaseIndex. parsePaymentAnchor (str_member cx ''anchorAddress'') = Some (jobId, railId, phaseIndex) \<and>
      member_of evidence ''jobId'' = JStr jobId \<and> member_of cx ''railId'' = JStr railId \<and>
      member_of cx ''phaseIndex'' = JNum (JInt phaseIndex)) \<and>
    not_claimed_elsewhere cx evidence sid"
proof -
  from assms obtain parsed where auth: "authenticateEvidence sha256Hex deps evidence = Authentic"
    and ctx: "isSettlementIdentityContext (JObj cx)" and pass: "resolve_event cx evidence parsed = Identity_Pass sid rp"
    by (rule resolve_Pass) auto
  from pass obtain jobId railId phaseIndex events env index where
    anchor: "parsePaymentAnchor (str_member cx ''anchorAddress'') = Some (jobId, railId, phaseIndex)"
      "member_of evidence ''jobId'' = JStr jobId" "member_of cx ''railId'' = JStr railId"
      "member_of cx ''phaseIndex'' = JNum (JInt phaseIndex)"
    and events: "ledger_events cx = Some events"
    and sel: "select_index cx evidence parsed (filter (inEnvelope env) events) = Inr index"
    and claim: "claim_identity_event cx evidence (envelope_identity env index)
       (if signed_index parsed = None then Replay_Legacy else Replay_Current) = Identity_Pass sid rp"
    by (rule resolve_event_Pass)
  obtain e where e: "e \<in> set events" "inEnvelope env e" "eventIndex e = index" "semanticMatch cx evidence e"
    and legacy: "signed_index parsed = None \<Longrightarrow> filter (semanticMatch cx evidence) (filter (inEnvelope env) events) = [e]"
    using select_index_Inr [OF sel] by (auto split: option.splits)
  have authd: "isAuthenticatedLedgerEvent (JObj e')" if "e' \<in> set events" for e'
    using ledger_events_authenticated [OF ctx events that] .
  have coords: "event_coordinates e = (env, index)" using in_envelope_coordinates [OF e(2)] e(3) by simp
  have "filter (\<lambda>e'. same_transaction e e' \<and> semanticMatch cx evidence e') events = [e]" if "rp = Replay_Legacy"
  proof -
    have "filter (\<lambda>e'. same_transaction e e' \<and> semanticMatch cx evidence e') events =
          filter (\<lambda>e'. inEnvelope env e' \<and> semanticMatch cx evidence e') events"
      using authd coords by (intro filter_cong) (auto simp: same_transaction_def authenticated_in_envelope)
    moreover have "signed_index parsed = None" using claim_event_Pass [OF claim] that by (auto split: if_splits)
    ultimately show ?thesis using legacy by (simp add: conj_commute)
  qed
  moreover have "sid = event_identity e" using claim_event_Pass [OF claim] coords by (simp add: event_identity_def)
  moreover have "isCanonicalSettlementIdentity sid" "not_claimed_elsewhere cx evidence sid"
    using claim_event_Pass [OF claim] by (auto simp: not_claimed_elsewhere_def)
  ultimately show ?thesis using auth events e authd anchor by blast
qed

definition sample_evidence :: "(string \<times> json) list" where
  "sample_evidence =
     [(''evidenceVersion'', JStr ''1''), (''jobId'', JStr ''01ARZ3NDEKTSV4RRFFQ69G5FAV''), (''outcome'', JStr ''success''),
      (''observedAt'', JNum (JInt 1)), (''phase'', JStr ''pay-evm-erc20''),
      (''paymentTxRefs'', JArr [JObj [(''kind'', JStr ''evm''), (''chainId'', JNum (JInt 1)), (''txHash'', JStr (replicate 64 CHR ''A''))]]),
      (''paymentAmount'', JObj [(''amount'', JStr ''5''), (''currency'', JStr ''USDC'')]),
      (''settlementFinality'', JObj [(''model'', JStr ''bft-final''), (''finalityObservedAt'', JNum (JInt 1))]),
      (''signature'', JObj [(''algorithm'', JStr ''ed25519''), (''signer'', JStr ''did:a''), (''value'', JStr ''AAAA'')])]"

definition sample_context :: "(string \<times> json) list" where
  "sample_context =
     [(''anchorAddress'', JStr ''dacs4:payment:01ARZ3NDEKTSV4RRFFQ69G5FAV:evm:0''), (''phaseIndex'', JNum (JInt 0)),
      (''railId'', JStr ''evm''), (''asset'', JStr ''usdc''), (''payer'', JStr ''p''), (''payee'', JStr ''q''),
      (''amount'', JObj [(''amount'', JStr ''5''), (''currency'', JStr ''USDC'')]),
      (''ledgerEvents'', JArr [JObj (sample_event 7)]), (''priorClaims'', JObj [])]"

definition sample_deps :: identity_deps where
  "sample_deps = \<lparr>id_resolvePublicKey = \<lambda>signer. Inr (Some (replicate 32 CHR ''k'')), id_verify = \<lambda>m sig key. Inr True\<rparr>"

theorem resolved_identity_is_authenticated_settlement_witness:
  "\<exists>e. isAuthenticatedLedgerEvent (JObj e) \<and> ''evm:1:'' @ replicate 64 CHR ''a'' @ '':7'' = event_identity e \<and>
     semanticMatch sample_context sample_evidence e"
proof -
  have "resolveSettlementEventIdentity (\<lambda>t. replicate 64 CHR ''0'') sample_deps (JObj sample_evidence) (JObj sample_context) =
    Identity_Pass (''evm:1:'' @ replicate 64 CHR ''a'' @ '':7'') Replay_Legacy"
    by code_simp
  from resolved_identity_is_authenticated_settlement [OF this] show ?thesis by blast
qed

end
