(* ===== verification/Dacs_Fenced_Types.thy ===== *)
theory Dacs_Fenced_Types
  imports Dacs_Settlement_Identity
begin

text \<open>
  The generation-fenced session store, part one (\<^verbatim>\<open>src/src/agent/fencedSessionStore.ts\<close>): the records
  of the store, the lifecycle phases of sellers, buyers and terminal bundles, the check every record
  passes before it is stored, and the rules that guard a change of phase.

  A record has its declared type, so the checks of prototypes, accessors and unknown keys hold;
  timestamps are integers, since the store only admits safe integers for its clock and its lease ends.
\<close>

section \<open>Phases\<close>

definition TERMINAL_BUNDLE_STAGE_RANK :: "(string \<times> nat) list" where
  "TERMINAL_BUNDLE_STAGE_RANK =
     [(''authority'', 0), (''proposal-publication-pending'', 1), (''contribution-signing'', 2),
      (''contribution-publication-pending'', 3), (''matrix-review'', 4), (''bundle-anchor-pending'', 5),
      (''bundle-binding-signing'', 6), (''bundle-binding-publication-pending'', 7), (''finalised'', 8)]"

definition terminalBundleStorePhase :: "string \<Rightarrow> string \<Rightarrow> string" where
  "terminalBundleStorePhase role stage = ''terminal:'' @ role @ CHR '':'' # stage"

record terminal_progress =
  tp_role :: string
  tp_stage :: string
  tp_rank :: nat
  tp_final :: bool

definition terminalBundlePhaseProgress :: "string \<Rightarrow> terminal_progress option" where
  "terminalBundlePhaseProgress phase =
     (case splitOn (CHR '':'') phase of
        [t, role, stage] \<Rightarrow>
          if t = ''terminal'' \<and> role \<in> {''buyer'', ''seller'', ''orchestrator''}
          then map_option (\<lambda>rank. \<lparr>tp_role = role, tp_stage = stage, tp_rank = rank, tp_final = (stage = ''finalised'')\<rparr>)
                 (map_of TERMINAL_BUNDLE_STAGE_RANK stage)
          else None
      | _ \<Rightarrow> None)"

definition is_final_terminal :: "string \<Rightarrow> bool" where
  "is_final_terminal phase = (case terminalBundlePhaseProgress phase of None \<Rightarrow> False | Some p \<Rightarrow> tp_final p)"

definition sessionPhaseIsTerminal :: "string \<Rightarrow> bool" where
  "sessionPhaseIsTerminal phase \<longleftrightarrow>
     phase = ''seller:completed'' \<or> phase = ''seller:rejected'' \<or> phase = ''seller:finalised'' \<or>
     phase = ''buyer:finalised'' \<or> is_final_terminal phase"

definition sellerBundlePhaseRank :: "string \<Rightarrow> nat option" where
  "sellerBundlePhaseRank phase =
     map_of [(''seller:bundle-signing'', 0), (''seller:bundle-anchor-pending'', 1), (''seller:bundle-binding-signing'', 2),
             (''seller:bundle-binding-publication-pending'', 3)] phase"

definition buyerBundlePhaseRank :: "string \<Rightarrow> nat option" where
  "buyerBundlePhaseRank phase =
     map_of [(''buyer:bundle-review'', 0), (''buyer:counter-signing'', 1), (''buyer:counter-signature-publication-pending'', 2),
             (''buyer:awaiting-seller-finalisation'', 3), (''buyer:bundle-anchor-pending'', 4),
             (''buyer:bundle-binding-signing'', 5), (''buyer:bundle-binding-publication-pending'', 6)] phase"

datatype delivery_outcome = Delivery_Completed | Delivery_Failed | Delivery_Rejected

record delivery_progress =
  dp_index :: int
  dp_rank :: nat
  dp_terminal :: bool
  dp_outcome :: "delivery_outcome option"

text \<open>The alternatives of \<^verbatim>\<open>SELLER_DELIVERY_PHASE_RE\<close> with their rank and outcome.\<close>

definition DELIVERY_STEPS :: "(string \<times> nat \<times> delivery_outcome option) list" where
  "DELIVERY_STEPS =
     [(''validation-pending'', 0, None), (''delivery-pending'', 1, None), (''delivery-recovery'', 2, None),
      (''evidence-pending'', 3, None), (''evidence-recovery'', 4, None),
      (''delivery-completed'', 5, Some Delivery_Completed), (''delivery-failed'', 5, Some Delivery_Failed),
      (''delivery-rejected'', 5, Some Delivery_Rejected)]"

definition sellerDeliveryPhaseProgress :: "string \<Rightarrow> delivery_progress option" where
  "sellerDeliveryPhaseProgress phase =
     (case splitOn (CHR '':'') phase of
        [s, step, index] \<Rightarrow>
          if s = ''seller'' \<and> is_canonical_nat index \<and> isSafeInteger (int (digits_val index))
          then map_option (\<lambda>(rank, out). \<lparr>dp_index = int (digits_val index), dp_rank = rank, dp_terminal = (out \<noteq> None), dp_outcome = out\<rparr>)
                 (map_of DELIVERY_STEPS step)
          else None
      | _ \<Rightarrow> None)"

definition sessionPhaseIsSellerFailureOrigin :: "string \<Rightarrow> bool" where
  "sessionPhaseIsSellerFailureOrigin phase \<longleftrightarrow>
     phase = ''seller:failed'' \<or>
     (case sellerDeliveryPhaseProgress phase of
        None \<Rightarrow> False
      | Some p \<Rightarrow> dp_terminal p \<and> dp_outcome p \<noteq> Some Delivery_Completed)"

section \<open>Records\<close>

datatype receipt_kind = Agreement_Receipt | Settlement_Receipt | Delivery_Receipt | Fulfilment_Receipt | Bundle_Receipt

fun receipt_kind_name :: "receipt_kind \<Rightarrow> string" where
  "receipt_kind_name Agreement_Receipt = ''agreement''"
| "receipt_kind_name Settlement_Receipt = ''settlement''"
| "receipt_kind_name Delivery_Receipt = ''delivery''"
| "receipt_kind_name Fulfilment_Receipt = ''fulfilment''"
| "receipt_kind_name Bundle_Receipt = ''bundle''"

record session_receipt =
  rc_kind :: receipt_kind
  rc_ref :: string
  rc_phaseIndex :: "int option"
  rc_recordedAt :: "int option"

definition sessionReceiptKey :: "session_receipt \<Rightarrow> string" where
  "sessionReceiptKey r =
     receipt_kind_name (rc_kind r) @ (case rc_phaseIndex r of None \<Rightarrow> [] | Some i \<Rightarrow> CHR '':'' # int_text i)"

datatype checkpoint_value = CV_String string | CV_Number jsnumber | CV_Boolean bool

datatype checkpoint_stage = Intent | Outcome

record session_checkpoint =
  ck_key :: string
  ck_stage :: checkpoint_stage
  ck_data :: "(string \<times> checkpoint_value) list option"

record session_token =
  st_owner :: string
  st_generation :: int

record session_lease =
  sl_owner :: string
  sl_generation :: int
  sl_expiresAt :: int
  sl_sellerPhaseIndex :: "int option"

record payment_binding =
  pb_authorizationHash :: string
  pb_fulfilmentId :: string
  pb_handoffBindingHash :: string
  pb_agreementHash :: string
  pb_paymentEvidenceHash :: string
  pb_settlementId :: string
  pb_paymentPhaseIndex :: int
  pb_deliveryPhaseIndex :: int

definition FENCED_SESSION_STORE_VERSION :: int where
  "FENCED_SESSION_STORE_VERSION = 2"

record session_record =
  sr_storeVersion :: int
  sr_jobId :: string
  sr_agreementHash :: "string option"
  sr_paymentAuthorizations :: "payment_binding list"
  sr_phase :: string
  sr_revision :: int
  sr_leaseGeneration :: int
  sr_lease :: "session_lease option"
  sr_checkpoints :: "session_checkpoint list"
  sr_receipts :: "session_receipt list"
  sr_createdAt :: int
  sr_updatedAt :: int

section \<open>Shape violations\<close>

text \<open>\<open>violation c m k\<close> is \<^verbatim>\<open>if (!c) return m\<close> followed by \<open>k\<close>.\<close>

definition violation :: "bool \<Rightarrow> string \<Rightarrow> string option \<Rightarrow> string option" where
  "violation c m k = (if c then k else Some m)"

lemma violation_None [simp]: "violation c m k = None \<longleftrightarrow> c \<and> k = None"
  by (simp add: violation_def)

definition isNonNegativeInteger :: "int \<Rightarrow> bool" where
  "isNonNegativeInteger n \<longleftrightarrow> isSafeInteger n \<and> 0 \<le> n"

fun finite_value :: "checkpoint_value \<Rightarrow> bool" where
  "finite_value (CV_Number n) = (n \<noteq> JNonFinite)"
| "finite_value _ = True"

definition checkpointShapeViolation :: "session_checkpoint \<Rightarrow> string option" where
  "checkpointShapeViolation c =
     violation (isNonEmptyString (ck_key c)) ''checkpoint.key must be a non-empty string''
     (violation (case ck_data c of None \<Rightarrow> True | Some d \<Rightarrow> list_all (\<lambda>kv. finite_value (snd kv)) d)
        ''checkpoint.data must be a string, boolean, or finite number'' None)"

definition receiptShapeViolation :: "session_receipt \<Rightarrow> string option" where
  "receiptShapeViolation r =
     violation (isNonEmptyString (rc_ref r)) ''receipt.ref must be a non-empty string''
     (violation (case rc_phaseIndex r of None \<Rightarrow> True | Some i \<Rightarrow> isNonNegativeInteger i)
        ''receipt.phaseIndex must be a non-negative safe integer'' None)"

definition paymentBindingShapeViolation :: "payment_binding \<Rightarrow> string option" where
  "paymentBindingShapeViolation b =
     violation (list_all is_hash [pb_authorizationHash b, pb_fulfilmentId b, pb_handoffBindingHash b, pb_agreementHash b, pb_paymentEvidenceHash b])
       ''paymentAuthorization must be an exact lower-case sha256 hash''
     (violation (isCanonicalSettlementIdentity (pb_settlementId b))
       ''paymentAuthorization.settlementId must be a canonical SB-1 settlement identity''
     (violation (isNonNegativeInteger (pb_paymentPhaseIndex b))
       ''paymentAuthorization.paymentPhaseIndex must be a non-negative safe integer''
     (violation (isNonNegativeInteger (pb_deliveryPhaseIndex b))
       ''paymentAuthorization.deliveryPhaseIndex must be a non-negative safe integer'' None)))"

text \<open>The loop over the payment authorisations; \<open>seen\<close> are the ones already visited.\<close>

fun authorizationsViolation :: "string option \<Rightarrow> payment_binding list \<Rightarrow> payment_binding list \<Rightarrow> string option" where
  "authorizationsViolation agreementHash seen [] = None"
| "authorizationsViolation agreementHash seen (a # as) =
     (case paymentBindingShapeViolation a of
        Some m \<Rightarrow> Some m
      | None \<Rightarrow>
          violation (agreementHash = Some (pb_agreementHash a)) ''agreementHash must equal record agreementHash''
          (violation (pb_paymentPhaseIndex a \<notin> pb_paymentPhaseIndex ` set seen) ''duplicates payment phase''
          (violation (pb_deliveryPhaseIndex a \<notin> pb_deliveryPhaseIndex ` set seen) ''duplicates delivery phase''
          (violation (pb_settlementId a \<notin> pb_settlementId ` set seen) ''reuses settlement''
          (authorizationsViolation agreementHash (a # seen) as)))))"

definition reserved_phase_ok :: "string \<Rightarrow> bool" where
  "reserved_phase_ok phase \<longleftrightarrow>
     \<not> (startsWith phase ''seller:'' \<and> phase \<noteq> ''seller:failed'' \<and> \<not> sessionPhaseIsTerminal phase \<and>
        sellerDeliveryPhaseProgress phase = None \<and> sellerBundlePhaseRank phase = None) \<and>
     \<not> (startsWith phase ''buyer:'' \<and> \<not> sessionPhaseIsTerminal phase \<and> buyerBundlePhaseRank phase = None) \<and>
     \<not> (startsWith phase ''terminal:'' \<and> terminalBundlePhaseProgress phase = None)"

definition leaseViolation :: "string \<Rightarrow> int \<Rightarrow> session_lease \<Rightarrow> string option" where
  "leaseViolation phase leaseGeneration l =
     (let scope = sl_sellerPhaseIndex l; progress = sellerDeliveryPhaseProgress phase in
      violation (isNonEmptyString (sl_owner l)) ''lease.owner must be a non-empty string''
      (violation (isNonNegativeInteger (sl_generation l) \<and> sl_generation l \<noteq> 0) ''lease.generation must be a positive safe integer''
      (violation (sl_generation l = leaseGeneration) ''lease.generation must equal leaseGeneration''
      (violation (case scope of None \<Rightarrow> True | Some i \<Rightarrow> isNonNegativeInteger i) ''lease.sellerPhaseIndex must be a non-negative safe integer''
      (violation (\<not> sessionPhaseIsTerminal phase) ''a globally terminal session cannot retain a lease''
      (violation (sellerBundlePhaseRank phase = None \<or> scope = None) ''a seller bundle phase requires an unscoped lease''
      (violation (buyerBundlePhaseRank phase = None \<or> scope = None) ''a buyer bundle phase requires an unscoped lease''
      (violation (terminalBundlePhaseProgress phase = None \<or> scope = None) ''a terminal bundle phase requires an unscoped lease''
      (violation (case progress of Some p \<Rightarrow> dp_terminal p \<or> scope \<noteq> None | None \<Rightarrow> True)
         ''an active seller delivery phase requires a scoped lease''
      (violation (case (progress, scope) of
           (Some p, Some i) \<Rightarrow>
             (if dp_terminal p then dp_outcome p = Some Delivery_Completed \<and> dp_index p < i else i = dp_index p)
         | _ \<Rightarrow> True) ''lease.sellerPhaseIndex contradicts the persisted seller phase'' None))))))))))"

text \<open>\<^verbatim>\<open>[...checkpoints].reverse().find((item) => item.key === key)\<close>: the last checkpoint of a key.\<close>

definition last_checkpoint :: "session_checkpoint list \<Rightarrow> string \<Rightarrow> session_checkpoint option" where
  "last_checkpoint cs key = find (\<lambda>c. ck_key c = key) (rev cs)"

definition last_stage :: "session_checkpoint list \<Rightarrow> string \<Rightarrow> checkpoint_stage option" where
  "last_stage cs key = map_option ck_stage (last_checkpoint cs key)"

text \<open>The loop over the checkpoints; \<open>stages\<close> is the map it fills.\<close>

fun checkpointsViolation :: "(string \<rightharpoonup> checkpoint_stage) \<Rightarrow> session_checkpoint list \<Rightarrow> string option" where
  "checkpointsViolation stages [] = None"
| "checkpointsViolation stages (c # cs) =
     (case checkpointShapeViolation c of
        Some m \<Rightarrow> Some m
      | None \<Rightarrow>
          violation (ck_stage c = Intent \<longrightarrow> stages (ck_key c) = None) ''duplicate intent''
          (violation (ck_stage c = Outcome \<longrightarrow> stages (ck_key c) = Some Intent) ''outcome lacks one intent''
          (checkpointsViolation (stages(ck_key c \<mapsto> ck_stage c)) cs)))"

fun receiptsViolation :: "string list \<Rightarrow> session_receipt list \<Rightarrow> string option" where
  "receiptsViolation keys [] = None"
| "receiptsViolation keys (r # rs) =
     (case receiptShapeViolation r of
        Some m \<Rightarrow> Some m
      | None \<Rightarrow> violation (sessionReceiptKey r \<notin> set keys) ''duplicate or conflicting immutable receipt''
          (receiptsViolation (sessionReceiptKey r # keys) rs))"

definition result_key :: "string \<Rightarrow> string" where
  "result_key role = ''terminal:'' @ role @ '':result''"

definition terminalViolation :: "string \<Rightarrow> session_checkpoint list \<Rightarrow> session_receipt list \<Rightarrow> string option" where
  "terminalViolation phase checkpoints receipts =
     (case terminalBundlePhaseProgress phase of
        None \<Rightarrow> None
      | Some p \<Rightarrow>
          (let resultStage = last_stage checkpoints (result_key (tp_role p)) in
           if tp_final p then
             violation (resultStage = Some Outcome) ''a final terminal bundle phase requires its durable result outcome''
             (violation (''bundle'' \<in> sessionReceiptKey ` set receipts)
               ''a final terminal bundle phase requires its immutable bundle receipt'' None)
           else
             violation (Bundle_Receipt \<notin> rc_kind ` set receipts) ''a terminal bundle receipt cannot precede the atomic final seal''
             (violation (resultStage \<noteq> Some Outcome) ''a terminal bundle result outcome cannot precede the atomic final seal'' None)))"

definition orElse :: "string option \<Rightarrow> string option \<Rightarrow> string option" where
  "orElse v k = (case v of Some m \<Rightarrow> Some m | None \<Rightarrow> k)"

lemma orElse_None [simp]: "orElse v k = None \<longleftrightarrow> v = None \<and> k = None"
  by (simp add: orElse_def split: option.splits)

definition sessionRecordShapeViolation :: "session_record \<Rightarrow> string option" where
  "sessionRecordShapeViolation r =
     violation (sr_storeVersion r = FENCED_SESSION_STORE_VERSION) ''storeVersion does not match this reader''
     (violation (isNonEmptyString (sr_jobId r)) ''jobId missing or invalid''
     (violation (case sr_agreementHash r of None \<Rightarrow> True | Some h \<Rightarrow> isNonEmptyString h)
        ''agreementHash must be a non-empty string when present''
     (orElse (authorizationsViolation (sr_agreementHash r) [] (sr_paymentAuthorizations r))
     (violation (isNonEmptyString (sr_phase r)) ''phase missing or invalid''
     (violation (reserved_phase_ok (sr_phase r)) ''phase uses a malformed or unrecognized reserved lifecycle value''
     (violation (isNonNegativeInteger (sr_revision r)) ''revision must be a non-negative safe integer''
     (violation (isNonNegativeInteger (sr_leaseGeneration r)) ''leaseGeneration must be a non-negative safe integer''
     (orElse (case sr_lease r of None \<Rightarrow> None | Some l \<Rightarrow> leaseViolation (sr_phase r) (sr_leaseGeneration r) l)
     (orElse (checkpointsViolation (\<lambda>_. None) (sr_checkpoints r))
     (orElse (receiptsViolation [] (sr_receipts r))
     (terminalViolation (sr_phase r) (sr_checkpoints r) (sr_receipts r))))))))))))"

abbreviation well_formed :: "session_record \<Rightarrow> bool" where
  "well_formed r \<equiv> sessionRecordShapeViolation r = None"

section \<open>Guards of a mutation\<close>

datatype mutation_failure =
    Not_Found | Revision_Mismatch | Immutable_Receipt | Checkpoint_State | Lease_Held | Lease_Fenced | Lease_Expired
  | Phase_Regression | Terminal_State

text \<open>\<open>allowed\<close> and \<open>regression\<close>: the results \<^verbatim>\<open>null\<close> and \<^verbatim>\<open>"phase-regression"\<close> of the guards, as booleans.\<close>

definition lease_scope :: "session_record \<Rightarrow> int option" where
  "lease_scope r = (case sr_lease r of None \<Rightarrow> None | Some l \<Rightarrow> sl_sellerPhaseIndex l)"

definition reserved_next_ok :: "string option \<Rightarrow> bool" where
  "reserved_next_ok next = (case next of None \<Rightarrow> True | Some p \<Rightarrow> reserved_phase_ok p)"

definition delivery_advance_allowed :: "session_record \<Rightarrow> string option \<Rightarrow> bool" where
  "delivery_advance_allowed r nextPhase =
     (let scope = lease_scope r; current = sellerDeliveryPhaseProgress (sr_phase r);
          next = Option.bind nextPhase sellerDeliveryPhaseProgress in
      if scope \<noteq> None \<and> nextPhase \<noteq> None \<and> map_option dp_index next \<noteq> scope then False
      else (case current of
              None \<Rightarrow> True
            | Some c \<Rightarrow>
                if \<not> dp_terminal c then
                  (nextPhase = None \<or> (case next of None \<Rightarrow> False | Some n \<Rightarrow> dp_index n = dp_index c \<and> dp_rank c \<le> dp_rank n))
                else
                  dp_outcome c = Some Delivery_Completed \<and>
                  (case (scope, next) of (Some i, Some n) \<Rightarrow> dp_index c < i \<and> dp_index n = i | _ \<Rightarrow> False)))"

definition sessionPhaseMutationAllowed :: "session_record \<Rightarrow> string option \<Rightarrow> bool" where
  "sessionPhaseMutationAllowed r nextPhase =
     (let phase = sr_phase r; scope = lease_scope r;
          currentBundleRank = sellerBundlePhaseRank phase; nextBundleRank = Option.bind nextPhase sellerBundlePhaseRank;
          currentBuyerRank = buyerBundlePhaseRank phase; nextBuyerRank = Option.bind nextPhase buyerBundlePhaseRank;
          current = sellerDeliveryPhaseProgress phase;
          currentTerminal = terminalBundlePhaseProgress phase; nextTerminal = Option.bind nextPhase terminalBundlePhaseProgress in
      if \<not> reserved_next_ok nextPhase then False
      else if phase = ''buyer:finalised'' then False
      else (case currentTerminal of
        Some c \<Rightarrow>
          if scope \<noteq> None \<or> tp_final c then False
          else if nextPhase = None then True
          else (case nextTerminal of
                  None \<Rightarrow> False
                | Some n \<Rightarrow>
                    if tp_role n \<noteq> tp_role c then False
                    else if tp_final n then tp_stage c = ''bundle-binding-publication-pending''
                    else tp_rank c \<le> tp_rank n)
      | None \<Rightarrow>
        (case nextTerminal of
           Some n \<Rightarrow>
             \<not> tp_final n \<and> tp_rank n = 0 \<and> sr_lease r \<noteq> None \<and> scope = None \<and>
             (currentBundleRank = None \<and> currentBuyerRank = None \<and> current = None \<and>
                \<not> startsWith phase ''seller:'' \<and> \<not> startsWith phase ''buyer:'' \<or>
              sessionPhaseIsSellerFailureOrigin phase \<and> tp_role n = ''seller'')
         | None \<Rightarrow>
             if sessionPhaseIsSellerFailureOrigin phase then False
             else (case currentBuyerRank of
               Some c \<Rightarrow>
                 scope = None \<and>
                 (nextPhase = None \<or> nextPhase = Some ''buyer:finalised'' \<or> (case nextBuyerRank of None \<Rightarrow> False | Some n \<Rightarrow> c \<le> n))
             | None \<Rightarrow>
               if nextPhase = Some ''buyer:finalised'' then False
               else (case nextBuyerRank of
                 Some n \<Rightarrow> currentBundleRank = None \<and> current = None \<and> scope = None \<and> n = 0 \<and> sr_lease r \<noteq> None
               | None \<Rightarrow>
                 if nextPhase = Some ''seller:finalised'' then scope = None
                 else (case currentBundleRank of
                   Some c \<Rightarrow> scope = None \<and> (nextPhase = None \<or> (case nextBundleRank of None \<Rightarrow> False | Some n \<Rightarrow> c \<le> n))
                 | None \<Rightarrow>
                   (case nextBundleRank of
                      Some n \<Rightarrow>
                        (case current of Some c \<Rightarrow> dp_terminal c \<and> dp_outcome c = Some Delivery_Completed | None \<Rightarrow> False) \<and>
                        n = 0 \<and> sr_lease r \<noteq> None \<and> scope = None
                    | None \<Rightarrow> delivery_advance_allowed r nextPhase)))))))"

text \<open>The parts of a transition the guards look at.\<close>

record transition_input =
  ti_jobId :: string
  ti_expectedRevision :: int
  ti_leaseToken :: "session_token option"
  ti_phase :: "string option"
  ti_checkpoint :: "session_checkpoint option"
  ti_receipt :: "session_receipt option"
  ti_releases :: bool
  ti_now :: "int option"

definition terminalBundleSealAllowed :: "session_record \<Rightarrow> transition_input \<Rightarrow> bool" where
  "terminalBundleSealAllowed r input =
     (let current = terminalBundlePhaseProgress (sr_phase r);
          next = (case ti_phase input of None \<Rightarrow> current | Some p \<Rightarrow> terminalBundlePhaseProgress p) in
      case next of
        None \<Rightarrow> True
      | Some n \<Rightarrow>
          if \<not> tp_final n then map_option rc_kind (ti_receipt input) \<noteq> Some Bundle_Receipt
          else
            (case current of None \<Rightarrow> False
             | Some c \<Rightarrow> tp_role c = tp_role n \<and> tp_stage c = ''bundle-binding-publication-pending'') \<and>
            (case ti_checkpoint input of None \<Rightarrow> False
             | Some k \<Rightarrow> ck_key k = result_key (tp_role n) \<and> ck_stage k = Outcome) \<and>
            last_stage (sr_checkpoints r) (result_key (tp_role n)) = Some Intent \<and>
            (case ti_receipt input of None \<Rightarrow> False
             | Some rc \<Rightarrow> rc_kind rc = Bundle_Receipt \<and> rc_phaseIndex rc = None) \<and>
            ti_releases input)"

definition sessionLeaseScopeAllowed :: "session_record \<Rightarrow> int option \<Rightarrow> bool" where
  "sessionLeaseScopeAllowed r sellerPhaseIndex =
     (let phase = sr_phase r in
      if sessionPhaseIsSellerFailureOrigin phase \<or> terminalBundlePhaseProgress phase \<noteq> None \<or>
         buyerBundlePhaseRank phase \<noteq> None \<or> sellerBundlePhaseRank phase \<noteq> None
      then sellerPhaseIndex = None
      else (case sellerDeliveryPhaseProgress phase of
              None \<Rightarrow> True
            | Some c \<Rightarrow>
                if dp_terminal c
                then (case sellerPhaseIndex of None \<Rightarrow> True | Some i \<Rightarrow> dp_outcome c = Some Delivery_Completed \<and> dp_index c < i)
                else sellerPhaseIndex = Some (dp_index c)))"

definition sessionAuthorizationPhaseAllowed :: "session_record \<Rightarrow> bool" where
  "sessionAuthorizationPhaseAllowed r =
     (let phase = sr_phase r in
      if sessionPhaseIsSellerFailureOrigin phase \<or> terminalBundlePhaseProgress phase \<noteq> None \<or>
         buyerBundlePhaseRank phase \<noteq> None \<or> sellerBundlePhaseRank phase \<noteq> None
      then False
      else sellerDeliveryPhaseProgress phase = None \<or>
           (case lease_scope r of None \<Rightarrow> False | Some i \<Rightarrow> sessionLeaseScopeAllowed r (Some i)))"

definition leaseFailure :: "session_record \<Rightarrow> session_token option \<Rightarrow> int \<Rightarrow> mutation_failure option" where
  "leaseFailure r token now =
     (case sr_lease r of
        None \<Rightarrow> if sr_leaseGeneration r > 0 \<or> token \<noteq> None then Some Lease_Fenced else None
      | Some l \<Rightarrow>
          (case token of
             None \<Rightarrow> Some Lease_Fenced
           | Some t \<Rightarrow>
               if st_owner t \<noteq> sl_owner l \<or> st_generation t \<noteq> sl_generation l then Some Lease_Fenced
               else if now < sl_expiresAt l then None else Some Lease_Expired))"

definition validateCheckpointAppend :: "session_record \<Rightarrow> session_checkpoint \<Rightarrow> bool" where
  "validateCheckpointAppend r c =
     (case ck_stage c of
        Intent \<Rightarrow> last_checkpoint (sr_checkpoints r) (ck_key c) = None
      | Outcome \<Rightarrow> last_stage (sr_checkpoints r) (ck_key c) = Some Intent)"

end
