(* ===== verification/Dacs_Sort.thy ===== *)
theory Dacs_Sort
  imports Dacs_Prelude "HOL-Library.Multiset"
begin

text \<open>
  \<^verbatim>\<open>Array.prototype.sort\<close> with a comparator: a stable sort. A comparator is given by its
  \<open>\<le> 0\<close> as a relation \<open>le\<close>; the laws of the sorted list are proved for every relation that is
  total and transitive on the elements that occur.
\<close>

fun insert_sorted :: "('a \<Rightarrow> 'a \<Rightarrow> bool) \<Rightarrow> 'a \<Rightarrow> 'a list \<Rightarrow> 'a list" where
  "insert_sorted le x [] = [x]"
| "insert_sorted le x (y # ys) = (if le x y then x # y # ys else y # insert_sorted le x ys)"

definition sort_by :: "('a \<Rightarrow> 'a \<Rightarrow> bool) \<Rightarrow> 'a list \<Rightarrow> 'a list" where
  "sort_by le xs = foldr (insert_sorted le) xs []"

lemma sort_by_simps [simp]: "sort_by le [] = []" "sort_by le (x # xs) = insert_sorted le x (sort_by le xs)"
  by (simp_all add: sort_by_def)

lemma mset_insert_sorted [simp]: "mset (insert_sorted le x ys) = add_mset x (mset ys)"
  by (induction ys) simp_all

lemma mset_sort_by [simp]: "mset (sort_by le xs) = mset xs"
  by (induction xs) simp_all

lemma set_sort_by [simp]: "set (sort_by le xs) = set xs"
  by (rule mset_eq_setD) simp

lemma sort_by_Nil_iff [simp]: "sort_by le xs = [] \<longleftrightarrow> xs = []"
  using mset_sort_by [of le xs] by (metis mset_zero_iff)

lemma set_insert_sorted [simp]: "set (insert_sorted le x ys) = insert x (set ys)"
  by (induction ys) auto

locale sort_order =
  fixes le :: "'a \<Rightarrow> 'a \<Rightarrow> bool" and A :: "'a set"
  assumes total: "x \<in> A \<Longrightarrow> y \<in> A \<Longrightarrow> le x y \<or> le y x"
    and trans: "x \<in> A \<Longrightarrow> y \<in> A \<Longrightarrow> z \<in> A \<Longrightarrow> le x y \<Longrightarrow> le y z \<Longrightarrow> le x z"
begin

lemma sorted_insert_sorted:
  "sorted_wrt le ys \<Longrightarrow> set ys \<subseteq> A \<Longrightarrow> x \<in> A \<Longrightarrow> sorted_wrt le (insert_sorted le x ys)"
proof (induction ys)
  case (Cons y ys)
  show ?case
  proof (cases "le x y")
    case True
    moreover have "le x z" if "z \<in> set ys" for z using Cons.prems that True trans [of x y z] by auto
    ultimately show ?thesis using Cons.prems by auto
  next
    case False
    then have "le y x" using total [of x y] Cons.prems by auto
    then show ?thesis using False Cons by auto
  qed
qed simp

lemma sorted_sort_by: "set xs \<subseteq> A \<Longrightarrow> sorted_wrt le (sort_by le xs)"
  by (induction xs) (auto intro!: sorted_insert_sorted)

lemma hd_sort_by_least:
  assumes "set xs \<subseteq> A" "x \<in> set xs"
  shows "le (hd (sort_by le xs)) x"
proof -
  obtain h t where s: "sort_by le xs = h # t" using assms(2) by (cases "sort_by le xs") auto
  then have "x = h \<or> x \<in> set t" using assms(2) set_sort_by [of le xs] by auto
  moreover have "h \<in> A" using assms(1) set_sort_by [of le xs] s by auto
  ultimately show ?thesis using sorted_sort_by [OF assms(1)] s total [of h h] by auto
qed

text \<open>The first element with a property is the least one with it.\<close>

lemma find_sort_by_least:
  assumes "set xs \<subseteq> A" "find P (sort_by le xs) = Some x"
  shows "x \<in> set xs \<and> P x \<and> (\<forall>y \<in> set xs. P y \<longrightarrow> le x y)"
proof -
  have "x \<in> set ys \<and> P x \<and> (\<forall>y \<in> set ys. P y \<longrightarrow> le x y)"
    if "sorted_wrt le ys" "set ys \<subseteq> A" "find P ys = Some x" for ys
    using that by (induction ys) (auto split: if_splits dest: total)
  then show ?thesis using sorted_sort_by [OF assms(1)] assms by (metis set_sort_by)
qed

end

text \<open>A comparison of keys, one after the other.\<close>

lemma sort_order_keys:
  fixes f :: "'a \<Rightarrow> 'b::linorder" and g :: "'a \<Rightarrow> 'c::linorder"
  shows "sort_order (\<lambda>x y. f x < f y \<or> f x = f y \<and> g x \<le> g y) A"
  by unfold_locales auto

end
