(* ===== verification/Dacs_Fenced_Store.thy ===== *)
theory Dacs_Fenced_Store
  imports Dacs_Fenced_Types Dacs_Sort
begin

text \<open>
  The generation-fenced session store, part two (\<^verbatim>\<open>src/src/agent/fencedSessionStore.ts\<close>): the validation
  of inputs and the operations of the reference implementation \<^verbatim>\<open>createInMemoryFencedSessionStore\<close>.

  An operation takes the store and returns its result, or the exception it throws, together with the
  store it leaves behind: binding an authorisation commits the agreement before it can still fail.
  \<^verbatim>\<open>Date.now()\<close> is the argument \<open>clock\<close>; \<^verbatim>\<open>localeCompare\<close> is the parameter \<open>before\<close> of \<open>list\<close>.
\<close>

section \<open>The store\<close>

datatype hash_kind = Agreement_Hash | Transaction_Hash

text \<open>The three \<^verbatim>\<open>Map\<close>s, as association lists in insertion order.\<close>

record fenced_store =
  fs_sessions :: "(string \<times> session_record) list"
  fs_hashBindings :: "(string \<times> (string \<times> hash_kind)) list"
  fs_settlementBindings :: "(string \<times> (string \<times> payment_binding)) list"

definition empty_fenced_store :: fenced_store where
  "empty_fenced_store = \<lparr>fs_sessions = [], fs_hashBindings = [], fs_settlementBindings = []\<rparr>"

definition get_session :: "fenced_store \<Rightarrow> string \<Rightarrow> session_record option" where
  "get_session s jobId = map_of (fs_sessions s) jobId"

definition get_hash :: "fenced_store \<Rightarrow> string \<Rightarrow> (string \<times> hash_kind) option" where
  "get_hash s h = map_of (fs_hashBindings s) h"

definition get_settlement :: "fenced_store \<Rightarrow> string \<Rightarrow> (string \<times> payment_binding) option" where
  "get_settlement s sid = map_of (fs_settlementBindings s) sid"

definition set_session :: "string \<Rightarrow> session_record \<Rightarrow> fenced_store \<Rightarrow> fenced_store" where
  "set_session jobId r s = s\<lparr>fs_sessions := AList.update jobId r (fs_sessions s)\<rparr>"

definition set_hash :: "string \<Rightarrow> string \<Rightarrow> hash_kind \<Rightarrow> fenced_store \<Rightarrow> fenced_store" where
  "set_hash h jobId kind s = s\<lparr>fs_hashBindings := AList.update h (jobId, kind) (fs_hashBindings s)\<rparr>"

definition set_settlement :: "string \<Rightarrow> string \<Rightarrow> payment_binding \<Rightarrow> fenced_store \<Rightarrow> fenced_store" where
  "set_settlement sid jobId b s = s\<lparr>fs_settlementBindings := AList.update sid (jobId, b) (fs_settlementBindings s)\<rparr>"

section \<open>Inputs\<close>

definition now_ok :: "int option \<Rightarrow> bool" where
  "now_ok now = (case now of None \<Rightarrow> True | Some t \<Rightarrow> isNonNegativeInteger t)"

definition instant :: "int option \<Rightarrow> int \<Rightarrow> int" where
  "instant now clock = (case now of None \<Rightarrow> clock | Some t \<Rightarrow> t)"

definition token_ok :: "session_token option \<Rightarrow> bool" where
  "token_ok token =
     (case token of
        None \<Rightarrow> True
      | Some t \<Rightarrow> isNonEmptyString (st_owner t) \<and> isNonNegativeInteger (st_generation t) \<and> st_generation t \<noteq> 0)"

definition optional_text_ok :: "string option \<Rightarrow> bool" where
  "optional_text_ok t = (case t of None \<Rightarrow> True | Some s \<Rightarrow> isNonEmptyString s)"

record create_input =
  ci_jobId :: string
  ci_agreementHash :: "string option"
  ci_phase :: "string option"
  ci_now :: "int option"

definition snapshotFencedCreateInput :: "create_input \<Rightarrow> create_input res" where
  "snapshotFencedCreateInput i =
     ensure (isNonEmptyString (ci_jobId i)) ''create.jobId must be a non-empty trimmed string''
     (ensure (optional_text_ok (ci_agreementHash i)) ''create.agreementHash must be a non-empty trimmed string''
     (ensure (optional_text_ok (ci_phase i)) ''create.phase must be a non-empty trimmed string''
     (ensure (Option.bind (ci_phase i) sellerBundlePhaseRank = None)
        ''create.phase cannot enter seller bundle finalization without a completed delivery''
     (ensure (Option.bind (ci_phase i) buyerBundlePhaseRank = None \<and> ci_phase i \<noteq> Some ''buyer:finalised'')
        ''create.phase cannot enter buyer bundle finalization without a fenced session''
     (ensure (Option.bind (ci_phase i) terminalBundlePhaseProgress = None)
        ''create.phase cannot enter terminal bundle finalization without a fenced session''
     (ensure (now_ok (ci_now i)) ''create.now must be a non-negative safe integer''
     (Inr i)))))))"

definition snapshotFencedTransitionInput :: "transition_input \<Rightarrow> transition_input res" where
  "snapshotFencedTransitionInput i =
     ensure (isNonEmptyString (ti_jobId i)) ''transition.jobId must be a non-empty trimmed string''
     (ensure (isNonNegativeInteger (ti_expectedRevision i)) ''transition.expectedRevision must be a non-negative safe integer''
     (ensure (token_ok (ti_leaseToken i)) ''transition.leaseToken''
     (ensure (optional_text_ok (ti_phase i)) ''transition.phase must be a non-empty trimmed string''
     (ensure (Option.bind (ti_checkpoint i) checkpointShapeViolation = None) ''transition.checkpoint''
     (ensure (Option.bind (ti_receipt i) receiptShapeViolation = None) ''transition.receipt''
     (ensure (now_ok (ti_now i)) ''transition.now must be a non-negative safe integer''
     (Inr i)))))))"

record claim_input =
  cc_jobId :: string
  cc_key :: string
  cc_data :: "(string \<times> checkpoint_value) list option"
  cc_phase :: "string option"
  cc_leaseToken :: "session_token option"
  cc_now :: "int option"

definition claim_checkpoint_of :: "claim_input \<Rightarrow> session_checkpoint" where
  "claim_checkpoint_of i = \<lparr>ck_key = cc_key i, ck_stage = Intent, ck_data = cc_data i\<rparr>"

definition snapshotFencedCheckpointClaimInput :: "claim_input \<Rightarrow> claim_input res" where
  "snapshotFencedCheckpointClaimInput i =
     ensure (isNonEmptyString (cc_jobId i)) ''claimCheckpoint.jobId must be a non-empty trimmed string''
     (ensure (isNonEmptyString (cc_key i)) ''claimCheckpoint.key must be a non-empty trimmed string''
     (ensure (optional_text_ok (cc_phase i)) ''claimCheckpoint.phase must be a non-empty trimmed string''
     (ensure (token_ok (cc_leaseToken i)) ''claimCheckpoint.leaseToken''
     (ensure (checkpointShapeViolation (claim_checkpoint_of i) = None) ''claimCheckpoint.intent''
     (ensure (now_ok (cc_now i)) ''claimCheckpoint.now must be a non-negative safe integer''
     (Inr i))))))"

record acquire_input =
  ai_jobId :: string
  ai_owner :: string
  ai_ttlMs :: int
  ai_sellerPhaseIndex :: "int option"
  ai_now :: "int option"

definition lease_end_ok :: "int option \<Rightarrow> int \<Rightarrow> int \<Rightarrow> bool" where
  "lease_end_ok now clock ttlMs \<longleftrightarrow> isSafeInteger (instant now clock + ttlMs)"

definition snapshotFencedAcquireLeaseInput :: "int \<Rightarrow> acquire_input \<Rightarrow> acquire_input res" where
  "snapshotFencedAcquireLeaseInput clock i =
     ensure (isNonEmptyString (ai_jobId i)) ''acquireLease.jobId must be a non-empty trimmed string''
     (ensure (isNonEmptyString (ai_owner i)) ''acquireLease.owner must be a non-empty trimmed string''
     (ensure (0 < ai_ttlMs i) ''acquireLease.ttlMs must be a positive finite number''
     (ensure (case ai_sellerPhaseIndex i of None \<Rightarrow> True | Some n \<Rightarrow> isNonNegativeInteger n)
        ''acquireLease.sellerPhaseIndex must be a non-negative safe integer''
     (ensure (now_ok (ai_now i)) ''acquireLease.now must be a non-negative safe integer''
     (ensure (lease_end_ok (ai_now i) clock (ai_ttlMs i)) ''acquireLease expiry must be a safe integer timestamp''
     (Inr i))))))"

record renew_input =
  ri_jobId :: string
  ri_leaseToken :: session_token
  ri_ttlMs :: int
  ri_now :: "int option"

definition snapshotFencedRenewLeaseInput :: "int \<Rightarrow> renew_input \<Rightarrow> renew_input res" where
  "snapshotFencedRenewLeaseInput clock i =
     ensure (isNonEmptyString (ri_jobId i)) ''renewLease.jobId must be a non-empty trimmed string''
     (ensure (token_ok (Some (ri_leaseToken i))) ''renewLease.leaseToken''
     (ensure (0 < ri_ttlMs i) ''renewLease.ttlMs must be a positive finite number''
     (ensure (now_ok (ri_now i)) ''renewLease.now must be a non-negative safe integer''
     (ensure (lease_end_ok (ri_now i) clock (ri_ttlMs i)) ''renewLease expiry must be a safe integer timestamp''
     (Inr i)))))"

record authorization_input =
  au_jobId :: string
  au_binding :: payment_binding
  au_leaseToken :: "session_token option"
  au_now :: "int option"

definition snapshotFencedAuthorizationInput :: "authorization_input \<Rightarrow> authorization_input res" where
  "snapshotFencedAuthorizationInput i =
     ensure (isNonEmptyString (au_jobId i)) ''bindSessionAuthorization.jobId must be a non-empty trimmed string''
     (ensure (paymentBindingShapeViolation (au_binding i) = None) ''bindSessionAuthorization.binding''
     (ensure (token_ok (au_leaseToken i)) ''bindSessionAuthorization.leaseToken''
     (ensure (now_ok (au_now i)) ''bindSessionAuthorization.now must be a non-negative safe integer''
     (Inr i))))"

record bind_hash_input =
  bh_hash :: string
  bh_jobId :: string
  bh_kind :: hash_kind

definition snapshotFencedBindHashInput :: "bind_hash_input \<Rightarrow> bind_hash_input res" where
  "snapshotFencedBindHashInput i =
     ensure (isNonEmptyString (bh_hash i)) ''bindHash.hash must be a non-empty trimmed string''
     (ensure (isNonEmptyString (bh_jobId i)) ''bindHash.jobId must be a non-empty trimmed string''
     (Inr i))"

section \<open>Operations\<close>

text \<open>
  Validating the input, then running the operation on it; and the last step of an operation: a record
  that fails its check is not stored and the operation throws.
\<close>

definition with_input :: "'i res \<Rightarrow> fenced_store \<Rightarrow> ('i \<Rightarrow> 'a res \<times> fenced_store) \<Rightarrow> 'a res \<times> fenced_store" where
  "with_input r s f = (case r of Inl e \<Rightarrow> (Inl e, s) | Inr i \<Rightarrow> f i)"

definition store_checked :: "string \<Rightarrow> fenced_store \<Rightarrow> session_record \<Rightarrow> string \<Rightarrow> 'a \<Rightarrow> 'a res \<times> fenced_store" where
  "store_checked jobId s next message result =
     (if sessionRecordShapeViolation next \<noteq> None then (throw message, s) else (Inr result, set_session jobId next s))"

definition new_record :: "create_input \<Rightarrow> int \<Rightarrow> session_record" where
  "new_record i now =
     \<lparr>sr_storeVersion = FENCED_SESSION_STORE_VERSION, sr_jobId = ci_jobId i, sr_agreementHash = ci_agreementHash i,
      sr_paymentAuthorizations = [], sr_phase = (case ci_phase i of None \<Rightarrow> ''created'' | Some p \<Rightarrow> p),
      sr_revision = 0, sr_leaseGeneration = 0, sr_lease = None, sr_checkpoints = [], sr_receipts = [],
      sr_createdAt = now, sr_updatedAt = now\<rparr>"

definition hash_conflict :: "fenced_store \<Rightarrow> string \<Rightarrow> string \<Rightarrow> hash_kind \<Rightarrow> bool" where
  "hash_conflict s h jobId kind = (case get_hash s h of None \<Rightarrow> False | Some owner \<Rightarrow> owner \<noteq> (jobId, kind))"

definition create :: "int \<Rightarrow> fenced_store \<Rightarrow> create_input \<Rightarrow> session_record res \<times> fenced_store" where
  "create clock s rawInput =
     with_input (snapshotFencedCreateInput rawInput) s (\<lambda>i.
       let jobId = ci_jobId i; next = new_record i (instant (ci_now i) clock) in
       if get_session s jobId \<noteq> None then (throw ''session already exists'', s)
       else if (case ci_agreementHash i of None \<Rightarrow> False | Some h \<Rightarrow> hash_conflict s h jobId Agreement_Hash)
       then (throw ''agreement hash is already bound to another session (anti-replay)'', s)
       else if sessionRecordShapeViolation next \<noteq> None then (throw ''invalid session record'', s)
       else (Inr next,
             (case ci_agreementHash i of None \<Rightarrow> id | Some h \<Rightarrow> set_hash h jobId Agreement_Hash) (set_session jobId next s)))"

datatype session_load = Load_Missing | Load_Ok session_record

definition load :: "fenced_store \<Rightarrow> string \<Rightarrow> session_load res" where
  "load s jobId =
     ensure (isNonEmptyString jobId) ''load.jobId must be a non-empty trimmed string''
       (Inr (case get_session s jobId of None \<Rightarrow> Load_Missing | Some r \<Rightarrow> Load_Ok r))"

datatype mutation_result = Mutated session_record | Refused mutation_failure "session_record option"

definition releases_only :: "transition_input \<Rightarrow> bool" where
  "releases_only i \<longleftrightarrow> ti_releases i \<and> ti_phase i = None \<and> ti_checkpoint i = None \<and> ti_receipt i = None"

text \<open>From a failed seller phase, only the exact opening of the terminal bundle lifecycle is let through.\<close>

definition failure_origin_transition_ok :: "transition_input \<Rightarrow> bool" where
  "failure_origin_transition_ok i \<longleftrightarrow>
     ti_phase i = Some (terminalBundleStorePhase ''seller'' ''authority'') \<and> ti_receipt i = None \<and>
     (case ti_checkpoint i of None \<Rightarrow> False | Some c \<Rightarrow> ck_key c = ''terminal:seller:authority'' \<and> ck_stage c = Intent) \<and>
     \<not> ti_releases i"

definition find_receipt :: "session_receipt list \<Rightarrow> string \<Rightarrow> session_receipt option" where
  "find_receipt rs key = find (\<lambda>r. sessionReceiptKey r = key) rs"

definition append_receipt :: "int \<Rightarrow> session_receipt option \<Rightarrow> session_receipt list \<Rightarrow> session_receipt list" where
  "append_receipt now receipt rs =
     (case receipt of
        None \<Rightarrow> rs
      | Some r \<Rightarrow>
          if find_receipt rs (sessionReceiptKey r) \<noteq> None then rs
          else rs @ [r\<lparr>rc_recordedAt := (case rc_recordedAt r of None \<Rightarrow> Some now | Some t \<Rightarrow> Some t)\<rparr>])"

definition transitioned :: "session_record \<Rightarrow> transition_input \<Rightarrow> int \<Rightarrow> session_record" where
  "transitioned r i now =
     r\<lparr>sr_revision := sr_revision r + 1, sr_updatedAt := now,
       sr_phase := (case ti_phase i of None \<Rightarrow> sr_phase r | Some p \<Rightarrow> p),
       sr_checkpoints := sr_checkpoints r @ (case ti_checkpoint i of None \<Rightarrow> [] | Some c \<Rightarrow> [c]),
       sr_receipts := append_receipt now (ti_receipt i) (sr_receipts r),
       sr_lease := (if ti_releases i then None else sr_lease r)\<rparr>"

definition transition :: "int \<Rightarrow> fenced_store \<Rightarrow> transition_input \<Rightarrow> mutation_result res \<times> fenced_store" where
  "transition clock s rawInput =
     with_input (snapshotFencedTransitionInput rawInput) s (\<lambda>i.
       case get_session s (ti_jobId i) of
         None \<Rightarrow> (Inr (Refused Not_Found None), s)
       | Some r \<Rightarrow>
           (let now = instant (ti_now i) clock; refuse = (\<lambda>f. (Inr (Refused f (Some r)), s)) in
            if sr_revision r \<noteq> ti_expectedRevision i then refuse Revision_Mismatch
            else if sessionPhaseIsTerminal (sr_phase r) then refuse Terminal_State
            else (case leaseFailure r (ti_leaseToken i) now of
                    Some f \<Rightarrow> refuse f
                  | None \<Rightarrow>
                      if \<not> releases_only i \<and> \<not> sessionPhaseMutationAllowed r (ti_phase i) then refuse Phase_Regression
                      else if sessionPhaseIsSellerFailureOrigin (sr_phase r) \<and> \<not> releases_only i \<and> \<not> failure_origin_transition_ok i
                      then refuse Phase_Regression
                      else if \<not> terminalBundleSealAllowed r i then refuse Phase_Regression
                      else if (case ti_checkpoint i of None \<Rightarrow> False | Some c \<Rightarrow> \<not> validateCheckpointAppend r c) then refuse Checkpoint_State
                      else if (case ti_receipt i of None \<Rightarrow> False
                               | Some rc \<Rightarrow> (case find_receipt (sr_receipts r) (sessionReceiptKey rc) of
                                               None \<Rightarrow> False | Some prior \<Rightarrow> rc_ref prior \<noteq> rc_ref rc))
                      then refuse Immutable_Receipt
                      else store_checked (ti_jobId i) s (transitioned r i now) ''invalid session transition'' (Mutated (transitioned r i now)))))"

datatype claim_result = Claimed session_record | Claim_Refused mutation_failure "session_record option" | Claim_Held session_record | Claim_Completed session_record

definition claimed :: "session_record \<Rightarrow> claim_input \<Rightarrow> int \<Rightarrow> session_record" where
  "claimed r i now =
     r\<lparr>sr_revision := sr_revision r + 1, sr_updatedAt := now,
       sr_phase := (case cc_phase i of None \<Rightarrow> sr_phase r | Some p \<Rightarrow> p),
       sr_checkpoints := sr_checkpoints r @ [claim_checkpoint_of i]\<rparr>"

definition claimCheckpoint :: "int \<Rightarrow> fenced_store \<Rightarrow> claim_input \<Rightarrow> claim_result res \<times> fenced_store" where
  "claimCheckpoint clock s rawInput =
     with_input (snapshotFencedCheckpointClaimInput rawInput) s (\<lambda>i.
       case get_session s (cc_jobId i) of
         None \<Rightarrow> (Inr (Claim_Refused Not_Found None), s)
       | Some r \<Rightarrow>
           (let now = instant (cc_now i) clock; refuse = (\<lambda>f. (Inr (Claim_Refused f (Some r)), s)) in
            if sessionPhaseIsTerminal (sr_phase r) then refuse Terminal_State
            else (case leaseFailure r (cc_leaseToken i) now of
                    Some f \<Rightarrow> refuse f
                  | None \<Rightarrow>
                      (case last_checkpoint (sr_checkpoints r) (cc_key i) of
                         Some prior \<Rightarrow> (Inr (if ck_stage prior = Outcome then Claim_Completed r else Claim_Held r), s)
                       | None \<Rightarrow>
                           if \<not> sessionPhaseMutationAllowed r (cc_phase i) then refuse Phase_Regression
                           else if sessionPhaseIsSellerFailureOrigin (sr_phase r) \<and>
                                   (cc_phase i \<noteq> Some (terminalBundleStorePhase ''seller'' ''authority'') \<or> cc_key i \<noteq> ''terminal:seller:authority'')
                           then refuse Phase_Regression
                           else if (case cc_phase i of None \<Rightarrow> False | Some p \<Rightarrow> is_final_terminal p) then refuse Phase_Regression
                           else store_checked (cc_jobId i) s (claimed r i now) ''invalid checkpoint claim'' (Claimed (claimed r i now))))))"

datatype lease_result = Leased session_record session_lease | Lease_Refused mutation_failure "session_record option"

definition fresh_lease :: "session_record \<Rightarrow> acquire_input \<Rightarrow> int \<Rightarrow> session_lease" where
  "fresh_lease r i now =
     \<lparr>sl_owner = ai_owner i, sl_generation = sr_leaseGeneration r + 1, sl_expiresAt = now + ai_ttlMs i,
      sl_sellerPhaseIndex = ai_sellerPhaseIndex i\<rparr>"

definition with_fresh_lease :: "session_record \<Rightarrow> acquire_input \<Rightarrow> int \<Rightarrow> session_record" where
  "with_fresh_lease r i now =
     r\<lparr>sr_revision := sr_revision r + 1, sr_updatedAt := now, sr_leaseGeneration := sr_leaseGeneration r + 1,
       sr_lease := Some (fresh_lease r i now)\<rparr>"

definition acquireLease :: "int \<Rightarrow> fenced_store \<Rightarrow> acquire_input \<Rightarrow> lease_result res \<times> fenced_store" where
  "acquireLease clock s rawInput =
     with_input (snapshotFencedAcquireLeaseInput clock rawInput) s (\<lambda>i.
       case get_session s (ai_jobId i) of
         None \<Rightarrow> (Inr (Lease_Refused Not_Found None), s)
       | Some r \<Rightarrow>
           (let now = instant (ai_now i) clock; refuse = (\<lambda>f. (Inr (Lease_Refused f (Some r)), s)) in
            if sessionPhaseIsTerminal (sr_phase r) then refuse Terminal_State
            else if (case sr_lease r of None \<Rightarrow> False | Some l \<Rightarrow> now < sl_expiresAt l) then refuse Lease_Held
            else if \<not> sessionLeaseScopeAllowed r (ai_sellerPhaseIndex i) then refuse Phase_Regression
            else store_checked (ai_jobId i) s (with_fresh_lease r i now) ''invalid lease''
                   (Leased (with_fresh_lease r i now) (fresh_lease r i now))))"

definition renewed :: "session_record \<Rightarrow> session_lease \<Rightarrow> int \<Rightarrow> int \<Rightarrow> session_record" where
  "renewed r l now ttlMs =
     r\<lparr>sr_revision := sr_revision r + 1, sr_updatedAt := now, sr_lease := Some (l\<lparr>sl_expiresAt := now + ttlMs\<rparr>)\<rparr>"

definition renewLease :: "int \<Rightarrow> fenced_store \<Rightarrow> renew_input \<Rightarrow> lease_result res \<times> fenced_store" where
  "renewLease clock s rawInput =
     with_input (snapshotFencedRenewLeaseInput clock rawInput) s (\<lambda>i.
       case get_session s (ri_jobId i) of
         None \<Rightarrow> (Inr (Lease_Refused Not_Found None), s)
       | Some r \<Rightarrow>
           (let now = instant (ri_now i) clock; refuse = (\<lambda>f. (Inr (Lease_Refused f (Some r)), s)) in
            if sessionPhaseIsTerminal (sr_phase r) then refuse Terminal_State
            else (case leaseFailure r (Some (ri_leaseToken i)) now of
                    Some f \<Rightarrow> refuse f
                  | None \<Rightarrow>
                      (case sr_lease r of
                         None \<Rightarrow> (throw ''next.lease is undefined'', s)
                       | Some l \<Rightarrow>
                           store_checked (ri_jobId i) s (renewed r l now (ri_ttlMs i)) ''invalid renewed lease''
                             (Leased (renewed r l now (ri_ttlMs i)) (l\<lparr>sl_expiresAt := now + ri_ttlMs i\<rparr>))))))"

datatype authorization_failure =
    Auth_Failure mutation_failure | Agreement_Conflict | Payment_Conflict | Settlement_Replay

datatype authorization_result = Authorized session_record | Auth_Refused authorization_failure "string option" "session_record option"

definition samePaymentBinding :: "payment_binding \<Rightarrow> payment_binding \<Rightarrow> bool" where
  "samePaymentBinding a b \<longleftrightarrow>
     pb_authorizationHash a = pb_authorizationHash b \<and> pb_fulfilmentId a = pb_fulfilmentId b \<and>
     pb_handoffBindingHash a = pb_handoffBindingHash b \<and> pb_agreementHash a = pb_agreementHash b \<and>
     pb_paymentEvidenceHash a = pb_paymentEvidenceHash b \<and> pb_settlementId a = pb_settlementId b \<and>
     pb_paymentPhaseIndex a = pb_paymentPhaseIndex b \<and> pb_deliveryPhaseIndex a = pb_deliveryPhaseIndex b"

definition phase_binding :: "session_record \<Rightarrow> payment_binding \<Rightarrow> payment_binding option" where
  "phase_binding r b =
     find (\<lambda>item. pb_paymentPhaseIndex item = pb_paymentPhaseIndex b \<or> pb_deliveryPhaseIndex item = pb_deliveryPhaseIndex b)
       (sr_paymentAuthorizations r)"

definition settlement_conflict :: "fenced_store \<Rightarrow> string \<Rightarrow> payment_binding \<Rightarrow> string option" where
  "settlement_conflict s jobId b =
     (case get_settlement s (pb_settlementId b) of
        None \<Rightarrow> None
      | Some (owner, bound) \<Rightarrow> if owner \<noteq> jobId \<or> \<not> samePaymentBinding bound b then Some owner else None)"

definition hash_owner :: "fenced_store \<Rightarrow> string \<Rightarrow> string option" where
  "hash_owner s h = map_option fst (get_hash s h)"

definition with_agreement :: "session_record \<Rightarrow> string \<Rightarrow> int \<Rightarrow> session_record" where
  "with_agreement r h now = r\<lparr>sr_agreementHash := Some h, sr_revision := sr_revision r + 1, sr_updatedAt := now\<rparr>"

definition with_authorization :: "session_record \<Rightarrow> payment_binding \<Rightarrow> int \<Rightarrow> session_record" where
  "with_authorization r b now =
     r\<lparr>sr_paymentAuthorizations := sr_paymentAuthorizations r @ [b], sr_revision := sr_revision r + 1, sr_updatedAt := now\<rparr>"

text \<open>The second half: the settlement marker and the authorisation, once the agreement is bound.\<close>

definition bind_settlement ::
  "fenced_store \<Rightarrow> string \<Rightarrow> payment_binding \<Rightarrow> session_record \<Rightarrow> int \<Rightarrow> authorization_result res \<times> fenced_store" where
  "bind_settlement s jobId b r now =
     (case settlement_conflict s jobId b of
        Some owner \<Rightarrow> (Inr (Auth_Refused Settlement_Replay (Some owner) (Some r)), s)
      | None \<Rightarrow>
          (let next = with_authorization r b now in
           if sessionRecordShapeViolation next \<noteq> None then (throw ''invalid session authorization'', s)
           else (Inr (Authorized next), set_session jobId next (set_settlement (pb_settlementId b) jobId b s))))"

text \<open>A repeated call with an authorisation the session already has: the markers are written again.\<close>

definition repeat_authorization ::
  "fenced_store \<Rightarrow> string \<Rightarrow> payment_binding \<Rightarrow> session_record \<Rightarrow> authorization_result res \<times> fenced_store" where
  "repeat_authorization s jobId b r =
     (let h = pb_agreementHash b in
      if hash_conflict s h jobId Agreement_Hash
      then (Inr (Auth_Refused Agreement_Conflict (hash_owner s h) (Some r)), s)
      else (case settlement_conflict s jobId b of
              Some owner \<Rightarrow> (Inr (Auth_Refused Settlement_Replay (Some owner) (Some r)), s)
            | None \<Rightarrow> (Inr (Authorized r), set_settlement (pb_settlementId b) jobId b (set_hash h jobId Agreement_Hash s))))"

text \<open>A new authorisation: the agreement is bound to the session before the settlement marker.\<close>

definition fresh_authorization ::
  "fenced_store \<Rightarrow> string \<Rightarrow> payment_binding \<Rightarrow> session_record \<Rightarrow> int \<Rightarrow> authorization_result res \<times> fenced_store" where
  "fresh_authorization s jobId b r now =
     (let h = pb_agreementHash b in
      if hash_conflict s h jobId Agreement_Hash
      then (Inr (Auth_Refused Agreement_Conflict (hash_owner s h) (Some r)), s)
      else if sr_agreementHash r = None
      then (let next = with_agreement r h now in
            if sessionRecordShapeViolation next \<noteq> None then (throw ''invalid set-once agreement binding'', s)
            else bind_settlement (set_session jobId next (set_hash h jobId Agreement_Hash s)) jobId b next now)
      else bind_settlement (if get_hash s h = None then set_hash h jobId Agreement_Hash s else s) jobId b r now)"

definition bindSessionAuthorization ::
  "int \<Rightarrow> fenced_store \<Rightarrow> authorization_input \<Rightarrow> authorization_result res \<times> fenced_store" where
  "bindSessionAuthorization clock s rawInput =
     with_input (snapshotFencedAuthorizationInput rawInput) s (\<lambda>i.
       let jobId = au_jobId i; b = au_binding i; now = instant (au_now i) clock in
       case get_session s jobId of
         None \<Rightarrow> (Inr (Auth_Refused (Auth_Failure Not_Found) None None), s)
       | Some r \<Rightarrow>
           (let refuse = (\<lambda>f. (Inr (Auth_Refused (Auth_Failure f) None (Some r)), s));
                prior = phase_binding r b in
            if sr_agreementHash r \<noteq> None \<and> sr_agreementHash r \<noteq> Some (pb_agreementHash b)
            then (Inr (Auth_Refused Agreement_Conflict None (Some r)), s)
            else if (case prior of None \<Rightarrow> False | Some p \<Rightarrow> samePaymentBinding p b) then repeat_authorization s jobId b r
            else if sessionPhaseIsTerminal (sr_phase r) then refuse Terminal_State
            else if sr_lease r = None then refuse Lease_Fenced
            else (case leaseFailure r (au_leaseToken i) now of
                    Some f \<Rightarrow> refuse f
                  | None \<Rightarrow>
                      if \<not> sessionAuthorizationPhaseAllowed r then refuse Phase_Regression
                      else if prior \<noteq> None then (Inr (Auth_Refused Payment_Conflict None (Some r)), s)
                      else fresh_authorization s jobId b r now)))"

text \<open>The end of \<open>bindHash\<close>: an agreement hash is also written to a session that has none.\<close>

definition record_agreement :: "int \<Rightarrow> fenced_store \<Rightarrow> bind_hash_input \<Rightarrow> fenced_store" where
  "record_agreement clock s i =
     (case get_session s (bh_jobId i) of
        Some r \<Rightarrow>
          if bh_kind i = Agreement_Hash \<and> sr_agreementHash r = None
          then set_session (bh_jobId i) (with_agreement r (bh_hash i) clock) s else s
      | None \<Rightarrow> s)"

definition bindHash :: "int \<Rightarrow> fenced_store \<Rightarrow> bind_hash_input \<Rightarrow> (bool \<times> string) res \<times> fenced_store" where
  "bindHash clock s rawInput =
     with_input (snapshotFencedBindHashInput rawInput) s (\<lambda>i.
       let h = bh_hash i; jobId = bh_jobId i; kind = bh_kind i; current = get_session s jobId in
       if kind = Agreement_Hash \<and>
          (case current of None \<Rightarrow> False
           | Some r \<Rightarrow> sessionPhaseIsSellerFailureOrigin (sr_phase r) \<or> sessionPhaseIsTerminal (sr_phase r))
       then (Inr (Option.bind current sr_agreementHash = Some h, jobId), s)
       else if kind = Agreement_Hash \<and> Option.bind current sr_agreementHash \<noteq> None \<and> Option.bind current sr_agreementHash \<noteq> Some h
       then (Inr (False, jobId), s)
       else if kind = Agreement_Hash \<and>
               (case current of None \<Rightarrow> False | Some r \<Rightarrow> sr_agreementHash r = None \<and> sr_leaseGeneration r > 0)
       then (Inr (False, jobId), s)
       else (case get_hash s h of
               Some (owner, k) \<Rightarrow>
                 if owner \<noteq> jobId \<or> k \<noteq> kind then (Inr (False, owner), s) else (Inr (True, jobId), record_agreement clock s i)
             | None \<Rightarrow>
                 if (case current of None \<Rightarrow> False | Some r \<Rightarrow> sr_leaseGeneration r > 0) then (Inr (False, jobId), s)
                 else (Inr (True, jobId), record_agreement clock (set_hash h jobId kind s) i)))"

section \<open>Listing\<close>

record list_filter =
  lf_phase :: "string option"
  lf_limit :: "int option"

text \<open>\<^verbatim>\<open>compareFencedSessionRecords(left, right) <= 0\<close>, with \<open>before\<close> for \<^verbatim>\<open>localeCompare(...) <= 0\<close>.\<close>

definition compareFencedSessionRecords :: "(string \<Rightarrow> string \<Rightarrow> bool) \<Rightarrow> session_record \<Rightarrow> session_record \<Rightarrow> bool" where
  "compareFencedSessionRecords before l r =
     (if sr_updatedAt r \<noteq> sr_updatedAt l then sr_updatedAt r < sr_updatedAt l
      else if sr_createdAt l \<noteq> sr_createdAt r then sr_createdAt l < sr_createdAt r
      else before (sr_jobId l) (sr_jobId r))"

definition snapshotFencedListFilter :: "list_filter option \<Rightarrow> bool" where
  "snapshotFencedListFilter f =
     (case f of None \<Rightarrow> True
      | Some f \<Rightarrow> optional_text_ok (lf_phase f) \<and> (case lf_limit f of None \<Rightarrow> True | Some n \<Rightarrow> isNonNegativeInteger n))"

definition list_sessions :: "(string \<Rightarrow> string \<Rightarrow> bool) \<Rightarrow> fenced_store \<Rightarrow> list_filter option \<Rightarrow> session_record list res" where
  "list_sessions before s rawFilter =
     ensure (snapshotFencedListFilter rawFilter) ''list filter''
     (let records = map snd (fs_sessions s);
          filtered = (case Option.bind rawFilter lf_phase of None \<Rightarrow> records | Some p \<Rightarrow> filter (\<lambda>r. sr_phase r = p) records);
          sorted = sort_by (compareFencedSessionRecords before) filtered in
      Inr (case Option.bind rawFilter lf_limit of None \<Rightarrow> sorted | Some n \<Rightarrow> take (nat n) sorted))"

end
