(* ===== verification/Dacs_Fenced_Phase.thy ===== *)
theory Dacs_Fenced_Phase
  imports Dacs_Fenced_Store
begin

text \<open>
  The lifecycles of a fenced session: what each guarded change of phase of
  \<^verbatim>\<open>src/src/agent/fencedSessionStore.ts\<close> can lead to. The bundle lifecycles of seller, buyer and terminal
  bundles are unscoped and only move forward; deliveries move forward in their index and, within one
  index, in their rank.
\<close>

section \<open>The lifecycles are disjoint\<close>

lemma seller_bundle_phases:
  assumes "sellerBundlePhaseRank p = Some n"
  shows "terminalBundlePhaseProgress p = None" "buyerBundlePhaseRank p = None" "sellerDeliveryPhaseProgress p = None"
    "p \<noteq> ''seller:failed''" "p \<noteq> ''buyer:finalised''"
  using assms unfolding sellerBundlePhaseRank_def
  by (auto simp: terminalBundlePhaseProgress_def buyerBundlePhaseRank_def sellerDeliveryPhaseProgress_def split: if_splits)

lemma buyer_bundle_phases:
  assumes "buyerBundlePhaseRank p = Some n"
  shows "terminalBundlePhaseProgress p = None" "sellerBundlePhaseRank p = None" "sellerDeliveryPhaseProgress p = None"
    "p \<noteq> ''seller:failed''" "p \<noteq> ''buyer:finalised''"
  using assms unfolding buyerBundlePhaseRank_def
  by (auto simp: terminalBundlePhaseProgress_def sellerBundlePhaseRank_def sellerDeliveryPhaseProgress_def split: if_splits)

lemma delivery_parts:
  assumes "sellerDeliveryPhaseProgress p = Some c"
  obtains step idx where "splitOn (CHR '':'') p = [''seller'', step, idx]"
  using assms by (auto simp: sellerDeliveryPhaseProgress_def split: list.splits if_splits)

lemma delivery_phases:
  assumes "sellerDeliveryPhaseProgress p = Some c"
  shows "terminalBundlePhaseProgress p = None" "sellerBundlePhaseRank p = None" "buyerBundlePhaseRank p = None" "p \<noteq> ''buyer:finalised''"
proof -
  obtain step idx where p: "splitOn (CHR '':'') p = [''seller'', step, idx]" using assms by (rule delivery_parts)
  then show "terminalBundlePhaseProgress p = None" by (simp add: terminalBundlePhaseProgress_def)
  show "p \<noteq> ''buyer:finalised''" using p by auto
  show "sellerBundlePhaseRank p = None" "buyerBundlePhaseRank p = None"
    using assms seller_bundle_phases(3) [of p] buyer_bundle_phases(3) [of p] by fastforce+
qed

lemma terminal_phases:
  assumes "terminalBundlePhaseProgress p = Some c"
  shows "sellerBundlePhaseRank p = None" "buyerBundlePhaseRank p = None" "sellerDeliveryPhaseProgress p = None" "p \<noteq> ''buyer:finalised''"
proof -
  show "sellerBundlePhaseRank p = None" "buyerBundlePhaseRank p = None" "sellerDeliveryPhaseProgress p = None"
    using assms seller_bundle_phases(1) [of p] buyer_bundle_phases(1) [of p] delivery_phases(1) [of p] by fastforce+
  show "p \<noteq> ''buyer:finalised''" using assms by (auto simp: terminalBundlePhaseProgress_def)
qed

lemma failure_origin_phases:
  assumes "sessionPhaseIsSellerFailureOrigin p"
  shows "sellerBundlePhaseRank p = None" "buyerBundlePhaseRank p = None" "terminalBundlePhaseProgress p = None" "p \<noteq> ''buyer:finalised''"
proof -
  have "p = ''seller:failed'' \<or> (\<exists>c. sellerDeliveryPhaseProgress p = Some c)"
    using assms by (auto simp: sessionPhaseIsSellerFailureOrigin_def split: option.splits)
  then show "sellerBundlePhaseRank p = None" "buyerBundlePhaseRank p = None" "terminalBundlePhaseProgress p = None" "p \<noteq> ''buyer:finalised''"
    by (auto dest: delivery_phases) (auto simp: sellerBundlePhaseRank_def buyerBundlePhaseRank_def terminalBundlePhaseProgress_def)
qed

section \<open>Forward only\<close>

definition phase_forward :: "string \<Rightarrow> string \<Rightarrow> bool" where
  "phase_forward p p' \<longleftrightarrow>
     (\<forall>c. terminalBundlePhaseProgress p = Some c \<longrightarrow>
        (\<exists>c'. terminalBundlePhaseProgress p' = Some c' \<and> tp_role c' = tp_role c \<and> tp_rank c \<le> tp_rank c')) \<and>
     (\<forall>c. sellerBundlePhaseRank p = Some c \<longrightarrow>
        p' = ''seller:finalised'' \<or> (\<exists>c'. sellerBundlePhaseRank p' = Some c' \<and> c \<le> c')) \<and>
     (\<forall>c. buyerBundlePhaseRank p = Some c \<longrightarrow>
        p' = ''buyer:finalised'' \<or> (\<exists>c'. buyerBundlePhaseRank p' = Some c' \<and> c \<le> c')) \<and>
     (\<forall>c. sellerDeliveryPhaseProgress p = Some c \<longrightarrow>
        p' = ''seller:finalised'' \<or>
        (\<exists>c'. sellerDeliveryPhaseProgress p' = Some c' \<and>
           (dp_index c < dp_index c' \<or> dp_index c = dp_index c' \<and> dp_rank c \<le> dp_rank c')) \<or>
        dp_outcome c = Some Delivery_Completed \<and> sellerBundlePhaseRank p' = Some 0 \<or>
        sessionPhaseIsSellerFailureOrigin p \<and> (\<exists>c'. terminalBundlePhaseProgress p' = Some c' \<and> tp_role c' = ''seller'' \<and> tp_rank c' = 0))"

lemma phase_forward_refl [simp]: "phase_forward p p"
  by (auto simp: phase_forward_def)

abbreviation next_phase :: "string \<Rightarrow> string option \<Rightarrow> string" where
  "next_phase p np \<equiv> (case np of None \<Rightarrow> p | Some p' \<Rightarrow> p')"

lemma forward_from_terminal:
  assumes "sessionPhaseMutationAllowed r (Some p')" "terminalBundlePhaseProgress (sr_phase r) = Some c"
  shows "phase_forward (sr_phase r) p'"
proof -
  obtain n where n: "terminalBundlePhaseProgress p' = Some n" "tp_role n = tp_role c"
    and r: "tp_final n \<Longrightarrow> tp_stage c = ''bundle-binding-publication-pending''" "\<not> tp_final n \<Longrightarrow> tp_rank c \<le> tp_rank n"
    using assms by (auto simp: sessionPhaseMutationAllowed_def Let_def split: if_splits option.splits)
  have ranks: "q = Some x \<Longrightarrow> (tp_final x \<longrightarrow> tp_rank x = 8) \<and> (tp_stage x = ''bundle-binding-publication-pending'' \<longrightarrow> tp_rank x = 7)"
    if "q = terminalBundlePhaseProgress z" for q x z
    using that by (auto simp: terminalBundlePhaseProgress_def TERMINAL_BUNDLE_STAGE_RANK_def split: list.splits if_splits)
  have "tp_rank c \<le> tp_rank n" using r ranks [OF refl n(1)] ranks [OF refl assms(2)] by (cases "tp_final n") auto
  then show ?thesis using n terminal_phases [OF assms(2)] assms(2) by (simp add: phase_forward_def)
qed

lemma forward_from_seller_bundle:
  assumes "sessionPhaseMutationAllowed r (Some p')" "sellerBundlePhaseRank (sr_phase r) = Some c"
  shows "phase_forward (sr_phase r) p'"
proof -
  have "\<not> sessionPhaseIsSellerFailureOrigin (sr_phase r)"
    using failure_origin_phases(1) [of "sr_phase r"] assms(2) by auto
  then have "p' = ''seller:finalised'' \<or> (\<exists>c'. sellerBundlePhaseRank p' = Some c' \<and> c \<le> c')"
    using assms seller_bundle_phases [OF assms(2)]
    by (auto simp: sessionPhaseMutationAllowed_def Let_def split: if_splits option.splits)
  then show ?thesis using assms(2) seller_bundle_phases [OF assms(2)] by (simp add: phase_forward_def)
qed

lemma forward_from_buyer_bundle:
  assumes "sessionPhaseMutationAllowed r (Some p')" "buyerBundlePhaseRank (sr_phase r) = Some c"
  shows "phase_forward (sr_phase r) p'"
proof -
  have "\<not> sessionPhaseIsSellerFailureOrigin (sr_phase r)"
    using failure_origin_phases(2) [of "sr_phase r"] assms(2) by auto
  then have "p' = ''buyer:finalised'' \<or> (\<exists>c'. buyerBundlePhaseRank p' = Some c' \<and> c \<le> c')"
    using assms buyer_bundle_phases [OF assms(2)]
    by (auto simp: sessionPhaseMutationAllowed_def Let_def split: if_splits option.splits)
  then show ?thesis using assms(2) buyer_bundle_phases [OF assms(2)] by (simp add: phase_forward_def)
qed

lemma delivery_advance_forward:
  assumes "delivery_advance_allowed r (Some p')" "sellerDeliveryPhaseProgress (sr_phase r) = Some c"
  shows "\<exists>c'. sellerDeliveryPhaseProgress p' = Some c' \<and> (dp_index c < dp_index c' \<or> dp_index c = dp_index c' \<and> dp_rank c \<le> dp_rank c')"
  using assms by (auto simp: delivery_advance_allowed_def Let_def split: if_splits option.splits)

lemma forward_from_delivery:
  assumes "sessionPhaseMutationAllowed r (Some p')" "sellerDeliveryPhaseProgress (sr_phase r) = Some c"
  shows "phase_forward (sr_phase r) p'"
proof -
  have "p' = ''seller:finalised'' \<or> delivery_advance_allowed r (Some p') \<or>
      dp_outcome c = Some Delivery_Completed \<and> sellerBundlePhaseRank p' = Some 0 \<or>
      sessionPhaseIsSellerFailureOrigin (sr_phase r) \<and> (\<exists>c'. terminalBundlePhaseProgress p' = Some c' \<and> tp_role c' = ''seller'' \<and> tp_rank c' = 0)"
    using assms delivery_phases [OF assms(2)]
    by (auto simp: sessionPhaseMutationAllowed_def Let_def split: if_splits option.splits)
  then show ?thesis using assms(2) delivery_phases [OF assms(2)] delivery_advance_forward [OF _ assms(2), of p']
    by (auto simp: phase_forward_def)
qed

lemma mutation_allowed_forward:
  assumes "sessionPhaseMutationAllowed r np"
  shows "phase_forward (sr_phase r) (next_phase (sr_phase r) np)"
proof (cases np)
  case (Some p')
  show ?thesis
  proof (cases "terminalBundlePhaseProgress (sr_phase r) = None \<and> sellerBundlePhaseRank (sr_phase r) = None \<and>
      buyerBundlePhaseRank (sr_phase r) = None \<and> sellerDeliveryPhaseProgress (sr_phase r) = None")
    case True
    then show ?thesis by (simp add: phase_forward_def)
  next
    case False
    then show ?thesis using assms Some
      by (auto dest: forward_from_terminal forward_from_seller_bundle forward_from_buyer_bundle forward_from_delivery)
  qed
qed simp

end
