(* ===== verification/Dacs_Fenced_Safety.thy ===== *)
theory Dacs_Fenced_Safety
  imports Dacs_Fenced_Phase "HOL-Library.Sublist"
begin

text \<open>
  The invariant of the generation-fenced session store and what no step ever undoes. A step is one
  operation of any worker, at any clock, whatever its result. Every operation is first described by
  what it does to the store; the invariant and the monotonicity of records follow from that.
\<close>

inductive fenced_step :: "fenced_store \<Rightarrow> fenced_store \<Rightarrow> bool" where
  step_create: "create clock s i = (res, s') \<Longrightarrow> fenced_step s s'"
| step_transition: "transition clock s i = (res', s') \<Longrightarrow> fenced_step s s'"
| step_claim: "claimCheckpoint clock s c = (res'', s') \<Longrightarrow> fenced_step s s'"
| step_acquire: "acquireLease clock s a = (lr, s') \<Longrightarrow> fenced_step s s'"
| step_renew: "renewLease clock s n = (lr, s') \<Longrightarrow> fenced_step s s'"
| step_authorize: "bindSessionAuthorization clock s u = (ar, s') \<Longrightarrow> fenced_step s s'"
| step_bind_hash: "bindHash clock s b = (br, s') \<Longrightarrow> fenced_step s s'"

section \<open>Lookups\<close>

lemma get_set_session [simp]:
  "get_session (set_session j r s) k = (if k = j then Some r else get_session s k)"
  "get_session (set_hash h j' kd s) k = get_session s k" "get_session (set_settlement sid j' b s) k = get_session s k"
  by (simp_all add: get_session_def set_session_def set_hash_def set_settlement_def update_conv')

lemma get_set_hash [simp]:
  "get_hash (set_hash h j kd s) k = (if k = h then Some (j, kd) else get_hash s k)"
  "get_hash (set_session j' r s) k = get_hash s k" "get_hash (set_settlement sid j' b s) k = get_hash s k"
  by (simp_all add: get_hash_def set_session_def set_hash_def set_settlement_def update_conv')

lemma get_set_settlement [simp]:
  "get_settlement (set_settlement sid j b s) k = (if k = sid then Some (j, b) else get_settlement s k)"
  "get_settlement (set_session j' r s) k = get_settlement s k" "get_settlement (set_hash h j' kd s) k = get_settlement s k"
  by (simp_all add: get_settlement_def set_session_def set_hash_def set_settlement_def update_conv')

lemma hash_nonempty: "is_hash h \<Longrightarrow> isNonEmptyString h"
proof -
  assume h: "is_hash h"
  have ns: "list_all (\<lambda>c. \<not> is_space c) h"
    using h by (auto simp: is_hash_def list_all_iff is_hex_lower_def is_digit_def is_space_def)
  have d: "dropWhile is_space xs = xs" if "list_all (\<lambda>c. \<not> is_space c) xs" for xs
    using that by (cases xs) auto
  have "trim h = h" using d [OF ns] d [of "rev h"] ns by (simp add: trim_def trimEnd_def list_all_rev)
  then show ?thesis using h by (auto simp: isNonEmptyString_def is_hash_def)
qed

lemma samePaymentBinding_eq [simp]: "samePaymentBinding a b \<longleftrightarrow> a = b"
  by (cases a; cases b) (auto simp: samePaymentBinding_def)

section \<open>Shape up to the revision\<close>

text \<open>
  \<open>bindHash\<close> stores a record without checking it again. What it can break is only the bound of the
  revision counter, so the invariant is the shape of a record apart from that bound.
\<close>

definition shape_ok :: "session_record \<Rightarrow> bool" where
  "shape_ok r \<longleftrightarrow> well_formed (r\<lparr>sr_revision := 0\<rparr>) \<and> 0 \<le> sr_revision r"

lemma well_formed_iff: "well_formed r \<longleftrightarrow> shape_ok r \<and> isSafeInteger (sr_revision r)"
  by (auto simp: shape_ok_def sessionRecordShapeViolation_def isNonNegativeInteger_def isSafeInteger_def max_safe_def cong: option.case_cong)

lemma shape_authorizations:
  "shape_ok r \<Longrightarrow> authorizationsViolation (sr_agreementHash r) [] (sr_paymentAuthorizations r) = None"
  by (simp add: shape_ok_def sessionRecordShapeViolation_def)

lemma authorizations_agreement:
  "authorizationsViolation h seen bs = None \<Longrightarrow> b \<in> set bs \<Longrightarrow> h = Some (pb_agreementHash b)"
  by (induction h seen bs rule: authorizationsViolation.induct) (auto split: option.splits)

lemma authorizations_distinct:
  "authorizationsViolation h seen bs = None \<Longrightarrow>
   distinct (map pb_settlementId bs) \<and> distinct (map pb_paymentPhaseIndex bs) \<and> distinct (map pb_deliveryPhaseIndex bs) \<and>
   pb_settlementId ` set seen \<inter> pb_settlementId ` set bs = {} \<and> pb_paymentPhaseIndex ` set seen \<inter> pb_paymentPhaseIndex ` set bs = {} \<and>
   pb_deliveryPhaseIndex ` set seen \<inter> pb_deliveryPhaseIndex ` set bs = {}"
  by (induction h seen bs rule: authorizationsViolation.induct) (auto split: option.splits)

lemma shape_no_agreement: "shape_ok r \<Longrightarrow> sr_agreementHash r = None \<Longrightarrow> sr_paymentAuthorizations r = []"
  using shape_authorizations [of r] authorizations_agreement [of "sr_agreementHash r" "[]" "sr_paymentAuthorizations r"]
  by (cases "sr_paymentAuthorizations r") fastforce+

lemma shape_with_agreement:
  assumes "shape_ok r" "sr_agreementHash r = None" "isNonEmptyString h"
  shows "shape_ok (with_agreement r h now)"
  using assms shape_no_agreement [OF assms(1,2)]
  by (simp add: shape_ok_def with_agreement_def sessionRecordShapeViolation_def cong: option.case_cong)

section \<open>What each operation does\<close>

lemma snapshots_return_input:
  "snapshotFencedCreateInput i1 = Inr x1 \<Longrightarrow> x1 = i1" "snapshotFencedTransitionInput i2 = Inr x2 \<Longrightarrow> x2 = i2"
  "snapshotFencedCheckpointClaimInput i3 = Inr x3 \<Longrightarrow> x3 = i3" "snapshotFencedAcquireLeaseInput c i4 = Inr x4 \<Longrightarrow> x4 = i4"
  "snapshotFencedRenewLeaseInput c i5 = Inr x5 \<Longrightarrow> x5 = i5" "snapshotFencedAuthorizationInput i6 = Inr x6 \<Longrightarrow> x6 = i6"
  "snapshotFencedBindHashInput i7 = Inr x7 \<Longrightarrow> x7 = i7"
  by (simp_all add: snapshotFencedCreateInput_def snapshotFencedTransitionInput_def snapshotFencedCheckpointClaimInput_def
      snapshotFencedAcquireLeaseInput_def snapshotFencedRenewLeaseInput_def snapshotFencedAuthorizationInput_def
      snapshotFencedBindHashInput_def ensure_Inr)

lemma with_input_Inl [simp]: "with_input (Inl e) s f = (Inl e, s)" "with_input (Inr i) s f = f i"
  by (simp_all add: with_input_def)

lemma store_checked_cases:
  assumes "store_checked j s next m x = (res, s')"
  obtains "s' = s" | "well_formed next" "s' = set_session j next s" "res = Inr x"
  using assms by (auto simp: store_checked_def split: if_splits)

lemma transition_effect:
  assumes "transition clock s i = (res, s')"
  obtains (unchanged) "s' = s" "\<And>r. res \<noteq> Inr (Mutated r)"
    | (changed) r now where "get_session s (ti_jobId i) = Some r" "now = instant (ti_now i) clock" "\<not> sessionPhaseIsTerminal (sr_phase r)"
        "leaseFailure r (ti_leaseToken i) now = None" "releases_only i \<or> sessionPhaseMutationAllowed r (ti_phase i)"
        "well_formed (transitioned r i now)" "s' = set_session (ti_jobId i) (transitioned r i now) s"
        "res = Inr (Mutated (transitioned r i now))"
proof (cases "snapshotFencedTransitionInput i")
  case (Inl e)
  then show thesis using assms unchanged by (auto simp: transition_def)
next
  case (Inr i')
  have [simp]: "i' = i" using Inr by (rule snapshots_return_input)
  show thesis
  proof (cases "get_session s (ti_jobId i)")
    case None
    then show thesis using assms Inr unchanged by (auto simp: transition_def)
  next
    case (Some r)
    then show thesis using assms Inr unchanged changed [OF Some]
      by (auto simp: transition_def Let_def store_checked_def split: if_splits option.splits)
  qed
qed

lemma claim_effect:
  assumes "claimCheckpoint clock s i = (res, s')"
  obtains (unchanged) "s' = s" "\<And>r. res \<noteq> Inr (Claimed r)"
    | (changed) r now where "get_session s (cc_jobId i) = Some r" "now = instant (cc_now i) clock" "\<not> sessionPhaseIsTerminal (sr_phase r)"
        "leaseFailure r (cc_leaseToken i) now = None" "sessionPhaseMutationAllowed r (cc_phase i)"
        "well_formed (claimed r i now)" "s' = set_session (cc_jobId i) (claimed r i now) s" "res = Inr (Claimed (claimed r i now))"
        "last_checkpoint (sr_checkpoints r) (cc_key i) = None"
proof (cases "snapshotFencedCheckpointClaimInput i")
  case (Inl e)
  then show thesis using assms unchanged by (auto simp: claimCheckpoint_def)
next
  case (Inr i')
  have [simp]: "i' = i" using Inr by (rule snapshots_return_input)
  show thesis
  proof (cases "get_session s (cc_jobId i)")
    case None
    then show thesis using assms Inr unchanged by (auto simp: claimCheckpoint_def)
  next
    case (Some r)
    then show thesis using assms Inr unchanged changed [OF Some]
      by (auto simp: claimCheckpoint_def Let_def store_checked_def split: if_splits option.splits)
  qed
qed

lemma acquire_effect:
  assumes "acquireLease clock s i = (res, s')"
  obtains (unchanged) "s' = s" "\<And>r l. res \<noteq> Inr (Leased r l)"
    | (changed) r now where "get_session s (ai_jobId i) = Some r" "now = instant (ai_now i) clock" "\<not> sessionPhaseIsTerminal (sr_phase r)"
        "\<forall>l. sr_lease r = Some l \<longrightarrow> sl_expiresAt l \<le> now"
        "well_formed (with_fresh_lease r i now)" "s' = set_session (ai_jobId i) (with_fresh_lease r i now) s"
        "res = Inr (Leased (with_fresh_lease r i now) (fresh_lease r i now))"
proof (cases "snapshotFencedAcquireLeaseInput clock i")
  case (Inl e)
  then show thesis using assms unchanged by (auto simp: acquireLease_def)
next
  case (Inr i')
  have [simp]: "i' = i" using Inr by (rule snapshots_return_input)
  show thesis
  proof (cases "get_session s (ai_jobId i)")
    case None
    then show thesis using assms Inr unchanged by (auto simp: acquireLease_def)
  next
    case (Some r)
    then show thesis using assms Inr unchanged changed [OF Some]
      by (auto simp: acquireLease_def Let_def store_checked_def not_less split: if_splits option.splits)
  qed
qed

lemma renew_effect:
  assumes "renewLease clock s i = (res, s')"
  obtains (unchanged) "s' = s" "\<And>r l. res \<noteq> Inr (Leased r l)"
    | (changed) r l now where "get_session s (ri_jobId i) = Some r" "now = instant (ri_now i) clock" "\<not> sessionPhaseIsTerminal (sr_phase r)"
        "leaseFailure r (Some (ri_leaseToken i)) now = None" "sr_lease r = Some l"
        "well_formed (renewed r l now (ri_ttlMs i))" "s' = set_session (ri_jobId i) (renewed r l now (ri_ttlMs i)) s"
        "res = Inr (Leased (renewed r l now (ri_ttlMs i)) (l\<lparr>sl_expiresAt := now + ri_ttlMs i\<rparr>))"
proof (cases "snapshotFencedRenewLeaseInput clock i")
  case (Inl e)
  then show thesis using assms unchanged by (auto simp: renewLease_def)
next
  case (Inr i')
  have [simp]: "i' = i" using Inr by (rule snapshots_return_input)
  show thesis
  proof (cases "get_session s (ri_jobId i)")
    case None
    then show thesis using assms Inr unchanged by (auto simp: renewLease_def)
  next
    case (Some r)
    then show thesis using assms Inr unchanged changed [OF Some]
      by (auto simp: renewLease_def Let_def store_checked_def split: if_splits option.splits)
  qed
qed

lemma create_effect:
  assumes "create clock s i = (res, s')"
  obtains (unchanged) "s' = s"
    | (created) now where "get_session s (ci_jobId i) = None" "well_formed (new_record i now)"
        "\<not> (case ci_agreementHash i of None \<Rightarrow> False | Some h \<Rightarrow> hash_conflict s h (ci_jobId i) Agreement_Hash)"
        "s' = (case ci_agreementHash i of None \<Rightarrow> id | Some h \<Rightarrow> set_hash h (ci_jobId i) Agreement_Hash)
                (set_session (ci_jobId i) (new_record i now) s)"
proof (cases "snapshotFencedCreateInput i")
  case (Inl e)
  then show thesis using assms unchanged by (auto simp: create_def)
next
  case (Inr i')
  have [simp]: "i' = i" using Inr by (rule snapshots_return_input)
  from Inr assms show thesis using unchanged created
    by (auto simp: create_def Let_def split: if_splits)
qed

lemma bind_settlement_effect:
  assumes "bind_settlement s jobId b r now = (res, s')"
  obtains (unchanged) "s' = s" "\<And>r. res \<noteq> Inr (Authorized r)"
    | (bound) "settlement_conflict s jobId b = None" "well_formed (with_authorization r b now)"
        "s' = set_session jobId (with_authorization r b now) (set_settlement (pb_settlementId b) jobId b s)"
        "res = Inr (Authorized (with_authorization r b now))"
  using assms by (auto simp: bind_settlement_def Let_def split: if_splits option.splits)

lemma find_member: "find P xs = Some x \<Longrightarrow> x \<in> set xs"
  by (induction xs) (auto split: if_splits)

lemma authorize_cases:
  assumes "bindSessionAuthorization clock s i = (res, s')"
  obtains (unchanged) "s' = s" "\<And>r. res \<noteq> Inr (Authorized r)"
    | (repeated) r where "get_session s (au_jobId i) = Some r" "au_binding i \<in> set (sr_paymentAuthorizations r)"
        "repeat_authorization s (au_jobId i) (au_binding i) r = (res, s')"
        "sr_agreementHash r = None \<or> sr_agreementHash r = Some (pb_agreementHash (au_binding i))"
    | (fresh) r now where "get_session s (au_jobId i) = Some r" "now = instant (au_now i) clock"
        "\<not> sessionPhaseIsTerminal (sr_phase r)" "sr_lease r \<noteq> None" "leaseFailure r (au_leaseToken i) now = None"
        "sr_agreementHash r = None \<or> sr_agreementHash r = Some (pb_agreementHash (au_binding i))"
        "isNonEmptyString (pb_agreementHash (au_binding i))"
        "fresh_authorization s (au_jobId i) (au_binding i) r now = (res, s')"
proof (cases "snapshotFencedAuthorizationInput i")
  case (Inl e)
  then show thesis using assms unchanged by (auto simp: bindSessionAuthorization_def)
next
  case (Inr i')
  have [simp]: "i' = i" using Inr by (rule snapshots_return_input)
  have h: "isNonEmptyString (pb_agreementHash (au_binding i))"
    using Inr by (simp add: snapshotFencedAuthorizationInput_def ensure_Inr paymentBindingShapeViolation_def hash_nonempty)
  show thesis
  proof (cases "get_session s (au_jobId i)")
    case None
    then show thesis using assms Inr unchanged by (auto simp: bindSessionAuthorization_def Let_def)
  next
    case (Some r)
    let ?b = "au_binding i" let ?now = "instant (au_now i) clock"
    show thesis
    proof (cases "sr_agreementHash r = None \<or> sr_agreementHash r = Some (pb_agreementHash ?b)")
      case False
      then show thesis using assms Inr Some unchanged by (auto simp: bindSessionAuthorization_def Let_def)
    next
      case agreement: True
      then have na: "\<not> (sr_agreementHash r \<noteq> None \<and> sr_agreementHash r \<noteq> Some (pb_agreementHash ?b))" by auto
      show thesis
      proof (cases "phase_binding r ?b = Some ?b")
        case True
        then have "?b \<in> set (sr_paymentAuthorizations r)" unfolding phase_binding_def by (rule find_member)
        moreover have "repeat_authorization s (au_jobId i) ?b r = (res, s')"
          using assms Inr Some na True by (auto simp: bindSessionAuthorization_def Let_def split: if_splits)
        ultimately show thesis using repeated [OF Some] agreement by blast
      next
        case False
        then have nb: "(case phase_binding r ?b of None \<Rightarrow> False | Some p \<Rightarrow> samePaymentBinding p ?b) = False"
          by (auto split: option.splits)
        show thesis
        proof (cases "sessionPhaseIsTerminal (sr_phase r) \<or> sr_lease r = None \<or> \<not> sessionAuthorizationPhaseAllowed r \<or> phase_binding r ?b \<noteq> None")
          case True
          then show thesis using assms Inr Some na nb unchanged
            by (cases "leaseFailure r (au_leaseToken i) ?now") (auto simp: bindSessionAuthorization_def Let_def split: if_splits)
        next
          case False
          then show thesis using assms Inr Some na nb agreement h unchanged fresh [OF Some refl]
            by (cases "leaseFailure r (au_leaseToken i) ?now") (auto simp: bindSessionAuthorization_def Let_def)
        qed
      qed
    qed
  qed
qed

lemma bind_hash_cases:
  assumes "bindHash clock s i = (res, s')"
  obtains (unchanged) "s' = s"
    | (bound) s1 where "s' = record_agreement clock s1 i"
        "get_hash s (bh_hash i) = Some (bh_jobId i, bh_kind i) \<and> s1 = s \<or>
         get_hash s (bh_hash i) = None \<and> s1 = set_hash (bh_hash i) (bh_jobId i) (bh_kind i) s"
        "isNonEmptyString (bh_hash i)"
        "bh_kind i = Agreement_Hash \<Longrightarrow> \<forall>r. get_session s (bh_jobId i) = Some r \<longrightarrow>
           \<not> sessionPhaseIsTerminal (sr_phase r) \<and> (sr_agreementHash r = None \<longrightarrow> sr_leaseGeneration r \<le> 0)"
proof (cases "snapshotFencedBindHashInput i")
  case (Inl e)
  then show thesis using assms unchanged by (auto simp: bindHash_def)
next
  case (Inr i')
  have [simp]: "i' = i" using Inr by (rule snapshots_return_input)
  have h: "isNonEmptyString (bh_hash i)" using Inr by (simp add: snapshotFencedBindHashInput_def ensure_Inr)
  show thesis
  proof (cases "get_session s (bh_jobId i)")
    case None
    then show thesis using assms Inr h unchanged bound
      by (auto simp: bindHash_def Let_def split: if_splits option.splits)
  next
    case (Some r)
    then show thesis using assms Inr h unchanged bound
      by (auto simp: bindHash_def Let_def split: if_splits option.splits)
  qed
qed

section \<open>The invariant\<close>

definition fenced_inv :: "fenced_store \<Rightarrow> bool" where
  "fenced_inv s \<longleftrightarrow>
     (\<forall>j r. get_session s j = Some r \<longrightarrow> sr_jobId r = j \<and> shape_ok r) \<and>
     (\<forall>j r h. get_session s j = Some r \<longrightarrow> sr_agreementHash r = Some h \<longrightarrow> get_hash s h = Some (j, Agreement_Hash)) \<and>
     (\<forall>j r b. get_session s j = Some r \<longrightarrow> b \<in> set (sr_paymentAuthorizations r) \<longrightarrow> get_settlement s (pb_settlementId b) = Some (j, b)) \<and>
     (\<forall>sid j b. get_settlement s sid = Some (j, b) \<longrightarrow>
        pb_settlementId b = sid \<and> (\<exists>r. get_session s j = Some r \<and> b \<in> set (sr_paymentAuthorizations r)))"

lemma fenced_invD:
  assumes "fenced_inv s"
  shows "get_session s j = Some r \<Longrightarrow> sr_jobId r = j" "get_session s j = Some r \<Longrightarrow> shape_ok r"
    "get_session s j = Some r \<Longrightarrow> sr_agreementHash r = Some h \<Longrightarrow> get_hash s h = Some (j, Agreement_Hash)"
    "get_session s j = Some r \<Longrightarrow> b \<in> set (sr_paymentAuthorizations r) \<Longrightarrow> get_settlement s (pb_settlementId b) = Some (j, b)"
    "get_settlement s sid = Some (j, b) \<Longrightarrow> pb_settlementId b = sid"
    "get_settlement s sid = Some (j, b) \<Longrightarrow> \<exists>r. get_session s j = Some r \<and> b \<in> set (sr_paymentAuthorizations r)"
  using assms unfolding fenced_inv_def by blast+

lemma fenced_invI:
  assumes "\<And>j r. get_session s j = Some r \<Longrightarrow> sr_jobId r = j \<and> shape_ok r"
    "\<And>j r h. get_session s j = Some r \<Longrightarrow> sr_agreementHash r = Some h \<Longrightarrow> get_hash s h = Some (j, Agreement_Hash)"
    "\<And>j r b. get_session s j = Some r \<Longrightarrow> b \<in> set (sr_paymentAuthorizations r) \<Longrightarrow> get_settlement s (pb_settlementId b) = Some (j, b)"
    "\<And>sid j b. get_settlement s sid = Some (j, b) \<Longrightarrow> pb_settlementId b = sid \<and> (\<exists>r. get_session s j = Some r \<and> b \<in> set (sr_paymentAuthorizations r))"
  shows "fenced_inv s"
  using assms unfolding fenced_inv_def by blast

lemma inv_mutate:
  assumes "fenced_inv s" "get_session s j = Some r" "shape_ok r'" "sr_jobId r' = sr_jobId r"
    "sr_agreementHash r' = sr_agreementHash r" "sr_paymentAuthorizations r' = sr_paymentAuthorizations r"
  shows "fenced_inv (set_session j r' s)"
proof (rule fenced_invI)
  fix j' x
  assume "get_session (set_session j r' s) j' = Some x"
  then show "sr_jobId x = j' \<and> shape_ok x"
    using assms(2-4) fenced_invD(1,2) [OF assms(1)] by (auto split: if_splits)
next
  fix j' x h
  assume "get_session (set_session j r' s) j' = Some x" "sr_agreementHash x = Some h"
  then show "get_hash (set_session j r' s) h = Some (j', Agreement_Hash)"
    using assms(2,5) fenced_invD(3) [OF assms(1)] by (auto split: if_splits)
next
  fix j' x b
  assume "get_session (set_session j r' s) j' = Some x" "b \<in> set (sr_paymentAuthorizations x)"
  then show "get_settlement (set_session j r' s) (pb_settlementId b) = Some (j', b)"
    using assms(2,6) fenced_invD(4) [OF assms(1)] by (auto split: if_splits)
next
  fix sid j' b
  assume "get_settlement (set_session j r' s) sid = Some (j', b)"
  then have g: "get_settlement s sid = Some (j', b)" by simp
  then obtain x where "get_session s j' = Some x" "b \<in> set (sr_paymentAuthorizations x)" using fenced_invD(6) [OF assms(1)] by blast
  then show "pb_settlementId b = sid \<and> (\<exists>x. get_session (set_session j r' s) j' = Some x \<and> b \<in> set (sr_paymentAuthorizations x))"
    using fenced_invD(5) [OF assms(1) g] assms(2,6) by auto
qed

lemma inv_set_hash:
  assumes "fenced_inv s" "get_hash s h = None \<or> get_hash s h = Some (j, k)"
  shows "fenced_inv (set_hash h j k s)"
proof (rule fenced_invI)
  fix j' r h'
  assume "get_session (set_hash h j k s) j' = Some r" "sr_agreementHash r = Some h'"
  then show "get_hash (set_hash h j k s) h' = Some (j', Agreement_Hash)"
    using fenced_invD(3) [OF assms(1), of j' r h'] assms(2) by auto
qed (use fenced_invD [OF assms(1)] in auto)

lemma with_authorization_simps [simp]:
  "sr_jobId (with_authorization r b now) = sr_jobId r" "sr_agreementHash (with_authorization r b now) = sr_agreementHash r"
  "sr_paymentAuthorizations (with_authorization r b now) = sr_paymentAuthorizations r @ [b]"
  by (simp_all add: with_authorization_def)

lemma with_agreement_simps [simp]:
  "sr_jobId (with_agreement r h now) = sr_jobId r" "sr_agreementHash (with_agreement r h now) = Some h"
  "sr_paymentAuthorizations (with_agreement r h now) = sr_paymentAuthorizations r"
  by (simp_all add: with_agreement_def)

lemma inv_agreement:
  assumes "fenced_inv s" "get_session s j = Some r" "sr_agreementHash r = None" "get_hash s h = Some (j, Agreement_Hash)"
    "isNonEmptyString h"
  shows "fenced_inv (set_session j (with_agreement r h now) s)"
proof -
  let ?r = "with_agreement r h now"
  have r: "sr_jobId r = j" "shape_ok r" using fenced_invD(1,2) [OF assms(1,2)] .
  have none: "sr_paymentAuthorizations r = []" by (rule shape_no_agreement [OF r(2) assms(3)])
  show ?thesis
  proof (rule fenced_invI)
    fix j' x
    assume "get_session (set_session j ?r s) j' = Some x"
    then show "sr_jobId x = j' \<and> shape_ok x"
      using r shape_with_agreement [OF r(2) assms(3,5)] fenced_invD(1,2) [OF assms(1)]
      by (auto split: if_splits)
  next
    fix j' x h'
    assume "get_session (set_session j ?r s) j' = Some x" "sr_agreementHash x = Some h'"
    then show "get_hash (set_session j ?r s) h' = Some (j', Agreement_Hash)"
      using assms(4) fenced_invD(3) [OF assms(1)] by (auto split: if_splits)
  next
    fix j' x b
    assume "get_session (set_session j ?r s) j' = Some x" "b \<in> set (sr_paymentAuthorizations x)"
    then show "get_settlement (set_session j ?r s) (pb_settlementId b) = Some (j', b)"
      using none fenced_invD(4) [OF assms(1)] by (auto split: if_splits)
  next
    fix sid j' b
    assume "get_settlement (set_session j ?r s) sid = Some (j', b)"
    then have g: "get_settlement s sid = Some (j', b)" by simp
    then show "pb_settlementId b = sid \<and> (\<exists>x. get_session (set_session j ?r s) j' = Some x \<and> b \<in> set (sr_paymentAuthorizations x))"
      using fenced_invD(5,6) [OF assms(1) g] none assms(2) by (auto split: if_splits)
  qed
qed

lemma inv_authorization:
  assumes "fenced_inv s" "get_session s j = Some r" "sr_agreementHash r = Some (pb_agreementHash b)"
    "settlement_conflict s j b = None" "well_formed (with_authorization r b now)"
  shows "fenced_inv (set_session j (with_authorization r b now) (set_settlement (pb_settlementId b) j b s))"
    (is "fenced_inv ?s")
proof -
  have free: "get_settlement s (pb_settlementId b) = None \<or> get_settlement s (pb_settlementId b) = Some (j, b)"
    using assms(4) by (auto simp: settlement_conflict_def split: option.splits prod.splits if_splits)
  have r: "sr_jobId r = j" using fenced_invD(1) [OF assms(1,2)] .
  have shape: "shape_ok (with_authorization r b now)" using assms(5) well_formed_iff by blast
  show ?thesis
  proof (rule fenced_invI)
    fix j' x
    assume "get_session ?s j' = Some x"
    then show "sr_jobId x = j' \<and> shape_ok x"
      using r shape fenced_invD(1,2) [OF assms(1), of j' x]
      by (cases "j' = j") auto
  next
    fix j' x h'
    assume x: "get_session ?s j' = Some x" "sr_agreementHash x = Some h'"
    have "get_hash s h' = Some (j', Agreement_Hash)"
    proof (cases "j' = j")
      case True
      then have "sr_agreementHash r = Some h'" using x by auto
      then show ?thesis using fenced_invD(3) [OF assms(1,2)] True by simp
    next
      case False
      then show ?thesis using x fenced_invD(3) [OF assms(1), of j' x h'] by simp
    qed
    then show "get_hash ?s h' = Some (j', Agreement_Hash)" by simp
  next
    fix j' x b'
    assume x: "get_session ?s j' = Some x" "b' \<in> set (sr_paymentAuthorizations x)"
    then have "b' = b \<and> j' = j \<or> get_settlement s (pb_settlementId b') = Some (j', b')"
      using fenced_invD(4) [OF assms(1,2), of b'] fenced_invD(4) [OF assms(1), of j' x b']
      by (cases "j' = j") auto
    then have "pb_settlementId b' = pb_settlementId b \<longrightarrow> j' = j \<and> b' = b"
      using free by (metis option.distinct(1) option.inject prod.inject)
    with \<open>b' = b \<and> j' = j \<or> _\<close> show "get_settlement ?s (pb_settlementId b') = Some (j', b')" by auto
  next
    fix sid j' b'
    assume "get_settlement ?s sid = Some (j', b')"
    then consider "sid = pb_settlementId b" "j' = j" "b' = b" | "get_settlement s sid = Some (j', b')"
      by (cases "sid = pb_settlementId b") simp_all
    then show "pb_settlementId b' = sid \<and> (\<exists>x. get_session ?s j' = Some x \<and> b' \<in> set (sr_paymentAuthorizations x))"
    proof cases
      case 2
      obtain x where x: "get_session s j' = Some x" "b' \<in> set (sr_paymentAuthorizations x)" using fenced_invD(6) [OF assms(1) 2] by blast
      then have "\<exists>y. get_session ?s j' = Some y \<and> b' \<in> set (sr_paymentAuthorizations y)"
        using assms(2) by (cases "j' = j") simp_all
      then show ?thesis using fenced_invD(5) [OF assms(1) 2] by simp
    qed simp
  qed
qed

lemma inv_create:
  assumes "fenced_inv s" "get_session s j = None" "shape_ok r" "sr_jobId r = j" "sr_paymentAuthorizations r = []"
    "sr_agreementHash r = None \<or> (\<exists>h. sr_agreementHash r = Some h \<and> get_hash s h = Some (j, Agreement_Hash))"
  shows "fenced_inv (set_session j r s)"
proof (rule fenced_invI)
  fix sid j' b
  assume "get_settlement (set_session j r s) sid = Some (j', b)"
  then have g: "get_settlement s sid = Some (j', b)" by simp
  then show "pb_settlementId b = sid \<and> (\<exists>x. get_session (set_session j r s) j' = Some x \<and> b \<in> set (sr_paymentAuthorizations x))"
    using fenced_invD(5,6) [OF assms(1) g] assms(2) by auto
next
  fix j' x h
  assume "get_session (set_session j r s) j' = Some x" "sr_agreementHash x = Some h"
  then show "get_hash (set_session j r s) h = Some (j', Agreement_Hash)"
    using assms(6) fenced_invD(3) [OF assms(1), of j' x h] by (cases "j' = j") auto
qed (use assms(3-5) fenced_invD(1,2,4) [OF assms(1)] in \<open>auto split: if_splits\<close>)

section \<open>How a stored record changes\<close>

text \<open>
  A changed record was not sealed. It has a larger revision and no smaller lease generation, its
  history of checkpoints, receipts and authorisations is extended, its agreement is set at most
  once, and its phase moves forward.
\<close>

definition extends :: "session_record \<Rightarrow> session_record \<Rightarrow> bool" where
  "extends r r' \<longleftrightarrow>
     \<not> sessionPhaseIsTerminal (sr_phase r) \<and> sr_revision r < sr_revision r' \<and> sr_leaseGeneration r \<le> sr_leaseGeneration r' \<and>
     sr_jobId r' = sr_jobId r \<and> sr_createdAt r' = sr_createdAt r \<and>
     prefix (sr_checkpoints r) (sr_checkpoints r') \<and> prefix (sr_receipts r) (sr_receipts r') \<and>
     prefix (sr_paymentAuthorizations r) (sr_paymentAuthorizations r') \<and>
     (sr_agreementHash r = None \<or> sr_agreementHash r' = sr_agreementHash r) \<and>
     phase_forward (sr_phase r) (sr_phase r')"

definition sessions_extend :: "fenced_store \<Rightarrow> fenced_store \<Rightarrow> bool" where
  "sessions_extend s s' \<longleftrightarrow>
     (\<forall>j r. get_session s j = Some r \<longrightarrow> (\<exists>r'. get_session s' j = Some r' \<and> (r' = r \<or> extends r r')))"

lemma sessions_extend_refl [simp]: "sessions_extend s s"
  by (simp add: sessions_extend_def)

lemma sessions_extend_set:
  assumes "get_session s j = Some r" "r' = r \<or> extends r r'" "\<And>k. get_session s' k = (if k = j then Some r' else get_session s k)"
  shows "sessions_extend s s'"
  using assms by (auto simp: sessions_extend_def)

lemma extends_transitioned:
  assumes "\<not> sessionPhaseIsTerminal (sr_phase r)" "releases_only i \<or> sessionPhaseMutationAllowed r (ti_phase i)"
  shows "extends r (transitioned r i now)"
proof -
  have "phase_forward (sr_phase r) (next_phase (sr_phase r) (ti_phase i))"
    using assms(2) mutation_allowed_forward [of r "ti_phase i"] by (auto simp: releases_only_def)
  then show ?thesis using assms(1)
    by (auto simp: extends_def transitioned_def append_receipt_def split: option.splits)
qed

lemma extends_claimed:
  assumes "\<not> sessionPhaseIsTerminal (sr_phase r)" "sessionPhaseMutationAllowed r (cc_phase i)"
  shows "extends r (claimed r i now)"
  using assms mutation_allowed_forward [of r "cc_phase i"] by (auto simp: extends_def claimed_def)

lemma extends_others:
  assumes "\<not> sessionPhaseIsTerminal (sr_phase r)"
  shows "extends r (with_fresh_lease r i now)" "extends r (renewed r l now t)"
    "sr_agreementHash r = None \<Longrightarrow> extends r (with_agreement r h now)" "extends r (with_authorization r b now)"
    "sr_agreementHash r = None \<Longrightarrow> extends r (with_authorization (with_agreement r h now) b now')"
  using assms by (auto simp: extends_def with_fresh_lease_def renewed_def with_agreement_def with_authorization_def)

lemma record_agreement_ok:
  assumes "fenced_inv s" "get_hash s (bh_hash i) = Some (bh_jobId i, bh_kind i)" "isNonEmptyString (bh_hash i)"
    and "bh_kind i = Agreement_Hash \<Longrightarrow> \<forall>r. get_session s (bh_jobId i) = Some r \<longrightarrow> \<not> sessionPhaseIsTerminal (sr_phase r)"
  shows "fenced_inv (record_agreement clock s i) \<and> sessions_extend s (record_agreement clock s i)"
proof (cases "get_session s (bh_jobId i)")
  case (Some r)
  show ?thesis
  proof (cases "bh_kind i = Agreement_Hash \<and> sr_agreementHash r = None")
    case True
    then have e: "record_agreement clock s i = set_session (bh_jobId i) (with_agreement r (bh_hash i) clock) s"
      using Some by (simp add: record_agreement_def)
    have "extends r (with_agreement r (bh_hash i) clock)" using True Some assms(4) by (auto intro: extends_others)
    then have "sessions_extend s (record_agreement clock s i)"
      unfolding e by (intro sessions_extend_set [OF Some disjI2]) simp_all
    then show ?thesis using inv_agreement [OF assms(1) Some] True assms(2,3) by (simp add: e)
  next
    case False
    then have "record_agreement clock s i = s" using Some by (auto simp: record_agreement_def)
    then show ?thesis using assms(1) by simp
  qed
qed (use assms(1) in \<open>simp add: record_agreement_def\<close>)

lemma repeat_step:
  assumes "repeat_authorization s j b r = (res, s')" "fenced_inv s" "get_session s j = Some r" "b \<in> set (sr_paymentAuthorizations r)"
  shows "fenced_inv s' \<and> sessions_extend s s'"
proof -
  let ?s = "set_hash (pb_agreementHash b) j Agreement_Hash s"
  from assms(1) consider "s' = s" | "\<not> hash_conflict s (pb_agreementHash b) j Agreement_Hash" "s' = set_settlement (pb_settlementId b) j b ?s"
    by (auto simp: repeat_authorization_def Let_def split: if_splits option.splits)
  then show ?thesis
  proof cases
    case 2
    have inv: "fenced_inv ?s" using 2(1) by (intro inv_set_hash assms) (auto simp: hash_conflict_def split: option.splits)
    have "get_settlement ?s (pb_settlementId b) = Some (j, b)" using fenced_invD(4) [OF assms(2-4)] by simp
    then have get: "get_settlement s' k = get_settlement ?s k" "get_session s' k = get_session ?s k" "get_hash s' k = get_hash ?s k" for k
      using 2(2) by (simp_all)
    have "fenced_inv s'" using inv unfolding fenced_inv_def get .
    then show ?thesis by (simp add: 2(2) sessions_extend_def)
  qed (use assms in simp)
qed

lemma fresh_step:
  assumes "fresh_authorization s j b r now = (res, s')" "fenced_inv s" "get_session s j = Some r" "\<not> sessionPhaseIsTerminal (sr_phase r)"
    "sr_agreementHash r = None \<or> sr_agreementHash r = Some (pb_agreementHash b)" "isNonEmptyString (pb_agreementHash b)"
  shows "fenced_inv s' \<and> sessions_extend s s'"
proof (cases "hash_conflict s (pb_agreementHash b) j Agreement_Hash")
  case True
  then show ?thesis using assms(1,2) by (simp add: fresh_authorization_def Let_def)
next
  case False
  let ?h = "pb_agreementHash b" let ?s = "set_hash ?h j Agreement_Hash s" let ?r = "with_agreement r ?h now"
  have inv: "fenced_inv ?s" using False by (intro inv_set_hash assms) (auto simp: hash_conflict_def split: option.splits)
  show ?thesis
  proof (cases "sr_agreementHash r")
    case None
    show ?thesis
    proof (cases "well_formed ?r")
      case False
      then show ?thesis using assms(1,2) None \<open>\<not> hash_conflict s _ j _\<close> by (simp add: fresh_authorization_def Let_def)
    next
      case True
      let ?s1 = "set_session j ?r ?s"
      have inv1: "fenced_inv ?s1" using inv assms(3,6) None by (intro inv_agreement) simp_all
      have "bind_settlement ?s1 j b ?r now = (res, s')"
        using assms(1) None True \<open>\<not> hash_conflict s _ j _\<close> by (simp add: fresh_authorization_def Let_def)
      then show ?thesis
      proof (cases rule: bind_settlement_effect)
        case unchanged
        have "sessions_extend s s'" unfolding unchanged(1)
          by (rule sessions_extend_set [OF assms(3) disjI2 [OF extends_others(3) [OF assms(4) None, of ?h now]]]) simp
        then show ?thesis using inv1 unchanged by simp
      next
        case bound
        have "sessions_extend s s'" unfolding bound(3)
          by (rule sessions_extend_set [OF assms(3) disjI2 [OF extends_others(5) [OF assms(4) None, of ?h now b now]]]) simp
        moreover have "fenced_inv s'" unfolding bound(3) using inv1 bound(1,2) by (intro inv_authorization) simp_all
        ultimately show ?thesis by simp
      qed
    qed
  next
    case (Some h)
    then have h: "sr_agreementHash r = Some ?h" using assms(5) by simp
    let ?s1 = "if get_hash s ?h = None then ?s else s"
    have inv1: "fenced_inv ?s1" using inv assms(2) by simp
    have get1: "get_session ?s1 k = get_session s k" for k by simp
    have "bind_settlement ?s1 j b r now = (res, s')"
      using assms(1) h False by (simp add: fresh_authorization_def Let_def)
    then show ?thesis
    proof (cases rule: bind_settlement_effect)
      case unchanged
      then show ?thesis using inv1 get1 by (simp add: sessions_extend_def)
    next
      case bound
      have "sessions_extend s s'" unfolding bound(3)
        by (rule sessions_extend_set [OF assms(3) disjI2 [OF extends_others(4) [OF assms(4), of b now]]]) simp
      moreover have "fenced_inv s'" unfolding bound(3) using inv1 bound(1,2) h assms(3) by (intro inv_authorization) simp_all
      ultimately show ?thesis by simp
    qed
  qed
qed

lemma mutate_step:
  assumes "fenced_inv s" "get_session s j = Some r" "well_formed r'" "extends r r'" "sr_agreementHash r' = sr_agreementHash r"
    "sr_paymentAuthorizations r' = sr_paymentAuthorizations r"
  shows "fenced_inv (set_session j r' s) \<and> sessions_extend s (set_session j r' s)"
proof
  show "sessions_extend s (set_session j r' s)" by (rule sessions_extend_set [OF assms(2) disjI2 [OF assms(4)]]) simp
  show "fenced_inv (set_session j r' s)"
    using assms by (intro inv_mutate [OF assms(1,2)]) (auto simp: well_formed_iff extends_def)
qed

lemma create_step:
  assumes "create clock s i = (res, s')" "fenced_inv s"
  shows "fenced_inv s' \<and> sessions_extend s s'"
  using assms(1)
proof (cases rule: create_effect)
  case (created now)
  let ?j = "ci_jobId i" let ?r = "new_record i now"
  let ?s = "(case ci_agreementHash i of None \<Rightarrow> id | Some h \<Rightarrow> set_hash h ?j Agreement_Hash) s"
  have s': "s' = set_session ?j ?r ?s" using created(4) by (simp add: set_hash_def set_session_def split: option.splits)
  have inv: "fenced_inv ?s" using created(3) assms(2)
    by (auto intro!: inv_set_hash simp: hash_conflict_def split: option.splits)
  have get: "get_session ?s k = get_session s k" for k by (simp split: option.splits)
  have "fenced_inv s'" unfolding s'
    by (rule inv_create [OF inv]) (use created(1,2) well_formed_iff get in \<open>auto simp: new_record_def split: option.splits\<close>)
  moreover have "sessions_extend s s'" using created(1) get by (auto simp: sessions_extend_def s')
  ultimately show ?thesis by simp
qed (use assms in simp)

lemma transition_step:
  assumes "transition clock s i = (res, s')" "fenced_inv s"
  shows "fenced_inv s' \<and> sessions_extend s s'"
  using assms(1)
proof (cases rule: transition_effect)
  case (changed r now)
  show ?thesis unfolding changed(7)
    by (rule mutate_step [OF assms(2) changed(1,6) extends_transitioned [OF changed(3,5)]]) (simp_all add: transitioned_def)
qed (use assms in simp)

lemma claim_step:
  assumes "claimCheckpoint clock s i = (res, s')" "fenced_inv s"
  shows "fenced_inv s' \<and> sessions_extend s s'"
  using assms(1)
proof (cases rule: claim_effect)
  case (changed r now)
  show ?thesis unfolding changed(7)
    by (rule mutate_step [OF assms(2) changed(1,6) extends_claimed [OF changed(3,5)]]) (simp_all add: claimed_def)
qed (use assms in simp)

lemma acquire_step:
  assumes "acquireLease clock s i = (res, s')" "fenced_inv s"
  shows "fenced_inv s' \<and> sessions_extend s s'"
  using assms(1)
proof (cases rule: acquire_effect)
  case (changed r now)
  show ?thesis unfolding changed(6)
    by (rule mutate_step [OF assms(2) changed(1,5) extends_others(1) [OF changed(3)]]) (simp_all add: with_fresh_lease_def)
qed (use assms in simp)

lemma renew_step:
  assumes "renewLease clock s i = (res, s')" "fenced_inv s"
  shows "fenced_inv s' \<and> sessions_extend s s'"
  using assms(1)
proof (cases rule: renew_effect)
  case (changed r l now)
  show ?thesis unfolding changed(7)
    by (rule mutate_step [OF assms(2) changed(1,6) extends_others(2) [OF changed(3)]]) (simp_all add: renewed_def)
qed (use assms in simp)

lemma authorize_step:
  assumes "bindSessionAuthorization clock s i = (res, s')" "fenced_inv s"
  shows "fenced_inv s' \<and> sessions_extend s s'"
  using assms(1)
proof (cases rule: authorize_cases)
  case (repeated r)
  then show ?thesis using repeat_step assms(2) by blast
next
  case (fresh r now)
  show ?thesis by (rule fresh_step [OF fresh(8) assms(2) fresh(1,3,6,7)])
qed (use assms in simp)

lemma bind_hash_step:
  assumes "bindHash clock s i = (res, s')" "fenced_inv s"
  shows "fenced_inv s' \<and> sessions_extend s s'"
  using assms(1)
proof (cases rule: bind_hash_cases)
  case (bound s1)
  have inv1: "fenced_inv s1" using bound(2) assms(2) inv_set_hash [OF assms(2)] by auto
  have get1: "get_session s1 k = get_session s k" for k using bound(2) by auto
  have "fenced_inv s' \<and> sessions_extend s1 s'" unfolding bound(1)
    by (rule record_agreement_ok [OF inv1 _ bound(3)]) (use bound(2,4) get1 in auto)
  then show ?thesis using get1 by (simp add: sessions_extend_def)
qed (use assms in simp)

lemma fenced_step_ok:
  assumes "fenced_step s s'" "fenced_inv s"
  shows "fenced_inv s' \<and> sessions_extend s s'"
  using assms
  by (cases rule: fenced_step.cases)
    (rule create_step transition_step claim_step acquire_step renew_step authorize_step bind_hash_step, assumption, assumption)+

lemma fenced_inv_empty: "fenced_inv empty_fenced_store"
  by (simp add: fenced_inv_def empty_fenced_store_def get_session_def get_settlement_def)

interpretation fenced: invariant_system "\<lambda>s. s = empty_fenced_store" fenced_step fenced_inv
  by unfold_locales (auto simp: fenced_inv_empty dest: fenced_step_ok)

end
