(* ===== verification/Dacs_Fenced_Props.thy ===== *)
theory Dacs_Fenced_Props
  imports Dacs_Fenced_Safety
begin

text \<open>
  What the generation-fenced session store promises its clients, over any interleaving of the
  operations of any workers: well-formed records, settlement events and agreements that belong to
  one session, an append-only history, sealed sessions, fenced tokens and checkpoints that are claimed once.
\<close>

section \<open>Settlement and hash markers are written once\<close>

definition settlement_register :: "fenced_store \<Rightarrow> string \<rightharpoonup> (string \<times> payment_binding) \<times> unit option" where
  "settlement_register s sid = map_option (\<lambda>x. (x, None)) (get_settlement s sid)"

definition hash_register :: "fenced_store \<Rightarrow> string \<rightharpoonup> (string \<times> hash_kind) \<times> unit option" where
  "hash_register s h = map_option (\<lambda>x. (x, None)) (get_hash s h)"

lemma register_keeps [simp]: "register_step A A"
  by (rule register_step.keeps)

lemma register_set_settlement:
  assumes "settlement_conflict s j b = None"
  shows "register_step (settlement_register s) (settlement_register (set_settlement (pb_settlementId b) j b s))"
proof (cases "get_settlement s (pb_settlementId b)")
  case None
  then have "settlement_register (set_settlement (pb_settlementId b) j b s) =
      (settlement_register s)(pb_settlementId b \<mapsto> ((j, b), None))" by (auto simp: settlement_register_def)
  then show ?thesis using register_step.binds [of "settlement_register s" "pb_settlementId b" "(j, b)"] None
    by (simp add: settlement_register_def)
next
  case (Some x)
  then have "x = (j, b)" using assms by (cases x) (auto simp: settlement_conflict_def split: if_splits)
  then have "settlement_register (set_settlement (pb_settlementId b) j b s) = settlement_register s"
    using Some by (auto simp: settlement_register_def)
  then show ?thesis by simp
qed

lemma register_set_hash:
  assumes "get_hash s h = None \<or> get_hash s h = Some (j, k)"
  shows "register_step (hash_register s) (hash_register (set_hash h j k s))"
proof (cases "get_hash s h")
  case None
  then have "hash_register (set_hash h j k s) = (hash_register s)(h \<mapsto> ((j, k), None))" by (auto simp: hash_register_def)
  then show ?thesis using register_step.binds [of "hash_register s" h "(j, k)"] None by (simp add: hash_register_def)
next
  case (Some x)
  then have "hash_register (set_hash h j k s) = hash_register s" using assms by (auto simp: hash_register_def)
  then show ?thesis by simp
qed

lemma registers_ignore [simp]:
  "settlement_register (set_session j r s) = settlement_register s" "settlement_register (set_hash h j k s) = settlement_register s"
  "hash_register (set_session j r s) = hash_register s" "hash_register (set_settlement sid j b s) = hash_register s"
  "hash_register (set_hash h j k (set_session j' r s)) = hash_register (set_hash h j k s)"
  by (auto simp: settlement_register_def hash_register_def)

lemma no_conflict_hash: "\<not> hash_conflict s h j k \<Longrightarrow> get_hash s h = None \<or> get_hash s h = Some (j, k)"
  by (auto simp: hash_conflict_def split: option.splits)

lemma bind_settlement_registers:
  assumes "bind_settlement s j b r now = (res, s')"
  shows "register_step (settlement_register s) (settlement_register s') \<and> hash_register s' = hash_register s"
  using assms by (cases rule: bind_settlement_effect) (simp_all add: register_set_settlement)

lemma authorization_registers:
  assumes "repeat_authorization s j b r = (res, s') \<or> fresh_authorization s j b r now = (res, s')"
  shows "register_step (settlement_register s) (settlement_register s') \<and> register_step (hash_register s) (hash_register s')"
proof (cases "hash_conflict s (pb_agreementHash b) j Agreement_Hash")
  case True
  then show ?thesis using assms by (auto simp: repeat_authorization_def fresh_authorization_def Let_def)
next
  case False
  let ?s = "set_hash (pb_agreementHash b) j Agreement_Hash s"
  have h: "register_step (hash_register s) (hash_register ?s)" by (rule register_set_hash [OF no_conflict_hash [OF False]])
  from assms show ?thesis
  proof
    assume "repeat_authorization s j b r = (res, s')"
    moreover have "settlement_conflict ?s j b = settlement_conflict s j b" by (simp add: settlement_conflict_def)
    ultimately show ?thesis using False h register_set_settlement [of ?s j b]
      by (auto simp: repeat_authorization_def Let_def split: option.splits)
  next
    assume f: "fresh_authorization s j b r now = (res, s')"
    show ?thesis
    proof (cases "sr_agreementHash r")
      case None
      then show ?thesis using f False h
        by (auto simp: fresh_authorization_def Let_def split: if_splits dest!: bind_settlement_registers)
    next
      case (Some a)
      then have "bind_settlement (if get_hash s (pb_agreementHash b) = None then ?s else s) j b r now = (res, s')"
        using f False by (simp add: fresh_authorization_def Let_def)
      then show ?thesis using h by (auto split: if_splits dest!: bind_settlement_registers)
    qed
  qed
qed

lemma record_agreement_registers [simp]:
  "settlement_register (record_agreement clock s i) = settlement_register s" "hash_register (record_agreement clock s i) = hash_register s"
  by (simp_all add: record_agreement_def split: option.splits)

lemma fenced_step_registers:
  assumes "fenced_step s s'"
  shows "register_step (settlement_register s) (settlement_register s') \<and> register_step (hash_register s) (hash_register s')"
  using assms
proof cases
  case (step_create clock i res)
  then show ?thesis
    by (cases rule: create_effect) (auto split: option.splits dest: no_conflict_hash intro: register_set_hash)
next
  case (step_transition clock i res)
  then show ?thesis by (cases rule: transition_effect) simp_all
next
  case (step_claim clock i res)
  then show ?thesis by (cases rule: claim_effect) simp_all
next
  case (step_acquire clock i res)
  then show ?thesis by (cases rule: acquire_effect) simp_all
next
  case (step_renew clock i res)
  then show ?thesis by (cases rule: renew_effect) simp_all
next
  case (step_authorize clock i res)
  then show ?thesis
  proof (cases rule: authorize_cases)
    case (repeated r)
    show ?thesis by (rule authorization_registers [OF disjI1 [OF repeated(3)]])
  next
    case (fresh r now)
    show ?thesis by (rule authorization_registers [OF disjI2 [OF fresh(8)]])
  qed simp
next
  case (step_bind_hash clock i res)
  then show ?thesis by (cases rule: bind_hash_cases) (auto intro: register_set_hash)
qed

interpretation settlement_markers: write_once fenced_step settlement_register
  by unfold_locales (simp add: fenced_step_registers)

interpretation hash_markers: write_once fenced_step hash_register
  by unfold_locales (simp add: fenced_step_registers)

text \<open>
  Property C8. The markers of the store refine a write-once register: whatever the workers do, a settlement event
  stays bound to the session and payment binding it was first bound to, and a hash to its session and kind.
\<close>

theorem markers_are_final:
  assumes "fenced_step\<^sup>*\<^sup>* s t"
  shows "(get_settlement s sid = Some x \<longrightarrow> get_settlement t sid = Some x) \<and> (get_hash s h = Some y \<longrightarrow> get_hash t h = Some y)"
proof (intro conjI impI)
  assume "get_settlement s sid = Some x"
  then have "settlement_register s sid = Some (x, None)" by (simp add: settlement_register_def)
  then obtain v where "settlement_register t sid = Some (x, v)" using settlement_markers.bound_for_ever [OF assms] by blast
  then show "get_settlement t sid = Some x" by (auto simp: settlement_register_def)
next
  assume "get_hash s h = Some y"
  then have "hash_register s h = Some (y, None)" by (simp add: hash_register_def)
  then obtain v where "hash_register t h = Some (y, v)" using hash_markers.bound_for_ever [OF assms] by blast
  then show "get_hash t h = Some y" by (auto simp: hash_register_def)
qed

section \<open>Reachable stores\<close>

abbreviation reachable_store :: "fenced_store \<Rightarrow> bool" where
  "reachable_store s \<equiv> fenced_step\<^sup>*\<^sup>* empty_fenced_store s"

lemma reachable_inv: "reachable_store s \<Longrightarrow> fenced_inv s"
  by (rule fenced.inv_reachable) simp_all

text \<open>
  Property C9. Every record of a reachable store is stored under its own job and passes the check of the store,
  as long as its revision counter stays a safe integer.
\<close>

theorem fenced_records_well_formed:
  assumes "reachable_store s" "get_session s j = Some r"
  shows "sr_jobId r = j \<and> (isSafeInteger (sr_revision r) \<longrightarrow> sessionRecordShapeViolation r = None)"
  using fenced_invD(1,2) [OF reachable_inv [OF assms(1)] assms(2)] by (simp add: well_formed_iff)

text \<open>
  Property C7. A settlement event authorises at most one payment phase of one session, and an agreement belongs to
  at most one session, in every reachable store.
\<close>

theorem settlement_authorizes_one_session:
  assumes "reachable_store s" "get_session s j = Some r" "get_session s j' = Some r'"
  shows "(b \<in> set (sr_paymentAuthorizations r) \<and> b' \<in> set (sr_paymentAuthorizations r') \<and> pb_settlementId b = pb_settlementId b' \<longrightarrow>
      j = j' \<and> b = b') \<and>
    (sr_agreementHash r = sr_agreementHash r' \<and> sr_agreementHash r \<noteq> None \<longrightarrow> j = j')"
proof (intro conjI impI)
  note inv = reachable_inv [OF assms(1)]
  assume "b \<in> set (sr_paymentAuthorizations r) \<and> b' \<in> set (sr_paymentAuthorizations r') \<and> pb_settlementId b = pb_settlementId b'"
  then have "Some (j, b) = Some (j', b')"
    using fenced_invD(4) [OF inv assms(2)] fenced_invD(4) [OF inv assms(3)] by metis
  then show "j = j'" "b = b'" by simp_all
next
  note inv = reachable_inv [OF assms(1)]
  assume h: "sr_agreementHash r = sr_agreementHash r' \<and> sr_agreementHash r \<noteq> None"
  then obtain h where "sr_agreementHash r = Some h" "sr_agreementHash r' = Some h" by (metis not_None_eq)
  then have "Some (j, Agreement_Hash) = Some (j', Agreement_Hash)"
    using fenced_invD(3) [OF inv assms(2)] fenced_invD(3) [OF inv assms(3)] by metis
  then show "j = j'" by simp
qed

section \<open>Histories\<close>

text \<open>What a run keeps of a record: the transitive part of \<open>extends\<close>.\<close>

definition grows :: "session_record \<Rightarrow> session_record \<Rightarrow> bool" where
  "grows r r' \<longleftrightarrow>
     sr_revision r \<le> sr_revision r' \<and> sr_leaseGeneration r \<le> sr_leaseGeneration r' \<and>
     prefix (sr_checkpoints r) (sr_checkpoints r') \<and> prefix (sr_receipts r) (sr_receipts r') \<and>
     prefix (sr_paymentAuthorizations r) (sr_paymentAuthorizations r') \<and>
     (sr_agreementHash r = None \<or> sr_agreementHash r' = sr_agreementHash r) \<and>
     (sessionPhaseIsTerminal (sr_phase r) \<or> sr_revision r = sr_revision r' \<longrightarrow> r' = r)"

lemma grows_refl [simp]: "grows r r"
  by (simp add: grows_def)

lemma extends_grows: "extends r r' \<Longrightarrow> grows r r'"
  by (simp add: extends_def grows_def)

lemma grows_trans:
  assumes "grows r r'" "grows r' r''"
  shows "grows r r''"
proof -
  have le: "sr_revision r \<le> sr_revision r'" "sr_revision r' \<le> sr_revision r''"
    "sr_leaseGeneration r \<le> sr_leaseGeneration r'" "sr_leaseGeneration r' \<le> sr_leaseGeneration r''"
    using assms unfolding grows_def by blast+
  have "r'' = r" if "sessionPhaseIsTerminal (sr_phase r) \<or> sr_revision r = sr_revision r''"
  proof -
    have "sessionPhaseIsTerminal (sr_phase r) \<or> sr_revision r = sr_revision r'" using that le by linarith
    then have "r' = r" using assms(1) unfolding grows_def by blast
    then show ?thesis using assms(2) that unfolding grows_def by blast
  qed
  moreover have "sr_agreementHash r = None \<or> sr_agreementHash r'' = sr_agreementHash r"
    using assms unfolding grows_def by metis
  moreover have "prefix (sr_checkpoints r) (sr_checkpoints r'')" "prefix (sr_receipts r) (sr_receipts r'')"
    "prefix (sr_paymentAuthorizations r) (sr_paymentAuthorizations r'')"
    using assms unfolding grows_def by (blast intro: prefix_order.trans)+
  ultimately show ?thesis using le unfolding grows_def by (meson order_trans)
qed

lemma run_grows:
  assumes "fenced_step\<^sup>*\<^sup>* s t" "fenced_inv s" "get_session s j = Some r"
  shows "\<exists>r'. get_session t j = Some r' \<and> grows r r'"
  using assms
proof (induction rule: rtranclp_induct)
  case (step t u)
  then obtain r' where r': "get_session t j = Some r'" "grows r r'" by blast
  have "fenced_inv t" using fenced.inv_run [OF step.hyps(1) step.prems(1)] .
  then have "sessions_extend t u" using fenced_step_ok [OF step.hyps(2)] by simp
  then obtain r'' where "get_session u j = Some r''" "r'' = r' \<or> extends r' r''" using r'(1) by (auto simp: sessions_extend_def)
  then show ?case using grows_trans [OF r'(2)] extends_grows by fastforce
qed auto

text \<open>
  Property C10. History is append-only: along every run a session keeps its checkpoints, receipts, authorisations and
  agreement, its revision and lease generation never decrease, and two records with the same revision
  are the same. A sealed session never changes again.
\<close>

theorem session_history_append_only:
  assumes "reachable_store s" "fenced_step\<^sup>*\<^sup>* s t" "get_session s j = Some r"
  shows "\<exists>r'. get_session t j = Some r' \<and> grows r r' \<and> (sessionPhaseIsTerminal (sr_phase r) \<longrightarrow> r' = r)"
  using run_grows [OF assms(2) reachable_inv [OF assms(1)] assms(3)] by (auto simp: grows_def)

text \<open>
  Lifecycles only move forward: one step never moves a session back within the seller's, the buyer's or a
  terminal bundle's lifecycle, nor to an earlier delivery.
\<close>

theorem session_phases_move_forward:
  assumes "reachable_store s" "fenced_step s t" "get_session s j = Some r"
  shows "\<exists>r'. get_session t j = Some r' \<and> phase_forward (sr_phase r) (sr_phase r')"
proof -
  have "sessions_extend s t" using fenced_step_ok [OF assms(2) reachable_inv [OF assms(1)]] by simp
  then obtain r' where "get_session t j = Some r'" "r' = r \<or> extends r r'" using assms(3) by (auto simp: sessions_extend_def)
  then show ?thesis by (auto simp: extends_def)
qed

section \<open>Fencing\<close>

lemma shape_lease_generation: "shape_ok r \<Longrightarrow> sr_lease r = Some l \<Longrightarrow> sl_generation l = sr_leaseGeneration r"
  by (auto simp: shape_ok_def sessionRecordShapeViolation_def leaseViolation_def Let_def)

lemma repeat_keeps_sessions: "repeat_authorization s j b r = (res, s') \<Longrightarrow> get_session s' k = get_session s k"
  by (auto simp: repeat_authorization_def Let_def split: if_splits option.splits)

lemma current_token: "shape_ok r \<Longrightarrow> leaseFailure r (Some tok) now = None \<Longrightarrow> st_generation tok = sr_leaseGeneration r"
  by (auto simp: leaseFailure_def shape_lease_generation split: option.splits if_splits)

text \<open>
  Property C5. A superseded worker is fenced for ever: once the lease generation of a session is past a token, the
  token changes nothing in any later store. Transitions, claims and renewals leave the store as it is,
  and an authorisation leaves the session as it is.
\<close>

theorem superseded_session_token_is_fenced:
  assumes "reachable_store s" "get_session s j = Some r" "st_generation tok < sr_leaseGeneration r" "fenced_step\<^sup>*\<^sup>* s t"
    and "ti_jobId i = j" "ti_leaseToken i = Some tok" "cc_jobId c = j" "cc_leaseToken c = Some tok"
    and "ri_jobId n = j" "ri_leaseToken n = tok" "au_jobId u = j" "au_leaseToken u = Some tok"
  shows "snd (transition clock t i) = t \<and> snd (claimCheckpoint clock t c) = t \<and> snd (renewLease clock t n) = t \<and>
    get_session (snd (bindSessionAuthorization clock t u)) j = get_session t j"
proof -
  obtain r' where r': "get_session t j = Some r'" "grows r r'" using run_grows [OF assms(4) reachable_inv [OF assms(1)] assms(2)] by blast
  have "fenced_inv t" using fenced.inv_run [OF assms(4) reachable_inv [OF assms(1)]] .
  then have shape: "shape_ok r'" using fenced_invD(2) r'(1) by blast
  have "sr_leaseGeneration r \<le> sr_leaseGeneration r'" using r'(2) unfolding grows_def by blast
  then have "st_generation tok \<noteq> sr_leaseGeneration r'" using assms(3) by simp
  then have stale: "leaseFailure r' (Some tok) now = None \<Longrightarrow> False" for now using current_token [OF shape] by blast
  have "snd (transition clock t i) = t" using prod.collapse [symmetric]
  proof (rule transition_effect)
    fix x now
    assume "get_session t (ti_jobId i) = Some x" "leaseFailure x (ti_leaseToken i) now = None"
    then show ?thesis using r'(1) assms(5,6) stale [of now] by simp
  qed
  moreover have "snd (claimCheckpoint clock t c) = t" using prod.collapse [symmetric]
  proof (rule claim_effect)
    fix x now
    assume "get_session t (cc_jobId c) = Some x" "leaseFailure x (cc_leaseToken c) now = None"
    then show ?thesis using r'(1) assms(7,8) stale [of now] by simp
  qed
  moreover have "snd (renewLease clock t n) = t" using prod.collapse [symmetric]
  proof (rule renew_effect)
    fix x now
    assume "get_session t (ri_jobId n) = Some x" "leaseFailure x (Some (ri_leaseToken n)) now = None"
    then show ?thesis using r'(1) assms(9,10) stale [of now] by simp
  qed
  moreover have "get_session (snd (bindSessionAuthorization clock t u)) j = get_session t j" using prod.collapse [symmetric]
  proof (rule authorize_cases)
    fix x
    assume "repeat_authorization t (au_jobId u) (au_binding u) x = (fst (bindSessionAuthorization clock t u), snd (bindSessionAuthorization clock t u))"
    then show ?thesis by (rule repeat_keeps_sessions)
  next
    fix x now
    assume "get_session t (au_jobId u) = Some x" "leaseFailure x (au_leaseToken u) now = None"
    then show ?thesis using r'(1) assms(11,12) stale [of now] by simp
  qed simp
  ultimately show ?thesis by blast
qed

lemma last_checkpoint_None_iff: "last_checkpoint cs k = None \<longleftrightarrow> k \<notin> ck_key ` set cs"
  by (auto simp: last_checkpoint_def find_None_iff)

text \<open>
  Property C6. The write-ahead intent of a side effect is claimed once: after a successful claim no worker, in any
  later store, claims the same key of the session again.
\<close>

theorem checkpoint_claimed_once:
  assumes "reachable_store s" "claimCheckpoint clock s i = (Inr (Claimed r), t)" "fenced_step\<^sup>*\<^sup>* t u"
    and "cc_jobId i' = cc_jobId i" "cc_key i' = cc_key i"
  shows "fst (claimCheckpoint clock' u i') \<noteq> Inr (Claimed r')"
proof
  assume claim': "fst (claimCheckpoint clock' u i') = Inr (Claimed r')"
  have inv: "fenced_inv t" using fenced_step_ok [OF step_claim [OF assms(2)] reachable_inv [OF assms(1)]] by simp
  from assms(2) have t: "get_session t (cc_jobId i) = Some r" "cc_key i \<in> ck_key ` set (sr_checkpoints r)"
    by (cases rule: claim_effect; auto simp: claimed_def claim_checkpoint_of_def)+
  obtain x where x: "get_session u (cc_jobId i) = Some x" "grows r x" using run_grows [OF assms(3) inv t(1)] by blast
  then have "cc_key i \<in> ck_key ` set (sr_checkpoints x)" using t(2) by (auto simp: grows_def prefix_def)
  then have "last_checkpoint (sr_checkpoints x) (cc_key i') \<noteq> None" by (simp add: last_checkpoint_None_iff assms(5))
  moreover from prod.collapse [symmetric] obtain y where "get_session u (cc_jobId i') = Some y"
    "last_checkpoint (sr_checkpoints y) (cc_key i') = None"
    by (rule claim_effect) (use claim' in auto)
  ultimately show False using x(1) assms(4) by simp
qed

section \<open>Recovery\<close>

lemma well_formed_fresh_lease:
  assumes "well_formed r" "\<not> sessionPhaseIsTerminal (sr_phase r)" "sessionLeaseScopeAllowed r (ai_sellerPhaseIndex i)"
    and "isNonEmptyString (ai_owner i)" "case ai_sellerPhaseIndex i of None \<Rightarrow> True | Some n \<Rightarrow> isNonNegativeInteger n"
    and "sr_leaseGeneration r < max_safe" "sr_revision r < max_safe"
  shows "well_formed (with_fresh_lease r i now)"
proof -
  have gen: "0 \<le> sr_leaseGeneration r" "0 \<le> sr_revision r"
    using assms(1) by (simp_all add: sessionRecordShapeViolation_def isNonNegativeInteger_def)
  have "leaseViolation (sr_phase r) (sr_leaseGeneration r + 1) (fresh_lease r i now) = None"
    using assms(2-6) gen
  proof (cases "sellerDeliveryPhaseProgress (sr_phase r)")
    case None
    then show ?thesis using assms(2-6) gen
      by (auto simp: leaseViolation_def fresh_lease_def isNonNegativeInteger_def isSafeInteger_def sessionLeaseScopeAllowed_def
          Let_def split: option.splits if_splits)
  next
    case (Some d)
    have "sr_phase r \<noteq> ''seller:failed''" using Some by (auto simp: sellerDeliveryPhaseProgress_def)
    then show ?thesis using Some assms(2-6) gen delivery_phases [OF Some]
      by (auto simp: leaseViolation_def fresh_lease_def isNonNegativeInteger_def isSafeInteger_def sessionLeaseScopeAllowed_def
          sessionPhaseIsSellerFailureOrigin_def Let_def split: option.splits if_splits)
  qed
  then show ?thesis using assms(1,6,7) gen
    by (simp add: sessionRecordShapeViolation_def with_fresh_lease_def isNonNegativeInteger_def isSafeInteger_def cong: option.case_cong)
qed

text \<open>
  A crashed worker never blocks a session: when its lease has expired, a valid request for a lease in the
  scope the phase allows is granted, with a generation larger than every one before.
\<close>

theorem expired_lease_can_be_taken_over:
  assumes "reachable_store s" "get_session s (ai_jobId i) = Some r" "\<not> sessionPhaseIsTerminal (sr_phase r)"
    and "snapshotFencedAcquireLeaseInput clock i = Inr i" "sessionLeaseScopeAllowed r (ai_sellerPhaseIndex i)"
    and "case sr_lease r of None \<Rightarrow> True | Some l \<Rightarrow> sl_expiresAt l \<le> instant (ai_now i) clock"
    and "sr_leaseGeneration r < max_safe" "sr_revision r < max_safe"
  shows "\<exists>r' l. fst (acquireLease clock s i) = Inr (Leased r' l) \<and> sr_lease r' = Some l \<and>
    sl_owner l = ai_owner i \<and> sl_generation l = sr_leaseGeneration r + 1"
proof -
  have "shape_ok r" using fenced_invD(2) [OF reachable_inv [OF assms(1)] assms(2)] .
  moreover from this have "0 \<le> sr_revision r" unfolding shape_ok_def by simp
  ultimately have "well_formed r" using assms(8) by (simp add: well_formed_iff [of r] isSafeInteger_def max_safe_def)
  moreover have "isNonEmptyString (ai_owner i)" "case ai_sellerPhaseIndex i of None \<Rightarrow> True | Some n \<Rightarrow> isNonNegativeInteger n"
    using assms(4) by (simp_all add: snapshotFencedAcquireLeaseInput_def ensure_Inr)
  ultimately have "well_formed (with_fresh_lease r i (instant (ai_now i) clock))"
    using well_formed_fresh_lease assms(3,5,7,8) by blast
  then have "acquireLease clock s i = (Inr (Leased (with_fresh_lease r i (instant (ai_now i) clock)) (fresh_lease r i (instant (ai_now i) clock))),
      set_session (ai_jobId i) (with_fresh_lease r i (instant (ai_now i) clock)) s)"
    using assms(2-6) by (cases "sr_lease r") (simp_all only: acquireLease_def with_input_Inl option.case Let_def store_checked_def if_False if_True not_True_eq_False simp_thms linorder_not_less [symmetric])
  then show ?thesis by (simp add: with_fresh_lease_def fresh_lease_def)
qed

section \<open>A run of the store\<close>

text \<open>
  One session: created, leased to a first worker, a checkpoint claimed, a payment authorised; the lease expires and
  a second worker takes the session over.
\<close>

definition sample_binding :: payment_binding where
  "sample_binding =
     (let h = replicate 64 (CHR ''a'') in
      \<lparr>pb_authorizationHash = h, pb_fulfilmentId = h, pb_handoffBindingHash = h, pb_agreementHash = h, pb_paymentEvidenceHash = h,
       pb_settlementId = ''demos:'' @ h, pb_paymentPhaseIndex = 0, pb_deliveryPhaseIndex = 1\<rparr>)"

definition sample_create :: create_input where
  "sample_create = \<lparr>ci_jobId = ''job'', ci_agreementHash = None, ci_phase = None, ci_now = None\<rparr>"

definition sample_acquire :: "string \<Rightarrow> acquire_input" where
  "sample_acquire w = \<lparr>ai_jobId = ''job'', ai_owner = w, ai_ttlMs = 100, ai_sellerPhaseIndex = None, ai_now = None\<rparr>"

definition sample_token :: session_token where
  "sample_token = \<lparr>st_owner = ''a'', st_generation = 1\<rparr>"

definition sample_claim :: claim_input where
  "sample_claim = \<lparr>cc_jobId = ''job'', cc_key = ''pay'', cc_data = None, cc_phase = None, cc_leaseToken = Some sample_token, cc_now = None\<rparr>"

definition sample_authorize :: authorization_input where
  "sample_authorize = \<lparr>au_jobId = ''job'', au_binding = sample_binding, au_leaseToken = Some sample_token, au_now = None\<rparr>"

definition sample_transition :: transition_input where
  "sample_transition =
     \<lparr>ti_jobId = ''job'', ti_expectedRevision = 4, ti_leaseToken = Some sample_token, ti_phase = None, ti_checkpoint = None,
      ti_receipt = None, ti_releases = True, ti_now = None\<rparr>"

definition sample_renew :: renew_input where
  "sample_renew = \<lparr>ri_jobId = ''job'', ri_leaseToken = sample_token, ri_ttlMs = 100, ri_now = None\<rparr>"

text \<open>The session after each step: its agreement and authorisations, revision, lease and time.\<close>

definition sample_session ::
  "payment_binding list \<Rightarrow> int \<Rightarrow> session_lease option \<Rightarrow> session_checkpoint list \<Rightarrow> int \<Rightarrow> session_record" where
  "sample_session bs revision lease cs now =
     \<lparr>sr_storeVersion = 2, sr_jobId = ''job'', sr_agreementHash = (case bs of [] \<Rightarrow> None | b # _ \<Rightarrow> Some (pb_agreementHash b)),
      sr_paymentAuthorizations = bs, sr_phase = ''created'', sr_revision = revision,
      sr_leaseGeneration = (case lease of None \<Rightarrow> 0 | Some l \<Rightarrow> sl_generation l), sr_lease = lease,
      sr_checkpoints = cs, sr_receipts = [], sr_createdAt = 0, sr_updatedAt = now\<rparr>"

definition sample_lease :: "string \<Rightarrow> int \<Rightarrow> int \<Rightarrow> session_lease" where
  "sample_lease w g e = \<lparr>sl_owner = w, sl_generation = g, sl_expiresAt = e, sl_sellerPhaseIndex = None\<rparr>"

definition claimed_session :: session_record where
  "claimed_session = sample_session [] 2 (Some (sample_lease ''a'' 1 110)) [claim_checkpoint_of sample_claim] 20"

definition authorized_session :: session_record where
  "authorized_session = sample_session [sample_binding] 4 (Some (sample_lease ''a'' 1 110)) [claim_checkpoint_of sample_claim] 30"

definition taken_over_session :: session_record where
  "taken_over_session = sample_session [sample_binding] 5 (Some (sample_lease ''b'' 2 300)) [claim_checkpoint_of sample_claim] 200"

definition sample_store :: "payment_binding list \<Rightarrow> session_record \<Rightarrow> fenced_store" where
  "sample_store bs r =
     \<lparr>fs_sessions = [(''job'', r)], fs_hashBindings = map (\<lambda>b. (pb_agreementHash b, (''job'', Agreement_Hash))) bs,
      fs_settlementBindings = map (\<lambda>b. (pb_settlementId b, (''job'', b))) bs\<rparr>"

definition store_created :: fenced_store where
  "store_created = sample_store [] (sample_session [] 0 None [] 0)"

definition store_leased :: fenced_store where
  "store_leased = sample_store [] (sample_session [] 1 (Some (sample_lease ''a'' 1 110)) [] 10)"

definition store_claimed :: fenced_store where
  "store_claimed = sample_store [] claimed_session"

definition store_authorized :: fenced_store where
  "store_authorized = sample_store [sample_binding] authorized_session"

definition store_taken_over :: fenced_store where
  "store_taken_over = sample_store [sample_binding] taken_over_session"

lemma sample_operations:
  "snd (create 0 empty_fenced_store sample_create) = store_created"
  "snd (acquireLease 10 store_created (sample_acquire ''a'')) = store_leased"
  "claimCheckpoint 20 store_leased sample_claim = (Inr (Claimed claimed_session), store_claimed)"
  "snd (bindSessionAuthorization 30 store_claimed sample_authorize) = store_authorized"
  "snd (acquireLease 200 store_authorized (sample_acquire ''b'')) = store_taken_over"
  by code_simp+

lemma operation_steps:
  "fenced_step s (snd (create c s i1))" "fenced_step s (snd (acquireLease c s i2))" "fenced_step s (snd (bindSessionAuthorization c s i3))"
  by (rule step_create [OF prod.collapse [symmetric]] step_acquire [OF prod.collapse [symmetric]]
      step_authorize [OF prod.collapse [symmetric]])+

lemma sample_steps:
  "fenced_step empty_fenced_store store_created" "fenced_step store_created store_leased" "fenced_step store_leased store_claimed"
  "fenced_step store_claimed store_authorized" "fenced_step store_authorized store_taken_over"
  using operation_steps(1) [of empty_fenced_store 0 sample_create] operation_steps(2) [of store_created 10 "sample_acquire ''a''"]
    step_claim [OF sample_operations(3)] operation_steps(3) [of store_claimed 30 sample_authorize]
    operation_steps(2) [of store_authorized 200 "sample_acquire ''b''"]
  unfolding sample_operations by blast+

lemma sample_runs:
  "reachable_store store_created" "reachable_store store_leased" "reachable_store store_claimed" "reachable_store store_authorized"
  "reachable_store store_taken_over" "fenced_step\<^sup>*\<^sup>* store_authorized store_taken_over" "fenced_step\<^sup>*\<^sup>* store_claimed store_taken_over"
  using sample_steps by (meson rtranclp.rtrancl_into_rtrancl rtranclp.rtrancl_refl)+

lemma sample_sessions:
  "get_session store_authorized ''job'' = Some authorized_session" "get_session store_taken_over ''job'' = Some taken_over_session"
  by (simp_all add: get_session_def store_authorized_def store_taken_over_def sample_store_def)

lemma sample_fields:
  "isSafeInteger (sr_revision authorized_session)" "sr_agreementHash authorized_session \<noteq> None"
  "sample_binding \<in> set (sr_paymentAuthorizations authorized_session)" "st_generation sample_token < sr_leaseGeneration taken_over_session"
  by (simp_all add: authorized_session_def taken_over_session_def sample_session_def sample_lease_def sample_token_def
      isSafeInteger_def max_safe_def)

theorem markers_are_final_witness:
  "get_settlement store_taken_over (''demos:'' @ replicate 64 (CHR ''a'')) = Some (''job'', sample_binding) \<and>
   get_hash store_taken_over (replicate 64 (CHR ''a'')) = Some (''job'', Agreement_Hash)"
proof -
  have "get_settlement store_authorized (''demos:'' @ replicate 64 (CHR ''a'')) = Some (''job'', sample_binding)"
    "get_hash store_authorized (replicate 64 (CHR ''a'')) = Some (''job'', Agreement_Hash)" by code_simp+
  then show ?thesis using markers_are_final [OF sample_runs(6)] by blast
qed

theorem fenced_records_well_formed_witness:
  "sr_jobId authorized_session = ''job'' \<and> sessionRecordShapeViolation authorized_session = None"
  using fenced_records_well_formed [OF sample_runs(4) sample_sessions(1)] sample_fields(1) by blast

theorem settlement_authorizes_one_session_witness:
  "sample_binding \<in> set (sr_paymentAuthorizations authorized_session) \<and> (''job'' = ''job'' \<and> sample_binding = sample_binding)"
  using settlement_authorizes_one_session [OF sample_runs(4) sample_sessions(1) sample_sessions(1), of sample_binding sample_binding]
    sample_fields(2,3) by blast

theorem session_history_append_only_witness:
  "\<exists>r'. get_session store_taken_over ''job'' = Some r' \<and> grows authorized_session r'"
  using session_history_append_only [OF sample_runs(4,6) sample_sessions(1)] by blast

theorem session_phases_move_forward_witness:
  "\<exists>r'. get_session store_taken_over ''job'' = Some r' \<and> phase_forward (sr_phase authorized_session) (sr_phase r')"
  by (rule session_phases_move_forward [OF sample_runs(4) sample_steps(5) sample_sessions(1)])

theorem superseded_session_token_is_fenced_witness:
  "snd (transition 210 store_taken_over sample_transition) = store_taken_over \<and>
   snd (claimCheckpoint 210 store_taken_over sample_claim) = store_taken_over \<and>
   snd (renewLease 210 store_taken_over sample_renew) = store_taken_over \<and>
   get_session (snd (bindSessionAuthorization 210 store_taken_over sample_authorize)) ''job'' = get_session store_taken_over ''job''"
  by (rule superseded_session_token_is_fenced [OF sample_runs(5) sample_sessions(2) sample_fields(4) rtranclp.rtrancl_refl])
    (simp_all add: sample_transition_def sample_claim_def sample_renew_def sample_authorize_def)

theorem checkpoint_claimed_once_witness:
  "fst (claimCheckpoint 210 store_taken_over sample_claim) \<noteq> Inr (Claimed taken_over_session)"
  by (rule checkpoint_claimed_once [OF sample_runs(2) sample_operations(3) sample_runs(7)]) simp_all

theorem expired_lease_can_be_taken_over_witness:
  "\<exists>r' l. fst (acquireLease 200 store_authorized (sample_acquire ''b'')) = Inr (Leased r' l) \<and> sr_lease r' = Some l \<and>
     sl_owner l = ai_owner (sample_acquire ''b'') \<and> sl_generation l = sr_leaseGeneration authorized_session + 1"
proof (rule expired_lease_can_be_taken_over [OF sample_runs(4)])
  show "get_session store_authorized (ai_jobId (sample_acquire ''b'')) = Some authorized_session"
    using sample_sessions(1) by (simp add: sample_acquire_def)
qed code_simp+

end
