(* ===== verification/Dacs_Bytes.thy ===== *)
theory Dacs_Bytes
  imports Dacs_Signatures
begin

text \<open>
  UTF-8 on the texts of the development: a text is a list of code units below 256, so every
  character takes one or two bytes. Decoding is partial: bytes that are not the encoding of such a
  text have no decoding.
\<close>

definition utf8_char :: "char \<Rightarrow> string" where
  "utf8_char c = (if code c < 128 then [c] else [byte (192 + code c div 64), byte (128 + code c mod 64)])"

text \<open>\<^verbatim>\<open>Buffer.from(text, "utf8")\<close>.\<close>

definition utf8 :: "string \<Rightarrow> string" where
  "utf8 s = concat (map utf8_char s)"

text \<open>\<^verbatim>\<open>bytes.toString("utf8")\<close>.\<close>

fun utf8_decode :: "string \<Rightarrow> string option" where
  "utf8_decode [] = Some []"
| "utf8_decode (c # r) =
     (if code c < 128 then map_option (Cons c) (utf8_decode r)
      else (case r of
              [] \<Rightarrow> None
            | d # r' \<Rightarrow>
                if 194 \<le> code c \<and> code c \<le> 195 \<and> 128 \<le> code d \<and> code d < 192
                then map_option (Cons (byte (64 * (code c - 192) + (code d - 128)))) (utf8_decode r')
                else None))"

lemma utf8_simps [simp]: "utf8 [] = []" "utf8 (c # s) = utf8_char c @ utf8 s"
  by (simp_all add: utf8_def)

lemma utf8_append: "utf8 (s @ t) = utf8 s @ utf8 t"
  by (simp add: utf8_def)

lemma utf8_two_bytes:
  assumes "\<not> code c < 128"
  shows "194 \<le> 192 + code c div 64" "192 + code c div 64 \<le> 195" "64 * (code c div 64) + code c mod 64 = code c"
proof -
  have "2 \<le> code c div 64" using assms div_le_mono [of 128 "code c" 64] by simp
  moreover have "code c div 64 \<le> 3" using code_div(3) [of c] by linarith
  ultimately show "194 \<le> 192 + code c div 64" "192 + code c div 64 \<le> 195" by linarith+
qed simp

lemma utf8_decode_utf8: "utf8_decode (utf8 s) = Some s"
proof (induction s)
  case (Cons c s)
  show ?case
  proof (cases "code c < 128")
    case True
    then show ?thesis using Cons by (simp add: utf8_char_def)
  next
    case False
    note b = utf8_two_bytes [OF False]
    have h: "code (byte (192 + code c div 64)) = 192 + code c div 64" "code (byte (128 + code c mod 64)) = 128 + code c mod 64"
      using b mod_less_divisor [of 64 "code c"] by simp_all
    have "byte (64 * (code c div 64) + code c mod 64) = c" by (simp only: b(3)) simp
    then show ?thesis using Cons False b h mod_less_divisor [of 64 "code c"] by (simp add: utf8_char_def del: of_char_of)
  qed
qed simp

interpretation utf8: lossless utf8 "\<lambda>b. the (utf8_decode b)"
  by unfold_locales (simp add: utf8_decode_utf8)

text \<open>An ASCII text is its own encoding.\<close>

lemma utf8_ascii: "list_all (\<lambda>c. code c < 128) s \<Longrightarrow> utf8 s = s"
  by (induction s) (simp_all add: utf8_char_def)

lemma utf8_length: "length s \<le> length (utf8 s)"
  by (induction s) (auto simp: utf8_char_def)

end
