(* ===== verification/Dacs_Sealed_Bid.thy ===== *)
theory Dacs_Sealed_Bid
  imports Dacs_Bytes Dacs_Claims Dacs_Pricing Dacs_Sort
begin

text \<open>
  Sealed bids (\<^verbatim>\<open>src/src/negotiate/sealedBid.ts\<close>): commitments to a bid under a salt, the commit and
  reveal windows, the authoritative commit of a bidder, and the selection of a winner.

  A byte array is a \<^typ>\<open>string\<close> of its bytes. The hash function takes bytes to a hexadecimal text
  and is a parameter. A bid is its price and the other members of its JSON object. An anchor time
  is a number, or \<^const>\<open>None\<close> while the network has not resolved it.
\<close>

section \<open>Data\<close>

record sealed_bid =
  bid_amount :: string
  bid_currency :: string
  bid_price_members :: "(string \<times> json) list"
  bid_members :: "(string \<times> json) list"

definition bid_json :: "sealed_bid \<Rightarrow> json" where
  "bid_json b =
     JObj ((''price'', JObj ([(''amount'', JStr (bid_amount b)), (''currency'', JStr (bid_currency b))] @ bid_price_members b))
           # bid_members b)"

record anchored_commit =
  ac_bidderClaim :: string
  ac_bidHash :: string
  ac_anchorTs :: "jsnumber option"

record anchored_reveal =
  ar_bidderClaim :: string
  ar_bid :: sealed_bid
  ar_salt :: string
  ar_anchorTs :: int

type_synonym candidate = "anchored_reveal \<times> anchored_commit"

definition SEALED_BID_HASH_TAG :: string where
  "SEALED_BID_HASH_TAG = ''dacs-sealed-bid:v1:''"

definition MIN_SALT_BYTES :: nat where
  "MIN_SALT_BYTES = 32"

definition MIN_COMMIT_LEAD_MS :: int where
  "MIN_COMMIT_LEAD_MS = 60000"

definition MIN_REVEAL_WINDOW_SECONDS :: int where
  "MIN_REVEAL_WINDOW_SECONDS = 60"

section \<open>Commitment and reveal\<close>

text \<open>\<^verbatim>\<open>Buffer.from(text, "hex")\<close>: pairs of digits, up to the first that is not hexadecimal.\<close>

definition is_hex :: "char \<Rightarrow> bool" where
  "is_hex c \<longleftrightarrow> is_hex_lower c \<or> 65 \<le> code c \<and> code c \<le> 70"

definition hex_value :: "char \<Rightarrow> nat" where
  "hex_value c = (if is_digit c then code c - 48 else if code c < 97 then code c - 55 else code c - 87)"

fun hex_bytes :: "string \<Rightarrow> string" where
  "hex_bytes (a # b # r) = (if is_hex a \<and> is_hex b then byte (16 * hex_value a + hex_value b) # hex_bytes r else [])"
| "hex_bytes _ = []"

text \<open>
  \<^verbatim>\<open>Buffer.from(salt, "base64url")\<close>: both spellings of the last two digits are read, and other
  characters are skipped.
\<close>

definition saltBytes :: "string \<Rightarrow> string" where
  "saltBytes salt =
     base64url_decode (filter is_base64url_char
       (map (\<lambda>c. if c = CHR ''+'' then CHR ''-'' else if c = CHR ''/'' then CHR ''_'' else c) salt))"

definition bidDigest :: "(string \<Rightarrow> string) \<Rightarrow> sealed_bid \<Rightarrow> string res" where
  "bidDigest sha256 bid = bindR (canonicalize (bid_json bid)) (\<lambda>text. Inr (hex_bytes (sha256 (utf8 text))))"

definition computeBidHash :: "(string \<Rightarrow> string) \<Rightarrow> sealed_bid \<Rightarrow> string \<Rightarrow> string res" where
  "computeBidHash sha256 bid salt =
     bindR (bidDigest sha256 bid) (\<lambda>digest. Inr (sha256 (SEALED_BID_HASH_TAG @ digest @ saltBytes salt)))"

definition generateSalt :: "string \<Rightarrow> string" where
  "generateSalt randomBytes = base64url_encode randomBytes"

definition saltHasEnoughEntropy :: "string \<Rightarrow> bool" where
  "saltHasEnoughEntropy salt \<longleftrightarrow> MIN_SALT_BYTES \<le> length (saltBytes salt)"

text \<open>A commitment is the salt and the hash; \<open>randomBytes\<close> are the 32 bytes drawn when no salt is supplied.\<close>

definition makeCommitment :: "(string \<Rightarrow> string) \<Rightarrow> string \<Rightarrow> sealed_bid \<Rightarrow> string option \<Rightarrow> (string \<times> string) res" where
  "makeCommitment sha256 randomBytes bid salt =
     (let s = (case salt of None \<Rightarrow> generateSalt randomBytes | Some x \<Rightarrow> x) in
      ensure (saltHasEnoughEntropy s) ''sealed-bid salt must be at least 32 bytes of entropy''
        (bindR (computeBidHash sha256 bid s) (\<lambda>h. Inr (s, h))))"

definition verifyReveal :: "(string \<Rightarrow> string) \<Rightarrow> string \<Rightarrow> sealed_bid \<Rightarrow> string \<Rightarrow> bool res" where
  "verifyReveal sha256 bidHash bid salt = bindR (computeBidHash sha256 bid salt) (\<lambda>h. Inr (h = bidHash))"

section \<open>Windows\<close>

record sealed_params =
  sp_commitDeadline :: int
  sp_revealWindow :: int
  sp_selectionRule :: string
  sp_acceptanceRule :: "string option"
  sp_auctionMode :: json

definition validateSealedParams :: "sealed_params \<Rightarrow> int \<Rightarrow> 'a res \<Rightarrow> 'a res" where
  "validateSealedParams params nowMs k =
     ensure (nowMs + MIN_COMMIT_LEAD_MS \<le> sp_commitDeadline params) ''commitDeadline MUST be at least 60s in the future''
     (ensure (MIN_REVEAL_WINDOW_SECONDS \<le> sp_revealWindow params) ''revealWindow MUST be at least 60 seconds'' k)"

text \<open>The resolved time of a commit: a non-negative safe integer.\<close>

definition anchor_time :: "anchored_commit \<Rightarrow> int option" where
  "anchor_time c = (case ac_anchorTs c of Some (JInt n) \<Rightarrow> if isSafeInteger n \<and> 0 \<le> n then Some n else None | _ \<Rightarrow> None)"

definition commitsInWindow :: "anchored_commit list \<Rightarrow> int \<Rightarrow> anchored_commit list" where
  "commitsInWindow commits commitDeadline =
     filter (\<lambda>c. case anchor_time c of None \<Rightarrow> False | Some t \<Rightarrow> t \<le> commitDeadline) commits"

definition structurallyValidCommit :: "anchored_commit \<Rightarrow> bool" where
  "structurallyValidCommit c \<longleftrightarrow> ac_bidderClaim c \<noteq> [] \<and> is_hash (ac_bidHash c)"

definition resolveCommitWindow :: "anchored_commit list \<Rightarrow> int \<Rightarrow> anchored_commit list \<times> string list" where
  "resolveCommitWindow commits commitDeadline =
     (let valid = filter structurallyValidCommit commits in
      (commitsInWindow valid commitDeadline,
       sort (remdups (map ac_bidderClaim (filter (\<lambda>c. ac_anchorTs c = None) valid)))))"

definition revealsInWindow :: "anchored_reveal list \<Rightarrow> sealed_params \<Rightarrow> anchored_reveal list" where
  "revealsInWindow reveals params =
     (let expiry = sp_commitDeadline params + sp_revealWindow params * 1000 in
      filter (\<lambda>r. sp_commitDeadline params \<le> ar_anchorTs r \<and> ar_anchorTs r \<le> expiry) reveals)"

section \<open>The authoritative commit of a bidder\<close>

definition commit_time :: "anchored_commit \<Rightarrow> int" where
  "commit_time c = (case anchor_time c of None \<Rightarrow> 0 | Some t \<Rightarrow> t)"

text \<open>The comparator of commits: by time, then by hash.\<close>

definition commit_le :: "anchored_commit \<Rightarrow> anchored_commit \<Rightarrow> bool" where
  "commit_le a b \<longleftrightarrow>
     commit_time a < commit_time b \<or> commit_time a = commit_time b \<and> ac_bidHash a \<le> ac_bidHash b"

definition commit_tuple :: "anchored_commit \<Rightarrow> string" where
  "commit_tuple c = ac_bidderClaim c @ char_of (0::nat) # int_text (commit_time c) @ char_of (0::nat) # ac_bidHash c"

text \<open>The loop over the sorted commits: the set of exact duplicates and the map of first commits.\<close>

fun index_commits ::
  "string list \<Rightarrow> (string \<times> anchored_commit) list \<Rightarrow> anchored_commit list \<Rightarrow> (string \<times> anchored_commit) list" where
  "index_commits seen byBidder [] = byBidder"
| "index_commits seen byBidder (c # cs) =
     (if commit_tuple c \<in> set seen then index_commits seen byBidder cs
      else index_commits (commit_tuple c # seen)
             (if map_of byBidder (ac_bidderClaim c) = None then (ac_bidderClaim c, c) # byBidder else byBidder) cs)"

text \<open>The loop over the reveals.\<close>

fun match_reveals ::
  "(string \<Rightarrow> string) \<Rightarrow> (string \<times> anchored_commit) list \<Rightarrow> anchored_reveal list \<Rightarrow> candidate list res" where
  "match_reveals sha256 byBidder [] = Inr []"
| "match_reveals sha256 byBidder (r # rs) =
     (case map_of byBidder (ar_bidderClaim r) of
        None \<Rightarrow> match_reveals sha256 byBidder rs
      | Some c \<Rightarrow>
          bindR (verifyReveal sha256 (ac_bidHash c) (ar_bid r) (ar_salt r)) (\<lambda>ok.
          bindR (match_reveals sha256 byBidder rs) (\<lambda>out. Inr (if ok then (r, c) # out else out))))"

definition matchRevealsToCommits ::
  "(string \<Rightarrow> string) \<Rightarrow> anchored_commit list \<Rightarrow> anchored_reveal list \<Rightarrow> candidate list res" where
  "matchRevealsToCommits sha256 commits reveals =
     (let resolved = sort_by commit_le (filter (\<lambda>c. structurallyValidCommit c \<and> anchor_time c \<noteq> None) commits) in
      match_reveals sha256 (index_commits [] [] resolved) reveals)"

section \<open>Rule references\<close>

record rule_ref =
  rr_contentHash :: string
  rr_uri :: string

definition rule_prefix :: "string \<Rightarrow> bool" where
  "rule_prefix rule \<longleftrightarrow> take 9 rule = ''rule-ref:''"

definition parseRuleRef :: "string \<Rightarrow> rule_ref option" where
  "parseRuleRef rule =
     (if \<not> rule_prefix rule then None
      else (case break_at (CHR '':'') (drop 9 rule) of
              (h, Some uri) \<Rightarrow> if is_hash h \<and> uri \<noteq> [] then Some \<lparr>rr_contentHash = h, rr_uri = uri\<rparr> else None
            | _ \<Rightarrow> None))"

definition verifyRuleRefContent :: "(string \<Rightarrow> string) \<Rightarrow> string \<Rightarrow> json \<Rightarrow> bool res" where
  "verifyRuleRefContent sha256 rule ruleContent =
     (case parseRuleRef rule of
        None \<Rightarrow> Inr False
      | Some parsed \<Rightarrow> bindR (canonicalize ruleContent) (\<lambda>text. Inr (sha256 (utf8 text) = rr_contentHash parsed)))"

section \<open>Selection\<close>

definition compareDecimal :: "string \<Rightarrow> string \<Rightarrow> int res" where
  "compareDecimal a b =
     bindR (canonicalizeDecimal a) (\<lambda>ca. bindR (canonicalizeDecimal b) (\<lambda>cb. Inr (compareCanonicalDecimal ca cb)))"

record selection_options =
  so_selectionRule :: string
  so_currency :: string
  so_reservePrice :: "price_term option"

record selection_result =
  sl_winner :: "anchored_reveal option"
  sl_reason :: "string option"
  sl_excluded :: "(string \<times> string) list"

abbreviation cand_amount :: "candidate \<Rightarrow> string" where
  "cand_amount c \<equiv> bid_amount (ar_bid (fst c))"

definition bid_exclusion :: "selection_options \<Rightarrow> candidate \<Rightarrow> string option" where
  "bid_exclusion opts c =
     (if bid_currency (ar_bid (fst c)) \<noteq> so_currency opts then Some ''currency mismatch''
      else if \<not> isOk (assertPositiveAmount (cand_amount c)) then Some ''non-positive or invalid amount''
      else None)"

text \<open>One filter pass with its log of exclusions.\<close>

definition exclusions :: "(candidate \<Rightarrow> string option) \<Rightarrow> candidate list \<Rightarrow> (string \<times> string) list" where
  "exclusions why cs = concat (map (\<lambda>c. case why c of None \<Rightarrow> [] | Some m \<Rightarrow> [(ar_bidderClaim (fst c), m)]) cs)"

definition fails_reserve :: "selection_options \<Rightarrow> price_term \<Rightarrow> candidate \<Rightarrow> bool res" where
  "fails_reserve opts reserve c =
     bindR (compareDecimal (cand_amount c) (pt_amount reserve)) (\<lambda>cmp.
       Inr (if so_selectionRule opts = ''lowest-price'' then cmp > 0 else cmp < 0))"

fun reserve_pass :: "selection_options \<Rightarrow> price_term \<Rightarrow> candidate list \<Rightarrow> (candidate list \<times> (string \<times> string) list) res" where
  "reserve_pass opts reserve [] = Inr ([], [])"
| "reserve_pass opts reserve (c # cs) =
     bindR (fails_reserve opts reserve c) (\<lambda>fails.
     bindR (reserve_pass opts reserve cs) (\<lambda>(pool, out).
       Inr (if fails then (pool, (ar_bidderClaim (fst c), ''fails reserve'') # out) else (c # pool, out))))"

text \<open>
  The comparators. Candidates come from \<open>matchRevealsToCommits\<close>, so their bids have a hash; after
  the exclusions their amounts are decimals.
\<close>

definition bidHashOf :: "(string \<Rightarrow> string) \<Rightarrow> candidate \<Rightarrow> string" where
  "bidHashOf sha256 c = (case computeBidHash sha256 (ar_bid (fst c)) (ar_salt (fst c)) of Inl _ \<Rightarrow> [] | Inr h \<Rightarrow> h)"

definition tieBreak_le :: "(string \<Rightarrow> string) \<Rightarrow> candidate \<Rightarrow> candidate \<Rightarrow> bool" where
  "tieBreak_le sha256 a b \<longleftrightarrow>
     commit_time (snd a) < commit_time (snd b) \<or>
     commit_time (snd a) = commit_time (snd b) \<and> bidHashOf sha256 a \<le> bidHashOf sha256 b"

definition price_cmp :: "string \<Rightarrow> candidate \<Rightarrow> candidate \<Rightarrow> int" where
  "price_cmp rule a b =
     (case compareDecimal (cand_amount a) (cand_amount b) of
        Inl _ \<Rightarrow> 0 | Inr c \<Rightarrow> if rule = ''lowest-price'' then c else - c)"

definition price_le :: "(string \<Rightarrow> string) \<Rightarrow> string \<Rightarrow> candidate \<Rightarrow> candidate \<Rightarrow> bool" where
  "price_le sha256 rule a b \<longleftrightarrow> price_cmp rule a b < 0 \<or> price_cmp rule a b = 0 \<and> tieBreak_le sha256 a b"

text \<open>
  The acceptance predicate may keep a state (the core around it records failures of the rule
  evaluator), so it is threaded through the search.
\<close>

fun find_acceptable :: "('s \<Rightarrow> sealed_bid \<Rightarrow> bool \<times> 's) \<Rightarrow> 's \<Rightarrow> candidate list \<Rightarrow> candidate option \<times> 's" where
  "find_acceptable accept s [] = (None, s)"
| "find_acceptable accept s (c # cs) =
     (case accept s (ar_bid (fst c)) of (True, s') \<Rightarrow> (Some c, s') | (False, s') \<Rightarrow> find_acceptable accept s' cs)"

definition is_price_rule :: "string \<Rightarrow> bool" where
  "is_price_rule rule \<longleftrightarrow> rule = ''lowest-price'' \<or> rule = ''highest-price''"

definition choose_winner ::
  "(string \<Rightarrow> string) \<Rightarrow> string \<Rightarrow> ('s \<Rightarrow> sealed_bid \<Rightarrow> bool \<times> 's) option \<Rightarrow> 's \<Rightarrow> candidate list \<Rightarrow> (candidate option \<times> string) \<times> 's" where
  "choose_winner sha256 rule accept s pool =
     (if pool = [] then ((None, ''no candidate bids after exclusions''), s)
      else if is_price_rule rule then ((Some (hd (sort_by (price_le sha256 rule) pool)), ''''), s)
      else (case accept of
              None \<Rightarrow> ((None, ''selection rule requires an acceptancePredicate''), s)
            | Some f \<Rightarrow>
                (case find_acceptable f s (sort_by (tieBreak_le sha256) pool) of
                   (w, s') \<Rightarrow> ((w, ''no bid satisfied the acceptance predicate''), s'))))"

text \<open>The candidates left after currency, amount and reserve, with the log; \<open>Inl\<close> inside is a listing that cannot be served.\<close>

definition eligible_pool ::
  "candidate list \<Rightarrow> selection_options \<Rightarrow> ((candidate list \<times> (string \<times> string) list) option) res" where
  "eligible_pool candidates opts =
     (let pool = filter (\<lambda>c. bid_exclusion opts c = None) candidates in
      case so_reservePrice opts of
        None \<Rightarrow> Inr (Some (pool, []))
      | Some reserve \<Rightarrow>
          if pt_currency reserve \<noteq> so_currency opts then Inr None
          else bindR (reserve_pass opts reserve pool) (\<lambda>p. Inr (Some p)))"

definition selectSealedWinner ::
  "(string \<Rightarrow> string) \<Rightarrow> candidate list \<Rightarrow> selection_options \<Rightarrow> ('s \<Rightarrow> sealed_bid \<Rightarrow> bool \<times> 's) option \<Rightarrow> 's \<Rightarrow>
   (selection_result \<times> 's) res" where
  "selectSealedWinner sha256 candidates opts accept s =
     (let excluded = exclusions (bid_exclusion opts) candidates in
      bindR (eligible_pool candidates opts) (\<lambda>p.
        case p of
          None \<Rightarrow>
            Inr (\<lparr>sl_winner = None, sl_reason = Some ''reserve currency is not the listing currency (non-conformant listing)'',
                  sl_excluded = excluded\<rparr>, s)
        | Some (pool, out) \<Rightarrow>
            (case choose_winner sha256 (so_selectionRule opts) accept s pool of
               ((Some w, _), s') \<Rightarrow> Inr (\<lparr>sl_winner = Some (fst w), sl_reason = None, sl_excluded = excluded @ out\<rparr>, s')
             | ((None, why), s') \<Rightarrow> Inr (\<lparr>sl_winner = None, sl_reason = Some why, sl_excluded = excluded @ out\<rparr>, s'))))"

end
