(* ===== verification/Dacs_Sealed_Envelope.thy ===== *)
theory Dacs_Sealed_Envelope
  imports Dacs_Sealed_Bid
begin

text \<open>
  The sealed-envelope phase (\<^verbatim>\<open>src/src/negotiate/sealedEnvelope.ts\<close>): the auction mode, the roles of the
  agreement, the gates before it is committed, the verification of a listing-bound rule, and the
  core that runs an auction over the anchored commits and reveals. Values a caller may get wrong at
  run time (phase kind and auction mode) are JSON values. The readers, the agreement builder, the
  rule resolver and the rule evaluator are parameters.
\<close>

section \<open>Messages and modes\<close>

record channel_message =
  scm_type :: string
  scm_jobId :: string
  scm_sender :: string
  scm_body :: json
  scm_sentAt :: int

definition buildCommitMessage :: "string \<Rightarrow> string \<Rightarrow> string \<Rightarrow> int \<Rightarrow> channel_message" where
  "buildCommitMessage jobId sender bidHash commitTimestamp =
     \<lparr>scm_type = ''sealed-envelope-commit'', scm_jobId = jobId, scm_sender = sender,
      scm_body = JObj [(''bidHash'', JStr bidHash), (''bidderClaim'', JStr sender), (''commitTimestamp'', JNum (JInt commitTimestamp))],
      scm_sentAt = commitTimestamp\<rparr>"

definition buildRevealMessage :: "string \<Rightarrow> string \<Rightarrow> sealed_bid \<Rightarrow> string \<Rightarrow> int \<Rightarrow> channel_message" where
  "buildRevealMessage jobId sender bid salt sentAt =
     \<lparr>scm_type = ''sealed-envelope-reveal'', scm_jobId = jobId, scm_sender = sender,
      scm_body = JObj [(''bid'', bid_json bid), (''salt'', JStr salt)], scm_sentAt = sentAt\<rparr>"

datatype auction_mode = Demand | Procurement

definition DEMAND_SEALED_ENVELOPE_PHASE :: string where
  "DEMAND_SEALED_ENVELOPE_PHASE = ''negotiate-sealed-envelope''"

definition PROCUREMENT_SEALED_ENVELOPE_PHASE :: string where
  "PROCUREMENT_SEALED_ENVELOPE_PHASE = ''negotiate-sealed-envelope-procurement''"

definition mode_phase :: "auction_mode \<Rightarrow> string" where
  "mode_phase m = (case m of Demand \<Rightarrow> DEMAND_SEALED_ENVELOPE_PHASE | Procurement \<Rightarrow> PROCUREMENT_SEALED_ENVELOPE_PHASE)"

definition resolveSealedEnvelopeMode :: "json \<Rightarrow> json \<Rightarrow> auction_mode option" where
  "resolveSealedEnvelopeMode phaseKind auctionMode =
     (let kind = (if phaseKind = JUndefined then JStr DEMAND_SEALED_ENVELOPE_PHASE else phaseKind) in
      if kind = JStr DEMAND_SEALED_ENVELOPE_PHASE \<and> (auctionMode = JUndefined \<or> auctionMode = JStr ''demand'') then Some Demand
      else if kind = JStr PROCUREMENT_SEALED_ENVELOPE_PHASE \<and> auctionMode = JStr ''procurement'' then Some Procurement
      else None)"

section \<open>Roles\<close>

datatype party_role = Buyer | Seller | Bidder_Non_Winning

record agreement_party =
  pa_claim :: string
  pa_role :: party_role
  pa_signatureRequired :: bool

record role_assignment =
  ra_mode :: auction_mode
  ra_buyer :: string
  ra_seller :: string
  ra_parties :: "agreement_party list"

definition requiredSignerClaims :: "role_assignment \<Rightarrow> string list" where
  "requiredSignerClaims a = [ra_buyer a, ra_seller a]"

definition assign_roles :: "auction_mode \<Rightarrow> string \<Rightarrow> string \<Rightarrow> string list \<Rightarrow> role_assignment" where
  "assign_roles mode listingPublisher winner losing =
     (let buyer = (if mode = Procurement then listingPublisher else winner);
          seller = (if mode = Procurement then winner else listingPublisher) in
      \<lparr>ra_mode = mode, ra_buyer = buyer, ra_seller = seller,
       ra_parties = \<lparr>pa_claim = buyer, pa_role = Buyer, pa_signatureRequired = True\<rparr>
                  # \<lparr>pa_claim = seller, pa_role = Seller, pa_signatureRequired = True\<rparr>
                  # map (\<lambda>c. \<lparr>pa_claim = c, pa_role = Bidder_Non_Winning, pa_signatureRequired = False\<rparr>) losing\<rparr>)"

definition assignSealedEnvelopeRoles :: "json \<Rightarrow> json \<Rightarrow> string \<Rightarrow> string \<Rightarrow> string list \<Rightarrow> role_assignment res" where
  "assignSealedEnvelopeRoles phaseKind auctionMode listingPublisher winner losing =
     (case resolveSealedEnvelopeMode phaseKind auctionMode of
        None \<Rightarrow> throw ''unresolvable-auctionMode''
      | Some mode \<Rightarrow> Inr (assign_roles mode listingPublisher winner losing))"

section \<open>The agreement\<close>

record sealed_agreement =
  ag_jobId :: string
  ag_pattern :: string
  ag_buyer :: string
  ag_seller :: string
  ag_listingRef :: string
  ag_amount :: string
  ag_asset :: string
  ag_decimals :: int
  ag_rail :: string
  ag_deliveryPhase :: string
  ag_deliveryFormat :: string
  ag_expiresAt :: string

record winner_context =
  wc_jobId :: string
  wc_listingPublisher :: "string option"
  wc_winner :: string
  wc_bid :: sealed_bid
  wc_losing :: "string list"
  wc_phaseKind :: json
  wc_auctionMode :: json

record agreement_context =
  gc_seller :: string
  gc_listingRef :: string
  gc_decimals :: int
  gc_rail :: string
  gc_deliveryPhase :: string
  gc_deliveryFormat :: string
  gc_expiresAt :: string

definition buildSealedAgreement :: "winner_context \<Rightarrow> agreement_context \<Rightarrow> sealed_agreement res" where
  "buildSealedAgreement win ctx =
     ensure (wc_listingPublisher win = None \<or> wc_listingPublisher win = Some (gc_seller ctx))
       ''sealed-envelope listing publisher does not match the pinned listing context''
     (bindR (assignSealedEnvelopeRoles (wc_phaseKind win) (wc_auctionMode win) (gc_seller ctx) (wc_winner win) (wc_losing win)) (\<lambda>roles.
      bindR (baseUnits (bid_amount (wc_bid win)) (gc_decimals ctx)) (\<lambda>amt.
      ensure (amt \<noteq> ''0'') ''winning sealed bid resolves to a zero base-unit amount''
      (Inr \<lparr>ag_jobId = wc_jobId win, ag_pattern = ''negotiate-sealed-envelope'', ag_buyer = ra_buyer roles, ag_seller = ra_seller roles,
            ag_listingRef = gc_listingRef ctx, ag_amount = amt, ag_asset = bid_currency (wc_bid win), ag_decimals = gc_decimals ctx,
            ag_rail = gc_rail ctx, ag_deliveryPhase = gc_deliveryPhase ctx, ag_deliveryFormat = gc_deliveryFormat ctx,
            ag_expiresAt = gc_expiresAt ctx\<rparr>))))"

datatype failed_at = At_AuctionMode | At_Role_Direction | At_Required_Signature | At_Agreement_Validation

datatype role_validation = Roles_Ok role_assignment | Roles_Failed failed_at string "string option"

definition validateSealedAgreementRoleAssignment ::
  "sealed_agreement \<Rightarrow> json \<Rightarrow> json \<Rightarrow> string \<Rightarrow> string \<Rightarrow> string list \<Rightarrow> role_validation" where
  "validateSealedAgreementRoleAssignment agreement phaseKind auctionMode listingPublisher winner losing =
     (case resolveSealedEnvelopeMode phaseKind auctionMode of
        None \<Rightarrow> Roles_Failed At_AuctionMode ''unresolvable-auctionMode'' None
      | Some mode \<Rightarrow>
          (let a = assign_roles mode listingPublisher winner losing in
           if ag_pattern agreement \<noteq> ''negotiate-sealed-envelope'' \<or> ag_buyer agreement \<noteq> ra_buyer a \<or> ag_seller agreement \<noteq> ra_seller a
           then Roles_Failed At_Role_Direction ''sealed-envelope roles do not match'' None
           else Roles_Ok a))"

text \<open>\<^verbatim>\<open>if (missingSigner)\<close>: a missing claim that is the empty text does not count.\<close>

definition validateSealedAgreementForCommit ::
  "sealed_agreement \<Rightarrow> json \<Rightarrow> json \<Rightarrow> string \<Rightarrow> string \<Rightarrow> string list \<Rightarrow> string list \<Rightarrow> role_validation" where
  "validateSealedAgreementForCommit agreement phaseKind auctionMode listingPublisher winner losing verifiedSigners =
     (case validateSealedAgreementRoleAssignment agreement phaseKind auctionMode listingPublisher winner losing of
        Roles_Failed f m x \<Rightarrow> Roles_Failed f m x
      | Roles_Ok a \<Rightarrow>
          (case find (\<lambda>claim. claim \<notin> set verifiedSigners) (requiredSignerClaims a) of
             Some claim \<Rightarrow>
               if claim \<noteq> [] then Roles_Failed At_Required_Signature ''missing verified agreement signature'' (Some claim) else Roles_Ok a
           | None \<Rightarrow> Roles_Ok a))"

section \<open>Listing-bound rules\<close>

datatype evaluator_answer = Answer bool | Answer_Other | Answer_Throws

text \<open>What the builder of the agreement returns: a reference and a hash, with or without the proof.\<close>

record commit_result =
  cr_proof :: "(sealed_agreement \<times> string list) option"
  cr_agreementRef :: string
  cr_agreementHash :: string

record commit_context =
  cx_jobId :: string
  cx_listingPublisher :: string
  cx_winner :: string
  cx_bid :: sealed_bid
  cx_losing :: "string list"
  cx_roles :: role_assignment

text \<open>
  The evaluator receives the number of the call, so that it need not be deterministic, and the
  canonical texts of the rule, of the bid and of the matched bids.
\<close>

record sealed_deps =
  sd_readAnchoredCommits :: "anchored_commit list res"
  sd_readAnchoredReveals :: "anchored_reveal list res"
  sd_commitAgreement :: "commit_context \<Rightarrow> commit_result res"
  sd_resolveRuleContent :: "(rule_ref \<Rightarrow> json res) option"
  sd_evaluateVerifiedRule :: "(nat \<Rightarrow> string \<Rightarrow> string \<Rightarrow> string list \<Rightarrow> evaluator_answer) option"

definition resolveVerifiedRule :: "(string \<Rightarrow> string) \<Rightarrow> string option \<Rightarrow> sealed_deps \<Rightarrow> string + string" where
  "resolveVerifiedRule sha256 encodedRef deps =
     (case encodedRef of
        None \<Rightarrow> Inl ''selection requires a listing-bound acceptance rule''
      | Some encoded \<Rightarrow>
          if encoded = [] then Inl ''selection requires a listing-bound acceptance rule''
          else (case parseRuleRef encoded of
                  None \<Rightarrow> Inl ''malformed rule-ref selection rule''
                | Some ref \<Rightarrow>
                    (case (sd_resolveRuleContent deps, sd_evaluateVerifiedRule deps) of
                       (Some resolve, Some _) \<Rightarrow>
                         (case bindR (resolve ref) canonicalize of
                            Inl _ \<Rightarrow> Inl ''rule-ref content is unresolvable or malformed''
                          | Inr text \<Rightarrow>
                              if sha256 (utf8 text) \<noteq> rr_contentHash ref then Inl ''rule-ref content hash mismatch (SE-6)'' else Inr text)
                     | _ \<Rightarrow> Inl ''selection requires a verified rule resolver and deterministic evaluator'')))"

text \<open>The acceptance predicate: both calls of the evaluator must give the same boolean. The state is the number of calls and the last failure.\<close>

definition accept_bid ::
  "(nat \<Rightarrow> string \<Rightarrow> string \<Rightarrow> string list \<Rightarrow> evaluator_answer) \<Rightarrow> string \<Rightarrow> string list \<Rightarrow>
   nat \<times> string option \<Rightarrow> sealed_bid \<Rightarrow> bool \<times> nat \<times> string option" where
  "accept_bid evaluate rule bids s bid =
     (case s of (n, failure) \<Rightarrow>
        (case canonicalize (bid_json bid) of
           Inl _ \<Rightarrow> (False, n, Some ''verified rule evaluator failed'')
         | Inr text \<Rightarrow>
             (let first = evaluate n rule text bids; second = evaluate (n + 1) rule text bids in
              if first = Answer_Throws then (False, n + 1, Some ''verified rule evaluator failed'')
              else if second = Answer_Throws then (False, n + 2, Some ''verified rule evaluator failed'')
              else (case first of
                      Answer b \<Rightarrow>
                        if second = Answer b then (b, n + 2, failure)
                        else (False, n + 2, Some ''verified rule evaluator is non-deterministic'')
                    | _ \<Rightarrow> (False, n + 2, Some ''verified rule evaluator is non-deterministic'')))))"

section \<open>The core\<close>

datatype error_class = Counterparty | Permanent | Substrate

record sealed_result =
  se_ok :: bool
  se_mode :: "auction_mode option"
  se_winner :: "string option"
  se_agreement :: "(string \<times> string) option"
  se_losing :: "string list"
  se_reason :: "string option"
  se_failedAt :: "failed_at option"
  se_missingSigner :: "string option"
  se_errorClass :: "error_class option"
  se_excluded :: "(string \<times> string) list"
  se_roles :: "role_assignment option"

definition failed_result :: "string \<Rightarrow> error_class \<Rightarrow> sealed_result" where
  "failed_result reason cls =
     \<lparr>se_ok = False, se_mode = None, se_winner = None, se_agreement = None, se_losing = [], se_reason = Some reason, se_failedAt = None,
      se_missingSigner = None, se_errorClass = Some cls, se_excluded = [], se_roles = None\<rparr>"

definition permanentFailure :: "string \<Rightarrow> sealed_result" where
  "permanentFailure reason = failed_result reason Permanent"

definition has_substring :: "string \<Rightarrow> string \<Rightarrow> bool" where
  "has_substring s t \<longleftrightarrow> list_ex (\<lambda>n. take (length t) (drop n s) = t) [0..<Suc (length s)]"

definition isStructuralReason :: "string \<Rightarrow> bool" where
  "isStructuralReason reason \<longleftrightarrow>
     list_ex (has_substring reason)
       [''non-conformant'', ''acceptancePredicate'', ''verified rule'', ''rule-ref'', ''acceptance rule'', ''deterministic'',
        ''reserve currency'']"

record sealed_input =
  si_jobId :: string
  si_phaseKind :: json
  si_seller :: string
  si_currency :: string
  si_reservePrice :: "price_term option"
  si_sessionStartMs :: "int option"
  si_params :: sealed_params

definition known_rule :: "string \<Rightarrow> bool" where
  "known_rule rule \<longleftrightarrow> is_price_rule rule \<or> rule = ''first-acceptable'' \<or> rule_prefix rule"

text \<open>The rule the listing pins: none for the price rules.\<close>

definition verified_rule :: "(string \<Rightarrow> string) \<Rightarrow> sealed_input \<Rightarrow> sealed_deps \<Rightarrow> string + string option" where
  "verified_rule sha256 input deps =
     (let rule = sp_selectionRule (si_params input) in
      if rule_prefix rule \<or> rule = ''first-acceptable''
      then (case resolveVerifiedRule sha256 (if rule_prefix rule then Some rule else sp_acceptanceRule (si_params input)) deps of
              Inl m \<Rightarrow> Inl m | Inr text \<Rightarrow> Inr (Some text))
      else Inr None)"

text \<open>The matched bids in commit order, as the evaluator sees them, and the predicate over them.\<close>

definition acceptance ::
  "sealed_deps \<Rightarrow> string option \<Rightarrow> candidate list \<Rightarrow>
   ((nat \<times> string option \<Rightarrow> sealed_bid \<Rightarrow> bool \<times> nat \<times> string option) option) res" where
  "acceptance deps rule candidates =
     (case (rule, sd_evaluateVerifiedRule deps) of
        (Some text, Some evaluate) \<Rightarrow>
          bindR (mapR (\<lambda>c. canonicalize (bid_json (ar_bid (fst c)))) (sort_by (\<lambda>a b. commit_le (snd a) (snd b)) candidates))
            (\<lambda>bids. Inr (Some (accept_bid evaluate text bids)))
      | _ \<Rightarrow> Inr None)"

definition auction_options :: "sealed_input \<Rightarrow> selection_options" where
  "auction_options input =
     \<lparr>so_selectionRule = sp_selectionRule (si_params input), so_currency = si_currency input, so_reservePrice = si_reservePrice input\<rparr>"

text \<open>The end of a run with a winner: the agreement is built and the gates are repeated on what was signed.\<close>

definition commit_winner ::
  "sealed_input \<Rightarrow> sealed_deps \<Rightarrow> auction_mode \<Rightarrow> string list \<Rightarrow> (string \<times> string) list \<Rightarrow> anchored_reveal \<Rightarrow> sealed_result res" where
  "commit_winner input deps mode allBidders excluded w =
     (let winner = ar_bidderClaim w;
          losing = filter (\<lambda>b. b \<noteq> winner) allBidders;
          roles = assign_roles mode (si_seller input) winner losing;
          context' = \<lparr>cx_jobId = si_jobId input, cx_listingPublisher = si_seller input, cx_winner = winner, cx_bid = ar_bid w,
                      cx_losing = losing, cx_roles = roles\<rparr> in
      bindR (sd_commitAgreement deps context') (\<lambda>committed.
        let failure = (\<lambda>why loc missing.
              \<lparr>se_ok = False, se_mode = Some mode, se_winner = Some winner, se_agreement = None, se_losing = losing, se_reason = Some why,
               se_failedAt = Some loc, se_missingSigner = missing, se_errorClass = Some Permanent, se_excluded = excluded,
               se_roles = Some roles\<rparr>);
            success =
              \<lparr>se_ok = True, se_mode = Some mode, se_winner = Some winner,
               se_agreement = Some (cr_agreementRef committed, cr_agreementHash committed), se_losing = losing, se_reason = None,
               se_failedAt = None, se_missingSigner = None, se_errorClass = None, se_excluded = excluded, se_roles = Some roles\<rparr> in
        Inr (case cr_proof committed of
               None \<Rightarrow>
                 if mode = Procurement
                 then failure ''procurement agreement commit must return the agreement and verified signer claims'' At_Agreement_Validation None
                 else success
             | Some (agreement, signers) \<Rightarrow>
                 (case validateSealedAgreementForCommit agreement (JStr (mode_phase mode))
                         (JStr (case mode of Demand \<Rightarrow> ''demand'' | Procurement \<Rightarrow> ''procurement'')) (si_seller input) winner losing signers of
                    Roles_Failed loc why missing \<Rightarrow> failure why loc missing
                  | Roles_Ok _ \<Rightarrow> success))))"

definition no_winner :: "auction_mode \<Rightarrow> string list \<Rightarrow> (string \<times> string) list \<Rightarrow> string \<Rightarrow> sealed_result" where
  "no_winner mode allBidders excluded reason =
     \<lparr>se_ok = False, se_mode = Some mode, se_winner = None, se_agreement = None, se_losing = allBidders, se_reason = Some reason,
      se_failedAt = None, se_missingSigner = None, se_errorClass = Some (if isStructuralReason reason then Permanent else Counterparty),
      se_excluded = excluded, se_roles = None\<rparr>"

text \<open>Selection over the matched candidates and what follows from it.\<close>

definition run_selection ::
  "(string \<Rightarrow> string) \<Rightarrow> sealed_input \<Rightarrow> sealed_deps \<Rightarrow> auction_mode \<Rightarrow> string option \<Rightarrow> candidate list \<Rightarrow> sealed_result res" where
  "run_selection sha256 input deps mode rule candidates =
     (let allBidders = sort (remdups (map (\<lambda>c. ar_bidderClaim (fst c)) candidates)) in
      bindR (acceptance deps rule candidates) (\<lambda>accept.
      bindR (selectSealedWinner sha256 candidates (auction_options input) accept (0, None)) (\<lambda>(selection, calls, failure).
        case failure of
          Some why \<Rightarrow> Inr (permanentFailure why)
        | None \<Rightarrow>
            (case sl_winner selection of
               None \<Rightarrow> Inr (no_winner mode allBidders (sl_excluded selection)
                         (case sl_reason selection of None \<Rightarrow> ''no winning bid'' | Some r \<Rightarrow> r))
             | Some w \<Rightarrow> commit_winner input deps mode allBidders (sl_excluded selection) w))))"

definition runSealedEnvelopeCore :: "(string \<Rightarrow> string) \<Rightarrow> sealed_input \<Rightarrow> sealed_deps \<Rightarrow> sealed_result res" where
  "runSealedEnvelopeCore sha256 input deps =
     (let params = si_params input in
      case resolveSealedEnvelopeMode (si_phaseKind input) (sp_auctionMode params) of
        None \<Rightarrow> Inr ((permanentFailure ''unresolvable-auctionMode'')\<lparr>se_failedAt := Some At_AuctionMode\<rparr>)
      | Some mode \<Rightarrow>
          (let rest =
             (if \<not> known_rule (sp_selectionRule params) then Inr (permanentFailure ''unrecognized sealed-envelope selection rule'')
              else (case verified_rule sha256 input deps of
                      Inl why \<Rightarrow> Inr (permanentFailure why)
                    | Inr rule \<Rightarrow>
                        bindR (sd_readAnchoredCommits deps) (\<lambda>anchored.
                        case resolveCommitWindow anchored (sp_commitDeadline params) of (window, unresolved) \<Rightarrow>
                          if unresolved \<noteq> [] then Inr (failed_result ''authoritative SR-2 commit timestamp unresolved'' Substrate)
                          else bindR (sd_readAnchoredReveals deps) (\<lambda>revealed.
                               bindR (matchRevealsToCommits sha256 (commitsInWindow window (sp_commitDeadline params)) (revealsInWindow revealed params))
                                 (run_selection sha256 input deps mode rule)))))
           in case si_sessionStartMs input of None \<Rightarrow> rest | Some start \<Rightarrow> validateSealedParams params start rest))"

end
