(* ===== verification/Dacs_Sealed_Props.thy ===== *)
theory Dacs_Sealed_Props
  imports Dacs_Sealed_Envelope
begin

text \<open>
  What a sealed-bid auction promises: a bidder is bound to the first commit, the winner is the best
  eligible bid whatever the order in which bids were read, a commitment cannot be opened in two
  ways, and an agreement is reported only for a bid that was committed and revealed in time.
\<close>

section \<open>The authoritative commit\<close>

definition usable :: "anchored_commit \<Rightarrow> bool" where
  "usable c \<longleftrightarrow> structurallyValidCommit c \<and> anchor_time c \<noteq> None"

interpretation commit_order: sort_order commit_le UNIV
  by unfold_locales (auto simp: commit_le_def)

lemma int_text_no_nul: "0 \<le> n \<Longrightarrow> char_of (0::nat) \<notin> set (int_text n)"
  using nat_text_no_char [of "char_of (0::nat)" "nat n"] by (simp add: int_text_def is_digit_def)

lemma commit_time_nonneg: "0 \<le> commit_time c"
  by (auto simp: commit_time_def anchor_time_def split: option.splits jsnumber.splits)

lemma last_separator: "a @ x # b = c @ x # d \<Longrightarrow> x \<notin> set b \<Longrightarrow> x \<notin> set d \<Longrightarrow> a = c"
  by (auto simp: append_eq_append_conv2 Cons_eq_append_conv append_eq_Cons_conv)

lemma commit_tuple_claim:
  assumes "commit_tuple c = commit_tuple d" "is_hash (ac_bidHash c)" "is_hash (ac_bidHash d)"
  shows "ac_bidderClaim c = ac_bidderClaim d"
proof -
  let ?z = "char_of (0::nat) :: char"
  have "(ac_bidderClaim c @ ?z # int_text (commit_time c) @ [?z]) @ ac_bidHash c =
      (ac_bidderClaim d @ ?z # int_text (commit_time d) @ [?z]) @ ac_bidHash d"
    using assms(1) by (simp add: commit_tuple_def)
  moreover have "length (ac_bidHash c) = length (ac_bidHash d)" using assms(2,3) by (simp add: is_hash_def)
  ultimately have "ac_bidderClaim c @ ?z # int_text (commit_time c) @ [?z] = ac_bidderClaim d @ ?z # int_text (commit_time d) @ [?z]"
    by (blast dest: append_eq_append_conv [THEN iffD1, OF disjI2])
  then have "(ac_bidderClaim c @ ?z # int_text (commit_time c)) @ [?z] = (ac_bidderClaim d @ ?z # int_text (commit_time d)) @ [?z]" by simp
  then have "ac_bidderClaim c @ ?z # int_text (commit_time c) = ac_bidderClaim d @ ?z # int_text (commit_time d)"
    by (simp only: append_same_eq)
  then show ?thesis by (rule last_separator) (simp_all add: int_text_no_nul commit_time_nonneg)
qed

lemma index_commits_find:
  assumes "\<forall>c \<in> set cs. usable c"
    and "\<And>c. is_hash (ac_bidHash c) \<Longrightarrow> commit_tuple c \<in> set seen \<Longrightarrow> map_of m (ac_bidderClaim c) \<noteq> None"
  shows "map_of (index_commits seen m cs) k =
    (case map_of m k of None \<Rightarrow> find (\<lambda>c. ac_bidderClaim c = k) cs | Some c \<Rightarrow> Some c)"
  using assms
proof (induction cs arbitrary: seen m)
  case Nil
  then show ?case by (simp split: option.splits)
next
  case (Cons c cs)
  have hc: "is_hash (ac_bidHash c)" using Cons.prems(1) by (simp add: usable_def structurallyValidCommit_def)
  show ?case
  proof (cases "commit_tuple c \<in> set seen")
    case True
    then have "map_of m (ac_bidderClaim c) \<noteq> None" using Cons.prems(2) hc by blast
    then have "map_of (index_commits seen m (c # cs)) k = (case map_of m k of None \<Rightarrow> find (\<lambda>c. ac_bidderClaim c = k) cs | Some c \<Rightarrow> Some c)"
      using True Cons.IH [of seen m] Cons.prems by simp
    then show ?thesis using \<open>map_of m (ac_bidderClaim c) \<noteq> None\<close> by (auto split: option.splits)
  next
    case False
    let ?m = "if map_of m (ac_bidderClaim c) = None then (ac_bidderClaim c, c) # m else m"
    have "map_of ?m (ac_bidderClaim d) \<noteq> None" if "is_hash (ac_bidHash d)" "commit_tuple d \<in> set (commit_tuple c # seen)" for d
    proof (cases "commit_tuple d = commit_tuple c")
      case True
      then show ?thesis using commit_tuple_claim [OF True that(1) hc] by auto
    next
      case False
      then show ?thesis using Cons.prems(2) [OF that(1)] that(2) by auto
    qed
    then have "map_of (index_commits (commit_tuple c # seen) ?m cs) k =
        (case map_of ?m k of None \<Rightarrow> find (\<lambda>c. ac_bidderClaim c = k) cs | Some c \<Rightarrow> Some c)"
      using Cons.IH [of "commit_tuple c # seen" ?m] Cons.prems(1) by simp
    then show ?thesis using False by (auto split: option.splits)
  qed
qed

lemma match_reveals_sound:
  assumes "match_reveals sha256 m rs = Inr out" "(r, c) \<in> set out"
  shows "r \<in> set rs \<and> map_of m (ar_bidderClaim r) = Some c \<and> computeBidHash sha256 (ar_bid r) (ar_salt r) = Inr (ac_bidHash c)"
  using assms
  by (induction rs arbitrary: out) (auto simp: res_simps verifyReveal_def split: option.splits if_splits)

definition authoritative :: "anchored_commit list \<Rightarrow> anchored_commit \<Rightarrow> bool" where
  "authoritative commits c \<longleftrightarrow>
     c \<in> set commits \<and> usable c \<and> (\<forall>d \<in> set commits. usable d \<and> ac_bidderClaim d = ac_bidderClaim c \<longrightarrow> commit_le c d)"

lemma match_sound:
  assumes "matchRevealsToCommits sha256 commits reveals = Inr out" "(r, c) \<in> set out"
  shows "r \<in> set reveals \<and> authoritative commits c \<and> ac_bidderClaim c = ar_bidderClaim r \<and>
    computeBidHash sha256 (ar_bid r) (ar_salt r) = Inr (ac_bidHash c)"
proof -
  let ?cs = "filter (\<lambda>c. structurallyValidCommit c \<and> anchor_time c \<noteq> None) commits"
  have u: "\<forall>c \<in> set (sort_by commit_le ?cs). usable c" by (simp add: usable_def)
  have m: "match_reveals sha256 (index_commits [] [] (sort_by commit_le ?cs)) reveals = Inr out"
    using assms(1) by (simp add: matchRevealsToCommits_def)
  note s = match_reveals_sound [OF m assms(2)]
  then have "find (\<lambda>c. ac_bidderClaim c = ar_bidderClaim r) (sort_by commit_le ?cs) = Some c"
    using index_commits_find [OF u, of "[]" "[]" "ar_bidderClaim r"] by simp
  from commit_order.find_sort_by_least [OF subset_UNIV this] s show ?thesis
    by (auto simp: authoritative_def usable_def)
qed

section \<open>The best bid\<close>

abbreviation amount_value :: "candidate \<Rightarrow> rat" where
  "amount_value c \<equiv> dec_value (cand_amount c)"

definition valid_amount :: "candidate \<Rightarrow> bool" where
  "valid_amount c \<longleftrightarrow> isOk (assertPositiveAmount (cand_amount c))"

lemma compareDecimal_value:
  assumes "canonicalizeDecimal a = Inr ca" "canonicalizeDecimal b = Inr cb"
  shows "compareDecimal a b = Inr (cmp (dec_value a) (dec_value b))"
  using assms compareCanonicalDecimal_cmp [OF canonicalizeDecimal_canonical [OF assms(1)] canonicalizeDecimal_canonical [OF assms(2)]]
    canonicalizeDecimal_value [OF assms(1)] canonicalizeDecimal_value [OF assms(2)] by (simp add: compareDecimal_def)

lemma valid_amountE:
  assumes "valid_amount c"
  obtains t where "canonicalizeDecimal (cand_amount c) = Inr t"
  using assms by (auto simp: valid_amount_def assertPositiveAmount_def isOk_iff res_simps)

definition better :: "string \<Rightarrow> candidate \<Rightarrow> candidate \<Rightarrow> bool" where
  "better rule a b \<longleftrightarrow> (if rule = ''lowest-price'' then amount_value a < amount_value b else amount_value b < amount_value a)"

lemma price_le_iff:
  assumes "valid_amount a" "valid_amount b"
  shows "price_le sha256 rule a b \<longleftrightarrow> better rule a b \<or> amount_value a = amount_value b \<and> tieBreak_le sha256 a b"
proof -
  obtain x y where "canonicalizeDecimal (cand_amount a) = Inr x" "canonicalizeDecimal (cand_amount b) = Inr y"
    using assms by (metis valid_amountE)
  from compareDecimal_value [OF this] show ?thesis by (auto simp: price_le_def price_cmp_def better_def cmp_def)
qed

interpretation tie_order: sort_order "tieBreak_le sha256" UNIV for sha256
  by unfold_locales (auto simp: tieBreak_le_def)

interpretation bid_order: sort_order "price_le sha256 rule" "Collect valid_amount" for sha256 rule
proof unfold_locales
  fix x y z
  assume v: "x \<in> Collect valid_amount" "y \<in> Collect valid_amount"
  show "price_le sha256 rule x y \<or> price_le sha256 rule y x"
    using v tie_order.total [of x y sha256] by (auto simp: price_le_iff better_def)
  assume "z \<in> Collect valid_amount" "price_le sha256 rule x y" "price_le sha256 rule y z"
  then show "price_le sha256 rule x z"
    using v tie_order.trans [of x y z sha256] by (auto simp: price_le_iff better_def split: if_splits)
qed

definition eligible :: "selection_options \<Rightarrow> candidate \<Rightarrow> bool" where
  "eligible opts c \<longleftrightarrow>
     bid_exclusion opts c = None \<and> (case so_reservePrice opts of None \<Rightarrow> True | Some r \<Rightarrow> fails_reserve opts r c = Inr False)"

lemma eligible_valid: "eligible opts c \<Longrightarrow> valid_amount c \<and> bid_currency (ar_bid (fst c)) = so_currency opts"
  by (auto simp: eligible_def bid_exclusion_def valid_amount_def split: if_splits)

lemma reserve_pass_filter:
  "reserve_pass opts r cs = Inr (pool, out) \<Longrightarrow> pool = filter (\<lambda>c. fails_reserve opts r c = Inr False) cs"
  by (induction cs arbitrary: pool out) (auto simp: res_simps split: if_splits)

lemma eligible_pool_filter:
  "eligible_pool cs opts = Inr (Some (pool, out)) \<Longrightarrow> pool = filter (eligible opts) cs"
  unfolding eligible_def [abs_def]
  by (auto simp: eligible_pool_def Let_def res_simps dest!: reserve_pass_filter split: option.splits if_splits)

lemma find_acceptable_mem: "find_acceptable f s cs = (Some c, s') \<Longrightarrow> c \<in> set cs"
  by (induction f s cs rule: find_acceptable.induct) (auto split: prod.splits bool.splits)

lemma choose_winner_mem:
  assumes "choose_winner sha256 rule accept s pool = ((Some w, m), s')"
  shows "w \<in> set pool \<and> (is_price_rule rule \<longrightarrow> w = hd (sort_by (price_le sha256 rule) pool))"
proof -
  have "hd (sort_by (price_le sha256 rule) pool) \<in> set pool" if "pool \<noteq> []"
    using that by (metis hd_in_set set_sort_by sort_by_Nil_iff)
  then show ?thesis using assms
    by (auto simp: choose_winner_def split: if_splits option.splits prod.splits dest!: find_acceptable_mem)
qed

lemma winner_choice:
  assumes "selectSealedWinner sha256 cs opts accept s = Inr (res, s')" "sl_winner res = Some w"
  obtains c m where "choose_winner sha256 (so_selectionRule opts) accept s (filter (eligible opts) cs) = ((Some (w, c), m), s')"
proof -
  from assms obtain pool out where p: "eligible_pool cs opts = Inr (Some (pool, out))"
    by (auto simp: selectSealedWinner_def Let_def res_simps split: option.splits)
  then have "pool = filter (eligible opts) cs" by (rule eligible_pool_filter)
  then show thesis using assms p that
    by (auto simp: selectSealedWinner_def Let_def split: prod.splits option.splits)
qed

lemma sealed_winner_facts:
  assumes "selectSealedWinner sha256 candidates opts accept s = Inr (res, s')" "sl_winner res = Some w"
  shows "\<exists>c. (w, c) \<in> set candidates \<and> eligible opts (w, c) \<and>
    (is_price_rule (so_selectionRule opts) \<longrightarrow>
     (\<forall>d \<in> set candidates. eligible opts d \<longrightarrow>
        \<not> better (so_selectionRule opts) d (w, c) \<and>
        (amount_value d = amount_value (w, c) \<longrightarrow> tieBreak_le sha256 (w, c) d)))"
proof -
  let ?rule = "so_selectionRule opts" and ?pool = "filter (eligible opts) candidates"
  obtain c m where c: "choose_winner sha256 ?rule accept s ?pool = ((Some (w, c), m), s')" using winner_choice [OF assms] .
  note mem = choose_winner_mem [OF c]
  have pool: "set ?pool \<subseteq> Collect valid_amount" by (auto dest: eligible_valid)
  have "\<not> better ?rule d (w, c) \<and> (amount_value d = amount_value (w, c) \<longrightarrow> tieBreak_le sha256 (w, c) d)"
    if "is_price_rule ?rule" "d \<in> set candidates" "eligible opts d" for d
  proof -
    have "price_le sha256 ?rule (w, c) d" using bid_order.hd_sort_by_least [OF pool, of d sha256 ?rule] that mem by simp
    moreover have "valid_amount (w, c)" "valid_amount d" using mem that(3) eligible_valid by (auto dest: eligible_valid)
    ultimately show ?thesis by (auto simp: price_le_iff better_def split: if_splits)
  qed
  moreover have "(w, c) \<in> set candidates" "eligible opts (w, c)" using conjunct1 [OF mem] by simp_all
  ultimately show ?thesis by blast
qed

text \<open>
  Property C36. The winner is an eligible candidate; under a price rule no eligible candidate is better, and
  none of the same amount was committed earlier, or at the same time under a smaller hash.
\<close>

theorem sealed_winner_optimal:
  assumes "selectSealedWinner sha256 candidates opts accept s = Inr (res, s')" "sl_winner res = Some w"
  shows "\<exists>c. (w, c) \<in> set candidates \<and> eligible opts (w, c) \<and>
    (is_price_rule (so_selectionRule opts) \<longrightarrow>
     (\<forall>d \<in> set candidates. eligible opts d \<longrightarrow>
        \<not> better (so_selectionRule opts) d (w, c) \<and>
        (amount_value d = amount_value (w, c) \<longrightarrow> tieBreak_le sha256 (w, c) d)))"
  by (rule sealed_winner_facts [OF assms])

text \<open>
  The order in which the candidates were read does not matter: under a price rule two runs over the
  same candidates select bids of the same amount, commit time and hash.
\<close>

theorem sealed_selection_order_independent:
  assumes "selectSealedWinner sha256 cs opts accept s = Inr (res, t)" "selectSealedWinner sha256 cs' opts accept s = Inr (res', t')"
    and "set cs' = set cs" "is_price_rule (so_selectionRule opts)" "sl_winner res = Some w" "sl_winner res' = Some w'"
  shows "\<exists>c c'. (w, c) \<in> set cs \<and> (w', c') \<in> set cs \<and> amount_value (w, c) = amount_value (w', c') \<and>
    commit_time c = commit_time c' \<and> bidHashOf sha256 (w, c) = bidHashOf sha256 (w', c')"
proof -
  obtain c where c: "(w, c) \<in> set cs" "eligible opts (w, c)"
    "\<And>d. d \<in> set cs \<Longrightarrow> eligible opts d \<Longrightarrow> \<not> better (so_selectionRule opts) d (w, c) \<and>
       (amount_value d = amount_value (w, c) \<longrightarrow> tieBreak_le sha256 (w, c) d)"
    using sealed_winner_facts [OF assms(1,5)] assms(4) by blast
  obtain c' where c': "(w', c') \<in> set cs" "eligible opts (w', c')"
    "\<And>d. d \<in> set cs \<Longrightarrow> eligible opts d \<Longrightarrow> \<not> better (so_selectionRule opts) d (w', c') \<and>
       (amount_value d = amount_value (w', c') \<longrightarrow> tieBreak_le sha256 (w', c') d)"
    using sealed_winner_facts [OF assms(2,6)] assms(3,4) by metis
  have v: "amount_value (w, c) = amount_value (w', c')"
    using c(3) [OF c'(1,2)] c'(3) [OF c(1,2)] by (auto simp: better_def split: if_splits)
  have "tieBreak_le sha256 (w, c) (w', c')" "tieBreak_le sha256 (w', c') (w, c)"
    using c(3) [OF c'(1,2)] c'(3) [OF c(1,2)] v by auto
  then have "commit_time c = commit_time c' \<and> bidHashOf sha256 (w, c) = bidHashOf sha256 (w', c')"
    by (auto simp: tieBreak_le_def)
  then show ?thesis using c(1) c'(1) v by blast
qed

section \<open>Binding commitments\<close>

lemma hex_value_inject:
  assumes "is_hex_lower a" "is_hex_lower b" "hex_value a = hex_value b"
  shows "a = b"
proof -
  have "(of_char a :: nat) = of_char b"
    using assms by (auto simp: is_hex_lower_def is_digit_def hex_value_def simp del: of_char_eq_iff split: if_splits)
  then show ?thesis by simp
qed

lemma hex_pair:
  assumes "16 * x + y = 16 * u + v" "y < 16" "v < (16::nat)"
  shows "x = u \<and> y = v"
  using arg_cong [OF assms(1), of "\<lambda>n. n div 16"] arg_cong [OF assms(1), of "\<lambda>n. n mod 16"] assms(2,3) by simp

lemma hex_value_less: "is_hex_lower a \<Longrightarrow> hex_value a < 16"
  by (auto simp: is_hex_lower_def is_digit_def hex_value_def)

lemma hex_bytes_inject:
  assumes "list_all is_hex_lower s" "list_all is_hex_lower t" "length s = length t" "even (length s)" "hex_bytes s = hex_bytes t"
  shows "s = t"
  using assms
proof (induction s arbitrary: t rule: hex_bytes.induct)
  case (1 a b r)
  obtain c d u where t: "t = c # d # u" using "1.prems"(3) by (cases t; cases "tl t") auto
  have h: "is_hex_lower a" "is_hex_lower b" "is_hex_lower c" "is_hex_lower d" using "1.prems"(1,2) t by simp_all
  then have x: "is_hex a \<and> is_hex b" "is_hex c \<and> is_hex d" by (simp_all add: is_hex_def)
  have "byte (16 * hex_value a + hex_value b) = byte (16 * hex_value c + hex_value d)" and r: "hex_bytes r = hex_bytes u"
    using "1.prems"(5) x by (simp_all add: t)
  from arg_cong [where f = "of_char :: char \<Rightarrow> nat", OF this(1)]
  have "16 * hex_value a + hex_value b = 16 * hex_value c + hex_value d"
    using h [THEN hex_value_less] by simp
  from hex_pair [OF this h(2) [THEN hex_value_less] h(4) [THEN hex_value_less]]
  have "a = c" "b = d" using hex_value_inject [OF h(1,3)] hex_value_inject [OF h(2,4)] by simp_all
  moreover have "r = u" using "1.IH" [OF x(1), of u] "1.prems" t r by simp
  ultimately show ?case by (simp add: t)
qed (simp, metis even_Suc even_zero length_Cons list.size(3))

lemma hex_bytes_length: "list_all is_hex_lower s \<Longrightarrow> length (hex_bytes s) = length s div 2"
  by (induction s rule: hex_bytes.induct) (auto simp: is_hex_def)

lemma hash_bytes_length: "is_hash s \<Longrightarrow> length (hex_bytes s) = 32"
  by (simp add: is_hash_def hex_bytes_length)

text \<open>What is hashed for a bid and its salt: the canonical text of the bid, and the tagged preimage.\<close>

definition bid_preimages :: "(string \<Rightarrow> string) \<Rightarrow> sealed_bid \<Rightarrow> string \<Rightarrow> string set" where
  "bid_preimages sha256 bid salt =
     (case canonicalize (bid_json bid) of
        Inl _ \<Rightarrow> {}
      | Inr text \<Rightarrow> {utf8 text, SEALED_BID_HASH_TAG @ hex_bytes (sha256 (utf8 text)) @ saltBytes salt})"

lemma computeBidHash_inject:
  assumes "computeBidHash sha256 b x = Inr h" "computeBidHash sha256 b' x' = Inr h"
    and "\<And>m. is_hash (sha256 m)" "inj_on sha256 (bid_preimages sha256 b x \<union> bid_preimages sha256 b' x')"
  shows "canonicalize (bid_json b) = canonicalize (bid_json b') \<and> saltBytes x = saltBytes x'"
proof -
  obtain t t' where t: "canonicalize (bid_json b) = Inr t" "canonicalize (bid_json b') = Inr t'"
    using assms(1,2) by (auto simp: computeBidHash_def bidDigest_def res_simps)
  let ?d = "hex_bytes (sha256 (utf8 t))" and ?d' = "hex_bytes (sha256 (utf8 t'))"
  have eq: "sha256 (SEALED_BID_HASH_TAG @ ?d @ saltBytes x) = sha256 (SEALED_BID_HASH_TAG @ ?d' @ saltBytes x')"
    using assms(1,2) t by (simp add: computeBidHash_def bidDigest_def)
  have "SEALED_BID_HASH_TAG @ ?d @ saltBytes x = SEALED_BID_HASH_TAG @ ?d' @ saltBytes x'"
    by (rule inj_onD [OF assms(4) eq]) (simp_all add: bid_preimages_def t)
  moreover have "length ?d = 32" "length ?d' = 32" using hash_bytes_length assms(3) by blast+
  ultimately have d: "?d = ?d'" "saltBytes x = saltBytes x'" by simp_all
  have "sha256 (utf8 t) = sha256 (utf8 t')"
    by (rule hex_bytes_inject) (use assms(3) d(1) in \<open>simp_all add: is_hash_def\<close>)
  then have "utf8 t = utf8 t'" by (rule inj_onD [OF assms(4)]) (simp_all add: bid_preimages_def t)
  then show ?thesis using t d(2) by (simp add: utf8.enc_eq_iff)
qed

text \<open>
  Commitments bind: unless the hash function collides on what is hashed here, two reveals that
  count for one bidder reveal the same bid under the same salt.
\<close>

theorem sealed_bid_binding:
  assumes "matchRevealsToCommits sha256 commits reveals = Inr out" "(r, c) \<in> set out" "(r', c') \<in> set out"
    and "ar_bidderClaim r = ar_bidderClaim r'" "\<And>m. is_hash (sha256 m)"
    and "inj_on sha256 (bid_preimages sha256 (ar_bid r) (ar_salt r) \<union> bid_preimages sha256 (ar_bid r') (ar_salt r'))"
  shows "canonicalize (bid_json (ar_bid r)) = canonicalize (bid_json (ar_bid r')) \<and> saltBytes (ar_salt r) = saltBytes (ar_salt r')"
proof -
  note m = match_sound [OF assms(1,2)] and m' = match_sound [OF assms(1,3)]
  have "commit_le c c'" "commit_le c' c" using m m' assms(4) by (auto simp: authoritative_def)
  then have "ac_bidHash c = ac_bidHash c'" by (auto simp: commit_le_def)
  then show ?thesis using computeBidHash_inject [OF _ _ assms(5,6)] m m' by metis
qed

section \<open>The auction\<close>

lemma commitsInWindow_mem:
  "c \<in> set (commitsInWindow cs d) \<longleftrightarrow> c \<in> set cs \<and> (\<exists>t. anchor_time c = Some t \<and> t \<le> d)"
  by (auto simp: commitsInWindow_def split: option.splits)

lemma authoritative_window:
  assumes "authoritative (commitsInWindow (fst (resolveCommitWindow cs d)) d) c"
  shows "authoritative cs c \<and> (\<exists>t. anchor_time c = Some t \<and> t \<le> d)"
proof -
  have w: "x \<in> set (commitsInWindow (fst (resolveCommitWindow cs d)) d) \<longleftrightarrow>
      x \<in> set cs \<and> structurallyValidCommit x \<and> (\<exists>t. anchor_time x = Some t \<and> t \<le> d)" for x
    by (auto simp: commitsInWindow_mem resolveCommitWindow_def Let_def)
  obtain t where t: "anchor_time c = Some t" "t \<le> d" "c \<in> set cs" "usable c" using assms w by (auto simp: authoritative_def usable_def)
  have "commit_le c x" if "x \<in> set cs" "usable x" "ac_bidderClaim x = ac_bidderClaim c" for x
  proof (cases "commit_time x \<le> d")
    case True
    then have "x \<in> set (commitsInWindow (fst (resolveCommitWindow cs d)) d)"
      using that by (auto simp: w usable_def commit_time_def split: option.splits)
    then show ?thesis using assms that by (auto simp: authoritative_def)
  next
    case False
    then show ?thesis using t by (simp add: commit_le_def commit_time_def)
  qed
  then show ?thesis using t by (auto simp: authoritative_def)
qed

lemma not_ok [simp]:
  "\<not> se_ok (failed_result m e)" "\<not> se_ok (permanentFailure m)" "\<not> se_ok (no_winner mode bs ex m)"
  by (simp_all add: failed_result_def permanentFailure_def no_winner_def)

lemma commit_winner_ok:
  assumes "commit_winner input deps mode bidders excluded w = Inr res" "se_ok res"
  shows "se_winner res = Some (ar_bidderClaim w) \<and> se_mode res = Some mode \<and>
    (\<exists>ctx committed. sd_commitAgreement deps ctx = Inr committed \<and>
       (case cr_proof committed of
          None \<Rightarrow> mode = Demand
        | Some (agreement, signers) \<Rightarrow>
            \<exists>a. validateSealedAgreementForCommit agreement (JStr (mode_phase mode))
              (JStr (case mode of Demand \<Rightarrow> ''demand'' | Procurement \<Rightarrow> ''procurement'')) (si_seller input) (ar_bidderClaim w)
              (filter (\<lambda>b. b \<noteq> ar_bidderClaim w) bidders) signers = Roles_Ok a))"
proof -
  from assms(1) obtain committed where c: "sd_commitAgreement deps
      \<lparr>cx_jobId = si_jobId input, cx_listingPublisher = si_seller input, cx_winner = ar_bidderClaim w, cx_bid = ar_bid w,
       cx_losing = filter (\<lambda>b. b \<noteq> ar_bidderClaim w) bidders,
       cx_roles = assign_roles mode (si_seller input) (ar_bidderClaim w) (filter (\<lambda>b. b \<noteq> ar_bidderClaim w) bidders)\<rparr> = Inr committed"
    by (auto simp: commit_winner_def Let_def bindR_Inr)
  have "se_winner res = Some (ar_bidderClaim w) \<and> se_mode res = Some mode"
    using assms(1) c by (auto simp: commit_winner_def Let_def split: option.splits role_validation.splits)
  moreover have "case cr_proof committed of
          None \<Rightarrow> mode = Demand
        | Some (agreement, signers) \<Rightarrow>
            \<exists>a. validateSealedAgreementForCommit agreement (JStr (mode_phase mode))
              (JStr (case mode of Demand \<Rightarrow> ''demand'' | Procurement \<Rightarrow> ''procurement'')) (si_seller input) (ar_bidderClaim w)
              (filter (\<lambda>b. b \<noteq> ar_bidderClaim w) bidders) signers = Roles_Ok a"
  proof (cases "cr_proof committed")
    case None
    then show ?thesis using assms c by (cases mode) (auto simp: commit_winner_def Let_def)
  next
    case (Some p)
    then show ?thesis using assms c
      by (cases p) (auto simp: commit_winner_def Let_def split: role_validation.splits)
  qed
  ultimately show ?thesis using c by blast
qed

lemma run_selection_ok:
  assumes "run_selection sha256 input deps mode rule cands = Inr res" "se_ok res"
  obtains w c excluded where "(w, c) \<in> set cands" "eligible (auction_options input) (w, c)"
    "commit_winner input deps mode (sort (remdups (map (\<lambda>c. ar_bidderClaim (fst c)) cands))) excluded w = Inr res"
proof -
  let ?bs = "sort (remdups (map (\<lambda>c. ar_bidderClaim (fst c)) cands))"
  from assms(1) obtain accept sel n failure where s: "acceptance deps rule cands = Inr accept"
    "selectSealedWinner sha256 cands (auction_options input) accept (0, None) = Inr (sel, n, failure)"
    by (auto simp: run_selection_def Let_def bindR_Inr)
  have "failure = None" using assms s by (cases failure) (auto simp: run_selection_def Let_def)
  then obtain w where w: "sl_winner sel = Some w" "commit_winner input deps mode ?bs (sl_excluded sel) w = Inr res"
    using assms s by (cases "sl_winner sel") (auto simp: run_selection_def Let_def)
  obtain c where "(w, c) \<in> set cands" "eligible (auction_options input) (w, c)" using sealed_winner_facts [OF s(2) w(1)] by blast
  then show thesis using that w(2) by blast
qed

lemma procurement_mode: "resolveSealedEnvelopeMode (JStr (mode_phase Procurement)) (JStr ''procurement'') = Some Procurement"
  by (simp add: resolveSealedEnvelopeMode_def mode_phase_def DEMAND_SEALED_ENVELOPE_PHASE_def PROCUREMENT_SEALED_ENVELOPE_PHASE_def)

lemma validate_start: "validateSealedParams params now k = Inr x \<Longrightarrow> k = Inr x"
  by (simp add: validateSealedParams_def res_simps)

lemma core_ok:
  assumes "runSealedEnvelopeCore sha256 input deps = Inr res" "se_ok res"
  obtains mode rule commits reveals cands where
    "sd_readAnchoredCommits deps = Inr commits" "snd (resolveCommitWindow commits (sp_commitDeadline (si_params input))) = []"
    "sd_readAnchoredReveals deps = Inr reveals"
    "matchRevealsToCommits sha256 (commitsInWindow (fst (resolveCommitWindow commits (sp_commitDeadline (si_params input)))) (sp_commitDeadline (si_params input)))
       (revealsInWindow reveals (si_params input)) = Inr cands"
    "run_selection sha256 input deps mode rule cands = Inr res"
proof -
  let ?d = "sp_commitDeadline (si_params input)"
  from assms obtain mode where m: "resolveSealedEnvelopeMode (si_phaseKind input) (sp_auctionMode (si_params input)) = Some mode"
    by (auto simp: runSealedEnvelopeCore_def Let_def split: option.splits)
  obtain rest where r: "rest = Inr res" "rest = (if \<not> known_rule (sp_selectionRule (si_params input))
      then Inr (permanentFailure ''unrecognized sealed-envelope selection rule'')
      else (case verified_rule sha256 input deps of
              Inl why \<Rightarrow> Inr (permanentFailure why)
            | Inr rule \<Rightarrow>
                bindR (sd_readAnchoredCommits deps) (\<lambda>anchored.
                case resolveCommitWindow anchored ?d of (window, unresolved) \<Rightarrow>
                  if unresolved \<noteq> [] then Inr (failed_result ''authoritative SR-2 commit timestamp unresolved'' Substrate)
                  else bindR (sd_readAnchoredReveals deps) (\<lambda>revealed.
                       bindR (matchRevealsToCommits sha256 (commitsInWindow window ?d) (revealsInWindow revealed (si_params input)))
                         (run_selection sha256 input deps mode rule)))))"
    using assms(1) m by (cases "si_sessionStartMs input") (auto simp: runSealedEnvelopeCore_def Let_def dest!: validate_start)
  then obtain rule where "verified_rule sha256 input deps = Inr rule"
    using assms(2) by (cases "verified_rule sha256 input deps") (auto split: if_splits)
  with r obtain commits where c: "sd_readAnchoredCommits deps = Inr commits"
      "(case resolveCommitWindow commits ?d of (window, unresolved) \<Rightarrow>
          if unresolved \<noteq> [] then Inr (failed_result ''authoritative SR-2 commit timestamp unresolved'' Substrate)
          else bindR (sd_readAnchoredReveals deps) (\<lambda>revealed.
               bindR (matchRevealsToCommits sha256 (commitsInWindow window ?d) (revealsInWindow revealed (si_params input)))
                 (run_selection sha256 input deps mode rule))) = Inr res"
    using assms(2) by (auto simp: bindR_Inr split: if_splits)
  then show thesis using that assms(2)
    by (cases "resolveCommitWindow commits ?d") (auto simp: bindR_Inr split: if_splits)
qed

text \<open>
  Property C35. An auction succeeds only for a bid that was committed by the deadline and revealed in the reveal
  window: the reveal opens the first usable commit of its bidder, the bid is in the currency of the
  listing, positive and within the reserve.
\<close>

theorem sealed_auction_sound:
  assumes "runSealedEnvelopeCore sha256 input deps = Inr res" "se_ok res"
  shows "\<exists>commits reveals r c t. sd_readAnchoredCommits deps = Inr commits \<and> sd_readAnchoredReveals deps = Inr reveals \<and>
    r \<in> set reveals \<and> authoritative commits c \<and> se_winner res = Some (ar_bidderClaim r) \<and> ac_bidderClaim c = ar_bidderClaim r \<and>
    anchor_time c = Some t \<and> t \<le> sp_commitDeadline (si_params input) \<and> sp_commitDeadline (si_params input) \<le> ar_anchorTs r \<and>
    ar_anchorTs r \<le> sp_commitDeadline (si_params input) + sp_revealWindow (si_params input) * 1000 \<and>
    computeBidHash sha256 (ar_bid r) (ar_salt r) = Inr (ac_bidHash c) \<and> eligible (auction_options input) (r, c)"
proof -
  obtain mode rule commits reveals cands where c: "sd_readAnchoredCommits deps = Inr commits" "sd_readAnchoredReveals deps = Inr reveals"
    "matchRevealsToCommits sha256 (commitsInWindow (fst (resolveCommitWindow commits (sp_commitDeadline (si_params input)))) (sp_commitDeadline (si_params input)))
       (revealsInWindow reveals (si_params input)) = Inr cands"
    "run_selection sha256 input deps mode rule cands = Inr res"
    using core_ok [OF assms] by metis
  obtain w d excluded where w: "(w, d) \<in> set cands" "eligible (auction_options input) (w, d)"
    "commit_winner input deps mode (sort (remdups (map (\<lambda>c. ar_bidderClaim (fst c)) cands))) excluded w = Inr res"
    using run_selection_ok [OF c(4) assms(2)] .
  note m = match_sound [OF c(3) w(1)]
  have r: "w \<in> set reveals" "sp_commitDeadline (si_params input) \<le> ar_anchorTs w"
    "ar_anchorTs w \<le> sp_commitDeadline (si_params input) + sp_revealWindow (si_params input) * 1000"
    using conjunct1 [OF m] by (simp_all add: revealsInWindow_def Let_def)
  obtain t where t: "authoritative commits d" "anchor_time d = Some t" "t \<le> sp_commitDeadline (si_params input)"
    using authoritative_window m by blast
  show ?thesis using c(1,2) w(2) m r t commit_winner_ok [OF w(3) assms(2)] by blast
qed

text \<open>
  A procurement auction succeeds only with an agreement in which the listing publisher buys from the
  winner, and with verified signatures of both.
\<close>

theorem procurement_needs_both_signatures:
  assumes "runSealedEnvelopeCore sha256 input deps = Inr res" "se_ok res" "se_mode res = Some Procurement" "si_seller input \<noteq> []"
  shows "\<exists>winner ctx committed agreement signers. se_winner res = Some winner \<and> sd_commitAgreement deps ctx = Inr committed \<and>
    cr_proof committed = Some (agreement, signers) \<and> ag_buyer agreement = si_seller input \<and> ag_seller agreement = winner \<and>
    si_seller input \<in> set signers \<and> winner \<in> set signers"
proof -
  obtain mode rule commits reveals cands where c:
    "matchRevealsToCommits sha256 (commitsInWindow (fst (resolveCommitWindow commits (sp_commitDeadline (si_params input)))) (sp_commitDeadline (si_params input)))
       (revealsInWindow reveals (si_params input)) = Inr cands"
    "run_selection sha256 input deps mode rule cands = Inr res"
    using core_ok [OF assms(1,2)] by metis
  obtain w d excluded where w: "(w, d) \<in> set cands"
    "commit_winner input deps mode (sort (remdups (map (\<lambda>c. ar_bidderClaim (fst c)) cands))) excluded w = Inr res"
    using run_selection_ok [OF c(2) assms(2)] .
  have claim: "ar_bidderClaim w \<noteq> []"
    using match_sound [OF c(1) w(1)] by (auto simp: authoritative_def usable_def structurallyValidCommit_def)
  note ok = commit_winner_ok [OF w(2) assms(2)]
  have [simp]: "mode = Procurement" using ok assms(3) by simp
  obtain ctx committed where cc: "sd_commitAgreement deps ctx = Inr committed"
    "case cr_proof committed of None \<Rightarrow> mode = Demand
     | Some (agreement, signers) \<Rightarrow> \<exists>a. validateSealedAgreementForCommit agreement (JStr (mode_phase mode))
         (JStr (case mode of Demand \<Rightarrow> ''demand'' | Procurement \<Rightarrow> ''procurement'')) (si_seller input) (ar_bidderClaim w)
         (filter (\<lambda>b. b \<noteq> ar_bidderClaim w) (sort (remdups (map (\<lambda>c. ar_bidderClaim (fst c)) cands)))) signers = Roles_Ok a"
    using ok by blast
  then obtain agreement signers where p: "cr_proof committed = Some (agreement, signers)"
    by (cases "cr_proof committed") auto
  then have "ag_buyer agreement = si_seller input \<and> ag_seller agreement = ar_bidderClaim w \<and>
      si_seller input \<in> set signers \<and> ar_bidderClaim w \<in> set signers"
    using cc(2) assms(4) claim procurement_mode
    by (auto simp: validateSealedAgreementForCommit_def validateSealedAgreementRoleAssignment_def requiredSignerClaims_def
        assign_roles_def Let_def split: option.splits if_splits role_validation.splits)
  then show ?thesis using ok cc(1) p by blast
qed

text \<open>
  A commitment made with enough entropy is opened by its own bid and salt, whatever bid and salt are.
\<close>

theorem commitment_opens:
  assumes "makeCommitment sha256 randomBytes bid salt = Inr (s, h)"
  shows "verifyReveal sha256 h bid s = Inr True \<and> MIN_SALT_BYTES \<le> length (saltBytes s)"
  using assms by (auto simp: makeCommitment_def verifyReveal_def saltHasEnoughEntropy_def res_simps Let_def)

section \<open>An auction\<close>

definition sample_sha :: "string \<Rightarrow> string" where
  "sample_sha m = replicate 63 (CHR ''a'') @ [if take 4 m = ''dacs'' then CHR ''b'' else CHR ''a'']"

definition sample_bid :: "string \<Rightarrow> sealed_bid" where
  "sample_bid a = \<lparr>bid_amount = a, bid_currency = ''USDC'', bid_price_members = [], bid_members = []\<rparr>"

definition sample_salt :: string where
  "sample_salt = ''AAAA''"

definition sample_commit :: "string \<Rightarrow> int \<Rightarrow> anchored_commit" where
  "sample_commit claim t = \<lparr>ac_bidderClaim = claim, ac_bidHash = sample_sha ''dacs'', ac_anchorTs = Some (JInt t)\<rparr>"

definition sample_reveal :: "string \<Rightarrow> string \<Rightarrow> anchored_reveal" where
  "sample_reveal claim a = \<lparr>ar_bidderClaim = claim, ar_bid = sample_bid a, ar_salt = sample_salt, ar_anchorTs = 100001\<rparr>"

definition sample_params :: sealed_params where
  "sample_params =
     \<lparr>sp_commitDeadline = 100000, sp_revealWindow = 60, sp_selectionRule = ''lowest-price'', sp_acceptanceRule = None,
      sp_auctionMode = JStr ''procurement''\<rparr>"

definition sample_auction :: sealed_input where
  "sample_auction =
     \<lparr>si_jobId = ''job'', si_phaseKind = JStr PROCUREMENT_SEALED_ENVELOPE_PHASE, si_seller = ''publisher'', si_currency = ''USDC'',
      si_reservePrice = None, si_sessionStartMs = Some 0, si_params = sample_params\<rparr>"

definition sample_committed :: "commit_context \<Rightarrow> commit_result" where
  "sample_committed ctx =
     \<lparr>cr_proof = Some (\<lparr>ag_jobId = ''job'', ag_pattern = ''negotiate-sealed-envelope'', ag_buyer = cx_listingPublisher ctx,
        ag_seller = cx_winner ctx, ag_listingRef = [], ag_amount = ''1'', ag_asset = ''USDC'', ag_decimals = 0, ag_rail = [],
        ag_deliveryPhase = [], ag_deliveryFormat = [], ag_expiresAt = []\<rparr>, [cx_winner ctx, cx_listingPublisher ctx]),
      cr_agreementRef = ''ref'', cr_agreementHash = ''hash''\<rparr>"

definition sample_deps :: sealed_deps where
  "sample_deps =
     \<lparr>sd_readAnchoredCommits = Inr [sample_commit ''x'' 5, sample_commit ''y'' 7],
      sd_readAnchoredReveals = Inr [sample_reveal ''x'' ''5'', sample_reveal ''y'' ''4.5''],
      sd_commitAgreement = (\<lambda>ctx. Inr (sample_committed ctx)), sd_resolveRuleContent = None, sd_evaluateVerifiedRule = None\<rparr>"

definition sample_candidates :: "candidate list" where
  "sample_candidates = [(sample_reveal ''x'' ''5'', sample_commit ''x'' 5), (sample_reveal ''y'' ''4.5'', sample_commit ''y'' 7)]"

lemma sample_canonical: "isOk (canonicalize (bid_json (sample_bid ''5'')))" "isOk (canonicalize (bid_json (sample_bid ''4.5'')))"
  by code_simp+

lemma sample_bid_hash:
  "isOk (canonicalize (bid_json b)) \<Longrightarrow> computeBidHash sample_sha b s = Inr (sample_sha ''dacs'')"
  by (auto simp: isOk_iff computeBidHash_def bidDigest_def sample_sha_def SEALED_BID_HASH_TAG_def)

lemma sample_window:
  "resolveCommitWindow [sample_commit ''x'' 5, sample_commit ''y'' 7] 100000 = ([sample_commit ''x'' 5, sample_commit ''y'' 7], [])"
  "commitsInWindow [sample_commit ''x'' 5, sample_commit ''y'' 7] 100000 = [sample_commit ''x'' 5, sample_commit ''y'' 7]"
  "revealsInWindow [sample_reveal ''x'' ''5'', sample_reveal ''y'' ''4.5''] sample_params = [sample_reveal ''x'' ''5'', sample_reveal ''y'' ''4.5'']"
  by code_simp+

lemma sample_index:
  "index_commits [] [] (sort_by commit_le (filter (\<lambda>c. structurallyValidCommit c \<and> anchor_time c \<noteq> None)
     [sample_commit ''x'' 5, sample_commit ''y'' 7])) = [(''y'', sample_commit ''y'' 7), (''x'', sample_commit ''x'' 5)]"
  by code_simp

lemma sample_match:
  "matchRevealsToCommits sample_sha [sample_commit ''x'' 5, sample_commit ''y'' 7] [sample_reveal ''x'' ''5'', sample_reveal ''y'' ''4.5''] =
     Inr sample_candidates"
proof -
  have r: "ar_bidderClaim (sample_reveal c a) = c" "ar_bid (sample_reveal c a) = sample_bid a"
    "ac_bidHash (sample_commit c t) = sample_sha ''dacs''" for c a t
    by (simp_all add: sample_reveal_def sample_commit_def)
  show ?thesis unfolding matchRevealsToCommits_def Let_def sample_index
    by (simp add: r verifyReveal_def sample_bid_hash sample_canonical sample_candidates_def)
qed

definition sample_options :: selection_options where
  "sample_options = auction_options sample_auction"

lemma sample_pool: "eligible_pool sample_candidates sample_options = Inr (Some (sample_candidates, []))"
  "exclusions (bid_exclusion sample_options) sample_candidates = []" "so_selectionRule sample_options = ''lowest-price''"
  "is_price_rule ''lowest-price''"
  by code_simp+

lemma sample_cheaper:
  "price_cmp ''lowest-price'' (sample_reveal ''x'' ''5'', sample_commit ''x'' 5) (sample_reveal ''y'' ''4.5'', sample_commit ''y'' 7) = 1"
  by code_simp

definition sample_selected :: selection_result where
  "sample_selected = \<lparr>sl_winner = Some (sample_reveal ''y'' ''4.5''), sl_reason = None, sl_excluded = []\<rparr>"

lemma sample_selection: "selectSealedWinner sample_sha sample_candidates sample_options accept s = Inr (sample_selected, s)"
proof -
  have "sort_by (price_le sample_sha ''lowest-price'') sample_candidates =
      [(sample_reveal ''y'' ''4.5'', sample_commit ''y'' 7), (sample_reveal ''x'' ''5'', sample_commit ''x'' 5)]"
    by (simp add: sample_candidates_def price_le_def sample_cheaper)
  moreover have "sample_candidates \<noteq> []" by (simp add: sample_candidates_def)
  ultimately show ?thesis by (simp add: selectSealedWinner_def sample_pool choose_winner_def sample_selected_def)
qed

definition sample_outcome :: "sealed_result res" where
  "sample_outcome = commit_winner sample_auction sample_deps Procurement
      (sort (remdups (map (\<lambda>c. ar_bidderClaim (fst c)) sample_candidates))) [] (sample_reveal ''y'' ''4.5'')"

lemma sample_auction:
  "\<exists>res. runSealedEnvelopeCore sample_sha sample_auction sample_deps = Inr res \<and> se_ok res \<and> se_mode res = Some Procurement \<and>
     se_winner res = Some ''y''"
proof -
  have mode: "resolveSealedEnvelopeMode (si_phaseKind sample_auction) (sp_auctionMode (si_params sample_auction)) = Some Procurement"
    and rule: "known_rule (sp_selectionRule (si_params sample_auction))" "verified_rule sample_sha sample_auction sample_deps = Inr None"
    and start: "validateSealedParams sample_params 0 k = k" for k :: "sealed_result res"
    by (code_simp, code_simp, code_simp) (simp add: validateSealedParams_def sample_params_def MIN_COMMIT_LEAD_MS_def MIN_REVEAL_WINDOW_SECONDS_def)
  have fields: "si_params sample_auction = sample_params" "sp_commitDeadline sample_params = 100000"
    "si_sessionStartMs sample_auction = Some 0" "acceptance sample_deps None sample_candidates = Inr None"
    "sd_readAnchoredCommits sample_deps = Inr [sample_commit ''x'' 5, sample_commit ''y'' 7]"
    "sd_readAnchoredReveals sample_deps = Inr [sample_reveal ''x'' ''5'', sample_reveal ''y'' ''4.5'']"
    by (simp_all add: sample_auction_def sample_params_def acceptance_def sample_deps_def)
  have "runSealedEnvelopeCore sample_sha sample_auction sample_deps =
      run_selection sample_sha sample_auction sample_deps Procurement None sample_candidates"
    unfolding runSealedEnvelopeCore_def Let_def mode
    using rule by (simp add: fields start sample_window sample_match)
  also have "\<dots> = commit_winner sample_auction sample_deps Procurement
      (sort (remdups (map (\<lambda>c. ar_bidderClaim (fst c)) sample_candidates))) [] (sample_reveal ''y'' ''4.5'')"
    by (simp add: run_selection_def Let_def fields sample_selection [unfolded sample_options_def] sample_selected_def)
  finally have run: "runSealedEnvelopeCore sample_sha sample_auction sample_deps = sample_outcome" by (simp only: sample_outcome_def)
  have "case sample_outcome of Inl _ \<Rightarrow> False | Inr r \<Rightarrow> se_ok r \<and> se_mode r = Some Procurement \<and> se_winner r = Some ''y''" by code_simp
  then obtain r where "sample_outcome = Inr r" "se_ok r" "se_mode r = Some Procurement" "se_winner r = Some ''y''"
    by (rule sum.case_eq_if [THEN iffD1, elim_format]) (metis sum.collapse(2))
  then show ?thesis using run by metis
qed

theorem sealed_winner_optimal_witness:
  "\<exists>c. (sample_reveal ''y'' ''4.5'', c) \<in> set sample_candidates \<and> eligible sample_options (sample_reveal ''y'' ''4.5'', c)"
proof -
  have "sl_winner sample_selected = Some (sample_reveal ''y'' ''4.5'')" by (simp add: sample_selected_def)
  from sealed_winner_optimal [OF sample_selection [of None "()"] this] show ?thesis by blast
qed

theorem sealed_selection_order_independent_witness:
  "\<exists>c c'. (sample_reveal ''y'' ''4.5'', c) \<in> set sample_candidates \<and> (sample_reveal ''y'' ''4.5'', c') \<in> set sample_candidates \<and>
     commit_time c = commit_time c'"
proof -
  have w: "sl_winner sample_selected = Some (sample_reveal ''y'' ''4.5'')" by (simp add: sample_selected_def)
  have r: "is_price_rule (so_selectionRule sample_options)" by (simp add: sample_pool)
  from sealed_selection_order_independent [OF sample_selection [of None "()"] sample_selection [of None "()"] refl r w w]
  show ?thesis by blast
qed

theorem sealed_bid_binding_witness:
  "canonicalize (bid_json (sample_bid ''5'')) = canonicalize (bid_json (sample_bid ''5'')) \<and> saltBytes sample_salt = saltBytes sample_salt"
proof -
  have mem: "(sample_reveal ''x'' ''5'', sample_commit ''x'' 5) \<in> set sample_candidates" by (simp add: sample_candidates_def)
  have h: "is_hash (sample_sha m)" for m by (auto simp: is_hash_def sample_sha_def is_hex_lower_def is_digit_def list_all_iff)
  obtain t where t: "canonicalize (bid_json (sample_bid ''5'')) = Inr (CHR ''{'' # t)"
  proof -
    have "map_sum id hd (canonicalize (bid_json (sample_bid ''5''))) = Inr (CHR ''{'') \<and> canonicalize (bid_json (sample_bid ''5'')) \<noteq> Inr []"
      by code_simp
    then show thesis using that by (cases "canonicalize (bid_json (sample_bid ''5''))"; cases "projr (canonicalize (bid_json (sample_bid ''5'')))") auto
  qed
  have "inj_on sample_sha (bid_preimages sample_sha (sample_bid ''5'') sample_salt \<union> bid_preimages sample_sha (sample_bid ''5'') sample_salt)"
    by (auto simp: bid_preimages_def t inj_on_def sample_sha_def SEALED_BID_HASH_TAG_def utf8_def utf8_char_def)
  then show ?thesis
    using sealed_bid_binding [OF sample_match mem mem refl h] by (simp add: sample_reveal_def)
qed

theorem sealed_auction_sound_witness:
  "\<exists>r (t::int). r \<in> set [sample_reveal ''x'' ''5'', sample_reveal ''y'' ''4.5''] \<and> ar_bidderClaim r = ''y'' \<and> t \<le> 100000 \<and> 100000 \<le> ar_anchorTs r \<and>
     computeBidHash sample_sha (ar_bid r) (ar_salt r) = Inr (sample_sha ''dacs'')"
proof -
  obtain res where r: "runSealedEnvelopeCore sample_sha sample_auction sample_deps = Inr res" "se_ok res" "se_winner res = Some ''y''"
    using sample_auction by blast
  obtain commits reveals q c t where q: "sd_readAnchoredCommits sample_deps = Inr commits" "sd_readAnchoredReveals sample_deps = Inr reveals"
    "q \<in> set reveals" "authoritative commits c" "se_winner res = Some (ar_bidderClaim q)" "t \<le> sp_commitDeadline (si_params sample_auction)"
    "sp_commitDeadline (si_params sample_auction) \<le> ar_anchorTs q" "computeBidHash sample_sha (ar_bid q) (ar_salt q) = Inr (ac_bidHash c)"
    using sealed_auction_sound [OF r(1,2)] by blast
  have "c \<in> {sample_commit ''x'' 5, sample_commit ''y'' 7}" using q(1,4) by (auto simp: sample_deps_def authoritative_def)
  then have "ac_bidHash c = sample_sha ''dacs''" by (auto simp: sample_commit_def)
  moreover have "ar_bidderClaim q = ''y''" using q(5) r(3) by simp
  moreover have "q \<in> set [sample_reveal ''x'' ''5'', sample_reveal ''y'' ''4.5'']" using q(2,3) by (simp add: sample_deps_def)
  moreover have "sp_commitDeadline (si_params sample_auction) = 100000" by (simp add: sample_auction_def sample_params_def)
  ultimately have "q \<in> set [sample_reveal ''x'' ''5'', sample_reveal ''y'' ''4.5''] \<and> ar_bidderClaim q = ''y'' \<and> t \<le> 100000 \<and>
      100000 \<le> ar_anchorTs q \<and> computeBidHash sample_sha (ar_bid q) (ar_salt q) = Inr (sample_sha ''dacs'')"
    using q(6-8) by (simp only: simp_thms)
  then show ?thesis by (intro exI)
qed

theorem procurement_needs_both_signatures_witness:
  "\<exists>ctx agreement signers. cr_proof (sample_committed ctx) = Some (agreement, signers) \<and> ag_buyer agreement = ''publisher'' \<and>
     ag_seller agreement = ''y'' \<and> ''publisher'' \<in> set signers \<and> ''y'' \<in> set signers"
proof -
  obtain res where r: "runSealedEnvelopeCore sample_sha sample_auction sample_deps = Inr res" "se_ok res" "se_mode res = Some Procurement"
    "se_winner res = Some ''y''" using sample_auction by blast
  have s: "si_seller sample_auction = ''publisher''" "sd_commitAgreement sample_deps ctx = Inr (sample_committed ctx)" for ctx
    by (simp_all add: sample_auction_def sample_deps_def)
  show ?thesis using procurement_needs_both_signatures [OF r(1-3)] r(4) by (auto simp: s)
qed

theorem commitment_opens_witness:
  "\<exists>h. verifyReveal sample_sha h (sample_bid ''5'') (replicate 43 (CHR ''A'')) = Inr True"
proof -
  have "saltHasEnoughEntropy (replicate 43 (CHR ''A''))" by code_simp
  then have "makeCommitment sample_sha [] (sample_bid ''5'') (Some (replicate 43 (CHR ''A''))) =
      Inr (replicate 43 (CHR ''A''), sample_sha ''dacs'')"
    by (simp add: makeCommitment_def sample_bid_hash sample_canonical)
  from commitment_opens [OF this] show ?thesis by blast
qed

end
