(* ===== verification/Dacs_Wire.thy ===== *)
theory Dacs_Wire
  imports Dacs_Evidence Dacs_Addressing
begin

text \<open>
  The vocabulary of the seller's HTTP profile: refusals and value checks
  (\<^verbatim>\<open>src/src/wire/validate.ts\<close>) and the table of routes (\<^verbatim>\<open>src/src/wire/routes.ts\<close>).

  A refusal keeps its stable code, its HTTP status and its detail. An exception that is not a
  refusal of the wire (of the canonicaliser, of the operating system) is an \<open>Other_Error\<close>.
\<close>

section \<open>Refusals\<close>

datatype wire_error = Wire_Error string nat string | Other_Error string

type_synonym 'a wres = "wire_error + 'a"

definition wireFaultCategory :: "nat \<Rightarrow> fault_category" where
  "wireFaultCategory status =
     (if status = 500 then Fault_Permanent else if status = 503 then Fault_Transient else Fault_Counterparty)"

definition fail_wire :: "string \<Rightarrow> nat \<Rightarrow> string \<Rightarrow> 'a wres" where
  "fail_wire wcode status detail = Inl (Wire_Error wcode status detail)"

definition bindW :: "'a wres \<Rightarrow> ('a \<Rightarrow> 'b wres) \<Rightarrow> 'b wres" where
  "bindW r f = (case r of Inl e \<Rightarrow> Inl e | Inr x \<Rightarrow> f x)"

text \<open>A call of the SDK's own library, whose exception is not a refusal.\<close>

definition calling :: "'a res \<Rightarrow> 'a wres" where
  "calling r = (case r of Inl e \<Rightarrow> Inl (Other_Error (error_text e)) | Inr x \<Rightarrow> Inr x)"

lemma fail_wire_not_Inr [simp, res_simps]: "fail_wire c s d \<noteq> Inr x" "Inr x \<noteq> fail_wire c s d"
  by (simp_all add: fail_wire_def)

lemma bindW_simps [simp]: "bindW (Inr x) f = f x" "bindW (Inl e) f = Inl e" "bindW (fail_wire c s d) f = fail_wire c s d"
  by (simp_all add: bindW_def fail_wire_def)

lemma bindW_Inr [res_simps]: "bindW r f = Inr y \<longleftrightarrow> (\<exists>x. r = Inr x \<and> f x = Inr y)"
  by (auto simp: bindW_def split: sum.splits)

lemma calling_simps [simp]: "calling (Inr x) = Inr x" "calling r = Inr x \<longleftrightarrow> r = Inr x"
  by (auto simp: calling_def split: sum.splits)

section \<open>Values\<close>

text \<open>Exactly these own keys, no more, no fewer.\<close>

definition hasKeys :: "json \<Rightarrow> string list \<Rightarrow> bool" where
  "hasKeys v expected = obj_where (\<lambda>kvs. length kvs = length expected \<and> list_all (has_own kvs) expected) v"

text \<open>\<^verbatim>\<open>lacksProfile\<close>: exactly these fields except \<^verbatim>\<open>profile\<close>.\<close>

definition lacksProfile :: "json \<Rightarrow> string list \<Rightarrow> bool" where
  "lacksProfile v names = hasKeys v (filter (\<lambda>f. f \<noteq> ''profile'') names)"

definition isUint :: "json \<Rightarrow> bool" where
  "isUint = isNonNegativeSafeInt"

definition isHash :: "json \<Rightarrow> bool" where
  "isHash = str_where is_hash"

definition CLAIM_PREFIX :: string where
  "CLAIM_PREFIX = ''did:demos:agent:''"

text \<open>\<^verbatim>\<open>/^did:demos:agent:[0-9a-f]{64}$/\<close>.\<close>

definition is_claim :: "string \<Rightarrow> bool" where
  "is_claim s \<longleftrightarrow> take 16 s = CLAIM_PREFIX \<and> is_hash (drop 16 s)"

definition isClaim :: "json \<Rightarrow> bool" where
  "isClaim = str_where is_claim"

text \<open>\<^verbatim>\<open>/^[A-Za-z0-9_-]{22,86}$/\<close>.\<close>

definition is_nonce :: "string \<Rightarrow> bool" where
  "is_nonce s \<longleftrightarrow> 22 \<le> length s \<and> length s \<le> 86 \<and> list_all is_base64url_char s"

text \<open>\<^verbatim>\<open>/^[dD][iI][dD]:demos:agent:[0-9a-f]{64}$/\<close>.\<close>

definition is_received_claim :: "string \<Rightarrow> bool" where
  "is_received_claim s \<longleftrightarrow>
     list_all2 (\<lambda>c d. c \<in> set d) (take 3 s) [''dD'', ''iI'', ''dD''] \<and> is_claim (''did'' @ drop 3 s)"

definition canonicalClaim :: "json \<Rightarrow> json" where
  "canonicalClaim v =
     (case v of JStr s \<Rightarrow> if is_received_claim s then JStr (''did'' @ drop 3 s) else v | _ \<Rightarrow> v)"

definition withCanonicalClaims :: "json \<Rightarrow> string list \<Rightarrow> json" where
  "withCanonicalClaims p names =
     (case p of
        JObj kvs \<Rightarrow> JObj (map (\<lambda>kv. if fst kv \<in> set names then (fst kv, canonicalClaim (snd kv)) else kv) kvs)
      | _ \<Rightarrow> p)"

text \<open>The raw key behind a claim, or a bare key.\<close>

definition claimKey :: "string \<Rightarrow> string" where
  "claimKey c = (if take 16 c = CLAIM_PREFIX then drop 16 c else c)"

text \<open>\<^verbatim>\<open>[A-Za-z0-9._~-]\<close>.\<close>

definition is_unreserved :: "char \<Rightarrow> bool" where
  "is_unreserved c \<longleftrightarrow> is_digit c \<or> is_upper c \<or> is_lower c \<or> c \<in> set ''._~-''"

definition isListingPin :: "json \<Rightarrow> bool" where
  "isListingPin pin \<longleftrightarrow>
     hasKeys pin [''listingId'', ''version'', ''contentHash''] \<and>
     obj_where (\<lambda>p. str_where (\<lambda>s. 0 < length s \<and> length s \<le> 128 \<and> list_all is_unreserved s) (member_of p ''listingId'') \<and>
                    isPositiveSafeInt (member_of p ''version'') \<and> isHash (member_of p ''contentHash'')) pin"

section \<open>Routes\<close>

definition DACS_SELLER_DISCOVERY_PATH :: string where
  "DACS_SELLER_DISCOVERY_PATH = ''/.well-known/dacs-seller.json''"

definition path_proposals :: string where "path_proposals = ''/dacs/v1/agreements/proposals''"
definition path_state :: string where "path_state = ''/dacs/v1/agreements/state''"
definition path_context :: string where "path_context = ''/dacs/v1/agreements/context''"
definition path_contextChallenge :: string where "path_contextChallenge = ''/dacs/v1/agreements/context/challenge''"
definition path_commitments :: string where "path_commitments = ''/dacs/v1/commitments''"
definition path_commitmentSignature :: string where "path_commitmentSignature = ''/dacs/v1/commitments/signature''"
definition path_payments :: string where "path_payments = ''/dacs/v1/payments''"
definition path_bundleRequest :: string where "path_bundleRequest = ''/dacs/v1/bundles/request''"
definition path_bundleCountersignature :: string where "path_bundleCountersignature = ''/dacs/v1/bundles/countersignature''"
definition path_bundleBuyerCopy :: string where "path_bundleBuyerCopy = ''/dacs/v1/bundles/buyer-copy''"

lemmas path_defs = path_proposals_def path_state_def path_context_def path_contextChallenge_def path_commitments_def
  path_commitmentSignature_def path_payments_def path_bundleRequest_def path_bundleCountersignature_def path_bundleBuyerCopy_def

datatype route_auth = Auth_Signed | Auth_Discovery
datatype route_effect = Route_Effect | Route_Read
datatype route_option = Commit_On_Signature | Context_Route

record http_route =
  ro_path :: string
  ro_method :: string
  ro_auth :: route_auth
  ro_effect :: route_effect
  ro_option :: "route_option option"

definition mk_route :: "string \<Rightarrow> route_effect \<Rightarrow> route_option option \<Rightarrow> http_route" where
  "mk_route p e opt = \<lparr>ro_path = p, ro_method = ''POST'', ro_auth = Auth_Signed, ro_effect = e, ro_option = opt\<rparr>"

definition DACS_SELLER_HTTP_ROUTES :: "http_route list" where
  "DACS_SELLER_HTTP_ROUTES =
     [mk_route path_proposals Route_Effect None,
      mk_route path_state Route_Read None,
      mk_route path_commitments Route_Effect None,
      mk_route path_payments Route_Effect None,
      mk_route path_bundleRequest Route_Effect None,
      mk_route path_bundleCountersignature Route_Effect None,
      mk_route path_bundleBuyerCopy Route_Read None,
      mk_route path_commitmentSignature Route_Effect (Some Commit_On_Signature),
      mk_route path_context Route_Effect (Some Context_Route),
      mk_route path_contextChallenge Route_Read (Some Context_Route),
      \<lparr>ro_path = DACS_SELLER_DISCOVERY_PATH, ro_method = ''GET'', ro_auth = Auth_Discovery, ro_effect = Route_Read, ro_option = None\<rparr>]"

definition findDacsSellerHttpRoute :: "string \<Rightarrow> string \<Rightarrow> http_route option" where
  "findDacsSellerHttpRoute meth target =
     List.find (\<lambda>r. ro_method r = meth \<and> ro_path r = target) DACS_SELLER_HTTP_ROUTES"

definition PRE_AGREEMENT_PATHS :: "string list" where
  "PRE_AGREEMENT_PATHS = [path_contextChallenge, path_context]"

definition isPreAgreementRoute :: "string \<Rightarrow> bool" where
  "isPreAgreementRoute p \<longleftrightarrow> p \<in> set PRE_AGREEMENT_PATHS"

definition isReadRoute :: "string \<Rightarrow> bool" where
  "isReadRoute p \<longleftrightarrow> \<not> isPreAgreementRoute p \<and>
     list_ex (\<lambda>r. ro_path r = p \<and> ro_auth r = Auth_Signed \<and> ro_effect r = Route_Read) DACS_SELLER_HTTP_ROUTES"

definition is_effect_route :: "string \<Rightarrow> bool" where
  "is_effect_route p \<longleftrightarrow>
     list_ex (\<lambda>r. ro_path r = p \<and> ro_auth r = Auth_Signed \<and> ro_effect r = Route_Effect) DACS_SELLER_HTTP_ROUTES"

definition maxRequestBodyBytes :: nat where "maxRequestBodyBytes = 64 * 1024"
definition maxResponseBodyBytes :: nat where "maxResponseBodyBytes = 512 * 1024"
definition maxMessageLifetimeMs :: int where "maxMessageLifetimeMs = 60000"
definition maxHeaderLength :: nat where "maxHeaderLength = 4096"

text \<open>Every signed route is an effect, a readback route or the challenge of the context route, and only one of them.\<close>

lemma signed_route_kinds:
  assumes "r \<in> set DACS_SELLER_HTTP_ROUTES" "ro_auth r = Auth_Signed"
  shows "is_effect_route (ro_path r) \<noteq> (isReadRoute (ro_path r) \<or> ro_path r = path_contextChallenge)"
proof -
  have "list_all (\<lambda>r. ro_auth r = Auth_Signed \<longrightarrow>
    is_effect_route (ro_path r) \<noteq> (isReadRoute (ro_path r) \<or> ro_path r = path_contextChallenge)) DACS_SELLER_HTTP_ROUTES"
    by code_simp
  then show ?thesis using assms by (auto simp: list_all_iff)
qed

end
