(* ===== verification/Dacs_Journal.thy ===== *)
theory Dacs_Journal
  imports Dacs_Wire Dacs_Bytes Dacs_Sort
begin

text \<open>
  The seller's request journal (\<^verbatim>\<open>src/src/wire/journal.ts\<close>): one directory shared by the workers of
  a host, whose files are published once and never changed.

  A directory is the list of its entries in the order in which it lists them. The records are
  canonical JSON; an entry keeps the JSON value its text stands for and the number of its bytes.
  Every file operation is atomic, and between two of them other workers may act: \<open>reserveEffect\<close> and
  \<open>completeWireEffect\<close> are step functions on a program counter, and one step is one publication or one
  read (an existence test and the read of the same file count as one, since files do not go away).
  A worker that crashes, or whose call throws in the middle, is one that is not stepped again. Opening a
  journal and the check that the path still names the opened directory concern the operating
  system and are left out.
\<close>

section \<open>The directory\<close>

datatype entry = Record nat json | Unparsable nat | Not_A_File

type_synonym directory = "(string \<times> entry) list"

definition MAX_EFFECT_ATTEMPTS :: int where
  "MAX_EFFECT_ATTEMPTS = 16"

definition SMALL_FILE_BYTES :: nat where
  "SMALL_FILE_BYTES = 4096"

definition OUTCOME_FILE_BYTES :: nat where
  "OUTCOME_FILE_BYTES = maxResponseBodyBytes * 2 + SMALL_FILE_BYTES"

definition corrupt :: "string \<Rightarrow> 'a wres" where
  "corrupt detail = fail_wire ''seller_replay_guard_invalid'' 500 detail"

text \<open>Publish a record under a name, durably; false if the name exists.\<close>

definition publish :: "directory \<Rightarrow> string \<Rightarrow> json \<Rightarrow> (bool \<times> directory) wres" where
  "publish d name v =
     bindW (calling (canonicalize v)) (\<lambda>contents.
       case map_of d name of
         Some _ \<Rightarrow> Inr (False, d)
       | None \<Rightarrow> Inr (True, d @ [(name, Record (length (utf8 contents)) v)]))"

definition exists_entry :: "directory \<Rightarrow> string \<Rightarrow> bool wres" where
  "exists_entry d name =
     (case map_of d name of
        None \<Rightarrow> Inr False
      | Some Not_A_File \<Rightarrow> corrupt ''STORE-ENTRY-NOT-FILE''
      | Some _ \<Rightarrow> Inr True)"

text \<open>The JSON object a file holds; \<open>None\<close> when it does not parse as one.\<close>

definition readRecord :: "directory \<Rightarrow> string \<Rightarrow> nat \<Rightarrow> (string \<times> json) list option wres" where
  "readRecord d name maxBytes =
     (case map_of d name of
        None \<Rightarrow> Inl (Other_Error ''ENOENT'')
      | Some Not_A_File \<Rightarrow> corrupt ''STORE-ENTRY-TOO-LARGE''
      | Some (Unparsable bytes) \<Rightarrow> if bytes > maxBytes then corrupt ''STORE-ENTRY-TOO-LARGE'' else Inr None
      | Some (Record bytes v) \<Rightarrow>
          if bytes > maxBytes then corrupt ''STORE-ENTRY-TOO-LARGE''
          else Inr (case v of JObj kvs \<Rightarrow> Some kvs | _ \<Rightarrow> None))"

definition attemptName :: "string \<Rightarrow> nat \<Rightarrow> string" where
  "attemptName operationId attempt = ''o-'' @ operationId @ ''-'' @ nat_text attempt"

definition endedName :: "string \<Rightarrow> nat \<Rightarrow> string" where
  "endedName operationId attempt = ''o-'' @ operationId @ ''-'' @ nat_text attempt @ ''.end''"

definition outcomeName :: "string \<Rightarrow> string" where
  "outcomeName operationId = ''o-'' @ operationId @ ''.done''"

definition nonceName :: "string \<Rightarrow> string" where
  "nonceName key = ''k-'' @ key"

section \<open>Records\<close>

definition jnat :: "nat \<Rightarrow> json" where
  "jnat n = JNum (JInt (int n))"

definition jint :: "int \<Rightarrow> json" where
  "jint n = JNum (JInt n)"

fun int_of :: "json \<Rightarrow> int" where
  "int_of (JNum (JInt n)) = n"
| "int_of _ = 0"

fun str_of :: "json \<Rightarrow> string" where
  "str_of (JStr s) = s"
| "str_of _ = []"

record attempt_record =
  at_requestHash :: string
  at_leaseUntil :: int
  at_binding :: string
  at_superseded :: int

definition ATTEMPT :: "string list" where
  "ATTEMPT = [''operationId'', ''attempt'', ''requestHash'', ''leaseUntil'', ''binding'', ''superseded'']"

definition attempt_json :: "string \<Rightarrow> nat \<Rightarrow> attempt_record \<Rightarrow> json" where
  "attempt_json operationId attempt a =
     JObj [(''operationId'', JStr operationId), (''attempt'', jnat attempt), (''requestHash'', JStr (at_requestHash a)),
           (''leaseUntil'', jint (at_leaseUntil a)), (''binding'', JStr (at_binding a)), (''superseded'', jint (at_superseded a))]"

definition readAttempt :: "directory \<Rightarrow> string \<Rightarrow> nat \<Rightarrow> attempt_record wres" where
  "readAttempt d operationId attempt =
     bindW (readRecord d (attemptName operationId attempt) SMALL_FILE_BYTES) (\<lambda>rec.
       case rec of
         None \<Rightarrow> corrupt ''STORE-ATTEMPT-INVALID''
       | Some r \<Rightarrow>
           if \<not> hasKeys (JObj r) ATTEMPT \<or> member_of r ''operationId'' \<noteq> JStr operationId \<or>
              member_of r ''attempt'' \<noteq> jnat attempt \<or> \<not> isHash (member_of r ''requestHash'') \<or>
              \<not> isUint (member_of r ''leaseUntil'') \<or> \<not> isHash (member_of r ''binding'') \<or>
              \<not> isUint (member_of r ''superseded'') \<or> int_of (member_of r ''superseded'') > int attempt \<or>
              int_of (member_of r ''superseded'') \<ge> MAX_EFFECT_ATTEMPTS
           then corrupt ''STORE-ATTEMPT-INVALID''
           else Inr \<lparr>at_requestHash = str_of (member_of r ''requestHash''), at_leaseUntil = int_of (member_of r ''leaseUntil''),
                     at_binding = str_of (member_of r ''binding''), at_superseded = int_of (member_of r ''superseded'')\<rparr>)"

text \<open>The operation was first reserved under \<open>binding\<close>; a request under another one runs nothing.\<close>

definition assertBinding :: "directory \<Rightarrow> string \<Rightarrow> string \<Rightarrow> unit wres" where
  "assertBinding d operationId binding =
     bindW (exists_entry d (attemptName operationId 0)) (\<lambda>e.
       if \<not> e then corrupt ''STORE-ATTEMPT-MISSING''
       else bindW (readAttempt d operationId 0) (\<lambda>a.
              if at_binding a \<noteq> binding then fail_wire ''peer_operation_mismatch'' 409 [] else Inr ()))"

record wire_outcome =
  wo_status :: int
  wo_text :: string

text \<open>
  \<open>signable\<close> is the admission of a text as a JSON object the wire can sign
  (\<^verbatim>\<open>admitWireJson\<close> in \<^verbatim>\<open>isSignableText\<close>); the texts of the model survive their own UTF-8 encoding.
\<close>

definition isOutcome :: "(string \<Rightarrow> bool) \<Rightarrow> wire_outcome \<Rightarrow> bool" where
  "isOutcome signable out \<longleftrightarrow>
     isSafeInteger (wo_status out) \<and> 200 \<le> wo_status out \<and> wo_status out \<le> 599 \<and>
     length (utf8 (wo_text out)) \<le> maxResponseBodyBytes \<and> signable (wo_text out)"

definition toStored :: "wire_outcome \<Rightarrow> json" where
  "toStored out = JObj [(''status'', jint (wo_status out)), (''textBytes'', JStr (base64url_encode (utf8 (wo_text out))))]"

definition fromStored :: "(string \<Rightarrow> bool) \<Rightarrow> json \<Rightarrow> wire_outcome option" where
  "fromStored signable v =
     (case v of
        JObj kvs \<Rightarrow>
          if \<not> hasKeys v [''status'', ''textBytes''] \<or> \<not> str_where (list_all is_base64url_char) (member_of kvs ''textBytes'') then None
          else let textBytes = str_of (member_of kvs ''textBytes''); bytes = base64url_decode textBytes in
            if base64url_encode bytes \<noteq> textBytes then None
            else (case utf8_decode bytes of
                    None \<Rightarrow> None
                  | Some text \<Rightarrow>
                      let out = \<lparr>wo_status = int_of (member_of kvs ''status''), wo_text = text\<rparr> in
                      if utf8 text = bytes \<and> isUint (member_of kvs ''status'') \<and> isOutcome signable out then Some out else None)
      | _ \<Rightarrow> None)"

definition outcome_json :: "string \<Rightarrow> nat \<Rightarrow> wire_outcome \<Rightarrow> json" where
  "outcome_json operationId attempt out =
     JObj [(''operationId'', JStr operationId), (''attempt'', jnat attempt), (''outcome'', toStored out)]"

definition readOutcome :: "(string \<Rightarrow> bool) \<Rightarrow> directory \<Rightarrow> string \<Rightarrow> wire_outcome wres" where
  "readOutcome signable d operationId =
     bindW (readRecord d (outcomeName operationId) OUTCOME_FILE_BYTES) (\<lambda>rec.
       case (case rec of
               Some r \<Rightarrow>
                 if hasKeys (JObj r) [''operationId'', ''attempt'', ''outcome''] \<and> member_of r ''operationId'' = JStr operationId
                 then fromStored signable (member_of r ''outcome'') else None
             | None \<Rightarrow> None) of
         None \<Rightarrow> corrupt ''STORE-OUTCOME-INVALID''
       | Some out \<Rightarrow> Inr out)"

record attempt_end =
  ae_superseded :: bool
  ae_outcome :: "wire_outcome option"

definition END :: "string list" where
  "END = [''operationId'', ''attempt'', ''superseded'', ''outcome'']"

definition endRecord :: "string \<Rightarrow> nat \<Rightarrow> attempt_end \<Rightarrow> json" where
  "endRecord operationId attempt e =
     JObj [(''operationId'', JStr operationId), (''attempt'', jnat attempt), (''superseded'', JBool (ae_superseded e)),
           (''outcome'', case ae_outcome e of None \<Rightarrow> JNull | Some out \<Rightarrow> toStored out)]"

definition readEnd :: "(string \<Rightarrow> bool) \<Rightarrow> directory \<Rightarrow> string \<Rightarrow> nat \<Rightarrow> attempt_end wres" where
  "readEnd signable d operationId attempt =
     bindW (readRecord d (endedName operationId attempt) OUTCOME_FILE_BYTES) (\<lambda>rec.
       case rec of
         None \<Rightarrow> corrupt ''STORE-END-INVALID''
       | Some r \<Rightarrow>
           (case member_of r ''superseded'' of
              JBool s \<Rightarrow>
                if \<not> hasKeys (JObj r) END \<or> member_of r ''operationId'' \<noteq> JStr operationId \<or>
                   member_of r ''attempt'' \<noteq> jnat attempt \<or> s \<and> member_of r ''outcome'' \<noteq> JNull
                then corrupt ''STORE-END-INVALID''
                else if member_of r ''outcome'' = JNull then Inr \<lparr>ae_superseded = s, ae_outcome = None\<rparr>
                else (case fromStored signable (member_of r ''outcome'') of
                        None \<Rightarrow> corrupt ''STORE-END-INVALID''
                      | Some out \<Rightarrow> Inr \<lparr>ae_superseded = s, ae_outcome = Some out\<rparr>)
            | _ \<Rightarrow> corrupt ''STORE-END-INVALID''))"

section \<open>Counting attempts\<close>

text \<open>
  The attempts of an operation have contiguous numbers. The search doubles an upper bound until it
  names no attempt, then bisects; a state of the search is the number of an attempt and a bound.
\<close>

datatype search = Doubling nat nat | Bisecting nat nat

datatype search_result = Probe search | Count nat | Attempt_Limit

definition MAX_SAFE :: nat where
  "MAX_SAFE = 9007199254740991"

fun probed :: "search \<Rightarrow> nat" where
  "probed (Doubling n u) = u"
| "probed (Bisecting n u) = n + (u - n) div 2"

definition bisect :: "nat \<Rightarrow> nat \<Rightarrow> search_result" where
  "bisect n u = (if n + 1 < u then Probe (Bisecting n u) else Count u)"

fun search_next :: "search \<Rightarrow> bool \<Rightarrow> search_result" where
  "search_next (Doubling n u) True = (if u = MAX_SAFE then Attempt_Limit else Probe (Doubling u (min MAX_SAFE (u * 2))))"
| "search_next (Doubling n u) False = bisect n u"
| "search_next (Bisecting n u) True = bisect (probed (Bisecting n u)) u"
| "search_next (Bisecting n u) False = bisect n (probed (Bisecting n u))"

text \<open>The search on a directory nobody else changes; \<open>fuel\<close> bounds the probes after the first.\<close>

fun run_search :: "nat \<Rightarrow> directory \<Rightarrow> string \<Rightarrow> search_result \<Rightarrow> nat option wres" where
  "run_search fuel d operationId (Count n) = Inr (Some n)"
| "run_search fuel d operationId Attempt_Limit = corrupt ''STORE-ATTEMPT-LIMIT''"
| "run_search 0 d operationId (Probe s) = Inr None"
| "run_search (Suc fuel) d operationId (Probe s) =
     bindW (exists_entry d (attemptName operationId (probed s))) (\<lambda>e. run_search fuel d operationId (search_next s e))"

definition MAX_PROBES :: nat where
  "MAX_PROBES = 106"

definition attemptCount :: "directory \<Rightarrow> string \<Rightarrow> nat option wres" where
  "attemptCount d operationId =
     bindW (exists_entry d (attemptName operationId 0)) (\<lambda>e.
       if \<not> e then Inr (Some 0) else run_search MAX_PROBES d operationId (Probe (Doubling 0 1)))"

section \<open>Reserving an effect\<close>

record reservation =
  rv_key :: string
  rv_seller :: string
  rv_jobId :: string
  rv_path :: string
  rv_binding :: string
  rv_requestHash :: string

datatype wire_effect = New_Effect string nat int | Recover_Effect string nat int | Completed_Effect string wire_outcome

text \<open>\<^verbatim>\<open>now(store)\<close>, at the clock reading \<open>t\<close>.\<close>

definition store_clock :: "int \<Rightarrow> int wres" where
  "store_clock t = (if isSafeInteger t \<and> 0 \<le> t then Inr t else fail_wire ''seller_configuration_invalid'' 500 ''JOURNAL-CLOCK'')"

text \<open>One operation per seller, job and route.\<close>

definition operationOf :: "(string \<Rightarrow> string) \<Rightarrow> string \<Rightarrow> string \<Rightarrow> string \<Rightarrow> string wres" where
  "operationOf sha256 seller jobId path =
     (if \<not> is_claim seller \<or> \<not> isCanonicalJobId jobId \<or> \<not> is_effect_route path then fail_wire ''wire_input_invalid'' 500 []
      else bindW (calling (canonicalize (JObj [(''seller'', JStr seller), (''jobId'', JStr jobId), (''path'', JStr path)])))
             (\<lambda>text. Inr (sha256 text)))"

definition nonce_json :: "string \<Rightarrow> string \<Rightarrow> string \<Rightarrow> string \<Rightarrow> json" where
  "nonce_json key operationId binding requestHash =
     JObj [(''key'', JStr key), (''operationId'', JStr operationId), (''binding'', JStr binding), (''requestHash'', JStr requestHash)]"

definition pending :: wire_error where
  "pending = Wire_Error ''seller_effect_pending'' 503 []"

text \<open>
  The program counter. The first field of the points after the clock reading is that reading;
  \<open>next\<close> is the number of attempts counted, \<open>superseded\<close> what the latest of them has spent.
\<close>

datatype reserve_pc =
    Publishing_Key
  | Checking_Outcome
  | Reading_Outcome
  | Asserting_Completed wire_outcome
  | Counting_First int
  | Counting int search
  | Publishing_First int
  | Lost_First
  | Asserting_Binding int nat
  | Checking_Again int nat
  | Reading_Latest int nat
  | Checking_End int nat int int
  | Superseding int nat int
  | Reading_End int nat int
  | Publishing_Outcome nat wire_outcome
  | Comparing_Outcome wire_outcome
  | Publishing_Next int nat int
  | Issuing wire_effect
  | Reserved wire_effect
  | Reserve_Refused wire_error

definition refuse :: "directory \<Rightarrow> 'a wres \<Rightarrow> ('a \<Rightarrow> reserve_pc \<times> directory) \<Rightarrow> reserve_pc \<times> directory" where
  "refuse d r f = (case r of Inl e \<Rightarrow> (Reserve_Refused e, d) | Inr x \<Rightarrow> f x)"

definition lease_record :: "int \<Rightarrow> reservation \<Rightarrow> int \<Rightarrow> int \<Rightarrow> attempt_record" where
  "lease_record leaseMs r at_ms superseded =
     \<lparr>at_requestHash = rv_requestHash r, at_leaseUntil = at_ms + leaseMs, at_binding = rv_binding r, at_superseded = superseded\<rparr>"

definition counted :: "int \<Rightarrow> search_result \<Rightarrow> reserve_pc" where
  "counted at_ms res =
     (case res of
        Probe s \<Rightarrow> Counting at_ms s
      | Count n \<Rightarrow> Asserting_Binding at_ms n
      | Attempt_Limit \<Rightarrow> Reserve_Refused (Wire_Error ''seller_replay_guard_invalid'' 500 ''STORE-ATTEMPT-LIMIT''))"

definition spent :: "int \<Rightarrow> bool \<Rightarrow> int" where
  "spent superseded latest = superseded + (if latest then 1 else 0)"

text \<open>
  \<open>reserveEffect\<close>: one step at clock reading \<open>t\<close>, for the reservation \<open>r\<close> of the operation
  \<open>operationId\<close> (its entry checks are \<open>enter_reserve\<close> below).
\<close>

fun reserve_step ::
  "(string \<Rightarrow> bool) \<Rightarrow> int \<Rightarrow> string \<Rightarrow> reservation \<Rightarrow> int \<Rightarrow> directory \<Rightarrow> reserve_pc \<Rightarrow> reserve_pc \<times> directory" where
  "reserve_step signable leaseMs oid r t d Publishing_Key =
     refuse d (publish d (nonceName (rv_key r)) (nonce_json (rv_key r) oid (rv_binding r) (rv_requestHash r))) (\<lambda>(won, d').
       if won then (Checking_Outcome, d') else (Reserve_Refused (Wire_Error ''peer_request_replayed'' 409 []), d'))"
| "reserve_step signable leaseMs oid r t d Checking_Outcome =
     refuse d (store_clock t) (\<lambda>now. refuse d (exists_entry d (outcomeName oid)) (\<lambda>e.
       (if e then Reading_Outcome else Counting_First now, d)))"
| "reserve_step signable leaseMs oid r t d Reading_Outcome =
     refuse d (readOutcome signable d oid) (\<lambda>out. (Asserting_Completed out, d))"
| "reserve_step signable leaseMs oid r t d (Asserting_Completed out) =
     refuse d (assertBinding d oid (rv_binding r)) (\<lambda>_. (Reserved (Completed_Effect oid out), d))"
| "reserve_step signable leaseMs oid r t d (Counting_First now) =
     refuse d (exists_entry d (attemptName oid 0)) (\<lambda>e. (if e then Counting now (Doubling 0 1) else Publishing_First now, d))"
| "reserve_step signable leaseMs oid r t d (Counting now s) =
     refuse d (exists_entry d (attemptName oid (probed s))) (\<lambda>e. (counted now (search_next s e), d))"
| "reserve_step signable leaseMs oid r t d (Publishing_First now) =
     refuse d (publish d (attemptName oid 0) (attempt_json oid 0 (lease_record leaseMs r now 0))) (\<lambda>(won, d').
       (if won then Issuing (New_Effect oid 0 (now + leaseMs)) else Lost_First, d'))"
| "reserve_step signable leaseMs oid r t d Lost_First =
     refuse d (assertBinding d oid (rv_binding r)) (\<lambda>_. (Reserve_Refused pending, d))"
| "reserve_step signable leaseMs oid r t d (Asserting_Binding now n) =
     refuse d (assertBinding d oid (rv_binding r)) (\<lambda>_. (Checking_Again now n, d))"
| "reserve_step signable leaseMs oid r t d (Checking_Again now n) =
     refuse d (exists_entry d (outcomeName oid)) (\<lambda>e. (if e then Reading_Outcome else Reading_Latest now n, d))"
| "reserve_step signable leaseMs oid r t d (Reading_Latest now n) =
     refuse d (readAttempt d oid (n - 1)) (\<lambda>a. (Checking_End now n (at_leaseUntil a) (at_superseded a), d))"
| "reserve_step signable leaseMs oid r t d (Checking_End now n leaseUntil superseded) =
     refuse d (exists_entry d (endedName oid (n - 1))) (\<lambda>e.
       if e then (Reading_End now n superseded, d)
       else if now < leaseUntil then (Reserve_Refused pending, d)
       else (Superseding now n superseded, d))"
| "reserve_step signable leaseMs oid r t d (Superseding now n superseded) =
     refuse d (publish d (endedName oid (n - 1)) (endRecord oid (n - 1) \<lparr>ae_superseded = True, ae_outcome = None\<rparr>)) (\<lambda>(won, d').
       (Reading_End now n superseded, d'))"
| "reserve_step signable leaseMs oid r t d (Reading_End now n superseded) =
     refuse d (readEnd signable d oid (n - 1)) (\<lambda>e.
       case ae_outcome e of
         Some out \<Rightarrow> (Publishing_Outcome (n - 1) out, d)
       | None \<Rightarrow>
           if spent superseded (ae_superseded e) \<ge> MAX_EFFECT_ATTEMPTS
           then (Reserve_Refused (Wire_Error ''seller_effect_unresolved'' 500 []), d)
           else (Publishing_Next now n (spent superseded (ae_superseded e)), d))"
| "reserve_step signable leaseMs oid r t d (Publishing_Outcome n out) =
     refuse d (publish d (outcomeName oid) (outcome_json oid n out)) (\<lambda>(won, d').
       (if won then Reading_Outcome else Comparing_Outcome out, d'))"
| "reserve_step signable leaseMs oid r t d (Comparing_Outcome out) =
     refuse d (readOutcome signable d oid) (\<lambda>stored.
       if stored = out then (Reading_Outcome, d) else (Reserve_Refused (Wire_Error ''seller_effect_conflict'' 500 []), d))"
| "reserve_step signable leaseMs oid r t d (Publishing_Next now n superseded) =
     refuse d (publish d (attemptName oid n) (attempt_json oid n (lease_record leaseMs r now superseded))) (\<lambda>(won, d').
       if won then (Issuing (Recover_Effect oid n (now + leaseMs)), d') else (Reserve_Refused pending, d'))"
| "reserve_step signable leaseMs oid r t d (Issuing eff) =
     refuse d (store_clock t) (\<lambda>now.
       case eff of
         Completed_Effect _ _ \<Rightarrow> (Reserved eff, d)
       | New_Effect _ _ leaseUntil \<Rightarrow> if now \<ge> leaseUntil then (Reserve_Refused pending, d) else (Reserved eff, d)
       | Recover_Effect _ _ leaseUntil \<Rightarrow> if now \<ge> leaseUntil then (Reserve_Refused pending, d) else (Reserved eff, d))"
| "reserve_step signable leaseMs oid r t d (Reserved eff) = (Reserved eff, d)"
| "reserve_step signable leaseMs oid r t d (Reserve_Refused e) = (Reserve_Refused e, d)"

definition enter_reserve :: "(string \<Rightarrow> string) \<Rightarrow> reservation \<Rightarrow> string wres" where
  "enter_reserve sha256 r =
     (if \<not> is_hash (rv_key r) \<or> \<not> is_hash (rv_binding r) \<or> \<not> is_hash (rv_requestHash r) then fail_wire ''wire_input_invalid'' 500 []
      else operationOf sha256 (rv_seller r) (rv_jobId r) (rv_path r))"

text \<open>The lease of a journal, as \<open>openWireRequestJournal\<close> accepts it.\<close>

definition valid_lease :: "int \<Rightarrow> bool" where
  "valid_lease leaseMs \<longleftrightarrow> 1000 \<le> leaseMs \<and> leaseMs \<le> 600000"

section \<open>Completing an effect\<close>

datatype complete_pc =
    Ending
  | Reading_Own_End
  | Recording
  | Comparing_Recorded
  | Completed
  | Complete_Refused wire_error

definition refuse_complete :: "directory \<Rightarrow> 'a wres \<Rightarrow> ('a \<Rightarrow> complete_pc \<times> directory) \<Rightarrow> complete_pc \<times> directory" where
  "refuse_complete d r f = (case r of Inl e \<Rightarrow> (Complete_Refused e, d) | Inr x \<Rightarrow> f x)"

definition after_end :: "wire_outcome option \<Rightarrow> complete_pc" where
  "after_end owned = (if owned = None then Completed else Recording)"

text \<open>
  \<open>completeWireEffect\<close> on the attempt \<open>n\<close> of the operation \<open>oid\<close> that was issued, with the outcome
  \<open>owned\<close> or \<open>None\<close>.
\<close>

fun complete_step ::
  "(string \<Rightarrow> bool) \<Rightarrow> string \<Rightarrow> nat \<Rightarrow> wire_outcome option \<Rightarrow> directory \<Rightarrow> complete_pc \<Rightarrow> complete_pc \<times> directory" where
  "complete_step signable oid n owned d Ending =
     (if (case owned of None \<Rightarrow> False | Some out \<Rightarrow> \<not> isOutcome signable out)
      then (Complete_Refused (Wire_Error ''wire_input_invalid'' 500 ''OUTCOME-INVALID''), d)
      else refuse_complete d (publish d (endedName oid n) (endRecord oid n \<lparr>ae_superseded = False, ae_outcome = owned\<rparr>)) (\<lambda>(won, d').
             (if won then after_end owned else Reading_Own_End, d')))"
| "complete_step signable oid n owned d Reading_Own_End =
     refuse_complete d (readEnd signable d oid n) (\<lambda>e.
       (if ae_superseded e then Complete_Refused (Wire_Error ''seller_effect_superseded'' 500 [])
        else if ae_outcome e \<noteq> owned then Complete_Refused (Wire_Error ''seller_effect_conflict'' 500 [])
        else after_end owned, d))"
| "complete_step signable oid n owned d Recording =
     (case owned of
        None \<Rightarrow> (Completed, d)
      | Some out \<Rightarrow>
          refuse_complete d (publish d (outcomeName oid) (outcome_json oid n out)) (\<lambda>(won, d').
            (if won then Completed else Comparing_Recorded, d')))"
| "complete_step signable oid n owned d Comparing_Recorded =
     refuse_complete d (readOutcome signable d oid) (\<lambda>stored.
       (if Some stored = owned then Completed else Complete_Refused (Wire_Error ''seller_effect_conflict'' 500 []), d))"
| "complete_step signable oid n owned d Completed = (Completed, d)"
| "complete_step signable oid n owned d (Complete_Refused e) = (Complete_Refused e, d)"

section \<open>Reading the journal\<close>

datatype operation_view =
    View_None
  | View_Pending string nat string int
  | View_Ended string nat string int
  | View_Completed string wire_outcome

definition firstBinding :: "directory \<Rightarrow> string \<Rightarrow> string wres" where
  "firstBinding d oid =
     bindW (exists_entry d (attemptName oid 0)) (\<lambda>e.
       if \<not> e then corrupt ''STORE-ATTEMPT-MISSING'' else bindW (readAttempt d oid 0) (\<lambda>a. Inr (at_binding a)))"

definition view_completed :: "directory \<Rightarrow> string \<Rightarrow> wire_outcome \<Rightarrow> operation_view wres" where
  "view_completed d oid out = bindW (firstBinding d oid) (\<lambda>b. Inr (View_Completed b out))"

definition view_latest :: "(string \<Rightarrow> bool) \<Rightarrow> directory \<Rightarrow> string \<Rightarrow> nat \<Rightarrow> operation_view wres" where
  "view_latest signable d oid n =
     bindW (readAttempt d oid n) (\<lambda>a.
     bindW (firstBinding d oid) (\<lambda>b.
     bindW (exists_entry d (endedName oid n)) (\<lambda>ended.
       if \<not> ended then Inr (View_Pending b n (at_requestHash a) (at_leaseUntil a))
       else bindW (readEnd signable d oid n) (\<lambda>e.
              case ae_outcome e of
                Some out \<Rightarrow> view_completed d oid out
              | None \<Rightarrow> Inr (View_Ended b n (at_requestHash a) (spent (at_superseded a) (ae_superseded e)))))))"

definition inspectWireOperation ::
  "(string \<Rightarrow> string) \<Rightarrow> (string \<Rightarrow> bool) \<Rightarrow> directory \<Rightarrow> string \<Rightarrow> string \<Rightarrow> string \<Rightarrow> operation_view wres" where
  "inspectWireOperation sha256 signable d seller jobId path =
     bindW (operationOf sha256 seller jobId path) (\<lambda>oid.
     bindW (exists_entry d (outcomeName oid)) (\<lambda>done.
       if done then bindW (readOutcome signable d oid) (view_completed d oid)
       else bindW (attemptCount d oid) (\<lambda>count.
              case count of
                None \<Rightarrow> Inl (Other_Error ''out of probes'')
              | Some 0 \<Rightarrow> Inr View_None
              | Some (Suc n) \<Rightarrow> view_latest signable d oid n)))"

record nonce_record =
  nr_key :: string
  nr_operationId :: string
  nr_binding :: string
  nr_requestHash :: string

definition NONCE_RECORD :: "string list" where
  "NONCE_RECORD = [''key'', ''operationId'', ''binding'', ''requestHash'']"

definition readNonceRecord :: "directory \<Rightarrow> string \<Rightarrow> string \<Rightarrow> nonce_record wres" where
  "readNonceRecord d name key =
     bindW (exists_entry d name) (\<lambda>e.
       if \<not> e then corrupt ''STORE-NONCE-INVALID''
       else bindW (readRecord d name SMALL_FILE_BYTES) (\<lambda>rec.
              case rec of
                None \<Rightarrow> corrupt ''STORE-NONCE-INVALID''
              | Some r \<Rightarrow>
                  if \<not> hasKeys (JObj r) NONCE_RECORD \<or> member_of r ''key'' \<noteq> JStr key \<or> \<not> isHash (member_of r ''operationId'') \<or>
                     \<not> isHash (member_of r ''binding'') \<or> \<not> isHash (member_of r ''requestHash'')
                  then corrupt ''STORE-NONCE-INVALID''
                  else Inr \<lparr>nr_key = key, nr_operationId = str_of (member_of r ''operationId''),
                            nr_binding = str_of (member_of r ''binding''), nr_requestHash = str_of (member_of r ''requestHash'')\<rparr>))"

fun list_nonces :: "directory \<Rightarrow> nat \<Rightarrow> string list \<Rightarrow> nonce_record list \<Rightarrow> nonce_record list wres" where
  "list_nonces d maxKeys [] records = Inr records"
| "list_nonces d maxKeys (name # names) records =
     (if take 2 name \<noteq> ''k-'' then list_nonces d maxKeys names records
      else if \<not> is_hash (drop 2 name) then corrupt ''STORE-NONCE-INVALID''
      else if length records \<ge> maxKeys then corrupt ''STORE-ENUMERATION-INCOMPLETE''
      else bindW (readNonceRecord d name (drop 2 name)) (\<lambda>rec. list_nonces d maxKeys names (records @ [rec])))"

definition listWireNonceKeys :: "directory \<Rightarrow> nat \<Rightarrow> nonce_record list wres" where
  "listWireNonceKeys d maxKeys =
     (if \<not> isSafeInteger (int maxKeys) then fail_wire ''wire_input_invalid'' 500 []
      else bindW (list_nonces d maxKeys (map fst d) []) (\<lambda>records. Inr (sort_by (\<lambda>a b. nr_key a \<le> nr_key b) records)))"

end
