(* ===== verification/Dacs_Journal_Records.thy ===== *)
theory Dacs_Journal_Records
  imports Dacs_Journal
begin

text \<open>
  The records of the journal: the names of different entries differ, a published record reads back
  as what was written and is never too large to be read, and what was read once reads the same for ever.
\<close>

section \<open>Names\<close>

lemma hash_length: "is_hash h \<Longrightarrow> length h = 64"
  by (simp add: is_hash_def)

lemma hash_ascii: "is_hash h \<Longrightarrow> list_all (\<lambda>c. code c < 128) h"
  by (auto simp: is_hash_def is_hex_lower_def is_digit_def list_all_iff)

lemma no_dot: "CHR ''.'' \<notin> set (nat_text n)"
  by (rule nat_text_no_char) (simp add: is_digit_def)

lemma entry_name_eq:
  assumes "is_hash h" "is_hash h'"
  shows "''o-'' @ h @ s = ''o-'' @ h' @ s' \<longleftrightarrow> h = h' \<and> s = s'"
  using assms by (auto simp: hash_length)

lemma nat_text_dot: "nat_text n \<noteq> nat_text m @ CHR ''.'' # r"
  using no_dot [of n] by (metis in_set_conv_decomp)

lemma names_differ [simp]:
  assumes "is_hash h" "is_hash h'"
  shows "attemptName h n = attemptName h' m \<longleftrightarrow> h = h' \<and> n = m"
    and "endedName h n = endedName h' m \<longleftrightarrow> h = h' \<and> n = m"
    and "outcomeName h = outcomeName h' \<longleftrightarrow> h = h'"
    and "attemptName h n \<noteq> endedName h' m" "endedName h' m \<noteq> attemptName h n"
    and "attemptName h n \<noteq> outcomeName h'" "outcomeName h' \<noteq> attemptName h n"
    and "endedName h n \<noteq> outcomeName h'" "outcomeName h' \<noteq> endedName h n"
proof -
  note e = entry_name_eq [OF assms] entry_name_eq [OF assms(2,1)]
  show "attemptName h n = attemptName h' m \<longleftrightarrow> h = h' \<and> n = m"
    unfolding attemptName_def e by (auto simp: nat_text.enc_eq_iff)
  show "endedName h n = endedName h' m \<longleftrightarrow> h = h' \<and> n = m"
    unfolding endedName_def e by (auto simp: nat_text.enc_eq_iff)
  show "outcomeName h = outcomeName h' \<longleftrightarrow> h = h'"
    unfolding outcomeName_def e by auto
  show "attemptName h n \<noteq> endedName h' m" "endedName h' m \<noteq> attemptName h n"
    unfolding attemptName_def endedName_def e using nat_text_dot [of n m] by (auto simp: eq_commute)
  show "attemptName h n \<noteq> outcomeName h'" "outcomeName h' \<noteq> attemptName h n"
    unfolding attemptName_def outcomeName_def e by auto
  show "endedName h n \<noteq> outcomeName h'" "outcomeName h' \<noteq> endedName h n"
    unfolding endedName_def outcomeName_def e by auto
qed

lemma nonce_names [simp]:
  "nonceName k = nonceName k' \<longleftrightarrow> k = k'" "nonceName k \<noteq> attemptName h n" "nonceName k \<noteq> endedName h n" "nonceName k \<noteq> outcomeName h"
  "attemptName h n \<noteq> nonceName k" "endedName h n \<noteq> nonceName k" "outcomeName h \<noteq> nonceName k"
  by (simp_all add: nonceName_def attemptName_def endedName_def outcomeName_def)

section \<open>Directories only grow\<close>

definition extends_dir :: "directory \<Rightarrow> directory \<Rightarrow> bool" where
  "extends_dir d d' \<longleftrightarrow> map_of d \<subseteq>\<^sub>m map_of d'"

definition present :: "directory \<Rightarrow> string \<Rightarrow> bool" where
  "present d name \<longleftrightarrow> map_of d name \<noteq> None"

lemma extends_refl [simp]: "extends_dir d d"
  by (simp add: extends_dir_def)

lemma extends_trans: "extends_dir d d' \<Longrightarrow> extends_dir d' d'' \<Longrightarrow> extends_dir d d''"
  by (auto simp: extends_dir_def intro: map_le_trans)

lemma extends_lookup: "extends_dir d d' \<Longrightarrow> map_of d name = Some f \<Longrightarrow> map_of d' name = Some f"
  by (auto simp: extends_dir_def map_le_def dom_def)

lemma extends_present: "extends_dir d d' \<Longrightarrow> present d name \<Longrightarrow> present d' name"
  by (auto simp: present_def dest: extends_lookup)

lemma publish_cases:
  assumes "publish d name v = Inr (won, d')"
  obtains (won) t where "won" "map_of d name = None" "canonicalize v = Inr t"
      "d' = d @ [(name, Record (length (utf8 t)) v)]"
    | (lost) "\<not> won" "d' = d" "present d name"
  using assms by (auto simp: publish_def present_def bindW_Inr split: option.splits)

lemma publish_extends: "publish d name v = Inr (won, d') \<Longrightarrow> extends_dir d d'"
  by (erule publish_cases) (auto simp: extends_dir_def map_le_def map_add_def split: option.splits)

lemma publish_present: "publish d name v = Inr (won, d') \<Longrightarrow> present d' name"
  by (erule publish_cases) (auto simp: present_def map_add_def split: option.splits)

lemma publish_new:
  assumes "publish d name v = Inr (won, d')" "present d' other" "\<not> present d other"
  shows "other = name \<and> won"
  using assms by (elim publish_cases) (auto simp: present_def map_add_def split: option.splits if_splits)

text \<open>A read that succeeds gives the same in every later directory.\<close>

lemma readRecord_mono: "extends_dir d d' \<Longrightarrow> readRecord d name k = Inr x \<Longrightarrow> readRecord d' name k = Inr x"
  by (cases "map_of d name") (auto simp: readRecord_def dest: extends_lookup split: entry.splits if_splits)

lemma readAttempt_mono: "extends_dir d d' \<Longrightarrow> readAttempt d oid n = Inr a \<Longrightarrow> readAttempt d' oid n = Inr a"
  unfolding readAttempt_def bindW_Inr using readRecord_mono by blast

lemma readEnd_mono: "extends_dir d d' \<Longrightarrow> readEnd g d oid n = Inr e \<Longrightarrow> readEnd g d' oid n = Inr e"
  unfolding readEnd_def bindW_Inr using readRecord_mono by blast

lemma readOutcome_mono: "extends_dir d d' \<Longrightarrow> readOutcome g d oid = Inr x \<Longrightarrow> readOutcome g d' oid = Inr x"
  unfolding readOutcome_def bindW_Inr using readRecord_mono by blast

lemmas read_mono = readAttempt_mono readEnd_mono readOutcome_mono extends_present

lemma read_present:
  "readAttempt d oid n = Inr a \<Longrightarrow> present d (attemptName oid n)"
  "readEnd g d oid n = Inr e \<Longrightarrow> present d (endedName oid n)"
  "readOutcome g d oid = Inr x \<Longrightarrow> present d (outcomeName oid)"
  by (auto simp: readAttempt_def readEnd_def readOutcome_def present_def readRecord_def split: option.splits)

section \<open>The size of a record\<close>

text \<open>Characters that canonical JSON writes as they are, one byte each.\<close>

definition plain :: "string \<Rightarrow> bool" where
  "plain = list_all (\<lambda>c. 32 \<le> code c \<and> code c < 128 \<and> c \<noteq> CHR 0x22 \<and> c \<noteq> CHR 0x5C)"

lemma plain_append [simp]: "plain (s @ t) \<longleftrightarrow> plain s \<and> plain t"
  by (simp add: plain_def)

lemma canonChar_plain: "plain [c] \<Longrightarrow> canonChar c = [c]"
  by (auto simp: plain_def canonChar_def)

lemma canonString_plain: "plain s \<Longrightarrow> canonString s = CHR 0x22 # s @ [CHR 0x22]"
proof -
  assume "plain s"
  then have "concat (map canonChar s) = s"
    by (induction s) (auto simp: plain_def canonChar_plain [unfolded plain_def])
  then show ?thesis by (simp add: canonString_def)
qed

lemma plain_utf8: "plain s \<Longrightarrow> utf8 s = s"
  by (rule utf8_ascii) (auto simp: plain_def list_all_iff)

lemma canonString_length: "plain s \<Longrightarrow> length (utf8 (canonString s)) = length s + 2"
  by (simp add: canonString_plain plain_utf8 utf8_append utf8_char_def)

lemma hash_plain [simp]: "is_hash h \<Longrightarrow> plain h"
  by (auto simp: is_hash_def is_hex_lower_def is_digit_def plain_def list_all_iff)

lemma base64url_plain: "plain (base64url_encode b)"
proof -
  have "is_base64url_char c \<Longrightarrow> 32 \<le> code c \<and> code c < 128 \<and> c \<noteq> CHR 0x22 \<and> c \<noteq> CHR 0x5C" for c
    by (auto simp: is_base64url_char_def is_upper_def is_lower_def is_digit_def)
  then show ?thesis using base64url_encode_alphabet [of b] by (auto simp: plain_def list_all_iff)
qed

lemma nat_text_plain: "plain (nat_text n)"
  using nat_text_digits [of n] by (auto simp: plain_def is_digit_def list_all_iff)

lemma base64url_length: "length (base64url_encode b) \<le> 2 * length b"
  by (induction b rule: base64url_encode.induct) auto

lemma canonNumber_length:
  assumes "canonNumber (JInt i) = Inr t" "0 \<le> i"
  shows "length (utf8 t) \<le> 16"
proof -
  have "t = nat_text (nat i)" "nat i < 10 ^ 16"
    using assms by (auto simp: canonNumber_def ensure_Inr int_text_nonneg isSafeInteger_def max_safe_def)
  then show ?thesis using nat_text_length [of "nat i" 16] by (simp add: plain_utf8 nat_text_plain)
qed

lemmas canon_obj = canonValue_simps sorted_entries_def bindR_Inr ensure_Inr

lemma toStored_size:
  assumes "canonValue k (toStored out) = Inr t" "isOutcome g out"
  shows "length (utf8 t) \<le> 2 * maxResponseBodyBytes + 60"
proof -
  have len: "length (base64url_encode (utf8 (wo_text out))) \<le> 2 * maxResponseBodyBytes"
    using base64url_length [of "utf8 (wo_text out)"] assms(2) by (simp add: isOutcome_def)
  obtain st where st: "canonNumber (JInt (wo_status out)) = Inr st"
    "t = CHR ''{'' # (canonString ''status'' @ CHR '':'' # st) @ CHR '','' # (canonString ''textBytes'' @ CHR '':'' # canonString (base64url_encode (utf8 (wo_text out)))) @ ''}''"
    using assms(1) by (auto simp: toStored_def jint_def canon_obj)
  have "length (utf8 st) \<le> 16" using canonNumber_length [OF st(1)] assms(2) by (simp add: isOutcome_def)
  moreover have "plain ''status''" "plain ''textBytes''" by (simp_all add: plain_def)
  ultimately show ?thesis using len
    by (simp add: st(2) utf8_append canonString_length base64url_plain utf8_char_def)
qed

lemma attempt_size:
  assumes "canonicalize (attempt_json oid n a) = Inr t" "is_hash oid" "is_hash (at_requestHash a)" "is_hash (at_binding a)"
    "0 \<le> at_leaseUntil a" "0 \<le> at_superseded a"
  shows "length (utf8 t) \<le> SMALL_FILE_BYTES" "isSafeInteger (at_leaseUntil a)" "isSafeInteger (at_superseded a)" "isSafeInteger (int n)"
proof -
  obtain x y z where x: "canonNumber (JInt (int n)) = Inr x" "canonNumber (JInt (at_leaseUntil a)) = Inr y"
    "canonNumber (JInt (at_superseded a)) = Inr z"
    "t = CHR ''{'' # (canonString ''attempt'' @ CHR '':'' # x) @ CHR '','' # (canonString ''binding'' @ CHR '':'' # canonString (at_binding a)) @
      CHR '','' # (canonString ''leaseUntil'' @ CHR '':'' # y) @ CHR '','' # (canonString ''operationId'' @ CHR '':'' # canonString oid) @
      CHR '','' # (canonString ''requestHash'' @ CHR '':'' # canonString (at_requestHash a)) @
      CHR '','' # (canonString ''superseded'' @ CHR '':'' # z) @ ''}''"
    using assms(1) by (auto simp: canonicalize_def attempt_json_def jint_def jnat_def canon_obj)
  have "length (utf8 x) \<le> 16" "length (utf8 y) \<le> 16" "length (utf8 z) \<le> 16"
    using canonNumber_length x(1-3) assms(5,6) by auto
  moreover have "plain ''attempt''" "plain ''binding''" "plain ''leaseUntil''" "plain ''operationId''" "plain ''requestHash''" "plain ''superseded''"
    by (simp_all add: plain_def)
  ultimately show "length (utf8 t) \<le> SMALL_FILE_BYTES"
    using assms(2-4) by (simp add: x(4) utf8_append canonString_length utf8_char_def hash_length SMALL_FILE_BYTES_def)
  show "isSafeInteger (at_leaseUntil a)" "isSafeInteger (at_superseded a)" "isSafeInteger (int n)"
    using x(1-3) by (auto simp: canonNumber_def ensure_Inr)
qed

lemma end_size:
  assumes "canonicalize (endRecord oid n e) = Inr t" "is_hash oid" "\<And>out. ae_outcome e = Some out \<Longrightarrow> isOutcome g out"
  shows "length (utf8 t) \<le> OUTCOME_FILE_BYTES"
proof -
  obtain x y where x: "canonNumber (JInt (int n)) = Inr x"
    "canonValue 1 (case ae_outcome e of None \<Rightarrow> JNull | Some out \<Rightarrow> toStored out) = Inr y"
    "t = CHR ''{'' # (canonString ''attempt'' @ CHR '':'' # x) @ CHR '','' # (canonString ''operationId'' @ CHR '':'' # canonString oid) @
      CHR '','' # (canonString ''outcome'' @ CHR '':'' # y) @
      CHR '','' # (canonString ''superseded'' @ CHR '':'' # (if ae_superseded e then ''true'' else ''false'')) @ ''}''"
    using assms(1) by (cases "ae_outcome e") (auto simp: canonicalize_def endRecord_def jnat_def toStored_def canon_obj)
  have "length (utf8 y) \<le> 2 * maxResponseBodyBytes + 60"
    using x(2) toStored_size [of 1 _ y] assms(3) by (cases "ae_outcome e") (auto simp: utf8_char_def)
  moreover have "length (utf8 x) \<le> 16" using canonNumber_length x(1) by simp
  moreover have "plain ''attempt''" "plain ''operationId''" "plain ''outcome''" "plain ''superseded''" by (simp_all add: plain_def)
  ultimately show ?thesis
    using assms(2) by (simp add: x(3) utf8_append canonString_length utf8_char_def hash_length OUTCOME_FILE_BYTES_def SMALL_FILE_BYTES_def)
qed

lemma outcome_size:
  assumes "canonicalize (outcome_json oid n out) = Inr t" "is_hash oid" "isOutcome g out"
  shows "length (utf8 t) \<le> OUTCOME_FILE_BYTES"
proof -
  obtain x y where x: "canonNumber (JInt (int n)) = Inr x" "canonValue 1 (toStored out) = Inr y"
    "t = CHR ''{'' # (canonString ''attempt'' @ CHR '':'' # x) @ CHR '','' # (canonString ''operationId'' @ CHR '':'' # canonString oid) @
      CHR '','' # (canonString ''outcome'' @ CHR '':'' # y) @ ''}''"
    using assms(1) by (auto simp: canonicalize_def outcome_json_def jnat_def toStored_def canon_obj)
  have "length (utf8 y) \<le> 2 * maxResponseBodyBytes + 60" using toStored_size [OF x(2) assms(3)] .
  moreover have "length (utf8 x) \<le> 16" using canonNumber_length x(1) by simp
  moreover have "plain ''attempt''" "plain ''operationId''" "plain ''outcome''" by (simp_all add: plain_def)
  ultimately show ?thesis
    using assms(2) by (simp add: x(3) utf8_append canonString_length utf8_char_def hash_length OUTCOME_FILE_BYTES_def SMALL_FILE_BYTES_def)
qed

lemma nonce_size:
  assumes "canonicalize (nonce_json k oid b r) = Inr t" "is_hash k" "is_hash oid" "is_hash b" "is_hash r"
  shows "length (utf8 t) \<le> SMALL_FILE_BYTES"
proof -
  have t: "t = CHR ''{'' # (canonString ''binding'' @ CHR '':'' # canonString b) @ CHR '','' # (canonString ''key'' @ CHR '':'' # canonString k) @
      CHR '','' # (canonString ''operationId'' @ CHR '':'' # canonString oid) @ CHR '','' # (canonString ''requestHash'' @ CHR '':'' # canonString r) @ ''}''"
    using assms(1) by (auto simp: canonicalize_def nonce_json_def canon_obj)
  moreover have "plain ''binding''" "plain ''key''" "plain ''operationId''" "plain ''requestHash''" by (simp_all add: plain_def)
  ultimately show ?thesis
    using assms(2-5) by (simp add: t utf8_append canonString_length utf8_char_def hash_length SMALL_FILE_BYTES_def)
qed

section \<open>What is published reads back\<close>

lemma isUint_jint: "isUint (jint i) \<longleftrightarrow> 0 \<le> i \<and> isSafeInteger i"
  by (auto simp: isUint_def jint_def)

lemma fromStored_toStored: "isOutcome g out \<Longrightarrow> fromStored g (toStored out) = Some out"
  by (auto simp: fromStored_def toStored_def hasKeys_def obj_where_def has_own_def member_of_def str_where_def Let_def
      base64url_encode_alphabet base64url_decode_encode utf8_decode_utf8 isUint_jint isOutcome_def)
    (simp_all add: jint_def)

lemmas read_json = hasKeys_def obj_where_def has_own_def member_of_def str_where_def isHash_def

lemma attempt_published:
  assumes "publish d (attemptName oid n) (attempt_json oid n a) = Inr (True, d')" "is_hash oid" "is_hash (at_requestHash a)"
    "is_hash (at_binding a)" "0 \<le> at_leaseUntil a" "0 \<le> at_superseded a" "at_superseded a \<le> int n" "at_superseded a < MAX_EFFECT_ATTEMPTS"
  shows "readAttempt d' oid n = Inr a"
  using assms(1)
proof (cases rule: publish_cases)
  case (won t)
  note z = attempt_size [OF won(3) assms(2-6)]
  have "map_of d' (attemptName oid n) = Some (Record (length (utf8 t)) (attempt_json oid n a))"
    using won by (simp add: map_add_def)
  then have r: "readRecord d' (attemptName oid n) SMALL_FILE_BYTES = Inr (Some
     [(''operationId'', JStr oid), (''attempt'', jnat n), (''requestHash'', JStr (at_requestHash a)),
      (''leaseUntil'', jint (at_leaseUntil a)), (''binding'', JStr (at_binding a)), (''superseded'', jint (at_superseded a))])"
    using z(1) by (simp add: readRecord_def attempt_json_def)
  show ?thesis
    using assms(3-8) z(2,3) by (simp add: readAttempt_def r read_json ATTEMPT_def isUint_jint) (simp add: jint_def)
qed simp

lemma end_published:
  assumes "publish d (endedName oid n) (endRecord oid n e) = Inr (True, d')" "is_hash oid"
    "\<And>out. ae_outcome e = Some out \<Longrightarrow> isOutcome g out" "ae_superseded e \<Longrightarrow> ae_outcome e = None"
  shows "readEnd g d' oid n = Inr e"
  using assms(1)
proof (cases rule: publish_cases)
  case (won t)
  have "length (utf8 t) \<le> OUTCOME_FILE_BYTES" using end_size [OF won(3) assms(2,3)] .
  moreover have "map_of d' (endedName oid n) = Some (Record (length (utf8 t)) (endRecord oid n e))"
    using won by (simp add: map_add_def)
  ultimately have r: "readRecord d' (endedName oid n) OUTCOME_FILE_BYTES = Inr (Some
     [(''operationId'', JStr oid), (''attempt'', jnat n), (''superseded'', JBool (ae_superseded e)),
      (''outcome'', case ae_outcome e of None \<Rightarrow> JNull | Some out \<Rightarrow> toStored out)])"
    by (simp add: readRecord_def endRecord_def)
  show ?thesis
  proof (cases "ae_outcome e")
    case None
    then show ?thesis by (simp add: readEnd_def r read_json END_def)
  next
    case (Some out)
    then have "fromStored g (toStored out) = Some out" "\<not> ae_superseded e"
      using assms(3,4) by (auto intro: fromStored_toStored)
    moreover have "toStored out \<noteq> JNull" by (simp add: toStored_def)
    ultimately show ?thesis using Some by (simp add: readEnd_def r read_json END_def)
  qed
qed simp

lemma outcome_published:
  assumes "publish d (outcomeName oid) (outcome_json oid n out) = Inr (True, d')" "is_hash oid" "isOutcome g out"
  shows "readOutcome g d' oid = Inr out"
  using assms(1)
proof (cases rule: publish_cases)
  case (won t)
  have "length (utf8 t) \<le> OUTCOME_FILE_BYTES" using outcome_size [OF won(3) assms(2,3)] .
  moreover have "map_of d' (outcomeName oid) = Some (Record (length (utf8 t)) (outcome_json oid n out))"
    using won by (simp add: map_add_def)
  ultimately have r: "readRecord d' (outcomeName oid) OUTCOME_FILE_BYTES = Inr (Some
     [(''operationId'', JStr oid), (''attempt'', jnat n), (''outcome'', toStored out)])"
    by (simp add: readRecord_def outcome_json_def)
  show ?thesis using fromStored_toStored [OF assms(3)] by (simp add: readOutcome_def r read_json)
qed simp

end
