(* ===== verification/Dacs_Shared.thy ===== *)
theory Dacs_Shared
  imports Dacs_Prelude
begin

text \<open>
  Workers that share a memory: any number of workers are started at any time, and each takes atomic
  steps of its own program in any order. A proof about one worker at a time is enough when what a
  worker knows of the memory stays true whatever the others do.
\<close>

inductive interleaved ::
  "('d \<Rightarrow> 'w \<Rightarrow> 'w \<Rightarrow> 'd \<Rightarrow> bool) \<Rightarrow> ('d \<Rightarrow> (nat \<rightharpoonup> 'w) \<Rightarrow> 'w \<Rightarrow> bool) \<Rightarrow>
   'd \<times> (nat \<rightharpoonup> 'w) \<Rightarrow> 'd \<times> (nat \<rightharpoonup> 'w) \<Rightarrow> bool" for step start where
  started: "start d ws w \<Longrightarrow> ws i = None \<Longrightarrow> interleaved step start (d, ws) (d, ws(i \<mapsto> w))"
| stepped: "ws i = Some w \<Longrightarrow> step d w w' d' \<Longrightarrow> interleaved step start (d, ws) (d', ws(i \<mapsto> w'))"

inductive_cases interleavedE: "interleaved step start s t"

text \<open>
  The contract of one worker's program: it keeps the memory in order, its steps only grow the
  memory, and its knowledge is stable under growth.
\<close>

locale shared_memory =
  fixes step :: "'d \<Rightarrow> 'w \<Rightarrow> 'w \<Rightarrow> 'd \<Rightarrow> bool" and start :: "'d \<Rightarrow> (nat \<rightharpoonup> 'w) \<Rightarrow> 'w \<Rightarrow> bool"
    and grow :: "'d \<Rightarrow> 'd \<Rightarrow> bool" and in_order :: "'d \<Rightarrow> bool" and knows :: "'d \<Rightarrow> 'w \<Rightarrow> bool"
  assumes own_step: "in_order d \<Longrightarrow> knows d w \<Longrightarrow> step d w w' d' \<Longrightarrow> in_order d' \<and> knows d' w' \<and> grow d d'"
    and stable: "grow d d' \<Longrightarrow> knows d w \<Longrightarrow> knows d' w"
    and start_knows: "in_order d \<Longrightarrow> (\<And>i v. ws i = Some v \<Longrightarrow> knows d v) \<Longrightarrow> start d ws w \<Longrightarrow> knows d w"
    and grow_refl: "grow d d"
    and grow_trans: "grow d d' \<Longrightarrow> grow d' d'' \<Longrightarrow> grow d d''"
begin

definition all_know :: "'d \<times> (nat \<rightharpoonup> 'w) \<Rightarrow> bool" where
  "all_know s \<longleftrightarrow> in_order (fst s) \<and> (\<forall>i w. snd s i = Some w \<longrightarrow> knows (fst s) w)"

lemma interleaved_grows: "all_know s \<Longrightarrow> interleaved step start s t \<Longrightarrow> all_know t \<and> grow (fst s) (fst t)"
proof (elim interleavedE)
  fix d ws w i
  assume "all_know s" "s = (d, ws)" "t = (d, ws(i \<mapsto> w))" "start d ws w"
  then show ?thesis using start_knows [of d ws w] by (auto simp: all_know_def grow_refl)
next
  fix ws i w d w' d'
  assume s: "all_know s" "s = (d, ws)" "t = (d', ws(i \<mapsto> w'))" "ws i = Some w" "step d w w' d'"
  then have "in_order d" "knows d w" by (simp_all add: all_know_def)
  then have "in_order d' \<and> knows d' w' \<and> grow d d'" using s(5) own_step by blast
  then show ?thesis using s stable [of d d'] by (auto simp: all_know_def)
qed

lemma memory_run_grows: "(interleaved step start)\<^sup>*\<^sup>* s t \<Longrightarrow> all_know s \<Longrightarrow> all_know t \<and> grow (fst s) (fst t)"
  by (induction rule: rtranclp_induct) (auto simp: grow_refl dest: interleaved_grows intro: grow_trans)

lemma no_worker_knows: "in_order d \<Longrightarrow> all_know (d, Map.empty)"
  by (simp add: all_know_def)

end

text \<open>
  Resources that a worker takes by a step of its own, and that show in the memory once taken: no
  two workers ever hold the same one.
\<close>

locale exclusive_memory = shared_memory step start grow in_order knows
  for step :: "'d \<Rightarrow> 'w \<Rightarrow> 'w \<Rightarrow> 'd \<Rightarrow> bool" and start :: "'d \<Rightarrow> (nat \<rightharpoonup> 'w) \<Rightarrow> 'w \<Rightarrow> bool"
    and grow :: "'d \<Rightarrow> 'd \<Rightarrow> bool" and in_order :: "'d \<Rightarrow> bool" and knows :: "'d \<Rightarrow> 'w \<Rightarrow> bool" +
  fixes held :: "'w \<Rightarrow> 'r set" and taken :: "'d \<Rightarrow> 'r \<Rightarrow> bool"
  assumes held_taken: "knows d w \<Longrightarrow> r \<in> held w \<Longrightarrow> taken d r"
    and take_free: "in_order d \<Longrightarrow> knows d w \<Longrightarrow> step d w w' d' \<Longrightarrow> r \<in> held w' \<Longrightarrow> r \<in> held w \<or> \<not> taken d r"
    and start_free: "start d ws w \<Longrightarrow> held w = {}"
begin

definition exclusive :: "'d \<times> (nat \<rightharpoonup> 'w) \<Rightarrow> bool" where
  "exclusive s \<longleftrightarrow> (\<forall>i j v w. snd s i = Some v \<longrightarrow> snd s j = Some w \<longrightarrow> i \<noteq> j \<longrightarrow> held v \<inter> held w = {})"

lemma exclusive_step: "all_know s \<Longrightarrow> exclusive s \<Longrightarrow> interleaved step start s t \<Longrightarrow> exclusive t"
proof (elim interleavedE)
  fix d ws w i
  assume "exclusive s" "s = (d, ws)" "t = (d, ws(i \<mapsto> w))" "start d ws w"
  then show "exclusive t" using start_free [of d ws w] by (auto simp: exclusive_def)
next
  fix ws i w d w' d'
  assume s: "all_know s" "exclusive s" "s = (d, ws)" "t = (d', ws(i \<mapsto> w'))" "ws i = Some w" "step d w w' d'"
  have free: "r \<in> held w' \<Longrightarrow> r \<in> held w \<or> \<not> taken d r" for r
    using s take_free [of d w w' d' r] by (auto simp: all_know_def)
  have disjoint: "held w' \<inter> held v = {}" if v: "ws j = Some v" "j \<noteq> i" for j v
  proof -
    have "r \<notin> held v" if "r \<in> held w'" for r
    proof
      assume r: "r \<in> held v"
      then have "taken d r" using s v held_taken [of d v r] by (auto simp: all_know_def)
      then have "r \<in> held w" using free that by blast
      moreover have "held w \<inter> held v = {}" using s(2,3,5) v unfolding exclusive_def by auto
      ultimately show False using r by blast
    qed
    then show ?thesis by blast
  qed
  show "exclusive t"
    unfolding exclusive_def
  proof (intro allI impI)
    fix j k v u
    assume "snd t j = Some v" "snd t k = Some u" "j \<noteq> k"
    then show "held v \<inter> held u = {}"
      using s(2,3,4) disjoint [of j v] disjoint [of k u] by (auto simp: exclusive_def split: if_splits)
  qed
qed

lemma run_exclusive:
  assumes "(interleaved step start)\<^sup>*\<^sup>* (d, Map.empty) t" "in_order d"
  shows "all_know t \<and> exclusive t"
  using assms(1)
proof (induction rule: rtranclp_induct)
  case base
  then show ?case using assms(2) by (simp add: all_know_def exclusive_def)
next
  case (step t u)
  then show ?case using interleaved_grows exclusive_step by blast
qed

end

end
