(* ===== verification/Dacs_Journal_Safety.thy ===== *)
theory Dacs_Journal_Safety
  imports Dacs_Journal_Records Dacs_Shared
begin

text \<open>
  The journal under any interleaving of the workers that share it. \<open>journal_ok\<close> is the order of the
  directory: attempts are contiguous, each but the first follows the end of its predecessor
  without an outcome, and an outcome is the one an end recorded. \<open>knows\<close> is what a worker has learnt of
  the directory at each point of its program; files do not change, so it stays true. Both are
  the two halves of the contract \<open>shared_memory\<close>; the attempts and nonces a worker won are the
  resources of \<open>exclusive_memory\<close>.
\<close>

section \<open>The system\<close>

datatype journal_worker =
    Reserving string reservation reserve_pc
  | Completing string nat "wire_outcome option" complete_pc

inductive worker_step :: "(string \<Rightarrow> bool) \<Rightarrow> int \<Rightarrow> directory \<Rightarrow> journal_worker \<Rightarrow> journal_worker \<Rightarrow> directory \<Rightarrow> bool"
  for signable leaseMs where
  reserves: "valid_lease leaseMs \<Longrightarrow> reserve_step signable leaseMs oid r t d pc = (pc', d') \<Longrightarrow>
    worker_step signable leaseMs d (Reserving oid r pc) (Reserving oid r pc') d'"
| completes: "complete_step signable oid n owned d pc = (pc', d') \<Longrightarrow>
    worker_step signable leaseMs d (Completing oid n owned pc) (Completing oid n owned pc') d'"

fun effect_attempt :: "wire_effect \<Rightarrow> (string \<times> nat) option" where
  "effect_attempt (New_Effect oid n _) = Some (oid, n)"
| "effect_attempt (Recover_Effect oid n _) = Some (oid, n)"
| "effect_attempt (Completed_Effect _ _) = None"

text \<open>
  A request is reserved at any time (its operation is a SHA-256 text); an effect that was issued is completed any number
  of times, with any outcome.
\<close>

inductive worker_start :: "(string \<Rightarrow> string) \<Rightarrow> directory \<Rightarrow> (nat \<rightharpoonup> journal_worker) \<Rightarrow> journal_worker \<Rightarrow> bool" for sha256 where
  request: "enter_reserve sha256 r = Inr oid \<Longrightarrow> is_hash oid \<Longrightarrow> worker_start sha256 d ws (Reserving oid r Publishing_Key)"
| complete: "ws i = Some (Reserving oid r (Reserved eff)) \<Longrightarrow> effect_attempt eff = Some (oid, n) \<Longrightarrow>
    worker_start sha256 d ws (Completing oid n owned Ending)"

definition journal_step ::
  "(string \<Rightarrow> string) \<Rightarrow> (string \<Rightarrow> bool) \<Rightarrow> int \<Rightarrow> directory \<times> (nat \<rightharpoonup> journal_worker) \<Rightarrow> directory \<times> (nat \<rightharpoonup> journal_worker) \<Rightarrow> bool" where
  "journal_step sha256 signable leaseMs = interleaved (worker_step signable leaseMs) (worker_start sha256)"

section \<open>The directory in order\<close>

definition follows :: "(string \<Rightarrow> bool) \<Rightarrow> directory \<Rightarrow> string \<Rightarrow> nat \<Rightarrow> int \<Rightarrow> bool" where
  "follows g d oid n superseded \<longleftrightarrow>
     (case n of
        0 \<Rightarrow> superseded = 0
      | Suc m \<Rightarrow> \<exists>a e. readAttempt d oid m = Inr a \<and> readEnd g d oid m = Inr e \<and> ae_outcome e = None \<and>
                       superseded = spent (at_superseded a) (ae_superseded e))"

definition bound_to :: "directory \<Rightarrow> string \<Rightarrow> string \<Rightarrow> bool" where
  "bound_to d oid b \<longleftrightarrow> (\<exists>a. readAttempt d oid 0 = Inr a \<and> at_binding a = b)"

definition attempt_ok :: "(string \<Rightarrow> bool) \<Rightarrow> directory \<Rightarrow> string \<Rightarrow> nat \<Rightarrow> bool" where
  "attempt_ok g d oid n \<longleftrightarrow>
     (\<exists>a. readAttempt d oid n = Inr a \<and> bound_to d oid (at_binding a) \<and> follows g d oid n (at_superseded a))"

definition end_ok :: "(string \<Rightarrow> bool) \<Rightarrow> directory \<Rightarrow> string \<Rightarrow> nat \<Rightarrow> bool" where
  "end_ok g d oid n \<longleftrightarrow> present d (attemptName oid n) \<and> (\<exists>e. readEnd g d oid n = Inr e)"

definition outcome_ok :: "(string \<Rightarrow> bool) \<Rightarrow> directory \<Rightarrow> string \<Rightarrow> bool" where
  "outcome_ok g d oid \<longleftrightarrow>
     (\<exists>out n e. readOutcome g d oid = Inr out \<and> readEnd g d oid n = Inr e \<and> ae_outcome e = Some out)"

definition all_records :: "directory \<Rightarrow> bool" where
  "all_records d \<longleftrightarrow> (\<forall>name f. map_of d name = Some f \<longrightarrow> (\<exists>k v. f = Record k v))"

definition journal_ok :: "(string \<Rightarrow> bool) \<Rightarrow> directory \<Rightarrow> bool" where
  "journal_ok g d \<longleftrightarrow> all_records d \<and>
     (\<forall>oid. is_hash oid \<longrightarrow>
        (\<forall>n. present d (attemptName oid n) \<longrightarrow> attempt_ok g d oid n) \<and>
        (\<forall>n. present d (endedName oid n) \<longrightarrow> end_ok g d oid n) \<and>
        (present d (outcomeName oid) \<longrightarrow> outcome_ok g d oid))"

lemma follows_mono: "extends_dir d d' \<Longrightarrow> follows g d oid n s \<Longrightarrow> follows g d' oid n s"
  by (cases n) (auto simp: follows_def intro: read_mono)

lemma bound_to_mono: "extends_dir d d' \<Longrightarrow> bound_to d oid b \<Longrightarrow> bound_to d' oid b"
  by (auto simp: bound_to_def intro: read_mono)

lemma ok_mono:
  assumes "extends_dir d d'"
  shows "attempt_ok g d oid n \<Longrightarrow> attempt_ok g d' oid n" "end_ok g d oid n \<Longrightarrow> end_ok g d' oid n"
    "outcome_ok g d oid \<Longrightarrow> outcome_ok g d' oid"
  using assms by (auto simp: attempt_ok_def end_ok_def outcome_ok_def intro: read_mono bound_to_mono follows_mono)

text \<open>To publish a record it is enough that the clause of its own name holds afterwards.\<close>

lemma journal_ok_publish:
  assumes "journal_ok g d" "publish d name v = Inr (won, d')"
    and "\<And>oid n. won \<Longrightarrow> is_hash oid \<Longrightarrow> name = attemptName oid n \<Longrightarrow> attempt_ok g d' oid n"
    and "\<And>oid n. won \<Longrightarrow> is_hash oid \<Longrightarrow> name = endedName oid n \<Longrightarrow> end_ok g d' oid n"
    and "\<And>oid. won \<Longrightarrow> is_hash oid \<Longrightarrow> name = outcomeName oid \<Longrightarrow> outcome_ok g d' oid"
  shows "journal_ok g d'"
proof -
  note x = publish_extends [OF assms(2)]
  have "all_records d'"
    using assms(1,2) by (elim publish_cases) (auto simp: journal_ok_def all_records_def map_add_def split: option.splits if_splits)
  moreover have "attempt_ok g d' oid n" if "is_hash oid" "present d' (attemptName oid n)" for oid n
  proof (cases "present d (attemptName oid n)")
    case True
    then show ?thesis using assms(1) that(1) by (intro ok_mono(1) [OF x]) (simp add: journal_ok_def)
  next
    case False
    then show ?thesis using publish_new [OF assms(2) that(2)] assms(3) that(1) by blast
  qed
  moreover have "end_ok g d' oid n" if "is_hash oid" "present d' (endedName oid n)" for oid n
  proof (cases "present d (endedName oid n)")
    case True
    then show ?thesis using assms(1) that(1) by (intro ok_mono(2) [OF x]) (simp add: journal_ok_def)
  next
    case False
    then show ?thesis using publish_new [OF assms(2) that(2)] assms(4) that(1) by blast
  qed
  moreover have "outcome_ok g d' oid" if "is_hash oid" "present d' (outcomeName oid)" for oid
  proof (cases "present d (outcomeName oid)")
    case True
    then show ?thesis using assms(1) that(1) by (intro ok_mono(3) [OF x]) (simp add: journal_ok_def)
  next
    case False
    then show ?thesis using publish_new [OF assms(2) that(2)] assms(5) that(1) by blast
  qed
  ultimately show ?thesis by (simp add: journal_ok_def)
qed

lemma ok_exists: "journal_ok g d \<Longrightarrow> exists_entry d name = Inr (present d name)"
  by (auto simp: journal_ok_def all_records_def exists_entry_def present_def split: option.splits entry.splits)

lemma ok_reads:
  assumes "journal_ok g d" "is_hash oid"
  shows "present d (attemptName oid n) \<Longrightarrow> \<exists>a. readAttempt d oid n = Inr a \<and> bound_to d oid (at_binding a) \<and> follows g d oid n (at_superseded a)"
    and "present d (endedName oid n) \<Longrightarrow> \<exists>e. readEnd g d oid n = Inr e"
    and "present d (outcomeName oid) \<Longrightarrow> \<exists>out n e. readOutcome g d oid = Inr out \<and> readEnd g d oid n = Inr e \<and> ae_outcome e = Some out"
  using assms by (auto simp: journal_ok_def attempt_ok_def end_ok_def outcome_ok_def)

lemma readAttempt_valid:
  assumes "readAttempt d oid n = Inr a"
  shows "0 \<le> at_superseded a" "at_superseded a \<le> int n" "at_superseded a < MAX_EFFECT_ATTEMPTS" "is_hash (at_binding a)"
proof -
  have "isUint v \<Longrightarrow> 0 \<le> int_of v" for v by (cases v rule: int_of.cases) (auto simp: isUint_def)
  moreover have "isHash v \<Longrightarrow> is_hash (str_of v)" for v by (cases v) (auto simp: isHash_def str_where_def)
  ultimately show "0 \<le> at_superseded a" "at_superseded a \<le> int n" "at_superseded a < MAX_EFFECT_ATTEMPTS" "is_hash (at_binding a)"
    using assms by (auto simp: readAttempt_def bindW_Inr corrupt_def split: option.splits if_splits)
qed

lemma readEnd_valid:
  assumes "readEnd g d oid n = Inr e"
  shows "ae_superseded e \<Longrightarrow> ae_outcome e = None" "ae_outcome e = Some out \<Longrightarrow> isOutcome g out"
proof -
  have "fromStored g v = Some x \<Longrightarrow> isOutcome g x" for v x
    by (auto simp: fromStored_def Let_def split: json.splits if_splits option.splits)
  moreover obtain rc where rc: "readRecord d (endedName oid n) OUTCOME_FILE_BYTES = Inr rc"
    using assms by (auto simp: readEnd_def bindW_Inr)
  moreover obtain r where r: "rc = Some r" using assms rc by (cases rc) (auto simp: readEnd_def corrupt_def)
  moreover obtain b where "member_of r ''superseded'' = JBool b"
    using assms rc r by (cases "member_of r ''superseded''") (auto simp: readEnd_def corrupt_def)
  ultimately show "ae_superseded e \<Longrightarrow> ae_outcome e = None" "ae_outcome e = Some out \<Longrightarrow> isOutcome g out"
    using assms by (auto simp: readEnd_def corrupt_def split: option.splits if_splits)
qed

section \<open>What a worker knows\<close>

text \<open>The search has found the attempt at its lower end, which lies below its bound.\<close>

fun search_ok :: "directory \<Rightarrow> string \<Rightarrow> search \<Rightarrow> bool" where
  "search_ok d oid (Doubling n u) \<longleftrightarrow> present d (attemptName oid n) \<and> n < u \<and> u \<le> MAX_SAFE"
| "search_ok d oid (Bisecting n u) \<longleftrightarrow> present d (attemptName oid n) \<and> n < u \<and> u \<le> MAX_SAFE"

definition latest_at :: "directory \<Rightarrow> string \<Rightarrow> int \<Rightarrow> nat \<Rightarrow> bool" where
  "latest_at d oid t n \<longleftrightarrow> 0 \<le> t \<and> 0 < n \<and> present d (attemptName oid (n - 1))"

definition latest_spent :: "directory \<Rightarrow> string \<Rightarrow> nat \<Rightarrow> int \<Rightarrow> bool" where
  "latest_spent d oid n s \<longleftrightarrow> (\<exists>a. readAttempt d oid (n - 1) = Inr a \<and> at_superseded a = s)"

definition issued_ok :: "(string \<Rightarrow> bool) \<Rightarrow> directory \<Rightarrow> string \<Rightarrow> string \<Rightarrow> wire_effect \<Rightarrow> bool" where
  "issued_ok g d oid b eff \<longleftrightarrow>
     (case eff of
        New_Effect o' n l \<Rightarrow> o' = oid \<and> n = 0 \<and> bound_to d oid b \<and> (\<exists>a. readAttempt d oid 0 = Inr a \<and> at_leaseUntil a = l)
      | Recover_Effect o' n l \<Rightarrow> o' = oid \<and> 0 < n \<and> bound_to d oid b \<and> (\<exists>a. readAttempt d oid n = Inr a \<and> at_leaseUntil a = l)
      | Completed_Effect o' out \<Rightarrow> o' = oid \<and> bound_to d oid b \<and> readOutcome g d oid = Inr out)"

text \<open>A worker meets an unreadable store only at the largest attempt number there is.\<close>

definition refusal_ok :: "directory \<Rightarrow> string \<Rightarrow> wire_error \<Rightarrow> bool" where
  "refusal_ok d oid e \<longleftrightarrow>
     (\<forall>status detail. e = Wire_Error ''seller_replay_guard_invalid'' status detail \<longrightarrow> present d (attemptName oid MAX_SAFE))"

fun knows_reserve :: "(string \<Rightarrow> bool) \<Rightarrow> directory \<Rightarrow> string \<Rightarrow> string \<Rightarrow> reserve_pc \<Rightarrow> bool" where
  "knows_reserve g d oid b Publishing_Key \<longleftrightarrow> True"
| "knows_reserve g d oid b Checking_Outcome \<longleftrightarrow> True"
| "knows_reserve g d oid b Reading_Outcome \<longleftrightarrow> present d (outcomeName oid)"
| "knows_reserve g d oid b (Asserting_Completed out) \<longleftrightarrow> readOutcome g d oid = Inr out"
| "knows_reserve g d oid b (Counting_First t) \<longleftrightarrow> 0 \<le> t"
| "knows_reserve g d oid b (Counting t s) \<longleftrightarrow> 0 \<le> t \<and> search_ok d oid s"
| "knows_reserve g d oid b (Publishing_First t) \<longleftrightarrow> 0 \<le> t"
| "knows_reserve g d oid b Lost_First \<longleftrightarrow> present d (attemptName oid 0)"
| "knows_reserve g d oid b (Asserting_Binding t n) \<longleftrightarrow> latest_at d oid t n"
| "knows_reserve g d oid b (Checking_Again t n) \<longleftrightarrow> latest_at d oid t n \<and> bound_to d oid b"
| "knows_reserve g d oid b (Reading_Latest t n) \<longleftrightarrow> latest_at d oid t n \<and> bound_to d oid b"
| "knows_reserve g d oid b (Checking_End t n l s) \<longleftrightarrow> latest_at d oid t n \<and> bound_to d oid b \<and> latest_spent d oid n s"
| "knows_reserve g d oid b (Superseding t n s) \<longleftrightarrow> latest_at d oid t n \<and> bound_to d oid b \<and> latest_spent d oid n s"
| "knows_reserve g d oid b (Reading_End t n s) \<longleftrightarrow> latest_at d oid t n \<and> bound_to d oid b \<and> latest_spent d oid n s \<and>
     present d (endedName oid (n - 1))"
| "knows_reserve g d oid b (Publishing_Outcome n out) \<longleftrightarrow> (\<exists>e. readEnd g d oid n = Inr e \<and> ae_outcome e = Some out)"
| "knows_reserve g d oid b (Comparing_Outcome out) \<longleftrightarrow> present d (outcomeName oid)"
| "knows_reserve g d oid b (Publishing_Next t n s) \<longleftrightarrow> 0 \<le> t \<and> 0 < n \<and> bound_to d oid b \<and> follows g d oid n s \<and> s < MAX_EFFECT_ATTEMPTS"
| "knows_reserve g d oid b (Issuing eff) \<longleftrightarrow> issued_ok g d oid b eff"
| "knows_reserve g d oid b (Reserved eff) \<longleftrightarrow> issued_ok g d oid b eff"
| "knows_reserve g d oid b (Reserve_Refused e) \<longleftrightarrow> refusal_ok d oid e"

definition recorded :: "(string \<Rightarrow> bool) \<Rightarrow> directory \<Rightarrow> string \<Rightarrow> nat \<Rightarrow> wire_outcome option \<Rightarrow> bool" where
  "recorded g d oid n owned \<longleftrightarrow> readEnd g d oid n = Inr \<lparr>ae_superseded = False, ae_outcome = owned\<rparr>"

fun knows_complete :: "(string \<Rightarrow> bool) \<Rightarrow> directory \<Rightarrow> string \<Rightarrow> nat \<Rightarrow> wire_outcome option \<Rightarrow> complete_pc \<Rightarrow> bool" where
  "knows_complete g d oid n owned Ending \<longleftrightarrow> True"
| "knows_complete g d oid n owned Reading_Own_End \<longleftrightarrow> present d (endedName oid n)"
| "knows_complete g d oid n owned Recording \<longleftrightarrow> recorded g d oid n owned \<and> owned \<noteq> None"
| "knows_complete g d oid n owned Comparing_Recorded \<longleftrightarrow> recorded g d oid n owned \<and> present d (outcomeName oid)"
| "knows_complete g d oid n owned Completed \<longleftrightarrow> recorded g d oid n owned \<and> (\<forall>out. owned = Some out \<longrightarrow> readOutcome g d oid = Inr out)"
| "knows_complete g d oid n owned (Complete_Refused e) \<longleftrightarrow> refusal_ok d oid e"

fun past_key :: "reserve_pc \<Rightarrow> bool" where
  "past_key Publishing_Key = False"
| "past_key (Reserve_Refused _) = False"
| "past_key _ = True"

fun knows :: "(string \<Rightarrow> bool) \<Rightarrow> directory \<Rightarrow> journal_worker \<Rightarrow> bool" where
  "knows g d (Reserving oid r pc) \<longleftrightarrow>
     is_hash oid \<and> is_hash (rv_key r) \<and> is_hash (rv_binding r) \<and> is_hash (rv_requestHash r) \<and>
     (past_key pc \<longrightarrow> present d (nonceName (rv_key r))) \<and> knows_reserve g d oid (rv_binding r) pc"
| "knows g d (Completing oid n owned pc) \<longleftrightarrow>
     is_hash oid \<and> present d (attemptName oid n) \<and> knows_complete g d oid n owned pc"

section \<open>Knowledge is stable\<close>

lemma search_ok_mono: "extends_dir d d' \<Longrightarrow> search_ok d oid s \<Longrightarrow> search_ok d' oid s"
  by (cases s) (auto intro: extends_present)

lemma latest_mono:
  "extends_dir d d' \<Longrightarrow> latest_at d oid t n \<Longrightarrow> latest_at d' oid t n"
  "extends_dir d d' \<Longrightarrow> latest_spent d oid n s \<Longrightarrow> latest_spent d' oid n s"
  by (auto simp: latest_at_def latest_spent_def intro: read_mono)

lemma issued_mono: "extends_dir d d' \<Longrightarrow> issued_ok g d oid b eff \<Longrightarrow> issued_ok g d' oid b eff"
  by (cases eff) (auto simp: issued_ok_def intro: read_mono bound_to_mono)

lemma refusal_mono: "extends_dir d d' \<Longrightarrow> refusal_ok d oid e \<Longrightarrow> refusal_ok d' oid e"
  by (auto simp: refusal_ok_def intro: extends_present)

lemma recorded_mono: "extends_dir d d' \<Longrightarrow> recorded g d oid n x \<Longrightarrow> recorded g d' oid n x"
  by (auto simp: recorded_def intro: read_mono)

lemmas knows_mono = read_mono search_ok_mono latest_mono bound_to_mono follows_mono issued_mono refusal_mono recorded_mono

lemma knows_stable: "extends_dir d d' \<Longrightarrow> knows g d w \<Longrightarrow> knows g d' w"
proof (cases w)
  case (Reserving oid r pc)
  assume x: "extends_dir d d'" "knows g d w"
  then have "knows_reserve g d' oid (rv_binding r) pc"
    using Reserving by (cases pc) (auto intro: knows_mono)
  then show ?thesis using x Reserving by (auto intro: extends_present)
next
  case (Completing oid n owned pc)
  assume x: "extends_dir d d'" "knows g d w"
  then have "knows_complete g d' oid n owned pc"
    using Completing by (cases pc) (auto intro: knows_mono)
  then show ?thesis using x Completing by (auto intro: extends_present)
qed

section \<open>Steps of a worker\<close>

lemma refuse_cases:
  assumes "refuse d x f = (pc', d')"
  obtains (refused) e where "x = Inl e" "pc' = Reserve_Refused e" "d' = d" | (ok) y where "x = Inr y" "f y = (pc', d')"
  using assms by (auto simp: refuse_def split: sum.splits)

lemma refuse_complete_cases:
  assumes "refuse_complete d x f = (pc', d')"
  obtains (refused) e where "x = Inl e" "pc' = Complete_Refused e" "d' = d" | (ok) y where "x = Inr y" "f y = (pc', d')"
  using assms by (auto simp: refuse_complete_def split: sum.splits)

lemma harmless_refusals [simp]:
  "refusal_ok d oid pending" "refusal_ok d oid (Other_Error m)" "refusal_ok d oid (Wire_Error ''peer_operation_mismatch'' s x)"
  "refusal_ok d oid (Wire_Error ''peer_request_replayed'' s x)" "refusal_ok d oid (Wire_Error ''seller_effect_unresolved'' s x)"
  "refusal_ok d oid (Wire_Error ''seller_effect_conflict'' s x)" "refusal_ok d oid (Wire_Error ''seller_configuration_invalid'' s x)"
  "refusal_ok d oid (Wire_Error ''seller_effect_superseded'' s x)" "refusal_ok d oid (Wire_Error ''wire_input_invalid'' s x)"
  by (simp_all add: refusal_ok_def pending_def)

lemma publish_refusal: "publish d name v = Inl e \<Longrightarrow> refusal_ok d oid e"
  by (auto simp: publish_def bindW_def calling_def split: sum.splits option.splits)

lemma clock_refusal: "store_clock t = Inl e \<Longrightarrow> refusal_ok d oid e" "store_clock t = Inr u \<Longrightarrow> u = t \<and> 0 \<le> u"
  by (auto simp: store_clock_def fail_wire_def split: if_splits)

lemma attempt_zero: "journal_ok g d \<Longrightarrow> is_hash oid \<Longrightarrow> present d (attemptName oid n) \<Longrightarrow> \<exists>a. readAttempt d oid 0 = Inr a"
  by (drule (2) ok_reads(1)) (auto simp: bound_to_def)

lemma assertBinding_cases:
  assumes "journal_ok g d" "is_hash oid" "present d (attemptName oid n)"
  shows "assertBinding d oid b = Inr () \<and> bound_to d oid b \<or> assertBinding d oid b = Inl (Wire_Error ''peer_operation_mismatch'' 409 [])"
proof -
  obtain a where a: "readAttempt d oid 0 = Inr a" using attempt_zero [OF assms] by blast
  have "present d (attemptName oid 0)" using read_present(1) [OF a] .
  then show ?thesis
    using a by (auto simp: assertBinding_def ok_exists [OF assms(1)] bound_to_def fail_wire_def)
qed

lemma recorded_attempt:
  assumes "journal_ok g d" "is_hash oid" "readOutcome g d oid = Inr out"
  obtains n e where "readEnd g d oid n = Inr e" "ae_outcome e = Some out" "present d (attemptName oid n)"
proof -
  obtain n e where e: "readEnd g d oid n = Inr e" "ae_outcome e = Some out"
    using ok_reads(3) [OF assms(1,2) read_present(3) [OF assms(3)]] assms(3) by auto
  have "present d (attemptName oid n)"
    using assms(1,2) read_present(2) [OF e(1)] by (auto simp: journal_ok_def end_ok_def)
  then show thesis using that e by blast
qed

lemma search_step:
  assumes "search_ok d oid s" "0 \<le> t"
  shows "knows_reserve g d oid b (counted t (search_next s (present d (attemptName oid (probed s)))))"
proof -
  have bis: "knows_reserve g d oid b (counted t (bisect n u))"
    if "present d (attemptName oid n)" "n < u" "u \<le> MAX_SAFE" for n u
  proof (cases "n + 1 < u")
    case False
    then have "u = Suc n" using that(2) by simp
    then show ?thesis using that assms(2) by (simp add: bisect_def counted_def latest_at_def)
  qed (use that assms(2) in \<open>simp add: bisect_def counted_def\<close>)
  show ?thesis
  proof (cases s)
    case (Doubling n u)
    then show ?thesis
      using assms bis [of n u] by (cases "present d (attemptName oid u)") (auto simp: counted_def refusal_ok_def min_def)
  next
    case (Bisecting n u)
    define m where "m = n + (u - n) div 2"
    have m: "m < u" "n \<le> m" "u \<le> MAX_SAFE" using assms(1) Bisecting div_less_dividend [of 2 "u - n"] by (auto simp: m_def)
    show ?thesis
    proof (cases "present d (attemptName oid m)")
      case True
      then show ?thesis using m Bisecting bis [of m u] by (simp add: m_def)
    next
      case False
      then have "n < m" using m(2) assms(1) Bisecting by (cases "n = m") auto
      then show ?thesis using False m assms(1) Bisecting bis [of n m] by (simp add: m_def)
    qed
  qed
qed

fun publishes :: "reserve_pc \<Rightarrow> bool" where
  "publishes Publishing_Key = True"
| "publishes (Publishing_First _) = True"
| "publishes (Superseding _ _ _) = True"
| "publishes (Publishing_Outcome _ _) = True"
| "publishes (Publishing_Next _ _ _) = True"
| "publishes _ = False"

lemma reserve_read_step:
  assumes ok: "journal_ok g d" "is_hash oid" and "\<not> publishes pc" "knows_reserve g d oid (rv_binding r) pc"
    and step: "reserve_step g leaseMs oid r t d pc = (pc', d')"
  shows "d' = d \<and> knows_reserve g d oid (rv_binding r) pc'"
proof -
  note e = ok_exists [OF ok(1)]
  show ?thesis
  proof (cases pc)
    case Checking_Outcome
    then show ?thesis using step by (auto simp: e elim!: refuse_cases split: if_splits dest: clock_refusal)
  next
    case Reading_Outcome
    then obtain out where "readOutcome g d oid = Inr out" using ok_reads(3) [OF ok] assms(4) by auto
    then show ?thesis using step Reading_Outcome by (auto simp: refuse_def)
  next
    case (Asserting_Completed out)
    then obtain n where "present d (attemptName oid n)" using recorded_attempt [OF ok] assms(4) by auto
    from assertBinding_cases [OF ok this, of "rv_binding r"] show ?thesis
      using step Asserting_Completed assms(4) by (auto simp: refuse_def issued_ok_def)
  next
    case (Counting_First u)
    then show ?thesis using step assms(4) by (auto simp: e refuse_def MAX_SAFE_def split: if_splits)
  next
    case (Counting u x)
    then show ?thesis using step assms(4) search_step [of d oid x u g "rv_binding r"] by (auto simp: e refuse_def)
  next
    case Lost_First
    with assms(4) have "present d (attemptName oid 0)" by simp
    from assertBinding_cases [OF ok this, of "rv_binding r"] show ?thesis using step Lost_First by (auto simp: refuse_def)
  next
    case (Asserting_Binding u n)
    with assms(4) have "present d (attemptName oid (n - 1))" by (simp add: latest_at_def)
    from assertBinding_cases [OF ok this, of "rv_binding r"] show ?thesis
      using step Asserting_Binding assms(4) by (auto simp: refuse_def)
  next
    case (Checking_Again u n)
    then show ?thesis using step assms(4) by (auto simp: e refuse_def split: if_splits)
  next
    case (Reading_Latest u n)
    then obtain a where "readAttempt d oid (n - 1) = Inr a" using ok_reads(1) [OF ok] assms(4) by (auto simp: latest_at_def)
    then show ?thesis using step Reading_Latest assms(4) by (auto simp: refuse_def latest_spent_def)
  next
    case (Checking_End u n l x)
    then show ?thesis using step assms(4) by (auto simp: e refuse_def split: if_splits)
  next
    case (Reading_End u n x)
    then obtain x' where x': "readEnd g d oid (n - 1) = Inr x'" using ok_reads(2) [OF ok] assms(4) by auto
    obtain a where a: "readAttempt d oid (n - 1) = Inr a" "at_superseded a = x" "0 < n"
      using assms(4) Reading_End by (auto simp: latest_spent_def latest_at_def)
    then have "follows g d oid n (spent x (ae_superseded x'))" if "ae_outcome x' = None"
      using x' that by (cases n) (auto simp: follows_def)
    then show ?thesis
      using step Reading_End assms(4) x' by (auto simp: refuse_def latest_at_def split: option.splits if_splits)
  next
    case (Comparing_Outcome out)
    then obtain x where "readOutcome g d oid = Inr x" using ok_reads(3) [OF ok] assms(4) by auto
    then show ?thesis using step Comparing_Outcome assms(4) by (auto simp: refuse_def split: if_splits)
  next
    case (Issuing eff)
    then show ?thesis
      using step assms(4) by (auto elim!: refuse_cases split: wire_effect.splits if_splits dest: clock_refusal)
  qed (use assms(3,4) step in auto)
qed

lemma publish_attempt:
  assumes ok: "journal_ok g d" "is_hash oid" and p: "publish d (attemptName oid n) (attempt_json oid n a) = Inr (won, d')"
    and a: "is_hash (at_requestHash a)" "is_hash (at_binding a)" "0 \<le> at_leaseUntil a" "0 \<le> at_superseded a"
      "at_superseded a \<le> int n" "at_superseded a < MAX_EFFECT_ATTEMPTS"
    and f: "n = 0 \<or> bound_to d oid (at_binding a)" "follows g d oid n (at_superseded a)"
  shows "journal_ok g d' \<and> (won \<longrightarrow> readAttempt d' oid n = Inr a \<and> bound_to d' oid (at_binding a))"
proof -
  have r: "readAttempt d' oid n = Inr a" if won using attempt_published [of d oid n a d'] p that ok(2) a by simp
  note x = publish_extends [OF p]
  have b: "bound_to d' oid (at_binding a)" if won
    using f(1) r [OF that] bound_to_mono [OF x] by (auto simp: bound_to_def)
  have "journal_ok g d'"
    by (rule journal_ok_publish [OF ok(1) p])
      (use ok(2) r b follows_mono [OF x f(2)] in \<open>auto simp: attempt_ok_def\<close>)
  then show ?thesis using r b by blast
qed

lemma publish_end:
  assumes ok: "journal_ok g d" "is_hash oid" and p: "publish d (endedName oid n) (endRecord oid n e) = Inr (won, d')"
    and e: "\<And>out. ae_outcome e = Some out \<Longrightarrow> isOutcome g out" "ae_superseded e \<Longrightarrow> ae_outcome e = None"
    and "present d (attemptName oid n)"
  shows "journal_ok g d' \<and> (won \<longrightarrow> readEnd g d' oid n = Inr e)"
proof -
  have r: "readEnd g d' oid n = Inr e" if won using end_published [of d oid n e d' g] p that ok(2) e by simp
  have "journal_ok g d'"
    by (rule journal_ok_publish [OF ok(1) p])
      (use ok(2) r assms(6) extends_present [OF publish_extends [OF p]] in \<open>auto simp: end_ok_def\<close>)
  then show ?thesis using r by blast
qed

lemma publish_outcome:
  assumes ok: "journal_ok g d" "is_hash oid" and p: "publish d (outcomeName oid) (outcome_json oid n out) = Inr (won, d')"
    and e: "readEnd g d oid n = Inr e" "ae_outcome e = Some out"
  shows "journal_ok g d' \<and> (won \<longrightarrow> readOutcome g d' oid = Inr out)"
proof -
  have r: "readOutcome g d' oid = Inr out" if won
    using outcome_published [of d oid n out d' g] p that ok(2) readEnd_valid(2) [OF e] by simp
  have "journal_ok g d'"
    by (rule journal_ok_publish [OF ok(1) p])
      (use ok(2) r e(2) readEnd_mono [OF publish_extends [OF p] e(1)] in \<open>auto simp: outcome_ok_def\<close>)
  then show ?thesis using r by blast
qed

lemma publish_step_cases:
  assumes "refuse d (publish d name v) f = (pc', d')"
  obtains (refused) e where "publish d name v = Inl e" "pc' = Reserve_Refused e" "d' = d"
    | (published) won d1 where "publish d name v = Inr (won, d1)" "f (won, d1) = (pc', d')"
  using assms by (auto elim: refuse_cases)

definition step_ok :: "(string \<Rightarrow> bool) \<Rightarrow> directory \<Rightarrow> string \<Rightarrow> reservation \<Rightarrow> reserve_pc \<Rightarrow> reserve_pc \<Rightarrow> directory \<Rightarrow> bool" where
  "step_ok g d oid r pc pc' d' \<longleftrightarrow>
     journal_ok g d' \<and> extends_dir d d' \<and> knows_reserve g d' oid (rv_binding r) pc' \<and>
     (past_key pc' \<longrightarrow> past_key pc \<or> present d' (nonceName (rv_key r)))"

lemma refused_step: "journal_ok g d \<Longrightarrow> publish d name v = Inl e \<Longrightarrow> step_ok g d oid r pc (Reserve_Refused e) d"
  by (simp add: step_ok_def publish_refusal)

lemma key_step:
  assumes "journal_ok g d" and step: "reserve_step g leaseMs oid r t d Publishing_Key = (pc', d')"
  shows "step_ok g d oid r Publishing_Key pc' d'"
  using step [unfolded reserve_step.simps]
proof (cases rule: publish_step_cases)
  case (published won d1)
  have "journal_ok g d1" by (rule journal_ok_publish [OF assms(1) published(1)]) simp_all
  then show ?thesis
    using published publish_extends [OF published(1)] publish_present [OF published(1)] by (auto simp: step_ok_def split: if_splits)
qed (simp add: refused_step [OF assms(1)])

lemma first_step:
  assumes ok: "journal_ok g d" "is_hash oid" and h: "is_hash (rv_binding r)" "is_hash (rv_requestHash r)" "0 \<le> u" "0 \<le> leaseMs"
    and step: "reserve_step g leaseMs oid r t d (Publishing_First u) = (pc', d')"
  shows "step_ok g d oid r (Publishing_First u) pc' d'"
  using step [unfolded reserve_step.simps]
proof (cases rule: publish_step_cases)
  case (published won d1)
  have "journal_ok g d1 \<and> (won \<longrightarrow> readAttempt d1 oid 0 = Inr (lease_record leaseMs r u 0) \<and> bound_to d1 oid (rv_binding r))"
    using publish_attempt [OF ok published(1)] h by (auto simp: lease_record_def follows_def MAX_EFFECT_ATTEMPTS_def)
  then show ?thesis
    using published publish_extends [OF published(1)] publish_present [OF published(1)]
    by (auto simp: step_ok_def issued_ok_def lease_record_def split: if_splits)
qed (simp add: refused_step [OF ok(1)])

lemma supersede_step:
  assumes ok: "journal_ok g d" "is_hash oid" and l: "latest_at d oid u n" "bound_to d oid (rv_binding r)" "latest_spent d oid n x"
    and step: "reserve_step g leaseMs oid r t d (Superseding u n x) = (pc', d')"
  shows "step_ok g d oid r (Superseding u n x) pc' d'"
  using step [unfolded reserve_step.simps]
proof (cases rule: publish_step_cases)
  case (published won d1)
  have "journal_ok g d1" using publish_end [OF ok published(1)] l(1) by (auto simp: latest_at_def)
  then show ?thesis
    using published l publish_extends [OF published(1)] publish_present [OF published(1)] by (auto simp: step_ok_def intro: knows_mono)
qed (simp add: refused_step [OF ok(1)])

lemma outcome_step:
  assumes ok: "journal_ok g d" "is_hash oid" and e: "readEnd g d oid n = Inr e" "ae_outcome e = Some out"
    and step: "reserve_step g leaseMs oid r t d (Publishing_Outcome n out) = (pc', d')"
  shows "step_ok g d oid r (Publishing_Outcome n out) pc' d'"
  using step [unfolded reserve_step.simps]
proof (cases rule: publish_step_cases)
  case (published won d1)
  have "journal_ok g d1" using publish_outcome [OF ok published(1) e] by blast
  then show ?thesis
    using published publish_extends [OF published(1)] publish_present [OF published(1)] by (auto simp: step_ok_def split: if_splits)
qed (simp add: refused_step [OF ok(1)])

lemma next_step:
  assumes ok: "journal_ok g d" "is_hash oid" and h: "is_hash (rv_binding r)" "is_hash (rv_requestHash r)" "0 \<le> leaseMs"
    and l: "0 \<le> u" "0 < n" "bound_to d oid (rv_binding r)" "follows g d oid n x" "x < MAX_EFFECT_ATTEMPTS"
    and step: "reserve_step g leaseMs oid r t d (Publishing_Next u n x) = (pc', d')"
  shows "step_ok g d oid r (Publishing_Next u n x) pc' d'"
  using step [unfolded reserve_step.simps]
proof (cases rule: publish_step_cases)
  case (published won d1)
  obtain m a f where f: "n = Suc m" "readAttempt d oid m = Inr a" "x = spent (at_superseded a) f"
    using l by (cases n) (auto simp: follows_def)
  have "0 \<le> x \<and> x \<le> int n" using readAttempt_valid(1,2) [OF f(2)] f(1,3) by (simp add: spent_def)
  then have "journal_ok g d1 \<and> (won \<longrightarrow> readAttempt d1 oid n = Inr (lease_record leaseMs r u x) \<and> bound_to d1 oid (rv_binding r))"
    using publish_attempt [OF ok published(1)] h l by (auto simp: lease_record_def)
  then show ?thesis
    using published l(2) publish_extends [OF published(1)] by (auto simp: step_ok_def issued_ok_def lease_record_def split: if_splits)
qed (simp add: refused_step [OF ok(1)])

lemma reserve_own:
  assumes "journal_ok g d" "knows g d (Reserving oid r pc)" "0 \<le> leaseMs" "reserve_step g leaseMs oid r t d pc = (pc', d')"
  shows "journal_ok g d' \<and> knows g d' (Reserving oid r pc') \<and> extends_dir d d'"
proof -
  have h: "is_hash oid" "is_hash (rv_binding r)" "is_hash (rv_requestHash r)" "knows_reserve g d oid (rv_binding r) pc"
    using assms(2) by simp_all
  have "step_ok g d oid r pc pc' d'"
  proof (cases "publishes pc")
    case False
    then have "d' = d \<and> knows_reserve g d oid (rv_binding r) pc'" using reserve_read_step assms(1,4) h by blast
    moreover have "past_key pc' \<Longrightarrow> past_key pc" using False assms(4) by (cases pc) auto
    ultimately show ?thesis using assms(1) by (simp add: step_ok_def)
  next
    case True
    then show ?thesis
      using assms h by (cases pc) (auto intro: key_step first_step supersede_step outcome_step next_step simp del: reserve_step.simps)
  qed
  then show ?thesis using assms(2) extends_present by (auto simp: step_ok_def)
qed

lemma ending_own:
  assumes ok: "journal_ok g d" "is_hash oid" "present d (attemptName oid n)"
    and step: "complete_step g oid n owned d Ending = (pc', d')"
  shows "journal_ok g d' \<and> knows_complete g d' oid n owned pc' \<and> extends_dir d d'"
proof (cases "\<exists>out. owned = Some out \<and> \<not> isOutcome g out")
  case True
  then show ?thesis using step ok by auto
next
  case False
  then have "refuse_complete d (publish d (endedName oid n) (endRecord oid n \<lparr>ae_superseded = False, ae_outcome = owned\<rparr>)) (\<lambda>(won, d').
      (if won then after_end owned else Reading_Own_End, d')) = (pc', d')"
    using step by (auto split: option.splits)
  then show ?thesis
  proof (cases rule: refuse_complete_cases)
    case (refused e)
    then show ?thesis using ok publish_refusal by simp
  next
    case (ok y)
    obtain won d1 where y: "y = (won, d1)" by (cases y)
    note p = ok(1) [unfolded y]
    have "journal_ok g d1 \<and> (won \<longrightarrow> recorded g d1 oid n owned)"
      using publish_end [OF assms(1,2) p] False assms(3) by (auto simp: recorded_def)
    then show ?thesis
      using ok(2) y publish_extends [OF p] publish_present [OF p] by (auto simp: after_end_def split: if_splits)
  qed
qed

lemma recording_own:
  assumes ok: "journal_ok g d" "is_hash oid" and out: "recorded g d oid n (Some out)"
    and step: "complete_step g oid n (Some out) d Recording = (pc', d')"
  shows "journal_ok g d' \<and> knows_complete g d' oid n (Some out) pc' \<and> extends_dir d d'"
  using step [unfolded complete_step.simps option.case]
proof (cases rule: refuse_complete_cases)
  case (refused e)
  then show ?thesis using assms(1) publish_refusal by simp
next
  case (ok y)
  obtain won d1 where y: "y = (won, d1)" by (cases y)
  note p = ok(1) [unfolded y]
  have "journal_ok g d1 \<and> (won \<longrightarrow> readOutcome g d1 oid = Inr out)"
    using publish_outcome [OF assms(1,2) p] out by (auto simp: recorded_def)
  then show ?thesis
    using ok(2) y publish_extends [OF p] publish_present [OF p] recorded_mono [OF publish_extends [OF p] out]
    by (auto split: if_splits)
qed

lemma complete_own:
  assumes ok: "journal_ok g d" and k: "knows g d (Completing oid n owned pc)" and step: "complete_step g oid n owned d pc = (pc', d')"
  shows "journal_ok g d' \<and> knows g d' (Completing oid n owned pc') \<and> extends_dir d d'"
proof -
  have h: "is_hash oid" "present d (attemptName oid n)" "knows_complete g d oid n owned pc" using k by simp_all
  have "journal_ok g d' \<and> knows_complete g d' oid n owned pc' \<and> extends_dir d d'"
  proof (cases pc)
    case Ending
    then show ?thesis using ending_own ok h step by blast
  next
    case Reading_Own_End
    then obtain e where "readEnd g d oid n = Inr e" using ok_reads(2) [OF ok h(1)] h(3) by auto
    then show ?thesis using step Reading_Own_End ok by (auto simp: refuse_complete_def recorded_def after_end_def)
  next
    case Recording
    then show ?thesis using recording_own ok h step by auto
  next
    case Comparing_Recorded
    then obtain x where "readOutcome g d oid = Inr x" using ok_reads(3) [OF ok h(1)] h(3) by auto
    then show ?thesis using step Comparing_Recorded ok h by (auto simp: refuse_complete_def)
  qed (use step ok h in auto)
  then show ?thesis using h(1,2) extends_present by auto
qed

section \<open>The contract of a worker\<close>

datatype resource = Nonce_Key string | Attempt_Of string nat

fun pc_effect :: "reserve_pc \<Rightarrow> wire_effect option" where
  "pc_effect (Issuing eff) = Some eff"
| "pc_effect (Reserved eff) = Some eff"
| "pc_effect _ = None"

fun holds :: "journal_worker \<Rightarrow> resource set" where
  "holds (Reserving oid r pc) =
     (if past_key pc then {Nonce_Key (rv_key r)} else {}) \<union>
     (case Option.bind (pc_effect pc) effect_attempt of Some (o', n) \<Rightarrow> {Attempt_Of o' n} | None \<Rightarrow> {})"
| "holds (Completing _ _ _ _) = {}"

fun taken :: "directory \<Rightarrow> resource \<Rightarrow> bool" where
  "taken d (Nonce_Key k) \<longleftrightarrow> present d (nonceName k)"
| "taken d (Attempt_Of oid n) \<longleftrightarrow> present d (attemptName oid n)"

lemma holds_taken: "knows g d w \<Longrightarrow> x \<in> holds w \<Longrightarrow> taken d x"
proof (cases w)
  case (Reserving oid r pc)
  assume k: "knows g d w" and x: "x \<in> holds w"
  have "present d (attemptName o' n)" if "pc_effect pc = Some eff" "effect_attempt eff = Some (o', n)" for eff o' n
    using that k Reserving by (cases pc; cases eff) (auto simp: issued_ok_def dest: read_present)
  then show ?thesis using k x Reserving by (auto split: if_splits option.splits bind_splits)
qed simp

lemma publish_lost: "publish d name v = Inr (won, d') \<Longrightarrow> present d name \<Longrightarrow> \<not> won"
  by (auto simp: publish_def present_def bindW_Inr split: option.splits)

lemma reserve_takes_free:
  assumes "reserve_step g leaseMs oid r t d pc = (pc', d')" "x \<in> holds (Reserving oid r pc')"
  shows "x \<in> holds (Reserving oid r pc) \<or> \<not> taken d x"
  using assms by (cases pc) (auto elim!: refuse_cases split: if_splits sum.splits option.splits prod.splits wire_effect.splits search_result.splits
      dest: publish_lost simp: counted_def, metis publish_lost)

lemma start_knows:
  assumes "\<And>i v. ws i = Some v \<Longrightarrow> knows g d v" "worker_start sha256 d ws w"
  shows "knows g d w \<and> holds w = {}"
  using assms(2)
proof cases
  case (request r oid)
  then show ?thesis using request by (auto simp: enter_reserve_def split: if_splits)
next
  case (complete i oid r eff n owned)
  then have "knows g d (Reserving oid r (Reserved eff))" using assms(1) by blast
  then have "is_hash oid \<and> present d (attemptName oid n)"
    using complete(3) by (cases eff) (auto simp: issued_ok_def dest: read_present)
  then show ?thesis using complete by simp
qed

lemma worker_contract:
  assumes "journal_ok g d" "knows g d w" "worker_step g leaseMs d w w' d'"
  shows "journal_ok g d' \<and> knows g d' w' \<and> extends_dir d d'" "x \<in> holds w' \<Longrightarrow> x \<in> holds w \<or> \<not> taken d x"
proof -
  show "journal_ok g d' \<and> knows g d' w' \<and> extends_dir d d'"
    using assms(3)
  proof cases
    case (reserves oid r t pc pc')
    then have "0 \<le> leaseMs" by (simp add: valid_lease_def)
    then show ?thesis using reserve_own assms(1,2) reserves by blast
  next
    case (completes oid n owned pc pc')
    then show ?thesis using complete_own assms(1,2) by blast
  qed
  show "x \<in> holds w' \<Longrightarrow> x \<in> holds w \<or> \<not> taken d x"
    using assms(3) by cases (blast dest: reserve_takes_free, simp)
qed

interpretation journal: exclusive_memory "worker_step signable leaseMs" "worker_start sha256" extends_dir "journal_ok signable"
    "knows signable" holds taken for sha256 signable leaseMs
proof unfold_locales
  fix d w w' d' ws x
  show "journal_ok signable d \<Longrightarrow> knows signable d w \<Longrightarrow> worker_step signable leaseMs d w w' d' \<Longrightarrow>
      journal_ok signable d' \<and> knows signable d' w' \<and> extends_dir d d'"
    by (rule worker_contract(1))
  show "journal_ok signable d \<Longrightarrow> knows signable d w \<Longrightarrow> worker_step signable leaseMs d w w' d' \<Longrightarrow> x \<in> holds w' \<Longrightarrow>
      x \<in> holds w \<or> \<not> taken d x"
    by (rule worker_contract(2))
  show "(\<And>i v. ws i = Some v \<Longrightarrow> knows signable d v) \<Longrightarrow> worker_start sha256 d ws w \<Longrightarrow> knows signable d w"
    using start_knows by meson
  show "worker_start sha256 d ws w \<Longrightarrow> holds w = {}" by (erule worker_start.cases) simp_all
qed (auto intro: holds_taken knows_stable extends_trans)

definition journal_inv :: "(string \<Rightarrow> bool) \<Rightarrow> directory \<times> (nat \<rightharpoonup> journal_worker) \<Rightarrow> bool" where
  "journal_inv g s \<longleftrightarrow> journal_ok g (fst s) \<and> (\<forall>i w. snd s i = Some w \<longrightarrow> knows g (fst s) w) \<and>
     (\<forall>i j v w. snd s i = Some v \<longrightarrow> snd s j = Some w \<longrightarrow> i \<noteq> j \<longrightarrow> holds v \<inter> holds w = {})"

definition reachable_journal :: "(string \<Rightarrow> string) \<Rightarrow> (string \<Rightarrow> bool) \<Rightarrow> int \<Rightarrow> directory \<times> (nat \<rightharpoonup> journal_worker) \<Rightarrow> bool" where
  "reachable_journal sha256 g leaseMs s \<longleftrightarrow> (journal_step sha256 g leaseMs)\<^sup>*\<^sup>* ([], Map.empty) s"

lemma empty_journal_ok: "journal_ok g []"
  by (simp add: journal_ok_def all_records_def present_def)

lemma journal_reachable_inv:
  assumes "reachable_journal sha256 g leaseMs s"
  shows "journal_inv g s"
  using journal.run_exclusive [of g leaseMs sha256 "[]" s] assms empty_journal_ok
  by (simp add: reachable_journal_def journal_step_def journal_inv_def journal.all_know_def journal.exclusive_def)

lemma run_extends:
  assumes "reachable_journal sha256 g leaseMs s" "(journal_step sha256 g leaseMs)\<^sup>*\<^sup>* s t"
  shows "reachable_journal sha256 g leaseMs t" "extends_dir (fst s) (fst t)"
proof -
  show "reachable_journal sha256 g leaseMs t" using assms by (simp add: reachable_journal_def)
  have "journal.all_know g s" using journal_reachable_inv [OF assms(1)] by (simp add: journal_inv_def journal.all_know_def)
  then show "extends_dir (fst s) (fst t)" using journal.memory_run_grows [of g leaseMs sha256 s t] assms(2) by (simp add: journal_step_def)
qed

end
