(* ===== verification/Dacs_Journal_Props.thy ===== *)
theory Dacs_Journal_Props
  imports Dacs_Journal_Safety "HOL-Library.Log_Nat"
begin

text \<open>
  What the request journal promises its hosts: attempts of an operation are issued one at a time, a
  superseded attempt records nothing, an outcome is final, an operation stays with the terms of its first
  request, a nonce is accepted once, and the journal can always read what it wrote.
\<close>

section \<open>Attempts follow each other\<close>

lemma earlier_attempt:
  assumes "journal_ok g d" "is_hash oid" "present d (attemptName oid m)" "n < m"
  shows "present d (attemptName oid n) \<and> (\<exists>e. readEnd g d oid n = Inr e \<and> ae_outcome e = None)"
  using assms(3,4)
proof (induction m)
  case (Suc m)
  obtain a e where "readAttempt d oid m = Inr a" and e: "readEnd g d oid m = Inr e" "ae_outcome e = None"
    using ok_reads(1) [OF assms(1,2) Suc.prems(1)] by (auto simp: follows_def)
  then have p: "present d (attemptName oid m)" using read_present(1) by blast
  show ?case
  proof (cases "n = m")
    case True
    then show ?thesis using p e by blast
  next
    case False
    then show ?thesis using Suc.IH [OF p] Suc.prems(2) by simp
  qed
qed simp

lemma issued_present: "knows g d (Reserving oid r (Reserved eff)) \<Longrightarrow> effect_attempt eff = Some (o', n) \<Longrightarrow> o' = oid \<and> present d (attemptName oid n)"
  by (cases eff) (auto simp: issued_ok_def dest: read_present)

lemma journal_invD:
  assumes "journal_inv g (d, ws)"
  shows "journal_ok g d" "ws i = Some w \<Longrightarrow> knows g d w" "ws i = Some v \<Longrightarrow> ws j = Some w \<Longrightarrow> i \<noteq> j \<Longrightarrow> holds v \<inter> holds w = {}"
  using assms by (auto simp: journal_inv_def)

text \<open>
  Property C11. Two requests never hold the same attempt of an operation, and while a later attempt is held
  the earlier one has ended without an outcome: effects of one operation do not run side by side
  unknown to the journal.
\<close>

theorem effect_attempts_exclusive:
  assumes "reachable_journal sha256 g leaseMs (d, ws)" "i \<noteq> j"
    and "ws i = Some (Reserving oid r (Reserved eff))" "effect_attempt eff = Some (oid, n)"
    and "ws j = Some (Reserving oid r' (Reserved eff'))" "effect_attempt eff' = Some (oid, m)"
  shows "n \<noteq> m \<and> (n < m \<longrightarrow> (\<exists>e. readEnd g d oid n = Inr e \<and> ae_outcome e = None))"
proof -
  note inv = journal_invD [OF journal_reachable_inv [OF assms(1)]]
  have "Attempt_Of oid n \<noteq> Attempt_Of oid m" using inv(3) [OF assms(3,5,2)] assms(4,6) by auto
  moreover have "present d (attemptName oid m)" "is_hash oid" 
    using inv(2) [OF assms(5)] issued_present [OF inv(2) [OF assms(5)] assms(6)] by simp_all
  ultimately show ?thesis using earlier_attempt [OF inv(1)] by blast
qed

text \<open>
  Property C13. A superseded attempt records nothing: no completion of it succeeds, and an outcome of the
  operation comes from another attempt, which ended itself.
\<close>

theorem superseded_attempt_records_nothing:
  assumes "reachable_journal sha256 g leaseMs (d, ws)" "is_hash oid" "readEnd g d oid n = Inr e" "ae_superseded e"
  shows "ws i \<noteq> Some (Completing oid n owned Completed) \<and>
    (\<forall>out. readOutcome g d oid = Inr out \<longrightarrow>
      (\<exists>m f. m \<noteq> n \<and> readEnd g d oid m = Inr f \<and> \<not> ae_superseded f \<and> ae_outcome f = Some out))"
proof -
  note inv = journal_invD [OF journal_reachable_inv [OF assms(1)]]
  have "ws i \<noteq> Some (Completing oid n owned Completed)"
    using inv(2) [of i] assms(3,4) by (auto simp: recorded_def)
  moreover have "\<exists>m f. m \<noteq> n \<and> readEnd g d oid m = Inr f \<and> \<not> ae_superseded f \<and> ae_outcome f = Some out"
    if out: "readOutcome g d oid = Inr out" for out
  proof -
    obtain m f where f: "readEnd g d oid m = Inr f" "ae_outcome f = Some out"
      using recorded_attempt [OF inv(1) assms(2) out] by metis
    have "\<not> ae_superseded f" using readEnd_valid(1) [OF f(1)] f(2) by auto
    moreover have "m \<noteq> n" using f(1) assms(3,4) calculation by auto
    ultimately show ?thesis using f by blast
  qed
  ultimately show ?thesis by blast
qed

section \<open>Answering a repeat\<close>

lemma nonce_canonical: "\<exists>t. canonicalize (nonce_json k oid b r) = Inr t"
  by (simp add: canonicalize_def nonce_json_def canonValue_simps sorted_entries_def MAX_NESTING_DEPTH_def)

text \<open>
  A call of \<open>reserveEffect\<close> among other workers: the clock reading and the directory it meets at each of its
  file operations.
\<close>

fun served :: "(string \<Rightarrow> bool) \<Rightarrow> int \<Rightarrow> string \<Rightarrow> reservation \<Rightarrow> (int \<times> directory) list \<Rightarrow> reserve_pc \<Rightarrow> reserve_pc" where
  "served g leaseMs oid r [] pc = pc"
| "served g leaseMs oid r ((t, d) # views) pc = served g leaseMs oid r views (fst (reserve_step g leaseMs oid r t d pc))"

lemma readRecord_exists: "readRecord d name k = Inr x \<Longrightarrow> exists_entry d name = Inr True"
  by (auto simp: readRecord_def exists_entry_def corrupt_def split: option.splits entry.splits if_splits)

lemma read_exists:
  "readOutcome g d oid = Inr out \<Longrightarrow> exists_entry d (outcomeName oid) = Inr True"
  "readAttempt d oid n = Inr a \<Longrightarrow> exists_entry d (attemptName oid n) = Inr True"
  unfolding readOutcome_def readAttempt_def bindW_Inr using readRecord_exists by blast+

lemma fresh_key_wins:
  assumes "\<not> present d (nonceName k)"
  shows "\<exists>d'. publish d (nonceName k) (nonce_json k oid b q) = Inr (True, d')"
  using assms nonce_canonical [of k oid b q] by (auto simp: publish_def present_def)

lemma repeat_answered:
  assumes "readOutcome g d1 oid = Inr out" "readOutcome g d2 oid = Inr out" "readAttempt d3 oid 0 = Inr a"
    and "\<not> present d0 (nonceName (rv_key r))" "isSafeInteger t1" "0 \<le> t1"
  shows "served g leaseMs oid r [(t0, d0), (t1, d1), (t2, d2), (t3, d3)] Publishing_Key =
    (if at_binding a = rv_binding r then Reserved (Completed_Effect oid out)
     else Reserve_Refused (Wire_Error ''peer_operation_mismatch'' 409 []))"
  using fresh_key_wins [OF assms(4), of oid "rv_binding r" "rv_requestHash r"] assms(1-3,5,6)
  by (auto simp: refuse_def store_clock_def read_exists assertBinding_def fail_wire_def)

lemma repeats_answered:
  assumes "readOutcome g d oid = Inr out" "readAttempt d oid 0 = Inr a" "length views = 4" "\<not> present (snd (hd views)) (nonceName (rv_key r))"
    and later: "\<forall>(now, x) \<in> set views. isSafeInteger now \<and> 0 \<le> now \<and> extends_dir d x"
  shows "served g leaseMs oid r views Publishing_Key =
    (if bound_to d oid (rv_binding r) then Reserved (Completed_Effect oid out)
     else Reserve_Refused (Wire_Error ''peer_operation_mismatch'' 409 []))"
proof -
  obtain t0 d0 t1 d1 t2 d2 t3 d3 where views: "views = [(t0, d0), (t1, d1), (t2, d2), (t3, d3)]"
    using assms(3) by (auto simp: numeral_eq_Suc length_Suc_conv)
  have "bound_to d oid (rv_binding r) \<longleftrightarrow> at_binding a = rv_binding r" using assms(2) by (auto simp: bound_to_def)
  moreover have "readOutcome g d1 oid = Inr out" "readOutcome g d2 oid = Inr out" "readAttempt d3 oid 0 = Inr a"
    using later assms(1,2) read_mono by (auto simp: views)
  then have "served g leaseMs oid r [(t0, d0), (t1, d1), (t2, d2), (t3, d3)] Publishing_Key =
      (if at_binding a = rv_binding r then Reserved (Completed_Effect oid out)
       else Reserve_Refused (Wire_Error ''peer_operation_mismatch'' 409 []))"
    by (rule repeat_answered) (use assms(4) later in \<open>auto simp: views\<close>)
  ultimately show ?thesis by (simp only: views)
qed

text \<open>
  Property C12. An outcome is final: in every later state it is the same and no attempt has been added to
  the operation, and every repeat is answered from it. A request with an unused nonce that arrives
  after the outcome was recorded, and whose four file operations meet the directory of any later
  states, whatever other workers do in between, is answered with this outcome when its binding
  is the one of the operation, and is refused with 409 otherwise. A request that is answered with an
  outcome of the operation in any other way gets the same one.
\<close>

theorem effect_outcome_final:
  assumes "reachable_journal sha256 g leaseMs s" "is_hash oid" "readOutcome g (fst s) oid = Inr out"
    and "(journal_step sha256 g leaseMs)\<^sup>*\<^sup>* s t"
  shows "readOutcome g (fst t) oid = Inr out \<and>
    (\<forall>n. present (fst t) (attemptName oid n) \<longrightarrow> present (fst s) (attemptName oid n)) \<and>
    (\<forall>i r out'. snd t i = Some (Reserving oid r (Reserved (Completed_Effect oid out'))) \<longrightarrow> out' = out) \<and>
    (\<forall>r views. length views = 4 \<and> \<not> present (snd (hd views)) (nonceName (rv_key r)) \<and>
      (\<forall>(now, d) \<in> set views. isSafeInteger now \<and> 0 \<le> now \<and> (\<exists>ws. (journal_step sha256 g leaseMs)\<^sup>*\<^sup>* s (d, ws))) \<longrightarrow>
      served g leaseMs oid r views Publishing_Key =
        (if bound_to (fst s) oid (rv_binding r) then Reserved (Completed_Effect oid out)
         else Reserve_Refused (Wire_Error ''peer_operation_mismatch'' 409 [])))"
proof -
  obtain d ws where s: "s = (d, ws)" by (cases s)
  obtain d' ws' where t: "t = (d', ws')" by (cases t)
  note x = run_extends [OF assms(1,4)]
  note inv = journal_invD [OF journal_reachable_inv [OF assms(1), unfolded s]] and inv' = journal_invD [OF journal_reachable_inv [OF x(1), unfolded t]]
  have out: "readOutcome g d' oid = Inr out" using readOutcome_mono [OF x(2) assms(3)] by (simp add: t)
  obtain k e where k: "readEnd g d oid k = Inr e" "ae_outcome e = Some out" "present d (attemptName oid k)"
    using recorded_attempt [OF inv(1) assms(2)] assms(3) s by auto
  have k': "readEnd g d' oid k = Inr e" using readEnd_mono [OF x(2)] k(1) s t by simp
  have "present d (attemptName oid n)" if n: "present d' (attemptName oid n)" for n
  proof -
    have "\<not> k < n" using earlier_attempt [OF inv'(1) assms(2) n, of k] k' k(2) by auto
    then show ?thesis using earlier_attempt [OF inv(1) assms(2) k(3), of n] k(3) by (cases "n = k") auto
  qed
  moreover have "out' = out" if "ws' i = Some (Reserving oid r (Reserved (Completed_Effect oid out')))" for i r out'
    using inv'(2) [OF that] out by (simp add: issued_ok_def)
  moreover have "served g leaseMs oid r views Publishing_Key =
      (if bound_to (fst s) oid (rv_binding r) then Reserved (Completed_Effect oid out)
       else Reserve_Refused (Wire_Error ''peer_operation_mismatch'' 409 []))"
    if v: "length views = 4" "\<not> present (snd (hd views)) (nonceName (rv_key r))"
      "\<forall>(now, d) \<in> set views. isSafeInteger now \<and> 0 \<le> now \<and> (\<exists>ws. (journal_step sha256 g leaseMs)\<^sup>*\<^sup>* s (d, ws))" for r views
  proof -
    obtain a where a: "readAttempt d oid 0 = Inr a" using attempt_zero [OF inv(1) assms(2) k(3)] by blast
    have "\<forall>(now, x) \<in> set views. isSafeInteger now \<and> 0 \<le> now \<and> extends_dir (fst s) x"
      using v(3) run_extends(2) [OF assms(1)] by fastforce
    then show ?thesis using repeats_answered [OF assms(3) _ v(1,2)] a s by simp
  qed
  ultimately show ?thesis using out s t by auto
qed

text \<open>
  Every request that is given an effect or an outcome of an operation carries the binding
  (profile, buyer and agreement) under which the operation was first reserved.
\<close>

theorem operation_binding_fixed:
  assumes "reachable_journal sha256 g leaseMs (d, ws)"
    and "ws i = Some (Reserving oid r (Reserved eff))" "ws j = Some (Reserving oid r' (Reserved eff'))"
  shows "rv_binding r = rv_binding r' \<and> (\<exists>a. readAttempt d oid 0 = Inr a \<and> at_binding a = rv_binding r)"
proof -
  note inv = journal_invD [OF journal_reachable_inv [OF assms(1)]]
  have "bound_to d oid (rv_binding r)" "bound_to d oid (rv_binding r')"
    using inv(2) [OF assms(2)] inv(2) [OF assms(3)] by (cases eff; cases eff'; simp add: issued_ok_def)+
  then show ?thesis by (auto simp: bound_to_def)
qed

text \<open>
  A signed request is admitted once: two requests that got past the replay check have different
  nonce keys.
\<close>

theorem nonce_key_reserved_once:
  assumes "reachable_journal sha256 g leaseMs (d, ws)" "i \<noteq> j"
    and "ws i = Some (Reserving oid r pc)" "past_key pc" "ws j = Some (Reserving oid' r' pc')" "past_key pc'"
  shows "rv_key r \<noteq> rv_key r'"
  using journal_invD(3) [OF journal_reachable_inv [OF assms(1)] assms(3,5,2)] assms(4,6) by auto

text \<open>
  The journal can always read what it wrote: a call is refused for a corrupt store only when an
  operation has used up every attempt number JavaScript can count.
\<close>

theorem journal_never_corrupt:
  assumes "reachable_journal sha256 g leaseMs (d, ws)" "\<not> present d (attemptName oid MAX_SAFE)"
  shows "ws i \<noteq> Some (Reserving oid r (Reserve_Refused (Wire_Error ''seller_replay_guard_invalid'' status detail))) \<and>
    ws i \<noteq> Some (Completing oid n owned (Complete_Refused (Wire_Error ''seller_replay_guard_invalid'' status detail)))"
  using journal_invD(2) [OF journal_reachable_inv [OF assms(1)], of i] assms(2) by (auto simp: refusal_ok_def)

section \<open>Counting\<close>

lemma bisect_finds:
  assumes "journal_ok g d" "\<And>n. present d (attemptName oid n) \<longleftrightarrow> n < k" "n < k" "k \<le> u" "u - n \<le> 2 ^ j" "j \<le> fuel"
  shows "run_search fuel d oid (bisect n u) = Inr (Some k)"
  using assms(3-6)
proof (induction j arbitrary: n u fuel)
  case 0
  then have "u = k" "\<not> n + 1 < u" by auto
  then show ?case by (simp add: bisect_def)
next
  case (Suc j)
  show ?case
  proof (cases "n + 1 < u")
    case False
    then show ?thesis using Suc.prems by (simp add: bisect_def)
  next
    case True
    define m where "m = n + (u - n) div 2"
    have m: "n < m" "m < u" "u - m \<le> 2 ^ j" "m - n \<le> 2 ^ j" using True Suc.prems(3) by (auto simp: m_def)
    obtain f where f: "fuel = Suc f" "j \<le> f" using Suc.prems(4) by (cases fuel) auto
    have "run_search f d oid (bisect m u) = Inr (Some k)" if "m < k" using Suc.IH [OF that Suc.prems(2) m(3) f(2)] .
    moreover have "run_search f d oid (bisect n m) = Inr (Some k)" if "\<not> m < k"
      using Suc.IH [OF Suc.prems(1) _ m(4) f(2)] that by simp
    ultimately show ?thesis
      using True by (cases "m < k") (simp_all add: bisect_def [of n u] f(1) ok_exists [OF assms(1)] assms(2) m_def)
  qed
qed

lemma doubling_finds:
  assumes "journal_ok g d" "\<And>n. present d (attemptName oid n) \<longleftrightarrow> n < k" "k \<le> MAX_SAFE"
    and "i \<le> 53" "u = min MAX_SAFE (2 ^ i)" "n < k" "u - n \<le> 2 ^ (i - 1)" "n < u" "106 - i \<le> fuel"
  shows "run_search fuel d oid (Probe (Doubling n u)) = Inr (Some k)"
  using assms(4-)
proof (induction "53 - i" arbitrary: i n u fuel rule: less_induct)
  case less
  obtain f where f: "fuel = Suc f" "105 - i \<le> f" using less.prems(1,6) by (cases fuel) auto
  show ?case
  proof (cases "u < k")
    case False
    have "run_search f d oid (bisect n u) = Inr (Some k)"
      by (rule bisect_finds [OF assms(1,2) less.prems(3) _ less.prems(4)]) (use False f less.prems(1) in auto)
    then show ?thesis using False by (simp add: f(1) ok_exists [OF assms(1)] assms(2))
  next
    case True
    then have u: "u \<noteq> MAX_SAFE" "u = 2 ^ i" using assms(3) less.prems(2) by auto
    then have i: "i < 53" using less.prems(1,2) by (cases "i = 53") (auto simp: MAX_SAFE_def)
    have "run_search f d oid (Probe (Doubling u (min MAX_SAFE (u * 2)))) = Inr (Some k)"
    proof (rule less.hyps [of "Suc i"])
      show "min MAX_SAFE (u * 2) = min MAX_SAFE (2 ^ Suc i)" using u(2) by (simp add: mult.commute)
      show "u < min MAX_SAFE (u * 2)" using u True assms(3) by auto
    qed (use i True f u in auto)
    then show ?thesis using True u(1) by (simp add: f(1) ok_exists [OF assms(1)] assms(2))
  qed
qed

lemma count_exact:
  assumes "journal_ok g d" "\<forall>n. present d (attemptName oid n) \<longleftrightarrow> n < k" "k \<le> MAX_SAFE"
  shows "attemptCount d oid = Inr (Some k)"
proof (cases "k = 0")
  case True
  then show ?thesis using assms(2) by (simp add: attemptCount_def ok_exists [OF assms(1)])
next
  case False
  have "run_search MAX_PROBES d oid (Probe (Doubling 0 1)) = Inr (Some k)"
    by (rule doubling_finds [of g d oid k 0]) (use assms False in \<open>auto simp: MAX_SAFE_def MAX_PROBES_def\<close>)
  then show ?thesis using False assms(2) by (simp add: attemptCount_def ok_exists [OF assms(1)])
qed

text \<open>
  Property C16. The search counts the attempts of an operation exactly, with at most 106 probes after the
  first, up to the largest safe integer.
\<close>

theorem attemptCount_exact:
  assumes "journal_ok g d" "\<forall>n. present d (attemptName oid n) \<longleftrightarrow> n < k" "k \<le> MAX_SAFE"
  shows "attemptCount d oid = Inr (Some k)"
  by (rule count_exact [OF assms])

section \<open>Reservations end\<close>

fun finished :: "reserve_pc \<Rightarrow> bool" where
  "finished (Reserved _) = True"
| "finished (Reserve_Refused _) = True"
| "finished _ = False"

fun search_wf :: "search \<Rightarrow> bool" where
  "search_wf (Doubling n u) \<longleftrightarrow> n < u \<and> u \<le> MAX_SAFE"
| "search_wf (Bisecting n u) \<longleftrightarrow> n + 1 < u \<and> u \<le> MAX_SAFE"

fun pc_wf :: "reserve_pc \<Rightarrow> bool" where
  "pc_wf (Counting _ s) = search_wf s"
| "pc_wf _ = True"

fun search_rank :: "search \<Rightarrow> nat" where
  "search_rank (Doubling n u) = (if u = MAX_SAFE then 54 else 108 - floorlog 2 u)"
| "search_rank (Bisecting n u) = floorlog 2 (u - n - 1)"

fun reserve_rank :: "reserve_pc \<Rightarrow> nat" where
  "reserve_rank Publishing_Key = 126"
| "reserve_rank Checking_Outcome = 125"
| "reserve_rank (Counting_First _) = 124"
| "reserve_rank (Counting _ s) = 15 + search_rank s"
| "reserve_rank (Publishing_First _) = 15"
| "reserve_rank Lost_First = 1"
| "reserve_rank (Asserting_Binding _ _) = 14"
| "reserve_rank (Checking_Again _ _) = 13"
| "reserve_rank (Reading_Latest _ _) = 12"
| "reserve_rank (Checking_End _ _ _ _) = 11"
| "reserve_rank (Superseding _ _ _) = 10"
| "reserve_rank (Reading_End _ _ _) = 9"
| "reserve_rank (Publishing_Outcome _ _) = 8"
| "reserve_rank (Comparing_Outcome _) = 7"
| "reserve_rank (Publishing_Next _ _ _) = 6"
| "reserve_rank Reading_Outcome = 5"
| "reserve_rank (Asserting_Completed _) = 4"
| "reserve_rank (Issuing _) = 3"
| "reserve_rank (Reserved _) = 0"
| "reserve_rank (Reserve_Refused _) = 0"

lemma floorlog_safe: "u \<le> MAX_SAFE \<Longrightarrow> floorlog 2 u \<le> 53"
proof -
  assume "u \<le> MAX_SAFE"
  then have "u < 2 ^ 53" by (simp add: MAX_SAFE_def)
  then show ?thesis by (simp add: floorlog_le_iff)
qed

lemma floorlog_half: "0 < x \<Longrightarrow> floorlog 2 (x div 2) < floorlog 2 x"
  using compute_floorlog [of 2 x] by simp

lemma bisect_rank:
  assumes "bisect n u = Probe s" "u \<le> MAX_SAFE"
  shows "search_wf s \<and> search_rank s = floorlog 2 (u - n - 1)"
  using assms by (auto simp: bisect_def split: if_splits)

lemma search_rank_next:
  assumes "search_wf s" "search_next s e = Probe s'"
  shows "search_wf s' \<and> search_rank s' < search_rank s"
proof (cases s)
  case (Doubling n u)
  then have u: "n < u" "u \<le> MAX_SAFE" using assms(1) by simp_all
  show ?thesis
  proof (cases e)
    case True
    then have s': "u \<noteq> MAX_SAFE" "s' = Doubling u (min MAX_SAFE (u * 2))" using assms(2) Doubling by (auto split: if_splits)
    have "floorlog 2 (u * 2) = floorlog 2 u + 1" using u(1) compute_floorlog [of 2 "u * 2"] by simp
    then show ?thesis using Doubling s' u floorlog_safe [OF u(2)] by (auto simp: min_def)
  next
    case False
    then have s': "bisect n u = Probe s'" using assms(2) Doubling by simp
    have "floorlog 2 (u - n - 1) \<le> 53" using u(2) by (intro floorlog_safe) simp
    then show ?thesis using bisect_rank [OF s' u(2)] floorlog_safe [OF u(2)] Doubling by auto
  qed
next
  case (Bisecting n u)
  define m where "m = n + (u - n) div 2"
  have u: "n + 1 < u" "u \<le> MAX_SAFE" "m < u" using assms(1) Bisecting by (auto simp: m_def)
  have half: "floorlog 2 x < floorlog 2 (u - n - 1)" if "x \<le> (u - n - 1) div 2" for x
    using floorlog_mono [OF that, of 2] floorlog_half [of "u - n - 1"] u(1) by simp
  have "u - m - 1 \<le> (u - n - 1) div 2" "m - n - 1 \<le> (u - n - 1) div 2" using u by (auto simp: m_def)
  then show ?thesis
    using assms(2) Bisecting u half bisect_rank [of m u s'] bisect_rank [of n m s'] by (cases e) (auto simp: m_def [symmetric])
qed

lemma search_rank_bound: "search_wf s \<Longrightarrow> search_rank s < 108"
proof (cases s)
  case (Doubling n u)
  assume "search_wf s"
  then have "0 < floorlog 2 u" using Doubling by (simp add: floorlog_def)
  then show ?thesis using Doubling by simp
next
  case (Bisecting n u)
  assume "search_wf s"
  then have "floorlog 2 (u - n - 1) \<le> 53" using Bisecting by (intro floorlog_safe) auto
  then show ?thesis using Bisecting by simp
qed

lemma reserve_rank_step:
  assumes "reserve_step g leaseMs oid r t d pc = (pc', d')" "pc_wf pc" "\<not> finished pc"
  shows "pc_wf pc' \<and> reserve_rank pc' < reserve_rank pc"
proof (cases pc)
  case (Counting u s)
  from assms(1) show ?thesis
    unfolding Counting reserve_step.simps
    by (rule refuse_cases) (use assms(2) Counting in \<open>auto simp: counted_def dest: search_rank_next split: search_result.splits\<close>)
next
  case (Counting_First u)
  then show ?thesis
    using assms search_rank_bound [of "Doubling 0 1"]
    by (auto elim!: refuse_cases split: if_splits simp: MAX_SAFE_def)
qed (use assms in \<open>auto elim!: refuse_cases split: if_splits option.splits wire_effect.splits\<close>)

text \<open>
  Property C15. Reserving ends: whatever other workers do to the directory between its steps and whatever the
  clock reads, a call is answered or refused after at most 126 file operations.
\<close>

theorem reservation_ends:
  assumes "pcs 0 = Publishing_Key"
    and "\<And>i. pcs (Suc i) = fst (reserve_step g leaseMs oid r (clock i) (dir i) (pcs i))"
  shows "\<exists>k \<le> 126. finished (pcs k)"
proof -
  have "pc_wf (pcs i) \<and> ((\<exists>k \<le> i. finished (pcs k)) \<or> reserve_rank (pcs i) + i \<le> 126)" for i
  proof (induction i)
    case 0
    then show ?case by (simp add: assms(1))
  next
    case (Suc i)
    have step: "reserve_step g leaseMs oid r (clock i) (dir i) (pcs i) =
        (pcs (Suc i), snd (reserve_step g leaseMs oid r (clock i) (dir i) (pcs i)))"
      by (simp add: assms(2))
    show ?case
    proof (cases "finished (pcs i)")
      case True
      moreover have "pc_wf (pcs (Suc i))" using True assms(2) [of i] by (cases "pcs i") auto
      ultimately show ?thesis by (meson le_Suc_eq order_refl)
    next
      case False
      then show ?thesis using reserve_rank_step [OF step] Suc by (auto simp: le_Suc_eq)
    qed
  qed
  from this [of 126] show ?thesis
  proof (elim conjE disjE)
    assume "reserve_rank (pcs 126) + 126 \<le> 126"
    then have "finished (pcs 126)" by (cases "pcs 126") auto
    then show ?thesis by blast
  qed blast
qed

section \<open>A write-once register\<close>

text \<open>What an operation is bound to, and its outcome.\<close>

definition effect_register :: "(string \<Rightarrow> bool) \<Rightarrow> directory \<times> (nat \<rightharpoonup> journal_worker) \<Rightarrow> string \<rightharpoonup> string \<times> wire_outcome option" where
  "effect_register g s oid =
     (if is_hash oid
      then (case readAttempt (fst s) oid 0 of
              Inl _ \<Rightarrow> None
            | Inr a \<Rightarrow> Some (at_binding a, case readOutcome g (fst s) oid of Inl _ \<Rightarrow> None | Inr out \<Rightarrow> Some out))
      else None)"

lemma lookup_other: "publish d name v = Inr (won, d') \<Longrightarrow> name' \<noteq> name \<Longrightarrow> map_of d' name' = map_of d name'"
  by (erule publish_cases) (auto simp: map_add_def split: option.splits)

lemma read_other:
  assumes "publish d name v = Inr (won, d')"
  shows "name \<noteq> attemptName oid n \<Longrightarrow> readAttempt d' oid n = readAttempt d oid n"
    and "name \<noteq> outcomeName oid \<Longrightarrow> readOutcome g d' oid = readOutcome g d oid"
  using lookup_other [OF assms] by (auto simp: readAttempt_def readOutcome_def readRecord_def)

text \<open>A step of a worker publishes nothing, or one entry.\<close>

lemma worker_publishes:
  assumes "worker_step g leaseMs d w w' d'"
  obtains "d' = d" | name v won where "publish d name v = Inr (won, d')"
  using assms
proof cases
  case (reserves oid r t pc pc')
  then show ?thesis using that by (cases pc) (auto elim!: refuse_cases split: if_splits option.splits wire_effect.splits)
next
  case (completes oid n owned pc pc')
  then show ?thesis using that by (cases pc) (auto elim!: refuse_complete_cases split: if_splits option.splits)
qed

lemma register_same:
  "readAttempt d' oid 0 = readAttempt d oid 0 \<Longrightarrow> readOutcome g d' oid = readOutcome g d oid \<Longrightarrow>
   effect_register g (d', ws') oid = effect_register g (d, ws) oid"
  by (simp add: effect_register_def split: sum.split)

lemma register_workers: "effect_register g (d, ws') = effect_register g (d, ws)"
  by (rule ext, rule register_same) (rule refl)+

lemma register_binds:
  assumes ok: "journal_ok g d" "journal_ok g d'" "is_hash oid" and p: "publish d (attemptName oid 0) v = Inr (True, d')"
  shows "\<exists>b. effect_register g (d, ws) oid = None \<and> effect_register g (d', ws') oid = Some (b, None)"
proof -
  have new: "\<not> present d (attemptName oid 0)" using publish_lost [OF p] by blast
  obtain a where a: "readAttempt d' oid 0 = Inr a" using attempt_zero [OF ok(2,3)] publish_present [OF p] by blast
  have "readOutcome g d oid \<noteq> Inr out" for out
    using recorded_attempt [OF ok(1,3), of out] earlier_attempt [OF ok(1,3), of _ 0] new by (metis gr0I)
  then have "readOutcome g d' oid \<noteq> Inr out" for out using read_other(2) [OF p] ok(3) by simp
  then have "effect_register g (d', ws') oid = Some (at_binding a, None)"
    using a ok(3) by (auto simp: effect_register_def split: sum.splits)
  moreover have "effect_register g (d, ws) oid = None"
    using new read_present(1) [of d oid 0] by (auto simp: effect_register_def split: sum.splits)
  ultimately show ?thesis by blast
qed

lemma register_writes:
  assumes ok: "journal_ok g d" "journal_ok g d'" "is_hash oid" and p: "publish d (outcomeName oid) v = Inr (True, d')"
  shows "\<exists>b out. effect_register g (d, ws) oid = Some (b, None) \<and> effect_register g (d', ws') oid = Some (b, Some out)"
proof -
  obtain out where out: "readOutcome g d' oid = Inr out" using ok_reads(3) [OF ok(2,3) publish_present [OF p]] by blast
  obtain n where "present d' (attemptName oid n)" using recorded_attempt [OF ok(2,3) out] by blast
  then obtain a where a: "readAttempt d' oid 0 = Inr a" using attempt_zero [OF ok(2,3)] by blast
  then have "readAttempt d oid 0 = Inr a" using read_other(1) [OF p, of oid 0] ok(3) by simp
  moreover have "readOutcome g d oid \<noteq> Inr x" for x using publish_lost [OF p] read_present(3) by blast
  ultimately show ?thesis using a out ok(3) by (auto simp: effect_register_def split: sum.splits)
qed

lemma register_publish:
  assumes ok: "journal_ok g d" "journal_ok g d'" and p: "publish d name v = Inr (won, d')"
  shows "register_step (effect_register g (d, ws)) (effect_register g (d', ws'))"
proof (cases "won \<and> (\<exists>oid. is_hash oid \<and> (name = attemptName oid 0 \<or> name = outcomeName oid))")
  case False
  have "effect_register g (d', ws') oid = effect_register g (d, ws) oid" for oid
  proof (cases "is_hash oid \<and> won")
    case True
    then show ?thesis using False read_other [OF p] by (intro register_same) auto
  next
    case other: False
    then have "\<not> is_hash oid \<or> d' = d" using p by (elim publish_cases) auto
    then show ?thesis
    proof
      assume "\<not> is_hash oid"
      then show ?thesis by (simp add: effect_register_def)
    qed (simp add: register_workers [of g d ws' ws])
  qed
  then have "effect_register g (d', ws') = effect_register g (d, ws)" by (rule ext)
  then show ?thesis by (simp add: register_step.keeps)
next
  case True
  then obtain oid where oid: "is_hash oid" "name = attemptName oid 0 \<or> name = outcomeName oid" and won by blast
  have others: "effect_register g (d', ws') = (effect_register g (d, ws))(oid \<mapsto> y)" if "effect_register g (d', ws') oid = Some y" for y
  proof (rule ext)
    fix o'
    show "effect_register g (d', ws') o' = ((effect_register g (d, ws))(oid \<mapsto> y)) o'"
    proof (cases "o' = oid \<or> \<not> is_hash o'")
      case False
      then show ?thesis using oid read_other [OF p] register_same [of d' o' d g ws' ws] by auto
    qed (use that in \<open>auto simp: effect_register_def\<close>)
  qed
  show ?thesis
    using oid(2)
  proof
    assume "name = attemptName oid 0"
    then obtain b where b: "effect_register g (d, ws) oid = None" "effect_register g (d', ws') oid = Some (b, None)"
      using register_binds [OF ok oid(1), of v ws ws'] p \<open>won\<close> by auto
    show ?thesis unfolding others [OF b(2)] by (rule register_step.binds) (rule b(1))
  next
    assume "name = outcomeName oid"
    then obtain b out where b: "effect_register g (d, ws) oid = Some (b, None)" "effect_register g (d', ws') oid = Some (b, Some out)"
      using register_writes [OF ok oid(1), of v ws ws'] p \<open>won\<close> by auto
    show ?thesis unfolding others [OF b(2)] by (rule register_step.writes) (rule b(1))
  qed
qed

lemma register_run_step:
  assumes "reachable_journal sha256 g leaseMs s" "journal_step sha256 g leaseMs s t"
  shows "register_step (effect_register g s) (effect_register g t)"
proof -
  have "reachable_journal sha256 g leaseMs t" using run_extends(1) [OF assms(1), of t] assms(2) by blast
  then have ok: "journal_ok g (fst s)" "journal_ok g (fst t)"
    using journal_reachable_inv [of sha256 g leaseMs] assms(1) by (auto simp: journal_inv_def)
  from assms(2) show ?thesis
    unfolding journal_step_def
  proof cases
    case (started d ws w i)
    then show ?thesis using register_workers [of g d "ws(i \<mapsto> w)" ws] by (simp add: register_step.keeps)
  next
    case (stepped ws i w d w' d')
    then show ?thesis
      using ok register_publish [of g d d'] register_workers [of g d "ws(i \<mapsto> w')" ws]
      by (auto elim!: worker_publishes simp: register_step.keeps)
  qed
qed

interpretation effects: write_once "\<lambda>s t. reachable_journal sha256 g leaseMs s \<and> journal_step sha256 g leaseMs s t" "effect_register g"
  for sha256 g leaseMs
  by unfold_locales (auto intro: register_run_step)

text \<open>
  Property C14. The journal refines a write-once register: every step of the workers leaves the register of the
  operations as it is, binds one operation that was free, or writes the outcome of one that was bound.
\<close>

theorem journal_refines_register:
  assumes "reachable_journal sha256 g leaseMs s" "journal_step sha256 g leaseMs s t"
  shows "register_step (effect_register g s) (effect_register g t)"
  using effects.refines assms by blast

end
