(* ===== verification/Dacs_Journal_Runs.thy ===== *)
theory Dacs_Journal_Runs
  imports Dacs_Journal_Props
begin

text \<open>
  The journal makes progress: a request that runs alone is given the first attempt of a free operation, and
  the next attempt of an operation whose lease has lapsed. The runs also instantiate the
  properties of the journal.
\<close>

section \<open>A call that runs alone\<close>

fun alone :: "nat \<Rightarrow> (string \<Rightarrow> bool) \<Rightarrow> int \<Rightarrow> string \<Rightarrow> reservation \<Rightarrow> int \<Rightarrow> reserve_pc \<times> directory \<Rightarrow> reserve_pc \<times> directory" where
  "alone 0 g leaseMs oid r t s = s"
| "alone (Suc k) g leaseMs oid r t s = alone k g leaseMs oid r t (reserve_step g leaseMs oid r t (snd s) (fst s))"

lemma alone_add: "alone (j + k) g leaseMs oid r t s = alone k g leaseMs oid r t (alone j g leaseMs oid r t s)"
  by (induction j arbitrary: s) auto

lemma attempt_canonical:
  "isSafeInteger (int n) \<Longrightarrow> isSafeInteger (at_leaseUntil a) \<Longrightarrow> isSafeInteger (at_superseded a) \<Longrightarrow> \<exists>t. canonicalize (attempt_json oid n a) = Inr t"
  by (simp add: canonicalize_def attempt_json_def jnat_def jint_def canonNumber_def canonValue_simps sorted_entries_def MAX_NESTING_DEPTH_def)

lemma end_canonical:
  "isSafeInteger (int n) \<Longrightarrow> (\<And>out. ae_outcome e = Some out \<Longrightarrow> isSafeInteger (wo_status out)) \<Longrightarrow> \<exists>t. canonicalize (endRecord oid n e) = Inr t"
  by (cases "ae_outcome e") (simp_all add: canonicalize_def endRecord_def toStored_def jnat_def jint_def canonNumber_def canonValue_simps
      sorted_entries_def MAX_NESTING_DEPTH_def)

lemma outcome_canonical:
  "isSafeInteger (int n) \<Longrightarrow> isSafeInteger (wo_status out) \<Longrightarrow> \<exists>t. canonicalize (outcome_json oid n out) = Inr t"
  by (simp add: canonicalize_def outcome_json_def toStored_def jnat_def jint_def canonNumber_def canonValue_simps
      sorted_entries_def MAX_NESTING_DEPTH_def)

lemma publish_fresh:
  assumes "canonicalize v = Inr t" "\<not> present d name"
  shows "publish d name v = Inr (True, d @ [(name, Record (length (utf8 t)) v)])"
  using assms by (simp add: publish_def present_def)

lemma present_snoc [simp]: "present (d @ [(name, f)]) name' \<longleftrightarrow> present d name' \<or> name' = name"
  by (auto simp: present_def map_add_def split: option.splits)

lemma present_Nil [simp]: "\<not> present [] name"
  by (simp add: present_def)

lemma all_records_snoc [simp]: "all_records d \<Longrightarrow> all_records (d @ [(name, Record k v)])"
  by (auto simp: all_records_def map_add_def split: option.splits if_splits)

lemma records_exist: "all_records d \<Longrightarrow> exists_entry d name = Inr (present d name)"
  by (auto simp: all_records_def exists_entry_def present_def split: option.splits entry.splits)

lemma snoc_extends: "\<not> present d name \<Longrightarrow> extends_dir d (d @ [(name, f)])"
  by (auto simp: extends_dir_def present_def map_le_def map_add_def split: option.splits)

definition runs_to :: "(string \<Rightarrow> bool) \<Rightarrow> int \<Rightarrow> string \<Rightarrow> reservation \<Rightarrow> int \<Rightarrow> reserve_pc \<times> directory \<Rightarrow> reserve_pc \<times> directory \<Rightarrow> bool" where
  "runs_to g leaseMs oid r t s s' \<longleftrightarrow> (\<exists>k. alone k g leaseMs oid r t s = s')"

lemma runs_refl: "runs_to g leaseMs oid r t s s"
  unfolding runs_to_def by (rule exI [of _ 0]) simp

lemma runs_step: "reserve_step g leaseMs oid r t d pc = s \<Longrightarrow> runs_to g leaseMs oid r t s s' \<Longrightarrow> runs_to g leaseMs oid r t (pc, d) s'"
  unfolding runs_to_def by (metis alone.simps(2) fst_conv snd_conv)

lemma runs_trans: "runs_to g leaseMs oid r t s s' \<Longrightarrow> runs_to g leaseMs oid r t s' s'' \<Longrightarrow> runs_to g leaseMs oid r t s s''"
  unfolding runs_to_def by (metis alone_add)

lemma counting_runs:
  assumes "run_search fuel d oid (Probe s) = Inr (Some k)" "all_records d"
  shows "runs_to g leaseMs oid r t (Counting u s, d) (Asserting_Binding u k, d)"
  using assms(1)
proof (induction fuel arbitrary: s)
  case (Suc fuel)
  define e where "e = present d (attemptName oid (probed s))"
  have step: "reserve_step g leaseMs oid r t d (Counting u s) = (counted u (search_next s e), d)"
    by (simp add: records_exist [OF assms(2)] refuse_def e_def)
  have n: "run_search fuel d oid (search_next s e) = Inr (Some k)"
    using Suc.prems by (simp add: records_exist [OF assms(2)] e_def)
  show ?case
  proof (rule runs_step [OF step], cases "search_next s e")
    case (Probe s')
    then show "runs_to g leaseMs oid r t (counted u (search_next s e), d) (Asserting_Binding u k, d)"
      using Suc.IH [of s'] n by (simp add: counted_def)
  next
    case (Count n)
    then show "runs_to g leaseMs oid r t (counted u (search_next s e), d) (Asserting_Binding u k, d)"
      using n by (simp add: counted_def runs_refl)
  qed (use n in \<open>simp_all add: corrupt_def\<close>)
qed simp

definition new_request :: "directory \<Rightarrow> string \<Rightarrow> reservation \<Rightarrow> int \<Rightarrow> int \<Rightarrow> bool" where
  "new_request d oid r t leaseMs \<longleftrightarrow>
     is_hash oid \<and> is_hash (rv_key r) \<and> is_hash (rv_binding r) \<and> is_hash (rv_requestHash r) \<and>
     \<not> present d (nonceName (rv_key r)) \<and> 0 \<le> t \<and> valid_lease leaseMs \<and> t + leaseMs \<le> max_safe"

lemma new_request_clock: "new_request d oid r t leaseMs \<Longrightarrow> store_clock t = Inr t \<and> isSafeInteger (t + leaseMs) \<and> t < t + leaseMs"
  by (auto simp: new_request_def store_clock_def isSafeInteger_def valid_lease_def)

lemma key_runs:
  assumes "all_records d" "new_request d oid r t leaseMs" "\<not> present d (outcomeName oid)"
  shows "\<exists>k. runs_to g leaseMs oid r t (Publishing_Key, d)
    (Counting_First t, d @ [(nonceName (rv_key r), Record k (nonce_json (rv_key r) oid (rv_binding r) (rv_requestHash r)))])"
proof -
  obtain x where x: "canonicalize (nonce_json (rv_key r) oid (rv_binding r) (rv_requestHash r)) = Inr x" using nonce_canonical by blast
  have p: "publish d (nonceName (rv_key r)) (nonce_json (rv_key r) oid (rv_binding r) (rv_requestHash r)) =
      Inr (True, d @ [(nonceName (rv_key r), Record (length (utf8 x)) (nonce_json (rv_key r) oid (rv_binding r) (rv_requestHash r)))])"
    using publish_fresh [OF x] assms(2) by (simp add: new_request_def)
  show ?thesis
    using assms new_request_clock [OF assms(2)]
    by (intro exI [of _ "length (utf8 x)"], rule_tac runs_step, simp add: p refuse_def, rule_tac runs_step,
        simp add: records_exist refuse_def, rule_tac runs_refl)
qed

lemma first_attempt_runs:
  assumes "all_records d" "new_request d oid r t leaseMs" "\<not> present d (outcomeName oid)" "\<not> present d (attemptName oid 0)"
  shows "\<exists>d'. runs_to g leaseMs oid r t (Publishing_Key, d) (Reserved (New_Effect oid 0 (t + leaseMs)), d') \<and>
    readAttempt d' oid 0 = Inr (lease_record leaseMs r t 0) \<and>
    (\<forall>name. present d' name \<longleftrightarrow> present d name \<or> name = nonceName (rv_key r) \<or> name = attemptName oid 0)"
proof -
  obtain k d1 where d1: "d1 = d @ [(nonceName (rv_key r), Record k (nonce_json (rv_key r) oid (rv_binding r) (rv_requestHash r)))]"
    and k: "runs_to g leaseMs oid r t (Publishing_Key, d) (Counting_First t, d1)"
    using key_runs [OF assms(1-3)] by blast
  obtain x where x: "canonicalize (attempt_json oid 0 (lease_record leaseMs r t 0)) = Inr x"
    using attempt_canonical [of 0 "lease_record leaseMs r t 0" oid] new_request_clock [OF assms(2)]
    by (auto simp: lease_record_def isSafeInteger_def max_safe_def)
  define d2 where "d2 = d1 @ [(attemptName oid 0, Record (length (utf8 x)) (attempt_json oid 0 (lease_record leaseMs r t 0)))]"
  have "\<not> present d1 (attemptName oid 0)" using assms(4) by (simp add: d1)
  then have p: "publish d1 (attemptName oid 0) (attempt_json oid 0 (lease_record leaseMs r t 0)) = Inr (True, d2)"
    and e: "exists_entry d1 (attemptName oid 0) = Inr False"
    using publish_fresh [OF x, of d1] assms(1) by (simp_all add: records_exist d1 d2_def)
  have "reserve_step g leaseMs oid r t d1 (Counting_First t) = (Publishing_First t, d1)"
    "reserve_step g leaseMs oid r t d1 (Publishing_First t) = (Issuing (New_Effect oid 0 (t + leaseMs)), d2)"
    "reserve_step g leaseMs oid r t d2 (Issuing (New_Effect oid 0 (t + leaseMs))) = (Reserved (New_Effect oid 0 (t + leaseMs)), d2)"
    using new_request_clock [OF assms(2)] by (simp_all add: e p refuse_def)
  then have "runs_to g leaseMs oid r t (Counting_First t, d1) (Reserved (New_Effect oid 0 (t + leaseMs)), d2)"
    by (blast intro: runs_step runs_refl)
  moreover have "readAttempt d2 oid 0 = Inr (lease_record leaseMs r t 0)"
    by (rule attempt_published [OF p])
      (use assms(2) in \<open>auto simp: lease_record_def new_request_def valid_lease_def MAX_EFFECT_ATTEMPTS_def\<close>)
  moreover have "\<forall>name. present d2 name \<longleftrightarrow> present d name \<or> name = nonceName (rv_key r) \<or> name = attemptName oid 0"
    unfolding d2_def d1 present_snoc by blast
  ultimately show ?thesis using runs_trans [OF k] by blast
qed

text \<open>What lets a request take over an operation whose latest attempt is \<open>k - 1\<close>.\<close>

definition lapsed :: "(string \<Rightarrow> bool) \<Rightarrow> directory \<Rightarrow> string \<Rightarrow> nat \<Rightarrow> int \<Rightarrow> int \<Rightarrow> bool" where
  "lapsed g d oid k t s \<longleftrightarrow>
     journal_ok g d \<and> 0 < k \<and> k < MAX_SAFE \<and> (\<forall>n. present d (attemptName oid n) \<longleftrightarrow> n < k) \<and> \<not> present d (outcomeName oid) \<and>
     \<not> present d (endedName oid (k - 1)) \<and>
     (\<exists>a. readAttempt d oid (k - 1) = Inr a \<and> at_leaseUntil a \<le> t \<and> at_superseded a = s) \<and> s + 1 < MAX_EFFECT_ATTEMPTS"

lemma supersede_runs:
  assumes l: "lapsed g d oid k t s" "is_hash oid"
  shows "\<exists>d'. runs_to g leaseMs oid r t (Checking_Again t k, d) (Publishing_Next t k (s + 1), d') \<and>
    extends_dir d d' \<and> all_records d' \<and> readEnd g d' oid (k - 1) = Inr \<lparr>ae_superseded = True, ae_outcome = None\<rparr> \<and>
    (\<forall>name. present d' name \<longleftrightarrow> present d name \<or> name = endedName oid (k - 1))"
proof -
  obtain a where a: "readAttempt d oid (k - 1) = Inr a" "at_leaseUntil a \<le> t" "at_superseded a = s" using l(1) by (auto simp: lapsed_def)
  have ok: "journal_ok g d" "all_records d" using l(1) by (auto simp: lapsed_def journal_ok_def)
  have "isSafeInteger (int (k - 1))" using l(1) by (auto simp: lapsed_def isSafeInteger_def max_safe_def MAX_SAFE_def)
  then obtain x where x: "canonicalize (endRecord oid (k - 1) \<lparr>ae_superseded = True, ae_outcome = None\<rparr>) = Inr x"
    using end_canonical [of "k - 1" "\<lparr>ae_superseded = True, ae_outcome = None\<rparr>" oid] by auto
  define d' where "d' = d @ [(endedName oid (k - 1), Record (length (utf8 x)) (endRecord oid (k - 1) \<lparr>ae_superseded = True, ae_outcome = None\<rparr>))]"
  have ne: "\<not> present d (endedName oid (k - 1))" using l(1) by (simp add: lapsed_def)
  have p: "publish d (endedName oid (k - 1)) (endRecord oid (k - 1) \<lparr>ae_superseded = True, ae_outcome = None\<rparr>) = Inr (True, d')"
    using publish_fresh [OF x ne] by (simp add: d'_def)
  have e: "readEnd g d' oid (k - 1) = Inr \<lparr>ae_superseded = True, ae_outcome = None\<rparr>" by (rule end_published [OF p l(2)]) simp_all
  have b: "exists_entry d (outcomeName oid) = Inr False" "exists_entry d (endedName oid (k - 1)) = Inr False"
    using l(1) ne by (simp_all add: records_exist ok(2) lapsed_def)
  have "reserve_step g leaseMs oid r t d (Checking_Again t k) = (Reading_Latest t k, d)"
    "reserve_step g leaseMs oid r t d (Reading_Latest t k) = (Checking_End t k (at_leaseUntil a) s, d)"
    "reserve_step g leaseMs oid r t d (Checking_End t k (at_leaseUntil a) s) = (Superseding t k s, d)"
    "reserve_step g leaseMs oid r t d (Superseding t k s) = (Reading_End t k s, d')"
    "reserve_step g leaseMs oid r t d' (Reading_End t k s) = (Publishing_Next t k (s + 1), d')"
    using a l(1) p [unfolded One_nat_def] by (simp_all add: b [unfolded One_nat_def] e [unfolded One_nat_def] refuse_def spent_def lapsed_def)
  then have "runs_to g leaseMs oid r t (Checking_Again t k, d) (Publishing_Next t k (s + 1), d')"
    by (blast intro: runs_step runs_refl)
  then show ?thesis using e ok(2) snoc_extends [OF ne] by (auto simp: d'_def)
qed

lemma lapsed_after_key:
  assumes "lapsed g d oid k t s" "\<not> present d (nonceName key)" "canonicalize v = Inr x"
  shows "lapsed g (d @ [(nonceName key, Record (length (utf8 x)) v)]) oid k t s"
proof -
  note p = publish_fresh [OF assms(3,2)]
  have "journal_ok g (d @ [(nonceName key, Record (length (utf8 x)) v)])"
    by (rule journal_ok_publish [OF _ p]) (use assms(1) in \<open>simp_all add: lapsed_def\<close>)
  then show ?thesis using assms(1) readAttempt_mono [OF publish_extends [OF p]] by (auto simp: lapsed_def)
qed

lemma lapsed_key_runs:
  assumes "lapsed g d oid k t s" "new_request d oid r t leaseMs"
  shows "\<exists>d1. runs_to g leaseMs oid r t (Publishing_Key, d) (Counting_First t, d1) \<and> lapsed g d1 oid k t s \<and> extends_dir d d1 \<and>
    (\<forall>name. present d1 name \<longleftrightarrow> present d name \<or> name = nonceName (rv_key r))"
proof -
  let ?v = "nonce_json (rv_key r) oid (rv_binding r) (rv_requestHash r)"
  obtain x where x: "canonicalize ?v = Inr x" using nonce_canonical by blast
  define d1 where "d1 = d @ [(nonceName (rv_key r), Record (length (utf8 x)) ?v)]"
  have fresh: "\<not> present d (nonceName (rv_key r))" using assms(2) by (simp add: new_request_def)
  have l: "lapsed g d1 oid k t s" unfolding d1_def by (rule lapsed_after_key [OF assms(1) fresh x])
  then have "exists_entry d1 (outcomeName oid) = Inr False" using ok_exists [of g d1] by (auto simp: lapsed_def)
  then have "reserve_step g leaseMs oid r t d Publishing_Key = (Checking_Outcome, d1)"
    "reserve_step g leaseMs oid r t d1 Checking_Outcome = (Counting_First t, d1)"
    using publish_fresh [OF x fresh] new_request_clock [OF assms(2)] by (simp_all add: refuse_def d1_def)
  then have "runs_to g leaseMs oid r t (Publishing_Key, d) (Counting_First t, d1)" by (blast intro: runs_step runs_refl)
  then show ?thesis using l snoc_extends [OF fresh] by (auto simp: d1_def)
qed

lemma count_runs:
  assumes "lapsed g d oid k t s" "bound_to d oid (rv_binding r)"
  shows "runs_to g leaseMs oid r t (Counting_First t, d) (Checking_Again t k, d)"
proof -
  have ok: "journal_ok g d" "all_records d" "\<forall>n. present d (attemptName oid n) \<longleftrightarrow> n < k" "0 < k" "k \<le> MAX_SAFE"
    using assms(1) by (auto simp: lapsed_def journal_ok_def)
  have e: "exists_entry d (attemptName oid 0) = Inr True" using ok(3,4) by (simp add: records_exist ok(2))
  have "run_search MAX_PROBES d oid (Probe (Doubling 0 1)) = Inr (Some k)"
    using count_exact [OF ok(1,3,5)] e by (simp add: attemptCount_def)
  from counting_runs [OF this ok(2)]
  have c: "runs_to g leaseMs oid r t (Counting t (Doubling 0 1), d) (Asserting_Binding t k, d)" .
  have "assertBinding d oid (rv_binding r) = Inr ()" using assms(2) e by (auto simp: assertBinding_def bound_to_def)
  then have s: "reserve_step g leaseMs oid r t d (Asserting_Binding t k) = (Checking_Again t k, d)"
    "reserve_step g leaseMs oid r t d (Counting_First t) = (Counting t (Doubling 0 1), d)"
    by (simp_all add: e refuse_def)
  show ?thesis by (rule runs_step [OF s(2) runs_trans [OF c runs_step [OF s(1) runs_refl]]])
qed

lemma recovery_runs:
  assumes "lapsed g d oid k t s" "new_request d oid r t leaseMs" "bound_to d oid (rv_binding r)"
  shows "\<exists>d'. runs_to g leaseMs oid r t (Publishing_Key, d) (Reserved (Recover_Effect oid k (t + leaseMs)), d') \<and>
    readEnd g d' oid (k - 1) = Inr \<lparr>ae_superseded = True, ae_outcome = None\<rparr> \<and> readAttempt d' oid k = Inr (lease_record leaseMs r t (s + 1)) \<and>
    (\<forall>name. present d' name \<longleftrightarrow> present d name \<or> name = nonceName (rv_key r) \<or> name = endedName oid (k - 1) \<or> name = attemptName oid k)"
proof -
  note h = assms(2) [unfolded new_request_def]
  obtain d1 where d1: "runs_to g leaseMs oid r t (Publishing_Key, d) (Counting_First t, d1)" "lapsed g d1 oid k t s" "extends_dir d d1"
    "\<forall>name. present d1 name \<longleftrightarrow> present d name \<or> name = nonceName (rv_key r)"
    using lapsed_key_runs [OF assms(1,2)] by blast
  have c: "runs_to g leaseMs oid r t (Counting_First t, d1) (Checking_Again t k, d1)"
    by (rule count_runs [OF d1(2)]) (rule bound_to_mono [OF d1(3) assms(3)])
  obtain d2 where d2: "runs_to g leaseMs oid r t (Checking_Again t k, d1) (Publishing_Next t k (s + 1), d2)" "all_records d2"
    "readEnd g d2 oid (k - 1) = Inr \<lparr>ae_superseded = True, ae_outcome = None\<rparr>"
    "\<forall>name. present d2 name \<longleftrightarrow> present d1 name \<or> name = endedName oid (k - 1)"
    using supersede_runs [OF d1(2)] h by blast
  obtain a where a: "readAttempt d oid (k - 1) = Inr a" "at_superseded a = s" using assms(1) by (auto simp: lapsed_def)
  have k: "0 < k" "k < MAX_SAFE" "0 \<le> s" "s + 1 < MAX_EFFECT_ATTEMPTS" "s \<le> int (k - 1)" and fresh: "\<not> present d2 (attemptName oid k)"
    using assms(1) d1(2) d2(4) h a(2) readAttempt_valid(1,2) [OF a(1)] by (simp_all add: lapsed_def)
  have "isSafeInteger (int k)" "isSafeInteger (s + 1)" "isSafeInteger (t + leaseMs)"
    using k h by (auto simp: isSafeInteger_def max_safe_def MAX_SAFE_def MAX_EFFECT_ATTEMPTS_def valid_lease_def)
  then obtain x where x: "canonicalize (attempt_json oid k (lease_record leaseMs r t (s + 1))) = Inr x"
    using attempt_canonical [of k "lease_record leaseMs r t (s + 1)" oid] by (auto simp: lease_record_def)
  define d3 where "d3 = d2 @ [(attemptName oid k, Record (length (utf8 x)) (attempt_json oid k (lease_record leaseMs r t (s + 1))))]"
  have p: "publish d2 (attemptName oid k) (attempt_json oid k (lease_record leaseMs r t (s + 1))) = Inr (True, d3)"
    using publish_fresh [OF x fresh] by (simp add: d3_def)
  have "reserve_step g leaseMs oid r t d2 (Publishing_Next t k (s + 1)) = (Issuing (Recover_Effect oid k (t + leaseMs)), d3)"
    "reserve_step g leaseMs oid r t d3 (Issuing (Recover_Effect oid k (t + leaseMs))) = (Reserved (Recover_Effect oid k (t + leaseMs)), d3)"
    using new_request_clock [OF assms(2)] by (simp_all add: p refuse_def)
  then have "runs_to g leaseMs oid r t (Publishing_Next t k (s + 1), d2) (Reserved (Recover_Effect oid k (t + leaseMs)), d3)"
    by (blast intro: runs_step runs_refl)
  moreover have "readAttempt d3 oid k = Inr (lease_record leaseMs r t (s + 1))"
    by (rule attempt_published [OF p]) (use h k in \<open>auto simp: lease_record_def valid_lease_def\<close>)
  moreover have "readEnd g d3 oid (k - 1) = Inr \<lparr>ae_superseded = True, ae_outcome = None\<rparr>"
    using readEnd_mono [OF publish_extends [OF p] d2(3)] .
  moreover have "\<forall>name. present d3 name \<longleftrightarrow> present d name \<or> name = nonceName (rv_key r) \<or> name = endedName oid (k - 1) \<or> name = attemptName oid k"
    using d1(4) d2(4) by (simp add: d3_def)
  ultimately show ?thesis using d1(1) c d2(1) by (blast intro: runs_trans)
qed

text \<open>
  Property C17. A lapsed operation can be recovered: when the lease of its latest attempt has run out, the
  operation has no outcome and fewer than fifteen of its attempts were superseded before (ending this
  one must leave the count below the budget of sixteen), then a request under the same binding and with
  a nonce not yet used, running alone at one reading of the clock, is issued the next attempt, and the
  lapsed one has been ended as superseded.
\<close>

theorem lapsed_effect_recovered:
  assumes "lapsed g d oid k t s" "new_request d oid r t leaseMs" "bound_to d oid (rv_binding r)"
  shows "\<exists>d'. runs_to g leaseMs oid r t (Publishing_Key, d) (Reserved (Recover_Effect oid k (t + leaseMs)), d') \<and>
    readEnd g d' oid (k - 1) = Inr \<lparr>ae_superseded = True, ae_outcome = None\<rparr> \<and> readAttempt d' oid k = Inr (lease_record leaseMs r t (s + 1))"
  using recovery_runs [OF assms] by blast

section \<open>Runs of the system\<close>

lemma worker_moves:
  assumes "worker_step g leaseMs d w w' d'"
  shows "journal_step sha256 g leaseMs (d, ws(i \<mapsto> w)) (d', ws(i \<mapsto> w'))"
  using interleaved.stepped [of "ws(i \<mapsto> w)" i w "worker_step g leaseMs" d w' d' "worker_start sha256"] assms
  by (simp add: journal_step_def)

lemma alone_system:
  assumes "valid_lease leaseMs"
  shows "(journal_step sha256 g leaseMs)\<^sup>*\<^sup>* (snd s, ws(i \<mapsto> Reserving oid r (fst s)))
    (snd (alone k g leaseMs oid r t s), ws(i \<mapsto> Reserving oid r (fst (alone k g leaseMs oid r t s))))"
proof (induction k arbitrary: s)
  case (Suc k)
  define s' where "s' = reserve_step g leaseMs oid r t (snd s) (fst s)"
  have "worker_step g leaseMs (snd s) (Reserving oid r (fst s)) (Reserving oid r (fst s')) (snd s')"
    by (rule worker_step.reserves [OF assms, of _ _ _ t]) (simp add: s'_def)
  note step = worker_moves [OF this, of sha256 ws i]
  show ?case
    unfolding alone.simps s'_def [symmetric] by (rule converse_rtranclp_into_rtranclp [OF step Suc.IH])
qed simp

lemma runs_system:
  assumes "runs_to g leaseMs oid r t (Publishing_Key, d) (pc, d')" "valid_lease leaseMs" "enter_reserve sha256 r = Inr oid" "is_hash oid"
    and "reachable_journal sha256 g leaseMs (d, ws)" "ws i = None"
  shows "reachable_journal sha256 g leaseMs (d', ws(i \<mapsto> Reserving oid r pc))"
proof -
  let ?ws = "ws(i \<mapsto> Reserving oid r Publishing_Key)"
  have "worker_start sha256 d ws (Reserving oid r Publishing_Key)" by (rule worker_start.request [OF assms(3,4)])
  then have "journal_step sha256 g leaseMs (d, ws) (d, ?ws)"
    unfolding journal_step_def by (rule interleaved.started) (rule assms(6))
  moreover obtain k where "alone k g leaseMs oid r t (Publishing_Key, d) = (pc, d')" using assms(1) by (auto simp: runs_to_def)
  then have "(journal_step sha256 g leaseMs)\<^sup>*\<^sup>* (d, ?ws) (d', ws(i \<mapsto> Reserving oid r pc))"
    using alone_system [OF assms(2), of sha256 g "(Publishing_Key, d)" ws i oid r k t] by simp
  ultimately show ?thesis using assms(5) by (simp add: reachable_journal_def)
qed

text \<open>The holder of an attempt completes it with an outcome, running alone.\<close>

lemma complete_system:
  assumes "reachable_journal sha256 g leaseMs (d, ws)" "ws i = Some (Reserving oid r (Reserved eff))" "effect_attempt eff = Some (oid, n)"
    and "ws j = None" "isOutcome g out" "isSafeInteger (int n)" "\<not> present d (endedName oid n)" "\<not> present d (outcomeName oid)" "is_hash oid"
  shows "\<exists>d1 d2. reachable_journal sha256 g leaseMs (d1, ws(j \<mapsto> Completing oid n (Some out) Recording)) \<and>
    journal_step sha256 g leaseMs (d1, ws(j \<mapsto> Completing oid n (Some out) Recording)) (d2, ws(j \<mapsto> Completing oid n (Some out) Completed)) \<and>
    extends_dir d d2 \<and> readOutcome g d2 oid = Inr out"
proof -
  define e where "e = \<lparr>ae_superseded = False, ae_outcome = Some out\<rparr>"
  have st: "isSafeInteger (wo_status out)" using assms(5) by (simp add: isOutcome_def)
  obtain x where x: "canonicalize (endRecord oid n e) = Inr x" using end_canonical [OF assms(6), of e oid] st by (auto simp: e_def)
  obtain y where y: "canonicalize (outcome_json oid n out) = Inr y" using outcome_canonical [OF assms(6) st] by blast
  define d1 where "d1 = d @ [(endedName oid n, Record (length (utf8 x)) (endRecord oid n e))]"
  define d2 where "d2 = d1 @ [(outcomeName oid, Record (length (utf8 y)) (outcome_json oid n out))]"
  have p1: "publish d (endedName oid n) (endRecord oid n e) = Inr (True, d1)" using publish_fresh [OF x assms(7)] by (simp add: d1_def)
  have "\<not> present d1 (outcomeName oid)" using assms(8,9) by (simp add: d1_def)
  then have p2: "publish d1 (outcomeName oid) (outcome_json oid n out) = Inr (True, d2)" using publish_fresh [OF y] by (simp add: d2_def)
  have steps: "worker_step g leaseMs d (Completing oid n (Some out) Ending) (Completing oid n (Some out) Recording) d1"
    "worker_step g leaseMs d1 (Completing oid n (Some out) Recording) (Completing oid n (Some out) Completed) d2"
    by (rule worker_step.completes, simp add: p1 [unfolded e_def] p2 refuse_complete_def after_end_def assms(5))+
  have 1: "journal_step sha256 g leaseMs (d, ws) (d, ws(j \<mapsto> Completing oid n (Some out) Ending))"
    unfolding journal_step_def
    by (rule interleaved.started [of "worker_start sha256" d ws _ j], rule worker_start.complete [of ws i oid r eff n]) (rule assms)+
  note 2 = worker_moves [OF steps(1), of sha256 ws j]
  note 3 = worker_moves [OF steps(2), of sha256 ws j]
  have "readOutcome g d2 oid = Inr out" by (rule outcome_published [OF p2 assms(9,5)])
  moreover have "reachable_journal sha256 g leaseMs (d1, ws(j \<mapsto> Completing oid n (Some out) Recording))"
    using assms(1) 1 2 by (simp add: reachable_journal_def)
  moreover have "extends_dir d d2" using publish_extends [OF p1] publish_extends [OF p2] by (rule extends_trans)
  ultimately show ?thesis using 3 by blast
qed

section \<open>A sample run\<close>

text \<open>
  Worker 0 is issued the first attempt of an operation and stays silent; at the end of its lease worker 1 is issued the
  second attempt, and worker 2 completes it.
\<close>

definition sample_operation :: string where
  "sample_operation = replicate 64 (CHR ''a'')"

definition sample_sha :: "string \<Rightarrow> string" where
  "sample_sha _ = sample_operation"

definition sample_reservation :: "char \<Rightarrow> reservation" where
  "sample_reservation c =
     \<lparr>rv_key = replicate 64 c, rv_seller = CLAIM_PREFIX @ replicate 64 (CHR ''c''), rv_jobId = ''01234567890123456789012345'',
      rv_path = path_payments, rv_binding = replicate 64 (CHR ''b''), rv_requestHash = replicate 64 (CHR ''d'')\<rparr>"

definition sample_outcome :: wire_outcome where
  "sample_outcome = \<lparr>wo_status = 200, wo_text = ''{}''\<rparr>"

lemma sample_hashes: "is_hash sample_operation" "is_hash (replicate 64 (CHR ''1''))" "is_hash (replicate 64 (CHR ''2''))"
  "is_hash (replicate 64 (CHR ''b''))" "is_hash (replicate 64 (CHR ''d''))"
  by code_simp+

lemma sample_new_request:
  "\<not> present d (nonceName (replicate 64 c)) \<Longrightarrow> is_hash (replicate 64 c) \<Longrightarrow> 0 \<le> t \<Longrightarrow> t \<le> 1000 \<Longrightarrow>
   new_request d sample_operation (sample_reservation c) t 1000"
  using sample_hashes by (simp add: new_request_def sample_reservation_def valid_lease_def max_safe_def)

lemma sample_route: "is_claim (CLAIM_PREFIX @ replicate 64 (CHR ''c''))" "isCanonicalJobId ''01234567890123456789012345''"
  "is_effect_route path_payments"
  by code_simp+

lemma sample_enters:
  assumes "is_hash (replicate 64 c)"
  shows "enter_reserve sample_sha (sample_reservation c) = Inr sample_operation"
proof -
  have "\<exists>t. canonicalize (JObj [(''seller'', JStr a), (''jobId'', JStr b), (''path'', JStr p)]) = Inr t" for a b p
    by (simp add: canonicalize_def canonValue_simps sorted_entries_def MAX_NESTING_DEPTH_def)
  then obtain t where "canonicalize (JObj [(''seller'', JStr (CLAIM_PREFIX @ replicate 64 (CHR ''c''))),
      (''jobId'', JStr ''01234567890123456789012345''), (''path'', JStr path_payments)]) = Inr t" by blast
  then show ?thesis
    using assms sample_hashes(4,5) sample_route
    by (simp add: enter_reserve_def operationOf_def sample_reservation_def sample_sha_def calling_def)
qed

abbreviation sample_reached :: "directory \<times> (nat \<rightharpoonup> journal_worker) \<Rightarrow> bool" where
  "sample_reached \<equiv> reachable_journal sample_sha (\<lambda>_. True) 1000"

abbreviation sample_worker :: "char \<Rightarrow> wire_effect \<Rightarrow> journal_worker" where
  "sample_worker c eff \<equiv> Reserving sample_operation (sample_reservation c) (Reserved eff)"

lemma sample_keys: "rv_key (sample_reservation c) = replicate 64 c" "rv_binding (sample_reservation c) = replicate 64 (CHR ''b'')"
  by (simp_all add: sample_reservation_def)

lemma sample_issued:
  "\<exists>d. sample_reached (d, Map.empty(0 \<mapsto> sample_worker (CHR ''1'') (New_Effect sample_operation 0 1000))) \<and>
    readAttempt d sample_operation 0 = Inr (lease_record 1000 (sample_reservation (CHR ''1'')) 0 0) \<and>
    (\<forall>name. present d name \<longleftrightarrow> name = nonceName (replicate 64 (CHR ''1'')) \<or> name = attemptName sample_operation 0)"
proof -
  note n = sample_new_request [of "[]" "CHR ''1''" 0, simplified, OF sample_hashes(2)]
  obtain d where d: "runs_to (\<lambda>_. True) 1000 sample_operation (sample_reservation (CHR ''1'')) 0 (Publishing_Key, [])
      (Reserved (New_Effect sample_operation 0 1000), d)"
    "readAttempt d sample_operation 0 = Inr (lease_record 1000 (sample_reservation (CHR ''1'')) 0 0)"
    "\<forall>name. present d name \<longleftrightarrow> name = nonceName (replicate 64 (CHR ''1'')) \<or> name = attemptName sample_operation 0"
    using first_attempt_runs [OF _ n, of "\<lambda>_. True"] by (auto simp: all_records_def sample_keys)
  have "sample_reached (d, Map.empty(0 \<mapsto> sample_worker (CHR ''1'') (New_Effect sample_operation 0 1000)))"
    by (rule runs_system [OF d(1)])
      (simp_all add: valid_lease_def sample_enters sample_hashes reachable_journal_def)
  then show ?thesis using d(2,3) by blast
qed

lemma sample_lapsed:
  "\<exists>d. sample_reached (d, Map.empty(0 \<mapsto> sample_worker (CHR ''1'') (New_Effect sample_operation 0 1000))) \<and>
    lapsed (\<lambda>_. True) d sample_operation 1 1000 0 \<and> new_request d sample_operation (sample_reservation (CHR ''2'')) 1000 1000 \<and>
    bound_to d sample_operation (rv_binding (sample_reservation (CHR ''2''))) \<and>
    (\<forall>name. present d name \<longleftrightarrow> name = nonceName (replicate 64 (CHR ''1'')) \<or> name = attemptName sample_operation 0)"
proof -
  obtain d where d: "sample_reached (d, Map.empty(0 \<mapsto> sample_worker (CHR ''1'') (New_Effect sample_operation 0 1000)))"
    "readAttempt d sample_operation 0 = Inr (lease_record 1000 (sample_reservation (CHR ''1'')) 0 0)"
    "\<forall>name. present d name \<longleftrightarrow> name = nonceName (replicate 64 (CHR ''1'')) \<or> name = attemptName sample_operation 0"
    using sample_issued by blast
  have "journal_ok (\<lambda>_. True) d" using journal_invD(1) [OF journal_reachable_inv [OF d(1)]] .
  then have "lapsed (\<lambda>_. True) d sample_operation 1 1000 0"
    using d(2,3) by (simp add: lapsed_def MAX_SAFE_def MAX_EFFECT_ATTEMPTS_def lease_record_def sample_hashes)
  moreover have "nonceName (replicate 64 (CHR ''2'')) \<noteq> nonceName (replicate 64 (CHR ''1''))" by (simp add: nonceName_def)
  then have "new_request d sample_operation (sample_reservation (CHR ''2'')) 1000 1000"
    by (intro sample_new_request) (simp_all add: d(3) sample_hashes)
  moreover have "bound_to d sample_operation (rv_binding (sample_reservation (CHR ''2'')))"
    using d(2) by (simp add: bound_to_def sample_keys lease_record_def)
  ultimately show ?thesis using d(1,3) by blast
qed

abbreviation sample_workers :: "nat \<rightharpoonup> journal_worker" where
  "sample_workers \<equiv> Map.empty(0 \<mapsto> sample_worker (CHR ''1'') (New_Effect sample_operation 0 1000),
     1 \<mapsto> sample_worker (CHR ''2'') (Recover_Effect sample_operation 1 2000))"

lemma sample_recovered:
  "\<exists>d. sample_reached (d, sample_workers) \<and>
    readEnd (\<lambda>_. True) d sample_operation 0 = Inr \<lparr>ae_superseded = True, ae_outcome = None\<rparr> \<and>
    (\<forall>n. present d (attemptName sample_operation n) \<longleftrightarrow> n < 2) \<and>
    \<not> present d (endedName sample_operation 1) \<and> \<not> present d (outcomeName sample_operation)"
proof -
  obtain d where d: "sample_reached (d, Map.empty(0 \<mapsto> sample_worker (CHR ''1'') (New_Effect sample_operation 0 1000)))"
    and l: "lapsed (\<lambda>_. True) d sample_operation 1 1000 0" "new_request d sample_operation (sample_reservation (CHR ''2'')) 1000 1000"
      "bound_to d sample_operation (rv_binding (sample_reservation (CHR ''2'')))"
    and p: "\<forall>name. present d name \<longleftrightarrow> name = nonceName (replicate 64 (CHR ''1'')) \<or> name = attemptName sample_operation 0"
    using sample_lapsed by blast
  obtain d' where r: "runs_to (\<lambda>_. True) 1000 sample_operation (sample_reservation (CHR ''2'')) 1000 (Publishing_Key, d)
      (Reserved (Recover_Effect sample_operation 1 2000), d')"
    and e: "readEnd (\<lambda>_. True) d' sample_operation 0 = Inr \<lparr>ae_superseded = True, ae_outcome = None\<rparr>"
    and p': "\<forall>name. present d' name \<longleftrightarrow> present d name \<or> name = nonceName (replicate 64 (CHR ''2'')) \<or>
      name = endedName sample_operation 0 \<or> name = attemptName sample_operation 1"
    using recovery_runs [OF l] by (auto simp: sample_keys)
  have "sample_reached (d', sample_workers)"
    by (rule runs_system [OF r]) (use d in \<open>simp_all add: valid_lease_def sample_enters sample_hashes\<close>)
  moreover have "present d' (attemptName sample_operation n) \<longleftrightarrow> n < 2" for n
    using p p' by (auto simp: sample_hashes less_2_cases_iff)
  ultimately show ?thesis using e p p' by (auto simp: sample_hashes)
qed

lemma sample_completed:
  "\<exists>d1 d2. sample_reached (d1, sample_workers(2 \<mapsto> Completing sample_operation 1 (Some sample_outcome) Recording)) \<and>
    journal_step sample_sha (\<lambda>_. True) 1000 (d1, sample_workers(2 \<mapsto> Completing sample_operation 1 (Some sample_outcome) Recording))
      (d2, sample_workers(2 \<mapsto> Completing sample_operation 1 (Some sample_outcome) Completed)) \<and>
    readEnd (\<lambda>_. True) d2 sample_operation 0 = Inr \<lparr>ae_superseded = True, ae_outcome = None\<rparr> \<and>
    readOutcome (\<lambda>_. True) d2 sample_operation = Inr sample_outcome"
proof -
  obtain d where d: "sample_reached (d, sample_workers)" "\<not> present d (endedName sample_operation 1)" "\<not> present d (outcomeName sample_operation)"
    "readEnd (\<lambda>_. True) d sample_operation 0 = Inr \<lparr>ae_superseded = True, ae_outcome = None\<rparr>"
    using sample_recovered by blast
  have w: "sample_workers 1 = Some (sample_worker (CHR ''2'') (Recover_Effect sample_operation 1 2000))" "sample_workers 2 = None" by simp_all
  have a: "effect_attempt (Recover_Effect sample_operation 1 2000) = Some (sample_operation, 1)" by simp
  have "list_all (\<lambda>c. code c < 128) ''{}''" by code_simp
  then have o: "isOutcome (\<lambda>_. True) sample_outcome"
    by (simp add: isOutcome_def sample_outcome_def isSafeInteger_def max_safe_def utf8_ascii maxResponseBodyBytes_def del: utf8_simps)
  have n: "isSafeInteger (int 1)" by (simp add: isSafeInteger_def max_safe_def)
  show ?thesis using complete_system [OF d(1) w(1) a w(2) o n d(2,3) sample_hashes(1)] d(4) readEnd_mono by blast
qed

theorem lapsed_effect_recovered_witness:
  "\<exists>d d'. lapsed (\<lambda>_. True) d sample_operation 1 1000 0 \<and>
    runs_to (\<lambda>_. True) 1000 sample_operation (sample_reservation (CHR ''2'')) 1000 (Publishing_Key, d)
      (Reserved (Recover_Effect sample_operation 1 2000), d')"
proof -
  obtain d where l: "lapsed (\<lambda>_. True) d sample_operation 1 1000 0" "new_request d sample_operation (sample_reservation (CHR ''2'')) 1000 1000"
      "bound_to d sample_operation (rv_binding (sample_reservation (CHR ''2'')))"
    using sample_lapsed by blast
  show ?thesis using lapsed_effect_recovered [OF l] l(1) by auto
qed

theorem effect_attempts_exclusive_witness:
  "\<exists>d e. sample_reached (d, sample_workers) \<and> readEnd (\<lambda>_. True) d sample_operation 0 = Inr e \<and> ae_outcome e = None"
proof -
  obtain d where d: "sample_reached (d, sample_workers)" using sample_recovered by blast
  show ?thesis
    using effect_attempts_exclusive [OF d, of 0 1 sample_operation "sample_reservation (CHR ''1'')" "New_Effect sample_operation 0 1000" 0
        "sample_reservation (CHR ''2'')" "Recover_Effect sample_operation 1 2000" 1] d
    by auto
qed

theorem superseded_attempt_records_nothing_witness:
  "\<exists>d m f. readOutcome (\<lambda>_. True) d sample_operation = Inr sample_outcome \<and>
    m \<noteq> 0 \<and> readEnd (\<lambda>_. True) d sample_operation m = Inr f \<and> \<not> ae_superseded f \<and> ae_outcome f = Some sample_outcome"
proof -
  obtain d ws where d: "sample_reached (d, ws)" "readEnd (\<lambda>_. True) d sample_operation 0 = Inr \<lparr>ae_superseded = True, ae_outcome = None\<rparr>"
    "readOutcome (\<lambda>_. True) d sample_operation = Inr sample_outcome"
    using sample_completed by (meson reachable_journal_def rtranclp.rtrancl_into_rtrancl)
  show ?thesis using superseded_attempt_records_nothing [OF d(1) sample_hashes(1) d(2)] d(3) by auto
qed

theorem operation_binding_fixed_witness:
  "\<exists>d a. sample_reached (d, sample_workers) \<and> readAttempt d sample_operation 0 = Inr a \<and> at_binding a = replicate 64 (CHR ''b'')"
proof -
  obtain d where d: "sample_reached (d, sample_workers)" using sample_recovered by blast
  show ?thesis
    using operation_binding_fixed [OF d, of 0 sample_operation "sample_reservation (CHR ''1'')" "New_Effect sample_operation 0 1000" 1
        "sample_reservation (CHR ''2'')" "Recover_Effect sample_operation 1 2000"] d
    by (auto simp: sample_keys)
qed

theorem attemptCount_exact_witness:
  "\<exists>d. sample_reached (d, sample_workers) \<and> attemptCount d sample_operation = Inr (Some 2)"
proof -
  obtain d where d: "sample_reached (d, sample_workers)" "\<forall>n. present d (attemptName sample_operation n) \<longleftrightarrow> n < 2"
    using sample_recovered by blast
  show ?thesis using attemptCount_exact [OF journal_invD(1) [OF journal_reachable_inv [OF d(1)]] d(2)] d(1) by (auto simp: MAX_SAFE_def)
qed

theorem reservation_ends_witness:
  "\<exists>k \<le> 126. finished (((\<lambda>pc. fst (reserve_step (\<lambda>_. True) 1000 sample_operation (sample_reservation (CHR ''1'')) 0 [] pc)) ^^ k) Publishing_Key)"
  by (rule reservation_ends [of "\<lambda>k. ((\<lambda>pc. fst (reserve_step (\<lambda>_. True) 1000 sample_operation (sample_reservation (CHR ''1'')) 0 [] pc)) ^^ k) Publishing_Key"
        "\<lambda>_. True" 1000 sample_operation "sample_reservation (CHR ''1'')" "\<lambda>_. 0" "\<lambda>_. []"]) simp_all

lemma unused_nonce: "\<exists>k. \<not> present d (nonceName k)"
proof -
  have "inj nonceName" by (simp add: nonceName_def inj_on_def)
  then have "infinite (range nonceName)" using finite_imageD infinite_UNIV_listI by blast
  moreover have "finite {name. present d name}" using finite_dom_map_of [of d] by (simp add: present_def dom_def)
  ultimately show ?thesis by (metis finite_subset image_subsetI mem_Collect_eq)
qed

theorem effect_outcome_final_witness:
  "\<exists>d r. readOutcome (\<lambda>_. True) d sample_operation = Inr sample_outcome \<and>
     served (\<lambda>_. True) 1000 sample_operation r (replicate 4 (2000, d)) Publishing_Key =
       Reserved (Completed_Effect sample_operation sample_outcome)"
proof -
  let ?ws = "sample_workers(2 \<mapsto> Completing sample_operation 1 (Some sample_outcome) Completed)"
  obtain d where d: "sample_reached (d, ?ws)" "readOutcome (\<lambda>_. True) d sample_operation = Inr sample_outcome"
    using sample_completed by (meson reachable_journal_def rtranclp.rtrancl_into_rtrancl)
  obtain k where k: "\<not> present d (nonceName k)" using unused_nonce by blast
  let ?r = "(sample_reservation (CHR ''3''))\<lparr>rv_key := k\<rparr>"
  have "?ws 1 = Some (sample_worker (CHR ''2'') (Recover_Effect sample_operation 1 2000))" by simp
  then have b: "bound_to d sample_operation (rv_binding ?r)"
    using operation_binding_fixed [OF d(1)] by (fastforce simp: bound_to_def sample_keys)
  have v: "length (replicate 4 (2000, d)) = 4 \<and> \<not> present (snd (hd (replicate 4 (2000, d)))) (nonceName (rv_key ?r)) \<and>
      (\<forall>(now, x) \<in> set (replicate 4 (2000, d)). isSafeInteger now \<and> 0 \<le> now \<and>
        (\<exists>ws. (journal_step sample_sha (\<lambda>_. True) 1000)\<^sup>*\<^sup>* (d, ?ws) (x, ws)))"
    using k by (auto simp: isSafeInteger_def max_safe_def)
  have "served (\<lambda>_. True) 1000 sample_operation ?r (replicate 4 (2000, d)) Publishing_Key =
      Reserved (Completed_Effect sample_operation sample_outcome)"
  proof -
    have "readOutcome (\<lambda>_. True) (fst (d, ?ws)) sample_operation = Inr sample_outcome" using d(2) by simp
    note final = effect_outcome_final [OF d(1) sample_hashes(1) this rtranclp.rtrancl_refl]
    show ?thesis using final [THEN conjunct2, THEN conjunct2, THEN conjunct2, rule_format, OF v] b by simp
  qed
  then show ?thesis using d(2) by blast
qed

theorem journal_refines_register_witness:
  "\<exists>s t. sample_reached s \<and> journal_step sample_sha (\<lambda>_. True) 1000 s t \<and>
    register_step (effect_register (\<lambda>_. True) s) (effect_register (\<lambda>_. True) t)"
proof -
  obtain s t where "sample_reached s" "journal_step sample_sha (\<lambda>_. True) 1000 s t" using sample_completed by blast
  then show ?thesis using journal_refines_register by blast
qed

end
