(* ===== verification/Dacs_Artifacts.thy ===== *)
theory Dacs_Artifacts
  imports Dacs_Evidence
begin

text \<open>
  The structural gates of the documents two parties exchange before a trade
  (\<^verbatim>\<open>src/src/artifacts/validators.ts\<close>): identity bundles, requirements, prices, deliverables, the
  phases of a listing and the listing itself. A document is a JSON value. The host name check of claim
  references and \<^verbatim>\<open>new URL(v)\<close> with the protocol and host tests on it are parameters, collected in
  \<open>artifact_env\<close>.
\<close>

record artifact_env =
  av_hostname :: "string \<Rightarrow> bool"
  av_httpsUrl :: "string \<Rightarrow> bool"

section \<open>Plain values\<close>

text \<open>\<^verbatim>\<open>v?.k\<close>.\<close>

definition dot :: "json \<Rightarrow> string \<Rightarrow> json" where
  "dot v k = (case v of JObj kvs \<Rightarrow> member_of kvs k | _ \<Rightarrow> JUndefined)"

fun isBool :: "json \<Rightarrow> bool" where
  "isBool (JBool _) = True"
| "isBool _ = False"

fun isObj :: "json \<Rightarrow> bool" where
  "isObj (JObj _) = True"
| "isObj _ = False"

definition isStrArray :: "json \<Rightarrow> bool" where
  "isStrArray = arr_where (list_all isStr)"

definition isExactWireArray :: "(json \<Rightarrow> bool) \<Rightarrow> json \<Rightarrow> bool" where
  "isExactWireArray validate = arr_where (list_all validate)"

text \<open>A text of code units below 256 has no lone surrogate, so \<^verbatim>\<open>isSafeJsonString\<close> holds.\<close>

fun isExactJsonValue :: "nat \<Rightarrow> json \<Rightarrow> bool" where
  "isExactJsonValue depth JNull = True"
| "isExactJsonValue depth (JBool b) = True"
| "isExactJsonValue depth (JStr s) = True"
| "isExactJsonValue depth (JNum n) = (case n of JInt i \<Rightarrow> isSafeInteger i | JFrac t \<Rightarrow> True | JNonFinite \<Rightarrow> False)"
| "isExactJsonValue depth (JArr xs) = (depth < MAX_NESTING_DEPTH \<and> list_all (isExactJsonValue (Suc depth)) xs)"
| "isExactJsonValue depth (JObj kvs) = (depth < MAX_NESTING_DEPTH \<and> list_all (\<lambda>kv. isExactJsonValue (Suc depth) (snd kv)) kvs)"
| "isExactJsonValue depth _ = False"

definition isExactJsonRecord :: "json \<Rightarrow> bool" where
  "isExactJsonRecord v \<longleftrightarrow> isObj v \<and> isExactJsonValue 0 v"

definition isCanonicalNonBlankStr :: "json \<Rightarrow> bool" where
  "isCanonicalNonBlankStr = str_where (\<lambda>s. s \<noteq> [] \<and> trim s = s)"

text \<open>\<^verbatim>\<open>/^sha256:[0-9a-f]{64}$/\<close>, beside the bare digest.\<close>

definition isIdentityBundleHash :: "json \<Rightarrow> bool" where
  "isIdentityBundleHash v \<longleftrightarrow> isSha256 v \<or> str_where (\<lambda>s. startsWith s ''sha256:'' \<and> is_hash (drop 7 s)) v"

definition isExactComponentSignature :: "json \<Rightarrow> bool" where
  "isExactComponentSignature v \<longleftrightarrow>
     obj_where (\<lambda>kvs. hasExactWireKeys kvs [''algorithm'', ''signer'', ''value''] []) v \<and> isComponentSignature v \<and>
     isCanonicalClaimRef (dot v ''signer'')"

definition isExactLegacyComponentSignature :: "json \<Rightarrow> bool" where
  "isExactLegacyComponentSignature v \<longleftrightarrow>
     obj_where (\<lambda>kvs. hasOnlyKeys kvs [''algorithm'', ''signer'', ''value'']) v \<and> isComponentSignature v"

definition isSafeUint :: "json \<Rightarrow> bool" where
  "isSafeUint = isNonNegativeSafeInt"

definition isOptionalStr :: "json \<Rightarrow> bool" where
  "isOptionalStr = absent_or isStr"

definition no_line_end :: "string \<Rightarrow> bool" where
  "no_line_end s \<longleftrightarrow> list_all (\<lambda>c. c \<noteq> CHR 0x0A \<and> c \<noteq> CHR 0x0D) s"

text \<open>\<^verbatim>\<open>/^[a-z][a-z0-9-]*:.+$/\<close>, without surrounding white space.\<close>

definition is_claim_ref :: "string \<Rightarrow> bool" where
  "is_claim_ref s \<longleftrightarrow>
     (case break_at (CHR '':'') s of
        (scheme, Some rest) \<Rightarrow> is_scheme scheme \<and> rest \<noteq> [] \<and> no_line_end rest
      | _ \<Rightarrow> False) \<and> trim s = s"

definition isClaimRef :: "json \<Rightarrow> bool" where
  "isClaimRef = str_where is_claim_ref"

definition isRecordOfStrings :: "json \<Rightarrow> bool" where
  "isRecordOfStrings = obj_where (list_all (\<lambda>kv. isStr (snd kv)))"

definition isListingPublicEndpoint :: "artifact_env \<Rightarrow> json \<Rightarrow> bool" where
  "isListingPublicEndpoint env = str_where (av_httpsUrl env)"

section \<open>Identity bundles\<close>

definition isVerifyResultRef :: "json \<Rightarrow> bool" where
  "isVerifyResultRef = obj_where (\<lambda>v.
     hasExactWireKeys v [''anchor'', ''contentHash'', ''recipeVersion''] [] \<and>
     isAttestationRef (JObj [(''anchor'', member_of v ''anchor''), (''contentHash'', member_of v ''contentHash'')]) \<and>
     isPositiveSafeInt (member_of v ''recipeVersion''))"

definition isBundleClaim :: "json \<Rightarrow> bool" where
  "isBundleClaim = obj_where (\<lambda>v.
     isClaimRef (member_of v ''ref'') \<and> absent_or isVerifyResultRef (member_of v ''verifiedBy'') \<and>
     absent_or isSafeUint (member_of v ''issuedAt'') \<and> absent_or isSafeUint (member_of v ''expiresAt'') \<and>
     absent_or isObj (member_of v ''metadata''))"

definition isPresentation :: "json \<Rightarrow> bool" where
  "isPresentation = obj_where (\<lambda>v.
     if member_of v ''kind'' = JStr ''siwd'' then
       isStr (member_of v ''message'') \<and> isStr (member_of v ''signature'') \<and> isStr (member_of v ''address'')
     else if member_of v ''kind'' = JStr ''per-claim'' then
       arr_where (\<lambda>sigs. sigs \<noteq> [] \<and>
         list_all (obj_where (\<lambda>e. isClaimRef (member_of e ''ref'') \<and> isStr (member_of e ''signature''))) sigs)
         (member_of v ''signatures'')
     else if member_of v ''kind'' = JStr ''session-key'' then
       isStr (member_of v ''key'') \<and> isStr (member_of v ''signature'') \<and> isOptionalStr (member_of v ''rootBinding'')
     else
       member_of v ''kind'' = JStr ''sr1-root'' \<and> isClaimRef (member_of v ''rootClaim'') \<and>
       isStr (member_of v ''aggregateSignature''))"

text \<open>\<^verbatim>\<open>sameCanonicalClaimIdentity\<close> on members that are not texts is false.\<close>

fun same_identity :: "artifact_env \<Rightarrow> json \<Rightarrow> json \<Rightarrow> bool" where
  "same_identity env (JStr a) (JStr b) = sameCanonicalClaimIdentity (av_hostname env) a b"
| "same_identity env _ _ = False"

definition isIdentityBundle :: "artifact_env \<Rightarrow> json \<Rightarrow> bool" where
  "isIdentityBundle env = obj_where (\<lambda>v.
     member_of v ''bundleVersion'' = JStr ''1'' \<and> isClaimRef (member_of v ''presentedBy'') \<and>
     isSafeUint (member_of v ''presentedAt'') \<and> absent_or isStr (member_of v ''sessionNonce'') \<and>
     arr_where (\<lambda>claims. claims \<noteq> [] \<and> list_all isBundleClaim claims \<and>
       list_ex (\<lambda>claim. isObj claim \<and> same_identity env (dot claim ''ref'') (member_of v ''presentedBy'')) claims)
       (member_of v ''claims'') \<and>
     isPresentation (member_of v ''presentation''))"

text \<open>\<^verbatim>\<open>identityBundleHash\<close> (\<^verbatim>\<open>identity/bundle.ts\<close>): the presentation is left out of the hashed form.\<close>

definition identityBundleHash :: "(string \<Rightarrow> string) \<Rightarrow> (string \<times> json) list \<Rightarrow> string res" where
  "identityBundleHash sha256Hex bundle =
     bindR (canonicalize (JObj (filter (\<lambda>kv. fst kv \<noteq> ''presentation'') bundle))) (\<lambda>t. Inr (sha256Hex t))"

definition isClaimRequirement :: "json \<Rightarrow> bool" where
  "isClaimRequirement = obj_where (\<lambda>v.
     str_where is_scheme (member_of v ''scheme'') \<and> isBool (member_of v ''verificationRequired'') \<and>
     absent_or isSafeUint (member_of v ''maxAge'') \<and> absent_or isPositiveSafeInt (member_of v ''recipeVersion'') \<and>
     absent_or isObj (member_of v ''parameters''))"

definition isBundleRequirement :: "json \<Rightarrow> bool" where
  "isBundleRequirement = obj_where (\<lambda>v.
     member_of v ''requirementVersion'' = JStr ''1'' \<and> arr_where (list_all isClaimRequirement) (member_of v ''required'') \<and>
     absent_or (arr_where (list_all (arr_where (\<lambda>group. group \<noteq> [] \<and> list_all isClaimRequirement group)))) (member_of v ''oneOf'') \<and>
     absent_or (isOneOf [''siwd'', ''sr1-root'', ''per-claim'', ''session-key'', ''any'']) (member_of v ''preferredPresentation'') \<and>
     absent_or (str_where is_scheme) (member_of v ''primaryClaimSelector''))"

section \<open>Prices and deliverables\<close>

definition isPriceTerm :: "json \<Rightarrow> bool" where
  "isPriceTerm = obj_where (\<lambda>v.
     isNonEmptyStr (member_of v ''currency'') \<and> absent_or isStr (member_of v ''unit'') \<and>
     str_where (\<lambda>a. assertPositiveAmount a = Inr a) (member_of v ''amount''))"

definition AUCTION_SELECTION :: "string list" where
  "AUCTION_SELECTION = [''lowest-price'', ''highest-price'', ''first-acceptable'']"

text \<open>\<^verbatim>\<open>/^rule-ref:[0-9a-f]{64}:.+/\<close>.\<close>

definition is_rule_ref :: "string \<Rightarrow> bool" where
  "is_rule_ref s \<longleftrightarrow>
     startsWith s ''rule-ref:'' \<and> is_hash (take 64 (drop 9 s)) \<and>
     (case drop 73 s of colon # c # _ \<Rightarrow> colon = CHR '':'' \<and> no_line_end [c] | _ \<Rightarrow> False)"

definition isSelectionRule :: "json \<Rightarrow> bool" where
  "isSelectionRule v \<longleftrightarrow> isOneOf AUCTION_SELECTION v \<or> str_where is_rule_ref v"

text \<open>\<^verbatim>\<open>v >= 0\<close> and \<^verbatim>\<open>v < 100\<close>; a fraction is given by its text, and one with an exponent is below ten.\<close>

definition js_nonneg :: "json \<Rightarrow> bool" where
  "js_nonneg v = (case v of JNum (JInt i) \<Rightarrow> 0 \<le> i | JNum (JFrac t) \<Rightarrow> \<not> (t \<noteq> [] \<and> hd t = CHR ''-'') | _ \<Rightarrow> False)"

definition js_below_hundred :: "json \<Rightarrow> bool" where
  "js_below_hundred v =
     (case v of
        JNum (JInt i) \<Rightarrow> i < 100
      | JNum (JFrac t) \<Rightarrow> \<not> js_nonneg v \<or> digits_val (takeWhile is_digit t) < 100
      | _ \<Rightarrow> False)"

definition isPricingSpec :: "json \<Rightarrow> bool" where
  "isPricingSpec = obj_where (\<lambda>v.
     if member_of v ''kind'' = JStr ''fixed'' then isPriceTerm (member_of v ''price'')
     else if member_of v ''kind'' = JStr ''negotiable'' then
       isPriceTerm (member_of v ''bandCenter'') \<and>
       isNum (member_of v ''minPct'') \<and> js_nonneg (member_of v ''minPct'') \<and> js_below_hundred (member_of v ''minPct'') \<and>
       isNum (member_of v ''maxPct'') \<and> js_nonneg (member_of v ''maxPct'')
     else if member_of v ''kind'' = JStr ''auction'' then
       absent_or isPriceTerm (member_of v ''reservePrice'') \<and> isSelectionRule (member_of v ''selectionRule'')
     else
       member_of v ''kind'' = JStr ''metered'' \<and> isPriceTerm (member_of v ''unitPrice'') \<and> isNonEmptyStr (member_of v ''unit'') \<and>
       absent_or (\<lambda>m. isPriceTerm m \<and> dot m ''currency'' = dot (member_of v ''unitPrice'') ''currency'') (member_of v ''minTotal''))"

text \<open>\<^verbatim>\<open>/^0x[0-9a-fA-F]{40}$/\<close>.\<close>

definition is_evm_address :: "string \<Rightarrow> bool" where
  "is_evm_address s \<longleftrightarrow>
     startsWith s ''0x'' \<and> length s = 42 \<and> list_all (\<lambda>c. is_hex_lower c \<or> is_hex_upper c) (drop 2 s)"

definition isVerificationMethod :: "json \<Rightarrow> bool" where
  "isVerificationMethod = obj_where (\<lambda>v. let kind = member_of v ''kind'' in
     if kind = JStr ''verifiable-credential'' then
       absent_or (arr_where (list_all isClaimRef)) (member_of v ''issuerAllowList'') \<and> isOptionalStr (member_of v ''schemaUrl'')
     else if kind = JStr ''tlsnotary'' then
       isCanonicalNonBlankStr (member_of v ''endpoint'') \<and> isOptionalStr (member_of v ''sessionTemplate'')
     else if kind = JStr ''zktls'' then
       isCanonicalNonBlankStr (member_of v ''provider'') \<and> isCanonicalNonBlankStr (member_of v ''programId'')
     else if kind = JStr ''consensus-backed-proxy'' then
       obj_where (\<lambda>e. isOneOf [''GET'', ''POST''] (member_of e ''method'') \<and> isCanonicalNonBlankStr (member_of e ''urlTemplate'') \<and>
         absent_or isRecordOfStrings (member_of e ''headers'') \<and> isOptionalStr (member_of e ''body'')) (member_of v ''endpoint'')
     else if kind = JStr ''oauth-attested'' then
       isCanonicalNonBlankStr (member_of v ''provider'') \<and> arr_where (list_all isCanonicalNonBlankStr) (member_of v ''scopes'') \<and>
       isSafeUint (member_of v ''maxTokenAgeSec'')
     else if kind = JStr ''evm-rpc'' then
       isPositiveSafeInt (member_of v ''chainId'') \<and> str_where is_evm_address (member_of v ''contract'') \<and>
       isCanonicalNonBlankStr (member_of v ''method'') \<and> absent_or is_array (member_of v ''args'')
     else if kind = JStr ''domain-tls-control'' then
       isOneOf [''http-01'', ''dns-01'', ''tls-alpn-01''] (member_of v ''challengeType'')
     else kind = JStr ''self-signed'' \<or> kind = JStr ''demos-gcr-domain'')"

definition isDeliverableSpec :: "json \<Rightarrow> bool" where
  "isDeliverableSpec = obj_where (\<lambda>v. let kind = member_of v ''kind'' in
     if kind = JStr ''storage-program'' then
       isOptionalStr (member_of v ''schemaUrl'') \<and> absent_or isSafeUint (member_of v ''expectedSizeBytes'') \<and>
       absent_or (isOneOf [''public'', ''buyer-only'', ''encrypt-to-buyer'']) (member_of v ''accessModel'')
     else if kind = JStr ''entitlement'' then
       isPositiveSafeInt (member_of v ''durationSec'') \<and> isBool (member_of v ''renewable'')
     else if kind = JStr ''attested-payload'' then
       isNonEmptyStr (member_of v ''payloadFormat'') \<and> absent_or isVerificationMethod (member_of v ''verificationMethod'') \<and>
       absent_or isSafeUint (member_of v ''expectedSizeBytes'')
     else
       kind = JStr ''external'' \<and> isStr (member_of v ''description'') \<and>
       absent_or isVerificationMethod (member_of v ''verificationMethod''))"

definition isPaymentRailRef :: "json \<Rightarrow> bool" where
  "isPaymentRailRef v \<longleftrightarrow>
     isExactJsonRecord v \<and> isNonEmptyStr (dot v ''railId'') \<and> absent_or isPositiveSafeInt (dot v ''railVersion'') \<and>
     absent_or isExactJsonRecord (dot v ''parameters'')"

section \<open>Phases and terms\<close>

definition NO_PARAMETER_PHASES :: "string list" where
  "NO_PARAMETER_PHASES =
     [''vet-credentials'', ''negotiate-fixed-price'', ''commit-agreement'', ''commit-payee-bound-agreement'',
      ''deliver-storage-program'', ''deliver-entitlement'', ''deliver-attested-payload'']"

text \<open>The integer of a number that \<open>isSafeUint\<close> accepts.\<close>

fun uint_of :: "json \<Rightarrow> int" where
  "uint_of (JNum (JInt n)) = n"
| "uint_of _ = 0"

definition rfq_phase_parameters :: "(string \<times> json) list \<Rightarrow> bool" where
  "rfq_phase_parameters ps \<longleftrightarrow>
     isSafeUint (member_of ps ''maxTurns'') \<and> 2 \<le> uint_of (member_of ps ''maxTurns'') \<and>
     isPositiveSafeInt (member_of ps ''timeoutSec'') \<and> isOptionalStr (member_of ps ''channelSubnet'') \<and>
     absent_or (isOneOf [''buyer'', ''seller'']) (member_of ps ''rfqInitiator'') \<and>
     absent_or isBool (member_of ps ''fixedPriceFallback'')"

definition sealed_phase_parameters :: "string \<Rightarrow> (string \<times> json) list \<Rightarrow> bool" where
  "sealed_phase_parameters kind ps \<longleftrightarrow>
     isSafeUint (member_of ps ''commitDeadline'') \<and> isSafeUint (member_of ps ''revealWindow'') \<and>
     60 \<le> uint_of (member_of ps ''revealWindow'') \<and> isSelectionRule (member_of ps ''selectionRule'') \<and>
     isOptionalStr (member_of ps ''channelSubnet'') \<and>
     (if kind = ''negotiate-sealed-envelope''
      then member_of ps ''auctionMode'' = JUndefined \<or> member_of ps ''auctionMode'' = JStr ''demand''
      else member_of ps ''auctionMode'' = JStr ''procurement'')"

definition phase_parameters_ok :: "string \<Rightarrow> json \<Rightarrow> bool" where
  "phase_parameters_ok kind parameters =
     (if kind \<in> set NO_PARAMETER_PHASES then parameters = JUndefined
      else if kind = ''rate'' then absent_or (obj_where (\<lambda>ps. absent_or isBool (member_of ps ''required''))) parameters
      else obj_where (\<lambda>ps.
        if kind = ''pay-alternative'' then
          hasExactWireKeys ps [''alternatives''] [] \<and>
          arr_where (\<lambda>alts. 2 \<le> length alts \<and> list_all isPaymentRailRef alts) (member_of ps ''alternatives'')
        else if startsWith kind ''pay-'' then isNonEmptyStr (member_of ps ''rail'')
        else if kind = ''negotiate-rfq'' then rfq_phase_parameters ps
        else if kind = ''negotiate-sealed-envelope'' \<or> kind = ''negotiate-sealed-envelope-procurement''
        then sealed_phase_parameters kind ps
        else False) parameters)"

definition isPhaseStep :: "json \<Rightarrow> bool" where
  "isPhaseStep = obj_where (\<lambda>v.
     str_where (\<lambda>kind. kind \<in> set PHASE_TYPES \<and> phase_parameters_ok kind (member_of v ''parameters'')) (member_of v ''kind''))"

definition isPhaseStepEnvelope :: "json \<Rightarrow> bool" where
  "isPhaseStepEnvelope = obj_where (\<lambda>v.
     isNonEmptyStr (member_of v ''kind'') \<and> absent_or isObj (member_of v ''parameters''))"

definition isListingTerms :: "json \<Rightarrow> bool" where
  "isListingTerms = obj_where (\<lambda>v.
     isOptionalStr (member_of v ''termsOfServiceUrl'') \<and> isOptionalStr (member_of v ''termsOfServiceHash'') \<and>
     absent_or (arr_where (list_all (str_where (\<lambda>s. length s = 2 \<and> list_all is_upper s)))) (member_of v ''jurisdictions'') \<and>
     absent_or (\<lambda>r. isOneOf [''buyer-jurisdiction'', ''seller-jurisdiction''] r \<or>
       str_where (\<lambda>s. startsWith s ''rule-ref:'' \<and> drop 9 s \<noteq> [] \<and> no_line_end [s ! 9]) r) (member_of v ''conflictOfLawsRule'') \<and>
     absent_or isPositiveSafeInt (member_of v ''deadlineSecAfterCommit'') \<and>
     absent_or (\<lambda>m. m = JStr ''auto-accept'') (member_of v ''acceptanceModel'') \<and>
     absent_or (isOneOf [''none'', ''pre-commit'', ''with-fee'']) (member_of v ''cancellationPolicy'') \<and>
     absent_or isPositiveSafeInt (member_of v ''retentionYears'') \<and>
     absent_or (isOneOf [''none'', ''encrypted-anchored-recommended'', ''encrypted-anchored-required''])
       (member_of v ''transcriptDisclosurePolicy''))"

section \<open>The pipeline of a listing\<close>

fun elements :: "json \<Rightarrow> json list" where
  "elements (JArr xs) = xs"
| "elements _ = []"

fun text_of :: "json \<Rightarrow> string" where
  "text_of (JStr s) = s"
| "text_of _ = []"

text \<open>The text of a value inside a template literal.\<close>

fun template_text :: "json \<Rightarrow> string" where
  "template_text (JStr s) = s"
| "template_text JNull = ''null''"
| "template_text JUndefined = ''undefined''"
| "template_text (JBool b) = (if b then ''true'' else ''false'')"
| "template_text (JNum (JInt i)) = int_text i"
| "template_text (JNum (JFrac t)) = t"
| "template_text (JNum JNonFinite) = ''NaN''"
| "template_text (JBigInt i) = int_text i"
| "template_text (JArr xs) = joinWith (CHR '','') (map (\<lambda>x. if x = JNull \<or> x = JUndefined then [] else template_text x) xs)"
| "template_text (JObj kvs) = ''[object Object]''"

definition phase_kind :: "json \<Rightarrow> string" where
  "phase_kind phase = text_of (dot phase ''kind'')"

definition phase_rail :: "json \<Rightarrow> json" where
  "phase_rail phase = dot (dot phase ''parameters'') ''rail''"

text \<open>\<^verbatim>\<open>pipeline.map((phase, index) => ({ phase, index })).filter(({ phase }) => phase.kind.startsWith(prefix))\<close>.\<close>

definition phases_with :: "string \<Rightarrow> json list \<Rightarrow> (nat \<times> json) list" where
  "phases_with prefix pipeline = filter (\<lambda>(i, phase). startsWith (phase_kind phase) prefix) (enumerate 0 pipeline)"

definition pattern_fits_pricing :: "string \<Rightarrow> json \<Rightarrow> bool" where
  "pattern_fits_pricing pattern priceKind \<longleftrightarrow>
     \<not> (pattern = ''negotiate-fixed-price'' \<and> \<not> isOneOf [''fixed'', ''negotiable'', ''metered''] priceKind) \<and>
     \<not> (pattern = ''negotiate-rfq'' \<and> \<not> isOneOf [''negotiable'', ''metered''] priceKind) \<and>
     \<not> ((pattern = ''negotiate-sealed-envelope'' \<or> pattern = ''negotiate-sealed-envelope-procurement'') \<and>
        priceKind \<noteq> JStr ''auction'')"

definition delivery_is_attestable :: "(string \<times> json) list \<Rightarrow> json list \<Rightarrow> bool" where
  "delivery_is_attestable listing pipeline \<longleftrightarrow>
     list_ex (\<lambda>phase. startsWith (phase_kind phase) ''deliver-'') pipeline \<and>
     (list_ex (\<lambda>phase. phase_kind phase = ''deliver-attested-payload'') pipeline \<longrightarrow>
        (let deliverable = dot (member_of listing ''offering'') ''deliverable'' in
         isObj deliverable \<and> dot deliverable ''kind'' = JStr ''attested-payload'' \<and>
         isVerificationMethod (dot deliverable ''verificationMethod'')))"

text \<open>The loop over \<^verbatim>\<open>phaseKindByRail\<close>: pay phases that name one rail are of one kind.\<close>

fun rail_kinds_agree :: "(string \<times> string) list \<Rightarrow> json list \<Rightarrow> bool" where
  "rail_kinds_agree kinds [] = True"
| "rail_kinds_agree kinds (phase # phases) =
     (case phase_rail phase of
        JStr railId \<Rightarrow>
          (case map_of kinds railId of
             Some priorKind \<Rightarrow> priorKind = phase_kind phase \<and> rail_kinds_agree ((railId, phase_kind phase) # kinds) phases
           | None \<Rightarrow> rail_kinds_agree ((railId, phase_kind phase) # kinds) phases)
      | _ \<Rightarrow> False)"

definition alternatives_bind :: "json list \<Rightarrow> json \<Rightarrow> bool" where
  "alternatives_bind rails phase =
     arr_where (\<lambda>alternatives. 2 \<le> length alternatives \<and>
       (case (mapR canonicalize rails, mapR canonicalize alternatives) of
          (Inr rail_texts, Inr alts) \<Rightarrow> distinct alts \<and> list_all (\<lambda>entry. count_list rail_texts entry = 1) alts
        | _ \<Rightarrow> False))
       (dot (dot phase ''parameters'') ''alternatives'')"

definition rails_bind :: "json \<Rightarrow> json list \<Rightarrow> bool" where
  "rails_bind acceptedRails pipeline \<longleftrightarrow>
     (let alternativePhases = filter (\<lambda>phase. phase_kind phase = ''pay-alternative'') pipeline;
          payPhases = filter (\<lambda>phase. startsWith (phase_kind phase) ''pay-'' \<and> phase_kind phase \<noteq> ''pay-alternative'') pipeline;
          rails = elements acceptedRails
      in (if alternativePhases \<noteq> [] then
            length alternativePhases = 1 \<and> payPhases = [] \<and> rails \<noteq> [] \<and> alternatives_bind rails (hd alternativePhases)
          else payPhases \<noteq> [] \<longrightarrow>
            rails \<noteq> [] \<and> list_all (\<lambda>phase. list_ex (\<lambda>rail. dot rail ''railId'' = phase_rail phase) rails) payPhases \<and>
            rail_kinds_agree [] payPhases) \<and>
         (acceptedRails \<noteq> JUndefined \<longrightarrow> (case mapR canonicalize rails of Inl _ \<Rightarrow> False | Inr texts \<Rightarrow> distinct texts)))"

definition pipelineIsCoherent :: "(string \<times> json) list \<Rightarrow> bool \<Rightarrow> bool" where
  "pipelineIsCoherent listing includeRailBinding =
     (let pipeline = elements (member_of listing ''pipeline'') in
      case (phases_with ''negotiate-'' pipeline, phases_with ''commit-'' pipeline) of
        ([(i, negotiate)], [(j, _)]) \<Rightarrow>
          j = i + 1 \<and> pattern_fits_pricing (phase_kind negotiate) (dot (member_of listing ''pricing'') ''kind'') \<and>
          delivery_is_attestable listing pipeline \<and>
          (includeRailBinding \<longrightarrow> rails_bind (member_of listing ''acceptedRails'') pipeline)
      | _ \<Rightarrow> False)"

definition isListingPipelineValid :: "json \<Rightarrow> bool" where
  "isListingPipelineValid = obj_where (\<lambda>v.
     arr_where (\<lambda>pipeline. pipeline \<noteq> [] \<and> list_all isPhaseStep pipeline) (member_of v ''pipeline'') \<and>
     isPricingSpec (member_of v ''pricing'') \<and> pipelineIsCoherent v False)"

section \<open>Listings\<close>

text \<open>\<^verbatim>\<open>/^[A-Za-z0-9._~-]{1,128}$/\<close>.\<close>

definition is_listing_id :: "string \<Rightarrow> bool" where
  "is_listing_id s \<longleftrightarrow>
     1 \<le> length s \<and> length s \<le> 128 \<and> list_all (\<lambda>c. is_digit c \<or> is_upper c \<or> is_lower c \<or> c \<in> set ''._~-'') s"

definition seller_ok :: "artifact_env \<Rightarrow> json \<Rightarrow> bool" where
  "seller_ok env = obj_where (\<lambda>s.
     isIdentityBundle env (member_of s ''identity'') \<and> str_where (\<lambda>n. length n \<le> 200) (member_of s ''displayName'') \<and>
     absent_or (isListingPublicEndpoint env) (member_of s ''publicEndpoint''))"

definition offering_ok :: "json \<Rightarrow> bool" where
  "offering_ok = obj_where (\<lambda>v.
     str_where (\<lambda>t. length t \<le> 200) (member_of v ''title'') \<and> str_where (\<lambda>t. length t \<le> 2000) (member_of v ''description'') \<and>
     str_where (\<lambda>t. [] \<notin> set (splitOn (CHR ''.'') t)) (member_of v ''category'') \<and>
     arr_where (\<lambda>tags. length tags \<le> 16 \<and> list_all (str_where (\<lambda>t. length t \<le> 32)) tags) (member_of v ''tags'') \<and>
     isDeliverableSpec (member_of v ''deliverable'') \<and> isOptionalStr (member_of v ''extendedDescriptionUrl'') \<and>
     isOptionalStr (member_of v ''extendedDescriptionHash''))"

definition validity_ok :: "json \<Rightarrow> bool" where
  "validity_ok = obj_where (\<lambda>v.
     isSafeUint (member_of v ''notBefore'') \<and>
     absent_or (\<lambda>n. isSafeUint n \<and> uint_of (member_of v ''notBefore'') \<le> uint_of n) (member_of v ''notAfter''))"

definition isListingBody :: "artifact_env \<Rightarrow> bool \<Rightarrow> bool \<Rightarrow> json \<Rightarrow> bool" where
  "isListingBody env requireSupportedVersion requirePipelineSemantics = obj_where (\<lambda>v.
     (if requireSupportedVersion then member_of v ''dacsVersion'' = JStr ''1'' else isNonEmptyStr (member_of v ''dacsVersion'')) \<and>
     isPositiveSafeInt (member_of v ''listingVersion'') \<and> str_where is_listing_id (member_of v ''listingId'') \<and>
     absent_or (arr_where (list_all (isOneOf [''SR-1'', ''SR-2'', ''SR-3'', ''SR-4'', ''SR-5'']))) (member_of v ''requiredCapabilities'') \<and>
     seller_ok env (member_of v ''seller'') \<and> offering_ok (member_of v ''offering'') \<and>
     isBundleRequirement (member_of v ''buyerRequirement'') \<and>
     arr_where (\<lambda>pipeline. pipeline \<noteq> [] \<and>
       list_all (if requirePipelineSemantics then isPhaseStep else isPhaseStepEnvelope) pipeline) (member_of v ''pipeline'') \<and>
     isPricingSpec (member_of v ''pricing'') \<and> absent_or (arr_where (list_all isPaymentRailRef)) (member_of v ''acceptedRails'') \<and>
     isListingTerms (member_of v ''terms'') \<and> validity_ok (member_of v ''validity'') \<and>
     (requirePipelineSemantics \<longrightarrow> pipelineIsCoherent v True))"

definition isListingDraft :: "artifact_env \<Rightarrow> json \<Rightarrow> bool" where
  "isListingDraft env v \<longleftrightarrow> obj_where (\<lambda>kvs. \<not> has_own kvs ''signature'') v \<and> isListingBody env True True v"

text \<open>\<^verbatim>\<open>Buffer.byteLength(canonicalize(v), "utf8")\<close>: a code unit from 128 on takes two bytes.\<close>

definition byteLength :: "string \<Rightarrow> nat" where
  "byteLength s = sum_list (map (\<lambda>c. if code c < 128 then 1 else 2) s)"

definition isListingEnvelope :: "artifact_env \<Rightarrow> json \<Rightarrow> bool" where
  "isListingEnvelope env v \<longleftrightarrow>
     isComponentSignature (dot v ''signature'') \<and> str_where isCanonicalBase64Url (dot (dot v ''signature'') ''value'') \<and>
     isListingBody env False False v \<and> (case canonicalize v of Inl _ \<Rightarrow> False | Inr t \<Rightarrow> byteLength t \<le> 16384)"

definition isListing :: "artifact_env \<Rightarrow> json \<Rightarrow> bool" where
  "isListing env v \<longleftrightarrow>
     isListingEnvelope env v \<and> dot v ''dacsVersion'' = JStr ''1'' \<and> isListingPipelineValid v \<and>
     obj_where (\<lambda>kvs. pipelineIsCoherent kvs True) v \<and>
     list_ex (\<lambda>claim. same_identity env (dot claim ''ref'') (dot (dot v ''signature'') ''signer''))
       (elements (dot (dot (dot v ''seller'') ''identity'') ''claims''))"

definition isRevocationMarker :: "json \<Rightarrow> bool" where
  "isRevocationMarker = obj_where (\<lambda>v.
     str_where is_listing_id (member_of v ''listingId'') \<and> isPositiveSafeInt (member_of v ''listingVersion'') \<and>
     isSha256 (member_of v ''listingContentHash'') \<and> isSafeUint (member_of v ''revokedAt'') \<and> isOptionalStr (member_of v ''reason'') \<and>
     isComponentSignature (member_of v ''signature'') \<and> str_where isCanonicalBase64Url (dot (member_of v ''signature'') ''value''))"

definition isRevocationBinding :: "json \<Rightarrow> bool" where
  "isRevocationBinding = obj_where (\<lambda>v.
     isClaimRef (member_of v ''sellerPrimaryClaim'') \<and> str_where is_listing_id (member_of v ''listingId'') \<and>
     isPositiveSafeInt (member_of v ''listingVersion'') \<and> isSha256 (member_of v ''listingContentHash'') \<and>
     isNonEmptyStr (member_of v ''logicalAddress'') \<and>
     obj_where (\<lambda>a. isNonEmptyStr (member_of a ''kind'') \<and> isNonEmptyStr (member_of a ''locator'')) (member_of v ''markerAnchor'') \<and>
     isSha256 (member_of v ''markerContentHash''))"

definition isLegacyMvpListing :: "json \<Rightarrow> bool" where
  "isLegacyMvpListing = obj_where (\<lambda>v.
     isStr (member_of v ''agentId'') \<and> isStr (member_of v ''serviceId'') \<and> isStr (member_of v ''name'') \<and>
     isStr (member_of v ''description'') \<and>
     arr_where (list_all (obj_where (\<lambda>c. isStr (member_of c ''claimRef'') \<and> isBool (member_of c ''required'')))) (member_of v ''claimRequirements'') \<and>
     isStrArray (member_of v ''supportedNegotiation'') \<and> isStrArray (member_of v ''supportedPaymentRails'') \<and>
     isStrArray (member_of v ''supportedDelivery'') \<and>
     absent_or (\<lambda>p. isPricingSpec p \<and> dot p ''kind'' \<noteq> JStr ''metered'') (member_of v ''pricing'') \<and>
     absent_or isPositiveSafeInt (member_of v ''listingVersion''))"

datatype readable_listing = Normative_Listing json | Legacy_Listing json

definition readListingArtifact :: "artifact_env \<Rightarrow> json \<Rightarrow> readable_listing option res" where
  "readListingArtifact env v =
     (if isListingEnvelope env v then Inr (Some (Normative_Listing v))
      else (case v of
              JObj kvs \<Rightarrow>
                if \<not> isStr (member_of kvs ''signature'') then Inr None
                else bindR (stripSignature kvs) (\<lambda>scope.
                       Inr (if isLegacyMvpListing (JObj scope) then Some (Legacy_Listing (JObj scope)) else None))
            | _ \<Rightarrow> Inr None))"

end
