(* ===== verification/Dacs_Agreement_Docs.thy ===== *)
theory Dacs_Agreement_Docs
  imports Dacs_Artifacts
begin

text \<open>
  The structural gates of agreements, commitments, anchor receipts and verification records
  (\<^verbatim>\<open>src/src/artifacts/validators.ts\<close>).
\<close>

section \<open>Agreements\<close>

definition isListingPin :: "json \<Rightarrow> bool" where
  "isListingPin = obj_where (\<lambda>v.
     hasOnlyKeys v [''listingId'', ''version'', ''contentHash''] \<and> isNonEmptyStr (member_of v ''listingId'') \<and>
     isPositiveSafeInt (member_of v ''version'') \<and> isSha256 (member_of v ''contentHash''))"

definition isDeliverableRef :: "json \<Rightarrow> bool" where
  "isDeliverableRef = obj_where (\<lambda>v.
     hasOnlyKeys v [''deliverableType'', ''hash'', ''schemaUrl''] \<and>
     isOneOf [''storage-program'', ''entitlement'', ''attested-payload'', ''external''] (member_of v ''deliverableType'') \<and>
     isSha256 (member_of v ''hash'') \<and> absent_or isStr (member_of v ''schemaUrl''))"

definition isAgreementParty :: "json \<Rightarrow> bool" where
  "isAgreementParty = obj_where (\<lambda>v.
     hasOnlyKeys v [''role'', ''bundleHash'', ''primaryClaim'', ''vetRecordRef'', ''encryptionKey''] \<and>
     isOneOf [''buyer'', ''seller'', ''bidder-non-winning''] (member_of v ''role'') \<and>
     isIdentityBundleHash (member_of v ''bundleHash'') \<and> isClaimRef (member_of v ''primaryClaim'') \<and>
     isAttestationRef (member_of v ''vetRecordRef'') \<and> absent_or isNonEmptyStr (member_of v ''encryptionKey''))"

definition isAgreementSignature :: "json \<Rightarrow> bool" where
  "isAgreementSignature = obj_where (\<lambda>v.
     hasOnlyKeys v [''party'', ''algorithm'', ''value''] \<and> isClaimRef (member_of v ''party'') \<and>
     isOneOf COMPONENT_SIGNATURE_ALGORITHMS (member_of v ''algorithm'') \<and>
     str_where (\<lambda>s. isCanonicalBase64Url s \<and>
       (member_of v ''algorithm'' \<noteq> JStr ''ed25519'' \<or> length (base64url_decode s) = 64)) (member_of v ''value''))"

definition isFeeRecurrence :: "json \<Rightarrow> bool" where
  "isFeeRecurrence = obj_where (\<lambda>v.
     (isOneOf [''daily'', ''weekly'', ''monthly'', ''quarterly'', ''annual''] (member_of v ''period'') \<or>
      obj_where (\<lambda>p. hasOnlyKeys p [''everySeconds''] \<and> isPositiveSafeInt (member_of p ''everySeconds'')) (member_of v ''period'')) \<and>
     absent_or isPositiveSafeInt (member_of v ''count'') \<and> absent_or isSafeUint (member_of v ''until'') \<and>
     \<not> (member_of v ''count'' \<noteq> JUndefined \<and> member_of v ''until'' \<noteq> JUndefined))"

definition isFeeItem :: "json \<Rightarrow> bool" where
  "isFeeItem = obj_where (\<lambda>v.
     isOneOf [''network'', ''platform'', ''processing'', ''spread'', ''subscription'', ''other''] (member_of v ''kind'') \<and>
     (member_of v ''collector'' = JStr ''substrate'' \<or> isClaimRef (member_of v ''collector'')) \<and>
     absent_or isStr (member_of v ''label'') \<and>
     (if member_of v ''fixed'' \<noteq> JUndefined then isPriceTerm (member_of v ''fixed'') \<and> member_of v ''rateBps'' = JUndefined
      else isNonNegativeInt (member_of v ''rateBps'')) \<and>
     absent_or isNonNegativeInt (member_of v ''toleranceBps'') \<and> absent_or isFeeRecurrence (member_of v ''recurrence''))"

definition isFeeSchedule :: "json \<Rightarrow> json \<Rightarrow> bool" where
  "isFeeSchedule priceCurrency = obj_where (\<lambda>v.
     isOneOf [''inclusive'', ''exclusive''] (member_of v ''priceBasis'') \<and>
     arr_where (\<lambda>items. list_all isFeeItem items \<and>
       list_ex (\<lambda>item. isObj item \<and> dot item ''recurrence'' \<noteq> JUndefined) items = (member_of v ''recurringTotal'' \<noteq> JUndefined))
       (member_of v ''items'') \<and>
     isPriceTerm (member_of v ''oneOffTotal'') \<and> dot (member_of v ''oneOffTotal'') ''currency'' = priceCurrency \<and>
     absent_or (\<lambda>t. isPriceTerm t \<and> dot t ''currency'' = priceCurrency) (member_of v ''recurringTotal'') \<and>
     absent_or isNonNegativeInt (member_of v ''minimumTermSeconds'') \<and> absent_or isFeeItem (member_of v ''earlyTerminationFee'') \<and>
     absent_or isStr (member_of v ''disclosureNote''))"

definition isPriceAnchor :: "json \<Rightarrow> bool" where
  "isPriceAnchor = obj_where (\<lambda>v.
     isNonEmptyStr (member_of v ''asset'') \<and> isNonEmptyStr (member_of v ''quoteCurrency'') \<and>
     isCanonicalAmount False (member_of v ''price'') \<and> isAttestationRef (member_of v ''attestationRef'') \<and>
     isSafeUint (member_of v ''observedAt'') \<and> isNonEmptyStr (member_of v ''sourceUrl''))"

definition isMeteredQuantity :: "json \<Rightarrow> bool" where
  "isMeteredQuantity = obj_where (\<lambda>q. isMinimalUnsignedDecimal (member_of q ''quantity'') \<and> isNonEmptyStr (member_of q ''unit''))"

definition agreement_terms_ok :: "bool \<Rightarrow> (string \<times> json) list \<Rightarrow> bool" where
  "agreement_terms_ok payeeBound terms \<longleftrightarrow>
     isDeliverableRef (member_of terms ''deliverable'') \<and> isPriceTerm (member_of terms ''price'') \<and>
     absent_or isMeteredQuantity (member_of terms ''meteredQuantity'') \<and>
     absent_or isPaymentRailRef (member_of terms ''rail'') \<and>
     absent_or (\<lambda>r. payeeBound \<and> isAttestationRef r) (member_of terms ''priorPaymentDispositionRef'') \<and>
     isSafeUint (member_of terms ''deadline'') \<and> absent_or isPriceAnchor (member_of terms ''priceAnchor'') \<and>
     absent_or (isFeeSchedule (dot (member_of terms ''price'') ''currency'')) (member_of terms ''feeSchedule'') \<and>
     absent_or isExactJsonRecord (member_of terms ''additionalTerms'')"

definition isDerivedFromChannel :: "json \<Rightarrow> bool" where
  "isDerivedFromChannel = obj_where (\<lambda>c.
     hasOnlyKeys c [''subnet'', ''lastMessageHash''] \<and> isNonEmptyStr (member_of c ''subnet'') \<and>
     isSha256 (member_of c ''lastMessageHash''))"

definition party_claims :: "string \<Rightarrow> json list \<Rightarrow> json list" where
  "party_claims role parties =
     map (\<lambda>party. dot party ''primaryClaim'') (filter (\<lambda>party. dot party ''role'' = JStr role) parties)"

text \<open>The two signatures are by the buyer and the seller, one each.\<close>

definition signers_match :: "artifact_env \<Rightarrow> json list \<Rightarrow> json list \<Rightarrow> bool" where
  "signers_match env required signers \<longleftrightarrow>
     list_all (\<lambda>claim. length (filter (\<lambda>signer. same_identity env signer claim) signers) = 1) required \<and>
     list_all (\<lambda>signer. list_ex (\<lambda>claim. same_identity env signer claim) required) signers"

definition agreement_signed_by_parties :: "artifact_env \<Rightarrow> json list \<Rightarrow> json list \<Rightarrow> bool" where
  "agreement_signed_by_parties env parties signatures =
     (case (party_claims ''buyer'' parties, party_claims ''seller'' parties) of
        ([buyer], [seller]) \<Rightarrow>
          \<not> same_identity env buyer seller \<and> signers_match env [buyer, seller] (map (\<lambda>s. dot s ''party'') signatures)
      | _ \<Rightarrow> False)"

definition isPayoutBinding :: "json \<Rightarrow> bool" where
  "isPayoutBinding = obj_where (\<lambda>b.
     hasOnlyKeys b [''railId'', ''phaseIndex'', ''payeeAddress''] \<and> isNonEmptyStr (member_of b ''railId'') \<and>
     isNonNegativeInt (member_of b ''phaseIndex'') \<and> isNonEmptyStr (member_of b ''payeeAddress''))"

text \<open>\<^verbatim>\<open>`${binding.railId}\u0000${binding.phaseIndex}`\<close>.\<close>

definition payout_key :: "json \<Rightarrow> string" where
  "payout_key b = template_text (dot b ''railId'') @ CHR 0x00 # template_text (dot b ''phaseIndex'')"

definition hasAgreementCommon :: "artifact_env \<Rightarrow> bool \<Rightarrow> (string \<times> json) list \<Rightarrow> bool" where
  "hasAgreementCommon env payeeBound v \<longleftrightarrow>
     \<not> has_own v ''signature'' \<and> str_where isCanonicalJobId (member_of v ''jobId'') \<and> isListingPin (member_of v ''listingRef'') \<and>
     arr_where (\<lambda>parties. 2 \<le> length parties \<and> list_all isAgreementParty parties \<and>
       arr_where (\<lambda>signatures. length signatures = 2 \<and> list_all isAgreementSignature signatures \<and>
         agreement_signed_by_parties env parties signatures) (member_of v ''signatures'')) (member_of v ''parties'') \<and>
     obj_where (\<lambda>terms. agreement_terms_ok payeeBound terms \<and>
       (if payeeBound
        then arr_where (\<lambda>bs. list_all isPayoutBinding bs \<and> distinct (map payout_key bs)) (member_of terms ''payoutBindings'')
        else \<not> has_own terms ''payoutBindings'')) (member_of v ''terms'') \<and>
     isOneOf [''fixed-price'', ''rfq'', ''sealed-envelope''] (member_of v ''derivedFromPattern'') \<and>
     \<not> (member_of v ''derivedFromPattern'' = JStr ''rfq'' \<and> member_of v ''derivedFromChannel'' = JUndefined) \<and>
     isSafeUint (member_of v ''generatedAt'') \<and> absent_or isDerivedFromChannel (member_of v ''derivedFromChannel'')"

definition isAgreementDocument :: "artifact_env \<Rightarrow> json \<Rightarrow> bool" where
  "isAgreementDocument env v \<longleftrightarrow>
     isExactJsonRecord v \<and> dot v ''agreementVersion'' = JStr ''1'' \<and> dot v ''payeeBoundAgreementVersion'' = JUndefined \<and>
     obj_where (hasAgreementCommon env False) v"

definition isPayeeBoundAgreementDocument :: "artifact_env \<Rightarrow> json \<Rightarrow> bool" where
  "isPayeeBoundAgreementDocument env v \<longleftrightarrow>
     isExactJsonRecord v \<and> dot v ''payeeBoundAgreementVersion'' = JStr ''1'' \<and> dot v ''agreementVersion'' = JUndefined \<and>
     obj_where (hasAgreementCommon env True) v"

definition isAgreementArtifact :: "artifact_env \<Rightarrow> json \<Rightarrow> bool" where
  "isAgreementArtifact env v \<longleftrightarrow> isAgreementDocument env v \<or> isPayeeBoundAgreementDocument env v"

section \<open>Commitments\<close>

definition isCommitmentParties :: "json \<Rightarrow> bool" where
  "isCommitmentParties = arr_where (\<lambda>v. 2 \<le> length v \<and> list_all isClaimRef v \<and> distinct v)"

definition hasCommitmentCommon :: "(string \<times> json) list \<Rightarrow> bool" where
  "hasCommitmentCommon v \<longleftrightarrow>
     isNonEmptyStr (member_of v ''jobId'') \<and> isSha256 (member_of v ''agreementHash'') \<and> isListingPin (member_of v ''listingRef'') \<and>
     isCommitmentParties (member_of v ''parties'') \<and> isOneOf [''fixed-price'', ''rfq'', ''sealed-envelope''] (member_of v ''pattern'')"

definition isCommitmentRecord :: "json \<Rightarrow> bool" where
  "isCommitmentRecord = obj_where (\<lambda>v.
     hasOnlyKeys v [''dacsVersion'', ''jobId'', ''agreementHash'', ''listingRef'', ''parties'', ''pattern'', ''committedAt''] \<and>
     member_of v ''dacsVersion'' = JStr ''1'' \<and> member_of v ''finalityCommitmentVersion'' = JUndefined \<and>
     hasCommitmentCommon v \<and> isSafeUint (member_of v ''committedAt''))"

definition isFinalityCommitmentRecord :: "json \<Rightarrow> bool" where
  "isFinalityCommitmentRecord = obj_where (\<lambda>v.
     hasOnlyKeys v [''finalityCommitmentVersion'', ''jobId'', ''agreementHash'', ''listingRef'', ''parties'', ''pattern'',
       ''createdAt'', ''signature''] \<and>
     member_of v ''finalityCommitmentVersion'' = JStr ''1'' \<and> member_of v ''dacsVersion'' = JUndefined \<and>
     hasCommitmentCommon v \<and> isSafeUint (member_of v ''createdAt'') \<and> isComponentSignature (member_of v ''signature'') \<and>
     obj_where (\<lambda>s. hasOnlyKeys s [''algorithm'', ''signer'', ''value''] \<and> isClaimRef (member_of s ''signer'')) (member_of v ''signature''))"

definition isReadableFinalityCommitmentRecord :: "json \<Rightarrow> bool" where
  "isReadableFinalityCommitmentRecord = obj_where (\<lambda>v.
     member_of v ''finalityCommitmentVersion'' = JStr ''1'' \<and> \<not> has_own v ''dacsVersion'' \<and> \<not> has_own v ''signatures'' \<and>
     hasCommitmentCommon v \<and> isSafeUint (member_of v ''createdAt'') \<and> isComponentSignature (member_of v ''signature'') \<and>
     obj_where (\<lambda>s. isClaimRef (member_of s ''signer'')) (member_of v ''signature''))"

definition isAgreementCommitmentRecord :: "json \<Rightarrow> bool" where
  "isAgreementCommitmentRecord v \<longleftrightarrow> isCommitmentRecord v \<or> isFinalityCommitmentRecord v"

section \<open>Anchor receipts\<close>

definition ANCHOR_STATES :: "string list" where
  "ANCHOR_STATES = [''submitted'', ''accepted'', ''included'', ''finalized'', ''rejected'', ''dropped'', ''replaced'', ''expired'', ''reorged'']"

definition isAnchorTransactionRef :: "bool \<Rightarrow> json \<Rightarrow> bool" where
  "isAnchorTransactionRef exactShape = obj_where (\<lambda>v.
     (exactShape \<longrightarrow> hasOnlyKeys v [''kind'', ''value'']) \<and> isNonEmptyStr (member_of v ''kind'') \<and> isNonEmptyStr (member_of v ''value''))"

definition isBlockRef :: "bool \<Rightarrow> json \<Rightarrow> bool" where
  "isBlockRef exactShape = obj_where (\<lambda>b.
     (exactShape \<longrightarrow> hasOnlyKeys b [''id'', ''height'', ''timestamp'']) \<and> isNonEmptyStr (member_of b ''id'') \<and>
     absent_or isMinimalUnsignedDecimal (member_of b ''height'') \<and> absent_or isSafeUint (member_of b ''timestamp''))"

definition isAnchorReceiptShape :: "bool \<Rightarrow> json \<Rightarrow> bool" where
  "isAnchorReceiptShape exactShape = obj_where (\<lambda>v.
     (exactShape \<longrightarrow> hasOnlyKeys v [''receiptVersion'', ''substrate'', ''finalityProfile'', ''logicalAddress'', ''nativeAddress'',
        ''contentHash'', ''transactionRef'', ''writer'', ''nonce'', ''state'', ''observationDisposition'', ''preservedReceiptHash'',
        ''observedAt'', ''blockRef'', ''replacementTransactionRef'', ''evidence'']) \<and>
     member_of v ''receiptVersion'' = JStr ''1'' \<and> isNonEmptyStr (member_of v ''substrate'') \<and>
     isNonEmptyStr (member_of v ''finalityProfile'') \<and> isNonEmptyStr (member_of v ''logicalAddress'') \<and>
     isNonEmptyStr (member_of v ''nativeAddress'') \<and> isSha256 (member_of v ''contentHash'') \<and>
     isAnchorTransactionRef exactShape (member_of v ''transactionRef'') \<and> isNonEmptyStr (member_of v ''writer'') \<and>
     absent_or isNonEmptyStr (member_of v ''nonce'') \<and> isOneOf ANCHOR_STATES (member_of v ''state'') \<and>
     isOneOf [''established'', ''indeterminate''] (member_of v ''observationDisposition'') \<and> isSafeUint (member_of v ''observedAt'') \<and>
     isAnchorTransactionRef exactShape (member_of v ''evidence'') \<and>
     absent_or (isAnchorTransactionRef exactShape) (member_of v ''replacementTransactionRef'') \<and>
     \<not> (member_of v ''observationDisposition'' = JStr ''indeterminate'' \<and> member_of v ''preservedReceiptHash'' = JUndefined) \<and>
     absent_or isSha256 (member_of v ''preservedReceiptHash'') \<and> absent_or (isBlockRef exactShape) (member_of v ''blockRef'') \<and>
     (isOneOf [''included'', ''finalized''] (member_of v ''state'') \<longrightarrow> member_of v ''blockRef'' \<noteq> JUndefined))"

definition isAnchorReceipt :: "json \<Rightarrow> bool" where
  "isAnchorReceipt = isAnchorReceiptShape True"

definition isReadableAnchorReceipt :: "json \<Rightarrow> bool" where
  "isReadableAnchorReceipt = isAnchorReceiptShape False"

section \<open>Verification records\<close>

definition VERIFICATION_DECISIONS :: "string list" where
  "VERIFICATION_DECISIONS = [''pass'', ''fail'', ''indeterminate'', ''error'']"

definition VERIFICATION_METHODS :: "string list" where
  "VERIFICATION_METHODS =
     [''verifiable-credential'', ''tlsnotary'', ''zktls'', ''consensus-backed-proxy'', ''oauth-attested'', ''evm-rpc'',
      ''domain-tls-control'', ''self-signed'', ''demos-gcr-domain'']"

definition isVerifyResult :: "json \<Rightarrow> bool" where
  "isVerifyResult = obj_where (\<lambda>v.
     hasExactWireKeys v [''resultVersion'', ''scheme'', ''identifier'', ''recipeVersion'', ''method'', ''decision'', ''reason'',
       ''attestation'', ''fetchedAt'', ''verifiedAt'', ''signature''] [''data'', ''validUntil''] \<and>
     member_of v ''resultVersion'' = JStr ''1'' \<and> str_where is_scheme (member_of v ''scheme'') \<and>
     isNonEmptyStr (member_of v ''identifier'') \<and> isPositiveSafeInt (member_of v ''recipeVersion'') \<and>
     isOneOf VERIFICATION_METHODS (member_of v ''method'') \<and> isOneOf VERIFICATION_DECISIONS (member_of v ''decision'') \<and>
     isStr (member_of v ''reason'') \<and> isAttestationRef (member_of v ''attestation'') \<and>
     absent_or isExactJsonRecord (member_of v ''data'') \<and> isNonNegativeSafeInt (member_of v ''fetchedAt'') \<and>
     isNonNegativeSafeInt (member_of v ''verifiedAt'') \<and> absent_or isNonNegativeSafeInt (member_of v ''validUntil'') \<and>
     isExactComponentSignature (member_of v ''signature''))"

text \<open>A non-integral number is below \<open>2 ^ 53\<close> in magnitude.\<close>

definition isSafeNumber :: "json \<Rightarrow> bool" where
  "isSafeNumber v = (case v of JNum (JInt i) \<Rightarrow> isSafeInteger i | JNum (JFrac t) \<Rightarrow> True | _ \<Rightarrow> False)"

definition isSupplementarySignal :: "json \<Rightarrow> bool" where
  "isSupplementarySignal = obj_where (\<lambda>v.
     hasExactWireKeys v [''source'', ''signalType'', ''value'', ''observedAt''] [''attestation''] \<and>
     isNonEmptyStr (member_of v ''source'') \<and> isNonEmptyStr (member_of v ''signalType'') \<and>
     (isStr (member_of v ''value'') \<or> isSafeNumber (member_of v ''value'')) \<and> isNonNegativeSafeInt (member_of v ''observedAt'') \<and>
     absent_or isAttestationRef (member_of v ''attestation'') \<and>
     (member_of v ''source'' \<noteq> JStr ''external'' \<or> isAttestationRef (member_of v ''attestation'')))"

definition isVerificationWarning :: "json \<Rightarrow> bool" where
  "isVerificationWarning = obj_where (\<lambda>v.
     hasExactWireKeys v [''claimRef'', ''code'', ''retryable''] [''suggestedRetryAfterMs''] \<and>
     isCanonicalClaimRef (member_of v ''claimRef'') \<and> isNonEmptyStr (member_of v ''code'') \<and> isBool (member_of v ''retryable'') \<and>
     absent_or isNonNegativeSafeInt (member_of v ''suggestedRetryAfterMs''))"

definition isCompositeVerificationRecord :: "json \<Rightarrow> bool" where
  "isCompositeVerificationRecord = obj_where (\<lambda>v.
     hasExactWireKeys v [''recordVersion'', ''jobId'', ''evaluatedParty'', ''bundleHash'', ''requirementHash'', ''freshness'',
       ''supplementary'', ''dealSpecific'', ''overallDecision'', ''generatedAt'', ''signature''] [''warnings''] \<and>
     member_of v ''recordVersion'' = JStr ''1'' \<and> isNonEmptyStr (member_of v ''jobId'') \<and>
     isCanonicalClaimRef (member_of v ''evaluatedParty'') \<and> isSha256 (member_of v ''bundleHash'') \<and>
     isSha256 (member_of v ''requirementHash'') \<and> isExactWireArray isVerifyResultRef (member_of v ''freshness'') \<and>
     isExactWireArray isSupplementarySignal (member_of v ''supplementary'') \<and>
     isExactWireArray isVerifyResultRef (member_of v ''dealSpecific'') \<and>
     isOneOf VERIFICATION_DECISIONS (member_of v ''overallDecision'') \<and>
     absent_or (isExactWireArray isVerificationWarning) (member_of v ''warnings'') \<and>
     isNonNegativeSafeInt (member_of v ''generatedAt'') \<and> isExactComponentSignature (member_of v ''signature''))"

definition legacy_result_ok :: "json \<Rightarrow> bool" where
  "legacy_result_ok = obj_where (\<lambda>r.
     hasExactWireKeys r [''claimRef'', ''method'', ''status''] [''authority'', ''responseHash'', ''proof'', ''data''] \<and>
     isNonEmptyStr (member_of r ''claimRef'') \<and> isNonEmptyStr (member_of r ''method'') \<and>
     isOneOf VERIFICATION_DECISIONS (member_of r ''status'') \<and> absent_or isNonEmptyStr (member_of r ''authority'') \<and>
     absent_or isNonEmptyStr (member_of r ''responseHash'') \<and>
     absent_or (obj_where (\<lambda>p. hasExactWireKeys p [''kind'', ''value''] [] \<and> isOneOf [''hash'', ''raw''] (member_of p ''kind'') \<and>
       isNonEmptyStr (member_of p ''value''))) (member_of r ''proof'') \<and>
     absent_or isObj (member_of r ''data''))"

definition isLegacyCompositeVerificationRecord :: "json \<Rightarrow> bool" where
  "isLegacyCompositeVerificationRecord = obj_where (\<lambda>v.
     hasExactWireKeys v [''subject'', ''recipeId'', ''recipeVersion'', ''results'', ''decision'', ''verifiedAt''] [''signature''] \<and>
     isNonEmptyStr (member_of v ''subject'') \<and> isNonEmptyStr (member_of v ''recipeId'') \<and>
     isNonEmptyStr (member_of v ''recipeVersion'') \<and> isExactWireArray legacy_result_ok (member_of v ''results'') \<and>
     isOneOf VERIFICATION_DECISIONS (member_of v ''decision'') \<and> isNonEmptyStr (member_of v ''verifiedAt'') \<and>
     absent_or isExactLegacyComponentSignature (member_of v ''signature''))"

datatype readable_record = Current_Record json | Legacy_Record json

definition readCompositeVerificationRecord :: "json \<Rightarrow> readable_record option" where
  "readCompositeVerificationRecord v =
     (if isCompositeVerificationRecord v then Some (Current_Record v)
      else if isLegacyCompositeVerificationRecord v then Some (Legacy_Record v) else None)"

text \<open>A record is never both current and legacy, and an agreement never both plain and payee-bound.\<close>

lemma exact_keys_disjoint:
  assumes "hasExactWireKeys kvs (k # required) optional" "k \<notin> set (required' @ optional')"
  shows "\<not> hasExactWireKeys kvs required' optional'"
  using assms by (auto simp: hasExactWireKeys_def hasOnlyKeys_def list_all_iff has_own_def)

lemma record_arms_disjoint:
  assumes "isCompositeVerificationRecord v"
  shows "\<not> isLegacyCompositeVerificationRecord v"
proof -
  obtain kvs where v: "v = JObj kvs"
    using assms by (cases v) (simp_all add: isCompositeVerificationRecord_def obj_where_def)
  have "hasExactWireKeys kvs [''recordVersion'', ''jobId'', ''evaluatedParty'', ''bundleHash'', ''requirementHash'', ''freshness'',
       ''supplementary'', ''dealSpecific'', ''overallDecision'', ''generatedAt'', ''signature''] [''warnings'']"
    using assms by (simp add: v isCompositeVerificationRecord_def obj_where_def)
  then have "\<not> hasExactWireKeys kvs [''subject'', ''recipeId'', ''recipeVersion'', ''results'', ''decision'', ''verifiedAt''] [''signature'']"
    by (rule exact_keys_disjoint) simp
  then show ?thesis by (simp add: v isLegacyCompositeVerificationRecord_def obj_where_def)
qed

lemma agreement_arms_disjoint: "isAgreementDocument env v \<Longrightarrow> \<not> isPayeeBoundAgreementDocument env v"
  by (simp add: isAgreementDocument_def isPayeeBoundAgreementDocument_def)

end
