(* ===== verification/Dacs_Agreement.thy ===== *)
theory Dacs_Agreement
  imports Dacs_Agreement_Docs Dacs_Rfq
begin

text \<open>
  From a verified listing to a signed agreement (\<^verbatim>\<open>src/src/negotiate/fixedPrice.ts\<close>,
  \<^verbatim>\<open>src/src/negotiate/rfqAgreement.ts\<close>). The caller's input and the agreement are JSON documents; an
  RFQ session is the state of \<open>Dacs_Rfq\<close>. A signer is the party, the algorithm and the function that
  answers the bytes to sign; SHA-256 is a parameter.
\<close>

section \<open>Reading the input\<close>

fun entries :: "json \<Rightarrow> (string \<times> json) list" where
  "entries (JObj kvs) = kvs"
| "entries _ = []"

definition int_json :: "int \<Rightarrow> json" where
  "int_json n = JNum (JInt n)"

definition optional_member :: "string \<Rightarrow> json \<Rightarrow> (string \<times> json) list" where
  "optional_member k v = (if v = JUndefined then [] else [(k, v)])"

text \<open>
  The pricing a listing document carries. Members of a pricing object beyond those of its kind are
  not read by any of the functions below.
\<close>

definition pricing_of_json :: "json \<Rightarrow> pricing" where
  "pricing_of_json v =
     (if dot v ''kind'' = JStr ''negotiable'' then
        (case (price_of_json (dot v ''bandCenter''), dot v ''minPct'', dot v ''maxPct'') of
           (Some c, JNum lo, JNum hi) \<Rightarrow> Negotiable c lo hi
         | _ \<Rightarrow> Other_Pricing)
      else if dot v ''kind'' = JStr ''metered'' then
        (case (price_of_json (dot v ''unitPrice''), dot v ''unit'', dot v ''minTotal'') of
           (Some up, JStr u, JUndefined) \<Rightarrow> Metered up u None
         | (Some up, JStr u, m) \<Rightarrow> (case price_of_json m of Some t \<Rightarrow> Metered up u (Some t) | None \<Rightarrow> Other_Pricing)
         | _ \<Rightarrow> Other_Pricing)
      else Other_Pricing)"

definition price_json :: "price_term \<Rightarrow> json" where
  "price_json p =
     JObj ([(''amount'', JStr (pt_amount p)), (''currency'', JStr (pt_currency p))] @
           (case pt_unit p of None \<Rightarrow> [] | Some u \<Rightarrow> [(''unit'', JStr u)]))"

definition quantity_json :: "metered_quantity \<Rightarrow> json" where
  "quantity_json q = JObj [(''quantity'', JStr (mq_quantity q)), (''unit'', JStr (mq_unit q))]"

definition pin_json :: "listing_pin \<Rightarrow> json" where
  "pin_json p = JObj [(''listingId'', JStr (lp_listingId p)), (''version'', int_json (lp_version p)), (''contentHash'', JStr (lp_contentHash p))]"

section \<open>Parties, pipeline, rail and payouts\<close>

definition agreementParty :: "artifact_env \<Rightarrow> (string \<Rightarrow> string) \<Rightarrow> string \<Rightarrow> json \<Rightarrow> json res" where
  "agreementParty env sha256Hex role inp =
     ensure (isIdentityBundle env (dot inp ''identityBundle'')) ''IdentityBundle is not a normative DACS-1 bundle''
     (ensure (isAttestationRef (dot inp ''vetRecordRef'')) ''vetRecordRef is not an AttestationRef''
     (ensure (dot inp ''encryptionKey'' \<noteq> JStr []) ''encryptionKey must be non-empty when present''
     (bindR (identityBundleHash sha256Hex (entries (dot inp ''identityBundle''))) (\<lambda>bundleHash.
      Inr (JObj ([(''role'', JStr role), (''bundleHash'', JStr bundleHash),
                  (''primaryClaim'', dot (dot inp ''identityBundle'') ''presentedBy''),
                  (''vetRecordRef'', dot inp ''vetRecordRef'')] @ optional_member ''encryptionKey'' (dot inp ''encryptionKey'')))))))"

definition payment_indexes :: "json list \<Rightarrow> nat list" where
  "payment_indexes pipeline = map fst (phases_with ''pay-'' pipeline)"

definition requirePipeline :: "string \<Rightarrow> json \<Rightarrow> (string \<times> nat list) res" where
  "requirePipeline pattern listing =
     (let pipeline = elements (dot listing ''pipeline'') in
      case phases_with ''negotiate-'' pipeline of
        [(i, negotiate)] \<Rightarrow>
          ensure (phase_kind negotiate = pattern) ''exactly one negotiation phase of the pattern is required (PS-1)''
          (case phases_with ''commit-'' pipeline of
             [(j, commit)] \<Rightarrow>
               ensure (j = i + 1 \<and> (phase_kind commit = ''commit-agreement'' \<or> phase_kind commit = ''commit-payee-bound-agreement''))
                 ''exactly one supported agreement commitment must immediately follow negotiation (PS-2)''
               (Inr (phase_kind commit, payment_indexes pipeline))
           | _ \<Rightarrow> throw ''exactly one supported agreement commitment must immediately follow negotiation (PS-2)'')
      | _ \<Rightarrow> throw ''exactly one negotiation phase of the pattern is required (PS-1)'')"

definition railEquals :: "json \<Rightarrow> json \<Rightarrow> bool" where
  "railEquals a b \<longleftrightarrow> canonicalize a = canonicalize b"

definition requireRail :: "json \<Rightarrow> json \<Rightarrow> nat list \<Rightarrow> json res" where
  "requireRail listing selected paymentIndexes =
     (if paymentIndexes = []
      then ensure (selected = JUndefined) ''a zero-pay pipeline MUST omit agreement terms.rail'' (Inr JUndefined)
      else
        ensure (selected \<noteq> JUndefined) ''a pay pipeline requires one selected rail''
        (ensure (list_ex (\<lambda>rail. railEquals rail selected) (elements (dot listing ''acceptedRails'')))
          ''selected rail is not an exact acceptedRails member''
        (ensure (list_all (\<lambda>i. phase_rail (elements (dot listing ''pipeline'') ! i) = dot selected ''railId'') paymentIndexes)
          ''pay phase does not bind selected rail''
        (Inr selected))))"

text \<open>The loop over the bindings, with the set of keys seen.\<close>

fun bindings_cover :: "string list \<Rightarrow> string list \<Rightarrow> json list \<Rightarrow> bool" where
  "bindings_cover expected seen [] = True"
| "bindings_cover expected seen (b # bs) =
     (payout_key b \<in> set expected \<and> payout_key b \<notin> set seen \<and> isNonNegativeSafeInt (dot b ''phaseIndex'') \<and>
      isNonEmptyStr (dot b ''payeeAddress'') \<and> bindings_cover expected (payout_key b # seen) bs)"

definition requirePayoutBindings :: "json \<Rightarrow> nat list \<Rightarrow> json \<Rightarrow> json list res" where
  "requirePayoutBindings selectedRail paymentIndexes bindings =
     (if selectedRail = JUndefined \<or> paymentIndexes = []
      then ensure (elements bindings = []) ''payoutBindings cannot target a non-pay phase'' (Inr [])
      else
        ensure (bindings \<noteq> JUndefined \<and> length (elements bindings) = length paymentIndexes)
          ''payoutBindings must cover every pay phase exactly once''
        (ensure (bindings_cover
                   (map (\<lambda>i. template_text (dot selectedRail ''railId'') @ CHR 0x00 # int_text (int i)) paymentIndexes) [] (elements bindings))
          ''payoutBindings contain a missing, duplicate, or extra pay tuple''
        (Inr (elements bindings))))"

section \<open>Terms and document\<close>

definition deliverable_ref :: "(string \<Rightarrow> string) \<Rightarrow> json \<Rightarrow> json res" where
  "deliverable_ref sha256Hex deliverable =
     bindR (canonicalize deliverable) (\<lambda>t.
       Inr (JObj ([(''deliverableType'', dot deliverable ''kind''), (''hash'', JStr (sha256Hex t))] @
                  (if dot deliverable ''kind'' = JStr ''storage-program'' then optional_member ''schemaUrl'' (dot deliverable ''schemaUrl'') else []))))"

definition agreement_deadline :: "json \<Rightarrow> int \<Rightarrow> int res" where
  "agreement_deadline listing generatedAt =
     (let deadlineSec = dot (dot listing ''terms'') ''deadlineSecAfterCommit'' in
      ensure (isPositiveSafeInt deadlineSec) ''deadlineSecAfterCommit must be a positive integer''
      (ensure (isSafeInteger (generatedAt + uint_of deadlineSec * 1000)) ''derived deadline overflows unix ms''
      (Inr (generatedAt + uint_of deadlineSec * 1000))))"

definition common_terms :: "json \<Rightarrow> json \<Rightarrow> json \<Rightarrow> json \<Rightarrow> int \<Rightarrow> (string \<times> json) list" where
  "common_terms deliverable price quantity rail deadline =
     [(''deliverable'', deliverable), (''price'', price)] @ optional_member ''meteredQuantity'' quantity @
     optional_member ''rail'' rail @ [(''deadline'', int_json deadline)]"

text \<open>The last step of both derivations: the plain or the payee-bound document.\<close>

definition agreement_draft :: "string \<Rightarrow> (string \<times> json) list \<Rightarrow> (string \<times> json) list \<Rightarrow> json \<Rightarrow> nat list \<Rightarrow> json \<Rightarrow> json res" where
  "agreement_draft commitment common terms rail paymentIndexes payoutBindings =
     (if commitment = ''commit-agreement''
      then ensure (elements payoutBindings = []) ''AgreementDocument MUST NOT carry payoutBindings''
             (Inr (JObj ((''agreementVersion'', JStr ''1'') # common @ [(''terms'', JObj terms)])))
      else bindR (requirePayoutBindings rail paymentIndexes payoutBindings) (\<lambda>bindings.
             Inr (JObj ((''payeeBoundAgreementVersion'', JStr ''1'') # common @
                        [(''terms'', JObj (terms @ [(''payoutBindings'', JArr bindings)]))]))))"

definition pin_matches :: "(string \<Rightarrow> string) \<Rightarrow> json \<Rightarrow> json \<Rightarrow> bool" where
  "pin_matches sha256Hex listing pin \<longleftrightarrow>
     dot pin ''listingId'' = dot listing ''listingId'' \<and> dot pin ''version'' = dot listing ''listingVersion'' \<and>
     (case contentHash sha256Hex (entries listing) of Inl _ \<Rightarrow> False | Inr h \<Rightarrow> dot pin ''contentHash'' = JStr h)"

definition within_validity :: "json \<Rightarrow> int \<Rightarrow> bool" where
  "within_validity listing t \<longleftrightarrow>
     uint_of (dot (dot listing ''validity'') ''notBefore'') \<le> t \<and>
     (dot (dot listing ''validity'') ''notAfter'' = JUndefined \<or> t \<le> uint_of (dot (dot listing ''validity'') ''notAfter''))"

section \<open>Fixed-price agreements\<close>

text \<open>The price and the quantity of a fixed-price agreement.\<close>

definition fixed_price_terms :: "json \<Rightarrow> json \<Rightarrow> (json \<times> json) res" where
  "fixed_price_terms pricing quantity =
     (if dot pricing ''kind'' = JStr ''fixed'' \<or> dot pricing ''kind'' = JStr ''negotiable''
      then ensure (quantity = JUndefined) ''unexpected-metered-quantity''
             (Inr (if dot pricing ''kind'' = JStr ''fixed'' then dot pricing ''price'' else dot pricing ''bandCenter'', JUndefined))
      else if dot pricing ''kind'' = JStr ''metered''
      then ensure (quantity \<noteq> JUndefined) ''missing-metered-quantity''
             (case (dot quantity ''quantity'', dot quantity ''unit'') of
                (JStr q, JStr u) \<Rightarrow>
                  bindR (deriveMeteredPriceTerm (pricing_of_json pricing) \<lparr>mq_quantity = q, mq_unit = u\<rparr>) (\<lambda>p. Inr (price_json p, quantity))
              | _ \<Rightarrow> throw ''non-canonical-metered-quantity'')
      else throw ''pricing is unsupported by the fixed-price handler'')"

definition deriveFixedPriceAgreement :: "artifact_env \<Rightarrow> (string \<Rightarrow> string) \<Rightarrow> json \<Rightarrow> json res" where
  "deriveFixedPriceAgreement env sha256Hex callerInput =
     bindR (snapshotCanonicalJson callerInput) (\<lambda>inp.
     let listing = dot (dot inp ''verifiedListing'') ''listing''; pin = dot (dot inp ''verifiedListing'') ''pin'';
         generatedAt = uint_of (dot inp ''generatedAt'') in
     ensure (dot (dot inp ''verifiedListing'') ''disposition'' = JStr ''verified'') ''a verified Listing disposition is required''
     (ensure (isListing env listing) ''verified Listing has invalid wire shape''
     (bindR (requireCanonicalJobId (text_of (dot inp ''jobId''))) (\<lambda>jobId.
     ensure (pin_matches sha256Hex listing pin) ''Listing pin does not match the exact verified Listing bytes (LR-1)''
     (ensure (isNonNegativeSafeInt (dot inp ''generatedAt'')) ''generatedAt must be unix ms''
     (ensure (within_validity listing generatedAt) ''Listing is outside its validity window''
     (ensure (dot (dot listing ''terms'') ''acceptanceModel'' \<noteq> JStr ''auto-accept'')
        ''auto-accept requires its verified commitment and live instance-signature path''
     (bindR (agreement_deadline listing generatedAt) (\<lambda>deadline.
      bindR (fixed_price_terms (dot listing ''pricing'') (dot inp ''meteredQuantity'')) (\<lambda>(price, quantity).
      bindR (requirePipeline ''negotiate-fixed-price'' listing) (\<lambda>(commitment, paymentIndexes).
      bindR (requireRail listing (dot inp ''selectedRail'') paymentIndexes) (\<lambda>rail.
      bindR (agreementParty env sha256Hex ''buyer'' (dot inp ''buyer'')) (\<lambda>buyer.
      bindR (agreementParty env sha256Hex ''seller'' (dot inp ''seller'')) (\<lambda>seller.
      ensure (same_identity env (dot seller ''primaryClaim'') (dot (dot (dot listing ''seller'') ''identity'') ''presentedBy''))
        ''seller bundle primary claim does not match the pinned Listing''
      (ensure (\<not> same_identity env (dot buyer ''primaryClaim'') (dot seller ''primaryClaim''))
        ''buyer and seller primary claims must be distinct''
      (bindR (deliverable_ref sha256Hex (dot (dot listing ''offering'') ''deliverable'')) (\<lambda>deliverable.
       agreement_draft commitment
         [(''jobId'', JStr jobId), (''listingRef'', pin), (''parties'', JArr [buyer, seller]),
          (''derivedFromPattern'', JStr ''fixed-price''), (''generatedAt'', int_json generatedAt)]
         (common_terms deliverable price quantity rail deadline) rail paymentIndexes (dot inp ''payoutBindings''))))))))))))))))))"

section \<open>Agreements from an accepted RFQ session\<close>

text \<open>The parameters of the RFQ session, instantiated with the modelled gates.\<close>

definition rfqEnv :: "artifact_env \<Rightarrow> (string \<Rightarrow> string) \<Rightarrow> rfq_env" where
  "rfqEnv env sha256Hex =
     \<lparr>re_sha256Hex = sha256Hex, re_hostname = av_hostname env, re_isAttestationRef = isAttestationRef,
      re_isIdentityBundle = isIdentityBundle env,
      re_identityBundleHash = (\<lambda>b. case identityBundleHash sha256Hex (entries b) of Inl _ \<Rightarrow> [] | Inr h \<Rightarrow> h),
      re_isListing = (\<lambda>kvs. isListing env (JObj kvs))\<rparr>"

text \<open>\<open>ra_rest\<close>: the members of the input beside the session.\<close>

record rfq_agreement_input =
  ra_session :: rfq_state
  ra_rest :: json

definition requireRfqPipeline :: "json \<Rightarrow> (string \<times> nat list) res" where
  "requireRfqPipeline listing = requirePipeline ''negotiate-rfq'' listing"

definition requireRfqRail :: "json \<Rightarrow> json \<Rightarrow> nat list \<Rightarrow> json res" where
  "requireRfqRail listing selected paymentIndexes = requireRail listing selected paymentIndexes"

definition requireRfqPayoutBindings :: "json \<Rightarrow> nat list \<Rightarrow> json \<Rightarrow> json list res" where
  "requireRfqPayoutBindings rail paymentIndexes bindings = requirePayoutBindings rail paymentIndexes bindings"

definition rfqAgreementParty :: "artifact_env \<Rightarrow> (string \<Rightarrow> string) \<Rightarrow> string \<Rightarrow> json \<Rightarrow> json res" where
  "rfqAgreementParty env sha256Hex role inp = agreementParty env sha256Hex role inp"

definition party_is :: "json \<Rightarrow> party_binding \<Rightarrow> bool" where
  "party_is party b \<longleftrightarrow>
     dot party ''primaryClaim'' = JStr (pb_primaryClaim b) \<and> dot party ''bundleHash'' = JStr (pb_bundleHash b) \<and>
     canonicalize (dot party ''vetRecordRef'') = canonicalize (pb_vetRecordRef b)"

definition acceptedProposal :: "rfq_state \<Rightarrow> rfq_proposal res" where
  "acceptedProposal s =
     (case rs_standingProposal s of
        None \<Rightarrow> throw ''RFQ session has no standing proposal''
      | Some standing \<Rightarrow> validateRfqProposal (sp_proposal standing) (rs_pricing s))"

definition assertSessionAuthority ::
  "artifact_env \<Rightarrow> (string \<Rightarrow> string) \<Rightarrow> rfq_state \<Rightarrow> json \<Rightarrow> json \<Rightarrow> json \<Rightarrow> json \<Rightarrow> rfq_proposal res" where
  "assertSessionAuthority env sha256Hex s listing pin buyer seller =
     ensure (validateStoredState (rfqEnv env sha256Hex) s) ''RFQ session checkpoint is malformed''
     (ensure (rs_status s = Accepted \<and> rs_standingProposal s \<noteq> None \<and> rs_lastMessageHash s \<noteq> None)
       ''RFQ agreement requires an accepted session checkpoint''
     (ensure (canonicalize (pin_json (rs_listingPin s)) = canonicalize pin \<and> rs_pricing s = pricing_of_json (dot listing ''pricing''))
       ''RFQ session does not match the exact Listing authority''
     (ensure (party_is buyer (rs_buyer s) \<and> party_is seller (rs_seller s)) ''RFQ agreement parties differ from the admitted session''
     (acceptedProposal s))))"

definition placeholder :: string where
  "placeholder = base64url_encode (replicate 64 (CHR 0x00))"

definition signature_entry :: "json \<Rightarrow> string \<Rightarrow> string \<Rightarrow> json" where
  "signature_entry party algorithm v = JObj [(''party'', party), (''algorithm'', JStr algorithm), (''value'', JStr v)]"

definition with_signatures :: "json \<Rightarrow> json list \<Rightarrow> json" where
  "with_signatures draft sigs = JObj (entries draft @ [(''signatures'', JArr sigs)])"

definition deriveRfqAgreement :: "artifact_env \<Rightarrow> (string \<Rightarrow> string) \<Rightarrow> rfq_agreement_input \<Rightarrow> json res" where
  "deriveRfqAgreement env sha256Hex callerInput =
     bindR (snapshotCanonicalJsonRead (ra_rest callerInput)) (\<lambda>inp.
     let s = ra_session callerInput; listing = dot (dot inp ''verifiedListing'') ''listing'';
         pin = dot (dot inp ''verifiedListing'') ''pin''; generatedAt = uint_of (dot inp ''generatedAt'') in
     ensure (dot (dot inp ''verifiedListing'') ''disposition'' = JStr ''verified'' \<and> isListing env listing)
       ''RFQ agreement requires an exact verified Listing''
     (bindR (requireCanonicalJobId (rs_jobId s)) (\<lambda>jobId.
     ensure (pin_matches sha256Hex listing pin) ''RFQ Listing pin does not match the exact verified bytes''
     (ensure (isNonNegativeSafeInt (dot inp ''generatedAt'') \<and> rs_startedAt s \<le> generatedAt \<and> within_validity listing generatedAt)
       ''RFQ agreement generation time is invalid''
     (bindR (agreement_deadline listing generatedAt) (\<lambda>deadline.
      bindR (rfqAgreementParty env sha256Hex ''buyer'' (dot inp ''buyer'')) (\<lambda>buyer.
      bindR (rfqAgreementParty env sha256Hex ''seller'' (dot inp ''seller'')) (\<lambda>seller.
      ensure (\<not> same_identity env (dot buyer ''primaryClaim'') (dot seller ''primaryClaim'') \<and>
              same_identity env (dot seller ''primaryClaim'') (dot (dot (dot listing ''seller'') ''identity'') ''presentedBy''))
        ''RFQ agreement parties do not match Listing roles''
      (bindR (assertSessionAuthority env sha256Hex s listing pin buyer seller) (\<lambda>accepted_proposal.
       bindR (requireRfqPipeline listing) (\<lambda>(commitment, paymentIndexes).
       bindR (requireRfqRail listing (dot inp ''selectedRail'') paymentIndexes) (\<lambda>rail.
       bindR (deliverable_ref sha256Hex (dot (dot listing ''offering'') ''deliverable'')) (\<lambda>deliverable.
       bindR (agreement_draft commitment
         [(''jobId'', JStr jobId), (''listingRef'', pin), (''parties'', JArr [buyer, seller]), (''derivedFromPattern'', JStr ''rfq''),
          (''derivedFromChannel'', JObj [(''subnet'', JStr (rs_channelId s)), (''lastMessageHash'', JStr (the (rs_lastMessageHash s)))]),
          (''generatedAt'', int_json generatedAt)]
         (common_terms deliverable (price_json (pr_price accepted_proposal))
           (case pr_meteredQuantity accepted_proposal of None \<Rightarrow> JUndefined | Some q \<Rightarrow> quantity_json q) rail deadline)
         rail paymentIndexes (dot inp ''payoutBindings'')) (\<lambda>draft.
       ensure (isAgreementArtifact env (with_signatures draft
                 [signature_entry (dot buyer ''primaryClaim'') ''ed25519'' placeholder,
                  signature_entry (dot seller ''primaryClaim'') ''ed25519'' placeholder]))
         ''derived RFQ agreement failed exact artifact validation''
       (Inr draft)))))))))))))))"

section \<open>Signing an agreement\<close>

record agreement_signer =
  sg_party :: string
  sg_algorithm :: string
  sg_sign :: "string \<Rightarrow> signer_value res"

definition encodedSignature :: "signer_value \<Rightarrow> string \<Rightarrow> string res" where
  "encodedSignature v algorithm =
     bindR (case v of Signed_Text t \<Rightarrow> Inr t | Signed_Bytes b \<Rightarrow> Inr (base64url_encode b)
            | Signed_Other \<Rightarrow> throw ''agreement signer must return signature bytes or a canonical unpadded Base64URL string'') (\<lambda>encoded.
     ensure (isCanonicalBase64Url encoded) ''agreement signer returned a non-canonical Base64URL value''
     (ensure (algorithm = ''ed25519'' \<longrightarrow> length (base64url_decode encoded) = 64) ''ed25519 agreement signatures must be exactly 64 bytes''
     (Inr encoded)))"

definition captureAgreementSigner :: "agreement_signer \<Rightarrow> agreement_signer res" where
  "captureAgreementSigner signer =
     ensure (sg_party signer \<noteq> [] \<and> trim (sg_party signer) = sg_party signer) ''agreement signer party must be a non-empty string''
     (ensure (sg_algorithm signer \<in> set COMPONENT_SIGNATURE_ALGORITHMS) ''agreement signer uses an unsupported algorithm''
     (Inr signer))"

definition collectAgreementSignature :: "agreement_signer \<Rightarrow> string \<Rightarrow> json res" where
  "collectAgreementSignature signer bytes =
     bindR (sg_sign signer bytes) (\<lambda>rawValue.
     bindR (encodedSignature rawValue (sg_algorithm signer)) (\<lambda>v.
     Inr (signature_entry (JStr (sg_party signer)) (sg_algorithm signer) v)))"

definition first_claim :: "string \<Rightarrow> json \<Rightarrow> json" where
  "first_claim role draft =
     (case find (\<lambda>party. dot party ''role'' = JStr role) (elements (dot draft ''parties'')) of
        None \<Rightarrow> JUndefined
      | Some party \<Rightarrow> dot party ''primaryClaim'')"

definition separatorFor :: "json \<Rightarrow> string" where
  "separatorFor draft =
     (if has_own (entries draft) ''agreementVersion'' then ''dacs-agreement:v1:'' else ''dacs-payee-bound-agreement:v1:'')"

definition agreement_bytes :: "(string \<Rightarrow> string) \<Rightarrow> json \<Rightarrow> string res" where
  "agreement_bytes sha256Hex draft =
     bindR (contentHash sha256Hex (entries draft)) (\<lambda>h. Inr (signedBytes (separatorFor draft) h))"

definition signAgreementArtifactForPattern ::
  "artifact_env \<Rightarrow> (string \<Rightarrow> string) \<Rightarrow> string option \<Rightarrow> json \<Rightarrow> agreement_signer \<Rightarrow> agreement_signer \<Rightarrow> json res" where
  "signAgreementArtifactForPattern env sha256Hex expectedPattern callerDraft buyerSigner sellerSigner =
     bindR (captureAgreementSigner buyerSigner) (\<lambda>buyer.
     bindR (captureAgreementSigner sellerSigner) (\<lambda>seller.
     bindR (snapshotCanonicalJson callerDraft) (\<lambda>draft.
     bindR (requireCanonicalJobId (text_of (dot draft ''jobId''))) (\<lambda>_.
     ensure (case expectedPattern of None \<Rightarrow> True | Some p \<Rightarrow> dot draft ''derivedFromPattern'' = JStr p)
       ''agreement draft is not derived from the pattern''
     (ensure (\<not> has_own (entries draft) ''signatures'' \<and> \<not> has_own (entries draft) ''signature'')
       ''agreement draft must not carry signature fields''
     (ensure (first_claim ''buyer'' draft = JStr (sg_party buyer) \<and> first_claim ''seller'' draft = JStr (sg_party seller))
       ''agreement signers do not match the bound buyer and seller claims''
     (ensure (isAgreementArtifact env (with_signatures draft
                [signature_entry (JStr (sg_party buyer)) (sg_algorithm buyer) placeholder,
                 signature_entry (JStr (sg_party seller)) (sg_algorithm seller) placeholder]))
       ''agreement draft failed exact DACS-3 8.5 validation''
     (bindR (agreement_bytes sha256Hex draft) (\<lambda>bytes.
      bindR (collectAgreementSignature buyer bytes) (\<lambda>sig1.
      bindR (collectAgreementSignature seller bytes) (\<lambda>sig2.
      ensure (isAgreementArtifact env (with_signatures draft [sig1, sig2])) ''signed agreement failed exact DACS-3 8.5 validation''
      (Inr (with_signatures draft [sig1, sig2])))))))))))))"

definition signAgreementArtifact ::
  "artifact_env \<Rightarrow> (string \<Rightarrow> string) \<Rightarrow> json \<Rightarrow> agreement_signer \<Rightarrow> agreement_signer \<Rightarrow> json res" where
  "signAgreementArtifact env sha256Hex callerDraft buyerSigner sellerSigner =
     signAgreementArtifactForPattern env sha256Hex None callerDraft buyerSigner sellerSigner"

definition signFixedPriceAgreement ::
  "artifact_env \<Rightarrow> (string \<Rightarrow> string) \<Rightarrow> json \<Rightarrow> agreement_signer \<Rightarrow> agreement_signer \<Rightarrow> json res" where
  "signFixedPriceAgreement env sha256Hex callerDraft buyerSigner sellerSigner =
     signAgreementArtifactForPattern env sha256Hex (Some ''fixed-price'') callerDraft buyerSigner sellerSigner"

definition signRfqAgreement ::
  "artifact_env \<Rightarrow> (string \<Rightarrow> string) \<Rightarrow> json \<Rightarrow> agreement_signer \<Rightarrow> agreement_signer \<Rightarrow> json res" where
  "signRfqAgreement env sha256Hex callerDraft buyerSigner sellerSigner =
     bindR (snapshotCanonicalJson callerDraft) (\<lambda>draft.
     ensure (dot draft ''derivedFromPattern'' = JStr ''rfq'' \<and> dot draft ''derivedFromChannel'' \<noteq> JUndefined \<and>
             isSha256 (dot (dot draft ''derivedFromChannel'') ''lastMessageHash''))
       ''RFQ agreement must bind its authenticated channel transcript''
     (signAgreementArtifact env sha256Hex draft buyerSigner sellerSigner))"

end
