(* ===== verification/Dacs_Exchange.thy ===== *)
theory Dacs_Exchange
  imports Dacs_Agreement
begin

text \<open>
  Signing an agreement over a transport (\<^verbatim>\<open>src/src/negotiate/fixedPriceExchange.ts\<close>): one party makes a
  signing plan, each party signs the bytes of the plan on its own, and the two contributions are
  verified and joined. Plans and contributions arrive from the other side as JSON documents; a byte
  array is a JSON array of numbers. SHA-256, the signers and the signature verifier are parameters.
\<close>

section \<open>Capture\<close>

text \<open>The values \<^verbatim>\<open>captureData\<close> copies: JSON data whose numbers are safe integers.\<close>

fun plain_data :: "json \<Rightarrow> bool" where
  "plain_data JNull = True"
| "plain_data (JBool b) = True"
| "plain_data (JStr s) = True"
| "plain_data (JNum n) = (case n of JInt i \<Rightarrow> isSafeInteger i | _ \<Rightarrow> False)"
| "plain_data (JArr xs) = list_all plain_data xs"
| "plain_data (JObj kvs) = list_all (\<lambda>kv. plain_data (snd kv)) kvs"
| "plain_data JUndefined = False"
| "plain_data (JBigInt i) = False"

definition captureData :: "json \<Rightarrow> json res" where
  "captureData v = ensure (plain_data v) ''must contain JSON data values only'' (Inr v)"

definition captureArray :: "json \<Rightarrow> (json \<Rightarrow> 'a res) \<Rightarrow> 'a list res" where
  "captureArray v captureEntry =
     (case v of JArr xs \<Rightarrow> mapR captureEntry xs | _ \<Rightarrow> throw ''must be an intrinsic array'')"

definition exactDataKeys :: "json \<Rightarrow> string list \<Rightarrow> bool" where
  "exactDataKeys v required \<longleftrightarrow> isObj v \<and> exactKeys (map fst (entries v)) required []"

definition isCanonicalText :: "json \<Rightarrow> bool" where
  "isCanonicalText = str_where isNonEmptyString"

definition bytes_json :: "string \<Rightarrow> json" where
  "bytes_json bs = JArr (map (\<lambda>c. int_json (int (code c))) bs)"

fun is_byte :: "json \<Rightarrow> bool" where
  "is_byte (JNum (JInt n)) = (0 \<le> n \<and> n \<le> 255)"
| "is_byte _ = False"

section \<open>Plans\<close>

definition required_signer :: "string \<Rightarrow> json \<Rightarrow> json" where
  "required_signer role party = JObj [(''role'', JStr role), (''party'', party)]"

definition requiredSignersFor :: "json \<Rightarrow> json list res" where
  "requiredSignersFor draft =
     (let buyer = first_claim ''buyer'' draft; seller = first_claim ''seller'' draft in
      ensure (isCanonicalText buyer \<and> isCanonicalText seller \<and> buyer \<noteq> seller)
        ''agreement draft must bind distinct buyer and seller claims''
      (Inr [required_signer ''buyer'' buyer, required_signer ''seller'' seller]))"

definition placeholderAgreement :: "json \<Rightarrow> json list \<Rightarrow> json" where
  "placeholderAgreement draft requiredSigners =
     with_signatures draft (map (\<lambda>signer. signature_entry (dot signer ''party'') ''ed25519'' placeholder) requiredSigners)"

definition plan_keys :: "string list" where
  "plan_keys = [''planVersion'', ''draft'', ''agreementHash'', ''separator'', ''signedBytes'', ''requiredSigners'']"

definition planMaterial :: "json \<Rightarrow> json" where
  "planMaterial plan = JObj (map (\<lambda>k. (k, dot plan k)) plan_keys)"

definition unsigned_draft :: "json \<Rightarrow> bool" where
  "unsigned_draft draft \<longleftrightarrow> isObj draft \<and> \<not> has_own (entries draft) ''signature'' \<and> \<not> has_own (entries draft) ''signatures''"

definition plan_shape :: "json \<Rightarrow> bool" where
  "plan_shape plan \<longleftrightarrow>
     exactDataKeys plan (plan_keys @ [''planHash'']) \<and> dot plan ''planVersion'' = JStr ''1'' \<and> unsigned_draft (dot plan ''draft'') \<and>
     isSha256 (dot plan ''agreementHash'') \<and> arr_where (list_all is_byte) (dot plan ''signedBytes'') \<and>
     is_array (dot plan ''requiredSigners'') \<and> isSha256 (dot plan ''planHash'')"

definition capturePlan :: "artifact_env \<Rightarrow> (string \<Rightarrow> string) \<Rightarrow> json \<Rightarrow> json res" where
  "capturePlan env sha256Hex v =
     bindR (captureData v) (\<lambda>plan.
     let draft = dot plan ''draft'' in
     ensure (plan_shape plan) ''fixed-price agreement signing plan is malformed''
     (bindR (requiredSignersFor draft) (\<lambda>requiredSigners.
     ensure (length (elements (dot plan ''requiredSigners'')) = length requiredSigners \<and>
             canonicalize (dot plan ''requiredSigners'') = canonicalize (JArr requiredSigners) \<and>
             isAgreementArtifact env (placeholderAgreement draft requiredSigners))
       ''fixed-price agreement signing plan has a substituted party roster''
     (bindR (contentHash sha256Hex (entries draft)) (\<lambda>agreementHash.
      ensure (dot plan ''agreementHash'' = JStr agreementHash \<and> dot plan ''separator'' = JStr (separatorFor draft) \<and>
              canonicalize (dot plan ''signedBytes'') = canonicalize (bytes_json (signedBytes (separatorFor draft) agreementHash)))
        ''fixed-price agreement signing plan does not bind its exact draft bytes''
      (bindR (canonicalize (planMaterial plan)) (\<lambda>material.
       ensure (JStr (sha256Hex material) = dot plan ''planHash'') ''fixed-price agreement signing plan hash does not match''
       (Inr plan))))))))"

definition createFixedPriceAgreementSigningPlan :: "artifact_env \<Rightarrow> (string \<Rightarrow> string) \<Rightarrow> json \<Rightarrow> json res" where
  "createFixedPriceAgreementSigningPlan env sha256Hex v =
     bindR (captureData v) (\<lambda>draft.
     ensure (unsigned_draft draft) ''agreement draft cannot carry signature fields''
     (bindR (requiredSignersFor draft) (\<lambda>requiredSigners.
     ensure (isAgreementArtifact env (placeholderAgreement draft requiredSigners)) ''agreement draft failed exact DACS-3 validation''
     (bindR (contentHash sha256Hex (entries draft)) (\<lambda>agreementHash.
      let base = [(''planVersion'', JStr ''1''), (''draft'', draft), (''agreementHash'', JStr agreementHash),
                  (''separator'', JStr (separatorFor draft)),
                  (''signedBytes'', bytes_json (signedBytes (separatorFor draft) agreementHash)),
                  (''requiredSigners'', JArr requiredSigners)] in
      bindR (canonicalize (planMaterial (JObj base))) (\<lambda>material.
      capturePlan env sha256Hex (JObj (base @ [(''planHash'', JStr (sha256Hex material))]))))))))"

text \<open>\<^verbatim>\<open>Uint8Array.from(plan.signedBytes)\<close>.\<close>

definition bytes_of_json :: "json \<Rightarrow> string" where
  "bytes_of_json v = map (\<lambda>b. char_of (nat (uint_of b))) (elements v)"

definition fixedPriceAgreementSignedBytes :: "artifact_env \<Rightarrow> (string \<Rightarrow> string) \<Rightarrow> json \<Rightarrow> string res" where
  "fixedPriceAgreementSignedBytes env sha256Hex v =
     bindR (capturePlan env sha256Hex v) (\<lambda>plan. Inr (bytes_of_json (dot plan ''signedBytes'')))"

section \<open>Contributions\<close>

definition contribution_keys :: "string list" where
  "contribution_keys = [''contributionVersion'', ''planHash'', ''role'', ''party'', ''signature'']"

definition contributionMaterial :: "json \<Rightarrow> json" where
  "contributionMaterial contribution = JObj (map (\<lambda>k. (k, dot contribution k)) contribution_keys)"

definition contribution_shape :: "json \<Rightarrow> bool" where
  "contribution_shape c \<longleftrightarrow>
     exactDataKeys c (contribution_keys @ [''contributionHash'']) \<and> dot c ''contributionVersion'' = JStr ''1'' \<and>
     isSha256 (dot c ''planHash'') \<and> isOneOf [''buyer'', ''seller''] (dot c ''role'') \<and> isCanonicalText (dot c ''party'') \<and>
     exactDataKeys (dot c ''signature'') [''party'', ''algorithm'', ''value''] \<and>
     dot (dot c ''signature'') ''party'' = dot c ''party'' \<and>
     isOneOf COMPONENT_SIGNATURE_ALGORITHMS (dot (dot c ''signature'') ''algorithm'') \<and>
     str_where isCanonicalBase64Url (dot (dot c ''signature'') ''value'') \<and> isSha256 (dot c ''contributionHash'')"

definition captureContribution :: "(string \<Rightarrow> string) \<Rightarrow> json \<Rightarrow> json res" where
  "captureContribution sha256Hex v =
     bindR (captureData v) (\<lambda>c.
     ensure (contribution_shape c) ''fixed-price agreement contribution is malformed''
     (bindR (canonicalize (contributionMaterial c)) (\<lambda>material.
      ensure (JStr (sha256Hex material) = dot c ''contributionHash'') ''fixed-price agreement contribution hash does not match''
      (Inr c))))"

definition isFixedPriceAgreementSignatureContribution :: "(string \<Rightarrow> string) \<Rightarrow> json \<Rightarrow> bool" where
  "isFixedPriceAgreementSignatureContribution sha256Hex v \<longleftrightarrow> isOk (captureContribution sha256Hex v)"

definition captureSigner :: "agreement_signer \<Rightarrow> agreement_signer res" where
  "captureSigner signer =
     ensure (isNonEmptyString (sg_party signer) \<and> sg_algorithm signer \<in> set COMPONENT_SIGNATURE_ALGORITHMS)
       ''agreement signer identity or algorithm is malformed'' (Inr signer)"

definition signature_text :: "signer_value \<Rightarrow> string" where
  "signature_text v = (case v of Signed_Text t \<Rightarrow> t | Signed_Bytes b \<Rightarrow> base64url_encode b | Signed_Other \<Rightarrow> [])"

text \<open>The entry of the plan's roster for a role.\<close>

definition signer_of_role :: "json \<Rightarrow> string \<Rightarrow> json option" where
  "signer_of_role plan role = find (\<lambda>e. dot e ''role'' = JStr role) (elements (dot plan ''requiredSigners''))"

definition createFixedPriceAgreementSignatureContribution ::
  "artifact_env \<Rightarrow> (string \<Rightarrow> string) \<Rightarrow> json \<Rightarrow> string \<Rightarrow> agreement_signer \<Rightarrow> json res" where
  "createFixedPriceAgreementSignatureContribution env sha256Hex planValue role signerValue =
     bindR (capturePlan env sha256Hex planValue) (\<lambda>plan.
     ensure (role = ''buyer'' \<or> role = ''seller'') ''agreement contribution role must be buyer or seller''
     (bindR (captureSigner signerValue) (\<lambda>signer.
      ensure (case signer_of_role plan role of None \<Rightarrow> False | Some e \<Rightarrow> dot e ''party'' = JStr (sg_party signer))
        ''agreement contribution signer does not own that role''
      (bindR (fixedPriceAgreementSignedBytes env sha256Hex plan) (\<lambda>bytes.
       bindR (sg_sign signer bytes) (\<lambda>raw.
       ensure (isCanonicalBase64Url (signature_text raw)) ''agreement signer returned a non-canonical Base64URL signature''
       (let base = [(''contributionVersion'', JStr ''1''), (''planHash'', dot plan ''planHash''), (''role'', JStr role),
                    (''party'', JStr (sg_party signer)),
                    (''signature'', signature_entry (JStr (sg_party signer)) (sg_algorithm signer) (signature_text raw))] in
        bindR (canonicalize (contributionMaterial (JObj base))) (\<lambda>material.
        captureContribution sha256Hex (JObj (base @ [(''contributionHash'', JStr (sha256Hex material))]))))))))))"

section \<open>Joining\<close>

text \<open>The map from roles to contributions; a role given twice is refused.\<close>

fun by_role :: "(json \<times> json) list \<Rightarrow> json list \<Rightarrow> (json \<times> json) list res" where
  "by_role acc [] = Inr acc"
| "by_role acc (c # cs) =
     ensure (map_of acc (dot c ''role'') = None) ''agreement contribution role is duplicated''
     (by_role ((dot c ''role'', c) # acc) cs)"

type_synonym contribution_verifier = "json \<Rightarrow> json \<Rightarrow> json \<Rightarrow> json \<Rightarrow> string \<Rightarrow> string res"

text \<open>One iteration over the plan's roster: the verified signature of the expected signer.\<close>

definition role_signature ::
  "artifact_env \<Rightarrow> (string \<Rightarrow> string) \<Rightarrow> contribution_verifier \<Rightarrow> json \<Rightarrow> (json \<times> json) list \<Rightarrow> json \<Rightarrow> json res" where
  "role_signature env sha256Hex verify plan byRole expected =
     (case map_of byRole (dot expected ''role'') of
        None \<Rightarrow> throw ''agreement contribution is missing or substituted''
      | Some c \<Rightarrow>
        ensure (dot c ''planHash'' = dot plan ''planHash'' \<and> dot c ''party'' = dot expected ''party'' \<and>
                dot (dot c ''signature'') ''party'' = dot expected ''party'') ''agreement contribution is missing or substituted''
        (let answer = bindR (fixedPriceAgreementSignedBytes env sha256Hex plan)
               (verify (dot expected ''role'') (dot expected ''party'') (dot (dot c ''signature'') ''algorithm'')
                  (dot (dot c ''signature'') ''value'')) in
         ensure (answer = Inr ''valid'') ''agreement contribution is not cryptographically valid''
         (Inr (dot c ''signature''))))"

definition finalizeFixedPriceAgreementContributions ::
  "artifact_env \<Rightarrow> (string \<Rightarrow> string) \<Rightarrow> contribution_verifier \<Rightarrow> json \<Rightarrow> json \<Rightarrow> json res" where
  "finalizeFixedPriceAgreementContributions env sha256Hex verify planValue contributionValues =
     bindR (capturePlan env sha256Hex planValue) (\<lambda>plan.
     bindR (captureArray contributionValues (captureContribution sha256Hex)) (\<lambda>contributions.
     ensure (length contributions = 2) ''agreement requires exactly one buyer and one seller contribution''
     (bindR (by_role [] contributions) (\<lambda>byRole.
      bindR (mapR (role_signature env sha256Hex verify plan byRole) (elements (dot plan ''requiredSigners''))) (\<lambda>sigs.
      bindR (captureData (with_signatures (dot plan ''draft'') sigs)) (\<lambda>agreement.
      bindR (contentHash sha256Hex (entries (dot plan ''draft''))) (\<lambda>h.
      ensure (isAgreementArtifact env agreement \<and> JStr h = dot plan ''agreementHash'') ''assembled agreement failed exact DACS-3 validation''
      (Inr agreement))))))))"

end
