(* ===== verification/Dacs_Jcs_Injective.thy ===== *)
theory Dacs_Jcs_Injective
  imports Dacs_Snapshot
begin

text \<open>
  Canonical JSON texts determine the document: two values with the same canonical text are the same
  tree up to the order of object members. A content hash or a signature over the canonical text is
  therefore a hash or a signature of the document.
\<close>

section \<open>Prefix decoding\<close>

text \<open>What may follow a value inside a canonical text: nothing, a comma or a closing bracket.\<close>

definition closes :: "string \<Rightarrow> bool" where
  "closes r \<longleftrightarrow> r = [] \<or> hd r = CHR '','' \<or> hd r = CHR '']'' \<or> hd r = CHR ''}''"

lemma closes_simps [simp]:
  "closes []" "closes (CHR '','' # r)" "closes (CHR '']'' # r)" "closes (CHR ''}'' # r)"
  by (simp_all add: closes_def)

text \<open>Characters that a number text does not contain.\<close>

definition number_char :: "char \<Rightarrow> bool" where
  "number_char c \<longleftrightarrow> is_digit c \<or> c = CHR ''-'' \<or> c = CHR ''+'' \<or> c = CHR ''.'' \<or> c = CHR ''e''"

lemma number_prefix:
  assumes "t @ r = u @ q" "list_all number_char t" "list_all number_char u" "closes r" "closes q"
  shows "t = u \<and> r = q"
  using assms
proof (induction t arbitrary: u)
  case Nil
  then show ?case by (cases u) (auto simp: closes_def number_char_def is_digit_def)
next
  case (Cons c t)
  show ?case
  proof (cases u)
    case Nil
    then show ?thesis using Cons.prems by (auto simp: closes_def number_char_def is_digit_def)
  next
    case (Cons c' u')
    then show ?thesis using Cons.IH [of u'] Cons.prems by simp
  qed
qed

section \<open>Strings\<close>

definition hex_value :: "char \<Rightarrow> nat" where
  "hex_value c = (if is_digit c then code c - 48 else code c - 87)"

lemma hex_value_digit: "d < 16 \<Longrightarrow> hex_value (hex_digit d) = d"
  by (auto simp: hex_value_def hex_digit_def is_digit_def of_char_of take_bit_eq_mod)

text \<open>The character an escaped character stands for, and the rest of the text.\<close>

fun unescape :: "string \<Rightarrow> (char \<times> string)" where
  "unescape (c # r) =
     (if c \<noteq> CHR 0x5C then (c, r)
      else case r of
        [] \<Rightarrow> (c, r)
      | e # r' \<Rightarrow>
        if e = CHR ''b'' then (CHR 0x08, r') else if e = CHR ''f'' then (CHR 0x0C, r')
        else if e = CHR ''n'' then (CHR 0x0A, r') else if e = CHR ''r'' then (CHR 0x0D, r')
        else if e = CHR ''t'' then (CHR 0x09, r')
        else if e = CHR ''u'' then (char_of (16 * hex_value (r' ! 2) + hex_value (r' ! 3)), drop 4 r')
        else (e, r'))"
| "unescape [] = (CHR 0x00, [])"

lemma unescape_canonChar: "unescape (canonChar c @ r) = (c, r)"
proof (cases "code c < 32")
  case True
  then have "char_of (16 * (code c div 16) + code c mod 16) = c" by simp
  then show ?thesis using True
    by (auto simp: canonChar_def hex_value_digit)
next
  case False
  then show ?thesis by (auto simp: canonChar_def)
qed

lemma canonChar_shape: "canonChar c \<noteq> []" "hd (canonChar c) \<noteq> CHR 0x22"
  by (auto simp: canonChar_def)

lemma canonChars_prefix:
  assumes "concat (map canonChar s) @ CHR 0x22 # r = concat (map canonChar s') @ CHR 0x22 # q"
  shows "s = s' \<and> r = q"
  using assms
proof (induction s arbitrary: s')
  case Nil
  then show ?case using canonChar_shape by (cases s') (auto simp: Cons_eq_append_conv, metis list.sel(1))
next
  case (Cons c s)
  show ?case
  proof (cases s')
    case Nil
    then show ?thesis using Cons.prems canonChar_shape [of c] by (auto simp: append_eq_Cons_conv)
  next
    case (Cons c' s2)
    have "unescape (canonChar c @ concat (map canonChar s) @ CHR 0x22 # r) =
        unescape (canonChar c' @ concat (map canonChar s2) @ CHR 0x22 # q)"
      using Cons.prems Cons by simp
    then have "c = c'" "concat (map canonChar s) @ CHR 0x22 # r = concat (map canonChar s2) @ CHR 0x22 # q"
      unfolding unescape_canonChar by simp_all
    then show ?thesis using Cons Cons.IH by simp
  qed
qed

lemma canonString_prefix: "canonString s @ r = canonString s' @ q \<Longrightarrow> s = s' \<and> r = q"
  using canonChars_prefix [of s r s' q] by (simp add: canonString_def)

section \<open>Lists of texts\<close>

lemma joinWith_Cons: "joinWith sep (x # xs) = x @ concat (map (\<lambda>y. sep # y) xs)"
  by (induction sep "x # xs" arbitrary: x xs rule: joinWith.induct) simp_all

lemma tail_closes: "c = CHR '']'' \<or> c = CHR ''}'' \<Longrightarrow> closes (concat (map (\<lambda>y. CHR '','' # y) ts) @ c # r)"
  by (cases ts) auto

lemma tail_prefix:
  assumes decode: "\<And>x y t u r q. x \<in> set xs \<Longrightarrow> enc x t \<Longrightarrow> enc' y u \<Longrightarrow> t @ r = u @ q \<Longrightarrow> closes r \<Longrightarrow> closes q \<Longrightarrow>
      f x = f y \<and> r = q"
    and "list_all2 enc xs ts" "list_all2 enc' ys us" and c: "c = CHR '']'' \<or> c = CHR ''}''"
    and "concat (map (\<lambda>y. CHR '','' # y) ts) @ c # r = concat (map (\<lambda>y. CHR '','' # y) us) @ c # q"
  shows "map f xs = map f ys \<and> r = q"
  using assms(1-3,5)
proof (induction xs arbitrary: ts ys us)
  case Nil
  then show ?case using c by (cases us) auto
next
  case (Cons x xs)
  obtain t ts' where t: "ts = t # ts'" "enc x t" "list_all2 enc xs ts'" using Cons.prems(2) by (auto simp: list_all2_Cons1)
  obtain u us' where u: "us = u # us'" using Cons.prems(4) c by (cases us) (auto simp: t)
  obtain y ys' where y: "ys = y # ys'" "enc' y u" "list_all2 enc' ys' us'" using Cons.prems(3) by (auto simp: u list_all2_Cons2)
  have "t @ concat (map (\<lambda>y. CHR '','' # y) ts') @ c # r = u @ concat (map (\<lambda>y. CHR '','' # y) us') @ c # q"
    using Cons.prems(4) by (simp add: t u)
  from Cons.prems(1) [OF _ t(2) y(2) this tail_closes [OF c] tail_closes [OF c]]
  have "f x = f y" "concat (map (\<lambda>y. CHR '','' # y) ts') @ c # r = concat (map (\<lambda>y. CHR '','' # y) us') @ c # q" by simp_all
  moreover have "map f xs = map f ys' \<and> r = q"
    using Cons.IH [OF _ t(3) y(3) calculation(2)] Cons.prems(1) by (metis list.set_intros(2))
  ultimately show ?case by (simp add: y)
qed

lemma joined_prefix:
  assumes decode: "\<And>x y t u r q. x \<in> set xs \<Longrightarrow> enc x t \<Longrightarrow> enc' y u \<Longrightarrow> t @ r = u @ q \<Longrightarrow> closes r \<Longrightarrow> closes q \<Longrightarrow>
      f x = f y \<and> r = q"
    and opens: "\<And>x t. enc x t \<Longrightarrow> \<not> closes t" "\<And>y u. enc' y u \<Longrightarrow> \<not> closes u"
    and enc: "list_all2 enc xs ts" "list_all2 enc' ys us" and c: "c = CHR '']'' \<or> c = CHR ''}''"
    and eq: "joinWith (CHR '','') ts @ c # r = joinWith (CHR '','') us @ c # q"
  shows "map f xs = map f ys \<and> r = q"
proof (cases "xs = [] \<or> ys = []")
  case True
  have "xs = [] \<and> ys = []"
  proof (rule ccontr)
    assume "\<not> ?thesis"
    then consider (l) x xs' where "xs = x # xs'" "ys = []" | (r) y ys' where "xs = []" "ys = y # ys'"
      using True by (cases xs; cases ys) auto
    then show False
    proof cases
      case l
      then obtain t ts' where "ts = t # ts'" "enc x t" "us = []" using enc by (auto simp: list_all2_Cons1)
      then show False using eq opens(1) [of x t] c by (cases t) (auto simp: joinWith_Cons closes_def)
    next
      case r
      then obtain u us' where "us = u # us'" "enc' y u" "ts = []" using enc by (auto simp: list_all2_Cons1)
      then show False using eq opens(2) [of y u] c by (cases u) (auto simp: joinWith_Cons closes_def)
    qed
  qed
  then show ?thesis using enc eq by simp
next
  case False
  then obtain t ts' u us' where "ts = t # ts'" "us = u # us'"
    using enc by (metis list.exhaust list_all2_Nil list_all2_Nil2)
  then have "concat (map (\<lambda>y. CHR '','' # y) ts) @ c # r = concat (map (\<lambda>y. CHR '','' # y) us) @ c # q"
    using eq by (simp add: joinWith_Cons)
  with enc c show ?thesis
    by (intro tail_prefix [where enc = enc and enc' = enc' and f = f and xs = xs and ys = ys and ts = ts and us = us and c = c])
      (use decode in blast)+
qed

section \<open>Values\<close>

text \<open>The text of a non-integral number: number characters, with a point or an exponent.\<close>

definition fraction_text :: "string \<Rightarrow> bool" where
  "fraction_text t \<longleftrightarrow> t \<noteq> [] \<and> list_all number_char t \<and> (is_digit (hd t) \<or> hd t = CHR ''-'') \<and> (CHR ''.'' \<in> set t \<or> CHR ''e'' \<in> set t)"

fun number_texts :: "json \<Rightarrow> bool" where
  "number_texts (JNum (JFrac t)) = fraction_text t"
| "number_texts (JArr xs) = list_all number_texts xs"
| "number_texts (JObj kvs) = list_all (\<lambda>kv. number_texts (snd kv)) kvs"
| "number_texts _ = True"

lemma int_text_chars: "list_all number_char (int_text i)" "int_text i \<noteq> []" "is_digit (hd (int_text i)) \<or> hd (int_text i) = CHR ''-''"
    "CHR ''.'' \<notin> set (int_text i)" "CHR ''e'' \<notin> set (int_text i)"
proof -
  have d: "list_all is_digit (nat_text n)" for n by (rule nat_text_digits)
  then have "list_all number_char (nat_text n)" for n by (auto simp: number_char_def list_all_iff)
  moreover have "is_digit (hd (nat_text n))" for n using d [of n] by (cases "nat_text n") auto
  ultimately show "list_all number_char (int_text i)" "int_text i \<noteq> []" "is_digit (hd (int_text i)) \<or> hd (int_text i) = CHR ''-''"
    by (auto simp: int_text_def number_char_def)
  show "CHR ''.'' \<notin> set (int_text i)" "CHR ''e'' \<notin> set (int_text i)"
    using nat_text_no_char by (auto simp: int_text_def is_digit_def)
qed

lemma canon_int_inject: "int_text i = int_text j \<longleftrightarrow> i = j"
proof
  assume eq: "int_text i = int_text j"
  have nodash: "hd (nat_text n) \<noteq> CHR ''-''" for n
    using nat_text_digits [of n] by (cases "nat_text n") (auto simp: is_digit_def)
  show "i = j"
    using eq nodash nat_text.enc_eq_iff by (auto simp: int_text_def split: if_splits) (metis list.sel(1))+
qed simp

lemma canonNumber_text:
  assumes "canonNumber n = Inr t" "number_texts (JNum n)"
  shows "list_all number_char t" "t \<noteq> []" "is_digit (hd t) \<or> hd t = CHR ''-''"
  using assms int_text_chars by (cases n; auto simp: canonNumber_def ensure_Inr fraction_text_def)+

lemma canonNumber_inject:
  assumes "canonNumber m = Inr t" "canonNumber n = Inr t" "number_texts (JNum m)" "number_texts (JNum n)"
  shows "m = n"
  using assms int_text_chars(4,5) by (cases m; cases n) (auto simp: canonNumber_def ensure_Inr fraction_text_def canon_int_inject)

text \<open>The first character of a canonical text tells the kind of the value.\<close>

definition head_of :: "json \<Rightarrow> char \<Rightarrow> bool" where
  "head_of v c =
     (case v of
        JNull \<Rightarrow> c = CHR ''n'' | JBool b \<Rightarrow> c = (if b then CHR ''t'' else CHR ''f'') | JStr _ \<Rightarrow> c = CHR 0x22
      | JArr _ \<Rightarrow> c = CHR ''['' | JObj _ \<Rightarrow> c = CHR ''{'' | _ \<Rightarrow> is_digit c \<or> c = CHR ''-'')"

lemma canonValue_head:
  assumes "canonValue d v = Inr t" "number_texts v"
  shows "t \<noteq> [] \<and> head_of v (hd t)"
  using assms canonNumber_text
  by (cases v) (auto simp: head_of_def canonString_def res_simps)

lemma canonValue_opens: "canonValue d v = Inr t \<Longrightarrow> number_texts v \<Longrightarrow> \<not> closes t"
  using canonValue_head [of d v t]
  by (cases v) (auto simp: closes_def head_of_def is_digit_def split: if_splits)

lemma json_prefix_scalar:
  assumes "canonValue d v = Inr t" "canonValue e w = Inr u" "number_texts v" "number_texts w" "t @ r = u @ q"
    and "v = JNull \<or> (\<exists>b. v = JBool b) \<or> (\<exists>s. v = JStr s)"
  shows "reparsed v = reparsed w \<and> r = q"
proof -
  have "head_of w (hd t)" using canonValue_head [OF assms(1,3)] canonValue_head [OF assms(2,4)] assms(5) by (cases t; cases u) auto
  then have h: "head_of w c \<longleftrightarrow> True" if "hd t = c" for c using that by simp
  from assms(6) show ?thesis
  proof (elim disjE exE)
    assume v: "v = JNull"
    then have t: "t = ''null''" using assms(1) by simp
    then have "w = JNull" using h [of "CHR ''n''"] by (cases w) (auto simp: head_of_def is_digit_def split: if_splits)
    then show ?thesis using assms(2,5) t v by simp
  next
    fix b assume v: "v = JBool b"
    then have t: "t = (if b then ''true'' else ''false'')" using assms(1) by simp
    then have "w = JBool b" using h [of "if b then CHR ''t'' else CHR ''f''"] by (cases w) (auto simp: head_of_def is_digit_def split: if_splits)
    then show ?thesis using assms(2,5) t v by (simp split: if_splits)
  next
    fix x assume v: "v = JStr x"
    then have t: "t = canonString x" using assms(1) by simp
    then obtain y where "w = JStr y" using h [of "CHR 0x22"] by (cases w) (auto simp: head_of_def is_digit_def canonString_def split: if_splits)
    then show ?thesis using assms(2,5) t v canonString_prefix [of x r y q] by simp
  qed
qed

lemma json_prefix:
  assumes "canonValue d v = Inr t" "canonValue e w = Inr u" "number_texts v" "number_texts w" "t @ r = u @ q" "closes r" "closes q"
  shows "reparsed v = reparsed w \<and> r = q"
  using assms
proof (induction v arbitrary: w d e t u r q rule: reparsed.induct)
  case (1 xs)
  have "head_of w (CHR ''['')" using canonValue_head [OF 1(3,5)] canonValue_head [OF 1(2,4)] 1(6)
    by (cases t; cases u) (auto simp: head_of_def)
  then obtain ys where w: "w = JArr ys" by (cases w) (auto simp: head_of_def is_digit_def split: if_splits)
  obtain ts where ts: "mapR (canonValue (Suc d)) xs = Inr ts" "t = CHR ''['' # joinWith (CHR '','') ts @ '']''"
    using 1(2) by (auto simp: res_simps)
  obtain us where us: "mapR (canonValue (Suc e)) ys = Inr us" "u = CHR ''['' # joinWith (CHR '','') us @ '']''"
    using 1(3) by (auto simp: w res_simps)
  have "map reparsed xs = map reparsed ys \<and> r = q"
  proof (rule joined_prefix [where enc = "\<lambda>x t. canonValue (Suc d) x = Inr t \<and> number_texts x"
        and enc' = "\<lambda>y u. canonValue (Suc e) y = Inr u \<and> number_texts y" and ts = ts and us = us and c = "CHR '']''"])
    show "list_all2 (\<lambda>x t. canonValue (Suc d) x = Inr t \<and> number_texts x) xs ts"
      using ts(1) 1(4) by (auto simp: mapR_Inr list_all2_conv_all_nth list_all_length)
    show "list_all2 (\<lambda>y u. canonValue (Suc e) y = Inr u \<and> number_texts y) ys us"
      using us(1) 1(5) by (auto simp: w mapR_Inr list_all2_conv_all_nth list_all_length)
    show "joinWith (CHR '','') ts @ CHR '']'' # r = joinWith (CHR '','') us @ CHR '']'' # q" using 1(6) ts(2) us(2) by simp
  qed (use 1(1) canonValue_opens in blast)+
  then show ?case by (simp add: w)
next
  case (2 kvs)
  have "head_of w (CHR ''{'')" using canonValue_head [OF 2(3,5)] canonValue_head [OF 2(2,4)] 2(6)
    by (cases t; cases u) (auto simp: head_of_def)
  then obtain lvs where w: "w = JObj lvs" by (cases w) (auto simp: head_of_def is_digit_def split: if_splits)
  let ?enc = "\<lambda>d (kv :: string \<times> json) t. bindR (canonValue (Suc d) (snd kv)) (\<lambda>t. Inr (canonString (fst kv) @ CHR '':'' # t)) = Inr t \<and>
    number_texts (snd kv)"
  obtain ts where ts: "mapR (\<lambda>kv. bindR (canonValue (Suc d) (snd kv)) (\<lambda>t. Inr (canonString (fst kv) @ CHR '':'' # t))) (sorted_entries kvs) = Inr ts"
      "t = CHR ''{'' # joinWith (CHR '','') ts @ ''}''"
    using 2(2) by (auto simp: res_simps)
  obtain us where us: "mapR (\<lambda>kv. bindR (canonValue (Suc e) (snd kv)) (\<lambda>t. Inr (canonString (fst kv) @ CHR '':'' # t))) (sorted_entries lvs) = Inr us"
      "u = CHR ''{'' # joinWith (CHR '','') us @ ''}''"
    using 2(3) by (auto simp: w res_simps)
  have nt: "number_texts (snd kv)" if "kv \<in> set (sorted_entries kvs)" for kv using that 2(4) by (auto simp: sorted_entries_def list_all_iff)
  have nt': "number_texts (snd kv)" if "kv \<in> set (sorted_entries lvs)" for kv using that 2(5) by (auto simp: w sorted_entries_def list_all_iff)
  have "map (\<lambda>kv. (fst kv, reparsed (snd kv))) (sorted_entries kvs) = map (\<lambda>kv. (fst kv, reparsed (snd kv))) (sorted_entries lvs) \<and> r = q"
  proof (rule joined_prefix [where enc = "?enc d" and enc' = "?enc e" and ts = ts and us = us and c = "CHR ''}''"])
    show "list_all2 (?enc d) (sorted_entries kvs) ts"
      using ts(1) nt by (auto simp: mapR_Inr list_all2_conv_all_nth)
    show "list_all2 (?enc e) (sorted_entries lvs) us"
      using us(1) nt' by (auto simp: mapR_Inr list_all2_conv_all_nth)
    show "joinWith (CHR '','') ts @ CHR ''}'' # r = joinWith (CHR '','') us @ CHR ''}'' # q" using 2(6) ts(2) us(2) by simp
  next
    fix kv lv t u r q
    assume m: "kv \<in> set (sorted_entries kvs)" "?enc d kv t" "?enc e lv u" "t @ r = u @ q" "closes r" "closes q"
    obtain t' where t': "canonValue (Suc d) (snd kv) = Inr t'" "t = canonString (fst kv) @ CHR '':'' # t'" using m(2) by (auto simp: res_simps)
    obtain u' where u': "canonValue (Suc e) (snd lv) = Inr u'" "u = canonString (fst lv) @ CHR '':'' # u'" using m(3) by (auto simp: res_simps)
    have "fst kv = fst lv" "t' @ r = u' @ q"
      using m(4) canonString_prefix [of "fst kv" "CHR '':'' # t' @ r" "fst lv" "CHR '':'' # u' @ q"] by (simp_all add: t'(2) u'(2))
    then show "(fst kv, reparsed (snd kv)) = (fst lv, reparsed (snd lv)) \<and> r = q"
      using 2(1) [OF m(1) t'(1) u'(1) _ _ _ m(5,6)] m(2,3) by auto
  qed (auto simp: res_simps closes_def canonString_def)
  then show ?case by (simp add: w)
next
  case (6 n)
  have "head_of w (hd u)" "u \<noteq> []" using canonValue_head [OF 6(2,4)] by simp_all
  moreover have "hd u = hd t" using canonValue_head [OF 6(1,3)] canonValue_head [OF 6(2,4)] 6(5) by (cases t; cases u) auto
  moreover have "is_digit (hd t) \<or> hd t = CHR ''-''" using canonValue_head [OF 6(1,3)] by (simp add: head_of_def)
  ultimately obtain m where w: "w = JNum m" using 6(2) by (cases w) (auto simp: head_of_def is_digit_def split: if_splits)
  have "t = u \<and> r = q"
    using number_prefix [OF 6(5)] canonNumber_text [of n t] canonNumber_text [of m u] 6 by (simp add: w)
  then show ?case using canonNumber_inject [of n t m] 6 by (simp add: w)
qed (rule json_prefix_scalar; assumption?; simp)+

lemma canonicalize_inject:
  assumes "canonicalize v = Inr t" "canonicalize w = Inr t" "number_texts v" "number_texts w"
  shows "reparsed v = reparsed w"
  using json_prefix [of 0 v t 0 w t "[]" "[]"] assms by (simp add: canonicalize_def)

section \<open>The contract of a canonical form\<close>

text \<open>
  A text that does not depend on the representative and determines its class: what the hashing and
  signing code relies on.
\<close>

locale canonical_form =
  fixes form :: "'a \<Rightarrow> string res" and norm :: "'a \<Rightarrow> 'a" and admissible :: "'a \<Rightarrow> bool"
  assumes form_norm: "form (norm x) = form x"
    and form_inject: "form x = Inr t \<Longrightarrow> form y = Inr t \<Longrightarrow> admissible x \<Longrightarrow> admissible y \<Longrightarrow> norm x = norm y"
begin

lemma same_form:
  assumes "admissible x" "admissible y" "form x = form y" "isOk (form y)"
  shows "norm x = norm y"
proof -
  obtain t where "form y = Inr t" using assms(4) by (auto simp: isOk_iff)
  then show ?thesis using form_inject [of x t y] assms by simp
qed

lemma same_form_iff:
  assumes "form x = Inr t" "form y = Inr u" "admissible x" "admissible y"
  shows "t = u \<longleftrightarrow> norm x = norm y"
proof
  assume "t = u"
  then show "norm x = norm y" using form_inject [OF assms(1)] assms(2-4) by simp
next
  assume "norm x = norm y"
  then have "form x = form y" using form_norm [of x] form_norm [of y] by simp
  then show "t = u" using assms(1,2) by simp
qed

lemma digest_binds:
  assumes "form x = Inr t" "form y = Inr u" "digest t = digest u" "admissible x" "admissible y"
  shows "norm x = norm y \<or> (t \<noteq> u \<and> digest t = digest u)"
  using same_form_iff assms by blast

end

interpretation jcs: canonical_form canonicalize reparsed number_texts
proof unfold_locales
  show "canonicalize (reparsed v) = canonicalize v" for v by simp
  show "reparsed v = reparsed w" if "canonicalize v = Inr t" "canonicalize w = Inr t" "number_texts v" "number_texts w" for v w t
    using canonicalize_inject that by blast
qed

section \<open>Normalised documents\<close>

lemma normalized_reparsed: "normalized nfc (reparsed v) = reparsed (normalized nfc v)"
proof (induction v rule: reparsed.induct)
  case (2 kvs)
  then show ?case by (simp add: sorted_entries_normalized comp_def)
qed simp_all

lemma normalized_idem: "(\<And>s. nfc (nfc s) = nfc s) \<Longrightarrow> normalized nfc (normalized nfc v) = normalized nfc v"
  by (induction nfc v rule: normalized.induct) simp_all

lemma number_texts_normalized [simp]: "number_texts (normalized nfc v) = number_texts v"
proof (induction nfc v rule: normalized.induct)
  case (2 nfc xs)
  then show ?case by (auto simp: list_all_iff)
next
  case (3 nfc kvs)
  then show ?case by (auto simp: list_all_iff)
qed (auto elim: number_texts.elims)

lemma normalized_members: "normalized nfc (JObj (unsigned_members kvs)) = JObj (unsigned_members (map (\<lambda>kv. (fst kv, normalized nfc (snd kv))) kvs))"
  by (simp add: unsigned_members_def filter_map comp_def)

text \<open>The text that is hashed is the canonical text of the normalised unsigned members.\<close>

lemma signed_scope_text:
  assumes "\<And>s. nfc (nfc s) = nfc s" "canonicalSignedScopeWith nfc doc = Inr t"
  shows "canonicalize (normalized nfc (JObj (unsigned_members doc))) = Inr t"
proof -
  let ?d = "map (\<lambda>kv. (fst kv, normalized nfc (snd kv))) doc"
  let ?s = "map (\<lambda>kv. (fst kv, reparsed (snd kv))) (sorted_entries ?d)"
  have "canonicalizeWith nfc (JObj (unsigned_members ?s)) = Inr t"
    using assms(2) by (auto simp: canonicalSignedScopeWith_def stripSignatureWith_def snapshotWith_def Let_def res_simps)
  then have "canonicalize (normalized nfc (JObj (unsigned_members ?s))) = Inr t" by (simp only: canonicalizeWith_normalized)
  moreover have "JObj (unsigned_members ?s) = reparsed (normalized nfc (JObj (unsigned_members doc)))"
    unfolding normalized_members unsigned_reparsed by (rule refl)
  then have "normalized nfc (JObj (unsigned_members ?s)) = reparsed (normalized nfc (JObj (unsigned_members doc)))"
    by (simp only: normalized_reparsed normalized_idem [OF assms(1)])
  ultimately show ?thesis by (simp only: canonicalize_reparsed)
qed

section \<open>Properties\<close>

text \<open>
  Property C28. A content hash binds the document up to the NFC normalisation of its string values:
  when two objects have the same content hash, the texts that were hashed are equal exactly when
  the objects have, apart from their signature fields and once string values are normalised, the
  same members at every depth, up to the order in which an object lists them; otherwise the two
  texts are a collision of SHA-256. Normalisation is any idempotent function. Assumed of number texts:
  a non-integral number is printed with number characters and has a point or an exponent.
\<close>

theorem content_hash_binds_document:
  assumes hash: "contentHashWith nfc sha a = Inr h" "contentHashWith nfc sha b = Inr h"
    and idempotent: "\<And>s. nfc (nfc s) = nfc s" and numbers: "number_texts (JObj a)" "number_texts (JObj b)"
  shows "\<exists>t u. canonicalSignedScopeWith nfc a = Inr t \<and> canonicalSignedScopeWith nfc b = Inr u \<and> sha t = sha u \<and>
    (t = u \<longleftrightarrow> reparsed (normalized nfc (JObj (unsigned_members a))) = reparsed (normalized nfc (JObj (unsigned_members b))))"
proof -
  obtain t u where tu: "canonicalSignedScopeWith nfc a = Inr t" "canonicalSignedScopeWith nfc b = Inr u" "sha t = sha u"
    using hash by (auto simp: contentHashWith_def res_simps)
  have nt: "number_texts (JObj (unsigned_members a))" "number_texts (JObj (unsigned_members b))"
    using numbers by (auto simp: unsigned_members_def list_all_iff)
  note texts = signed_scope_text [OF idempotent tu(1)] signed_scope_text [OF idempotent tu(2)]
  have "t = u \<longleftrightarrow> reparsed (normalized nfc (JObj (unsigned_members a))) = reparsed (normalized nfc (JObj (unsigned_members b)))"
    by (rule jcs.same_form_iff [OF texts]) (simp_all only: number_texts_normalized nt)
  then show ?thesis using tu by blast
qed

text \<open>Two documents that differ by normalisation, by member order and by a signature.\<close>

definition fold_accent :: "string \<Rightarrow> string" where
  "fold_accent s = map (\<lambda>c. if c = CHR ''e'' then CHR 0xE9 else c) s"

theorem content_hash_binds_document_witness:
  "reparsed (normalized fold_accent (JObj [(''a'', JNum (JFrac ''1.5'')), (''b'', JStr ''e'')])) =
   reparsed (normalized fold_accent (JObj [(''b'', JStr [CHR 0xE9]), (''a'', JNum (JFrac ''1.5''))]))"
proof -
  let ?a = "[(''a'', JNum (JFrac ''1.5'')), (''b'', JStr ''e''), (''signature'', JStr ''x'')]"
  let ?b = "[(''b'', JStr [CHR 0xE9]), (''a'', JNum (JFrac ''1.5''))]"
  let ?h = "''{'' @ canonString ''a'' @ '':1.5,'' @ canonString ''b'' @ '':'' @ canonString [CHR 0xE9] @ ''}''"
  have h: "contentHashWith fold_accent (\<lambda>t. t) ?a = Inr ?h" "contentHashWith fold_accent (\<lambda>t. t) ?b = Inr ?h" by code_simp+
  have n: "number_texts (JObj ?a)" "number_texts (JObj ?b)" by code_simp+
  have i: "fold_accent (fold_accent s) = fold_accent s" for s by (simp add: fold_accent_def)
  have s: "unsigned_members ?a = [(''a'', JNum (JFrac ''1.5'')), (''b'', JStr ''e'')]" "unsigned_members ?b = ?b" by code_simp+
  from content_hash_binds_document [OF h i n] show ?thesis unfolding s by (elim exE conjE) blast
qed

end
