(* ===== verification/Dacs_Rfq_Transcript.thy ===== *)
theory Dacs_Rfq_Transcript
  imports Dacs_Agreement
begin

text \<open>
  The private transcript behind an accepted RFQ and the disclosure plan for it
  (\<^verbatim>\<open>src/src/negotiate/rfqTranscript.ts\<close>). The session, the transcript and its messages are the records
  of \<open>Dacs_Rfq\<close> and \<open>Dacs_Channel\<close>; the agreement, the verified listing and the consents are JSON
  documents. The two verifiers are parameters: each may throw or answer any string.
\<close>

section \<open>Data\<close>

text \<open>\<open>rt_keys\<close>: the own keys of the transcript object.\<close>

record rfq_transcript =
  rt_keys :: "string list"
  rt_transcriptVersion :: string
  rt_channelId :: string
  rt_members :: "string list"
  rt_messages :: "channel_message list"
  rt_generatedAt :: int

record prepare_transcript_input =
  pt_session :: rfq_state
  pt_agreement :: json
  pt_messages :: "channel_message list"
  pt_generatedAt :: int

datatype transcript_result = Prepared rfq_transcript | Not_Prepared decision string

datatype disclosure_action = Retain_Private | Publish_Encrypted

datatype disclosure_result =
    Disclosure disclosure_action string string
  | No_Disclosure decision string

record disclosure_input =
  di_verifiedListing :: json
  di_session :: rfq_state
  di_agreement :: json
  di_transcript :: rfq_transcript
  di_consents :: json

definition transcript_keys :: "string list" where
  "transcript_keys = [''transcriptVersion'', ''channelId'', ''members'', ''messages'', ''generatedAt'']"

section \<open>Bindings\<close>

text \<open>Both sides are members of a snapshot, so \<^verbatim>\<open>canonicalize\<close> does not throw on them.\<close>

definition exact :: "json \<Rightarrow> json \<Rightarrow> bool" where
  "exact a b \<longleftrightarrow> canonicalize a = canonicalize b"

definition sameOptional :: "json \<Rightarrow> json \<Rightarrow> bool" where
  "sameOptional a b \<longleftrightarrow> (a = JUndefined \<longleftrightarrow> b = JUndefined) \<and> (a = JUndefined \<or> exact a b)"

definition proposal_quantity :: "rfq_proposal \<Rightarrow> json" where
  "proposal_quantity p = (case pr_meteredQuantity p of None \<Rightarrow> JUndefined | Some q \<Rightarrow> quantity_json q)"

definition party_bound :: "json \<Rightarrow> party_binding \<Rightarrow> bool" where
  "party_bound party b \<longleftrightarrow>
     dot party ''primaryClaim'' = JStr (pb_primaryClaim b) \<and> dot party ''bundleHash'' = JStr (pb_bundleHash b) \<and>
     exact (dot party ''vetRecordRef'') (pb_vetRecordRef b)"

definition agreementBindsSession :: "json \<Rightarrow> rfq_state \<Rightarrow> bool" where
  "agreementBindsSession agreement s =
     (case (find (\<lambda>p. dot p ''role'' = JStr ''buyer'') (elements (dot agreement ''parties'')),
            find (\<lambda>p. dot p ''role'' = JStr ''seller'') (elements (dot agreement ''parties'')), rs_standingProposal s) of
        (Some buyer, Some seller, Some standing) \<Rightarrow>
          dot agreement ''derivedFromPattern'' = JStr ''rfq'' \<and> dot agreement ''jobId'' = JStr (rs_jobId s) \<and>
          exact (dot agreement ''listingRef'') (pin_json (rs_listingPin s)) \<and>
          dot agreement ''derivedFromChannel'' \<noteq> JUndefined \<and>
          dot (dot agreement ''derivedFromChannel'') ''subnet'' = JStr (rs_channelId s) \<and>
          dot (dot agreement ''derivedFromChannel'') ''lastMessageHash'' =
            (case rs_lastMessageHash s of None \<Rightarrow> JUndefined | Some h \<Rightarrow> JStr h) \<and>
          party_bound buyer (rs_buyer s) \<and> party_bound seller (rs_seller s) \<and>
          exact (dot (dot agreement ''terms'') ''price'') (price_json (pr_price (sp_proposal standing))) \<and>
          sameOptional (dot (dot agreement ''terms'') ''meteredQuantity'') (proposal_quantity (sp_proposal standing))
      | _ \<Rightarrow> False)"

definition acceptSequence :: "json \<Rightarrow> int option" where
  "acceptSequence body =
     (case body of
        JObj kvs \<Rightarrow>
          if length kvs \<noteq> 2 \<or> member_of kvs ''rfqBodyVersion'' \<noteq> JStr ''1'' then None
          else (case member_of kvs ''acceptedSequence'' of
                  JNum (JInt n) \<Rightarrow> if isSafeInteger n \<and> 1 \<le> n then Some n else None
                | _ \<Rightarrow> None)
      | _ \<Rightarrow> None)"

definition transcriptBindsSession :: "(string \<Rightarrow> string) \<Rightarrow> rfq_transcript \<Rightarrow> rfq_state \<Rightarrow> bool" where
  "transcriptBindsSession sha256Hex t s \<longleftrightarrow>
     rt_transcriptVersion t = ''1'' \<and> isSafeInteger (rt_generatedAt t) \<and> rt_messages t \<noteq> [] \<and>
     (let final = last (rt_messages t) in
      case prepareChannelMessageSigningInput sha256Hex (final\<lparr>cm_keys := removeAll ''signature'' (cm_keys final)\<rparr>) of
        Inl _ \<Rightarrow> False
      | Inr (_, lastHash) \<Rightarrow>
          rt_channelId t = rs_channelId s \<and>
          rt_members t = [pb_primaryClaim (rs_buyer s), pb_primaryClaim (rs_seller s)] \<and>
          int (length (rt_messages t)) = rs_turnCount s \<and>
          cm_sequence final = rs_lastSequence s \<and> rs_lastMessageHash s = Some lastHash)"

section \<open>Verifying the transcript\<close>

text \<open>The variables of the loop.\<close>

record turn_state =
  ts_priorSequence :: int
  ts_expectedSender :: string
  ts_standing :: "standing_proposal option"
  ts_lastHash :: "string option"

datatype turns_result = Turns_Done turn_state | Turns_Refused decision string

definition transcript_proposal :: "json \<Rightarrow> pricing \<Rightarrow> rfq_proposal res" where
  "transcript_proposal body pricing =
     (case body of
        JObj kvs \<Rightarrow>
          ensure (member_of kvs ''rfqBodyVersion'' = JStr ''1'' \<and> length kvs = 2) ''RFQ transcript proposal body is malformed''
          (case proposal_of_json (member_of kvs ''proposal'') of
             None \<Rightarrow> throw ''RFQ proposal is malformed''
           | Some p \<Rightarrow> validateRfqProposal p pricing)
      | _ \<Rightarrow> throw ''RFQ transcript proposal body is malformed'')"

text \<open>The \<^verbatim>\<open>try\<close> block of the loop: the standing proposal after the message.\<close>

definition transcript_turn :: "rfq_state \<Rightarrow> bool \<Rightarrow> bool \<Rightarrow> standing_proposal option \<Rightarrow> channel_message \<Rightarrow> standing_proposal option res" where
  "transcript_turn s isFirst isFinal standing m =
     (if \<not> isFinal
      then ensure (cm_type m = (if isFirst then ''offer'' else ''counter'')) ''RFQ transcript proposal type is invalid''
           (bindR (transcript_proposal (cm_body m) (rs_pricing s)) (\<lambda>p.
             Inr (Some \<lparr>sp_proposal = p, sp_sequence = cm_sequence m, sp_proposer = cm_sender m\<rparr>)))
      else ensure (cm_type m = ''accept'' \<and> standing \<noteq> None \<and>
                   acceptSequence (cm_body m) = Some (sp_sequence (the standing))) ''RFQ transcript acceptance is not exact''
           (Inr standing))"

fun transcript_turns ::
  "rfq_env \<Rightarrow> (channel_message \<Rightarrow> string \<Rightarrow> string res) \<Rightarrow> rfq_state \<Rightarrow> bool \<Rightarrow> turn_state \<Rightarrow> channel_message list \<Rightarrow> turns_result" where
  "transcript_turns env verifySignature s isFirst ts [] = Turns_Done ts"
| "transcript_turns env verifySignature s isFirst ts (m # ms) =
     (case admitChannelMessage (re_sha256Hex env) verifySignature m
             \<lparr>cc_sessionChannelId = rs_channelId s, cc_lastSequence = ts_priorSequence ts, cc_priorChannelIds = []\<rparr> of
        Refused d why \<Rightarrow> Turns_Refused d why
      | Admitted message envelopeHash \<Rightarrow>
        if cm_sender message \<noteq> ts_expectedSender ts
        then Turns_Refused Fail ''RFQ transcript member turn order is invalid''
        else (case transcript_turn s isFirst (ms = []) (ts_standing ts) message of
                Inl e \<Rightarrow> Turns_Refused Fail (error_text e)
              | Inr standing \<Rightarrow>
                transcript_turns env verifySignature s False
                  \<lparr>ts_priorSequence = cm_sequence message, ts_expectedSender = otherMember s (cm_sender message),
                   ts_standing = standing, ts_lastHash = Some envelopeHash\<rparr> ms))"

definition start_turns :: "rfq_state \<Rightarrow> turn_state" where
  "start_turns s = \<lparr>ts_priorSequence = 0, ts_expectedSender = initiatorClaim s, ts_standing = None, ts_lastHash = None\<rparr>"

text \<open>The snapshot of the caller's input: every part must be canonical JSON data.\<close>

definition message_json :: "channel_message \<Rightarrow> json" where
  "message_json m = JObj (entries (unsignedEnvelope m) @ [(''signature'', cm_signature m)])"

definition transcript_input_json :: "json \<Rightarrow> channel_message list \<Rightarrow> int \<Rightarrow> json" where
  "transcript_input_json agreement messages generatedAt =
     JObj [(''agreement'', agreement), (''messages'', JArr (map message_json messages)), (''generatedAt'', int_json generatedAt)]"

definition bound_transcript_input :: "artifact_env \<Rightarrow> rfq_state \<Rightarrow> json \<Rightarrow> channel_message list \<Rightarrow> int \<Rightarrow> bool" where
  "bound_transcript_input aenv s agreement messages generatedAt \<longleftrightarrow>
     rs_status s = Accepted \<and> rs_lastMessageHash s \<noteq> None \<and> isAgreementArtifact aenv agreement \<and>
     agreementBindsSession agreement s \<and> isSafeInteger generatedAt \<and> uint_of (dot agreement ''generatedAt'') \<le> generatedAt \<and>
     int (length messages) = rs_turnCount s \<and> 2 \<le> length messages"

definition prepareRfqTranscript ::
  "artifact_env \<Rightarrow> (string \<Rightarrow> string) \<Rightarrow> (channel_message \<Rightarrow> string \<Rightarrow> string res) \<Rightarrow> prepare_transcript_input \<Rightarrow> transcript_result" where
  "prepareRfqTranscript aenv sha256Hex verifySignature inp =
     (let env = rfqEnv aenv sha256Hex; s = pt_session inp; messages = pt_messages inp in
      case snapshotCanonicalJsonRead (transcript_input_json (pt_agreement inp) messages (pt_generatedAt inp)) of
        Inl _ \<Rightarrow> Not_Prepared Error ''RFQ transcript input is malformed''
      | Inr snapshot \<Rightarrow>
        if \<not> validateStoredState env s then Not_Prepared Error ''RFQ transcript input is malformed''
        else if \<not> bound_transcript_input aenv s (dot snapshot ''agreement'') messages (pt_generatedAt inp)
        then Not_Prepared Fail ''RFQ transcript does not bind the accepted agreement/session''
        else (case transcript_turns env verifySignature s True (start_turns s) messages of
                Turns_Refused d why \<Rightarrow> Not_Prepared d why
              | Turns_Done ts \<Rightarrow>
                if ts_priorSequence ts \<noteq> rs_lastSequence s \<or> ts_standing ts \<noteq> rs_standingProposal s \<or>
                   ts_lastHash ts \<noteq> rs_lastMessageHash s
                then Not_Prepared Fail ''RFQ transcript endpoint differs from the accepted checkpoint''
                else Prepared \<lparr>rt_keys = transcript_keys, rt_transcriptVersion = ''1'', rt_channelId = rs_channelId s,
                               rt_members = [pb_primaryClaim (rs_buyer s), pb_primaryClaim (rs_seller s)],
                               rt_messages = messages, rt_generatedAt = pt_generatedAt inp\<rparr>))"

section \<open>Planning the disclosure\<close>

definition transcript_json :: "rfq_transcript \<Rightarrow> json" where
  "transcript_json t =
     JObj [(''transcriptVersion'', JStr (rt_transcriptVersion t)), (''channelId'', JStr (rt_channelId t)),
           (''members'', JArr (map JStr (rt_members t))), (''messages'', JArr (map message_json (rt_messages t))),
           (''generatedAt'', int_json (rt_generatedAt t))]"

definition consent_shape :: "json \<Rightarrow> bool" where
  "consent_shape c = obj_where (\<lambda>kvs. length kvs = 2 \<and> isNonEmptyStr (member_of kvs ''member'')) c"

text \<open>\<^verbatim>\<open>new Map(consents.map((c) => [c.member, c]))\<close>: a later entry replaces an earlier one.\<close>

definition by_member :: "json list \<Rightarrow> (string \<times> json) list" where
  "by_member consents = rev (map (\<lambda>c. (text_of (dot c ''member''), c)) consents)"

definition consents_complete :: "json list \<Rightarrow> string list \<Rightarrow> bool" where
  "consents_complete consents members \<longleftrightarrow>
     length consents = length members \<and> length (remdups (map fst (by_member consents))) = length members \<and>
     list_all (\<lambda>m. map_of (by_member consents) m \<noteq> None) members"

definition consent_decision ::
  "(string \<Rightarrow> string \<Rightarrow> string \<Rightarrow> json \<Rightarrow> string res) \<Rightarrow> string \<Rightarrow> string \<Rightarrow> json list \<Rightarrow> string \<Rightarrow> decision" where
  "consent_decision verifyConsent channelId transcriptHash consents m =
     (case verifyConsent m channelId transcriptHash (dot (the (map_of (by_member consents) m)) ''evidence'') of
        Inl _ \<Rightarrow> Error
      | Inr text \<Rightarrow> (case classifyVerificationDecision text of Inl _ \<Rightarrow> Error | Inr d \<Rightarrow> d))"

definition disclosure_plan :: "string \<Rightarrow> string \<Rightarrow> decision list \<Rightarrow> disclosure_result" where
  "disclosure_plan policy transcriptHash decisions =
     (if list_all (\<lambda>d. d = Pass) decisions then Disclosure Publish_Encrypted policy transcriptHash
      else if policy = ''encrypted-anchored-recommended'' then Disclosure Retain_Private policy transcriptHash
      else if Fail \<in> set decisions then No_Disclosure Fail ''a channel member refused transcript publication''
      else if Indeterminate \<in> set decisions
      then No_Disclosure Indeterminate ''required transcript consent is not currently verifiable''
      else No_Disclosure Error ''required transcript consent verification errored'')"

definition disclosure_authority :: "artifact_env \<Rightarrow> (string \<Rightarrow> string) \<Rightarrow> disclosure_input \<Rightarrow> json \<Rightarrow> bool" where
  "disclosure_authority aenv sha256Hex inp snapshot \<longleftrightarrow>
     (let verified = dot snapshot ''verifiedListing''; listing = dot verified ''listing'' in
      dot verified ''disposition'' = JStr ''verified'' \<and> isListing aenv listing \<and>
      pin_matches sha256Hex listing (dot verified ''pin'') \<and> rs_status (di_session inp) = Accepted \<and>
      isAgreementArtifact aenv (dot snapshot ''agreement'') \<and> agreementBindsSession (dot snapshot ''agreement'') (di_session inp) \<and>
      transcriptBindsSession sha256Hex (di_transcript inp) (di_session inp))"

definition disclosure_policy :: "json \<Rightarrow> string" where
  "disclosure_policy listing =
     (case dot (dot listing ''terms'') ''transcriptDisclosurePolicy'' of JStr p \<Rightarrow> p | _ \<Rightarrow> ''none'')"

text \<open>The consents of the snapshot: absent means none given, anything but an array is refused.\<close>

definition plan_consents ::
  "(string \<Rightarrow> string \<Rightarrow> string \<Rightarrow> json \<Rightarrow> string res) \<Rightarrow> string \<Rightarrow> string \<Rightarrow> string \<Rightarrow> string list \<Rightarrow> json \<Rightarrow> disclosure_result" where
  "plan_consents verifyConsent policy channelId transcriptHash members consents =
     (if consents \<noteq> JUndefined \<and> consents \<noteq> JNull \<and> \<not> arr_where (list_all consent_shape) consents
      then No_Disclosure Error ''RFQ consent evidence is malformed''
      else if \<not> consents_complete (elements consents) members
      then if policy = ''encrypted-anchored-required''
           then No_Disclosure Fail ''required transcript consent is incomplete''
           else Disclosure Retain_Private policy transcriptHash
      else disclosure_plan policy transcriptHash
             (map (consent_decision verifyConsent channelId transcriptHash (elements consents)) members))"

definition planRfqTranscriptDisclosure ::
  "artifact_env \<Rightarrow> (string \<Rightarrow> string) \<Rightarrow> (channel_message \<Rightarrow> string \<Rightarrow> string res) \<Rightarrow>
   (string \<Rightarrow> string \<Rightarrow> string \<Rightarrow> json \<Rightarrow> string res) \<Rightarrow> disclosure_input \<Rightarrow> disclosure_result" where
  "planRfqTranscriptDisclosure aenv sha256Hex verifyMessageSignature verifyConsent inp =
     (let s = di_session inp; t = di_transcript inp in
      case snapshotCanonicalJsonRead (JObj ([(''verifiedListing'', di_verifiedListing inp), (''agreement'', di_agreement inp),
             (''transcript'', transcript_json t)] @ optional_member ''consents'' (di_consents inp))) of
        Inl _ \<Rightarrow> No_Disclosure Error ''RFQ disclosure input is malformed''
      | Inr snapshot \<Rightarrow>
        if \<not> isObj (dot snapshot ''verifiedListing'') \<or> \<not> isObj (dot (dot snapshot ''verifiedListing'') ''pin'')
        then No_Disclosure Error ''RFQ disclosure authority is invalid''
        else if \<not> validateStoredState (rfqEnv aenv sha256Hex) s then No_Disclosure Error ''RFQ disclosure session is malformed''
        else if \<not> disclosure_authority aenv sha256Hex inp snapshot
        then No_Disclosure Error ''RFQ disclosure authority is invalid''
        else (case prepareRfqTranscript aenv sha256Hex verifyMessageSignature
                     \<lparr>pt_session = s, pt_agreement = dot snapshot ''agreement'', pt_messages = rt_messages t,
                      pt_generatedAt = rt_generatedAt t\<rparr> of
                Not_Prepared d why \<Rightarrow> No_Disclosure d why
              | Prepared transcript \<Rightarrow>
                if \<not> exactKeys (rt_keys t) transcript_keys [] \<or> \<not> exact (transcript_json transcript) (transcript_json t)
                then No_Disclosure Error ''RFQ disclosure transcript is malformed''
                else (let policy = disclosure_policy (dot (dot snapshot ''verifiedListing'') ''listing'') in
                      case canonicalize (transcript_json transcript) of
                        Inl _ \<Rightarrow> No_Disclosure Error ''RFQ disclosure transcript is malformed''
                      | Inr text \<Rightarrow>
                        if policy = ''none'' then Disclosure Retain_Private policy (sha256Hex text)
                        else plan_consents verifyConsent policy (rt_channelId transcript) (sha256Hex text)
                               (rt_members transcript) (dot snapshot ''consents''))))"

end
