(* ===== verification/Dacs_Transcript_Props.thy ===== *)
theory Dacs_Transcript_Props
  imports Dacs_Rfq_Transcript Dacs_Rfq_Props
begin

text \<open>
  Replaying a transcript: the loop of \<^verbatim>\<open>prepareRfqTranscript\<close> and the turn function of the live session
  accept the same conversations, and disclosure needs every member's consent.
\<close>

section \<open>Replay\<close>

fun rfq_replay ::
  "rfq_env \<Rightarrow> (channel_message \<Rightarrow> string \<Rightarrow> string res) \<Rightarrow> rfq_state \<Rightarrow> (channel_message \<times> int) list \<Rightarrow> advance_result" where
  "rfq_replay env verify s [] = Advanced s"
| "rfq_replay env verify s ((m, t) # rest) =
     (case advanceRfqSession env verify s m t of
        Advanced s' \<Rightarrow> rfq_replay env verify s' rest
      | Not_Advanced d why \<Rightarrow> Not_Advanced d why)"

text \<open>The members of a session that no turn changes.\<close>

definition same_session :: "rfq_state \<Rightarrow> rfq_state \<Rightarrow> bool" where
  "same_session s r \<longleftrightarrow>
     rs_version r = rs_version s \<and> rs_jobId r = rs_jobId s \<and> rs_listingPin r = rs_listingPin s \<and>
     rs_channelId r = rs_channelId s \<and> rs_buyer r = rs_buyer s \<and> rs_seller r = rs_seller s \<and>
     rs_pricing r = rs_pricing s \<and> rs_initiator r = rs_initiator s \<and> rs_maxTurns r = rs_maxTurns s \<and>
     rs_timeoutMs r = rs_timeoutMs s \<and> rs_startedAt r = rs_startedAt s"

definition turn_view :: "rfq_state \<Rightarrow> turn_state" where
  "turn_view s = \<lparr>ts_priorSequence = rs_lastSequence s, ts_expectedSender = rs_expectedSender s,
                  ts_standing = rs_standingProposal s, ts_lastHash = rs_lastMessageHash s\<rparr>"

text \<open>The own keys of a JavaScript object are distinct.\<close>

definition distinct_keys :: "json \<Rightarrow> bool" where
  "distinct_keys v \<longleftrightarrow> distinct (map fst (entries v))"

lemma same_session_refl [simp]: "same_session s s"
  by (simp add: same_session_def)

lemma same_session_trans: "same_session s r \<Longrightarrow> same_session r q \<Longrightarrow> same_session s q"
  by (simp add: same_session_def)

lemma otherMember_same: "same_session s r \<Longrightarrow> otherMember r x = otherMember s x"
  by (simp add: same_session_def otherMember_def)

lemma proposal_turn_same: "same_session s (proposal_turn s m hh t p)"
  by (simp add: same_session_def proposal_turn_def admit_turn_def Let_def)

section \<open>The two readings of a turn body\<close>

lemma two_keys:
  assumes "distinct (map fst kvs)" "exactKeys (map fst kvs) [a, b] []" "a \<noteq> b"
  shows "length kvs = 2"
proof -
  have "set (map fst kvs) = {a, b}"
    using assms(2) by (auto simp: exactKeys_def list_all_iff)
  then have "card (set (map fst kvs)) = 2" using assms(3) by simp
  then show ?thesis using distinct_card [OF assms(1)] by simp
qed

lemma two_keys_exact:
  assumes "length kvs = 2" "map_of kvs a = Some x" "map_of kvs b = Some y" "a \<noteq> b"
  shows "exactKeys (map fst kvs) [a, b] []"
proof -
  obtain k l where kvs: "kvs = [k, l]"
    using assms(1) by (auto simp: length_Suc_conv numeral_2_eq_2)
  show ?thesis using assms(2-4) unfolding kvs by (auto simp: exactKeys_def split: if_splits)
qed

lemma parse_transcript_proposal:
  assumes "parseProposalBody body pr = Inr p" "distinct_keys body"
  shows "transcript_proposal body pr = Inr p"
proof -
  obtain kvs where b: "body_entries body [''rfqBodyVersion'', ''proposal''] [] = Some kvs"
    using assms(1) by (auto simp: parseProposalBody_def split: option.splits)
  then have body: "body = JObj kvs" "exactKeys (map fst kvs) [''rfqBodyVersion'', ''proposal''] []"
      "map_of kvs ''rfqBodyVersion'' = Some (JStr ''1'')"
    by (auto simp: body_entries_def split: json.splits if_splits)
  have "length kvs = 2" using two_keys [OF _ body(2)] assms(2) by (simp add: body(1) distinct_keys_def)
  then show ?thesis
    using assms(1) b body(1,3)
    by (auto simp: parseProposalBody_def transcript_proposal_def member_of_def Option.bind_eq_Some_conv split: option.splits)
qed

lemma transcript_parse_proposal:
  assumes "transcript_proposal body pr = Inr p"
  shows "parseProposalBody body pr = Inr p"
proof -
  obtain kvs where body: "body = JObj kvs" using assms by (cases body) (auto simp: transcript_proposal_def)
  have f: "member_of kvs ''rfqBodyVersion'' = JStr ''1''" "length kvs = 2"
    using assms by (auto simp: transcript_proposal_def body res_simps)
  obtain q where q: "proposal_of_json (member_of kvs ''proposal'') = Some q" "validateRfqProposal q pr = Inr p"
    using assms by (auto simp: transcript_proposal_def body res_simps split: option.splits)
  have v: "map_of kvs ''rfqBodyVersion'' = Some (JStr ''1'')" using f(1) by (auto simp: member_of_def split: option.splits)
  obtain x where x: "map_of kvs ''proposal'' = Some x" "proposal_of_json x = Some q"
    using q(1) by (cases "map_of kvs ''proposal''") (auto simp: member_of_def proposal_of_json_def)
  have "exactKeys (map fst kvs) [''rfqBodyVersion'', ''proposal''] []" using two_keys_exact [OF f(2) v x(1)] by simp
  then show ?thesis using v x q(2) by (simp add: parseProposalBody_def body body_entries_def)
qed

lemma accept_transcript_sequence:
  assumes "acceptedSequence body = Inr n" "distinct_keys body"
  shows "acceptSequence body = Some n"
proof -
  obtain kvs where b: "body_entries body [''rfqBodyVersion'', ''acceptedSequence''] [] = Some kvs"
    using assms(1) by (auto simp: acceptedSequence_def split: option.splits)
  then have body: "body = JObj kvs" "exactKeys (map fst kvs) [''rfqBodyVersion'', ''acceptedSequence''] []"
      "map_of kvs ''rfqBodyVersion'' = Some (JStr ''1'')"
    by (auto simp: body_entries_def split: json.splits if_splits)
  have "length kvs = 2" using two_keys [OF _ body(2)] assms(2) by (simp add: body(1) distinct_keys_def)
  then show ?thesis
    using assms(1) b body(1,3)
    by (auto simp: acceptedSequence_def acceptSequence_def member_of_def res_simps split: option.splits json.splits jsnumber.splits)
qed

lemma transcript_accept_sequence:
  assumes "acceptSequence body = Some n"
  shows "acceptedSequence body = Inr n"
proof -
  obtain kvs where body: "body = JObj kvs" using assms by (cases body) (auto simp: acceptSequence_def)
  have f: "length kvs = 2" "member_of kvs ''rfqBodyVersion'' = JStr ''1''"
      "member_of kvs ''acceptedSequence'' = JNum (JInt n)" "isSafeInteger n" "1 \<le> n"
    using assms by (auto simp: acceptSequence_def body split: if_splits json.splits jsnumber.splits)
  have v: "map_of kvs ''rfqBodyVersion'' = Some (JStr ''1'')" "map_of kvs ''acceptedSequence'' = Some (JNum (JInt n))"
    using f(2,3) by (auto simp: member_of_def split: option.splits)
  have "exactKeys (map fst kvs) [''rfqBodyVersion'', ''acceptedSequence''] []" using two_keys_exact [OF f(1) v] by simp
  then show ?thesis using v f by (simp add: acceptedSequence_def body body_entries_def)
qed

section \<open>From the live session to the transcript\<close>

lemma apply_turn_exact:
  assumes "apply_turn s m hh t = Advanced s'"
  obtains (proposal) p where "cm_type m = (if rs_turnCount s = 0 then ''offer'' else ''counter'')"
      "parseProposalBody (cm_body m) (rs_pricing s) = Inr p" "s' = proposal_turn s m hh t p"
  | (accept) p where "cm_type m = ''accept''" "rs_standingProposal s = Some p"
      "acceptedSequence (cm_body m) = Inr (sp_sequence p)"
      "s' = (admit_turn s m hh)\<lparr>rs_status := Accepted, rs_terminalReason := Some ''standing RFQ proposal accepted''\<rparr>"
  | (terminal) "rs_status s' = Rejected \<or> rs_status s' = Aborted"
  using assms unfolding apply_turn_def
  by (auto split: sum.splits if_splits option.splits)

lemma replay_terminal:
  assumes "rfq_replay env verify s ms = Advanced s'" "rs_status s \<noteq> Open"
  shows "ms = [] \<and> s' = s"
proof (cases ms)
  case (Cons mt rest)
  obtain m t where "mt = (m, t)" by (cases mt)
  then show ?thesis using assms Cons by (auto simp: advanceRfqSession_def split: if_splits)
qed (use assms(1) in simp)

text \<open>A replay that accepts: the loop over the same messages ends in the same place.\<close>

lemma replay_turns:
  assumes "rfq_replay env verify r ms = Advanced s'" "rs_status s' = Accepted" "rs_status r = Open"
    and "same_session s r" "\<And>m t. (m, t) \<in> set ms \<Longrightarrow> distinct_keys (cm_body m)" "0 \<le> rs_turnCount r"
  shows "\<exists>e. transcript_turns env verify s (rs_turnCount r = 0) (turn_view r) (map fst ms) =
        Turns_Done ((turn_view s')\<lparr>ts_expectedSender := e\<rparr>) \<and>
      rs_turnCount s' = rs_turnCount r + int (length ms) \<and> same_session s s'"
  using assms
proof (induction ms arbitrary: r)
  case Nil
  then show ?case by simp
next
  case (Cons mt ms)
  obtain m t where mt: "mt = (m, t)" by (cases mt)
  obtain r' where r': "advanceRfqSession env verify r m t = Advanced r'" "rfq_replay env verify r' ms = Advanced s'"
    using Cons.prems(1) mt by (auto split: advance_result.splits)
  have dk: "distinct_keys (cm_body m)" using Cons.prems(5) mt by auto
  have ss: "rs_channelId r = rs_channelId s" "rs_pricing r = rs_pricing s" using Cons.prems(4) by (simp_all add: same_session_def)
  show ?case using r'(1)
  proof (cases rule: advance_cases)
    case timeout
    then have "rs_status r' \<noteq> Open" "rs_status r' \<noteq> Accepted" by simp_all
    then show ?thesis using replay_terminal [OF r'(2)] Cons.prems(2) by simp
  next
    case (turn hh)
    show ?thesis using turn(9)
    proof (cases rule: apply_turn_exact)
      case (proposal p)
      have op: "rs_status r' = Open" "ms \<noteq> []"
        using replay_terminal [OF r'(2)] Cons.prems(2) r'(2) proposal(3) turn(2)
        by (auto simp: proposal_turn_def admit_turn_def Let_def split: if_splits)
      have n: "rs_turnCount r' = rs_turnCount r + 1" by (simp add: proposal(3) proposal_turn_def admit_turn_def Let_def)
      have view: "turn_view r' = \<lparr>ts_priorSequence = cm_sequence m, ts_expectedSender = otherMember s (cm_sender m),
          ts_standing = Some \<lparr>sp_proposal = p, sp_sequence = cm_sequence m, sp_proposer = cm_sender m\<rparr>, ts_lastHash = Some hh\<rparr>"
        using op(1) otherMember_same [OF Cons.prems(4)]
        by (auto simp: turn_view_def proposal(3) proposal_turn_def admit_turn_def Let_def split: if_splits)
      have same: "same_session s r'"
        unfolding proposal(3) using same_session_trans [OF Cons.prems(4) proposal_turn_same] .
      have step: "transcript_turn s (rs_turnCount r = 0) (map fst ms = []) (rs_standingProposal r) m =
          Inr (Some \<lparr>sp_proposal = p, sp_sequence = cm_sequence m, sp_proposer = cm_sender m\<rparr>)"
        using op(2) proposal(1) parse_transcript_proposal [OF proposal(2) dk] ss(2) by (simp add: transcript_turn_def)
      have "transcript_turns env verify s (rs_turnCount r = 0) (turn_view r) (map fst (mt # ms)) =
          transcript_turns env verify s (rs_turnCount r' = 0) (turn_view r') (map fst ms)"
        using turn(6,7) step n Cons.prems(6) by (simp add: mt view ss(1)[symmetric]) (simp add: turn_view_def)
      moreover have "\<And>m t. (m, t) \<in> set ms \<Longrightarrow> distinct_keys (cm_body m)" using Cons.prems(5) by auto
      ultimately show ?thesis
        using Cons.IH [OF r'(2) Cons.prems(2) op(1) same] n Cons.prems(6) by auto
    next
      case (accept p)
      have fin: "ms = []" "s' = r'" using replay_terminal [OF r'(2)] accept(4) by simp_all
      have "transcript_turn s (rs_turnCount r = 0) True (rs_standingProposal r) m = Inr (Some p)"
        using accept(1,2) accept_transcript_sequence [OF accept(3) dk] by (simp add: transcript_turn_def)
      then show ?thesis
        using turn(6,7) accept(2,4) Cons.prems(4)
        by (simp add: fin mt turn_view_def ss(1)[symmetric] admit_turn_def same_session_def)
    next
      case terminal
      then show ?thesis using replay_terminal [OF r'(2)] Cons.prems(2) by auto
    qed
  qed
qed

section \<open>From the transcript to the live session\<close>

text \<open>\<^verbatim>\<open>refs.repliesTo\<close>, when present, names the proposal on the table, as the session requires.\<close>

fun replies_bound :: "int option \<Rightarrow> channel_message list \<Rightarrow> bool" where
  "replies_bound standing [] = True"
| "replies_bound standing (m # ms) =
     ((case (standing, Option.bind (cm_refs m) rf_repliesTo) of (Some q, Some n) \<Rightarrow> n = q | _ \<Rightarrow> True) \<and>
      replies_bound (Some (cm_sequence m)) ms)"

text \<open>A turn taken at the moment the session started is within the turn's time limit.\<close>

lemma turn_at_start:
  assumes "validateStoredState env r" "rs_status r = Open" "rs_awaitingSince r = rs_startedAt r"
    "isSafeInteger (rs_startedAt r + rs_timeoutMs r)"
    "admitChannelMessage (re_sha256Hex env) verify m
       \<lparr>cc_sessionChannelId = rs_channelId r, cc_lastSequence = rs_lastSequence r, cc_priorChannelIds = []\<rparr> = Admitted m hh"
    "cm_sender m = rs_expectedSender r" "\<not> replies_elsewhere r m"
  shows "advanceRfqSession env verify r m (rs_startedAt r) = apply_turn r m hh (rs_startedAt r)"
proof -
  have "isSafeTime (rs_startedAt r)" "0 < rs_timeoutMs r" using assms(1) by (simp_all add: validateStoredState_def validTerms_def)
  then show ?thesis using assms by (simp add: advanceRfqSession_def)
qed

lemma turns_replay:
  assumes "transcript_turns env verify s (rs_turnCount r = 0) (turn_view r) ms = Turns_Done ts" "ms \<noteq> []"
    and "same_session s r" "rs_status r = Open" "validateStoredState env r" "rs_awaitingSince r = rs_startedAt r"
    and "isSafeInteger (rs_startedAt s + rs_timeoutMs s)" "rs_turnCount r + int (length ms) \<le> rs_maxTurns s"
    and "replies_bound (map_option sp_sequence (rs_standingProposal r)) ms" "\<And>x. is_hash (re_sha256Hex env x)"
    and "rs_turnCount r = 0 \<longrightarrow> 2 \<le> length ms"
  shows "\<exists>s'. rfq_replay env verify r (map (\<lambda>m. (m, rs_startedAt s)) ms) = Advanced s' \<and> same_session s s' \<and>
      rs_status s' = Accepted \<and> rs_turnCount s' = rs_turnCount r + int (length ms) \<and>
      rs_lastSequence s' = ts_priorSequence ts \<and> rs_standingProposal s' = ts_standing ts \<and> rs_lastMessageHash s' = ts_lastHash ts"
  using assms
proof (induction ms arbitrary: r)
  case Nil
  then show ?case by simp
next
  case (Cons m ms)
  have ss: "rs_channelId r = rs_channelId s" "rs_pricing r = rs_pricing s" "rs_startedAt r = rs_startedAt s"
      "rs_timeoutMs r = rs_timeoutMs s" "rs_maxTurns r = rs_maxTurns s"
    using Cons.prems(3) by (simp_all add: same_session_def)
  obtain m' hh where adm': "admitChannelMessage (re_sha256Hex env) verify m
      \<lparr>cc_sessionChannelId = rs_channelId s, cc_lastSequence = rs_lastSequence r, cc_priorChannelIds = []\<rparr> = Admitted m' hh"
    using Cons.prems(1) by (auto simp: turn_view_def split: admission.splits)
  have "m' = m" using admitted_facts(1) [OF adm'] .
  note adm = adm' [unfolded this]
  have sender: "cm_sender m = rs_expectedSender r"
    using Cons.prems(1) adm by (auto simp: turn_view_def split: if_splits)
  obtain standing where st: "transcript_turn s (rs_turnCount r = 0) (ms = []) (rs_standingProposal r) m = Inr standing"
    using Cons.prems(1) adm sender by (auto simp: turn_view_def split: sum.splits)
  have rest: "transcript_turns env verify s False
      \<lparr>ts_priorSequence = cm_sequence m, ts_expectedSender = otherMember s (cm_sender m), ts_standing = standing, ts_lastHash = Some hh\<rparr> ms = Turns_Done ts"
    using Cons.prems(1) adm sender st by (simp add: turn_view_def)
  have "\<not> replies_elsewhere r m"
    using Cons.prems(9) by (auto simp: replies_elsewhere_def split: option.splits)
  then have adv: "advanceRfqSession env verify r m (rs_startedAt s) = apply_turn r m hh (rs_startedAt s)"
    using turn_at_start [of env r verify m hh] Cons.prems(4-7) adm sender ss by simp
  have cnt: "0 \<le> rs_turnCount r" using Cons.prems(5) by (simp add: validateStoredState_def validCounters_def)
  show ?case
  proof (cases "ms = []")
    case False
    then obtain p where p: "cm_type m = (if rs_turnCount r = 0 then ''offer'' else ''counter'')"
        "transcript_proposal (cm_body m) (rs_pricing s) = Inr p"
        "standing = Some \<lparr>sp_proposal = p, sp_sequence = cm_sequence m, sp_proposer = cm_sender m\<rparr>"
      using st by (auto simp: transcript_turn_def res_simps)
    define r' where "r' = proposal_turn r m hh (rs_startedAt s) p"
    have step: "advanceRfqSession env verify r m (rs_startedAt s) = Advanced r'"
      using adv p(1) transcript_parse_proposal [OF p(2)] ss(2) by (simp add: apply_turn_def r'_def)
    have lt: "\<not> rs_maxTurns r \<le> rs_turnCount r + 1"
      using Cons.prems(8) False ss(5) by (cases ms) auto
    have f: "rs_status r' = Open" "rs_turnCount r' = rs_turnCount r + 1" "rs_awaitingSince r' = rs_startedAt r'"
        "rs_standingProposal r' = standing"
        "turn_view r' = \<lparr>ts_priorSequence = cm_sequence m, ts_expectedSender = otherMember s (cm_sender m),
           ts_standing = standing, ts_lastHash = Some hh\<rparr>"
      using lt Cons.prems(4) p(3) ss(3) otherMember_same [OF Cons.prems(3)]
      by (simp_all add: r'_def proposal_turn_def admit_turn_def Let_def turn_view_def)
    have same: "same_session s r'"
      unfolding r'_def using same_session_trans [OF Cons.prems(3) proposal_turn_same] .
    have valid: "validateStoredState env r'" using advance_valid [OF step Cons.prems(10)] by simp
    have "\<exists>s'. rfq_replay env verify r' (map (\<lambda>m. (m, rs_startedAt s)) ms) = Advanced s' \<and> same_session s s' \<and>
      rs_status s' = Accepted \<and> rs_turnCount s' = rs_turnCount r' + int (length ms) \<and>
      rs_lastSequence s' = ts_priorSequence ts \<and> rs_standingProposal s' = ts_standing ts \<and> rs_lastMessageHash s' = ts_lastHash ts"
      using Cons.prems(7-10) cnt rest p(3)
      by (intro Cons.IH) (simp_all add: False f same valid)
    then show ?thesis using step f(2) by auto
  next
    case True
    have n0: "rs_turnCount r \<noteq> 0" using Cons.prems(11) True by auto
    obtain q where q: "cm_type m = ''accept''" "rs_standingProposal r = Some q" "acceptSequence (cm_body m) = Some (sp_sequence q)"
        "standing = Some q"
      using st True by (auto simp: transcript_turn_def res_simps)
    have "apply_turn r m hh (rs_startedAt s) = Advanced ((admit_turn r m hh)\<lparr>rs_status := Accepted,
        rs_terminalReason := Some ''standing RFQ proposal accepted''\<rparr>)"
      using n0 q(1,2) transcript_accept_sequence [OF q(3)] by (simp add: apply_turn_def)
    then show ?thesis
      using adv rest q(2,4) Cons.prems(3) by (simp add: True admit_turn_def same_session_def) auto
  qed
qed

text \<open>The session accepts such messages only when every reply names the proposal on the table.\<close>

lemma replay_replies:
  assumes "rfq_replay env verify r (map (\<lambda>m. (m, t)) ms) = Advanced s'" "t \<le> rs_awaitingSince r"
  shows "replies_bound (map_option sp_sequence (rs_standingProposal r)) ms"
  using assms
proof (induction ms arbitrary: r)
  case (Cons m ms)
  obtain r' where r': "advanceRfqSession env verify r m t = Advanced r'" "rfq_replay env verify r' (map (\<lambda>m. (m, t)) ms) = Advanced s'"
    using Cons.prems(1) by (auto split: advance_result.splits)
  show ?case using r'(1)
  proof (cases rule: advance_cases)
    case timeout
    then show ?thesis using Cons.prems(2) by (simp add: validateStoredState_def validTerms_def)
  next
    case (turn hh)
    have here: "case (map_option sp_sequence (rs_standingProposal r), Option.bind (cm_refs m) rf_repliesTo) of (Some q, Some n) \<Rightarrow> n = q | _ \<Rightarrow> True"
      using turn by (auto simp: replies_elsewhere_def split: option.splits)
    show ?thesis using turn(9)
    proof (cases rule: apply_turn_exact)
      case (proposal p)
      have next_turn: "ms = [] \<or> t \<le> rs_awaitingSince r'"
        using replay_terminal [OF r'(2)] by (auto simp: proposal(3) proposal_turn_def admit_turn_def Let_def split: if_splits)
      have "map_option sp_sequence (rs_standingProposal r') = Some (cm_sequence m)"
        by (simp add: proposal(3) proposal_turn_def admit_turn_def Let_def)
      then show ?thesis using next_turn Cons.IH [OF r'(2)] here by auto
    next
      case (accept p)
      then show ?thesis using replay_terminal [OF r'(2)] here by simp
    next
      case terminal
      then show ?thesis using replay_terminal [OF r'(2)] here by auto
    qed
  qed
qed simp

end
