(* ===== verification/Dacs_Trade_Sample.thy ===== *)
theory Dacs_Trade_Sample
  imports Dacs_Rfq_Transcript
begin

text \<open>
  A small trade on which the properties of the agreement components are exercised: one listing with
  a request-for-quote phase and no payment, two parties, one offer and its acceptance.
\<close>

definition trade_env :: artifact_env where
  "trade_env = \<lparr>av_hostname = (\<lambda>_. True), av_httpsUrl = (\<lambda>_. True)\<rparr>"

definition trade_hash :: string where
  "trade_hash = replicate 64 (CHR ''a'')"

definition trade_sha :: "string \<Rightarrow> string" where
  "trade_sha = (\<lambda>_. trade_hash)"

definition trade_bundle :: "string \<Rightarrow> json" where
  "trade_bundle claim =
     JObj [(''bundleVersion'', JStr ''1''), (''claims'', JArr [JObj [(''ref'', JStr claim)]]),
           (''presentation'', JObj [(''address'', JStr []), (''kind'', JStr ''siwd''), (''message'', JStr []), (''signature'', JStr [])]),
           (''presentedAt'', int_json 1), (''presentedBy'', JStr claim)]"

definition trade_vet :: json where
  "trade_vet = JObj [(''anchor'', JObj [(''kind'', JStr ''ipfs''), (''locator'', JStr ''x'')]), (''contentHash'', JStr trade_hash)]"

definition trade_deliverable :: json where
  "trade_deliverable = JObj [(''durationSec'', int_json 1), (''kind'', JStr ''entitlement''), (''renewable'', JBool False)]"

text \<open>The members of every document are in canonical order, so a document is its own snapshot.\<close>

definition trade_listing :: "string \<Rightarrow> json \<Rightarrow> json list \<Rightarrow> json" where
  "trade_listing policy pricing pipeline =
     JObj [(''buyerRequirement'', JObj [(''required'', JArr []), (''requirementVersion'', JStr ''1'')]),
           (''dacsVersion'', JStr ''1''), (''listingId'', JStr ''l''), (''listingVersion'', int_json 1),
           (''offering'', JObj [(''category'', JStr ''c''), (''deliverable'', trade_deliverable), (''description'', JStr []),
              (''tags'', JArr []), (''title'', JStr [])]),
           (''pipeline'', JArr pipeline), (''pricing'', pricing),
           (''seller'', JObj [(''displayName'', JStr []), (''identity'', trade_bundle ''a:s'')]),
           (''signature'', JObj [(''algorithm'', JStr ''ed25519''), (''signer'', JStr ''a:s''), (''value'', JStr ''AA'')]),
           (''terms'', JObj [(''deadlineSecAfterCommit'', int_json 1), (''transcriptDisclosurePolicy'', JStr policy)]),
           (''validity'', JObj [(''notBefore'', int_json 0)])]"

definition rfq_pricing :: json where
  "rfq_pricing = JObj [(''bandCenter'', JObj [(''amount'', JStr ''5''), (''currency'', JStr ''U'')]), (''kind'', JStr ''negotiable''),
     (''maxPct'', int_json 20), (''minPct'', int_json 20)]"

definition rfq_pipeline :: "json list" where
  "rfq_pipeline =
     [JObj [(''kind'', JStr ''negotiate-rfq''), (''parameters'', JObj [(''maxTurns'', int_json 3), (''timeoutSec'', int_json 1)])],
      JObj [(''kind'', JStr ''commit-agreement'')], JObj [(''kind'', JStr ''deliver-entitlement'')]]"

definition rfq_listing :: json where
  "rfq_listing = trade_listing ''encrypted-anchored-required'' rfq_pricing rfq_pipeline"

definition trade_pin :: json where
  "trade_pin = JObj [(''contentHash'', JStr trade_hash), (''listingId'', JStr ''l''), (''version'', int_json 1)]"

definition trade_party :: "string \<Rightarrow> json" where
  "trade_party claim = JObj [(''identityBundle'', trade_bundle claim), (''vetRecordRef'', trade_vet)]"

definition trade_rest :: json where
  "trade_rest = JObj [(''buyer'', trade_party ''a:b''), (''generatedAt'', int_json 40), (''seller'', trade_party ''a:s''),
     (''verifiedListing'', JObj [(''disposition'', JStr ''verified''), (''listing'', rfq_listing), (''pin'', trade_pin)])]"

definition trade_binding :: "string \<Rightarrow> party_binding" where
  "trade_binding claim = \<lparr>pb_primaryClaim = claim, pb_bundleHash = trade_hash, pb_vetRecordRef = trade_vet\<rparr>"

definition trade_opened :: rfq_state where
  "trade_opened =
     \<lparr>rs_version = ''1'', rs_jobId = replicate 26 (CHR ''0''),
      rs_listingPin = \<lparr>lp_listingId = ''l'', lp_version = 1, lp_contentHash = trade_hash\<rparr>, rs_channelId = ''ch'',
      rs_buyer = trade_binding ''a:b'', rs_seller = trade_binding ''a:s'', rs_pricing = pricing_of_json rfq_pricing,
      rs_initiator = Role_Buyer, rs_maxTurns = 3, rs_timeoutMs = 1000, rs_startedAt = 10, rs_awaitingSince = 10,
      rs_expectedSender = ''a:b'', rs_lastSequence = 0, rs_lastMessageHash = None, rs_turnCount = 0, rs_status = Open,
      rs_standingProposal = None, rs_terminalReason = None\<rparr>"

definition trade_verify :: "channel_message \<Rightarrow> string \<Rightarrow> string res" where
  "trade_verify = (\<lambda>_ _. Inr ''pass'')"

definition trade_offer :: channel_message where
  "trade_offer = sample_message\<lparr>cm_sender := ''a:b'', cm_body := JObj [(''rfqBodyVersion'', JStr ''1''),
     (''proposal'', JObj [(''rfqProposalVersion'', JStr ''1''),
       (''price'', JObj [(''amount'', JStr ''4''), (''currency'', JStr ''U'')])])]\<rparr>"

definition trade_accept :: channel_message where
  "trade_accept = sample_message\<lparr>cm_sequence := 2, cm_sender := ''a:s'', cm_type := ''accept'',
     cm_body := JObj [(''rfqBodyVersion'', JStr ''1''), (''acceptedSequence'', JNum (JInt 1))]\<rparr>"

definition trade_standing :: standing_proposal where
  "trade_standing =
     \<lparr>sp_proposal = \<lparr>pr_version = ''1'', pr_price = \<lparr>pt_amount = ''4'', pt_currency = ''U'', pt_unit = None, pt_extra = False\<rparr>,
        pr_meteredQuantity = None\<rparr>, sp_sequence = 1, sp_proposer = ''a:b''\<rparr>"

definition trade_offered :: rfq_state where
  "trade_offered = trade_opened\<lparr>rs_lastSequence := 1, rs_lastMessageHash := Some trade_hash,
     rs_turnCount := 1, rs_standingProposal := Some trade_standing, rs_awaitingSince := 20, rs_expectedSender := ''a:s''\<rparr>"

definition trade_accepted :: rfq_state where
  "trade_accepted = trade_offered\<lparr>rs_lastSequence := 2, rs_turnCount := 2, rs_status := Accepted,
     rs_terminalReason := Some ''standing RFQ proposal accepted''\<rparr>"

definition trade_agreement_party :: "string \<Rightarrow> string \<Rightarrow> json" where
  "trade_agreement_party role claim =
     JObj [(''role'', JStr role), (''bundleHash'', JStr trade_hash), (''primaryClaim'', JStr claim), (''vetRecordRef'', trade_vet)]"

definition trade_deliverable_ref :: json where
  "trade_deliverable_ref = JObj [(''deliverableType'', JStr ''entitlement''), (''hash'', JStr trade_hash)]"

definition trade_draft :: json where
  "trade_draft =
     JObj [(''agreementVersion'', JStr ''1''), (''jobId'', JStr (replicate 26 (CHR ''0''))), (''listingRef'', trade_pin),
       (''parties'', JArr [trade_agreement_party ''buyer'' ''a:b'', trade_agreement_party ''seller'' ''a:s'']),
       (''derivedFromPattern'', JStr ''rfq''),
       (''derivedFromChannel'', JObj [(''subnet'', JStr ''ch''), (''lastMessageHash'', JStr trade_hash)]),
       (''generatedAt'', int_json 40),
       (''terms'', JObj [(''deliverable'', trade_deliverable_ref), (''price'', JObj [(''amount'', JStr ''4''), (''currency'', JStr ''U'')]),
          (''deadline'', int_json 1040)])]"

lemma trade_offered_eq:
  "advanceRfqSession (rfqEnv trade_env trade_sha) trade_verify trade_opened trade_offer 20 = Advanced trade_offered"
  by code_simp

lemma trade_accepted_eq:
  "advanceRfqSession (rfqEnv trade_env trade_sha) trade_verify trade_offered trade_accept 30 = Advanced trade_accepted"
  by code_simp

lemma trade_rest_snapshot: "snapshotCanonicalJsonRead trade_rest = Inr trade_rest"
  by code_simp

lemma rfq_listing_ok: "isListing trade_env rfq_listing"
  by code_simp

lemma trade_pin_ok: "pin_matches trade_sha rfq_listing trade_pin"
  by code_simp

lemma trade_parties_ok:
  "rfqAgreementParty trade_env trade_sha ''buyer'' (trade_party ''a:b'') = Inr (trade_agreement_party ''buyer'' ''a:b'')"
  "rfqAgreementParty trade_env trade_sha ''seller'' (trade_party ''a:s'') = Inr (trade_agreement_party ''seller'' ''a:s'')"
  by code_simp+

lemma trade_authority_ok:
  "assertSessionAuthority trade_env trade_sha trade_accepted rfq_listing trade_pin
     (trade_agreement_party ''buyer'' ''a:b'') (trade_agreement_party ''seller'' ''a:s'') = Inr (sp_proposal trade_standing)"
  by code_simp

lemma trade_pipeline_ok: "requireRfqPipeline rfq_listing = Inr (''commit-agreement'', [])"
  by code_simp

lemma trade_deliverable_ok: "deliverable_ref trade_sha trade_deliverable = Inr trade_deliverable_ref"
  by code_simp

lemma trade_artifact_ok:
  "isAgreementArtifact trade_env (with_signatures trade_draft
     [signature_entry (JStr ''a:b'') ''ed25519'' placeholder, signature_entry (JStr ''a:s'') ''ed25519'' placeholder])"
  by code_simp

lemma trade_reads:
  "dot trade_rest ''buyer'' = trade_party ''a:b''" "dot trade_rest ''seller'' = trade_party ''a:s''"
  "dot trade_rest ''generatedAt'' = int_json 40" "dot trade_rest ''selectedRail'' = JUndefined"
  "dot trade_rest ''payoutBindings'' = JUndefined"
  "dot (dot trade_rest ''verifiedListing'') ''listing'' = rfq_listing"
  "dot (dot trade_rest ''verifiedListing'') ''pin'' = trade_pin"
  "dot (dot trade_rest ''verifiedListing'') ''disposition'' = JStr ''verified''"
  by (simp_all add: trade_rest_def dot_def member_of_def)

lemma rfq_listing_reads:
  "agreement_deadline rfq_listing 40 = Inr 1040" "within_validity rfq_listing 40"
  "dot (dot (dot rfq_listing ''seller'') ''identity'') ''presentedBy'' = JStr ''a:s''"
  "dot (dot rfq_listing ''offering'') ''deliverable'' = trade_deliverable"
  by code_simp+

lemma trade_claims:
  "same_identity trade_env (JStr ''a:s'') (JStr ''a:s'')" "\<not> same_identity trade_env (JStr ''a:b'') (JStr ''a:s'')"
  "dot (trade_agreement_party role claim) ''primaryClaim'' = JStr claim"
  "requireCanonicalJobId (replicate 26 (CHR ''0'')) = Inr (replicate 26 (CHR ''0''))"
  by code_simp+

lemma trade_time: "isNonNegativeSafeInt (int_json 40)" "uint_of (int_json 40) = 40"
  by code_simp+

lemma trade_state_reads:
  "rs_jobId trade_accepted = replicate 26 (CHR ''0'')" "rs_startedAt trade_accepted = 10" "rs_channelId trade_accepted = ''ch''"
  "rs_lastMessageHash trade_accepted = Some trade_hash"
  by (simp_all add: trade_accepted_def trade_offered_def trade_opened_def)

lemma trade_draft_eq:
  "agreement_draft ''commit-agreement''
     [(''jobId'', JStr (replicate 26 (CHR ''0''))), (''listingRef'', trade_pin),
      (''parties'', JArr [trade_agreement_party ''buyer'' ''a:b'', trade_agreement_party ''seller'' ''a:s'']), (''derivedFromPattern'', JStr ''rfq''),
      (''derivedFromChannel'', JObj [(''subnet'', JStr ''ch''), (''lastMessageHash'', JStr trade_hash)]), (''generatedAt'', int_json 40)]
     (common_terms trade_deliverable_ref (price_json (pr_price (sp_proposal trade_standing)))
        (case pr_meteredQuantity (sp_proposal trade_standing) of None \<Rightarrow> JUndefined | Some q \<Rightarrow> quantity_json q) JUndefined 1040)
     JUndefined [] JUndefined = Inr trade_draft"
  by (simp add: agreement_draft_def common_terms_def optional_member_def trade_standing_def price_json_def trade_draft_def)

lemma trade_derived:
  "deriveRfqAgreement trade_env trade_sha \<lparr>ra_session = trade_accepted, ra_rest = trade_rest\<rparr> = Inr trade_draft"
  unfolding deriveRfqAgreement_def
  by (simp add: trade_rest_snapshot Let_def trade_reads rfq_listing_ok trade_state_reads trade_claims trade_pin_ok
      rfq_listing_reads trade_parties_ok trade_authority_ok trade_pipeline_ok requireRfqRail_def requireRail_def
      trade_deliverable_ok trade_draft_eq trade_artifact_ok trade_time del: same_identity.simps)

text \<open>The agreement with two signatures, and the input of its transcript.\<close>

definition trade_signatures :: "json list" where
  "trade_signatures = [signature_entry (JStr ''a:b'') ''ed25519'' placeholder, signature_entry (JStr ''a:s'') ''ed25519'' placeholder]"

definition trade_agreement :: json where
  "trade_agreement = reparsed (with_signatures trade_draft trade_signatures)"

definition trade_transcript_input :: json where
  "trade_transcript_input = transcript_input_json (with_signatures trade_draft trade_signatures) [trade_offer, trade_accept] 50"

lemma trade_agreement_ok: "isAgreementArtifact trade_env trade_agreement"
  by code_simp

lemma trade_binds_ok: "agreementBindsSession trade_agreement trade_accepted"
  by code_simp

lemma trade_transcript_snapshot: "snapshotCanonicalJsonRead trade_transcript_input = Inr (reparsed trade_transcript_input)"
proof -
  have "isDataOnlyJson trade_transcript_input" "isOk (canonicalize trade_transcript_input)" by code_simp+
  then show ?thesis by (simp add: snapshot_defs snapshot_Inr)
qed

lemma trade_accepted_valid: "validateStoredState (rfqEnv trade_env trade_sha) trade_accepted"
  by code_simp

lemma trade_turns_ok:
  "transcript_turns (rfqEnv trade_env trade_sha) trade_verify trade_accepted True (start_turns trade_accepted) [trade_offer, trade_accept] =
     Turns_Done \<lparr>ts_priorSequence = 2, ts_expectedSender = ''a:b'', ts_standing = Some trade_standing, ts_lastHash = Some trade_hash\<rparr>"
  by code_simp

lemma trade_hashes: "is_hash (trade_sha x)"
proof -
  have "is_hash trade_hash" by code_simp
  then show ?thesis by (simp add: trade_sha_def)
qed

end
