(* ===== verification/Dacs_Trade_Props.thy ===== *)
theory Dacs_Trade_Props
  imports Dacs_Transcript_Props Dacs_Trade_Sample
begin

text \<open>
  The negotiation as a whole: an accepted session, the agreement derived from it and the private
  transcript fit together.
\<close>

section \<open>Reading documents\<close>

lemma dot_JObj [simp]: "dot (JObj kvs) k = member_of kvs k"
  by (simp add: dot_def)

lemma member_of_simps [simp]:
  "member_of [] k = JUndefined" "member_of ((a, v) # kvs) k = (if k = a then v else member_of kvs k)"
  by (simp_all add: member_of_def)

lemma member_of_append:
  "k \<notin> fst ` set xs \<Longrightarrow> member_of (xs @ ys) k = member_of ys k"
  "k \<notin> fst ` set ys \<Longrightarrow> member_of (xs @ ys) k = member_of xs k"
  by (induction xs) (auto, (induction ys, auto))

lemma dot_reparsed:
  assumes "isDataOnlyJson v" "distinct_keys v"
  shows "dot (reparsed v) k = reparsed (dot v k)"
proof (cases v)
  case (JObj kvs)
  then show ?thesis
    using map_of_reparsed [of kvs k] assms
    by (cases "map_of kvs k") (simp_all add: member_of_def distinct_keys_def)
qed (simp_all add: dot_def)

lemma elements_reparsed: "elements (reparsed v) = map reparsed (elements v)"
  by (cases v) simp_all

lemma dot_dataOnly:
  assumes "isDataOnlyJson v" "dot v k \<noteq> JUndefined"
  shows "isDataOnlyJson (dot v k)"
proof (cases v)
  case (JObj kvs)
  then obtain x where "map_of kvs k = Some x" using assms(2) by (cases "map_of kvs k") (simp_all add: member_of_def)
  then show ?thesis using assms(1) JObj map_of_SomeD [of kvs k x] by (auto simp: member_of_def list_all_iff)
qed (use assms(2) in \<open>simp_all add: dot_def\<close>)

lemma agreementParty_reads:
  assumes "agreementParty env sha role inp = Inr party"
  shows "distinct_keys party" "dot party ''role'' = JStr role" "isObj party"
  using assms by (auto simp: agreementParty_def res_simps distinct_keys_def optional_member_def)

lemma exact_reparsed [simp]: "exact (reparsed v) w = exact v w"
  by (simp add: exact_def)

section \<open>The derived agreement\<close>

lemma agreement_draft_shape:
  assumes "agreement_draft commitment common terms rail idx payout = Inr draft"
  obtains ver extra where "draft = JObj (ver # common @ [(''terms'', JObj (terms @ extra))])"
    "fst ver = ''agreementVersion'' \<or> fst ver = ''payeeBoundAgreementVersion''" "extra = [] \<or> (\<exists>b. extra = [(''payoutBindings'', b)])"
  using assms by (force simp: agreement_draft_def res_simps split: if_splits)

text \<open>What a successful derivation has established.\<close>

lemma derive_facts:
  assumes "deriveRfqAgreement env sha \<lparr>ra_session = s, ra_rest = rest\<rparr> = Inr draft"
  obtains ver extra buyer seller pin p rail deadline deliverable generatedAt where
    "draft = JObj (ver # [(''jobId'', JStr (rs_jobId s)), (''listingRef'', pin), (''parties'', JArr [buyer, seller]),
        (''derivedFromPattern'', JStr ''rfq''),
        (''derivedFromChannel'', JObj [(''subnet'', JStr (rs_channelId s)), (''lastMessageHash'', JStr (the (rs_lastMessageHash s)))]),
        (''generatedAt'', int_json generatedAt)] @
      [(''terms'', JObj (common_terms deliverable (price_json (pr_price p)) (proposal_quantity p) rail deadline @ extra))])"
    "fst ver = ''agreementVersion'' \<or> fst ver = ''payeeBoundAgreementVersion''" "extra = [] \<or> (\<exists>b. extra = [(''payoutBindings'', b)])"
    "assertSessionAuthority env sha s (dot (dot (reparsed rest) ''verifiedListing'') ''listing'') pin buyer seller = Inr p"
    "agreementParty env sha ''buyer'' (dot (reparsed rest) ''buyer'') = Inr buyer"
    "agreementParty env sha ''seller'' (dot (reparsed rest) ''seller'') = Inr seller"
    "isListing env (dot (dot (reparsed rest) ''verifiedListing'') ''listing'')"
  using assms unfolding deriveRfqAgreement_def Let_def
  by (clarsimp simp: res_simps snapshot_defs snapshot_Inr rfqAgreementParty_def requireCanonicalJobId_def proposal_quantity_def[symmetric]
      elim!: agreement_draft_shape)

lemma party_bound_reparsed:
  assumes "party_is party b" "isDataOnlyJson party" "distinct_keys party"
  shows "party_bound (reparsed party) b"
  using assms by (simp add: party_is_def party_bound_def dot_reparsed exact_def)

lemma common_terms_reads:
  assumes "extra = [] \<or> (\<exists>b. extra = [(''payoutBindings'', b)])"
  shows "dot (JObj (common_terms deliverable price quantity rail deadline @ extra)) ''price'' = price"
    "dot (JObj (common_terms deliverable price quantity rail deadline @ extra)) ''meteredQuantity'' = quantity"
    "distinct_keys (JObj (common_terms deliverable price quantity rail deadline @ extra))"
  using assms by (auto simp: common_terms_def optional_member_def distinct_keys_def)

text \<open>The agreement derived from a session, with any signatures, binds the session.\<close>

lemma derived_agreement_binds:
  assumes d: "deriveRfqAgreement env sha \<lparr>ra_session = s, ra_rest = rest\<rparr> = Inr draft"
    and data: "isDataOnlyJson (with_signatures draft sigs)"
  shows "agreementBindsSession (reparsed (with_signatures draft sigs)) s"
    "dot (reparsed (with_signatures draft sigs)) ''generatedAt'' = dot draft ''generatedAt''"
proof -
  obtain ver extra buyer seller pin p rail deadline deliverable generatedAt where
    draft: "draft = JObj (ver # [(''jobId'', JStr (rs_jobId s)), (''listingRef'', pin), (''parties'', JArr [buyer, seller]),
        (''derivedFromPattern'', JStr ''rfq''),
        (''derivedFromChannel'', JObj [(''subnet'', JStr (rs_channelId s)), (''lastMessageHash'', JStr (the (rs_lastMessageHash s)))]),
        (''generatedAt'', int_json generatedAt)] @
      [(''terms'', JObj (common_terms deliverable (price_json (pr_price p)) (proposal_quantity p) rail deadline @ extra))])"
    and ver: "fst ver = ''agreementVersion'' \<or> fst ver = ''payeeBoundAgreementVersion''"
    and extra: "extra = [] \<or> (\<exists>b. extra = [(''payoutBindings'', b)])"
    and auth: "assertSessionAuthority env sha s (dot (dot (reparsed rest) ''verifiedListing'') ''listing'') pin buyer seller = Inr p"
    and parties: "agreementParty env sha ''buyer'' (dot (reparsed rest) ''buyer'') = Inr buyer"
      "agreementParty env sha ''seller'' (dot (reparsed rest) ''seller'') = Inr seller"
    by (rule derive_facts [OF d])
  define a where "a = with_signatures draft sigs"
  have reads: "dot a ''jobId'' = JStr (rs_jobId s)" "dot a ''listingRef'' = pin" "dot a ''parties'' = JArr [buyer, seller]"
      "dot a ''derivedFromPattern'' = JStr ''rfq''" "dot a ''generatedAt'' = int_json generatedAt"
      "dot a ''derivedFromChannel'' =
        JObj [(''subnet'', JStr (rs_channelId s)), (''lastMessageHash'', JStr (the (rs_lastMessageHash s)))]"
      "dot a ''terms'' = JObj (common_terms deliverable (price_json (pr_price p)) (proposal_quantity p) rail deadline @ extra)"
    using ver by (cases ver; auto simp: a_def with_signatures_def draft)+
  have dk: "distinct_keys a" using ver by (auto simp: a_def with_signatures_def draft distinct_keys_def)
  have rd: "dot (reparsed a) k = reparsed (dot a k)" for k using dot_reparsed [OF data [folded a_def] dk] .
  have dd: "isDataOnlyJson (dot a k)" if "dot a k \<noteq> JUndefined" for k using dot_dataOnly [OF data [folded a_def] that] .
  have f: "party_is buyer (rs_buyer s)" "party_is seller (rs_seller s)" "canonicalize (pin_json (rs_listingPin s)) = canonicalize pin"
      "rs_lastMessageHash s \<noteq> None" "acceptedProposal s = Inr p"
    using auth by (auto simp: assertSessionAuthority_def res_simps)
  obtain st where st: "rs_standingProposal s = Some st" "sp_proposal st = p"
    using f(5) validateRfqProposal_same by (auto simp: acceptedProposal_def split: option.splits)
  have data_parties: "isDataOnlyJson buyer" "isDataOnlyJson seller" using dd [of "''parties''"] by (simp_all add: reads)
  note pr = agreementParty_reads [OF parties(1)] agreementParty_reads [OF parties(2)]
  have roles: "dot (reparsed buyer) ''role'' = JStr ''buyer''" "dot (reparsed seller) ''role'' = JStr ''seller''"
    using pr data_parties by (simp_all add: dot_reparsed)
  have terms: "dot (dot (reparsed a) ''terms'') ''price'' = reparsed (price_json (pr_price p))"
      "dot (dot (reparsed a) ''terms'') ''meteredQuantity'' = reparsed (proposal_quantity p)"
    using dd [of "''terms''"] common_terms_reads [OF extra]
    by (simp_all only: rd reads(7) dot_reparsed json.distinct not_False_eq_True simp_thms)
  have chan: "dot (reparsed a) ''derivedFromChannel'' \<noteq> JUndefined"
      "dot (dot (reparsed a) ''derivedFromChannel'') ''subnet'' = JStr (rs_channelId s)"
      "dot (dot (reparsed a) ''derivedFromChannel'') ''lastMessageHash'' =
        (case rs_lastMessageHash s of None \<Rightarrow> JUndefined | Some h \<Rightarrow> JStr h)"
    using f(4) dot_reparsed [of "dot a ''derivedFromChannel''"] by (auto simp: rd reads(6) distinct_keys_def simp del: reparsed.simps(2))
  have find_roles: "find (\<lambda>p. dot p ''role'' = JStr ''buyer'') (elements (dot (reparsed a) ''parties'')) = Some (reparsed buyer)"
      "find (\<lambda>p. dot p ''role'' = JStr ''seller'') (elements (dot (reparsed a) ''parties'')) = Some (reparsed seller)"
    by (simp_all add: rd reads(3) elements_reparsed roles del: reparsed.simps(1))
  have rest_reads: "dot (reparsed a) ''derivedFromPattern'' = JStr ''rfq''" "dot (reparsed a) ''jobId'' = JStr (rs_jobId s)"
      "dot (reparsed a) ''listingRef'' = reparsed pin" "dot (reparsed a) ''generatedAt'' = int_json generatedAt"
    by (simp_all add: rd reads int_json_def)
  have "exact (reparsed pin) (pin_json (rs_listingPin s))" using f(3) by (simp add: exact_def)
  moreover have "sameOptional (reparsed (proposal_quantity p)) (proposal_quantity p)" by (simp add: sameOptional_def exact_def)
  ultimately show "agreementBindsSession (reparsed (with_signatures draft sigs)) s"
    unfolding a_def [symmetric] agreementBindsSession_def
    using party_bound_reparsed [OF f(1) data_parties(1) pr(1)] party_bound_reparsed [OF f(2) data_parties(2) pr(4)] st
    by (simp add: find_roles rest_reads chan terms) (simp add: exact_def)
  have "dot draft ''generatedAt'' = int_json generatedAt" using ver by (cases ver) (auto simp: draft)
  then show "dot (reparsed (with_signatures draft sigs)) ''generatedAt'' = dot draft ''generatedAt''"
    using rest_reads(4) unfolding a_def by simp
qed

section \<open>Opening and restarting\<close>

text \<open>A valid session before its first turn.\<close>

lemma unturned_view:
  assumes "validateStoredState env s" "rs_turnCount s = 0"
  shows "turn_view s = start_turns s"
  using assms by (simp add: validateStoredState_def validCounters_def validPhase_def turn_view_def start_turns_def)

lemma start_turns_same: "same_session s r \<Longrightarrow> start_turns r = start_turns s"
  by (simp add: same_session_def start_turns_def initiatorClaim_def split: rfq_role.splits)

definition restarted :: "rfq_state \<Rightarrow> rfq_state" where
  "restarted s = s\<lparr>rs_awaitingSince := rs_startedAt s, rs_expectedSender := initiatorClaim s, rs_lastSequence := 0,
     rs_lastMessageHash := None, rs_turnCount := 0, rs_status := Open, rs_standingProposal := None, rs_terminalReason := None\<rparr>"

lemma restarted_valid:
  assumes "validateStoredState env s"
  shows "validateStoredState env (restarted s)"
proof -
  have "validTerms env (restarted s)" using assms by (simp add: validateStoredState_def validTerms_def restarted_def)
  moreover have "validCounters (restarted s)"
    using assms by (simp add: validateStoredState_def validTerms_def validCounters_def restarted_def isSafeInteger_def max_safe_def)
  moreover have "validPhase (restarted s)"
    by (simp add: validPhase_def restarted_def initiatorClaim_def split: rfq_role.splits)
  ultimately show ?thesis by (simp add: validateStoredState_def)
qed

lemma restarted_same: "same_session s (restarted s)"
  by (simp add: same_session_def restarted_def)

lemma restarted_reads [simp]:
  "rs_turnCount (restarted s) = 0" "rs_status (restarted s) = Open" "rs_standingProposal (restarted s) = None"
  "rs_awaitingSince (restarted s) = rs_startedAt (restarted s)" "turn_view (restarted s) = start_turns s"
  by (simp_all add: restarted_def turn_view_def start_turns_def)

section \<open>A prepared transcript\<close>

lemma prepared_facts:
  assumes "prepareRfqTranscript aenv sha verify inp = Prepared t"
  obtains ts where "validateStoredState (rfqEnv aenv sha) (pt_session inp)"
    "bound_transcript_input aenv (pt_session inp) (reparsed (pt_agreement inp)) (pt_messages inp) (pt_generatedAt inp)"
    "transcript_turns (rfqEnv aenv sha) verify (pt_session inp) True (start_turns (pt_session inp)) (pt_messages inp) = Turns_Done ts"
    "ts_priorSequence ts = rs_lastSequence (pt_session inp)" "ts_standing ts = rs_standingProposal (pt_session inp)"
    "ts_lastHash ts = rs_lastMessageHash (pt_session inp)"
    "rt_messages t = pt_messages inp" "rt_members t = [pb_primaryClaim (rs_buyer (pt_session inp)), pb_primaryClaim (rs_seller (pt_session inp))]"
    "rt_channelId t = rs_channelId (pt_session inp)"
proof -
  obtain snap where snap: "snapshotCanonicalJsonRead (transcript_input_json (pt_agreement inp) (pt_messages inp) (pt_generatedAt inp)) = Inr snap"
    using assms by (auto simp: prepareRfqTranscript_def Let_def split: sum.splits)
  have "isDataOnlyJson (transcript_input_json (pt_agreement inp) (pt_messages inp) (pt_generatedAt inp))"
      "snap = reparsed (transcript_input_json (pt_agreement inp) (pt_messages inp) (pt_generatedAt inp))"
    using snap by (simp_all add: snapshot_defs snapshot_Inr)
  then have "dot snap ''agreement'' = reparsed (pt_agreement inp)"
    using dot_reparsed [of "transcript_input_json (pt_agreement inp) (pt_messages inp) (pt_generatedAt inp)"]
    by (simp add: transcript_input_json_def distinct_keys_def)
  then show thesis
    using assms snap that by (auto simp: prepareRfqTranscript_def Let_def split: turns_result.splits if_splits)
qed

lemma prepared_intro:
  assumes "snapshotCanonicalJsonRead (transcript_input_json a ms g) = Inr snap" "validateStoredState (rfqEnv aenv sha) s"
    "bound_transcript_input aenv s (dot snap ''agreement'') ms g"
    "transcript_turns (rfqEnv aenv sha) verify s True (start_turns s) ms = Turns_Done ts"
    "ts_priorSequence ts = rs_lastSequence s" "ts_standing ts = rs_standingProposal s" "ts_lastHash ts = rs_lastMessageHash s"
  shows "prepareRfqTranscript aenv sha verify \<lparr>pt_session = s, pt_agreement = a, pt_messages = ms, pt_generatedAt = g\<rparr> =
    Prepared \<lparr>rt_keys = transcript_keys, rt_transcriptVersion = ''1'', rt_channelId = rs_channelId s,
      rt_members = [pb_primaryClaim (rs_buyer s), pb_primaryClaim (rs_seller s)], rt_messages = ms, rt_generatedAt = g\<rparr>"
  using assms by (simp add: prepareRfqTranscript_def Let_def)

lemma snapshot_agreement:
  assumes "snapshotCanonicalJsonRead (transcript_input_json a ms g) = Inr snap"
  shows "dot snap ''agreement'' = reparsed a" "isDataOnlyJson a"
  using assms dot_reparsed [of "transcript_input_json a ms g"]
  by (simp_all add: snapshot_defs snapshot_Inr transcript_input_json_def distinct_keys_def del: reparsed.simps(2))

section \<open>The sample trade\<close>

definition trade_transcript :: rfq_transcript where
  "trade_transcript =
     \<lparr>rt_keys = transcript_keys, rt_transcriptVersion = ''1'', rt_channelId = rs_channelId trade_accepted,
      rt_members = [pb_primaryClaim (rs_buyer trade_accepted), pb_primaryClaim (rs_seller trade_accepted)],
      rt_messages = [trade_offer, trade_accept], rt_generatedAt = 50\<rparr>"

definition trade_turns :: "(channel_message \<times> int) list" where
  "trade_turns = [(trade_offer, 20), (trade_accept, 30)]"

lemma trade_opened_start: "rs_turnCount trade_opened = 0" "rs_status trade_opened = Open" "rs_status trade_accepted = Accepted"
  by (simp_all add: trade_opened_def trade_accepted_def)

lemma trade_transcript_agreement:
  "dot (reparsed (transcript_input_json (with_signatures trade_draft trade_signatures) [trade_offer, trade_accept] 50)) ''agreement'' =
     trade_agreement"
  unfolding trade_agreement_def by (rule snapshot_agreement(1) [OF trade_transcript_snapshot [unfolded trade_transcript_input_def]])

text \<open>The signed agreement, in the order it was built or in canonical order.\<close>

lemma trade_prepared_from:
  assumes "snapshotCanonicalJsonRead (transcript_input_json a [trade_offer, trade_accept] 50) = Inr snap" "reparsed a = trade_agreement"
  shows "prepareRfqTranscript trade_env trade_sha trade_verify
      \<lparr>pt_session = trade_accepted, pt_agreement = a, pt_messages = [trade_offer, trade_accept], pt_generatedAt = 50\<rparr> =
    Prepared trade_transcript"
  unfolding trade_transcript_def
proof (rule prepared_intro [OF assms(1) trade_accepted_valid _ trade_turns_ok])
  have "uint_of (dot trade_agreement ''generatedAt'') \<le> 50" "rs_turnCount trade_accepted = 2"
    by code_simp (simp add: trade_accepted_def)
  then have "bound_transcript_input trade_env trade_accepted trade_agreement [trade_offer, trade_accept] 50"
    using trade_agreement_ok trade_binds_ok
    by (simp add: bound_transcript_input_def trade_opened_start trade_state_reads isSafeInteger_def max_safe_def)
  then show "bound_transcript_input trade_env trade_accepted (dot snap ''agreement'') [trade_offer, trade_accept] 50"
    unfolding snapshot_agreement(1) [OF assms(1)] assms(2) .
qed (simp_all add: trade_accepted_def trade_offered_def)

lemma trade_prepared:
  "prepareRfqTranscript trade_env trade_sha trade_verify
      \<lparr>pt_session = trade_accepted, pt_agreement = with_signatures trade_draft trade_signatures,
       pt_messages = [trade_offer, trade_accept], pt_generatedAt = 50\<rparr> = Prepared trade_transcript"
  using trade_prepared_from [OF trade_transcript_snapshot [unfolded trade_transcript_input_def]] unfolding trade_agreement_def by blast

text \<open>
  The same trade with an acceptance that names a message other than the offer: the offer has
  sequence 2 and the acceptance, of the proposal of sequence 2, replies to 1.
\<close>

definition misreply_offer :: channel_message where
  "misreply_offer = trade_offer\<lparr>cm_sequence := 2\<rparr>"

definition misreply_accept :: channel_message where
  "misreply_accept = trade_accept\<lparr>cm_keys := cm_keys trade_accept @ [''refs''], cm_sequence := 3,
     cm_body := JObj [(''rfqBodyVersion'', JStr ''1''), (''acceptedSequence'', JNum (JInt 2))],
     cm_refs := Some \<lparr>rf_keys = [''repliesTo''], rf_repliesTo = Some 1\<rparr>\<rparr>"

definition misreply_accepted :: rfq_state where
  "misreply_accepted = trade_accepted\<lparr>rs_lastSequence := 3, rs_standingProposal := Some (trade_standing\<lparr>sp_sequence := 2\<rparr>)\<rparr>"

definition misreply_transcript :: rfq_transcript where
  "misreply_transcript = trade_transcript\<lparr>rt_messages := [misreply_offer, misreply_accept]\<rparr>"

lemma misreply_ok:
  "validateStoredState (rfqEnv trade_env trade_sha) misreply_accepted" "agreementBindsSession trade_agreement misreply_accepted"
  "transcript_turns (rfqEnv trade_env trade_sha) trade_verify misreply_accepted True (start_turns misreply_accepted) [misreply_offer, misreply_accept] =
     Turns_Done \<lparr>ts_priorSequence = 3, ts_expectedSender = ''a:b'', ts_standing = Some (trade_standing\<lparr>sp_sequence := 2\<rparr>), ts_lastHash = Some trade_hash\<rparr>"
  by code_simp+

lemma misreply_snapshot:
  "isOk (snapshotCanonicalJsonRead (transcript_input_json trade_agreement [misreply_offer, misreply_accept] 50))"
proof -
  have "isDataOnlyJson (transcript_input_json trade_agreement [misreply_offer, misreply_accept] 50)"
    "isOk (canonicalize (transcript_input_json trade_agreement [misreply_offer, misreply_accept] 50))" by code_simp+
  then show ?thesis by (simp add: snapshot_defs snapshot_Inr isOk_iff)
qed

lemma misreply_prepared:
  "prepareRfqTranscript trade_env trade_sha trade_verify
      \<lparr>pt_session = misreply_accepted, pt_agreement = trade_agreement, pt_messages = [misreply_offer, misreply_accept], pt_generatedAt = 50\<rparr> =
    Prepared misreply_transcript"
proof -
  obtain snap where snap: "snapshotCanonicalJsonRead (transcript_input_json trade_agreement [misreply_offer, misreply_accept] 50) = Inr snap"
    using misreply_snapshot by (auto simp: isOk_iff)
  have same: "reparsed trade_agreement = trade_agreement" by (simp add: trade_agreement_def)
  have "uint_of (dot trade_agreement ''generatedAt'') \<le> 50" by code_simp
  then have bound: "bound_transcript_input trade_env misreply_accepted (dot snap ''agreement'') [misreply_offer, misreply_accept] 50"
    using trade_agreement_ok misreply_ok(2) unfolding snapshot_agreement(1) [OF snap] same
    by (simp add: bound_transcript_input_def misreply_accepted_def trade_accepted_def trade_offered_def isSafeInteger_def max_safe_def)
  have "misreply_transcript = \<lparr>rt_keys = transcript_keys, rt_transcriptVersion = ''1'', rt_channelId = rs_channelId misreply_accepted,
      rt_members = [pb_primaryClaim (rs_buyer misreply_accepted), pb_primaryClaim (rs_seller misreply_accepted)],
      rt_messages = [misreply_offer, misreply_accept], rt_generatedAt = 50\<rparr>"
    by (simp add: misreply_transcript_def trade_transcript_def misreply_accepted_def)
  then show ?thesis
    using prepared_intro [OF snap misreply_ok(1) bound misreply_ok(3)]
    by (simp add: misreply_accepted_def trade_accepted_def trade_offered_def)
qed

text \<open>A transcript that is verified though the session refuses its last message.\<close>

theorem transcript_reply_divergence:
  "prepareRfqTranscript trade_env trade_sha trade_verify
      \<lparr>pt_session = misreply_accepted, pt_agreement = trade_agreement, pt_messages = [misreply_offer, misreply_accept], pt_generatedAt = 50\<rparr> =
    Prepared misreply_transcript \<and>
   rfq_replay (rfqEnv trade_env trade_sha) trade_verify (restarted misreply_accepted) [(misreply_offer, 10), (misreply_accept, 10)] =
    Not_Advanced Fail ''RFQ reply does not bind the standing proposal''"
proof -
  have "rfq_replay (rfqEnv trade_env trade_sha) trade_verify (restarted misreply_accepted) [(misreply_offer, 10), (misreply_accept, 10)] =
    Not_Advanced Fail ''RFQ reply does not bind the standing proposal''" by code_simp
  then show ?thesis using misreply_prepared by blast
qed

definition trade_consents :: json where
  "trade_consents = JArr [JObj [(''evidence'', JNull), (''member'', JStr ''a:b'')], JObj [(''evidence'', JNull), (''member'', JStr ''a:s'')]]"

definition trade_verified :: json where
  "trade_verified = JObj [(''disposition'', JStr ''verified''), (''listing'', rfq_listing), (''pin'', trade_pin)]"

definition trade_disclosure :: disclosure_input where
  "trade_disclosure =
     \<lparr>di_verifiedListing = trade_verified, di_session = trade_accepted, di_agreement = trade_agreement,
      di_transcript = trade_transcript, di_consents = trade_consents\<rparr>"

definition trade_disclosure_json :: json where
  "trade_disclosure_json =
     JObj [(''verifiedListing'', trade_verified), (''agreement'', trade_agreement), (''transcript'', transcript_json trade_transcript),
       (''consents'', trade_consents)]"

lemma trade_disclosure_data: "isDataOnlyJson trade_disclosure_json" "isOk (canonicalize trade_disclosure_json)"
  by code_simp+

lemma trade_disclosure_canonical: "reparsed trade_verified = trade_verified" "reparsed trade_consents = trade_consents"
  by code_simp+

lemma trade_disclosure_reads:
  "dot (reparsed trade_disclosure_json) ''verifiedListing'' = trade_verified"
  "dot (reparsed trade_disclosure_json) ''agreement'' = trade_agreement"
  "dot (reparsed trade_disclosure_json) ''consents'' = trade_consents"
proof -
  have "dot (reparsed trade_disclosure_json) k = reparsed (dot trade_disclosure_json k)" for k
    by (rule dot_reparsed [OF trade_disclosure_data(1)]) (simp add: trade_disclosure_json_def distinct_keys_def)
  then show "dot (reparsed trade_disclosure_json) ''verifiedListing'' = trade_verified"
    "dot (reparsed trade_disclosure_json) ''agreement'' = trade_agreement"
    "dot (reparsed trade_disclosure_json) ''consents'' = trade_consents"
    by (simp_all add: trade_disclosure_json_def trade_disclosure_canonical) (simp add: trade_agreement_def)
qed

lemma trade_prepared_canonical:
  "prepareRfqTranscript trade_env trade_sha trade_verify
      \<lparr>pt_session = trade_accepted, pt_agreement = trade_agreement, pt_messages = [trade_offer, trade_accept], pt_generatedAt = 50\<rparr> =
   Prepared trade_transcript"
proof (rule trade_prepared_from)
  have "isDataOnlyJson (transcript_input_json trade_agreement [trade_offer, trade_accept] 50)"
    "isOk (canonicalize (transcript_input_json trade_agreement [trade_offer, trade_accept] 50))" by code_simp+
  then show "snapshotCanonicalJsonRead (transcript_input_json trade_agreement [trade_offer, trade_accept] 50) =
      Inr (reparsed (transcript_input_json trade_agreement [trade_offer, trade_accept] 50))" by (simp add: snapshot_defs snapshot_Inr)
qed (simp add: trade_agreement_def)

lemma trade_transcript_binds: "transcriptBindsSession trade_sha trade_transcript trade_accepted"
  by code_simp

lemma trade_consents_plan:
  "plan_consents (\<lambda>_ _ _ _. Inr ''pass'') ''encrypted-anchored-required'' ''ch'' trade_hash [''a:b'', ''a:s''] trade_consents =
     Disclosure Publish_Encrypted ''encrypted-anchored-required'' trade_hash"
  by code_simp

lemma trade_verified_reads:
  "isObj trade_verified" "dot trade_verified ''disposition'' = JStr ''verified''" "dot trade_verified ''listing'' = rfq_listing"
  "dot trade_verified ''pin'' = trade_pin" "isObj trade_pin" "disclosure_policy rfq_listing = ''encrypted-anchored-required''"
  by (simp_all add: trade_verified_def trade_pin_def disclosure_policy_def rfq_listing_def trade_listing_def)

lemma trade_transcript_canonical:
  obtains canon where "canonicalize (transcript_json trade_transcript) = Inr canon"
proof -
  have "isOk (canonicalize (transcript_json trade_transcript))" by code_simp
  then show thesis using that by (auto simp: isOk_iff)
qed

lemma trade_disclosed:
  "planRfqTranscriptDisclosure trade_env trade_sha trade_verify (\<lambda>_ _ _ _. Inr ''pass'') trade_disclosure =
     Disclosure Publish_Encrypted ''encrypted-anchored-required'' trade_hash"
proof (rule trade_transcript_canonical)
  fix canon assume c: "canonicalize (transcript_json trade_transcript) = Inr canon"
  have snap: "snapshotCanonicalJsonRead trade_disclosure_json = Inr (reparsed trade_disclosure_json)"
    using trade_disclosure_data by (simp add: snapshot_defs snapshot_Inr)
  have auth: "disclosure_authority trade_env trade_sha trade_disclosure (reparsed trade_disclosure_json)"
    by (simp add: disclosure_authority_def Let_def trade_disclosure_reads trade_verified_reads trade_disclosure_def trade_opened_start
        rfq_listing_ok trade_pin_ok trade_agreement_ok trade_binds_ok trade_transcript_binds)
  have t: "rt_messages trade_transcript = [trade_offer, trade_accept]" "rt_generatedAt trade_transcript = 50"
      "rt_channelId trade_transcript = ''ch''" "rt_members trade_transcript = [''a:b'', ''a:s'']" "rt_keys trade_transcript = transcript_keys"
    by (simp_all add: trade_transcript_def trade_state_reads)
      (simp add: trade_accepted_def trade_offered_def trade_opened_def trade_binding_def)
  have keys: "exactKeys transcript_keys transcript_keys []" by (simp add: exactKeys_def list_all_iff)
  have d: "di_session trade_disclosure = trade_accepted" "di_transcript trade_disclosure = trade_transcript"
      "JObj ([(''verifiedListing'', di_verifiedListing trade_disclosure), (''agreement'', di_agreement trade_disclosure),
         (''transcript'', transcript_json trade_transcript)] @ optional_member ''consents'' (di_consents trade_disclosure)) =
       trade_disclosure_json" "trade_sha canon = trade_hash"
    by (simp_all add: trade_disclosure_def trade_disclosure_json_def optional_member_def trade_sha_def) (simp add: trade_consents_def)
  show ?thesis
    unfolding planRfqTranscriptDisclosure_def Let_def d snap
    by (simp add: auth trade_disclosure_reads trade_verified_reads trade_accepted_valid t trade_prepared_canonical keys exact_def c
        trade_consents_plan d(4))
qed

section \<open>Properties\<close>

text \<open>
  Property C23. A negotiation that was conducted through the session code can always be documented:
  when the messages of a session, fed to the turn function one after the other from the opened
  session on, end in acceptance, and the agreement derived from that session, with any signatures, is
  an agreement artifact, then the transcript of exactly those messages is verified for it (generated
  no earlier than the agreement, from canonical JSON). No message the session admitted is refused by
  the transcript verifier, and the derived agreement binds the session's job, listing, channel, last
  message, both parties and the accepted price.
\<close>

theorem negotiated_trade_has_transcript:
  assumes opened: "rs_turnCount s0 = 0" "rs_status s0 = Open"
    and replay: "rfq_replay (rfqEnv env sha) verify s0 turns = Advanced s" "rs_status s = Accepted"
    and bodies: "list_all (\<lambda>(m, t). distinct_keys (cm_body m)) turns"
    and derived: "deriveRfqAgreement env sha \<lparr>ra_session = s, ra_rest = rest\<rparr> = Inr draft"
    and snapshot: "snapshotCanonicalJsonRead (transcript_input_json (with_signatures draft sigs) (map fst turns) g) = Inr snap"
    and artifact: "isAgreementArtifact env (dot snap ''agreement'')"
    and time: "isSafeInteger g" "uint_of (dot draft ''generatedAt'') \<le> g"
  shows "prepareRfqTranscript env sha verify
      \<lparr>pt_session = s, pt_agreement = with_signatures draft sigs, pt_messages = map fst turns, pt_generatedAt = g\<rparr> =
    Prepared \<lparr>rt_keys = transcript_keys, rt_transcriptVersion = ''1'', rt_channelId = rs_channelId s,
      rt_members = [pb_primaryClaim (rs_buyer s), pb_primaryClaim (rs_seller s)], rt_messages = map fst turns, rt_generatedAt = g\<rparr>"
proof -
  note sa = snapshot_agreement [OF snapshot]
  have binds: "agreementBindsSession (dot snap ''agreement'') s" "dot (dot snap ''agreement'') ''generatedAt'' = dot draft ''generatedAt''"
    using derived_agreement_binds [OF derived sa(2)] sa(1) by simp_all
  have valid: "validateStoredState (rfqEnv env sha) s"
    by (rule derive_facts [OF derived]) (simp add: assertSessionAuthority_def ensure_Inr)
  have "turns \<noteq> []" using replay opened by auto
  then obtain m t rest_turns where "turns = (m, t) # rest_turns" by (cases turns) auto
  then have valid0: "validateStoredState (rfqEnv env sha) s0"
    using replay(1) by (auto simp: advanceRfqSession_def split: if_splits)
  obtain e where run: "transcript_turns (rfqEnv env sha) verify s0 True (turn_view s0) (map fst turns) =
      Turns_Done ((turn_view s)\<lparr>ts_expectedSender := e\<rparr>)" "rs_turnCount s = int (length turns)" "same_session s0 s"
    using replay_turns [OF replay opened(2) same_session_refl] bodies opened(1) by (fastforce simp: list_all_iff)
  have "same_session s s0" using run(3) by (simp add: same_session_def)
  then have "\<exists>e. transcript_turns (rfqEnv env sha) verify s True (turn_view s0) (map fst turns) =
      Turns_Done ((turn_view s)\<lparr>ts_expectedSender := e\<rparr>)"
    using replay_turns [OF replay opened(2)] bodies opened(1) by (fastforce simp: list_all_iff)
  then obtain e' where run': "transcript_turns (rfqEnv env sha) verify s True (start_turns s) (map fst turns) =
      Turns_Done ((turn_view s)\<lparr>ts_expectedSender := e'\<rparr>)"
    using unturned_view [OF valid0 opened(1)] start_turns_same [OF run(3)] by auto
  have "2 \<le> rs_turnCount s" "rs_lastMessageHash s \<noteq> None"
    using valid replay(2) binds(1) by (auto simp: validateStoredState_def validPhase_def validCounters_def split: if_splits option.splits)
  then have "bound_transcript_input env s (dot snap ''agreement'') (map fst turns) g"
    using replay(2) artifact binds time run(2) by (simp add: bound_transcript_input_def)
  then show ?thesis
    by (rule prepared_intro [OF snapshot valid _ run']) (simp_all add: turn_view_def)
qed

theorem negotiated_trade_has_transcript_witness:
  "prepareRfqTranscript trade_env trade_sha trade_verify
      \<lparr>pt_session = trade_accepted, pt_agreement = with_signatures trade_draft trade_signatures,
       pt_messages = map fst trade_turns, pt_generatedAt = 50\<rparr> =
   Prepared \<lparr>rt_keys = transcript_keys, rt_transcriptVersion = ''1'', rt_channelId = rs_channelId trade_accepted,
      rt_members = [pb_primaryClaim (rs_buyer trade_accepted), pb_primaryClaim (rs_seller trade_accepted)],
      rt_messages = map fst trade_turns, rt_generatedAt = 50\<rparr>"
proof (rule negotiated_trade_has_transcript [OF trade_opened_start(1,2) _ trade_opened_start(3) _ trade_derived])
  show "rfq_replay (rfqEnv trade_env trade_sha) trade_verify trade_opened trade_turns = Advanced trade_accepted"
    by (simp add: trade_turns_def trade_offered_eq trade_accepted_eq)
  show "list_all (\<lambda>(m, t). distinct_keys (cm_body m)) trade_turns" by code_simp
  show "snapshotCanonicalJsonRead (transcript_input_json (with_signatures trade_draft trade_signatures) (map fst trade_turns) 50) =
      Inr (reparsed trade_transcript_input)"
    using trade_transcript_snapshot unfolding trade_transcript_input_def trade_turns_def by simp
  show "isAgreementArtifact trade_env (dot (reparsed trade_transcript_input) ''agreement'')"
    using trade_agreement_ok unfolding trade_transcript_input_def trade_transcript_agreement .
qed (simp_all add: isSafeInteger_def max_safe_def trade_draft_def int_json_def)

text \<open>
  Property C24. When the session would have conducted a verified transcript: replay its messages through
  the turn function, from the session as it was opened on. If every reply that names a proposal names the
  one on the table, every message is accepted and the replay ends in the accepted checkpoint: same
  status, turn count, last sequence, standing proposal and last message hash. If some reply names
  another proposal, the replay is refused: the verifier of transcripts does not look at
  \<^verbatim>\<open>refs.repliesTo\<close>, and this is the only rule of a turn that it omits. The turn timeout must not
  overflow, and SHA-256 gives 64 hexadecimal digits.
\<close>

theorem verified_transcript_replays:
  assumes prepared: "prepareRfqTranscript aenv sha verify
      \<lparr>pt_session = s, pt_agreement = a, pt_messages = ms, pt_generatedAt = g\<rparr> = Prepared t"
    and timeout: "isSafeInteger (rs_startedAt s + rs_timeoutMs s)"
    and hash: "\<And>x. is_hash (sha x)"
  shows "if replies_bound None ms
    then \<exists>s'. rfq_replay (rfqEnv aenv sha) verify (restarted s) (map (\<lambda>m. (m, rs_startedAt s)) ms) = Advanced s' \<and>
      same_session s s' \<and> rs_status s' = rs_status s \<and> rs_turnCount s' = rs_turnCount s \<and> rs_lastSequence s' = rs_lastSequence s \<and>
      rs_standingProposal s' = rs_standingProposal s \<and> rs_lastMessageHash s' = rs_lastMessageHash s
    else \<exists>d why. rfq_replay (rfqEnv aenv sha) verify (restarted s) (map (\<lambda>m. (m, rs_startedAt s)) ms) = Not_Advanced d why"
proof (cases "replies_bound None ms")
  case refs: True
  show ?thesis
  proof (rule prepared_facts [OF prepared], goal_cases)
    case (1 ts)
    note f = 1 [simplified]
    have n: "rs_status s = Accepted" "int (length ms) = rs_turnCount s" "2 \<le> length ms" using f(2) by (simp_all add: bound_transcript_input_def)
    have "rs_turnCount s \<le> rs_maxTurns s" using f(1) by (simp add: validateStoredState_def validCounters_def)
    moreover have "is_hash (re_sha256Hex (rfqEnv aenv sha) x)" for x using hash by (simp add: rfqEnv_def)
    ultimately show ?case
      using turns_replay [of "rfqEnv aenv sha" verify s "restarted s" ms ts] f(1,3-6) n refs timeout restarted_same restarted_valid [OF f(1)]
      by fastforce
  qed
next
  case False
  have "rs_startedAt s \<le> rs_awaitingSince (restarted s)" by (simp add: restarted_def)
  then show ?thesis
    using replay_replies [of "rfqEnv aenv sha" verify "restarted s" "rs_startedAt s" ms] False
    by (cases "rfq_replay (rfqEnv aenv sha) verify (restarted s) (map (\<lambda>m. (m, rs_startedAt s)) ms)") auto
qed

theorem verified_transcript_replays_witness:
  "(\<exists>s'. rfq_replay (rfqEnv trade_env trade_sha) trade_verify (restarted trade_accepted) [(trade_offer, 10), (trade_accept, 10)] = Advanced s' \<and>
     rs_status s' = Accepted \<and> rs_standingProposal s' = Some trade_standing) \<and>
   (\<exists>d why. rfq_replay (rfqEnv trade_env trade_sha) trade_verify (restarted misreply_accepted) [(misreply_offer, 10), (misreply_accept, 10)] =
     Not_Advanced d why)"
proof -
  have refs: "replies_bound None [trade_offer, trade_accept]" "\<not> replies_bound None [misreply_offer, misreply_accept]" by code_simp+
  have st: "rs_startedAt trade_accepted = 10" "rs_timeoutMs trade_accepted = 1000" "rs_standingProposal trade_accepted = Some trade_standing"
    "rs_startedAt misreply_accepted = 10" "rs_timeoutMs misreply_accepted = 1000"
    by (simp_all add: misreply_accepted_def trade_accepted_def trade_offered_def trade_opened_def)
  have "isSafeInteger (rs_startedAt trade_accepted + rs_timeoutMs trade_accepted)" "isSafeInteger (rs_startedAt misreply_accepted + rs_timeoutMs misreply_accepted)"
    by (simp_all add: st isSafeInteger_def max_safe_def)
  note t = this
  show ?thesis
    using verified_transcript_replays [OF trade_prepared t(1) trade_hashes] verified_transcript_replays [OF misreply_prepared t(2) trade_hashes] refs
    by (auto simp: st trade_opened_start)
qed

text \<open>
  Property C29. A transcript is published only with the authenticated consent of both members: when
  the disclosure plan says publish, the transcript was verified for the accepted session and its
  agreement, the listing's policy is not private, and the consent verifier answered pass for the
  buyer and for the seller, each over the session's channel and the hash of the canonical text of
  exactly that transcript.
\<close>

theorem disclosure_needs_both_consents:
  assumes plan: "planRfqTranscriptDisclosure env sha verify verifyConsent inp = Disclosure Publish_Encrypted policy h"
  shows "policy \<noteq> ''none'' \<and>
    (\<exists>a t canon. prepareRfqTranscript env sha verify
        \<lparr>pt_session = di_session inp, pt_agreement = a, pt_messages = rt_messages (di_transcript inp),
         pt_generatedAt = rt_generatedAt (di_transcript inp)\<rparr> = Prepared t \<and>
      agreementBindsSession a (di_session inp) \<and> canonicalize (transcript_json t) = Inr canon \<and> h = sha canon \<and>
      (\<forall>m \<in> {pb_primaryClaim (rs_buyer (di_session inp)), pb_primaryClaim (rs_seller (di_session inp))}.
         \<exists>evidence answer. verifyConsent m (rs_channelId (di_session inp)) h evidence = Inr answer \<and>
           classifyVerificationDecision answer = Inr Pass))"
proof -
  obtain snap t canon where *: "disclosure_authority env sha inp snap"
      "prepareRfqTranscript env sha verify
        \<lparr>pt_session = di_session inp, pt_agreement = dot snap ''agreement'', pt_messages = rt_messages (di_transcript inp),
         pt_generatedAt = rt_generatedAt (di_transcript inp)\<rparr> = Prepared t"
      "canonicalize (transcript_json t) = Inr canon" "policy \<noteq> ''none''"
      "plan_consents verifyConsent policy (rt_channelId t) (sha canon) (rt_members t) (dot snap ''consents'') =
        Disclosure Publish_Encrypted policy h"
    using plan unfolding planRfqTranscriptDisclosure_def Let_def
    by (auto split: sum.splits if_splits transcript_result.splits simp: plan_consents_def disclosure_plan_def)
  have mem: "rt_members t = [pb_primaryClaim (rs_buyer (di_session inp)), pb_primaryClaim (rs_seller (di_session inp))]"
      "rt_channelId t = rs_channelId (di_session inp)"
    using prepared_facts [OF *(2)] by auto
  have h: "h = sha canon" "list_all (\<lambda>d. d = Pass)
      (map (consent_decision verifyConsent (rt_channelId t) (sha canon) (elements (dot snap ''consents''))) (rt_members t))"
    using *(5) by (auto simp: plan_consents_def disclosure_plan_def split: if_splits)
  have "\<exists>evidence answer. verifyConsent m (rs_channelId (di_session inp)) h evidence = Inr answer \<and>
      classifyVerificationDecision answer = Inr Pass" if "m \<in> set (rt_members t)" for m
  proof -
    have "consent_decision verifyConsent (rt_channelId t) (sha canon) (elements (dot snap ''consents'')) m = Pass"
      using h(2) that by (simp add: list_all_iff)
    then show ?thesis
      using h(1) mem(2) by (auto simp: consent_decision_def split: sum.splits)
  qed
  then show ?thesis using *(1-4) h(1) mem(1) by (auto simp: disclosure_authority_def Let_def)
qed

theorem disclosure_needs_both_consents_witness:
  "\<exists>a t canon. prepareRfqTranscript trade_env trade_sha trade_verify
      \<lparr>pt_session = trade_accepted, pt_agreement = a, pt_messages = [trade_offer, trade_accept], pt_generatedAt = 50\<rparr> = Prepared t \<and>
      agreementBindsSession a trade_accepted \<and> canonicalize (transcript_json t) = Inr canon \<and> trade_hash = trade_sha canon"
proof -
  have d: "di_session trade_disclosure = trade_accepted" "rt_messages (di_transcript trade_disclosure) = [trade_offer, trade_accept]"
      "rt_generatedAt (di_transcript trade_disclosure) = 50"
    by (simp_all add: trade_disclosure_def trade_transcript_def)
  from disclosure_needs_both_consents [OF trade_disclosed] show ?thesis unfolding d by blast
qed

end
