(* ===== verification/Dacs_Exchange_Props.thy ===== *)
theory Dacs_Exchange_Props
  imports Dacs_Exchange Dacs_Jcs_Injective Dacs_Trade_Props
begin

text \<open>
  Properties of the agreement exchange: what a joined agreement was verified against, and that the two
  parties, signing apart, obtain the document that one process holding both signers would have made.
\<close>

section \<open>Captured documents\<close>

text \<open>Objects list each key once, at every depth, as JavaScript objects do.\<close>

fun keyed :: "json \<Rightarrow> bool" where
  "keyed (JArr xs) = list_all keyed xs"
| "keyed (JObj kvs) = (distinct (map fst kvs) \<and> list_all (\<lambda>kv. keyed (snd kv)) kvs)"
| "keyed _ = True"

lemma keyed_distinct: "keyed v \<Longrightarrow> distinct_keys v"
  by (cases v) (simp_all add: distinct_keys_def)

lemma dot_member: "dot v k \<noteq> JUndefined \<Longrightarrow> \<exists>kvs. v = JObj kvs \<and> (k, dot v k) \<in> set kvs"
  by (cases v) (auto simp: dot_def member_of_def split: option.splits dest: map_of_SomeD)

lemma keyed_dot: "keyed v \<Longrightarrow> keyed (dot v k)"
  using dot_member [of v k] by (cases "dot v k = JUndefined") (auto simp: list_all_iff dest!: bspec)

lemma keyed_element: "keyed v \<Longrightarrow> x \<in> set (elements v) \<Longrightarrow> keyed x"
  by (cases v) (auto simp: list_all_iff)

lemma plain_data_dot: "plain_data v \<Longrightarrow> dot v k \<noteq> JUndefined \<Longrightarrow> plain_data (dot v k)"
  using dot_member [of v k] by (auto simp: list_all_iff dest!: bspec)

lemma plain_data_element: "plain_data v \<Longrightarrow> x \<in> set (elements v) \<Longrightarrow> plain_data x"
  by (cases v) (auto simp: list_all_iff)

lemma plain_data_numbers: "plain_data v \<Longrightarrow> number_texts v"
proof (induction v rule: number_texts.induct)
  case (3 kvs)
  then show ?case by (fastforce simp: list_all_iff)
qed (auto simp: list_all_iff)

lemma plain_data_json: "plain_data v \<Longrightarrow> isDataOnlyJson v"
proof (induction v rule: isDataOnlyJson.induct)
  case (6 kvs)
  then show ?case by (fastforce simp: list_all_iff)
qed (auto simp: list_all_iff split: jsnumber.splits)

lemma plain_data_canon:
  assumes "plain_data v" "canonicalize v = canonicalize w" "isOk (canonicalize w)" "number_texts w"
  shows "reparsed v = reparsed w"
  using assms jcs.same_form plain_data_numbers by blast

text \<open>A value that nests at most 128 levels has a canonical text.\<close>

lemma exact_json_canonical: "isExactJsonValue d v \<Longrightarrow> isOk (canonValue d v)"
proof (induction d v rule: canonValue_induct)
  case (4 d n)
  then show ?case by (cases n) (simp_all add: canonNumber_def)
next
  case (7 d xs)
  then have "\<exists>ts. mapR (canonValue (Suc d)) xs = Inr ts"
  proof (induction xs)
    case (Cons x xs)
    then show ?case by (fastforce simp: isOk_iff res_simps)
  qed simp
  then show ?case using 7(2) by (auto simp: isOk_iff res_simps)
next
  case (8 d kvs)
  have ok: "isOk (canonValue (Suc d) (snd kv))" if "kv \<in> set (sorted_entries kvs)" for kv
    using 8 that by (auto simp: sorted_entries_def list_all_iff)
  have "\<exists>ts. mapR (\<lambda>kv. bindR (canonValue (Suc d) (snd kv)) (\<lambda>t. Inr (canonString (fst kv) @ CHR '':'' # t))) es = Inr ts"
    if "set es \<subseteq> set (sorted_entries kvs)" for es
    using that
  proof (induction es)
    case (Cons kv es)
    then show ?case using ok [of kv] by (auto simp: isOk_iff res_simps)
  qed simp
  then show ?case using 8(2) by (auto simp: isOk_iff res_simps)
qed simp_all

section \<open>Byte arrays\<close>

lemma code_byte: "code (c :: char) < 256"
  by (cases c) (simp add: of_char_def horner_sum_simps of_bool_def)

lemma byte_range [simp]: "code (c :: char) \<le> 255" "isSafeInteger (int (code (c :: char)))"
proof -
  show le: "code c \<le> 255" using code_byte [of c] by linarith
  show "isSafeInteger (int (code c))" using le unfolding isSafeInteger_def max_safe_def by linarith
qed

lemma bytes_json_plain: "plain_data (bytes_json bs)"
  by (simp add: bytes_json_def int_json_def list_all_iff)

lemma bytes_json_roundtrip [simp]: "bytes_of_json (bytes_json bs) = bs"
  by (induction bs) (simp_all add: bytes_of_json_def bytes_json_def int_json_def)

lemma reparsed_bytes: "list_all is_byte xs \<Longrightarrow> map reparsed xs = xs"
proof (induction xs)
  case (Cons x xs)
  then show ?case by (cases x) auto
qed simp

lemma bytes_json_bytes: "arr_where (list_all is_byte) (bytes_json bs)"
  by (simp add: bytes_json_def int_json_def arr_where_def list_all_iff)

lemma bytes_json_exact: "d < 128 \<Longrightarrow> isExactJsonValue d (bytes_json bs)"
  by (simp add: bytes_json_def int_json_def list_all_iff MAX_NESTING_DEPTH_def)

text \<open>A byte array is determined by its canonical text.\<close>

lemma bytes_of_canonical:
  assumes "arr_where (list_all is_byte) v" "plain_data v" "canonicalize v = canonicalize (bytes_json bs)"
  shows "bytes_of_json v = bs"
proof -
  have "isOk (canonicalize (bytes_json bs))" unfolding canonicalize_def by (rule exact_json_canonical [OF bytes_json_exact]) simp
  then have r: "reparsed v = reparsed (bytes_json bs)"
    by (rule plain_data_canon [OF assms(2,3) _ plain_data_numbers [OF bytes_json_plain]])
  obtain xs where v: "v = JArr xs" "list_all is_byte xs" using assms(1) by (cases v) (auto simp: arr_where_def)
  obtain ys where b: "bytes_json bs = JArr ys" "list_all is_byte ys" using bytes_json_bytes [of bs] by (auto simp: bytes_json_def arr_where_def)
  have "v = bytes_json bs" using r reparsed_bytes [OF v(2)] reparsed_bytes [OF b(2)] by (simp add: v(1) b(1))
  then show ?thesis by simp
qed

section \<open>Captured plans\<close>

lemma capturePlan_facts:
  assumes "capturePlan env sha v = Inr plan"
  obtains h material where "plan = v" "plain_data plan" "plan_shape plan"
    "isCanonicalText (first_claim ''buyer'' (dot plan ''draft''))" "isCanonicalText (first_claim ''seller'' (dot plan ''draft''))"
    "first_claim ''buyer'' (dot plan ''draft'') \<noteq> first_claim ''seller'' (dot plan ''draft'')"
    "canonicalize (dot plan ''requiredSigners'') = canonicalize (JArr [required_signer ''buyer'' (first_claim ''buyer'' (dot plan ''draft'')),
        required_signer ''seller'' (first_claim ''seller'' (dot plan ''draft''))])"
    "contentHash sha (entries (dot plan ''draft'')) = Inr h" "dot plan ''agreementHash'' = JStr h"
    "canonicalize (dot plan ''signedBytes'') = canonicalize (bytes_json (signedBytes (separatorFor (dot plan ''draft'')) h))"
    "canonicalize (planMaterial plan) = Inr material" "dot plan ''planHash'' = JStr (sha material)"
  using assms by (auto simp: capturePlan_def captureData_def requiredSignersFor_def Let_def res_simps)

text \<open>The bytes that a captured plan gives to its signers and to the verifier.\<close>

lemma plan_bytes:
  assumes "capturePlan env sha v = Inr plan" "contentHash sha (entries (dot plan ''draft'')) = Inr h"
  shows "bytes_of_json (dot plan ''signedBytes'') = signedBytes (separatorFor (dot plan ''draft'')) h"
proof (rule capturePlan_facts [OF assms(1)])
  fix h' material
  assume f: "plan_shape plan" "plain_data plan" "contentHash sha (entries (dot plan ''draft'')) = Inr h'"
    "canonicalize (dot plan ''signedBytes'') = canonicalize (bytes_json (signedBytes (separatorFor (dot plan ''draft'')) h'))"
  have a: "arr_where (list_all is_byte) (dot plan ''signedBytes'')" using f(1) by (simp add: plan_shape_def)
  then have "dot plan ''signedBytes'' \<noteq> JUndefined" by (auto simp: arr_where_def)
  then show ?thesis using bytes_of_canonical [OF a plain_data_dot [OF f(2)] f(4)] f(3) assms(2) by simp
qed

lemma recaptured: "capturePlan env sha v = Inr plan \<Longrightarrow> capturePlan env sha plan = Inr plan"
  using capturePlan_facts by metis

lemma plan_signed_bytes:
  assumes "capturePlan env sha v = Inr plan" "contentHash sha (entries (dot plan ''draft'')) = Inr h"
  shows "fixedPriceAgreementSignedBytes env sha plan = Inr (signedBytes (separatorFor (dot plan ''draft'')) h)"
  using recaptured [OF assms(1)] plan_bytes [OF assms] by (simp add: fixedPriceAgreementSignedBytes_def)

text \<open>The roster of a captured plan: the buyer's claim of the draft, then the seller's.\<close>

lemma reparsed_JStr [simp]: "reparsed v = JStr s \<longleftrightarrow> v = JStr s"
  by (cases v) auto

lemma isCanonicalText_JStr: "isCanonicalText v \<Longrightarrow> \<exists>s. v = JStr s \<and> isNonEmptyString s"
  by (cases v) (auto simp: isCanonicalText_def str_where_def)

lemma roster_entry:
  assumes "reparsed e = reparsed (required_signer role (JStr party))" "keyed e" "plain_data e"
  shows "dot e ''role'' = JStr role" "dot e ''party'' = JStr party"
proof -
  let ?s = "required_signer role (JStr party)"
  have s: "dot (reparsed ?s) k = reparsed (dot ?s k)" for k
    by (rule dot_reparsed) (simp_all add: required_signer_def distinct_keys_def)
  have e: "dot (reparsed e) k = reparsed (dot e k)" for k
    by (rule dot_reparsed [OF plain_data_json [OF assms(3)] keyed_distinct [OF assms(2)]])
  have "reparsed (dot e k) = reparsed (dot ?s k)" for k using e s assms(1) by metis
  from this [of "''role''"] this [of "''party''"]
  show "dot e ''role'' = JStr role" "dot e ''party'' = JStr party" by (simp_all add: required_signer_def)
qed

lemma plan_roster:
  assumes "capturePlan env sha v = Inr plan" "keyed plan"
  obtains e1 e2 where "elements (dot plan ''requiredSigners'') = [e1, e2]"
    "dot e1 ''role'' = JStr ''buyer''" "dot e1 ''party'' = first_claim ''buyer'' (dot plan ''draft'')"
    "dot e2 ''role'' = JStr ''seller''" "dot e2 ''party'' = first_claim ''seller'' (dot plan ''draft'')"
proof (rule capturePlan_facts [OF assms(1)])
  let ?b = "first_claim ''buyer'' (dot plan ''draft'')" and ?s = "first_claim ''seller'' (dot plan ''draft'')"
  let ?roster = "JArr [required_signer ''buyer'' ?b, required_signer ''seller'' ?s]"
  fix h material
  assume f: "plan_shape plan" "plain_data plan" "isCanonicalText ?b" "isCanonicalText ?s"
    "canonicalize (dot plan ''requiredSigners'') = canonicalize ?roster"
  obtain b s where bs: "?b = JStr b" "?s = JStr s" using f(3,4) isCanonicalText_JStr by blast
  have arr: "is_array (dot plan ''requiredSigners'')" using f(1) by (simp add: plan_shape_def)
  then have pd: "plain_data (dot plan ''requiredSigners'')" by (intro plain_data_dot [OF f(2)]) auto
  have ok: "isOk (canonicalize ?roster)"
    unfolding canonicalize_def by (rule exact_json_canonical) (simp add: bs required_signer_def MAX_NESTING_DEPTH_def)
  have "reparsed (dot plan ''requiredSigners'') = reparsed ?roster"
    by (rule plain_data_canon [OF pd f(5) ok]) (simp add: bs required_signer_def)
  then have "map reparsed (elements (dot plan ''requiredSigners'')) =
      [reparsed (required_signer ''buyer'' (JStr b)), reparsed (required_signer ''seller'' (JStr s))]"
    unfolding elements_reparsed [symmetric] by (simp only: elements_reparsed elements.simps bs list.map)
  then obtain e1 e2 where e: "elements (dot plan ''requiredSigners'') = [e1, e2]"
      "reparsed e1 = reparsed (required_signer ''buyer'' (JStr b))" "reparsed e2 = reparsed (required_signer ''seller'' (JStr s))"
    by (auto simp: map_eq_Cons_conv)
  have k: "keyed e1" "plain_data e1" "keyed e2" "plain_data e2"
    using keyed_element [OF keyed_dot [OF assms(2)], of _ "''requiredSigners''"] plain_data_element [OF pd] e(1) by auto
  show thesis
    using that [OF e(1)] roster_entry [OF e(2) k(1,2)] roster_entry [OF e(3) k(3,4)] bs by simp
qed

section \<open>Joined contributions\<close>

lemma role_signature_facts:
  assumes "role_signature env sha verify plan byRole e = Inr sig" "fixedPriceAgreementSignedBytes env sha plan = Inr bytes"
  shows "dot sig ''party'' = dot e ''party''"
    "verify (dot e ''role'') (dot e ''party'') (dot sig ''algorithm'') (dot sig ''value'') bytes = Inr ''valid''"
  using assms by (auto simp: role_signature_def Let_def res_simps split: option.splits)

section \<open>The exchange of two honest parties\<close>

text \<open>The plan made from a draft with content hash \<open>h\<close>, before and with its own hash.\<close>

definition plan_base :: "json \<Rightarrow> string \<Rightarrow> (string \<times> json) list" where
  "plan_base draft h =
     [(''planVersion'', JStr ''1''), (''draft'', draft), (''agreementHash'', JStr h), (''separator'', JStr (separatorFor draft)),
      (''signedBytes'', bytes_json (signedBytes (separatorFor draft) h)),
      (''requiredSigners'', JArr [required_signer ''buyer'' (first_claim ''buyer'' draft), required_signer ''seller'' (first_claim ''seller'' draft)])]"

definition plan_with :: "(string \<Rightarrow> string) \<Rightarrow> json \<Rightarrow> string \<Rightarrow> json" where
  "plan_with sha draft h = JObj (plan_base draft h @ [(''planHash'', JStr (sha (projr (canonicalize (planMaterial (JObj (plan_base draft h)))))))])"

definition contribution_base :: "json \<Rightarrow> string \<Rightarrow> string \<Rightarrow> string \<Rightarrow> string \<Rightarrow> (string \<times> json) list" where
  "contribution_base planHash role party algorithm v =
     [(''contributionVersion'', JStr ''1''), (''planHash'', planHash), (''role'', JStr role), (''party'', JStr party),
      (''signature'', signature_entry (JStr party) algorithm v)]"

definition contribution_with :: "(string \<Rightarrow> string) \<Rightarrow> json \<Rightarrow> string \<Rightarrow> string \<Rightarrow> string \<Rightarrow> string \<Rightarrow> json" where
  "contribution_with sha planHash role party algorithm v =
     JObj (contribution_base planHash role party algorithm v @
       [(''contributionHash'', JStr (sha (projr (canonicalize (contributionMaterial (JObj (contribution_base planHash role party algorithm v)))))))])"

lemma plan_material_eq: "planMaterial (plan_with sha draft h) = planMaterial (JObj (plan_base draft h))"
  by (simp add: planMaterial_def plan_with_def plan_base_def plan_keys_def)

lemma contribution_material_eq:
  "contributionMaterial (contribution_with sha ph role party alg v) = contributionMaterial (JObj (contribution_base ph role party alg v))"
  by (simp add: contributionMaterial_def contribution_with_def contribution_base_def contribution_keys_def)

lemma plan_reads [simp]:
  "dot (plan_with sha draft h) ''draft'' = draft" "dot (plan_with sha draft h) ''agreementHash'' = JStr h"
  "dot (plan_with sha draft h) ''signedBytes'' = bytes_json (signedBytes (separatorFor draft) h)"
  "elements (dot (plan_with sha draft h) ''requiredSigners'') =
     [required_signer ''buyer'' (first_claim ''buyer'' draft), required_signer ''seller'' (first_claim ''seller'' draft)]"
  by (simp_all add: plan_with_def plan_base_def)

lemma contribution_reads [simp]:
  "dot (contribution_with sha ph role party alg v) ''planHash'' = ph" "dot (contribution_with sha ph role party alg v) ''role'' = JStr role"
  "dot (contribution_with sha ph role party alg v) ''party'' = JStr party"
  "dot (contribution_with sha ph role party alg v) ''signature'' = signature_entry (JStr party) alg v"
  by (simp_all add: contribution_with_def contribution_base_def)

lemma signature_entry_reads [simp]:
  "dot (signature_entry p a v) ''party'' = p" "dot (signature_entry p a v) ''algorithm'' = JStr a" "dot (signature_entry p a v) ''value'' = JStr v"
  by (simp_all add: signature_entry_def)

lemma required_signer_reads [simp]:
  "dot (required_signer role p) ''role'' = JStr role" "dot (required_signer role p) ''party'' = p"
  by (simp_all add: required_signer_def)

text \<open>What makes a draft signable over the exchange.\<close>

definition signable :: "artifact_env \<Rightarrow> json \<Rightarrow> string \<Rightarrow> string \<Rightarrow> bool" where
  "signable env draft b s \<longleftrightarrow>
     plain_data draft \<and> isExactJsonValue 1 draft \<and> unsigned_draft draft \<and>
     first_claim ''buyer'' draft = JStr b \<and> first_claim ''seller'' draft = JStr s \<and> isNonEmptyString b \<and> isNonEmptyString s \<and> b \<noteq> s \<and>
     isAgreementArtifact env (placeholderAgreement draft [required_signer ''buyer'' (JStr b), required_signer ''seller'' (JStr s)])"

lemma signable_roster:
  "signable env draft b s \<Longrightarrow> requiredSignersFor draft = Inr [required_signer ''buyer'' (JStr b), required_signer ''seller'' (JStr s)]"
  by (simp add: signable_def requiredSignersFor_def isCanonicalText_def str_where_def)

lemma plan_material_ok:
  assumes "signable env draft b s"
  obtains material where "canonicalize (planMaterial (JObj (plan_base draft h))) = Inr material"
proof -
  have "isExactJsonValue 0 (planMaterial (JObj (plan_base draft h)))"
    using assms bytes_json_exact [of 1] by (simp add: signable_def planMaterial_def plan_keys_def plan_base_def required_signer_def MAX_NESTING_DEPTH_def)
  from exact_json_canonical [OF this] show thesis using that by (auto simp: canonicalize_def isOk_iff)
qed

lemma plan_captured:
  assumes "signable env draft b s" "contentHash sha (entries draft) = Inr h" "\<And>x. is_hash (sha x)"
  shows "capturePlan env sha (plan_with sha draft h) = Inr (plan_with sha draft h)"
proof (rule plan_material_ok [OF assms(1)])
  fix material assume m: "canonicalize (planMaterial (JObj (plan_base draft h))) = Inr material"
  have hh: "is_hash h" using assms(2,3) by (auto simp: contentHash_def res_simps)
  have claims: "first_claim ''buyer'' draft = JStr b" "first_claim ''seller'' draft = JStr s"
    "unsigned_draft draft" using assms(1) by (simp_all add: signable_def)
  have "plain_data (plan_with sha draft h)"
    using assms(1) bytes_json_plain by (simp add: plan_with_def plan_base_def signable_def required_signer_def)
  moreover have "plan_shape (plan_with sha draft h)"
    unfolding plan_shape_def using claims hh assms(3) bytes_json_bytes
    by (simp add: plan_with_def plan_base_def exactDataKeys_def exactKeys_def plan_keys_def isSha256_def str_where_def)
  ultimately show ?thesis
    using assms(1,2) m plan_material_eq [of sha draft h] signable_roster [OF assms(1)] claims
    by (simp add: capturePlan_def captureData_def Let_def signable_def)
      (simp add: plan_with_def plan_base_def)
qed

lemma plan_created:
  assumes "signable env draft b s" "contentHash sha (entries draft) = Inr h" "\<And>x. is_hash (sha x)"
  shows "createFixedPriceAgreementSigningPlan env sha draft = Inr (plan_with sha draft h)"
proof (rule plan_material_ok [OF assms(1)])
  fix material assume m: "canonicalize (planMaterial (JObj (plan_base draft h))) = Inr material"
  have claims: "first_claim ''buyer'' draft = JStr b" "first_claim ''seller'' draft = JStr s"
    using assms(1) by (simp_all add: signable_def)
  show ?thesis
    using plan_captured [OF assms] m assms(1,2) signable_roster [OF assms(1)] claims
    by (simp add: createFixedPriceAgreementSigningPlan_def captureData_def Let_def signable_def plan_with_def plan_base_def)
qed

lemma contribution_captured:
  assumes "isNonEmptyString party" "alg \<in> set COMPONENT_SIGNATURE_ALGORITHMS" "isCanonicalBase64Url v" "role = ''buyer'' \<or> role = ''seller''"
    "isSha256 ph" "\<And>x. is_hash (sha x)"
  shows "captureContribution sha (contribution_with sha ph role party alg v) = Inr (contribution_with sha ph role party alg v)"
    "isOk (canonicalize (contributionMaterial (JObj (contribution_base ph role party alg v))))"
proof -
  obtain x where ph: "ph = JStr x" "is_hash x" using assms(5) by (cases ph) (auto simp: isSha256_def str_where_def)
  have "isExactJsonValue 0 (contributionMaterial (JObj (contribution_base ph role party alg v)))"
    by (simp add: contributionMaterial_def contribution_base_def contribution_keys_def signature_entry_def ph MAX_NESTING_DEPTH_def)
  then show ok: "isOk (canonicalize (contributionMaterial (JObj (contribution_base ph role party alg v))))"
    unfolding canonicalize_def by (rule exact_json_canonical)
  have "plain_data (contribution_with sha ph role party alg v)"
    by (simp add: contribution_with_def contribution_base_def signature_entry_def ph)
  moreover have "contribution_shape (contribution_with sha ph role party alg v)"
    unfolding contribution_shape_def using assms ph
    by (auto simp: contribution_with_def contribution_base_def exactDataKeys_def exactKeys_def contribution_keys_def isSha256_def str_where_def
        isOneOf_def isCanonicalText_def signature_entry_def)
  ultimately show "captureContribution sha (contribution_with sha ph role party alg v) = Inr (contribution_with sha ph role party alg v)"
    using ok contribution_material_eq [of sha ph role party alg v]
    by (auto simp: captureContribution_def captureData_def isOk_iff) (simp add: contribution_with_def contribution_base_def)
qed

lemma contribution_created:
  assumes plan: "capturePlan env sha plan = Inr plan" "fixedPriceAgreementSignedBytes env sha plan = Inr bytes" "isSha256 (dot plan ''planHash'')"
    and role: "role = ''buyer'' \<or> role = ''seller''" "signer_of_role plan role = Some e" "dot e ''party'' = JStr (sg_party signer)"
    and signer: "isNonEmptyString (sg_party signer)" "sg_algorithm signer \<in> set COMPONENT_SIGNATURE_ALGORITHMS"
    and sign: "sg_sign signer bytes = Inr raw" "isCanonicalBase64Url (signature_text raw)" and hash: "\<And>x. is_hash (sha x)"
  shows "createFixedPriceAgreementSignatureContribution env sha plan role signer =
    Inr (contribution_with sha (dot plan ''planHash'') role (sg_party signer) (sg_algorithm signer) (signature_text raw))"
proof -
  note c = contribution_captured [OF signer sign(2) role(1) plan(3) hash]
  obtain material where "canonicalize (contributionMaterial (JObj
      (contribution_base (dot plan ''planHash'') role (sg_party signer) (sg_algorithm signer) (signature_text raw)))) = Inr material"
    using c(2) by (auto simp: isOk_iff)
  then show ?thesis
    using c(1) plan role signer sign
    by (simp add: createFixedPriceAgreementSignatureContribution_def captureSigner_def Let_def contribution_with_def contribution_base_def)
qed

text \<open>The agreement gate reads the signatures apart from the rest of the document.\<close>

lemma with_signatures_reads:
  assumes "unsigned_draft draft"
  shows "dot (with_signatures draft sigs) k = (if k = ''signatures'' then JArr sigs else dot draft k)"
proof -
  obtain kvs where d: "draft = JObj kvs" using assms by (cases draft) (simp_all add: unsigned_draft_def)
  have "''signatures'' \<notin> fst ` set kvs" using assms by (simp add: unsigned_draft_def d has_own_def)
  then show ?thesis using member_of_append [of k kvs] by (auto simp: with_signatures_def d member_of_append)
qed

lemma with_signatures_JObj: "unsigned_draft draft \<Longrightarrow> with_signatures draft sigs = JObj (entries draft @ [(''signatures'', JArr sigs)])"
  by (simp add: with_signatures_def)

lemma signatures_replaceable:
  assumes "isAgreementArtifact env (with_signatures draft [signature_entry p a v, signature_entry q b w])" "unsigned_draft draft"
    and "isAgreementSignature (signature_entry p a' v')" "isAgreementSignature (signature_entry q b' w')"
    and "isExactJsonValue 1 p" "isExactJsonValue 1 q"
  shows "isAgreementArtifact env (with_signatures draft [signature_entry p a' v', signature_entry q b' w'])"
proof -
  let ?old = "[signature_entry p a v, signature_entry q b w]" and ?new = "[signature_entry p a' v', signature_entry q b' w']"
  obtain kvs where d: "draft = JObj kvs" using assms(2) by (cases draft) (simp_all add: unsigned_draft_def)
  have r: "member_of (kvs @ [(''signatures'', JArr sigs)]) k = (if k = ''signatures'' then JArr sigs else member_of kvs k)" for sigs k
    using with_signatures_reads [OF assms(2), of sigs k] by (simp add: with_signatures_def d)
  have own: "has_own (kvs @ [(''signatures'', JArr sigs)]) ''signature'' = has_own kvs ''signature''" for sigs
    by (simp add: has_own_def)
  have exact: "isExactJsonRecord (with_signatures draft ?new)" if "isExactJsonRecord (with_signatures draft ?old)"
    using that by (simp add: isExactJsonRecord_def with_signatures_def d signature_entry_def)
  have common: "hasAgreementCommon env pb (kvs @ [(''signatures'', JArr ?new)])"
    if "hasAgreementCommon env pb (kvs @ [(''signatures'', JArr ?old)])" for pb
  proof -
    have "map (\<lambda>s. dot s ''party'') ?new = map (\<lambda>s. dot s ''party'') ?old" by simp
    then have party: "agreement_signed_by_parties env ps ?new = agreement_signed_by_parties env ps ?old" for ps
      unfolding agreement_signed_by_parties_def by (simp only:)
    show ?thesis using that assms(3,4) by (auto simp: hasAgreementCommon_def r own party arr_where_def split: json.splits)
  qed
  show ?thesis
    using assms(1) exact common
    by (auto simp: isAgreementArtifact_def isAgreementDocument_def isPayeeBoundAgreementDocument_def with_signatures_reads [OF assms(2)])
      (auto simp: with_signatures_def d obj_where_def)
qed

lemma placeholder_ok: "isCanonicalBase64Url placeholder" "length (base64url_decode placeholder) = 64"
  by code_simp+

lemma artifact_facts:
  assumes "isAgreementArtifact env (with_signatures draft sigs)" "unsigned_draft draft"
  shows "list_all isAgreementSignature sigs" "agreement_signed_by_parties env (elements (dot draft ''parties'')) sigs"
proof -
  obtain kvs where d: "draft = JObj kvs" using assms(2) by (cases draft) (simp_all add: unsigned_draft_def)
  have r: "member_of (kvs @ [(''signatures'', JArr sigs)]) k = (if k = ''signatures'' then JArr sigs else member_of kvs k)" for k
    using with_signatures_reads [OF assms(2), of sigs k] by (simp add: with_signatures_def d)
  obtain pb where c: "hasAgreementCommon env pb (kvs @ [(''signatures'', JArr sigs)])"
    using assms(1) by (auto simp: isAgreementArtifact_def isAgreementDocument_def isPayeeBoundAgreementDocument_def with_signatures_def d obj_where_def)
  have p: "arr_where (\<lambda>parties. 2 \<le> length parties \<and> list_all isAgreementParty parties \<and>
       arr_where (\<lambda>signatures. length signatures = 2 \<and> list_all isAgreementSignature signatures \<and>
         agreement_signed_by_parties env parties signatures) (JArr sigs)) (dot draft ''parties'')"
    using c by (simp add: hasAgreementCommon_def r d)
  then show "list_all isAgreementSignature sigs" "agreement_signed_by_parties env (elements (dot draft ''parties'')) sigs"
    by (auto simp: arr_where_def split: json.splits)
qed

text \<open>One claim cannot be both parties: each party's claim has exactly one signer.\<close>

lemma signers_distinct:
  assumes "agreement_signed_by_parties env parties [signature_entry p a v, signature_entry q b w]"
    "find (\<lambda>party. dot party ''role'' = JStr ''buyer'') parties = Some x" "dot x ''primaryClaim'' = p"
  shows "p \<noteq> q"
proof
  assume pq: "p = q"
  obtain c c' where c: "party_claims ''buyer'' parties = [c]" "party_claims ''seller'' parties = [c']"
      "signers_match env [c, c'] [p, q]"
    using assms(1) by (auto simp: agreement_signed_by_parties_def split: list.splits)
  have "length (filter (\<lambda>signer. same_identity env signer c) [p, q]) = 1" using c(3) unfolding signers_match_def by simp
  then show False using pq by (simp split: if_splits)
qed

lemma sign_facts:
  assumes "signAgreementArtifact env sha draft b s = Inr agreement" "snapshotCanonicalJson draft = Inr draft"
  obtains h raw raw' where "isNonEmptyString (sg_party b)" "sg_algorithm b \<in> set COMPONENT_SIGNATURE_ALGORITHMS"
    "isNonEmptyString (sg_party s)" "sg_algorithm s \<in> set COMPONENT_SIGNATURE_ALGORITHMS"
    "\<not> has_own (entries draft) ''signatures''" "\<not> has_own (entries draft) ''signature''"
    "first_claim ''buyer'' draft = JStr (sg_party b)" "first_claim ''seller'' draft = JStr (sg_party s)"
    "contentHash sha (entries draft) = Inr h"
    "sg_sign b (signedBytes (separatorFor draft) h) = Inr raw" "isCanonicalBase64Url (signature_text raw)"
    "sg_sign s (signedBytes (separatorFor draft) h) = Inr raw'" "isCanonicalBase64Url (signature_text raw')"
    "agreement = with_signatures draft [signature_entry (JStr (sg_party b)) (sg_algorithm b) (signature_text raw),
       signature_entry (JStr (sg_party s)) (sg_algorithm s) (signature_text raw')]" "isAgreementArtifact env agreement"
proof -
  have enc: "signature_text r = e \<and> isCanonicalBase64Url e" if "encodedSignature r a = Inr e" for r a e
    using that by (auto simp: encodedSignature_def signature_text_def res_simps split: signer_value.splits)
  have cap: "captureAgreementSigner x = Inr y \<longleftrightarrow>
      y = x \<and> isNonEmptyString (sg_party x) \<and> sg_algorithm x \<in> set COMPONENT_SIGNATURE_ALGORITHMS" for x y
    by (auto simp: captureAgreementSigner_def isNonEmptyString_def res_simps)
  show thesis
    using assms
    by (auto simp: signAgreementArtifact_def signAgreementArtifactForPattern_def collectAgreementSignature_def agreement_bytes_def res_simps cap
        dest: enc intro!: that)
qed

lemma sign_signable:
  assumes "unsigned_draft draft" "plain_data draft" "isExactJsonValue 1 draft" "isNonEmptyString b" "isNonEmptyString s"
    "first_claim ''buyer'' draft = JStr b" "first_claim ''seller'' draft = JStr s"
    "isAgreementArtifact env (with_signatures draft [signature_entry (JStr b) a v, signature_entry (JStr s) a' v'])"
  shows "signable env draft b s"
proof -
  note f = artifact_facts [OF assms(8,1)]
  have "JStr b \<noteq> JStr s"
    using assms(6) signers_distinct [OF f(2)] by (auto simp: first_claim_def split: option.splits)
  moreover have "isAgreementSignature (signature_entry (JStr x) ''ed25519'' placeholder)" if "x \<in> {b, s}" for x
  proof -
    have "isClaimRef (JStr x)" using f(1) that by (auto simp: isAgreementSignature_def obj_where_def signature_entry_def)
    then show ?thesis
      using placeholder_ok
      by (simp add: isAgreementSignature_def obj_where_def signature_entry_def hasOnlyKeys_def isOneOf_def str_where_def
          COMPONENT_SIGNATURE_ALGORITHMS_def)
  qed
  ultimately show ?thesis
    using signatures_replaceable [OF assms(8,1), of "''ed25519''" placeholder "''ed25519''" placeholder] assms
    by (simp add: signable_def placeholderAgreement_def)
qed

lemma exchange_completes:
  assumes sign: "signAgreementArtifact env sha draft b s = Inr agreement" and canonical: "snapshotCanonicalJson draft = Inr draft"
    and data: "isObj draft" "plain_data draft" "isExactJsonValue 1 draft" and hash: "\<And>x. is_hash (sha x)"
    and bytes: "agreement_bytes sha draft = Inr bytes"
    and valid: "elements (dot agreement ''signatures'') = [sb, ss]"
      "verify (JStr ''buyer'') (dot sb ''party'') (dot sb ''algorithm'') (dot sb ''value'') bytes = Inr ''valid''"
      "verify (JStr ''seller'') (dot ss ''party'') (dot ss ''algorithm'') (dot ss ''value'') bytes = Inr ''valid''"
  shows "\<exists>plan cb cs. createFixedPriceAgreementSigningPlan env sha draft = Inr plan \<and>
    createFixedPriceAgreementSignatureContribution env sha plan ''buyer'' b = Inr cb \<and>
    createFixedPriceAgreementSignatureContribution env sha plan ''seller'' s = Inr cs \<and>
    finalizeFixedPriceAgreementContributions env sha verify plan (JArr [cb, cs]) = Inr agreement \<and>
    finalizeFixedPriceAgreementContributions env sha verify plan (JArr [cs, cb]) = Inr agreement"
proof (rule sign_facts [OF sign canonical])
  fix h raw raw'
  let ?b = "sg_party b" and ?s = "sg_party s" and ?bs = "signedBytes (separatorFor draft) h"
  let ?sb = "signature_entry (JStr ?b) (sg_algorithm b) (signature_text raw)"
  let ?ss = "signature_entry (JStr ?s) (sg_algorithm s) (signature_text raw')"
  assume f: "isNonEmptyString ?b" "sg_algorithm b \<in> set COMPONENT_SIGNATURE_ALGORITHMS" "isNonEmptyString ?s"
    "sg_algorithm s \<in> set COMPONENT_SIGNATURE_ALGORITHMS" "\<not> has_own (entries draft) ''signatures''" "\<not> has_own (entries draft) ''signature''"
    "first_claim ''buyer'' draft = JStr ?b" "first_claim ''seller'' draft = JStr ?s" "contentHash sha (entries draft) = Inr h"
    "sg_sign b ?bs = Inr raw" "isCanonicalBase64Url (signature_text raw)" "sg_sign s ?bs = Inr raw'" "isCanonicalBase64Url (signature_text raw')"
    "agreement = with_signatures draft [?sb, ?ss]" "isAgreementArtifact env agreement"
  have un: "unsigned_draft draft" using data(1) f(5,6) by (simp add: unsigned_draft_def)
  have able: "signable env draft ?b ?s" using sign_signable [OF un data(2,3) f(1,3,7,8)] f(14,15) by simp
  define plan where "plan = plan_with sha draft h"
  have plan: "capturePlan env sha plan = Inr plan" "createFixedPriceAgreementSigningPlan env sha draft = Inr plan"
    unfolding plan_def using plan_captured [OF able f(9) hash] plan_created [OF able f(9) hash] by simp_all
  have bs: "fixedPriceAgreementSignedBytes env sha plan = Inr ?bs" "bytes = ?bs"
    using plan_signed_bytes [OF plan(1)] f(9) bytes by (simp_all add: plan_def agreement_bytes_def)
  have ph: "isSha256 (dot plan ''planHash'')" by (rule capturePlan_facts [OF plan(1)]) (simp add: plan_shape_def)
  have roles: "signer_of_role plan ''buyer'' = Some (required_signer ''buyer'' (JStr ?b))"
      "signer_of_role plan ''seller'' = Some (required_signer ''seller'' (JStr ?s))"
    by (simp_all add: signer_of_role_def plan_def f(7,8))
  define cb where "cb = contribution_with sha (dot plan ''planHash'') ''buyer'' ?b (sg_algorithm b) (signature_text raw)"
  define cs where "cs = contribution_with sha (dot plan ''planHash'') ''seller'' ?s (sg_algorithm s) (signature_text raw')"
  have made: "createFixedPriceAgreementSignatureContribution env sha plan ''buyer'' b = Inr cb"
      "createFixedPriceAgreementSignatureContribution env sha plan ''seller'' s = Inr cs"
    unfolding cb_def cs_def
    using contribution_created [OF plan(1) bs(1) ph _ roles(1) _ f(1,2,10,11) hash]
      contribution_created [OF plan(1) bs(1) ph _ roles(2) _ f(3,4,12,13) hash] by simp_all
  have cap: "captureContribution sha cb = Inr cb" "captureContribution sha cs = Inr cs"
    unfolding cb_def cs_def using contribution_captured(1) [OF f(1,2,11) _ ph hash] contribution_captured(1) [OF f(3,4,13) _ ph hash] by simp_all
  have sigs: "sb = ?sb" "ss = ?ss" using valid(1) by (simp_all add: f(14) with_signatures_reads [OF un])
  have fin: "finalizeFixedPriceAgreementContributions env sha verify plan (JArr [x, y]) = Inr agreement"
    if xy: "(x = cb \<and> y = cs) \<or> (x = cs \<and> y = cb)" for x y
  proof -
    obtain byRole where r: "by_role [] [x, y] = Inr byRole" "map_of byRole (JStr ''buyer'') = Some cb" "map_of byRole (JStr ''seller'') = Some cs"
      using xy by (auto simp: cb_def cs_def)
    have rs: "role_signature env sha verify plan byRole (required_signer ''buyer'' (JStr ?b)) = Inr ?sb"
        "role_signature env sha verify plan byRole (required_signer ''seller'' (JStr ?s)) = Inr ?ss"
      using r(2,3) valid(2,3) bs by (simp_all add: role_signature_def Let_def cb_def cs_def sigs)
    have "plain_data agreement" using data(1,2) by (cases draft) (auto simp: f(14) with_signatures_def signature_entry_def)
    then show ?thesis
      using xy cap r(1) rs f(7-9,14,15) plan(1)
      by (auto simp: finalizeFixedPriceAgreementContributions_def captureArray_def captureData_def) (simp_all add: plan_def)
  qed
  show ?thesis using plan(2) made fin [of cb cs] fin [of cs cb] by blast
qed

section \<open>The sample trade, signed apart\<close>

definition trade_canonical :: json where
  "trade_canonical = reparsed trade_draft"

definition trade_signer :: "string \<Rightarrow> agreement_signer" where
  "trade_signer party = \<lparr>sg_party = party, sg_algorithm = ''ed25519'', sg_sign = (\<lambda>_. Inr (Signed_Text placeholder))\<rparr>"

definition accept_all :: contribution_verifier where
  "accept_all = (\<lambda>_ _ _ _ _. Inr ''valid'')"

lemma trade_canonical_snapshot: "snapshotCanonicalJson trade_canonical = Inr trade_canonical"
proof -
  have "isDataOnlyJson trade_draft" "isOk (canonicalize trade_draft)" by code_simp+
  then show ?thesis by (simp add: snapshot_defs snapshot_Inr trade_canonical_def isDataOnlyJson_reparsed)
qed

lemma trade_canonical_data: "isObj trade_canonical" "plain_data trade_canonical" "isExactJsonValue 1 trade_canonical" "keyed trade_canonical"
  by code_simp+

lemma trade_canonical_reads:
  "requireCanonicalJobId (text_of (dot trade_canonical ''jobId'')) = Inr (replicate 26 (CHR ''0''))"
  "\<not> has_own (entries trade_canonical) ''signatures''" "\<not> has_own (entries trade_canonical) ''signature''"
  "first_claim ''buyer'' trade_canonical = JStr ''a:b''" "first_claim ''seller'' trade_canonical = JStr ''a:s''"
  by code_simp+

lemma trade_canonical_hash: "contentHash trade_sha (entries trade_canonical) = Inr trade_hash"
  by code_simp

lemma trade_canonical_artifact: "isAgreementArtifact trade_env (with_signatures trade_canonical trade_signatures)"
  by code_simp

lemma trade_signed:
  "signAgreementArtifact trade_env trade_sha trade_canonical (trade_signer ''a:b'') (trade_signer ''a:s'') =
     Inr (with_signatures trade_canonical trade_signatures)"
proof -
  have c: "captureAgreementSigner (trade_signer ''a:b'') = Inr (trade_signer ''a:b'')"
    "captureAgreementSigner (trade_signer ''a:s'') = Inr (trade_signer ''a:s'')"
    by (simp_all add: captureAgreementSigner_def trade_signer_def trim_def trimEnd_def is_space_def COMPONENT_SIGNATURE_ALGORITHMS_def)
  have e: "encodedSignature (Signed_Text placeholder) ''ed25519'' = Inr placeholder"
    using placeholder_ok by (simp add: encodedSignature_def)
  show ?thesis
    using trade_canonical_artifact e
    by (simp add: signAgreementArtifact_def signAgreementArtifactForPattern_def c trade_canonical_snapshot trade_canonical_reads
        agreement_bytes_def trade_canonical_hash collectAgreementSignature_def)
      (simp add: trade_signer_def trade_signatures_def)
qed

lemma trade_signature_list: "elements (dot (with_signatures trade_canonical trade_signatures) ''signatures'') =
    [signature_entry (JStr ''a:b'') ''ed25519'' placeholder, signature_entry (JStr ''a:s'') ''ed25519'' placeholder]"
  using with_signatures_reads [of trade_canonical trade_signatures "''signatures''"] trade_canonical_data(1) trade_canonical_reads(2,3)
  by (simp add: unsigned_draft_def trade_signatures_def)

lemma trade_bytes: "agreement_bytes trade_sha trade_canonical = Inr (signedBytes (separatorFor trade_canonical) trade_hash)"
  by (simp add: agreement_bytes_def trade_canonical_hash)

section \<open>Properties\<close>

text \<open>
  Property C27. Signing apart equals signing together: when one process that holds both signers
  obtains an agreement from a draft, then two parties, each with only its own signer, obtain the very
  same document through the exchange. The plan is made, both contributions are made from the plan, and
  joining them in either order gives that agreement, provided the verifier accepts its two
  signatures. The draft is in canonical member order, its numbers are integers (the exchange refuses
  fractions) and it nests at most 127 levels, one less than the limit, because the plan contains it.
\<close>

theorem exchange_equals_signing:
  assumes sign: "signAgreementArtifact env sha draft b s = Inr agreement" and canonical: "snapshotCanonicalJson draft = Inr draft"
    and data: "isObj draft" "plain_data draft" "isExactJsonValue 1 draft" and hash: "\<And>x. is_hash (sha x)"
    and bytes: "agreement_bytes sha draft = Inr bytes"
    and valid: "elements (dot agreement ''signatures'') = [sb, ss]"
      "verify (JStr ''buyer'') (dot sb ''party'') (dot sb ''algorithm'') (dot sb ''value'') bytes = Inr ''valid''"
      "verify (JStr ''seller'') (dot ss ''party'') (dot ss ''algorithm'') (dot ss ''value'') bytes = Inr ''valid''"
  shows "\<exists>plan cb cs. createFixedPriceAgreementSigningPlan env sha draft = Inr plan \<and>
    createFixedPriceAgreementSignatureContribution env sha plan ''buyer'' b = Inr cb \<and>
    createFixedPriceAgreementSignatureContribution env sha plan ''seller'' s = Inr cs \<and>
    finalizeFixedPriceAgreementContributions env sha verify plan (JArr [cb, cs]) = Inr agreement \<and>
    finalizeFixedPriceAgreementContributions env sha verify plan (JArr [cs, cb]) = Inr agreement"
  using exchange_completes [of env sha draft b s agreement bytes sb ss verify] assms by blast

theorem exchange_equals_signing_witness:
  "\<exists>plan cb cs. createFixedPriceAgreementSigningPlan trade_env trade_sha trade_canonical = Inr plan \<and>
     createFixedPriceAgreementSignatureContribution trade_env trade_sha plan ''buyer'' (trade_signer ''a:b'') = Inr cb \<and>
     createFixedPriceAgreementSignatureContribution trade_env trade_sha plan ''seller'' (trade_signer ''a:s'') = Inr cs \<and>
     finalizeFixedPriceAgreementContributions trade_env trade_sha accept_all plan (JArr [cs, cb]) =
       Inr (with_signatures trade_canonical trade_signatures)"
  using exchange_equals_signing [OF trade_signed trade_canonical_snapshot trade_canonical_data(1-3) trade_hashes trade_bytes
      trade_signature_list, of accept_all]
  by (auto simp: accept_all_def)

text \<open>
  Property C26. A joined agreement carries exactly two verified signatures over its own draft: when
  the contributions are joined, the result is the plan's draft with the buyer's and the seller's
  signature, it passes the agreement gate, and the verifier answered valid for the draft's buyer claim
  and for its seller claim, each with the algorithm and value that stand in the agreement and over the
  domain-separated content hash of that draft. Whatever roster, bytes or hashes the plan document
  carries, no other bytes are ever verified.
\<close>

theorem joined_agreement_is_signed:
  assumes fin: "finalizeFixedPriceAgreementContributions env sha verify plan cs = Inr agreement" and keyed: "keyed plan"
  shows "\<exists>draft h sb ss. agreement = with_signatures draft [sb, ss] \<and> draft = dot plan ''draft'' \<and> isAgreementArtifact env agreement \<and>
    contentHash sha (entries draft) = Inr h \<and>
    dot sb ''party'' = first_claim ''buyer'' draft \<and> dot ss ''party'' = first_claim ''seller'' draft \<and>
    verify (JStr ''buyer'') (first_claim ''buyer'' draft) (dot sb ''algorithm'') (dot sb ''value'')
      (signedBytes (separatorFor draft) h) = Inr ''valid'' \<and>
    verify (JStr ''seller'') (first_claim ''seller'' draft) (dot ss ''algorithm'') (dot ss ''value'')
      (signedBytes (separatorFor draft) h) = Inr ''valid''"
proof -
  obtain p byRole sigs h where f: "capturePlan env sha plan = Inr p"
      "mapR (role_signature env sha verify p byRole) (elements (dot p ''requiredSigners'')) = Inr sigs"
      "agreement = with_signatures (dot p ''draft'') sigs" "isAgreementArtifact env agreement"
      "contentHash sha (entries (dot p ''draft'')) = Inr h"
    using fin by (auto simp: finalizeFixedPriceAgreementContributions_def captureData_def res_simps)
  have p: "p = plan" by (rule capturePlan_facts [OF f(1)])
  note bytes = plan_signed_bytes [OF f(1,5)]
  obtain e1 e2 where e: "elements (dot p ''requiredSigners'') = [e1, e2]"
      "dot e1 ''role'' = JStr ''buyer''" "dot e1 ''party'' = first_claim ''buyer'' (dot p ''draft'')"
      "dot e2 ''role'' = JStr ''seller''" "dot e2 ''party'' = first_claim ''seller'' (dot p ''draft'')"
    using plan_roster [OF f(1)] keyed p by metis
  obtain sb ss where s: "sigs = [sb, ss]" "role_signature env sha verify p byRole e1 = Inr sb" "role_signature env sha verify p byRole e2 = Inr ss"
    using f(2) by (auto simp: e(1) res_simps)
  show ?thesis
    using role_signature_facts [OF s(2) bytes] role_signature_facts [OF s(3) bytes] f(3-5) e s(1) p by (intro exI) auto
qed

lemma trade_plan_keyed: "keyed (plan_with trade_sha trade_canonical trade_hash)"
  using trade_canonical_data(4)
  by (simp add: plan_with_def plan_base_def required_signer_def bytes_json_def int_json_def list_all_iff trade_canonical_reads)

theorem joined_agreement_is_signed_witness:
  "\<exists>h sb ss. with_signatures trade_canonical trade_signatures = with_signatures trade_canonical [sb, ss] \<and>
     contentHash trade_sha (entries trade_canonical) = Inr h \<and>
     dot sb ''party'' = first_claim ''buyer'' trade_canonical \<and> dot ss ''party'' = first_claim ''seller'' trade_canonical \<and>
     accept_all (JStr ''buyer'') (first_claim ''buyer'' trade_canonical) (dot sb ''algorithm'') (dot sb ''value'')
       (signedBytes (separatorFor trade_canonical) h) = Inr ''valid''"
proof -
  obtain plan cb cs where ex: "createFixedPriceAgreementSigningPlan trade_env trade_sha trade_canonical = Inr plan"
      "finalizeFixedPriceAgreementContributions trade_env trade_sha accept_all plan (JArr [cb, cs]) =
        Inr (with_signatures trade_canonical trade_signatures)"
    using exchange_completes [OF trade_signed trade_canonical_snapshot trade_canonical_data(1-3) trade_hashes trade_bytes
        trade_signature_list, of accept_all] by (auto simp: accept_all_def)
  have un: "unsigned_draft trade_canonical" using trade_canonical_data(1) trade_canonical_reads(2,3) by (simp add: unsigned_draft_def)
  have "isNonEmptyString ''a:b''" "isNonEmptyString ''a:s''" by code_simp+
  then have "signable trade_env trade_canonical ''a:b'' ''a:s''"
    using sign_signable [OF un trade_canonical_data(2,3) _ _ trade_canonical_reads(4,5)] trade_canonical_artifact
    unfolding trade_signatures_def by blast
  then have "plan = plan_with trade_sha trade_canonical trade_hash"
    using plan_created [OF _ trade_canonical_hash trade_hashes] ex(1) by fastforce
  then have "keyed plan" "dot plan ''draft'' = trade_canonical" using trade_plan_keyed by simp_all
  then show ?thesis using joined_agreement_is_signed [OF ex(2)] by auto
qed

end
