(* ===== verification/Dacs_Effects.thy ===== *)
theory Dacs_Effects
  imports Dacs_Prelude
begin

text \<open>
  Coordinators that call out of the SDK. An action reads and extends the log of the calls made so far;
  what a callee answers is a function of that log, so a callee may answer the same question differently
  every time it is asked. An action ends with a value or with a fault of the categories of
  \<^verbatim>\<open>src/src/errors.ts\<close>. The order of calls is the order of the log.
\<close>

section \<open>Faults and actions\<close>

datatype fault = Fault fault_category string

type_synonym ('ev, 'a) act = "'ev list \<Rightarrow> (fault + 'a) \<times> 'ev list"

definition retA :: "'a \<Rightarrow> ('ev, 'a) act" where
  "retA x hist = (Inr x, hist)"

definition faultA :: "fault_category \<Rightarrow> string \<Rightarrow> ('ev, 'a) act" where
  "faultA c m hist = (Inl (Fault c m), hist)"

definition bindA :: "('ev, 'a) act \<Rightarrow> ('a \<Rightarrow> ('ev, 'b) act) \<Rightarrow> ('ev, 'b) act" where
  "bindA m f hist = (case m hist of (Inl e, hist') \<Rightarrow> (Inl e, hist') | (Inr x, hist') \<Rightarrow> f x hist')"

definition ensureA :: "bool \<Rightarrow> fault_category \<Rightarrow> string \<Rightarrow> ('ev, 'a) act \<Rightarrow> ('ev, 'a) act" where
  "ensureA c k m a = (if c then a else faultA k m)"

text \<open>
  A computation that makes no call. In \<open>liftA\<close> what it throws passes through: the SDK's own error is
  permanent, anything else keeps its category. In \<open>recastA\<close> a \<^verbatim>\<open>catch\<close> turns everything into one category.
\<close>

definition liftA :: "'a res \<Rightarrow> ('ev, 'a) act" where
  "liftA r = (case r of Inl (DacsError m) \<Rightarrow> faultA Fault_Permanent m | Inl (Thrown c m) \<Rightarrow> faultA c m | Inr x \<Rightarrow> retA x)"

definition recastA :: "fault_category \<Rightarrow> 'a res \<Rightarrow> ('ev, 'a) act" where
  "recastA k r = (case r of Inl e \<Rightarrow> faultA k (error_text e) | Inr x \<Rightarrow> retA x)"

text \<open>One call: the answer is given by the log so far, and the call is logged with its answer.\<close>

definition askA :: "('ev list \<Rightarrow> 'r) \<Rightarrow> ('r \<Rightarrow> 'ev) \<Rightarrow> ('ev, 'r) act" where
  "askA answer event hist = (Inr (answer hist), hist @ [event (answer hist)])"

fun forA :: "('x \<Rightarrow> ('ev, unit) act) \<Rightarrow> 'x list \<Rightarrow> ('ev, unit) act" where
  "forA f [] = retA ()"
| "forA f (x # xs) = bindA (f x) (\<lambda>_. forA f xs)"

named_theorems act_simps \<open>inversion of successful actions\<close>

lemma retA_Inr [act_simps]: "retA x hist = (Inr y, hist') \<longleftrightarrow> y = x \<and> hist' = hist"
  by (auto simp: retA_def)

lemma faultA_Inr [act_simps]: "faultA c m hist = (Inr y, hist') \<longleftrightarrow> False"
  by (simp add: faultA_def)

lemma bindA_Inr [act_simps]:
  "bindA m f hist = (Inr y, hist') \<longleftrightarrow> (\<exists>x mid. m hist = (Inr x, mid) \<and> f x mid = (Inr y, hist'))"
  by (auto simp: bindA_def split: prod.splits sum.splits)

lemma ensureA_Inr [act_simps]: "ensureA c k m a hist = (Inr y, hist') \<longleftrightarrow> c \<and> a hist = (Inr y, hist')"
  by (simp add: ensureA_def act_simps)

lemma liftA_Inr [act_simps]: "liftA r hist = (Inr y, hist') \<longleftrightarrow> r = Inr y \<and> hist' = hist"
  by (cases r) (auto simp: liftA_def act_simps split: error.splits)

lemma recastA_Inr [act_simps]: "recastA k r hist = (Inr y, hist') \<longleftrightarrow> r = Inr y \<and> hist' = hist"
  by (cases r) (auto simp: recastA_def act_simps)

lemma askA_Inr [act_simps]: "askA answer event hist = (Inr y, hist') \<longleftrightarrow> y = answer hist \<and> hist' = hist @ [event y]"
  by (auto simp: askA_def)

lemma bindA_simps [simp]:
  "bindA (retA x) f = f x" "bindA (faultA c m) f = faultA c m" "ensureA True k m a = a" "ensureA False k m a = faultA k m"
  "liftA (Inr x) = retA x" "liftA (throw m) = faultA Fault_Permanent m" "recastA k (Inr x) = retA x" "recastA k (throw m) = faultA k m"
  by (auto simp: fun_eq_iff bindA_def retA_def faultA_def ensureA_def liftA_def recastA_def throw_def)

lemma bindA_run: "m hist = (Inr x, mid) \<Longrightarrow> bindA m f hist = f x mid"
  by (simp add: bindA_def)

lemma bindA_fault: "m hist = (Inl e, mid) \<Longrightarrow> bindA m f hist = (Inl e, mid)"
  by (simp add: bindA_def)

section \<open>Which calls an action makes\<close>

text \<open>The action only appends to the log, and only events of \<open>P\<close>.\<close>

definition emits :: "('ev \<Rightarrow> bool) \<Rightarrow> ('ev, 'a) act \<Rightarrow> bool" where
  "emits P m \<longleftrightarrow> (\<forall>hist. \<exists>evs. snd (m hist) = hist @ evs \<and> list_all P evs)"

named_theorems emits_intros \<open>composition of the calls of actions\<close>

lemma emits_retA [emits_intros]: "emits P (retA x)"
  by (simp add: emits_def retA_def)

lemma emits_faultA [emits_intros]: "emits P (faultA c m)"
  by (simp add: emits_def faultA_def)

lemma emits_askA [emits_intros]: "(\<And>r. P (event r)) \<Longrightarrow> emits P (askA answer event)"
  by (simp add: emits_def askA_def)

lemma emits_ensureA [emits_intros]: "(c \<Longrightarrow> emits P a) \<Longrightarrow> emits P (ensureA c k m a)"
  by (simp add: ensureA_def emits_faultA)

lemma emits_liftA [emits_intros]: "emits P (liftA r)" "emits P (recastA k r)"
  by (auto simp: liftA_def recastA_def emits_retA emits_faultA split: sum.splits error.splits)

lemma emits_bindA [emits_intros]:
  assumes "emits P m" "\<And>x. emits P (f x)"
  shows "emits P (bindA m f)"
  unfolding emits_def
proof
  fix hist
  obtain r evs where m: "m hist = (r, hist @ evs)" "list_all P evs"
    using assms(1) unfolding emits_def by (metis surjective_pairing)
  show "\<exists>evs. snd (bindA m f hist) = hist @ evs \<and> list_all P evs"
  proof (cases r)
    case (Inl e)
    then show ?thesis using m by (auto simp: bindA_fault)
  next
    case (Inr x)
    obtain more_evs where "snd (f x (hist @ evs)) = (hist @ evs) @ more_evs" "list_all P more_evs"
      using assms(2) [of x] unfolding emits_def by blast
    then show ?thesis using m Inr by (intro exI [of _ "evs @ more_evs"]) (simp add: bindA_run)
  qed
qed

lemma emits_forA [emits_intros]: "(\<And>x. emits P (f x)) \<Longrightarrow> emits P (forA f xs)"
  by (induction xs) (auto intro: emits_intros)

lemma emits_If [emits_intros]: "(c \<Longrightarrow> emits P a) \<Longrightarrow> (\<not> c \<Longrightarrow> emits P b) \<Longrightarrow> emits P (if c then a else b)"
  by simp

lemma emits_mono: "emits P m \<Longrightarrow> (\<And>e. P e \<Longrightarrow> Q e) \<Longrightarrow> emits Q m"
  unfolding emits_def by (metis list.pred_mono_strong)

lemma emitted:
  assumes "emits P m" "m hist = (r, hist')"
  obtains evs where "hist' = hist @ evs" "list_all P evs"
  using assms unfolding emits_def by (metis snd_conv)

text \<open>A loop of calls that ended made every one of its calls.\<close>

lemma forA_Inr:
  assumes "forA f xs hist = (Inr u, hist')" "x \<in> set xs" "\<And>y. emits (\<lambda>_. True) (f y)"
  obtains h1 h2 rest where "f x h1 = (Inr (), h2)" "hist' = h2 @ rest" "\<exists>pre. h1 = hist @ pre"
  using assms(1,2)
proof (induction xs arbitrary: hist thesis)
  case Nil
  then show ?case by simp
next
  case (Cons a xs)
  from Cons.prems(2) obtain mid where m: "f a hist = (Inr (), mid)" "forA f xs mid = (Inr u, hist')" by (auto simp: act_simps)
  obtain pre where pre: "mid = hist @ pre" using emitted [OF assms(3) m(1)] by blast
  show ?case
  proof (cases "x = a")
    case True
    obtain rest where "hist' = mid @ rest" using emitted [OF emits_forA [OF assms(3)] m(2)] by blast
    then show ?thesis using Cons.prems(1) m(1) True by force
  next
    case False
    then show ?thesis using Cons.IH [OF _ m(2)] Cons.prems(1,3) pre by (metis append_assoc set_ConsD)
  qed
qed

section \<open>What a fault rests on\<close>

text \<open>A fault of category \<open>c\<close> has the ground \<open>G\<close>, or is raised only after a call of \<open>P\<close>.\<close>

definition blames :: "fault_category \<Rightarrow> bool \<Rightarrow> ('ev \<Rightarrow> bool) \<Rightarrow> ('ev, 'a) act \<Rightarrow> bool" where
  "blames c G P m \<longleftrightarrow>
     (\<forall>hist msg hist'. m hist = (Inl (Fault c msg), hist') \<longrightarrow> G \<or> (\<exists>evs. hist' = hist @ evs \<and> list_ex P evs))"

named_theorems blames_intros \<open>composition of the grounds of faults\<close>

lemma blames_retA [blames_intros]: "blames c G P (retA x)"
  by (simp add: blames_def retA_def)

lemma blames_faultA [blames_intros]: "k \<noteq> c \<Longrightarrow> blames c G P (faultA k m)"
  by (simp add: blames_def faultA_def)

lemma blames_askA [blames_intros]: "blames c G P (askA answer event)"
  by (simp add: blames_def askA_def)

lemma blames_ensureA [blames_intros]: "k \<noteq> c \<Longrightarrow> blames c G P a \<Longrightarrow> blames c G P (ensureA b k m a)"
  by (simp add: ensureA_def blames_faultA)

text \<open>A result throws something foreign of category \<open>c\<close> only on the ground \<open>G\<close>.\<close>

definition throws_on :: "fault_category \<Rightarrow> bool \<Rightarrow> 'a res \<Rightarrow> bool" where
  "throws_on c G r \<longleftrightarrow> (\<forall>m. r = Inl (Thrown c m) \<longrightarrow> G)"

named_theorems throws_intros \<open>composition of the grounds of what is thrown\<close>

lemma throws_own: "own r \<Longrightarrow> throws_on c G r"
  by (auto simp: throws_on_def own_def)

lemma throws_ground: "G \<Longrightarrow> throws_on c G r"
  by (simp add: throws_on_def)

lemma throws_ensure [throws_intros]: "(b \<Longrightarrow> throws_on c G k) \<Longrightarrow> throws_on c G (ensure b m k)"
  by (auto simp: throws_on_def ensure_def throw_def)

lemma throws_bindR [throws_intros]:
  "throws_on c G r \<Longrightarrow> (\<And>x. r = Inr x \<Longrightarrow> throws_on c G (f x)) \<Longrightarrow> throws_on c G (bindR r f)"
  by (cases r) (auto simp: throws_on_def)

lemma throws_If [throws_intros]: "(b \<Longrightarrow> throws_on c G x) \<Longrightarrow> (\<not> b \<Longrightarrow> throws_on c G y) \<Longrightarrow> throws_on c G (if b then x else y)"
  by simp

lemma throws_case_prod [throws_intros]: "(\<And>a b. p = (a, b) \<Longrightarrow> throws_on c G (f a b)) \<Longrightarrow> throws_on c G (case p of (a, b) \<Rightarrow> f a b)"
  by (cases p) simp

lemma throws_type_error [throws_intros]: "(c = Fault_Transient \<Longrightarrow> G) \<Longrightarrow> throws_on c G type_error"
  by (auto simp: throws_on_def type_error_def)

lemma blames_liftA: "Fault_Permanent \<noteq> c \<Longrightarrow> throws_on c G r \<Longrightarrow> blames c G P (liftA r)"
  by (auto simp: throws_on_def liftA_def blames_def retA_def faultA_def split: sum.splits error.splits)

lemma blames_liftA_own [blames_intros]: "Fault_Permanent \<noteq> c \<Longrightarrow> own r \<Longrightarrow> blames c G P (liftA r)"
  by (simp add: blames_liftA throws_own)

lemma blames_recastA [blames_intros]: "k \<noteq> c \<Longrightarrow> blames c G P (recastA k r)"
  by (auto simp: recastA_def blames_retA blames_faultA split: sum.splits)

lemma blames_bindA [blames_intros]:
  assumes "emits Q m" "blames c G P m" "\<And>x h h'. m h = (Inr x, h') \<Longrightarrow> blames c G P (f x)"
  shows "blames c G P (bindA m f)"
  unfolding blames_def
proof (intro allI impI)
  fix hist msg hist'
  assume run: "bindA m f hist = (Inl (Fault c msg), hist')"
  obtain r mid where m: "m hist = (r, mid)" by (meson surj_pair)
  show "G \<or> (\<exists>evs. hist' = hist @ evs \<and> list_ex P evs)"
  proof (cases r)
    case (Inl e)
    then have "m hist = (Inl (Fault c msg), hist')" using run m by (simp add: bindA_def)
    then show ?thesis using assms(2) unfolding blames_def by blast
  next
    case (Inr x)
    then have "f x mid = (Inl (Fault c msg), hist')" using run m by (simp add: bindA_def)
    then have "G \<or> (\<exists>evs. hist' = mid @ evs \<and> list_ex P evs)" using assms(3) m Inr unfolding blames_def by blast
    moreover obtain pre where "mid = hist @ pre" using emitted [OF assms(1) m] by blast
    ultimately show ?thesis by (metis append_assoc list_ex_append)
  qed
qed

lemma blames_forA [blames_intros]:
  assumes "\<And>x. emits Q (f x)" "\<And>x. blames c G P (f x)"
  shows "blames c G P (forA f xs)"
proof (induction xs)
  case (Cons x xs)
  then show ?case by (auto intro!: blames_bindA [OF assms(1,2)])
qed (simp add: blames_retA)

lemma blames_If [blames_intros]: "(b \<Longrightarrow> blames c G P x) \<Longrightarrow> (\<not> b \<Longrightarrow> blames c G P y) \<Longrightarrow> blames c G P (if b then x else y)"
  by simp

end
