(* ===== verification/Dacs_Commitment.thy ===== *)
theory Dacs_Commitment
  imports Dacs_Rfq_Transcript Dacs_Effects
begin

text \<open>
  The commitment gate (\<^verbatim>\<open>src/src/negotiate/commitment.ts\<close>): an agreement that both parties signed is
  bound to its listing and session, looked up under its job's address, and, when no commitment is
  there, recorded in a signed record that is submitted once. The substrate and the signature verifier
  are the callees of the action: each answer may throw, be any text or any JSON value. What the caller's
  signer throws passes through with its own category. The authority of alternative payments
  (\<^verbatim>\<open>rails/payAlternative.ts\<close>) is the parameter \<open>apr\<close>.
\<close>

section \<open>Data\<close>

definition FINALITY_COMMITMENT_SEPARATOR :: string where
  "FINALITY_COMMITMENT_SEPARATOR = ''dacs-finality-commitment:v1:''"

definition LEGACY_COMMITMENT_SEPARATOR :: string where
  "LEGACY_COMMITMENT_SEPARATOR = ''dacs-commitment:v1:''"

record signature_request =
  sq_purpose :: string
  sq_signedBytes :: string
  sq_algorithm :: string
  sq_signer :: string
  sq_value :: string

datatype commit_event =
    Signature_Checked signature_request "string res"
  | Commitment_Resolved string "json res"
  | Commitment_Submitted string json "json res"
  | Receipt_Checked json "string res"

record commit_deps =
  cd_verifySignature :: "commit_event list \<Rightarrow> signature_request \<Rightarrow> string res"
  cd_resolve :: "commit_event list \<Rightarrow> string \<Rightarrow> json res"
  cd_submit :: "commit_event list \<Rightarrow> string \<Rightarrow> json \<Rightarrow> json res"
  cd_verifyAnchorReceipt :: "commit_event list \<Rightarrow> json \<Rightarrow> string res"

type_synonym 'a commit_act = "(commit_event, 'a) act"

type_synonym apr_authority = "json \<Rightarrow> json \<Rightarrow> json \<Rightarrow> unit res"

text \<open>The input of a commitment; an absent authority is \<open>JUndefined\<close>.\<close>

record commitment_input =
  ci_agreement :: json
  ci_verifiedListing :: json
  ci_session :: json
  ci_createdAt :: json
  ci_commitmentSigner :: signer_options
  ci_alternativePayment :: json
  ci_rfqSession :: "rfq_state option"

text \<open>The captured artifacts: agreement, verified listing and session.\<close>

record captured_binding =
  cb_agreement :: json
  cb_verifiedListing :: json
  cb_session :: json

record agreement_binding =
  ab_agreementHash :: string
  ab_pin :: json
  ab_parties :: "json list"
  ab_deadlineSeconds :: int

section \<open>Capturing the input\<close>

definition hasExactKeys :: "json \<Rightarrow> string list \<Rightarrow> bool" where
  "hasExactKeys v expected = obj_where (\<lambda>kvs. length kvs = length expected \<and> list_all (\<lambda>kv. fst kv \<in> set expected) kvs) v"

definition listingPinEquals :: "json \<Rightarrow> json \<Rightarrow> bool" where
  "listingPinEquals a b \<longleftrightarrow>
     dot a ''listingId'' = dot b ''listingId'' \<and> dot a ''version'' = dot b ''version'' \<and> dot a ''contentHash'' = dot b ''contentHash''"

definition capturedSignerOptions :: "signer_options \<Rightarrow> signer_options res" where
  "capturedSignerOptions opts =
     ensure (so_algorithm opts \<in> set COMPONENT_SIGNATURE_ALGORITHMS) ''commitment signer uses an unsupported algorithm''
     (ensure (so_signer opts \<noteq> [] \<and> trim (so_signer opts) = so_signer opts) ''commitment signer claim must be a non-empty string''
     (Inr opts))"

definition isSessionPartyBinding :: "json \<Rightarrow> bool" where
  "isSessionPartyBinding v \<longleftrightarrow>
     hasExactKeys v [''primaryClaim'', ''bundleHash'', ''vetRecordRef''] \<and> isClaimRef (dot v ''primaryClaim'') \<and>
     isIdentityBundleHash (dot v ''bundleHash'') \<and> isAttestationRef (dot v ''vetRecordRef'')"

definition assertSessionBinding :: "json \<Rightarrow> unit res" where
  "assertSessionBinding v =
     ensure (hasExactKeys v [''jobId'', ''listingRef'', ''phaseKind'', ''orchestrator'', ''buyer'', ''seller''] \<and>
             isNonEmptyStr (dot v ''jobId'') \<and> hasExactKeys (dot v ''listingRef'') [''listingId'', ''version'', ''contentHash''] \<and>
             isNonEmptyStr (dot (dot v ''listingRef'') ''listingId'') \<and> isPositiveSafeInt (dot (dot v ''listingRef'') ''version'') \<and>
             isSha256 (dot (dot v ''listingRef'') ''contentHash'') \<and>
             isOneOf [''commit-agreement'', ''commit-payee-bound-agreement''] (dot v ''phaseKind'') \<and> isClaimRef (dot v ''orchestrator''))
       ''authenticated commitment session binding is not exact''
     (ensure (isSessionPartyBinding (dot v ''buyer'')) ''authenticated buyer session binding is not exact and normative''
     (ensure (isSessionPartyBinding (dot v ''seller'')) ''authenticated seller session binding is not exact and normative''
     (Inr ())))"

definition captureCommitmentBindingInput :: "commitment_input \<Rightarrow> captured_binding res" where
  "captureCommitmentBindingInput inp =
     bindR (snapshotCanonicalJsonRead (JObj [(''agreement'', ci_agreement inp), (''verifiedListing'', ci_verifiedListing inp),
              (''session'', ci_session inp)])) (\<lambda>captured.
     bindR (assertSessionBinding (dot captured ''session'')) (\<lambda>_.
     Inr \<lparr>cb_agreement = dot captured ''agreement'', cb_verifiedListing = dot captured ''verifiedListing'',
          cb_session = dot captured ''session''\<rparr>))"

definition captureCommitmentInput :: "commitment_input \<Rightarrow> (captured_binding \<times> int \<times> signer_options) res" where
  "captureCommitmentInput inp =
     bindR (capturedSignerOptions (ci_commitmentSigner inp)) (\<lambda>opts.
     ensure (isNonNegativeSafeInt (ci_createdAt inp)) ''commitment createdAt must be non-negative unix ms''
     (bindR (captureCommitmentBindingInput inp) (\<lambda>captured. Inr (captured, uint_of (ci_createdAt inp), opts))))"

definition captureRfqSession :: "artifact_env \<Rightarrow> (string \<Rightarrow> string) \<Rightarrow> commitment_input \<Rightarrow> rfq_state res" where
  "captureRfqSession env sha256Hex inp =
     (case ci_rfqSession inp of
        None \<Rightarrow> throw ''RFQ commitment input.rfqSession must be an enumerable data property''
      | Some s \<Rightarrow> ensure (validateStoredState (rfqEnv env sha256Hex) s) ''RFQ session checkpoint is malformed'' (Inr s))"

definition finalityCommitmentAddress :: "string \<Rightarrow> string res" where
  "finalityCommitmentAddress jobId = bindR (requireCanonicalJobId jobId) (\<lambda>j. Inr (''dacs3:commit:'' @ j))"

definition legacyCommitmentAddress :: "string \<Rightarrow> string res" where
  "legacyCommitmentAddress jobId =
     ensure (jobId \<noteq> [] \<and> CHR '':'' \<notin> set jobId) ''legacy commitment jobId must be a non-empty delimiter-free value''
     (Inr (''dacs3:commit:'' @ jobId))"

section \<open>Rails and payouts\<close>

definition expectedDeliverable :: "(string \<Rightarrow> string) \<Rightarrow> json \<Rightarrow> json res" where
  "expectedDeliverable sha256Hex listing = deliverable_ref sha256Hex (dot (dot listing ''offering'') ''deliverable'')"

definition payIndexes :: "json \<Rightarrow> nat list" where
  "payIndexes listing = payment_indexes (elements (dot listing ''pipeline''))"

definition alternative_indexes :: "json \<Rightarrow> nat list" where
  "alternative_indexes listing =
     filter (\<lambda>i. phase_kind (elements (dot listing ''pipeline'') ! i) = ''pay-alternative'') (payIndexes listing)"

text \<open>The first part: the agreed rail is the rail of every payment phase.\<close>

definition rail_agrees :: "json \<Rightarrow> json \<Rightarrow> unit res" where
  "rail_agrees listing rail =
     (let pipeline = elements (dot listing ''pipeline''); indexes = payIndexes listing; alternatives = alternative_indexes listing in
      if indexes = []
      then ensure (rail = JUndefined) ''zero-pay commitment requires agreement terms.rail to be absent'' (Inr ())
      else
        ensure (rail \<noteq> JUndefined \<and> list_ex (\<lambda>c. exact c rail) (elements (dot listing ''acceptedRails'')))
          ''agreement rail is not an exact acceptedRails member''
        (if alternatives \<noteq> []
         then ensure (length alternatives = 1 \<and>
                      arr_where (\<lambda>cs. length (filter (\<lambda>c. exact c rail) cs) = 1)
                        (dot (dot (pipeline ! hd alternatives) ''parameters'') ''alternatives''))
                ''agreement rail is not one exact signed pay-alternative member'' (Inr ())
         else ensure (list_all (\<lambda>i. phase_rail (pipeline ! i) = dot rail ''railId'') indexes)
                ''pay phase does not bind the agreement rail'' (Inr ())))"

definition effective_rail :: "json \<Rightarrow> json \<Rightarrow> nat \<Rightarrow> json" where
  "effective_rail listing rail i =
     (let phase = elements (dot listing ''pipeline'') ! i in
      if phase_kind phase = ''pay-alternative'' then dot rail ''railId'' else phase_rail phase)"

definition expected_payouts :: "json \<Rightarrow> json \<Rightarrow> string list res" where
  "expected_payouts listing rail =
     mapR (\<lambda>i. ensure (isNonEmptyStr (effective_rail listing rail i)) ''pay phase has no authenticated effective rail binding''
                 (Inr (text_of (effective_rail listing rail i) @ CHR 0x00 # int_text (int i)))) (payIndexes listing)"

definition validateRailAndPayoutCoverage :: "json \<Rightarrow> json \<Rightarrow> unit res" where
  "validateRailAndPayoutCoverage listing agreement =
     (let rail = dot (dot agreement ''terms'') ''rail''; bindings = elements (dot (dot agreement ''terms'') ''payoutBindings'') in
      bindR (rail_agrees listing rail) (\<lambda>_.
      bindR (expected_payouts listing rail) (\<lambda>expected.
      if \<not> has_own (entries agreement) ''payeeBoundAgreementVersion'' then Inr ()
      else ensure (card (set expected) = length bindings \<and> card (set expected) = card (set (map payout_key bindings)) \<and>
                   list_all (\<lambda>k. k \<in> set (map payout_key bindings)) expected)
             ''payee-bound agreement does not exactly cover the Listing pay phases'' (Inr ()))))"

definition usesAlternativePayment :: "json \<Rightarrow> bool" where
  "usesAlternativePayment listing = list_ex (\<lambda>phase. phase_kind phase = ''pay-alternative'') (elements (dot listing ''pipeline''))"

definition establishAlternativePaymentAuthority :: "apr_authority \<Rightarrow> json \<Rightarrow> json \<Rightarrow> json \<Rightarrow> bool res" where
  "establishAlternativePaymentAuthority apr agreement listing authority =
     (if \<not> usesAlternativePayment listing
      then ensure (authority = JUndefined) ''ordinary commitment must not carry alternative-payment authority'' (Inr False)
      else ensure (authority \<noteq> JUndefined) ''pay-alternative commitment requires authenticated APR projection and replacement gates''
             (bindR (apr authority agreement listing) (\<lambda>_. Inr True)))"

section \<open>Selecting agreement and listing\<close>

definition isLegacyReadableAgreementArtifact :: "artifact_env \<Rightarrow> json \<Rightarrow> bool" where
  "isLegacyReadableAgreementArtifact env v \<longleftrightarrow>
     isObj v \<and> str_where (\<lambda>j. j \<noteq> [] \<and> CHR '':'' \<notin> set j) (dot v ''jobId'') \<and>
     isAgreementArtifact env (JObj (AList.update ''jobId'' (JStr ''00000000000000000000000000'') (entries v)))"

definition expected_commit :: "json \<Rightarrow> string" where
  "expected_commit agreement =
     (if has_own (entries agreement) ''agreementVersion'' then ''commit-agreement'' else ''commit-payee-bound-agreement'')"

definition known_pricing_kind :: "json \<Rightarrow> bool" where
  "known_pricing_kind listing \<longleftrightarrow>
     (case dot (dot listing ''pricing'') ''kind'' of
        JStr kind \<Rightarrow> kind \<in> {''fixed'', ''negotiable'', ''auction'', ''metered''}
      | _ \<Rightarrow> True)"

definition selects_pipeline :: "string \<Rightarrow> json \<Rightarrow> json \<Rightarrow> string res" where
  "selects_pipeline pattern agreement listing =
     (case (phases_with ''negotiate-'' (elements (dot listing ''pipeline'')), phases_with ''commit-'' (elements (dot listing ''pipeline''))) of
        ([(i, negotiate)], [(j, commit)]) \<Rightarrow>
          ensure (phase_kind negotiate = (if pattern = ''fixed-price'' then ''negotiate-fixed-price'' else ''negotiate-rfq'') \<and>
                  j = i + 1 \<and> dot agreement ''derivedFromPattern'' = JStr pattern)
            ''Listing/agreement does not select one commitment pipeline'' (Inr (phase_kind commit))
      | _ \<Rightarrow> throw ''Listing/agreement does not select one commitment pipeline'')"

text \<open>Reading a member of \<^verbatim>\<open>null\<close> or \<^verbatim>\<open>undefined\<close> is a \<^verbatim>\<open>TypeError\<close>; of any other value that is no object, it is absent.\<close>

definition nullish :: "json \<Rightarrow> bool" where
  "nullish v \<longleftrightarrow> v = JNull \<or> v = JUndefined"

definition selectAgreementArtifact ::
  "artifact_env \<Rightarrow> json \<Rightarrow> json \<Rightarrow> string \<Rightarrow> bool \<Rightarrow> (json \<times> json) res" where
  "selectAgreementArtifact env agreement verified pattern allowLegacyJobId =
     (let listing = dot verified ''listing'' in
      if nullish verified then type_error
      else
      ensure (dot verified ''disposition'' = JStr ''verified'') ''commitment requires an explicitly verified Listing disposition''
      (ensure (known_pricing_kind listing) ''unrecognized-pricing-kind''
      (bindR (if allowLegacyJobId then Inr [] else if nullish agreement then type_error
              else requireCanonicalJobId (text_of (dot agreement ''jobId''))) (\<lambda>_.
       ensure (isListing env listing \<and>
               (if allowLegacyJobId then isLegacyReadableAgreementArtifact env agreement else isAgreementArtifact env agreement))
         ''commitment input has a non-normative Listing or agreement shape''
       (ensure (dot (dot listing ''terms'') ''acceptanceModel'' \<noteq> JStr ''auto-accept'')
         ''auto-accept requires a verified commitment and live instance-signature path''
       (bindR (selects_pipeline pattern agreement listing) (\<lambda>commit.
        ensure (commit = expected_commit agreement) ''agreement artifact discriminator does not match the commit phase (CA-5)''
        (Inr (agreement, listing)))))))))"

definition selectFixedPriceArtifact :: "artifact_env \<Rightarrow> json \<Rightarrow> json \<Rightarrow> bool \<Rightarrow> (json \<times> json) res" where
  "selectFixedPriceArtifact env agreement verified allowLegacyJobId =
     selectAgreementArtifact env agreement verified ''fixed-price'' allowLegacyJobId"

definition selectRfqArtifact :: "artifact_env \<Rightarrow> json \<Rightarrow> json \<Rightarrow> (json \<times> json) res" where
  "selectRfqArtifact env agreement verified = selectAgreementArtifact env agreement verified ''rfq'' False"

definition select_for :: "artifact_env \<Rightarrow> string \<Rightarrow> json \<Rightarrow> json \<Rightarrow> (json \<times> json) res" where
  "select_for env pattern agreement verified =
     (if pattern = ''fixed-price'' then selectFixedPriceArtifact env agreement verified False else selectRfqArtifact env agreement verified)"

section \<open>Binding the agreement\<close>

definition agreement_proposal :: "json \<Rightarrow> json" where
  "agreement_proposal agreement =
     JObj ([(''rfqProposalVersion'', JStr ''1''), (''price'', dot (dot agreement ''terms'') ''price'')] @
           optional_member ''meteredQuantity'' (dot (dot agreement ''terms'') ''meteredQuantity''))"

definition rfq_price_binding :: "json \<Rightarrow> json \<Rightarrow> unit res" where
  "rfq_price_binding pricing agreement =
     ensure (dot pricing ''kind'' = JStr ''negotiable'' \<or> dot pricing ''kind'' = JStr ''metered'')
       ''RFQ commitment requires negotiable or metered Listing pricing''
     (case proposal_of_json (agreement_proposal agreement) of
        None \<Rightarrow> throw ''RFQ proposal is malformed''
      | Some p \<Rightarrow> bindR (validateRfqProposal p (pricing_of_json pricing)) (\<lambda>_. Inr ()))"

definition metered_price_binding :: "json \<Rightarrow> json \<Rightarrow> json \<Rightarrow> unit res" where
  "metered_price_binding pricing price quantity =
     ensure (dot price ''currency'' = dot (dot pricing ''unitPrice'') ''currency'') ''price-currency-mismatch''
     (ensure (dot pricing ''minTotal'' = JUndefined \<or>
              dot (dot pricing ''minTotal'') ''currency'' = dot (dot pricing ''unitPrice'') ''currency'') ''min-total-currency-mismatch''
     (case (dot quantity ''quantity'', dot quantity ''unit'') of
        (JStr q, JStr u) \<Rightarrow>
          bindR (deriveMeteredPriceTerm (pricing_of_json pricing) \<lparr>mq_quantity = q, mq_unit = u\<rparr>) (\<lambda>expected.
          ensure (exact price (price_json expected)) ''metered-total-mismatch'' (Inr ()))
      | _ \<Rightarrow> throw ''missing-metered-quantity''))"

definition validatePricingBinding :: "json \<Rightarrow> json \<Rightarrow> string \<Rightarrow> unit res" where
  "validatePricingBinding listing agreement pattern =
     (let pricing = dot listing ''pricing''; price = dot (dot agreement ''terms'') ''price'';
          quantity = dot (dot agreement ''terms'') ''meteredQuantity'' in
      if pattern = ''rfq'' then rfq_price_binding pricing agreement
      else if dot pricing ''kind'' = JStr ''fixed'' \<or> dot pricing ''kind'' = JStr ''negotiable''
      then (let expected = (if dot pricing ''kind'' = JStr ''fixed'' then dot pricing ''price'' else dot pricing ''bandCenter'') in
            ensure (quantity = JUndefined) ''unexpected-metered-quantity''
            (ensure (dot price ''currency'' = dot expected ''currency'') ''agreement price currency does not match the Listing''
            (ensure (exact price expected) ''agreement price is not the exact fixed-price Listing term'' (Inr ()))))
      else ensure (dot pricing ''kind'' = JStr ''metered'') ''pricing is unsupported by fixed-price commitment''
             (metered_price_binding pricing price quantity))"

definition listing_pin_of :: "(string \<Rightarrow> string) \<Rightarrow> json \<Rightarrow> json res" where
  "listing_pin_of sha256Hex listing =
     bindR (contentHash sha256Hex (entries listing)) (\<lambda>h.
     Inr (JObj [(''listingId'', dot listing ''listingId''), (''version'', dot listing ''listingVersion''), (''contentHash'', JStr h)]))"

definition party_of :: "string \<Rightarrow> json \<Rightarrow> json option" where
  "party_of role agreement = find (\<lambda>p. dot p ''role'' = JStr role) (elements (dot agreement ''parties''))"

definition partyMatches :: "json \<Rightarrow> json \<Rightarrow> bool" where
  "partyMatches party sessionParty \<longleftrightarrow>
     dot party ''primaryClaim'' = dot sessionParty ''primaryClaim'' \<and> dot party ''bundleHash'' = dot sessionParty ''bundleHash'' \<and>
     exact (dot party ''vetRecordRef'') (dot sessionParty ''vetRecordRef'')"

text \<open>Buyer and seller are two identities, and the seller is the listing's.\<close>

definition roles_fit :: "artifact_env \<Rightarrow> json \<Rightarrow> json \<Rightarrow> json \<Rightarrow> bool" where
  "roles_fit env listing buyer seller \<longleftrightarrow>
     \<not> same_identity env (dot buyer ''primaryClaim'') (dot seller ''primaryClaim'') \<and>
     same_identity env (dot seller ''primaryClaim'') (dot (dot (dot listing ''seller'') ''identity'') ''presentedBy'')"

definition validateAuthenticatedSessionBinding ::
  "artifact_env \<Rightarrow> (string \<Rightarrow> string) \<Rightarrow> captured_binding \<Rightarrow> json \<Rightarrow> json \<Rightarrow> (json \<times> json \<times> json) res" where
  "validateAuthenticatedSessionBinding env sha256Hex inp agreement listing =
     (let session = cb_session inp in
      bindR (listing_pin_of sha256Hex listing) (\<lambda>pin.
      ensure (dot session ''jobId'' = dot agreement ''jobId'' \<and> dot session ''phaseKind'' = JStr (expected_commit agreement) \<and>
              listingPinEquals (dot session ''listingRef'') pin)
        ''authenticated commitment session does not bind the exact job, phase, and Listing pin''
      (if nullish (dot (cb_verifiedListing inp) ''pin'') then type_error
       else ensure (listingPinEquals (dot (cb_verifiedListing inp) ''pin'') pin \<and> listingPinEquals (dot agreement ''listingRef'') pin)
        ''authenticated commitment session does not bind the exact job, phase, and Listing pin''
      (case (party_of ''buyer'' agreement, party_of ''seller'' agreement) of
         (Some buyer, Some seller) \<Rightarrow>
           ensure (partyMatches buyer (dot session ''buyer'') \<and> partyMatches seller (dot session ''seller'') \<and>
                   roles_fit env listing buyer seller)
             ''authenticated commitment session parties do not match the signed agreement and Listing''
           (Inr (pin, buyer, seller))
       | _ \<Rightarrow> throw ''authenticated commitment session parties do not match the signed agreement and Listing''))))"

definition rfq_party_matches :: "party_binding \<Rightarrow> json \<Rightarrow> bool" where
  "rfq_party_matches b party \<longleftrightarrow>
     JStr (pb_primaryClaim b) = dot party ''primaryClaim'' \<and> JStr (pb_bundleHash b) = dot party ''bundleHash'' \<and>
     exact (pb_vetRecordRef b) (dot party ''vetRecordRef'')"

definition validateRfqSessionBinding :: "rfq_state \<Rightarrow> captured_binding \<Rightarrow> json \<Rightarrow> json \<Rightarrow> unit res" where
  "validateRfqSessionBinding s inp agreement listing =
     (let channel = dot agreement ''derivedFromChannel''; terms = dot agreement ''terms''; session = cb_session inp in
      ensure (rs_status s = Accepted \<and> rs_standingProposal s \<noteq> None \<and> rs_lastMessageHash s \<noteq> None \<and> channel \<noteq> JUndefined)
        ''RFQ commitment requires an accepted transcript-bound session''
      (ensure (JStr (rs_jobId s) = dot agreement ''jobId'' \<and> listingPinEquals (pin_json (rs_listingPin s)) (dot agreement ''listingRef'') \<and>
               rs_pricing s = pricing_of_json (dot listing ''pricing'') \<and> dot channel ''subnet'' = JStr (rs_channelId s) \<and>
               dot channel ''lastMessageHash'' = JStr (the (rs_lastMessageHash s)))
        ''RFQ agreement does not bind the exact accepted channel checkpoint''
      (case (party_of ''buyer'' agreement, party_of ''seller'' agreement) of
         (Some buyer, Some seller) \<Rightarrow>
           ensure (rfq_party_matches (rs_buyer s) buyer \<and> rfq_party_matches (rs_seller s) seller \<and>
                   dot (dot session ''buyer'') ''primaryClaim'' = JStr (pb_primaryClaim (rs_buyer s)) \<and>
                   dot (dot session ''seller'') ''primaryClaim'' = JStr (pb_primaryClaim (rs_seller s)))
             ''RFQ channel parties do not match the authenticated commitment session''
           (bindR (validateRfqProposal (sp_proposal (the (rs_standingProposal s))) (rs_pricing s)) (\<lambda>accepted_proposal.
            ensure (exact (dot terms ''price'') (price_json (pr_price accepted_proposal)) \<and>
                    sameOptional (dot terms ''meteredQuantity'') (proposal_quantity accepted_proposal))
              ''RFQ agreement terms differ from the authenticated accepted proposal''
            (Inr ())))
       | _ \<Rightarrow> throw ''RFQ channel parties do not match the authenticated commitment session'')))"

text \<open>The commerce terms both verifiers check: price, deliverable, rail and payouts.\<close>

definition terms_bound :: "(string \<Rightarrow> string) \<Rightarrow> json \<Rightarrow> json \<Rightarrow> string \<Rightarrow> unit res" where
  "terms_bound sha256Hex listing agreement pattern =
     bindR (validatePricingBinding listing agreement pattern) (\<lambda>_.
     bindR (expectedDeliverable sha256Hex listing) (\<lambda>deliverable.
     ensure (exact (dot (dot agreement ''terms'') ''deliverable'') deliverable) ''agreement deliverable does not match the pinned Listing''
     (validateRailAndPayoutCoverage listing agreement)))"

definition agreementBinding ::
  "(string \<Rightarrow> string) \<Rightarrow> json \<Rightarrow> json \<Rightarrow> json \<times> json \<times> json \<Rightarrow> string \<Rightarrow> bool \<Rightarrow> agreement_binding res" where
  "agreementBinding sha256Hex agreement listing authenticated pattern alternativeAuthorityEstablished =
     (case authenticated of (pin, buyer, seller) \<Rightarrow>
        let deadlineSeconds = dot (dot listing ''terms'') ''deadlineSecAfterCommit'' in
        ensure (usesAlternativePayment listing \<longrightarrow> alternativeAuthorityEstablished)
          ''pay-alternative commitment requires authenticated APR projection and replacement gates''
        (ensure (dot agreement ''derivedFromPattern'' = JStr pattern) ''this commitment path requires an agreement of the pattern''
        (bindR (terms_bound sha256Hex listing agreement pattern) (\<lambda>_.
         ensure (isPositiveSafeInt deadlineSeconds) ''Listing commitment requires a positive deadlineSecAfterCommit''
         (bindR (contentHash sha256Hex (entries agreement)) (\<lambda>h.
          Inr \<lparr>ab_agreementHash = h, ab_pin = pin, ab_parties = [dot buyer ''primaryClaim'', dot seller ''primaryClaim''],
               ab_deadlineSeconds = uint_of deadlineSeconds\<rparr>))))))"

definition deadline_limit_ok :: "int \<Rightarrow> json \<Rightarrow> int \<Rightarrow> bool" where
  "deadline_limit_ok t agreement deadlineSeconds \<longleftrightarrow>
     isSafeInteger (t + deadlineSeconds * 1000) \<and> uint_of (dot (dot agreement ''terms'') ''deadline'') \<le> t + deadlineSeconds * 1000"

definition validateProvisionalTime :: "int \<Rightarrow> json \<Rightarrow> json \<Rightarrow> agreement_binding \<Rightarrow> unit res" where
  "validateProvisionalTime createdAt agreement listing binding =
     ensure (uint_of (dot agreement ''generatedAt'') \<le> createdAt \<and> within_validity listing createdAt)
       ''agreement commitment fails its provisional time checks''
     (ensure (deadline_limit_ok createdAt agreement (ab_deadlineSeconds binding)) ''agreement deadline exceeds the provisional Listing limit''
     (Inr ()))"

definition validateAgreementBindingForPattern ::
  "artifact_env \<Rightarrow> (string \<Rightarrow> string) \<Rightarrow> apr_authority \<Rightarrow> json \<Rightarrow> string \<Rightarrow> agreement_binding res" where
  "validateAgreementBindingForPattern env sha256Hex apr callerInput pattern =
     bindR (snapshotCanonicalJson (JObj [(''agreement'', dot callerInput ''agreement''),
              (''verifiedListing'', dot callerInput ''verifiedListing''), (''committedAt'', dot callerInput ''committedAt'')])) (\<lambda>inp.
     bindR (select_for env pattern (dot inp ''agreement'') (dot inp ''verifiedListing'')) (\<lambda>(agreement, listing).
     let committedAt = dot inp ''committedAt''; deadlineSeconds = dot (dot listing ''terms'') ''deadlineSecAfterCommit'' in
     bindR (establishAlternativePaymentAuthority apr agreement listing (dot callerInput ''alternativePayment'')) (\<lambda>_.
     bindR (listing_pin_of sha256Hex listing) (\<lambda>pin.
     if nullish (dot (dot inp ''verifiedListing'') ''pin'') then type_error
     else ensure (listingPinEquals (dot (dot inp ''verifiedListing'') ''pin'') pin \<and> listingPinEquals (dot agreement ''listingRef'') pin)
       ''agreement commitment does not bind the exact verified Listing pin''
     (bindR (terms_bound sha256Hex listing agreement pattern) (\<lambda>_.
      case (party_of ''buyer'' agreement, party_of ''seller'' agreement) of
        (Some buyer, Some seller) \<Rightarrow>
          ensure (roles_fit env listing buyer seller) ''agreement parties do not match the pinned Listing seller''
          (ensure (isPositiveSafeInt deadlineSeconds \<and> isNonNegativeSafeInt committedAt \<and>
                   uint_of (dot agreement ''generatedAt'') \<le> uint_of committedAt \<and> within_validity listing (uint_of committedAt))
            ''agreement commitment fails its authenticated finality time checks''
          (ensure (deadline_limit_ok (uint_of committedAt) agreement (uint_of deadlineSeconds))
            ''agreement deadline exceeds the authenticated finality Listing limit''
          (bindR (contentHash sha256Hex (entries agreement)) (\<lambda>h.
           Inr \<lparr>ab_agreementHash = h, ab_pin = pin, ab_parties = [dot buyer ''primaryClaim'', dot seller ''primaryClaim''],
                ab_deadlineSeconds = uint_of deadlineSeconds\<rparr>))))
      | _ \<Rightarrow> throw ''agreement parties do not match the pinned Listing seller''))))))"

definition validateFixedPriceAgreementBinding ::
  "artifact_env \<Rightarrow> (string \<Rightarrow> string) \<Rightarrow> apr_authority \<Rightarrow> json \<Rightarrow> agreement_binding res" where
  "validateFixedPriceAgreementBinding env sha256Hex apr callerInput =
     validateAgreementBindingForPattern env sha256Hex apr callerInput ''fixed-price''"

definition validateRfqAgreementBinding ::
  "artifact_env \<Rightarrow> (string \<Rightarrow> string) \<Rightarrow> apr_authority \<Rightarrow> json \<Rightarrow> agreement_binding res" where
  "validateRfqAgreementBinding env sha256Hex apr callerInput =
     validateAgreementBindingForPattern env sha256Hex apr callerInput ''rfq''"

section \<open>Signatures\<close>

definition requireSignature :: "commit_deps \<Rightarrow> signature_request \<Rightarrow> unit commit_act" where
  "requireSignature deps request =
     bindA (askA (\<lambda>hist. cd_verifySignature deps hist request) (Signature_Checked request)) (\<lambda>answer.
     case answer of
       Inl _ \<Rightarrow> faultA Fault_Transient ''signature verification is uncertain because the verifier threw''
     | Inr disposition \<Rightarrow>
         if disposition = ''valid'' then retA ()
         else if disposition = ''invalid'' then faultA Fault_Counterparty ''signature is not verified (invalid)''
         else if disposition = ''indeterminate'' \<or> disposition = ''error''
         then faultA Fault_Transient ''signature verification is uncertain''
         else faultA Fault_Permanent ''signature verifier returned an invalid disposition'')"

definition signature_request_for :: "string \<Rightarrow> string \<Rightarrow> json \<Rightarrow> json \<Rightarrow> signature_request" where
  "signature_request_for purpose bytes signer sig =
     \<lparr>sq_purpose = purpose, sq_signedBytes = bytes, sq_algorithm = text_of (dot sig ''algorithm''),
      sq_signer = text_of signer, sq_value = text_of (dot sig ''value'')\<rparr>"

definition agreement_request :: "string \<Rightarrow> json \<Rightarrow> signature_request" where
  "agreement_request bytes sig = signature_request_for ''agreement'' bytes (dot sig ''party'') sig"

definition verifyAgreementSignatures :: "(string \<Rightarrow> string) \<Rightarrow> commit_deps \<Rightarrow> json \<Rightarrow> unit commit_act" where
  "verifyAgreementSignatures sha256Hex deps agreement =
     bindA (liftA (agreement_bytes sha256Hex agreement)) (\<lambda>bytes.
     forA (\<lambda>sig. requireSignature deps (agreement_request bytes sig)) (elements (dot agreement ''signatures'')))"

definition record_request :: "string \<Rightarrow> string \<Rightarrow> string \<Rightarrow> json \<Rightarrow> signature_request" where
  "record_request purpose separator h sig = signature_request_for purpose (signedBytes separator h) (dot sig ''signer'') sig"

definition verifyCommitmentSignature :: "(string \<Rightarrow> string) \<Rightarrow> commit_deps \<Rightarrow> json \<Rightarrow> unit commit_act" where
  "verifyCommitmentSignature sha256Hex deps record =
     bindA (liftA (contentHash sha256Hex (entries record))) (\<lambda>h.
     requireSignature deps (record_request ''finality-commitment'' FINALITY_COMMITMENT_SEPARATOR h (dot record ''signature'')))"

definition verifyLegacyCommitmentSignature :: "(string \<Rightarrow> string) \<Rightarrow> commit_deps \<Rightarrow> json \<Rightarrow> json \<Rightarrow> unit commit_act" where
  "verifyLegacyCommitmentSignature sha256Hex deps record sig =
     bindA (liftA (contentHash sha256Hex (entries record))) (\<lambda>h.
     requireSignature deps (record_request ''legacy-commitment'' LEGACY_COMMITMENT_SEPARATOR h sig))"

section \<open>Anchored records\<close>

definition unsignedFinalityRecord :: "int \<Rightarrow> json \<Rightarrow> agreement_binding \<Rightarrow> json" where
  "unsignedFinalityRecord createdAt agreement binding =
     JObj [(''finalityCommitmentVersion'', JStr ''1''), (''jobId'', dot agreement ''jobId''),
           (''agreementHash'', JStr (ab_agreementHash binding)), (''listingRef'', ab_pin binding), (''parties'', JArr (ab_parties binding)),
           (''pattern'', dot agreement ''derivedFromPattern''), (''createdAt'', int_json createdAt)]"

definition recordMatchesBinding :: "json \<Rightarrow> json \<Rightarrow> agreement_binding \<Rightarrow> bool" where
  "recordMatchesBinding record agreement binding \<longleftrightarrow>
     dot record ''jobId'' = dot agreement ''jobId'' \<and> dot record ''agreementHash'' = JStr (ab_agreementHash binding) \<and>
     listingPinEquals (dot record ''listingRef'') (ab_pin binding) \<and>
     elements (dot record ''parties'') = ab_parties binding \<and> dot record ''pattern'' = dot agreement ''derivedFromPattern''"

definition anchored_shape :: "json \<Rightarrow> bool" where
  "anchored_shape v \<longleftrightarrow>
     (hasExactKeys v [''record'', ''nativeAddress'', ''anchorTxRef'', ''anchorReceipt''] \<or>
      hasExactKeys v [''record'', ''nativeAddress'', ''anchorTxRef'', ''anchorReceipt'', ''legacySignature''] \<and>
      isComponentSignature (dot v ''legacySignature'') \<and> hasExactKeys (dot v ''legacySignature'') [''algorithm'', ''signer'', ''value'']) \<and>
     isObj (dot v ''record'') \<and> isNonEmptyStr (dot v ''nativeAddress'') \<and> isObj (dot v ''anchorTxRef'') \<and> isObj (dot v ''anchorReceipt'')"

text \<open>What the snapshots refuse is a fault of the substrate.\<close>

definition snapshotAnchored :: "json \<Rightarrow> json res" where
  "snapshotAnchored v =
     bindR (snapshotCanonicalJson v) (\<lambda>captured.
     ensure (anchored_shape captured) ''returned a malformed anchor result'' (Inr captured))"

datatype commitment_lookup = Lookup_Absent | Lookup_Indeterminate string | Lookup_Present json

definition snapshotLookup :: "json \<Rightarrow> commitment_lookup res" where
  "snapshotLookup v =
     bindR (snapshotCanonicalJson v) (\<lambda>captured.
     if dot captured ''disposition'' = JStr ''absent'' \<and> hasExactKeys captured [''disposition''] then Inr Lookup_Absent
     else if dot captured ''disposition'' = JStr ''indeterminate'' \<and> hasExactKeys captured [''disposition'', ''reason''] \<and>
             str_where (\<lambda>reason. trim reason \<noteq> []) (dot captured ''reason'')
     then Inr (Lookup_Indeterminate (text_of (dot captured ''reason'')))
     else if dot captured ''disposition'' = JStr ''present'' \<and> hasExactKeys captured [''disposition'', ''anchored'']
     then bindR (snapshotAnchored (dot captured ''anchored'')) (\<lambda>anchored. Inr (Lookup_Present anchored))
     else throw ''commitment lookup returned a malformed lookup envelope'')"

definition receipt_binds :: "(string \<Rightarrow> string) \<Rightarrow> string \<Rightarrow> json \<Rightarrow> bool" where
  "receipt_binds sha256Hex logicalAddress anchored \<longleftrightarrow>
     (let receipt = dot anchored ''anchorReceipt'' in
      isReadableAnchorReceipt receipt \<and> isChainTxRef (dot anchored ''anchorTxRef'') \<and> isNonEmptyStr (dot anchored ''nativeAddress'') \<and>
      dot receipt ''state'' = JStr ''finalized'' \<and> dot receipt ''observationDisposition'' = JStr ''established'' \<and>
      dot receipt ''logicalAddress'' = JStr logicalAddress \<and> dot receipt ''nativeAddress'' = dot anchored ''nativeAddress'' \<and>
      (case contentHash sha256Hex (entries (dot anchored ''record'')) of
         Inl _ \<Rightarrow> False | Inr h \<Rightarrow> dot receipt ''contentHash'' = JStr h) \<and>
      isNonNegativeSafeInt (dot (dot receipt ''blockRef'') ''timestamp''))"

definition finalizedReceiptTime :: "(string \<Rightarrow> string) \<Rightarrow> commit_deps \<Rightarrow> string \<Rightarrow> json \<Rightarrow> int commit_act" where
  "finalizedReceiptTime sha256Hex deps logicalAddress anchored =
     ensureA (receipt_binds sha256Hex logicalAddress anchored) Fault_Permanent ''commitment receipt is not an exact finalized SR-2 binding''
     (bindA (liftA (snapshotCanonicalJson anchored)) (\<lambda>callbackAnchored.
      bindA (askA (\<lambda>hist. cd_verifyAnchorReceipt deps hist callbackAnchored) (Receipt_Checked callbackAnchored)) (\<lambda>answer.
      case answer of
        Inl _ \<Rightarrow> faultA Fault_Substrate ''commitment receipt proof verification errored''
      | Inr disposition \<Rightarrow>
          if disposition = ''indeterminate'' \<or> disposition = ''error''
          then faultA Fault_Substrate ''commitment receipt proof is not established''
          else if disposition = ''invalid'' then faultA Fault_Permanent ''commitment receipt proof is invalid''
          else if disposition \<noteq> ''valid''
          then faultA Fault_Substrate ''commitment receipt proof verifier returned an invalid disposition''
          else retA (uint_of (dot (dot (dot anchored ''anchorReceipt'') ''blockRef'') ''timestamp'')))))"

definition validateAuthoritativeTime :: "int \<Rightarrow> json \<Rightarrow> json \<Rightarrow> agreement_binding \<Rightarrow> unit res" where
  "validateAuthoritativeTime committedAt agreement listing binding =
     ensure (deadline_limit_ok committedAt agreement (ab_deadlineSeconds binding) \<and>
             (dot (dot listing ''validity'') ''notAfter'' = JUndefined \<or> committedAt \<le> uint_of (dot (dot listing ''validity'') ''notAfter'')))
       ''finalized receipt timestamp fails authoritative agreement/Listing checks'' (Inr ())"

definition resolveCommitment :: "commit_deps \<Rightarrow> string \<Rightarrow> json option commit_act" where
  "resolveCommitment deps logicalAddress =
     bindA (askA (\<lambda>hist. cd_resolve deps hist logicalAddress) (Commitment_Resolved logicalAddress)) (\<lambda>answer.
     bindA (recastA Fault_Substrate answer) (\<lambda>raw.
     bindA (recastA Fault_Substrate (snapshotLookup raw)) (\<lambda>lookup.
     case lookup of
       Lookup_Indeterminate reason \<Rightarrow> faultA Fault_Substrate ''commitment lookup is indeterminate''
     | Lookup_Absent \<Rightarrow> retA None
     | Lookup_Present anchored \<Rightarrow> retA (Some anchored))))"

text \<open>The discriminator of the record and the carried signature of a legacy one.\<close>

definition is_legacy_record :: "json \<Rightarrow> bool res" where
  "is_legacy_record anchored =
     (let record = dot anchored ''record''; legacy = has_own (entries record) ''dacsVersion'';
          finality = has_own (entries record) ''finalityCommitmentVersion'' in
      ensure (legacy \<noteq> finality) ''existing commitment has ambiguous or missing record discriminator (CA-9)''
      (if legacy
       then ensure (isCommitmentRecord record \<and> has_own (entries anchored) ''legacySignature'' \<and>
                    isComponentSignature (dot anchored ''legacySignature''))
              ''existing legacy commitment or its carried signature is malformed (CA-9)'' (Inr True)
       else ensure (isReadableFinalityCommitmentRecord record \<and> \<not> has_own (entries anchored) ''legacySignature'')
              ''existing finality commitment is malformed or discriminator-ambiguous (CA-9)'' (Inr False)))"

definition record_signer :: "bool \<Rightarrow> json \<Rightarrow> json" where
  "record_signer legacy anchored =
     (if legacy then dot (dot anchored ''legacySignature'') ''signer'' else dot (dot (dot anchored ''record'') ''signature'') ''signer'')"

definition finalized_result :: "string \<Rightarrow> json \<Rightarrow> agreement_binding \<Rightarrow> int \<Rightarrow> bool \<Rightarrow> bool \<Rightarrow> json" where
  "finalized_result logicalAddress anchored binding committedAt legacy resumed =
     JObj ([(''logicalAddress'', JStr logicalAddress), (''nativeAddress'', dot anchored ''nativeAddress''),
            (''agreementHash'', JStr (ab_agreementHash binding)), (''anchorTxRef'', dot anchored ''anchorTxRef''),
            (''anchorReceipt'', dot anchored ''anchorReceipt''), (''committedAt'', int_json committedAt),
            (''resumed'', JBool (legacy \<or> resumed)), (''recordKind'', JStr (if legacy then ''legacy'' else ''finality'')),
            (''record'', dot anchored ''record'')] @
           (if legacy then [(''legacySignature'', dot anchored ''legacySignature'')] else []))"

text \<open>
  \<open>submitted\<close> is the canonical text of a record this call has just signed, verified and submitted; it is
  absent when the commitment was found.
\<close>

definition verifyAnchoredCommitment ::
  "(string \<Rightarrow> string) \<Rightarrow> commit_deps \<Rightarrow> string \<Rightarrow> json \<Rightarrow> json \<Rightarrow> json \<Rightarrow> json \<Rightarrow> agreement_binding \<Rightarrow> string option \<Rightarrow> json commit_act" where
  "verifyAnchoredCommitment sha256Hex deps logicalAddress anchored session agreement listing binding submitted =
     (let record = dot anchored ''record'' in
      bindA (liftA (is_legacy_record anchored)) (\<lambda>legacy.
      ensureA (recordMatchesBinding record agreement binding) Fault_Permanent
        ''existing commitment binds different authenticated session content (CA-3/CA-7)''
      (ensureA (case submitted of None \<Rightarrow> True | Some t \<Rightarrow> \<not> legacy \<and> canonicalize record = Inr t) Fault_Permanent
        ''fresh commitment anchor does not contain the exact submitted record (CA-3)''
      (ensureA (record_signer legacy anchored = dot session ''orchestrator'') Fault_Permanent
        ''commitment signer is not the authenticated session orchestrator (CA-6)''
      (bindA (if legacy then verifyLegacyCommitmentSignature sha256Hex deps record (dot anchored ''legacySignature'')
              else if submitted = None then verifyCommitmentSignature sha256Hex deps record
              else retA ()) (\<lambda>_.
       bindA (finalizedReceiptTime sha256Hex deps logicalAddress anchored) (\<lambda>committedAt.
       ensureA (legacy \<longrightarrow> dot record ''committedAt'' = int_json committedAt) Fault_Permanent
         ''legacy commitment committedAt does not match authenticated anchor time (CA-8)''
       (bindA (liftA (validateAuthoritativeTime committedAt agreement listing binding)) (\<lambda>_.
        liftA (snapshotCanonicalJson (finalized_result logicalAddress anchored binding committedAt legacy (submitted = None))))))))))))"

section \<open>The commitment gate\<close>

definition commitment_draft :: "signer_options \<Rightarrow> json \<Rightarrow> json" where
  "commitment_draft opts draft =
     JObj (entries draft @ [(''signature'', JObj [(''algorithm'', JStr (so_algorithm opts)), (''signer'', JStr (so_signer opts)),
             (''value'', JStr placeholder)])])"

text \<open>Building and signing the record that is submitted.\<close>

definition signed_record ::
  "(string \<Rightarrow> string) \<Rightarrow> int \<Rightarrow> signer_options \<Rightarrow> json \<Rightarrow> json \<Rightarrow> agreement_binding \<Rightarrow> json res" where
  "signed_record sha256Hex createdAt opts agreement listing binding =
     bindR (validateProvisionalTime createdAt agreement listing binding) (\<lambda>_.
     let draft = unsignedFinalityRecord createdAt agreement binding in
     ensure (isFinalityCommitmentRecord (commitment_draft opts draft)) ''finality commitment draft is not normative''
     (bindR (signComponentArtifact sha256Hex draft FINALITY_COMMITMENT_SEPARATOR opts) (\<lambda>kvs.
      ensure (isFinalityCommitmentRecord (JObj kvs)) ''signed finality commitment is not normative'' (Inr (JObj kvs)))))"

text \<open>Everything before the first call: the binding of agreement, listing and session.\<close>

record commit_selection =
  cs_address :: string
  cs_session :: json
  cs_agreement :: json
  cs_listing :: json
  cs_authenticated :: "json \<times> json \<times> json"
  cs_alternative :: bool
  cs_createdAt :: int
  cs_signer :: signer_options

definition commit_selected ::
  "artifact_env \<Rightarrow> (string \<Rightarrow> string) \<Rightarrow> apr_authority \<Rightarrow> string \<Rightarrow> commitment_input \<Rightarrow> commit_selection res" where
  "commit_selected env sha256Hex apr pattern callerInput =
     bindR (if pattern = ''rfq'' then map_sum id Some (captureRfqSession env sha256Hex callerInput) else Inr None) (\<lambda>rfqSession.
     bindR (captureCommitmentInput callerInput) (\<lambda>(inp, createdAt, signer).
     bindR (select_for env pattern (cb_agreement inp) (cb_verifiedListing inp)) (\<lambda>(agreement, listing).
     bindR (establishAlternativePaymentAuthority apr agreement listing (ci_alternativePayment callerInput)) (\<lambda>alternative.
     bindR (finalityCommitmentAddress (text_of (dot agreement ''jobId''))) (\<lambda>logicalAddress.
     bindR (validateAuthenticatedSessionBinding env sha256Hex inp agreement listing) (\<lambda>authenticated.
     bindR (case rfqSession of None \<Rightarrow> Inr () | Some s \<Rightarrow> validateRfqSessionBinding s inp agreement listing) (\<lambda>_.
     ensure (JStr (so_signer signer) = dot (cb_session inp) ''orchestrator'') ''commitment signer is not the authenticated orchestrator (CA-6)''
     (Inr \<lparr>cs_address = logicalAddress, cs_session = cb_session inp, cs_agreement = agreement, cs_listing = listing,
           cs_authenticated = authenticated, cs_alternative = alternative, cs_createdAt = createdAt, cs_signer = signer\<rparr>))))))))"

datatype commit_decision = Commitment_Found json | Submit_Record json string

definition commit_decide ::
  "(string \<Rightarrow> string) \<Rightarrow> commit_deps \<Rightarrow> string \<Rightarrow> commit_selection \<Rightarrow> (agreement_binding \<times> commit_decision) commit_act" where
  "commit_decide sha256Hex deps pattern sel =
     bindA (verifyAgreementSignatures sha256Hex deps (cs_agreement sel)) (\<lambda>_.
     bindA (liftA (agreementBinding sha256Hex (cs_agreement sel) (cs_listing sel) (cs_authenticated sel) pattern (cs_alternative sel)))
       (\<lambda>binding.
     bindA (resolveCommitment deps (cs_address sel)) (\<lambda>lookup.
     case lookup of
       Some anchored \<Rightarrow> retA (binding, Commitment_Found anchored)
     | None \<Rightarrow>
         bindA (liftA (signed_record sha256Hex (cs_createdAt sel) (cs_signer sel) (cs_agreement sel) (cs_listing sel) binding)) (\<lambda>record.
         bindA (verifyCommitmentSignature sha256Hex deps record) (\<lambda>_.
         bindA (liftA (canonicalize record)) (\<lambda>submittedCanonical.
         retA (binding, Submit_Record record submittedCanonical)))))))"

definition submit_record :: "commit_deps \<Rightarrow> string \<Rightarrow> json \<Rightarrow> json commit_act" where
  "submit_record deps logicalAddress record =
     bindA (recastA Fault_Substrate (snapshotCanonicalJson record)) (\<lambda>submission.
     bindA (askA (\<lambda>hist. cd_submit deps hist logicalAddress submission) (Commitment_Submitted logicalAddress submission)) (\<lambda>answer.
     bindA (recastA Fault_Substrate answer) (\<lambda>raw. recastA Fault_Substrate (snapshotAnchored raw))))"

definition commitAgreementForPattern ::
  "artifact_env \<Rightarrow> (string \<Rightarrow> string) \<Rightarrow> apr_authority \<Rightarrow> commit_deps \<Rightarrow> string \<Rightarrow> commitment_input \<Rightarrow> json commit_act" where
  "commitAgreementForPattern env sha256Hex apr deps pattern callerInput =
     bindA (liftA (commit_selected env sha256Hex apr pattern callerInput)) (\<lambda>sel.
     bindA (commit_decide sha256Hex deps pattern sel) (\<lambda>(binding, decision).
     case decision of
       Commitment_Found anchored \<Rightarrow>
         verifyAnchoredCommitment sha256Hex deps (cs_address sel) anchored (cs_session sel) (cs_agreement sel) (cs_listing sel) binding None
     | Submit_Record record submittedCanonical \<Rightarrow>
         bindA (submit_record deps (cs_address sel) record) (\<lambda>anchored.
         verifyAnchoredCommitment sha256Hex deps (cs_address sel) anchored (cs_session sel) (cs_agreement sel) (cs_listing sel) binding
           (Some submittedCanonical))))"

definition commitFixedPriceAgreement ::
  "artifact_env \<Rightarrow> (string \<Rightarrow> string) \<Rightarrow> apr_authority \<Rightarrow> commit_deps \<Rightarrow> commitment_input \<Rightarrow> json commit_act" where
  "commitFixedPriceAgreement env sha256Hex apr deps callerInput = commitAgreementForPattern env sha256Hex apr deps ''fixed-price'' callerInput"

definition commitRfqAgreement ::
  "artifact_env \<Rightarrow> (string \<Rightarrow> string) \<Rightarrow> apr_authority \<Rightarrow> commit_deps \<Rightarrow> commitment_input \<Rightarrow> json commit_act" where
  "commitRfqAgreement env sha256Hex apr deps callerInput = commitAgreementForPattern env sha256Hex apr deps ''rfq'' callerInput"

definition readLegacyFixedPriceAgreementCommitment ::
  "artifact_env \<Rightarrow> (string \<Rightarrow> string) \<Rightarrow> commit_deps \<Rightarrow> commitment_input \<Rightarrow> json commit_act" where
  "readLegacyFixedPriceAgreementCommitment env sha256Hex deps callerInput =
     bindA (liftA (captureCommitmentBindingInput callerInput)) (\<lambda>inp.
     bindA (liftA (selectFixedPriceArtifact env (cb_agreement inp) (cb_verifiedListing inp) True)) (\<lambda>(agreement, listing).
     bindA (liftA (legacyCommitmentAddress (text_of (dot agreement ''jobId'')))) (\<lambda>logicalAddress.
     bindA (liftA (validateAuthenticatedSessionBinding env sha256Hex inp agreement listing)) (\<lambda>authenticated.
     bindA (verifyAgreementSignatures sha256Hex deps agreement) (\<lambda>_.
     bindA (liftA (agreementBinding sha256Hex agreement listing authenticated ''fixed-price'' False)) (\<lambda>binding.
     bindA (resolveCommitment deps logicalAddress) (\<lambda>lookup.
     case lookup of
       None \<Rightarrow> faultA Fault_Permanent ''legacy commitment is authoritatively absent''
     | Some anchored \<Rightarrow>
         bindA (verifyAnchoredCommitment sha256Hex deps logicalAddress anchored (cb_session inp) agreement listing binding None) (\<lambda>result.
         ensureA (dot result ''recordKind'' = JStr ''legacy'') Fault_Permanent
           ''explicit legacy commitment reader refuses a finality record'' (retA result)))))))))"

end
