(* ===== verification/Dacs_Agreement_Props.thy ===== *)
theory Dacs_Agreement_Props
  imports Dacs_Trade_Props
begin

text \<open>
  What a derived agreement says: its price is the one the listing authorises, and its payouts cover the
  payment phases of the listing.
\<close>

section \<open>Payouts\<close>

lemma bindings_cover_keys:
  assumes "bindings_cover expected seen bs"
  shows "distinct (map payout_key bs)" "set (map payout_key bs) \<subseteq> set expected" "set (map payout_key bs) \<inter> set seen = {}"
    "list_all (\<lambda>b. isNonEmptyStr (dot b ''payeeAddress'')) bs"
  using assms by (induction expected seen bs rule: bindings_cover.induct) auto

text \<open>As many distinct keys as expected ones, all of them expected: every expected key occurs.\<close>

lemma bindings_cover_all:
  assumes "bindings_cover expected [] bs" "length bs = length expected"
  shows "distinct expected" "set (map payout_key bs) = set expected"
proof -
  note k = bindings_cover_keys [OF assms(1)]
  have "card (set (map payout_key bs)) = length expected" using distinct_card [OF k(1)] assms(2) by simp
  then have "card (set expected) = length expected" using card_mono [OF finite_set k(2)] card_length [of expected] by linarith
  then show "distinct expected" by (rule card_distinct)
  show "set (map payout_key bs) = set expected"
    using card_subset_eq [OF finite_set k(2)] \<open>card (set expected) = length expected\<close> \<open>card (set (map payout_key bs)) = length expected\<close> by simp
qed

definition payout_slots :: "json \<Rightarrow> nat list \<Rightarrow> string list" where
  "payout_slots rail indexes = map (\<lambda>i. template_text (dot rail ''railId'') @ CHR 0x00 # int_text (int i)) indexes"

lemma requirePayoutBindings_covers:
  assumes "requirePayoutBindings rail indexes v = Inr bs" "rail \<noteq> JUndefined" "indexes \<noteq> []"
  shows "distinct (map payout_key bs)" "set (map payout_key bs) = set (payout_slots rail indexes)"
    "list_all (\<lambda>b. isNonEmptyStr (dot b ''payeeAddress'')) bs"
proof -
  have c: "bindings_cover (payout_slots rail indexes) [] bs" "length bs = length (payout_slots rail indexes)"
    using assms by (auto simp: requirePayoutBindings_def payout_slots_def res_simps)
  show "distinct (map payout_key bs)" "set (map payout_key bs) = set (payout_slots rail indexes)"
    "list_all (\<lambda>b. isNonEmptyStr (dot b ''payeeAddress'')) bs"
    using bindings_cover_keys [OF c(1)] bindings_cover_all [OF c] by simp_all
qed

section \<open>Fixed-price derivation\<close>

lemma fixed_facts:
  assumes "deriveFixedPriceAgreement env sha v = Inr draft"
    and inp: "inp = reparsed v" and listing: "listing = dot (dot inp ''verifiedListing'') ''listing''"
  obtains commitment indexes rail buyer seller deliverable price quantity deadline where
    "isListing env listing" "pin_matches sha listing (dot (dot inp ''verifiedListing'') ''pin'')"
    "requirePipeline ''negotiate-fixed-price'' listing = Inr (commitment, indexes)"
    "requireRail listing (dot inp ''selectedRail'') indexes = Inr rail"
    "fixed_price_terms (dot listing ''pricing'') (dot inp ''meteredQuantity'') = Inr (price, quantity)"
    "agreement_draft commitment
       [(''jobId'', dot inp ''jobId''), (''listingRef'', dot (dot inp ''verifiedListing'') ''pin''), (''parties'', JArr [buyer, seller]),
        (''derivedFromPattern'', JStr ''fixed-price''), (''generatedAt'', int_json (uint_of (dot inp ''generatedAt'')))]
       (common_terms deliverable price quantity rail deadline) rail indexes (dot inp ''payoutBindings'') = Inr draft"
proof -
  have jid: "x = text_of w \<and> w = JStr x" if "requireCanonicalJobId (text_of w) = Inr x" for w x
  proof (cases w)
    case (JStr y)
    then show ?thesis using that by (auto simp: requireCanonicalJobId_def res_simps)
  qed (use that in \<open>auto simp: requireCanonicalJobId_def isCanonicalJobId_def res_simps\<close>)
  show thesis
    using assms(1) unfolding deriveFixedPriceAgreement_def Let_def
    by (clarsimp simp: res_simps snapshot_defs snapshot_Inr inp [symmetric] listing [symmetric] dest!: jid) (rule that; simp)
qed

section \<open>A sample with a payment\<close>

definition paid_pricing :: json where
  "paid_pricing = JObj [(''kind'', JStr ''fixed''), (''price'', JObj [(''amount'', JStr ''5''), (''currency'', JStr ''U'')])]"

definition paid_pipeline :: "json list" where
  "paid_pipeline =
     [JObj [(''kind'', JStr ''negotiate-fixed-price'')], JObj [(''kind'', JStr ''commit-payee-bound-agreement'')],
      JObj [(''kind'', JStr ''pay-x402''), (''parameters'', JObj [(''rail'', JStr ''r'')])], JObj [(''kind'', JStr ''deliver-entitlement'')]]"

definition paid_rail :: json where
  "paid_rail = JObj [(''railId'', JStr ''r'')]"

definition paid_listing :: json where
  "paid_listing = JObj ((''acceptedRails'', JArr [paid_rail]) # entries (trade_listing ''none'' paid_pricing paid_pipeline))"

definition paid_payouts :: json where
  "paid_payouts = JArr [JObj [(''payeeAddress'', JStr ''x''), (''phaseIndex'', int_json 2), (''railId'', JStr ''r'')]]"

definition paid_input :: json where
  "paid_input =
     JObj [(''buyer'', trade_party ''a:b''), (''generatedAt'', int_json 40), (''jobId'', JStr (replicate 26 (CHR ''0''))),
           (''payoutBindings'', paid_payouts), (''selectedRail'', paid_rail), (''seller'', trade_party ''a:s''),
           (''verifiedListing'', JObj [(''disposition'', JStr ''verified''), (''listing'', paid_listing), (''pin'', trade_pin)])]"

lemma paid_canonical: "snapshotCanonicalJson paid_input = Inr paid_input"
  by code_simp

lemma paid_reparsed: "reparsed paid_input = paid_input"
  using paid_canonical by (simp add: snapshot_defs snapshot_Inr)

lemma paid_listing_ok: "isListing trade_env paid_listing"
  by code_simp

lemma paid_pin_ok: "pin_matches trade_sha paid_listing trade_pin"
  by code_simp

lemma paid_listing_reads:
  "agreement_deadline paid_listing 40 = Inr 1040" "within_validity paid_listing 40"
  "dot (dot (dot paid_listing ''seller'') ''identity'') ''presentedBy'' = JStr ''a:s''"
  "dot (dot paid_listing ''offering'') ''deliverable'' = trade_deliverable"
  "dot (dot paid_listing ''terms'') ''acceptanceModel'' = JUndefined"
  "fixed_price_terms (dot paid_listing ''pricing'') JUndefined = Inr (JObj [(''amount'', JStr ''5''), (''currency'', JStr ''U'')], JUndefined)"
  "requirePipeline ''negotiate-fixed-price'' paid_listing = Inr (''commit-payee-bound-agreement'', [2])"
  "requireRail paid_listing paid_rail [2] = Inr paid_rail"
  "payment_indexes (elements (dot paid_listing ''pipeline'')) = [2]"
  by code_simp+

lemma paid_input_reads:
  "dot paid_input ''buyer'' = trade_party ''a:b''" "dot paid_input ''seller'' = trade_party ''a:s''"
  "dot paid_input ''generatedAt'' = int_json 40" "dot paid_input ''jobId'' = JStr (replicate 26 (CHR ''0''))"
  "dot paid_input ''selectedRail'' = paid_rail" "dot paid_input ''payoutBindings'' = paid_payouts" "dot paid_input ''meteredQuantity'' = JUndefined"
  "dot (dot paid_input ''verifiedListing'') ''listing'' = paid_listing" "dot (dot paid_input ''verifiedListing'') ''pin'' = trade_pin"
  "dot (dot paid_input ''verifiedListing'') ''disposition'' = JStr ''verified''"
  by (simp_all add: paid_input_def)

lemma paid_parties:
  "agreementParty trade_env trade_sha ''buyer'' (trade_party ''a:b'') = Inr (trade_agreement_party ''buyer'' ''a:b'')"
  "agreementParty trade_env trade_sha ''seller'' (trade_party ''a:s'') = Inr (trade_agreement_party ''seller'' ''a:s'')"
  using trade_parties_ok by (simp_all add: rfqAgreementParty_def)

lemma paid_payouts_ok: "requirePayoutBindings paid_rail [2] paid_payouts = Inr (elements paid_payouts)"
  by code_simp

lemma paid_derived:
  obtains draft where "deriveFixedPriceAgreement trade_env trade_sha paid_input = Inr draft"
    "dot draft ''payeeBoundAgreementVersion'' = JStr ''1''"
proof -
  have "\<exists>draft. deriveFixedPriceAgreement trade_env trade_sha paid_input = Inr draft \<and> dot draft ''payeeBoundAgreementVersion'' = JStr ''1''"
    unfolding deriveFixedPriceAgreement_def
    by (simp add: paid_canonical Let_def paid_input_reads paid_listing_ok paid_pin_ok paid_listing_reads trade_claims trade_time paid_parties
        trade_deliverable_ok agreement_draft_def paid_payouts_ok del: same_identity.simps)
  then show thesis using that by blast
qed

section \<open>Properties\<close>

text \<open>
  Property C25. The price of an agreement made from an RFQ session is authorised by the listing: it is
  the price of the session's standing proposal, and under negotiable pricing it has the listing's
  currency and lies between the bounds of the price band computed from the listing, while under
  metered pricing it is the price derived from the quantity that the agreement states. No agreement is
  derived under any other pricing.
\<close>

theorem rfq_agreement_price_authorized:
  assumes "deriveRfqAgreement env sha \<lparr>ra_session = s, ra_rest = rest\<rparr> = Inr draft"
    and pricing: "pricing = pricing_of_json (dot (dot (dot (reparsed rest) ''verifiedListing'') ''listing'') ''pricing'')"
  shows "\<exists>p. map_option sp_proposal (rs_standingProposal s) = Some p \<and>
    dot (dot draft ''terms'') ''price'' = price_json (pr_price p) \<and>
    (case pricing of
       Negotiable center minPct maxPct \<Rightarrow>
         pt_currency (pr_price p) = pt_currency center \<and>
         (\<exists>band lo hi. deriveRfqPriceBand pricing = Inr band \<and>
            compareDecimal (pt_amount (pr_price p)) (pt_amount (pb_minimum band)) = Inr lo \<and>
            compareDecimal (pt_amount (pr_price p)) (pt_amount (pb_maximum band)) = Inr hi \<and> 0 \<le> lo \<and> hi \<le> 0)
     | Metered unitPrice unit minTotal \<Rightarrow>
         (\<exists>q. deriveMeteredPriceTerm pricing q = Inr (pr_price p) \<and> dot (dot draft ''terms'') ''meteredQuantity'' = quantity_json q)
     | Other_Pricing \<Rightarrow> False)"
proof (rule derive_facts [OF assms(1)])
  fix ver extra buyer seller pin p rail deadline deliverable generatedAt
  assume draft: "draft = JObj (ver # [(''jobId'', JStr (rs_jobId s)), (''listingRef'', pin), (''parties'', JArr [buyer, seller]),
        (''derivedFromPattern'', JStr ''rfq''),
        (''derivedFromChannel'', JObj [(''subnet'', JStr (rs_channelId s)), (''lastMessageHash'', JStr (the (rs_lastMessageHash s)))]),
        (''generatedAt'', int_json generatedAt)] @
      [(''terms'', JObj (common_terms deliverable (price_json (pr_price p)) (proposal_quantity p) rail deadline @ extra))])"
    and ver: "fst ver = ''agreementVersion'' \<or> fst ver = ''payeeBoundAgreementVersion''"
    and extra: "extra = [] \<or> (\<exists>b. extra = [(''payoutBindings'', b)])"
    and auth: "assertSessionAuthority env sha s (dot (dot (reparsed rest) ''verifiedListing'') ''listing'') pin buyer seller = Inr p"
  have t: "dot draft ''terms'' = JObj (common_terms deliverable (price_json (pr_price p)) (proposal_quantity p) rail deadline @ extra)"
    using ver by (cases ver) (auto simp: draft)
  note reads = common_terms_reads [OF extra, of deliverable "price_json (pr_price p)" "proposal_quantity p" rail deadline]
  have f: "acceptedProposal s = Inr p" "rs_pricing s = pricing"
    using auth by (auto simp: assertSessionAuthority_def res_simps pricing)
  then obtain st where st: "rs_standingProposal s = Some st" "validateRfqProposal (sp_proposal st) pricing = Inr p"
    by (auto simp: acceptedProposal_def split: option.splits)
  have p: "sp_proposal st = p" using validateRfqProposal_same [OF st(2)] by simp
  have v: "validateRfqProposal p pricing = Inr p" using st(2) p by simp
  have "case pricing of
       Negotiable center minPct maxPct \<Rightarrow>
         pt_currency (pr_price p) = pt_currency center \<and>
         (\<exists>band lo hi. deriveRfqPriceBand pricing = Inr band \<and>
            compareDecimal (pt_amount (pr_price p)) (pt_amount (pb_minimum band)) = Inr lo \<and>
            compareDecimal (pt_amount (pr_price p)) (pt_amount (pb_maximum band)) = Inr hi \<and> 0 \<le> lo \<and> hi \<le> 0)
     | Metered unitPrice unit minTotal \<Rightarrow>
         (\<exists>q. deriveMeteredPriceTerm pricing q = Inr (pr_price p) \<and> proposal_quantity p = quantity_json q)
     | Other_Pricing \<Rightarrow> False"
    using v by (cases pricing) (auto simp: validateRfqProposal_def res_simps proposal_quantity_def split: option.splits)
  then show ?thesis using st(1) p reads(1,2) unfolding t by (cases pricing) auto
qed

theorem rfq_agreement_price_authorized_witness:
  "dot (dot trade_draft ''terms'') ''price'' = price_json (pr_price (sp_proposal trade_standing))"
proof -
  have st: "rs_standingProposal trade_accepted = Some trade_standing" by (simp add: trade_accepted_def trade_offered_def)
  from rfq_agreement_price_authorized [OF trade_derived refl] show ?thesis by (auto simp: st)
qed

text \<open>
  Property C30. A payee-bound fixed-price agreement pays every payment phase of the listing exactly
  once, over the rail the caller selected: that rail is the one in the terms of the draft and one of the
  listing's accepted rails, every payment phase of the pipeline names it, the payout bindings have
  pairwise different rail and phase keys, those keys are precisely the selected rail with each payment
  phase, and every binding names a payee.
\<close>

theorem payouts_cover_payment_phases:
  assumes derive: "deriveFixedPriceAgreement env sha v = Inr draft"
    and bound: "dot draft ''payeeBoundAgreementVersion'' \<noteq> JUndefined"
    and listing: "listing = dot (dot (reparsed v) ''verifiedListing'') ''listing''"
    and indexes: "indexes = payment_indexes (elements (dot listing ''pipeline''))" "indexes \<noteq> []"
    and rail: "rail = dot (reparsed v) ''selectedRail''"
  shows "\<exists>bs. dot (dot draft ''terms'') ''payoutBindings'' = JArr bs \<and> dot (dot draft ''terms'') ''rail'' = rail \<and>
    (\<exists>r \<in> set (elements (dot listing ''acceptedRails'')). railEquals r rail) \<and>
    list_all (\<lambda>i. phase_rail (elements (dot listing ''pipeline'') ! i) = dot rail ''railId'') indexes \<and>
    distinct (map payout_key bs) \<and> set (map payout_key bs) = set (payout_slots rail indexes) \<and>
    list_all (\<lambda>b. isNonEmptyStr (dot b ''payeeAddress'')) bs"
proof (rule fixed_facts [OF derive refl listing])
  fix commitment idx chosen buyer seller deliverable price quantity deadline
  assume f: "requirePipeline ''negotiate-fixed-price'' listing = Inr (commitment, idx)"
    "requireRail listing (dot (reparsed v) ''selectedRail'') idx = Inr chosen"
    "agreement_draft commitment
       [(''jobId'', dot (reparsed v) ''jobId''), (''listingRef'', dot (dot (reparsed v) ''verifiedListing'') ''pin''), (''parties'', JArr [buyer, seller]),
        (''derivedFromPattern'', JStr ''fixed-price''), (''generatedAt'', int_json (uint_of (dot (reparsed v) ''generatedAt'')))]
       (common_terms deliverable price quantity chosen deadline) chosen idx (dot (reparsed v) ''payoutBindings'') = Inr draft"
  have idx: "idx = indexes" using f(1) indexes(1) by (auto simp: requirePipeline_def Let_def res_simps split: list.splits prod.splits)
  have r: "chosen = rail" "rail \<noteq> JUndefined" "list_ex (\<lambda>r. railEquals r rail) (elements (dot listing ''acceptedRails''))"
      "list_all (\<lambda>i. phase_rail (elements (dot listing ''pipeline'') ! i) = dot rail ''railId'') indexes"
    using f(2) indexes(2) idx rail by (auto simp: requireRail_def res_simps)
  have c: "commitment \<noteq> ''commit-agreement''" using f(3) bound by (auto simp: agreement_draft_def res_simps)
  obtain bs where bs: "requirePayoutBindings rail indexes (dot (reparsed v) ''payoutBindings'') = Inr bs"
      "dot (dot draft ''terms'') ''payoutBindings'' = JArr bs" "dot (dot draft ''terms'') ''rail'' = rail"
    using f(3) c idx r(1,2) by (auto simp: agreement_draft_def res_simps common_terms_def optional_member_def)
  show ?thesis
    using requirePayoutBindings_covers [OF bs(1) r(2) indexes(2)] bs(2,3) r(3,4) by (auto simp: list_ex_iff)
qed

theorem payouts_cover_payment_phases_witness:
  "\<exists>draft bs. deriveFixedPriceAgreement trade_env trade_sha paid_input = Inr draft \<and>
     dot (dot draft ''terms'') ''payoutBindings'' = JArr bs \<and>
     set (map payout_key bs) = set (payout_slots (dot (reparsed paid_input) ''selectedRail'') [2])"
proof (rule paid_derived)
  fix draft assume d: "deriveFixedPriceAgreement trade_env trade_sha paid_input = Inr draft"
    "dot draft ''payeeBoundAgreementVersion'' = JStr ''1''"
  have l: "paid_listing = dot (dot (reparsed paid_input) ''verifiedListing'') ''listing''"
    unfolding paid_reparsed by (simp add: paid_input_reads)
  from payouts_cover_payment_phases [OF d(1) _ l paid_listing_reads(9) [symmetric] _ refl] d show ?thesis by auto
qed

end
