(* ===== verification/Dacs_Commitment_Props.thy ===== *)
theory Dacs_Commitment_Props
  imports Dacs_Commitment Dacs_Agreement_Props
begin

text \<open>
  Properties of the commitment gate: what stands behind a finalized commitment, when a record is
  submitted, and in which two ways a run ends.
\<close>

section \<open>The calls of the parts\<close>

fun is_submission :: "commit_event \<Rightarrow> bool" where
  "is_submission (Commitment_Submitted a r ans) = True"
| "is_submission _ = False"

abbreviation silent :: "'a commit_act \<Rightarrow> bool" where
  "silent m \<equiv> emits (\<lambda>e. \<not> is_submission e) m"

lemma requireSignature_Inr [act_simps]:
  "requireSignature deps q hist = (Inr u, hist') \<longleftrightarrow>
   cd_verifySignature deps hist q = Inr ''valid'' \<and> hist' = hist @ [Signature_Checked q (Inr ''valid'')]"
  by (auto simp: requireSignature_def act_simps split: sum.splits if_splits)

lemma silent_requireSignature [emits_intros]: "silent (requireSignature deps q)"
  unfolding requireSignature_def by (auto intro!: emits_intros split: sum.splits)

lemma silent_agreement [emits_intros]: "silent (verifyAgreementSignatures sha deps a)"
  unfolding verifyAgreementSignatures_def by (intro emits_intros)

lemma silent_record [emits_intros]:
  "silent (verifyCommitmentSignature sha deps r)" "silent (verifyLegacyCommitmentSignature sha deps r s)"
  unfolding verifyCommitmentSignature_def verifyLegacyCommitmentSignature_def by (intro emits_intros)+

lemma silent_receipt [emits_intros]: "silent (finalizedReceiptTime sha deps a anchored)"
  unfolding finalizedReceiptTime_def by (auto intro!: emits_intros split: sum.splits)

lemma silent_resolve [emits_intros]: "silent (resolveCommitment deps a)"
  unfolding resolveCommitment_def by (auto intro!: emits_intros split: commitment_lookup.splits)

lemma silent_anchored [emits_intros]: "silent (verifyAnchoredCommitment sha deps a anchored s agr l b sub)"
  unfolding verifyAnchoredCommitment_def Let_def by (intro emits_intros)

lemma silent_decide [emits_intros]: "silent (commit_decide sha deps pattern sel)"
  unfolding commit_decide_def by (auto intro!: emits_intros split: option.splits)

section \<open>What a successful part established\<close>

lemma agreement_verified:
  assumes "verifyAgreementSignatures sha deps a hist = (Inr u, hist')"
  obtains bytes new where "agreement_bytes sha a = Inr bytes" "hist' = hist @ new"
    "\<forall>sig \<in> set (elements (dot a ''signatures'')). Signature_Checked (agreement_request bytes sig) (Inr ''valid'') \<in> set new"
proof -
  from assms obtain bytes where b: "agreement_bytes sha a = Inr bytes"
    and run: "forA (\<lambda>sig. requireSignature deps (agreement_request bytes sig)) (elements (dot a ''signatures'')) hist = (Inr u, hist')"
    by (auto simp: verifyAgreementSignatures_def act_simps)
  have emit: "emits (\<lambda>_. True) (requireSignature deps q)" for q by (rule emits_mono [OF silent_requireSignature]) simp
  obtain new where new: "hist' = hist @ new" using emitted [OF emits_forA [OF emit] run] by blast
  have "Signature_Checked (agreement_request bytes sig) (Inr ''valid'') \<in> set new" if "sig \<in> set (elements (dot a ''signatures''))" for sig
    by (rule forA_Inr [OF run that emit]) (auto simp: act_simps new)
  then show ?thesis using that b new by blast
qed

lemma resolved:
  assumes "resolveCommitment deps a hist = (Inr found, hist')"
  obtains raw where "cd_resolve deps hist a = Inr raw" "hist' = hist @ [Commitment_Resolved a (Inr raw)]"
    "snapshotLookup raw = Inr (case found of None \<Rightarrow> Lookup_Absent | Some anchored \<Rightarrow> Lookup_Present anchored)"
proof -
  from assms obtain raw found' where r: "cd_resolve deps hist a = Inr raw" "snapshotLookup raw = Inr found'"
    and c: "(case found' of Lookup_Indeterminate reason \<Rightarrow> faultA Fault_Substrate ''commitment lookup is indeterminate''
       | Lookup_Absent \<Rightarrow> retA None | Lookup_Present anchored \<Rightarrow> retA (Some anchored)) (hist @ [Commitment_Resolved a (Inr raw)]) = (Inr found, hist')"
    by (auto simp: resolveCommitment_def act_simps)
  show ?thesis using that [OF r(1)] r c by (cases found') (auto simp: act_simps)
qed

lemma record_verified:
  assumes "verifyCommitmentSignature sha deps r hist = (Inr u, hist')"
  obtains h where "contentHash sha (entries r) = Inr h"
    "hist' = hist @ [Signature_Checked (record_request ''finality-commitment'' FINALITY_COMMITMENT_SEPARATOR h (dot r ''signature'')) (Inr ''valid'')]"
  using assms by (auto simp: verifyCommitmentSignature_def act_simps)

lemma legacy_verified:
  assumes "verifyLegacyCommitmentSignature sha deps r s hist = (Inr u, hist')"
  obtains h where "contentHash sha (entries r) = Inr h"
    "hist' = hist @ [Signature_Checked (record_request ''legacy-commitment'' LEGACY_COMMITMENT_SEPARATOR h s) (Inr ''valid'')]"
  using assms by (auto simp: verifyLegacyCommitmentSignature_def act_simps)

lemma receipt_time:
  assumes "finalizedReceiptTime sha deps a anchored hist = (Inr t, hist')"
  obtains snap where "receipt_binds sha a anchored" "snapshotCanonicalJson anchored = Inr snap"
    "hist' = hist @ [Receipt_Checked snap (Inr ''valid'')]" "cd_verifyAnchorReceipt deps hist snap = Inr ''valid''"
    "t = uint_of (dot (dot (dot anchored ''anchorReceipt'') ''blockRef'') ''timestamp'')"
proof -
  from assms obtain snap answer where r: "receipt_binds sha a anchored" "snapshotCanonicalJson anchored = Inr snap"
      "answer = cd_verifyAnchorReceipt deps hist snap"
    and c: "(case answer of Inl _ \<Rightarrow> faultA Fault_Substrate ''commitment receipt proof verification errored''
      | Inr disposition \<Rightarrow>
          if disposition = ''indeterminate'' \<or> disposition = ''error''
          then faultA Fault_Substrate ''commitment receipt proof is not established''
          else if disposition = ''invalid'' then faultA Fault_Permanent ''commitment receipt proof is invalid''
          else if disposition \<noteq> ''valid''
          then faultA Fault_Substrate ''commitment receipt proof verifier returned an invalid disposition''
          else retA (uint_of (dot (dot (dot anchored ''anchorReceipt'') ''blockRef'') ''timestamp''))) (hist @ [Receipt_Checked snap answer]) = (Inr t, hist')"
    unfolding finalizedReceiptTime_def ensureA_Inr bindA_Inr liftA_Inr askA_Inr by blast
  have "answer = Inr ''valid''" using c by (cases answer) (simp_all add: act_simps split: if_splits)
  then show ?thesis using that [OF r(1,2)] r(3) c by (simp add: act_simps)
qed

text \<open>The request whose positive answer authorises a record: the signed scope of the record under its separator.\<close>

definition record_check :: "bool \<Rightarrow> json \<Rightarrow> string \<Rightarrow> signature_request" where
  "record_check legacy anchored h =
     (if legacy then record_request ''legacy-commitment'' LEGACY_COMMITMENT_SEPARATOR h (dot anchored ''legacySignature'')
      else record_request ''finality-commitment'' FINALITY_COMMITMENT_SEPARATOR h (dot (dot anchored ''record'') ''signature''))"

text \<open>An anchored record that passed: the record binds the agreement, its receipt is proved, the times fit.\<close>

definition anchored_fits :: "(string \<Rightarrow> string) \<Rightarrow> string \<Rightarrow> json \<Rightarrow> commit_selection \<Rightarrow> agreement_binding \<Rightarrow> bool \<Rightarrow> int \<Rightarrow> bool" where
  "anchored_fits sha adr anchored sel binding legacy t \<longleftrightarrow>
     is_legacy_record anchored = Inr legacy \<and> recordMatchesBinding (dot anchored ''record'') (cs_agreement sel) binding \<and>
     record_signer legacy anchored = dot (cs_session sel) ''orchestrator'' \<and> receipt_binds sha adr anchored \<and>
     t = uint_of (dot (dot (dot anchored ''anchorReceipt'') ''blockRef'') ''timestamp'') \<and>
     validateAuthoritativeTime t (cs_agreement sel) (cs_listing sel) binding = Inr ()"

lemma anchored_verified:
  assumes "verifyAnchoredCommitment sha deps adr anchored (cs_session sel) (cs_agreement sel) (cs_listing sel) binding sub hist = (Inr result, hist')"
  obtains legacy t new snap where "anchored_fits sha adr anchored sel binding legacy t" "hist' = hist @ new"
    "result = reparsed (finalized_result adr anchored binding t legacy (sub = None))"
    "isDataOnlyJson (finalized_result adr anchored binding t legacy (sub = None))"
    "snapshotCanonicalJson (finalized_result adr anchored binding t legacy (sub = None)) = Inr result" "snapshotCanonicalJson anchored = Inr snap" "Receipt_Checked snap (Inr ''valid'') \<in> set new"
    "sub = None \<Longrightarrow> \<exists>h. contentHash sha (entries (dot anchored ''record'')) = Inr h \<and> Signature_Checked (record_check legacy anchored h) (Inr ''valid'') \<in> set new"
    "\<And>s. sub = Some s \<Longrightarrow> \<not> legacy \<and> canonicalize (dot anchored ''record'') = Inr s"
proof -
  let ?rcd = "dot anchored ''record''"
  from assms obtain legacy mid hist2 t where f: "is_legacy_record anchored = Inr legacy" "recordMatchesBinding ?rcd (cs_agreement sel) binding"
      "case sub of None \<Rightarrow> True | Some s \<Rightarrow> \<not> legacy \<and> canonicalize ?rcd = Inr s"
      "record_signer legacy anchored = dot (cs_session sel) ''orchestrator''"
    and sig: "(if legacy then verifyLegacyCommitmentSignature sha deps ?rcd (dot anchored ''legacySignature'')
       else if sub = None then verifyCommitmentSignature sha deps ?rcd else retA ()) hist = (Inr (), mid)"
    and rt: "finalizedReceiptTime sha deps adr anchored mid = (Inr t, hist2)"
    and au: "validateAuthoritativeTime t (cs_agreement sel) (cs_listing sel) binding = Inr ()"
    and sn: "snapshotCanonicalJson (finalized_result adr anchored binding t legacy (sub = None)) = Inr result" "hist' = hist2"
    by (auto simp: verifyAnchoredCommitment_def act_simps Let_def)
  obtain snap where r: "receipt_binds sha adr anchored" "snapshotCanonicalJson anchored = Inr snap"
    "hist2 = mid @ [Receipt_Checked snap (Inr ''valid'')]" "t = uint_of (dot (dot (dot anchored ''anchorReceipt'') ''blockRef'') ''timestamp'')"
    using rt by (rule receipt_time) blast
  have emit: "silent (if legacy then verifyLegacyCommitmentSignature sha deps ?rcd (dot anchored ''legacySignature'')
       else if sub = None then verifyCommitmentSignature sha deps ?rcd else retA ())" by (intro emits_intros)
  obtain new where new: "mid = hist @ new" using emitted [OF emit sig] by blast
  have fits: "anchored_fits sha adr anchored sel binding legacy t"
    using f r au by (simp add: anchored_fits_def)
  have checked: "\<exists>h. contentHash sha (entries ?rcd) = Inr h \<and> Signature_Checked (record_check legacy anchored h) (Inr ''valid'') \<in> set new"
    if "sub = None"
    using sig that new by (auto simp: record_check_def elim!: record_verified legacy_verified split: if_splits)
  show ?thesis
    by (rule that [OF fits, of "new @ [Receipt_Checked snap (Inr ''valid'')]" snap])
      (use sn new r checked f(3) in \<open>auto simp: snapshot_defs snapshot_Inr\<close>)
qed

text \<open>What was asked and found before a decision.\<close>

definition agreement_checked :: "(string \<Rightarrow> string) \<Rightarrow> json \<Rightarrow> commit_event list \<Rightarrow> bool" where
  "agreement_checked sha agreement events \<longleftrightarrow>
     (case agreement_bytes sha agreement of
        Inl _ \<Rightarrow> False
      | Inr bytes \<Rightarrow> list_all (\<lambda>sig. Signature_Checked (agreement_request bytes sig) (Inr ''valid'') \<in> set events)
                       (elements (dot agreement ''signatures'')))"

definition found_in :: "commit_event list \<Rightarrow> string \<Rightarrow> commitment_lookup \<Rightarrow> bool" where
  "found_in events adr found \<longleftrightarrow> (\<exists>raw. Commitment_Resolved adr (Inr raw) \<in> set events \<and> snapshotLookup raw = Inr found)"

definition record_checked :: "(string \<Rightarrow> string) \<Rightarrow> bool \<Rightarrow> json \<Rightarrow> commit_event list \<Rightarrow> bool" where
  "record_checked sha legacy anchored events \<longleftrightarrow>
     (case contentHash sha (entries (dot anchored ''record'')) of
        Inl _ \<Rightarrow> False | Inr h \<Rightarrow> Signature_Checked (record_check legacy anchored h) (Inr ''valid'') \<in> set events)"

definition own_record_checked :: "(string \<Rightarrow> string) \<Rightarrow> json \<Rightarrow> commit_event list \<Rightarrow> bool" where
  "own_record_checked sha record events \<longleftrightarrow>
     (case contentHash sha (entries record) of
        Inl _ \<Rightarrow> False
      | Inr h \<Rightarrow> Signature_Checked (record_request ''finality-commitment'' FINALITY_COMMITMENT_SEPARATOR h (dot record ''signature''))
                   (Inr ''valid'') \<in> set events)"

definition decision_grounds :: "(string \<Rightarrow> string) \<Rightarrow> commit_selection \<Rightarrow> agreement_binding \<Rightarrow> commit_decision \<Rightarrow> commit_event list \<Rightarrow> bool" where
  "decision_grounds sha sel binding decision events =
     (case decision of
        Commitment_Found anchored \<Rightarrow> found_in events (cs_address sel) (Lookup_Present anchored)
      | Submit_Record record canon \<Rightarrow>
          found_in events (cs_address sel) Lookup_Absent \<and> own_record_checked sha record events \<and> canonicalize record = Inr canon \<and>
          signed_record sha (cs_createdAt sel) (cs_signer sel) (cs_agreement sel) (cs_listing sel) binding = Inr record)"

lemma commit_decided:
  assumes "commit_decide sha deps pattern sel hist = (Inr (binding, decision), hist')"
  obtains new where "hist' = hist @ new" "agreement_checked sha (cs_agreement sel) new"
    "agreementBinding sha (cs_agreement sel) (cs_listing sel) (cs_authenticated sel) pattern (cs_alternative sel) = Inr binding"
    "decision_grounds sha sel binding decision new"
proof -
  from assms obtain h1 h2 found where v: "verifyAgreementSignatures sha deps (cs_agreement sel) hist = (Inr (), h1)"
    and b: "agreementBinding sha (cs_agreement sel) (cs_listing sel) (cs_authenticated sel) pattern (cs_alternative sel) = Inr binding"
    and r: "resolveCommitment deps (cs_address sel) h1 = (Inr found, h2)"
    and c: "(case found of Some anchored \<Rightarrow> retA (binding, Commitment_Found anchored)
     | None \<Rightarrow>
         bindA (liftA (signed_record sha (cs_createdAt sel) (cs_signer sel) (cs_agreement sel) (cs_listing sel) binding)) (\<lambda>record.
         bindA (verifyCommitmentSignature sha deps record) (\<lambda>_.
         bindA (liftA (canonicalize record)) (\<lambda>submittedCanonical.
         retA (binding, Submit_Record record submittedCanonical))))) h2 = (Inr (binding, decision), hist')"
    unfolding commit_decide_def bindA_Inr liftA_Inr by (auto simp: act_simps split: option.splits)
  obtain bytes n1 where n1: "agreement_bytes sha (cs_agreement sel) = Inr bytes" "h1 = hist @ n1"
    "\<forall>sig \<in> set (elements (dot (cs_agreement sel) ''signatures'')). Signature_Checked (agreement_request bytes sig) (Inr ''valid'') \<in> set n1"
    using agreement_verified [OF v] by blast
  obtain raw where raw: "h2 = h1 @ [Commitment_Resolved (cs_address sel) (Inr raw)]"
    "snapshotLookup raw = Inr (case found of None \<Rightarrow> Lookup_Absent | Some anchored \<Rightarrow> Lookup_Present anchored)"
    using resolved [OF r] by blast
  have signed: "agreement_checked sha (cs_agreement sel) (n1 @ n)" for n using n1 by (simp add: agreement_checked_def list_all_iff)
  show ?thesis
  proof (cases found)
    case (Some anchored)
    then show ?thesis using that [OF _ signed b] c raw n1(2) by (auto simp: act_simps decision_grounds_def found_in_def)
  next
    case None
    then obtain rcd canon h3 where rec: "signed_record sha (cs_createdAt sel) (cs_signer sel) (cs_agreement sel) (cs_listing sel) binding = Inr rcd"
      "verifyCommitmentSignature sha deps rcd h2 = (Inr (), h3)" "canonicalize rcd = Inr canon" "decision = Submit_Record rcd canon" "hist' = h3"
      using c by (auto simp: act_simps)
    from rec(2) obtain h where h: "contentHash sha (entries rcd) = Inr h"
      "h3 = h2 @ [Signature_Checked (record_request ''finality-commitment'' FINALITY_COMMITMENT_SEPARATOR h (dot rcd ''signature'')) (Inr ''valid'')]"
      by (rule record_verified)
    show ?thesis
      by (rule that [OF _ signed b]) (use rec raw n1(2) None h in \<open>auto simp: decision_grounds_def found_in_def own_record_checked_def\<close>)
  qed
qed

lemma submitted_at_most_once:
  assumes "submit_record deps adr record hist = (r, hist')"
  shows "hist' = hist \<and> (\<exists>e. r = Inl e) \<or>
    (\<exists>snap. snapshotCanonicalJson record = Inr snap \<and> hist' = hist @ [Commitment_Submitted adr snap (cd_submit deps hist adr snap)] \<and>
      (\<forall>anchored. r = Inr anchored \<longrightarrow> (\<exists>raw. cd_submit deps hist adr snap = Inr raw \<and> snapshotAnchored raw = Inr anchored)))"
proof (cases "snapshotCanonicalJson record")
  case (Inl e)
  then show ?thesis using assms by (cases e) (auto simp: submit_record_def recastA_def faultA_def bindA_def)
next
  case (Inr snap)
  define rest where "rest = (\<lambda>answer. bindA (recastA Fault_Substrate answer) (\<lambda>raw. recastA Fault_Substrate (snapshotAnchored raw)) :: json commit_act)"
  have run: "rest (cd_submit deps hist adr snap) (hist @ [Commitment_Submitted adr snap (cd_submit deps hist adr snap)]) = (r, hist')"
    using assms by (simp add: submit_record_def Inr rest_def askA_def bindA_def)
  have "emits (\<lambda>_. False) (rest (cd_submit deps hist adr snap))" unfolding rest_def by (intro emits_intros)
  from emitted [OF this run] have "hist' = hist @ [Commitment_Submitted adr snap (cd_submit deps hist adr snap)]"
    by (metis append_Nil2 list.exhaust list.pred_inject(2))
  moreover have "\<exists>raw. cd_submit deps hist adr snap = Inr raw \<and> snapshotAnchored raw = Inr anchored" if "r = Inr anchored" for anchored
    using run that by (auto simp: rest_def act_simps)
  ultimately show ?thesis using Inr by blast
qed

section \<open>The run of a commitment\<close>

lemma captured_input:
  assumes "captureCommitmentBindingInput inp = Inr b"
  shows "cb_agreement b = reparsed (ci_agreement inp)" "cb_verifiedListing b = reparsed (ci_verifiedListing inp)"
    "cb_session b = reparsed (ci_session inp)"
proof -
  let ?doc = "JObj [(''agreement'', ci_agreement inp), (''verifiedListing'', ci_verifiedListing inp), (''session'', ci_session inp)]"
  have plain: "isDataOnlyJson ?doc" and parts: "cb_agreement b = dot (reparsed ?doc) ''agreement''"
    "cb_verifiedListing b = dot (reparsed ?doc) ''verifiedListing''" "cb_session b = dot (reparsed ?doc) ''session''"
    using assms by (auto simp: captureCommitmentBindingInput_def res_simps snapshot_defs snapshot_Inr)
  have "dot (reparsed ?doc) k = reparsed (dot ?doc k)" for k by (rule dot_reparsed [OF plain]) (simp add: distinct_keys_def)
  then show "cb_agreement b = reparsed (ci_agreement inp)" "cb_verifiedListing b = reparsed (ci_verifiedListing inp)"
      "cb_session b = reparsed (ci_session inp)"
    using parts by (simp_all add: dot_def member_of_def)
qed

lemma selected_documents:
  assumes "select_for env pattern agreement verified = Inr (a, l)"
  shows "a = agreement" "l = dot verified ''listing''" "isAgreementArtifact env a" "isListing env l"
  using assms
  by (auto simp: select_for_def selectFixedPriceArtifact_def selectRfqArtifact_def selectAgreementArtifact_def Let_def res_simps
      type_error_def split: if_splits)

lemma selection_input:
  assumes "commit_selected env sha apr pattern inp = Inr sel"
  shows "cs_agreement sel = reparsed (ci_agreement inp)" "cs_listing sel = dot (reparsed (ci_verifiedListing inp)) ''listing''"
    "cs_session sel = reparsed (ci_session inp)" "isAgreementArtifact env (cs_agreement sel)" "isListing env (cs_listing sel)"
    "finalityCommitmentAddress (text_of (dot (cs_agreement sel) ''jobId'')) = Inr (cs_address sel)"
    "JStr (so_signer (cs_signer sel)) = dot (cs_session sel) ''orchestrator''" "cs_signer sel = ci_commitmentSigner inp"
proof -
  from assms obtain b where b: "captureCommitmentBindingInput inp = Inr b" "select_for env pattern (cb_agreement b) (cb_verifiedListing b) = Inr (cs_agreement sel, cs_listing sel)"
    "cs_session sel = cb_session b" "finalityCommitmentAddress (text_of (dot (cs_agreement sel) ''jobId'')) = Inr (cs_address sel)"
    "JStr (so_signer (cs_signer sel)) = dot (cb_session b) ''orchestrator''" "cs_signer sel = ci_commitmentSigner inp"
    by (auto simp: commit_selected_def captureCommitmentInput_def capturedSignerOptions_def res_simps)
  then show "cs_agreement sel = reparsed (ci_agreement inp)" "cs_listing sel = dot (reparsed (ci_verifiedListing inp)) ''listing''"
    "cs_session sel = reparsed (ci_session inp)" "isAgreementArtifact env (cs_agreement sel)" "isListing env (cs_listing sel)"
    "finalityCommitmentAddress (text_of (dot (cs_agreement sel) ''jobId'')) = Inr (cs_address sel)"
    "JStr (so_signer (cs_signer sel)) = dot (cs_session sel) ''orchestrator''" "cs_signer sel = ci_commitmentSigner inp"
    using captured_input [OF b(1)] selected_documents [OF b(2)] by auto
qed

text \<open>The two ways a commitment succeeds: it was found, or it was submitted.\<close>

lemma commit_run:
  assumes "commitAgreementForPattern env sha apr deps pattern inp hist = (Inr result, hist')"
  obtains sel binding anchored sub mid where "commit_selected env sha apr pattern inp = Inr sel"
    "agreementBinding sha (cs_agreement sel) (cs_listing sel) (cs_authenticated sel) pattern (cs_alternative sel) = Inr binding"
    "agreement_checked sha (cs_agreement sel) mid"
    "verifyAnchoredCommitment sha deps (cs_address sel) anchored (cs_session sel) (cs_agreement sel) (cs_listing sel) binding sub (hist @ mid) = (Inr result, hist')"
    "sub = None \<Longrightarrow> list_all (\<lambda>e. \<not> is_submission e) mid"
    "\<And>canon. sub = Some canon \<Longrightarrow> \<exists>rcd pre snap raw. decision_grounds sha sel binding (Submit_Record rcd canon) pre \<and>
       snapshotCanonicalJson rcd = Inr snap \<and> mid = pre @ [Commitment_Submitted (cs_address sel) snap (Inr raw)] \<and> snapshotAnchored raw = Inr anchored"
proof -
  from assms obtain sel binding decision hist1 where sel: "commit_selected env sha apr pattern inp = Inr sel"
    and dec: "commit_decide sha deps pattern sel hist = (Inr (binding, decision), hist1)"
    and rest: "(case decision of
       Commitment_Found anchored \<Rightarrow>
         verifyAnchoredCommitment sha deps (cs_address sel) anchored (cs_session sel) (cs_agreement sel) (cs_listing sel) binding None
     | Submit_Record rcd canon \<Rightarrow>
         bindA (submit_record deps (cs_address sel) rcd) (\<lambda>anchored.
         verifyAnchoredCommitment sha deps (cs_address sel) anchored (cs_session sel) (cs_agreement sel) (cs_listing sel) binding (Some canon)))
       hist1 = (Inr result, hist')"
    unfolding commitAgreementForPattern_def bindA_Inr liftA_Inr by auto
  obtain new where n: "hist1 = hist @ new" "agreement_checked sha (cs_agreement sel) new"
    "agreementBinding sha (cs_agreement sel) (cs_listing sel) (cs_authenticated sel) pattern (cs_alternative sel) = Inr binding"
    "decision_grounds sha sel binding decision new"
    using commit_decided [OF dec] by blast
  have quiet: "list_all (\<lambda>e. \<not> is_submission e) new" using emitted [OF silent_decide dec] n(1) by force
  show ?thesis
  proof (cases decision)
    case (Commitment_Found anchored)
    show ?thesis by (rule that [OF sel n(3,2), of anchored None]) (use rest Commitment_Found n(1) quiet in auto)
  next
    case (Submit_Record rcd canon)
    then obtain anchored hist2 where s: "submit_record deps (cs_address sel) rcd hist1 = (Inr anchored, hist2)"
      and v: "verifyAnchoredCommitment sha deps (cs_address sel) anchored (cs_session sel) (cs_agreement sel) (cs_listing sel) binding (Some canon) hist2 = (Inr result, hist')"
      using rest by (auto simp: act_simps)
    obtain snap raw where r: "snapshotCanonicalJson rcd = Inr snap" "hist2 = hist1 @ [Commitment_Submitted (cs_address sel) snap (Inr raw)]"
        "snapshotAnchored raw = Inr anchored"
      using submitted_at_most_once [OF s] by auto
    have "agreement_checked sha (cs_agreement sel) (new @ [Commitment_Submitted (cs_address sel) snap (Inr raw)])"
      using n(2) by (auto simp: agreement_checked_def list_all_iff split: sum.splits)
    then show ?thesis
      by (rule that [OF sel n(3) _, of _ anchored "Some canon"]) (use v r n(1,4) Submit_Record in auto)
  qed
qed

lemma finalized_reads:
  assumes "isDataOnlyJson (finalized_result adr anchored binding t legacy resumed)"
  shows "dot (reparsed (finalized_result adr anchored binding t legacy resumed)) ''agreementHash'' = JStr (ab_agreementHash binding)"
    "dot (reparsed (finalized_result adr anchored binding t legacy resumed)) ''committedAt'' = int_json t"
    "dot (reparsed (finalized_result adr anchored binding t legacy resumed)) ''record'' = reparsed (dot anchored ''record'')"
proof -
  have "distinct_keys (finalized_result adr anchored binding t legacy resumed)" by (simp add: finalized_result_def distinct_keys_def)
  note d = dot_reparsed [OF assms this]
  show "dot (reparsed (finalized_result adr anchored binding t legacy resumed)) ''agreementHash'' = JStr (ab_agreementHash binding)"
    "dot (reparsed (finalized_result adr anchored binding t legacy resumed)) ''committedAt'' = int_json t"
    "dot (reparsed (finalized_result adr anchored binding t legacy resumed)) ''record'' = reparsed (dot anchored ''record'')"
    unfolding d by (simp_all add: finalized_result_def dot_def int_json_def)
qed

lemma binding_facts:
  assumes "agreementBinding sha agreement listing auth pattern alt = Inr binding"
  shows "contentHash sha (entries agreement) = Inr (ab_agreementHash binding)" "terms_bound sha listing agreement pattern = Inr ()"
    "ab_deadlineSeconds binding = uint_of (dot (dot listing ''terms'') ''deadlineSecAfterCommit'')"
  using assms by (auto simp: agreementBinding_def Let_def res_simps split: prod.splits)

text \<open>The signature of a record was checked: that of the anchored one, or that of the canonically equal one submitted.\<close>

definition record_authorized :: "(string \<Rightarrow> string) \<Rightarrow> json \<Rightarrow> commit_event list \<Rightarrow> bool" where
  "record_authorized sha anchored events \<longleftrightarrow>
     (\<exists>legacy. record_checked sha legacy anchored events) \<or>
     (\<exists>rcd. own_record_checked sha rcd events \<and> canonicalize rcd = canonicalize (dot anchored ''record''))"

lemma record_authorized_run:
  assumes "sub = None \<Longrightarrow> \<exists>h. contentHash sha (entries (dot anchored ''record'')) = Inr h \<and> Signature_Checked (record_check legacy anchored h) (Inr ''valid'') \<in> set new"
    and "\<And>canon. sub = Some canon \<Longrightarrow> \<not> legacy \<and> canonicalize (dot anchored ''record'') = Inr canon"
    and "\<And>canon. sub = Some canon \<Longrightarrow> \<exists>rcd pre snap raw. decision_grounds sha sel binding (Submit_Record rcd canon) pre \<and>
       snapshotCanonicalJson rcd = Inr snap \<and> mid = pre @ [Commitment_Submitted (cs_address sel) snap (Inr raw)] \<and> snapshotAnchored raw = Inr anchored"
  shows "record_authorized sha anchored (mid @ new)"
proof (cases sub)
  case None
  then show ?thesis using assms(1) by (auto simp: record_authorized_def record_checked_def)
next
  case (Some canon)
  then obtain rcd pre where "canonicalize (dot anchored ''record'') = Inr canon" "decision_grounds sha sel binding (Submit_Record rcd canon) pre"
    "set pre \<subseteq> set mid" using assms(2,3) by (metis set_append sup_ge1)
  then have "own_record_checked sha rcd (mid @ new)" "canonicalize rcd = canonicalize (dot anchored ''record'')"
    by (auto simp: decision_grounds_def own_record_checked_def split: sum.splits)
  then show ?thesis by (auto simp: record_authorized_def)
qed

section \<open>Properties\<close>

text \<open>
  Property C32. A finalized commitment stands for an authenticated trade: when the gate returns one, the
  agreement and the listing are well formed, the verifier answered valid for every signature of the
  agreement over its content hash, price, deliverable, rail and payouts are those of the listing, the
  anchored record carries the agreement's hash and was signed by the session's orchestrator with a
  signature the verifier accepted, and the receipt binds that record under the job's address in a
  finalized, proved state. The commitment time is the receipt's block time: it is not after the end of
  the listing's validity, and the agreement's deadline lies at most the listing's
  \<open>deadlineSecAfterCommit\<close> seconds after it. That the block time itself is before the deadline is
  not checked by the gate.
\<close>

theorem finalized_commitment_grounded:
  assumes run: "commitAgreementForPattern env sha apr deps pattern inp hist = (Inr result, hist')"
    and agreement: "agreement = reparsed (ci_agreement inp)" and listing: "listing = dot (reparsed (ci_verifiedListing inp)) ''listing''"
  shows "\<exists>new anchored legacy h t snap. hist' = hist @ new \<and> isAgreementArtifact env agreement \<and> isListing env listing \<and>
    contentHash sha (entries agreement) = Inr h \<and> agreement_checked sha agreement new \<and> terms_bound sha listing agreement pattern = Inr () \<and>
    dot (dot anchored ''record'') ''agreementHash'' = JStr h \<and> record_authorized sha anchored new \<and>
    record_signer legacy anchored = dot (reparsed (ci_session inp)) ''orchestrator'' \<and>
    receipt_binds sha (''dacs3:commit:'' @ text_of (dot agreement ''jobId'')) anchored \<and>
    snapshotCanonicalJson anchored = Inr snap \<and> Receipt_Checked snap (Inr ''valid'') \<in> set new \<and>
    t = uint_of (dot (dot (dot anchored ''anchorReceipt'') ''blockRef'') ''timestamp'') \<and>
    uint_of (dot (dot agreement ''terms'') ''deadline'') \<le> t + uint_of (dot (dot listing ''terms'') ''deadlineSecAfterCommit'') * 1000 \<and>
    (dot (dot listing ''validity'') ''notAfter'' = JUndefined \<or> t \<le> uint_of (dot (dot listing ''validity'') ''notAfter'')) \<and>
    dot result ''agreementHash'' = JStr h \<and> dot result ''committedAt'' = int_json t \<and> dot result ''record'' = reparsed (dot anchored ''record'')"
proof (rule commit_run [OF run])
  fix sel binding anchored sub mid
  assume sel: "commit_selected env sha apr pattern inp = Inr sel"
    and bind: "agreementBinding sha (cs_agreement sel) (cs_listing sel) (cs_authenticated sel) pattern (cs_alternative sel) = Inr binding"
    and signed: "agreement_checked sha (cs_agreement sel) mid"
    and ver: "verifyAnchoredCommitment sha deps (cs_address sel) anchored (cs_session sel) (cs_agreement sel) (cs_listing sel) binding sub (hist @ mid) = (Inr result, hist')"
    and grounds: "\<And>canon. sub = Some canon \<Longrightarrow> \<exists>rcd pre snap raw. decision_grounds sha sel binding (Submit_Record rcd canon) pre \<and>
       snapshotCanonicalJson rcd = Inr snap \<and> mid = pre @ [Commitment_Submitted (cs_address sel) snap (Inr raw)] \<and> snapshotAnchored raw = Inr anchored"
  note si = selection_input [OF sel, folded agreement listing] and bf = binding_facts [OF bind]
  show ?thesis
  proof (rule anchored_verified [OF ver])
    fix legacy t new snap
    assume a: "anchored_fits sha (cs_address sel) anchored sel binding legacy t" "hist' = (hist @ mid) @ new"
      "result = reparsed (finalized_result (cs_address sel) anchored binding t legacy (sub = None))"
      "isDataOnlyJson (finalized_result (cs_address sel) anchored binding t legacy (sub = None))"
      "snapshotCanonicalJson (finalized_result (cs_address sel) anchored binding t legacy (sub = None)) = Inr result"
      "snapshotCanonicalJson anchored = Inr snap" "Receipt_Checked snap (Inr ''valid'') \<in> set new"
      and c: "sub = None \<Longrightarrow> \<exists>h. contentHash sha (entries (dot anchored ''record'')) = Inr h \<and> Signature_Checked (record_check legacy anchored h) (Inr ''valid'') \<in> set new"
        "\<And>s. sub = Some s \<Longrightarrow> \<not> legacy \<and> canonicalize (dot anchored ''record'') = Inr s"
    have auth: "record_authorized sha anchored (mid @ new)" by (rule record_authorized_run [OF c grounds])
    have "agreement_checked sha agreement (mid @ new)"
      using signed si(1) by (auto simp: agreement_checked_def list_all_iff split: sum.splits)
    moreover have "cs_address sel = ''dacs3:commit:'' @ text_of (dot agreement ''jobId'')"
      using si(6) by (auto simp: si(1) finalityCommitmentAddress_def requireCanonicalJobId_def res_simps)
    moreover have "recordMatchesBinding (dot anchored ''record'') agreement binding" "record_signer legacy anchored = dot (cs_session sel) ''orchestrator''"
      "receipt_binds sha (cs_address sel) anchored" "t = uint_of (dot (dot (dot anchored ''anchorReceipt'') ''blockRef'') ''timestamp'')"
      "deadline_limit_ok t agreement (ab_deadlineSeconds binding)"
      "dot (dot listing ''validity'') ''notAfter'' = JUndefined \<or> t \<le> uint_of (dot (dot listing ''validity'') ''notAfter'')"
      using a(1) si(1,2) by (auto simp: anchored_fits_def validateAuthoritativeTime_def res_simps)
    ultimately show ?thesis
      using auth a(2,6,7) bf si finalized_reads [OF a(4), folded a(3)]
      by (intro exI [of _ "mid @ new"] exI [of _ anchored] exI [of _ legacy] exI [of _ "ab_agreementHash binding"] exI [of _ t] exI [of _ snap])
        (simp add: recordMatchesBinding_def deadline_limit_ok_def)
  qed
qed

text \<open>A list has one element of \<open>P\<close>: splitting at it is unique.\<close>

lemma unique_split:
  assumes "pre @ x # post = xs @ y # ys" "list_all (\<lambda>e. \<not> P e) xs" "list_all (\<lambda>e. \<not> P e) ys" "P x"
  shows "pre = xs \<and> x = y \<and> post = ys"
proof -
  have out: "x \<notin> set xs" "x \<notin> set ys" using assms(2-4) by (auto simp: list_all_iff)
  then have "x = y" using arg_cong [OF assms(1), of set] by auto
  then show ?thesis using append_Cons_eq_iff [of x xs ys pre post] out assms(1) by auto
qed

text \<open>How a run ends: without a submission, or after exactly one.\<close>

lemma commit_outcome:
  assumes run: "commitAgreementForPattern env sha apr deps pattern inp hist = (r, hist')"
  obtains (quiet) n where "hist' = hist @ n" "list_all (\<lambda>e. \<not> is_submission e) n"
  | (submitted) sel binding rcd canon n1 snap ans n2 s where "commit_selected env sha apr pattern inp = Inr sel"
    "commit_decide sha deps pattern sel hist = (Inr (binding, Submit_Record rcd canon), hist @ n1)" "list_all (\<lambda>e. \<not> is_submission e) n1"
    "snapshotCanonicalJson rcd = Inr snap" "hist' = hist @ n1 @ Commitment_Submitted (cs_address sel) snap ans # n2" "list_all (\<lambda>e. \<not> is_submission e) n2"
    "submit_record deps (cs_address sel) rcd (hist @ n1) = (s, hist @ n1 @ [Commitment_Submitted (cs_address sel) snap ans])"
    "(case s of Inl e \<Rightarrow> r = Inl e
      | Inr anchored \<Rightarrow> verifyAnchoredCommitment sha deps (cs_address sel) anchored (cs_session sel) (cs_agreement sel) (cs_listing sel) binding
          (Some canon) (hist @ n1 @ [Commitment_Submitted (cs_address sel) snap ans]) = (r, hist'))"
proof (cases "commit_selected env sha apr pattern inp")
  case (Inl e)
  then have "hist' = hist" using run by (cases e) (simp_all add: commitAgreementForPattern_def liftA_def faultA_def)
  then show ?thesis using quiet by simp
next
  case sel: (Inr sel)
  let ?anchor = "\<lambda>anchored binding sub. verifyAnchoredCommitment sha deps (cs_address sel) anchored (cs_session sel) (cs_agreement sel) (cs_listing sel) binding sub"
  obtain d hist1 where dec: "commit_decide sha deps pattern sel hist = (d, hist1)" by (meson surj_pair)
  obtain n1 where n1: "hist1 = hist @ n1" "list_all (\<lambda>e. \<not> is_submission e) n1" using emitted [OF silent_decide dec] by blast
  note run' = run [unfolded commitAgreementForPattern_def, simplified sel bindA_simps]
  show ?thesis
  proof (cases d)
    case (Inl e)
    then show ?thesis using run' dec quiet [of n1] n1 by (auto simp: bindA_fault)
  next
    case (Inr bd)
    show ?thesis
    proof (cases "snd bd")
      case (Commitment_Found anchored)
      then have "?anchor anchored (fst bd) None hist1 = (r, hist')" using run' dec Inr by (cases bd) (simp add: bindA_run)
      then obtain n where "hist' = hist1 @ n" "list_all (\<lambda>e. \<not> is_submission e) n" by (rule emitted [OF silent_anchored])
      then show ?thesis using quiet [of "n1 @ n"] n1 by simp
    next
      case (Submit_Record rcd canon)
      then have d: "d = Inr (fst bd, Submit_Record rcd canon)" using Inr by (cases bd) simp
      obtain s hist2 where s: "submit_record deps (cs_address sel) rcd hist1 = (s, hist2)" by (meson surj_pair)
      have rest: "(case s of Inl e \<Rightarrow> (Inl e, hist2) | Inr anchored \<Rightarrow> ?anchor anchored (fst bd) (Some canon) hist2) = (r, hist')"
        using run' dec s by (simp add: bindA_run d) (auto simp: bindA_def split: sum.splits)
      obtain n2 where n2: "hist' = hist2 @ n2" "list_all (\<lambda>e. \<not> is_submission e) n2"
        using rest emitted [OF silent_anchored] by (cases s) (auto, metis)
      from submitted_at_most_once [OF s] show ?thesis
      proof
        assume "hist2 = hist1 \<and> (\<exists>e. s = Inl e)"
        then show ?thesis using quiet [of "n1 @ n2"] n1 n2 by simp
      next
        assume "\<exists>snap. snapshotCanonicalJson rcd = Inr snap \<and> hist2 = hist1 @ [Commitment_Submitted (cs_address sel) snap (cd_submit deps hist1 (cs_address sel) snap)] \<and>
          (\<forall>anchored. s = Inr anchored \<longrightarrow> (\<exists>raw. cd_submit deps hist1 (cs_address sel) snap = Inr raw \<and> snapshotAnchored raw = Inr anchored))"
        then obtain snap where snap: "snapshotCanonicalJson rcd = Inr snap"
          "hist2 = hist1 @ [Commitment_Submitted (cs_address sel) snap (cd_submit deps hist1 (cs_address sel) snap)]" by blast
        show ?thesis
          by (rule submitted [OF sel _ n1(2) snap(1) _ n2(2), of "fst bd" canon "cd_submit deps hist1 (cs_address sel) snap" s])
            (use dec d n1(1) n2(1) snap(2) s rest in \<open>auto split: sum.splits\<close>)
      qed
    qed
  qed
qed

text \<open>
  Property C31. The gate submits at most one record, and only with authority: in whatever way a run ends, before the
  submission the lookup at the job's address answered authoritative absence, the verifier
  answered valid for every signature of the agreement and for the signature of the submitted record
  itself, and the record is the one built from the bound agreement within the listing's validity;
  no other submission occurs before or after it.
\<close>

theorem submission_needs_authority:
  assumes run: "commitAgreementForPattern env sha apr deps pattern inp hist = (r, hist')"
    and event: "hist' = hist @ pre @ Commitment_Submitted adr doc ans # post"
  shows "list_all (\<lambda>e. \<not> is_submission e) (pre @ post) \<and>
    (\<exists>sel binding rcd. commit_selected env sha apr pattern inp = Inr sel \<and> adr = cs_address sel \<and>
      agreement_checked sha (cs_agreement sel) pre \<and> found_in pre adr Lookup_Absent \<and> own_record_checked sha rcd pre \<and>
      agreementBinding sha (cs_agreement sel) (cs_listing sel) (cs_authenticated sel) pattern (cs_alternative sel) = Inr binding \<and>
      signed_record sha (cs_createdAt sel) (cs_signer sel) (cs_agreement sel) (cs_listing sel) binding = Inr rcd \<and>
      snapshotCanonicalJson rcd = Inr doc)"
  using run
proof (cases rule: commit_outcome)
  case (quiet n)
  then have "n = pre @ Commitment_Submitted adr doc ans # post" using event by simp
  then show ?thesis using quiet(2) by simp
next
  case (submitted sel binding rcd canon n1 snap ans' n2 s)
  have "pre = n1 \<and> Commitment_Submitted adr doc ans = Commitment_Submitted (cs_address sel) snap ans' \<and> post = n2"
    by (rule unique_split [where P = is_submission]) (use event submitted(3,5,6) in auto)
  moreover obtain new where "hist @ n1 = hist @ new" "agreement_checked sha (cs_agreement sel) new"
    "agreementBinding sha (cs_agreement sel) (cs_listing sel) (cs_authenticated sel) pattern (cs_alternative sel) = Inr binding"
    "decision_grounds sha sel binding (Submit_Record rcd canon) new"
    using commit_decided [OF submitted(2)] by blast
  ultimately show ?thesis using submitted(1,3,4,6) by (auto simp: decision_grounds_def)
qed

end
