(* ===== verification/Dacs_Commitment_Faults.thy ===== *)
theory Dacs_Commitment_Faults
  imports Dacs_Commitment_Props
begin

text \<open>
  Whom a fault of the commitment gate blames. A verifier that calls a signature invalid, or gives no
  definite answer, is in the log of the calls. Three more things can end the gate with a fault that is
  not the SDK's own permanent one: the caller's signer throws, the authority of alternative payments
  throws, or a member of a missing document is read.
\<close>

section \<open>Results that throw only the SDK's own error\<close>

lemma own_case_json_texts [own_intros]:
  "(\<And>q u. own (f q u)) \<Longrightarrow> own g \<Longrightarrow> own (case (a, b) of (JStr q, JStr u) \<Rightarrow> f q u | _ \<Rightarrow> g)"
  by (auto split: json.splits)

lemma own_amount [own_intros]:
  "own (canonicalizeDecimal t)" "own (canonNumber n)" "own k \<Longrightarrow> own (requirePositiveCanonicalAmount t k)"
  by (auto simp: canonicalizeDecimal_def canonNumber_def requirePositiveCanonicalAmount_def Let_def intro!: own_intros split: jsnumber.splits)

lemma own_decimal [own_intros]:
  "own (multiplyCanonicalDecimal a b)" "own (compareDecimal a b)" "own (roundedBandAmount a n down)"
  unfolding multiplyCanonicalDecimal_def compareDecimal_def roundedBandAmount_def rfq_decimalParts_def numberAsPlainDecimal_def
    canonicalAmountFromUnits_def Let_def
  by (intro own_intros)+

lemma own_price [own_intros]: "own (deriveRfqPriceBand p)" "own (deriveMeteredPriceTerm p q)"
  by (auto simp: deriveRfqPriceBand_def deriveMeteredPriceTerm_def Let_def intro!: own_intros split: pricing.splits option.splits)

lemma own_proposal [own_intros]: "own (validateRfqProposal p pricing)"
  by (auto simp: validateRfqProposal_def intro!: own_intros split: pricing.splits)

lemma own_terms [own_intros]: "own (terms_bound sha listing agreement pattern)"
  unfolding terms_bound_def validatePricingBinding_def rfq_price_binding_def metered_price_binding_def Let_def
    expectedDeliverable_def deliverable_ref_def validateRailAndPayoutCoverage_def rail_agrees_def expected_payouts_def
  by (intro own_intros)

lemma own_binding [own_intros]: "own (agreementBinding sha agreement listing auth pattern alt)"
  unfolding agreementBinding_def Let_def by (intro own_intros)

lemma own_capture [own_intros]:
  "own (captureRfqSession env sha inp)" "own (captureCommitmentInput inp)" "own (finalityCommitmentAddress j)" "own (requireCanonicalJobId j)"
  unfolding captureRfqSession_def captureCommitmentInput_def capturedSignerOptions_def captureCommitmentBindingInput_def
    assertSessionBinding_def finalityCommitmentAddress_def requireCanonicalJobId_def
  by (intro own_intros)+

lemma own_parts [own_intros]:
  "own (agreement_bytes sha a)" "own (is_legacy_record anchored)" "own (validateAuthoritativeTime t a l b)"
  "own (validateProvisionalTime t a l b)" "own (listing_pin_of sha l)" "own (selects_pipeline p a l)" "own (validateRfqSessionBinding s inp a l)"
  unfolding agreement_bytes_def is_legacy_record_def validateAuthoritativeTime_def validateProvisionalTime_def listing_pin_of_def
    selects_pipeline_def validateRfqSessionBinding_def Let_def
  by (auto intro!: own_intros split: list.splits option.splits)

lemma own_encoded [own_intros]: "own (encodedSignatureValue v)"
  by (auto simp: encodedSignatureValue_def Let_def intro!: own_intros split: signer_value.splits)

section \<open>What is thrown, and when\<close>

text \<open>The signer throws over the bytes of a commitment record.\<close>

definition signer_throws :: "fault_category \<Rightarrow> signer_options \<Rightarrow> bool" where
  "signer_throws c opts \<longleftrightarrow>
     (\<exists>h m. so_sign opts (signedBytes FINALITY_COMMITMENT_SEPARATOR h) (signing_context opts) = Inl (Thrown c m))"

definition authority_throws :: "fault_category \<Rightarrow> apr_authority \<Rightarrow> json \<Rightarrow> json \<Rightarrow> json \<Rightarrow> bool" where
  "authority_throws c apr authority agreement listing \<longleftrightarrow> (\<exists>m. apr authority agreement listing = Inl (Thrown c m))"

text \<open>The agreement, the verified listing or its pin is \<^verbatim>\<open>null\<close> or \<^verbatim>\<open>undefined\<close>.\<close>

definition document_missing :: "json \<Rightarrow> json \<Rightarrow> bool" where
  "document_missing agreement verified \<longleftrightarrow> nullish agreement \<or> nullish verified \<or> nullish (dot verified ''pin'')"

definition foreign_cause :: "fault_category \<Rightarrow> apr_authority \<Rightarrow> commitment_input \<Rightarrow> bool" where
  "foreign_cause c apr inp \<longleftrightarrow>
     (let agreement = reparsed (ci_agreement inp); verified = reparsed (ci_verifiedListing inp) in
      signer_throws c (ci_commitmentSigner inp) \<or>
      authority_throws c apr (ci_alternativePayment inp) agreement (dot verified ''listing'') \<or>
      c = Fault_Transient \<and> document_missing agreement verified)"

lemma throws_signed_record: "throws_on c (signer_throws c opts) (signed_record sha t opts a l b)"
proof -
  have sign: "throws_on c (signer_throws c opts) (so_sign opts (signedBytes FINALITY_COMMITMENT_SEPARATOR h) (signing_context opts))" for h
    by (auto simp: throws_on_def signer_throws_def)
  have build: "throws_on c (signer_throws c opts) (buildComponentSignatureFromSnapshot sha kvs FINALITY_COMMITMENT_SEPARATOR opts)" for kvs
    unfolding buildComponentSignatureFromSnapshot_def assertUnsignedComponentArtifact_def Let_def
    by (intro throws_intros sign throws_own own_intros)
  have captured: "captured = opts" if "captureComponentSignatureOptions opts = Inr captured" for captured
    using that by (simp add: captureComponentSignatureOptions_def res_simps)
  have own: "own (captureComponentSignatureOptions opts)" unfolding captureComponentSignatureOptions_def by (intro own_intros)
  have "throws_on c (signer_throws c opts) (signComponentArtifact sha d FINALITY_COMMITMENT_SEPARATOR opts)" for d
    unfolding signComponentArtifact_def
    by (intro throws_bindR [OF throws_own [OF own]] throws_bindR) (auto dest!: captured intro: build throws_own own_intros)
  then show ?thesis unfolding signed_record_def Let_def by (intro throws_intros) (auto intro: throws_own own_intros)
qed

lemma throws_select:
  "throws_on c (c = Fault_Transient \<and> document_missing agreement verified) (select_for env pattern agreement verified)"
  unfolding select_for_def selectFixedPriceArtifact_def selectRfqArtifact_def selectAgreementArtifact_def Let_def if_False
  by (intro throws_intros) (auto simp: document_missing_def intro: throws_own own_intros)

lemma throws_session:
  "throws_on c (c = Fault_Transient \<and> document_missing agreement (cb_verifiedListing inp))
     (validateAuthenticatedSessionBinding env sha inp agreement listing)"
  unfolding validateAuthenticatedSessionBinding_def Let_def
  by (intro throws_intros throws_own [OF own_parts(5)])
    (auto simp: document_missing_def intro!: throws_intros throws_own own_intros split: option.splits)

lemma throws_authority:
  "throws_on c (authority_throws c apr authority agreement listing) (establishAlternativePaymentAuthority apr agreement listing authority)"
  unfolding establishAlternativePaymentAuthority_def
  by (intro throws_intros) (auto simp: throws_on_def authority_throws_def)

lemma throws_mono: "throws_on c G r \<Longrightarrow> (G \<Longrightarrow> H) \<Longrightarrow> throws_on c H r"
  by (auto simp: throws_on_def)

lemma throws_selected: "throws_on c (foreign_cause c apr inp) (commit_selected env sha apr pattern inp)"
proof -
  have rfq: "own (if pattern = ''rfq'' then map_sum id Some (captureRfqSession env sha inp) else Inr None)"
    using own_capture(1) [of env sha inp] by (cases "captureRfqSession env sha inp") (auto simp: own_def)
  have "throws_on c (foreign_cause c apr inp) (select_for env pattern (cb_agreement b) (cb_verifiedListing b))"
    "select_for env pattern (cb_agreement b) (cb_verifiedListing b) = Inr (a, l) \<Longrightarrow>
       throws_on c (foreign_cause c apr inp) (establishAlternativePaymentAuthority apr a l (ci_alternativePayment inp))"
    "select_for env pattern (cb_agreement b) (cb_verifiedListing b) = Inr (a, l) \<Longrightarrow>
       throws_on c (foreign_cause c apr inp) (validateAuthenticatedSessionBinding env sha b a l)"
    if "captureCommitmentInput inp = Inr (b, t, s)" for b t s a l
  proof -
    from that have "captureCommitmentBindingInput inp = Inr b" by (auto simp: captureCommitmentInput_def res_simps)
    note b = captured_input [OF this]
    show "throws_on c (foreign_cause c apr inp) (select_for env pattern (cb_agreement b) (cb_verifiedListing b))"
      by (rule throws_mono [OF throws_select]) (simp add: foreign_cause_def b Let_def)
    assume sel: "select_for env pattern (cb_agreement b) (cb_verifiedListing b) = Inr (a, l)"
    show "throws_on c (foreign_cause c apr inp) (establishAlternativePaymentAuthority apr a l (ci_alternativePayment inp))"
      by (rule throws_mono [OF throws_authority]) (simp add: foreign_cause_def b selected_documents [OF sel] Let_def)
    show "throws_on c (foreign_cause c apr inp) (validateAuthenticatedSessionBinding env sha b a l)"
      by (rule throws_mono [OF throws_session]) (simp add: foreign_cause_def b selected_documents [OF sel] Let_def)
  qed
  note part = this
  show ?thesis
    unfolding commit_selected_def
    by (intro throws_bindR [OF throws_own [OF rfq]] throws_bindR [OF throws_own [OF own_capture(2)]] throws_case_prod)
      (auto intro!: throws_intros part intro: throws_own own_intros split: option.splits)
qed

section \<open>Faults of the gate\<close>

fun invalid_signature :: "commit_event \<Rightarrow> bool" where
  "invalid_signature (Signature_Checked q (Inr d)) = (d = ''invalid'')"
| "invalid_signature _ = False"

text \<open>A verification that gave no definite answer.\<close>

fun uncertain_signature :: "commit_event \<Rightarrow> bool" where
  "uncertain_signature (Signature_Checked q (Inr d)) = (d = ''indeterminate'' \<or> d = ''error'')"
| "uncertain_signature (Signature_Checked q (Inl e)) = True"
| "uncertain_signature _ = False"

definition fault_ground :: "fault_category \<Rightarrow> commit_event \<Rightarrow> bool" where
  "fault_ground c e = (if c = Fault_Counterparty then invalid_signature e else uncertain_signature e)"

lemma requireSignature_run:
  "requireSignature deps q hist =
     (case cd_verifySignature deps hist q of
        Inl _ \<Rightarrow> faultA Fault_Transient ''signature verification is uncertain because the verifier threw''
      | Inr disposition \<Rightarrow>
         if disposition = ''valid'' then retA ()
         else if disposition = ''invalid'' then faultA Fault_Counterparty ''signature is not verified (invalid)''
         else if disposition = ''indeterminate'' \<or> disposition = ''error''
         then faultA Fault_Transient ''signature verification is uncertain''
         else faultA Fault_Permanent ''signature verifier returned an invalid disposition'') (hist @ [Signature_Checked q (cd_verifySignature deps hist q)])"
  by (simp add: requireSignature_def bindA_def askA_def)

lemma blames_requireSignature:
  assumes "c = Fault_Counterparty \<or> c = Fault_Transient"
  shows "blames c G (fault_ground c) (requireSignature deps q)"
  unfolding blames_def requireSignature_run
proof (intro allI impI disjI2)
  fix hist msg hist'
  let ?ans = "cd_verifySignature deps hist q"
  assume r: "(case ?ans of
        Inl _ \<Rightarrow> faultA Fault_Transient ''signature verification is uncertain because the verifier threw''
      | Inr disposition \<Rightarrow>
         if disposition = ''valid'' then retA ()
         else if disposition = ''invalid'' then faultA Fault_Counterparty ''signature is not verified (invalid)''
         else if disposition = ''indeterminate'' \<or> disposition = ''error''
         then faultA Fault_Transient ''signature verification is uncertain''
         else faultA Fault_Permanent ''signature verifier returned an invalid disposition'') (hist @ [Signature_Checked q ?ans]) = (Inl (Fault c msg), hist')"
  have "hist' = hist @ [Signature_Checked q ?ans] \<and> fault_ground c (Signature_Checked q ?ans)"
    using r assms by (cases ?ans) (auto simp: faultA_def retA_def fault_ground_def split: if_splits)
  then show "\<exists>evs. hist' = hist @ evs \<and> list_ex (fault_ground c) evs" by auto
qed

lemma blames_parts:
  assumes c: "c = Fault_Counterparty \<or> c = Fault_Transient"
  shows "blames c G (fault_ground c) (verifyAgreementSignatures sha deps agr)" "blames c G (fault_ground c) (verifyCommitmentSignature sha deps r)"
    "blames c G (fault_ground c) (verifyLegacyCommitmentSignature sha deps r s)" "blames c G (fault_ground c) (resolveCommitment deps a)"
    "blames c G P (finalizedReceiptTime sha deps a x)" "blames c G P (submit_record deps a r)"
proof -
  note sig = blames_requireSignature [OF c]
  have k: "Fault_Permanent \<noteq> c" "Fault_Substrate \<noteq> c" using c by auto
  note step = blames_bindA [OF emits_liftA(1) [where P = "\<lambda>_. True"]] blames_bindA [OF emits_liftA(2) [where P = "\<lambda>_. True"]]
    blames_bindA [OF emits_askA [where P = "\<lambda>_. True"]] blames_liftA_own blames_recastA blames_askA blames_faultA blames_retA blames_ensureA k own_intros
  show "blames c G (fault_ground c) (verifyAgreementSignatures sha deps agr)"
    unfolding verifyAgreementSignatures_def by (intro step blames_forA [OF silent_requireSignature sig])
  show "blames c G (fault_ground c) (verifyCommitmentSignature sha deps r)" "blames c G (fault_ground c) (verifyLegacyCommitmentSignature sha deps r s)"
    unfolding verifyCommitmentSignature_def verifyLegacyCommitmentSignature_def by (intro step sig)+
  show "blames c G (fault_ground c) (resolveCommitment deps a)"
    unfolding resolveCommitment_def by (auto intro!: step split: commitment_lookup.splits)
  show "blames c G P (finalizedReceiptTime sha deps a x)"
    unfolding finalizedReceiptTime_def by (auto intro!: step split: sum.splits)
  show "blames c G P (submit_record deps a r)"
    unfolding submit_record_def by (auto intro!: step)
qed

lemma blames_anchored:
  assumes c: "c = Fault_Counterparty \<or> c = Fault_Transient"
  shows "blames c G (fault_ground c) (verifyAnchoredCommitment sha deps a x s agr l b sub)"
proof -
  have k: "Fault_Permanent \<noteq> c" using c by auto
  show ?thesis
    unfolding verifyAnchoredCommitment_def Let_def
    by (intro blames_ensureA k blames_bindA [OF emits_liftA(1) [where P = "\<lambda>_. True"]] blames_bindA [OF silent_receipt]
        blames_bindA [where Q = "\<lambda>e. \<not> is_submission e"] blames_liftA_own blames_If blames_parts [OF c] blames_retA emits_intros own_intros)
qed

lemma blames_commit:
  assumes c: "c = Fault_Counterparty \<or> c = Fault_Transient"
  shows "blames c (foreign_cause c apr inp) (fault_ground c) (commitAgreementForPattern env sha apr deps pattern inp)"
proof -
  let ?G = "foreign_cause c apr inp"
  have k: "Fault_Permanent \<noteq> c" using c by auto
  have sign: "blames c ?G (fault_ground c) (liftA (signed_record sha (cs_createdAt sel) (cs_signer sel) (cs_agreement sel) (cs_listing sel) b))"
    if "commit_selected env sha apr pattern inp = Inr sel" for sel b
    by (rule blames_liftA [OF k throws_mono [OF throws_signed_record]])
      (simp add: foreign_cause_def selection_input(8) [OF that] Let_def)
  have dec: "blames c ?G (fault_ground c) (commit_decide sha deps pattern sel)" if "commit_selected env sha apr pattern inp = Inr sel" for sel
    unfolding commit_decide_def
    by (auto intro!: k blames_bindA [OF emits_liftA(1) [where P = "\<lambda>_. True"]] blames_bindA [OF silent_agreement] blames_bindA [OF silent_resolve]
        blames_bindA [OF silent_record(1)] sign [OF that] blames_liftA_own blames_retA blames_parts [OF c] own_intros split: option.splits)
  have emit: "emits (\<lambda>_. True) (submit_record deps a r)" for a r unfolding submit_record_def by (intro emits_intros) simp
  have sel: "blames c ?G (fault_ground c) (liftA (commit_selected env sha apr pattern inp))"
    by (rule blames_liftA [OF k throws_selected])
  show ?thesis
    unfolding commitAgreementForPattern_def
    by (rule blames_bindA [OF emits_liftA(1) [where P = "\<lambda>_. True"] sel])
      (auto simp: act_simps intro!: blames_bindA [OF silent_decide] blames_bindA [OF emit] dec blames_parts [OF c] blames_anchored [OF c]
        split: prod.splits commit_decision.splits)
qed

text \<open>After the submission no signature is asked for and nobody signs, so no fault of these categories arises.\<close>

lemma blameless: "blames c False (\<lambda>_. False) m \<Longrightarrow> m hist \<noteq> (Inl (Fault c msg), hist')"
  unfolding blames_def by (auto simp: list_ex_iff)

lemma submitted_blameless:
  assumes c: "c = Fault_Counterparty \<or> c = Fault_Transient"
  shows "submit_record deps a r hist \<noteq> (Inl (Fault c msg), hist')"
    "verifyAnchoredCommitment sha deps a x s agr l b (Some canon) hist \<noteq> (Inl (Fault c msg), hist')"
proof -
  have k: "Fault_Permanent \<noteq> c" using c by auto
  show "submit_record deps a r hist \<noteq> (Inl (Fault c msg), hist')" by (rule blameless [OF blames_parts(6) [OF c]])
  have leg: "blames c False (\<lambda>_. False) (ensureA (\<not> legacy \<and> p) Fault_Permanent m
      (ensureA q Fault_Permanent m' (bindA (if legacy then y else if Some canon = None then z else retA ()) f)))"
    if "\<And>u. blames c False (\<lambda>_. False) (f u)" for legacy p q m m' y z and f :: "unit \<Rightarrow> json commit_act"
    by (cases legacy) (use that k in \<open>simp_all add: blames_ensureA blames_faultA\<close>)
  have "blames c False (\<lambda>_. False) (verifyAnchoredCommitment sha deps a x s agr l b (Some canon))"
    unfolding verifyAnchoredCommitment_def Let_def option.case
    by (intro blames_bindA [OF emits_liftA(1) [where P = "\<lambda>_. True"]] blames_ensureA [OF k] blames_liftA_own [OF k] leg
        blames_bindA [OF silent_receipt] blames_parts(5) [OF c] own_intros)
  then show "verifyAnchoredCommitment sha deps a x s agr l b (Some canon) hist \<noteq> (Inl (Fault c msg), hist')" by (rule blameless)
qed

text \<open>
  Property C34. Nobody is blamed without a ground: the gate reports a fault of the counterparty only when
  the verifier called one of the signatures invalid, and a transient fault only when a verification
  threw or stayed undecided, unless the fault came from outside the gate: the caller's own
  signer, asked to sign a commitment record, threw an error of that category, the authority of
  alternative payments threw one for this agreement and listing, or, for a transient fault, the agreement, the verified
  listing or its pin is missing. In every case nothing was submitted, so the call can be repeated.
\<close>

theorem commitment_faults_grounded:
  assumes run: "commitAgreementForPattern env sha apr deps pattern inp hist = (Inl (Fault c msg), hist')"
    and c: "c = Fault_Counterparty \<or> c = Fault_Transient"
  shows "\<exists>new. hist' = hist @ new \<and> \<not> list_ex is_submission new \<and>
    (list_ex (if c = Fault_Counterparty then invalid_signature else uncertain_signature) new \<or> foreign_cause c apr inp)"
proof -
  have quiet: "\<exists>new. hist' = hist @ new \<and> \<not> list_ex is_submission new"
    using run
  proof (cases rule: commit_outcome)
    case (quiet n)
    then show ?thesis by (auto simp: list_all_iff list_ex_iff)
  next
    case (submitted sel binding rcd canon n1 snap ans n2 s)
    show ?thesis
    proof (cases s)
      case (Inl e)
      then show ?thesis using submitted(7,8) submitted_blameless(1) [OF c] by auto
    next
      case (Inr anchored)
      then show ?thesis using submitted(8) submitted_blameless(2) [OF c] by auto
    qed
  qed
  moreover have "foreign_cause c apr inp \<or> (\<exists>evs. hist' = hist @ evs \<and> list_ex (fault_ground c) evs)"
    using blames_commit [OF c] run unfolding blames_def by blast
  moreover have "fault_ground c = (if c = Fault_Counterparty then invalid_signature else uncertain_signature)"
    by (auto simp: fault_ground_def fun_eq_iff)
  ultimately show ?thesis by auto
qed

end
