(* ===== verification/Dacs_Commitment_Runs.thy ===== *)
theory Dacs_Commitment_Runs
  imports Dacs_Commitment_Faults
begin

text \<open>
  Runs of the commitment gate: the sample trade is committed, a repeated call finds the record that the
  first one submitted, and what the derivation of an agreement produces passes the binding verifier.
\<close>

section \<open>Callees that answer\<close>

text \<open>The verifiers accept whatever they are asked; the lookup gives one answer.\<close>

definition accepting :: "commit_deps \<Rightarrow> json \<Rightarrow> bool" where
  "accepting deps lookup \<longleftrightarrow>
     (\<forall>hist q. cd_verifySignature deps hist q = Inr ''valid'') \<and> (\<forall>hist a. cd_verifyAnchorReceipt deps hist a = Inr ''valid'') \<and>
     (\<forall>hist a. cd_resolve deps hist a = Inr lookup)"

lemma accepting_signature:
  "accepting deps lookup \<Longrightarrow> requireSignature deps q hist = (Inr (), hist @ [Signature_Checked q (Inr ''valid'')])"
  by (simp add: requireSignature_run accepting_def retA_def)

lemma accepting_loop:
  "accepting deps lookup \<Longrightarrow>
     forA (\<lambda>x. requireSignature deps (f x)) xs hist = (Inr (), hist @ map (\<lambda>x. Signature_Checked (f x) (Inr ''valid'')) xs)"
  by (induction xs arbitrary: hist) (simp_all add: retA_def bindA_def accepting_signature)

lemma accepting_agreement:
  assumes "accepting deps lookup" "agreement_bytes sha a = Inr bytes"
  shows "verifyAgreementSignatures sha deps a hist =
    (Inr (), hist @ map (\<lambda>sig. Signature_Checked (agreement_request bytes sig) (Inr ''valid'')) (elements (dot a ''signatures'')))"
  using assms by (simp add: verifyAgreementSignatures_def accepting_loop)

lemma accepting_record:
  assumes "accepting deps lookup" "contentHash sha (entries r) = Inr h"
  shows "verifyCommitmentSignature sha deps r hist =
    (Inr (), hist @ [Signature_Checked (record_request ''finality-commitment'' FINALITY_COMMITMENT_SEPARATOR h (dot r ''signature'')) (Inr ''valid'')])"
  using assms by (simp add: verifyCommitmentSignature_def accepting_signature)

lemma accepting_receipt:
  assumes "accepting deps lookup" "receipt_binds sha adr anchored" "snapshotCanonicalJson anchored = Inr snap"
  shows "finalizedReceiptTime sha deps adr anchored hist =
    (Inr (uint_of (dot (dot (dot anchored ''anchorReceipt'') ''blockRef'') ''timestamp'')), hist @ [Receipt_Checked snap (Inr ''valid'')])"
  using assms by (simp add: finalizedReceiptTime_def accepting_def bindA_def askA_def retA_def)

lemma accepting_resolve:
  assumes "accepting deps lookup" "snapshotLookup lookup = Inr (case found of None \<Rightarrow> Lookup_Absent | Some a \<Rightarrow> Lookup_Present a)"
  shows "resolveCommitment deps adr hist = (Inr found, hist @ [Commitment_Resolved adr (Inr lookup)])"
  using assms by (cases found) (simp_all add: resolveCommitment_def accepting_def bindA_def askA_def retA_def)

lemma accepting_anchored:
  assumes acc: "accepting deps lookup" and fits: "anchored_fits sha adr anchored sel binding False t"
    and snap: "snapshotCanonicalJson anchored = Inr snap"
    and result: "snapshotCanonicalJson (finalized_result adr anchored binding t False (sub = None)) = Inr result"
    and fresh: "\<And>canon. sub = Some canon \<Longrightarrow> canonicalize (dot anchored ''record'') = Inr canon"
  shows "\<exists>new. verifyAnchoredCommitment sha deps adr anchored (cs_session sel) (cs_agreement sel) (cs_listing sel) binding sub hist = (Inr result, hist @ new)"
proof -
  obtain h where h: "contentHash sha (entries (dot anchored ''record'')) = Inr h"
    using fits by (auto simp: anchored_fits_def receipt_binds_def Let_def split: sum.splits)
  have sub: "case sub of None \<Rightarrow> True | Some s \<Rightarrow> \<not> False \<and> canonicalize (dot anchored ''record'') = Inr s" using fresh by (cases sub) simp_all
  obtain new where sig: "(if sub = None then verifyCommitmentSignature sha deps (dot anchored ''record'') else retA ()) hist = (Inr (), hist @ new)"
    using accepting_record [OF acc h] by (cases "sub = None") (auto simp: retA_def)
  have f: "is_legacy_record anchored = Inr False" "recordMatchesBinding (dot anchored ''record'') (cs_agreement sel) binding"
    "record_signer False anchored = dot (cs_session sel) ''orchestrator''" "receipt_binds sha adr anchored"
    "uint_of (dot (dot (dot anchored ''anchorReceipt'') ''blockRef'') ''timestamp'') = t"
    "validateAuthoritativeTime t (cs_agreement sel) (cs_listing sel) binding = Inr ()"
    using fits by (auto simp: anchored_fits_def)
  show ?thesis
    unfolding verifyAnchoredCommitment_def Let_def f(1) liftA_def sum.case
    using sub by (simp add: f(2,3) bindA_run [where m = "if sub = None then _ else _" and hist = hist, OF sig]
        bindA_run [where m = "finalizedReceiptTime _ _ _ _" and hist = "hist @ new", OF accepting_receipt [OF acc f(4) snap]] f(5,6) result)
      (simp add: retA_def)
qed

text \<open>A commitment is found, or submitted.\<close>

lemma accepting_decide:
  assumes acc: "accepting deps lookup" and bytes: "agreement_bytes sha (cs_agreement sel) = Inr bytes"
    and bind: "agreementBinding sha (cs_agreement sel) (cs_listing sel) (cs_authenticated sel) pattern (cs_alternative sel) = Inr binding"
  shows "snapshotLookup lookup = Inr (Lookup_Present anchored) \<Longrightarrow>
      \<exists>new. commit_decide sha deps pattern sel hist = (Inr (binding, Commitment_Found anchored), hist @ new)"
    "snapshotLookup lookup = Inr Lookup_Absent \<Longrightarrow>
      signed_record sha (cs_createdAt sel) (cs_signer sel) (cs_agreement sel) (cs_listing sel) binding = Inr rcd \<Longrightarrow>
      contentHash sha (entries rcd) = Inr h \<Longrightarrow> canonicalize rcd = Inr canon \<Longrightarrow>
      \<exists>new. commit_decide sha deps pattern sel hist = (Inr (binding, Submit_Record rcd canon), hist @ new)"
proof -
  note agr = accepting_agreement [OF acc bytes]
  note run = commit_decide_def bind bindA_def agr retA_def liftA_def
  show "\<exists>new. commit_decide sha deps pattern sel hist = (Inr (binding, Commitment_Found anchored), hist @ new)"
    if "snapshotLookup lookup = Inr (Lookup_Present anchored)"
    using accepting_resolve [OF acc, of "Some anchored"] that by (simp add: run)
  show "\<exists>new. commit_decide sha deps pattern sel hist = (Inr (binding, Submit_Record rcd canon), hist @ new)"
    if "snapshotLookup lookup = Inr Lookup_Absent"
      "signed_record sha (cs_createdAt sel) (cs_signer sel) (cs_agreement sel) (cs_listing sel) binding = Inr rcd"
      "contentHash sha (entries rcd) = Inr h" "canonicalize rcd = Inr canon"
    using accepting_resolve [OF acc, of None] that accepting_record [OF acc that(3)] by (simp add: run)
qed


lemma commit_submits:
  assumes acc: "accepting deps lookup" "snapshotLookup lookup = Inr Lookup_Absent" "\<And>hist. cd_submit deps hist (cs_address sel) doc = Inr raw"
    and sel: "commit_selected env sha apr pattern inp = Inr sel" "agreement_bytes sha (cs_agreement sel) = Inr bytes"
      "agreementBinding sha (cs_agreement sel) (cs_listing sel) (cs_authenticated sel) pattern (cs_alternative sel) = Inr binding"
    and rcd: "signed_record sha (cs_createdAt sel) (cs_signer sel) (cs_agreement sel) (cs_listing sel) binding = Inr rcd"
      "contentHash sha (entries rcd) = Inr h" "canonicalize rcd = Inr canon" "snapshotCanonicalJson rcd = Inr doc"
    and fits: "snapshotAnchored raw = Inr anchored" "anchored_fits sha (cs_address sel) anchored sel binding False t" "snapshotCanonicalJson anchored = Inr snap"
      "snapshotCanonicalJson (finalized_result (cs_address sel) anchored binding t False False) = Inr result"
      "canonicalize (dot anchored ''record'') = Inr canon"
  shows "\<exists>pre post. commitAgreementForPattern env sha apr deps pattern inp hist =
    (Inr result, hist @ pre @ Commitment_Submitted (cs_address sel) doc (Inr raw) # post)"
proof -
  obtain n1 where n1: "commit_decide sha deps pattern sel hist = (Inr (binding, Submit_Record rcd canon), hist @ n1)"
    using accepting_decide(2) [OF acc(1) sel(2,3) acc(2) rcd(1-3)] by blast
  let ?h = "hist @ n1 @ [Commitment_Submitted (cs_address sel) doc (Inr raw)]"
  have s: "submit_record deps (cs_address sel) rcd (hist @ n1) = (Inr anchored, ?h)"
    by (simp add: submit_record_def rcd(4) askA_def bindA_def acc(3) fits(1) recastA_def retA_def)
  obtain n2 where "verifyAnchoredCommitment sha deps (cs_address sel) anchored (cs_session sel) (cs_agreement sel) (cs_listing sel) binding (Some canon) ?h =
      (Inr result, ?h @ n2)"
    using accepting_anchored [OF acc(1) fits(2,3), of "Some canon" result ?h] fits(4,5) by auto
  then have "commitAgreementForPattern env sha apr deps pattern inp hist = (Inr result, hist @ n1 @ Commitment_Submitted (cs_address sel) doc (Inr raw) # n2)"
    using n1 s by (simp add: commitAgreementForPattern_def sel(1) bindA_def)
  then show ?thesis by blast
qed

section \<open>Repeating a commitment\<close>




section \<open>Committing the sample trade\<close>

definition commit_job :: string where
  "commit_job = replicate 26 (CHR ''0'')"

definition commit_verified :: json where
  "commit_verified = JObj [(''disposition'', JStr ''verified''), (''listing'', rfq_listing), (''pin'', trade_pin)]"

definition commit_party :: "string \<Rightarrow> json" where
  "commit_party claim = JObj [(''bundleHash'', JStr trade_hash), (''primaryClaim'', JStr claim), (''vetRecordRef'', trade_vet)]"

definition commit_session :: json where
  "commit_session =
     JObj [(''buyer'', commit_party ''a:b''), (''jobId'', JStr commit_job), (''listingRef'', trade_pin), (''orchestrator'', JStr ''a:b''),
           (''phaseKind'', JStr ''commit-agreement''), (''seller'', commit_party ''a:s'')]"

definition commit_signer :: signer_options where
  "commit_signer = \<lparr>so_algorithm = ''ed25519'', so_signer = ''a:b'', so_sign = (\<lambda>bytes ctx. Inr (Signed_Text placeholder, bytes, ctx))\<rparr>"

definition commit_input :: commitment_input where
  "commit_input =
     \<lparr>ci_agreement = trade_agreement, ci_verifiedListing = commit_verified, ci_session = commit_session, ci_createdAt = int_json 60,
      ci_commitmentSigner = commit_signer, ci_alternativePayment = JUndefined, ci_rfqSession = Some trade_accepted\<rparr>"

definition commit_receipt :: json where
  "commit_receipt =
     JObj [(''blockRef'', JObj [(''id'', JStr ''b''), (''timestamp'', int_json 70)]), (''contentHash'', JStr trade_hash),
           (''evidence'', JObj [(''kind'', JStr ''k''), (''value'', JStr ''v'')]), (''finalityProfile'', JStr ''f''),
           (''logicalAddress'', JStr (''dacs3:commit:'' @ commit_job)), (''nativeAddress'', JStr ''n''),
           (''observationDisposition'', JStr ''established''), (''observedAt'', int_json 71), (''receiptVersion'', JStr ''1''),
           (''state'', JStr ''finalized''), (''substrate'', JStr ''s''),
           (''transactionRef'', JObj [(''kind'', JStr ''k''), (''value'', JStr ''v'')]), (''writer'', JStr ''w'')]"

definition commit_txref :: json where
  "commit_txref = JObj [(''kind'', JStr ''demos''), (''txHash'', JStr (replicate 64 (CHR ''a'')))]"

definition commit_anchored :: "json \<Rightarrow> json" where
  "commit_anchored rcd = JObj [(''anchorReceipt'', commit_receipt), (''anchorTxRef'', commit_txref), (''nativeAddress'', JStr ''n''), (''record'', rcd)]"

definition no_apr :: apr_authority where
  "no_apr = (\<lambda>_ _ _. throw ''no alternative payment'')"

definition commit_deps_ok :: "json \<Rightarrow> commit_deps" where
  "commit_deps_ok lookup =
     \<lparr>cd_verifySignature = (\<lambda>_ _. Inr ''valid''), cd_resolve = (\<lambda>_ _. Inr lookup), cd_submit = (\<lambda>_ _ rcd. Inr (commit_anchored rcd)),
      cd_verifyAnchorReceipt = (\<lambda>_ _. Inr ''valid'')\<rparr>"

lemma commit_txref_ok: "isChainTxRef commit_txref"
  by code_simp

lemma commit_receipt_ok: "isReadableAnchorReceipt commit_receipt"
  by code_simp

lemma commit_session_ok: "assertSessionBinding commit_session = Inr ()"
  by code_simp

text \<open>The steps of the run, evaluated one by one.\<close>

definition commit_doc :: json where
  "commit_doc = JObj [(''agreement'', trade_agreement), (''verifiedListing'', commit_verified), (''session'', commit_session)]"

lemma commit_doc_ok: "isDataOnlyJson commit_doc" "isOk (canonicalize commit_doc)"
  by code_simp+

lemma commit_parts_canonical:
  "reparsed trade_agreement = trade_agreement" "reparsed commit_verified = commit_verified" "reparsed commit_session = commit_session"
  by (simp add: trade_agreement_def) code_simp+

lemma commit_captured:
  "captureCommitmentBindingInput commit_input =
     Inr \<lparr>cb_agreement = trade_agreement, cb_verifiedListing = commit_verified, cb_session = commit_session\<rparr>"
proof -
  have "distinct_keys commit_doc" by (simp add: commit_doc_def distinct_keys_def)
  note d = dot_reparsed [OF commit_doc_ok(1) this]
  have "snapshotCanonicalJsonRead commit_doc = Inr (reparsed commit_doc)" using commit_doc_ok by (simp add: snapshot_defs snapshot_Inr)
  then show ?thesis
    by (simp add: captureCommitmentBindingInput_def commit_input_def flip: commit_doc_def)
      (simp add: d, simp add: commit_doc_def dot_def commit_parts_canonical commit_session_ok)
qed

lemma commit_select_ok: "selectAgreementArtifact trade_env trade_agreement commit_verified ''rfq'' False = Inr (trade_agreement, rfq_listing)"
proof -
  have "dot commit_verified ''listing'' = rfq_listing" "dot commit_verified ''disposition'' = JStr ''verified''"
    by (simp_all add: commit_verified_def dot_def)
  moreover have "known_pricing_kind rfq_listing" "dot (dot rfq_listing ''terms'') ''acceptanceModel'' = JUndefined"
    "requireCanonicalJobId (text_of (dot trade_agreement ''jobId'')) = Inr commit_job"
    "selects_pipeline ''rfq'' trade_agreement rfq_listing = Inr (expected_commit trade_agreement)" by code_simp+
  moreover have "\<not> nullish commit_verified" "\<not> nullish trade_agreement" by code_simp+
  ultimately show ?thesis by (simp add: selectAgreementArtifact_def rfq_listing_ok trade_agreement_ok)
qed

definition commit_pin :: json where
  "commit_pin = JObj [(''listingId'', JStr ''l''), (''version'', int_json 1), (''contentHash'', JStr trade_hash)]"

definition commit_auth :: "json \<times> json \<times> json" where
  "commit_auth = (commit_pin, reparsed (trade_agreement_party ''buyer'' ''a:b''), reparsed (trade_agreement_party ''seller'' ''a:s''))"

definition commit_binding :: agreement_binding where
  "commit_binding = \<lparr>ab_agreementHash = trade_hash, ab_pin = commit_pin, ab_parties = [JStr ''a:b'', JStr ''a:s''], ab_deadlineSeconds = 1\<rparr>"

lemma commit_auth_ok:
  "validateAuthenticatedSessionBinding trade_env trade_sha
      \<lparr>cb_agreement = trade_agreement, cb_verifiedListing = commit_verified, cb_session = commit_session\<rparr> trade_agreement rfq_listing = Inr commit_auth"
  by code_simp

lemma commit_binding_ok: "agreementBinding trade_sha trade_agreement rfq_listing commit_auth ''rfq'' False = Inr commit_binding"
  by code_simp

lemma commit_rfq_ok:
  "validateRfqSessionBinding trade_accepted
      \<lparr>cb_agreement = trade_agreement, cb_verifiedListing = commit_verified, cb_session = commit_session\<rparr> trade_agreement rfq_listing = Inr ()"
  by code_simp

definition commit_sel :: commit_selection where
  "commit_sel = \<lparr>cs_address = ''dacs3:commit:'' @ commit_job, cs_session = commit_session, cs_agreement = trade_agreement, cs_listing = rfq_listing,
     cs_authenticated = commit_auth, cs_alternative = False, cs_createdAt = 60, cs_signer = commit_signer\<rparr>"

lemma commit_selected_ok: "commit_selected trade_env trade_sha no_apr ''rfq'' commit_input = Inr commit_sel"
proof -
  have "trim ''a:b'' = ''a:b''" by code_simp
  then have "capturedSignerOptions commit_signer = Inr commit_signer"
    by (simp add: commit_signer_def capturedSignerOptions_def COMPONENT_SIGNATURE_ALGORITHMS_def)
  moreover have "\<not> usesAlternativePayment rfq_listing" "isNonNegativeSafeInt (int_json 60)" "uint_of (int_json 60) = 60"
    "finalityCommitmentAddress (text_of (dot trade_agreement ''jobId'')) = Inr (''dacs3:commit:'' @ commit_job)" by code_simp+
  moreover have "JStr (so_signer commit_signer) = dot commit_session ''orchestrator''" by (simp add: commit_signer_def commit_session_def dot_def)
  ultimately show ?thesis
    unfolding commit_selected_def captureRfqSession_def captureCommitmentInput_def commit_captured
    by (simp add: commit_input_def trade_accepted_valid commit_captured [unfolded commit_input_def] select_for_def selectRfqArtifact_def commit_select_ok
        establishAlternativePaymentAuthority_def commit_auth_ok commit_rfq_ok commit_sel_def)
qed

definition commit_record :: json where
  "commit_record =
     JObj [(''agreementHash'', JStr trade_hash), (''createdAt'', int_json 60), (''finalityCommitmentVersion'', JStr ''1''), (''jobId'', JStr commit_job),
           (''listingRef'', trade_pin), (''parties'', JArr [JStr ''a:b'', JStr ''a:s'']), (''pattern'', JStr ''rfq''),
           (''signature'', JObj [(''algorithm'', JStr ''ed25519''), (''signer'', JStr ''a:b''), (''value'', JStr placeholder)])]"

lemma commit_time_ok: "validateProvisionalTime 60 trade_agreement rfq_listing commit_binding = Inr ()"
  by code_simp

lemma commit_record_normative:
  "isFinalityCommitmentRecord (commitment_draft commit_signer (unsignedFinalityRecord 60 trade_agreement commit_binding))"
  "isFinalityCommitmentRecord commit_record"
  by code_simp+

lemma commit_signed_ok:
  "signComponentArtifact trade_sha (unsignedFinalityRecord 60 trade_agreement commit_binding) FINALITY_COMMITMENT_SEPARATOR commit_signer = Inr (entries commit_record)"
  by code_simp

lemma commit_record_ok: "signed_record trade_sha 60 commit_signer trade_agreement rfq_listing commit_binding = Inr commit_record"
proof -
  have "JObj (entries commit_record) = commit_record" by (simp add: commit_record_def)
  then show ?thesis by (simp add: signed_record_def commit_time_ok commit_record_normative commit_signed_ok)
qed

definition commit_absent :: json where
  "commit_absent = JObj [(''disposition'', JStr ''absent'')]"

lemma commit_absent_ok: "snapshotLookup commit_absent = Inr Lookup_Absent"
proof -
  have "snapshotCanonicalJson commit_absent = Inr commit_absent" by code_simp
  then show ?thesis by (simp add: snapshotLookup_def) (simp add: commit_absent_def dot_def hasExactKeys_def obj_where_def)
qed

lemma commit_anchored_ok:
  "snapshotCanonicalJson commit_record = Inr commit_record" "snapshotCanonicalJson (commit_anchored commit_record) = Inr (commit_anchored commit_record)"
  "anchored_shape (commit_anchored commit_record)" "receipt_binds trade_sha (''dacs3:commit:'' @ commit_job) (commit_anchored commit_record)"
  by code_simp+

lemma commit_anchored_fits:
  "is_legacy_record (commit_anchored commit_record) = Inr False" "recordMatchesBinding commit_record trade_agreement commit_binding"
  "record_signer False (commit_anchored commit_record) = dot commit_session ''orchestrator''"
  "validateAuthoritativeTime 70 trade_agreement rfq_listing commit_binding = Inr ()"
  by code_simp+

definition sample_commitment :: "bool \<Rightarrow> json" where
  "sample_commitment resumed = reparsed (finalized_result (''dacs3:commit:'' @ commit_job) (commit_anchored commit_record) commit_binding 70 False resumed)"

lemma sample_commitment_ok:
  "snapshotCanonicalJson (finalized_result (''dacs3:commit:'' @ commit_job) (commit_anchored commit_record) commit_binding 70 False False) = Inr (sample_commitment False)"
proof -
  have "isDataOnlyJson (finalized_result (''dacs3:commit:'' @ commit_job) (commit_anchored commit_record) commit_binding 70 False False)"
    "isOk (canonicalize (finalized_result (''dacs3:commit:'' @ commit_job) (commit_anchored commit_record) commit_binding 70 False False))" by code_simp+
  then show ?thesis by (simp add: snapshot_defs snapshot_Inr sample_commitment_def)
qed

lemma commit_anchored_reads: "dot (commit_anchored rcd) ''record'' = rcd"
  "uint_of (dot (dot (dot (commit_anchored rcd) ''anchorReceipt'') ''blockRef'') ''timestamp'') = 70"
  by (simp_all add: commit_anchored_def commit_receipt_def dot_def int_json_def)

lemma commit_hashes: "contentHash trade_sha (entries commit_record) = Inr trade_hash" "isOk (canonicalize commit_record)"
  "contentHash trade_sha (entries trade_agreement) = Inr trade_hash"
  by code_simp+

lemma commit_sample_accepting: "accepting (commit_deps_ok lookup) lookup"
  by (simp add: accepting_def commit_deps_ok_def)

lemma commit_sample_bytes:
  obtains bytes where "agreement_bytes trade_sha (cs_agreement commit_sel) = Inr bytes"
  using commit_hashes(3) by (simp add: agreement_bytes_def commit_sel_def)

lemma commit_sample_fits:
  "anchored_fits trade_sha (cs_address commit_sel) (commit_anchored commit_record) commit_sel commit_binding False 70"
  using commit_anchored_fits commit_anchored_ok(4) by (simp add: anchored_fits_def commit_sel_def commit_anchored_reads)

lemma commit_sample_run:
  "\<exists>pre post. commitAgreementForPattern trade_env trade_sha no_apr (commit_deps_ok commit_absent) ''rfq'' commit_input hist =
    (Inr (sample_commitment False),
     hist @ pre @ Commitment_Submitted (cs_address commit_sel) commit_record (Inr (commit_anchored commit_record)) # post)"
proof -
  obtain canon where canon: "canonicalize commit_record = Inr canon" using commit_hashes(2) by (auto simp: isOk_iff)
  obtain bytes where bytes: "agreement_bytes trade_sha (cs_agreement commit_sel) = Inr bytes" by (rule commit_sample_bytes)
  have submit: "cd_submit (commit_deps_ok commit_absent) h (cs_address commit_sel) commit_record = Inr (commit_anchored commit_record)" for h
    by (simp add: commit_deps_ok_def)
  have anchored: "snapshotAnchored (commit_anchored commit_record) = Inr (commit_anchored commit_record)"
    using commit_anchored_ok(2,3) by (simp add: snapshotAnchored_def)
  show ?thesis
    by (rule commit_submits [OF commit_sample_accepting commit_absent_ok submit commit_selected_ok bytes _ _ commit_hashes(1) canon commit_anchored_ok(1)
        anchored commit_sample_fits commit_anchored_ok(2)])
      (use commit_binding_ok commit_record_ok sample_commitment_ok canon in \<open>simp_all add: commit_sel_def commit_anchored_reads\<close>)
qed

section \<open>Witnesses\<close>

theorem finalized_commitment_grounded_witness:
  "\<exists>anchored h t. contentHash trade_sha (entries trade_agreement) = Inr h \<and> dot (dot anchored ''record'') ''agreementHash'' = JStr h \<and>
     uint_of (dot (dot trade_agreement ''terms'') ''deadline'') \<le> t + 1000 \<and> dot (sample_commitment False) ''committedAt'' = int_json t"
proof -
  obtain hist' where run: "commitAgreementForPattern trade_env trade_sha no_apr (commit_deps_ok commit_absent) ''rfq'' commit_input [] =
      (Inr (sample_commitment False), hist')" using commit_sample_run by blast
  have a: "trade_agreement = reparsed (ci_agreement commit_input)" by (simp add: commit_input_def commit_parts_canonical)
  have l: "rfq_listing = dot (reparsed (ci_verifiedListing commit_input)) ''listing''"
    by (simp add: commit_input_def commit_parts_canonical) (simp add: commit_verified_def dot_def)
  have d: "uint_of (dot (dot rfq_listing ''terms'') ''deadlineSecAfterCommit'') * 1000 = 1000" by code_simp
  from finalized_commitment_grounded [OF run a l] show ?thesis unfolding d by blast
qed

theorem submission_needs_authority_witness:
  "\<exists>pre sel rcd. commit_selected trade_env trade_sha no_apr ''rfq'' commit_input = Inr sel \<and> agreement_checked trade_sha (cs_agreement sel) pre \<and>
     found_in pre (cs_address commit_sel) Lookup_Absent \<and> own_record_checked trade_sha rcd pre \<and> snapshotCanonicalJson rcd = Inr commit_record"
proof -
  obtain pre post where run: "commitAgreementForPattern trade_env trade_sha no_apr (commit_deps_ok commit_absent) ''rfq'' commit_input [] =
    (Inr (sample_commitment False), [] @ pre @ Commitment_Submitted (cs_address commit_sel) commit_record (Inr (commit_anchored commit_record)) # post)"
    using commit_sample_run by blast
  from submission_needs_authority [OF run refl] show ?thesis by blast
qed

definition commit_deps_forged :: commit_deps where
  "commit_deps_forged = (commit_deps_ok commit_absent)\<lparr>cd_verifySignature := (\<lambda>_ _. Inr ''invalid'')\<rparr>"

theorem commitment_faults_grounded_witness:
  "\<exists>msg new. commitAgreementForPattern trade_env trade_sha no_apr commit_deps_forged ''rfq'' commit_input [] = (Inl (Fault Fault_Counterparty msg), new) \<and>
     list_ex invalid_signature new \<and> \<not> list_ex is_submission new"
proof -
  obtain bytes where bytes: "agreement_bytes trade_sha (cs_agreement commit_sel) = Inr bytes" by (rule commit_sample_bytes)
  obtain s ss where sigs: "elements (dot (cs_agreement commit_sel) ''signatures'') = s # ss"
  proof -
    have "elements (dot trade_agreement ''signatures'') \<noteq> []" by code_simp
    then show ?thesis using that by (cases "elements (dot trade_agreement ''signatures'')") (auto simp: commit_sel_def)
  qed
  have "requireSignature commit_deps_forged q [] = (Inl (Fault Fault_Counterparty ''signature is not verified (invalid)''), [Signature_Checked q (Inr ''invalid'')])" for q
    by (simp add: requireSignature_run commit_deps_forged_def faultA_def)
  then have run: "commitAgreementForPattern trade_env trade_sha no_apr commit_deps_forged ''rfq'' commit_input [] =
      (Inl (Fault Fault_Counterparty ''signature is not verified (invalid)''), [Signature_Checked (agreement_request bytes s) (Inr ''invalid'')])"
    by (simp add: commitAgreementForPattern_def commit_selected_ok commit_decide_def verifyAgreementSignatures_def bytes sigs bindA_fault)
  have "\<not> foreign_cause Fault_Counterparty no_apr commit_input"
    by (auto simp: foreign_cause_def signer_throws_def authority_throws_def no_apr_def throw_def commit_input_def commit_signer_def Let_def)
  with commitment_faults_grounded [OF run] show ?thesis using run by auto
qed




end
