(* ===== verification/Spec2Isabelle.thy ===== *)
theory Spec2Isabelle
  imports Dacs_Decimal Dacs_Addressing Dacs_Session Dacs_Vet Dacs_Anchor Dacs_Wallet_Props Dacs_Rfq_Props Dacs_Reputation Dacs_Settlement_Once
    Dacs_Fenced_Props Dacs_Sealed_Props Dacs_Journal_Runs Dacs_Exchange_Props Dacs_Commitment_Runs
begin

text \<open>
  A verification library of the DACS SDK, the TypeScript library with which two agents discover
  each other, vet, negotiate, commit, settle and attest a trade. All sources named here are under
  \<^verbatim>\<open>src/src/\<close>.

  \<^bold>\<open>The program.\<close> A session walks the phases of DACS-5 (vet, negotiate, commit, settle, finalise).
  The buyer and the seller exchange signed channel messages; an RFQ session turns them into an
  agreed price inside the band a listing allows, and the accepted session becomes an agreement
  that both parties sign, together or apart, and whose transcript can be verified and disclosed. Amounts are decimal texts, converted to the
  integer base units of an asset. Every spend of the buyer goes through the wallet spend
  authority, which reserves the worst case before an effect and settles the actual debits
  afterwards, over a store that many workers share. A rail settles each agreed amount through an
  idempotency ledger, so that a crash between two workers does not pay twice. The progress of a session
  is a record in a store whose leases fence workers that were replaced. A buyer reaches a
  seller over signed HTTP requests, whose effects a journal on disk reserves once per operation. Artifacts are
  stored on a network under logical addresses and pinned by the hash of their canonical JSON.
  Both parties attest the outcome of a trade in outcome bundles, and reputation is a function
  of the bundles and the identity claims that can be read.

  \<^bold>\<open>The theories.\<close>
  \<^item> \<open>Dacs_Prelude\<close>: results with errors and their categories (\<open>'a res\<close>, \<open>bindR\<close>, \<open>ensure\<close>, \<^verbatim>\<open>errors.ts\<close>), character classes,
    decimal texts, the string operations the sources call; the interfaces \<open>lossless\<close> (an encoding
    and its decoder), \<open>invariant_system\<close> (initial states, steps, an invariant) and
    \<open>write_once\<close> (an operation that fills a register and never changes it again).
  \<^item> \<open>Dacs_Decimal\<close> (\<^verbatim>\<open>canonical/decimal.ts\<close>): canonical decimals are unique representatives of
    their value, and base units are exact.
  \<^item> \<open>Dacs_Addressing\<close> (\<^verbatim>\<open>negotiate/jobId.ts\<close>, \<^verbatim>\<open>canonical/addressing.ts\<close>): ULIDs and the logical
    addresses; the segment encoding is an instance of \<open>lossless\<close>, hence no two names collide.
  \<^item> \<open>Dacs_Session\<close> (\<^verbatim>\<open>agent/sessionSemantics.ts\<close>): the transition table as a step relation,
    an instance of \<open>invariant_system\<close>.
  \<^item> \<open>Dacs_Vet\<close> (\<^verbatim>\<open>agent/vetSemantics.ts\<close>): verification decisions, the retry policy and the loop
    around a verifier, and who is to blame.
  \<^item> \<open>Dacs_Anchor\<close> (\<^verbatim>\<open>substrate/anchorResolution.ts\<close>): present, absent or indeterminate.
  \<^item> \<open>Dacs_Jcs\<close> (\<^verbatim>\<open>canonical/jcs.ts\<close>): canonical serialisation of JSON trees, with the NFC normalisation of
    string values as an argument (\<open>canonicalizeWith\<close>) and for the strings of the model (\<open>canonicalize\<close>).
  \<^item> \<open>Dacs_Wallet_Types\<close>, \<open>Dacs_Wallet\<close>, \<open>Dacs_Wallet_Safety\<close>, \<open>Dacs_Wallet_Fencing\<close>,
    \<open>Dacs_Wallet_Props\<close> (\<^verbatim>\<open>rails/walletSpendAuthority.ts\<close>): admission of policies, reservations,
    observations and replays; the durable state and the check \<open>captureState\<close> every transaction
    makes of it; the operations. \<open>wallet_step\<close> has a step for every committed transaction of any
    worker, at any clock the store accepts. Budgets are proved once in the locale \<open>row_budget\<close> for
    any weight of a stored row, and instantiated with the exposure of an asset, of a
    counterparty and the number of effects; what a row keeps for ever is proved once in
    \<open>durable_row\<close>, and instantiated with settled rows and with the lease generation.
  \<^item> \<open>Dacs_Pricing\<close> (\<^verbatim>\<open>negotiate/fixedPrice.ts\<close> and the price arithmetic of \<^verbatim>\<open>negotiate/rfq.ts\<close>):
    bands with half-up rounding, comparison, metered totals; the two implementations agree.
  \<^item> \<open>Dacs_Channel\<close> (\<^verbatim>\<open>negotiate/channel.ts\<close>): validation and admission of signed messages.
  \<^item> \<open>Dacs_Rfq\<close>, \<open>Dacs_Rfq_Props\<close> (\<^verbatim>\<open>negotiate/rfq.ts\<close>): opening a session, the stored-state check and
    the turn function \<open>advanceRfqSession\<close>; the stored-state check is its invariant.
  \<^item> \<open>Dacs_Claims\<close> (\<^verbatim>\<open>identity/claimReference.ts\<close>): parsing and canonical forms of identity
    claim references.
  \<^item> \<open>Dacs_Bundle\<close> (\<^verbatim>\<open>agent/bundleSemantics.ts\<close>, \<^verbatim>\<open>agent/bundleDivergence.ts\<close>,
    \<^verbatim>\<open>agent/bundleConsistency.ts\<close>): the rules an outcome bundle obeys and when two copies diverge.
  \<^item> \<open>Dacs_Reputation\<close> (\<^verbatim>\<open>agent/reputation.ts\<close> and the synchronous part of
    \<^verbatim>\<open>agent/reputationDerivation.ts\<close>): windowing, attribution and rates.
  \<^item> \<open>Dacs_Snapshot\<close> (\<^verbatim>\<open>canonical/snapshot.ts\<close>, \<^verbatim>\<open>canonical/hash.ts\<close>): bounded copies of JSON values, the signed scope of
    a document and its content hash (\<open>contentHashWith\<close>, \<open>contentHash\<close>).
  \<^item> \<open>Dacs_Settlement\<close>, \<open>Dacs_Settlement_Once\<close> (\<^verbatim>\<open>rails/idempotency.ts\<close>,
    \<^verbatim>\<open>agent/settlementFailure.ts\<close>, \<^verbatim>\<open>rails/demosAddress.ts\<close>): the idempotency ledger and the staged
    coordinator of a settlement. \<open>settlement_step\<close> has a step for every await of any worker; the
    interpretations \<open>settlement\<close>, \<open>outcomes\<close> and \<open>settlement_log\<close> instantiate \<open>invariant_system\<close> and
    \<open>write_once\<close>.
  \<^item> \<open>Dacs_Signatures\<close> (\<^verbatim>\<open>crypto/signing.ts\<close>, \<^verbatim>\<open>artifacts/signatures.ts\<close>): domain separators, signed
    payloads and component signatures; Base64URL is an instance of \<open>lossless\<close>.
  \<^item> \<open>Dacs_Evidence\<close>, \<open>Dacs_Settlement_Identity\<close> (\<^verbatim>\<open>artifacts/validators.ts\<close>,
    \<^verbatim>\<open>agent/settlementIdentity.ts\<close>): settlement evidence and the ledger event it names.
  \<^item> \<open>Dacs_Fenced_Types\<close>, \<open>Dacs_Fenced_Phase\<close>, \<open>Dacs_Fenced_Store\<close>, \<open>Dacs_Fenced_Safety\<close>, \<open>Dacs_Fenced_Props\<close>
    (\<^verbatim>\<open>agent/fencedSessionStore.ts\<close>): the shape check of session records, the phase guards and the
    operations of the in-memory store; \<open>fenced\<close> instantiates \<open>invariant_system\<close>, \<open>settlement_markers\<close> and
    \<open>hash_markers\<close> instantiate \<open>write_once\<close>.
  \<^item> \<open>Dacs_Artifacts\<close>, \<open>Dacs_Agreement_Docs\<close> (\<^verbatim>\<open>artifacts/validators.ts\<close>, \<^verbatim>\<open>identity/bundle.ts\<close>): the validators of
    identity bundles, listings and their pipelines, agreements, commitments, anchor receipts and verification
    records, each a predicate on JSON trees.
  \<^item> \<open>Dacs_Agreement\<close>, \<open>Dacs_Agreement_Props\<close> (\<^verbatim>\<open>negotiate/fixedPrice.ts\<close>, \<^verbatim>\<open>negotiate/rfqAgreement.ts\<close>): deriving an
    agreement from a verified listing or an accepted session, and signing it.
  \<^item> \<open>Dacs_Rfq_Transcript\<close>, \<open>Dacs_Transcript_Props\<close>, \<open>Dacs_Trade_Sample\<close>, \<open>Dacs_Trade_Props\<close>
    (\<^verbatim>\<open>negotiate/rfqTranscript.ts\<close>): verification of a transcript against session and agreement, and the disclosure
    plan; the turns of a transcript are related to the turn function of the session. \<open>Dacs_Trade_Sample\<close> is one complete
    trade, evaluated, on which the theorems are instantiated.
  \<^item> \<open>Dacs_Jcs_Injective\<close>: canonical JSON determines the document up to normalisation; the interface \<open>canonical_form\<close> and its instance \<open>jcs\<close>.
  \<^item> \<open>Dacs_Exchange\<close>, \<open>Dacs_Exchange_Props\<close> (\<^verbatim>\<open>negotiate/fixedPriceExchange.ts\<close>): the signing plan, the contributions and
    their join.
  \<^item> \<open>Dacs_Effects\<close>: coordinators that call out of the SDK, as actions over the log of their calls (\<^verbatim>\<open>errors.ts\<close> for
    the faults); \<open>emits\<close> says which calls an action makes, \<open>blames\<close> what a fault rests on, \<open>throws_on\<close> on what ground
    a computation throws an error that is not the SDK's own.
  \<^item> \<open>Dacs_Commitment\<close>, \<open>Dacs_Commitment_Props\<close>, \<open>Dacs_Commitment_Faults\<close>, \<open>Dacs_Commitment_Runs\<close>
    (\<^verbatim>\<open>negotiate/commitment.ts\<close>): the commitment gate as such an action, what stands behind a commitment and a
    submission, whom a fault blames, and runs of it.
  \<^item> \<open>Dacs_Sort\<close>, \<open>Dacs_Bytes\<close>: \<^verbatim>\<open>Array.prototype.sort\<close> with a comparator (the interface \<open>sort_order\<close>) and UTF-8
    (an instance of \<open>lossless\<close>).
  \<^item> \<open>Dacs_Sealed_Bid\<close>, \<open>Dacs_Sealed_Envelope\<close>, \<open>Dacs_Sealed_Props\<close> (\<^verbatim>\<open>negotiate/sealedBid.ts\<close>,
    \<^verbatim>\<open>negotiate/sealedEnvelope.ts\<close>): commitments, windows, matching of reveals, selection of the winner
    and the auction; \<open>commit_order\<close>, \<open>tie_order\<close> and \<open>bid_order\<close> instantiate \<open>sort_order\<close>.
  \<^item> \<open>Dacs_Wire\<close> (\<^verbatim>\<open>wire/validate.ts\<close>, \<^verbatim>\<open>wire/routes.ts\<close>): refusals, value checks and routes of the seller's
    HTTP profile.
  \<^item> \<open>Dacs_Shared\<close>: workers that share a memory; the interface \<open>shared_memory\<close> reduces an invariant of the system to
    one worker at a time, and \<open>exclusive_memory\<close> extends it with resources only one worker holds.
  \<^item> \<open>Dacs_Journal\<close>, \<open>Dacs_Journal_Records\<close>, \<open>Dacs_Journal_Safety\<close>, \<open>Dacs_Journal_Props\<close>, \<open>Dacs_Journal_Runs\<close>
    (\<^verbatim>\<open>wire/journal.ts\<close>): the seller's request journal. \<open>reserve_step\<close> and \<open>complete_step\<close> take one file
    operation; \<open>journal_step\<close> interleaves any number of workers. \<open>journal\<close> instantiates
    \<open>exclusive_memory\<close> and \<open>effects\<close> instantiates \<open>write_once\<close>.

  \<^bold>\<open>Conventions.\<close> A JavaScript string is a list of code units below 256; on those NFC
  is the identity (\<open>normalizeNFC\<close>) and code-unit order is character order; what hashing binds is proved for any
  normalisation. A thrown exception is \<open>Inl e\<close>: \<open>DacsError\<close> is the SDK's own error, of category permanent, and \<open>Thrown\<close> is
  any other one with the category \<^verbatim>\<open>faultCategory\<close> gives it, such as what a caller's signer throws or the
  \<^verbatim>\<open>TypeError\<close> of reading a member of \<^verbatim>\<open>null\<close>. The message text of an exception is kept as a short label only. A record that crosses
  the boundary of the SDK has its TypeScript type, so the guards that only test \<open>typeof\<close> hold;
  fields a caller may omit are options, and unknown fields are kept as a list of keys where the
  source rejects them. JSON values are finite trees, so prototypes, accessors and cycles do not
  arise. Documents and the inputs of callers that the source reads member by member are such trees; \<open>dot\<close> reads a member, and
  an absent member is \<open>JUndefined\<close>. JavaScript numbers are integers where the source requires safe integers, with the
  bound \<open>2 ^ 53 - 1\<close> written out, and texts where the source prints them. \<open>bigint\<close> is \<open>int\<close> or
  \<open>nat\<close>. A clock read or a source of entropy is an argument of the operation that reads it. Outcome
  bundles and rail results are JSON objects, read with the same optional accesses as the source;
  the quotients of reputation are exact rationals. Every \<open>await\<close> of a modelled coordinator is a
  point where another worker may step; in the journal, whose calls are synchronous but whose
  directory is shared by processes, every file operation is one. Bytes are lists of characters. A file of the journal keeps
  the JSON value its text stands for and the number of its bytes, so parsing what was serialised gives the
  value back.

  \<^bold>\<open>Parameters.\<close> SHA-256, signature verifiers, the balance reader, the recovery authenticator, the
  validators of claims, bundles and listings, \<open>localeCompare\<close> and the host name parser are
  arguments of the definitions that call them; the validators of artifacts take theirs as one record, \<open>artifact_env\<close>,
  and a wallet that signs is a record with its claims and a signing function. What the substrate and the verifier answer to the
  commitment gate is any function of the calls made before.
  The comparison of claims is the SDK's own (\<open>sameCanonicalClaimIdentity\<close>) over the host name parser.
  Of SHA-256 only this is ever assumed: the reservations that take part in a run
  have distinct binding hashes when they differ (\<open>no_collision\<close>), the bids hashed in an auction do not
  collide, and a digest is 64 hexadecimal digits; the witnesses satisfy these
  with a concrete function. Admission of a response text as JSON the wire can sign (\<open>signable\<close>) is a
  parameter of the journal, and the evaluator of a bid is a function of the call's number.

  \<^bold>\<open>Loops.\<close> Every modelled function is total: loops are structural recursions over the lists the
  code iterates, or have a proved measure. The depth of canonical JSON is bounded by the code's
  own constant of 128. Retrying a verification uses fuel, and the theorem shows that the retry
  budget of the policy is enough fuel. The search for the number of attempts has fuel for the 106 probes
  its comment promises, which are shown to be enough for every count up to the largest
  safe integer; a reservation takes at most 126 file operations.

  \<^bold>\<open>What is shown.\<close> The wallet never exceeds a limit of its policy under any interleaving;
  settlements are durable; a superseded lease can neither begin nor settle; release needs an
  expired lease; the reported headroom is the exact boundary of refusal; a failed effect leaves
  its reservation pending. RFQ sessions keep their invariant, end within their turns and accept
  only the standing proposal inside the band. Finalised sessions passed every phase. Amounts,
  bands and metered totals are exact or correctly rounded. Addresses do not collide. Admission
  of messages is authentic and free of replays. No settlement key ever has two submissions
  whose outcome is unknown, its recorded outcome is definitive, and the ledger refines a
  write-once register. Copies of a bundle that agree score alike, and a bundle that cannot be
  judged fails closed; reputation does not depend on the order of its inputs, and its rates are
  fractions. In the fenced store a superseded token changes nothing, a checkpoint is claimed once, a settlement authorises
  one payment phase of one session, records stay well formed and history only grows. A resolved settlement identity belongs to an
  authenticated event, and what the SDK signs it verifies. The winner of an auction committed, revealed and is optimal under the rule. In
  the journal no two requests hold the same attempt, a superseded attempt records nothing, the outcome of an operation is final and answers every
  repeat under its binding, and an operation whose lease lapsed can be recovered while its budget of attempts lasts. A session
  conducted by the turn function has a verified transcript, and a verified transcript replays through it exactly when its replies name the
  standing proposal; the agreement made from a session
  has the accepted price, inside the band; payout bindings cover the payment phases over the selected rail; a joined agreement was verified for both parties, and signing apart
  gives, for drafts the exchange admits, the document that signing together gives; a transcript is disclosed only with both consents; a content hash binds
  its document up to the normalisation of string values. A record is committed at most once per call, after
  both signatures and an authoritative lookup; a finalized commitment is authenticated end to end, a repeated call resumes it, and a fault
  that blames the counterparty or calls for a retry has its ground in the calls, in the caller's own callbacks or in a missing document. Six theorems exhibit behaviour that disagrees
  with the documentation or blocks a component: settling an order that leaves out an asset of
  the policy towards a new payee makes the wallet state unreadable, the verifier of transcripts admits an acceptance that replies to
  another message than the session would, opening a session on pricing whose band is
  empty yields a session no message can advance, two logical addresses share a storage program
  name, a confirmed anchor beside an unreadable candidate is not reported as present, and the
  windowing basis of a reputation does not influence its window.

  \<^bold>\<open>Not modelled.\<close> The asynchronous coordinators of the agent, the seller and the commerce
  protocols, whose own decisions are the functions modelled here and whose rest is a sequence of calls of
  adapters; the filesystem and SQL stores, network adapters and payment rails, which are input and output; the durable
  lifecycles that journal the RFQ and exchange functions on such stores; the validators of outcome bundles and ratings;
  the envelopes and discovery of the wire profile, the operating-system checks when a journal is opened, and the packages that
  deploy the SDK. Reflection over JavaScript objects (proxies, accessors, prototypes) has no counterpart in a JSON tree.
\<close>

end
